(* ===== verification/Stutter_Prelude.thy ===== *)
theory Stutter_Prelude
  imports Complex_Main "HOL-Library.Word"
begin

text \<open>
  Shared vocabulary of the development: the Rust integer types at their width, the 32-bit floats
  the policy compares and prints, the string operations of the Rust standard library that the
  modelled code calls, and small lemma collections that the component theories build on.
\<close>

section \<open>Integers\<close>

type_synonym u32 = "32 word"
type_synonym u64 = "64 word"
type_synonym usize = nat

text \<open>
  \<open>usize\<close> values of the modelled code are lengths and counts of objects held in memory, so they
  are natural numbers; widths are kept wherever the code saturates, wraps or shifts.
\<close>

definition saturating_add :: "'a::len word \<Rightarrow> 'a word \<Rightarrow> 'a word" where
  "saturating_add a b = (if unat a + unat b < 2 ^ LENGTH('a) then a + b else - 1)"

definition saturating_sub :: "'a::len word \<Rightarrow> 'a word \<Rightarrow> 'a word" where
  "saturating_sub a b = (if b \<le> a then a - b else 0)"

definition saturating_mul :: "'a::len word \<Rightarrow> 'a word \<Rightarrow> 'a word" where
  "saturating_mul a b = (if unat a * unat b < 2 ^ LENGTH('a) then a * b else - 1)"

named_theorems word_sat \<open>saturating machine arithmetic read as natural numbers\<close>

lemma unat_saturating_add [word_sat]:
  "unat (saturating_add a b :: 'a::len word) = min (unat a + unat b) (2 ^ LENGTH('a) - 1)"
proof (cases "unat a + unat b < 2 ^ LENGTH('a)")
  case True
  then show ?thesis
    by (simp add: saturating_add_def unat_word_ariths)
next
  case False
  then show ?thesis
    by (simp add: saturating_add_def unsigned_minus_1_eq_mask mask_eq_exp_minus_1)
qed

lemma unat_saturating_mul [word_sat]:
  "unat (saturating_mul a b :: 'a::len word) = min (unat a * unat b) (2 ^ LENGTH('a) - 1)"
proof (cases "unat a * unat b < 2 ^ LENGTH('a)")
  case True
  then show ?thesis
    by (simp add: saturating_mul_def unat_word_ariths)
next
  case False
  then show ?thesis
    by (simp add: saturating_mul_def unsigned_minus_1_eq_mask mask_eq_exp_minus_1)
qed

lemma unat_saturating_sub [word_sat]:
  "unat (saturating_sub a b :: 'a::len word) = unat a - unat b"
  by (auto simp: saturating_sub_def word_le_nat_alt unat_sub_if')

lemma unat_of_nat_eq: "n < 2 ^ LENGTH('a) \<Longrightarrow> unat (of_nat n :: 'a::len word) = n"
  by (simp add: unat_of_nat)

section \<open>Options and results\<close>

text \<open>Rust's \<open>bool::then_some\<close>.\<close>

definition then_some :: "bool \<Rightarrow> 'a \<Rightarrow> 'a option" where
  "then_some b x = (if b then Some x else None)"

lemma then_some_simps [simp]:
  "then_some True x = Some x"
  "then_some False x = None"
  "then_some b x = None \<longleftrightarrow> \<not> b"
  "then_some b x = Some y \<longleftrightarrow> b \<and> x = y"
  by (auto simp: then_some_def)

text \<open>
  \<open>Result<T, E>\<close> is \<open>'e + 'a\<close> with \<open>Inl\<close> the error. \<open>res_bind\<close> is the \<open>?\<close> operator.
\<close>

fun res_bind :: "'e + 'a \<Rightarrow> ('a \<Rightarrow> 'e + 'b) \<Rightarrow> 'e + 'b" where
  "res_bind (Inl e) f = Inl e"
| "res_bind (Inr x) f = f x"

fun is_ok :: "'e + 'a \<Rightarrow> bool" where
  "is_ok (Inl e) = False"
| "is_ok (Inr x) = True"

lemma is_ok_iff: "is_ok r \<longleftrightarrow> (\<exists>x. r = Inr x)"
  by (cases r) auto

lemma res_bind_Inr_iff [simp]:
  "res_bind r f = Inr y \<longleftrightarrow> (\<exists>x. r = Inr x \<and> f x = Inr y)"
  by (cases r) auto

section \<open>Strings\<close>

text \<open>
  A Rust string is modelled by the \<open>string\<close> of its ASCII characters. White space is the ASCII part
  of Rust's \<open>char::is_whitespace\<close>: tab, line feed, vertical tab, form feed, carriage return, space.
\<close>

definition is_whitespace :: "char \<Rightarrow> bool" where
  "is_whitespace c \<longleftrightarrow> (let n = of_char c :: nat in (9 \<le> n \<and> n \<le> 13) \<or> n = 32)"

definition trim_start :: "string \<Rightarrow> string" where
  "trim_start s = dropWhile is_whitespace s"

definition trim :: "string \<Rightarrow> string" where
  "trim s = rev (trim_start (rev (trim_start s)))"

fun strip_prefix :: "string \<Rightarrow> string \<Rightarrow> string option" where
  "strip_prefix [] s = Some s"
| "strip_prefix (p # ps) [] = None"
| "strip_prefix (p # ps) (c # s) = (if p = c then strip_prefix ps s else None)"

lemma strip_prefix_Some_iff: "strip_prefix p s = Some t \<longleftrightarrow> s = p @ t"
  by (induction p s rule: strip_prefix.induct) auto

lemma trim_start_empty_iff: "trim_start s = [] \<longleftrightarrow> (\<forall>c \<in> set s. is_whitespace c)"
  by (simp add: trim_start_def)

lemma trim_empty_iff: "trim s = [] \<longleftrightarrow> (\<forall>c \<in> set s. is_whitespace c)"
proof -
  have "(\<forall>c \<in> set (dropWhile is_whitespace s). is_whitespace c) \<longleftrightarrow> dropWhile is_whitespace s = []"
    by (metis dropWhile_eq_Nil_conv hd_dropWhile list.set_sel(1) empty_iff empty_set)
  then show ?thesis
    by (simp add: trim_def trim_start_def)
qed

text \<open>
  \<open>char::to_ascii_lowercase\<close>, \<open>str::starts_with\<close>, \<open>str::ends_with\<close>, \<open>str::contains\<close>, \<open>str::split\<close> on a
  character, \<open>str::split_once\<close> on a character, \<open>str::split_whitespace\<close> and \<open>str::lines\<close> (a line ends at a
  line feed, a carriage return before it is dropped, an empty last line is not reported).
\<close>

definition to_lowercase :: "char \<Rightarrow> char" where
  "to_lowercase c = (let n = of_char c :: nat in if 65 \<le> n \<and> n \<le> 90 then char_of (n + 32) else c)"

definition starts_with :: "string \<Rightarrow> string \<Rightarrow> bool" where
  "starts_with v p \<longleftrightarrow> strip_prefix p v \<noteq> None"

definition ends_with :: "string \<Rightarrow> string \<Rightarrow> bool" where
  "ends_with v p \<longleftrightarrow> starts_with (rev v) (rev p)"

fun str_contains :: "string \<Rightarrow> string \<Rightarrow> bool" where
  "str_contains [] p = (p = [])"
| "str_contains (c # s) p = (strip_prefix p (c # s) \<noteq> None \<or> str_contains s p)"

fun split_on :: "char \<Rightarrow> string \<Rightarrow> string list" where
  "split_on sep [] = [[]]"
| "split_on sep (c # s) =
     (if c = sep then [] # split_on sep s
      else (case split_on sep s of [] \<Rightarrow> [[c]] | p # ps \<Rightarrow> (c # p) # ps))"

fun split_once :: "char \<Rightarrow> string \<Rightarrow> (string \<times> string) option" where
  "split_once sep [] = None"
| "split_once sep (c # s) =
     (if c = sep then Some ([], s) else map_option (\<lambda>(a, b). (c # a, b)) (split_once sep s))"

fun split_whitespace_acc :: "string \<Rightarrow> string \<Rightarrow> string list" where
  "split_whitespace_acc w [] = (if w = [] then [] else [rev w])"
| "split_whitespace_acc w (c # s) =
     (if is_whitespace c then (if w = [] then [] else [rev w]) @ split_whitespace_acc [] s
      else split_whitespace_acc (c # w) s)"

definition split_whitespace :: "string \<Rightarrow> string list" where
  "split_whitespace s = split_whitespace_acc [] s"

definition chomp_cr :: "string \<Rightarrow> string" where
  "chomp_cr l = (if l \<noteq> [] \<and> last l = CHR 0x0D then butlast l else l)"

definition str_lines :: "string \<Rightarrow> string list" where
  "str_lines s =
     (let ps = split_on CHR 0x0A s
      in map chomp_cr (butlast ps) @ (if last ps = [] then [] else [last ps]))"

fun join :: "string \<Rightarrow> string list \<Rightarrow> string" where
  "join sep [] = []"
| "join sep [x] = x"
| "join sep (x # y # ys) = x @ sep @ join sep (y # ys)"

text \<open>The part after the last occurrence of a pattern (\<open>str::rsplit_once\<close>, \<open>str::rfind\<close>).\<close>

fun rsplit_after :: "string \<Rightarrow> string \<Rightarrow> string option" where
  "rsplit_after pat [] = None"
| "rsplit_after pat (c # s) =
     (case rsplit_after pat s of Some r \<Rightarrow> Some r | None \<Rightarrow> strip_prefix pat (c # s))"

text \<open>\<open>{:?}\<close> of an ASCII string.\<close>

definition hex_digit :: "nat \<Rightarrow> char" where
  "hex_digit d = ''0123456789abcdef'' ! d"

definition escape_debug :: "char \<Rightarrow> string" where
  "escape_debug c =
     (let n = of_char c :: nat
      in if n = 0 then [CHR 0x5C, CHR ''0'']
         else if n = 9 then [CHR 0x5C, CHR ''t'']
         else if n = 10 then [CHR 0x5C, CHR ''n'']
         else if n = 13 then [CHR 0x5C, CHR ''r'']
         else if n = 34 \<or> n = 92 then [CHR 0x5C, c]
         else if n < 16 then [CHR 0x5C, CHR ''u'', CHR 0x7B, hex_digit n, CHR 0x7D]
         else if n < 32 \<or> n = 127 then [CHR 0x5C, CHR ''u'', CHR 0x7B, hex_digit (n div 16), hex_digit (n mod 16), CHR 0x7D]
         else [c])"

definition debug_str :: "string \<Rightarrow> string" where
  "debug_str s = [CHR 0x22] @ concat (map escape_debug s) @ [CHR 0x22]"

lemma split_on_not_Nil [simp]: "split_on sep s \<noteq> []"
  by (cases s) (auto split: list.split)

lemma split_on_no_sep: "sep \<notin> set s \<Longrightarrow> split_on sep s = [s]"
  by (induction s) auto

lemma split_on_append: "sep \<notin> set s \<Longrightarrow> split_on sep (s @ sep # t) = s # split_on sep t"
  by (induction s) auto

lemma join_Cons: "xs \<noteq> [] \<Longrightarrow> join sep (x # xs) = x @ sep @ join sep xs"
  by (cases xs) auto

lemma split_on_join:
  assumes "xs \<noteq> []" "\<forall>x \<in> set xs. sep \<notin> set x"
  shows "split_on sep (join [sep] xs) = xs"
  using assms
proof (induction xs)
  case (Cons x xs)
  then show ?case
    by (cases "xs = []") (auto simp: join_Cons split_on_no_sep split_on_append)
qed simp

text \<open>Decimal printing of unsigned and signed integers (\<open>Display\<close> of \<open>u32\<close>, \<open>i32\<close> and their kin).\<close>

definition digit_char :: "nat \<Rightarrow> char" where
  "digit_char d = ''0123456789'' ! d"

fun show_nat :: "nat \<Rightarrow> string" where
  "show_nat n = (if n < 10 then [digit_char n] else show_nat (n div 10) @ [digit_char (n mod 10)])"

declare show_nat.simps [simp del]

definition show_int :: "int \<Rightarrow> string" where
  "show_int i = (if i < 0 then ''-'' @ show_nat (nat (- i)) else show_nat (nat i))"

definition show_bool :: "bool \<Rightarrow> string" where
  "show_bool b = (if b then ''true'' else ''false'')"

lemma show_nat_not_Nil [simp]: "show_nat n \<noteq> []"
  by (subst show_nat.simps) simp

text \<open>
  \<open>str::parse\<close> to an unsigned integer with \<open>w\<close> bits: an optional plus sign, then at least one decimal
  digit and nothing else, and the value must fit; \<open>parse_i64\<close> also takes a minus sign.
\<close>

definition digit_val :: "char \<Rightarrow> nat option" where
  "digit_val c = (let n = of_char c :: nat in if 48 \<le> n \<and> n \<le> 57 then Some (n - 48) else None)"

fun parse_digits :: "nat \<Rightarrow> string \<Rightarrow> nat option" where
  "parse_digits acc [] = Some acc"
| "parse_digits acc (c # s) =
     (case digit_val c of None \<Rightarrow> None | Some d \<Rightarrow> parse_digits (10 * acc + d) s)"

definition parse_nat :: "string \<Rightarrow> nat option" where
  "parse_nat s =
     (let t = (if s \<noteq> [] \<and> hd s = CHR ''+'' then tl s else s)
      in if t = [] then None else parse_digits 0 t)"

definition parse_bits :: "nat \<Rightarrow> string \<Rightarrow> nat option" where
  "parse_bits w s = Option.bind (parse_nat s) (\<lambda>n. if n < 2 ^ w then Some n else None)"

definition parse_u32 :: "string \<Rightarrow> u32 option" where
  "parse_u32 s = map_option of_nat (parse_bits 32 s)"

text \<open>Signed parsing with \<open>w + 1\<close> bits: \<open>parse_signed 31\<close> is \<open>parse::<i32>\<close>.\<close>

definition parse_signed :: "nat \<Rightarrow> string \<Rightarrow> int option" where
  "parse_signed w s =
     (if s \<noteq> [] \<and> hd s = CHR ''-''
      then (if tl s = [] then None
            else Option.bind (parse_digits 0 (tl s)) (\<lambda>n. if n \<le> 2 ^ w then Some (- int n) else None))
      else map_option int (parse_bits w s))"

definition parse_i64 :: "string \<Rightarrow> int option" where
  "parse_i64 s = parse_signed 63 s"

lemma digit_val_digit_char [simp]: "d < 10 \<Longrightarrow> digit_val (digit_char d) = Some d"
proof -
  assume "d < 10"
  then have "d \<in> {0, 1, 2, 3, 4, 5, 6, 7, 8, 9}" by auto
  then show ?thesis by (auto simp: digit_val_def digit_char_def)
qed

lemma parse_digits_append:
  "parse_digits acc (s @ t) = Option.bind (parse_digits acc s) (\<lambda>a. parse_digits a t)"
  by (induction acc s rule: parse_digits.induct) (auto split: option.splits)

lemma parse_digits_show_nat: "parse_digits 0 (show_nat n) = Some n"
proof (induction n rule: show_nat.induct)
  case (1 n)
  then show ?case
    by (subst show_nat.simps) (auto simp: parse_digits_append)
qed

lemma show_nat_digits: "c \<in> set (show_nat n) \<Longrightarrow> digit_val c \<noteq> None"
proof (induction n rule: show_nat.induct)
  case (1 n)
  then show ?case
    by (subst (asm) (2) show_nat.simps) (auto split: if_splits)
qed

lemma parse_nat_show_nat: "parse_nat (show_nat n) = Some n"
proof -
  have "hd (show_nat n) \<noteq> CHR ''+''"
    using show_nat_digits [of "hd (show_nat n)" n] by (auto simp: digit_val_def)
  then show ?thesis
    by (simp add: parse_nat_def parse_digits_show_nat)
qed

lemma parse_bits_show_nat: "n < 2 ^ w \<Longrightarrow> parse_bits w (show_nat n) = Some n"
  by (simp add: parse_bits_def parse_nat_show_nat)

section \<open>Folds\<close>

text \<open>Rust's \<open>for\<close> loops over a collection with an accumulator are folds.\<close>

lemma fold_preserves: "P s \<Longrightarrow> (\<And>x s. x \<in> set xs \<Longrightarrow> P s \<Longrightarrow> P (f x s)) \<Longrightarrow> P (fold f xs s)"
  by (induction xs arbitrary: s) auto

lemma fold_establishes:
  assumes "x \<in> set xs" "\<And>s. P (f x s)" "\<And>y s. P s \<Longrightarrow> P (f y s)"
  shows "P (fold f xs s)"
proof -
  obtain ys zs where "xs = ys @ x # zs"
    using assms(1) by (meson split_list)
  then show ?thesis
    using assms(2,3) by (auto intro: fold_preserves)
qed

section \<open>32-bit floats\<close>

text \<open>
  The policy only compares, maximises and prints \<open>f32\<close> values, it never computes with them. A
  finite value is represented by the rational number it denotes (literals are written as the exact
  dyadic rational the compiler rounds them to); the IEEE special values are kept because every
  comparison with NaN is false and because they print differently.
\<close>

datatype f32 = FNaN | FPosInf | FNegInf | FNegZero | Fin rat

fun f32_key :: "f32 \<Rightarrow> rat option" where
  "f32_key FNegZero = Some 0"
| "f32_key (Fin q) = Some q"
| "f32_key _ = None"

fun f32_le :: "f32 \<Rightarrow> f32 \<Rightarrow> bool" where
  "f32_le FNaN b = False"
| "f32_le a FNaN = False"
| "f32_le FNegInf b = True"
| "f32_le a FPosInf = True"
| "f32_le FPosInf b = False"
| "f32_le a FNegInf = False"
| "f32_le a b = (case (f32_key a, f32_key b) of (Some p, Some q) \<Rightarrow> p \<le> q | _ \<Rightarrow> False)"

definition f32_lt :: "f32 \<Rightarrow> f32 \<Rightarrow> bool" where
  "f32_lt a b \<longleftrightarrow> f32_le a b \<and> \<not> f32_le b a"

text \<open>\<open>f32::max\<close>: the other operand when one is NaN.\<close>

definition f32_max :: "f32 \<Rightarrow> f32 \<Rightarrow> f32" where
  "f32_max a b = (if a = FNaN then b else if b = FNaN then a else if f32_le b a then a else b)"

lemma f32_le_refl: "a \<noteq> FNaN \<Longrightarrow> f32_le a a"
  by (cases a) auto

lemma f32_le_NaN [simp]: "\<not> f32_le FNaN b" "\<not> f32_le a FNaN"
  by (cases a; simp)+

lemma f32_le_total: "a \<noteq> FNaN \<Longrightarrow> b \<noteq> FNaN \<Longrightarrow> f32_le a b \<or> f32_le b a"
  by (cases a; cases b) auto

lemma f32_le_trans: "f32_le a b \<Longrightarrow> f32_le b c \<Longrightarrow> f32_le a c"
  by (cases a; cases b; cases c) auto

lemma f32_max_ge_left: "a \<noteq> FNaN \<Longrightarrow> f32_le a (f32_max a b)"
  using f32_le_total f32_le_refl by (auto simp: f32_max_def)

lemma f32_max_ge_right: "b \<noteq> FNaN \<Longrightarrow> f32_le b (f32_max a b)"
  using f32_le_refl by (auto simp: f32_max_def)

text \<open>
  \<open>format!("{:.3}")\<close>: the exact value rounded to three decimals, ties to even.
\<close>

definition round_half_even :: "rat \<Rightarrow> int" where
  "round_half_even q =
     (let f = \<lfloor>q\<rfloor>; r = q - of_int f
      in if r < 1 / 2 then f else if r > 1 / 2 then f + 1 else if even f then f else f + 1)"

definition pad3 :: "nat \<Rightarrow> string" where
  "pad3 n = [digit_char (n div 100 mod 10), digit_char (n div 10 mod 10), digit_char (n mod 10)]"

definition fmt3_abs :: "rat \<Rightarrow> string" where
  "fmt3_abs q = (let n = nat (round_half_even (\<bar>q\<bar> * 1000)) in show_nat (n div 1000) @ ''.'' @ pad3 (n mod 1000))"

fun fmt3 :: "f32 \<Rightarrow> string" where
  "fmt3 FNaN = ''NaN''"
| "fmt3 FPosInf = ''inf''"
| "fmt3 FNegInf = ''-inf''"
| "fmt3 FNegZero = ''-0.000''"
| "fmt3 (Fin q) = (if q < 0 then ''-'' @ fmt3_abs q else fmt3_abs q)"

end
