(* ===== verification/Daemon_Types.thy ===== *)
theory Daemon_Types
  imports Stutter_Prelude
begin

text \<open>
  The data model of the daemon policy: \<open>stutter/src/daemon/policy/model.rs\<close>, the safety classes of
  \<open>stutter/src/actions/model.rs\<close>, the rejection reasons of \<open>stutter/src/daemon/policy/rejection.rs\<close> and
  the explanation types of \<open>stutter/src/daemon/explain.rs\<close>. Enum variants carry a prefix where two Rust
  enums share a variant name.
\<close>

section \<open>Safety classes and daemon modes\<close>

datatype safety_class =
    SC_ObserveOnly
  | SC_ReversibleLowRisk
  | SC_ReversibleMediumRisk
  | SC_HighRisk

datatype daemon_mode =
    Mode_Observe
  | Mode_Suggest
  | Mode_ApplyLowRisk
  | Mode_ApplyMediumRisk
  | Mode_ApplyHighRisk

text \<open>The derived \<open>Ord\<close> of both enums is the order of their variants.\<close>

primrec safety_class_rank :: "safety_class \<Rightarrow> nat" where
  "safety_class_rank SC_ObserveOnly = 0"
| "safety_class_rank SC_ReversibleLowRisk = 1"
| "safety_class_rank SC_ReversibleMediumRisk = 2"
| "safety_class_rank SC_HighRisk = 3"

primrec daemon_mode_rank :: "daemon_mode \<Rightarrow> nat" where
  "daemon_mode_rank Mode_Observe = 0"
| "daemon_mode_rank Mode_Suggest = 1"
| "daemon_mode_rank Mode_ApplyLowRisk = 2"
| "daemon_mode_rank Mode_ApplyMediumRisk = 3"
| "daemon_mode_rank Mode_ApplyHighRisk = 4"

lemma safety_class_rank_inj: "safety_class_rank a = safety_class_rank b \<longleftrightarrow> a = b"
  by (cases a; cases b) auto

lemma daemon_mode_rank_inj: "daemon_mode_rank a = daemon_mode_rank b \<longleftrightarrow> a = b"
  by (cases a; cases b) auto

instantiation safety_class :: linorder
begin

definition less_eq_safety_class :: "safety_class \<Rightarrow> safety_class \<Rightarrow> bool" where
  "less_eq_safety_class a b \<longleftrightarrow> safety_class_rank a \<le> safety_class_rank b"

definition less_safety_class :: "safety_class \<Rightarrow> safety_class \<Rightarrow> bool" where
  "less_safety_class a b \<longleftrightarrow> safety_class_rank a < safety_class_rank b"

instance
  by standard
    (auto simp: less_eq_safety_class_def less_safety_class_def safety_class_rank_inj
      dest: antisym)

end

instantiation daemon_mode :: linorder
begin

definition less_eq_daemon_mode :: "daemon_mode \<Rightarrow> daemon_mode \<Rightarrow> bool" where
  "less_eq_daemon_mode a b \<longleftrightarrow> daemon_mode_rank a \<le> daemon_mode_rank b"

definition less_daemon_mode :: "daemon_mode \<Rightarrow> daemon_mode \<Rightarrow> bool" where
  "less_daemon_mode a b \<longleftrightarrow> daemon_mode_rank a < daemon_mode_rank b"

instance
  by standard
    (auto simp: less_eq_daemon_mode_def less_daemon_mode_def daemon_mode_rank_inj
      dest: antisym)

end

lemmas safety_order = less_eq_safety_class_def less_safety_class_def
lemmas mode_order = less_eq_daemon_mode_def less_daemon_mode_def

fun mode_as_str :: "daemon_mode \<Rightarrow> string" where
  "mode_as_str Mode_Observe = ''observe''"
| "mode_as_str Mode_Suggest = ''suggest''"
| "mode_as_str Mode_ApplyLowRisk = ''apply-low-risk''"
| "mode_as_str Mode_ApplyMediumRisk = ''apply-medium-risk''"
| "mode_as_str Mode_ApplyHighRisk = ''apply-high-risk''"

fun supports_apply :: "daemon_mode \<Rightarrow> bool" where
  "supports_apply Mode_ApplyLowRisk = True"
| "supports_apply Mode_ApplyMediumRisk = True"
| "supports_apply Mode_ApplyHighRisk = True"
| "supports_apply _ = False"

fun debug_safety_class :: "safety_class \<Rightarrow> string" where
  "debug_safety_class SC_ObserveOnly = ''ObserveOnly''"
| "debug_safety_class SC_ReversibleLowRisk = ''ReversibleLowRisk''"
| "debug_safety_class SC_ReversibleMediumRisk = ''ReversibleMediumRisk''"
| "debug_safety_class SC_HighRisk = ''HighRisk''"

section \<open>Effect scopes, rollback requirements, sources, intents\<close>

datatype action_effect_scope =
    Scope_ObserveOnly
  | Scope_LocalProcess
  | Scope_LocalProcessTree
  | Scope_UserStateFile
  | Scope_Cgroup
  | Scope_Irq
  | Scope_Sysfs
  | Scope_CpuPower
  | Scope_GpuPower
  | Scope_VmKnob
  | Scope_SystemWide

fun debug_effect_scope :: "action_effect_scope \<Rightarrow> string" where
  "debug_effect_scope Scope_ObserveOnly = ''ObserveOnly''"
| "debug_effect_scope Scope_LocalProcess = ''LocalProcess''"
| "debug_effect_scope Scope_LocalProcessTree = ''LocalProcessTree''"
| "debug_effect_scope Scope_UserStateFile = ''UserStateFile''"
| "debug_effect_scope Scope_Cgroup = ''Cgroup''"
| "debug_effect_scope Scope_Irq = ''Irq''"
| "debug_effect_scope Scope_Sysfs = ''Sysfs''"
| "debug_effect_scope Scope_CpuPower = ''CpuPower''"
| "debug_effect_scope Scope_GpuPower = ''GpuPower''"
| "debug_effect_scope Scope_VmKnob = ''VmKnob''"
| "debug_effect_scope Scope_SystemWide = ''SystemWide''"

fun is_low_risk_apply_scope :: "action_effect_scope \<Rightarrow> bool" where
  "is_low_risk_apply_scope Scope_LocalProcess = True"
| "is_low_risk_apply_scope Scope_LocalProcessTree = True"
| "is_low_risk_apply_scope _ = False"

fun is_system_wide_resource :: "action_effect_scope \<Rightarrow> bool" where
  "is_system_wide_resource Scope_Irq = True"
| "is_system_wide_resource Scope_CpuPower = True"
| "is_system_wide_resource Scope_GpuPower = True"
| "is_system_wide_resource Scope_VmKnob = True"
| "is_system_wide_resource Scope_SystemWide = True"
| "is_system_wide_resource _ = False"

fun is_explicit_target_scope :: "action_effect_scope \<Rightarrow> bool" where
  "is_explicit_target_scope Scope_LocalProcess = True"
| "is_explicit_target_scope Scope_LocalProcessTree = True"
| "is_explicit_target_scope Scope_Cgroup = True"
| "is_explicit_target_scope Scope_Irq = True"
| "is_explicit_target_scope Scope_CpuPower = True"
| "is_explicit_target_scope Scope_GpuPower = True"
| "is_explicit_target_scope Scope_VmKnob = True"
| "is_explicit_target_scope _ = False"

datatype rollback_requirement =
    NotRequiredForDryRun
  | RequiredBeforeApply
  | BestEffortOnly
  | Unavailable

fun debug_rollback_requirement :: "rollback_requirement \<Rightarrow> string" where
  "debug_rollback_requirement NotRequiredForDryRun = ''NotRequiredForDryRun''"
| "debug_rollback_requirement RequiredBeforeApply = ''RequiredBeforeApply''"
| "debug_rollback_requirement BestEffortOnly = ''BestEffortOnly''"
| "debug_rollback_requirement Unavailable = ''Unavailable''"

datatype action_source =
    Src_Cli
  | Src_AutotuneRuntime
  | Src_RemoteAgent
  | Src_Tune
  | Src_ApplyProfileWatch
  | Src_Test

datatype policy_intent =
    Intent_Observe
  | Intent_Suggest
  | Intent_DryRun
  | Intent_Apply
  | Intent_Verify
  | Intent_Rollback

fun debug_intent :: "policy_intent \<Rightarrow> string" where
  "debug_intent Intent_Observe = ''Observe''"
| "debug_intent Intent_Suggest = ''Suggest''"
| "debug_intent Intent_DryRun = ''DryRun''"
| "debug_intent Intent_Apply = ''Apply''"
| "debug_intent Intent_Verify = ''Verify''"
| "debug_intent Intent_Rollback = ''Rollback''"

record action_descriptor =
  ad_action_id :: string
  ad_action_kind :: string
  ad_safety_class :: safety_class
  ad_effect_scope :: action_effect_scope
  ad_rollback :: rollback_requirement
  ad_persistent_effect :: bool
  ad_touches_system_wide_state :: bool
  ad_requires_explicit_target :: bool
  ad_confidence :: "f32 option"

text \<open>
  \<open>ActionDescriptor::validate_identity_strings\<close> delegates to \<open>ActionId::validate_non_empty\<close>
  (\<open>stutter-core/src/ids.rs\<close>); its error prints as ``ActionId cannot be empty''.
\<close>

definition validate_non_empty :: "string \<Rightarrow> string \<Rightarrow> string + unit" where
  "validate_non_empty type_name v =
     (if trim v = [] then Inl (type_name @ '' cannot be empty'') else Inr ())"

definition validate_identity_strings :: "action_descriptor \<Rightarrow> string + unit" where
  "validate_identity_strings d = validate_non_empty ''ActionId'' (ad_action_id d)"

datatype daemon_policy_verdict =
    Verdict_Allow
  | Verdict_Reject
  | Verdict_Delay
  | Verdict_RequireObserveOnly
  | Verdict_RequireManualConfirmation

fun verdict_as_str :: "daemon_policy_verdict \<Rightarrow> string" where
  "verdict_as_str Verdict_Allow = ''allow''"
| "verdict_as_str Verdict_Reject = ''reject''"
| "verdict_as_str Verdict_Delay = ''delay''"
| "verdict_as_str Verdict_RequireObserveOnly = ''require_observe_only''"
| "verdict_as_str Verdict_RequireManualConfirmation = ''require_manual_confirmation''"

definition verdict_is_allowed :: "daemon_policy_verdict \<Rightarrow> bool" where
  "verdict_is_allowed v \<longleftrightarrow> v = Verdict_Allow"

section \<open>Rejections\<close>

datatype policy_rejection =
    UnsupportedMode string
  | InvalidActionDescriptor string
  | IntentNotAllowed daemon_mode policy_intent
  | SafetyClassTooHigh daemon_mode safety_class
  | EffectScopeNotAllowed daemon_mode action_effect_scope
  | RollbackRequired rollback_requirement
  | RollbackUnavailable
  | SystemWideActionBlocked
  | PersistentEffectBlocked
  | ActionFamilyNotEnabled string
  | ActionFamilyDenied string
  | CapabilityUnavailable string string
  | ExplicitTargetRequired
  | HighRiskRequiresExplicitOptIn
  | HighRiskApplyNotImplemented
  | MediumRiskApplyRequiresExplicitUnlock
  | ConfidenceTooLow f32 f32
  | DataQualityBlocked string
  | SystemHealthBlocked string
  | WorkloadUnstable
  | CooldownActive
  | RollbackPending
  | RemoteApplyDisabled
  | RemoteModeNotAllowed daemon_mode
  | RemoteApplyRequiresConfiguredAuth
  | RemoteApplyRequiresAuthorizedRequest
  | RemoteApplyRequiresLoopbackBind
  | RemoteTargetCountTooHigh usize usize

fun rejection_to_string :: "policy_rejection \<Rightarrow> string" where
  "rejection_to_string (UnsupportedMode m) = ''unsupported daemon mode: '' @ m"
| "rejection_to_string (InvalidActionDescriptor r) = ''invalid action descriptor: '' @ r"
| "rejection_to_string (IntentNotAllowed m i) =
     ''intent '' @ debug_intent i @ '' is not allowed in daemon mode '' @ mode_as_str m"
| "rejection_to_string (SafetyClassTooHigh m c) =
     ''safety class '' @ debug_safety_class c @ '' is not allowed in daemon mode '' @ mode_as_str m"
| "rejection_to_string (EffectScopeNotAllowed m s) =
     ''effect scope '' @ debug_effect_scope s @ '' is not allowed in daemon mode '' @ mode_as_str m"
| "rejection_to_string (RollbackRequired r) =
     ''apply requires rollback to be available before apply; got '' @ debug_rollback_requirement r"
| "rejection_to_string RollbackUnavailable = ''apply is rejected because rollback is unavailable''"
| "rejection_to_string SystemWideActionBlocked = ''system-wide action is blocked by daemon policy''"
| "rejection_to_string PersistentEffectBlocked = ''persistent effect is blocked by daemon policy''"
| "rejection_to_string (ActionFamilyNotEnabled k) =
     ''action family is not enabled by daemon preset: '' @ k"
| "rejection_to_string (ActionFamilyDenied k) = ''action family is denied by daemon policy: '' @ k"
| "rejection_to_string (CapabilityUnavailable k f) =
     ''action '' @ k @ '' requires unavailable daemon capability: '' @ f"
| "rejection_to_string ExplicitTargetRequired = ''apply requires an explicit target scope''"
| "rejection_to_string HighRiskRequiresExplicitOptIn =
     ''high-risk apply requires explicit high-risk opt-in''"
| "rejection_to_string HighRiskApplyNotImplemented = ''high-risk apply is not implemented''"
| "rejection_to_string MediumRiskApplyRequiresExplicitUnlock =
     ''apply-medium-risk requires explicit medium-risk unlock''"
| "rejection_to_string (ConfidenceTooLow c m) =
     ''action confidence '' @ fmt3 c @ '' is below required minimum '' @ fmt3 m"
| "rejection_to_string (DataQualityBlocked r) = ''data quality blocks apply: '' @ r"
| "rejection_to_string (SystemHealthBlocked r) = ''system health blocks apply: '' @ r"
| "rejection_to_string WorkloadUnstable =
     ''apply is rejected because workload identity is unstable''"
| "rejection_to_string CooldownActive = ''apply is rejected because cooldown is active''"
| "rejection_to_string RollbackPending =
     ''apply is rejected because a previous rollback is pending''"
| "rejection_to_string RemoteApplyDisabled = ''remote apply is disabled by daemon configuration''"
| "rejection_to_string (RemoteModeNotAllowed m) =
     ''remote autotune mode '' @ mode_as_str m @ '' is not allowed by configured remote limits''"
| "rejection_to_string RemoteApplyRequiresConfiguredAuth =
     ''remote autotune apply mode requires a configured bearer token''"
| "rejection_to_string RemoteApplyRequiresAuthorizedRequest =
     ''remote autotune apply mode requires a valid bearer token''"
| "rejection_to_string RemoteApplyRequiresLoopbackBind =
     ''remote autotune apply mode is only allowed on loopback binds''"
| "rejection_to_string (RemoteTargetCountTooHigh n m) =
     ''autotune target count '' @ show_nat n @ '' exceeds max_targets '' @ show_nat m"

fun rejection_verdict :: "policy_rejection \<Rightarrow> daemon_policy_verdict" where
  "rejection_verdict CooldownActive = Verdict_Delay"
| "rejection_verdict (DataQualityBlocked _) = Verdict_RequireObserveOnly"
| "rejection_verdict (SystemHealthBlocked _) = Verdict_RequireObserveOnly"
| "rejection_verdict WorkloadUnstable = Verdict_RequireObserveOnly"
| "rejection_verdict (ConfidenceTooLow _ _) = Verdict_RequireObserveOnly"
| "rejection_verdict HighRiskRequiresExplicitOptIn = Verdict_RequireManualConfirmation"
| "rejection_verdict HighRiskApplyNotImplemented = Verdict_RequireManualConfirmation"
| "rejection_verdict SystemWideActionBlocked = Verdict_RequireManualConfirmation"
| "rejection_verdict PersistentEffectBlocked = Verdict_RequireManualConfirmation"
| "rejection_verdict (SafetyClassTooHigh _ SC_HighRisk) = Verdict_RequireManualConfirmation"
| "rejection_verdict _ = Verdict_Reject"

fun rejection_reason_code :: "policy_rejection \<Rightarrow> string" where
  "rejection_reason_code (UnsupportedMode _) = ''unsupported_mode''"
| "rejection_reason_code (InvalidActionDescriptor _) = ''invalid_action_descriptor''"
| "rejection_reason_code (IntentNotAllowed _ _) = ''intent_not_allowed''"
| "rejection_reason_code (SafetyClassTooHigh _ _) = ''safety_class_too_high''"
| "rejection_reason_code (EffectScopeNotAllowed _ _) = ''effect_scope_not_allowed''"
| "rejection_reason_code (RollbackRequired _) = ''rollback_required''"
| "rejection_reason_code RollbackUnavailable = ''rollback_unavailable''"
| "rejection_reason_code SystemWideActionBlocked = ''system_wide_action_blocked''"
| "rejection_reason_code PersistentEffectBlocked = ''persistent_effect_blocked''"
| "rejection_reason_code (ActionFamilyNotEnabled _) = ''action_family_not_enabled''"
| "rejection_reason_code (ActionFamilyDenied _) = ''action_family_denied''"
| "rejection_reason_code (CapabilityUnavailable _ _) = ''capability_unavailable''"
| "rejection_reason_code ExplicitTargetRequired = ''explicit_target_required''"
| "rejection_reason_code HighRiskRequiresExplicitOptIn = ''high_risk_requires_explicit_opt_in''"
| "rejection_reason_code HighRiskApplyNotImplemented = ''high_risk_apply_not_implemented''"
| "rejection_reason_code MediumRiskApplyRequiresExplicitUnlock =
     ''medium_risk_apply_requires_explicit_unlock''"
| "rejection_reason_code (ConfidenceTooLow _ _) = ''confidence_too_low''"
| "rejection_reason_code (DataQualityBlocked _) = ''data_quality_blocked''"
| "rejection_reason_code (SystemHealthBlocked _) = ''system_health_blocked''"
| "rejection_reason_code WorkloadUnstable = ''workload_unstable''"
| "rejection_reason_code CooldownActive = ''cooldown_active''"
| "rejection_reason_code RollbackPending = ''rollback_pending''"
| "rejection_reason_code RemoteApplyDisabled = ''remote_apply_disabled''"
| "rejection_reason_code (RemoteModeNotAllowed _) = ''remote_mode_not_allowed''"
| "rejection_reason_code RemoteApplyRequiresConfiguredAuth =
     ''remote_apply_requires_configured_auth''"
| "rejection_reason_code RemoteApplyRequiresAuthorizedRequest =
     ''remote_apply_requires_authorized_request''"
| "rejection_reason_code RemoteApplyRequiresLoopbackBind = ''remote_apply_requires_loopback_bind''"
| "rejection_reason_code (RemoteTargetCountTooHigh _ _) = ''remote_target_count_too_high''"

text \<open>\<open>FromStr for DaemonMode\<close>.\<close>

definition mode_from_str :: "string \<Rightarrow> policy_rejection + daemon_mode" where
  "mode_from_str v =
     (if v = ''observe'' then Inr Mode_Observe
      else if v = ''suggest'' then Inr Mode_Suggest
      else if v = ''apply-low-risk'' then Inr Mode_ApplyLowRisk
      else if v = ''apply-medium-risk'' then Inr Mode_ApplyMediumRisk
      else if v = ''apply-high-risk'' then Inr Mode_ApplyHighRisk
      else Inl (UnsupportedMode v))"

section \<open>Explanations\<close>

record policy_rule_evaluation =
  pr_rule :: string
  pr_passed :: bool
  pr_reason :: string

datatype policy_decision_kind = Allowed | Rejected policy_rejection

record policy_explanation =
  pe_verdict :: daemon_policy_verdict
  pe_decision :: policy_decision_kind
  pe_intent :: policy_intent
  pe_action_id :: string
  pe_action_kind :: string
  pe_mode :: daemon_mode
  pe_source :: action_source
  pe_evaluated_rules :: "policy_rule_evaluation list"
  pe_final_reason :: string

section \<open>Lemmas\<close>

lemma rejection_verdict_not_allow [simp]: "rejection_verdict r \<noteq> Verdict_Allow"
  by (induction r rule: rejection_verdict.induct) auto

lemma supports_apply_iff: "supports_apply m \<longleftrightarrow> Mode_ApplyLowRisk \<le> m"
  by (cases m) (auto simp: mode_order)

lemma low_risk_scope_explicit: "is_low_risk_apply_scope s \<Longrightarrow> is_explicit_target_scope s"
  by (cases s) auto

lemma low_risk_scope_not_system_wide:
  "is_low_risk_apply_scope s \<Longrightarrow> \<not> is_system_wide_resource s"
  by (cases s) auto

end
