(* ===== verification/Action_Model.thy ===== *)
theory Action_Model
  imports Daemon_Types
begin

text \<open>
  The data of the action layer: phases, restore records and identities (\<open>stutter/src/actions/model.rs\<close>),
  rollback tokens (\<open>token.rs\<close>), action errors (\<open>error/model.rs\<close>) and the apply transaction
  (\<open>transaction.rs\<close>). \<open>anyhow::Error\<close> is its chain of contexts over a root cause.
\<close>

section \<open>Phases and reports\<close>

datatype action_phase =
    Ph_Preflight | Ph_DryRun | Ph_Apply | Ph_Verify | Ph_Rollback | Ph_EmergencyRollback

fun phase_as_str :: "action_phase \<Rightarrow> string" where
  "phase_as_str Ph_Preflight = ''preflight''"
| "phase_as_str Ph_DryRun = ''dry_run''"
| "phase_as_str Ph_Apply = ''apply''"
| "phase_as_str Ph_Verify = ''verify''"
| "phase_as_str Ph_Rollback = ''rollback''"
| "phase_as_str Ph_EmergencyRollback = ''emergency_rollback''"

text \<open>Warnings and blockers are their messages.\<close>

record action_preflight_report =
  pf_action_id :: string
  pf_blockers :: "string list"
  pf_warnings :: "string list"

definition report_passed :: "string \<Rightarrow> string list \<Rightarrow> action_preflight_report" where
  "report_passed action_id warnings = \<lparr>pf_action_id = action_id, pf_blockers = [], pf_warnings = warnings\<rparr>"

definition report_blocked :: "string \<Rightarrow> string \<Rightarrow> action_preflight_report" where
  "report_blocked action_id blocker = \<lparr>pf_action_id = action_id, pf_blockers = [blocker], pf_warnings = []\<rparr>"

definition report_is_blocked :: "action_preflight_report \<Rightarrow> bool" where
  "report_is_blocked r \<longleftrightarrow> pf_blockers r \<noteq> []"

definition blocker_messages :: "action_preflight_report \<Rightarrow> string" where
  "blocker_messages r = join ''; '' (pf_blockers r)"

record action_state =
  as_applied :: bool
  as_affected_tasks :: usize
  as_checked_tasks :: usize
  as_pending_changes :: usize
  as_warnings :: "string list"

section \<open>Restore records\<close>

record task_identity =
  tk_tid :: u32
  tk_process_pid :: "u32 option"
  tk_comm :: "string option"
  tk_starttime_ticks :: "u64 option"

record task_restore_identity =
  ti_tid :: u32
  ti_process_pid :: "u32 option"
  ti_starttime_ticks :: "u64 option"
  ti_comm :: "string option"
  ti_exe :: "string option"
  ti_process_starttime_ticks :: "u64 option"

definition identity_observed ::
  "u32 \<Rightarrow> u32 option \<Rightarrow> string option \<Rightarrow> u64 option \<Rightarrow> string option \<Rightarrow> task_restore_identity" where
  "identity_observed tid process_pid comm starttime exe =
     \<lparr>ti_tid = tid, ti_process_pid = process_pid, ti_starttime_ticks = starttime, ti_comm = comm,
      ti_exe = exe, ti_process_starttime_ticks = None\<rparr>"

definition identity_legacy :: "u32 \<Rightarrow> task_restore_identity" where
  "identity_legacy tid = identity_observed tid None None None None"

text \<open>\<open>i32\<close> values (nice levels, ioprio words) are integers; the code stores and passes them through.\<close>

record nice_restore_record =
  nr_tid :: u32
  nr_original_nice :: int
  nr_identity :: "task_restore_identity option"

definition nice_record_new :: "task_restore_identity \<Rightarrow> int \<Rightarrow> nice_restore_record" where
  "nice_record_new identity original =
     \<lparr>nr_tid = ti_tid identity, nr_original_nice = original, nr_identity = Some identity\<rparr>"

definition nice_record_tid :: "nice_restore_record \<Rightarrow> u32" where
  "nice_record_tid r = (case nr_identity r of None \<Rightarrow> nr_tid r | Some i \<Rightarrow> ti_tid i)"

definition nice_restore_identity :: "nice_restore_record \<Rightarrow> task_restore_identity" where
  "nice_restore_identity r = (case nr_identity r of Some i \<Rightarrow> i | None \<Rightarrow> identity_legacy (nr_tid r))"

record uclamp_restore_record =
  ur_tid :: u32
  ur_original_util_min :: u32
  ur_original_util_max :: u32
  ur_identity :: "task_restore_identity option"

definition uclamp_record_new :: "task_restore_identity \<Rightarrow> u32 \<Rightarrow> u32 \<Rightarrow> uclamp_restore_record" where
  "uclamp_record_new identity util_min util_max =
     \<lparr>ur_tid = ti_tid identity, ur_original_util_min = util_min, ur_original_util_max = util_max,
      ur_identity = Some identity\<rparr>"

definition uclamp_record_tid :: "uclamp_restore_record \<Rightarrow> u32" where
  "uclamp_record_tid r = (case ur_identity r of None \<Rightarrow> ur_tid r | Some i \<Rightarrow> ti_tid i)"

definition uclamp_restore_identity :: "uclamp_restore_record \<Rightarrow> task_restore_identity" where
  "uclamp_restore_identity r = (case ur_identity r of Some i \<Rightarrow> i | None \<Rightarrow> identity_legacy (ur_tid r))"

record irq_affinity_restore_record =
  ir_irq :: u32
  ir_device_hint :: string
  ir_original_smp_affinity :: string

record ioprio_restore_record =
  or_tid :: u32
  or_original_ioprio :: int
  or_identity :: "task_restore_identity option"

definition ioprio_record_new :: "task_restore_identity \<Rightarrow> int \<Rightarrow> ioprio_restore_record" where
  "ioprio_record_new identity original =
     \<lparr>or_tid = ti_tid identity, or_original_ioprio = original, or_identity = Some identity\<rparr>"

definition ioprio_record_tid :: "ioprio_restore_record \<Rightarrow> u32" where
  "ioprio_record_tid r = (case or_identity r of None \<Rightarrow> or_tid r | Some i \<Rightarrow> ti_tid i)"

definition ioprio_restore_identity :: "ioprio_restore_record \<Rightarrow> task_restore_identity" where
  "ioprio_restore_identity r = (case or_identity r of Some i \<Rightarrow> i | None \<Rightarrow> identity_legacy (or_tid r))"

text \<open>VM-knob and GPU-power restore records have the same two fields.\<close>

record path_value_restore_record =
  vr_path :: string
  vr_original_value :: string

record cpu_power_resource_identity =
  ci_cpu :: u32
  ci_policy :: string
  ci_related_cpus :: "u32 list"
  ci_attribute :: string
  ci_driver :: "string option"
  ci_available_values :: "string option"
  ci_boot_id :: "string option"

record cpu_power_restore_record =
  cr_path :: string
  cr_original_value :: string
  cr_identity :: "cpu_power_resource_identity option"

record cgroup_restore_record =
  gr_tid :: u32
  gr_original_cgroup :: string
  gr_identity :: "task_restore_identity option"
  gr_original_cgroup_id :: "u64 option"

record cgroup_cpuset_restore_record =
  cs_cgroup_path :: string
  cs_original_cpuset_cpus :: "string option"
  cs_original_cpuset_mems :: "string option"

section \<open>Rollback tokens\<close>

datatype rollback_token =
    CpuAffinityRestoreFile (tok_path: string) (tok_affected: usize)
  | NiceRestore "nice_restore_record list"
  | IrqAffinityRestore "irq_affinity_restore_record list"
  | IoPrioRestore "ioprio_restore_record list"
  | UclampRestore "uclamp_restore_record list"
  | CgroupRestore "cgroup_restore_record list" "cgroup_cpuset_restore_record option"
  | CpuPowerRestore "cpu_power_restore_record list"
  | VmKnobRestore "path_value_restore_record list"
  | GpuPowerRestore "path_value_restore_record list"
  | SysfsRestore string string

fun token_kind :: "rollback_token \<Rightarrow> string" where
  "token_kind (CpuAffinityRestoreFile _ _) = ''cpu-affinity-restore-file''"
| "token_kind (NiceRestore _) = ''nice-restore''"
| "token_kind (IrqAffinityRestore _) = ''irq-affinity-restore''"
| "token_kind (IoPrioRestore _) = ''ioprio-restore''"
| "token_kind (UclampRestore _) = ''uclamp-restore''"
| "token_kind (CgroupRestore _ _) = ''cgroup-restore''"
| "token_kind (CpuPowerRestore _) = ''cpu-power-restore''"
| "token_kind (VmKnobRestore _) = ''vm-knob-restore''"
| "token_kind (GpuPowerRestore _) = ''gpu-power-restore''"
| "token_kind (SysfsRestore _ _) = ''sysfs-restore''"

record rollback_token_kind_error =
  tk_expected :: string
  tk_actual :: string

definition kind_error_display :: "rollback_token_kind_error \<Rightarrow> string" where
  "kind_error_display e =
     ''invalid rollback token: expected '' @ tk_expected e @ '', actual '' @ tk_actual e"

definition kind_error :: "rollback_token \<Rightarrow> string \<Rightarrow> rollback_token_kind_error" where
  "kind_error token expected = \<lparr>tk_expected = expected, tk_actual = token_kind token\<rparr>"

definition into_cpu_affinity_restore_file ::
  "rollback_token \<Rightarrow> rollback_token_kind_error + string \<times> usize" where
  "into_cpu_affinity_restore_file t =
     (case t of CpuAffinityRestoreFile path n \<Rightarrow> Inr (path, n)
      | _ \<Rightarrow> Inl (kind_error t ''cpu-affinity-restore-file''))"

definition into_nice_restore :: "rollback_token \<Rightarrow> rollback_token_kind_error + nice_restore_record list" where
  "into_nice_restore t =
     (case t of NiceRestore records \<Rightarrow> Inr records | _ \<Rightarrow> Inl (kind_error t ''nice-restore''))"

definition into_irq_affinity_restore ::
  "rollback_token \<Rightarrow> rollback_token_kind_error + irq_affinity_restore_record list" where
  "into_irq_affinity_restore t =
     (case t of IrqAffinityRestore records \<Rightarrow> Inr records
      | _ \<Rightarrow> Inl (kind_error t ''irq-affinity-restore''))"

definition into_ioprio_restore ::
  "rollback_token \<Rightarrow> rollback_token_kind_error + ioprio_restore_record list" where
  "into_ioprio_restore t =
     (case t of IoPrioRestore records \<Rightarrow> Inr records | _ \<Rightarrow> Inl (kind_error t ''ioprio-restore''))"

definition into_uclamp_restore ::
  "rollback_token \<Rightarrow> rollback_token_kind_error + uclamp_restore_record list" where
  "into_uclamp_restore t =
     (case t of UclampRestore records \<Rightarrow> Inr records | _ \<Rightarrow> Inl (kind_error t ''uclamp-restore''))"

definition into_cgroup_restore ::
  "rollback_token \<Rightarrow> rollback_token_kind_error
     + (cgroup_restore_record list \<times> cgroup_cpuset_restore_record option)" where
  "into_cgroup_restore t =
     (case t of CgroupRestore records cpuset \<Rightarrow> Inr (records, cpuset)
      | _ \<Rightarrow> Inl (kind_error t ''cgroup-restore''))"

definition into_cpu_power_restore ::
  "rollback_token \<Rightarrow> rollback_token_kind_error + cpu_power_restore_record list" where
  "into_cpu_power_restore t =
     (case t of CpuPowerRestore records \<Rightarrow> Inr records | _ \<Rightarrow> Inl (kind_error t ''cpu-power-restore''))"

definition into_vm_knob_restore ::
  "rollback_token \<Rightarrow> rollback_token_kind_error + path_value_restore_record list" where
  "into_vm_knob_restore t =
     (case t of VmKnobRestore records \<Rightarrow> Inr records | _ \<Rightarrow> Inl (kind_error t ''vm-knob-restore''))"

definition into_gpu_power_restore ::
  "rollback_token \<Rightarrow> rollback_token_kind_error + path_value_restore_record list" where
  "into_gpu_power_restore t =
     (case t of GpuPowerRestore records \<Rightarrow> Inr records | _ \<Rightarrow> Inl (kind_error t ''gpu-power-restore''))"

definition into_sysfs_restore :: "rollback_token \<Rightarrow> rollback_token_kind_error + string \<times> string" where
  "into_sysfs_restore t =
     (case t of SysfsRestore path v \<Rightarrow> Inr (path, v) | _ \<Rightarrow> Inl (kind_error t ''sysfs-restore''))"

fun affected_tasks :: "rollback_token \<Rightarrow> usize" where
  "affected_tasks (CpuAffinityRestoreFile _ n) = n"
| "affected_tasks (NiceRestore records) = length records"
| "affected_tasks (IrqAffinityRestore records) = length records"
| "affected_tasks (IoPrioRestore records) = length records"
| "affected_tasks (UclampRestore records) = length records"
| "affected_tasks (CgroupRestore records _) = length records"
| "affected_tasks (CpuPowerRestore records) = length records"
| "affected_tasks (VmKnobRestore records) = length records"
| "affected_tasks (GpuPowerRestore records) = length records"
| "affected_tasks (SysfsRestore _ _) = 1"

fun restore_path :: "rollback_token \<Rightarrow> string option" where
  "restore_path (CpuAffinityRestoreFile path _) = Some path"
| "restore_path (SysfsRestore path _) = Some path"
| "restore_path _ = None"

section \<open>Errors\<close>

datatype phase_failure =
    PF_Preflight string | PF_DryRun string | PF_Apply string | PF_Verify string | PF_Rollback string

record action_timeout =
  to_phase :: action_phase
  to_elapsed_ms :: nat
  to_timeout_ms :: nat

datatype rollback_outcome =
    RollbackFailure string
  | VerifyRollbackCompleted string
  | EmergencyRollbackFailure string string
  | TimeoutRollbackCompleted action_timeout
  | TimeoutRollbackFailure action_timeout string

record action_boundary_failure =
  bf_phase :: action_phase
  bf_action_kind :: string
  bf_reason_code :: string
  bf_message :: string

text \<open>\<open>ActionError\<close> is a struct around its \<open>ActionFailure\<close>; the model uses the failure itself.\<close>

datatype action_failure =
    AF_Phase phase_failure
  | AF_Boundary action_boundary_failure
  | AF_Timeout action_timeout
  | AF_Rollback rollback_outcome
  | AF_InvalidRollbackToken string string
  | AF_ScopeLimitExceeded usize usize
  | AF_PolicyRejected string

fun phase_failure_phase :: "phase_failure \<Rightarrow> action_phase" where
  "phase_failure_phase (PF_Preflight _) = Ph_Preflight"
| "phase_failure_phase (PF_DryRun _) = Ph_DryRun"
| "phase_failure_phase (PF_Apply _) = Ph_Apply"
| "phase_failure_phase (PF_Verify _) = Ph_Verify"
| "phase_failure_phase (PF_Rollback _) = Ph_Rollback"

fun phase_failure_category :: "phase_failure \<Rightarrow> string" where
  "phase_failure_category (PF_Preflight _) = ''preflight_failure''"
| "phase_failure_category (PF_DryRun _) = ''dry_run_failure''"
| "phase_failure_category (PF_Apply _) = ''apply_failure''"
| "phase_failure_category (PF_Verify _) = ''verify_failure''"
| "phase_failure_category (PF_Rollback _) = ''rollback_failure''"

fun phase_failure_message :: "phase_failure \<Rightarrow> string" where
  "phase_failure_message (PF_Preflight m) = ''preflight failed: '' @ m"
| "phase_failure_message (PF_DryRun m) = ''dry run failed: '' @ m"
| "phase_failure_message (PF_Apply m) = ''apply failed: '' @ m"
| "phase_failure_message (PF_Verify m) = ''verify failed: '' @ m"
| "phase_failure_message (PF_Rollback m) = ''rollback failed: '' @ m"

definition timeout_message :: "action_timeout \<Rightarrow> string" where
  "timeout_message t =
     ''action timed out during '' @ phase_as_str (to_phase t) @ '': elapsed_ms='' @ show_nat (to_elapsed_ms t)
     @ '' timeout_ms='' @ show_nat (to_timeout_ms t)"

fun rollback_outcome_phase :: "rollback_outcome \<Rightarrow> action_phase" where
  "rollback_outcome_phase (RollbackFailure _) = Ph_Rollback"
| "rollback_outcome_phase (VerifyRollbackCompleted _) = Ph_Verify"
| "rollback_outcome_phase (EmergencyRollbackFailure _ _) = Ph_EmergencyRollback"
| "rollback_outcome_phase (TimeoutRollbackCompleted t) = to_phase t"
| "rollback_outcome_phase (TimeoutRollbackFailure _ _) = Ph_EmergencyRollback"

fun rollback_outcome_category :: "rollback_outcome \<Rightarrow> string" where
  "rollback_outcome_category (RollbackFailure _) = ''rollback_failure''"
| "rollback_outcome_category (VerifyRollbackCompleted _) = ''verify_failure_rollback_completed''"
| "rollback_outcome_category (EmergencyRollbackFailure _ _) = ''emergency_rollback_failure''"
| "rollback_outcome_category (TimeoutRollbackCompleted _) = ''timeout_rollback_completed''"
| "rollback_outcome_category (TimeoutRollbackFailure _ _) = ''timeout_rollback_failure''"

fun rollback_outcome_message :: "rollback_outcome \<Rightarrow> string" where
  "rollback_outcome_message (RollbackFailure m) = ''rollback failed: '' @ m"
| "rollback_outcome_message (VerifyRollbackCompleted e) = ''verify failed; rollback completed: '' @ e"
| "rollback_outcome_message (EmergencyRollbackFailure v r) =
     ''verify failed; emergency rollback failed: verify error: '' @ v @ ''; rollback error: '' @ r"
| "rollback_outcome_message (TimeoutRollbackCompleted t) =
     ''action timed out during '' @ phase_as_str (to_phase t) @ ''; rollback completed: elapsed_ms=''
     @ show_nat (to_elapsed_ms t) @ '' timeout_ms='' @ show_nat (to_timeout_ms t)"
| "rollback_outcome_message (TimeoutRollbackFailure t r) =
     ''action timed out during '' @ phase_as_str (to_phase t) @ ''; emergency rollback failed: elapsed_ms=''
     @ show_nat (to_elapsed_ms t) @ '' timeout_ms='' @ show_nat (to_timeout_ms t) @ ''; rollback error: '' @ r"

fun failure_phase :: "action_failure \<Rightarrow> action_phase" where
  "failure_phase (AF_Phase f) = phase_failure_phase f"
| "failure_phase (AF_Boundary f) = bf_phase f"
| "failure_phase (AF_Timeout t) = to_phase t"
| "failure_phase (AF_Rollback out) = rollback_outcome_phase out"
| "failure_phase (AF_InvalidRollbackToken _ _) = Ph_Rollback"
| "failure_phase (AF_ScopeLimitExceeded _ _) = Ph_DryRun"
| "failure_phase (AF_PolicyRejected _) = Ph_Preflight"

fun failure_category :: "action_failure \<Rightarrow> string" where
  "failure_category (AF_Phase f) = phase_failure_category f"
| "failure_category (AF_Boundary f) = bf_reason_code f"
| "failure_category (AF_Timeout _) = ''timeout''"
| "failure_category (AF_Rollback out) = rollback_outcome_category out"
| "failure_category (AF_InvalidRollbackToken _ _) = ''invalid_rollback_token''"
| "failure_category (AF_ScopeLimitExceeded _ _) = ''scope_limit_exceeded''"
| "failure_category (AF_PolicyRejected _) = ''policy_rejected''"

fun human_message :: "action_failure \<Rightarrow> string" where
  "human_message (AF_Phase f) = phase_failure_message f"
| "human_message (AF_Boundary f) = phase_as_str (bf_phase f) @ '' failed: '' @ bf_message f"
| "human_message (AF_Timeout t) = timeout_message t"
| "human_message (AF_Rollback out) = rollback_outcome_message out"
| "human_message (AF_InvalidRollbackToken e a) =
     ''invalid rollback token: expected '' @ e @ '', actual '' @ a"
| "human_message (AF_ScopeLimitExceeded n m) =
     ''dry run affected '' @ show_nat n @ '' task(s), exceeding scope limit '' @ show_nat m"
| "human_message (AF_PolicyRejected m) = ''policy rejected: '' @ m"

section \<open>Boundary errors and \<open>anyhow\<close>\<close>

datatype action_boundary_error =
    MissingExplicitRollbackToken string string
  | UnsupportedRollbackToken string string string
  | MissingExplicitTargets string
  | PolicyDenied string string
  | EvidenceRequired string string
  | InvalidTargetTid string u32
  | TargetIdentityMismatch string u32 u64 u64
  | InvalidRequest string string
  | InvalidPolicy string string
  | InvalidValue string string string
  | UnsupportedValue string string string
  | PathNotAllowed string string string
  | MissingPath string string
  | RestoreFailed string string

fun boundary_reason_code :: "action_boundary_error \<Rightarrow> string" where
  "boundary_reason_code (MissingExplicitRollbackToken _ _) = ''action_missing_explicit_rollback_token''"
| "boundary_reason_code (UnsupportedRollbackToken _ _ _) = ''action_unsupported_rollback_token''"
| "boundary_reason_code (MissingExplicitTargets _) = ''action_missing_explicit_targets''"
| "boundary_reason_code (PolicyDenied _ _) = ''action_policy_denied''"
| "boundary_reason_code (EvidenceRequired _ _) = ''action_evidence_required''"
| "boundary_reason_code (InvalidTargetTid _ _) = ''action_invalid_target_tid''"
| "boundary_reason_code (TargetIdentityMismatch _ _ _ _) = ''action_target_identity_mismatch''"
| "boundary_reason_code (InvalidRequest _ _) = ''action_invalid_request''"
| "boundary_reason_code (InvalidPolicy _ _) = ''action_invalid_policy''"
| "boundary_reason_code (InvalidValue _ _ _) = ''action_invalid_value''"
| "boundary_reason_code (UnsupportedValue _ _ _) = ''action_unsupported_value''"
| "boundary_reason_code (PathNotAllowed _ _ _) = ''action_path_not_allowed''"
| "boundary_reason_code (MissingPath _ _) = ''action_missing_path''"
| "boundary_reason_code (RestoreFailed _ _) = ''action_restore_failed''"

fun boundary_action_kind :: "action_boundary_error \<Rightarrow> string" where
  "boundary_action_kind (MissingExplicitRollbackToken handler _) = handler"
| "boundary_action_kind (UnsupportedRollbackToken handler _ _) = handler"
| "boundary_action_kind (MissingExplicitTargets k) = k"
| "boundary_action_kind (PolicyDenied k _) = k"
| "boundary_action_kind (EvidenceRequired k _) = k"
| "boundary_action_kind (InvalidTargetTid k _) = k"
| "boundary_action_kind (TargetIdentityMismatch k _ _ _) = k"
| "boundary_action_kind (InvalidRequest k _) = k"
| "boundary_action_kind (InvalidPolicy k _) = k"
| "boundary_action_kind (InvalidValue k _ _) = k"
| "boundary_action_kind (UnsupportedValue k _ _) = k"
| "boundary_action_kind (PathNotAllowed k _ _) = k"
| "boundary_action_kind (MissingPath k _) = k"
| "boundary_action_kind (RestoreFailed k _) = k"

fun boundary_display :: "action_boundary_error \<Rightarrow> string" where
  "boundary_display (MissingExplicitRollbackToken h e) =
     ''action_missing_explicit_rollback_token: '' @ h @ '' requires explicit rollback token kind '' @ e"
| "boundary_display (UnsupportedRollbackToken h e a) =
     ''action_unsupported_rollback_token: '' @ h @ '' expected rollback token kind '' @ e @ '', got '' @ a"
| "boundary_display (MissingExplicitTargets k) =
     ''action_missing_explicit_targets: '' @ k @ '' requires at least one explicit target''"
| "boundary_display (PolicyDenied k r) =
     ''action_policy_denied: '' @ k @ '' denied by policy requirement '' @ r"
| "boundary_display (EvidenceRequired k e) =
     ''action_evidence_required: '' @ k @ '' requires evidence '' @ e"
| "boundary_display (InvalidTargetTid k tid) =
     ''action_invalid_target_tid: '' @ k @ '' target tid '' @ show_nat (unat tid) @ '' must be greater than zero''"
| "boundary_display (TargetIdentityMismatch k tid e a) =
     ''action_target_identity_mismatch: '' @ k @ '' tid='' @ show_nat (unat tid)
     @ '' starttime mismatch: expected='' @ show_nat (unat e) @ '' actual='' @ show_nat (unat a)"
| "boundary_display (InvalidRequest k r) = ''action_invalid_request: '' @ k @ '': '' @ r"
| "boundary_display (InvalidPolicy k r) = ''action_invalid_policy: '' @ k @ '': '' @ r"
| "boundary_display (InvalidValue k f r) = ''action_invalid_value: '' @ k @ '' field '' @ f @ '': '' @ r"
| "boundary_display (UnsupportedValue k f v) =
     ''action_unsupported_value: '' @ k @ '' field '' @ f @ '': '' @ v"
| "boundary_display (PathNotAllowed k p r) = ''action_path_not_allowed: '' @ k @ '' path '' @ p @ '': '' @ r"
| "boundary_display (MissingPath k p) =
     ''action_missing_path: '' @ k @ '' required path does not exist: '' @ p"
| "boundary_display (RestoreFailed k m) = ''action_restore_failed: '' @ k @ '': '' @ m"

definition to_failure :: "action_boundary_error \<Rightarrow> action_phase \<Rightarrow> action_boundary_failure" where
  "to_failure e phase =
     \<lparr>bf_phase = phase, bf_action_kind = boundary_action_kind e, bf_reason_code = boundary_reason_code e,
      bf_message = boundary_display e\<rparr>"

text \<open>
  An \<open>anyhow::Error\<close>: the contexts added around a root cause, outermost first. \<open>{}\<close> prints the outermost
  layer, \<open>{:#}\<close> all of them, and \<open>downcast_ref\<close> finds the root cause.
\<close>

datatype io_error_kind = Io_NotFound | Io_PermissionDenied | Io_InvalidInput | Io_InvalidData | Io_Other

record io_error =
  io_raw_os_error :: "int option"
  io_kind :: io_error_kind
  io_display :: string

datatype any_root =
    RootMsg string
  | RootIo io_error
  | RootBoundary action_boundary_error
  | RootTokenKind rollback_token_kind_error
  | RootAction action_failure

datatype anyhow = Anyhow (any_contexts: "string list") (any_root: any_root)

fun root_display :: "any_root \<Rightarrow> string" where
  "root_display (RootMsg m) = m"
| "root_display (RootIo e) = io_display e"
| "root_display (RootBoundary e) = boundary_display e"
| "root_display (RootTokenKind e) = kind_error_display e"
| "root_display (RootAction e) = human_message e"

definition any_display :: "anyhow \<Rightarrow> string" where
  "any_display e = hd (any_contexts e @ [root_display (any_root e)])"

definition any_display_alt :: "anyhow \<Rightarrow> string" where
  "any_display_alt e = join '': '' (any_contexts e @ [root_display (any_root e)])"

definition anyhow_msg :: "string \<Rightarrow> anyhow" where
  "anyhow_msg m = Anyhow [] (RootMsg m)"

definition any_context :: "string \<Rightarrow> anyhow \<Rightarrow> anyhow" where
  "any_context c e = Anyhow (c # any_contexts e) (any_root e)"

fun phase_error :: "action_phase \<Rightarrow> string \<Rightarrow> action_failure" where
  "phase_error Ph_Preflight m = AF_Phase (PF_Preflight m)"
| "phase_error Ph_DryRun m = AF_Phase (PF_DryRun m)"
| "phase_error Ph_Apply m = AF_Phase (PF_Apply m)"
| "phase_error Ph_Verify m = AF_Phase (PF_Verify m)"
| "phase_error Ph_Rollback m = AF_Rollback (RollbackFailure m)"
| "phase_error Ph_EmergencyRollback m = AF_Rollback (RollbackFailure m)"

definition from_phase_error :: "action_phase \<Rightarrow> anyhow \<Rightarrow> action_failure" where
  "from_phase_error phase e =
     (case any_root e of
        RootBoundary b \<Rightarrow> AF_Boundary (to_failure b phase)
      | RootTokenKind k \<Rightarrow>
          if phase = Ph_Rollback then AF_InvalidRollbackToken (tk_expected k) (tk_actual k)
          else phase_error phase (any_display e)
      | _ \<Rightarrow> phase_error phase (any_display e))"

definition from_rollback_error :: "anyhow \<Rightarrow> action_failure" where
  "from_rollback_error e =
     (case any_root e of RootAction f \<Rightarrow> f | _ \<Rightarrow> from_phase_error Ph_Rollback e)"

definition timeout_details :: "action_failure \<Rightarrow> action_timeout option" where
  "timeout_details e = (case e of AF_Timeout t \<Rightarrow> Some t | _ \<Rightarrow> None)"

definition from_preflight_result :: "string \<Rightarrow> anyhow + string list \<Rightarrow> action_preflight_report" where
  "from_preflight_result action_id result =
     (case result of
        Inr warnings \<Rightarrow> report_passed action_id warnings
      | Inl err \<Rightarrow> report_blocked action_id (any_display err))"

section \<open>The apply transaction\<close>

record partial_apply_error =
  pa_source :: anyhow
  pa_rollback :: "rollback_token option"

record 'r apply_transaction =
  tx_planned :: "'r list"
  tx_applied :: "'r list"

definition tx_new :: "'r apply_transaction" where
  "tx_new = \<lparr>tx_planned = [], tx_applied = []\<rparr>"

definition tx_plan :: "'r \<Rightarrow> 'r apply_transaction \<Rightarrow> 'r apply_transaction" where
  "tx_plan r tx = tx\<lparr>tx_planned := tx_planned tx @ [r]\<rparr>"

definition mark_applied :: "'r \<Rightarrow> 'r apply_transaction \<Rightarrow> 'r apply_transaction" where
  "mark_applied r tx = tx\<lparr>tx_applied := tx_applied tx @ [r]\<rparr>"

definition partial_token ::
  "('r list \<Rightarrow> rollback_token) \<Rightarrow> 'r apply_transaction \<Rightarrow> rollback_token option" where
  "partial_token make_token tx = then_some (tx_applied tx \<noteq> []) (make_token (tx_applied tx))"

text \<open>
  The second loop of \<open>apply_planned_loop\<close>. \<open>apply_fn\<close> changes the world \<open>'w\<close> it runs in.
\<close>

fun apply_loop ::
  "('r \<Rightarrow> 'w \<Rightarrow> (anyhow + unit) \<times> 'w) \<Rightarrow> ('r list \<Rightarrow> rollback_token) \<Rightarrow> 'r list
    \<Rightarrow> 'r apply_transaction \<Rightarrow> 'w \<Rightarrow> (partial_apply_error + rollback_token) \<times> 'w" where
  "apply_loop apply_fn make_token [] tx w = (Inr (make_token (tx_applied tx)), w)"
| "apply_loop apply_fn make_token (r # rs) tx w =
     (case apply_fn r w of
        (Inr _, w') \<Rightarrow> apply_loop apply_fn make_token rs (mark_applied r tx) w'
      | (Inl err, w') \<Rightarrow> (Inl \<lparr>pa_source = err, pa_rollback = partial_token make_token tx\<rparr>, w'))"

definition apply_planned_loop ::
  "'r list \<Rightarrow> ('r \<Rightarrow> 'w \<Rightarrow> (anyhow + unit) \<times> 'w) \<Rightarrow> ('r list \<Rightarrow> rollback_token)
    \<Rightarrow> 'w \<Rightarrow> (partial_apply_error + rollback_token) \<times> 'w" where
  "apply_planned_loop items apply_fn make_token w =
     (let tx = fold tx_plan items tx_new
      in apply_loop apply_fn make_token (tx_planned tx) (tx\<lparr>tx_planned := []\<rparr>) w)"

end
