(* ===== verification/Workload_Policy.thy ===== *)
theory Workload_Policy
  imports Stutter_Prelude "HOL-Library.List_Lexorder" "HOL-Library.Char_ord"
begin

text \<open>
  The workload policy matrix of the autotuner (\<open>stutter/src/autotune/workload_policy/\<close>): which action
  families a workload situation may use, which of them may be applied without a human, and how rules
  from the configuration file are parsed, validated and merged over the built-in table. Errors raised
  with \<open>anyhow::bail!\<close> are values of \<open>workload_policy_error\<close>.
\<close>

section \<open>Situations and objectives\<close>

datatype situation_kind =
    Sit_Unknown
  | Sit_Idle
  | Sit_GameFocused
  | Sit_GameCpuSchedulerPressure
  | Sit_GameGpuBound
  | Sit_CompositorPressure
  | Sit_CpuPressure
  | Sit_IoPressure
  | Sit_IrqPressure
  | Sit_ThermalOrPowerLimit
  | Sit_CompileLoad
  | Sit_BrowserFocused
  | Sit_BrowserCpuPressure
  | Sit_BrowserGpuVideo
  | Sit_BrowserIoPressure
  | Sit_CompileCpuBound
  | Sit_CompileLinkerPressure
  | Sit_MediaPlayback
  | Sit_Recording
  | Sit_VirtualMachineLoad

datatype objective_kind =
    Obj_StutterScore
  | Obj_GameFramePacing
  | Obj_GameRunnableLatency
  | Obj_DesktopInteractivity
  | Obj_BrowserInteractivity
  | Obj_CompileThroughputWithForegroundProtection
  | Obj_IoLatency
  | Obj_IrqOverlapReduction
  | Obj_ThermalRecovery

fun debug_situation :: "situation_kind \<Rightarrow> string" where
  "debug_situation Sit_Unknown = ''Unknown''"
| "debug_situation Sit_Idle = ''Idle''"
| "debug_situation Sit_GameFocused = ''GameFocused''"
| "debug_situation Sit_GameCpuSchedulerPressure = ''GameCpuSchedulerPressure''"
| "debug_situation Sit_GameGpuBound = ''GameGpuBound''"
| "debug_situation Sit_CompositorPressure = ''CompositorPressure''"
| "debug_situation Sit_CpuPressure = ''CpuPressure''"
| "debug_situation Sit_IoPressure = ''IoPressure''"
| "debug_situation Sit_IrqPressure = ''IrqPressure''"
| "debug_situation Sit_ThermalOrPowerLimit = ''ThermalOrPowerLimit''"
| "debug_situation Sit_CompileLoad = ''CompileLoad''"
| "debug_situation Sit_BrowserFocused = ''BrowserFocused''"
| "debug_situation Sit_BrowserCpuPressure = ''BrowserCpuPressure''"
| "debug_situation Sit_BrowserGpuVideo = ''BrowserGpuVideo''"
| "debug_situation Sit_BrowserIoPressure = ''BrowserIoPressure''"
| "debug_situation Sit_CompileCpuBound = ''CompileCpuBound''"
| "debug_situation Sit_CompileLinkerPressure = ''CompileLinkerPressure''"
| "debug_situation Sit_MediaPlayback = ''MediaPlayback''"
| "debug_situation Sit_Recording = ''Recording''"
| "debug_situation Sit_VirtualMachineLoad = ''VirtualMachineLoad''"

fun debug_objective :: "objective_kind \<Rightarrow> string" where
  "debug_objective Obj_StutterScore = ''StutterScore''"
| "debug_objective Obj_GameFramePacing = ''GameFramePacing''"
| "debug_objective Obj_GameRunnableLatency = ''GameRunnableLatency''"
| "debug_objective Obj_DesktopInteractivity = ''DesktopInteractivity''"
| "debug_objective Obj_BrowserInteractivity = ''BrowserInteractivity''"
| "debug_objective Obj_CompileThroughputWithForegroundProtection =
     ''CompileThroughputWithForegroundProtection''"
| "debug_objective Obj_IoLatency = ''IoLatency''"
| "debug_objective Obj_IrqOverlapReduction = ''IrqOverlapReduction''"
| "debug_objective Obj_ThermalRecovery = ''ThermalRecovery''"

definition all_situations :: "situation_kind list" where
  "all_situations =
     [Sit_Unknown, Sit_Idle, Sit_GameFocused, Sit_GameCpuSchedulerPressure, Sit_GameGpuBound,
      Sit_CompositorPressure, Sit_CpuPressure, Sit_IoPressure, Sit_IrqPressure,
      Sit_ThermalOrPowerLimit, Sit_CompileLoad, Sit_BrowserFocused, Sit_BrowserCpuPressure,
      Sit_BrowserGpuVideo, Sit_BrowserIoPressure, Sit_CompileCpuBound, Sit_CompileLinkerPressure,
      Sit_MediaPlayback, Sit_Recording, Sit_VirtualMachineLoad]"

definition all_objectives :: "objective_kind list" where
  "all_objectives =
     [Obj_StutterScore, Obj_GameFramePacing, Obj_GameRunnableLatency, Obj_DesktopInteractivity,
      Obj_BrowserInteractivity, Obj_CompileThroughputWithForegroundProtection, Obj_IoLatency,
      Obj_IrqOverlapReduction, Obj_ThermalRecovery]"

section \<open>Rules, families, validation\<close>

record workload_policy_rule =
  wr_situation :: situation_kind
  wr_allowed_families :: "string set"
  wr_allowed_objectives :: "objective_kind set"
  wr_autonomous_families :: "string set"

datatype workload_policy_error =
    UnknownActionFamily string
  | AutonomousFamilyNotAllowed string
  | DuplicateSituation situation_kind
  | UnknownSituation string
  | UnknownObjective string
  | EmptyActionFamily string
  | UntrimmedActionFamily string

definition known_action_families :: "string list" where
  "known_action_families =
     [''cpu_affinity_profile'', ''nice'', ''ionice'', ''uclamp'', ''cgroup_placement'',
      ''irq_affinity'', ''cpu_power'', ''gpu_power'', ''vm_knob'']"

definition known_action_family :: "string \<Rightarrow> bool" where
  "known_action_family f \<longleftrightarrow> f \<in> set known_action_families"

definition validate_action_family_name :: "string \<Rightarrow> workload_policy_error + unit" where
  "validate_action_family_name f =
     (if \<not> known_action_family f then Inl (UnknownActionFamily f) else Inr ())"

text \<open>
  \<open>validate_workload_policy_rule\<close> walks the two \<open>BTreeSet\<close>s in their order, which is the byte order
  of the strings, and stops at the first bad family: the least one.
\<close>

definition validate_workload_policy_rule ::
  "workload_policy_rule \<Rightarrow> workload_policy_error + unit" where
  "validate_workload_policy_rule r =
     (let bad_allowed = {f \<in> wr_allowed_families r. \<not> known_action_family f};
          bad_auto = {f \<in> wr_autonomous_families r. \<not> known_action_family f};
          stray = {f \<in> wr_autonomous_families r. f \<notin> wr_allowed_families r}
      in if bad_allowed \<noteq> {} then Inl (UnknownActionFamily (Min bad_allowed))
         else if bad_auto \<noteq> {} then Inl (UnknownActionFamily (Min bad_auto))
         else if stray \<noteq> {} then Inl (AutonomousFamilyNotAllowed (Min stray))
         else Inr ())"

definition family_separator :: "string \<Rightarrow> bool" where
  "family_separator suffix =
     (case suffix of [] \<Rightarrow> False | c # _ \<Rightarrow> c = CHR '':'' \<or> c = CHR ''-'' \<or> c = CHR ''_'')"

definition family_matches :: "string \<Rightarrow> string \<Rightarrow> bool" where
  "family_matches action_kind family \<longleftrightarrow>
     action_kind = family
     \<or> (case strip_prefix family action_kind of None \<Rightarrow> False | Some suffix \<Rightarrow> family_separator suffix)"

text \<open>
  The rule predicates take a candidate only for its action kind (\<open>CandidateAction::action_kind\<close>).
\<close>

definition allows_candidate :: "workload_policy_rule \<Rightarrow> string \<Rightarrow> bool" where
  "allows_candidate r action_kind \<longleftrightarrow> (\<exists>f \<in> wr_allowed_families r. family_matches action_kind f)"

definition allows_autonomous_candidate :: "workload_policy_rule \<Rightarrow> string \<Rightarrow> bool" where
  "allows_autonomous_candidate r action_kind \<longleftrightarrow>
     (\<exists>f \<in> wr_autonomous_families r. family_matches action_kind f)"

definition allows_objective :: "workload_policy_rule \<Rightarrow> objective_kind \<Rightarrow> bool" where
  "allows_objective r objective \<longleftrightarrow>
     wr_allowed_objectives r = {} \<or> objective \<in> wr_allowed_objectives r"

section \<open>The built-in matrix\<close>

definition mk_rule ::
  "situation_kind \<Rightarrow> string list \<Rightarrow> objective_kind list \<Rightarrow> string list \<Rightarrow> workload_policy_rule" where
  "mk_rule situation families objectives autonomous =
     \<lparr>wr_situation = situation, wr_allowed_families = set families,
      wr_allowed_objectives = set objectives, wr_autonomous_families = set autonomous\<rparr>"

definition game_rule :: "situation_kind \<Rightarrow> workload_policy_rule" where
  "game_rule s = mk_rule s
     [''cpu_affinity_profile'', ''cgroup_placement'', ''uclamp'', ''gpu_power'', ''irq_affinity'',
      ''cpu_power'', ''nice'', ''ionice'']
     [Obj_StutterScore, Obj_GameFramePacing, Obj_GameRunnableLatency, Obj_DesktopInteractivity,
      Obj_IoLatency, Obj_IrqOverlapReduction, Obj_ThermalRecovery]
     [''cpu_affinity_profile'', ''cgroup_placement'']"

definition browser_rule :: "situation_kind \<Rightarrow> workload_policy_rule" where
  "browser_rule s = mk_rule s
     [''nice'', ''ionice'', ''uclamp'', ''cpu_affinity_profile'', ''gpu_power'']
     [Obj_GameFramePacing, Obj_BrowserInteractivity, Obj_DesktopInteractivity, Obj_IoLatency,
      Obj_StutterScore, Obj_ThermalRecovery]
     []"

definition compile_rule :: "situation_kind \<Rightarrow> workload_policy_rule" where
  "compile_rule s = mk_rule s
     [''cpu_affinity_profile'', ''cgroup_placement'', ''uclamp'', ''nice'', ''ionice'']
     [Obj_CompileThroughputWithForegroundProtection, Obj_DesktopInteractivity, Obj_IoLatency,
      Obj_StutterScore]
     []"

fun default_rule_for_situation :: "situation_kind \<Rightarrow> workload_policy_rule" where
  "default_rule_for_situation Sit_GameFocused = game_rule Sit_GameFocused"
| "default_rule_for_situation Sit_GameCpuSchedulerPressure = game_rule Sit_GameCpuSchedulerPressure"
| "default_rule_for_situation Sit_GameGpuBound = game_rule Sit_GameGpuBound"
| "default_rule_for_situation Sit_BrowserFocused = browser_rule Sit_BrowserFocused"
| "default_rule_for_situation Sit_BrowserCpuPressure = browser_rule Sit_BrowserCpuPressure"
| "default_rule_for_situation Sit_BrowserGpuVideo = browser_rule Sit_BrowserGpuVideo"
| "default_rule_for_situation Sit_BrowserIoPressure = browser_rule Sit_BrowserIoPressure"
| "default_rule_for_situation Sit_CompileLoad = compile_rule Sit_CompileLoad"
| "default_rule_for_situation Sit_CompileCpuBound = compile_rule Sit_CompileCpuBound"
| "default_rule_for_situation Sit_CompileLinkerPressure = compile_rule Sit_CompileLinkerPressure"
| "default_rule_for_situation Sit_Recording =
     mk_rule Sit_Recording [''nice'', ''ionice'', ''uclamp'']
       [Obj_DesktopInteractivity, Obj_IoLatency, Obj_StutterScore] []"
| "default_rule_for_situation Sit_MediaPlayback =
     mk_rule Sit_MediaPlayback [''nice'', ''ionice'', ''uclamp'']
       [Obj_DesktopInteractivity, Obj_IoLatency, Obj_StutterScore] []"
| "default_rule_for_situation Sit_VirtualMachineLoad =
     mk_rule Sit_VirtualMachineLoad [''cgroup_placement'', ''uclamp'', ''cpu_affinity_profile'']
       [Obj_DesktopInteractivity, Obj_StutterScore] []"
| "default_rule_for_situation Sit_CompositorPressure =
     mk_rule Sit_CompositorPressure [''uclamp'', ''nice'', ''ionice'', ''cpu_affinity_profile'']
       [Obj_DesktopInteractivity, Obj_StutterScore] []"
| "default_rule_for_situation Sit_CpuPressure =
     mk_rule Sit_CpuPressure [''cpu_affinity_profile'', ''uclamp'', ''nice'']
       [Obj_DesktopInteractivity, Obj_StutterScore] []"
| "default_rule_for_situation Sit_IoPressure =
     mk_rule Sit_IoPressure [''ionice'', ''vm_knob''] [Obj_IoLatency, Obj_StutterScore] []"
| "default_rule_for_situation Sit_IrqPressure =
     mk_rule Sit_IrqPressure [''irq_affinity''] [Obj_IrqOverlapReduction, Obj_StutterScore] []"
| "default_rule_for_situation Sit_ThermalOrPowerLimit =
     mk_rule Sit_ThermalOrPowerLimit [''cpu_power'', ''gpu_power'']
       [Obj_ThermalRecovery, Obj_StutterScore] []"
| "default_rule_for_situation Sit_Idle =
     mk_rule Sit_Idle [''cpu_power'', ''gpu_power''] [Obj_ThermalRecovery] []"
| "default_rule_for_situation Sit_Unknown = mk_rule Sit_Unknown [] [] []"

type_synonym workload_policy_matrix = "workload_policy_rule list"

definition default_rules :: workload_policy_matrix where
  "default_rules = map default_rule_for_situation all_situations"

definition rule_for :: "workload_policy_matrix \<Rightarrow> situation_kind \<Rightarrow> workload_policy_rule" where
  "rule_for m s =
     (case find (\<lambda>r. wr_situation r = s) m of
        Some r \<Rightarrow> r
      | None \<Rightarrow> default_rule_for_situation s)"

text \<open>Replacing the first rule of the same situation, or appending it.\<close>

fun set_rule :: "workload_policy_rule \<Rightarrow> workload_policy_matrix \<Rightarrow> workload_policy_matrix" where
  "set_rule r [] = [r]"
| "set_rule r (x # xs) = (if wr_situation x = wr_situation r then r # xs else x # set_rule r xs)"

fun with_overrides_loop ::
  "workload_policy_rule list \<Rightarrow> situation_kind list \<Rightarrow> workload_policy_matrix
    \<Rightarrow> workload_policy_error + workload_policy_matrix" where
  "with_overrides_loop [] seen m = Inr m"
| "with_overrides_loop (r # rs) seen m =
     res_bind (validate_workload_policy_rule r) (\<lambda>_.
       if wr_situation r \<in> set seen then Inl (DuplicateSituation (wr_situation r))
       else with_overrides_loop rs (seen @ [wr_situation r]) (set_rule r m))"

definition with_overrides ::
  "workload_policy_rule list \<Rightarrow> workload_policy_error + workload_policy_matrix" where
  "with_overrides overrides = with_overrides_loop overrides [] default_rules"

section \<open>Parsing configuration rules\<close>

record workload_policy_rule_config_file =
  wf_situation :: string
  wf_allowed_families :: "string list"
  wf_allowed_objectives :: "string list"
  wf_autonomous_families :: "string list"

definition normalize_name :: "string \<Rightarrow> string" where
  "normalize_name v =
     map to_lowercase (filter (\<lambda>c. c \<noteq> CHR ''_'' \<and> c \<noteq> CHR ''-'' \<and> \<not> is_whitespace c) v)"

definition parse_situation_kind :: "string \<Rightarrow> workload_policy_error + situation_kind" where
  "parse_situation_kind v =
     (case find (\<lambda>s. normalize_name (debug_situation s) = normalize_name v) all_situations of
        Some s \<Rightarrow> Inr s
      | None \<Rightarrow> Inl (UnknownSituation v))"

definition parse_objective_kind :: "string \<Rightarrow> workload_policy_error + objective_kind" where
  "parse_objective_kind v =
     (case find (\<lambda>s. normalize_name (debug_objective s) = normalize_name v) all_objectives of
        Some s \<Rightarrow> Inr s
      | None \<Rightarrow> Inl (UnknownObjective v))"

fun parse_family_set :: "string \<Rightarrow> string list \<Rightarrow> workload_policy_error + string set" where
  "parse_family_set field [] = Inr {}"
| "parse_family_set field (v # vs) =
     (if trim v = [] then Inl (EmptyActionFamily field)
      else if trim v \<noteq> v then Inl (UntrimmedActionFamily field)
      else res_bind (validate_action_family_name (trim v)) (\<lambda>_.
           res_bind (parse_family_set field vs) (\<lambda>families. Inr (insert (trim v) families))))"

fun parse_objectives :: "string list \<Rightarrow> workload_policy_error + objective_kind set" where
  "parse_objectives [] = Inr {}"
| "parse_objectives (v # vs) =
     res_bind (parse_objective_kind v) (\<lambda>ob.
     res_bind (parse_objectives vs) (\<lambda>obs. Inr (insert ob obs)))"

definition into_rule ::
  "workload_policy_rule_config_file \<Rightarrow> workload_policy_error + workload_policy_rule" where
  "into_rule c =
     res_bind (parse_situation_kind (wf_situation c)) (\<lambda>situation.
     res_bind (parse_family_set ''allowed_families'' (wf_allowed_families c)) (\<lambda>allowed.
     res_bind (parse_family_set ''autonomous_families'' (wf_autonomous_families c)) (\<lambda>autonomous.
     res_bind (parse_objectives (wf_allowed_objectives c)) (\<lambda>objectives.
       let r = \<lparr>wr_situation = situation, wr_allowed_families = allowed,
                wr_allowed_objectives = objectives, wr_autonomous_families = autonomous\<rparr>
       in res_bind (validate_workload_policy_rule r) (\<lambda>_. Inr r)))))"

fun parse_rule_configs_loop ::
  "workload_policy_rule_config_file list \<Rightarrow> situation_kind list
    \<Rightarrow> workload_policy_rule list \<Rightarrow> workload_policy_error + workload_policy_rule list" where
  "parse_rule_configs_loop [] seen rules = Inr rules"
| "parse_rule_configs_loop (c # cs) seen rules =
     res_bind (into_rule c) (\<lambda>r.
       if wr_situation r \<in> set seen then Inl (DuplicateSituation (wr_situation r))
       else parse_rule_configs_loop cs (seen @ [wr_situation r]) (rules @ [r]))"

definition parse_workload_policy_rule_configs ::
  "workload_policy_rule_config_file list
    \<Rightarrow> workload_policy_error + workload_policy_rule list" where
  "parse_workload_policy_rule_configs cs = parse_rule_configs_loop cs [] []"

end
