(* ===== verification/Daemon_Config.thy ===== *)
theory Daemon_Config
  imports Daemon_Types Workload_Policy
begin

text \<open>
  The daemon configuration (\<open>stutter/src/daemon/config/\<close>): every section as a record with its
  \<open>Default\<close>, the presets, and the allowlist and cgroup-target queries that the policy's clients ask.
  Paths are strings. The health section is restricted to its stored fields; turning its \<open>f32\<close>
  percentage into milli-percent is not modelled.
\<close>

section \<open>Sections\<close>

text \<open>The \<open>f32\<close> literals of the source, as the dyadic rationals they round to.\<close>

definition f32_0_50 :: f32 where "f32_0_50 = Fin (1 / 2)"
definition f32_0_70 :: f32 where "f32_0_70 = Fin (11744051 / 16777216)"
definition f32_0_75 :: f32 where "f32_0_75 = Fin (3 / 4)"
definition f32_0_85 :: f32 where "f32_0_85 = Fin (14260634 / 16777216)"
definition f32_0_88 :: f32 where "f32_0_88 = Fin (14763950 / 16777216)"
definition f32_0_90 :: f32 where "f32_0_90 = Fin (15099494 / 16777216)"
definition f32_0_92 :: f32 where "f32_0_92 = Fin (15435039 / 16777216)"

lemmas f32_literals =
  f32_0_50_def f32_0_70_def f32_0_75_def f32_0_85_def f32_0_88_def f32_0_90_def f32_0_92_def

definition DEFAULT_MIN_FOCUS_CONFIDENCE :: f32 where
  "DEFAULT_MIN_FOCUS_CONFIDENCE = f32_0_70"

record daemon_candidate_confidence_config =
  cc_min_suggest_confidence :: f32
  cc_min_apply_low_risk_confidence :: f32
  cc_min_apply_medium_risk_confidence :: f32
  cc_min_high_risk_suggestion_confidence :: f32

definition default_confidence_config :: daemon_candidate_confidence_config where
  "default_confidence_config =
     \<lparr>cc_min_suggest_confidence = f32_0_50,
      cc_min_apply_low_risk_confidence = DEFAULT_MIN_FOCUS_CONFIDENCE,
      cc_min_apply_medium_risk_confidence = f32_0_85,
      cc_min_high_risk_suggestion_confidence = f32_0_90\<rparr>"

datatype external_mutation_policy = Ext_Fault | Ext_Restore | Ext_Resync

record daemon_autotune_config =
  au_candidate_window_seconds :: u64
  au_washout_seconds :: u64
  au_rollback_on_crash_recovery :: bool
  au_allow_medium_risk_apply :: bool
  au_allow_cpu_power_on_battery :: bool
  au_allow_gpu_power_in_autotune :: bool
  au_allow_vm_knobs_in_autotune :: bool
  au_privileged_worker_socket :: "string option"
  au_unsafe_in_process_privileged_worker :: bool
  au_manage_privileged_worker :: bool
  au_privileged_worker_restart_limit :: u32
  au_privileged_worker_socket_ready_timeout_ms :: u64
  au_privileged_worker_socket_ready_retry_ms :: u64
  au_privileged_worker_shutdown_poll_ms :: u64
  au_external_mutation_policy :: external_mutation_policy
  au_high_risk_dry_run :: bool
  au_workload_policy :: "workload_policy_rule list"
  au_confidence :: daemon_candidate_confidence_config

definition default_autotune_config :: daemon_autotune_config where
  "default_autotune_config =
     \<lparr>au_candidate_window_seconds = 30, au_washout_seconds = 10,
      au_rollback_on_crash_recovery = True, au_allow_medium_risk_apply = False,
      au_allow_cpu_power_on_battery = False, au_allow_gpu_power_in_autotune = False,
      au_allow_vm_knobs_in_autotune = False, au_privileged_worker_socket = None,
      au_unsafe_in_process_privileged_worker = False, au_manage_privileged_worker = True,
      au_privileged_worker_restart_limit = 3,
      au_privileged_worker_socket_ready_timeout_ms = 2000,
      au_privileged_worker_socket_ready_retry_ms = 50,
      au_privileged_worker_shutdown_poll_ms = 25,
      au_external_mutation_policy = Ext_Fault, au_high_risk_dry_run = False,
      au_workload_policy = [], au_confidence = default_confidence_config\<rparr>"

record daemon_target_config =
  dt_target_pids :: "u32 list"
  dt_tree_pids :: "u32 list"
  dt_watch_process :: "string option"
  dt_require_explicit_target :: bool

definition default_target_config :: daemon_target_config where
  "default_target_config =
     \<lparr>dt_target_pids = [], dt_tree_pids = [], dt_watch_process = None,
      dt_require_explicit_target = False\<rparr>"

record daemon_cgroup_targets_config =
  cg_interactive_cgroup :: "string option"
  cg_background_cgroup :: "string option"
  cg_game_cgroup :: "string option"
  cg_compile_cgroup :: "string option"

definition default_cgroup_targets :: daemon_cgroup_targets_config where
  "default_cgroup_targets =
     \<lparr>cg_interactive_cgroup = None, cg_background_cgroup = None, cg_game_cgroup = None,
      cg_compile_cgroup = None\<rparr>"

record daemon_system_wide_allowlist_config =
  al_cpu_policies :: "string set"
  al_gpu_cards :: "string set"
  al_gpu_pci_ids :: "string set"
  al_irq_devices :: "string set"
  al_vm_knobs :: "string set"
  al_operations :: "string set"

definition default_allowlist :: daemon_system_wide_allowlist_config where
  "default_allowlist =
     \<lparr>al_cpu_policies = {}, al_gpu_cards = {}, al_gpu_pci_ids = {}, al_irq_devices = {},
      al_vm_knobs = {}, al_operations = {}\<rparr>"

record daemon_safety_config =
  sf_max_safety_class :: safety_class
  sf_allowed_action_classes :: "safety_class set"
  sf_enabled_action_families :: "string set"
  sf_denied_action_families :: "string set"
  sf_cgroup_targets :: daemon_cgroup_targets_config
  sf_system_wide_allowlist :: daemon_system_wide_allowlist_config
  sf_allow_system_wide_suggestions :: bool
  sf_allow_system_wide_apply :: bool
  sf_allow_high_risk :: bool
  sf_allow_persistent_effects :: bool
  sf_min_confidence :: f32

definition default_safety_config :: daemon_safety_config where
  "default_safety_config =
     \<lparr>sf_max_safety_class = SC_ObserveOnly, sf_allowed_action_classes = {SC_ObserveOnly},
      sf_enabled_action_families = {}, sf_denied_action_families = {},
      sf_cgroup_targets = default_cgroup_targets, sf_system_wide_allowlist = default_allowlist,
      sf_allow_system_wide_suggestions = False, sf_allow_system_wide_apply = False,
      sf_allow_high_risk = False, sf_allow_persistent_effects = False,
      sf_min_confidence = Fin 0\<rparr>"

definition safety_classes_up_to :: "safety_class \<Rightarrow> safety_class set" where
  "safety_classes_up_to m =
     set (filter (\<lambda>c. c \<le> m)
       [SC_ObserveOnly, SC_ReversibleLowRisk, SC_ReversibleMediumRisk, SC_HighRisk])"

record daemon_health_config =
  hc_max_cpu_temp_celsius :: u32
  hc_max_gpu_temp_celsius :: u32
  hc_min_disk_available_bytes :: u64
  hc_max_memory_pressure_some_avg10_percent :: f32

definition default_health_config :: daemon_health_config where
  "default_health_config =
     \<lparr>hc_max_cpu_temp_celsius = 90, hc_max_gpu_temp_celsius = 92,
      hc_min_disk_available_bytes = 512 * 1024 * 1024,
      hc_max_memory_pressure_some_avg10_percent = Fin 50\<rparr>"

record daemon_retention_config =
  rt_max_history_events :: usize
  rt_max_state_snapshots :: usize
  rt_retain_crash_diagnostics :: bool

definition default_retention_config :: daemon_retention_config where
  "default_retention_config =
     \<lparr>rt_max_history_events = 10000, rt_max_state_snapshots = 16,
      rt_retain_crash_diagnostics = True\<rparr>"

record daemon_remote_config =
  rc_allow_remote_apply :: bool
  rc_require_auth_for_apply :: bool
  rc_allow_non_loopback_apply :: bool

definition default_remote_config :: daemon_remote_config where
  "default_remote_config =
     \<lparr>rc_allow_remote_apply = False, rc_require_auth_for_apply = True,
      rc_allow_non_loopback_apply = False\<rparr>"

section \<open>The configuration and its presets\<close>

datatype daemon_preset =
    Preset_ObserveOnly
  | Preset_GamingLowRisk
  | Preset_GamingLaptopSafe
  | Preset_WorkstationLowRisk
  | Preset_DebugAggressive

fun preset_as_str :: "daemon_preset \<Rightarrow> string" where
  "preset_as_str Preset_ObserveOnly = ''observe-only''"
| "preset_as_str Preset_GamingLowRisk = ''gaming-low-risk''"
| "preset_as_str Preset_GamingLaptopSafe = ''gaming-laptop-safe''"
| "preset_as_str Preset_WorkstationLowRisk = ''workstation-low-risk''"
| "preset_as_str Preset_DebugAggressive = ''debug-aggressive''"

text \<open>The error of \<open>FromStr for DaemonPreset\<close> carries the rejected name.\<close>

definition preset_from_str :: "string \<Rightarrow> string + daemon_preset" where
  "preset_from_str v =
     (if v = ''observe-only'' then Inr Preset_ObserveOnly
      else if v = ''gaming-low-risk'' then Inr Preset_GamingLowRisk
      else if v = ''gaming-laptop-safe'' then Inr Preset_GamingLaptopSafe
      else if v = ''workstation-low-risk'' then Inr Preset_WorkstationLowRisk
      else if v = ''debug-aggressive'' then Inr Preset_DebugAggressive
      else Inl v)"

record daemon_config =
  dc_preset :: daemon_preset
  dc_mode :: daemon_mode
  dc_source :: action_source
  dc_target :: daemon_target_config
  dc_safety :: daemon_safety_config
  dc_health :: daemon_health_config
  dc_retention :: daemon_retention_config
  dc_remote :: daemon_remote_config
  dc_autotune :: daemon_autotune_config

definition preset_low_risk_safety :: "f32 \<Rightarrow> daemon_safety_config" where
  "preset_low_risk_safety conf =
     default_safety_config
       \<lparr>sf_max_safety_class := SC_ReversibleLowRisk,
        sf_allowed_action_classes := safety_classes_up_to SC_ReversibleLowRisk,
        sf_enabled_action_families := {''cpu_affinity_profile''},
        sf_min_confidence := conf\<rparr>"

definition reset_sections :: "daemon_preset \<Rightarrow> daemon_config \<Rightarrow> daemon_config" where
  "reset_sections preset c =
     c\<lparr>dc_preset := preset, dc_safety := default_safety_config, dc_health := default_health_config,
       dc_retention := default_retention_config, dc_remote := default_remote_config,
       dc_autotune := default_autotune_config\<rparr>"

fun apply_preset :: "daemon_preset \<Rightarrow> daemon_config \<Rightarrow> daemon_config" where
  "apply_preset Preset_ObserveOnly c =
     (reset_sections Preset_ObserveOnly c)
       \<lparr>dc_mode := Mode_Observe,
        dc_safety := default_safety_config
          \<lparr>sf_max_safety_class := SC_ObserveOnly,
           sf_allowed_action_classes := safety_classes_up_to SC_ObserveOnly,
           sf_min_confidence := Fin 0\<rparr>\<rparr>"
| "apply_preset Preset_GamingLowRisk c =
     (reset_sections Preset_GamingLowRisk c)
       \<lparr>dc_mode := Mode_ApplyLowRisk,
        dc_safety := preset_low_risk_safety f32_0_85,
        dc_autotune := default_autotune_config
          \<lparr>au_candidate_window_seconds := 30, au_washout_seconds := 10\<rparr>,
        dc_retention := default_retention_config\<lparr>rt_max_history_events := 20000\<rparr>\<rparr>"
| "apply_preset Preset_GamingLaptopSafe c =
     (reset_sections Preset_GamingLaptopSafe c)
       \<lparr>dc_mode := Mode_ApplyLowRisk,
        dc_safety := preset_low_risk_safety f32_0_92,
        dc_health := default_health_config
          \<lparr>hc_max_cpu_temp_celsius := 82, hc_max_gpu_temp_celsius := 84\<rparr>,
        dc_autotune := default_autotune_config
          \<lparr>au_candidate_window_seconds := 45, au_washout_seconds := 15\<rparr>,
        dc_retention := default_retention_config\<lparr>rt_max_history_events := 12000\<rparr>\<rparr>"
| "apply_preset Preset_WorkstationLowRisk c =
     (reset_sections Preset_WorkstationLowRisk c)
       \<lparr>dc_mode := Mode_ApplyLowRisk,
        dc_safety := preset_low_risk_safety f32_0_88,
        dc_autotune := default_autotune_config
          \<lparr>au_candidate_window_seconds := 60, au_washout_seconds := 15\<rparr>,
        dc_retention := default_retention_config\<lparr>rt_max_history_events := 30000\<rparr>\<rparr>"
| "apply_preset Preset_DebugAggressive c =
     (reset_sections Preset_DebugAggressive c)
       \<lparr>dc_mode := Mode_ApplyMediumRisk,
        dc_safety := default_safety_config
          \<lparr>sf_max_safety_class := SC_ReversibleMediumRisk,
           sf_allowed_action_classes := safety_classes_up_to SC_ReversibleMediumRisk,
           sf_enabled_action_families :=
             {''cpu_affinity_profile'', ''nice'', ''ionice'', ''uclamp''},
           sf_min_confidence := f32_0_75\<rparr>,
        dc_autotune := default_autotune_config
          \<lparr>au_candidate_window_seconds := 20, au_washout_seconds := 5\<rparr>,
        dc_retention := default_retention_config\<lparr>rt_max_history_events := 50000\<rparr>\<rparr>"

definition from_preset :: "daemon_preset \<Rightarrow> action_source \<Rightarrow> daemon_config" where
  "from_preset preset source =
     apply_preset preset
       \<lparr>dc_preset = preset, dc_mode = Mode_Observe, dc_source = source,
        dc_target = default_target_config, dc_safety = default_safety_config,
        dc_health = default_health_config, dc_retention = default_retention_config,
        dc_remote = default_remote_config, dc_autotune = default_autotune_config\<rparr>"

definition default_daemon_config :: daemon_config where
  "default_daemon_config = from_preset Preset_ObserveOnly Src_Cli"

section \<open>Allowlist queries\<close>

definition allows_operation :: "daemon_system_wide_allowlist_config \<Rightarrow> string \<Rightarrow> bool" where
  "allows_operation a op \<longleftrightarrow> op \<in> al_operations a"

definition wildcard_match :: "string \<Rightarrow> string \<Rightarrow> bool" where
  "wildcard_match pattern v =
     (if pattern = ''*'' then True
      else if pattern \<noteq> [] \<and> last pattern = CHR ''*'' then starts_with v (butlast pattern)
      else pattern = v)"

definition allows_gpu ::
  "daemon_system_wide_allowlist_config \<Rightarrow> string \<Rightarrow> string option \<Rightarrow> bool" where
  "allows_gpu a gpu_card pci_id \<longleftrightarrow>
     gpu_card \<in> al_gpu_cards a
     \<or> (case pci_id of None \<Rightarrow> False
        | Some pci \<Rightarrow> \<exists>allowed \<in> al_gpu_pci_ids a. wildcard_match allowed pci)"

definition allows_irq_device :: "daemon_system_wide_allowlist_config \<Rightarrow> string \<Rightarrow> bool" where
  "allows_irq_device a device \<longleftrightarrow>
     (\<exists>allowed \<in> al_irq_devices a. str_contains (map to_lowercase device) (map to_lowercase allowed))"

definition normalize_vm_knob_text :: "string \<Rightarrow> string" where
  "normalize_vm_knob_text path =
     (let t = dropWhile (\<lambda>c. c = CHR ''/'') (trim path);
          rest = (case strip_prefix ''proc/sys/'' t of Some r \<Rightarrow> r | None \<Rightarrow> t)
      in map (\<lambda>c. if c = CHR ''.'' then CHR ''/'' else c) rest)"

definition allows_vm_knob :: "daemon_system_wide_allowlist_config \<Rightarrow> string \<Rightarrow> bool" where
  "allows_vm_knob a path \<longleftrightarrow>
     (\<exists>allowed \<in> al_vm_knobs a. normalize_vm_knob_text allowed = normalize_vm_knob_text path)"

section \<open>Cgroup targets\<close>

datatype cgroup_target_role = Role_Interactive | Role_Background | Role_Game | Role_Compile

fun role_as_str :: "cgroup_target_role \<Rightarrow> string" where
  "role_as_str Role_Interactive = ''interactive''"
| "role_as_str Role_Background = ''background''"
| "role_as_str Role_Game = ''game''"
| "role_as_str Role_Compile = ''compile''"

fun target_for_role :: "daemon_cgroup_targets_config \<Rightarrow> cgroup_target_role \<Rightarrow> string option" where
  "target_for_role c Role_Interactive = cg_interactive_cgroup c"
| "target_for_role c Role_Background = cg_background_cgroup c"
| "target_for_role c Role_Game = cg_game_cgroup c"
| "target_for_role c Role_Compile = cg_compile_cgroup c"

definition cgroup_targets_is_empty :: "daemon_cgroup_targets_config \<Rightarrow> bool" where
  "cgroup_targets_is_empty c \<longleftrightarrow>
     cg_interactive_cgroup c = None \<and> cg_background_cgroup c = None
     \<and> cg_game_cgroup c = None \<and> cg_compile_cgroup c = None"

definition named_targets :: "daemon_cgroup_targets_config \<Rightarrow> (string \<times> string) list" where
  "named_targets c =
     List.map_filter (\<lambda>r. map_option (\<lambda>t. (role_as_str r, t)) (target_for_role c r))
       [Role_Interactive, Role_Background, Role_Game, Role_Compile]"

datatype cgroup_target_error = NotAbsolute | ParentTraversal string | CgroupRoot

text \<open>
  \<open>Path::components\<close> of a Unix path: the parts between slashes without empty parts and without
  \<open>.\<close> parts (a leading \<open>.\<close> part only occurs in a relative path, which is refused before); \<open>..\<close> is
  the parent component. Windows prefixes do not exist on Unix.
\<close>

definition path_components :: "string \<Rightarrow> string list" where
  "path_components p = filter (\<lambda>x. x \<noteq> [] \<and> x \<noteq> ''.'') (split_on CHR ''/'' p)"

definition path_is_absolute :: "string \<Rightarrow> bool" where
  "path_is_absolute p \<longleftrightarrow> p \<noteq> [] \<and> hd p = CHR ''/''"

definition normalize_cgroup_target_path :: "string \<Rightarrow> cgroup_target_error + string" where
  "normalize_cgroup_target_path p =
     (if \<not> path_is_absolute p then Inl NotAbsolute
      else if ''..'' \<in> set (path_components p) then Inl (ParentTraversal p)
      else if path_components p = [] then Inl CgroupRoot
      else Inr (''/'' @ join ''/'' (path_components p)))"

definition contains_path :: "daemon_cgroup_targets_config \<Rightarrow> string \<Rightarrow> bool" where
  "contains_path c p =
     (case normalize_cgroup_target_path p of
        Inl _ \<Rightarrow> False
      | Inr candidate \<Rightarrow>
          list_ex (\<lambda>(_, t). normalize_cgroup_target_path t = Inr candidate) (named_targets c))"

fun validate_named_targets :: "(string \<times> string) list \<Rightarrow> (string \<times> cgroup_target_error) + unit" where
  "validate_named_targets [] = Inr ()"
| "validate_named_targets ((name, t) # ts) =
     (case normalize_cgroup_target_path t of
        Inl e \<Rightarrow> Inl (name, e)
      | Inr _ \<Rightarrow> validate_named_targets ts)"

definition validate_cgroup_targets ::
  "daemon_cgroup_targets_config \<Rightarrow> (string \<times> cgroup_target_error) + unit" where
  "validate_cgroup_targets c = validate_named_targets (named_targets c)"

end
