(* ===== verification/System_Health.thy ===== *)
theory System_Health
  imports Stutter_Prelude
begin

text \<open>
  The system-health guard of the daemon (\<open>stutter/src/daemon/health.rs\<close>): reading the guard's inputs
  from procfs and sysfs, and the evaluation that turns them into a snapshot the policy consults. The
  file system, the free-space query and the clock are parameters. Temperatures are \<open>i64\<close> values that
  the code only compares, so they are integers; counters keep their width.
\<close>

section \<open>States, inputs, thresholds\<close>

datatype system_health_state =
    Healthy
  | Degraded
  | Overheated
  | LowDisk
  | LowMemory
  | InstrumentationBroken
  | SuspendedResumed

fun health_state_as_str :: "system_health_state \<Rightarrow> string" where
  "health_state_as_str Healthy = ''healthy''"
| "health_state_as_str Degraded = ''degraded''"
| "health_state_as_str Overheated = ''overheated''"
| "health_state_as_str LowDisk = ''low_disk''"
| "health_state_as_str LowMemory = ''low_memory''"
| "health_state_as_str InstrumentationBroken = ''instrumentation_broken''"
| "health_state_as_str SuspendedResumed = ''suspended_resumed''"

fun severity_rank :: "system_health_state \<Rightarrow> nat" where
  "severity_rank Healthy = 0"
| "severity_rank Degraded = 1"
| "severity_rank SuspendedResumed = 2"
| "severity_rank InstrumentationBroken = 3"
| "severity_rank LowMemory = 4"
| "severity_rank LowDisk = 5"
| "severity_rank Overheated = 6"

definition blocks_apply :: "system_health_state \<Rightarrow> bool" where
  "blocks_apply s \<longleftrightarrow> s \<noteq> Healthy"

record system_health_inputs =
  hi_max_cpu_temp_millidegrees :: "int option"
  hi_max_gpu_temp_millidegrees :: "int option"
  hi_ac_online :: "bool option"
  hi_battery_present :: bool
  hi_memory_pressure_some_avg10_millipercent :: "u32 option"
  hi_load_average_1m_milli :: "u32 option"
  hi_cpu_count :: "usize option"
  hi_disk_available_bytes :: "u64 option"
  hi_ebpf_dropped_events :: u64
  hi_suspended_or_resumed :: bool
  hi_probe_errors :: "string list"

definition default_health_inputs :: system_health_inputs where
  "default_health_inputs =
     \<lparr>hi_max_cpu_temp_millidegrees = None, hi_max_gpu_temp_millidegrees = None, hi_ac_online = None,
      hi_battery_present = False, hi_memory_pressure_some_avg10_millipercent = None,
      hi_load_average_1m_milli = None, hi_cpu_count = None, hi_disk_available_bytes = None,
      hi_ebpf_dropped_events = 0, hi_suspended_or_resumed = False, hi_probe_errors = []\<rparr>"

record system_health_issue =
  is_state :: system_health_state
  is_reason_code :: string
  is_message :: string

record system_health_snapshot =
  hs_state :: system_health_state
  hs_ok_for_apply :: bool
  hs_reason_code :: "string option"
  hs_unix_nanos :: "nat option"
  hs_inputs :: system_health_inputs
  hs_issues :: "system_health_issue list"

definition default_health_snapshot :: system_health_snapshot where
  "default_health_snapshot =
     \<lparr>hs_state = Healthy, hs_ok_for_apply = True, hs_reason_code = None, hs_unix_nanos = None,
      hs_inputs = default_health_inputs, hs_issues = []\<rparr>"

record system_health_thresholds =
  ht_max_cpu_temp_millidegrees :: int
  ht_max_gpu_temp_millidegrees :: int
  ht_min_disk_available_bytes :: u64
  ht_max_memory_pressure_some_avg10_millipercent :: u32
  ht_max_load_per_cpu_milli :: u32
  ht_max_ebpf_dropped_events :: u64

definition default_health_thresholds :: system_health_thresholds where
  "default_health_thresholds =
     \<lparr>ht_max_cpu_temp_millidegrees = 90000, ht_max_gpu_temp_millidegrees = 92000,
      ht_min_disk_available_bytes = 512 * 1024 * 1024,
      ht_max_memory_pressure_some_avg10_millipercent = 50000,
      ht_max_load_per_cpu_milli = 4000, ht_max_ebpf_dropped_events = 10000\<rparr>"

section \<open>Evaluation\<close>

definition push_issue ::
  "bool \<Rightarrow> system_health_state \<Rightarrow> string \<Rightarrow> string \<Rightarrow> system_health_issue list \<Rightarrow> system_health_issue list" where
  "push_issue cond state code message issues =
     (if cond then issues @ [\<lparr>is_state = state, is_reason_code = code, is_message = message\<rparr>] else issues)"

definition is_some_and :: "'a option \<Rightarrow> ('a \<Rightarrow> bool) \<Rightarrow> bool" where
  "is_some_and v p = (case v of None \<Rightarrow> False | Some x \<Rightarrow> p x)"

text \<open>
  \<open>load / cpus.max(1) as u32\<close>: the cast truncates to 32 bits, and a division by a truncated zero
  panics. The outcome \<open>None\<close> is that panic.
\<close>

definition load_high :: "system_health_inputs \<Rightarrow> system_health_thresholds \<Rightarrow> bool option" where
  "load_high inputs thresholds =
     (case (hi_load_average_1m_milli inputs, hi_cpu_count inputs) of
        (Some load, Some cpus) \<Rightarrow>
          (let d = (of_nat (max cpus 1) :: u32)
           in if d = 0 then None else Some (ht_max_load_per_cpu_milli thresholds \<le> load div d))
      | _ \<Rightarrow> Some False)"

definition collect_issues ::
  "system_health_inputs \<Rightarrow> system_health_thresholds \<Rightarrow> bool \<Rightarrow> system_health_issue list" where
  "collect_issues inputs t load =
    (let i = push_issue (hi_probe_errors inputs \<noteq> []) InstrumentationBroken
               ''instrumentation_probe_failed''
               (''system health probe reported '' @ show_nat (length (hi_probe_errors inputs)) @ '' error(s)'') [];
         i = push_issue (hi_suspended_or_resumed inputs) SuspendedResumed
               ''suspend_resume_stabilizing'' ''system recently suspended or resumed'' i;
         i = push_issue (is_some_and (hi_max_cpu_temp_millidegrees inputs)
                 (\<lambda>v. ht_max_cpu_temp_millidegrees t \<le> v)) Overheated
               ''cpu_overheated'' ''CPU temperature exceeds daemon guardrail'' i;
         i = push_issue (is_some_and (hi_max_gpu_temp_millidegrees inputs)
                 (\<lambda>v. ht_max_gpu_temp_millidegrees t \<le> v)) Overheated
               ''gpu_overheated'' ''GPU temperature exceeds daemon guardrail'' i;
         i = push_issue (is_some_and (hi_disk_available_bytes inputs)
                 (\<lambda>v. v < ht_min_disk_available_bytes t)) LowDisk
               ''low_disk'' ''free disk space is below daemon guardrail'' i;
         i = push_issue (is_some_and (hi_memory_pressure_some_avg10_millipercent inputs)
                 (\<lambda>v. ht_max_memory_pressure_some_avg10_millipercent t \<le> v)) LowMemory
               ''memory_pressure_high'' ''memory PSI some avg10 exceeds daemon guardrail'' i;
         i = push_issue load Degraded
               ''load_average_high'' ''load average per CPU exceeds daemon guardrail'' i
     in push_issue (ht_max_ebpf_dropped_events t < hi_ebpf_dropped_events inputs) InstrumentationBroken
          ''drop_counters_high'' ''eBPF dropped event counters exceed daemon guardrail'' i)"

definition sort_issues :: "system_health_issue list \<Rightarrow> system_health_issue list" where
  "sort_issues issues = sort_key (\<lambda>i. - int (severity_rank (is_state i))) issues"

definition evaluate_system_health ::
  "nat \<Rightarrow> system_health_inputs \<Rightarrow> system_health_thresholds \<Rightarrow> system_health_snapshot option" where
  "evaluate_system_health now inputs thresholds =
     (case load_high inputs thresholds of
        None \<Rightarrow> None
      | Some load \<Rightarrow>
         (let issues = sort_issues (collect_issues inputs thresholds load);
              state = (case issues of [] \<Rightarrow> Healthy | i # _ \<Rightarrow> is_state i)
          in Some \<lparr>hs_state = state, hs_ok_for_apply = (\<not> blocks_apply state),
                   hs_reason_code = (case issues of [] \<Rightarrow> None | i # _ \<Rightarrow> Some (is_reason_code i)),
                   hs_unix_nanos = Some now, hs_inputs = inputs, hs_issues = issues\<rparr>))"

section \<open>Probing\<close>

text \<open>
  What the probe uses of the host: \<open>read_to_string\<close> and \<open>read_dir\<close> with their failures as \<open>None\<close>
  (entries that fail are skipped by \<open>flatten\<close>), and \<open>available_bytes_for_path\<close>, whose error is its
  message.
\<close>

record host_fs =
  hf_read :: "string \<Rightarrow> string option"
  hf_dir :: "string \<Rightarrow> string list option"
  hf_available :: "string \<Rightarrow> string + u64"

record system_health_probe_root =
  hp_proc_root :: string
  hp_sys_root :: string
  hp_disk_path :: string

definition default_probe_root :: system_health_probe_root where
  "default_probe_root = \<lparr>hp_proc_root = ''/proc'', hp_sys_root = ''/sys'', hp_disk_path = ''.''\<rparr>"

definition path_join :: "string \<Rightarrow> string \<Rightarrow> string" where
  "path_join base p =
     (if base = [] \<or> starts_with p ''/'' then p
      else if last base = CHR ''/'' then base @ p else base @ ''/'' @ p)"

definition read_trimmed :: "host_fs \<Rightarrow> string \<Rightarrow> string option" where
  "read_trimmed fs path =
     (case hf_read fs path of None \<Rightarrow> None
      | Some v \<Rightarrow> if trim v = [] then None else Some (trim v))"

definition update_max :: "int option \<Rightarrow> int \<Rightarrow> int option" where
  "update_max slot v = Some (case slot of None \<Rightarrow> v | Some current \<Rightarrow> max current v)"

definition parse_decimal_milli :: "string \<Rightarrow> u32 option" where
  "parse_decimal_milli v =
     (let (whole, fraction) = (case split_once CHR ''.'' v of Some p \<Rightarrow> p | None \<Rightarrow> (v, []))
      in case parse_u32 whole of None \<Rightarrow> None
         | Some whole \<Rightarrow>
           (let digits = take 3 fraction;
                digits = digits @ replicate (3 - length digits) CHR ''0''
            in case (if digits = [] then Some 0 else parse_u32 digits) of None \<Rightarrow> None
               | Some fraction \<Rightarrow> Some (saturating_add (saturating_mul whole 1000) fraction)))"

fun find_map :: "('a \<Rightarrow> 'b option) \<Rightarrow> 'a list \<Rightarrow> 'b option" where
  "find_map f [] = None"
| "find_map f (x # xs) = (case f x of Some y \<Rightarrow> Some y | None \<Rightarrow> find_map f xs)"

definition parse_pressure_avg10 :: "string \<Rightarrow> u32 option" where
  "parse_pressure_avg10 text =
     Option.bind (find (\<lambda>line. starts_with line ''some '') (str_lines text))
       (\<lambda>line. find_map (\<lambda>part. Option.bind (strip_prefix ''avg10='' part) parse_decimal_milli)
                 (split_whitespace line))"

definition add_temperature :: "bool \<Rightarrow> int \<Rightarrow> system_health_inputs \<Rightarrow> system_health_inputs" where
  "add_temperature gpu temp inputs =
     (if gpu then inputs\<lparr>hi_max_gpu_temp_millidegrees := update_max (hi_max_gpu_temp_millidegrees inputs) temp\<rparr>
      else inputs\<lparr>hi_max_cpu_temp_millidegrees := update_max (hi_max_cpu_temp_millidegrees inputs) temp\<rparr>)"

definition read_label :: "host_fs \<Rightarrow> string \<Rightarrow> string" where
  "read_label fs path =
     map to_lowercase (case read_trimmed fs path of None \<Rightarrow> [] | Some l \<Rightarrow> l)"

definition read_thermal_zone ::
  "host_fs \<Rightarrow> string \<Rightarrow> system_health_inputs \<Rightarrow> system_health_inputs" where
  "read_thermal_zone fs path inputs =
     (case Option.bind (read_trimmed fs (path_join path ''temp'')) parse_i64 of
        None \<Rightarrow> inputs
      | Some temp \<Rightarrow>
          add_temperature (str_contains (read_label fs (path_join path ''type'')) ''gpu'') temp inputs)"

definition read_thermal_zone_temperatures ::
  "host_fs \<Rightarrow> string \<Rightarrow> system_health_inputs \<Rightarrow> system_health_inputs" where
  "read_thermal_zone_temperatures fs base inputs =
     (case hf_dir fs base of None \<Rightarrow> inputs
      | Some entries \<Rightarrow> fold (\<lambda>e. read_thermal_zone fs (path_join base e)) entries inputs)"

definition read_hwmon_file ::
  "host_fs \<Rightarrow> string \<Rightarrow> string \<Rightarrow> string \<Rightarrow> system_health_inputs \<Rightarrow> system_health_inputs" where
  "read_hwmon_file fs chip_name path file_name inputs =
     (if \<not> starts_with file_name ''temp'' \<or> \<not> ends_with file_name ''_input'' then inputs
      else case Option.bind (read_trimmed fs (path_join path file_name)) parse_i64 of
        None \<Rightarrow> inputs
      | Some temp \<Rightarrow>
          add_temperature (str_contains chip_name ''gpu'' \<or> str_contains chip_name ''amdgpu''
              \<or> str_contains chip_name ''nvidia'') temp inputs)"

definition read_hwmon_chip ::
  "host_fs \<Rightarrow> string \<Rightarrow> system_health_inputs \<Rightarrow> system_health_inputs" where
  "read_hwmon_chip fs path inputs =
     (case hf_dir fs path of None \<Rightarrow> inputs
      | Some files \<Rightarrow>
          fold (read_hwmon_file fs (read_label fs (path_join path ''name'')) path) files inputs)"

definition read_hwmon_temperatures ::
  "host_fs \<Rightarrow> string \<Rightarrow> system_health_inputs \<Rightarrow> system_health_inputs" where
  "read_hwmon_temperatures fs base inputs =
     (case hf_dir fs base of None \<Rightarrow> inputs
      | Some entries \<Rightarrow> fold (\<lambda>e. read_hwmon_chip fs (path_join base e)) entries inputs)"

definition read_temperatures ::
  "host_fs \<Rightarrow> system_health_probe_root \<Rightarrow> system_health_inputs \<Rightarrow> system_health_inputs" where
  "read_temperatures fs base inputs =
     read_hwmon_temperatures fs (path_join (hp_sys_root base) ''class/hwmon'')
       (read_thermal_zone_temperatures fs (path_join (hp_sys_root base) ''class/thermal'') inputs)"

text \<open>One supply of \<open>read_power_supply\<close>; the accumulator is (battery, saw\_ac, ac\_online).\<close>

definition read_supply :: "host_fs \<Rightarrow> string \<Rightarrow> bool \<times> bool \<times> bool \<Rightarrow> bool \<times> bool \<times> bool" where
  "read_supply fs path acc =
     (case acc of (battery, saw_ac, ac_online) \<Rightarrow>
       (let supply_type = read_label fs (path_join path ''type'')
        in if supply_type = ''battery'' then (True, saw_ac, ac_online)
           else if supply_type \<in> {''mains'', ''usb'', ''usb_c'', ''usb-c'', ''ac''}
           then (battery, True, ac_online \<or> read_trimmed fs (path_join path ''online'') = Some ''1'')
           else acc))"

definition read_power_supply ::
  "host_fs \<Rightarrow> system_health_probe_root \<Rightarrow> system_health_inputs \<Rightarrow> system_health_inputs" where
  "read_power_supply fs base inputs =
     (let power_root = path_join (hp_sys_root base) ''class/power_supply''
      in case hf_dir fs power_root of None \<Rightarrow> inputs
         | Some entries \<Rightarrow>
            (case fold (\<lambda>e. read_supply fs (path_join power_root e)) entries
                    (hi_battery_present inputs, False, False) of
               (battery, saw_ac, ac_online) \<Rightarrow>
                 (let inputs = inputs\<lparr>hi_battery_present := battery\<rparr>
                  in if saw_ac then inputs\<lparr>hi_ac_online := Some ac_online\<rparr> else inputs)))"

definition read_proc_pressure ::
  "host_fs \<Rightarrow> system_health_probe_root \<Rightarrow> system_health_inputs \<Rightarrow> system_health_inputs" where
  "read_proc_pressure fs base inputs =
     (case read_trimmed fs (path_join (hp_proc_root base) ''pressure/memory'') of None \<Rightarrow> inputs
      | Some text \<Rightarrow>
          inputs\<lparr>hi_memory_pressure_some_avg10_millipercent := parse_pressure_avg10 text\<rparr>)"

definition read_load_average ::
  "host_fs \<Rightarrow> system_health_probe_root \<Rightarrow> system_health_inputs \<Rightarrow> system_health_inputs" where
  "read_load_average fs base inputs =
     (case read_trimmed fs (path_join (hp_proc_root base) ''loadavg'') of None \<Rightarrow> inputs
      | Some text \<Rightarrow>
          inputs\<lparr>hi_load_average_1m_milli :=
            (case split_whitespace text of [] \<Rightarrow> None | w # _ \<Rightarrow> parse_decimal_milli w)\<rparr>)"

definition is_cpu_line :: "string \<Rightarrow> bool" where
  "is_cpu_line line =
     (case strip_prefix ''cpu'' line of Some (c # _) \<Rightarrow> digit_val c \<noteq> None | _ \<Rightarrow> False)"

definition read_cpu_count ::
  "host_fs \<Rightarrow> system_health_probe_root \<Rightarrow> system_health_inputs \<Rightarrow> system_health_inputs" where
  "read_cpu_count fs base inputs =
     (case read_trimmed fs (path_join (hp_proc_root base) ''stat'') of None \<Rightarrow> inputs
      | Some text \<Rightarrow>
          (let count = length (filter is_cpu_line (str_lines text))
           in if 0 < count then inputs\<lparr>hi_cpu_count := Some count\<rparr> else inputs))"

definition read_disk_available ::
  "host_fs \<Rightarrow> system_health_probe_root \<Rightarrow> system_health_inputs \<Rightarrow> system_health_inputs" where
  "read_disk_available fs base inputs =
     (case hf_available fs (hp_disk_path base) of
        Inr bytes \<Rightarrow> inputs\<lparr>hi_disk_available_bytes := Some bytes\<rparr>
      | Inl err \<Rightarrow>
          inputs\<lparr>hi_probe_errors := hi_probe_errors inputs @ [''disk_available_probe_failed: '' @ err]\<rparr>)"

definition probe_inputs :: "host_fs \<Rightarrow> system_health_probe_root \<Rightarrow> system_health_inputs" where
  "probe_inputs fs base =
     (read_disk_available fs base \<circ> read_cpu_count fs base \<circ> read_load_average fs base
      \<circ> read_proc_pressure fs base \<circ> read_power_supply fs base \<circ> read_temperatures fs base)
     default_health_inputs"

definition probe ::
  "nat \<Rightarrow> host_fs \<Rightarrow> system_health_probe_root \<Rightarrow> system_health_thresholds \<Rightarrow> system_health_snapshot option" where
  "probe now fs base thresholds = evaluate_system_health now (probe_inputs fs base) thresholds"

section \<open>Lemmas on the evaluation\<close>

lemma is_some_and_simps [simp]: "is_some_and None p \<longleftrightarrow> False" "is_some_and (Some x) p \<longleftrightarrow> p x"
  by (simp_all add: is_some_and_def)

lemma in_push_issue [simp]:
  "i \<in> set (push_issue cond st code message issues) \<longleftrightarrow>
     cond \<and> i = \<lparr>is_state = st, is_reason_code = code, is_message = message\<rparr> \<or> i \<in> set issues"
  by (auto simp: push_issue_def)

lemma bex_push_issue [simp]:
  "(\<exists>i \<in> set (push_issue cond st code message issues). P i) \<longleftrightarrow>
     cond \<and> P \<lparr>is_state = st, is_reason_code = code, is_message = message\<rparr> \<or> (\<exists>i \<in> set issues. P i)"
  by (auto simp: push_issue_def)

lemma push_issue_Nil_iff [simp]: "push_issue cond st code message issues = [] \<longleftrightarrow> \<not> cond \<and> issues = []"
  by (simp add: push_issue_def)

text \<open>The guard as the policy reads it: no condition of the evaluation trips.\<close>

definition health_guard_ok :: "system_health_inputs \<Rightarrow> system_health_thresholds \<Rightarrow> bool" where
  "health_guard_ok inputs t \<longleftrightarrow>
     hi_probe_errors inputs = [] \<and> \<not> hi_suspended_or_resumed inputs
     \<and> \<not> is_some_and (hi_max_cpu_temp_millidegrees inputs) (\<lambda>v. ht_max_cpu_temp_millidegrees t \<le> v)
     \<and> \<not> is_some_and (hi_max_gpu_temp_millidegrees inputs) (\<lambda>v. ht_max_gpu_temp_millidegrees t \<le> v)
     \<and> \<not> is_some_and (hi_disk_available_bytes inputs) (\<lambda>v. v < ht_min_disk_available_bytes t)
     \<and> \<not> is_some_and (hi_memory_pressure_some_avg10_millipercent inputs)
           (\<lambda>v. ht_max_memory_pressure_some_avg10_millipercent t \<le> v)
     \<and> load_high inputs t = Some False
     \<and> hi_ebpf_dropped_events inputs \<le> ht_max_ebpf_dropped_events t"

lemma collect_issues_Nil_iff:
  "load_high inputs t = Some load \<Longrightarrow> collect_issues inputs t load = [] \<longleftrightarrow> health_guard_ok inputs t"
  by (auto simp: collect_issues_def health_guard_ok_def Let_def)

lemma collect_issues_not_healthy: "i \<in> set (collect_issues inputs t load) \<Longrightarrow> is_state i \<noteq> Healthy"
  by (auto simp: collect_issues_def Let_def)

lemma sort_issues_simps [simp]:
  "set (sort_issues is) = set is" "sort_issues is = [] \<longleftrightarrow> is = []"
  by (simp_all add: sort_issues_def flip: set_empty2)

lemma sort_issues_hd_worst:
  "sort_issues is = w # ws \<Longrightarrow> i \<in> set is \<Longrightarrow> severity_rank (is_state i) \<le> severity_rank (is_state w)"
  using sorted_sort_key [of "\<lambda>i. - int (severity_rank (is_state i))" "is"]
    set_sort [of "\<lambda>i. - int (severity_rank (is_state i))" "is"]
  by (auto simp: sort_issues_def)

lemma evaluate_cases:
  assumes "evaluate_system_health now inputs t = Some snap"
  obtains load where
    "load_high inputs t = Some load"
    "hs_issues snap = sort_issues (collect_issues inputs t load)"
    "hs_state snap = (case hs_issues snap of [] \<Rightarrow> Healthy | i # _ \<Rightarrow> is_state i)"
    "hs_reason_code snap = (case hs_issues snap of [] \<Rightarrow> None | i # _ \<Rightarrow> Some (is_reason_code i))"
    "hs_ok_for_apply snap \<longleftrightarrow> hs_state snap = Healthy"
  using assms by (auto simp: evaluate_system_health_def blocks_apply_def Let_def split: option.splits)

lemma evaluate_healthy_iff_no_issues:
  assumes "evaluate_system_health now inputs t = Some snap"
  shows "hs_state snap = Healthy \<longleftrightarrow> hs_issues snap = []"
proof -
  obtain load where iss: "hs_issues snap = sort_issues (collect_issues inputs t load)"
    and st: "hs_state snap = (case hs_issues snap of [] \<Rightarrow> Healthy | i # _ \<Rightarrow> is_state i)"
    using assms by (rule evaluate_cases)
  have "\<forall>i \<in> set (hs_issues snap). is_state i \<noteq> Healthy"
    using iss collect_issues_not_healthy by simp
  with st show ?thesis
    by (auto split: list.splits)
qed

lemma evaluate_state_worst:
  assumes "evaluate_system_health now inputs t = Some snap" "i \<in> set (hs_issues snap)"
  shows "severity_rank (is_state i) \<le> severity_rank (hs_state snap)"
proof -
  obtain load where iss: "hs_issues snap = sort_issues (collect_issues inputs t load)"
    and st: "hs_state snap = (case hs_issues snap of [] \<Rightarrow> Healthy | i # _ \<Rightarrow> is_state i)"
    using assms(1) by (rule evaluate_cases)
  show ?thesis
    using assms(2) iss st sort_issues_hd_worst [of "collect_issues inputs t load"]
    by (auto split: list.splits)
qed

lemma evaluate_panics_iff:
  "evaluate_system_health now inputs t = None \<longleftrightarrow>
     (\<exists>load cpus. hi_load_average_1m_milli inputs = Some load \<and> hi_cpu_count inputs = Some cpus
        \<and> 0 < cpus \<and> 2 ^ 32 dvd cpus)"
proof -
  have "of_nat (max cpus 1) = (0 :: u32) \<longleftrightarrow> 0 < cpus \<and> 2 ^ 32 dvd cpus" for cpus :: nat
    by (cases "cpus = 0") (auto simp: max_def word_of_nat_eq_0_iff)
  then show ?thesis
    by (auto simp: evaluate_system_health_def load_high_def Let_def split: option.splits)
qed

section \<open>Lemmas on the probe\<close>

text \<open>The inputs carry a reading at least as hot as \<open>temp\<close>.\<close>

definition covers_temp :: "int \<Rightarrow> system_health_inputs \<Rightarrow> bool" where
  "covers_temp temp inputs \<longleftrightarrow>
     is_some_and (hi_max_cpu_temp_millidegrees inputs) (\<lambda>v. temp \<le> v)
     \<or> is_some_and (hi_max_gpu_temp_millidegrees inputs) (\<lambda>v. temp \<le> v)"

named_theorems probe_temps \<open>how the probe steps treat the temperature readings\<close>

lemma covers_add_temperature [probe_temps]:
  "covers_temp temp inputs \<Longrightarrow> covers_temp temp (add_temperature gpu v inputs)"
  by (auto simp: covers_temp_def add_temperature_def update_max_def is_some_and_def split: option.splits)

lemma covers_add_temperature_self: "covers_temp temp (add_temperature gpu temp inputs)"
  by (auto simp: covers_temp_def add_temperature_def update_max_def split: option.splits)

lemma covers_read_thermal_zone [probe_temps]:
  "covers_temp temp inputs \<Longrightarrow> covers_temp temp (read_thermal_zone fs path inputs)"
  by (auto simp: read_thermal_zone_def probe_temps split: option.splits)

lemma covers_read_hwmon_file [probe_temps]:
  "covers_temp temp inputs \<Longrightarrow> covers_temp temp (read_hwmon_file fs chip path file inputs)"
  by (auto simp: read_hwmon_file_def probe_temps split: option.splits)

lemma covers_read_hwmon_chip [probe_temps]:
  "covers_temp temp inputs \<Longrightarrow> covers_temp temp (read_hwmon_chip fs path inputs)"
  by (auto simp: read_hwmon_chip_def intro!: fold_preserves probe_temps split: option.splits)

lemma covers_read_hwmon_temperatures [probe_temps]:
  "covers_temp temp inputs \<Longrightarrow> covers_temp temp (read_hwmon_temperatures fs base inputs)"
  by (auto simp: read_hwmon_temperatures_def intro!: fold_preserves probe_temps split: option.splits)

lemma covers_other_reads [probe_temps]:
  "covers_temp temp (read_power_supply fs base inputs) = covers_temp temp inputs"
  "covers_temp temp (read_proc_pressure fs base inputs) = covers_temp temp inputs"
  "covers_temp temp (read_load_average fs base inputs) = covers_temp temp inputs"
  "covers_temp temp (read_cpu_count fs base inputs) = covers_temp temp inputs"
  "covers_temp temp (read_disk_available fs base inputs) = covers_temp temp inputs"
  by (auto simp: covers_temp_def read_power_supply_def read_proc_pressure_def read_load_average_def
      read_cpu_count_def read_disk_available_def Let_def split: option.splits sum.splits prod.splits)

lemma cpu_count_temperature_steps [simp]:
  "hi_cpu_count (add_temperature gpu v inputs) = hi_cpu_count inputs"
  "hi_cpu_count (read_thermal_zone fs path inputs) = hi_cpu_count inputs"
  "hi_cpu_count (read_hwmon_file fs chip path file inputs) = hi_cpu_count inputs"
  by (auto simp: add_temperature_def read_thermal_zone_def read_hwmon_file_def split: option.splits)

lemma cpu_count_fold:
  "(\<And>x s. hi_cpu_count (f x s) = hi_cpu_count s) \<Longrightarrow> hi_cpu_count (fold f xs s) = hi_cpu_count s"
  by (rule fold_preserves [where P = "\<lambda>t. hi_cpu_count t = hi_cpu_count s"]) auto

lemma cpu_count_read_temperatures [simp]:
  "hi_cpu_count (read_temperatures fs base inputs) = hi_cpu_count inputs"
  by (auto simp: read_temperatures_def read_hwmon_temperatures_def read_thermal_zone_temperatures_def
      read_hwmon_chip_def cpu_count_fold split: option.splits)

lemma cpu_count_other_reads [simp]:
  "hi_cpu_count (read_power_supply fs base inputs) = hi_cpu_count inputs"
  "hi_cpu_count (read_proc_pressure fs base inputs) = hi_cpu_count inputs"
  "hi_cpu_count (read_load_average fs base inputs) = hi_cpu_count inputs"
  "hi_cpu_count (read_disk_available fs base inputs) = hi_cpu_count inputs"
  by (auto simp: read_power_supply_def read_proc_pressure_def read_load_average_def
      read_disk_available_def Let_def split: option.splits sum.splits prod.splits)

lemma probe_cpu_count_None:
  "hf_read fs (path_join (hp_proc_root base) ''stat'') = None \<Longrightarrow> hi_cpu_count (probe_inputs fs base) = None"
  by (simp add: probe_inputs_def read_cpu_count_def read_trimmed_def default_health_inputs_def)

lemma probe_covers_thermal_zone:
  assumes "hf_dir fs (path_join (hp_sys_root base) ''class/thermal'') = Some zones" "z \<in> set zones"
    and "Option.bind (read_trimmed fs
           (path_join (path_join (path_join (hp_sys_root base) ''class/thermal'') z) ''temp'')) parse_i64 = Some temp"
  shows "covers_temp temp (probe_inputs fs base)"
proof -
  let ?dir = "path_join (hp_sys_root base) ''class/thermal''"
  have "covers_temp temp (fold (\<lambda>e. read_thermal_zone fs (path_join ?dir e)) zones inputs)" for inputs
    using assms(2)
  proof (rule fold_establishes)
    show "covers_temp temp (read_thermal_zone fs (path_join ?dir z) s)" for s
      using assms(3) by (simp add: read_thermal_zone_def covers_add_temperature_self)
  qed (rule probe_temps)
  then show ?thesis
    using assms(1)
    by (simp add: probe_inputs_def read_temperatures_def read_thermal_zone_temperatures_def probe_temps)
qed

lemma covers_temp_overheats:
  assumes "covers_temp temp inputs" "evaluate_system_health now inputs t = Some snap"
    and "ht_max_cpu_temp_millidegrees t \<le> temp" "ht_max_gpu_temp_millidegrees t \<le> temp"
  shows "hs_state snap = Overheated \<and> \<not> hs_ok_for_apply snap"
proof -
  obtain load where iss: "hs_issues snap = sort_issues (collect_issues inputs t load)"
    and ok: "hs_ok_for_apply snap \<longleftrightarrow> hs_state snap = Healthy"
    using assms(2) by (rule evaluate_cases)
  have "is_some_and (hi_max_cpu_temp_millidegrees inputs) (\<lambda>v. ht_max_cpu_temp_millidegrees t \<le> v)
      \<or> is_some_and (hi_max_gpu_temp_millidegrees inputs) (\<lambda>v. ht_max_gpu_temp_millidegrees t \<le> v)"
    using assms(1,3,4) by (auto simp: covers_temp_def is_some_and_def split: option.splits)
  then have "\<exists>i \<in> set (collect_issues inputs t load). is_state i = Overheated"
    by (auto simp: collect_issues_def Let_def)
  then obtain i where "i \<in> set (hs_issues snap)" "is_state i = Overheated"
    using iss by auto
  then have "severity_rank Overheated \<le> severity_rank (hs_state snap)"
    using evaluate_state_worst [OF assms(2)] by fastforce
  then have "hs_state snap = Overheated"
    by (cases "hs_state snap") auto
  with ok show ?thesis
    by simp
qed

lemma split_once_append: "sep \<notin> set a \<Longrightarrow> split_once sep (a @ sep # b) = Some (a, b)"
  by (induction a) auto

lemma dot_not_in_show_nat: "CHR ''.'' \<notin> set (show_nat n)"
  using show_nat_digits [of "CHR ''.''" n] by (auto simp: digit_val_def)

lemma parse_digits_two:
  "a < 10 \<Longrightarrow> b < 10 \<Longrightarrow> parse_digits 0 [digit_char a, digit_char b, CHR ''0''] = Some (100 * a + 10 * b)"
  by (simp add: digit_val_def [of "CHR ''0''"])

lemma digit_char_not_plus: "d < 10 \<Longrightarrow> digit_char d \<noteq> CHR ''+''"
  using digit_val_digit_char [of d] by (auto simp: digit_val_def)

lemma parse_u32_two:
  assumes "a < 10" "b < 10"
  shows "parse_u32 [digit_char a, digit_char b, CHR ''0''] = Some (of_nat (100 * a + 10 * b))"
proof -
  have "100 * a + 10 * b < 2 ^ 32"
    using assms by simp
  then show ?thesis
    using assms parse_digits_two [OF assms] digit_char_not_plus [OF assms(1)]
    by (simp add: parse_u32_def parse_bits_def parse_nat_def)
qed

section \<open>Properties\<close>

text \<open>
  The health gate is exact: whenever the evaluation returns, \<open>ok_for_apply\<close> holds if and only if no
  probe error was reported, the machine did not just suspend or resume, and every reading that is
  present is inside its guardrail.
\<close>

theorem evaluate_ok_iff:
  assumes "evaluate_system_health now inputs t = Some snap"
  shows "hs_ok_for_apply snap \<longleftrightarrow> health_guard_ok inputs t"
proof -
  obtain load where "load_high inputs t = Some load"
    and "hs_issues snap = sort_issues (collect_issues inputs t load)"
    and "hs_ok_for_apply snap \<longleftrightarrow> hs_state snap = Healthy"
    using assms by (rule evaluate_cases)
  then show ?thesis
    using evaluate_healthy_iff_no_issues [OF assms] by (simp add: collect_issues_Nil_iff)
qed

theorem evaluate_ok_iff_witness:
  "\<exists>snap. evaluate_system_health 7 default_health_inputs default_health_thresholds = Some snap
     \<and> (hs_ok_for_apply snap \<longleftrightarrow> health_guard_ok default_health_inputs default_health_thresholds)"
proof -
  obtain snap where "evaluate_system_health 7 default_health_inputs default_health_thresholds = Some snap"
    by (simp add: evaluate_system_health_def load_high_def default_health_inputs_def Let_def)
  with evaluate_ok_iff [OF this] show ?thesis
    by blast
qed

text \<open>
  An overheating zone cannot be missed: if any entry of \<open>class/thermal\<close> has a readable temperature
  at or above both guardrails, the snapshot that the probe returns is in state \<open>Overheated\<close> and blocks
  apply, whatever the other sensors, files and supplies report.
\<close>

theorem probe_detects_overheated_zone:
  assumes "hf_dir fs (path_join (hp_sys_root base) ''class/thermal'') = Some zones" "z \<in> set zones"
    and "Option.bind (read_trimmed fs
           (path_join (path_join (path_join (hp_sys_root base) ''class/thermal'') z) ''temp'')) parse_i64 = Some temp"
    and "ht_max_cpu_temp_millidegrees t \<le> temp" "ht_max_gpu_temp_millidegrees t \<le> temp"
    and "probe now fs base t = Some snap"
  shows "hs_state snap = Overheated \<and> \<not> hs_ok_for_apply snap"
  using covers_temp_overheats [OF probe_covers_thermal_zone [OF assms(1-3)] _ assms(4,5)] assms(6)
  by (simp add: probe_def)

definition witness_fs :: host_fs where
  "witness_fs =
     \<lparr>hf_read = (\<lambda>p. if p = ''/sys/class/thermal/zone0/temp'' then Some ''95000'' else None),
      hf_dir = (\<lambda>p. if p = ''/sys/class/thermal'' then Some [''zone0''] else None),
      hf_available = (\<lambda>p. Inr 0)\<rparr>"

theorem probe_detects_overheated_zone_witness:
  "\<exists>snap. probe 1 witness_fs default_probe_root default_health_thresholds = Some snap
     \<and> hs_state snap = Overheated \<and> \<not> hs_ok_for_apply snap"
proof -
  have d: "hf_dir witness_fs (path_join (hp_sys_root default_probe_root) ''class/thermal'') = Some [''zone0'']"
    by code_simp
  have r: "Option.bind (read_trimmed witness_fs
      (path_join (path_join (path_join (hp_sys_root default_probe_root) ''class/thermal'') ''zone0'') ''temp''))
      parse_i64 = Some 95000"
    by (simp add: witness_fs_def default_probe_root_def path_join_def starts_with_def read_trimmed_def
        trim_def trim_start_def is_whitespace_def parse_i64_def parse_signed_def parse_bits_def parse_nat_def digit_val_def)
  have cs: "hi_cpu_count (probe_inputs witness_fs default_probe_root) = None"
    by (simp add: probe_cpu_count_None witness_fs_def default_probe_root_def path_join_def starts_with_def)
  obtain snap where s: "probe 1 witness_fs default_probe_root default_health_thresholds = Some snap"
    using evaluate_panics_iff [of 1 "probe_inputs witness_fs default_probe_root" default_health_thresholds] cs
    by (auto simp: probe_def)
  have "hs_state snap = Overheated \<and> \<not> hs_ok_for_apply snap"
    by (rule probe_detects_overheated_zone [OF d _ r _ _ s]) (simp_all add: default_health_thresholds_def)
  with s show ?thesis
    by blast
qed

text \<open>
  The decimal parser is exact on the kernel's \<open>%lu.%02lu\<close> format (\<open>loadavg\<close>, PSI averages): the result
  is the value in thousandths, saturated at the 32-bit maximum.
\<close>

theorem parse_decimal_milli_kernel_format:
  assumes "w < 2 ^ 32" "a < 10" "b < 10"
  shows "\<exists>v. parse_decimal_milli (show_nat w @ ''.'' @ [digit_char a, digit_char b]) = Some v
           \<and> unat v = min (1000 * w + 100 * a + 10 * b) (2 ^ 32 - 1)"
proof -
  have "unat (of_nat (100 * a + 10 * b) :: u32) = 100 * a + 10 * b"
    using assms by (intro unat_of_nat_eq) simp
  moreover have "unat (of_nat w :: u32) = w"
    using assms by (simp add: unat_of_nat_eq)
  ultimately have "unat (saturating_add (saturating_mul (of_nat w) 1000) (of_nat (100 * a + 10 * b)) :: u32)
      = min (1000 * w + 100 * a + 10 * b) (2 ^ 32 - 1)"
    by (simp add: word_sat)
  then show ?thesis
    using assms parse_u32_two [OF assms(2,3)]
    by (simp add: parse_decimal_milli_def split_once_append dot_not_in_show_nat parse_u32_def [of "show_nat w"]
        parse_bits_show_nat Let_def del: of_nat_add)
qed

theorem parse_decimal_milli_kernel_format_witness:
  "\<exists>v. parse_decimal_milli (show_nat 12 @ ''.'' @ [digit_char 3, digit_char 4]) = Some v
     \<and> unat v = min (1000 * 12 + 100 * 3 + 10 * 4) (2 ^ 32 - 1)"
  by (rule parse_decimal_milli_kernel_format) simp_all

end
