(* ===== verification/Daemon_Policy.thy ===== *)
theory Daemon_Policy
  imports Daemon_Config System_Health
begin

text \<open>
  The daemon policy (\<open>stutter/src/daemon/policy.rs\<close> and \<open>stutter/src/daemon/policy/\<close>): building a policy
  from the configuration and the remote limits, and evaluating an action descriptor against it. The
  two accumulators of the evaluation (\<open>evaluated_rules\<close>, \<open>first_rejection\<close>) are threaded as a pair.
\<close>

section \<open>Data\<close>

record daemon_capabilities =
  ca_kernel_release :: "string option"
  ca_btf_available :: bool
  ca_sched_tracepoints_available :: bool
  ca_perf_permissions_likely :: bool
  ca_perf_event_paranoid :: "int option"
  ca_cgroup_v2_available :: bool
  ca_sched_ext_available :: bool
  ca_uclamp_available :: bool
  ca_ionice_available :: bool
  ca_irq_affinity_available :: bool
  ca_gpu_sysfs_available :: bool
  ca_privileged_worker_socket_reachable :: "bool option"

definition unavailable_features :: "daemon_capabilities \<Rightarrow> string list" where
  "unavailable_features c =
     (if ca_btf_available c then [] else [''btf''])
     @ (if ca_sched_tracepoints_available c then [] else [''sched_tracepoints''])
     @ (if ca_perf_permissions_likely c then [] else [''perf_permissions''])
     @ (if ca_cgroup_v2_available c then [] else [''cgroup_v2''])
     @ (if ca_sched_ext_available c then [] else [''sched_ext''])
     @ (if ca_uclamp_available c then [] else [''uclamp''])
     @ (if ca_ionice_available c then [] else [''ionice''])
     @ (if ca_irq_affinity_available c then [] else [''irq_affinity''])
     @ (if ca_gpu_sysfs_available c then [] else [''gpu_sysfs''])"

record agent_autotune_limits =
  li_max_active_controllers :: usize
  li_max_mode :: daemon_mode
  li_max_safety_class :: safety_class
  li_allow_high_risk :: bool
  li_max_candidate_window_seconds :: u64
  li_max_targets :: usize
  li_allow_system_wide_suggestions :: bool
  li_allow_system_wide_apply :: bool

definition default_autotune_limits :: agent_autotune_limits where
  "default_autotune_limits =
     \<lparr>li_max_active_controllers = 1, li_max_mode = Mode_ApplyLowRisk,
      li_max_safety_class = SC_ReversibleLowRisk, li_allow_high_risk = False,
      li_max_candidate_window_seconds = 120, li_max_targets = 1,
      li_allow_system_wide_suggestions = False, li_allow_system_wide_apply = False\<rparr>"

definition parse_legacy_safety_class :: "string option \<Rightarrow> string + safety_class" where
  "parse_legacy_safety_class v =
     (if v \<in> {Some ''ObserveOnly'', Some ''observe_only''} then Inr SC_ObserveOnly
      else if v \<in> {Some ''ReversibleMediumRisk'', Some ''reversible_medium_risk''}
      then Inr SC_ReversibleMediumRisk
      else if v \<in> {Some ''HighRisk'', Some ''high_risk''} then Inr SC_HighRisk
      else case v of
        None \<Rightarrow> Inr SC_ReversibleLowRisk
      | Some other \<Rightarrow>
          if other \<in> {''ReversibleLowRisk'', ''reversible_low_risk''} then Inr SC_ReversibleLowRisk
          else Inl other)"

fun mode_for_safety_class :: "safety_class \<Rightarrow> daemon_mode" where
  "mode_for_safety_class SC_ObserveOnly = Mode_Suggest"
| "mode_for_safety_class SC_ReversibleLowRisk = Mode_ApplyLowRisk"
| "mode_for_safety_class SC_ReversibleMediumRisk = Mode_ApplyMediumRisk"
| "mode_for_safety_class SC_HighRisk = Mode_ApplyHighRisk"

record remote_policy_context =
  rx_bind_is_loopback :: bool
  rx_auth_configured :: bool
  rx_request_authorized :: bool
  rx_limits :: agent_autotune_limits

record daemon_policy_context =
  px_data_quality_ok :: bool
  px_data_quality_reason_code :: "string option"
  px_system_health_ok :: bool
  px_system_health_reason_code :: "string option"
  px_workload_stable :: bool
  px_cooldown_active :: bool
  px_rollback_pending :: bool
  px_capabilities :: "daemon_capabilities option"

definition default_policy_context :: daemon_policy_context where
  "default_policy_context =
     \<lparr>px_data_quality_ok = True, px_data_quality_reason_code = None, px_system_health_ok = True,
      px_system_health_reason_code = None, px_workload_stable = True, px_cooldown_active = False,
      px_rollback_pending = False, px_capabilities = None\<rparr>"

definition with_system_health ::
  "daemon_policy_context \<Rightarrow> system_health_snapshot \<Rightarrow> daemon_policy_context" where
  "with_system_health c health =
     c\<lparr>px_system_health_ok := hs_ok_for_apply health, px_system_health_reason_code := hs_reason_code health\<rparr>"

record remote_apply_policy =
  ra_allow_remote_apply :: bool
  ra_remote_apply_enabled :: bool
  ra_require_loopback_bind :: bool
  ra_require_auth :: bool
  ra_max_remote_targets :: usize
  ra_target_count :: usize
  ra_target_count_allowed :: bool
  ra_mode_supported_by_limits :: bool
  ra_auth_configured :: bool
  ra_request_authorized :: bool
  ra_bind_is_loopback :: bool

definition default_remote_apply_policy :: remote_apply_policy where
  "default_remote_apply_policy =
     \<lparr>ra_allow_remote_apply = False, ra_remote_apply_enabled = False, ra_require_loopback_bind = True,
      ra_require_auth = True, ra_max_remote_targets = 1, ra_target_count = 0,
      ra_target_count_allowed = True, ra_mode_supported_by_limits = False, ra_auth_configured = False,
      ra_request_authorized = False, ra_bind_is_loopback = False\<rparr>"

record daemon_policy =
  dp_mode :: daemon_mode
  dp_source :: action_source
  dp_max_safety_class :: safety_class
  dp_allowed_effect_scopes :: "action_effect_scope set"
  dp_enabled_action_families :: "string set"
  dp_denied_action_families :: "string set"
  dp_cgroup_targets :: daemon_cgroup_targets_config
  dp_system_wide_allowlist :: daemon_system_wide_allowlist_config
  dp_rollback_required_before_apply :: bool
  dp_allow_medium_risk_apply :: bool
  dp_allow_system_wide_suggestions :: bool
  dp_allow_system_wide_apply :: bool
  dp_allow_high_risk :: bool
  dp_allow_persistent_effects :: bool
  dp_allow_cpu_power_on_battery :: bool
  dp_allow_gpu_power_in_autotune :: bool
  dp_allow_vm_knobs_in_autotune :: bool
  dp_high_risk_dry_run :: bool
  dp_min_confidence :: f32
  dp_confidence :: daemon_candidate_confidence_config
  dp_remote_apply :: remote_apply_policy

definition HIGH_RISK_APPLY_IMPLEMENTED :: bool where
  "HIGH_RISK_APPLY_IMPLEMENTED = False"

section \<open>Capabilities\<close>

definition action_kind_matches_family :: "string \<Rightarrow> string \<Rightarrow> bool" where
  "action_kind_matches_family action_kind family \<longleftrightarrow>
     action_kind = family
     \<or> (case strip_prefix family action_kind of None \<Rightarrow> False | Some suffix \<Rightarrow> family_separator suffix)"

definition unavailable_capability_for_action ::
  "string \<Rightarrow> daemon_capabilities \<Rightarrow> string option" where
  "unavailable_capability_for_action k c =
     (if action_kind_matches_family k ''ionice'' \<and> \<not> ca_ionice_available c then Some ''ionice''
      else if action_kind_matches_family k ''uclamp'' \<and> \<not> ca_uclamp_available c then Some ''uclamp''
      else if (action_kind_matches_family k ''irq'' \<or> action_kind_matches_family k ''irq_affinity'')
        \<and> \<not> ca_irq_affinity_available c then Some ''irq_affinity''
      else if (action_kind_matches_family k ''cgroup'' \<or> action_kind_matches_family k ''cpuset'')
        \<and> \<not> ca_cgroup_v2_available c then Some ''cgroup_v2''
      else if (action_kind_matches_family k ''gpu'' \<or> action_kind_matches_family k ''gpu_power'')
        \<and> \<not> ca_gpu_sysfs_available c then Some ''gpu_sysfs''
      else if action_kind_matches_family k ''scx'' \<and> \<not> ca_sched_ext_available c then Some ''sched_ext''
      else if (action_kind_matches_family k ''cpu_perf'' \<or> action_kind_matches_family k ''perf'')
        \<and> \<not> ca_perf_permissions_likely c then Some ''perf_permissions''
      else None)"

section \<open>Building a policy\<close>

fun max_safety_class_for_mode :: "daemon_mode \<Rightarrow> safety_class" where
  "max_safety_class_for_mode Mode_Observe = SC_ObserveOnly"
| "max_safety_class_for_mode Mode_Suggest = SC_HighRisk"
| "max_safety_class_for_mode Mode_ApplyLowRisk = SC_ReversibleLowRisk"
| "max_safety_class_for_mode Mode_ApplyMediumRisk = SC_ReversibleMediumRisk"
| "max_safety_class_for_mode Mode_ApplyHighRisk = SC_HighRisk"

fun allowed_effect_scopes_for_mode :: "daemon_mode \<Rightarrow> action_effect_scope set" where
  "allowed_effect_scopes_for_mode Mode_ApplyLowRisk = {Scope_LocalProcess, Scope_LocalProcessTree}"
| "allowed_effect_scopes_for_mode Mode_ApplyMediumRisk =
     {Scope_LocalProcess, Scope_LocalProcessTree, Scope_Cgroup, Scope_Irq, Scope_CpuPower,
      Scope_GpuPower, Scope_VmKnob}"
| "allowed_effect_scopes_for_mode _ =
     {Scope_ObserveOnly, Scope_LocalProcess, Scope_LocalProcessTree, Scope_UserStateFile,
      Scope_Cgroup, Scope_Irq, Scope_Sysfs, Scope_CpuPower, Scope_GpuPower, Scope_VmKnob,
      Scope_SystemWide}"

definition min_confidence_for_config :: "daemon_config \<Rightarrow> f32" where
  "min_confidence_for_config c =
     (if f32_lt (Fin 0) (sf_min_confidence (dc_safety c)) then sf_min_confidence (dc_safety c)
      else if supports_apply (dc_mode c) then DEFAULT_MIN_FOCUS_CONFIDENCE
      else Fin 0)"

definition confidence_thresholds_for_config ::
  "daemon_config \<Rightarrow> f32 \<Rightarrow> daemon_candidate_confidence_config" where
  "confidence_thresholds_for_config c min_confidence =
     (let configured = au_confidence (dc_autotune c)
      in \<lparr>cc_min_suggest_confidence = cc_min_suggest_confidence configured,
          cc_min_apply_low_risk_confidence =
            f32_max (cc_min_apply_low_risk_confidence configured) min_confidence,
          cc_min_apply_medium_risk_confidence =
            f32_max (f32_max (cc_min_apply_medium_risk_confidence configured) min_confidence) f32_0_85,
          cc_min_high_risk_suggestion_confidence = cc_min_high_risk_suggestion_confidence configured\<rparr>)"

definition remote_mode_supported_by_context ::
  "daemon_mode \<Rightarrow> remote_policy_context \<Rightarrow> bool" where
  "remote_mode_supported_by_context mode x \<longleftrightarrow>
     mode \<le> li_max_mode (rx_limits x)
     \<and> max_safety_class_for_mode mode \<le> li_max_safety_class (rx_limits x)
     \<and> (mode \<noteq> Mode_ApplyHighRisk
        \<or> (HIGH_RISK_APPLY_IMPLEMENTED \<and> li_allow_high_risk (rx_limits x)))"

definition remote_target_count_for_config :: "daemon_config \<Rightarrow> usize" where
  "remote_target_count_for_config c =
     length (dt_target_pids (dc_target c)) + length (dt_tree_pids (dc_target c))
     + (if dt_watch_process (dc_target c) \<noteq> None then 1 else 0)"

definition remote_apply_policy_for_config ::
  "daemon_config \<Rightarrow> remote_policy_context option \<Rightarrow> remote_apply_policy" where
  "remote_apply_policy_for_config c remote_context =
     (case remote_context of
        None \<Rightarrow> default_remote_apply_policy
      | Some x \<Rightarrow>
          (let mode_supported = remote_mode_supported_by_context (dc_mode c) x;
               auth_allowed = (\<not> rc_require_auth_for_apply (dc_remote c)
                               \<or> (rx_auth_configured x \<and> rx_request_authorized x));
               bind_allowed = (rc_allow_non_loopback_apply (dc_remote c) \<or> rx_bind_is_loopback x);
               target_count = remote_target_count_for_config c;
               target_count_allowed = (target_count \<le> li_max_targets (rx_limits x))
           in \<lparr>ra_allow_remote_apply =
                 (rc_allow_remote_apply (dc_remote c) \<and> supports_apply (dc_mode c) \<and> mode_supported
                  \<and> auth_allowed \<and> bind_allowed \<and> target_count_allowed),
               ra_remote_apply_enabled = rc_allow_remote_apply (dc_remote c),
               ra_require_loopback_bind =
                 (supports_apply (dc_mode c) \<and> \<not> rc_allow_non_loopback_apply (dc_remote c)),
               ra_require_auth = (supports_apply (dc_mode c) \<and> rc_require_auth_for_apply (dc_remote c)),
               ra_max_remote_targets = li_max_targets (rx_limits x),
               ra_target_count = target_count,
               ra_target_count_allowed = target_count_allowed,
               ra_mode_supported_by_limits = mode_supported,
               ra_auth_configured = rx_auth_configured x,
               ra_request_authorized = rx_request_authorized x,
               ra_bind_is_loopback = rx_bind_is_loopback x\<rparr>))"

definition build_daemon_policy ::
  "daemon_config \<Rightarrow> remote_policy_context option \<Rightarrow> daemon_policy" where
  "build_daemon_policy c remote_context =
     (let mode_max = max_safety_class_for_mode (dc_mode c);
          max_class = (case remote_context of
              Some x \<Rightarrow> if li_max_safety_class (rx_limits x) < mode_max
                        then li_max_safety_class (rx_limits x) else mode_max
            | None \<Rightarrow> mode_max);
          min_confidence = min_confidence_for_config c;
          confidence = confidence_thresholds_for_config c min_confidence;
          allow_high_risk = (HIGH_RISK_APPLY_IMPLEMENTED \<and> dc_mode c = Mode_ApplyHighRisk
                             \<and> sf_allow_high_risk (dc_safety c));
          allow_medium = (dc_mode c = Mode_ApplyMediumRisk \<and> au_allow_medium_risk_apply (dc_autotune c));
          allow_sw_suggest = (dc_mode c \<noteq> Mode_Observe \<and> sf_allow_system_wide_suggestions (dc_safety c));
          allow_sw_apply = (sf_allow_system_wide_apply (dc_safety c)
             \<and> (dc_mode c = Mode_ApplyMediumRisk
                \<or> (HIGH_RISK_APPLY_IMPLEMENTED \<and> dc_mode c = Mode_ApplyHighRisk
                    \<and> sf_allow_high_risk (dc_safety c))));
          (allow_sw_suggest, allow_sw_apply, allow_high_risk) =
            (case remote_context of
               Some x \<Rightarrow> (allow_sw_suggest \<and> li_allow_system_wide_suggestions (rx_limits x),
                          allow_sw_apply \<and> li_allow_system_wide_apply (rx_limits x),
                          allow_high_risk \<and> li_allow_high_risk (rx_limits x))
             | None \<Rightarrow> (allow_sw_suggest, allow_sw_apply, allow_high_risk))
      in \<lparr>dp_mode = dc_mode c, dp_source = dc_source c, dp_max_safety_class = max_class,
          dp_allowed_effect_scopes = allowed_effect_scopes_for_mode (dc_mode c),
          dp_enabled_action_families = sf_enabled_action_families (dc_safety c),
          dp_denied_action_families = sf_denied_action_families (dc_safety c),
          dp_cgroup_targets = sf_cgroup_targets (dc_safety c),
          dp_system_wide_allowlist = sf_system_wide_allowlist (dc_safety c),
          dp_rollback_required_before_apply = supports_apply (dc_mode c),
          dp_allow_medium_risk_apply = allow_medium,
          dp_allow_system_wide_suggestions = allow_sw_suggest,
          dp_allow_system_wide_apply = allow_sw_apply,
          dp_allow_high_risk = allow_high_risk,
          dp_allow_persistent_effects = sf_allow_persistent_effects (dc_safety c),
          dp_allow_cpu_power_on_battery = au_allow_cpu_power_on_battery (dc_autotune c),
          dp_allow_gpu_power_in_autotune = au_allow_gpu_power_in_autotune (dc_autotune c),
          dp_allow_vm_knobs_in_autotune = au_allow_vm_knobs_in_autotune (dc_autotune c),
          dp_high_risk_dry_run = (dc_mode c = Mode_Suggest \<and> au_high_risk_dry_run (dc_autotune c)),
          dp_min_confidence = min_confidence, dp_confidence = confidence,
          dp_remote_apply = remote_apply_policy_for_config c remote_context\<rparr>)"

definition config_for_constructor :: "daemon_mode \<Rightarrow> action_source \<Rightarrow> bool \<Rightarrow> daemon_config" where
  "config_for_constructor mode source allow_high_risk =
     (let c = default_daemon_config\<lparr>dc_mode := mode, dc_source := source\<rparr>;
          c = c\<lparr>dc_safety := (dc_safety c)
                  \<lparr>sf_max_safety_class := max_safety_class_for_mode mode,
                   sf_allow_high_risk := allow_high_risk\<rparr>,
                dc_autotune := (dc_autotune c)
                  \<lparr>au_allow_medium_risk_apply := (mode = Mode_ApplyMediumRisk)\<rparr>\<rparr>
      in c\<lparr>dc_safety := (dc_safety c)\<lparr>sf_min_confidence := min_confidence_for_config c\<rparr>\<rparr>)"

definition policy_observe :: "action_source \<Rightarrow> daemon_policy" where
  "policy_observe source = build_daemon_policy (config_for_constructor Mode_Observe source False) None"

definition policy_suggest :: "action_source \<Rightarrow> daemon_policy" where
  "policy_suggest source = build_daemon_policy (config_for_constructor Mode_Suggest source False) None"

definition policy_apply_low_risk :: "action_source \<Rightarrow> daemon_policy" where
  "policy_apply_low_risk source =
     build_daemon_policy (config_for_constructor Mode_ApplyLowRisk source False) None"

definition policy_apply_medium_risk :: "action_source \<Rightarrow> daemon_policy" where
  "policy_apply_medium_risk source =
     build_daemon_policy (config_for_constructor Mode_ApplyMediumRisk source False) None"

definition policy_apply_high_risk_explicit :: "action_source \<Rightarrow> daemon_policy" where
  "policy_apply_high_risk_explicit source =
     build_daemon_policy (config_for_constructor Mode_ApplyHighRisk source True) None"

section \<open>Recording rules\<close>

type_synonym rule_state = "policy_rule_evaluation list \<times> policy_rejection option"

definition record_policy_rule ::
  "string \<Rightarrow> bool \<Rightarrow> string \<Rightarrow> policy_rejection option \<Rightarrow> rule_state \<Rightarrow> rule_state" where
  "record_policy_rule rule passed reason rejection st =
     (fst st @ [\<lparr>pr_rule = rule, pr_passed = passed, pr_reason = reason\<rparr>],
      if \<not> passed \<and> snd st = None then rejection else snd st)"

definition finish_policy_explanation ::
  "daemon_policy \<Rightarrow> policy_intent \<Rightarrow> action_descriptor \<Rightarrow> rule_state \<Rightarrow> policy_explanation" where
  "finish_policy_explanation p intent d st =
     (let (verdict, decision, final_reason) =
        (case snd st of
           Some rejection \<Rightarrow>
             (rejection_verdict rejection, Rejected rejection, rejection_to_string rejection)
         | None \<Rightarrow> (Verdict_Allow, Allowed, ''action is allowed by daemon policy''))
      in \<lparr>pe_verdict = verdict, pe_decision = decision, pe_intent = intent,
          pe_action_id = ad_action_id d, pe_action_kind = ad_action_kind d, pe_mode = dp_mode p,
          pe_source = dp_source p, pe_evaluated_rules = fst st, pe_final_reason = final_reason\<rparr>)"

text \<open>
  \<open>DaemonPolicyError::InvalidInput\<close> prints as ``invalid daemon policy input: '' and the message
  (\<open>stutter/src/error.rs\<close>); the error value of the model is that text.
\<close>

definition validate_policy_descriptor_shape :: "action_descriptor \<Rightarrow> string + unit" where
  "validate_policy_descriptor_shape d =
     (case validate_identity_strings d of
        Inl err \<Rightarrow> Inl (''invalid daemon policy input: '' @ err)
      | Inr _ \<Rightarrow>
          if trim (ad_action_kind d) = []
          then Inl (''invalid daemon policy input: '' @ ''action_kind must not be empty'')
          else Inr ())"

section \<open>Rules\<close>

definition record_remote_target_count_rule :: "daemon_policy \<Rightarrow> rule_state \<Rightarrow> rule_state" where
  "record_remote_target_count_rule p st =
     (let remote = dp_remote_apply p
      in record_policy_rule ''remote_target_count'' (ra_target_count_allowed remote)
           (if ra_target_count_allowed remote
            then ''remote target count '' @ show_nat (ra_target_count remote)
                 @ '' is within max_targets '' @ show_nat (ra_max_remote_targets remote)
            else ''remote target count '' @ show_nat (ra_target_count remote)
                 @ '' exceeds max_targets '' @ show_nat (ra_max_remote_targets remote))
           (then_some (\<not> ra_target_count_allowed remote)
              (RemoteTargetCountTooHigh (ra_target_count remote) (ra_max_remote_targets remote))) st)"

definition record_remote_auth_rules :: "remote_apply_policy \<Rightarrow> rule_state \<Rightarrow> rule_state" where
  "record_remote_auth_rules remote st =
     (if ra_require_auth remote then
        record_policy_rule ''remote_request_authorized'' (ra_request_authorized remote)
          (if ra_request_authorized remote then ''remote apply request is authorized''
           else ''remote apply request is not authorized'')
          (then_some (\<not> ra_request_authorized remote) RemoteApplyRequiresAuthorizedRequest)
          (record_policy_rule ''remote_auth_configured'' (ra_auth_configured remote)
             (if ra_auth_configured remote
              then ''remote apply has configured bearer-token authentication''
              else ''remote apply requires configured bearer-token authentication'')
             (then_some (\<not> ra_auth_configured remote) RemoteApplyRequiresConfiguredAuth) st)
      else st)"

definition record_remote_bind_rule :: "remote_apply_policy \<Rightarrow> rule_state \<Rightarrow> rule_state" where
  "record_remote_bind_rule remote st =
     (if ra_require_loopback_bind remote then
        record_policy_rule ''remote_loopback_bind'' (ra_bind_is_loopback remote)
          (if ra_bind_is_loopback remote then ''remote apply bind address is loopback''
           else ''remote apply bind address is not loopback'')
          (then_some (\<not> ra_bind_is_loopback remote) RemoteApplyRequiresLoopbackBind) st
      else st)"

definition record_remote_apply_rules :: "daemon_policy \<Rightarrow> rule_state \<Rightarrow> rule_state" where
  "record_remote_apply_rules p st =
     (let remote = dp_remote_apply p;
          st = record_policy_rule ''remote_apply_enabled'' (ra_remote_apply_enabled remote)
                 (if ra_remote_apply_enabled remote
                  then ''remote apply is enabled by daemon configuration''
                  else ''remote apply is disabled by daemon configuration'')
                 (then_some (\<not> ra_remote_apply_enabled remote) RemoteApplyDisabled) st;
          st = record_remote_auth_rules remote st;
          st = record_remote_bind_rule remote st;
          st = record_policy_rule ''remote_mode_supported'' (ra_mode_supported_by_limits remote)
                 (if ra_mode_supported_by_limits remote
                  then ''remote mode '' @ mode_as_str (dp_mode p) @ '' is within configured remote limits''
                  else ''remote mode '' @ mode_as_str (dp_mode p) @ '' exceeds configured remote limits'')
                 (then_some (\<not> ra_mode_supported_by_limits remote) (RemoteModeNotAllowed (dp_mode p))) st
      in record_remote_target_count_rule p st)"

definition remote_target_count_blocks_non_apply ::
  "daemon_policy \<Rightarrow> rule_state \<Rightarrow> bool \<times> rule_state" where
  "remote_target_count_blocks_non_apply p st =
     (if dp_source p = Src_RemoteAgent \<and> \<not> supports_apply (dp_mode p)
         \<and> \<not> ra_target_count_allowed (dp_remote_apply p)
      then (True, record_remote_target_count_rule p st)
      else (False, st))"

definition record_remote_apply_gates :: "daemon_policy \<Rightarrow> rule_state \<Rightarrow> rule_state" where
  "record_remote_apply_gates p st =
     (if dp_source p = Src_RemoteAgent \<and> supports_apply (dp_mode p)
      then record_remote_apply_rules p st else st)"

definition medium_risk_system_scope_allowed :: "daemon_policy \<Rightarrow> action_descriptor \<Rightarrow> bool" where
  "medium_risk_system_scope_allowed p d =
     (if dp_mode p \<noteq> Mode_ApplyMediumRisk \<or> SC_ReversibleMediumRisk < ad_safety_class d then False
      else if \<not> dp_allow_system_wide_apply p then False
      else case ad_effect_scope d of
        Scope_Irq \<Rightarrow> True
      | Scope_CpuPower \<Rightarrow> True
      | Scope_GpuPower \<Rightarrow> dp_allow_gpu_power_in_autotune p
      | Scope_VmKnob \<Rightarrow> dp_allow_vm_knobs_in_autotune p
      | _ \<Rightarrow> False)"

text \<open>The rules that depend on the daemon mode.\<close>

definition record_medium_risk_unlock_rule :: "daemon_policy \<Rightarrow> rule_state \<Rightarrow> rule_state" where
  "record_medium_risk_unlock_rule p st =
     (if dp_mode p = Mode_ApplyMediumRisk then
        record_policy_rule ''medium_risk_apply_unlock'' (dp_allow_medium_risk_apply p)
          (if dp_allow_medium_risk_apply p then ''apply-medium-risk explicit unlock is present''
           else ''apply-medium-risk requires explicit medium-risk unlock'')
          (then_some (\<not> dp_allow_medium_risk_apply p) MediumRiskApplyRequiresExplicitUnlock) st
      else st)"

definition record_high_risk_support_rule :: "daemon_policy \<Rightarrow> rule_state \<Rightarrow> rule_state" where
  "record_high_risk_support_rule p st =
     (if dp_mode p = Mode_ApplyHighRisk then
        record_policy_rule ''high_risk_apply_support'' HIGH_RISK_APPLY_IMPLEMENTED
          (if HIGH_RISK_APPLY_IMPLEMENTED then ''high-risk apply support is implemented''
           else ''high-risk apply is disabled until future support is implemented'')
          (then_some (\<not> HIGH_RISK_APPLY_IMPLEMENTED) HighRiskApplyNotImplemented) st
      else st)"

definition record_low_risk_mode_rules ::
  "daemon_policy \<Rightarrow> action_descriptor \<Rightarrow> rule_state \<Rightarrow> rule_state" where
  "record_low_risk_mode_rules p d st =
     (let passed = (ad_safety_class d = SC_ReversibleLowRisk);
          st = record_policy_rule ''safety_class_allowed'' passed
                 (if passed
                  then ''safety class ReversibleLowRisk is allowed in daemon mode apply-low-risk''
                  else ''safety class '' @ debug_safety_class (ad_safety_class d)
                       @ '' is not allowed in daemon mode apply-low-risk'')
                 (then_some (\<not> passed) (SafetyClassTooHigh (dp_mode p) (ad_safety_class d))) st;
          passed = is_low_risk_apply_scope (ad_effect_scope d)
      in record_policy_rule ''effect_scope_allowed'' passed
           (''effect scope '' @ debug_effect_scope (ad_effect_scope d)
            @ (if passed then '' is allowed in daemon mode apply-low-risk''
               else '' is not allowed in daemon mode apply-low-risk''))
           (then_some (\<not> passed) (EffectScopeNotAllowed (dp_mode p) (ad_effect_scope d))) st)"

definition record_medium_risk_mode_rules ::
  "daemon_policy \<Rightarrow> action_descriptor \<Rightarrow> rule_state \<Rightarrow> rule_state" where
  "record_medium_risk_mode_rules p d st =
     (let passed = (ad_safety_class d \<le> SC_ReversibleMediumRisk);
          st = record_policy_rule ''safety_class_allowed'' passed
                 (''safety class '' @ debug_safety_class (ad_safety_class d)
                  @ (if passed then '' is allowed in daemon mode apply-medium-risk''
                     else '' is not allowed in daemon mode apply-medium-risk''))
                 (then_some (\<not> passed) (SafetyClassTooHigh (dp_mode p) (ad_safety_class d))) st;
          passed = is_explicit_target_scope (ad_effect_scope d)
      in record_policy_rule ''effect_scope_allowed'' passed
           (''effect scope '' @ debug_effect_scope (ad_effect_scope d)
            @ (if passed then '' is allowed in daemon mode apply-medium-risk''
               else '' is not allowed in daemon mode apply-medium-risk''))
           (then_some (\<not> passed) (EffectScopeNotAllowed (dp_mode p) (ad_effect_scope d))) st)"

definition record_high_risk_mode_rules ::
  "daemon_policy \<Rightarrow> action_descriptor \<Rightarrow> rule_state \<Rightarrow> rule_state" where
  "record_high_risk_mode_rules p d st =
     (let st = record_policy_rule ''safety_class_allowed'' True
                 (''safety class '' @ debug_safety_class (ad_safety_class d)
                  @ '' is within daemon mode apply-high-risk ceiling'') None st;
          st = record_policy_rule ''effect_scope_allowed'' True
                 (''effect scope '' @ debug_effect_scope (ad_effect_scope d)
                  @ '' is allowed in daemon mode apply-high-risk'') None st;
          passed = (ad_safety_class d \<noteq> SC_HighRisk \<or> dp_allow_high_risk p)
      in record_policy_rule ''high_risk_opt_in'' passed
           (if passed then ''high-risk opt-in requirement is satisfied''
            else ''high-risk apply requires explicit high-risk opt-in'')
           (then_some (\<not> passed) HighRiskRequiresExplicitOptIn) st)"

definition record_mode_rules :: "daemon_policy \<Rightarrow> action_descriptor \<Rightarrow> rule_state \<Rightarrow> rule_state" where
  "record_mode_rules p d st =
     (case dp_mode p of
        Mode_Observe \<Rightarrow> st
      | Mode_Suggest \<Rightarrow> st
      | Mode_ApplyLowRisk \<Rightarrow> record_low_risk_mode_rules p d st
      | Mode_ApplyMediumRisk \<Rightarrow> record_medium_risk_mode_rules p d st
      | Mode_ApplyHighRisk \<Rightarrow> record_high_risk_mode_rules p d st)"

text \<open>The rules that every apply goes through.\<close>

definition record_system_wide_rule ::
  "daemon_policy \<Rightarrow> action_descriptor \<Rightarrow> rule_state \<Rightarrow> rule_state" where
  "record_system_wide_rule p d st =
     (let scope_allowed = medium_risk_system_scope_allowed p d;
          passed = (\<not> ad_touches_system_wide_state d \<or> dp_allow_system_wide_apply p \<or> scope_allowed)
      in record_policy_rule ''system_wide_apply_permission'' passed
           (if passed then
              if scope_allowed \<and> \<not> dp_allow_system_wide_apply p
              then ''system-wide apply permission is satisfied for medium-risk scope ''
                   @ debug_effect_scope (ad_effect_scope d)
              else ''system-wide apply permission is satisfied''
            else ''system-wide apply is blocked by daemon policy'')
           (then_some (\<not> passed) SystemWideActionBlocked) st)"

definition record_persistent_rule ::
  "daemon_policy \<Rightarrow> action_descriptor \<Rightarrow> rule_state \<Rightarrow> rule_state" where
  "record_persistent_rule p d st =
     (let passed = (\<not> ad_persistent_effect d \<or> dp_allow_persistent_effects p)
      in record_policy_rule ''persistent_effect_permission'' passed
           (if passed then ''persistent effect permission is satisfied''
            else ''persistent effect is blocked by daemon policy'')
           (then_some (\<not> passed) PersistentEffectBlocked) st)"

definition record_family_rules ::
  "daemon_policy \<Rightarrow> action_descriptor \<Rightarrow> rule_state \<Rightarrow> rule_state" where
  "record_family_rules p d st =
     (let enabled_passed =
            (dp_enabled_action_families p = {}
             \<or> (\<exists>f \<in> dp_enabled_action_families p. action_kind_matches_family (ad_action_kind d) f));
          st = record_policy_rule ''action_family_enabled'' enabled_passed
                 (if enabled_passed then ''action family is enabled by daemon policy''
                  else ''action family '' @ ad_action_kind d @ '' is not enabled by daemon preset'')
                 (then_some (\<not> enabled_passed) (ActionFamilyNotEnabled (ad_action_kind d))) st;
          denied =
            (\<exists>f \<in> dp_denied_action_families p. action_kind_matches_family (ad_action_kind d) f)
      in record_policy_rule ''action_family_not_denied'' (\<not> denied)
           (if denied then ''action family '' @ ad_action_kind d @ '' is denied by daemon policy''
            else ''action family is not denied by daemon policy'')
           (then_some denied (ActionFamilyDenied (ad_action_kind d))) st)"

definition record_rollback_rule :: "action_descriptor \<Rightarrow> rule_state \<Rightarrow> rule_state" where
  "record_rollback_rule d st =
     (case ad_rollback d of
        RequiredBeforeApply \<Rightarrow>
          record_policy_rule ''rollback_available'' True ''rollback is available before apply'' None st
      | Unavailable \<Rightarrow>
          record_policy_rule ''rollback_available'' False
            ''apply is rejected because rollback is unavailable'' (Some RollbackUnavailable) st
      | _ \<Rightarrow>
          record_policy_rule ''rollback_available'' False
            (''apply requires rollback to be available before apply; got ''
             @ debug_rollback_requirement (ad_rollback d))
            (Some (RollbackRequired (ad_rollback d))) st)"

definition record_explicit_target_rule :: "action_descriptor \<Rightarrow> rule_state \<Rightarrow> rule_state" where
  "record_explicit_target_rule d st =
     (let passed = (\<not> ad_requires_explicit_target d \<or> is_explicit_target_scope (ad_effect_scope d))
      in record_policy_rule ''explicit_target_scope'' passed
           (if passed then ''explicit target requirement is satisfied''
            else ''apply requires an explicit target scope'')
           (then_some (\<not> passed) ExplicitTargetRequired) st)"

definition record_confidence_rule ::
  "daemon_policy \<Rightarrow> action_descriptor \<Rightarrow> rule_state \<Rightarrow> rule_state" where
  "record_confidence_rule p d st =
     (case ad_confidence d of
        Some c \<Rightarrow>
          (let passed = f32_le (dp_min_confidence p) c
           in record_policy_rule ''confidence_threshold'' passed
                (''action confidence '' @ fmt3 c
                 @ (if passed then '' meets required minimum '' else '' is below required minimum '')
                 @ fmt3 (dp_min_confidence p))
                (then_some (\<not> passed) (ConfidenceTooLow c (dp_min_confidence p))) st)
      | None \<Rightarrow>
          record_policy_rule ''confidence_threshold'' True
            ''action did not report confidence; threshold check is not required'' None st)"

section \<open>Evaluation\<close>

definition record_apply_rules :: "daemon_policy \<Rightarrow> action_descriptor \<Rightarrow> rule_state \<Rightarrow> rule_state" where
  "record_apply_rules p d st =
     (let st = record_medium_risk_unlock_rule p st;
          st = record_high_risk_support_rule p st;
          st = record_remote_apply_gates p st;
          st = record_mode_rules p d st;
          st = record_system_wide_rule p d st;
          st = record_persistent_rule p d st;
          st = record_family_rules p d st;
          st = record_rollback_rule d st;
          st = record_explicit_target_rule d st
      in record_confidence_rule p d st)"

definition record_suggest_rules ::
  "daemon_policy \<Rightarrow> policy_intent \<Rightarrow> action_descriptor \<Rightarrow> rule_state \<Rightarrow> rule_state" where
  "record_suggest_rules p intent d st =
     (let passed = (dp_mode p \<noteq> Mode_Observe);
          st = record_policy_rule ''intent_allowed'' passed
                 (if passed then ''suggest intent is allowed in daemon mode '' @ mode_as_str (dp_mode p)
                  else ''suggest intent is not allowed in daemon mode '' @ mode_as_str (dp_mode p))
                 (then_some (\<not> passed) (IntentNotAllowed (dp_mode p) intent)) st;
          passed = (\<not> ad_touches_system_wide_state d \<or> dp_allow_system_wide_suggestions p)
      in record_policy_rule ''system_wide_suggestion_permission'' passed
           (if passed then ''system-wide suggestion permission is satisfied''
            else ''system-wide suggestion is blocked by daemon policy'')
           (then_some (\<not> passed) SystemWideActionBlocked) st)"

definition explain_action ::
  "daemon_policy \<Rightarrow> policy_intent \<Rightarrow> action_descriptor \<Rightarrow> policy_explanation" where
  "explain_action p intent d =
     (let (blocked, st) = remote_target_count_blocks_non_apply p ([], None)
      in if blocked then finish_policy_explanation p intent d st
         else case intent of
           Intent_Suggest \<Rightarrow>
             finish_policy_explanation p intent d (record_suggest_rules p intent d st)
         | Intent_Apply \<Rightarrow>
             (let passed = supports_apply (dp_mode p);
                  st = record_policy_rule ''intent_allowed'' passed
                    (if passed then ''apply intent is allowed in daemon mode '' @ mode_as_str (dp_mode p)
                     else ''apply intent is not allowed in daemon mode '' @ mode_as_str (dp_mode p))
                    (then_some (\<not> passed) (IntentNotAllowed (dp_mode p) intent)) st
              in if \<not> passed then finish_policy_explanation p intent d st
                 else finish_policy_explanation p intent d (record_apply_rules p d st))
         | _ \<Rightarrow>
             finish_policy_explanation p intent d
               (record_policy_rule ''intent_allowed'' True
                  (''intent '' @ debug_intent intent @ '' is allowed without apply authorization'') None st))"

definition record_capability_rule ::
  "policy_intent \<Rightarrow> action_descriptor \<Rightarrow> daemon_policy_context \<Rightarrow> rule_state \<Rightarrow> rule_state" where
  "record_capability_rule intent d x st =
     (let capability_checked = (intent = Intent_Suggest \<or> intent = Intent_DryRun \<or> intent = Intent_Apply);
          missing = Option.bind (px_capabilities x) (unavailable_capability_for_action (ad_action_kind d));
          passed = (\<not> capability_checked \<or> missing = None);
          capability_rejection = map_option (CapabilityUnavailable (ad_action_kind d)) missing
      in record_policy_rule ''capability_gate'' passed
           (case missing of
              Some feature \<Rightarrow>
                ''action '' @ ad_action_kind d @ '' requires unavailable daemon capability: '' @ feature
            | None \<Rightarrow>
                if px_capabilities x \<noteq> None then ''daemon capability gate is satisfied''
                else ''daemon capabilities were not provided for this policy check'')
           (if passed then None else capability_rejection) st)"

definition record_context_rules ::
  "policy_intent \<Rightarrow> action_descriptor \<Rightarrow> daemon_policy_context \<Rightarrow> rule_state \<Rightarrow> rule_state" where
  "record_context_rules intent d x st =
     (let apply_intent = (intent = Intent_Apply);
          dq_reason = (case px_data_quality_reason_code x of Some r \<Rightarrow> r | None \<Rightarrow> ''insufficient_data'');
          passed = (\<not> apply_intent \<or> px_data_quality_ok x);
          st = record_policy_rule ''data_quality_gate'' passed
                 (if passed then ''data quality gate is satisfied''
                  else ''data quality gate blocks apply: '' @ dq_reason)
                 (then_some (\<not> passed) (DataQualityBlocked dq_reason)) st;
          h_reason = (case px_system_health_reason_code x of Some r \<Rightarrow> r
                      | None \<Rightarrow> ''system_health_degraded'');
          passed = (\<not> apply_intent \<or> px_system_health_ok x);
          st = record_policy_rule ''system_health_gate'' passed
                 (if passed then ''system health gate is satisfied''
                  else ''system health gate blocks apply: '' @ h_reason)
                 (then_some (\<not> passed) (SystemHealthBlocked h_reason)) st;
          passed = (\<not> apply_intent \<or> px_workload_stable x);
          st = record_policy_rule ''workload_stability_gate'' passed
                 (if passed then ''workload stability gate is satisfied''
                  else ''workload identity is unstable'')
                 (then_some (\<not> passed) WorkloadUnstable) st;
          passed = (\<not> apply_intent \<or> \<not> px_cooldown_active x);
          st = record_policy_rule ''cooldown_gate'' passed
                 (if passed then ''cooldown gate is satisfied'' else ''cooldown is active'')
                 (then_some (\<not> passed) CooldownActive) st;
          passed = (\<not> apply_intent \<or> \<not> px_rollback_pending x);
          st = record_policy_rule ''rollback_pending_gate'' passed
                 (if passed then ''rollback pending gate is satisfied''
                  else ''a previous rollback is pending'')
                 (then_some (\<not> passed) RollbackPending) st
      in record_capability_rule intent d x st)"

definition explain_action_with_context ::
  "daemon_policy \<Rightarrow> policy_intent \<Rightarrow> action_descriptor \<Rightarrow> daemon_policy_context \<Rightarrow> policy_explanation" where
  "explain_action_with_context p intent d x =
     (let st = record_context_rules intent d x ([], None)
      in if snd st \<noteq> None then finish_policy_explanation p intent d st
         else let explanation = explain_action p intent d
              in explanation\<lparr>pe_evaluated_rules := fst st @ pe_evaluated_rules explanation\<rparr>)"

definition decision_result :: "policy_decision_kind \<Rightarrow> policy_rejection + unit" where
  "decision_result decision = (case decision of Allowed \<Rightarrow> Inr () | Rejected r \<Rightarrow> Inl r)"

definition check_action ::
  "daemon_policy \<Rightarrow> policy_intent \<Rightarrow> action_descriptor \<Rightarrow> policy_rejection + unit" where
  "check_action p intent d =
     (case validate_policy_descriptor_shape d of
        Inl err \<Rightarrow> Inl (InvalidActionDescriptor err)
      | Inr _ \<Rightarrow> decision_result (pe_decision (explain_action p intent d)))"

definition check_action_with_context ::
  "daemon_policy \<Rightarrow> policy_intent \<Rightarrow> action_descriptor \<Rightarrow> daemon_policy_context
    \<Rightarrow> policy_rejection + unit" where
  "check_action_with_context p intent d x =
     (case validate_policy_descriptor_shape d of
        Inl err \<Rightarrow> Inl (InvalidActionDescriptor err)
      | Inr _ \<Rightarrow> decision_result (pe_decision (explain_action_with_context p intent d x)))"

definition verdict_for_action ::
  "daemon_policy \<Rightarrow> policy_intent \<Rightarrow> action_descriptor \<Rightarrow> daemon_policy_verdict" where
  "verdict_for_action p intent d = pe_verdict (explain_action p intent d)"

definition verdict_for_action_with_context ::
  "daemon_policy \<Rightarrow> policy_intent \<Rightarrow> action_descriptor \<Rightarrow> daemon_policy_context
    \<Rightarrow> daemon_policy_verdict" where
  "verdict_for_action_with_context p intent d x = pe_verdict (explain_action_with_context p intent d x)"

definition provider_confidence_threshold :: "daemon_policy \<Rightarrow> action_descriptor \<Rightarrow> f32" where
  "provider_confidence_threshold p d =
     (case dp_mode p of
        Mode_Observe \<Rightarrow> Fin 1
      | Mode_Suggest \<Rightarrow>
          if ad_safety_class d = SC_HighRisk then cc_min_high_risk_suggestion_confidence (dp_confidence p)
          else cc_min_suggest_confidence (dp_confidence p)
      | Mode_ApplyLowRisk \<Rightarrow> cc_min_apply_low_risk_confidence (dp_confidence p)
      | Mode_ApplyMediumRisk \<Rightarrow> cc_min_apply_medium_risk_confidence (dp_confidence p)
      | Mode_ApplyHighRisk \<Rightarrow> cc_min_high_risk_suggestion_confidence (dp_confidence p))"

end
