(* ===== verification/Action_Runner.thy ===== *)
theory Action_Runner
  imports Action_Model Daemon_Policy
begin

text \<open>
  The audited action runner (\<open>stutter/src/actions/runner/\<close> and the trait of \<open>stutter/src/actions/traits.rs\<close>).
  A \<open>TuningAction\<close> is the record of its methods as functions on a world \<open>'w\<close>; the hooks, the two
  clocks and the audit sink are functions on that world too. The mutable \<open>audit_event\<close> captured by the
  runner's closure is threaded explicitly.
\<close>

section \<open>Actions, hooks, environment\<close>

record 'w tuning_action =
  ta_descriptor :: action_descriptor
  ta_preflight :: "'w \<Rightarrow> (anyhow + string list) \<times> 'w"
  ta_dry_run :: "'w \<Rightarrow> (anyhow + action_state) \<times> 'w"
  ta_apply :: "(rollback_token \<Rightarrow> 'w \<Rightarrow> (anyhow + unit) \<times> 'w) \<Rightarrow> 'w
                 \<Rightarrow> (partial_apply_error + rollback_token) \<times> 'w"
  ta_verify :: "'w \<Rightarrow> (anyhow + action_state) \<times> 'w"
  ta_rollback :: "rollback_token \<Rightarrow> 'w \<Rightarrow> (anyhow + unit) \<times> 'w"

text \<open>
  \<open>ta_apply\<close> is \<open>apply_with_prepared_rollback\<close>; the trait's default ignores its callback. The default
  descriptor of the trait is \<open>default_descriptor\<close>.
\<close>

definition default_descriptor :: "string \<Rightarrow> safety_class \<Rightarrow> action_descriptor" where
  "default_descriptor action_id cls =
     \<lparr>ad_action_id = action_id, ad_action_kind = action_id, ad_safety_class = cls,
      ad_effect_scope = Scope_LocalProcessTree, ad_rollback = RequiredBeforeApply,
      ad_persistent_effect = False, ad_touches_system_wide_state = False,
      ad_requires_explicit_target = True, ad_confidence = None\<rparr>"

type_synonym 'w hook = "rollback_token \<Rightarrow> 'w \<Rightarrow> (anyhow + unit) \<times> 'w"

record 'w action_hooks =
  hk_after_prepare :: "'w hook option"
  hk_after_apply :: "'w hook option"
  hk_after_rollback :: "'w hook option"

definition hooks_none :: "'w action_hooks" where
  "hooks_none = \<lparr>hk_after_prepare = None, hk_after_apply = None, hk_after_rollback = None\<rparr>"

definition hooks_after_apply :: "'w hook \<Rightarrow> 'w action_hooks" where
  "hooks_after_apply h = \<lparr>hk_after_prepare = None, hk_after_apply = Some h, hk_after_rollback = None\<rparr>"

definition with_after_prepare :: "'w hook \<Rightarrow> 'w action_hooks \<Rightarrow> 'w action_hooks" where
  "with_after_prepare h hooks = hooks\<lparr>hk_after_prepare := Some h\<rparr>"

definition with_after_rollback :: "'w hook \<Rightarrow> 'w action_hooks \<Rightarrow> 'w action_hooks" where
  "with_after_rollback h hooks = hooks\<lparr>hk_after_rollback := Some h\<rparr>"

definition run_hook :: "'w hook option \<Rightarrow> 'w hook" where
  "run_hook hook token w = (case hook of Some h \<Rightarrow> h token w | None \<Rightarrow> (Inr (), w))"

definition run_after_prepare :: "'w action_hooks \<Rightarrow> 'w hook" where
  "run_after_prepare hooks = run_hook (hk_after_prepare hooks)"

definition run_after_apply :: "'w action_hooks \<Rightarrow> 'w hook" where
  "run_after_apply hooks = run_hook (hk_after_apply hooks)"

definition run_after_rollback :: "'w action_hooks \<Rightarrow> 'w hook" where
  "run_after_rollback hooks = run_hook (hk_after_rollback hooks)"

record audit_event =
  ae_schema_version :: u32
  ae_unix_nanos :: nat
  ae_command :: string
  ae_action_id :: "string option"
  ae_safety_class :: "safety_class option"
  ae_dry_run :: bool
  ae_success :: bool
  ae_affected_tasks :: usize
  ae_restore_path :: "string option"
  ae_action_phase :: "action_phase option"
  ae_error_category :: "string option"
  ae_operation :: "string option"
  ae_message :: string

text \<open>
  The runner's environment: the monotonic clock in nanoseconds (\<open>Instant\<close>), the wall clock
  (\<open>unix_nanos_now\<close>) and the audit sink. A failed audit write is only logged, so the sink has no result.
\<close>

record 'w runner_env =
  re_instant :: "'w \<Rightarrow> nat \<times> 'w"
  re_unix_nanos :: "'w \<Rightarrow> nat \<times> 'w"
  re_append_audit :: "audit_event \<Rightarrow> 'w \<Rightarrow> 'w"

record action_run_policy =
  rp_policy :: daemon_policy
  rp_context :: daemon_policy_context
  rp_max_affected_tasks :: "usize option"
  rp_max_total_duration :: "nat option"
  rp_dry_run :: bool

definition run_policy_for_mode :: "daemon_mode \<Rightarrow> action_source \<Rightarrow> bool \<Rightarrow> action_run_policy" where
  "run_policy_for_mode mode source dry =
     \<lparr>rp_policy = build_daemon_policy (default_daemon_config\<lparr>dc_mode := mode, dc_source := source\<rparr>) None,
      rp_context = default_policy_context, rp_max_affected_tasks = None, rp_max_total_duration = None,
      rp_dry_run = dry\<rparr>"

definition run_policy_dry_run :: "action_source \<Rightarrow> action_run_policy" where
  "run_policy_dry_run source = run_policy_for_mode Mode_Suggest source True"

definition run_policy_apply_low_risk :: "action_source \<Rightarrow> bool \<Rightarrow> action_run_policy" where
  "run_policy_apply_low_risk source dry = run_policy_for_mode Mode_ApplyLowRisk source dry"

definition run_policy_apply_medium_risk :: "action_source \<Rightarrow> bool \<Rightarrow> action_run_policy" where
  "run_policy_apply_medium_risk source dry = run_policy_for_mode Mode_ApplyMediumRisk source dry"

text \<open>The argument \<open>cls\<close> is the action's \<open>safety_class()\<close>.\<close>

definition run_policy_for_action :: "safety_class \<Rightarrow> bool \<Rightarrow> action_source \<Rightarrow> action_run_policy" where
  "run_policy_for_action cls dry source =
     (if dry then run_policy_dry_run source
      else if cls = SC_ObserveOnly \<or> cls = SC_ReversibleLowRisk then run_policy_apply_low_risk source False
      else run_policy_apply_medium_risk source False)"

record audited_action_result =
  ar_state :: action_state
  ar_rollback :: "rollback_token option"

section \<open>Helpers\<close>

definition append_runner_audit_event ::
  "'w runner_env \<Rightarrow> audit_event \<Rightarrow> action_phase option \<Rightarrow> bool \<Rightarrow> usize \<Rightarrow> string option
    \<Rightarrow> string option \<Rightarrow> string \<Rightarrow> 'w \<Rightarrow> 'w" where
  "append_runner_audit_event env base_event phase success affected path category message w =
     (let (now, w) = re_unix_nanos env w
      in re_append_audit env
           (base_event\<lparr>ae_unix_nanos := now, ae_action_phase := phase, ae_success := success,
              ae_affected_tasks := affected, ae_restore_path := path, ae_error_category := category,
              ae_message := message\<rparr>) w)"

definition total_timeout_error ::
  "'w runner_env \<Rightarrow> nat \<Rightarrow> nat option \<Rightarrow> action_phase \<Rightarrow> 'w \<Rightarrow> action_failure option \<times> 'w" where
  "total_timeout_error env started max_total phase w =
     (case max_total of
        None \<Rightarrow> (None, w)
      | Some limit \<Rightarrow>
          (let (now, w) = re_instant env w; elapsed = now - started
           in (then_some (limit < elapsed)
                 (AF_Timeout \<lparr>to_phase = phase, to_elapsed_ms = elapsed div 1000000,
                               to_timeout_ms = limit div 1000000\<rparr>), w)))"

definition check_action_with_explanation ::
  "daemon_policy \<Rightarrow> daemon_policy_context \<Rightarrow> policy_intent \<Rightarrow> action_descriptor \<Rightarrow> action_failure + unit" where
  "check_action_with_explanation p x intent d =
     (let explanation = explain_action_with_context p intent d x
      in case pe_decision explanation of
           Allowed \<Rightarrow> Inr ()
         | Rejected _ \<Rightarrow> Inl (AF_PolicyRejected (pe_final_reason explanation)))"

text \<open>
  The two rollback helpers. \<open>rollback_after_timeout\<close> returns its argument when it is not a timeout.
\<close>

definition rollback_after_timeout ::
  "'w runner_env \<Rightarrow> 'w tuning_action \<Rightarrow> 'w action_hooks \<Rightarrow> rollback_token \<Rightarrow> action_failure \<Rightarrow> audit_event
    \<Rightarrow> 'w \<Rightarrow> action_failure \<times> 'w" where
  "rollback_after_timeout env a hooks token timeout_error ev w =
     (case timeout_details timeout_error of
        None \<Rightarrow> (timeout_error, w)
      | Some t \<Rightarrow>
         (case ta_rollback a token w of
            (Inr _, w) \<Rightarrow>
              (case run_after_rollback hooks token w of
                 (Inl hook_err, w) \<Rightarrow>
                   (AF_Rollback (RollbackFailure
                      (''rollback completed after action timeout, but after-rollback hook failed: ''
                       @ any_display_alt hook_err)),
                    append_runner_audit_event env ev (Some Ph_Rollback) False (affected_tasks token)
                      (restore_path token) (Some ''RollbackHookFailed'')
                      ''rollback completed after action timeout, but after-rollback hook failed'' w)
               | (Inr _, w) \<Rightarrow>
                   (AF_Rollback (TimeoutRollbackCompleted t),
                    append_runner_audit_event env ev (Some Ph_Rollback) True (affected_tasks token)
                      (restore_path token) None ''rollback completed after action timeout'' w))
          | (Inl rollback_error, w) \<Rightarrow>
              (AF_Rollback (TimeoutRollbackFailure t (any_display rollback_error)), w)))"

definition rollback_after_apply_hook_failure ::
  "'w runner_env \<Rightarrow> 'w tuning_action \<Rightarrow> 'w action_hooks \<Rightarrow> rollback_token \<Rightarrow> anyhow \<Rightarrow> audit_event
    \<Rightarrow> 'w \<Rightarrow> action_failure \<times> 'w" where
  "rollback_after_apply_hook_failure env a hooks token hook_error ev w =
     (let hook_message = ''after-apply hook failed after mutation: '' @ any_display_alt hook_error
      in case ta_rollback a token w of
           (Inr _, w) \<Rightarrow>
             (case run_after_rollback hooks token w of
                (Inr _, w) \<Rightarrow>
                  (AF_Phase (PF_Apply (hook_message @ ''; rollback completed'')),
                   append_runner_audit_event env ev (Some Ph_Rollback) True (affected_tasks token)
                     (restore_path token) None ''rollback completed after after-apply hook failure'' w)
              | (Inl rollback_hook_error, w) \<Rightarrow>
                  (AF_Rollback (RollbackFailure
                     (hook_message @ ''; rollback completed; after-rollback hook failed: ''
                      @ any_display_alt rollback_hook_error)),
                   append_runner_audit_event env ev (Some Ph_Rollback) False (affected_tasks token)
                     (restore_path token) (Some ''RollbackHookFailed'')
                     ''rollback completed after after-apply hook failure, but after-rollback hook failed'' w))
         | (Inl rollback_error, w) \<Rightarrow>
             (AF_Rollback (EmergencyRollbackFailure hook_message (any_display rollback_error)), w))"

section \<open>Phases of a run\<close>

type_synonym ('w, 'a) run_result = "(action_failure + 'a) \<times> audit_event \<times> 'w"

text \<open>The \<open>?\<close> operator and early \<open>return\<close> inside the closure: an error skips the rest.\<close>

definition run_then ::
  "('w, 'a) run_result \<Rightarrow> ('a \<Rightarrow> audit_event \<Rightarrow> 'w \<Rightarrow> ('w, 'b) run_result) \<Rightarrow> ('w, 'b) run_result" where
  "run_then r f = (case r of (Inl e, ev, w) \<Rightarrow> (Inl e, ev, w) | (Inr x, ev, w) \<Rightarrow> f x ev w)"

definition fail_on_timeout ::
  "'w runner_env \<Rightarrow> nat \<Rightarrow> nat option \<Rightarrow> action_phase \<Rightarrow> 'a \<Rightarrow> audit_event \<Rightarrow> 'w \<Rightarrow> ('w, 'a) run_result" where
  "fail_on_timeout env started max_total phase x ev w =
     (case total_timeout_error env started max_total phase w of
        (Some e, w) \<Rightarrow> (Inl e, ev, w)
      | (None, w) \<Rightarrow> (Inr x, ev, w))"

definition preflight_message :: "string list \<Rightarrow> string" where
  "preflight_message warnings =
     (if warnings = [] then ''preflight successful''
      else ''preflight successful with '' @ show_nat (length warnings) @ '' warning''
           @ (if length warnings = 1 then '''' else ''s''))"

definition run_preflight ::
  "'w runner_env \<Rightarrow> 'w tuning_action \<Rightarrow> action_run_policy \<Rightarrow> nat \<Rightarrow> audit_event \<Rightarrow> 'w \<Rightarrow> ('w, unit) run_result" where
  "run_preflight env a rp started ev w =
     (let ev = ev\<lparr>ae_action_phase := Some Ph_Preflight\<rparr>;
          (res, w) = ta_preflight a w;
          report = from_preflight_result (ad_action_id (ta_descriptor a)) res
      in if report_is_blocked report
         then (Inl (AF_Phase (PF_Preflight (blocker_messages report))), ev, w)
         else fail_on_timeout env started (rp_max_total_duration rp) Ph_Preflight () ev
                (append_runner_audit_event env ev (Some Ph_Preflight) True 0 None None
                   (preflight_message (pf_warnings report)) w))"

text \<open>Both branches of the closure start with the same dry-run phase; only the message differs.\<close>

definition run_dry_run ::
  "'w runner_env \<Rightarrow> 'w tuning_action \<Rightarrow> action_run_policy \<Rightarrow> nat \<Rightarrow> string \<Rightarrow> audit_event \<Rightarrow> 'w
    \<Rightarrow> ('w, action_state) run_result" where
  "run_dry_run env a rp started message ev w =
     (let ev = ev\<lparr>ae_action_phase := Some Ph_DryRun\<rparr>
      in case check_action_with_explanation (rp_policy rp) (rp_context rp) Intent_DryRun (ta_descriptor a) of
           Inl e \<Rightarrow> (Inl e, ev, w)
         | Inr _ \<Rightarrow>
            (case ta_dry_run a w of
               (Inl e, w) \<Rightarrow> (Inl (from_phase_error Ph_DryRun e), ev, w)
             | (Inr state, w) \<Rightarrow>
                 fail_on_timeout env started (rp_max_total_duration rp) Ph_DryRun state ev
                   (append_runner_audit_event env ev (Some Ph_DryRun) True (as_affected_tasks state)
                      None None message w)))"

definition check_scope_limit ::
  "action_run_policy \<Rightarrow> action_state \<Rightarrow> audit_event \<Rightarrow> 'w \<Rightarrow> ('w, unit) run_result" where
  "check_scope_limit rp state ev w =
     (case rp_max_affected_tasks rp of
        None \<Rightarrow> (Inr (), ev, w)
      | Some limit \<Rightarrow>
          if limit < as_affected_tasks state
          then (Inl (AF_ScopeLimitExceeded (as_affected_tasks state) limit), ev, w)
          else (Inr (), ev, w))"

definition partial_apply_failure ::
  "'w runner_env \<Rightarrow> 'w tuning_action \<Rightarrow> 'w action_hooks \<Rightarrow> partial_apply_error \<Rightarrow> audit_event \<Rightarrow> 'w
    \<Rightarrow> action_failure \<times> audit_event \<times> 'w" where
  "partial_apply_failure env a hooks partial_err ev w =
     (let source = pa_source partial_err
      in case pa_rollback partial_err of
           None \<Rightarrow> (from_phase_error Ph_Apply source, ev, w)
         | Some token \<Rightarrow>
            (let ev = ev\<lparr>ae_affected_tasks := affected_tasks token, ae_restore_path := restore_path token\<rparr>
             in case run_after_apply hooks token w of
                  (Inl hook_error, w) \<Rightarrow>
                    (let (e, w) = rollback_after_apply_hook_failure env a hooks token
                           (anyhow_msg (''partial apply failed: '' @ any_display source
                              @ ''; rollback-token hook failed: '' @ any_display_alt hook_error)) ev w
                     in (e, ev, w))
                | (Inr _, w) \<Rightarrow>
                   (case ta_rollback a token w of
                      (Inr _, w) \<Rightarrow>
                        (case run_after_rollback hooks token w of
                           (Inl hook_error, w) \<Rightarrow>
                             (AF_Rollback (RollbackFailure
                                (''partial rollback completed after apply failure: '' @ any_display source
                                 @ ''; after-rollback hook failed: '' @ any_display_alt hook_error)), ev, w)
                         | (Inr _, w) \<Rightarrow>
                             (AF_Phase (PF_Apply (''apply failed: '' @ any_display source
                                @ ''; partial rollback attempted and completed successfully'')), ev,
                              append_runner_audit_event env ev (Some Ph_Rollback) True (affected_tasks token)
                                (restore_path token) None
                                ''partial rollback attempted after apply failure; partial rollback completed'' w))
                    | (Inl rollback_err, w) \<Rightarrow>
                        (AF_Rollback (EmergencyRollbackFailure (''apply failed: '' @ any_display source)
                           (any_display rollback_err)), ev,
                         append_runner_audit_event env ev (Some Ph_Rollback) False (affected_tasks token)
                           (restore_path token) (Some ''EmergencyRollbackFailed'')
                           ''partial rollback attempted after apply failure; partial rollback failed'' w))))"

definition run_apply ::
  "'w runner_env \<Rightarrow> 'w tuning_action \<Rightarrow> action_run_policy \<Rightarrow> 'w action_hooks \<Rightarrow> audit_event \<Rightarrow> 'w
    \<Rightarrow> ('w, rollback_token) run_result" where
  "run_apply env a rp hooks ev w =
     (let ev = ev\<lparr>ae_action_phase := Some Ph_Apply\<rparr>
      in case check_action_with_explanation (rp_policy rp) (rp_context rp) Intent_Apply (ta_descriptor a) of
           Inl e \<Rightarrow> (Inl e, ev, w)
         | Inr _ \<Rightarrow>
            (case ta_apply a (run_after_prepare hooks) w of
               (Inl partial_err, w) \<Rightarrow>
                 (let (e, ev, w) = partial_apply_failure env a hooks partial_err ev w in (Inl e, ev, w))
             | (Inr token, w) \<Rightarrow> (Inr token, ev, w)))"

definition fail_with_rollback ::
  "'w runner_env \<Rightarrow> 'w tuning_action \<Rightarrow> 'w action_hooks \<Rightarrow> nat \<Rightarrow> nat option \<Rightarrow> action_phase \<Rightarrow> rollback_token
    \<Rightarrow> 'a \<Rightarrow> audit_event \<Rightarrow> 'w \<Rightarrow> ('w, 'a) run_result" where
  "fail_with_rollback env a hooks started max_total phase token x ev w =
     (case total_timeout_error env started max_total phase w of
        (None, w) \<Rightarrow> (Inr x, ev, w)
      | (Some timeout, w) \<Rightarrow>
          (let ev = ev\<lparr>ae_action_phase := Some Ph_Rollback\<rparr>;
               (e, w) = rollback_after_timeout env a hooks token timeout ev w
           in (Inl e, ev, w)))"

definition run_applied ::
  "'w runner_env \<Rightarrow> 'w tuning_action \<Rightarrow> action_run_policy \<Rightarrow> 'w action_hooks \<Rightarrow> nat \<Rightarrow> rollback_token
    \<Rightarrow> audit_event \<Rightarrow> 'w \<Rightarrow> ('w, unit) run_result" where
  "run_applied env a rp hooks started token ev w =
     (let ev = ev\<lparr>ae_affected_tasks := affected_tasks token, ae_restore_path := restore_path token\<rparr>
      in case run_after_apply hooks token w of
           (Inl hook_err, w) \<Rightarrow>
             (let ev = ev\<lparr>ae_action_phase := Some Ph_Rollback\<rparr>;
                  (e, w) = rollback_after_apply_hook_failure env a hooks token hook_err ev w
              in (Inl e, ev, w))
         | (Inr _, w) \<Rightarrow>
             fail_with_rollback env a hooks started (rp_max_total_duration rp) Ph_Apply token () ev
               (append_runner_audit_event env ev (Some Ph_Apply) True (affected_tasks token)
                  (restore_path token) None ''apply successful'' w))"

definition rollback_after_verify_failure ::
  "'w runner_env \<Rightarrow> 'w tuning_action \<Rightarrow> 'w action_hooks \<Rightarrow> rollback_token \<Rightarrow> anyhow \<Rightarrow> audit_event
    \<Rightarrow> 'w \<Rightarrow> action_failure \<times> 'w" where
  "rollback_after_verify_failure env a hooks token verify_err ev w =
     (case ta_rollback a token w of
        (Inr _, w) \<Rightarrow>
          (case run_after_rollback hooks token w of
             (Inl hook_err, w) \<Rightarrow>
               (AF_Rollback (RollbackFailure
                  (''after-rollback hook failed after verify failure rollback completed: verify error: ''
                   @ any_display verify_err @ ''; hook error: '' @ any_display_alt hook_err)), w)
           | (Inr _, w) \<Rightarrow>
               (AF_Rollback (VerifyRollbackCompleted (any_display verify_err)),
                append_runner_audit_event env ev (Some Ph_Rollback) True (affected_tasks token)
                  (restore_path token) None ''rollback completed after verify failure'' w))
      | (Inl rollback_err, w) \<Rightarrow>
          (AF_Rollback (EmergencyRollbackFailure (any_display verify_err) (any_display rollback_err)), w))"

definition run_verify ::
  "'w runner_env \<Rightarrow> 'w tuning_action \<Rightarrow> action_run_policy \<Rightarrow> 'w action_hooks \<Rightarrow> nat \<Rightarrow> rollback_token
    \<Rightarrow> audit_event \<Rightarrow> 'w \<Rightarrow> ('w, action_state) run_result" where
  "run_verify env a rp hooks started token ev w =
     (let ev = ev\<lparr>ae_action_phase := Some Ph_Verify\<rparr>
      in case ta_verify a w of
           (Inr state, w) \<Rightarrow>
             fail_with_rollback env a hooks started (rp_max_total_duration rp) Ph_Verify token state ev
               (append_runner_audit_event env ev (Some Ph_Verify) True (as_affected_tasks state)
                  (restore_path token) None ''verify successful'' w)
         | (Inl verify_err, w) \<Rightarrow>
             (let ev = ev\<lparr>ae_action_phase := Some Ph_Rollback\<rparr>;
                  (e, w) = rollback_after_verify_failure env a hooks token verify_err ev w
              in (Inl e, ev, w)))"

definition mark_success :: "usize \<Rightarrow> string \<Rightarrow> audit_event \<Rightarrow> audit_event" where
  "mark_success affected message ev =
     ev\<lparr>ae_success := True, ae_affected_tasks := affected, ae_action_phase := None,
        ae_error_category := None, ae_message := message\<rparr>"

section \<open>The run\<close>

definition run_body ::
  "'w runner_env \<Rightarrow> 'w tuning_action \<Rightarrow> action_run_policy \<Rightarrow> 'w action_hooks \<Rightarrow> nat \<Rightarrow> audit_event \<Rightarrow> 'w
    \<Rightarrow> ('w, audited_action_result) run_result" where
  "run_body env a rp hooks started ev w =
     run_then (run_preflight env a rp started ev w) (\<lambda>_ ev w.
       if rp_dry_run rp then
         run_then (run_dry_run env a rp started ''dry run successful'' ev w) (\<lambda>state ev w.
           (Inr \<lparr>ar_state = state, ar_rollback = None\<rparr>,
            mark_success (as_affected_tasks state) ''dry run successful'' ev, w))
       else
         run_then (run_dry_run env a rp started ''pre-apply dry run successful'' ev w) (\<lambda>dry_state ev w.
         run_then (check_scope_limit rp dry_state ev w) (\<lambda>_ ev w.
         run_then (run_apply env a rp hooks ev w) (\<lambda>token ev w.
         run_then (run_applied env a rp hooks started token ev w) (\<lambda>_ ev w.
         run_then (run_verify env a rp hooks started token ev w) (\<lambda>state ev w.
           (Inr \<lparr>ar_state = state, ar_rollback = Some token\<rparr>,
            mark_success (as_affected_tasks state) ''action applied and verified'' ev, w)))))))"

definition initial_audit_event :: "nat \<Rightarrow> string \<Rightarrow> action_descriptor \<Rightarrow> bool \<Rightarrow> audit_event" where
  "initial_audit_event now command d dry =
     \<lparr>ae_schema_version = 1, ae_unix_nanos = now, ae_command = command,
      ae_action_id = Some (ad_action_id d), ae_safety_class = Some (ad_safety_class d), ae_dry_run = dry,
      ae_success = False, ae_affected_tasks = 0, ae_restore_path = None, ae_action_phase = None,
      ae_error_category = None, ae_operation = None, ae_message = ''''\<rparr>"

definition mark_failure :: "action_failure \<Rightarrow> audit_event \<Rightarrow> audit_event" where
  "mark_failure e ev =
     ev\<lparr>ae_success := False, ae_action_phase := Some (failure_phase e),
        ae_error_category := Some (failure_category e), ae_message := human_message e\<rparr>"

definition run_audited_action ::
  "'w runner_env \<Rightarrow> string \<Rightarrow> 'w tuning_action \<Rightarrow> action_run_policy \<Rightarrow> 'w action_hooks \<Rightarrow> 'w
    \<Rightarrow> (action_failure + audited_action_result) \<times> 'w" where
  "run_audited_action env command a rp hooks w =
     (let (now, w) = re_unix_nanos env w;
          (started, w) = re_instant env w;
          ev = initial_audit_event now command (ta_descriptor a) (rp_dry_run rp);
          (result, ev, w) = run_body env a rp hooks started ev w;
          ev = (case result of Inl e \<Rightarrow> mark_failure e ev | Inr _ \<Rightarrow> ev)
      in (result,
          append_runner_audit_event env ev (ae_action_phase ev) (ae_success ev) (ae_affected_tasks ev)
            (ae_restore_path ev) (ae_error_category ev) (ae_message ev) w))"

end
