(* ===== verification/Nice_Action.thy ===== *)
theory Nice_Action
  imports Action_Runner
begin

text \<open>
  The nice action (\<open>stutter/src/actions/nice/\<close>) with the restore identity checks
  (\<open>restore_identity.rs\<close>) and the classification of restore-write errors (\<open>restore_write.rs\<close>). The
  kernel is a parameter: reading a file or a link of procfs in a world \<open>'w\<close>, and \<open>setpriority\<close>, which
  changes the world. Reads do not change the world; between two reads of one operation the host changes
  only through the calls and callbacks of that operation. Log lines are not modelled.
\<close>

section \<open>The host\<close>

record 'w task_host =
  th_read :: "string \<Rightarrow> 'w \<Rightarrow> io_error + string"
  th_readlink :: "string \<Rightarrow> 'w \<Rightarrow> string option"
  th_exists :: "string \<Rightarrow> 'w \<Rightarrow> bool"
  th_setpriority :: "u32 \<Rightarrow> int \<Rightarrow> 'w \<Rightarrow> (io_error + unit) \<times> 'w"

definition proc_file :: "u32 \<Rightarrow> string \<Rightarrow> string" where
  "proc_file tid name = ''/proc/'' @ show_nat (unat tid) @ ''/'' @ name"

section \<open>Restore identities\<close>

datatype restore_identity_status = SameTask | Missing | Mismatch string | UnknownLegacy

definition parse_u64 :: "string \<Rightarrow> u64 option" where
  "parse_u64 s = map_option of_nat (parse_bits 64 s)"

definition list_get :: "nat \<Rightarrow> 'a list \<Rightarrow> 'a option" where
  "list_get n xs = (if n < length xs then Some (xs ! n) else None)"

definition parse_proc_stat_starttime :: "string \<Rightarrow> u64 option" where
  "parse_proc_stat_starttime stat =
     Option.bind (rsplit_after '') '' stat) (\<lambda>after_comm.
       Option.bind (list_get 19 (split_whitespace after_comm)) parse_u64)"

fun first_parsed :: "('a \<Rightarrow> 'b option) \<Rightarrow> 'a list \<Rightarrow> 'b option" where
  "first_parsed f [] = None"
| "first_parsed f (x # xs) = (case f x of Some y \<Rightarrow> Some y | None \<Rightarrow> first_parsed f xs)"

definition read_proc_status_tgid :: "'w task_host \<Rightarrow> u32 \<Rightarrow> 'w \<Rightarrow> io_error + u32 option" where
  "read_proc_status_tgid host tid w =
     (case th_read host (proc_file tid ''status'') w of
        Inl e \<Rightarrow> Inl e
      | Inr status \<Rightarrow>
          Inr (first_parsed (\<lambda>line. Option.bind (strip_prefix ''Tgid:'' line) (\<lambda>v. parse_u32 (trim v)))
                 (str_lines status)))"

definition check_process_pid :: "'w task_host \<Rightarrow> task_restore_identity \<Rightarrow> 'w \<Rightarrow> restore_identity_status option" where
  "check_process_pid host identity w =
     (case ti_process_pid identity of
        None \<Rightarrow> None
      | Some expected \<Rightarrow>
         (case read_proc_status_tgid host (ti_tid identity) w of
            Inr (Some actual) \<Rightarrow>
              if actual \<noteq> expected
              then Some (Mismatch (''process_pid mismatch: expected='' @ show_nat (unat expected)
                     @ '' actual='' @ show_nat (unat actual)))
              else None
          | Inr None \<Rightarrow> Some (Mismatch ''unable to parse current process_pid'')
          | Inl _ \<Rightarrow> Some (Mismatch ''unable to read current process_pid'')))"

definition check_process_starttime ::
  "'w task_host \<Rightarrow> task_restore_identity \<Rightarrow> u64 option \<Rightarrow> 'w \<Rightarrow> restore_identity_status option" where
  "check_process_starttime host identity current_starttime w =
     (case (ti_process_pid identity, ti_process_starttime_ticks identity) of
        (Some process_pid, Some expected) \<Rightarrow>
          (case (if process_pid = ti_tid identity then current_starttime
                 else case th_read host (proc_file process_pid ''stat'') w of
                        Inl _ \<Rightarrow> None | Inr stat \<Rightarrow> parse_proc_stat_starttime stat) of
             Some actual \<Rightarrow>
               if actual \<noteq> expected
               then Some (Mismatch (''process_starttime_ticks mismatch: expected='' @ show_nat (unat expected)
                      @ '' actual='' @ show_nat (unat actual)))
               else None
           | None \<Rightarrow> Some (Mismatch ''unable to verify current process starttime''))
      | _ \<Rightarrow> None)"

definition verify_task_identity :: "'w task_host \<Rightarrow> task_restore_identity \<Rightarrow> 'w \<Rightarrow> restore_identity_status" where
  "verify_task_identity host identity w =
     (case th_read host (proc_file (ti_tid identity) ''stat'') w of
        Inl _ \<Rightarrow> Missing
      | Inr stat \<Rightarrow>
         (let current = parse_proc_stat_starttime stat
          in case (ti_starttime_ticks identity, current) of
               (None, _) \<Rightarrow> UnknownLegacy
             | (Some _, None) \<Rightarrow> Mismatch ''unable to parse current starttime''
             | (Some expected, Some actual) \<Rightarrow>
                 if expected \<noteq> actual
                 then Mismatch (''starttime_ticks mismatch: expected='' @ show_nat (unat expected)
                        @ '' actual='' @ show_nat (unat actual))
                 else case check_process_pid host identity w of
                        Some m \<Rightarrow> m
                      | None \<Rightarrow>
                         (case check_process_starttime host identity current w of
                            Some m \<Rightarrow> m | None \<Rightarrow> SameTask)))"

datatype restore_write_error =
    RW_MissingTask | RW_PermissionDenied anyhow | RW_InvalidValue anyhow | RW_Io anyhow

text \<open>\<open>ESRCH\<close> is 3 and \<open>EINVAL\<close> is 22 on Linux.\<close>

definition classify_restore_write_error ::
  "'w task_host \<Rightarrow> u32 \<Rightarrow> anyhow \<Rightarrow> 'w \<Rightarrow> restore_write_error" where
  "classify_restore_write_error host tid err w =
     (case any_root err of
        RootIo e \<Rightarrow>
          if io_raw_os_error e = Some 3
             \<or> (io_kind e = Io_NotFound \<and> \<not> th_exists host (''/proc/'' @ show_nat (unat tid)) w)
          then RW_MissingTask
          else if io_kind e = Io_PermissionDenied then RW_PermissionDenied err
          else if io_kind e = Io_InvalidInput \<or> io_kind e = Io_InvalidData \<or> io_raw_os_error e = Some 22
          then RW_InvalidValue err
          else RW_Io err
      | _ \<Rightarrow> RW_Io err)"

record restore_summary =
  rs_restored :: usize
  rs_skipped_missing :: usize
  rs_skipped_identity_mismatch :: usize
  rs_failed :: usize

definition summary_zero :: restore_summary where
  "summary_zero = \<lparr>rs_restored = 0, rs_skipped_missing = 0, rs_skipped_identity_mismatch = 0, rs_failed = 0\<rparr>"

definition record_restored :: "restore_summary \<Rightarrow> restore_summary" where
  "record_restored s = s\<lparr>rs_restored := rs_restored s + 1\<rparr>"

definition record_missing :: "restore_summary \<Rightarrow> restore_summary" where
  "record_missing s = s\<lparr>rs_skipped_missing := rs_skipped_missing s + 1\<rparr>"

definition record_identity_mismatch :: "restore_summary \<Rightarrow> restore_summary" where
  "record_identity_mismatch s = s\<lparr>rs_skipped_identity_mismatch := rs_skipped_identity_mismatch s + 1\<rparr>"

definition record_failure :: "restore_summary \<Rightarrow> restore_summary" where
  "record_failure s = s\<lparr>rs_failed := rs_failed s + 1\<rparr>"

definition has_failures :: "restore_summary \<Rightarrow> bool" where
  "has_failures s \<longleftrightarrow> 0 < rs_failed s"

section \<open>The action\<close>

record nice_policy =
  np_allow_nice_changes :: bool
  np_min_nice :: int
  np_max_nice :: int

definition LINUX_MIN_NICE :: int where "LINUX_MIN_NICE = - 20"
definition LINUX_MAX_NICE :: int where "LINUX_MAX_NICE = 19"

definition default_nice_policy :: nice_policy where
  "default_nice_policy = \<lparr>np_allow_nice_changes = True, np_min_nice = LINUX_MIN_NICE, np_max_nice = LINUX_MAX_NICE\<rparr>"

record nice_action =
  na_targets :: "task_identity list"
  na_nice :: int
  na_policy :: nice_policy

record nice_target_snapshot =
  sn_tid :: u32
  sn_process_pid :: "u32 option"
  sn_current_nice :: int
  sn_comm :: "string option"
  sn_starttime_ticks :: "u64 option"
  sn_exe :: "string option"

definition boundary_err :: "action_boundary_error \<Rightarrow> anyhow" where
  "boundary_err e = Anyhow [] (RootBoundary e)"

definition validate_policy_and_request :: "nice_policy \<Rightarrow> int \<Rightarrow> anyhow + unit" where
  "validate_policy_and_request p requested =
     (if \<not> np_allow_nice_changes p then Inl (boundary_err (PolicyDenied ''nice'' ''allow_nice_changes''))
      else if np_min_nice p < LINUX_MIN_NICE \<or> LINUX_MAX_NICE < np_max_nice p
      then Inl (boundary_err (InvalidPolicy ''nice''
             (''invalid nice policy range '' @ show_int (np_min_nice p) @ ''..='' @ show_int (np_max_nice p)
              @ ''; Linux nice range is '' @ show_int LINUX_MIN_NICE @ ''..='' @ show_int LINUX_MAX_NICE)))
      else if np_max_nice p < np_min_nice p
      then Inl (boundary_err (InvalidPolicy ''nice''
             (''invalid nice policy range '' @ show_int (np_min_nice p) @ ''..='' @ show_int (np_max_nice p)
              @ '': min is greater than max'')))
      else if requested < LINUX_MIN_NICE \<or> LINUX_MAX_NICE < requested
      then Inl (boundary_err (InvalidValue ''nice'' ''nice''
             (''requested nice '' @ show_int requested @ '' is outside Linux nice range ''
              @ show_int LINUX_MIN_NICE @ ''..='' @ show_int LINUX_MAX_NICE)))
      else if requested < np_min_nice p \<or> np_max_nice p < requested
      then Inl (boundary_err (InvalidValue ''nice'' ''nice''
             (''requested nice '' @ show_int requested @ '' is outside policy range ''
              @ show_int (np_min_nice p) @ ''..='' @ show_int (np_max_nice p))))
      else Inr ())"

text \<open>The text of a \<open>ParseIntError\<close> for a non-empty field.\<close>

definition parse_int_error :: "string \<Rightarrow> string" where
  "parse_int_error v =
     (if parse_nat v \<noteq> None then ''number too large to fit in target type''
      else if v \<noteq> [] \<and> hd v = CHR ''-'' \<and> tl v \<noteq> [] \<and> parse_digits 0 (tl v) \<noteq> None
      then ''number too small to fit in target type''
      else ''invalid digit found in string'')"

definition parse_field :: "string \<Rightarrow> string \<Rightarrow> (string \<Rightarrow> 'a option) \<Rightarrow> string option \<Rightarrow> anyhow + 'a" where
  "parse_field missing invalid parse field =
     (case field of
        None \<Rightarrow> Inl (anyhow_msg missing)
      | Some v \<Rightarrow>
          (case parse v of
             Some x \<Rightarrow> Inr x
           | None \<Rightarrow> Inl (any_context invalid (anyhow_msg (parse_int_error v)))))"

definition parse_stat_nice_and_starttime :: "string \<Rightarrow> anyhow + int \<times> u64" where
  "parse_stat_nice_and_starttime stat =
     (case rsplit_after '')'' stat of
        None \<Rightarrow> Inl (anyhow_msg ''stat line does not contain closing comm parenthesis'')
      | Some rest \<Rightarrow>
          (let fields = split_whitespace rest
           in res_bind (parse_field ''stat line missing nice field'' ''invalid nice field'' (parse_signed 31)
                          (list_get 16 fields))
                (\<lambda>nice. res_bind (parse_field ''stat line missing starttime field'' ''invalid starttime field''
                          parse_u64 (list_get 19 fields))
                (\<lambda>starttime. Inr (nice, starttime)))))"

definition read_stat :: "'w task_host \<Rightarrow> u32 \<Rightarrow> 'w \<Rightarrow> anyhow + int \<times> u64" where
  "read_stat host tid w =
     (let path = proc_file tid ''stat''
      in case th_read host path w of
           Inl e \<Rightarrow> Inl (Anyhow [''target task does not exist or stat is unreadable: '' @ path] (RootIo e))
         | Inr stat \<Rightarrow>
             (case parse_stat_nice_and_starttime stat of
                Inl e \<Rightarrow> Inl (any_context (''failed to parse nice/starttime from '' @ path) e)
              | Inr r \<Rightarrow> Inr r))"

definition read_comm :: "'w task_host \<Rightarrow> u32 \<Rightarrow> 'w \<Rightarrow> string option" where
  "read_comm host tid w =
     (case th_read host (proc_file tid ''comm'') w of
        Inl _ \<Rightarrow> None
      | Inr comm \<Rightarrow> if trim comm = [] then None else Some (trim comm))"

definition read_target_snapshot ::
  "'w task_host \<Rightarrow> task_identity \<Rightarrow> 'w \<Rightarrow> anyhow + nice_target_snapshot" where
  "read_target_snapshot host target w =
     (if tk_tid target = 0 then Inl (boundary_err (InvalidTargetTid ''nice'' (tk_tid target)))
      else res_bind (read_stat host (tk_tid target) w) (\<lambda>(current_nice, starttime).
        if tk_starttime_ticks target \<noteq> None \<and> tk_starttime_ticks target \<noteq> Some starttime
        then Inl (boundary_err (TargetIdentityMismatch ''nice'' (tk_tid target)
               (the (tk_starttime_ticks target)) starttime))
        else Inr \<lparr>sn_tid = tk_tid target, sn_process_pid = tk_process_pid target,
                  sn_current_nice = current_nice, sn_comm = read_comm host (tk_tid target) w,
                  sn_starttime_ticks = Some starttime,
                  sn_exe = th_readlink host (proc_file (tk_tid target) ''exe'') w\<rparr>))"

definition identity_warnings :: "task_identity \<Rightarrow> nice_target_snapshot \<Rightarrow> string list" where
  "identity_warnings target snapshot =
     (case (tk_comm target, sn_comm snapshot) of
        (Some expected, Some actual) \<Rightarrow>
          if expected \<noteq> actual
          then [''target tid='' @ show_nat (unat (tk_tid target)) @ '' comm changed from '' @ debug_str expected
                @ '' to '' @ debug_str actual
                @ ''; continuing because starttime matched or was not provided'']
          else []
      | _ \<Rightarrow> [])
     @ (if tk_process_pid target = None
        then [''target tid='' @ show_nat (unat (tk_tid target))
              @ '' has no process_pid identity; rollback will use tid only'']
        else [])"

fun collect_snapshots ::
  "'w task_host \<Rightarrow> task_identity list \<Rightarrow> 'w \<Rightarrow> anyhow + (nice_target_snapshot \<times> string list) list" where
  "collect_snapshots host [] w = Inr []"
| "collect_snapshots host (t # ts) w =
     (case read_target_snapshot host t w of
        Inl e \<Rightarrow> Inl (any_context (''failed to preflight nice target tid='' @ show_nat (unat (tk_tid t))) e)
      | Inr s \<Rightarrow> res_bind (collect_snapshots host ts w) (\<lambda>rest. Inr ((s, identity_warnings t s) # rest)))"

definition collect_target_snapshots ::
  "'w task_host \<Rightarrow> nice_action \<Rightarrow> 'w \<Rightarrow> anyhow + (nice_target_snapshot \<times> string list) list" where
  "collect_target_snapshots host a w =
     res_bind (validate_policy_and_request (na_policy a) (na_nice a)) (\<lambda>_.
       if na_targets a = [] then Inl (boundary_err (MissingExplicitTargets ''nice''))
       else collect_snapshots host (na_targets a) w)"

definition nice_preflight :: "'w task_host \<Rightarrow> nice_action \<Rightarrow> 'w \<Rightarrow> anyhow + string list" where
  "nice_preflight host a w =
     res_bind (collect_target_snapshots host a w) (\<lambda>snapshots. Inr (concat (map snd snapshots)))"

definition pending_count :: "nice_action \<Rightarrow> (nice_target_snapshot \<times> string list) list \<Rightarrow> usize" where
  "pending_count a snapshots = length (filter (\<lambda>(s, _). sn_current_nice s \<noteq> na_nice a) snapshots)"

definition nice_dry_run :: "'w task_host \<Rightarrow> nice_action \<Rightarrow> 'w \<Rightarrow> anyhow + action_state" where
  "nice_dry_run host a w =
     res_bind (collect_target_snapshots host a w) (\<lambda>snapshots.
       (let pending = pending_count a snapshots
        in Inr \<lparr>as_applied = False, as_affected_tasks = pending, as_checked_tasks = length (na_targets a),
                as_pending_changes = pending, as_warnings = concat (map snd snapshots)\<rparr>))"

definition nice_verify :: "'w task_host \<Rightarrow> nice_action \<Rightarrow> 'w \<Rightarrow> anyhow + action_state" where
  "nice_verify host a w =
     res_bind (collect_target_snapshots host a w) (\<lambda>snapshots.
       (let pending = pending_count a snapshots
        in Inr \<lparr>as_applied = (na_targets a \<noteq> [] \<and> pending = 0), as_affected_tasks = length (na_targets a),
                as_checked_tasks = length (na_targets a), as_pending_changes = pending,
                as_warnings = concat (map snd snapshots)\<rparr>))"

definition nice_action_id :: "nice_action \<Rightarrow> string" where
  "nice_action_id a =
     ''nice:set:'' @ show_int (na_nice a) @ '':targets:'' @ show_nat (length (na_targets a))"

definition nice_describe :: "nice_action \<Rightarrow> string" where
  "nice_describe a =
     ''set nice='' @ show_int (na_nice a) @ '' for task(s) [''
     @ join '','' (map (\<lambda>t. show_nat (unat (tk_tid t))) (na_targets a)) @ '']''"

section \<open>Preparing, applying, rolling back\<close>

definition set_task_nice :: "'w task_host \<Rightarrow> u32 \<Rightarrow> int \<Rightarrow> 'w \<Rightarrow> (anyhow + unit) \<times> 'w" where
  "set_task_nice host tid nice w =
     (case th_setpriority host tid nice w of
        (Inr _, w') \<Rightarrow> (Inr (), w')
      | (Inl e, w') \<Rightarrow>
          (Inl (Anyhow [''setpriority(PRIO_PROCESS, '' @ show_nat (unat tid) @ '', '' @ show_int nice @ '') failed'']
                  (RootIo e)), w'))"

fun plan_loop ::
  "int \<Rightarrow> bool \<Rightarrow> (nice_target_snapshot \<times> string list) list \<Rightarrow> anyhow + nice_restore_record list" where
  "plan_loop nice require_identity [] = Inr []"
| "plan_loop nice require_identity ((s, _) # rest) =
     (if require_identity \<and> \<not> (sn_starttime_ticks s \<noteq> None \<and> sn_process_pid s \<noteq> None)
      then Inl (anyhow_msg (''nice target tid='' @ show_nat (unat (sn_tid s)) @ '' lacks a complete task identity''))
      else if sn_current_nice s = nice then plan_loop nice require_identity rest
      else res_bind (plan_loop nice require_identity rest) (\<lambda>plan.
             Inr (nice_record_new
                    (identity_observed (sn_tid s) (sn_process_pid s) (sn_comm s) (sn_starttime_ticks s) (sn_exe s))
                    (sn_current_nice s) # plan)))"

definition plan_records :: "'w task_host \<Rightarrow> nice_action \<Rightarrow> bool \<Rightarrow> 'w \<Rightarrow> anyhow + nice_restore_record list" where
  "plan_records host a require_identity w =
     res_bind (collect_target_snapshots host a w) (plan_loop (na_nice a) require_identity)"

definition apply_record :: "'w task_host \<Rightarrow> nice_action \<Rightarrow> nice_restore_record \<Rightarrow> 'w \<Rightarrow> (anyhow + unit) \<times> 'w" where
  "apply_record host a r w =
     (case set_task_nice host (nice_record_tid r) (na_nice a) w of
        (Inl e, w') \<Rightarrow>
          (Inl (any_context (''failed to set nice for tid='' @ show_nat (unat (nice_record_tid r))) e), w')
      | (Inr u, w') \<Rightarrow> (Inr u, w'))"

definition apply_plan ::
  "'w task_host \<Rightarrow> nice_action \<Rightarrow> nice_restore_record list \<Rightarrow> 'w \<Rightarrow> (partial_apply_error + rollback_token) \<times> 'w" where
  "apply_plan host a plan w = apply_planned_loop plan (apply_record host a) NiceRestore w"

definition clean_failure :: "anyhow \<Rightarrow> partial_apply_error" where
  "clean_failure e = \<lparr>pa_source = e, pa_rollback = None\<rparr>"

definition apply_prepared ::
  "'w task_host \<Rightarrow> nice_action \<Rightarrow> (rollback_token \<Rightarrow> 'w \<Rightarrow> (anyhow + unit) \<times> 'w) \<Rightarrow> 'w
    \<Rightarrow> (partial_apply_error + rollback_token) \<times> 'w" where
  "apply_prepared host a before_mutation w =
     (case plan_records host a True w of
        Inl e \<Rightarrow> (Inl (clean_failure e), w)
      | Inr plan \<Rightarrow>
         (case before_mutation (NiceRestore plan) w of
            (Inl e, w) \<Rightarrow> (Inl (clean_failure e), w)
          | (Inr _, w) \<Rightarrow>
             (case plan_records host a True w of
                Inl e \<Rightarrow> (Inl (clean_failure e), w)
              | Inr plan' \<Rightarrow>
                  if plan' \<noteq> plan
                  then (Inl (clean_failure (anyhow_msg
                          ''nice target drifted between preparation and commit; nothing was written'')), w)
                  else apply_plan host a plan w)))"

text \<open>One record of the rollback loop; the accumulator is the summary and the failure messages.\<close>

definition rollback_record ::
  "'w task_host \<Rightarrow> nice_restore_record \<Rightarrow> restore_summary \<times> string list \<Rightarrow> 'w
    \<Rightarrow> (restore_summary \<times> string list) \<times> 'w" where
  "rollback_record host r acc w =
     (let identity = nice_restore_identity r; tid = ti_tid identity; (summary, failures) = acc
      in case verify_task_identity host identity w of
           Missing \<Rightarrow> ((record_missing summary, failures), w)
         | Mismatch _ \<Rightarrow> ((record_identity_mismatch summary, failures), w)
         | _ \<Rightarrow>
            (case set_task_nice host tid (nr_original_nice r) w of
               (Inr _, w) \<Rightarrow> ((record_restored summary, failures), w)
             | (Inl err, w) \<Rightarrow>
                (case classify_restore_write_error host tid err w of
                   RW_MissingTask \<Rightarrow> ((record_missing summary, failures), w)
                 | _ \<Rightarrow>
                     ((record_failure summary,
                       failures @ [''failed to restore original nice='' @ show_int (nr_original_nice r)
                         @ '' for tid='' @ show_nat (unat tid) @ '': '' @ any_display_alt err]), w))))"

fun rollback_loop ::
  "'w task_host \<Rightarrow> nice_restore_record list \<Rightarrow> restore_summary \<times> string list \<Rightarrow> 'w
    \<Rightarrow> (restore_summary \<times> string list) \<times> 'w" where
  "rollback_loop host [] acc w = (acc, w)"
| "rollback_loop host (r # rs) acc w =
     (case rollback_record host r acc w of (acc', w') \<Rightarrow> rollback_loop host rs acc' w')"

definition nice_rollback :: "'w task_host \<Rightarrow> rollback_token \<Rightarrow> 'w \<Rightarrow> (anyhow + unit) \<times> 'w" where
  "nice_rollback host token w =
     (case token of
        NiceRestore records \<Rightarrow>
          (case rollback_loop host records (summary_zero, []) w of
             ((summary, failures), w) \<Rightarrow>
               if has_failures summary
               then (Inl (boundary_err (RestoreFailed ''nice''
                       (''failed to rollback nice after attempting all records: restored=''
                        @ show_nat (rs_restored summary) @ '' skipped_missing=''
                        @ show_nat (rs_skipped_missing summary) @ '' skipped_identity_mismatch=''
                        @ show_nat (rs_skipped_identity_mismatch summary) @ '' failed=''
                        @ show_nat (rs_failed summary) @ '' errors='' @ join ''; '' failures))), w)
               else (Inr (), w))
      | _ \<Rightarrow>
          (Inl (Anyhow [] (RootAction (AF_InvalidRollbackToken ''nice-restore'' (token_kind token)))), w))"

text \<open>The implementation of \<open>TuningAction\<close>.\<close>

definition nice_tuning_action :: "'w task_host \<Rightarrow> nice_action \<Rightarrow> 'w tuning_action" where
  "nice_tuning_action host a =
     \<lparr>ta_descriptor = default_descriptor (nice_action_id a) SC_ReversibleMediumRisk,
      ta_preflight = (\<lambda>w. (nice_preflight host a w, w)),
      ta_dry_run = (\<lambda>w. (nice_dry_run host a w, w)),
      ta_apply = apply_prepared host a,
      ta_verify = (\<lambda>w. (nice_verify host a w, w)),
      ta_rollback = nice_rollback host\<rparr>"

end
