(* ===== verification/Daemon_Policy_Facts.thy ===== *)
theory Daemon_Policy_Facts
  imports Daemon_Policy
begin

text \<open>
  What the daemon policy guarantees. The locale \<open>policy_gate\<close> is the contract every rule-recording
  step of the evaluation keeps; each step is an interpretation of it, and the abstract specification
  \<open>apply_permitted\<close> is the conjunction that the composed gates decide.
\<close>

section \<open>The contract of a rule-recording step\<close>

definition rules_sound :: "rule_state \<Rightarrow> bool" where
  "rules_sound st \<longleftrightarrow> (snd st = None \<longleftrightarrow> (\<forall>r \<in> set (fst st). pr_passed r))"

locale policy_gate =
  fixes gate :: "rule_state \<Rightarrow> rule_state"
    and ok :: bool
  assumes gate_decides: "snd (gate st) = None \<longleftrightarrow> snd st = None \<and> ok"
    and gate_keeps: "snd st = Some r \<Longrightarrow> snd (gate st) = Some r"
    and gate_extends: "\<exists>rs. fst (gate st) = fst st @ rs \<and> ((\<forall>r \<in> set rs. pr_passed r) \<longleftrightarrow> ok)"
begin

lemma gate_sound: "rules_sound st \<Longrightarrow> rules_sound (gate st)"
  using gate_decides [of st] gate_extends [of st] by (auto simp: rules_sound_def)

lemma gate_passes: "ok \<Longrightarrow> snd (gate st) = snd st"
  using gate_decides [of st] gate_keeps [of st] by (cases "snd st") auto

lemma gate_blocks: "\<not> ok \<Longrightarrow> snd (gate st) \<noteq> None"
  using gate_decides by simp

end

lemma gate_skip: "policy_gate (\<lambda>st. st) True"
  by standard auto

lemma gate_record:
  assumes "\<not> passed \<Longrightarrow> rejection \<noteq> None"
  shows "policy_gate (record_policy_rule rule passed reason rejection) passed"
  by standard (use assms in \<open>auto simp: record_policy_rule_def\<close>)

lemma gate_record_passed: "policy_gate (record_policy_rule rule True reason rejection) True"
  by (rule gate_record) simp

lemma gate_then:
  assumes "policy_gate g a" "policy_gate h b"
  shows "policy_gate (\<lambda>st. h (g st)) (a \<and> b)"
proof -
  have fst_h: "\<exists>ss. fst (h (g st)) = fst (g st) @ ss \<and> ((\<forall>r \<in> set ss. pr_passed r) \<longleftrightarrow> b)" for st
    by (rule policy_gate.gate_extends [OF assms(2)])
  have fst_g: "\<exists>rs. fst (g st) = fst st @ rs \<and> ((\<forall>r \<in> set rs. pr_passed r) \<longleftrightarrow> a)" for st
    by (rule policy_gate.gate_extends [OF assms(1)])
  show ?thesis
  proof
    show "\<exists>rs. fst (h (g st)) = fst st @ rs \<and> ((\<forall>r \<in> set rs. pr_passed r) \<longleftrightarrow> a \<and> b)" for st
      using fst_g [of st] fst_h [of st] by fastforce
  qed (auto simp: policy_gate.gate_decides [OF assms(1)] policy_gate.gate_decides [OF assms(2)]
      intro: policy_gate.gate_keeps [OF assms(1)] policy_gate.gate_keeps [OF assms(2)])
qed

lemma gate_if:
  assumes "policy_gate g a"
  shows "policy_gate (\<lambda>st. if c then g st else st) (c \<longrightarrow> a)"
  using assms gate_skip by (cases c) auto

lemma gate_cong: "policy_gate g a \<Longrightarrow> (\<And>st. f st = g st) \<Longrightarrow> (a \<longleftrightarrow> b) \<Longrightarrow> policy_gate f b"
  by (subgoal_tac "f = g") auto

section \<open>The steps of the evaluation\<close>

definition remote_gates_ok :: "remote_apply_policy \<Rightarrow> bool" where
  "remote_gates_ok r \<longleftrightarrow>
     ra_remote_apply_enabled r
     \<and> (ra_require_auth r \<longrightarrow> ra_auth_configured r \<and> ra_request_authorized r)
     \<and> (ra_require_loopback_bind r \<longrightarrow> ra_bind_is_loopback r)
     \<and> ra_mode_supported_by_limits r \<and> ra_target_count_allowed r"

definition mode_rules_ok :: "daemon_policy \<Rightarrow> action_descriptor \<Rightarrow> bool" where
  "mode_rules_ok p d =
     (case dp_mode p of
        Mode_ApplyLowRisk \<Rightarrow>
          ad_safety_class d = SC_ReversibleLowRisk \<and> is_low_risk_apply_scope (ad_effect_scope d)
      | Mode_ApplyMediumRisk \<Rightarrow>
          ad_safety_class d \<le> SC_ReversibleMediumRisk \<and> is_explicit_target_scope (ad_effect_scope d)
      | Mode_ApplyHighRisk \<Rightarrow> ad_safety_class d \<noteq> SC_HighRisk \<or> dp_allow_high_risk p
      | _ \<Rightarrow> True)"

definition family_ok :: "daemon_policy \<Rightarrow> string \<Rightarrow> bool" where
  "family_ok p k \<longleftrightarrow>
     (dp_enabled_action_families p = {}
      \<or> (\<exists>f \<in> dp_enabled_action_families p. action_kind_matches_family k f))
     \<and> (\<forall>f \<in> dp_denied_action_families p. \<not> action_kind_matches_family k f)"

definition confidence_ok :: "daemon_policy \<Rightarrow> action_descriptor \<Rightarrow> bool" where
  "confidence_ok p d =
     (case ad_confidence d of None \<Rightarrow> True | Some c \<Rightarrow> f32_le (dp_min_confidence p) c)"

interpretation target_count: policy_gate "record_remote_target_count_rule p"
    "ra_target_count_allowed (dp_remote_apply p)" for p
  unfolding record_remote_target_count_rule_def Let_def by (rule gate_record) simp

interpretation remote_auth: policy_gate "record_remote_auth_rules r"
    "ra_require_auth r \<longrightarrow> ra_auth_configured r \<and> ra_request_authorized r" for r
  unfolding record_remote_auth_rules_def by (intro gate_if gate_then gate_record) simp_all

interpretation remote_bind: policy_gate "record_remote_bind_rule r"
    "ra_require_loopback_bind r \<longrightarrow> ra_bind_is_loopback r" for r
  unfolding record_remote_bind_rule_def by (intro gate_if gate_record) simp

interpretation remote_apply: policy_gate "record_remote_apply_rules p"
    "remote_gates_ok (dp_remote_apply p)" for p
  by (rule gate_cong [OF gate_then [OF gate_then [OF gate_then [OF gate_then [OF
            gate_record remote_auth.policy_gate_axioms] remote_bind.policy_gate_axioms]
            gate_record] target_count.policy_gate_axioms]])
    (auto simp: record_remote_apply_rules_def remote_gates_ok_def Let_def)

interpretation remote_gates: policy_gate "record_remote_apply_gates p"
    "dp_source p = Src_RemoteAgent \<and> supports_apply (dp_mode p) \<longrightarrow> remote_gates_ok (dp_remote_apply p)" for p
  unfolding record_remote_apply_gates_def by (intro gate_if remote_apply.policy_gate_axioms)

interpretation medium_unlock: policy_gate "record_medium_risk_unlock_rule p"
    "dp_mode p = Mode_ApplyMediumRisk \<longrightarrow> dp_allow_medium_risk_apply p" for p
  unfolding record_medium_risk_unlock_rule_def by (intro gate_if gate_record) simp

interpretation high_support: policy_gate "record_high_risk_support_rule p"
    "dp_mode p = Mode_ApplyHighRisk \<longrightarrow> HIGH_RISK_APPLY_IMPLEMENTED" for p
  unfolding record_high_risk_support_rule_def by (intro gate_if gate_record) simp

lemma gate_low_risk_mode: "policy_gate (record_low_risk_mode_rules p d)
    (ad_safety_class d = SC_ReversibleLowRisk \<and> is_low_risk_apply_scope (ad_effect_scope d))"
  unfolding record_low_risk_mode_rules_def Let_def by (intro gate_then gate_record) simp_all

lemma gate_medium_risk_mode: "policy_gate (record_medium_risk_mode_rules p d)
    (ad_safety_class d \<le> SC_ReversibleMediumRisk \<and> is_explicit_target_scope (ad_effect_scope d))"
  unfolding record_medium_risk_mode_rules_def Let_def by (intro gate_then gate_record) simp_all

lemma gate_high_risk_mode: "policy_gate (record_high_risk_mode_rules p d)
    (ad_safety_class d \<noteq> SC_HighRisk \<or> dp_allow_high_risk p)"
  by (rule gate_cong [OF gate_then [OF gate_then [OF gate_record gate_record] gate_record]])
    (auto simp: record_high_risk_mode_rules_def Let_def)

interpretation mode_rules: policy_gate "record_mode_rules p d" "mode_rules_ok p d" for p d
  unfolding record_mode_rules_def mode_rules_ok_def
  by (cases "dp_mode p")
    (simp_all only: daemon_mode.case gate_skip gate_low_risk_mode gate_medium_risk_mode gate_high_risk_mode)

lemma system_wide_rule_iff:
  "\<not> ad_touches_system_wide_state d \<or> dp_allow_system_wide_apply p \<or> medium_risk_system_scope_allowed p d
     \<longleftrightarrow> (ad_touches_system_wide_state d \<longrightarrow> dp_allow_system_wide_apply p)"
  by (auto simp: medium_risk_system_scope_allowed_def split: if_splits)

interpretation system_wide: policy_gate "record_system_wide_rule p d"
    "ad_touches_system_wide_state d \<longrightarrow> dp_allow_system_wide_apply p" for p d
  unfolding record_system_wide_rule_def Let_def
  by (rule gate_cong [OF gate_record _ system_wide_rule_iff]) (simp_all add: then_some_def)

interpretation persistent: policy_gate "record_persistent_rule p d"
    "\<not> ad_persistent_effect d \<or> dp_allow_persistent_effects p" for p d
  unfolding record_persistent_rule_def Let_def by (rule gate_record) simp

interpretation family: policy_gate "record_family_rules p d" "family_ok p (ad_action_kind d)" for p d
  by (rule gate_cong [OF gate_then [OF gate_record gate_record]])
    (auto simp: record_family_rules_def family_ok_def Let_def)

interpretation rollback_rule: policy_gate "record_rollback_rule d" "ad_rollback d = RequiredBeforeApply" for d
  unfolding record_rollback_rule_def by (cases "ad_rollback d") (simp_all add: gate_record gate_record_passed)

interpretation explicit_target: policy_gate "record_explicit_target_rule d"
    "\<not> ad_requires_explicit_target d \<or> is_explicit_target_scope (ad_effect_scope d)" for d
  unfolding record_explicit_target_rule_def Let_def by (rule gate_record) simp

interpretation confidence: policy_gate "record_confidence_rule p d" "confidence_ok p d" for p d
  unfolding record_confidence_rule_def confidence_ok_def Let_def
  by (cases "ad_confidence d") (simp_all add: gate_record gate_record_passed)

section \<open>Context gates\<close>

definition context_ok :: "policy_intent \<Rightarrow> daemon_policy_context \<Rightarrow> bool" where
  "context_ok intent x \<longleftrightarrow>
     (intent = Intent_Apply \<longrightarrow>
        px_data_quality_ok x \<and> px_system_health_ok x \<and> px_workload_stable x
        \<and> \<not> px_cooldown_active x \<and> \<not> px_rollback_pending x)"

definition capability_ok :: "policy_intent \<Rightarrow> action_descriptor \<Rightarrow> daemon_policy_context \<Rightarrow> bool" where
  "capability_ok intent d x \<longleftrightarrow>
     (intent \<in> {Intent_Suggest, Intent_DryRun, Intent_Apply} \<longrightarrow>
        Option.bind (px_capabilities x) (unavailable_capability_for_action (ad_action_kind d)) = None)"

interpretation capability: policy_gate "record_capability_rule intent d x" "capability_ok intent d x"
    for intent d x
  by (rule gate_cong [OF gate_record])
    (auto simp: record_capability_rule_def capability_ok_def Let_def)

interpretation context_rules: policy_gate "record_context_rules intent d x"
    "context_ok intent x \<and> capability_ok intent d x" for intent d x
  by (rule gate_cong [OF gate_then [OF gate_then [OF gate_then [OF gate_then [OF gate_then [OF
            gate_record gate_record] gate_record] gate_record] gate_record] capability.policy_gate_axioms]])
    (auto simp: record_context_rules_def context_ok_def Let_def)

section \<open>The abstract specification of an apply\<close>

definition apply_rules_ok :: "daemon_policy \<Rightarrow> action_descriptor \<Rightarrow> bool" where
  "apply_rules_ok p d \<longleftrightarrow>
     (dp_mode p = Mode_ApplyMediumRisk \<longrightarrow> dp_allow_medium_risk_apply p)
     \<and> (dp_mode p = Mode_ApplyHighRisk \<longrightarrow> HIGH_RISK_APPLY_IMPLEMENTED)
     \<and> (dp_source p = Src_RemoteAgent \<and> supports_apply (dp_mode p) \<longrightarrow> remote_gates_ok (dp_remote_apply p))
     \<and> mode_rules_ok p d
     \<and> (ad_touches_system_wide_state d \<longrightarrow> dp_allow_system_wide_apply p)
     \<and> (\<not> ad_persistent_effect d \<or> dp_allow_persistent_effects p)
     \<and> family_ok p (ad_action_kind d)
     \<and> ad_rollback d = RequiredBeforeApply
     \<and> (\<not> ad_requires_explicit_target d \<or> is_explicit_target_scope (ad_effect_scope d))
     \<and> confidence_ok p d"

interpretation apply_rules: policy_gate "record_apply_rules p d" "apply_rules_ok p d" for p d
  by (rule gate_cong [OF gate_then [OF gate_then [OF gate_then [OF gate_then [OF gate_then [OF
            gate_then [OF gate_then [OF gate_then [OF gate_then [OF
            medium_unlock.policy_gate_axioms high_support.policy_gate_axioms]
            remote_gates.policy_gate_axioms] mode_rules.policy_gate_axioms]
            system_wide.policy_gate_axioms] persistent.policy_gate_axioms]
            family.policy_gate_axioms] rollback_rule.policy_gate_axioms]
            explicit_target.policy_gate_axioms] confidence.policy_gate_axioms]])
    (simp_all only: record_apply_rules_def apply_rules_ok_def Let_def conj_assoc)

definition suggest_rules_ok :: "daemon_policy \<Rightarrow> action_descriptor \<Rightarrow> bool" where
  "suggest_rules_ok p d \<longleftrightarrow>
     dp_mode p \<noteq> Mode_Observe \<and> (\<not> ad_touches_system_wide_state d \<or> dp_allow_system_wide_suggestions p)"

interpretation suggest_rules: policy_gate "record_suggest_rules p intent d" "suggest_rules_ok p d"
    for p intent d
  unfolding record_suggest_rules_def suggest_rules_ok_def Let_def
  by (intro gate_then gate_record) simp_all

text \<open>
  The decision of the whole evaluation, by intent, as the conjunction of the conditions that the rules of
  \<open>evaluate/mod.rs\<close> test. \<open>remote_count_blocks\<close> is the early exit for remote controllers in a mode
  that cannot apply. These are the conditions of the code: \<open>docs/DAEMON_CONTRACT.md\<close> names two more,
  which no rule tests (see \<open>check_action_ignores_operation_allowlist\<close> and
  \<open>medium_mode_accepts_irq_apply\<close> below).
\<close>

definition remote_count_blocks :: "daemon_policy \<Rightarrow> bool" where
  "remote_count_blocks p \<longleftrightarrow>
     dp_source p = Src_RemoteAgent \<and> \<not> supports_apply (dp_mode p)
     \<and> \<not> ra_target_count_allowed (dp_remote_apply p)"

fun action_permitted :: "daemon_policy \<Rightarrow> policy_intent \<Rightarrow> action_descriptor \<Rightarrow> bool" where
  "action_permitted p Intent_Apply d \<longleftrightarrow> supports_apply (dp_mode p) \<and> apply_rules_ok p d"
| "action_permitted p Intent_Suggest d \<longleftrightarrow> \<not> remote_count_blocks p \<and> suggest_rules_ok p d"
| "action_permitted p _ d \<longleftrightarrow> \<not> remote_count_blocks p"

lemma finish_simps [simp]:
  "pe_decision (finish_policy_explanation p i d st) =
     (case snd st of None \<Rightarrow> Allowed | Some r \<Rightarrow> Rejected r)"
  "pe_verdict (finish_policy_explanation p i d st) =
     (case snd st of None \<Rightarrow> Verdict_Allow | Some r \<Rightarrow> rejection_verdict r)"
  "pe_evaluated_rules (finish_policy_explanation p i d st) = fst st"
  by (auto simp: finish_policy_explanation_def Let_def split: option.splits prod.splits)

text \<open>
  The state the evaluation finishes with, read off the branches of \<open>explain_action\<close>.
\<close>

definition intent_state :: "daemon_policy \<Rightarrow> policy_intent \<Rightarrow> action_descriptor \<Rightarrow> rule_state" where
  "intent_state p intent d =
     (if remote_count_blocks p then record_remote_target_count_rule p ([], None)
      else case intent of
        Intent_Suggest \<Rightarrow> record_suggest_rules p intent d ([], None)
      | Intent_Apply \<Rightarrow>
          (let st = record_policy_rule ''intent_allowed'' (supports_apply (dp_mode p))
                (if supports_apply (dp_mode p)
                 then ''apply intent is allowed in daemon mode '' @ mode_as_str (dp_mode p)
                 else ''apply intent is not allowed in daemon mode '' @ mode_as_str (dp_mode p))
                (then_some (\<not> supports_apply (dp_mode p)) (IntentNotAllowed (dp_mode p) intent)) ([], None)
           in if supports_apply (dp_mode p) then record_apply_rules p d st else st)
      | _ \<Rightarrow>
          record_policy_rule ''intent_allowed'' True
            (''intent '' @ debug_intent intent @ '' is allowed without apply authorization'') None ([], None))"

lemma explain_action_state: "explain_action p intent d = finish_policy_explanation p intent d (intent_state p intent d)"
  by (cases intent)
    (simp_all add: explain_action_def intent_state_def remote_target_count_blocks_non_apply_def
      remote_count_blocks_def Let_def)

lemma snd_record [simp]:
  "snd (record_policy_rule rule passed reason rejection st) =
     (if \<not> passed \<and> snd st = None then rejection else snd st)"
  by (simp add: record_policy_rule_def)

lemma intent_state_None_iff: "snd (intent_state p intent d) = None \<longleftrightarrow> action_permitted p intent d"
  by (cases intent)
    (auto simp: intent_state_def Let_def target_count.gate_decides apply_rules.gate_decides
      suggest_rules.gate_decides remote_count_blocks_def)

lemma rules_sound_Nil: "rules_sound ([], None)"
  by (simp add: rules_sound_def)

lemma intent_state_sound: "rules_sound (intent_state p intent d)"
  by (cases intent)
    (auto simp: intent_state_def Let_def intro!: target_count.gate_sound apply_rules.gate_sound
      suggest_rules.gate_sound policy_gate.gate_sound [OF gate_record] rules_sound_Nil)

lemma explain_action_allowed_iff: "pe_decision (explain_action p intent d) = Allowed \<longleftrightarrow> action_permitted p intent d"
  using intent_state_None_iff [of p intent d] by (auto simp: explain_action_state split: option.splits)

lemma decision_result_ok [simp]: "decision_result x = Inr () \<longleftrightarrow> x = Allowed"
  by (cases x) (auto simp: decision_result_def)

definition descriptor_well_formed :: "action_descriptor \<Rightarrow> bool" where
  "descriptor_well_formed d \<longleftrightarrow> trim (ad_action_id d) \<noteq> [] \<and> trim (ad_action_kind d) \<noteq> []"

lemma validate_shape_iff: "validate_policy_descriptor_shape d = Inr () \<longleftrightarrow> descriptor_well_formed d"
  by (auto simp: validate_policy_descriptor_shape_def validate_identity_strings_def validate_non_empty_def
      descriptor_well_formed_def split: sum.splits if_splits)

lemma check_action_iff:
  "check_action p intent d = Inr () \<longleftrightarrow> descriptor_well_formed d \<and> action_permitted p intent d"
  by (auto simp: check_action_def explain_action_allowed_iff simp flip: validate_shape_iff split: sum.splits)

lemma explain_with_context_allowed_iff:
  "pe_decision (explain_action_with_context p intent d x) = Allowed \<longleftrightarrow>
     context_ok intent x \<and> capability_ok intent d x \<and> action_permitted p intent d"
  using context_rules.gate_decides [of intent d x "([], None)"]
  by (auto simp: explain_action_with_context_def explain_action_allowed_iff Let_def split: option.splits)

lemma check_with_context_iff:
  "check_action_with_context p intent d x = Inr () \<longleftrightarrow>
     descriptor_well_formed d \<and> context_ok intent x \<and> capability_ok intent d x \<and> action_permitted p intent d"
  by (auto simp: check_action_with_context_def explain_with_context_allowed_iff
      simp flip: validate_shape_iff split: sum.splits)

section \<open>Built policies\<close>

lemma high_risk_not_implemented [simp]: "\<not> HIGH_RISK_APPLY_IMPLEMENTED"
  by (simp add: HIGH_RISK_APPLY_IMPLEMENTED_def)

named_theorems build_simps \<open>fields of a built policy\<close>

lemma build_fields [build_simps]:
  "dp_mode (build_daemon_policy c rc) = dc_mode c"
  "dp_source (build_daemon_policy c rc) = dc_source c"
  "dp_allowed_effect_scopes (build_daemon_policy c rc) = allowed_effect_scopes_for_mode (dc_mode c)"
  "dp_enabled_action_families (build_daemon_policy c rc) = sf_enabled_action_families (dc_safety c)"
  "dp_denied_action_families (build_daemon_policy c rc) = sf_denied_action_families (dc_safety c)"
  "dp_allow_persistent_effects (build_daemon_policy c rc) = sf_allow_persistent_effects (dc_safety c)"
  "dp_min_confidence (build_daemon_policy c rc) = min_confidence_for_config c"
  "dp_confidence (build_daemon_policy c rc) = confidence_thresholds_for_config c (min_confidence_for_config c)"
  "dp_remote_apply (build_daemon_policy c rc) = remote_apply_policy_for_config c rc"
  by (simp_all add: build_daemon_policy_def Let_def split: option.split)

lemma build_permissions [build_simps]:
  "dp_allow_medium_risk_apply (build_daemon_policy c rc) \<longleftrightarrow>
     dc_mode c = Mode_ApplyMediumRisk \<and> au_allow_medium_risk_apply (dc_autotune c)"
  "dp_allow_high_risk (build_daemon_policy c rc) \<longleftrightarrow> False"
  "dp_allow_system_wide_apply (build_daemon_policy c rc) \<longleftrightarrow>
     sf_allow_system_wide_apply (dc_safety c) \<and> dc_mode c = Mode_ApplyMediumRisk
     \<and> (case rc of None \<Rightarrow> True | Some x \<Rightarrow> li_allow_system_wide_apply (rx_limits x))"
  by (auto simp: build_daemon_policy_def Let_def split: option.split)

lemma build_max_safety_class [build_simps]:
  "dp_max_safety_class (build_daemon_policy c rc) =
     (case rc of None \<Rightarrow> max_safety_class_for_mode (dc_mode c)
      | Some x \<Rightarrow> min (max_safety_class_for_mode (dc_mode c)) (li_max_safety_class (rx_limits x)))"
  by (auto simp: build_daemon_policy_def Let_def min_def split: option.split)

lemma explicit_scope_iff:
  "is_explicit_target_scope s \<longleftrightarrow> s \<in> allowed_effect_scopes_for_mode Mode_ApplyMediumRisk"
  "is_low_risk_apply_scope s \<longleftrightarrow> s \<in> allowed_effect_scopes_for_mode Mode_ApplyLowRisk"
  by (cases s; simp)+

lemma low_risk_below_medium: "SC_ReversibleLowRisk \<le> SC_ReversibleMediumRisk"
  by (simp add: safety_order)

text \<open>The remote limits do not enter the rules on mode, family and confidence.\<close>

lemma mode_rules_ok_remote:
  "mode_rules_ok (build_daemon_policy c rc) d = mode_rules_ok (build_daemon_policy c None) d"
  by (cases "dc_mode c") (simp_all add: mode_rules_ok_def build_simps)

lemma family_ok_remote: "family_ok (build_daemon_policy c rc) k = family_ok (build_daemon_policy c None) k"
  by (simp add: family_ok_def build_simps)

lemma confidence_ok_remote: "confidence_ok (build_daemon_policy c rc) d = confidence_ok (build_daemon_policy c None) d"
  by (simp add: confidence_ok_def build_simps split: option.split)

text \<open>An apply that passes runs in one of the two implemented modes, within its rules.\<close>

lemma apply_permitted_modes:
  assumes "action_permitted p Intent_Apply d"
  obtains "dp_mode p = Mode_ApplyLowRisk" "ad_safety_class d = SC_ReversibleLowRisk"
      "is_low_risk_apply_scope (ad_effect_scope d)"
    | "dp_mode p = Mode_ApplyMediumRisk" "dp_allow_medium_risk_apply p"
      "ad_safety_class d \<le> SC_ReversibleMediumRisk" "is_explicit_target_scope (ad_effect_scope d)"
  using assms by (cases "dp_mode p") (auto simp: apply_rules_ok_def mode_rules_ok_def)

lemma apply_permitted_common:
  assumes "action_permitted p Intent_Apply d"
  shows "ad_rollback d = RequiredBeforeApply"
    and "ad_touches_system_wide_state d \<Longrightarrow> dp_allow_system_wide_apply p"
    and "ad_persistent_effect d \<Longrightarrow> dp_allow_persistent_effects p"
    and "family_ok p (ad_action_kind d)" "confidence_ok p d"
    and "dp_source p = Src_RemoteAgent \<Longrightarrow> remote_gates_ok (dp_remote_apply p)"
  using assms by (auto simp: apply_rules_ok_def)

section \<open>Properties\<close>

text \<open>
  C1. Refinement of the evaluator: for every policy, intent and descriptor, \<open>check_action\<close> accepts exactly
  when the descriptor's identity strings are non-blank and the conjunction \<open>action_permitted\<close> of the
  conditions that its rules test holds: for an apply the mode and its unlock, the remote gates, the safety
  class and effect scope of the mode, the system-wide and persistence permissions, the action families, a
  required rollback, an explicit target and the confidence; for the other intents much less. The operation
  allowlist and the rejection of IRQ, GPU power and VM knob scopes in medium-risk mode that
  \<open>docs/DAEMON_CONTRACT.md\<close> describes are not among them.
\<close>

theorem check_action_refines:
  "check_action p intent d = Inr () \<longleftrightarrow> descriptor_well_formed d \<and> action_permitted p intent d"
  by (rule check_action_iff)

text \<open>
  Two conditions of the daemon contract that \<open>check_action\<close> does not decide. The contract says that a
  system-wide operation also needs its entry on \<open>system_wide_allowlist.operations\<close>; no rule reads the list,
  so no change of it changes a verdict. The contract also says that medium-risk mode rejects IRQ, GPU power
  and VM knob candidates; \<open>is_explicit_target_scope\<close> accepts these scopes, so an IRQ action is accepted
  once system-wide apply is allowed, with an empty allowlist.
\<close>

lemma check_action_ignores_operation_allowlist:
  "check_action (p\<lparr>dp_system_wide_allowlist := a\<rparr>) intent d = Inr () \<longleftrightarrow> check_action p intent d = Inr ()"
  by (cases intent)
    (simp_all add: check_action_iff apply_rules_ok_def suggest_rules_ok_def remote_count_blocks_def
      mode_rules_ok_def family_ok_def confidence_ok_def cong: daemon_mode.case_cong option.case_cong)

definition medium_system_wide_config :: daemon_config where
  "medium_system_wide_config =
     (let c = config_for_constructor Mode_ApplyMediumRisk Src_Cli False
      in c\<lparr>dc_safety := (dc_safety c)\<lparr>sf_allow_system_wide_apply := True\<rparr>\<rparr>)"

definition irq_medium_action :: action_descriptor where
  "irq_medium_action =
     \<lparr>ad_action_id = ''irq-1'', ad_action_kind = ''irq_affinity'', ad_safety_class = SC_ReversibleMediumRisk,
      ad_effect_scope = Scope_Irq, ad_rollback = RequiredBeforeApply, ad_persistent_effect = False,
      ad_touches_system_wide_state = True, ad_requires_explicit_target = True, ad_confidence = Some (Fin 1)\<rparr>"

lemma medium_mode_accepts_irq_apply:
  "check_action (build_daemon_policy medium_system_wide_config None) Intent_Apply irq_medium_action = Inr ()"
  by (simp add: check_action_iff descriptor_well_formed_def irq_medium_action_def trim_def trim_start_def
      is_whitespace_def apply_rules_ok_def mode_rules_ok_def family_ok_def confidence_ok_def build_simps
      medium_system_wide_config_def config_for_constructor_def default_daemon_config_def Let_def
      default_safety_config_def min_confidence_for_config_def from_preset_def reset_sections_def
      default_autotune_config_def DEFAULT_MIN_FOCUS_CONFIDENCE_def f32_literals f32_lt_def)

text \<open>
  C30. Explanations are truthful, with the runtime context too: the decision is \<open>Allowed\<close> exactly when
  every evaluated rule is reported as passed, and the verdict is \<open>Allow\<close> exactly when the decision is
  \<open>Allowed\<close>.
\<close>

theorem explanation_truthful:
  "(pe_decision (explain_action_with_context p intent d x) = Allowed \<longleftrightarrow>
      list_all pr_passed (pe_evaluated_rules (explain_action_with_context p intent d x)))
   \<and> (verdict_is_allowed (verdict_for_action_with_context p intent d x) \<longleftrightarrow>
      pe_decision (explain_action_with_context p intent d x) = Allowed)"
proof -
  have ctx: "rules_sound (record_context_rules intent d x ([], None))"
    by (intro context_rules.gate_sound rules_sound_Nil)
  have act: "rules_sound (intent_state p intent d)"
    by (rule intent_state_sound)
  show ?thesis
    using ctx act
    by (auto simp: explain_action_with_context_def explain_action_state verdict_for_action_with_context_def
        verdict_is_allowed_def rules_sound_def list_all_iff Let_def split: option.splits)
qed

text \<open>
  C22. No policy that the daemon can build, from any configuration and any remote limits, authorises
  applying a high-risk action: an accepted apply is at most medium-risk, has rollback available before
  apply, acts on an explicit target scope, and stays within the policy's own advertised scopes.
\<close>

theorem built_policy_apply_bounds:
  assumes "check_action (build_daemon_policy c rc) Intent_Apply d = Inr ()"
  shows "ad_safety_class d \<le> SC_ReversibleMediumRisk
    \<and> ad_rollback d = RequiredBeforeApply
    \<and> is_explicit_target_scope (ad_effect_scope d)
    \<and> ad_effect_scope d \<in> dp_allowed_effect_scopes (build_daemon_policy c rc)
    \<and> (dc_mode c = Mode_ApplyLowRisk \<or> dc_mode c = Mode_ApplyMediumRisk \<and> au_allow_medium_risk_apply (dc_autotune c))"
proof -
  have ok: "action_permitted (build_daemon_policy c rc) Intent_Apply d"
    using assms by (simp add: check_action_iff)
  from ok show ?thesis
  proof (cases rule: apply_permitted_modes)
    case 1
    then show ?thesis
      using apply_permitted_common(1) [OF ok] low_risk_below_medium
      by (auto simp: build_simps explicit_scope_iff)
  next
    case 2
    then show ?thesis
      using apply_permitted_common(1) [OF ok] by (auto simp: build_simps explicit_scope_iff)
  qed
qed

definition sample_action :: "action_descriptor" where
  "sample_action =
     \<lparr>ad_action_id = ''a-1'', ad_action_kind = ''cpu_affinity_profile'', ad_safety_class = SC_ReversibleLowRisk,
      ad_effect_scope = Scope_LocalProcess, ad_rollback = RequiredBeforeApply, ad_persistent_effect = False,
      ad_touches_system_wide_state = False, ad_requires_explicit_target = True, ad_confidence = Some (Fin 1)\<rparr>"

lemma sample_well_formed [simp]: "descriptor_well_formed sample_action"
  by (simp add: descriptor_well_formed_def sample_action_def trim_def trim_start_def is_whitespace_def)

lemmas policy_eval =
  apply_rules_ok_def mode_rules_ok_def family_ok_def confidence_ok_def action_kind_matches_family_def
  build_simps from_preset_def preset_low_risk_safety_def reset_sections_def default_safety_config_def
  min_confidence_for_config_def f32_literals f32_lt_def

lemma sample_allowed_by_gaming_preset:
  "check_action (build_daemon_policy (from_preset Preset_GamingLowRisk Src_Cli) None) Intent_Apply sample_action = Inr ()"
  by (simp add: check_action_iff policy_eval) (simp add: sample_action_def policy_eval)

theorem built_policy_apply_bounds_witness:
  "ad_safety_class sample_action \<le> SC_ReversibleMediumRisk
    \<and> ad_rollback sample_action = RequiredBeforeApply
    \<and> is_explicit_target_scope (ad_effect_scope sample_action)
    \<and> ad_effect_scope sample_action
        \<in> dp_allowed_effect_scopes (build_daemon_policy (from_preset Preset_GamingLowRisk Src_Cli) None)
    \<and> (dc_mode (from_preset Preset_GamingLowRisk Src_Cli) = Mode_ApplyLowRisk
       \<or> dc_mode (from_preset Preset_GamingLowRisk Src_Cli) = Mode_ApplyMediumRisk
         \<and> au_allow_medium_risk_apply (dc_autotune (from_preset Preset_GamingLowRisk Src_Cli)))"
  by (rule built_policy_apply_bounds [OF sample_allowed_by_gaming_preset])

text \<open>
  Low-risk mode is confined: an apply accepted by any policy in \<open>apply-low-risk\<close> mode that the daemon
  builds changes one local process or process tree, is classed \<open>ReversibleLowRisk\<close>, never touches
  system-wide state, and leaves a persistent effect only if the configuration allows it.
\<close>

theorem low_risk_mode_confined:
  assumes "check_action (build_daemon_policy c rc) Intent_Apply d = Inr ()" "dc_mode c = Mode_ApplyLowRisk"
  shows "ad_safety_class d = SC_ReversibleLowRisk
    \<and> ad_effect_scope d \<in> {Scope_LocalProcess, Scope_LocalProcessTree}
    \<and> \<not> ad_touches_system_wide_state d
    \<and> (ad_persistent_effect d \<longrightarrow> sf_allow_persistent_effects (dc_safety c))"
proof -
  have ok: "action_permitted (build_daemon_policy c rc) Intent_Apply d"
    using assms by (simp add: check_action_iff)
  show ?thesis
    using apply_permitted_common(2,3) [OF ok] ok assms(2)
    by (auto simp: build_simps apply_rules_ok_def mode_rules_ok_def explicit_scope_iff)
qed

theorem low_risk_mode_confined_witness:
  "ad_safety_class sample_action = SC_ReversibleLowRisk
    \<and> ad_effect_scope sample_action \<in> {Scope_LocalProcess, Scope_LocalProcessTree}
    \<and> \<not> ad_touches_system_wide_state sample_action"
  using low_risk_mode_confined [OF sample_allowed_by_gaming_preset] by (simp add: from_preset_def)

text \<open>
  Remote apply passes every gate: if a policy built for a remote controller accepts an apply, remote
  apply is enabled in the configuration, the mode and the action's class are within the configured
  limits, the target count is within \<open>max_targets\<close>, the request is authenticated where authentication is
  required, and the agent is bound to loopback unless the configuration allows otherwise.
\<close>

theorem remote_apply_gated:
  assumes "check_action (build_daemon_policy c (Some x)) Intent_Apply d = Inr ()" "dc_source c = Src_RemoteAgent"
  shows "rc_allow_remote_apply (dc_remote c)
    \<and> dc_mode c \<le> li_max_mode (rx_limits x)
    \<and> ad_safety_class d \<le> li_max_safety_class (rx_limits x)
    \<and> remote_target_count_for_config c \<le> li_max_targets (rx_limits x)
    \<and> (rc_require_auth_for_apply (dc_remote c) \<longrightarrow> rx_auth_configured x \<and> rx_request_authorized x)
    \<and> (rc_allow_non_loopback_apply (dc_remote c) \<or> rx_bind_is_loopback x)
    \<and> (ad_touches_system_wide_state d \<longrightarrow> li_allow_system_wide_apply (rx_limits x))"
proof -
  have ok: "action_permitted (build_daemon_policy c (Some x)) Intent_Apply d"
    using assms by (simp add: check_action_iff)
  have gates: "remote_gates_ok (remote_apply_policy_for_config c (Some x))"
    using apply_permitted_common(6) [OF ok] assms(2) by (simp add: build_simps)
  have mode: "supports_apply (dc_mode c)"
    using ok by (simp add: build_simps)
  have cls: "ad_safety_class d \<le> max_safety_class_for_mode (dc_mode c)"
    using ok by (cases rule: apply_permitted_modes) (simp_all add: build_simps)
  have lim: "max_safety_class_for_mode (dc_mode c) \<le> li_max_safety_class (rx_limits x)"
    using gates by (simp add: remote_gates_ok_def remote_apply_policy_for_config_def
        remote_mode_supported_by_context_def Let_def)
  show ?thesis
    using gates mode order_trans [OF cls lim] apply_permitted_common(2) [OF ok]
    by (auto simp: remote_gates_ok_def remote_apply_policy_for_config_def
        remote_mode_supported_by_context_def build_simps Let_def)
qed

definition sample_remote_config :: daemon_config where
  "sample_remote_config =
     (from_preset Preset_GamingLowRisk Src_RemoteAgent)
       \<lparr>dc_remote := default_remote_config\<lparr>rc_allow_remote_apply := True\<rparr>\<rparr>"

definition sample_remote_context :: remote_policy_context where
  "sample_remote_context =
     \<lparr>rx_bind_is_loopback = True, rx_auth_configured = True, rx_request_authorized = True,
      rx_limits = default_autotune_limits\<rparr>"

lemma sample_remote_allowed:
  "check_action (build_daemon_policy sample_remote_config (Some sample_remote_context)) Intent_Apply sample_action
     = Inr ()"
proof -
  have "remote_gates_ok (remote_apply_policy_for_config sample_remote_config (Some sample_remote_context))"
    by (simp add: remote_gates_ok_def remote_apply_policy_for_config_def remote_mode_supported_by_context_def
        remote_target_count_for_config_def sample_remote_config_def sample_remote_context_def
        default_autotune_limits_def default_remote_config_def default_target_config_def from_preset_def
        reset_sections_def)
  then show ?thesis
    by (simp add: check_action_iff policy_eval sample_remote_config_def)
      (simp add: sample_action_def policy_eval)
qed

theorem remote_apply_gated_witness:
  "rc_allow_remote_apply (dc_remote sample_remote_config)
    \<and> dc_mode sample_remote_config \<le> li_max_mode (rx_limits sample_remote_context)
    \<and> ad_safety_class sample_action \<le> li_max_safety_class (rx_limits sample_remote_context)
    \<and> remote_target_count_for_config sample_remote_config \<le> li_max_targets (rx_limits sample_remote_context)
    \<and> rx_auth_configured sample_remote_context \<and> rx_request_authorized sample_remote_context
    \<and> rx_bind_is_loopback sample_remote_context"
proof -
  have "dc_source sample_remote_config = Src_RemoteAgent"
    by (simp add: sample_remote_config_def from_preset_def reset_sections_def)
  from remote_apply_gated [OF sample_remote_allowed this] show ?thesis
    by (simp add: sample_remote_context_def)
qed

text \<open>
  A remote request never widens what the daemon may do by itself: whatever remote limits are supplied,
  an apply that a locally started policy accepts under them is also accepted without them, and a remote
  controller without a remote context can apply nothing.
\<close>

theorem remote_context_never_widens:
  "(dc_source c \<noteq> Src_RemoteAgent \<and> check_action (build_daemon_policy c (Some x)) Intent_Apply d = Inr ()
      \<longrightarrow> check_action (build_daemon_policy c None) Intent_Apply d = Inr ())
   \<and> (dc_source c = Src_RemoteAgent \<longrightarrow> check_action (build_daemon_policy c None) Intent_Apply d \<noteq> Inr ())"
proof -
  have "\<not> remote_gates_ok default_remote_apply_policy"
    by (simp add: remote_gates_ok_def default_remote_apply_policy_def)
  then show ?thesis
    using mode_rules_ok_remote [of c "Some x" d] family_ok_remote [of c "Some x"] confidence_ok_remote [of c "Some x" d]
    by (auto simp: check_action_iff apply_rules_ok_def build_simps remote_apply_policy_for_config_def)
qed

theorem remote_context_never_widens_witness:
  "check_action (build_daemon_policy (from_preset Preset_GamingLowRisk Src_RemoteAgent) None) Intent_Apply sample_action
     \<noteq> Inr ()"
  using remote_context_never_widens [of "from_preset Preset_GamingLowRisk Src_RemoteAgent"]
  by (simp add: from_preset_def reset_sections_def)

text \<open>
  The runtime context gates an apply exactly: it is accepted in a context if and only if it is
  accepted without one and data quality and system health are good, the workload is stable, no cooldown
  is active, no rollback is pending, and the host offers the capability that the action's family needs.
\<close>

theorem context_gates_apply:
  "check_action_with_context p Intent_Apply d x = Inr () \<longleftrightarrow>
     check_action p Intent_Apply d = Inr ()
     \<and> px_data_quality_ok x \<and> px_system_health_ok x \<and> px_workload_stable x
     \<and> \<not> px_cooldown_active x \<and> \<not> px_rollback_pending x
     \<and> Option.bind (px_capabilities x) (unavailable_capability_for_action (ad_action_kind d)) = None"
  unfolding check_with_context_iff check_action_iff context_ok_def capability_ok_def by auto

text \<open>
  C25. The way back is never closed: neither the runtime context (pending rollback, cooldown, overheating)
  nor any apply permission can reject a rollback or a verification; only a blank descriptor and the
  remote target-count limit in non-apply modes do.
\<close>

theorem rollback_and_verify_stay_open:
  "check_action_with_context p Intent_Rollback d x = check_action p Intent_Rollback d
   \<and> check_action_with_context p Intent_Verify d x = check_action p Intent_Verify d
   \<and> (check_action p Intent_Rollback d = Inr () \<longleftrightarrow> descriptor_well_formed d \<and> \<not> remote_count_blocks p)
   \<and> (check_action p Intent_Verify d = Inr () \<longleftrightarrow> descriptor_well_formed d \<and> \<not> remote_count_blocks p)"
proof -
  have "snd (record_context_rules Intent_Rollback d x ([], None)) = None"
    "snd (record_context_rules Intent_Verify d x ([], None)) = None"
    by (simp_all add: context_rules.gate_decides context_ok_def capability_ok_def)
  then have "pe_decision (explain_action_with_context p Intent_Rollback d x) = pe_decision (explain_action p Intent_Rollback d)"
    "pe_decision (explain_action_with_context p Intent_Verify d x) = pe_decision (explain_action p Intent_Verify d)"
    by (simp_all add: explain_action_with_context_def Let_def)
  then show ?thesis
    by (simp add: check_action_iff) (simp add: check_action_with_context_def check_action_def split: sum.split)
qed

lemma low_risk_preset_apply:
  assumes "check_action (build_daemon_policy c rc) Intent_Apply d = Inr ()"
    and "dc_mode c = Mode_ApplyLowRisk" "dc_safety c = preset_low_risk_safety k"
    and "f32_lt (Fin 0) k" "f32_le f32_0_85 k"
  shows "ad_safety_class d = SC_ReversibleLowRisk
    \<and> ad_effect_scope d \<in> {Scope_LocalProcess, Scope_LocalProcessTree}
    \<and> action_kind_matches_family (ad_action_kind d) ''cpu_affinity_profile''
    \<and> \<not> ad_touches_system_wide_state d \<and> \<not> ad_persistent_effect d
    \<and> (case ad_confidence d of None \<Rightarrow> True | Some conf \<Rightarrow> f32_le f32_0_85 conf)"
proof -
  have ok: "action_permitted (build_daemon_policy c rc) Intent_Apply d"
    using assms by (simp add: check_action_iff)
  have safety: "sf_enabled_action_families (dc_safety c) = {''cpu_affinity_profile''}"
    "\<not> sf_allow_persistent_effects (dc_safety c)" "\<not> sf_allow_system_wide_apply (dc_safety c)"
    "min_confidence_for_config c = k"
    using assms(3,4) by (simp_all add: preset_low_risk_safety_def default_safety_config_def min_confidence_for_config_def)
  have "mode_rules_ok (build_daemon_policy c rc) d"
    using ok by (simp add: apply_rules_ok_def)
  then have cls: "ad_safety_class d = SC_ReversibleLowRisk"
    "ad_effect_scope d \<in> {Scope_LocalProcess, Scope_LocalProcessTree}"
    using assms(2) by (auto simp: mode_rules_ok_def build_simps explicit_scope_iff)
  have "action_kind_matches_family (ad_action_kind d) ''cpu_affinity_profile''"
    using apply_permitted_common(4) [OF ok] safety by (simp add: family_ok_def build_simps)
  moreover have "case ad_confidence d of None \<Rightarrow> True | Some conf \<Rightarrow> f32_le f32_0_85 conf"
    using apply_permitted_common(5) [OF ok] safety(4) assms(5) f32_le_trans
    by (auto simp: confidence_ok_def build_simps split: option.splits)
  ultimately show ?thesis
    using cls apply_permitted_common(2,3) [OF ok] safety by (auto simp: build_simps)
qed

text \<open>
  Every preset is conservative: whatever preset, source and remote limits, an apply that the resulting
  policy accepts is a low-risk change of a local process or process tree from the CPU-affinity family,
  without system-wide or persistent effect, and its reported confidence is at least 0.85.
\<close>

theorem presets_conservative:
  assumes "check_action (build_daemon_policy (from_preset preset source) rc) Intent_Apply d = Inr ()"
  shows "ad_safety_class d = SC_ReversibleLowRisk
    \<and> ad_effect_scope d \<in> {Scope_LocalProcess, Scope_LocalProcessTree}
    \<and> action_kind_matches_family (ad_action_kind d) ''cpu_affinity_profile''
    \<and> \<not> ad_touches_system_wide_state d \<and> \<not> ad_persistent_effect d
    \<and> (case ad_confidence d of None \<Rightarrow> True | Some conf \<Rightarrow> f32_le f32_0_85 conf)"
proof (cases preset)
  case Preset_DebugAggressive
  then show ?thesis
    using assms by (simp add: check_action_iff apply_rules_ok_def build_simps from_preset_def reset_sections_def
        default_autotune_config_def)
next
  case Preset_ObserveOnly
  then show ?thesis
    using assms by (simp add: check_action_iff build_simps from_preset_def reset_sections_def)
qed (use low_risk_preset_apply [OF assms] in
    \<open>simp_all add: from_preset_def reset_sections_def f32_lt_def f32_literals\<close>)

theorem presets_conservative_witness:
  "ad_safety_class sample_action = SC_ReversibleLowRisk
    \<and> ad_effect_scope sample_action \<in> {Scope_LocalProcess, Scope_LocalProcessTree}
    \<and> action_kind_matches_family (ad_action_kind sample_action) ''cpu_affinity_profile''
    \<and> \<not> ad_touches_system_wide_state sample_action \<and> \<not> ad_persistent_effect sample_action
    \<and> (case ad_confidence sample_action of None \<Rightarrow> True | Some conf \<Rightarrow> f32_le f32_0_85 conf)"
  by (rule presets_conservative [OF sample_allowed_by_gaming_preset])

abbreviation with_opt_ins :: "daemon_policy \<Rightarrow> bool \<Rightarrow> bool \<Rightarrow> daemon_policy" where
  "with_opt_ins p g v \<equiv> p\<lparr>dp_allow_gpu_power_in_autotune := g, dp_allow_vm_knobs_in_autotune := v\<rparr>"

lemma system_wide_rule_opt_ins:
  "record_system_wide_rule (with_opt_ins p g v) d st = record_system_wide_rule p d st"
proof -
  have only_if: "medium_risk_system_scope_allowed q d \<Longrightarrow> dp_allow_system_wide_apply q" for q
    by (simp add: medium_risk_system_scope_allowed_def split: if_splits)
  show ?thesis
    using only_if [of "with_opt_ins p g v"] only_if [of p]
    by (cases "dp_allow_system_wide_apply p") (auto simp: record_system_wide_rule_def Let_def)
qed

lemma remote_count_opt_ins:
  "record_remote_target_count_rule (with_opt_ins p g v) st = record_remote_target_count_rule p st"
  by (simp add: record_remote_target_count_rule_def)

lemma other_rules_opt_ins:
  "record_medium_risk_unlock_rule (with_opt_ins p g v) st = record_medium_risk_unlock_rule p st"
  "record_high_risk_support_rule (with_opt_ins p g v) st = record_high_risk_support_rule p st"
  "record_persistent_rule (with_opt_ins p g v) d st = record_persistent_rule p d st"
  "record_family_rules (with_opt_ins p g v) d st = record_family_rules p d st"
  "record_suggest_rules (with_opt_ins p g v) intent d st = record_suggest_rules p intent d st"
  "record_remote_apply_gates (with_opt_ins p g v) st = record_remote_apply_gates p st"
  "finish_policy_explanation (with_opt_ins p g v) intent d st = finish_policy_explanation p intent d st"
  by (simp_all add: record_medium_risk_unlock_rule_def record_high_risk_support_rule_def
      record_persistent_rule_def record_family_rules_def record_suggest_rules_def remote_count_opt_ins
      record_remote_apply_gates_def record_remote_apply_rules_def finish_policy_explanation_def Let_def
      cong: if_cong)

lemma mode_rules_opt_ins: "record_mode_rules (with_opt_ins p g v) d st = record_mode_rules p d st"
  by (cases "dp_mode p") (simp_all add: record_mode_rules_def record_low_risk_mode_rules_def
      record_medium_risk_mode_rules_def record_high_risk_mode_rules_def Let_def cong: if_cong)

lemma confidence_rule_opt_ins: "record_confidence_rule (with_opt_ins p g v) d st = record_confidence_rule p d st"
  by (cases "ad_confidence d") (simp_all add: record_confidence_rule_def Let_def cong: if_cong)

lemma apply_rules_opt_ins: "record_apply_rules (with_opt_ins p g v) d st = record_apply_rules p d st"
  by (simp only: record_apply_rules_def Let_def system_wide_rule_opt_ins other_rules_opt_ins
      mode_rules_opt_ins confidence_rule_opt_ins)

text \<open>
  The two opt-ins \<open>allow_gpu_power_in_autotune\<close> and \<open>allow_vm_knobs_in_autotune\<close> have no influence on
  the policy: for every policy, intent and descriptor the complete explanation is the same whatever
  their values.
\<close>

theorem gpu_and_vm_opt_ins_inert:
  "explain_action (p\<lparr>dp_allow_gpu_power_in_autotune := g, dp_allow_vm_knobs_in_autotune := v\<rparr>) intent d
     = explain_action p intent d"
  unfolding explain_action_state other_rules_opt_ins intent_state_def remote_count_blocks_def
    apply_rules_opt_ins remote_count_opt_ins Let_def
  by (cases intent) (simp_all cong: if_cong)

text \<open>
  The names of the daemon modes round-trip: a string parses to a mode exactly when it is that mode's
  printed name, and every other string is refused with itself as the reason.
\<close>

theorem mode_name_round_trip:
  "(mode_from_str s = Inr m \<longleftrightarrow> s = mode_as_str m)
   \<and> (mode_from_str s = Inl r \<longleftrightarrow> r = UnsupportedMode s \<and> s \<notin> range mode_as_str)"
proof -
  have print_parse: "mode_from_str (mode_as_str m) = Inr m" for m
    by (cases m) (simp_all add: mode_from_str_def)
  have inj: "mode_as_str a = mode_as_str b \<Longrightarrow> a = b" for a b
    by (metis print_parse sum.inject(2))
  have parse_print: "mode_from_str s = Inr m \<Longrightarrow> s = mode_as_str m" for m
    by (auto simp: mode_from_str_def split: if_splits)
  have refuse: "mode_from_str s = Inl r \<Longrightarrow> r = UnsupportedMode s" for r
    by (auto simp: mode_from_str_def split: if_splits)
  show ?thesis
    using print_parse parse_print refuse inj by (cases "mode_from_str s") auto
qed

end
