(* ===== verification/Action_Runner_Facts.thy ===== *)
theory Action_Runner_Facts
  imports Action_Runner Daemon_Policy_Facts
begin

text \<open>
  What the audited runner guarantees. \<open>traced_action\<close> logs every call the runner makes to an action, with
  its result; the erasure lemma shows that logging does not change the run. The locale
  \<open>reversible_action\<close> states what an action promises about undoing itself, and what every run of such
  an action then guarantees.
\<close>

section \<open>Observing the calls of a run\<close>

datatype action_call =
    Call_Preflight "anyhow + string list"
  | Call_DryRun "anyhow + action_state"
  | Call_Apply "partial_apply_error + rollback_token"
  | Call_Verify "anyhow + action_state"
  | Call_Rollback rollback_token "anyhow + unit"

type_synonym 'w logged = "'w \<times> action_call list"

definition logged_call :: "('r \<Rightarrow> action_call) \<Rightarrow> ('w \<Rightarrow> 'r \<times> 'w) \<Rightarrow> 'w logged \<Rightarrow> 'r \<times> 'w logged" where
  "logged_call mk f s = (case f (fst s) of (r, w) \<Rightarrow> (r, (w, snd s @ [mk r])))"

definition silent :: "('w \<Rightarrow> 'r \<times> 'w) \<Rightarrow> 'w logged \<Rightarrow> 'r \<times> 'w logged" where
  "silent f s = (case f (fst s) of (r, w) \<Rightarrow> (r, (w, snd s)))"

definition unlogged :: "action_call list \<Rightarrow> ('w logged \<Rightarrow> 'r \<times> 'w logged) \<Rightarrow> 'w \<Rightarrow> 'r \<times> 'w" where
  "unlogged t f w = (case f (w, t) of (r, s) \<Rightarrow> (r, fst s))"

definition traced_action :: "'w tuning_action \<Rightarrow> 'w logged tuning_action" where
  "traced_action a =
     \<lparr>ta_descriptor = ta_descriptor a,
      ta_preflight = logged_call Call_Preflight (ta_preflight a),
      ta_dry_run = logged_call Call_DryRun (ta_dry_run a),
      ta_apply = (\<lambda>cb s. logged_call Call_Apply (ta_apply a (\<lambda>token. unlogged (snd s) (cb token))) s),
      ta_verify = logged_call Call_Verify (ta_verify a),
      ta_rollback = (\<lambda>token. logged_call (Call_Rollback token) (ta_rollback a token))\<rparr>"

definition silent_env :: "'w runner_env \<Rightarrow> 'w logged runner_env" where
  "silent_env env =
     \<lparr>re_instant = silent (re_instant env), re_unix_nanos = silent (re_unix_nanos env),
      re_append_audit = (\<lambda>ev s. (re_append_audit env ev (fst s), snd s))\<rparr>"

definition silent_hooks :: "'w action_hooks \<Rightarrow> 'w logged action_hooks" where
  "silent_hooks h =
     \<lparr>hk_after_prepare = map_option (\<lambda>f token. silent (f token)) (hk_after_prepare h),
      hk_after_apply = map_option (\<lambda>f token. silent (f token)) (hk_after_apply h),
      hk_after_rollback = map_option (\<lambda>f token. silent (f token)) (hk_after_rollback h)\<rparr>"

definition traced_run ::
  "'w runner_env \<Rightarrow> string \<Rightarrow> 'w tuning_action \<Rightarrow> action_run_policy \<Rightarrow> 'w action_hooks \<Rightarrow> 'w
    \<Rightarrow> (action_failure + audited_action_result) \<times> 'w logged" where
  "traced_run env command a rp hooks w =
     run_audited_action (silent_env env) command (traced_action a) rp (silent_hooks hooks) (w, [])"

definition calls_of_run ::
  "'w runner_env \<Rightarrow> string \<Rightarrow> 'w tuning_action \<Rightarrow> action_run_policy \<Rightarrow> 'w action_hooks \<Rightarrow> 'w
    \<Rightarrow> action_call list" where
  "calls_of_run env command a rp hooks w = snd (snd (traced_run env command a rp hooks w))"

subsection \<open>Logging does not change the run\<close>

named_theorems erase \<open>a logged step and the step it logs\<close>

lemma silent_simps [erase]:
  "silent f (w, t) = (case f w of (r, w') \<Rightarrow> (r, (w', t)))"
  "logged_call mk f (w, t) = (case f w of (r, w') \<Rightarrow> (r, (w', t @ [mk r])))"
  by (simp_all add: silent_def logged_call_def)

lemma run_hook_silent [erase]:
  "run_after_apply (silent_hooks h) token (w, t) = (case run_after_apply h token w of (r, w') \<Rightarrow> (r, (w', t)))"
  "run_after_rollback (silent_hooks h) token (w, t) = (case run_after_rollback h token w of (r, w') \<Rightarrow> (r, (w', t)))"
  by (auto simp: run_after_apply_def run_after_rollback_def run_hook_def silent_hooks_def silent_def
      split: option.split)

lemma prepare_callback [erase]: "unlogged t (run_after_prepare (silent_hooks h) token) = run_after_prepare h token"
  by (auto simp: fun_eq_iff unlogged_def run_after_prepare_def run_hook_def silent_hooks_def silent_def
      split: option.split prod.split)

lemma traced_simps [erase]:
  "ta_descriptor (traced_action a) = ta_descriptor a"
  "ta_preflight (traced_action a) (w, t) = (case ta_preflight a w of (r, w') \<Rightarrow> (r, (w', t @ [Call_Preflight r])))"
  "ta_dry_run (traced_action a) (w, t) = (case ta_dry_run a w of (r, w') \<Rightarrow> (r, (w', t @ [Call_DryRun r])))"
  "ta_apply (traced_action a) (run_after_prepare (silent_hooks h)) (w, t) =
     (case ta_apply a (run_after_prepare h) w of (r, w') \<Rightarrow> (r, (w', t @ [Call_Apply r])))"
  "ta_verify (traced_action a) (w, t) = (case ta_verify a w of (r, w') \<Rightarrow> (r, (w', t @ [Call_Verify r])))"
  "ta_rollback (traced_action a) token (w, t) =
     (case ta_rollback a token w of (r, w') \<Rightarrow> (r, (w', t @ [Call_Rollback token r])))"
  by (simp_all add: traced_action_def erase)

lemma append_silent [erase]:
  "append_runner_audit_event (silent_env env) ev ph ok n p c m (w, t) =
     (append_runner_audit_event env ev ph ok n p c m w, t)"
  by (simp add: append_runner_audit_event_def silent_env_def silent_def split: prod.split)

lemma timeout_silent [erase]:
  "total_timeout_error (silent_env env) s mt ph (w, t) =
     (case total_timeout_error env s mt ph w of (r, w') \<Rightarrow> (r, (w', t)))"
  by (simp add: total_timeout_error_def silent_env_def silent_def Let_def split: option.split prod.split)

subsection \<open>What each phase does\<close>

text \<open>
  Each phase, run on a logged world, is the same phase on the plain world plus the calls it made.
\<close>

lemma timeout_is_timeout: "total_timeout_error env s mt ph w = (Some e, w') \<Longrightarrow> timeout_details e \<noteq> None"
  by (auto simp: total_timeout_error_def timeout_details_def Let_def split: option.splits prod.splits)

lemma rollback_after_timeout_logged:
  assumes "timeout_details e \<noteq> None"
  shows "\<exists>r. rollback_after_timeout (silent_env env) (traced_action a) (silent_hooks h) token e ev (w, t) =
     (case rollback_after_timeout env a h token e ev w of (f, w') \<Rightarrow> (f, (w', t @ [Call_Rollback token r])))"
  using assms
  by (auto simp: rollback_after_timeout_def erase split: option.splits prod.splits sum.splits)

lemma rollback_after_hook_logged:
  "\<exists>r. rollback_after_apply_hook_failure (silent_env env) (traced_action a) (silent_hooks h) token e ev (w, t) =
     (case rollback_after_apply_hook_failure env a h token e ev w of (f, w') \<Rightarrow> (f, (w', t @ [Call_Rollback token r])))"
  by (auto simp: rollback_after_apply_hook_failure_def erase Let_def split: prod.splits sum.splits)

lemma rollback_after_verify_logged:
  "\<exists>r. rollback_after_verify_failure (silent_env env) (traced_action a) (silent_hooks h) token e ev (w, t) =
     (case rollback_after_verify_failure env a h token e ev w of (f, w') \<Rightarrow> (f, (w', t @ [Call_Rollback token r])))"
  by (auto simp: rollback_after_verify_failure_def erase split: prod.splits sum.splits)

text \<open>
  A logged phase returns what the plain phase returns, and the calls it appends have the stated shape.
\<close>

definition logs ::
  "('w logged, 'a) run_result \<Rightarrow> action_call list \<Rightarrow> ('w, 'a) run_result
    \<Rightarrow> (action_failure + 'a \<Rightarrow> action_call list \<Rightarrow> bool) \<Rightarrow> bool" where
  "logs x t y shape \<longleftrightarrow>
     (\<exists>cs. x = (case y of (r, ev, w) \<Rightarrow> (r, ev, (w, t @ cs))) \<and> shape (fst y) cs)"

lemma logs_prefix:
  "logs x (t @ ds) y S \<Longrightarrow> (\<And>r cs. S r cs \<Longrightarrow> S' r (ds @ cs)) \<Longrightarrow> logs x t y S'"
  by (fastforce simp: logs_def)

lemmas logs_weaken = logs_prefix [where ds = "[]", unfolded append_Nil append_Nil2]

definition policy_allows_apply :: "action_run_policy \<Rightarrow> 'w tuning_action \<Rightarrow> bool" where
  "policy_allows_apply rp a \<longleftrightarrow>
     pe_decision (explain_action_with_context (rp_policy rp) Intent_Apply (ta_descriptor a) (rp_context rp)) = Allowed"

definition scope_within_limit :: "action_run_policy \<Rightarrow> action_state \<Rightarrow> bool" where
  "scope_within_limit rp st =
     (case rp_max_affected_tasks rp of None \<Rightarrow> True | Some limit \<Rightarrow> as_affected_tasks st \<le> limit)"

definition preflight_shape :: "action_failure + unit \<Rightarrow> action_call list \<Rightarrow> bool" where
  "preflight_shape r cs \<longleftrightarrow> (\<exists>res. cs = [Call_Preflight res] \<and> (is_ok r \<longrightarrow> is_ok res))"

definition dry_run_shape :: "action_failure + action_state \<Rightarrow> action_call list \<Rightarrow> bool" where
  "dry_run_shape r cs =
     (case r of Inr st \<Rightarrow> cs = [Call_DryRun (Inr st)] | Inl _ \<Rightarrow> cs = [] \<or> (\<exists>res. cs = [Call_DryRun res]))"

definition apply_shape :: "bool \<Rightarrow> action_failure + rollback_token \<Rightarrow> action_call list \<Rightarrow> bool" where
  "apply_shape allowed r cs =
     (case r of
        Inr token \<Rightarrow> allowed \<and> cs = [Call_Apply (Inr token)]
      | Inl _ \<Rightarrow> cs = []
          \<or> allowed \<and> (\<exists>pe. pa_rollback pe = None \<and> cs = [Call_Apply (Inl pe)])
          \<or> allowed \<and> (\<exists>pe token x. pa_rollback pe = Some token \<and> cs = [Call_Apply (Inl pe), Call_Rollback token x]))"

definition applied_shape :: "rollback_token \<Rightarrow> action_failure + unit \<Rightarrow> action_call list \<Rightarrow> bool" where
  "applied_shape token r cs = (if is_ok r then cs = [] else \<exists>x. cs = [Call_Rollback token x])"

definition verify_shape :: "rollback_token \<Rightarrow> action_failure + action_state \<Rightarrow> action_call list \<Rightarrow> bool" where
  "verify_shape token r cs =
     (case r of Inr st \<Rightarrow> cs = [Call_Verify (Inr st)]
      | Inl _ \<Rightarrow> \<exists>res x. cs = [Call_Verify res, Call_Rollback token x])"

lemma fail_on_timeout_logged [erase]:
  "fail_on_timeout (silent_env env) s mt ph x ev (w, t) =
     (case fail_on_timeout env s mt ph x ev w of (r, ev, w) \<Rightarrow> (r, ev, (w, t)))"
  by (auto simp: fail_on_timeout_def erase split: prod.splits option.splits)

lemma fail_on_timeout_Inr: "fail_on_timeout env s mt ph x ev w = (Inr y, p) \<Longrightarrow> y = x"
  by (auto simp: fail_on_timeout_def split: prod.splits option.splits)

lemma preflight_logs:
  "logs (run_preflight (silent_env env) (traced_action a) rp s ev (w, t)) t
     (run_preflight env a rp s ev w) preflight_shape"
proof (cases "ta_preflight a w")
  case (Pair r w')
  then show ?thesis
    by (cases r) (auto simp: logs_def run_preflight_def preflight_shape_def erase from_preflight_result_def
        report_is_blocked_def report_passed_def report_blocked_def Let_def split: prod.splits)
qed

lemma dry_run_logs:
  "logs (run_dry_run (silent_env env) (traced_action a) rp s m ev (w, t)) t
     (run_dry_run env a rp s m ev w) dry_run_shape"
proof (cases "ta_dry_run a w")
  case (Pair r w')
  then show ?thesis
    by (cases r)
      (auto simp: logs_def run_dry_run_def dry_run_shape_def erase Let_def
        split: prod.splits sum.splits dest: fail_on_timeout_Inr)
qed

lemma scope_limit_logs:
  "logs (check_scope_limit rp st ev (w, t)) t (check_scope_limit rp st ev w)
     (\<lambda>r cs. cs = [] \<and> (is_ok r \<longrightarrow> scope_within_limit rp st))"
  by (auto simp: logs_def check_scope_limit_def scope_within_limit_def split: option.splits)

lemma partial_apply_logged:
  "\<exists>cs. partial_apply_failure (silent_env env) (traced_action a) (silent_hooks h) pe ev (w, t) =
      (case partial_apply_failure env a h pe ev w of (e, ev, w) \<Rightarrow> (e, ev, (w, t @ cs)))
    \<and> (case pa_rollback pe of None \<Rightarrow> cs = [] | Some token \<Rightarrow> \<exists>x. cs = [Call_Rollback token x])"
proof (cases "pa_rollback pe")
  case None
  then show ?thesis
    by (simp add: partial_apply_failure_def Let_def)
next
  case (Some token)
  obtain r w1 where hook: "run_after_apply h token w = (r, w1)"
    by (cases "run_after_apply h token w")
  show ?thesis
  proof (cases r)
    case (Inl e)
    let ?m = "anyhow_msg (''partial apply failed: '' @ any_display (pa_source pe)
      @ ''; rollback-token hook failed: '' @ any_display_alt e)"
    let ?ev = "ev\<lparr>ae_affected_tasks := affected_tasks token, ae_restore_path := restore_path token\<rparr>"
    obtain x where "rollback_after_apply_hook_failure (silent_env env) (traced_action a) (silent_hooks h) token ?m ?ev (w1, t) =
      (case rollback_after_apply_hook_failure env a h token ?m ?ev w1 of (f, w') \<Rightarrow> (f, (w', t @ [Call_Rollback token x])))"
      using rollback_after_hook_logged [of env a h token ?m ?ev w1 t] by blast
    then have "partial_apply_failure (silent_env env) (traced_action a) (silent_hooks h) pe ev (w, t) =
        (case partial_apply_failure env a h pe ev w of (e, ev, w) \<Rightarrow> (e, ev, (w, t @ [Call_Rollback token x])))"
      using Inl Some hook by (simp add: partial_apply_failure_def erase Let_def split: prod.splits)
    with Some show ?thesis
      by auto
  next
    case (Inr u)
    with Some hook show ?thesis
      by (auto simp: partial_apply_failure_def erase Let_def split: prod.splits sum.splits)
  qed
qed

lemma apply_logs:
  "logs (run_apply (silent_env env) (traced_action a) rp (silent_hooks h) ev (w, t)) t
     (run_apply env a rp h ev w) (apply_shape (policy_allows_apply rp a))"
proof (cases "check_action_with_explanation (rp_policy rp) (rp_context rp) Intent_Apply (ta_descriptor a)")
  case (Inl e)
  then show ?thesis
    by (simp add: logs_def run_apply_def apply_shape_def erase)
next
  case (Inr u)
  then have allowed: "policy_allows_apply rp a"
    by (auto simp: check_action_with_explanation_def policy_allows_apply_def Let_def split: policy_decision_kind.splits)
  obtain r w1 where ap: "ta_apply a (run_after_prepare h) w = (r, w1)"
    by (cases "ta_apply a (run_after_prepare h) w")
  show ?thesis
  proof (cases r)
    case (Inr token)
    with \<open>check_action_with_explanation _ _ _ _ = _\<close> ap allowed show ?thesis
      by (simp add: logs_def run_apply_def apply_shape_def erase)
  next
    case (Inl pe)
    let ?t = "t @ [Call_Apply (Inl pe)]" and ?ev = "ev\<lparr>ae_action_phase := Some Ph_Apply\<rparr>"
    obtain cs where cs: "partial_apply_failure (silent_env env) (traced_action a) (silent_hooks h) pe ?ev (w1, ?t) =
        (case partial_apply_failure env a h pe ?ev w1 of (e, ev, w) \<Rightarrow> (e, ev, (w, ?t @ cs)))"
      and shape: "case pa_rollback pe of None \<Rightarrow> cs = [] | Some token \<Rightarrow> \<exists>x. cs = [Call_Rollback token x]"
      using partial_apply_logged [of env a h pe ?ev w1 ?t] by blast
    have "run_apply (silent_env env) (traced_action a) rp (silent_hooks h) ev (w, t) =
        (case run_apply env a rp h ev w of (r, ev, w) \<Rightarrow> (r, ev, (w, t @ (Call_Apply (Inl pe) # cs))))"
      using \<open>check_action_with_explanation _ _ _ _ = _\<close> ap Inl cs
      by (simp add: run_apply_def erase split: prod.splits)
    moreover have "apply_shape (policy_allows_apply rp a) (fst (run_apply env a rp h ev w)) (Call_Apply (Inl pe) # cs)"
      using \<open>check_action_with_explanation _ _ _ _ = _\<close> ap Inl shape allowed
      by (auto simp: run_apply_def apply_shape_def split: prod.splits option.splits)
    ultimately show ?thesis
      by (auto simp: logs_def)
  qed
qed

lemma fail_with_rollback_logs:
  "logs (fail_with_rollback (silent_env env) (traced_action a) (silent_hooks h) s mt ph token x ev (w, t)) t
     (fail_with_rollback env a h s mt ph token x ev w)
     (\<lambda>r cs. case r of Inr y \<Rightarrow> y = x \<and> cs = [] | Inl _ \<Rightarrow> \<exists>z. cs = [Call_Rollback token z])"
proof (cases "total_timeout_error env s mt ph w")
  case (Pair r w1)
  show ?thesis
  proof (cases r)
    case None
    with Pair show ?thesis
      by (simp add: logs_def fail_with_rollback_def erase)
  next
    case (Some e)
    with Pair have "timeout_details e \<noteq> None"
      by (simp add: timeout_is_timeout)
    with rollback_after_timeout_logged obtain z where
      "rollback_after_timeout (silent_env env) (traced_action a) (silent_hooks h) token e
         (ev\<lparr>ae_action_phase := Some Ph_Rollback\<rparr>) (w1, t) =
       (case rollback_after_timeout env a h token e (ev\<lparr>ae_action_phase := Some Ph_Rollback\<rparr>) w1 of
          (f, w') \<Rightarrow> (f, (w', t @ [Call_Rollback token z])))"
      by metis
    with Pair Some show ?thesis
      by (auto simp: logs_def fail_with_rollback_def erase split: prod.splits)
  qed
qed

lemma applied_logs:
  "logs (run_applied (silent_env env) (traced_action a) rp (silent_hooks h) s token ev (w, t)) t
     (run_applied env a rp h s token ev w) (applied_shape token)"
proof -
  let ?ev = "ev\<lparr>ae_affected_tasks := affected_tasks token, ae_restore_path := restore_path token\<rparr>"
  let ?w1 = "\<lambda>env. append_runner_audit_event env ?ev (Some Ph_Apply) True (affected_tasks token)
    (restore_path token) None ''apply successful''"
  obtain r w1 where hook: "run_after_apply h token w = (r, w1)"
    by (cases "run_after_apply h token w")
  show ?thesis
  proof (cases r)
    case (Inl e)
    obtain z where
      "rollback_after_apply_hook_failure (silent_env env) (traced_action a) (silent_hooks h) token e
         (?ev\<lparr>ae_action_phase := Some Ph_Rollback\<rparr>) (w1, t) =
       (case rollback_after_apply_hook_failure env a h token e (?ev\<lparr>ae_action_phase := Some Ph_Rollback\<rparr>) w1 of
          (f, w') \<Rightarrow> (f, (w', t @ [Call_Rollback token z])))"
      using rollback_after_hook_logged by metis
    with hook Inl show ?thesis
      by (auto simp: logs_def run_applied_def applied_shape_def erase Let_def split: prod.splits)
  next
    case (Inr u)
    then have "run_applied env a rp h s token ev w =
        fail_with_rollback env a h s (rp_max_total_duration rp) Ph_Apply token () ?ev (?w1 env w1)"
      "run_applied (silent_env env) (traced_action a) rp (silent_hooks h) s token ev (w, t) =
        fail_with_rollback (silent_env env) (traced_action a) (silent_hooks h) s (rp_max_total_duration rp)
          Ph_Apply token () ?ev (?w1 env w1, t)"
      using hook by (simp_all add: run_applied_def erase Let_def)
    then show ?thesis
      by (auto intro!: logs_weaken [OF fail_with_rollback_logs] simp: applied_shape_def split: sum.splits)
  qed
qed

lemma verify_logs:
  "logs (run_verify (silent_env env) (traced_action a) rp (silent_hooks h) s token ev (w, t)) t
     (run_verify env a rp h s token ev w) (verify_shape token)"
proof -
  let ?ev = "ev\<lparr>ae_action_phase := Some Ph_Verify\<rparr>"
  let ?w1 = "\<lambda>st env. append_runner_audit_event env ?ev (Some Ph_Verify) True (as_affected_tasks st)
    (restore_path token) None ''verify successful''"
  obtain r w1 where ver: "ta_verify a w = (r, w1)"
    by (cases "ta_verify a w")
  show ?thesis
  proof (cases r)
    case (Inl e)
    obtain z where
      "rollback_after_verify_failure (silent_env env) (traced_action a) (silent_hooks h) token e
         (?ev\<lparr>ae_action_phase := Some Ph_Rollback\<rparr>) (w1, t @ [Call_Verify r]) =
       (case rollback_after_verify_failure env a h token e (?ev\<lparr>ae_action_phase := Some Ph_Rollback\<rparr>) w1 of
          (f, w') \<Rightarrow> (f, (w', (t @ [Call_Verify r]) @ [Call_Rollback token z])))"
      using rollback_after_verify_logged by metis
    with ver Inl show ?thesis
      by (auto simp: logs_def run_verify_def verify_shape_def erase split: prod.splits)
  next
    case (Inr st)
    then have "run_verify env a rp h s token ev w =
        fail_with_rollback env a h s (rp_max_total_duration rp) Ph_Verify token st ?ev (?w1 st env w1)"
      "run_verify (silent_env env) (traced_action a) rp (silent_hooks h) s token ev (w, t) =
        fail_with_rollback (silent_env env) (traced_action a) (silent_hooks h) s (rp_max_total_duration rp)
          Ph_Verify token st ?ev (?w1 st env w1, t @ [Call_Verify r])"
      using ver by (simp_all add: run_verify_def erase Let_def)
    then show ?thesis
      using Inr by (auto intro!: logs_prefix [OF fail_with_rollback_logs] simp: verify_shape_def split: sum.splits)
  qed
qed

section \<open>The specification of a run\<close>

text \<open>
  The possible runs, as the sequence of calls to the action together with the outcome. \<open>dry\<close> is the dry-run
  flag, \<open>allowed\<close> the policy's decision on applying, \<open>limit\<close> the scope limit.
\<close>

inductive run_spec ::
  "bool \<Rightarrow> bool \<Rightarrow> (action_state \<Rightarrow> bool) \<Rightarrow> action_call list \<Rightarrow> action_failure + audited_action_result \<Rightarrow> bool"
  for dry allowed limit where
  stopped_in_preflight: "run_spec dry allowed limit [Call_Preflight p] (Inl e)"
| stopped_in_dry_run: "run_spec dry allowed limit [Call_Preflight (Inr ws), Call_DryRun d] (Inl e)"
| dry_run_done: "dry \<Longrightarrow>
    run_spec dry allowed limit [Call_Preflight (Inr ws), Call_DryRun (Inr st)] (Inr \<lparr>ar_state = st, ar_rollback = None\<rparr>)"
| apply_failed_clean: "\<not> dry \<Longrightarrow> allowed \<Longrightarrow> limit st \<Longrightarrow> pa_rollback pe = None \<Longrightarrow>
    run_spec dry allowed limit [Call_Preflight (Inr ws), Call_DryRun (Inr st), Call_Apply (Inl pe)] (Inl e)"
| apply_failed_undone: "\<not> dry \<Longrightarrow> allowed \<Longrightarrow> limit st \<Longrightarrow> pa_rollback pe = Some token \<Longrightarrow>
    run_spec dry allowed limit
      [Call_Preflight (Inr ws), Call_DryRun (Inr st), Call_Apply (Inl pe), Call_Rollback token x] (Inl e)"
| applied_undone: "\<not> dry \<Longrightarrow> allowed \<Longrightarrow> limit st \<Longrightarrow>
    run_spec dry allowed limit
      [Call_Preflight (Inr ws), Call_DryRun (Inr st), Call_Apply (Inr token), Call_Rollback token x] (Inl e)"
| verified_undone: "\<not> dry \<Longrightarrow> allowed \<Longrightarrow> limit st \<Longrightarrow>
    run_spec dry allowed limit
      [Call_Preflight (Inr ws), Call_DryRun (Inr st), Call_Apply (Inr token), Call_Verify v, Call_Rollback token x] (Inl e)"
| applied_verified: "\<not> dry \<Longrightarrow> allowed \<Longrightarrow> limit st \<Longrightarrow>
    run_spec dry allowed limit
      [Call_Preflight (Inr ws), Call_DryRun (Inr st), Call_Apply (Inr token), Call_Verify (Inr st')]
      (Inr \<lparr>ar_state = st', ar_rollback = Some token\<rparr>)"

inductive_cases run_spec_OkE: "run_spec dry allowed limit cs (Inr res)"

lemma run_then_simps [simp]:
  "run_then (Inl e, ev, w) f = (Inl e, ev, w)"
  "run_then (Inr x, ev, w) f = f x ev w"
  by (simp_all add: run_then_def)

lemma logs_then:
  assumes "logs x t y S" "\<And>v ev w t. logs (f' v ev (w, t)) t (f v ev w) (T v)"
  shows "logs (run_then x f') t (run_then y f)
    (\<lambda>r cs. (\<exists>e. r = Inl e \<and> S (Inl e) cs) \<or> (\<exists>v cs1 cs2. cs = cs1 @ cs2 \<and> S (Inr v) cs1 \<and> T v r cs2))"
proof -
  obtain r ev w where y: "y = (r, ev, w)"
    by (cases y)
  obtain cs where x: "x = (r, ev, (w, t @ cs))" and S: "S r cs"
    using assms(1) y by (auto simp: logs_def)
  show ?thesis
  proof (cases r)
    case (Inl e)
    with x y S show ?thesis
      by (auto simp: logs_def run_then_def)
  next
    case (Inr v)
    obtain cs2 where "f' v ev (w, t @ cs) = (case f v ev w of (r, ev, w) \<Rightarrow> (r, ev, (w, (t @ cs) @ cs2)))"
      "T v (fst (f v ev w)) cs2"
      using assms(2) [of v ev w "t @ cs"] by (auto simp: logs_def)
    with x y S Inr show ?thesis
      by (fastforce simp: logs_def run_then_def split: prod.splits)
  qed
qed

lemma logs_return: "logs (r, ev, (w, t)) t (r, ev, w) (\<lambda>r' cs. cs = [] \<and> r' = r)"
  by (simp add: logs_def)

lemma body_logs:
  "logs (run_body (silent_env env) (traced_action a) rp (silent_hooks h) s ev (w, t)) t
     (run_body env a rp h s ev w)
     (\<lambda>r cs. run_spec (rp_dry_run rp) (policy_allows_apply rp a) (scope_within_limit rp) cs r)"
proof (cases "rp_dry_run rp")
  case True
  show ?thesis
    unfolding run_body_def if_P [OF True]
    by (rule logs_weaken [OF logs_then [OF preflight_logs logs_then [OF dry_run_logs logs_return]]])
      (auto simp: preflight_shape_def dry_run_shape_def is_ok_iff True intro: run_spec.intros)
next
  case False
  show ?thesis
    unfolding run_body_def if_not_P [OF False]
    by (rule logs_weaken [OF logs_then [OF preflight_logs logs_then [OF dry_run_logs logs_then [OF
            scope_limit_logs logs_then [OF apply_logs logs_then [OF applied_logs logs_then [OF
            verify_logs logs_return]]]]]]])
      (auto simp: preflight_shape_def dry_run_shape_def apply_shape_def applied_shape_def verify_shape_def
        is_ok_iff False intro: run_spec.intros)
qed

lemma traced_run_cases:
  "\<exists>cs. traced_run env c a rp h w = (case run_audited_action env c a rp h w of (r, w') \<Rightarrow> (r, (w', cs)))
     \<and> run_spec (rp_dry_run rp) (policy_allows_apply rp a) (scope_within_limit rp) cs
         (fst (run_audited_action env c a rp h w))"
proof -
  obtain now w1 where now: "re_unix_nanos env w = (now, w1)"
    by (cases "re_unix_nanos env w")
  obtain started w2 where started: "re_instant env w1 = (started, w2)"
    by (cases "re_instant env w1")
  let ?ev = "initial_audit_event now c (ta_descriptor a) (rp_dry_run rp)"
  obtain r ev w3 where body: "run_body env a rp h started ?ev w2 = (r, ev, w3)"
    by (cases "run_body env a rp h started ?ev w2")
  obtain cs where "run_body (silent_env env) (traced_action a) rp (silent_hooks h) started ?ev (w2, []) = (r, ev, (w3, cs))"
    and "run_spec (rp_dry_run rp) (policy_allows_apply rp a) (scope_within_limit rp) cs r"
    using body_logs [of env a rp h started ?ev w2 "[]"] body by (auto simp: logs_def)
  moreover have "re_unix_nanos (silent_env env) (w, t) = (now, (w1, t))"
    "re_instant (silent_env env) (w1, t) = (started, (w2, t))" for t
    using now started by (simp_all add: silent_env_def erase)
  ultimately show ?thesis
    using now started body
    by (intro exI [of _ cs]) (simp add: traced_run_def run_audited_action_def erase Let_def)
qed

lemma run_meets_spec:
  "run_spec (rp_dry_run rp) (policy_allows_apply rp a) (scope_within_limit rp)
     (calls_of_run env c a rp h w) (fst (run_audited_action env c a rp h w))"
  using traced_run_cases [of env c a rp h w]
  by (cases "run_audited_action env c a rp h w") (auto simp: calls_of_run_def)

section \<open>Reversible actions\<close>

definition rollback_failed :: "action_failure \<Rightarrow> bool" where
  "rollback_failed e =
     (case e of
        AF_Rollback (EmergencyRollbackFailure _ _) \<Rightarrow> True
      | AF_Rollback (TimeoutRollbackFailure _ _) \<Rightarrow> True
      | _ \<Rightarrow> False)"

text \<open>
  The contract of an action whose effect on the observed machine state \<open>obs\<close> can be undone: everything
  but applying and rolling back leaves the state alone, and a rollback that reports success on the
  state an apply left behind brings back the state before the apply. \<open>pre\<close> is what the contract needs
  of the machine at the start.
\<close>

locale reversible_action =
  fixes a :: "'w tuning_action"
    and env :: "'w runner_env"
    and hooks :: "'w action_hooks"
    and obs :: "'w \<Rightarrow> 'm"
    and pre :: "'m \<Rightarrow> bool"
  assumes preflight_pure: "obs (snd (ta_preflight a w)) = obs w"
    and dry_run_pure: "obs (snd (ta_dry_run a w)) = obs w"
    and verify_pure: "obs (snd (ta_verify a w)) = obs w"
    and clock_pure: "obs (snd (re_instant env w)) = obs w" "obs (snd (re_unix_nanos env w)) = obs w"
    and audit_pure: "obs (re_append_audit env ev w) = obs w"
    and hooks_pure: "obs (snd (run_after_apply hooks token w)) = obs w"
      "obs (snd (run_after_rollback hooks token w)) = obs w"
    and apply_undoable:
      "pre (obs w) \<Longrightarrow> ta_apply a (run_after_prepare hooks) w = (r, w1) \<Longrightarrow>
       (case r of Inr token \<Rightarrow> Some token | Inl pe \<Rightarrow> pa_rollback pe) = Some token \<Longrightarrow>
       obs w2 = obs w1 \<Longrightarrow> ta_rollback a token w2 = (Inr (), w3) \<Longrightarrow> obs w3 = obs w"
    and apply_clean_failure:
      "pre (obs w) \<Longrightarrow> ta_apply a (run_after_prepare hooks) w = (Inl pe, w1) \<Longrightarrow> pa_rollback pe = None
       \<Longrightarrow> obs w1 = obs w"
begin

definition undoes :: "rollback_token \<Rightarrow> 'm \<Rightarrow> 'm \<Rightarrow> bool" where
  "undoes token m1 m0 \<longleftrightarrow> (\<forall>w2 w3. obs w2 = m1 \<longrightarrow> ta_rollback a token w2 = (Inr (), w3) \<longrightarrow> obs w3 = m0)"

lemmas pure = preflight_pure dry_run_pure verify_pure clock_pure audit_pure hooks_pure

lemma append_pure [simp]: "obs (append_runner_audit_event env ev ph ok n p c m w) = obs w"
  using pure by (simp add: append_runner_audit_event_def split: prod.split) (metis snd_conv)

lemma timeout_pure: "total_timeout_error env s mt ph w = (r, w') \<Longrightarrow> obs w' = obs w"
  using clock_pure(1) [of w] by (auto simp: total_timeout_error_def Let_def split: option.splits prod.splits)

lemma hook_pureD:
  "run_after_apply hooks token w = (r, w') \<Longrightarrow> obs w' = obs w"
  "run_after_rollback hooks token w = (r, w') \<Longrightarrow> obs w' = obs w"
  using hooks_pure by (metis snd_conv)+

lemma undoesI:
  assumes "pre (obs w)" "ta_apply a (run_after_prepare hooks) w = (r, w1)"
    and "(case r of Inr token \<Rightarrow> Some token | Inl pe \<Rightarrow> pa_rollback pe) = Some token"
  shows "undoes token (obs w1) (obs w)"
  unfolding undoes_def using apply_undoable [OF assms] by blast

lemma undo_then_hook:
  assumes "undoes token (obs w) m0" "ta_rollback a token w = (Inr u, w1)" "run_after_rollback hooks token w1 = (r, w2)"
  shows "obs w2 = m0"
proof -
  have "obs w1 = m0"
    using assms(1,2) unfolding undoes_def by (cases u) blast
  with hook_pureD(2) [OF assms(3)] show ?thesis
    by simp
qed

lemma undo_timeout:
  assumes "undoes token (obs w) m0" "rollback_after_timeout env a hooks token e ev w = (f, w')"
    and "timeout_details e \<noteq> None" "\<not> rollback_failed f"
  shows "obs w' = m0"
proof -
  obtain r w1 where rb: "ta_rollback a token w = (r, w1)"
    by (cases "ta_rollback a token w")
  obtain r2 w2 where hk: "run_after_rollback hooks token w1 = (r2, w2)"
    by (cases "run_after_rollback hooks token w1")
  show ?thesis
    using assms(2-4) rb hk undo_then_hook [OF assms(1) _ hk]
    by (cases r; cases r2) (auto simp: rollback_after_timeout_def rollback_failed_def)
qed

lemma undo_hook_failure:
  assumes "undoes token (obs w) m0" "rollback_after_apply_hook_failure env a hooks token e ev w = (f, w')"
    and "\<not> rollback_failed f"
  shows "obs w' = m0"
proof -
  obtain r w1 where rb: "ta_rollback a token w = (r, w1)"
    by (cases "ta_rollback a token w")
  obtain r2 w2 where hk: "run_after_rollback hooks token w1 = (r2, w2)"
    by (cases "run_after_rollback hooks token w1")
  show ?thesis
    using assms(2,3) rb hk undo_then_hook [OF assms(1) _ hk]
    by (cases r; cases r2) (auto simp: rollback_after_apply_hook_failure_def rollback_failed_def Let_def)
qed

lemma undo_verify_failure:
  assumes "undoes token (obs w) m0" "rollback_after_verify_failure env a hooks token e ev w = (f, w')"
    and "\<not> rollback_failed f"
  shows "obs w' = m0"
proof -
  obtain r w1 where rb: "ta_rollback a token w = (r, w1)"
    by (cases "ta_rollback a token w")
  obtain r2 w2 where hk: "run_after_rollback hooks token w1 = (r2, w2)"
    by (cases "run_after_rollback hooks token w1")
  show ?thesis
    using assms(2,3) rb hk undo_then_hook [OF assms(1) _ hk]
    by (cases r; cases r2) (auto simp: rollback_after_verify_failure_def rollback_failed_def)
qed

lemma undo_partial_apply:
  assumes "pre (obs w)" "ta_apply a (run_after_prepare hooks) w = (Inl pe, w1)"
    and "partial_apply_failure env a hooks pe ev w1 = (f, ev', w')" "\<not> rollback_failed f"
  shows "obs w' = obs w"
proof (cases "pa_rollback pe")
  case None
  with assms apply_clean_failure [OF assms(1,2)] show ?thesis
    by (simp add: partial_apply_failure_def Let_def)
next
  case (Some token)
  have und: "undoes token (obs w1) (obs w)"
    by (rule undoesI [OF assms(1,2)]) (simp add: Some)
  obtain r w2 where hk: "run_after_apply hooks token w1 = (r, w2)"
    by (cases "run_after_apply hooks token w1")
  have und2: "undoes token (obs w2) (obs w)"
    using und hook_pureD(1) [OF hk] by simp
  show ?thesis
  proof (cases r)
    case (Inl e)
    with Some hk assms(3,4) undo_hook_failure [OF und2] show ?thesis
      by (auto simp: partial_apply_failure_def Let_def split: prod.splits)
  next
    case (Inr u)
    obtain r3 w3 where rb: "ta_rollback a token w2 = (r3, w3)"
      by (cases "ta_rollback a token w2")
    obtain r4 w4 where hk2: "run_after_rollback hooks token w3 = (r4, w4)"
      by (cases "run_after_rollback hooks token w3")
    show ?thesis
      using Inr Some hk assms(3,4) rb hk2 undo_then_hook [OF und2 _ hk2]
      by (cases r3; cases r4) (auto simp: partial_apply_failure_def rollback_failed_def Let_def)
  qed
qed

lemma undo_fail_with_rollback:
  assumes "undoes token (obs w) m0" "fail_with_rollback env a hooks s mt ph token x ev w = (Inl f, ev', w')"
    and "\<not> rollback_failed f"
  shows "obs w' = m0"
proof -
  obtain r w1 where to: "total_timeout_error env s mt ph w = (r, w1)"
    by (cases "total_timeout_error env s mt ph w")
  have und: "undoes token (obs w1) m0"
    using assms(1) timeout_pure [OF to] by simp
  obtain e where e: "r = Some e"
    using assms(2) to by (cases r) (auto simp: fail_with_rollback_def)
  then have "rollback_after_timeout env a hooks token e (ev\<lparr>ae_action_phase := Some Ph_Rollback\<rparr>) w1 = (f, w')"
    using assms(2) to by (auto simp: fail_with_rollback_def Let_def split: prod.splits)
  from undo_timeout [OF und this] show ?thesis
    using timeout_is_timeout [of env s mt ph w e w1] to e assms(3) by simp
qed

lemma fail_with_rollback_ok_pure:
  "fail_with_rollback env a hooks s mt ph token x ev w = (Inr y, ev', w') \<Longrightarrow> obs w' = obs w"
  using timeout_pure by (auto simp: fail_with_rollback_def Let_def split: prod.splits option.splits)

lemma restores_applied:
  assumes "undoes token (obs w) m0" "run_applied env a rp hooks s token ev w = (r, ev', w')"
  shows "(case r of Inr _ \<Rightarrow> obs w' = obs w | Inl f \<Rightarrow> \<not> rollback_failed f \<longrightarrow> obs w' = m0)"
proof -
  obtain q w1 where hk: "run_after_apply hooks token w = (q, w1)"
    by (cases "run_after_apply hooks token w")
  have same: "obs w1 = obs w" and und: "undoes token (obs w1) m0"
    using assms(1) hook_pureD(1) [OF hk] by simp_all
  show ?thesis
  proof (cases q)
    case (Inl e)
    with hk assms(2) undo_hook_failure [OF und] show ?thesis
      by (auto simp: run_applied_def Let_def split: prod.splits)
  next
    case (Inr u)
    let ?ev = "ev\<lparr>ae_affected_tasks := affected_tasks token, ae_restore_path := restore_path token\<rparr>"
    let ?w = "append_runner_audit_event env ?ev (Some Ph_Apply) True (affected_tasks token)
      (restore_path token) None ''apply successful'' w1"
    have "fail_with_rollback env a hooks s (rp_max_total_duration rp) Ph_Apply token () ?ev ?w = (r, ev', w')"
      using Inr hk assms(2) by (simp add: run_applied_def Let_def)
    then show ?thesis
      using undo_fail_with_rollback [of token ?w m0] fail_with_rollback_ok_pure [of s _ _ token _ _ ?w] und same
      by (cases r) auto
  qed
qed

lemma restores_verify:
  assumes "undoes token (obs w) m0" "run_verify env a rp hooks s token ev w = (r, ev', w')"
  shows "(case r of Inr _ \<Rightarrow> obs w' = obs w | Inl f \<Rightarrow> \<not> rollback_failed f \<longrightarrow> obs w' = m0)"
proof -
  obtain q w1 where ver: "ta_verify a w = (q, w1)"
    by (cases "ta_verify a w")
  have same: "obs w1 = obs w" and und: "undoes token (obs w1) m0"
    using assms(1) verify_pure [of w] ver by simp_all
  show ?thesis
  proof (cases q)
    case (Inl e)
    with ver assms(2) undo_verify_failure [OF und] show ?thesis
      by (auto simp: run_verify_def Let_def split: prod.splits)
  next
    case (Inr st)
    let ?ev = "ev\<lparr>ae_action_phase := Some Ph_Verify\<rparr>"
    let ?w = "append_runner_audit_event env ?ev (Some Ph_Verify) True (as_affected_tasks st)
      (restore_path token) None ''verify successful'' w1"
    have "fail_with_rollback env a hooks s (rp_max_total_duration rp) Ph_Verify token st ?ev ?w = (r, ev', w')"
      using Inr ver assms(2) by (simp add: run_verify_def Let_def)
    then show ?thesis
      using undo_fail_with_rollback [of token ?w m0] fail_with_rollback_ok_pure [of s _ _ token _ _ ?w] und same
      by (cases r) auto
  qed
qed

lemma fail_on_timeout_pure: "fail_on_timeout env s mt ph x ev w = (r, ev', w') \<Longrightarrow> obs w' = obs w"
  using timeout_pure by (auto simp: fail_on_timeout_def split: prod.splits option.splits)

lemma preflight_phase_pure: "run_preflight env a rp s ev w = (r, ev', w') \<Longrightarrow> obs w' = obs w"
  using preflight_pure [of w]
  by (auto simp: run_preflight_def Let_def split: prod.splits if_splits dest: fail_on_timeout_pure)

lemma dry_run_phase_pure: "run_dry_run env a rp s m ev w = (r, ev', w') \<Longrightarrow> obs w' = obs w"
  using dry_run_pure [of w]
  by (auto simp: run_dry_run_def Let_def split: prod.splits sum.splits dest: fail_on_timeout_pure)

lemma scope_phase_pure: "check_scope_limit rp st ev w = (r, ev', w') \<Longrightarrow> w' = w"
  by (auto simp: check_scope_limit_def split: option.splits if_splits)

lemma apply_phase:
  assumes "pre (obs w)" "run_apply env a rp hooks ev w = (r, ev', w')"
  shows "(case r of Inr token \<Rightarrow> undoes token (obs w') (obs w) | Inl f \<Rightarrow> \<not> rollback_failed f \<longrightarrow> obs w' = obs w)"
proof (cases "check_action_with_explanation (rp_policy rp) (rp_context rp) Intent_Apply (ta_descriptor a)")
  case (Inl e)
  with assms(2) show ?thesis
    by (auto simp: run_apply_def Let_def)
next
  case (Inr u)
  obtain q w1 where ap: "ta_apply a (run_after_prepare hooks) w = (q, w1)"
    by (cases "ta_apply a (run_after_prepare hooks) w")
  show ?thesis
  proof (cases q)
    case (Inl pe)
    with assms ap Inr undo_partial_apply [OF assms(1)] show ?thesis
      by (auto simp: run_apply_def Let_def split: prod.splits)
  next
    case r: (Inr token)
    then have "r = Inr token" "w' = w1"
      using assms(2) ap Inr by (auto simp: run_apply_def Let_def)
    with undoesI [OF assms(1) ap] r show ?thesis
      by simp
  qed
qed

lemma restores_tail:
  assumes "pre (obs w)"
    and "run_then (run_apply env a rp hooks ev w) (\<lambda>token ev w.
           run_then (run_applied env a rp hooks s token ev w) (\<lambda>_ ev w.
           run_then (run_verify env a rp hooks s token ev w) (\<lambda>state ev w.
             (Inr (G token state), F token state ev, w)))) = (Inl f, ev', w')"
    and "\<not> rollback_failed f"
  shows "obs w' = obs w"
proof -
  obtain r1 ev1 w1 where ap: "run_apply env a rp hooks ev w = (r1, ev1, w1)"
    by (metis prod_cases3)
  show ?thesis
  proof (cases r1)
    case (Inl e)
    with apply_phase [OF assms(1) ap] ap assms(2,3) show ?thesis
      by simp
  next
    case (Inr token)
    have und: "undoes token (obs w1) (obs w)"
      using apply_phase [OF assms(1) ap] Inr by simp
    obtain r2 ev2 w2 where ad: "run_applied env a rp hooks s token ev1 w1 = (r2, ev2, w2)"
      by (metis prod_cases3)
    show ?thesis
    proof (cases r2)
      case i: (Inl e)
      with restores_applied [OF und ad] ap ad Inr assms(2,3) show ?thesis
        by simp
    next
      case i: (Inr u)
      have und2: "undoes token (obs w2) (obs w)"
        using restores_applied [OF und ad] und i by simp
      obtain r3 ev3 w3 where ve: "run_verify env a rp hooks s token ev2 w2 = (r3, ev3, w3)"
        by (metis prod_cases3)
      show ?thesis
        using restores_verify [OF und2 ve] ap ad ve Inr i assms(2,3)
        by (cases r3) simp_all
    qed
  qed
qed

lemma restores_body:
  assumes "pre (obs w)" "run_body env a rp hooks s ev w = (r, ev', w')"
  shows "rp_dry_run rp \<Longrightarrow> obs w' = obs w"
    and "r = Inl f \<Longrightarrow> \<not> rollback_failed f \<Longrightarrow> obs w' = obs w"
proof -
  obtain r1 ev1 w1 where pf: "run_preflight env a rp s ev w = (r1, ev1, w1)"
    by (metis prod_cases3)
  obtain r2 ev2 w2 where dr: "run_dry_run env a rp s ''dry run successful'' ev1 w1 = (r2, ev2, w2)"
    by (metis prod_cases3)
  obtain r3 ev3 w3 where pd: "run_dry_run env a rp s ''pre-apply dry run successful'' ev1 w1 = (r3, ev3, w3)"
    by (metis prod_cases3)
  have o1: "obs w1 = obs w" and o2: "obs w2 = obs w1" and o3: "obs w3 = obs w1"
    using preflight_phase_pure [OF pf] dry_run_phase_pure [OF dr] dry_run_phase_pure [OF pd] by auto
  show dry: "obs w' = obs w" if "rp_dry_run rp"
    using that assms(2) pf dr o1 o2 by (cases r1; cases r2) (auto simp: run_body_def)
  show "obs w' = obs w" if r: "r = Inl f" "\<not> rollback_failed f"
  proof (cases "rp_dry_run rp \<or> \<not> is_ok r1 \<or> \<not> is_ok r3")
    case True
    then show ?thesis
      using dry assms(2) pf pd o1 o3 by (cases "rp_dry_run rp"; cases r1; cases r3) (auto simp: run_body_def)
  next
    case False
    then obtain st where ok: "r1 = Inr ()" "r3 = Inr st" "\<not> rp_dry_run rp"
      by (auto simp: is_ok_iff)
    obtain r4 ev4 w4 where sc: "check_scope_limit rp st ev3 w3 = (r4, ev4, w4)"
      by (metis prod_cases3)
    have p4: "pre (obs w4)" and o4: "obs w4 = obs w"
      using scope_phase_pure [OF sc] assms(1) o1 o3 by simp_all
    show ?thesis
      using restores_tail [OF p4, of rp ev4 s _ _ f ev' w'] ok sc pf pd assms(2) r o4 o1 o3 scope_phase_pure [OF sc]
      by (cases r4) (auto simp: run_body_def)
  qed
qed

theorem run_restores:
  assumes "pre (obs w)" "run_audited_action env c a rp hooks w = (r, w')"
  shows "rp_dry_run rp \<Longrightarrow> obs w' = obs w"
    and "r = Inl f \<Longrightarrow> \<not> rollback_failed f \<Longrightarrow> obs w' = obs w"
proof -
  obtain now w1 where now: "re_unix_nanos env w = (now, w1)"
    by (cases "re_unix_nanos env w")
  obtain started w2 where started: "re_instant env w1 = (started, w2)"
    by (cases "re_instant env w1")
  let ?ev = "initial_audit_event now c (ta_descriptor a) (rp_dry_run rp)"
  obtain q ev w3 where body: "run_body env a rp hooks started ?ev w2 = (q, ev, w3)"
    by (metis prod_cases3)
  have o2: "obs w2 = obs w"
    using clock_pure [of w] clock_pure [of w1] now started by simp
  then have pre2: "pre (obs w2)"
    using assms(1) by simp
  have "r = q" "obs w' = obs w3"
    using assms(2) now started body by (auto simp: run_audited_action_def Let_def)
  then show "rp_dry_run rp \<Longrightarrow> obs w' = obs w" "r = Inl f \<Longrightarrow> \<not> rollback_failed f \<Longrightarrow> obs w' = obs w"
    using restores_body [OF pre2 body] o2 by auto
qed

end

section \<open>The terminal audit event\<close>

lemma body_ok_success: "run_body env a rp h s ev w = (Inr res, ev', w') \<Longrightarrow> ae_success ev'"
  by (auto simp: run_body_def run_then_def mark_success_def split: prod.splits sum.splits if_splits)

section \<open>A concrete run\<close>

text \<open>An action on a one-bit machine, used to exhibit runs in which the hypotheses below hold.\<close>

definition sample_state :: action_state where
  "sample_state = \<lparr>as_applied = True, as_affected_tasks = 1, as_checked_tasks = 1, as_pending_changes = 0, as_warnings = []\<rparr>"

definition bit_action :: "bool \<Rightarrow> bool tuning_action" where
  "bit_action verify_ok =
     \<lparr>ta_descriptor = sample_action, ta_preflight = (\<lambda>w. (Inr [], w)), ta_dry_run = (\<lambda>w. (Inr sample_state, w)),
      ta_apply = (\<lambda>cb w. (Inr (SysfsRestore ''/bit'' ''0''), True)),
      ta_verify = (\<lambda>w. (if verify_ok then Inr sample_state else Inl (anyhow_msg ''bad''), w)),
      ta_rollback = (\<lambda>token w. (Inr (), False))\<rparr>"

definition bit_env :: "bool runner_env" where
  "bit_env = \<lparr>re_instant = (\<lambda>w. (0, w)), re_unix_nanos = (\<lambda>w. (0, w)), re_append_audit = (\<lambda>ev w. w)\<rparr>"

definition bit_run_policy :: action_run_policy where
  "bit_run_policy =
     \<lparr>rp_policy = build_daemon_policy (from_preset Preset_GamingLowRisk Src_Cli) None,
      rp_context = default_policy_context, rp_max_affected_tasks = Some 4, rp_max_total_duration = None,
      rp_dry_run = False\<rparr>"

lemma bit_policy_allows:
  "pe_decision (explain_action_with_context (rp_policy bit_run_policy) Intent_Apply sample_action default_policy_context) = Allowed"
  "pe_decision (explain_action_with_context (rp_policy bit_run_policy) Intent_DryRun sample_action default_policy_context) = Allowed"
  using sample_allowed_by_gaming_preset
  by (simp_all add: explain_with_context_allowed_iff check_action_iff bit_run_policy_def context_ok_def
      capability_ok_def default_policy_context_def remote_count_blocks_def build_simps from_preset_def reset_sections_def)

lemma bit_checks [simp]:
  "check_action_with_explanation (rp_policy bit_run_policy) default_policy_context Intent_Apply sample_action = Inr ()"
  "check_action_with_explanation (rp_policy bit_run_policy) default_policy_context Intent_DryRun sample_action = Inr ()"
  by (simp_all add: check_action_with_explanation_def bit_policy_allows Let_def)

lemma bit_fields [simp]:
  "rp_context bit_run_policy = default_policy_context" "rp_max_affected_tasks bit_run_policy = Some 4"
  "rp_max_total_duration bit_run_policy = None" "\<not> rp_dry_run bit_run_policy"
  by (simp_all add: bit_run_policy_def)

lemmas run_eval =
  calls_of_run_def traced_run_def run_audited_action_def run_body_def run_preflight_def run_dry_run_def
  check_scope_limit_def run_apply_def run_applied_def run_verify_def fail_on_timeout_def fail_with_rollback_def
  total_timeout_error_def append_runner_audit_event_def rollback_after_verify_failure_def run_after_apply_def
  run_after_rollback_def run_after_prepare_def run_hook_def hooks_none_def silent_hooks_def silent_env_def
  traced_action_def bit_env_def bit_action_def silent_def logged_call_def unlogged_def from_preflight_result_def
  report_is_blocked_def report_passed_def sample_state_def

lemma bit_run_calls:
  "calls_of_run bit_env ''t'' (bit_action ok) bit_run_policy hooks_none False =
     [Call_Preflight (Inr []), Call_DryRun (Inr sample_state), Call_Apply (Inr (SysfsRestore ''/bit'' ''0'')),
      Call_Verify (if ok then Inr sample_state else Inl (anyhow_msg ''bad''))]
     @ (if ok then [] else [Call_Rollback (SysfsRestore ''/bit'' ''0'') (Inr ())])"
  by (cases ok) (simp_all add: run_eval Let_def)

lemma bit_run_fails: "\<not> is_ok (fst (run_audited_action bit_env ''t'' (bit_action False) bit_run_policy hooks_none False))"
  by (simp add: run_eval Let_def)

definition call_is_rollback :: "action_call \<Rightarrow> bool" where
  "call_is_rollback call = (case call of Call_Rollback _ _ \<Rightarrow> True | _ \<Rightarrow> False)"

section \<open>Properties\<close>

text \<open>
  C2. The runner implements its specification: observing the calls does not change a run (same outcome,
  same final world), and for every action, policy, clock and hooks the sequence of calls together with
  the outcome is one of the runs of \<open>run_spec\<close>.
\<close>

theorem runner_refines_spec:
  "fst (traced_run env c a rp h w) = fst (run_audited_action env c a rp h w)
   \<and> fst (snd (traced_run env c a rp h w)) = snd (run_audited_action env c a rp h w)
   \<and> run_spec (rp_dry_run rp) (policy_allows_apply rp a) (scope_within_limit rp)
       (calls_of_run env c a rp h w) (fst (run_audited_action env c a rp h w))"
  using traced_run_cases [of env c a rp h w]
  by (cases "run_audited_action env c a rp h w") (auto simp: calls_of_run_def)

text \<open>
  C4. Nothing is applied without permission: whenever a run calls \<open>apply\<close>, it is not a dry run, the policy
  allows the apply in its context, and the calls before it are exactly a passed preflight and a successful
  dry run whose number of affected tasks is within the limit.
\<close>

theorem apply_only_when_permitted:
  assumes "Call_Apply r \<in> set (calls_of_run env c a rp h w)"
  shows "\<not> rp_dry_run rp
    \<and> pe_decision (explain_action_with_context (rp_policy rp) Intent_Apply (ta_descriptor a) (rp_context rp)) = Allowed
    \<and> (\<exists>ws st rest. calls_of_run env c a rp h w
          = Call_Preflight (Inr ws) # Call_DryRun (Inr st) # Call_Apply r # rest \<and> scope_within_limit rp st)"
  using run_meets_spec [of rp a env c h w] assms
  by cases (auto simp: policy_allows_apply_def)

theorem apply_only_when_permitted_witness:
  "\<not> rp_dry_run bit_run_policy
    \<and> pe_decision (explain_action_with_context (rp_policy bit_run_policy) Intent_Apply
        (ta_descriptor (bit_action True)) (rp_context bit_run_policy)) = Allowed
    \<and> (\<exists>ws st rest. calls_of_run bit_env ''t'' (bit_action True) bit_run_policy hooks_none False
          = Call_Preflight (Inr ws) # Call_DryRun (Inr st) # Call_Apply (Inr (SysfsRestore ''/bit'' ''0'')) # rest
          \<and> scope_within_limit bit_run_policy st)"
  by (rule apply_only_when_permitted) (simp add: bit_run_calls)

text \<open>
  C3. A failed run is undone, exactly once: if \<open>apply\<close> returned a token, or failed part-way leaving one,
  and the run fails for any reason (verification, timeout, hook, partial apply), then the last call of the
  run is a rollback with that very token, and it is the only rollback.
\<close>

theorem failed_run_undoes_once:
  assumes "Call_Apply r \<in> set (calls_of_run env c a rp h w)"
    and "(case r of Inr token \<Rightarrow> Some token | Inl pe \<Rightarrow> pa_rollback pe) = Some token"
    and "\<not> is_ok (fst (run_audited_action env c a rp h w))"
  shows "\<exists>x. last (calls_of_run env c a rp h w) = Call_Rollback token x
    \<and> filter call_is_rollback (calls_of_run env c a rp h w) = [Call_Rollback token x]"
  using run_meets_spec [of rp a env c h w] assms
  by cases (auto simp: call_is_rollback_def)

theorem failed_run_undoes_once_witness:
  "\<exists>x. last (calls_of_run bit_env ''t'' (bit_action False) bit_run_policy hooks_none False)
        = Call_Rollback (SysfsRestore ''/bit'' ''0'') x
    \<and> filter call_is_rollback (calls_of_run bit_env ''t'' (bit_action False) bit_run_policy hooks_none False)
        = [Call_Rollback (SysfsRestore ''/bit'' ''0'') x]"
  by (rule failed_run_undoes_once [where r = "Inr (SysfsRestore ''/bit'' ''0'')", OF _ _ bit_run_fails])
    (simp_all add: bit_run_calls)

text \<open>
  Success means applied and verified: if a run that is not a dry run succeeds, its calls are exactly
  preflight, dry run, apply, verify, no rollback happened, and the result carries the token of the apply
  and the state of the verification; a successful dry run carries no token and applied nothing.
\<close>

theorem successful_run:
  assumes "fst (run_audited_action env c a rp h w) = Inr res"
  shows "\<exists>ws st. calls_of_run env c a rp h w
      = [Call_Preflight (Inr ws), Call_DryRun (Inr st)]
        @ (case ar_rollback res of
             None \<Rightarrow> []
           | Some token \<Rightarrow> [Call_Apply (Inr token), Call_Verify (Inr (ar_state res))])
    \<and> (ar_rollback res = None \<longleftrightarrow> rp_dry_run rp)"
  using run_meets_spec [of rp a env c h w] unfolding assms
  by (rule run_spec_OkE) auto

theorem successful_run_witness:
  "\<exists>(res :: audited_action_result) ws st. calls_of_run bit_env ''t'' (bit_action True) bit_run_policy hooks_none False
      = [Call_Preflight (Inr ws), Call_DryRun (Inr st)]
        @ (case ar_rollback res of
             None \<Rightarrow> []
           | Some token \<Rightarrow> [Call_Apply (Inr token), Call_Verify (Inr (ar_state res))])
    \<and> (ar_rollback res = None \<longleftrightarrow> rp_dry_run bit_run_policy)"
proof -
  obtain res where "fst (run_audited_action bit_env ''t'' (bit_action True) bit_run_policy hooks_none False) = Inr res"
    by (simp add: run_eval Let_def)
  from successful_run [OF this] show ?thesis
    by (rule exI)
qed

text \<open>
  Every run ends by writing its verdict to the audit log: the last thing a run does is append an event
  whose success flag says whether the run succeeded and which, for a failure, carries the phase, the
  category and the message of the error returned.
\<close>

theorem terminal_audit_event:
  "\<exists>ev w1. snd (run_audited_action env c a rp h w) = re_append_audit env ev w1
    \<and> (ae_success ev \<longleftrightarrow> is_ok (fst (run_audited_action env c a rp h w)))
    \<and> (case fst (run_audited_action env c a rp h w) of
         Inr _ \<Rightarrow> True
       | Inl e \<Rightarrow> ae_action_phase ev = Some (failure_phase e) \<and> ae_error_category ev = Some (failure_category e)
           \<and> ae_message ev = human_message e)"
proof -
  obtain now w1 where now: "re_unix_nanos env w = (now, w1)"
    by (cases "re_unix_nanos env w")
  obtain started w2 where started: "re_instant env w1 = (started, w2)"
    by (cases "re_instant env w1")
  let ?ev = "initial_audit_event now c (ta_descriptor a) (rp_dry_run rp)"
  obtain r ev w3 where body: "run_body env a rp h started ?ev w2 = (r, ev, w3)"
    by (metis prod_cases3)
  show ?thesis
    using now started body body_ok_success [of env a rp h started ?ev w2 _ ev w3]
    by (cases r) (auto simp: run_audited_action_def append_runner_audit_event_def mark_failure_def Let_def
        split: prod.splits)
qed

lemma medium_risk_disallows: "\<not> policy_allows_apply (run_policy_for_mode Mode_ApplyMediumRisk source False) a"
  by (simp add: policy_allows_apply_def explain_with_context_allowed_iff run_policy_for_mode_def apply_rules_ok_def build_simps
      default_daemon_config_def from_preset_def reset_sections_def default_autotune_config_def)

lemma medium_risk_policy:
  "SC_ReversibleLowRisk < cls \<Longrightarrow> run_policy_for_action cls False source = run_policy_for_mode Mode_ApplyMediumRisk source False"
  by (cases cls) (auto simp: safety_order run_policy_for_action_def run_policy_apply_medium_risk_def)

text \<open>
  The medium-risk run policy cannot apply anything: for every action, the run policy that
  \<open>ActionRunPolicy::for_action\<close> builds for a medium- or high-risk class makes every real run stop before
  \<open>apply\<close> (the default configuration it is built from never has the medium-risk unlock).
\<close>

theorem medium_risk_run_policy_never_applies:
  assumes "SC_ReversibleLowRisk < cls"
  shows "Call_Apply r \<notin> set (calls_of_run env c a (run_policy_for_action cls dry source) h w)"
proof -
  have "rp_dry_run (run_policy_for_action cls True source)"
    by (simp add: run_policy_for_action_def run_policy_dry_run_def run_policy_for_mode_def)
  then show ?thesis
    using medium_risk_disallows [of source a] medium_risk_policy [OF assms] run_meets_spec [of "run_policy_for_action cls dry source" a env c h w]
    by (cases dry) (auto elim!: run_spec.cases)
qed

theorem medium_risk_run_policy_never_applies_witness:
  "Call_Apply (Inr (SysfsRestore ''/bit'' ''0''))
     \<notin> set (calls_of_run bit_env ''t'' (bit_action True) (run_policy_for_action SC_ReversibleMediumRisk False Src_Cli)
              hooks_none False)"
  by (rule medium_risk_run_policy_never_applies) (simp add: safety_order)

end
