(* ===== verification/Nice_Action_Facts.thy ===== *)
theory Nice_Action_Facts
  imports Nice_Action Action_Runner_Facts
begin

text \<open>
  What the nice action guarantees. The locale \<open>task_kernel\<close> states the documented behaviour of procfs and
  \<open>setpriority\<close> that the action relies on; under it the nice action is a \<open>reversible_action\<close>, so a failed
  run leaves every nice level as it was. The writes of the action are observed through a logging host.
\<close>

section \<open>The planned loop\<close>

fun applied_all :: "('r \<Rightarrow> 'w \<Rightarrow> (anyhow + unit) \<times> 'w) \<Rightarrow> 'r list \<Rightarrow> 'w \<Rightarrow> 'w \<Rightarrow> bool" where
  "applied_all f [] w w' \<longleftrightarrow> w' = w"
| "applied_all f (r # rs) w w' \<longleftrightarrow> (case f r w of (Inr _, w1) \<Rightarrow> applied_all f rs w1 w' | _ \<Rightarrow> False)"

text \<open>What a planned loop over \<open>items\<close> may return.\<close>

definition planned_outcome ::
  "('r \<Rightarrow> 'w \<Rightarrow> (anyhow + unit) \<times> 'w) \<Rightarrow> ('r list \<Rightarrow> rollback_token) \<Rightarrow> 'r list \<Rightarrow> 'r list \<Rightarrow> 'w
    \<Rightarrow> (partial_apply_error + rollback_token) \<times> 'w \<Rightarrow> bool" where
  "planned_outcome f mk before items w out =
     (case out of
        (Inr token, w') \<Rightarrow> token = mk (before @ items) \<and> applied_all f items w w'
      | (Inl pe, w') \<Rightarrow>
          (\<exists>applied r rest w1. items = applied @ r # rest \<and> applied_all f applied w w1
            \<and> f r w1 = (Inl (pa_source pe), w')
            \<and> pa_rollback pe = (if before @ applied = [] then None else Some (mk (before @ applied)))))"

lemma fold_tx_plan: "fold tx_plan items tx = tx\<lparr>tx_planned := tx_planned tx @ items\<rparr>"
  by (induction items arbitrary: tx) (simp_all add: tx_plan_def)

lemma planned_outcome_step:
  assumes "f r w = (Inr u, w1)" "planned_outcome f mk (before @ [r]) rs w1 out"
  shows "planned_outcome f mk before (r # rs) w out"
proof (cases out)
  case (Pair x w')
  show ?thesis
  proof (cases x)
    case (Inr token)
    with Pair assms show ?thesis
      by (simp add: planned_outcome_def)
  next
    case (Inl pe)
    with Pair assms(2) obtain applied q rest wa where *: "rs = applied @ q # rest" "applied_all f applied w1 wa"
      "f q wa = (Inl (pa_source pe), w')" "pa_rollback pe = Some (mk (before @ r # applied))"
      by (auto simp: planned_outcome_def)
    have "\<exists>applied q rest w1. r # rs = applied @ q # rest \<and> applied_all f applied w w1
        \<and> f q w1 = (Inl (pa_source pe), w')
        \<and> pa_rollback pe = (if before @ applied = [] then None else Some (mk (before @ applied)))"
      using * assms(1) by (intro exI [of _ "r # applied"] exI [of _ q] exI [of _ rest] exI [of _ wa]) simp
    with Pair Inl show ?thesis
      by (simp add: planned_outcome_def)
  qed
qed

lemma planned_outcome_stop:
  assumes "f r w = (Inl e, w1)"
  shows "planned_outcome f mk before (r # rs) w
    (Inl \<lparr>pa_source = e, pa_rollback = then_some (before \<noteq> []) (mk before)\<rparr>, w1)"
  unfolding planned_outcome_def using assms
  by (auto intro!: exI [of _ "[]"])

lemma apply_loop_outcome:
  "planned_outcome f mk (tx_applied tx) rs w (apply_loop f mk rs tx w)"
proof (induction rs arbitrary: tx w)
  case Nil
  then show ?case
    by (simp add: planned_outcome_def)
next
  case (Cons r rs)
  obtain x w1 where f: "f r w = (x, w1)"
    by (cases "f r w")
  show ?case
  proof (cases x)
    case (Inl e)
    with f show ?thesis
      by (simp add: partial_token_def planned_outcome_stop)
  next
    case (Inr u)
    with f Cons [of "mark_applied r tx" w1] show ?thesis
      by (auto simp: mark_applied_def intro: planned_outcome_step)
  qed
qed

lemma apply_planned_loop_outcome: "planned_outcome f mk [] items w (apply_planned_loop items f mk w)"
  using apply_loop_outcome [of f mk "tx_new\<lparr>tx_planned := []\<rparr>" items w]
  by (simp add: apply_planned_loop_def fold_tx_plan Let_def tx_new_def)

section \<open>Plans\<close>

lemma apply_record_results:
  "apply_record host a r w = (Inr u, w') \<Longrightarrow> set_task_nice host (nice_record_tid r) (na_nice a) w = (Inr u, w')"
  "apply_record host a r w = (Inl e, w') \<Longrightarrow> \<exists>e. set_task_nice host (nice_record_tid r) (na_nice a) w = (Inl e, w')"
  by (auto simp: apply_record_def split: prod.splits sum.splits)

text \<open>The record a snapshot contributes to a plan.\<close>

definition snapshot_record :: "nice_target_snapshot \<Rightarrow> nice_restore_record" where
  "snapshot_record s =
     nice_record_new
       (identity_observed (sn_tid s) (sn_process_pid s) (sn_comm s) (sn_starttime_ticks s) (sn_exe s))
       (sn_current_nice s)"

lemma validate_ok_range:
  "validate_policy_and_request p n = Inr u \<Longrightarrow>
   np_allow_nice_changes p \<and> LINUX_MIN_NICE \<le> n \<and> n \<le> LINUX_MAX_NICE \<and> np_min_nice p \<le> n \<and> n \<le> np_max_nice p"
  by (auto simp: validate_policy_and_request_def split: if_splits)

lemma collect_snapshots_targets:
  "collect_snapshots host ts w = Inr snaps \<Longrightarrow>
   list_all2 (\<lambda>t s. read_target_snapshot host t w = Inr (fst s)) ts snaps"
  by (induction ts arbitrary: snaps) (auto split: sum.splits)

lemma list_all2_partner: "list_all2 P xs ys \<Longrightarrow> y \<in> set ys \<Longrightarrow> \<exists>x \<in> set xs. P x y"
  by (induction rule: list_all2_induct) auto

lemma plan_loop_records:
  "plan_loop n True snaps = Inr plan \<Longrightarrow>
   plan = map snapshot_record (filter (\<lambda>s. sn_current_nice s \<noteq> n) (map fst snaps))
   \<and> list_all (\<lambda>s. sn_starttime_ticks s \<noteq> None \<and> sn_process_pid s \<noteq> None) (map fst snaps)"
  by (induction n True snaps arbitrary: plan rule: plan_loop.induct)
    (auto simp: snapshot_record_def split: if_splits)

lemma plan_records_cases:
  assumes "plan_records host a True w = Inr plan"
  obtains "LINUX_MIN_NICE \<le> na_nice a" "na_nice a \<le> LINUX_MAX_NICE"
    and "\<And>r. r \<in> set plan \<Longrightarrow> \<exists>t s. t \<in> set (na_targets a) \<and> read_target_snapshot host t w = Inr s
        \<and> sn_process_pid s \<noteq> None \<and> sn_current_nice s \<noteq> na_nice a \<and> r = snapshot_record s"
proof -
  obtain snaps where val: "validate_policy_and_request (na_policy a) (na_nice a) = Inr ()"
    and snaps: "collect_snapshots host (na_targets a) w = Inr snaps" and plan: "plan_loop (na_nice a) True snaps = Inr plan"
    using assms by (auto simp: plan_records_def collect_target_snapshots_def split: if_splits)
  have "\<exists>t s. t \<in> set (na_targets a) \<and> read_target_snapshot host t w = Inr s
      \<and> sn_process_pid s \<noteq> None \<and> sn_current_nice s \<noteq> na_nice a \<and> r = snapshot_record s" if r: "r \<in> set plan" for r
  proof -
    have eq: "plan = map snapshot_record (filter (\<lambda>s. sn_current_nice s \<noteq> na_nice a) (map fst snaps))"
      and pids: "\<And>p. p \<in> set snaps \<Longrightarrow> sn_process_pid (fst p) \<noteq> None"
      using plan_loop_records [OF plan] by (auto simp: list_all_iff)
    have "r \<in> snapshot_record ` (fst ` {p \<in> set snaps. sn_current_nice (fst p) \<noteq> na_nice a})"
      using r unfolding eq by force
    then obtain p where p: "p \<in> set snaps" "sn_current_nice (fst p) \<noteq> na_nice a" "r = snapshot_record (fst p)"
      by blast
    note p = p pids [OF p(1)]
    moreover obtain t where "t \<in> set (na_targets a)" "read_target_snapshot host t w = Inr (fst p)"
      using list_all2_partner [OF collect_snapshots_targets [OF snaps] p(1)] by blast
    ultimately show ?thesis
      by blast
  qed
  with validate_ok_range [OF val] that show ?thesis
    by blast
qed

section \<open>The rollback loop\<close>

lemma rollback_record_mono:
  "rollback_record host r acc w = (acc', w') \<Longrightarrow> rs_failed (fst acc) \<le> rs_failed (fst acc')"
  by (cases acc)
    (auto simp: rollback_record_def Let_def record_missing_def record_identity_mismatch_def record_restored_def
      record_failure_def split: restore_identity_status.splits prod.splits sum.splits restore_write_error.splits)

lemma rollback_loop_mono:
  "rollback_loop host rs acc w = (acc', w') \<Longrightarrow> rs_failed (fst acc) \<le> rs_failed (fst acc')"
proof (induction rs arbitrary: acc w)
  case (Cons r rs)
  obtain acc1 w1 where step: "rollback_record host r acc w = (acc1, w1)"
    by (cases "rollback_record host r acc w")
  then have rest: "rollback_loop host rs acc1 w1 = (acc', w')"
    using Cons.prems by simp
  show ?case
    using rollback_record_mono [OF step] Cons.IH [OF rest] by simp
qed simp

text \<open>The process ids given for the targets are the ones in their \<open>status\<close> files.\<close>

definition tgids_match :: "'w task_host \<Rightarrow> task_identity list \<Rightarrow> 'w \<Rightarrow> bool" where
  "tgids_match host targets w \<longleftrightarrow>
     list_all (\<lambda>t. case tk_process_pid t of
                   None \<Rightarrow> True | Some p \<Rightarrow> read_proc_status_tgid host (tk_tid t) w = Inr (Some p)) targets"

section \<open>The kernel\<close>

text \<open>
  The documented behaviour of procfs and \<open>setpriority\<close>: \<open>nices\<close> is the nice level of every task and \<open>frame\<close>
  everything else the identity checks read. The stat file shows the nice level and the start time; nice
  levels lie between -20 and 19; a successful call sets the nice level of that task and nothing else; a
  failed one changes nothing and reports a missing task only when the task has no stat file.
\<close>

locale task_kernel =
  fixes host :: "'w task_host"
    and nices :: "'w \<Rightarrow> u32 \<Rightarrow> int option"
    and frame :: "'w \<Rightarrow> 'f"
  assumes stat_nice: "read_stat host tid w = Inr (n, s) \<Longrightarrow> nices w tid = Some n"
    and stat_starttime: "read_stat host tid w = Inr (n, s) \<Longrightarrow>
      \<exists>stat. th_read host (proc_file tid ''stat'') w = Inr stat \<and> parse_proc_stat_starttime stat = Some s"
    and nice_range: "nices w tid = Some n \<Longrightarrow> LINUX_MIN_NICE \<le> n \<and> n \<le> LINUX_MAX_NICE"
    and set_ok: "th_setpriority host tid n w = (Inr u, w') \<Longrightarrow> LINUX_MIN_NICE \<le> n \<Longrightarrow> n \<le> LINUX_MAX_NICE \<Longrightarrow>
      nices w' = (nices w)(tid \<mapsto> n) \<and> frame w' = frame w"
    and set_failed: "th_setpriority host tid n w = (Inl e, w') \<Longrightarrow> nices w' = nices w \<and> frame w' = frame w"
    and set_missing: "th_setpriority host tid n w = (Inl e, w') \<Longrightarrow>
      classify_restore_write_error host tid (Anyhow cs (RootIo e)) w' = RW_MissingTask \<Longrightarrow>
      \<not> is_ok (th_read host (proc_file tid ''stat'') w)"
    and identity_frame: "frame w' = frame w \<Longrightarrow> verify_task_identity host i w' = verify_task_identity host i w"
    and tgid_frame: "frame w' = frame w \<Longrightarrow> read_proc_status_tgid host tid w' = read_proc_status_tgid host tid w"
begin

definition obs :: "'w \<Rightarrow> (u32 \<Rightarrow> int option) \<times> 'f" where
  "obs w = (nices w, frame w)"

definition set_all :: "('r \<Rightarrow> u32) \<Rightarrow> ('r \<Rightarrow> int) \<Rightarrow> 'r list \<Rightarrow> (u32 \<Rightarrow> int option) \<Rightarrow> u32 \<Rightarrow> int option" where
  "set_all t v rs m = fold (\<lambda>r m. m(t r \<mapsto> v r)) rs m"

lemma set_all_Cons: "set_all t v (r # rs) m = set_all t v rs (m(t r \<mapsto> v r))"
  by (simp add: set_all_def)

lemma set_all_outside: "tid \<notin> t ` set rs \<Longrightarrow> set_all t v rs m tid = m tid"
  unfolding set_all_def by (induction rs arbitrary: m) auto

lemma set_all_back:
  assumes "\<And>r. r \<in> set rs \<Longrightarrow> m0 (t r) = Some (v r)" "\<And>tid. tid \<notin> t ` set rs \<Longrightarrow> m tid = m0 tid"
  shows "set_all t v rs m = m0"
  using assms
proof (induction rs arbitrary: m)
  case Nil
  then show ?case
    by (auto simp: set_all_def)
next
  case (Cons r rs)
  have "set_all t v rs (m(t r \<mapsto> v r)) = m0"
    using Cons.prems by (intro Cons.IH) auto
  then show ?case
    by (simp add: set_all_def)
qed

lemma set_task_nice_ok:
  "set_task_nice host tid n w = (Inr u, w') \<Longrightarrow> LINUX_MIN_NICE \<le> n \<Longrightarrow> n \<le> LINUX_MAX_NICE \<Longrightarrow>
   nices w' = (nices w)(tid \<mapsto> n) \<and> frame w' = frame w"
  by (auto simp: set_task_nice_def dest: set_ok split: prod.splits sum.splits)

lemma set_task_nice_failed: "set_task_nice host tid n w = (Inl e, w') \<Longrightarrow> obs w' = obs w"
  by (auto simp: set_task_nice_def obs_def dest: set_failed split: prod.splits sum.splits)

lemma set_task_nice_missing:
  "set_task_nice host tid n w = (Inl e, w') \<Longrightarrow> classify_restore_write_error host tid e w' = RW_MissingTask \<Longrightarrow>
   \<not> is_ok (th_read host (proc_file tid ''stat'') w)"
  by (auto simp: set_task_nice_def dest: set_missing split: prod.splits sum.splits)

lemma applied_all_nices:
  assumes "applied_all (apply_record host a) rs w w'" "LINUX_MIN_NICE \<le> na_nice a" "na_nice a \<le> LINUX_MAX_NICE"
  shows "nices w' = set_all nice_record_tid (\<lambda>_. na_nice a) rs (nices w) \<and> frame w' = frame w"
  using assms(1)
proof (induction rs arbitrary: w)
  case Nil
  then show ?case
    by (simp add: set_all_def)
next
  case (Cons r rs)
  obtain w1 u where step: "set_task_nice host (nice_record_tid r) (na_nice a) w = (Inr u, w1)"
    and rest: "applied_all (apply_record host a) rs w1 w'"
    using Cons.prems by (auto dest: apply_record_results split: prod.splits sum.splits)
  show ?case
    using Cons.IH [OF rest] set_task_nice_ok [OF step assms(2,3)] by (metis set_all_Cons)
qed

lemma rollback_record_restores:
  assumes "rollback_record host r acc w = (acc', w')"
    and "verify_task_identity host (nice_restore_identity r) w = SameTask"
    and "LINUX_MIN_NICE \<le> nr_original_nice r" "nr_original_nice r \<le> LINUX_MAX_NICE"
    and "rs_failed (fst acc') = rs_failed (fst acc)"
  shows "nices w' = (nices w)(ti_tid (nice_restore_identity r) \<mapsto> nr_original_nice r) \<and> frame w' = frame w"
proof -
  have readable: "is_ok (th_read host (proc_file (ti_tid (nice_restore_identity r)) ''stat'') w)"
    using assms(2) by (auto simp: verify_task_identity_def split: sum.splits)
  obtain x w1 where set: "set_task_nice host (ti_tid (nice_restore_identity r)) (nr_original_nice r) w = (x, w1)"
    by (cases "set_task_nice host (ti_tid (nice_restore_identity r)) (nr_original_nice r) w")
  show ?thesis
  proof (cases x)
    case (Inr u)
    then show ?thesis
      using assms(1,2) set set_task_nice_ok [OF _ assms(3,4)]
      by (auto simp: rollback_record_def Let_def split: prod.splits)
  next
    case (Inl e)
    then have "classify_restore_write_error host (ti_tid (nice_restore_identity r)) e w1 \<noteq> RW_MissingTask"
      using set_task_nice_missing readable set by blast
    then have "rs_failed (fst acc') = rs_failed (fst acc) + 1"
      using assms(1,2) set Inl
      by (auto simp: rollback_record_def Let_def record_failure_def split: prod.splits restore_write_error.splits)
    with assms(5) show ?thesis
      by simp
  qed
qed

lemma rollback_loop_restores:
  assumes "rollback_loop host rs acc w = (acc', w')"
    and "\<And>r. r \<in> set rs \<Longrightarrow> verify_task_identity host (nice_restore_identity r) w = SameTask"
    and "\<And>r. r \<in> set rs \<Longrightarrow> LINUX_MIN_NICE \<le> nr_original_nice r \<and> nr_original_nice r \<le> LINUX_MAX_NICE"
    and "rs_failed (fst acc') = rs_failed (fst acc)"
  shows "nices w' = set_all (\<lambda>r. ti_tid (nice_restore_identity r)) nr_original_nice rs (nices w) \<and> frame w' = frame w"
  using assms
proof (induction rs arbitrary: acc w)
  case Nil
  then show ?case
    by (simp add: set_all_def)
next
  case (Cons r rs)
  obtain acc1 w1 where step: "rollback_record host r acc w = (acc1, w1)"
    by (cases "rollback_record host r acc w")
  then have rest: "rollback_loop host rs acc1 w1 = (acc', w')"
    using Cons.prems(1) by simp
  have same: "rs_failed (fst acc1) = rs_failed (fst acc)" "rs_failed (fst acc') = rs_failed (fst acc1)"
    using rollback_record_mono [OF step] rollback_loop_mono [OF rest] Cons.prems(4) by linarith+
  have head: "nices w1 = (nices w)(ti_tid (nice_restore_identity r) \<mapsto> nr_original_nice r) \<and> frame w1 = frame w"
    using rollback_record_restores [OF step] Cons.prems(2,3) same(1) by simp
  have "verify_task_identity host (nice_restore_identity q) w1 = SameTask" if "q \<in> set rs" for q
    using identity_frame [of w1 w] head Cons.prems(2) that by simp
  then have "nices w' = set_all (\<lambda>r. ti_tid (nice_restore_identity r)) nr_original_nice rs (nices w1) \<and> frame w' = frame w1"
    by (rule Cons.IH [OF rest _ _ same(2)]) (simp_all add: Cons.prems(3))
  with head show ?case
    by (metis set_all_Cons)
qed

text \<open>A snapshot of an unchanged task identifies it.\<close>

lemma snapshot_identifies:
  assumes "read_target_snapshot host t w = Inr s" "tgids_match host targets w" "t \<in> set targets" "sn_process_pid s \<noteq> None"
  shows "verify_task_identity host (nice_restore_identity (snapshot_record s)) w = SameTask"
    and "nices w (nice_record_tid (snapshot_record s)) = Some (nr_original_nice (snapshot_record s))"
proof -
  obtain n st where stat: "read_stat host (tk_tid t) w = Inr (n, st)"
    and s: "s = \<lparr>sn_tid = tk_tid t, sn_process_pid = tk_process_pid t, sn_current_nice = n,
      sn_comm = read_comm host (tk_tid t) w, sn_starttime_ticks = Some st,
      sn_exe = th_readlink host (proc_file (tk_tid t) ''exe'') w\<rparr>"
    using assms(1) by (auto simp: read_target_snapshot_def split: if_splits)
  obtain p where p: "tk_process_pid t = Some p" "read_proc_status_tgid host (tk_tid t) w = Inr (Some p)"
    using assms(2-4) s by (auto simp: tgids_match_def list_all_iff split: option.splits)
  obtain stat_line where "th_read host (proc_file (tk_tid t) ''stat'') w = Inr stat_line" "parse_proc_stat_starttime stat_line = Some st"
    using stat_starttime [OF stat] by blast
  then show "verify_task_identity host (nice_restore_identity (snapshot_record s)) w = SameTask"
    using p by (simp add: s snapshot_record_def nice_record_new_def nice_restore_identity_def identity_observed_def
        verify_task_identity_def check_process_pid_def check_process_starttime_def Let_def)
  show "nices w (nice_record_tid (snapshot_record s)) = Some (nr_original_nice (snapshot_record s))"
    using stat_nice [OF stat]
    by (simp add: s snapshot_record_def nice_record_new_def nice_record_tid_def identity_observed_def)
qed

lemma tgids_match_frame: "frame w' = frame w \<Longrightarrow> tgids_match host targets w' = tgids_match host targets w"
  unfolding tgids_match_def tgid_frame [of w' w] ..

lemma apply_plan_effect:
  assumes "apply_plan host a plan w = (r, w1)" "LINUX_MIN_NICE \<le> na_nice a" "na_nice a \<le> LINUX_MAX_NICE"
  shows "\<exists>applied. set applied \<subseteq> set plan \<and> frame w1 = frame w
    \<and> nices w1 = set_all nice_record_tid (\<lambda>_. na_nice a) applied (nices w)
    \<and> (case r of Inr token \<Rightarrow> token = NiceRestore applied
       | Inl pe \<Rightarrow> pa_rollback pe = (if applied = [] then None else Some (NiceRestore applied)))"
proof -
  have out: "planned_outcome (apply_record host a) NiceRestore [] plan w (r, w1)"
    using assms(1) apply_planned_loop_outcome unfolding apply_plan_def by metis
  show ?thesis
  proof (cases r)
    case (Inr token)
    with out applied_all_nices [OF _ assms(2,3)] show ?thesis
      by (intro exI [of _ plan]) (auto simp: planned_outcome_def)
  next
    case (Inl pe)
    with out obtain applied q rest wa where *: "plan = applied @ q # rest" "applied_all (apply_record host a) applied w wa"
      "apply_record host a q wa = (Inl (pa_source pe), w1)"
      "pa_rollback pe = (if applied = [] then None else Some (NiceRestore applied))"
      by (auto simp: planned_outcome_def)
    have "obs w1 = obs wa"
      using apply_record_results(2) [OF *(3)] set_task_nice_failed by blast
    with * applied_all_nices [OF *(2) assms(2,3)] Inl show ?thesis
      by (intro exI [of _ applied]) (auto simp: obs_def)
  qed
qed

lemma rollback_undoes:
  assumes records: "\<And>r. r \<in> set records \<Longrightarrow> nr_identity r \<noteq> None
      \<and> verify_task_identity host (nice_restore_identity r) w = SameTask
      \<and> nices w (nice_record_tid r) = Some (nr_original_nice r)"
    and "nices w2 = set_all nice_record_tid (\<lambda>_. n) records (nices w)" "frame w2 = frame w"
    and "nice_rollback host (NiceRestore records) w2 = (Inr (), w3)"
  shows "obs w3 = obs w"
proof -
  obtain acc where loop: "rollback_loop host records (summary_zero, []) w2 = (acc, w3)" and ok: "rs_failed (fst acc) = 0"
    using assms(4) by (auto simp: nice_rollback_def has_failures_def split: prod.splits if_splits)
  have tid: "ti_tid (nice_restore_identity r) = nice_record_tid r" if "r \<in> set records" for r
    using records [OF that] by (auto simp: nice_restore_identity_def nice_record_tid_def)
  have ver: "verify_task_identity host (nice_restore_identity r) w2 = SameTask" if "r \<in> set records" for r
    using records [OF that] identity_frame [OF assms(3)] by simp
  have range: "LINUX_MIN_NICE \<le> nr_original_nice r \<and> nr_original_nice r \<le> LINUX_MAX_NICE" if "r \<in> set records" for r
    using records [OF that] nice_range by blast
  have restored: "nices w3 = set_all (\<lambda>r. ti_tid (nice_restore_identity r)) nr_original_nice records (nices w2)"
    "frame w3 = frame w2"
    using rollback_loop_restores [OF loop ver range] ok by (simp_all add: summary_zero_def)
  have "set_all (\<lambda>r. ti_tid (nice_restore_identity r)) nr_original_nice records (nices w2) = nices w"
  proof (rule set_all_back)
    show "nices w (ti_tid (nice_restore_identity r)) = Some (nr_original_nice r)" if "r \<in> set records" for r
      using records [OF that] tid [OF that] by simp
    show "nices w2 tid = nices w tid" if "tid \<notin> (\<lambda>r. ti_tid (nice_restore_identity r)) ` set records" for tid
      using that tid unfolding assms(2) by (intro set_all_outside) force
  qed
  with restored assms(3) show ?thesis
    by (simp add: obs_def)
qed

end

section \<open>The nice action is reversible\<close>

text \<open>
  A run of a nice action on such a kernel, with a clock, an audit log and hooks (the journal) that do not
  touch the tasks, and targets whose process ids are right.
\<close>

locale nice_run = task_kernel host nices frame
  for host :: "'w task_host" and nices :: "'w \<Rightarrow> u32 \<Rightarrow> int option" and frame :: "'w \<Rightarrow> 'f" +
  fixes env :: "'w runner_env"
    and hooks :: "'w action_hooks"
  assumes env_pure:
      "obs (snd (re_instant env w)) = obs w" "obs (snd (re_unix_nanos env w)) = obs w"
      "obs (re_append_audit env ev w) = obs w"
    and hooks_pure:
      "obs (snd (run_after_prepare hooks token w)) = obs w" "obs (snd (run_after_apply hooks token w)) = obs w"
      "obs (snd (run_after_rollback hooks token w)) = obs w"
begin

definition pids_right :: "nice_action \<Rightarrow> (u32 \<Rightarrow> int option) \<times> 'f \<Rightarrow> bool" where
  "pids_right a m \<longleftrightarrow> (\<forall>w. obs w = m \<longrightarrow> tgids_match host (na_targets a) w)"

lemma pids_right_obs: "pids_right a (obs w) \<longleftrightarrow> tgids_match host (na_targets a) w"
proof -
  have "tgids_match host (na_targets a) w' = tgids_match host (na_targets a) w" if "obs w' = obs w" for w'
    using that by (intro tgids_match_frame) (simp add: obs_def)
  then show ?thesis
    unfolding pids_right_def by blast
qed

text \<open>What an apply did: nothing, or it executed a plan that still described the host.\<close>

lemma apply_prepared_effect:
  assumes "apply_prepared host a (run_after_prepare hooks) w = (r, w1)"
  shows "(obs w1 = obs w \<and> (\<exists>e. r = Inl (clean_failure e)))
    \<or> (\<exists>plan w0. obs w0 = obs w \<and> plan_records host a True w0 = Inr plan \<and> apply_plan host a plan w0 = (r, w1))"
proof (cases "plan_records host a True w")
  case (Inl e)
  with assms show ?thesis
    by (auto simp: apply_prepared_def)
next
  case (Inr plan)
  obtain x w0 where hook: "run_after_prepare hooks (NiceRestore plan) w = (x, w0)"
    by (cases "run_after_prepare hooks (NiceRestore plan) w")
  then have "obs w0 = obs w"
    using hooks_pure(1) by (metis snd_conv)
  with assms Inr hook show ?thesis
    by (auto simp: apply_prepared_def split: sum.splits if_splits)
qed

lemma plan_ready:
  assumes "plan_records host a True w0 = Inr plan" "tgids_match host (na_targets a) w0" "r \<in> set plan"
  shows "nr_identity r \<noteq> None \<and> verify_task_identity host (nice_restore_identity r) w0 = SameTask
    \<and> nices w0 (nice_record_tid r) = Some (nr_original_nice r)"
proof (rule plan_records_cases [OF assms(1)])
  assume "\<And>r. r \<in> set plan \<Longrightarrow> \<exists>t s. t \<in> set (na_targets a) \<and> read_target_snapshot host t w0 = Inr s
        \<and> sn_process_pid s \<noteq> None \<and> sn_current_nice s \<noteq> na_nice a \<and> r = snapshot_record s"
  from this [OF assms(3)] obtain t s where "t \<in> set (na_targets a)" "read_target_snapshot host t w0 = Inr s"
    "sn_process_pid s \<noteq> None" "r = snapshot_record s"
    by blast
  with snapshot_identifies [OF _ assms(2)] show ?thesis
    by (simp add: snapshot_record_def nice_record_new_def)
qed

lemma apply_prepared_undoable:
  assumes "pids_right a (obs w)" "apply_prepared host a (run_after_prepare hooks) w = (r, w1)"
    and "(case r of Inr token \<Rightarrow> Some token | Inl pe \<Rightarrow> pa_rollback pe) = Some token"
    and "obs w2 = obs w1" "nice_rollback host token w2 = (Inr (), w3)"
  shows "obs w3 = obs w"
  using apply_prepared_effect [OF assms(2)]
proof (elim disjE conjE exE)
  fix e
  assume "r = Inl (clean_failure e)"
  with assms(3) show ?thesis
    by (simp add: clean_failure_def)
next
  fix plan w0
  assume w0: "obs w0 = obs w" and plan: "plan_records host a True w0 = Inr plan" "apply_plan host a plan w0 = (r, w1)"
  have range: "LINUX_MIN_NICE \<le> na_nice a" "na_nice a \<le> LINUX_MAX_NICE"
    using plan_records_cases [OF plan(1)] by blast+
  obtain applied where applied: "set applied \<subseteq> set plan" "frame w1 = frame w0"
    "nices w1 = set_all nice_record_tid (\<lambda>_. na_nice a) applied (nices w0)"
    and token: "case r of Inr token \<Rightarrow> token = NiceRestore applied
      | Inl pe \<Rightarrow> pa_rollback pe = (if applied = [] then None else Some (NiceRestore applied))"
    using apply_plan_effect [OF plan(2) range] by blast
  have match: "tgids_match host (na_targets a) w0"
    using assms(1) w0 by (simp flip: pids_right_obs)
  have "token = NiceRestore applied"
    using assms(3) token by (auto split: sum.splits if_splits)
  then have "obs w3 = obs w0"
    using rollback_undoes [of applied w0 w2 "na_nice a" w3] plan_ready [OF plan(1) match] applied assms(4,5)
    by (auto simp: obs_def)
  with w0 show ?thesis
    by simp
qed

lemma apply_prepared_clean:
  assumes "apply_prepared host a (run_after_prepare hooks) w = (Inl pe, w1)" "pa_rollback pe = None"
  shows "obs w1 = obs w"
  using apply_prepared_effect [OF assms(1)]
proof (elim disjE conjE exE)
  fix plan w0
  assume w0: "obs w0 = obs w" and plan: "plan_records host a True w0 = Inr plan" "apply_plan host a plan w0 = (Inl pe, w1)"
  have range: "LINUX_MIN_NICE \<le> na_nice a" "na_nice a \<le> LINUX_MAX_NICE"
    using plan_records_cases [OF plan(1)] by blast+
  obtain applied where applied: "frame w1 = frame w0"
    "nices w1 = set_all nice_record_tid (\<lambda>_. na_nice a) applied (nices w0)"
    "pa_rollback pe = (if applied = [] then None else Some (NiceRestore applied))"
    using apply_plan_effect [OF plan(2) range] by auto
  have "applied = []"
    using applied(3) assms(2) by (simp split: if_splits)
  then have "obs w1 = obs w0"
    using applied(1,2) by (simp add: obs_def set_all_def)
  with w0 show ?thesis
    by simp
qed

end

sublocale nice_run \<subseteq> rev: reversible_action "nice_tuning_action host a" env hooks obs "pids_right a" for a
proof unfold_locales
  show "obs w3 = obs w"
    if "pids_right a (obs w)" "ta_apply (nice_tuning_action host a) (run_after_prepare hooks) w = (r, w1)"
      "(case r of Inr token \<Rightarrow> Some token | Inl pe \<Rightarrow> pa_rollback pe) = Some token" "obs w2 = obs w1"
      "ta_rollback (nice_tuning_action host a) token w2 = (Inr (), w3)" for w r w1 token w2 w3
    using apply_prepared_undoable [OF that(1) _ that(3,4)] that(2,5) unfolding nice_tuning_action_def tuning_action.simps
    by blast
  show "obs w1 = obs w"
    if "pids_right a (obs w)" "ta_apply (nice_tuning_action host a) (run_after_prepare hooks) w = (Inl pe, w1)"
      "pa_rollback pe = None" for w pe w1
    using apply_prepared_clean [OF _ that(3)] that(2) unfolding nice_tuning_action_def tuning_action.simps by blast
qed (simp_all add: nice_tuning_action_def env_pure hooks_pure)

context nice_run
begin

lemma run_restores_nices:
  assumes "tgids_match host (na_targets a) w"
    and "run_audited_action env c (nice_tuning_action host a) rp hooks w = (r, w')"
    and "case r of Inl f \<Rightarrow> rp_dry_run rp \<or> \<not> rollback_failed f | Inr _ \<Rightarrow> rp_dry_run rp"
  shows "nices w' = nices w \<and> frame w' = frame w"
proof -
  have pre: "pids_right a (obs w)"
    using pids_right_obs assms(1) by blast
  have "obs w' = obs w"
    using assms(3) rev.run_restores [OF pre assms(2)] by (auto split: sum.splits)
  then show ?thesis
    by (simp add: obs_def)
qed

end

section \<open>Observing the writes\<close>

text \<open>The host with a log of every \<open>setpriority\<close> call and of the world it was made in.\<close>

type_synonym 'w written = "'w \<times> (u32 \<times> int \<times> 'w) list"

definition logging_host :: "'w task_host \<Rightarrow> 'w written task_host" where
  "logging_host host =
     \<lparr>th_read = (\<lambda>p s. th_read host p (fst s)), th_readlink = (\<lambda>p s. th_readlink host p (fst s)),
      th_exists = (\<lambda>p s. th_exists host p (fst s)),
      th_setpriority = (\<lambda>tid n s. case th_setpriority host tid n (fst s) of
        (r, w') \<Rightarrow> (r, (w', snd s @ [(tid, n, fst s)])))\<rparr>"

definition unlogged_hook :: "('t \<Rightarrow> 'w \<Rightarrow> 'r \<times> 'w) \<Rightarrow> 't \<Rightarrow> 'w written \<Rightarrow> 'r \<times> 'w written" where
  "unlogged_hook f token s = (case f token (fst s) of (r, w') \<Rightarrow> (r, (w', snd s)))"

lemma logging_reads [erase]:
  "th_read (logging_host host) p s = th_read host p (fst s)"
  "th_readlink (logging_host host) p s = th_readlink host p (fst s)"
  "th_exists (logging_host host) p s = th_exists host p (fst s)"
  by (simp_all add: logging_host_def)

lemma logging_identity [erase]:
  "verify_task_identity (logging_host host) i s = verify_task_identity host i (fst s)"
  "classify_restore_write_error (logging_host host) tid e s = classify_restore_write_error host tid e (fst s)"
  unfolding verify_task_identity_def check_process_pid_def check_process_starttime_def read_proc_status_tgid_def
    classify_restore_write_error_def logging_reads by (rule refl)+

lemma logging_snapshot: "read_target_snapshot (logging_host host) t s = read_target_snapshot host t (fst s)"
  unfolding read_target_snapshot_def read_stat_def read_comm_def logging_reads ..

lemma logging_plan [erase]: "plan_records (logging_host host) a req s = plan_records host a req (fst s)"
proof -
  have "collect_snapshots (logging_host host) ts s = collect_snapshots host ts (fst s)" for ts
    by (induction ts) (simp_all add: logging_snapshot split: sum.split)
  then show ?thesis
    by (simp add: plan_records_def collect_target_snapshots_def)
qed

lemma logging_set [erase]:
  "set_task_nice (logging_host host) tid n (w, l) =
     (case set_task_nice host tid n w of (r, w') \<Rightarrow> (r, (w', l @ [(tid, n, w)])))"
  by (auto simp: set_task_nice_def logging_host_def split: prod.splits sum.splits)

lemma logging_apply_record [erase]:
  "apply_record (logging_host host) a r (w, l) =
     (case apply_record host a r w of (x, w') \<Rightarrow> (x, (w', l @ [(nice_record_tid r, na_nice a, w)])))"
  by (auto simp: apply_record_def erase split: prod.splits sum.splits)

lemma logging_apply_loop:
  "\<exists>ws rest. apply_loop (apply_record (logging_host host) a) NiceRestore rs tx (w, l) =
      (case apply_loop (apply_record host a) NiceRestore rs tx w of (r, w') \<Rightarrow> (r, (w', l @ ws)))
    \<and> map (\<lambda>(tid, n, _). (tid, n)) ws @ rest = map (\<lambda>r. (nice_record_tid r, na_nice a)) rs"
proof (induction rs arbitrary: tx w l)
  case Nil
  then show ?case
    by simp
next
  case (Cons r rs)
  obtain x w1 where set: "apply_record host a r w = (x, w1)"
    by (cases "apply_record host a r w")
  let ?e = "(nice_record_tid r, na_nice a, w)"
  show ?case
  proof (cases x)
    case (Inl e)
    with set show ?thesis
      by (intro exI [of _ "[?e]"] exI) (simp add: erase)
  next
    case (Inr u)
    obtain ws rest where ih: "apply_loop (apply_record (logging_host host) a) NiceRestore rs (mark_applied r tx) (w1, l @ [?e]) =
        (case apply_loop (apply_record host a) NiceRestore rs (mark_applied r tx) w1 of (q, w') \<Rightarrow> (q, (w', (l @ [?e]) @ ws)))"
      "map (\<lambda>(tid, n, _). (tid, n)) ws @ rest = map (\<lambda>r. (nice_record_tid r, na_nice a)) rs"
      using Cons.IH [of "mark_applied r tx" w1 "l @ [?e]"] by blast
    show ?thesis
      using Inr set ih by (intro exI [of _ "?e # ws"] exI [of _ rest]) (simp add: erase)
  qed
qed

lemma logging_apply_plan:
  "\<exists>ws rest. apply_plan (logging_host host) a plan (w, l) = (case apply_plan host a plan w of (r, w') \<Rightarrow> (r, (w', l @ ws)))
    \<and> map (\<lambda>(tid, n, _). (tid, n)) ws @ rest = map (\<lambda>r. (nice_record_tid r, na_nice a)) plan"
  using logging_apply_loop [of host a plan "tx_new\<lparr>tx_planned := []\<rparr>" w l]
  by (simp add: apply_plan_def apply_planned_loop_def fold_tx_plan Let_def tx_new_def)

text \<open>A write that restores one of the records, to a task that is still the recorded one.\<close>

definition restoring_write :: "'w task_host \<Rightarrow> nice_restore_record list \<Rightarrow> u32 \<times> int \<times> 'w \<Rightarrow> bool" where
  "restoring_write host records = (\<lambda>(tid, n, v).
     list_ex (\<lambda>r. tid = ti_tid (nice_restore_identity r) \<and> n = nr_original_nice r
       \<and> verify_task_identity host (nice_restore_identity r) v \<in> {SameTask, UnknownLegacy}) records)"

lemma logging_rollback_record:
  "\<exists>ws. rollback_record (logging_host host) r acc (w, l) =
      (case rollback_record host r acc w of (acc', w') \<Rightarrow> (acc', (w', l @ ws)))
    \<and> list_all (restoring_write host [r]) ws"
proof (cases "verify_task_identity host (nice_restore_identity r) w \<in> {SameTask, UnknownLegacy}")
  case True
  let ?e = "(ti_tid (nice_restore_identity r), nr_original_nice r, w)"
  have "rollback_record (logging_host host) r acc (w, l) =
      (case rollback_record host r acc w of (acc', w') \<Rightarrow> (acc', (w', l @ [?e])))"
    using True by (auto simp: rollback_record_def erase Let_def split: prod.splits sum.splits restore_write_error.splits)
  with True show ?thesis
    by (intro exI [of _ "[?e]"]) (simp add: restoring_write_def)
next
  case False
  then have "rollback_record (logging_host host) r acc (w, l) =
      (case rollback_record host r acc w of (acc', w') \<Rightarrow> (acc', (w', l @ [])))"
    by (auto simp: rollback_record_def erase Let_def split: prod.splits restore_identity_status.splits)
  then show ?thesis
    by (intro exI [of _ "[]"]) simp
qed

lemma logging_rollback_loop:
  "\<exists>ws. rollback_loop (logging_host host) rs acc (w, l) =
      (case rollback_loop host rs acc w of (acc', w') \<Rightarrow> (acc', (w', l @ ws)))
    \<and> list_all (restoring_write host rs) ws"
proof (induction rs arbitrary: acc w l)
  case Nil
  then show ?case
    by simp
next
  case (Cons r rs)
  obtain acc1 w1 where step: "rollback_record host r acc w = (acc1, w1)"
    by (cases "rollback_record host r acc w")
  obtain ws1 where 1: "rollback_record (logging_host host) r acc (w, l) = (acc1, (w1, l @ ws1))"
    "list_all (restoring_write host [r]) ws1"
    using logging_rollback_record [of host r acc w l] step by auto
  obtain ws2 where 2: "rollback_loop (logging_host host) rs acc1 (w1, l @ ws1) =
      (case rollback_loop host rs acc1 w1 of (acc', w') \<Rightarrow> (acc', (w', (l @ ws1) @ ws2)))"
    "list_all (restoring_write host rs) ws2"
    using Cons.IH [of acc1 w1 "l @ ws1"] by blast
  have "list_all (restoring_write host (r # rs)) (ws1 @ ws2)"
    using 1(2) 2(2) by (auto simp: list_all_iff restoring_write_def)
  with 1(1) 2(1) step show ?case
    by (intro exI [of _ "ws1 @ ws2"]) simp
qed

text \<open>Which tasks the identity check lets through, by what the record knows of its task.\<close>

definition task_confirmed :: "'w task_host \<Rightarrow> task_restore_identity \<Rightarrow> 'w \<Rightarrow> bool" where
  "task_confirmed host i v =
     (case ti_starttime_ticks i of
        Some start \<Rightarrow>
          verify_task_identity host i v = SameTask
          \<and> (\<exists>stat. th_read host (proc_file (ti_tid i) ''stat'') v = Inr stat
                \<and> parse_proc_stat_starttime stat = Some start)
      | None \<Rightarrow> verify_task_identity host i v = UnknownLegacy)"

lemma verified_task_confirmed:
  "verify_task_identity host i v \<in> {SameTask, UnknownLegacy} \<longleftrightarrow> task_confirmed host i v"
  by (auto simp: task_confirmed_def verify_task_identity_def check_process_pid_def check_process_starttime_def
      Let_def split: sum.splits option.splits if_splits)

lemma restoring_write_confirmed:
  "restoring_write host records = (\<lambda>(tid, n, v).
     list_ex (\<lambda>q. tid = ti_tid (nice_restore_identity q) \<and> n = nr_original_nice q
       \<and> (case ti_starttime_ticks (nice_restore_identity q) of
            Some start \<Rightarrow>
              verify_task_identity host (nice_restore_identity q) v = SameTask
              \<and> (\<exists>stat. th_read host (proc_file (ti_tid (nice_restore_identity q)) ''stat'') v = Inr stat
                    \<and> parse_proc_stat_starttime stat = Some start)
          | None \<Rightarrow> verify_task_identity host (nice_restore_identity q) v = UnknownLegacy)) records)"
  unfolding restoring_write_def verified_task_confirmed task_confirmed_def ..

section \<open>Properties\<close>

text \<open>
  The token of an apply describes exactly what was applied: a planned loop that succeeds applied every
  item in order and its token holds all of them; one that fails stopped at the first item that failed,
  applied exactly the items before it, and its rollback token holds exactly those (none if there are none).
\<close>

theorem planned_loop_token:
  "(case apply_planned_loop items f mk w of
      (Inr token, w') \<Rightarrow> token = mk items \<and> applied_all f items w w'
    | (Inl pe, w') \<Rightarrow>
        (\<exists>applied r rest w1. items = applied @ r # rest \<and> applied_all f applied w w1
          \<and> f r w1 = (Inl (pa_source pe), w')
          \<and> pa_rollback pe = (if applied = [] then None else Some (mk applied))))"
  using apply_planned_loop_outcome [of f mk items w] unfolding planned_outcome_def append_Nil .

text \<open>
  C24. Prepare, then commit: whatever the journal hook does, the nice action writes only if the plan was
  handed to the hook and accepted, and re-reading every target afterwards gives the very same plan; then it
  writes the requested nice level to the planned tasks, in order, possibly stopping early. In every other
  case it writes nothing. (Logging the writes does not change the outcome.)
\<close>

theorem nice_apply_prepares_first:
  "(case apply_prepared (logging_host host) a (unlogged_hook before_mutation) (w, []) of
      (r, (w', writes)) \<Rightarrow>
        apply_prepared host a before_mutation w = (r, w')
        \<and> (writes = []
           \<or> (\<exists>plan w0 rest. plan_records host a True w = Inr plan
                \<and> before_mutation (NiceRestore plan) w = (Inr (), w0)
                \<and> plan_records host a True w0 = Inr plan
                \<and> map (\<lambda>(tid, n, _). (tid, n)) writes @ rest = map (\<lambda>r. (nice_record_tid r, na_nice a)) plan)))"
proof (cases "plan_records host a True w")
  case (Inl e)
  then show ?thesis
    by (simp add: apply_prepared_def erase)
next
  case (Inr plan)
  obtain x w0 where hook: "before_mutation (NiceRestore plan) w = (x, w0)"
    by (cases "before_mutation (NiceRestore plan) w")
  show ?thesis
  proof (cases "x = Inr () \<and> plan_records host a True w0 = Inr plan")
    case True
    obtain ws rest where "apply_plan (logging_host host) a plan (w0, []) =
        (case apply_plan host a plan w0 of (r, w') \<Rightarrow> (r, (w', [] @ ws)))"
      "map (\<lambda>(tid, n, _). (tid, n)) ws @ rest = map (\<lambda>r. (nice_record_tid r, na_nice a)) plan"
      using logging_apply_plan [of host a plan w0 "[]"] by blast
    with Inr hook True show ?thesis
      by (auto simp: apply_prepared_def erase unlogged_hook_def split: prod.split)
  next
    case False
    with Inr hook show ?thesis
      by (cases x) (auto simp: apply_prepared_def erase unlogged_hook_def split: sum.splits if_splits)
  qed
qed

text \<open>
  C23. Rollback never touches a stranger: every write of a rollback restores the original nice level of one
  of the token's records to the task with the recorded id. If the record has a start time, the stat file
  of the task shows that start time at the moment of the write and the whole identity check answers
  \<open>SameTask\<close>; only a legacy record, one without a start time, is written to a task that could not be verified.
  A token of another kind writes nothing.
\<close>

theorem nice_rollback_checks_identity:
  "(case nice_rollback (logging_host host) token (w, []) of
      (r, (w', writes)) \<Rightarrow>
        nice_rollback host token w = (r, w')
        \<and> (case token of
             NiceRestore records \<Rightarrow>
               list_all (\<lambda>(tid, n, v).
                 list_ex (\<lambda>q. tid = ti_tid (nice_restore_identity q) \<and> n = nr_original_nice q
                   \<and> (case ti_starttime_ticks (nice_restore_identity q) of
                        Some start \<Rightarrow>
                          verify_task_identity host (nice_restore_identity q) v = SameTask
                          \<and> (\<exists>stat. th_read host (proc_file (ti_tid (nice_restore_identity q)) ''stat'') v = Inr stat
                                \<and> parse_proc_stat_starttime stat = Some start)
                      | None \<Rightarrow> verify_task_identity host (nice_restore_identity q) v = UnknownLegacy)) records) writes
           | _ \<Rightarrow> writes = []))"
proof (cases "\<exists>records. token = NiceRestore records")
  case True
  then obtain records where token: "token = NiceRestore records"
    by blast
  obtain ws where "rollback_loop (logging_host host) records (summary_zero, []) (w, []) =
      (case rollback_loop host records (summary_zero, []) w of (acc, w') \<Rightarrow> (acc, (w', [] @ ws)))"
    "list_all (restoring_write host records) ws"
    using logging_rollback_loop [of host records "(summary_zero, [])" w "[]"] by blast
  then show ?thesis
    by (simp add: token nice_rollback_def restoring_write_confirmed split: prod.split)
next
  case False
  then show ?thesis
    by (cases token) (simp_all add: nice_rollback_def)
qed

text \<open>The records that the action itself plans have a start time, so their rollback is always verified.\<close>

lemma planned_records_have_start_time:
  assumes "plan_records host a True w = Inr plan" "r \<in> set plan"
  shows "ti_starttime_ticks (nice_restore_identity r) \<noteq> None"
proof -
  obtain t s where "read_target_snapshot host t w = Inr s" "r = snapshot_record s"
    using plan_records_cases [OF assms(1)] assms(2) by metis
  then show ?thesis
    by (auto simp: read_target_snapshot_def snapshot_record_def nice_record_new_def nice_restore_identity_def
        identity_observed_def split: if_splits)
qed

end
