(* ===== verification/Procfs_Kernel.thy ===== *)
theory Procfs_Kernel
  imports Nice_Action_Facts
begin

text \<open>
  A kernel that meets the laws of \<open>task_kernel\<close>: a table of tasks whose \<open>stat\<close>, \<open>status\<close> and \<open>comm\<close> files
  are printed in the documented format, and a \<open>setpriority\<close> that clamps to the range of nice levels. The
  properties of the nice action are stated here for every kernel that meets the laws, and exhibited on
  this one.
\<close>

section \<open>Printing and parsing fields\<close>

lemma show_nat_inject [simp]: "show_nat m = show_nat n \<longleftrightarrow> m = n"
  by (metis option.inject parse_nat_show_nat)

lemma split_at_first:
  "c \<notin> set x \<Longrightarrow> c \<notin> set y \<Longrightarrow> x @ c # u = y @ c # v \<longleftrightarrow> x = y \<and> u = v"
proof (induction x arbitrary: y)
  case Nil
  then show ?case
    by (cases y) auto
next
  case (Cons a x)
  then show ?case
    by (cases y) auto
qed

lemma show_nat_no_slash [simp]: "CHR ''/'' \<notin> set (show_nat n)"
  using show_nat_digits [of "CHR ''/''" n] by (auto simp: digit_val_def)

lemma proc_file_inject [simp]: "proc_file a n = proc_file b m \<longleftrightarrow> a = b \<and> n = m"
  by (simp add: proc_file_def split_at_first word_unat_eq_iff)

text \<open>A field holds no white space and no closing parenthesis.\<close>

definition plain_field :: "string \<Rightarrow> bool" where
  "plain_field s \<longleftrightarrow> s \<noteq> [] \<and> list_all (\<lambda>c. \<not> is_whitespace c \<and> c \<noteq> CHR '')'') s"

lemma digits_plain: "digit_val c \<noteq> None \<Longrightarrow> \<not> is_whitespace c \<and> c \<noteq> CHR '')''"
  by (auto simp: digit_val_def is_whitespace_def Let_def split: if_splits)

lemma show_nat_plain [simp]: "plain_field (show_nat n)"
  using show_nat_digits [of _ n] digits_plain by (auto simp: plain_field_def list_all_iff)

lemma show_int_plain [simp]: "plain_field (show_int i)"
proof -
  have "\<not> is_whitespace (CHR ''-'')"
    by (simp add: is_whitespace_def)
  then show ?thesis
    using show_nat_plain [of "nat (- i)"] show_nat_plain [of "nat i"]
    by (auto simp: show_int_def plain_field_def)
qed

lemma split_word:
  "list_all (\<lambda>c. \<not> is_whitespace c) s \<Longrightarrow> split_whitespace_acc acc (s @ t) = split_whitespace_acc (rev s @ acc) t"
  by (induction s arbitrary: acc) auto

lemma split_whitespace_join:
  assumes "list_all plain_field ws"
  shows "split_whitespace (join '' '' ws) = ws"
  using assms unfolding split_whitespace_def
proof (induction ws)
  case (Cons x xs)
  have x: "list_all (\<lambda>c. \<not> is_whitespace c) x" "x \<noteq> []"
    using Cons.prems by (auto simp: plain_field_def list_all_iff)
  show ?case
  proof (cases "xs = []")
    case True
    with x split_word [OF x(1), of "[]" "[]"] show ?thesis
      by simp
  next
    case False
    have "is_whitespace CHR '' ''"
      by (simp add: is_whitespace_def)
    with False x Cons show ?thesis
      by (simp add: join_Cons split_word)
  qed
qed simp

lemma join_plain_no_paren: "list_all plain_field ws \<Longrightarrow> CHR '')'' \<notin> set (join '' '' ws)"
  by (induction "'' ''" ws rule: join.induct) (auto simp: plain_field_def list_all_iff)

lemma rsplit_after_none: "c \<notin> set z \<Longrightarrow> rsplit_after (c # p) z = None"
  by (induction z) auto

lemma rsplit_after_last:
  "c \<notin> set z \<Longrightarrow> strip_prefix p z = Some y \<Longrightarrow> rsplit_after (c # p) (x @ c # z) = Some y"
  by (induction x) (auto simp: rsplit_after_none)

lemma parse_signed_show_int:
  assumes "- (2 ^ w) \<le> i" "i < 2 ^ w"
  shows "parse_signed w (show_int i) = Some i"
proof (cases "i < 0")
  case True
  then have "nat (- i) \<le> 2 ^ w"
    using assms(1) by (simp add: nat_le_iff)
  with True show ?thesis
    by (simp add: parse_signed_def show_int_def parse_digits_show_nat)
next
  case False
  have "hd (show_nat (nat i)) \<noteq> CHR ''-''"
    using show_nat_digits [of "hd (show_nat (nat i))" "nat i"] by (auto simp: digit_val_def)
  moreover have "nat i < 2 ^ w"
    using False assms(2) by (simp add: nat_less_iff)
  ultimately show ?thesis
    using False by (simp add: parse_signed_def show_int_def parse_bits_show_nat)
qed

lemma parse_u64_show [simp]: "parse_u64 (show_nat (unat (n :: u64))) = Some n"
proof -
  have "unat n < 2 ^ 64"
    using unsigned_less [of n] by simp
  then show ?thesis
    by (simp add: parse_u64_def parse_bits_show_nat)
qed

section \<open>The task table\<close>

record ktask =
  kt_tid :: u32
  kt_tgid :: u32
  kt_prio :: nat
  kt_starttime :: u64
  kt_comm :: string

record kernel_world =
  kw_tasks :: "ktask list"
  kw_clock :: nat
  kw_log :: "audit_event list"

definition kt_nice :: "ktask \<Rightarrow> int" where
  "kt_nice t = int (kt_prio t mod 40) - 20"

definition stat_fields :: "ktask \<Rightarrow> string list" where
  "stat_fields t =
     [''S''] @ replicate 15 ''0'' @ [show_int (kt_nice t), ''1'', ''0'', show_nat (unat (kt_starttime t))]"

definition stat_line :: "ktask \<Rightarrow> string" where
  "stat_line t = (show_nat (unat (kt_tid t)) @ '' ('' @ kt_comm t) @ '') '' @ join '' '' (stat_fields t)"

definition status_text :: "ktask \<Rightarrow> string" where
  "status_text t = ''Umask: 0022'' @ [CHR 0x0A] @ ''Tgid: '' @ show_nat (unat (kt_tgid t)) @ [CHR 0x0A]"

definition task_file :: "string \<Rightarrow> ktask \<Rightarrow> string option" where
  "task_file path t =
     (if path = proc_file (kt_tid t) ''stat'' then Some (stat_line t)
      else if path = proc_file (kt_tid t) ''status'' then Some (status_text t)
      else if path = proc_file (kt_tid t) ''comm'' then Some (kt_comm t @ [CHR 0x0A])
      else None)"

definition kernel_read :: "string \<Rightarrow> kernel_world \<Rightarrow> io_error + string" where
  "kernel_read path w =
     (case first_parsed (task_file path) (kw_tasks w) of
        Some s \<Rightarrow> Inr s
      | None \<Rightarrow> Inl \<lparr>io_raw_os_error = Some 2, io_kind = Io_NotFound, io_display = ''No such file or directory''\<rparr>)"

definition find_task :: "u32 \<Rightarrow> kernel_world \<Rightarrow> ktask option" where
  "find_task tid w = find (\<lambda>t. kt_tid t = tid) (kw_tasks w)"

definition kernel_setpriority :: "u32 \<Rightarrow> int \<Rightarrow> kernel_world \<Rightarrow> (io_error + unit) \<times> kernel_world" where
  "kernel_setpriority tid n w =
     (if find_task tid w = None
      then (Inl \<lparr>io_raw_os_error = Some 3, io_kind = Io_Other, io_display = ''No such process''\<rparr>, w)
      else (Inr (),
            w\<lparr>kw_tasks := map (\<lambda>t. if kt_tid t = tid then t\<lparr>kt_prio := nat (max (- 20) (min n 19) + 20)\<rparr> else t) (kw_tasks w)\<rparr>))"

definition kernel_host :: "kernel_world task_host" where
  "kernel_host =
     \<lparr>th_read = kernel_read, th_readlink = (\<lambda>_ _. None),
      th_exists = (\<lambda>path w. \<exists>t \<in> set (kw_tasks w). path = ''/proc/'' @ show_nat (unat (kt_tid t))),
      th_setpriority = kernel_setpriority\<rparr>"

definition kernel_nices :: "kernel_world \<Rightarrow> u32 \<Rightarrow> int option" where
  "kernel_nices w tid = map_option kt_nice (find_task tid w)"

definition kernel_frame :: "kernel_world \<Rightarrow> ktask list" where
  "kernel_frame w = map (kt_prio_update (\<lambda>_. 0)) (kw_tasks w)"

definition kernel_env :: "kernel_world runner_env" where
  "kernel_env =
     \<lparr>re_instant = (\<lambda>w. (kw_clock w, w\<lparr>kw_clock := kw_clock w + 1\<rparr>)),
      re_unix_nanos = (\<lambda>w. (kw_clock w, w\<lparr>kw_clock := kw_clock w + 1\<rparr>)),
      re_append_audit = (\<lambda>ev w. w\<lparr>kw_log := kw_log w @ [ev]\<rparr>)\<rparr>"

section \<open>The laws hold\<close>

lemma stat_fields_plain: "list_all plain_field (stat_fields t)"
  by (simp add: stat_fields_def list_all_iff) (simp add: plain_field_def is_whitespace_def)

lemma stat_fields_get:
  "list_get 16 (stat_fields t) = Some (show_int (kt_nice t))"
  "list_get 19 (stat_fields t) = Some (show_nat (unat (kt_starttime t)))"
  by (simp_all add: stat_fields_def list_get_def numeral_eq_Suc)

lemma split_whitespace_lead: "split_whitespace (CHR '' '' # s) = split_whitespace s"
  by (simp add: split_whitespace_def is_whitespace_def)

lemma stat_line_rest: "CHR '')'' \<notin> set (CHR '' '' # join '' '' (stat_fields t))"
  using join_plain_no_paren [OF stat_fields_plain] by simp

lemma starttime_of_stat_line: "parse_proc_stat_starttime (stat_line t) = Some (kt_starttime t)"
proof -
  have "rsplit_after '') '' (stat_line t) = Some (join '' '' (stat_fields t))"
    using stat_line_rest [of t] rsplit_after_last [of "CHR '')''" "CHR '' '' # join '' '' (stat_fields t)" "'' ''" _
      "show_nat (unat (kt_tid t)) @ '' ('' @ kt_comm t"]
    by (simp add: stat_line_def)
  then show ?thesis
    by (simp add: parse_proc_stat_starttime_def split_whitespace_join stat_fields_plain stat_fields_get)
qed

lemma kt_nice_range: "- 20 \<le> kt_nice t" "kt_nice t \<le> 19"
  by (simp_all add: kt_nice_def)

lemma nice_of_stat_line: "parse_stat_nice_and_starttime (stat_line t) = Inr (kt_nice t, kt_starttime t)"
proof -
  have "rsplit_after '')'' (stat_line t) = Some (CHR '' '' # join '' '' (stat_fields t))"
    using stat_line_rest [of t] rsplit_after_last [of "CHR '')''" "CHR '' '' # join '' '' (stat_fields t)" "[]" _
      "show_nat (unat (kt_tid t)) @ '' ('' @ kt_comm t"]
    by (simp add: stat_line_def)
  moreover have "parse_signed 31 (show_int (kt_nice t)) = Some (kt_nice t)"
    using kt_nice_range [of t] by (intro parse_signed_show_int) simp_all
  ultimately show ?thesis
    by (simp add: parse_stat_nice_and_starttime_def split_whitespace_lead split_whitespace_join stat_fields_plain
        stat_fields_get parse_field_def)
qed

lemma first_parsed_find:
  "(\<And>x. f x = (if P x then Some (g x) else None)) \<Longrightarrow> first_parsed f xs = map_option g (find P xs)"
  by (induction xs) auto

lemma kernel_read_stat: "kernel_read (proc_file tid ''stat'') w =
    (case find_task tid w of Some t \<Rightarrow> Inr (stat_line t)
     | None \<Rightarrow> Inl \<lparr>io_raw_os_error = Some 2, io_kind = Io_NotFound, io_display = ''No such file or directory''\<rparr>)"
  unfolding kernel_read_def find_task_def
  by (subst first_parsed_find [where P = "\<lambda>t. kt_tid t = tid" and g = stat_line])
    (auto simp: task_file_def split: option.splits)

lemma kernel_read_status: "kernel_read (proc_file tid ''status'') w =
    (case find_task tid w of Some t \<Rightarrow> Inr (status_text t)
     | None \<Rightarrow> Inl \<lparr>io_raw_os_error = Some 2, io_kind = Io_NotFound, io_display = ''No such file or directory''\<rparr>)"
  unfolding kernel_read_def find_task_def
  by (subst first_parsed_find [where P = "\<lambda>t. kt_tid t = tid" and g = status_text])
    (auto simp: task_file_def split: option.splits)

lemma kernel_host_simps [simp]:
  "th_read kernel_host = kernel_read" "th_readlink kernel_host = (\<lambda>_ _. None)" "th_setpriority kernel_host = kernel_setpriority"
  by (simp_all add: kernel_host_def)

lemma kernel_read_stat_Inr: "read_stat kernel_host tid w = Inr (n, s) \<longleftrightarrow>
    (\<exists>t. find_task tid w = Some t \<and> n = kt_nice t \<and> s = kt_starttime t)"
  by (auto simp: read_stat_def kernel_read_stat nice_of_stat_line Let_def split: option.splits)

lemma find_task_setpriority:
  assumes "kernel_setpriority tid n w = (Inr u, w')" "- 20 \<le> n" "n \<le> 19"
  shows "kernel_nices w' = (kernel_nices w)(tid \<mapsto> n)" "kernel_frame w' = kernel_frame w"
proof -
  let ?f = "\<lambda>t. if kt_tid t = tid then t\<lparr>kt_prio := nat (n + 20)\<rparr> else t"
  have w': "w' = w\<lparr>kw_tasks := map ?f (kw_tasks w)\<rparr>" and present: "find (\<lambda>t. kt_tid t = tid) (kw_tasks w) \<noteq> None"
    using assms by (auto simp: kernel_setpriority_def find_task_def split: if_splits)
  have nice: "kt_nice (t\<lparr>kt_prio := nat (n + 20)\<rparr>) = n" for t :: ktask
    using assms(2,3) by (simp add: kt_nice_def)
  have "map_option kt_nice (find (\<lambda>t. kt_tid t = tid') (map ?f ts)) =
      (if tid' = tid \<and> find (\<lambda>t. kt_tid t = tid) ts \<noteq> None then Some n
       else map_option kt_nice (find (\<lambda>t. kt_tid t = tid') ts))" for tid' ts
    by (induction ts) (auto simp: nice)
  then show "kernel_nices w' = (kernel_nices w)(tid \<mapsto> n)"
    using present by (auto simp: fun_eq_iff kernel_nices_def find_task_def w')
  show "kernel_frame w' = kernel_frame w"
    by (auto simp: kernel_frame_def w')
qed

lemma find_task_frame:
  assumes "kernel_frame w' = kernel_frame w"
  shows "map_option (kt_prio_update (\<lambda>_. 0)) (find_task tid w') = map_option (kt_prio_update (\<lambda>_. 0)) (find_task tid w)"
proof -
  have erase: "map_option (kt_prio_update (\<lambda>_. 0)) (find (\<lambda>t. kt_tid t = tid) ts) =
      find (\<lambda>t. kt_tid t = tid) (map (kt_prio_update (\<lambda>_. 0)) ts)" for ts
    by (induction ts) auto
  show ?thesis
    using assms unfolding find_task_def erase kernel_frame_def by simp
qed

lemma frame_read_status:
  assumes "kernel_frame w' = kernel_frame w"
  shows "kernel_read (proc_file tid ''status'') w' = kernel_read (proc_file tid ''status'') w"
proof -
  have "status_text (kt_prio_update f t) = status_text t" for f t
    by (simp add: status_text_def)
  then have "map_option status_text (find_task tid w') = map_option status_text (find_task tid w)"
    using arg_cong [OF find_task_frame [OF assms, of tid], of "map_option status_text"]
    by (simp add: option.map_comp comp_def)
  then show ?thesis
    by (cases "find_task tid w'"; cases "find_task tid w") (simp_all add: kernel_read_status)
qed

text \<open>The start time in a stat file, or that there is none.\<close>

definition stat_start :: "io_error + string \<Rightarrow> u64 option option" where
  "stat_start r = (case r of Inl _ \<Rightarrow> None | Inr stat \<Rightarrow> Some (parse_proc_stat_starttime stat))"

lemma frame_read_stat:
  assumes "kernel_frame w' = kernel_frame w"
  shows "stat_start (kernel_read (proc_file tid ''stat'') w') = stat_start (kernel_read (proc_file tid ''stat'') w)"
proof -
  have "map_option kt_starttime (find_task tid w') = map_option kt_starttime (find_task tid w)"
    using arg_cong [OF find_task_frame [OF assms, of tid], of "map_option kt_starttime"]
    by (simp add: option.map_comp comp_def)
  then show ?thesis
    by (cases "find_task tid w'"; cases "find_task tid w")
      (simp_all add: kernel_read_stat stat_start_def starttime_of_stat_line)
qed

lemma verify_by_stat_start:
  "verify_task_identity host i w =
     (case stat_start (th_read host (proc_file (ti_tid i) ''stat'') w) of
        None \<Rightarrow> Missing
      | Some current \<Rightarrow>
         (case (ti_starttime_ticks i, current) of
            (None, _) \<Rightarrow> UnknownLegacy
          | (Some _, None) \<Rightarrow> Mismatch ''unable to parse current starttime''
          | (Some expected, Some actual) \<Rightarrow>
              if expected \<noteq> actual
              then Mismatch (''starttime_ticks mismatch: expected='' @ show_nat (unat expected)
                     @ '' actual='' @ show_nat (unat actual))
              else case check_process_pid host i w of
                     Some m \<Rightarrow> m
                   | None \<Rightarrow> (case check_process_starttime host i current w of Some m \<Rightarrow> m | None \<Rightarrow> SameTask)))"
  by (simp add: verify_task_identity_def stat_start_def Let_def split: sum.split)

lemma process_starttime_by_stat_start:
  "check_process_starttime host i current w =
     (case (ti_process_pid i, ti_process_starttime_ticks i) of
        (Some process_pid, Some expected) \<Rightarrow>
          (case (if process_pid = ti_tid i then current
                 else Option.bind (stat_start (th_read host (proc_file process_pid ''stat'') w)) (\<lambda>x. x)) of
             Some actual \<Rightarrow>
               if actual \<noteq> expected
               then Some (Mismatch (''process_starttime_ticks mismatch: expected='' @ show_nat (unat expected)
                      @ '' actual='' @ show_nat (unat actual)))
               else None
           | None \<Rightarrow> Some (Mismatch ''unable to verify current process starttime''))
      | _ \<Rightarrow> None)"
  by (auto simp: check_process_starttime_def stat_start_def split: option.split sum.split)

interpretation kernel: task_kernel kernel_host kernel_nices kernel_frame
proof unfold_locales
  fix w w' :: kernel_world and tid n s u e cs i
  show "kernel_nices w tid = Some n" if "read_stat kernel_host tid w = Inr (n, s)"
    using that by (auto simp: kernel_read_stat_Inr kernel_nices_def)
  show "\<exists>stat. th_read kernel_host (proc_file tid ''stat'') w = Inr stat \<and> parse_proc_stat_starttime stat = Some s"
    if "read_stat kernel_host tid w = Inr (n, s)"
    using that by (auto simp: kernel_read_stat_Inr kernel_read_stat starttime_of_stat_line)
  show "LINUX_MIN_NICE \<le> n \<and> n \<le> LINUX_MAX_NICE" if "kernel_nices w tid = Some n"
    using that kt_nice_range by (auto simp: kernel_nices_def LINUX_MIN_NICE_def LINUX_MAX_NICE_def)
  show "kernel_nices w' = (kernel_nices w)(tid \<mapsto> n) \<and> kernel_frame w' = kernel_frame w"
    if "th_setpriority kernel_host tid n w = (Inr u, w')" "LINUX_MIN_NICE \<le> n" "n \<le> LINUX_MAX_NICE"
    using that find_task_setpriority [of tid n w u w'] by (simp add: LINUX_MIN_NICE_def LINUX_MAX_NICE_def)
  show "kernel_nices w' = kernel_nices w \<and> kernel_frame w' = kernel_frame w"
    if "th_setpriority kernel_host tid n w = (Inl e, w')"
    using that by (auto simp: kernel_setpriority_def split: if_splits)
  show "\<not> is_ok (th_read kernel_host (proc_file tid ''stat'') w)"
    if "th_setpriority kernel_host tid n w = (Inl e, w')"
      "classify_restore_write_error kernel_host tid (Anyhow cs (RootIo e)) w' = RW_MissingTask"
    using that by (auto simp: kernel_setpriority_def kernel_read_stat split: if_splits)
  show "read_proc_status_tgid kernel_host tid w' = read_proc_status_tgid kernel_host tid w"
    if "kernel_frame w' = kernel_frame w"
    using frame_read_status [OF that] by (simp add: read_proc_status_tgid_def)
  show "verify_task_identity kernel_host i w' = verify_task_identity kernel_host i w"
    if "kernel_frame w' = kernel_frame w"
  proof -
    have pid: "check_process_pid kernel_host i w' = check_process_pid kernel_host i w"
      unfolding check_process_pid_def read_proc_status_tgid_def kernel_host_simps frame_read_status [OF that] ..
    have start: "check_process_starttime kernel_host i c w' = check_process_starttime kernel_host i c w" for c
      unfolding process_starttime_by_stat_start kernel_host_simps frame_read_stat [OF that] ..
    show ?thesis
      unfolding verify_by_stat_start kernel_host_simps frame_read_stat [OF that] pid start ..
  qed
qed

lemma kernel_obs_tasks: "kw_tasks w' = kw_tasks w \<Longrightarrow> kernel.obs w' = kernel.obs w"
  by (simp add: kernel.obs_def kernel_nices_def fun_eq_iff kernel_frame_def find_task_def)

interpretation kernel_run: nice_run kernel_host kernel_nices kernel_frame kernel_env hooks_none
  by unfold_locales
    (rule kernel_obs_tasks, simp add: kernel_env_def hooks_none_def run_after_prepare_def run_after_apply_def
      run_after_rollback_def run_hook_def)+

section \<open>A concrete machine\<close>

definition game_tasks :: "nat \<Rightarrow> nat \<Rightarrow> ktask list" where
  "game_tasks p q =
     [\<lparr>kt_tid = 41, kt_tgid = 40, kt_prio = p, kt_starttime = 900, kt_comm = ''game) x''\<rparr>,
      \<lparr>kt_tid = 42, kt_tgid = 40, kt_prio = q, kt_starttime = 901, kt_comm = ''audio''\<rparr>]"

definition game_world :: kernel_world where
  "game_world =
     \<lparr>kw_tasks = game_tasks 20 25, kw_clock = 7, kw_log = []\<rparr>"

definition game_action :: nice_action where
  "game_action =
     \<lparr>na_targets =
        [\<lparr>tk_tid = 41, tk_process_pid = Some 40, tk_comm = None, tk_starttime_ticks = Some 900\<rparr>,
         \<lparr>tk_tid = 42, tk_process_pid = Some 40, tk_comm = None, tk_starttime_ticks = Some 901\<rparr>],
      na_nice = - 5, na_policy = default_nice_policy\<rparr>"

lemma trim_lead: "trim (CHR '' '' # show_nat n) = show_nat n"
proof -
  have *: "\<forall>c \<in> set (show_nat n). \<not> is_whitespace c"
    using show_nat_plain [of n] by (simp add: plain_field_def list_all_iff)
  have "dropWhile is_whitespace (show_nat n) = show_nat n" "dropWhile is_whitespace (rev (show_nat n)) = rev (show_nat n)"
    using * hd_in_set [OF show_nat_not_Nil [of n]] last_in_set [OF show_nat_not_Nil [of n]]
    by (auto simp: dropWhile_eq_self_iff hd_rev)
  moreover have "is_whitespace CHR '' ''"
    by (simp add: is_whitespace_def)
  ultimately show ?thesis
    by (simp add: trim_def trim_start_def)
qed

lemma kernel_tgid: "read_proc_status_tgid kernel_host tid w =
    (case find_task tid w of
       Some t \<Rightarrow> Inr (Some (kt_tgid t))
     | None \<Rightarrow> Inl \<lparr>io_raw_os_error = Some 2, io_kind = Io_NotFound, io_display = ''No such file or directory''\<rparr>)"
proof -
  have digits: "CHR 0x0A \<notin> set (show_nat n)" for n
    using show_nat_digits [of "CHR 0x0A" n] by (auto simp: digit_val_def)
  have "last (show_nat n) \<noteq> CHR 0x0D" for n
    using show_nat_digits [OF last_in_set [OF show_nat_not_Nil, of n]] by (auto simp: digit_val_def)
  moreover have "unat (n :: u32) < 2 ^ 32" for n
    using unsigned_less [of n] by simp
  ultimately have "first_parsed (\<lambda>line. Option.bind (strip_prefix ''Tgid:'' line) (\<lambda>v. parse_u32 (trim v)))
      (str_lines (status_text t)) = Some (kt_tgid t)" for t
    using split_on_append [OF digits, of "unat (kt_tgid t)" "[]"]
    by (simp add: status_text_def str_lines_def chomp_cr_def trim_lead parse_u32_def parse_bits_show_nat)
  then show ?thesis
    by (auto simp: read_proc_status_tgid_def kernel_read_status split: option.splits)
qed

text \<open>A configuration that unlocks medium-risk nice changes, and a deadline that passes after the apply.\<close>

definition nice_config :: daemon_config where
  "nice_config =
     (let base = from_preset Preset_GamingLowRisk Src_Cli
      in base\<lparr>dc_mode := Mode_ApplyMediumRisk,
              dc_autotune := (dc_autotune base)\<lparr>au_allow_medium_risk_apply := True\<rparr>,
              dc_safety := (dc_safety base)\<lparr>sf_max_safety_class := SC_ReversibleMediumRisk,
                sf_allowed_action_classes := safety_classes_up_to SC_ReversibleMediumRisk,
                sf_enabled_action_families := {}\<rparr>\<rparr>)"

definition game_policy :: "nat option \<Rightarrow> action_run_policy" where
  "game_policy deadline =
     \<lparr>rp_policy = build_daemon_policy nice_config None, rp_context = default_policy_context,
      rp_max_affected_tasks = Some 4, rp_max_total_duration = deadline, rp_dry_run = False\<rparr>"

lemma game_policy_decides:
  "pe_decision (explain_action_with_context (build_daemon_policy nice_config None) intent
     (default_descriptor (nice_action_id a) SC_ReversibleMediumRisk) default_policy_context) = Allowed"
  if "intent = Intent_Apply \<or> intent = Intent_DryRun"
  using that
  by (auto simp: explain_with_context_allowed_iff nice_config_def context_ok_def default_policy_context_def
      capability_ok_def default_descriptor_def policy_eval remote_count_blocks_def)

lemma game_policy_allows [simp]:
  "check_action_with_explanation (build_daemon_policy nice_config None) default_policy_context Intent_Apply
     (default_descriptor (nice_action_id a) SC_ReversibleMediumRisk) = Inr ()"
  "check_action_with_explanation (build_daemon_policy nice_config None) default_policy_context Intent_DryRun
     (default_descriptor (nice_action_id a) SC_ReversibleMediumRisk) = Inr ()"
  by (simp_all add: check_action_with_explanation_def game_policy_decides Let_def)

definition game_snapshot :: "u32 \<Rightarrow> nat \<Rightarrow> u64 \<Rightarrow> string \<Rightarrow> nice_target_snapshot" where
  "game_snapshot tid p start comm =
     \<lparr>sn_tid = tid, sn_process_pid = Some 40, sn_current_nice = int (p mod 40) - 20, sn_comm = Some comm,
      sn_starttime_ticks = Some start, sn_exe = None\<rparr>"

lemma kernel_read_comm: "kernel_read (proc_file tid ''comm'') w =
    (case find_task tid w of Some t \<Rightarrow> Inr (kt_comm t @ [CHR 0x0A])
     | None \<Rightarrow> Inl \<lparr>io_raw_os_error = Some 2, io_kind = Io_NotFound, io_display = ''No such file or directory''\<rparr>)"
  unfolding kernel_read_def find_task_def
  by (subst first_parsed_find [where P = "\<lambda>t. kt_tid t = tid" and g = "\<lambda>t. kt_comm t @ [CHR 0x0A]"])
    (auto simp: task_file_def split: option.splits)

lemma game_reads:
  assumes "kw_tasks w = game_tasks p q"
  shows "read_stat kernel_host 41 w = Inr (int (p mod 40) - 20, 900)"
    "read_stat kernel_host 42 w = Inr (int (q mod 40) - 20, 901)"
    "read_comm kernel_host 41 w = Some ''game) x''" "read_comm kernel_host 42 w = Some ''audio''"
    "read_proc_status_tgid kernel_host 41 w = Inr (Some 40)" "read_proc_status_tgid kernel_host 42 w = Inr (Some 40)"
  using assms
  by (simp_all add: kernel_read_stat_Inr find_task_def game_tasks_def kt_nice_def read_comm_def kernel_read_comm
      kernel_tgid trim_def trim_start_def is_whitespace_def)

lemma game_collect:
  assumes "kw_tasks w = game_tasks p q"
  shows "collect_target_snapshots kernel_host game_action w =
    Inr [(game_snapshot 41 p 900 ''game) x'', []), (game_snapshot 42 q 901 ''audio'', [])]"
  by (simp add: collect_target_snapshots_def validate_policy_and_request_def game_action_def default_nice_policy_def
      LINUX_MIN_NICE_def LINUX_MAX_NICE_def read_target_snapshot_def game_reads [OF assms] game_snapshot_def
      identity_warnings_def)

definition game_plan :: "nice_restore_record list" where
  "game_plan = map snapshot_record [game_snapshot 41 20 900 ''game) x'', game_snapshot 42 25 901 ''audio'']"

lemma game_plan_records:
  assumes "kw_tasks w = game_tasks 20 25"
  shows "plan_records kernel_host game_action True w = Inr game_plan"
  by (simp add: plan_records_def game_collect [OF assms])
    (simp add: game_plan_def snapshot_record_def game_snapshot_def game_action_def)

lemma game_apply:
  assumes "kw_tasks w = game_tasks 20 25"
  shows "apply_prepared kernel_host game_action (run_after_prepare hooks_none) w =
    (Inr (NiceRestore game_plan), w\<lparr>kw_tasks := game_tasks 15 15\<rparr>)"
  using assms
  by (simp add: apply_prepared_def game_plan_records run_after_prepare_def run_hook_def hooks_none_def apply_plan_def
      apply_planned_loop_def fold_tx_plan Let_def tx_new_def)
    (simp add: game_plan_def apply_record_def set_task_nice_def kernel_setpriority_def find_task_def game_tasks_def
      snapshot_record_def game_snapshot_def nice_record_tid_def nice_record_new_def identity_observed_def game_action_def
      mark_applied_def)

lemma game_record [simp]:
  "nice_restore_identity (snapshot_record (game_snapshot tid p start comm)) =
     identity_observed tid (Some 40) (Some comm) (Some start) None"
  "nr_original_nice (snapshot_record (game_snapshot tid p start comm)) = int (p mod 40) - 20"
  by (simp_all add: snapshot_record_def game_snapshot_def nice_record_new_def nice_restore_identity_def)

lemma game_identity:
  assumes "find_task tid w = Some t" "kt_starttime t = start" "kt_tgid t = 40"
  shows "verify_task_identity kernel_host (identity_observed tid (Some 40) comm (Some start) None) w = SameTask"
  using assms by (simp add: verify_by_stat_start kernel_read_stat stat_start_def starttime_of_stat_line
      identity_observed_def check_process_pid_def kernel_tgid check_process_starttime_def)

lemma hooks_none_fields:
  "hk_after_prepare hooks_none = None" "hk_after_apply hooks_none = None" "hk_after_rollback hooks_none = None"
  by (simp_all add: hooks_none_def)

lemma game_rollback_record:
  assumes "kw_tasks w = game_tasks p q" "n < 40"
  shows "rollback_record kernel_host (snapshot_record (game_snapshot 41 n 900 comm)) acc w =
      ((record_restored (fst acc), snd acc), w\<lparr>kw_tasks := game_tasks n q\<rparr>)" (is ?first)
    and "rollback_record kernel_host (snapshot_record (game_snapshot 42 n 901 comm)) acc w =
      ((record_restored (fst acc), snd acc), w\<lparr>kw_tasks := game_tasks p n\<rparr>)" (is ?second)
proof -
  have tasks: "find_task 41 w = Some (game_tasks p q ! 0)" "find_task 42 w = Some (game_tasks p q ! 1)"
    using assms by (simp_all add: find_task_def game_tasks_def)
  have ids: "verify_task_identity kernel_host (identity_observed 41 (Some 40) (Some comm) (Some 900) None) w = SameTask"
    "verify_task_identity kernel_host (identity_observed 42 (Some 40) (Some comm) (Some 901) None) w = SameTask"
    by (rule game_identity [OF tasks(1)] game_identity [OF tasks(2)]; simp add: game_tasks_def)+
  have sets: "kernel_setpriority 41 (int n - 20) w = (Inr (), w\<lparr>kw_tasks := game_tasks n q\<rparr>)"
    "kernel_setpriority 42 (int n - 20) w = (Inr (), w\<lparr>kw_tasks := game_tasks p n\<rparr>)"
    using assms(2) by (simp_all add: kernel_setpriority_def tasks assms(1)) (simp_all add: game_tasks_def)
  show ?first ?second
    using assms(2)
    by (simp_all add: rollback_record_def Let_def ids set_task_nice_def sets split_beta)
      (simp_all add: identity_observed_def sets)
qed

lemma game_rollback:
  assumes "kw_tasks w = game_tasks 15 15"
  shows "nice_rollback kernel_host (NiceRestore game_plan) w = (Inr (), w\<lparr>kw_tasks := game_tasks 20 25\<rparr>)"
  using assms game_rollback_record [of w 15 15 20] game_rollback_record [of "w\<lparr>kw_tasks := game_tasks 20 15\<rparr>" 20 15 25]
  by (simp add: nice_rollback_def game_plan_def record_restored_def summary_zero_def has_failures_def)

lemma game_pending: "pending_count game_action [(game_snapshot 41 20 900 c, ws), (game_snapshot 42 25 901 d, vs)] = 2"
  by (simp add: pending_count_def game_snapshot_def game_action_def)

lemmas game_eval =
  run_audited_action_def run_body_def run_preflight_def run_dry_run_def check_scope_limit_def run_apply_def
  run_applied_def run_verify_def fail_on_timeout_def fail_with_rollback_def total_timeout_error_def
  append_runner_audit_event_def run_after_apply_def run_after_rollback_def run_hook_def hooks_none_fields
  from_preflight_result_def report_is_blocked_def report_passed_def rollback_after_timeout_def timeout_details_def
  nice_tuning_action_def game_apply game_rollback game_policy_def game_world_def kernel_env_def nice_preflight_def
  nice_dry_run_def nice_verify_def game_collect game_pending

text \<open>The deadline passes after the apply, so the run rolls back.\<close>

lemma game_run_fails:
  obtains t w' where "run_audited_action kernel_env ''autotune'' (nice_tuning_action kernel_host game_action)
     (game_policy (Some 5)) hooks_none game_world = (Inl (AF_Rollback (TimeoutRollbackCompleted t)), w')"
  by (simp add: game_eval Let_def)

text \<open>
  The process ids of the targets are taken as given: no step compares them with the kernel before the write, but
  the rollback does. With a wrong one the record counts as recycled, the rollback skips it, answers
  \<open>Ok\<close> and the nice level stays changed.
\<close>

lemma wrong_process_pid_is_not_rolled_back:
  assumes "kw_tasks w = game_tasks 15 q" "pid \<noteq> 40"
  shows "nice_rollback kernel_host
     (NiceRestore [nice_record_new (identity_observed 41 (Some pid) (Some comm) (Some 900) None) 0]) w = (Inr (), w)"
proof -
  have "find_task 41 w = Some (game_tasks 15 q ! 0)"
    using assms(1) by (simp add: find_task_def game_tasks_def)
  then have "\<exists>m. verify_task_identity kernel_host (identity_observed 41 (Some pid) (Some comm) (Some 900) None) w
      = Mismatch m"
    using assms(2)
    by (simp add: verify_by_stat_start kernel_read_stat stat_start_def starttime_of_stat_line identity_observed_def
        check_process_pid_def kernel_tgid game_tasks_def)
  then show ?thesis
    by (auto simp: nice_rollback_def rollback_record_def nice_record_new_def nice_restore_identity_def
        record_identity_mismatch_def summary_zero_def has_failures_def)
qed

section \<open>Properties\<close>

text \<open>
  C5. A failed nice run leaves no trace, under two conditions: the kernel meets the documented laws of procfs and
  \<open>setpriority\<close>, and the clock, the audit log and the hooks do not touch the tasks (\<open>nice_run\<close>); and the process
  ids given with the targets are those that the kernel reports for them (\<open>tgids_match\<close>; see
  \<open>wrong_process_pid_is_not_rolled_back\<close> for what happens otherwise). Then a dry run, and any run that fails
  at any point without reporting that its rollback failed, ends with every nice level, and everything
  else the identity checks read, as before the run.
\<close>

theorem failed_nice_run_restores:
  assumes "nice_run host nices frame env hooks"
    and "tgids_match host (na_targets a) w"
    and "run_audited_action env c (nice_tuning_action host a) rp hooks w = (r, w')"
    and "(case r of Inl f \<Rightarrow> rp_dry_run rp \<or> \<not> rollback_failed f | Inr _ \<Rightarrow> rp_dry_run rp)"
  shows "nices w' = nices w \<and> frame w' = frame w"
  by (rule nice_run.run_restores_nices [OF assms])

theorem failed_nice_run_restores_witness:
  "\<exists>t w'. run_audited_action kernel_env ''autotune'' (nice_tuning_action kernel_host game_action)
       (game_policy (Some 5)) hooks_none game_world = (Inl (AF_Rollback (TimeoutRollbackCompleted t)), w')
     \<and> kernel_nices w' = kernel_nices game_world \<and> kernel_frame w' = kernel_frame game_world"
proof -
  have match: "tgids_match kernel_host (na_targets game_action) game_world"
    using game_reads [of game_world 20 25] by (simp add: tgids_match_def game_action_def game_world_def)
  obtain t w' where run: "run_audited_action kernel_env ''autotune'' (nice_tuning_action kernel_host game_action)
     (game_policy (Some 5)) hooks_none game_world = (Inl (AF_Rollback (TimeoutRollbackCompleted t)), w')"
    by (rule game_run_fails)
  from failed_nice_run_restores [OF kernel_run.nice_run_axioms match run] run show ?thesis
    by (simp add: rollback_failed_def)
qed

end
