(* ===== verification/Ebpf_Maps.thy ===== *)
theory Ebpf_Maps
  imports Stutter_Prelude
begin

text \<open>
  The state of the eBPF programs (\<open>stutter-ebpf/src/maps.rs\<close> and the maps of \<open>wakeup_data.rs\<close>, \<open>irq.rs\<close>,
  \<open>block_io.rs\<close>), the shared constants and event records (\<open>stutter-common/src/lib.rs\<close>), target filtering
  (\<open>target_filter.rs\<close>), drop counters (\<open>drop_counters.rs\<close>), field reads (\<open>trace_read.rs\<close>) and the event
  emission macro of \<open>main.rs\<close>.

  What the kernel decides is an argument of every program: the record \<open>probe_env\<close> holds the results of the
  helpers, which map insertions fail, whether the ring buffer has room, and which entries an LRU map evicts
  to make room. A removal fails exactly when the key is absent. One run of a program is one step, as if runs
  never overlapped; two overlaps are modelled separately, in \<open>Ebpf_Properties\<close>: that of a wakeup with a running
  switch, for which the code is written, and that of two updates of one depth counter, for which it is not.
  Padding fields of the event records are always zero and left out. A signed field is the word that holds it.
\<close>

section \<open>Constants\<close>

definition BPF_MAX_TRACKED_CPUS :: u32 where "BPF_MAX_TRACKED_CPUS = 16384"

definition DROP_WAKEUP_DATA_INSERT_FAILED :: u32 where "DROP_WAKEUP_DATA_INSERT_FAILED = 0"
definition DROP_RINGBUF_RESERVE_FAILED :: u32 where "DROP_RINGBUF_RESERVE_FAILED = 1"
definition DROP_IRQ_START_TIMES_INSERT_FAILED :: u32 where "DROP_IRQ_START_TIMES_INSERT_FAILED = 2"
definition DROP_BLOCK_START_INSERT_FAILED :: u32 where "DROP_BLOCK_START_INSERT_FAILED = 3"
definition DROP_WAKEUP_DATA_STALE_ENTRY :: u32 where "DROP_WAKEUP_DATA_STALE_ENTRY = 4"
definition DROP_BLOCK_FALLBACK_KEY_COLLISION :: u32 where "DROP_BLOCK_FALLBACK_KEY_COLLISION = 5"
definition DROP_WAKEUP_DATA_REPLACED_ENTRY :: u32 where "DROP_WAKEUP_DATA_REPLACED_ENTRY = 6"
definition DROP_WAKEUP_DATA_CONSUMED_READ_FAILED :: u32 where "DROP_WAKEUP_DATA_CONSUMED_READ_FAILED = 7"
definition DROP_CPU_ACCOUNTING_UNTRACKED :: u32 where "DROP_CPU_ACCOUNTING_UNTRACKED = 8"
definition DROP_BLOCK_ZERO_KEY :: u32 where "DROP_BLOCK_ZERO_KEY = 9"
definition DROP_DRM_FENCE_MISSING_START :: u32 where "DROP_DRM_FENCE_MISSING_START = 10"
definition DROP_COUNTERS_MAX :: u32 where "DROP_COUNTERS_MAX = 11"

section \<open>Event records\<close>

type_synonym byte = "8 word"

record scheduler_event =
  se_tid :: u32
  se_cpu :: u32
  se_wakeup_target_cpu :: u32
  se_prio :: u32
  se_waker_tid :: u32
  se_target_pending_wakeups :: u32
  se_observed_runnable_depth :: u32
  se_maj_flt :: u64
  se_min_flt :: u64
  se_wakeup_ns :: u64
  se_switch_ns :: u64
  se_latency_ns :: u64
  se_comm :: "byte list"
  se_switch_prev_pid :: u32
  se_switch_prev_state :: u64

record irq_event =
  ie_irq :: u32
  ie_cpu :: u32
  ie_enter_ns :: u64
  ie_exit_ns :: u64
  ie_duration_ns :: u64

record migration_event =
  me_tid :: u32
  me_from_cpu :: u32
  me_to_cpu :: u32
  me_timestamp_ns :: u64

record cpu_freq_event =
  ce_cpu :: u32
  ce_state :: u32
  ce_timestamp_ns :: u64

record stat_wait_event =
  we_tid :: u32
  we_delay_ns :: u64

record block_io_event =
  be_tid :: u32
  be_dev :: u32
  be_nr_sector :: u32
  be_sector :: u64
  be_duration_ns :: u64
  be_timestamp_ns :: u64
  be_rwbs :: u64

record exec_event =
  xe_pid :: u32
  xe_tid :: u32
  xe_comm :: "byte list"

record kms_flip_event =
  ke_event_kind :: u32
  ke_provider :: u32
  ke_flags :: u32
  ke_pid :: u32
  ke_tid :: u32
  ke_cpu :: u32
  ke_card_minor :: u32
  ke_crtc_id :: u32
  ke_pipe :: u32
  ke_sequence :: u64
  ke_request_ns :: u64
  ke_done_ns :: u64
  ke_duration_ns :: u64
  ke_timestamp_ns :: u64

record drm_fence_event =
  fe_event_kind :: u32
  fe_provider :: u32
  fe_flags :: u32
  fe_pid :: u32
  fe_tid :: u32
  fe_cpu :: u32
  fe_driver_id :: u32
  fe_gpu_role :: u32
  fe_context :: u64
  fe_seqno :: u64
  fe_timeline_hash :: u64
  fe_wait_start_ns :: u64
  fe_wait_done_ns :: u64
  fe_signal_ns :: u64
  fe_duration_ns :: u64
  fe_timestamp_ns :: u64

text \<open>The constructor is the \<open>kind\<close> field (\<open>EVENT_RUNNABLE_LATENCY\<close> and so on).\<close>

datatype bpf_event =
    EVENT_RUNNABLE_LATENCY scheduler_event
  | EVENT_IRQ_LATENCY irq_event
  | EVENT_MIGRATION migration_event
  | EVENT_CPU_FREQ cpu_freq_event
  | EVENT_STAT_WAIT stat_wait_event
  | EVENT_BLOCK_IO block_io_event
  | EVENT_EXEC exec_event
  | EVENT_KMS_FLIP kms_flip_event
  | EVENT_DRM_FENCE drm_fence_event

fun event_kind :: "bpf_event \<Rightarrow> u32" where
  "event_kind (EVENT_RUNNABLE_LATENCY _) = 1"
| "event_kind (EVENT_IRQ_LATENCY _) = 2"
| "event_kind (EVENT_MIGRATION _) = 3"
| "event_kind (EVENT_CPU_FREQ _) = 4"
| "event_kind (EVENT_STAT_WAIT _) = 5"
| "event_kind (EVENT_BLOCK_IO _) = 6"
| "event_kind (EVENT_EXEC _) = 7"
| "event_kind (EVENT_KMS_FLIP _) = 8"
| "event_kind (EVENT_DRM_FENCE _) = 9"

section \<open>Maps\<close>

record wakeup_data =
  wd_ts :: u64
  wd_target_cpu :: u32
  wd_waker_tid :: u32
  wd_seq :: u32

record fault_counters =
  fc_maj :: u64
  fc_min :: u64

record kms_flip_key =
  kk_provider :: u32
  kk_card_minor_known :: u32
  kk_card_minor :: u32
  kk_crtc_id :: u32
  kk_pipe :: u32

record fence_key =
  fk_context :: u64
  fk_seqno :: u64

record fence_wait_start =
  fw_ts :: u64
  fw_pid :: u32
  fw_tid :: u32
  fw_provider :: u32
  fw_gpu_role :: u32

record fence_signal =
  fs_ts :: u64
  fs_provider :: u32
  fs_gpu_role :: u32

record io_start =
  io_ts :: u64
  io_tid :: u32

text \<open>
  Hash maps are partial functions, arrays total ones read through \<open>array_get\<close>. \<open>DROP_COUNTERS\<close> is a per-CPU
  array: its first index is the CPU. \<open>EVENTS\<close> holds the submitted events, oldest first.
\<close>

record bpf_maps =
  EVENTS :: "bpf_event list"
  TARGET_PIDS :: "u32 set"
  TARGET_CGROUP_IDS :: "u64 set"
  TARGET_PENDING_WAKEUPS :: "u32 \<Rightarrow> u32"
  CPU_RUNNABLE_DEPTH :: "u32 \<Rightarrow> u32"
  RUNNABLE_TASK_CPU :: "u32 \<Rightarrow> u32 option"
  PREV_FAULTS :: "u32 \<Rightarrow> fault_counters option"
  KMS_FLIP_STARTS :: "kms_flip_key \<Rightarrow> u64 option"
  FENCE_WAIT_STARTS :: "fence_key \<Rightarrow> fence_wait_start option"
  FENCE_SIGNAL_TIMES :: "fence_key \<Rightarrow> fence_signal option"
  DROP_COUNTERS :: "u32 \<Rightarrow> u32 \<Rightarrow> u64"
  WAKEUP_DATA :: "u32 \<Rightarrow> wakeup_data option"
  WAKEUP_CONSUMED :: "u32 \<Rightarrow> wakeup_data option"
  WAKEUP_SEQ :: "u32 \<Rightarrow> u32 option"
  TARGET_IRQS :: "u32 set"
  IRQ_START_TIMES :: "u64 \<Rightarrow> u64 option"
  BLOCK_START :: "u64 \<Rightarrow> io_start option"

definition empty_maps :: bpf_maps where
  "empty_maps =
     \<lparr>EVENTS = [], TARGET_PIDS = {}, TARGET_CGROUP_IDS = {}, TARGET_PENDING_WAKEUPS = (\<lambda>_. 0),
      CPU_RUNNABLE_DEPTH = (\<lambda>_. 0), RUNNABLE_TASK_CPU = (\<lambda>_. None), PREV_FAULTS = (\<lambda>_. None),
      KMS_FLIP_STARTS = (\<lambda>_. None), FENCE_WAIT_STARTS = (\<lambda>_. None), FENCE_SIGNAL_TIMES = (\<lambda>_. None),
      DROP_COUNTERS = (\<lambda>_ _. 0), WAKEUP_DATA = (\<lambda>_. None), WAKEUP_CONSUMED = (\<lambda>_. None),
      WAKEUP_SEQ = (\<lambda>_. None), TARGET_IRQS = {}, IRQ_START_TIMES = (\<lambda>_. None), BLOCK_START = (\<lambda>_. None)\<rparr>"

datatype bpf_map_id =
    M_WakeupData | M_WakeupConsumed | M_WakeupSeq | M_RunnableTaskCpu | M_PrevFaults | M_KmsFlipStarts
  | M_FenceWaitStarts | M_FenceSignalTimes | M_IrqStartTimes | M_BlockStart

text \<open>
  What one run of a program gets from the kernel: the clock, the current task, CPU, cgroup and command name,
  and the outcome of the operations that can fail.
\<close>

record probe_env =
  pv_ktime_ns :: u64
  pv_pid_tgid :: u64
  pv_cpu :: u32
  pv_cgroup_id :: u64
  pv_comm :: "byte list option"
  pv_insert_fails :: "bpf_map_id \<Rightarrow> bool"
  pv_reserve_fails :: bool
  pv_evicted :: "u64 set"

definition current_tid :: "probe_env \<Rightarrow> u32" where
  "current_tid env = ucast (pv_pid_tgid env)"

definition current_tgid :: "probe_env \<Rightarrow> u32" where
  "current_tgid env = ucast (drop_bit 32 (pv_pid_tgid env))"

text \<open>\<open>Array::get\<close> and \<open>get_ptr_mut\<close>: no element at or above the number of entries.\<close>

definition array_get :: "u32 \<Rightarrow> (u32 \<Rightarrow> 'a) \<Rightarrow> u32 \<Rightarrow> 'a option" where
  "array_get max_entries a i = (if i < max_entries then Some (a i) else None)"

definition map_insert :: "probe_env \<Rightarrow> bpf_map_id \<Rightarrow> 'k \<Rightarrow> 'v \<Rightarrow> ('k \<Rightarrow> 'v option) \<Rightarrow> ('k \<Rightarrow> 'v option) option" where
  "map_insert env i k v m = (if pv_insert_fails env i then None else Some (m(k \<mapsto> v)))"

section \<open>Filters, counters, events\<close>

definition valid_cpu :: "u32 \<Rightarrow> bool" where
  "valid_cpu cpu \<longleftrightarrow> cpu < BPF_MAX_TRACKED_CPUS"

definition is_target_pid :: "bpf_maps \<Rightarrow> u32 \<Rightarrow> bool" where
  "is_target_pid m pid \<longleftrightarrow> pid \<in> TARGET_PIDS m"

definition is_target_current_cgroup :: "probe_env \<Rightarrow> bpf_maps \<Rightarrow> bool" where
  "is_target_current_cgroup env m \<longleftrightarrow> pv_cgroup_id env \<in> TARGET_CGROUP_IDS m"

definition is_target_pid_or_current_cgroup :: "probe_env \<Rightarrow> bpf_maps \<Rightarrow> u32 \<Rightarrow> bool" where
  "is_target_pid_or_current_cgroup env m pid \<longleftrightarrow> is_target_pid m pid \<or> is_target_current_cgroup env m"

definition increment_drop_counter :: "probe_env \<Rightarrow> u32 \<Rightarrow> bpf_maps \<Rightarrow> bpf_maps" where
  "increment_drop_counter env reason m =
     (case array_get DROP_COUNTERS_MAX (DROP_COUNTERS m (pv_cpu env)) reason of
        None \<Rightarrow> m
      | Some counter \<Rightarrow>
          m\<lparr>DROP_COUNTERS := (DROP_COUNTERS m)(pv_cpu env :=
              (DROP_COUNTERS m (pv_cpu env))(reason := saturating_add counter 1))\<rparr>)"

definition emit_ringbuf_event :: "probe_env \<Rightarrow> bpf_event \<Rightarrow> bpf_maps \<Rightarrow> bpf_maps" where
  "emit_ringbuf_event env ev m =
     (if pv_reserve_fails env then increment_drop_counter env DROP_RINGBUF_RESERVE_FAILED m
      else m\<lparr>EVENTS := EVENTS m @ [ev]\<rparr>)"

section \<open>Reading tracepoint fields\<close>

record tracepoint_ctx =
  read_u32 :: "nat \<Rightarrow> u32 option"
  read_u64 :: "nat \<Rightarrow> u64 option"
  read_comm16 :: "nat \<Rightarrow> byte list option"

definition read_optional_u32 :: "tracepoint_ctx \<Rightarrow> u32 \<Rightarrow> u32 option" where
  "read_optional_u32 ctx offset = (if offset = 0 then None else read_u32 ctx (unat offset))"

definition read_optional_u64 :: "tracepoint_ctx \<Rightarrow> u32 \<Rightarrow> u64 option" where
  "read_optional_u64 ctx offset = (if offset = 0 then None else read_u64 ctx (unat offset))"

definition read_sequence_field :: "tracepoint_ctx \<Rightarrow> u32 \<Rightarrow> u32 \<Rightarrow> u64 option" where
  "read_sequence_field ctx offset width =
     (if offset = 0 then None
      else if 8 \<le> width then read_u64 ctx (unat offset)
      else map_option ucast (read_u32 ctx (unat offset)))"

end
