(* ===== verification/Ebpf_Scheduler.thy ===== *)
theory Ebpf_Scheduler
  imports Ebpf_Maps
begin

text \<open>
  The scheduler programs: the wakeup hand-off (\<open>wakeup_data.rs\<close>), runnable-depth accounting
  (\<open>runnable_depth.rs\<close>), the scheduler tracepoints (\<open>scheduler.rs\<close>) and the process lifecycle
  (\<open>process_lifecycle.rs\<close>).
\<close>

section \<open>The wakeup hand-off\<close>

definition wakeup_default :: wakeup_data where
  "wakeup_default = \<lparr>wd_ts = 0, wd_target_cpu = 0, wd_waker_tid = 0, wd_seq = 0\<rparr>"

definition next_wakeup_seq :: "probe_env \<Rightarrow> u32 \<Rightarrow> bpf_maps \<Rightarrow> u32 option \<times> bpf_maps" where
  "next_wakeup_seq env pid m =
     (let nxt = (case WAKEUP_SEQ m pid of Some seq \<Rightarrow> seq + 1 | None \<Rightarrow> 1)
      in case map_insert env M_WakeupSeq pid nxt (WAKEUP_SEQ m) of
           None \<Rightarrow> (None, m)
         | Some s \<Rightarrow> (Some nxt, m\<lparr>WAKEUP_SEQ := s\<rparr>))"

datatype wakeup_record_result =
    WAKEUP_RECORD_INSERT_FAILED
  | WAKEUP_RECORD_NEW_PENDING
  | WAKEUP_RECORD_REPLACED_PENDING_SAME_CPU
  | WAKEUP_RECORD_REPLACED_PENDING_MOVED_CPU

datatype wakeup_consume_result =
    WAKEUP_CONSUME_NONE
  | WAKEUP_CONSUME_OK
  | WAKEUP_CONSUME_CURSOR_INSERT_FAILED

definition same_wakeup_value :: "wakeup_data \<Rightarrow> wakeup_data \<Rightarrow> bool" where
  "same_wakeup_value consumed d \<longleftrightarrow>
     wd_ts consumed = wd_ts d \<and> wd_target_cpu consumed = wd_target_cpu d
     \<and> wd_waker_tid consumed = wd_waker_tid d \<and> wd_seq consumed = wd_seq d"

definition same_wakeup_consumed :: "bpf_maps \<Rightarrow> u32 \<Rightarrow> wakeup_data \<Rightarrow> bool" where
  "same_wakeup_consumed m pid d =
     (case WAKEUP_CONSUMED m pid of Some consumed \<Rightarrow> same_wakeup_value consumed d | None \<Rightarrow> False)"

definition record_wakeup ::
  "probe_env \<Rightarrow> u32 \<Rightarrow> wakeup_data \<Rightarrow> bpf_maps \<Rightarrow> wakeup_record_result \<times> wakeup_data \<times> bpf_maps" where
  "record_wakeup env pid d m =
     (let (old, had_pending_old) =
        (case WAKEUP_DATA m pid of
           Some existing \<Rightarrow> (existing, \<not> same_wakeup_consumed m pid existing)
         | None \<Rightarrow> (wakeup_default, False))
      in case map_insert env M_WakeupData pid d (WAKEUP_DATA m) of
           None \<Rightarrow> (WAKEUP_RECORD_INSERT_FAILED, old, m)
         | Some new_data \<Rightarrow>
            (let m = m\<lparr>WAKEUP_DATA := new_data, WAKEUP_CONSUMED := (WAKEUP_CONSUMED m)(pid := None)\<rparr>
             in if \<not> had_pending_old then (WAKEUP_RECORD_NEW_PENDING, old, m)
                else if wd_target_cpu old = wd_target_cpu d
                then (WAKEUP_RECORD_REPLACED_PENDING_SAME_CPU, old, m)
                else (WAKEUP_RECORD_REPLACED_PENDING_MOVED_CPU, old, m)))"

definition consume_pending_wakeup ::
  "probe_env \<Rightarrow> u32 \<Rightarrow> bpf_maps \<Rightarrow> wakeup_consume_result \<times> wakeup_data \<times> bpf_maps" where
  "consume_pending_wakeup env pid m =
     (case WAKEUP_DATA m pid of
        None \<Rightarrow> (WAKEUP_CONSUME_NONE, wakeup_default, m)
      | Some out \<Rightarrow>
         (if same_wakeup_consumed m pid out then (WAKEUP_CONSUME_NONE, out, m)
          else case map_insert env M_WakeupConsumed pid out (WAKEUP_CONSUMED m) of
                 None \<Rightarrow> (WAKEUP_CONSUME_CURSOR_INSERT_FAILED, out, m)
               | Some c \<Rightarrow> (WAKEUP_CONSUME_OK, out, m\<lparr>WAKEUP_CONSUMED := c\<rparr>)))"

definition drop_pending_wakeup_after_cursor_failure :: "u32 \<Rightarrow> wakeup_data \<Rightarrow> bpf_maps \<Rightarrow> bool \<times> bpf_maps" where
  "drop_pending_wakeup_after_cursor_failure pid expected m =
     (case WAKEUP_DATA m pid of
        None \<Rightarrow> (False, m)
      | Some current \<Rightarrow>
         (if \<not> same_wakeup_value current expected \<or> same_wakeup_consumed m pid expected then (False, m)
          else (True, m\<lparr>WAKEUP_DATA := (WAKEUP_DATA m)(pid := None),
                        WAKEUP_CONSUMED := (WAKEUP_CONSUMED m)(pid := None)\<rparr>)))"

definition remove_for_exit :: "u32 \<Rightarrow> bpf_maps \<Rightarrow> bool \<times> wakeup_data \<times> bpf_maps" where
  "remove_for_exit pid m =
     (let (was_pending, out) =
        (case WAKEUP_DATA m pid of
           Some d \<Rightarrow> (\<not> same_wakeup_consumed m pid d, d)
         | None \<Rightarrow> (False, wakeup_default))
      in (was_pending, out,
          m\<lparr>WAKEUP_DATA := (WAKEUP_DATA m)(pid := None), WAKEUP_CONSUMED := (WAKEUP_CONSUMED m)(pid := None),
            WAKEUP_SEQ := (WAKEUP_SEQ m)(pid := None)\<rparr>))"

section \<open>Runnable depth\<close>

definition read_cpu_runnable_depth :: "u32 \<Rightarrow> bpf_maps \<Rightarrow> u32" where
  "read_cpu_runnable_depth cpu m =
     (if \<not> valid_cpu cpu then 0
      else case array_get BPF_MAX_TRACKED_CPUS (CPU_RUNNABLE_DEPTH m) cpu of Some d \<Rightarrow> d | None \<Rightarrow> 0)"

text \<open>
  \<open>CPU_RUNNABLE_DEPTH\<close> is a plain array shared by all CPUs, and an update is a load through the pointer of
  \<open>get_ptr_mut\<close> followed by a store, with nothing that makes the two one step. Inside one program run they
  follow each other; what happens when the updates of two runs overlap is in \<open>Ebpf_Properties\<close>.
\<close>

definition load_cpu_runnable_depth :: "u32 \<Rightarrow> bpf_maps \<Rightarrow> u32 option" where
  "load_cpu_runnable_depth cpu m = array_get BPF_MAX_TRACKED_CPUS (CPU_RUNNABLE_DEPTH m) cpu"

definition store_cpu_runnable_depth :: "u32 \<Rightarrow> u32 \<Rightarrow> bpf_maps \<Rightarrow> bpf_maps" where
  "store_cpu_runnable_depth cpu depth m = m\<lparr>CPU_RUNNABLE_DEPTH := (CPU_RUNNABLE_DEPTH m)(cpu := depth)\<rparr>"

definition increment_cpu_runnable_depth :: "u32 \<Rightarrow> bpf_maps \<Rightarrow> bpf_maps" where
  "increment_cpu_runnable_depth cpu m =
     (if \<not> valid_cpu cpu then m
      else case load_cpu_runnable_depth cpu m of
             None \<Rightarrow> m
           | Some depth \<Rightarrow> store_cpu_runnable_depth cpu (saturating_add depth 1) m)"

definition decrement_cpu_runnable_depth :: "u32 \<Rightarrow> bpf_maps \<Rightarrow> bpf_maps" where
  "decrement_cpu_runnable_depth cpu m =
     (if \<not> valid_cpu cpu then m
      else case load_cpu_runnable_depth cpu m of
             None \<Rightarrow> m
           | Some depth \<Rightarrow> store_cpu_runnable_depth cpu (saturating_sub depth 1) m)"

definition mark_task_runnable :: "probe_env \<Rightarrow> u32 \<Rightarrow> u32 \<Rightarrow> bpf_maps \<Rightarrow> bool \<times> bpf_maps" where
  "mark_task_runnable env pid target_cpu m =
     (if pid = 0 then (False, m)
      else if \<not> valid_cpu target_cpu then (False, increment_drop_counter env DROP_CPU_ACCOUNTING_UNTRACKED m)
      else case RUNNABLE_TASK_CPU m pid of
             Some old_cpu \<Rightarrow>
               if old_cpu = target_cpu then (True, m)
               else (case map_insert env M_RunnableTaskCpu pid target_cpu (RUNNABLE_TASK_CPU m) of
                       None \<Rightarrow> (False, increment_drop_counter env DROP_CPU_ACCOUNTING_UNTRACKED m)
                     | Some r \<Rightarrow>
                         (True, increment_cpu_runnable_depth target_cpu
                                  (decrement_cpu_runnable_depth old_cpu (m\<lparr>RUNNABLE_TASK_CPU := r\<rparr>))))
           | None \<Rightarrow>
               (case map_insert env M_RunnableTaskCpu pid target_cpu (RUNNABLE_TASK_CPU m) of
                  None \<Rightarrow> (False, increment_drop_counter env DROP_CPU_ACCOUNTING_UNTRACKED m)
                | Some r \<Rightarrow> (True, increment_cpu_runnable_depth target_cpu (m\<lparr>RUNNABLE_TASK_CPU := r\<rparr>))))"

definition mark_task_running :: "u32 \<Rightarrow> u32 \<Rightarrow> bpf_maps \<Rightarrow> bpf_maps" where
  "mark_task_running pid current_cpu m =
     (if pid = 0 then m
      else case RUNNABLE_TASK_CPU m pid of
             None \<Rightarrow> m
           | Some stored_cpu \<Rightarrow>
               (let m = decrement_cpu_runnable_depth (if valid_cpu stored_cpu then stored_cpu else current_cpu) m
                in m\<lparr>RUNNABLE_TASK_CPU := (RUNNABLE_TASK_CPU m)(pid := None)\<rparr>))"

definition remove_runnable_task_if_present :: "u32 \<Rightarrow> bpf_maps \<Rightarrow> bpf_maps" where
  "remove_runnable_task_if_present pid m =
     (if pid = 0 then m
      else case RUNNABLE_TASK_CPU m pid of
             None \<Rightarrow> m
           | Some cpu \<Rightarrow>
               (let m = decrement_cpu_runnable_depth cpu m
                in m\<lparr>RUNNABLE_TASK_CPU := (RUNNABLE_TASK_CPU m)(pid := None)\<rparr>))"

definition increment_target_pending :: "probe_env \<Rightarrow> u32 \<Rightarrow> bpf_maps \<Rightarrow> bpf_maps" where
  "increment_target_pending env cpu m =
     (if \<not> valid_cpu cpu then increment_drop_counter env DROP_CPU_ACCOUNTING_UNTRACKED m
      else case array_get BPF_MAX_TRACKED_CPUS (TARGET_PENDING_WAKEUPS m) cpu of
             None \<Rightarrow> m
           | Some depth \<Rightarrow> m\<lparr>TARGET_PENDING_WAKEUPS := (TARGET_PENDING_WAKEUPS m)(cpu := saturating_add depth 1)\<rparr>)"

definition decrement_target_pending :: "u32 \<Rightarrow> bpf_maps \<Rightarrow> bpf_maps" where
  "decrement_target_pending cpu m =
     (if \<not> valid_cpu cpu then m
      else case array_get BPF_MAX_TRACKED_CPUS (TARGET_PENDING_WAKEUPS m) cpu of
             None \<Rightarrow> m
           | Some depth \<Rightarrow> m\<lparr>TARGET_PENDING_WAKEUPS := (TARGET_PENDING_WAKEUPS m)(cpu := saturating_sub depth 1)\<rparr>)"

section \<open>The scheduler tracepoints\<close>

definition SCHED_WAKEUP_PID_OFFSET :: nat where "SCHED_WAKEUP_PID_OFFSET = 24"
definition SCHED_WAKEUP_TARGET_CPU_OFFSET :: nat where "SCHED_WAKEUP_TARGET_CPU_OFFSET = 32"
definition SCHED_SWITCH_PREV_PID_OFFSET :: nat where "SCHED_SWITCH_PREV_PID_OFFSET = 24"
definition SCHED_SWITCH_PREV_STATE_OFFSET :: nat where "SCHED_SWITCH_PREV_STATE_OFFSET = 32"
definition SCHED_SWITCH_NEXT_COMM_OFFSET :: nat where "SCHED_SWITCH_NEXT_COMM_OFFSET = 40"
definition SCHED_SWITCH_NEXT_PID_OFFSET :: nat where "SCHED_SWITCH_NEXT_PID_OFFSET = 56"
definition SCHED_SWITCH_NEXT_PRIO_OFFSET :: nat where "SCHED_SWITCH_NEXT_PRIO_OFFSET = 60"

text \<open>The effect of a recorded wakeup on the accounting (the \<open>match\<close> of \<open>try_sched_wakeup\<close>).\<close>

definition account_wakeup ::
  "probe_env \<Rightarrow> u32 \<Rightarrow> u32 \<Rightarrow> wakeup_record_result \<Rightarrow> wakeup_data \<Rightarrow> bpf_maps \<Rightarrow> bpf_maps" where
  "account_wakeup env pid target_cpu r old m =
     (case r of
        WAKEUP_RECORD_INSERT_FAILED \<Rightarrow> increment_drop_counter env DROP_WAKEUP_DATA_INSERT_FAILED m
      | WAKEUP_RECORD_NEW_PENDING \<Rightarrow>
          (case mark_task_runnable env pid target_cpu m of
             (tracked, m) \<Rightarrow> if tracked then increment_target_pending env target_cpu m else m)
      | WAKEUP_RECORD_REPLACED_PENDING_MOVED_CPU \<Rightarrow>
          (case mark_task_runnable env pid target_cpu
                  (decrement_target_pending (wd_target_cpu old)
                    (increment_drop_counter env DROP_WAKEUP_DATA_REPLACED_ENTRY m)) of
             (tracked, m) \<Rightarrow> if tracked then increment_target_pending env target_cpu m else m)
      | WAKEUP_RECORD_REPLACED_PENDING_SAME_CPU \<Rightarrow>
          (case mark_task_runnable env pid target_cpu m of
             (_, m) \<Rightarrow> increment_drop_counter env DROP_WAKEUP_DATA_REPLACED_ENTRY m))"

definition try_sched_wakeup :: "probe_env \<Rightarrow> tracepoint_ctx \<Rightarrow> bpf_maps \<Rightarrow> u32 \<times> bpf_maps" where
  "try_sched_wakeup env ctx m =
     (case read_u32 ctx SCHED_WAKEUP_PID_OFFSET of
        None \<Rightarrow> (1, m)
      | Some pid \<Rightarrow>
         (case read_u32 ctx SCHED_WAKEUP_TARGET_CPU_OFFSET of
            None \<Rightarrow> (1, m)
          | Some target_cpu \<Rightarrow>
              if sint pid \<le> 0 then (0, m)
              else if \<not> is_target_pid m pid then (0, m)
              else case next_wakeup_seq env pid m of
                     (None, m) \<Rightarrow> (0, increment_drop_counter env DROP_WAKEUP_DATA_INSERT_FAILED m)
                   | (Some seq, m) \<Rightarrow>
                      (case record_wakeup env pid
                              \<lparr>wd_ts = pv_ktime_ns env, wd_target_cpu = target_cpu,
                               wd_waker_tid = current_tid env, wd_seq = seq\<rparr> m of
                         (r, old, m) \<Rightarrow> (0, account_wakeup env pid target_cpu r old m))))"

text \<open>Giving up on a consumed wakeup: one drop reason, and the task is no longer counted anywhere.\<close>

definition abandon_wakeup :: "probe_env \<Rightarrow> u32 \<Rightarrow> u32 \<Rightarrow> wakeup_data \<Rightarrow> bpf_maps \<Rightarrow> bpf_maps" where
  "abandon_wakeup env reason pid d m =
     remove_runnable_task_if_present pid
       (decrement_target_pending (wd_target_cpu d) (increment_drop_counter env reason m))"

text \<open>The second half of \<open>try_sched_switch\<close>, from the moment the task is known to run.\<close>

definition report_switch ::
  "probe_env \<Rightarrow> tracepoint_ctx \<Rightarrow> u32 \<Rightarrow> wakeup_data \<Rightarrow> u32 \<Rightarrow> u64 \<Rightarrow> bpf_maps \<Rightarrow> u32 \<times> bpf_maps" where
  "report_switch env ctx pid d prev_pid_raw prev_state m =
     (let switch_prev_pid = (if 0 < sint prev_pid_raw then prev_pid_raw else 0);
          cpu = pv_cpu env;
          m = mark_task_running pid cpu m;
          observed_runnable_depth = read_cpu_runnable_depth cpu m;
          m = decrement_target_pending (wd_target_cpu d) m;
          target_pending_wakeups =
            (if valid_cpu cpu
             then (case array_get BPF_MAX_TRACKED_CPUS (TARGET_PENDING_WAKEUPS m) cpu of Some n \<Rightarrow> n | None \<Rightarrow> 0)
             else 0);
          switch_ns = pv_ktime_ns env;
          latency_ns = saturating_sub switch_ns (wd_ts d);
          faults = (case PREV_FAULTS m pid of Some f \<Rightarrow> f | None \<Rightarrow> \<lparr>fc_maj = 0, fc_min = 0\<rparr>)
      in case read_u32 ctx SCHED_SWITCH_NEXT_PRIO_OFFSET of
           None \<Rightarrow> (1, increment_drop_counter env DROP_WAKEUP_DATA_CONSUMED_READ_FAILED m)
         | Some prio \<Rightarrow>
            (case read_comm16 ctx SCHED_SWITCH_NEXT_COMM_OFFSET of
               None \<Rightarrow> (1, increment_drop_counter env DROP_WAKEUP_DATA_CONSUMED_READ_FAILED m)
             | Some comm \<Rightarrow>
                 (0, emit_ringbuf_event env (EVENT_RUNNABLE_LATENCY
                       \<lparr>se_tid = pid, se_cpu = cpu, se_wakeup_target_cpu = wd_target_cpu d, se_prio = prio,
                        se_waker_tid = wd_waker_tid d, se_target_pending_wakeups = target_pending_wakeups,
                        se_observed_runnable_depth = observed_runnable_depth, se_maj_flt = fc_maj faults,
                        se_min_flt = fc_min faults, se_wakeup_ns = wd_ts d, se_switch_ns = switch_ns,
                        se_latency_ns = latency_ns, se_comm = comm, se_switch_prev_pid = switch_prev_pid,
                        se_switch_prev_state = prev_state\<rparr>) m)))"

definition try_sched_switch :: "probe_env \<Rightarrow> tracepoint_ctx \<Rightarrow> bpf_maps \<Rightarrow> u32 \<times> bpf_maps" where
  "try_sched_switch env ctx m =
     (case read_u32 ctx SCHED_SWITCH_NEXT_PID_OFFSET of
        None \<Rightarrow> (1, m)
      | Some pid \<Rightarrow>
          if sint pid \<le> 0 then (0, m)
          else case consume_pending_wakeup env pid m of
                 (WAKEUP_CONSUME_NONE, _, m) \<Rightarrow> (0, m)
               | (WAKEUP_CONSUME_CURSOR_INSERT_FAILED, d, m) \<Rightarrow>
                  (let m = increment_drop_counter env DROP_WAKEUP_DATA_INSERT_FAILED m
                   in case drop_pending_wakeup_after_cursor_failure pid d m of
                        (True, m) \<Rightarrow>
                          (0, remove_runnable_task_if_present pid (decrement_target_pending (wd_target_cpu d) m))
                      | (False, m) \<Rightarrow> (0, m))
               | (WAKEUP_CONSUME_OK, d, m) \<Rightarrow>
                   if \<not> is_target_pid m pid then (0, abandon_wakeup env DROP_WAKEUP_DATA_STALE_ENTRY pid d m)
                   else case read_u32 ctx SCHED_SWITCH_PREV_PID_OFFSET of
                          None \<Rightarrow> (1, abandon_wakeup env DROP_WAKEUP_DATA_CONSUMED_READ_FAILED pid d m)
                        | Some prev_pid_raw \<Rightarrow>
                           (case read_u64 ctx SCHED_SWITCH_PREV_STATE_OFFSET of
                              None \<Rightarrow> (1, abandon_wakeup env DROP_WAKEUP_DATA_CONSUMED_READ_FAILED pid d m)
                            | Some prev_state \<Rightarrow> report_switch env ctx pid d prev_pid_raw prev_state m))"

definition SCHED_MIGRATE_TASK_PID_OFFSET :: nat where "SCHED_MIGRATE_TASK_PID_OFFSET = 12"
definition SCHED_MIGRATE_TASK_ORIG_CPU_OFFSET :: nat where "SCHED_MIGRATE_TASK_ORIG_CPU_OFFSET = 20"
definition SCHED_MIGRATE_TASK_DEST_CPU_OFFSET :: nat where "SCHED_MIGRATE_TASK_DEST_CPU_OFFSET = 24"
definition SCHED_STAT_WAIT_PID_OFFSET :: nat where "SCHED_STAT_WAIT_PID_OFFSET = 8"
definition SCHED_STAT_WAIT_DELAY_OFFSET :: nat where "SCHED_STAT_WAIT_DELAY_OFFSET = 16"

definition try_sched_migrate_task :: "probe_env \<Rightarrow> tracepoint_ctx \<Rightarrow> bpf_maps \<Rightarrow> u32 \<times> bpf_maps" where
  "try_sched_migrate_task env ctx m =
     (case read_u32 ctx SCHED_MIGRATE_TASK_PID_OFFSET of
        None \<Rightarrow> (1, m)
      | Some pid \<Rightarrow>
          if sint pid \<le> 0 then (0, m)
          else if \<not> is_target_pid m pid then (0, m)
          else case read_u32 ctx SCHED_MIGRATE_TASK_ORIG_CPU_OFFSET of
                 None \<Rightarrow> (1, m)
               | Some orig_cpu \<Rightarrow>
                  (case read_u32 ctx SCHED_MIGRATE_TASK_DEST_CPU_OFFSET of
                     None \<Rightarrow> (1, m)
                   | Some new_cpu \<Rightarrow>
                      (let m = (case RUNNABLE_TASK_CPU m pid of
                                  Some old_cpu \<Rightarrow>
                                    if old_cpu \<noteq> new_cpu then snd (mark_task_runnable env pid new_cpu m) else m
                                | None \<Rightarrow> m)
                       in (0, emit_ringbuf_event env (EVENT_MIGRATION
                                \<lparr>me_tid = pid, me_from_cpu = orig_cpu, me_to_cpu = new_cpu,
                                 me_timestamp_ns = pv_ktime_ns env\<rparr>) m))))"

definition try_sched_stat_wait :: "probe_env \<Rightarrow> tracepoint_ctx \<Rightarrow> bpf_maps \<Rightarrow> u32 \<times> bpf_maps" where
  "try_sched_stat_wait env ctx m =
     (case read_u32 ctx SCHED_STAT_WAIT_PID_OFFSET of
        None \<Rightarrow> (1, m)
      | Some pid \<Rightarrow>
          if sint pid \<le> 0 then (0, m)
          else if \<not> is_target_pid m pid then (0, m)
          else case read_u64 ctx SCHED_STAT_WAIT_DELAY_OFFSET of
                 None \<Rightarrow> (1, m)
               | Some delay \<Rightarrow>
                   (0, emit_ringbuf_event env (EVENT_STAT_WAIT \<lparr>we_tid = pid, we_delay_ns = delay\<rparr>) m))"

section \<open>Process lifecycle\<close>

definition try_sched_process_exec :: "probe_env \<Rightarrow> bpf_maps \<Rightarrow> u32 \<times> bpf_maps" where
  "try_sched_process_exec env m =
     (let pid = current_tgid env; tid = current_tid env
      in if \<not> is_target_pid m pid \<and> \<not> is_target_pid_or_current_cgroup env m tid then (0, m)
         else (0, emit_ringbuf_event env (EVENT_EXEC
                    \<lparr>xe_pid = pid, xe_tid = tid,
                     xe_comm = (case pv_comm env of Some c \<Rightarrow> c | None \<Rightarrow> replicate 16 0)\<rparr>) m))"

definition try_sched_process_exit :: "probe_env \<Rightarrow> bpf_maps \<Rightarrow> u32 \<times> bpf_maps" where
  "try_sched_process_exit env m =
     (let tid = current_tid env;
          m = remove_runnable_task_if_present tid m;
          (was_pending, old, m) = remove_for_exit tid m;
          m = (if was_pending then decrement_target_pending (wd_target_cpu old) m else m)
      in (0, m\<lparr>PREV_FAULTS := (PREV_FAULTS m)(tid := None)\<rparr>))"

text \<open>The counters of a task; the release build wraps on overflow.\<close>

definition count_fault :: "probe_env \<Rightarrow> fault_counters \<Rightarrow> bpf_maps \<Rightarrow> u32 \<times> bpf_maps" where
  "count_fault env one m =
     (let tid = current_tid env
      in if is_target_pid_or_current_cgroup env m tid
         then (case PREV_FAULTS m tid of
                 Some c \<Rightarrow>
                   (0, m\<lparr>PREV_FAULTS := (PREV_FAULTS m)(tid \<mapsto>
                        \<lparr>fc_maj = fc_maj c + fc_maj one, fc_min = fc_min c + fc_min one\<rparr>)\<rparr>)
               | None \<Rightarrow>
                  (case map_insert env M_PrevFaults tid one (PREV_FAULTS m) of
                     Some f \<Rightarrow> (0, m\<lparr>PREV_FAULTS := f\<rparr>)
                   | None \<Rightarrow> (0, m)))
         else (0, m))"

definition try_major_fault :: "probe_env \<Rightarrow> bpf_maps \<Rightarrow> u32 \<times> bpf_maps" where
  "try_major_fault env m = count_fault env \<lparr>fc_maj = 1, fc_min = 0\<rparr> m"

definition try_minor_fault :: "probe_env \<Rightarrow> bpf_maps \<Rightarrow> u32 \<times> bpf_maps" where
  "try_minor_fault env m = count_fault env \<lparr>fc_maj = 0, fc_min = 1\<rparr> m"

end
