(* ===== verification/Ebpf_Io.thy ===== *)
theory Ebpf_Io
  imports Ebpf_Maps
begin

unbundle bit_operations_syntax

text \<open>
  The programs that pair a start with a completion: interrupts (\<open>irq.rs\<close>), block requests (\<open>block_io.rs\<close>),
  display flips (\<open>kms.rs\<close>, \<open>kms_emit.rs\<close>) and DRM fences (\<open>drm_fence.rs\<close>), and CPU frequency changes
  (\<open>cpu_frequency.rs\<close>). The field offsets that userspace writes into the object before loading
  (\<open>trace_offsets.rs\<close>) are the record \<open>trace_offsets\<close>.
\<close>

section \<open>Interrupts\<close>

definition IRQ_HANDLER_IRQ_OFFSET :: nat where "IRQ_HANDLER_IRQ_OFFSET = 8"

definition irq_key :: "u32 \<Rightarrow> u32 \<Rightarrow> u64" where
  "irq_key irq cpu = push_bit 32 (ucast irq) OR ucast cpu"

definition is_target_irq :: "bpf_maps \<Rightarrow> u32 \<Rightarrow> bool" where
  "is_target_irq m irq \<longleftrightarrow> irq \<in> TARGET_IRQS m"

definition try_irq_handler_entry :: "probe_env \<Rightarrow> tracepoint_ctx \<Rightarrow> bpf_maps \<Rightarrow> u32 \<times> bpf_maps" where
  "try_irq_handler_entry env ctx m =
     (case read_u32 ctx IRQ_HANDLER_IRQ_OFFSET of
        None \<Rightarrow> (1, m)
      | Some irq \<Rightarrow>
          if sint irq < 0 then (0, m)
          else if \<not> is_target_irq m irq then (0, m)
          else case map_insert env M_IrqStartTimes (irq_key irq (pv_cpu env)) (pv_ktime_ns env) (IRQ_START_TIMES m) of
                 None \<Rightarrow> (0, increment_drop_counter env DROP_IRQ_START_TIMES_INSERT_FAILED m)
               | Some s \<Rightarrow> (0, m\<lparr>IRQ_START_TIMES := s\<rparr>))"

definition try_irq_handler_exit :: "probe_env \<Rightarrow> tracepoint_ctx \<Rightarrow> bpf_maps \<Rightarrow> u32 \<times> bpf_maps" where
  "try_irq_handler_exit env ctx m =
     (case read_u32 ctx IRQ_HANDLER_IRQ_OFFSET of
        None \<Rightarrow> (1, m)
      | Some irq \<Rightarrow>
          if sint irq < 0 then (0, m)
          else if \<not> is_target_irq m irq then (0, m)
          else let key = irq_key irq (pv_cpu env)
               in case IRQ_START_TIMES m key of
                    None \<Rightarrow> (0, m)
                  | Some enter_ns \<Rightarrow>
                     (let m = m\<lparr>IRQ_START_TIMES := (IRQ_START_TIMES m)(key := None)\<rparr>
                      in (0, emit_ringbuf_event env (EVENT_IRQ_LATENCY
                               \<lparr>ie_irq = irq, ie_cpu = pv_cpu env, ie_enter_ns = enter_ns,
                                ie_exit_ns = pv_ktime_ns env,
                                ie_duration_ns = saturating_sub (pv_ktime_ns env) enter_ns\<rparr>) m)))"

section \<open>Block requests\<close>

record trace_offsets =
  to_block_rq_key :: u32
  to_block_rq_issue_nr_sector :: u32
  to_block_rq_issue_rwbs :: u32
  to_block_rq_complete_nr_sector :: u32
  to_block_rq_complete_rwbs :: u32

definition BLOCK_RQ_DEV_OFFSET :: nat where "BLOCK_RQ_DEV_OFFSET = 8"
definition BLOCK_RQ_SECTOR_OFFSET :: nat where "BLOCK_RQ_SECTOR_OFFSET = 16"

definition read_or_zero :: "'a option \<Rightarrow> 'a::zero" where
  "read_or_zero v = (case v of Some x \<Rightarrow> x | None \<Rightarrow> 0)"

definition block_rq_fallback_key :: "tracepoint_ctx \<Rightarrow> u64 \<Rightarrow> u32 \<Rightarrow> u32 \<Rightarrow> u32 \<Rightarrow> u64" where
  "block_rq_fallback_key ctx sector dev nr_sector_offset rwbs_offset =
     (let h = (sector * 11400714819323198485) XOR (ucast dev * 14029467366897019727);
          h = (if nr_sector_offset \<noteq> 0
               then h XOR (ucast (read_or_zero (read_u32 ctx (unat nr_sector_offset))) * 11500714819323198485)
               else h)
      in if rwbs_offset \<noteq> 0
         then h XOR (read_or_zero (read_u64 ctx (unat rwbs_offset)) * 11600714819323198485)
         else h)"

definition read_u32_or_zero :: "tracepoint_ctx \<Rightarrow> u32 \<Rightarrow> u32" where
  "read_u32_or_zero ctx offset = (if offset = 0 then 0 else read_or_zero (read_u32 ctx (unat offset)))"

text \<open>An insertion into the LRU map may evict any other entry.\<close>

definition lru_insert ::
  "probe_env \<Rightarrow> bpf_map_id \<Rightarrow> u64 \<Rightarrow> 'v \<Rightarrow> (u64 \<Rightarrow> 'v option) \<Rightarrow> (u64 \<Rightarrow> 'v option) option" where
  "lru_insert env i k v m = map_insert env i k v (\<lambda>k. if k \<in> pv_evicted env then None else m k)"

definition try_block_rq_issue :: "trace_offsets \<Rightarrow> probe_env \<Rightarrow> tracepoint_ctx \<Rightarrow> bpf_maps \<Rightarrow> u32 \<times> bpf_maps" where
  "try_block_rq_issue offs env ctx m =
     (case read_u32 ctx BLOCK_RQ_DEV_OFFSET of
        None \<Rightarrow> (1, m)
      | Some dev \<Rightarrow>
         (case read_u64 ctx BLOCK_RQ_SECTOR_OFFSET of
            None \<Rightarrow> (1, m)
          | Some sector \<Rightarrow>
             (let tid = current_tid env
              in if \<not> is_target_pid_or_current_cgroup env m tid then (0, m)
                 else let using_fallback_key = (to_block_rq_key offs = 0);
                          key = (if \<not> using_fallback_key
                                 then read_or_zero (read_u64 ctx (unat (to_block_rq_key offs)))
                                 else block_rq_fallback_key ctx sector dev (to_block_rq_issue_nr_sector offs)
                                        (to_block_rq_issue_rwbs offs))
                      in if key = 0 then (0, increment_drop_counter env DROP_BLOCK_ZERO_KEY m)
                         else if using_fallback_key \<and> BLOCK_START m key \<noteq> None
                         then (let m = increment_drop_counter env DROP_BLOCK_FALLBACK_KEY_COLLISION m
                               in (0, m\<lparr>BLOCK_START := (BLOCK_START m)(key := None)\<rparr>))
                         else case lru_insert env M_BlockStart key \<lparr>io_ts = pv_ktime_ns env, io_tid = tid\<rparr>
                                     (BLOCK_START m) of
                                None \<Rightarrow> (0, increment_drop_counter env DROP_BLOCK_START_INSERT_FAILED m)
                              | Some s \<Rightarrow> (0, m\<lparr>BLOCK_START := s\<rparr>))))"

definition try_block_rq_complete :: "trace_offsets \<Rightarrow> probe_env \<Rightarrow> tracepoint_ctx \<Rightarrow> bpf_maps \<Rightarrow> u32 \<times> bpf_maps" where
  "try_block_rq_complete offs env ctx m =
     (case read_u32 ctx BLOCK_RQ_DEV_OFFSET of
        None \<Rightarrow> (1, m)
      | Some dev \<Rightarrow>
         (case read_u64 ctx BLOCK_RQ_SECTOR_OFFSET of
            None \<Rightarrow> (1, m)
          | Some sector \<Rightarrow>
             (let nr_sector = read_u32_or_zero ctx (to_block_rq_complete_nr_sector offs);
                  key = (if to_block_rq_key offs \<noteq> 0
                         then read_or_zero (read_u64 ctx (unat (to_block_rq_key offs)))
                         else block_rq_fallback_key ctx sector dev (to_block_rq_complete_nr_sector offs)
                                (to_block_rq_complete_rwbs offs))
              in if key = 0 then (0, increment_drop_counter env DROP_BLOCK_ZERO_KEY m)
                 else case BLOCK_START m key of
                        None \<Rightarrow> (0, m)
                      | Some start \<Rightarrow>
                         (let m = m\<lparr>BLOCK_START := (BLOCK_START m)(key := None)\<rparr>;
                              now = pv_ktime_ns env;
                              rwbs = (if to_block_rq_complete_rwbs offs \<noteq> 0
                                      then read_or_zero (read_u64 ctx (unat (to_block_rq_complete_rwbs offs)))
                                      else 0)
                          in (0, emit_ringbuf_event env (EVENT_BLOCK_IO
                                   \<lparr>be_tid = io_tid start, be_dev = dev, be_nr_sector = nr_sector,
                                    be_sector = sector, be_duration_ns = saturating_sub now (io_ts start),
                                    be_timestamp_ns = now, be_rwbs = rwbs\<rparr>) m)))))"

section \<open>CPU frequency\<close>

definition CPU_FREQUENCY_STATE_OFFSET :: nat where "CPU_FREQUENCY_STATE_OFFSET = 8"
definition CPU_FREQUENCY_CPU_ID_OFFSET :: nat where "CPU_FREQUENCY_CPU_ID_OFFSET = 12"

definition try_cpu_frequency :: "probe_env \<Rightarrow> tracepoint_ctx \<Rightarrow> bpf_maps \<Rightarrow> u32 \<times> bpf_maps" where
  "try_cpu_frequency env ctx m =
     (case read_u32 ctx CPU_FREQUENCY_STATE_OFFSET of
        None \<Rightarrow> (1, m)
      | Some state \<Rightarrow>
         (case read_u32 ctx CPU_FREQUENCY_CPU_ID_OFFSET of
            None \<Rightarrow> (1, m)
          | Some cpu_id \<Rightarrow>
              (0, emit_ringbuf_event env (EVENT_CPU_FREQ
                    \<lparr>ce_cpu = cpu_id, ce_state = state, ce_timestamp_ns = pv_ktime_ns env\<rparr>) m)))"

section \<open>Display flips\<close>

definition KMS_FLIP_HAS_REQUEST_NS :: u32 where "KMS_FLIP_HAS_REQUEST_NS = 1"
definition KMS_FLIP_HAS_DONE_NS :: u32 where "KMS_FLIP_HAS_DONE_NS = 2"
definition KMS_FLIP_HAS_DURATION_NS :: u32 where "KMS_FLIP_HAS_DURATION_NS = 4"
definition KMS_FLIP_HAS_SEQUENCE :: u32 where "KMS_FLIP_HAS_SEQUENCE = 8"
definition KMS_FLIP_HAS_CRTC :: u32 where "KMS_FLIP_HAS_CRTC = 16"
definition KMS_FLIP_EVENT_PAGEFLIP_DONE :: u32 where "KMS_FLIP_EVENT_PAGEFLIP_DONE = 2"
definition KMS_FLIP_EVENT_INTERVAL :: u32 where "KMS_FLIP_EVENT_INTERVAL = 3"
definition KMS_FLIP_EVENT_VBLANK :: u32 where "KMS_FLIP_EVENT_VBLANK = 4"
definition KMS_FLIP_PROVIDER_DRM :: u32 where "KMS_FLIP_PROVIDER_DRM = 1"
definition KMS_FLIP_PROVIDER_I915 :: u32 where "KMS_FLIP_PROVIDER_I915 = 2"
definition KMS_FLIP_PROVIDER_AMDGPU :: u32 where "KMS_FLIP_PROVIDER_AMDGPU = 3"

datatype kms_provider = Kms_I915 | Kms_Drm | Kms_Amdgpu | Kms_UnknownProvider

definition kms_provider_from_raw :: "u32 \<Rightarrow> kms_provider" where
  "kms_provider_from_raw p =
     (if p = KMS_FLIP_PROVIDER_I915 then Kms_I915
      else if p = KMS_FLIP_PROVIDER_DRM then Kms_Drm
      else if p = KMS_FLIP_PROVIDER_AMDGPU then Kms_Amdgpu
      else Kms_UnknownProvider)"

datatype kms_completion_event = Kms_PageflipDone | Kms_Vblank | Kms_UnknownCompletion

definition kms_completion_from_raw :: "u32 \<Rightarrow> kms_completion_event" where
  "kms_completion_from_raw e =
     (if e = KMS_FLIP_EVENT_PAGEFLIP_DONE then Kms_PageflipDone
      else if e = KMS_FLIP_EVENT_VBLANK then Kms_Vblank
      else Kms_UnknownCompletion)"

text \<open>The offset and size of the sequence field, by provider and completion event.\<close>

record kms_sequence_fields =
  ks_i915_flip_done :: "u32 \<times> u32"
  ks_drm_vblank :: "u32 \<times> u32"
  ks_drm_flip_done :: "u32 \<times> u32"
  ks_amdgpu_vblank :: "u32 \<times> u32"
  ks_amdgpu_flip_done :: "u32 \<times> u32"

fun kms_sequence_offsets ::
  "kms_sequence_fields \<Rightarrow> kms_provider \<Rightarrow> kms_completion_event \<Rightarrow> (u32 \<times> u32) option" where
  "kms_sequence_offsets f Kms_I915 Kms_PageflipDone = Some (ks_i915_flip_done f)"
| "kms_sequence_offsets f Kms_Drm Kms_Vblank = Some (ks_drm_vblank f)"
| "kms_sequence_offsets f Kms_Drm Kms_PageflipDone = Some (ks_drm_flip_done f)"
| "kms_sequence_offsets f Kms_Amdgpu Kms_Vblank = Some (ks_amdgpu_vblank f)"
| "kms_sequence_offsets f Kms_Amdgpu Kms_PageflipDone = Some (ks_amdgpu_flip_done f)"
| "kms_sequence_offsets f _ _ = None"

definition fill_kms_flip_key ::
  "tracepoint_ctx \<Rightarrow> u32 \<Rightarrow> u32 \<Rightarrow> u32 \<Rightarrow> u32 \<Rightarrow> kms_flip_key option" where
  "fill_kms_flip_key ctx provider card_minor_offset crtc_offset pipe_offset =
     (let card = read_optional_u32 ctx card_minor_offset;
          crtc_id = read_or_zero (read_optional_u32 ctx crtc_offset);
          pipe = read_or_zero (read_optional_u32 ctx pipe_offset)
      in if crtc_id = 0 \<and> pipe = 0 then None
         else Some \<lparr>kk_provider = provider, kk_card_minor_known = (if card = None then 0 else 1),
                    kk_card_minor = read_or_zero card, kk_crtc_id = crtc_id, kk_pipe = pipe\<rparr>)"

definition try_kms_flip_request ::
  "u32 \<Rightarrow> u32 \<Rightarrow> u32 \<Rightarrow> u32 \<Rightarrow> u32 \<Rightarrow> probe_env \<Rightarrow> tracepoint_ctx \<Rightarrow> bpf_maps \<Rightarrow> u32 \<times> bpf_maps" where
  "try_kms_flip_request provider card_minor_offset completion_card_minor_offset crtc_offset pipe_offset env ctx m =
     (case fill_kms_flip_key ctx provider card_minor_offset crtc_offset pipe_offset of
        None \<Rightarrow> (0, m)
      | Some key \<Rightarrow>
          if kk_card_minor_known key = 0 \<or> completion_card_minor_offset = 0 then (0, m)
          else case map_insert env M_KmsFlipStarts key (pv_ktime_ns env) (KMS_FLIP_STARTS m) of
                 None \<Rightarrow> (0, m)
               | Some s \<Rightarrow> (0, m\<lparr>KMS_FLIP_STARTS := s\<rparr>))"

definition emit_kms_flip_event ::
  "probe_env \<Rightarrow> kms_flip_key \<Rightarrow> u32 \<Rightarrow> u64 option \<Rightarrow> u64 option \<Rightarrow> u64 \<Rightarrow> bpf_maps \<Rightarrow> bpf_maps" where
  "emit_kms_flip_event env key provider_and_event_kind sequence start_ns done_ns m =
     (let duration_ns = (case start_ns of Some s \<Rightarrow> saturating_sub done_ns s | None \<Rightarrow> 0);
          flags = KMS_FLIP_HAS_DONE_NS;
          flags = (if kk_crtc_id key \<noteq> 0 then flags OR KMS_FLIP_HAS_CRTC else flags);
          flags = (if start_ns \<noteq> None then flags OR (KMS_FLIP_HAS_REQUEST_NS OR KMS_FLIP_HAS_DURATION_NS) else flags);
          flags = (if sequence \<noteq> None then flags OR KMS_FLIP_HAS_SEQUENCE else flags)
      in emit_ringbuf_event env (EVENT_KMS_FLIP
           \<lparr>ke_event_kind = (if start_ns \<noteq> None then KMS_FLIP_EVENT_INTERVAL
                            else provider_and_event_kind AND 0xffff),
            ke_provider = drop_bit 16 provider_and_event_kind, ke_flags = flags,
            ke_pid = current_tgid env, ke_tid = current_tid env, ke_cpu = pv_cpu env,
            ke_card_minor = kk_card_minor key, ke_crtc_id = kk_crtc_id key, ke_pipe = kk_pipe key,
            ke_sequence = read_or_zero sequence, ke_request_ns = read_or_zero start_ns,
            ke_done_ns = done_ns, ke_duration_ns = duration_ns, ke_timestamp_ns = done_ns\<rparr>) m)"

definition try_kms_flip_done ::
  "kms_sequence_fields \<Rightarrow> u32 \<Rightarrow> u32 \<Rightarrow> u32 \<Rightarrow> u32 \<Rightarrow> probe_env \<Rightarrow> tracepoint_ctx \<Rightarrow> bpf_maps \<Rightarrow> u32 \<times> bpf_maps" where
  "try_kms_flip_done seq_fields provider_and_event_kind card_minor_offset crtc_offset pipe_offset env ctx m =
     (let provider = kms_provider_from_raw (drop_bit 16 provider_and_event_kind);
          now = pv_ktime_ns env
      in case fill_kms_flip_key ctx (drop_bit 16 provider_and_event_kind) card_minor_offset crtc_offset pipe_offset of
           None \<Rightarrow> (0, m)
         | Some key \<Rightarrow>
            (let start_ns = KMS_FLIP_STARTS m key;
                 m = m\<lparr>KMS_FLIP_STARTS := (KMS_FLIP_STARTS m)(key := None)\<rparr>;
                 completion = kms_completion_from_raw (provider_and_event_kind AND 0xffff);
                 sequence = (case kms_sequence_offsets seq_fields provider completion of
                               None \<Rightarrow> None
                             | Some (offset, width) \<Rightarrow> read_sequence_field ctx offset width)
             in (0, emit_kms_flip_event env key provider_and_event_kind sequence start_ns now m)))"

record flip_offsets =
  fo_card_minor :: u32
  fo_crtc :: u32
  fo_pipe :: u32

record kms_offsets =
  ko_i915_request :: flip_offsets
  ko_i915_done :: flip_offsets
  ko_drm_request :: flip_offsets
  ko_drm_done :: flip_offsets
  ko_drm_vblank :: flip_offsets
  ko_amdgpu_request :: flip_offsets
  ko_amdgpu_done :: flip_offsets
  ko_amdgpu_vblank :: flip_offsets
  ko_sequence :: kms_sequence_fields

definition flip_request_at ::
  "u32 \<Rightarrow> flip_offsets \<Rightarrow> flip_offsets \<Rightarrow> probe_env \<Rightarrow> tracepoint_ctx \<Rightarrow> bpf_maps \<Rightarrow> u32 \<times> bpf_maps" where
  "flip_request_at provider request completion =
     try_kms_flip_request provider (fo_card_minor request) (fo_card_minor completion) (fo_crtc request) (fo_pipe request)"

definition flip_done_at ::
  "kms_offsets \<Rightarrow> u32 \<Rightarrow> u32 \<Rightarrow> flip_offsets \<Rightarrow> probe_env \<Rightarrow> tracepoint_ctx \<Rightarrow> bpf_maps \<Rightarrow> u32 \<times> bpf_maps" where
  "flip_done_at offs provider completion pos =
     try_kms_flip_done (ko_sequence offs) (push_bit 16 provider OR completion) (fo_card_minor pos) (fo_crtc pos) (fo_pipe pos)"

definition try_i915_flip_request :: "kms_offsets \<Rightarrow> probe_env \<Rightarrow> tracepoint_ctx \<Rightarrow> bpf_maps \<Rightarrow> u32 \<times> bpf_maps" where
  "try_i915_flip_request offs = flip_request_at KMS_FLIP_PROVIDER_I915 (ko_i915_request offs) (ko_i915_done offs)"

definition try_i915_flip_done :: "kms_offsets \<Rightarrow> probe_env \<Rightarrow> tracepoint_ctx \<Rightarrow> bpf_maps \<Rightarrow> u32 \<times> bpf_maps" where
  "try_i915_flip_done offs = flip_done_at offs KMS_FLIP_PROVIDER_I915 KMS_FLIP_EVENT_PAGEFLIP_DONE (ko_i915_done offs)"

definition try_drm_flip_request :: "kms_offsets \<Rightarrow> probe_env \<Rightarrow> tracepoint_ctx \<Rightarrow> bpf_maps \<Rightarrow> u32 \<times> bpf_maps" where
  "try_drm_flip_request offs = flip_request_at KMS_FLIP_PROVIDER_DRM (ko_drm_request offs) (ko_drm_done offs)"

definition try_drm_flip_done :: "kms_offsets \<Rightarrow> probe_env \<Rightarrow> tracepoint_ctx \<Rightarrow> bpf_maps \<Rightarrow> u32 \<times> bpf_maps" where
  "try_drm_flip_done offs = flip_done_at offs KMS_FLIP_PROVIDER_DRM KMS_FLIP_EVENT_PAGEFLIP_DONE (ko_drm_done offs)"

definition try_drm_vblank_event :: "kms_offsets \<Rightarrow> probe_env \<Rightarrow> tracepoint_ctx \<Rightarrow> bpf_maps \<Rightarrow> u32 \<times> bpf_maps" where
  "try_drm_vblank_event offs = flip_done_at offs KMS_FLIP_PROVIDER_DRM KMS_FLIP_EVENT_VBLANK (ko_drm_vblank offs)"

definition try_amdgpu_flip_request :: "kms_offsets \<Rightarrow> probe_env \<Rightarrow> tracepoint_ctx \<Rightarrow> bpf_maps \<Rightarrow> u32 \<times> bpf_maps" where
  "try_amdgpu_flip_request offs =
     flip_request_at KMS_FLIP_PROVIDER_AMDGPU (ko_amdgpu_request offs) (ko_amdgpu_done offs)"

definition try_amdgpu_flip_done :: "kms_offsets \<Rightarrow> probe_env \<Rightarrow> tracepoint_ctx \<Rightarrow> bpf_maps \<Rightarrow> u32 \<times> bpf_maps" where
  "try_amdgpu_flip_done offs =
     flip_done_at offs KMS_FLIP_PROVIDER_AMDGPU KMS_FLIP_EVENT_PAGEFLIP_DONE (ko_amdgpu_done offs)"

definition try_amdgpu_vblank_event :: "kms_offsets \<Rightarrow> probe_env \<Rightarrow> tracepoint_ctx \<Rightarrow> bpf_maps \<Rightarrow> u32 \<times> bpf_maps" where
  "try_amdgpu_vblank_event offs =
     flip_done_at offs KMS_FLIP_PROVIDER_AMDGPU KMS_FLIP_EVENT_VBLANK (ko_amdgpu_vblank offs)"

section \<open>DRM fences\<close>

definition DRM_FENCE_HAS_CONTEXT :: u32 where "DRM_FENCE_HAS_CONTEXT = 1"
definition DRM_FENCE_HAS_SEQNO :: u32 where "DRM_FENCE_HAS_SEQNO = 2"
definition DRM_FENCE_HAS_TIMELINE :: u32 where "DRM_FENCE_HAS_TIMELINE = 4"
definition DRM_FENCE_HAS_DURATION :: u32 where "DRM_FENCE_HAS_DURATION = 8"
definition DRM_FENCE_HAS_PID :: u32 where "DRM_FENCE_HAS_PID = 16"
definition DRM_FENCE_IS_IMPORTER_SIDE :: u32 where "DRM_FENCE_IS_IMPORTER_SIDE = 32"
definition DRM_FENCE_IS_EXPORTER_SIDE :: u32 where "DRM_FENCE_IS_EXPORTER_SIDE = 64"
definition DRM_FENCE_WAIT_DONE_WITHOUT_START :: u32 where "DRM_FENCE_WAIT_DONE_WITHOUT_START = 128"
definition DRM_FENCE_EVENT_WAIT_DONE :: u32 where "DRM_FENCE_EVENT_WAIT_DONE = 2"
definition DRM_FENCE_EVENT_SIGNAL :: u32 where "DRM_FENCE_EVENT_SIGNAL = 3"
definition DRM_FENCE_EVENT_WAIT_INTERVAL :: u32 where "DRM_FENCE_EVENT_WAIT_INTERVAL = 4"

record fence_identity =
  fi_key :: fence_key
  fi_flags :: u32
  fi_timeline_hash :: u64

text \<open>The offsets of one fence tracepoint, with the provider and GPU role configured for it.\<close>

record fence_tracepoint =
  ft_context_offset :: u32
  ft_seqno_offset :: u32
  ft_timeline_offset :: u32
  ft_provider :: u32
  ft_gpu_role :: u32

definition fill_fence_identity :: "tracepoint_ctx \<Rightarrow> u32 \<Rightarrow> u32 \<Rightarrow> u32 \<Rightarrow> fence_identity option" where
  "fill_fence_identity ctx context_offset seqno_offset timeline_offset =
     (let context = read_optional_u64 ctx context_offset
      in case read_optional_u64 ctx seqno_offset of
           None \<Rightarrow> None
         | Some seqno \<Rightarrow>
            (let timeline_hash = read_optional_u64 ctx timeline_offset;
                 has_timeline = (timeline_hash \<noteq> None \<and> timeline_hash \<noteq> Some 0);
                 key_context = (case context of
                                  Some c \<Rightarrow> Some c
                                | None \<Rightarrow> if has_timeline then timeline_hash else None)
             in case key_context of
                  None \<Rightarrow> None
                | Some kc \<Rightarrow>
                   (let flags = DRM_FENCE_HAS_SEQNO;
                        flags = (if context \<noteq> None then flags OR DRM_FENCE_HAS_CONTEXT else flags);
                        flags = (if has_timeline then flags OR DRM_FENCE_HAS_TIMELINE else flags)
                    in Some \<lparr>fi_key = \<lparr>fk_context = kc, fk_seqno = seqno\<rparr>, fi_flags = flags,
                             fi_timeline_hash = (if has_timeline then read_or_zero timeline_hash else 0)\<rparr>)))"

definition identity_at :: "fence_tracepoint \<Rightarrow> tracepoint_ctx \<Rightarrow> fence_identity option" where
  "identity_at tp ctx = fill_fence_identity ctx (ft_context_offset tp) (ft_seqno_offset tp) (ft_timeline_offset tp)"

definition try_drm_fence_wait_start ::
  "fence_tracepoint \<Rightarrow> probe_env \<Rightarrow> tracepoint_ctx \<Rightarrow> bpf_maps \<Rightarrow> u32 \<times> bpf_maps" where
  "try_drm_fence_wait_start tp env ctx m =
     (case identity_at tp ctx of
        None \<Rightarrow> (0, m)
      | Some identity \<Rightarrow>
         (case map_insert env M_FenceWaitStarts (fi_key identity)
                 \<lparr>fw_ts = pv_ktime_ns env, fw_pid = current_tgid env, fw_tid = current_tid env,
                  fw_provider = ft_provider tp, fw_gpu_role = ft_gpu_role tp\<rparr> (FENCE_WAIT_STARTS m) of
            None \<Rightarrow> (0, m)
          | Some s \<Rightarrow> (0, m\<lparr>FENCE_WAIT_STARTS := s\<rparr>)))"

definition try_drm_fence_wait_done ::
  "fence_tracepoint \<Rightarrow> probe_env \<Rightarrow> tracepoint_ctx \<Rightarrow> bpf_maps \<Rightarrow> u32 \<times> bpf_maps" where
  "try_drm_fence_wait_done tp env ctx m =
     (case identity_at tp ctx of
        None \<Rightarrow> (0, m)
      | Some identity \<Rightarrow>
         (let now = pv_ktime_ns env; key = fi_key identity;
              start = FENCE_WAIT_STARTS m key;
              m = m\<lparr>FENCE_WAIT_STARTS := (FENCE_WAIT_STARTS m)(key := None)\<rparr>;
              signal = FENCE_SIGNAL_TIMES m key;
              m = m\<lparr>FENCE_SIGNAL_TIMES := (FENCE_SIGNAL_TIMES m)(key := None)\<rparr>;
              signal_ns = read_or_zero (map_option fs_ts signal);
              exporter = (if signal \<noteq> None then DRM_FENCE_IS_EXPORTER_SIDE else 0);
              event = \<lparr>fe_event_kind = 0, fe_provider = 0, fe_flags = 0, fe_pid = 0, fe_tid = 0,
                       fe_cpu = pv_cpu env, fe_driver_id = 0, fe_gpu_role = 0, fe_context = fk_context key,
                       fe_seqno = fk_seqno key, fe_timeline_hash = fi_timeline_hash identity, fe_wait_start_ns = 0,
                       fe_wait_done_ns = now, fe_signal_ns = signal_ns, fe_duration_ns = 0, fe_timestamp_ns = now\<rparr>
          in case start of
               Some s \<Rightarrow>
                 (0, emit_ringbuf_event env (EVENT_DRM_FENCE (event
                       \<lparr>fe_event_kind := DRM_FENCE_EVENT_WAIT_INTERVAL, fe_wait_start_ns := fw_ts s,
                        fe_duration_ns := saturating_sub now (fw_ts s), fe_pid := fw_pid s, fe_tid := fw_tid s,
                        fe_provider := fw_provider s, fe_gpu_role := fw_gpu_role s,
                        fe_driver_id := (case signal of Some g \<Rightarrow> fs_provider g | None \<Rightarrow> fw_provider s),
                        fe_flags := fi_flags identity OR (DRM_FENCE_HAS_DURATION OR DRM_FENCE_HAS_PID
                          OR DRM_FENCE_IS_IMPORTER_SIDE OR exporter)\<rparr>)) m)
             | None \<Rightarrow>
                (let m = increment_drop_counter env DROP_DRM_FENCE_MISSING_START m;
                     p = read_or_zero (map_option fs_provider signal)
                 in (0, emit_ringbuf_event env (EVENT_DRM_FENCE (event
                          \<lparr>fe_event_kind := DRM_FENCE_EVENT_WAIT_DONE, fe_provider := p, fe_driver_id := p,
                           fe_flags := fi_flags identity OR (DRM_FENCE_WAIT_DONE_WITHOUT_START
                             OR DRM_FENCE_IS_IMPORTER_SIDE OR exporter)\<rparr>)) m))))"

definition try_drm_fence_signal ::
  "fence_tracepoint \<Rightarrow> probe_env \<Rightarrow> tracepoint_ctx \<Rightarrow> bpf_maps \<Rightarrow> u32 \<times> bpf_maps" where
  "try_drm_fence_signal tp env ctx m =
     (case identity_at tp ctx of
        None \<Rightarrow> (0, m)
      | Some identity \<Rightarrow>
         (let now = pv_ktime_ns env;
              m = (case map_insert env M_FenceSignalTimes (fi_key identity)
                          \<lparr>fs_ts = now, fs_provider = ft_provider tp, fs_gpu_role = ft_gpu_role tp\<rparr>
                          (FENCE_SIGNAL_TIMES m) of
                     None \<Rightarrow> m
                   | Some s \<Rightarrow> m\<lparr>FENCE_SIGNAL_TIMES := s\<rparr>)
          in (0, emit_ringbuf_event env (EVENT_DRM_FENCE
                   \<lparr>fe_event_kind = DRM_FENCE_EVENT_SIGNAL, fe_provider = ft_provider tp,
                    fe_flags = fi_flags identity OR DRM_FENCE_IS_EXPORTER_SIDE, fe_pid = 0, fe_tid = 0,
                    fe_cpu = pv_cpu env, fe_driver_id = ft_provider tp, fe_gpu_role = ft_gpu_role tp,
                    fe_context = fk_context (fi_key identity), fe_seqno = fk_seqno (fi_key identity),
                    fe_timeline_hash = fi_timeline_hash identity, fe_wait_start_ns = 0, fe_wait_done_ns = 0,
                    fe_signal_ns = now, fe_duration_ns = 0, fe_timestamp_ns = now\<rparr>) m)))"

end
