(* ===== verification/Ebpf_Facts.thy ===== *)
theory Ebpf_Facts
  imports Ebpf_Scheduler Ebpf_Io
begin

text \<open>
  What the eBPF programs guarantee. Two arrays count tasks per CPU, one over the reverse map
  \<open>RUNNABLE_TASK_CPU\<close>, one over the pending wakeups; the locale \<open>cpu_counter\<close> states what incrementing and
  decrementing such an array does and proves once when it keeps its tally. The step relation \<open>bpf_step\<close> runs
  any program in any environment, or lets userspace change its maps; the invariants hold in every reachable
  state.
\<close>

section \<open>Counting tasks per CPU\<close>

text \<open>
  \<open>tally f c\<close>: for every tracked CPU, \<open>c\<close> is the number of tasks that \<open>f\<close> places there; task 0 is never placed.
\<close>

definition tally :: "(u32 \<Rightarrow> u32 option) \<Rightarrow> (u32 \<Rightarrow> u32) \<Rightarrow> bool" where
  "tally f c \<longleftrightarrow> f 0 = None \<and> (\<forall>cpu. valid_cpu cpu \<longrightarrow> unat (c cpu) = card {p. f p = Some cpu})"

lemma tally_place:
  assumes "tally f c" "f p = None" "p \<noteq> 0"
  shows "tally (f(p \<mapsto> cpu)) (c(cpu := saturating_add (c cpu) 1))"
proof -
  have "unat (saturating_add (c cpu) 1) = Suc (card {q. f q = Some cpu})" if "valid_cpu cpu"
  proof -
    have "{q. f q = Some cpu} \<subseteq> UNIV - {0, p}"
      using assms by (auto simp: tally_def)
    then have "card {q. f q = Some cpu} \<le> card (UNIV - {0, p} :: u32 set)"
      by (intro card_mono) auto
    also have "\<dots> = 2 ^ 32 - 2"
      using assms(3) by (subst card_Diff_subset) (auto simp: card_word)
    finally show ?thesis
      using assms(1) that by (simp add: word_sat tally_def)
  qed
  moreover have "card {q. (f(p \<mapsto> cpu)) q = Some cpu} = Suc (card {q. f q = Some cpu})"
  proof -
    have "{q. (f(p \<mapsto> cpu)) q = Some cpu} = insert p {q. f q = Some cpu}"
      by auto
    then show ?thesis
      using assms(2) by simp
  qed
  moreover have "{q. (f(p \<mapsto> cpu)) q = Some d} = {q. f q = Some d}" if "d \<noteq> cpu" for d
    using that assms(2) by auto
  ultimately show ?thesis
    using assms by (auto simp: tally_def)
qed

lemma tally_take:
  assumes "tally f c" "f p = Some cpu"
  shows "tally (f(p := None)) (c(cpu := saturating_sub (c cpu) 1))"
proof -
  have "{q. (f(p := None)) q = Some cpu} = {q. f q = Some cpu} - {p}"
    by auto
  then have "card {q. (f(p := None)) q = Some cpu} = card {q. f q = Some cpu} - 1"
    using assms(2) by (simp add: card_Diff_singleton)
  moreover have "{q. (f(p := None)) q = Some d} = {q. f q = Some d}" if "d \<noteq> cpu" for d
    using that assms(2) by auto
  ultimately show ?thesis
    using assms by (auto simp: tally_def word_sat)
qed

lemma tally_cong: "tally f c \<Longrightarrow> (\<And>cpu. valid_cpu cpu \<Longrightarrow> c' cpu = c cpu) \<Longrightarrow> tally f c'"
  by (simp add: tally_def)

text \<open>An array of counters indexed by CPU, ignoring CPUs out of range.\<close>

locale cpu_counter =
  fixes count :: "bpf_maps \<Rightarrow> u32 \<Rightarrow> u32"
    and inc :: "u32 \<Rightarrow> bpf_maps \<Rightarrow> bpf_maps"
    and dec :: "u32 \<Rightarrow> bpf_maps \<Rightarrow> bpf_maps"
  assumes count_inc: "valid_cpu cpu \<Longrightarrow> count (inc cpu m) = (count m)(cpu := saturating_add (count m cpu) 1)"
    and count_dec: "valid_cpu cpu \<Longrightarrow> count (dec cpu m) = (count m)(cpu := saturating_sub (count m cpu) 1)"
    and out_of_range: "\<not> valid_cpu cpu \<Longrightarrow> count (inc cpu m) = count m" "\<not> valid_cpu cpu \<Longrightarrow> count (dec cpu m) = count m"
begin

lemma tally_inc:
  assumes "tally f (count m)" "f p = None" "p \<noteq> 0"
  shows "tally (f(p \<mapsto> cpu)) (count (inc cpu m))"
proof (cases "valid_cpu cpu")
  case True
  then show ?thesis
    using tally_place [OF assms] count_inc by simp
next
  case False
  with tally_place [OF assms, of cpu] out_of_range(1) show ?thesis
    by (auto intro: tally_cong)
qed

lemma tally_dec:
  assumes "tally f (count m)" "f p = Some cpu"
  shows "tally (f(p := None)) (count (dec cpu m))"
proof (cases "valid_cpu cpu")
  case True
  then show ?thesis
    using tally_take [OF assms] count_dec by simp
next
  case False
  with tally_take [OF assms] out_of_range(2) show ?thesis
    by (auto intro: tally_cong)
qed

lemma tally_move:
  assumes "tally f (count m)" "f p = Some old" "p \<noteq> 0" "count m' = count (dec old m)"
  shows "tally (f(p \<mapsto> cpu)) (count (inc cpu m'))"
  using tally_inc [of "f(p := None)" m' p cpu] tally_dec [OF assms(1,2)] assms(3,4) by simp

end

lemma array_get_valid [simp]: "valid_cpu cpu \<Longrightarrow> array_get BPF_MAX_TRACKED_CPUS a cpu = Some (a cpu)"
  by (simp add: array_get_def valid_cpu_def)

declare load_cpu_runnable_depth_def [simp] store_cpu_runnable_depth_def [simp]

lemma drop_counter_simps [simp]:
  "CPU_RUNNABLE_DEPTH (increment_drop_counter env r m) = CPU_RUNNABLE_DEPTH m"
  "RUNNABLE_TASK_CPU (increment_drop_counter env r m) = RUNNABLE_TASK_CPU m"
  "TARGET_PENDING_WAKEUPS (increment_drop_counter env r m) = TARGET_PENDING_WAKEUPS m"
  "WAKEUP_DATA (increment_drop_counter env r m) = WAKEUP_DATA m"
  "WAKEUP_CONSUMED (increment_drop_counter env r m) = WAKEUP_CONSUMED m"
  "WAKEUP_SEQ (increment_drop_counter env r m) = WAKEUP_SEQ m"
  "PREV_FAULTS (increment_drop_counter env r m) = PREV_FAULTS m"
  "TARGET_PIDS (increment_drop_counter env r m) = TARGET_PIDS m"
  "EVENTS (increment_drop_counter env r m) = EVENTS m"
  by (simp_all add: increment_drop_counter_def split: option.split)

interpretation depth: cpu_counter CPU_RUNNABLE_DEPTH increment_cpu_runnable_depth decrement_cpu_runnable_depth
  by unfold_locales
    (simp_all add: increment_cpu_runnable_depth_def decrement_cpu_runnable_depth_def)

interpretation pending: cpu_counter TARGET_PENDING_WAKEUPS "increment_target_pending env" decrement_target_pending
  for env
  by unfold_locales (simp_all add: increment_target_pending_def decrement_target_pending_def)

section \<open>What each operation leaves alone\<close>

lemma depth_frame [simp]:
  "EVENTS (increment_cpu_runnable_depth cpu m) = EVENTS m"
  "TARGET_PIDS (increment_cpu_runnable_depth cpu m) = TARGET_PIDS m"
  "TARGET_PENDING_WAKEUPS (increment_cpu_runnable_depth cpu m) = TARGET_PENDING_WAKEUPS m"
  "RUNNABLE_TASK_CPU (increment_cpu_runnable_depth cpu m) = RUNNABLE_TASK_CPU m"
  "PREV_FAULTS (increment_cpu_runnable_depth cpu m) = PREV_FAULTS m"
  "WAKEUP_DATA (increment_cpu_runnable_depth cpu m) = WAKEUP_DATA m"
  "WAKEUP_CONSUMED (increment_cpu_runnable_depth cpu m) = WAKEUP_CONSUMED m"
  "WAKEUP_SEQ (increment_cpu_runnable_depth cpu m) = WAKEUP_SEQ m"
  "EVENTS (decrement_cpu_runnable_depth cpu m) = EVENTS m"
  "TARGET_PIDS (decrement_cpu_runnable_depth cpu m) = TARGET_PIDS m"
  "TARGET_PENDING_WAKEUPS (decrement_cpu_runnable_depth cpu m) = TARGET_PENDING_WAKEUPS m"
  "RUNNABLE_TASK_CPU (decrement_cpu_runnable_depth cpu m) = RUNNABLE_TASK_CPU m"
  "PREV_FAULTS (decrement_cpu_runnable_depth cpu m) = PREV_FAULTS m"
  "WAKEUP_DATA (decrement_cpu_runnable_depth cpu m) = WAKEUP_DATA m"
  "WAKEUP_CONSUMED (decrement_cpu_runnable_depth cpu m) = WAKEUP_CONSUMED m"
  "WAKEUP_SEQ (decrement_cpu_runnable_depth cpu m) = WAKEUP_SEQ m"
  by (simp_all add: increment_cpu_runnable_depth_def decrement_cpu_runnable_depth_def split: option.split)

lemma pending_frame [simp]:
  "EVENTS (increment_target_pending env cpu m) = EVENTS m"
  "TARGET_PIDS (increment_target_pending env cpu m) = TARGET_PIDS m"
  "CPU_RUNNABLE_DEPTH (increment_target_pending env cpu m) = CPU_RUNNABLE_DEPTH m"
  "RUNNABLE_TASK_CPU (increment_target_pending env cpu m) = RUNNABLE_TASK_CPU m"
  "PREV_FAULTS (increment_target_pending env cpu m) = PREV_FAULTS m"
  "WAKEUP_DATA (increment_target_pending env cpu m) = WAKEUP_DATA m"
  "WAKEUP_CONSUMED (increment_target_pending env cpu m) = WAKEUP_CONSUMED m"
  "WAKEUP_SEQ (increment_target_pending env cpu m) = WAKEUP_SEQ m"
  "EVENTS (decrement_target_pending cpu m) = EVENTS m"
  "TARGET_PIDS (decrement_target_pending cpu m) = TARGET_PIDS m"
  "CPU_RUNNABLE_DEPTH (decrement_target_pending cpu m) = CPU_RUNNABLE_DEPTH m"
  "RUNNABLE_TASK_CPU (decrement_target_pending cpu m) = RUNNABLE_TASK_CPU m"
  "PREV_FAULTS (decrement_target_pending cpu m) = PREV_FAULTS m"
  "WAKEUP_DATA (decrement_target_pending cpu m) = WAKEUP_DATA m"
  "WAKEUP_CONSUMED (decrement_target_pending cpu m) = WAKEUP_CONSUMED m"
  "WAKEUP_SEQ (decrement_target_pending cpu m) = WAKEUP_SEQ m"
  by (simp_all add: increment_target_pending_def decrement_target_pending_def split: option.split)

lemma emit_frame [simp]:
  "TARGET_PIDS (emit_ringbuf_event env ev m) = TARGET_PIDS m"
  "TARGET_PENDING_WAKEUPS (emit_ringbuf_event env ev m) = TARGET_PENDING_WAKEUPS m"
  "CPU_RUNNABLE_DEPTH (emit_ringbuf_event env ev m) = CPU_RUNNABLE_DEPTH m"
  "RUNNABLE_TASK_CPU (emit_ringbuf_event env ev m) = RUNNABLE_TASK_CPU m"
  "PREV_FAULTS (emit_ringbuf_event env ev m) = PREV_FAULTS m"
  "WAKEUP_DATA (emit_ringbuf_event env ev m) = WAKEUP_DATA m"
  "WAKEUP_CONSUMED (emit_ringbuf_event env ev m) = WAKEUP_CONSUMED m"
  "WAKEUP_SEQ (emit_ringbuf_event env ev m) = WAKEUP_SEQ m"
  by (simp_all add: emit_ringbuf_event_def)

lemma runnable_frame [simp]:
  "EVENTS (snd (mark_task_runnable env pid cpu m)) = EVENTS m"
  "TARGET_PIDS (snd (mark_task_runnable env pid cpu m)) = TARGET_PIDS m"
  "TARGET_PENDING_WAKEUPS (snd (mark_task_runnable env pid cpu m)) = TARGET_PENDING_WAKEUPS m"
  "PREV_FAULTS (snd (mark_task_runnable env pid cpu m)) = PREV_FAULTS m"
  "WAKEUP_DATA (snd (mark_task_runnable env pid cpu m)) = WAKEUP_DATA m"
  "WAKEUP_CONSUMED (snd (mark_task_runnable env pid cpu m)) = WAKEUP_CONSUMED m"
  "WAKEUP_SEQ (snd (mark_task_runnable env pid cpu m)) = WAKEUP_SEQ m"
  "EVENTS (mark_task_running pid cpu m) = EVENTS m"
  "TARGET_PIDS (mark_task_running pid cpu m) = TARGET_PIDS m"
  "TARGET_PENDING_WAKEUPS (mark_task_running pid cpu m) = TARGET_PENDING_WAKEUPS m"
  "PREV_FAULTS (mark_task_running pid cpu m) = PREV_FAULTS m"
  "WAKEUP_DATA (mark_task_running pid cpu m) = WAKEUP_DATA m"
  "WAKEUP_CONSUMED (mark_task_running pid cpu m) = WAKEUP_CONSUMED m"
  "WAKEUP_SEQ (mark_task_running pid cpu m) = WAKEUP_SEQ m"
  "EVENTS (remove_runnable_task_if_present pid m) = EVENTS m"
  "TARGET_PIDS (remove_runnable_task_if_present pid m) = TARGET_PIDS m"
  "TARGET_PENDING_WAKEUPS (remove_runnable_task_if_present pid m) = TARGET_PENDING_WAKEUPS m"
  "PREV_FAULTS (remove_runnable_task_if_present pid m) = PREV_FAULTS m"
  "WAKEUP_DATA (remove_runnable_task_if_present pid m) = WAKEUP_DATA m"
  "WAKEUP_CONSUMED (remove_runnable_task_if_present pid m) = WAKEUP_CONSUMED m"
  "WAKEUP_SEQ (remove_runnable_task_if_present pid m) = WAKEUP_SEQ m"
  by (simp_all add: mark_task_runnable_def mark_task_running_def remove_runnable_task_if_present_def map_insert_def Let_def
      split: option.split)

section \<open>Runnable depth\<close>

definition depth_inv :: "bpf_maps \<Rightarrow> bool" where
  "depth_inv m \<longleftrightarrow> tally (RUNNABLE_TASK_CPU m) (CPU_RUNNABLE_DEPTH m)
     \<and> (\<forall>p cpu. RUNNABLE_TASK_CPU m p = Some cpu \<longrightarrow> valid_cpu cpu)"

lemma depth_inv_cong:
  "RUNNABLE_TASK_CPU m' = RUNNABLE_TASK_CPU m \<Longrightarrow> CPU_RUNNABLE_DEPTH m' = CPU_RUNNABLE_DEPTH m \<Longrightarrow>
   depth_inv m' \<longleftrightarrow> depth_inv m"
  by (simp add: depth_inv_def)

lemma depth_mark_runnable:
  assumes "depth_inv m"
  shows "depth_inv (snd (mark_task_runnable env pid cpu m))"
proof (cases "pid = 0 \<or> \<not> valid_cpu cpu \<or> RUNNABLE_TASK_CPU m pid = Some cpu \<or> pv_insert_fails env M_RunnableTaskCpu")
  case True
  with assms show ?thesis
    by (auto simp: mark_task_runnable_def depth_inv_def map_insert_def split: option.split)
next
  case False
  then have pid: "pid \<noteq> 0" and cpu: "valid_cpu cpu" and ok: "\<not> pv_insert_fails env M_RunnableTaskCpu"
    and other: "RUNNABLE_TASK_CPU m pid \<noteq> Some cpu"
    by auto
  let ?m = "m\<lparr>RUNNABLE_TASK_CPU := (RUNNABLE_TASK_CPU m)(pid \<mapsto> cpu)\<rparr>"
  have valid: "valid_cpu d" if "((RUNNABLE_TASK_CPU m)(pid \<mapsto> cpu)) p = Some d" for p d
    using assms cpu that by (auto simp: depth_inv_def split: if_splits)
  show ?thesis
  proof (cases "RUNNABLE_TASK_CPU m pid")
    case None
    have "tally ((RUNNABLE_TASK_CPU m)(pid \<mapsto> cpu)) (CPU_RUNNABLE_DEPTH (increment_cpu_runnable_depth cpu ?m))"
      using depth.tally_inc [of "RUNNABLE_TASK_CPU m" ?m pid cpu] assms None pid by (simp add: depth_inv_def)
    then show ?thesis
      using None pid cpu ok valid by (simp add: mark_task_runnable_def map_insert_def depth_inv_def del: fun_upd_apply)
  next
    case (Some old)
    have "tally ((RUNNABLE_TASK_CPU m)(pid \<mapsto> cpu))
        (CPU_RUNNABLE_DEPTH (increment_cpu_runnable_depth cpu (decrement_cpu_runnable_depth old ?m)))"
      using depth.tally_move [of "RUNNABLE_TASK_CPU m" ?m pid old _ cpu] assms Some pid by (simp add: depth_inv_def)
    then show ?thesis
      using Some pid cpu ok other valid
      by (simp add: mark_task_runnable_def map_insert_def depth_inv_def del: fun_upd_apply)
  qed
qed

lemma depth_remove: "depth_inv m \<Longrightarrow> depth_inv (remove_runnable_task_if_present pid m)"
  using depth.tally_dec [of "RUNNABLE_TASK_CPU m" m pid]
  by (auto simp: remove_runnable_task_if_present_def depth_inv_def Let_def split: option.split)

lemma depth_running: "depth_inv m \<Longrightarrow> depth_inv (mark_task_running pid cpu m)"
  using depth.tally_dec [of "RUNNABLE_TASK_CPU m" m pid]
  by (auto simp: mark_task_running_def depth_inv_def Let_def split: option.split)

section \<open>Pending wakeups\<close>

text \<open>The CPU for which a task has a wakeup that no switch has consumed yet.\<close>

definition pending_on :: "bpf_maps \<Rightarrow> u32 \<Rightarrow> u32 option" where
  "pending_on m p =
     (case WAKEUP_DATA m p of
        Some d \<Rightarrow> if same_wakeup_consumed m p d then None else Some (wd_target_cpu d)
      | None \<Rightarrow> None)"

definition pending_inv :: "bpf_maps \<Rightarrow> bool" where
  "pending_inv m \<longleftrightarrow> tally (pending_on m) (TARGET_PENDING_WAKEUPS m)"

lemma same_value_iff: "same_wakeup_value a b \<longleftrightarrow> a = b"
  by (auto simp: same_wakeup_value_def)

lemma same_consumed_iff: "same_wakeup_consumed m p d \<longleftrightarrow> WAKEUP_CONSUMED m p = Some d"
  by (auto simp: same_wakeup_consumed_def same_value_iff split: option.split)

text \<open>By the two entries of the task only.\<close>

definition pending_entry :: "wakeup_data option \<Rightarrow> wakeup_data option \<Rightarrow> u32 option" where
  "pending_entry data consumed =
     (case data of Some d \<Rightarrow> if consumed = Some d then None else Some (wd_target_cpu d) | None \<Rightarrow> None)"

lemma pending_on_entry: "pending_on m = (\<lambda>p. pending_entry (WAKEUP_DATA m p) (WAKEUP_CONSUMED m p))"
  by (auto simp: pending_on_def pending_entry_def same_consumed_iff fun_eq_iff split: option.split)

lemma pending_entry_simps [simp]:
  "pending_entry None c = None" "pending_entry (Some d) None = Some (wd_target_cpu d)" "pending_entry x x = None"
  by (simp_all add: pending_entry_def split: option.split)

lemma pending_entry_Some: "pending_entry data c = Some cpu \<longleftrightarrow> (\<exists>d. data = Some d \<and> c \<noteq> Some d \<and> cpu = wd_target_cpu d)"
  by (auto simp: pending_entry_def split: option.split)

lemma pending_inv_cong:
  "WAKEUP_DATA m' = WAKEUP_DATA m \<Longrightarrow> WAKEUP_CONSUMED m' = WAKEUP_CONSUMED m \<Longrightarrow>
   TARGET_PENDING_WAKEUPS m' = TARGET_PENDING_WAKEUPS m \<Longrightarrow> pending_inv m' \<longleftrightarrow> pending_inv m"
  by (simp add: pending_inv_def pending_on_entry)

lemma record_wakeup_cases:
  assumes "record_wakeup env pid d m = (r, old, m')"
  obtains (failed) "r = WAKEUP_RECORD_INSERT_FAILED" "m' = m"
  | (recorded) "m' = m\<lparr>WAKEUP_DATA := (WAKEUP_DATA m)(pid \<mapsto> d), WAKEUP_CONSUMED := (WAKEUP_CONSUMED m)(pid := None)\<rparr>"
      "pending_on m' = (pending_on m)(pid \<mapsto> wd_target_cpu d)"
      "r = (case pending_on m pid of
              None \<Rightarrow> WAKEUP_RECORD_NEW_PENDING
            | Some cpu \<Rightarrow> if cpu = wd_target_cpu d then WAKEUP_RECORD_REPLACED_PENDING_SAME_CPU
                else WAKEUP_RECORD_REPLACED_PENDING_MOVED_CPU)"
      "pending_on m pid \<noteq> None \<Longrightarrow> pending_on m pid = Some (wd_target_cpu old)"
proof (cases "pv_insert_fails env M_WakeupData")
  case True
  with assms failed show ?thesis
    by (auto simp: record_wakeup_def map_insert_def Let_def split: option.splits)
next
  case False
  let ?m = "m\<lparr>WAKEUP_DATA := (WAKEUP_DATA m)(pid \<mapsto> d), WAKEUP_CONSUMED := (WAKEUP_CONSUMED m)(pid := None)\<rparr>"
  have m': "m' = ?m"
    using assms False by (auto simp: record_wakeup_def map_insert_def Let_def split: option.splits if_splits)
  have pend: "pending_on ?m = (pending_on m)(pid \<mapsto> wd_target_cpu d)"
    by (simp add: pending_on_entry fun_eq_iff)
  show ?thesis
  proof (rule recorded)
    show "r = (case pending_on m pid of
              None \<Rightarrow> WAKEUP_RECORD_NEW_PENDING
            | Some cpu \<Rightarrow> if cpu = wd_target_cpu d then WAKEUP_RECORD_REPLACED_PENDING_SAME_CPU
                else WAKEUP_RECORD_REPLACED_PENDING_MOVED_CPU)"
      using assms False
      by (auto simp: record_wakeup_def map_insert_def Let_def pending_on_def split: option.splits if_splits)
    show "pending_on m pid = Some (wd_target_cpu old)" if "pending_on m pid \<noteq> None"
      using assms False that
      by (auto simp: record_wakeup_def map_insert_def Let_def pending_on_def split: option.splits if_splits)
  qed (simp_all add: m' pend)
qed

lemma record_wakeup_ok:
  assumes "record_wakeup env pid d m = (r, old, m')" "\<not> pv_insert_fails env M_WakeupData"
  shows "m' = m\<lparr>WAKEUP_DATA := (WAKEUP_DATA m)(pid \<mapsto> d), WAKEUP_CONSUMED := (WAKEUP_CONSUMED m)(pid := None)\<rparr>"
  using assms by (auto simp: record_wakeup_def map_insert_def Let_def split: option.splits if_splits)

lemma consume_cases:
  assumes "consume_pending_wakeup env pid m = (r, d, m')"
  obtains (none) "r = WAKEUP_CONSUME_NONE" "m' = m"
  | (ok) "r = WAKEUP_CONSUME_OK" "m' = m\<lparr>WAKEUP_CONSUMED := (WAKEUP_CONSUMED m)(pid \<mapsto> d)\<rparr>"
      "WAKEUP_DATA m pid = Some d" "pending_on m pid = Some (wd_target_cpu d)"
      "pending_on m' = (pending_on m)(pid := None)"
  | (cursor) "r = WAKEUP_CONSUME_CURSOR_INSERT_FAILED" "m' = m" "WAKEUP_DATA m pid = Some d"
      "\<not> same_wakeup_consumed m pid d" "pending_on m pid = Some (wd_target_cpu d)"
proof (cases "WAKEUP_DATA m pid")
  case None
  with assms none show ?thesis
    by (simp add: consume_pending_wakeup_def)
next
  case (Some e)
  show ?thesis
  proof (cases "same_wakeup_consumed m pid e")
    case True
    with assms none Some show ?thesis
      by (simp add: consume_pending_wakeup_def)
  next
    case False
    with Some have p: "pending_on m pid = Some (wd_target_cpu e)"
      by (simp add: pending_on_def)
    have d: "d = e" and r: "r = (if pv_insert_fails env M_WakeupConsumed then WAKEUP_CONSUME_CURSOR_INSERT_FAILED else WAKEUP_CONSUME_OK)"
      and m': "m' = (if pv_insert_fails env M_WakeupConsumed then m else m\<lparr>WAKEUP_CONSUMED := (WAKEUP_CONSUMED m)(pid \<mapsto> e)\<rparr>)"
      using assms Some False by (auto simp: consume_pending_wakeup_def map_insert_def split: if_splits)
    have after: "pending_on (m\<lparr>WAKEUP_CONSUMED := (WAKEUP_CONSUMED m)(pid \<mapsto> e)\<rparr>) = (pending_on m)(pid := None)"
      using Some by (simp add: pending_on_entry fun_eq_iff)
    show ?thesis
    proof (cases "pv_insert_fails env M_WakeupConsumed")
      case True
      show ?thesis
        by (rule cursor) (simp_all add: True Some False p d r m')
    next
      case ins: False
      show ?thesis
        by (rule ok) (simp_all add: ins Some p d r m' after)
    qed
  qed
qed

lemma drop_pending_cases:
  assumes "WAKEUP_DATA m pid = Some d" "\<not> same_wakeup_consumed m pid d"
  obtains m' where "drop_pending_wakeup_after_cursor_failure pid d m = (True, m')"
    and "m' = m\<lparr>WAKEUP_DATA := (WAKEUP_DATA m)(pid := None), WAKEUP_CONSUMED := (WAKEUP_CONSUMED m)(pid := None)\<rparr>"
    and "pending_on m' = (pending_on m)(pid := None)"
  using assms
  by (simp add: drop_pending_wakeup_after_cursor_failure_def same_value_iff pending_on_entry fun_eq_iff)

lemma exit_pending:
  assumes "remove_for_exit pid m = (was_pending, out, m')"
  shows "pending_on m' = (pending_on m)(pid := None)"
    and "was_pending \<longleftrightarrow> pending_on m pid \<noteq> None"
    and "pending_on m pid \<noteq> None \<Longrightarrow> pending_on m pid = Some (wd_target_cpu out)"
    and "m' = m\<lparr>WAKEUP_DATA := (WAKEUP_DATA m)(pid := None), WAKEUP_CONSUMED := (WAKEUP_CONSUMED m)(pid := None),
      WAKEUP_SEQ := (WAKEUP_SEQ m)(pid := None)\<rparr>"
proof -
  show m': "m' = m\<lparr>WAKEUP_DATA := (WAKEUP_DATA m)(pid := None), WAKEUP_CONSUMED := (WAKEUP_CONSUMED m)(pid := None),
      WAKEUP_SEQ := (WAKEUP_SEQ m)(pid := None)\<rparr>"
    using assms by (auto simp: remove_for_exit_def Let_def split: option.splits)
  show "pending_on m' = (pending_on m)(pid := None)"
    by (simp add: m' pending_on_entry fun_eq_iff)
  show "was_pending \<longleftrightarrow> pending_on m pid \<noteq> None"
    and "pending_on m pid \<noteq> None \<Longrightarrow> pending_on m pid = Some (wd_target_cpu out)"
    using assms by (auto simp: remove_for_exit_def pending_on_def Let_def split: option.splits if_splits)
qed

section \<open>Every program keeps the invariants\<close>

lemma mark_runnable_tracked:
  "\<not> pv_insert_fails env M_RunnableTaskCpu \<Longrightarrow> pid \<noteq> 0 \<Longrightarrow> fst (mark_task_runnable env pid cpu m) \<longleftrightarrow> valid_cpu cpu"
  by (auto simp: mark_task_runnable_def map_insert_def split: option.split)

lemma mark_runnable_frame:
  assumes "mark_task_runnable env pid cpu m = (t, m1)"
  shows "TARGET_PENDING_WAKEUPS m1 = TARGET_PENDING_WAKEUPS m" "WAKEUP_DATA m1 = WAKEUP_DATA m"
    "WAKEUP_CONSUMED m1 = WAKEUP_CONSUMED m" "TARGET_PIDS m1 = TARGET_PIDS m" "EVENTS m1 = EVENTS m"
    "WAKEUP_SEQ m1 = WAKEUP_SEQ m"
proof -
  have "m1 = snd (mark_task_runnable env pid cpu m)"
    using assms by simp
  then show "TARGET_PENDING_WAKEUPS m1 = TARGET_PENDING_WAKEUPS m" "WAKEUP_DATA m1 = WAKEUP_DATA m"
    "WAKEUP_CONSUMED m1 = WAKEUP_CONSUMED m" "TARGET_PIDS m1 = TARGET_PIDS m" "EVENTS m1 = EVENTS m"
    "WAKEUP_SEQ m1 = WAKEUP_SEQ m"
    by simp_all
qed

lemma pending_after_mark:
  assumes "\<not> pv_insert_fails env M_RunnableTaskCpu" "pid \<noteq> 0"
  shows "TARGET_PENDING_WAKEUPS (case mark_task_runnable env pid cpu m of
      (tracked, m) \<Rightarrow> if tracked then increment_target_pending env cpu m else m) =
    TARGET_PENDING_WAKEUPS (increment_target_pending env cpu m)"
proof -
  obtain t m1 where mk: "mark_task_runnable env pid cpu m = (t, m1)"
    by (cases "mark_task_runnable env pid cpu m")
  then have same: "TARGET_PENDING_WAKEUPS m1 = TARGET_PENDING_WAKEUPS m" and t: "t \<longleftrightarrow> valid_cpu cpu"
    using mark_runnable_frame(1) [OF mk] mark_runnable_tracked [OF assms, of cpu m] by simp_all
  show ?thesis
    by (cases "valid_cpu cpu") (simp_all add: mk t same pending.count_inc pending.out_of_range)
qed

lemma account_frame [simp]:
  "WAKEUP_DATA (account_wakeup env pid cpu r old m) = WAKEUP_DATA m"
  "WAKEUP_CONSUMED (account_wakeup env pid cpu r old m) = WAKEUP_CONSUMED m"
  "TARGET_PIDS (account_wakeup env pid cpu r old m) = TARGET_PIDS m"
  "EVENTS (account_wakeup env pid cpu r old m) = EVENTS m"
  "WAKEUP_SEQ (account_wakeup env pid cpu r old m) = WAKEUP_SEQ m"
  by (auto simp: account_wakeup_def split: wakeup_record_result.split prod.split dest: mark_runnable_frame)

lemma account_depth: "depth_inv m \<Longrightarrow> depth_inv (account_wakeup env pid cpu r old m)"
proof -
  assume inv: "depth_inv m"
  let ?d = "decrement_target_pending (wd_target_cpu old) (increment_drop_counter env DROP_WAKEUP_DATA_REPLACED_ENTRY m)"
  have "depth_inv ?d"
    using inv by (simp add: depth_inv_def)
  from depth_mark_runnable [OF inv, of env pid cpu] depth_mark_runnable [OF this, of env pid cpu] show ?thesis
    using inv by (auto simp: account_wakeup_def depth_inv_def split: wakeup_record_result.split prod.split)
qed

lemma account_pending:
  assumes rec: "record_wakeup env pid d m = (r, old, m')" and inv: "pending_inv m"
    and ok: "\<not> pv_insert_fails env M_RunnableTaskCpu" "pid \<noteq> 0"
  shows "pending_inv (account_wakeup env pid (wd_target_cpu d) r old m')"
  using rec
proof (cases rule: record_wakeup_cases)
  case failed
  then show ?thesis
    using inv by (simp add: account_wakeup_def pending_inv_def pending_on_entry)
next
  case recorded
  let ?cpu = "wd_target_cpu d"
  have counts: "TARGET_PENDING_WAKEUPS m' = TARGET_PENDING_WAKEUPS m"
    by (simp add: recorded(1))
  have "tally ((pending_on m)(pid \<mapsto> ?cpu)) (TARGET_PENDING_WAKEUPS (account_wakeup env pid ?cpu r old m'))"
  proof (cases "pending_on m pid")
    case None
    have "tally ((pending_on m)(pid \<mapsto> ?cpu)) (TARGET_PENDING_WAKEUPS (increment_target_pending env ?cpu m'))"
      using pending.tally_inc [where f = "pending_on m" and m = m' and p = pid and cpu = ?cpu and env = env] inv None ok(2) counts by (simp add: pending_inv_def)
    then show ?thesis
      using None recorded(3) by (simp add: account_wakeup_def pending_after_mark [OF ok])
  next
    case (Some old_cpu)
    show ?thesis
    proof (cases "old_cpu = ?cpu")
      case True
      then have "(pending_on m)(pid \<mapsto> ?cpu) = pending_on m"
        using Some by auto
      moreover have "TARGET_PENDING_WAKEUPS (account_wakeup env pid ?cpu r old m') = TARGET_PENDING_WAKEUPS m'"
        using True Some recorded(3) by (auto simp: account_wakeup_def split: prod.split dest: mark_runnable_frame)
      ultimately show ?thesis
        using inv counts by (simp add: pending_inv_def)
    next
      case False
      let ?d = "decrement_target_pending (wd_target_cpu old) (increment_drop_counter env DROP_WAKEUP_DATA_REPLACED_ENTRY m')"
      have old: "old_cpu = wd_target_cpu old"
        using recorded(4) Some by simp
      have "tally ((pending_on m)(pid \<mapsto> ?cpu)) (TARGET_PENDING_WAKEUPS (increment_target_pending env ?cpu ?d))"
        using pending.tally_move [where f = "pending_on m" and p = pid and old = "wd_target_cpu old" and m' = ?d
            and m = "increment_drop_counter env DROP_WAKEUP_DATA_REPLACED_ENTRY m'" and cpu = ?cpu and env = env] inv Some old ok(2) counts
        by (simp add: pending_inv_def)
      then show ?thesis
        using False Some recorded(3) by (simp add: account_wakeup_def pending_after_mark [OF ok])
    qed
  qed
  then show ?thesis
    using recorded(2) by (simp add: pending_inv_def pending_on_entry)
qed

lemma next_seq_frame:
  assumes "next_wakeup_seq env pid m = (r, m')"
  shows "m' = m\<lparr>WAKEUP_SEQ := WAKEUP_SEQ m'\<rparr>"
  using assms by (auto simp: next_wakeup_seq_def map_insert_def Let_def split: if_splits)

lemma next_seq_value: "next_wakeup_seq env pid m = (Some q, m1) \<Longrightarrow> WAKEUP_SEQ m1 = (WAKEUP_SEQ m)(pid \<mapsto> q)"
  by (auto simp: next_wakeup_seq_def map_insert_def Let_def split: if_splits)

lemma inv_seq [simp]:
  "depth_inv (m\<lparr>WAKEUP_SEQ := x\<rparr>) = depth_inv m" "pending_inv (m\<lparr>WAKEUP_SEQ := x\<rparr>) = pending_inv m"
  by (simp_all add: depth_inv_def pending_inv_def pending_on_entry)

lemma record_depth: "record_wakeup env pid d m = (r, old, m') \<Longrightarrow> depth_inv m' = depth_inv m"
  by (erule record_wakeup_cases) (simp_all add: depth_inv_def)

lemma sint_pos_nonzero: "\<not> sint (pid :: u32) \<le> 0 \<Longrightarrow> pid \<noteq> 0"
  by auto

lemma wakeup_cases:
  obtains (nothing) "snd (try_sched_wakeup env ctx m) = m"
  | (dropped) "snd (try_sched_wakeup env ctx m) = increment_drop_counter env DROP_WAKEUP_DATA_INSERT_FAILED m"
  | (recorded) pid cpu seq s r old m2 where "\<not> sint pid \<le> 0" "is_target_pid m pid"
      "next_wakeup_seq env pid m = (Some seq, m\<lparr>WAKEUP_SEQ := s\<rparr>)"
      "record_wakeup env pid \<lparr>wd_ts = pv_ktime_ns env, wd_target_cpu = cpu, wd_waker_tid = current_tid env, wd_seq = seq\<rparr>
         (m\<lparr>WAKEUP_SEQ := s\<rparr>) = (r, old, m2)"
      "snd (try_sched_wakeup env ctx m) = account_wakeup env pid cpu r old m2"
proof (cases "read_u32 ctx SCHED_WAKEUP_PID_OFFSET = None \<or> read_u32 ctx SCHED_WAKEUP_TARGET_CPU_OFFSET = None")
  case True
  show ?thesis
    by (rule nothing) (use True in \<open>auto simp: try_sched_wakeup_def split: option.split\<close>)
next
  case False
  then obtain pid cpu where reads: "read_u32 ctx SCHED_WAKEUP_PID_OFFSET = Some pid"
      "read_u32 ctx SCHED_WAKEUP_TARGET_CPU_OFFSET = Some cpu"
    by auto
  show ?thesis
  proof (cases "sint pid \<le> 0 \<or> \<not> is_target_pid m pid")
    case True
    show ?thesis
      by (rule nothing) (use True reads in \<open>auto simp: try_sched_wakeup_def\<close>)
  next
    case target: False
    obtain q m1 where seq: "next_wakeup_seq env pid m = (q, m1)"
      by (cases "next_wakeup_seq env pid m")
    show ?thesis
    proof (cases q)
      case None
      then have "m1 = m"
        using seq by (auto simp: next_wakeup_seq_def map_insert_def Let_def split: if_splits)
      with None dropped reads target seq show ?thesis
        by (simp add: try_sched_wakeup_def)
    next
      case (Some n)
      obtain s where m1: "m1 = m\<lparr>WAKEUP_SEQ := s\<rparr>"
        using next_seq_frame [OF seq] by blast
      obtain r old m2 where rec: "record_wakeup env pid
          \<lparr>wd_ts = pv_ktime_ns env, wd_target_cpu = cpu, wd_waker_tid = current_tid env, wd_seq = n\<rparr> m1 = (r, old, m2)"
        by (metis prod_cases3)
      show ?thesis
        by (rule recorded [of pid n s cpu r old m2])
          (use target reads seq Some rec m1 in \<open>simp_all add: try_sched_wakeup_def\<close>)
    qed
  qed
qed

lemma wakeup_keeps_depth:
  assumes "depth_inv m"
  shows "depth_inv (snd (try_sched_wakeup env ctx m))"
proof (cases rule: wakeup_cases [of env ctx m])
  case (recorded pid cpu seq s r old m2)
  with assms record_depth [OF recorded(4)] show ?thesis
    by (simp add: account_depth)
qed (use assms in \<open>simp_all add: depth_inv_def\<close>)

lemma wakeup_keeps_pending:
  assumes "pending_inv m" "\<not> pv_insert_fails env M_RunnableTaskCpu"
  shows "pending_inv (snd (try_sched_wakeup env ctx m))"
proof (cases rule: wakeup_cases [of env ctx m])
  case (recorded pid cpu seq s r old m2)
  then show ?thesis
    using account_pending [OF recorded(4) _ assms(2) sint_pos_nonzero [OF recorded(1)]] assms(1) by simp
qed (use assms in \<open>simp_all add: pending_inv_def pending_on_entry\<close>)

lemma abandon_depth: "depth_inv m \<Longrightarrow> depth_inv (abandon_wakeup env r pid d m)"
  unfolding abandon_wakeup_def by (rule depth_remove) (simp add: depth_inv_def)

lemma report_depth: "depth_inv m \<Longrightarrow> depth_inv (snd (report_switch env ctx pid d a b m))"
  using depth_running [of m pid "pv_cpu env"]
  by (simp add: report_switch_def Let_def depth_inv_def split: option.split)

text \<open>What a switch does to the pending wakeups once it has consumed one.\<close>

lemma abandon_frame:
  "TARGET_PENDING_WAKEUPS (abandon_wakeup env r pid d m) = TARGET_PENDING_WAKEUPS (decrement_target_pending (wd_target_cpu d) m)"
  "WAKEUP_DATA (abandon_wakeup env r pid d m) = WAKEUP_DATA m"
  "WAKEUP_CONSUMED (abandon_wakeup env r pid d m) = WAKEUP_CONSUMED m"
  by (simp_all add: abandon_wakeup_def decrement_target_pending_def split: option.split)

lemma decrement_pending_cong:
  "TARGET_PENDING_WAKEUPS m' = TARGET_PENDING_WAKEUPS m \<Longrightarrow>
   TARGET_PENDING_WAKEUPS (decrement_target_pending cpu m') = TARGET_PENDING_WAKEUPS (decrement_target_pending cpu m)"
  by (simp add: decrement_target_pending_def split: option.split)

lemma report_frame:
  "TARGET_PENDING_WAKEUPS (snd (report_switch env ctx pid d a b m)) =
     TARGET_PENDING_WAKEUPS (decrement_target_pending (wd_target_cpu d) m)"
  "WAKEUP_DATA (snd (report_switch env ctx pid d a b m)) = WAKEUP_DATA m"
  "WAKEUP_CONSUMED (snd (report_switch env ctx pid d a b m)) = WAKEUP_CONSUMED m"
  using decrement_pending_cong [of "mark_task_running pid (pv_cpu env) m" m]
  by (simp_all add: report_switch_def Let_def split: option.split)

lemma switch_keeps_depth:
  assumes "depth_inv m"
  shows "depth_inv (snd (try_sched_switch env ctx m))"
proof (cases "read_u32 ctx SCHED_SWITCH_NEXT_PID_OFFSET")
  case None
  with assms show ?thesis
    by (simp add: try_sched_switch_def)
next
  case (Some pid)
  obtain r d m1 where con: "consume_pending_wakeup env pid m = (r, d, m1)"
    by (metis prod_cases3)
  then have inv: "depth_inv m1"
    by (cases rule: consume_cases) (use assms in \<open>simp_all add: depth_inv_def\<close>)
  let ?m = "increment_drop_counter env DROP_WAKEUP_DATA_INSERT_FAILED m1"
  have "depth_inv (remove_runnable_task_if_present pid (decrement_target_pending (wd_target_cpu d) m2))"
    if "drop_pending_wakeup_after_cursor_failure pid d ?m = (True, m2)" for m2
    by (rule depth_remove)
      (use inv that in \<open>auto simp: drop_pending_wakeup_after_cursor_failure_def depth_inv_def split: option.splits if_splits\<close>)
  moreover have "depth_inv m2" if "drop_pending_wakeup_after_cursor_failure pid d ?m = (False, m2)" for m2
    using inv that by (auto simp: drop_pending_wakeup_after_cursor_failure_def depth_inv_def split: option.splits if_splits)
  ultimately show ?thesis
    using assms Some con inv abandon_depth [OF inv] report_depth [OF inv]
    by (auto simp: try_sched_switch_def Let_def split: wakeup_consume_result.split option.split prod.split bool.split)
qed

lemma pending_consumed:
  assumes "pending_inv m" "pending_on m pid = Some cpu"
    and "pending_on m2 = (pending_on m)(pid := None)"
    and "TARGET_PENDING_WAKEUPS m2 = TARGET_PENDING_WAKEUPS (decrement_target_pending cpu m)"
  shows "pending_inv m2"
  using pending.tally_dec [of "pending_on m" m pid cpu] assms by (simp add: pending_inv_def)

lemma switch_keeps_pending:
  assumes "pending_inv m"
  shows "pending_inv (snd (try_sched_switch env ctx m))"
proof (cases "read_u32 ctx SCHED_SWITCH_NEXT_PID_OFFSET")
  case None
  with assms show ?thesis
    by (simp add: try_sched_switch_def)
next
  case (Some pid)
  obtain r d m1 where con: "consume_pending_wakeup env pid m = (r, d, m1)"
    by (metis prod_cases3)
  show ?thesis
  proof (cases "sint pid \<le> 0")
    case True
    with Some assms show ?thesis
      by (simp add: try_sched_switch_def)
  next
    case pid: False
    from con show ?thesis
    proof (cases rule: consume_cases)
      case none
      with Some con assms show ?thesis
        by (simp add: try_sched_switch_def)
    next
      case ok
      let ?m2 = "snd (try_sched_switch env ctx m)"
      have same: "TARGET_PENDING_WAKEUPS m1 = TARGET_PENDING_WAKEUPS m"
        by (simp add: ok(2))
      have "TARGET_PENDING_WAKEUPS ?m2 = TARGET_PENDING_WAKEUPS (decrement_target_pending (wd_target_cpu d) m1)"
        and "WAKEUP_DATA ?m2 = WAKEUP_DATA m1" "WAKEUP_CONSUMED ?m2 = WAKEUP_CONSUMED m1"
        using Some pid con ok(1)
        by (simp_all add: try_sched_switch_def abandon_frame report_frame split: option.split)
      then show ?thesis
        using ok(5) decrement_pending_cong [OF same]
        by (intro pending_consumed [OF assms ok(4)]) (simp_all add: pending_on_entry)
    next
      case cursor
      let ?m = "increment_drop_counter env DROP_WAKEUP_DATA_INSERT_FAILED m"
      obtain m2 where drop: "drop_pending_wakeup_after_cursor_failure pid d ?m = (True, m2)"
        and m2: "m2 = ?m\<lparr>WAKEUP_DATA := (WAKEUP_DATA ?m)(pid := None), WAKEUP_CONSUMED := (WAKEUP_CONSUMED ?m)(pid := None)\<rparr>"
        and pend: "pending_on m2 = (pending_on ?m)(pid := None)"
        using drop_pending_cases [of ?m pid d] cursor(3,4) by (auto simp: same_consumed_iff)
      have "TARGET_PENDING_WAKEUPS m2 = TARGET_PENDING_WAKEUPS m"
        by (simp add: m2)
      moreover have "pending_on ?m = pending_on m"
        by (simp add: pending_on_entry)
      ultimately show ?thesis
        using Some pid con cursor(1,2) drop pend decrement_pending_cong [of m2 m "wd_target_cpu d"]
        by (intro pending_consumed [OF assms cursor(5)]) (simp_all add: try_sched_switch_def Let_def pending_on_entry)
    qed
  qed
qed

lemma migrate_keeps:
  "depth_inv m \<Longrightarrow> depth_inv (snd (try_sched_migrate_task env ctx m))"
  "pending_inv m \<Longrightarrow> pending_inv (snd (try_sched_migrate_task env ctx m))"
  using depth_mark_runnable [of m env]
  by (auto simp: try_sched_migrate_task_def Let_def depth_inv_def pending_inv_def pending_on_entry split: option.split)

lemma exit_keeps:
  "depth_inv m \<Longrightarrow> depth_inv (snd (try_sched_process_exit env m))"
  "pending_inv m \<Longrightarrow> pending_inv (snd (try_sched_process_exit env m))"
proof -
  let ?tid = "current_tid env"
  let ?m = "remove_runnable_task_if_present ?tid m"
  obtain was out m1 where ex: "remove_for_exit ?tid ?m = (was, out, m1)"
    by (metis prod_cases3)
  note e = exit_pending [OF ex]
  show "depth_inv (snd (try_sched_process_exit env m))" if "depth_inv m"
    using depth_remove [OF that, of ?tid] ex e(4)
    by (auto simp: try_sched_process_exit_def Let_def depth_inv_def)
  have m: "pending_on ?m = pending_on m" "TARGET_PENDING_WAKEUPS m1 = TARGET_PENDING_WAKEUPS m"
    by (simp_all add: pending_on_entry e(4))
  show "pending_inv (snd (try_sched_process_exit env m))" if inv: "pending_inv m"
  proof (cases was)
    case True
    then have p: "pending_on m ?tid = Some (wd_target_cpu out)"
      using e(2,3) m by simp
    show ?thesis
      using True ex e(1) m decrement_pending_cong [OF m(2)]
      by (intro pending_consumed [OF inv p]) (simp_all add: try_sched_process_exit_def Let_def pending_on_entry)
  next
    case False
    then have "(pending_on m)(?tid := None) = pending_on m"
      using e(2) m by auto
    then have "pending_on m1 = pending_on m"
      using e(1) m by simp
    with False ex inv m show ?thesis
      by (simp add: try_sched_process_exit_def Let_def pending_inv_def pending_on_entry)
  qed
qed

section \<open>Reachable states\<close>

text \<open>The maps the two invariants are about; the other programs do not touch them.\<close>

definition sched_view where
  "sched_view m =
     (RUNNABLE_TASK_CPU m, CPU_RUNNABLE_DEPTH m, WAKEUP_DATA m, WAKEUP_CONSUMED m, TARGET_PENDING_WAKEUPS m, WAKEUP_SEQ m)"

text \<open>The sequence number of a stored wakeup is the last one handed out for its task.\<close>

definition seq_inv :: "bpf_maps \<Rightarrow> bool" where
  "seq_inv m \<longleftrightarrow> (\<forall>p d. WAKEUP_DATA m p = Some d \<longrightarrow> WAKEUP_SEQ m p = Some (wd_seq d))"

lemma view_inv:
  "sched_view m' = sched_view m \<Longrightarrow> depth_inv m' = depth_inv m \<and> pending_inv m' = pending_inv m \<and> seq_inv m' = seq_inv m"
  by (simp add: sched_view_def depth_inv_def pending_inv_def pending_on_entry seq_inv_def)

lemma view_frame [simp]:
  "sched_view (emit_ringbuf_event env ev m) = sched_view m"
  "sched_view (increment_drop_counter env r m) = sched_view m"
  "sched_view (m\<lparr>IRQ_START_TIMES := a\<rparr>) = sched_view m"
  "sched_view (m\<lparr>BLOCK_START := b\<rparr>) = sched_view m"
  "sched_view (m\<lparr>KMS_FLIP_STARTS := c\<rparr>) = sched_view m"
  "sched_view (m\<lparr>FENCE_WAIT_STARTS := d\<rparr>) = sched_view m"
  "sched_view (m\<lparr>FENCE_SIGNAL_TIMES := e\<rparr>) = sched_view m"
  "sched_view (m\<lparr>PREV_FAULTS := f\<rparr>) = sched_view m"
  "sched_view (m\<lparr>TARGET_PIDS := g, TARGET_CGROUP_IDS := h, TARGET_IRQS := i, EVENTS := j\<rparr>) = sched_view m"
  by (simp_all add: sched_view_def)

lemma io_view:
  "sched_view (snd (try_sched_stat_wait env ctx m)) = sched_view m"
  "sched_view (snd (try_sched_process_exec env m)) = sched_view m"
  "sched_view (snd (count_fault env one m)) = sched_view m"
  "sched_view (snd (try_irq_handler_entry env ctx m)) = sched_view m"
  "sched_view (snd (try_irq_handler_exit env ctx m)) = sched_view m"
  "sched_view (snd (try_block_rq_issue offs env ctx m)) = sched_view m"
  "sched_view (snd (try_block_rq_complete offs env ctx m)) = sched_view m"
  "sched_view (snd (try_cpu_frequency env ctx m)) = sched_view m"
  "sched_view (snd (try_kms_flip_request a b c d e env ctx m)) = sched_view m"
  "sched_view (snd (try_kms_flip_done sf a b c d env ctx m)) = sched_view m"
  "sched_view (snd (try_drm_fence_wait_start tp env ctx m)) = sched_view m"
  "sched_view (snd (try_drm_fence_wait_done tp env ctx m)) = sched_view m"
  "sched_view (snd (try_drm_fence_signal tp env ctx m)) = sched_view m"
  unfolding try_sched_stat_wait_def try_sched_process_exec_def count_fault_def try_irq_handler_entry_def
    try_irq_handler_exit_def try_block_rq_issue_def try_block_rq_complete_def try_cpu_frequency_def
    try_kms_flip_request_def try_kms_flip_done_def emit_kms_flip_event_def try_drm_fence_wait_start_def
    try_drm_fence_wait_done_def try_drm_fence_signal_def Let_def
  by (simp_all split: option.split)

lemmas io_inv = io_view [THEN view_inv]

text \<open>The entry points of \<open>main.rs\<close> and what userspace configures before loading.\<close>

datatype bpf_program =
    P_sched_wakeup | P_sched_wakeup_new | P_sched_switch | P_sched_migrate_task | P_sched_process_exec
  | P_cpu_frequency | P_sched_stat_wait | P_sched_process_exit | P_major_fault | P_minor_fault
  | P_irq_handler_entry | P_irq_handler_exit | P_block_rq_issue | P_block_rq_complete
  | P_i915_flip_request | P_i915_flip_done | P_drm_flip_request | P_drm_flip_done | P_drm_vblank_event
  | P_amdgpu_flip_request | P_amdgpu_flip_done | P_amdgpu_vblank_event
  | P_drm_fence_wait_start | P_drm_fence_wait_done | P_drm_fence_signal

record bpf_config =
  bc_block :: trace_offsets
  bc_kms :: kms_offsets
  bc_fence_wait_start :: fence_tracepoint
  bc_fence_wait_done :: fence_tracepoint
  bc_fence_signal :: fence_tracepoint

fun run_program :: "bpf_config \<Rightarrow> bpf_program \<Rightarrow> probe_env \<Rightarrow> tracepoint_ctx \<Rightarrow> bpf_maps \<Rightarrow> u32 \<times> bpf_maps" where
  "run_program c P_sched_wakeup env ctx m = try_sched_wakeup env ctx m"
| "run_program c P_sched_wakeup_new env ctx m = try_sched_wakeup env ctx m"
| "run_program c P_sched_switch env ctx m = try_sched_switch env ctx m"
| "run_program c P_sched_migrate_task env ctx m = try_sched_migrate_task env ctx m"
| "run_program c P_sched_process_exec env ctx m = try_sched_process_exec env m"
| "run_program c P_cpu_frequency env ctx m = try_cpu_frequency env ctx m"
| "run_program c P_sched_stat_wait env ctx m = try_sched_stat_wait env ctx m"
| "run_program c P_sched_process_exit env ctx m = try_sched_process_exit env m"
| "run_program c P_major_fault env ctx m = try_major_fault env m"
| "run_program c P_minor_fault env ctx m = try_minor_fault env m"
| "run_program c P_irq_handler_entry env ctx m = try_irq_handler_entry env ctx m"
| "run_program c P_irq_handler_exit env ctx m = try_irq_handler_exit env ctx m"
| "run_program c P_block_rq_issue env ctx m = try_block_rq_issue (bc_block c) env ctx m"
| "run_program c P_block_rq_complete env ctx m = try_block_rq_complete (bc_block c) env ctx m"
| "run_program c P_i915_flip_request env ctx m = try_i915_flip_request (bc_kms c) env ctx m"
| "run_program c P_i915_flip_done env ctx m = try_i915_flip_done (bc_kms c) env ctx m"
| "run_program c P_drm_flip_request env ctx m = try_drm_flip_request (bc_kms c) env ctx m"
| "run_program c P_drm_flip_done env ctx m = try_drm_flip_done (bc_kms c) env ctx m"
| "run_program c P_drm_vblank_event env ctx m = try_drm_vblank_event (bc_kms c) env ctx m"
| "run_program c P_amdgpu_flip_request env ctx m = try_amdgpu_flip_request (bc_kms c) env ctx m"
| "run_program c P_amdgpu_flip_done env ctx m = try_amdgpu_flip_done (bc_kms c) env ctx m"
| "run_program c P_amdgpu_vblank_event env ctx m = try_amdgpu_vblank_event (bc_kms c) env ctx m"
| "run_program c P_drm_fence_wait_start env ctx m = try_drm_fence_wait_start (bc_fence_wait_start c) env ctx m"
| "run_program c P_drm_fence_wait_done env ctx m = try_drm_fence_wait_done (bc_fence_wait_done c) env ctx m"
| "run_program c P_drm_fence_signal env ctx m = try_drm_fence_signal (bc_fence_signal c) env ctx m"

text \<open>
  One step: a program runs from its start to its end in an environment of the given kind, or userspace refreshes
  the targets and drains events. Runs that overlap on different CPUs are not steps of this relation: it is the
  relation of serialised runs.
\<close>

inductive bpf_step :: "(probe_env \<Rightarrow> bool) \<Rightarrow> bpf_config \<Rightarrow> bpf_maps \<Rightarrow> bpf_maps \<Rightarrow> bool" for ok c where
  program: "ok env \<Longrightarrow> bpf_step ok c m (snd (run_program c p env ctx m))"
| userspace: "bpf_step ok c m (m\<lparr>TARGET_PIDS := pids, TARGET_CGROUP_IDS := cgroups, TARGET_IRQS := irqs,
      EVENTS := drop n (EVENTS m)\<rparr>)"

inductive bpf_reachable :: "(probe_env \<Rightarrow> bool) \<Rightarrow> bpf_config \<Rightarrow> bpf_maps \<Rightarrow> bool" for ok c where
  loaded: "bpf_reachable ok c empty_maps"
| stepped: "bpf_reachable ok c m \<Longrightarrow> bpf_step ok c m m' \<Longrightarrow> bpf_reachable ok c m'"

lemmas program_defs =
  try_major_fault_def try_minor_fault_def flip_request_at_def flip_done_at_def
  try_i915_flip_request_def try_i915_flip_done_def try_drm_flip_request_def try_drm_flip_done_def
  try_drm_vblank_event_def try_amdgpu_flip_request_def try_amdgpu_flip_done_def try_amdgpu_vblank_event_def

lemma program_keeps_depth: "depth_inv m \<Longrightarrow> depth_inv (snd (run_program c p env ctx m))"
  by (cases p)
    (simp_all add: wakeup_keeps_depth switch_keeps_depth migrate_keeps exit_keeps program_defs io_inv)

lemma program_keeps_pending:
  "pending_inv m \<Longrightarrow> \<not> pv_insert_fails env M_RunnableTaskCpu \<Longrightarrow> pending_inv (snd (run_program c p env ctx m))"
  by (cases p)
    (simp_all add: wakeup_keeps_pending switch_keeps_pending migrate_keeps exit_keeps program_defs io_inv)

lemma wakeup_keeps_seq:
  assumes "seq_inv m" "\<not> pv_insert_fails env M_WakeupData"
  shows "seq_inv (snd (try_sched_wakeup env ctx m))"
proof (cases rule: wakeup_cases [of env ctx m])
  case (recorded pid cpu seq s r old m2)
  have s: "s = (WAKEUP_SEQ m)(pid \<mapsto> seq)"
    using next_seq_value [OF recorded(3)] by simp
  have "WAKEUP_DATA m2 = (WAKEUP_DATA m)(pid \<mapsto> \<lparr>wd_ts = pv_ktime_ns env, wd_target_cpu = cpu,
      wd_waker_tid = current_tid env, wd_seq = seq\<rparr>)" "WAKEUP_SEQ m2 = s"
    using record_wakeup_ok [OF recorded(4) assms(2)] by simp_all
  with assms(1) recorded(5) s show ?thesis
    by (simp add: seq_inv_def)
qed (use assms in \<open>simp_all add: seq_inv_def\<close>)

lemma abandon_seq: "WAKEUP_SEQ (abandon_wakeup env r pid d m) = WAKEUP_SEQ m"
  "WAKEUP_SEQ (snd (report_switch env ctx pid d a b m)) = WAKEUP_SEQ m"
  by (simp_all add: abandon_wakeup_def report_switch_def Let_def split: option.split)

lemma switch_keeps_seq:
  "WAKEUP_SEQ (snd (try_sched_switch env ctx m)) = WAKEUP_SEQ m"
  "WAKEUP_DATA (snd (try_sched_switch env ctx m)) p = Some d \<Longrightarrow> WAKEUP_DATA m p = Some d"
  by (auto simp: try_sched_switch_def consume_pending_wakeup_def drop_pending_wakeup_after_cursor_failure_def map_insert_def
      abandon_frame report_frame abandon_seq Let_def split: option.splits if_splits)

lemma program_keeps_seq:
  assumes "seq_inv m" "\<not> pv_insert_fails env M_WakeupData"
  shows "seq_inv (snd (run_program c p env ctx m))"
proof -
  have switch: "seq_inv (snd (try_sched_switch env ctx m))"
    unfolding seq_inv_def switch_keeps_seq(1)
    using assms(1) [unfolded seq_inv_def] switch_keeps_seq(2) by blast
  have migrate: "seq_inv (snd (try_sched_migrate_task env ctx m))"
    using assms(1) by (simp add: seq_inv_def try_sched_migrate_task_def Let_def split: option.split)
  have exit: "seq_inv (snd (try_sched_process_exit env m))"
    using assms(1) by (auto simp: seq_inv_def try_sched_process_exit_def remove_for_exit_def Let_def split: option.split)
  show ?thesis
    using assms(1)
    by (cases p) (simp_all add: wakeup_keeps_seq assms(2) switch migrate exit program_defs io_inv)
qed

lemma reachable_seq:
  assumes "bpf_reachable ok c m" "\<And>env. ok env \<Longrightarrow> \<not> pv_insert_fails env M_WakeupData"
  shows "seq_inv m"
  using assms(1)
proof (induction rule: bpf_reachable.induct)
  case loaded
  then show ?case
    by (simp add: seq_inv_def empty_maps_def)
next
  case (stepped m m')
  from stepped.hyps(2) stepped.IH show ?case
    by cases (simp_all add: program_keeps_seq assms(2) view_inv [OF view_frame(9)])
qed

lemma reachable_depth: "bpf_reachable ok c m \<Longrightarrow> depth_inv m"
proof (induction rule: bpf_reachable.induct)
  case loaded
  then show ?case
    by (simp add: depth_inv_def tally_def empty_maps_def)
next
  case (stepped m m')
  from stepped.hyps(2) stepped.IH show ?case
    by cases (simp_all add: program_keeps_depth view_inv [OF view_frame(9)])
qed

lemma reachable_pending:
  assumes "bpf_reachable ok c m" "\<And>env. ok env \<Longrightarrow> \<not> pv_insert_fails env M_RunnableTaskCpu"
  shows "pending_inv m"
  using assms(1)
proof (induction rule: bpf_reachable.induct)
  case loaded
  then show ?case
    by (simp add: pending_inv_def tally_def empty_maps_def pending_on_entry)
next
  case (stepped m m')
  from stepped.hyps(2) stepped.IH show ?case
    by cases (simp_all add: program_keeps_pending assms(2) view_inv [OF view_frame(9)])
qed

end
