(* ===== verification/Ebpf_Properties.thy ===== *)
theory Ebpf_Properties
  imports Ebpf_Facts
begin

text \<open>
  The properties of the eBPF programs, with concrete runs in which their hypotheses hold.
\<close>

section \<open>Helper facts\<close>

text \<open>A successful wakeup of a target task: the next sequence number, a fresh record, no cursor.\<close>

lemma wakeup_installs:
  assumes "read_u32 ctx SCHED_WAKEUP_PID_OFFSET = Some pid" "read_u32 ctx SCHED_WAKEUP_TARGET_CPU_OFFSET = Some cpu"
    and "0 < sint pid" "pid \<in> TARGET_PIDS m"
    and "\<not> pv_insert_fails env M_WakeupSeq" "\<not> pv_insert_fails env M_WakeupData"
    and "WAKEUP_SEQ m pid = Some n"
  shows "WAKEUP_SEQ (snd (try_sched_wakeup env ctx m)) pid = Some (n + 1)"
    and "WAKEUP_DATA (snd (try_sched_wakeup env ctx m)) pid = Some
      \<lparr>wd_ts = pv_ktime_ns env, wd_target_cpu = cpu, wd_waker_tid = current_tid env, wd_seq = n + 1\<rparr>"
    and "TARGET_PIDS (snd (try_sched_wakeup env ctx m)) = TARGET_PIDS m"
proof -
  let ?d = "\<lparr>wd_ts = pv_ktime_ns env, wd_target_cpu = cpu, wd_waker_tid = current_tid env, wd_seq = n + 1\<rparr>"
  let ?m = "m\<lparr>WAKEUP_SEQ := (WAKEUP_SEQ m)(pid \<mapsto> n + 1)\<rparr>"
  obtain r old m2 where rec: "record_wakeup env pid ?d ?m = (r, old, m2)"
    by (metis prod_cases3)
  have m2: "m2 = ?m\<lparr>WAKEUP_DATA := (WAKEUP_DATA m)(pid \<mapsto> ?d), WAKEUP_CONSUMED := (WAKEUP_CONSUMED m)(pid := None)\<rparr>"
    using record_wakeup_ok [OF rec assms(6)] by simp
  have run: "snd (try_sched_wakeup env ctx m) = account_wakeup env pid cpu r old m2"
    using assms rec by (simp add: try_sched_wakeup_def is_target_pid_def next_wakeup_seq_def map_insert_def Let_def)
  show "WAKEUP_SEQ (snd (try_sched_wakeup env ctx m)) pid = Some (n + 1)"
    by (simp add: run m2)
  show "WAKEUP_DATA (snd (try_sched_wakeup env ctx m)) pid = Some ?d"
    by (simp add: run m2)
  show "TARGET_PIDS (snd (try_sched_wakeup env ctx m)) = TARGET_PIDS m"
    by (simp add: run m2)
qed

text \<open>Wakeups of one task while another CPU is between reading its record and writing the cursor.\<close>

definition wakes :: "u32 \<Rightarrow> probe_env \<times> tracepoint_ctx \<Rightarrow> bool" where
  "wakes pid w = (case w of (env, ctx) \<Rightarrow>
     read_u32 ctx SCHED_WAKEUP_PID_OFFSET = Some pid \<and> read_u32 ctx SCHED_WAKEUP_TARGET_CPU_OFFSET \<noteq> None
     \<and> \<not> pv_insert_fails env M_WakeupSeq \<and> \<not> pv_insert_fails env M_WakeupData)"

definition run_wakeups :: "(probe_env \<times> tracepoint_ctx) list \<Rightarrow> bpf_maps \<Rightarrow> bpf_maps" where
  "run_wakeups = fold (\<lambda>(env, ctx) m. snd (try_sched_wakeup env ctx m))"

definition write_cursor :: "u32 \<Rightarrow> wakeup_data \<Rightarrow> bpf_maps \<Rightarrow> bpf_maps" where
  "write_cursor pid d m = m\<lparr>WAKEUP_CONSUMED := (WAKEUP_CONSUMED m)(pid \<mapsto> d)\<rparr>"

lemma run_wakeups_seq:
  assumes "0 < sint pid" "list_all (wakes pid) ws" "pid \<in> TARGET_PIDS m" "WAKEUP_SEQ m pid = Some n" "ws \<noteq> []"
  shows "\<exists>d. WAKEUP_DATA (run_wakeups ws m) pid = Some d \<and> wd_seq d = n + of_nat (length ws)
    \<and> read_u32 (snd (last ws)) SCHED_WAKEUP_TARGET_CPU_OFFSET = Some (wd_target_cpu d)"
  using assms(2-)
proof (induction ws arbitrary: m n)
  case (Cons w ws)
  obtain env ctx where w: "w = (env, ctx)"
    by (cases w)
  from Cons.prems(1) w obtain cpu where ctx:
    "read_u32 ctx SCHED_WAKEUP_PID_OFFSET = Some pid" "read_u32 ctx SCHED_WAKEUP_TARGET_CPU_OFFSET = Some cpu"
    "\<not> pv_insert_fails env M_WakeupSeq" "\<not> pv_insert_fails env M_WakeupData"
    by (auto simp: wakes_def)
  note step = wakeup_installs [OF ctx(1,2) assms(1) Cons.prems(2) ctx(3,4) Cons.prems(3)]
  let ?m = "snd (try_sched_wakeup env ctx m)"
  have run: "run_wakeups (w # ws) m = run_wakeups ws ?m"
    by (simp add: run_wakeups_def w)
  show ?case
  proof (cases "ws = []")
    case True
    then show ?thesis
      using step(2) ctx(2) by (simp add: run_wakeups_def w)
  next
    case False
    from Cons.IH [OF _ _ step(1) False] Cons.prems(1,2) step(3) False run show ?thesis
      by (simp add: algebra_simps)
  qed
qed simp

section \<open>Sample environments\<close>

text \<open>A calm kernel, one in which insertions into the reverse map fail, and two tracepoint contexts.\<close>

definition calm_env :: probe_env where
  "calm_env = \<lparr>pv_ktime_ns = 5000, pv_pid_tgid = 0, pv_cpu = 0, pv_cgroup_id = 0, pv_comm = None,
     pv_insert_fails = (\<lambda>_. False), pv_reserve_fails = False, pv_evicted = {}\<rparr>"

definition full_env :: probe_env where
  "full_env = calm_env\<lparr>pv_insert_fails := (\<lambda>i. i = M_RunnableTaskCpu)\<rparr>"

definition wakeup_ctx :: "u32 \<Rightarrow> u32 \<Rightarrow> tracepoint_ctx" where
  "wakeup_ctx pid cpu =
     \<lparr>read_u32 = [24 \<mapsto> pid, 32 \<mapsto> cpu], read_u64 = (\<lambda>_. None), read_comm16 = (\<lambda>_. None)\<rparr>"

definition switch_ctx :: "u32 \<Rightarrow> u32 \<Rightarrow> tracepoint_ctx" where
  "switch_ctx prev nxt =
     \<lparr>read_u32 = [24 \<mapsto> prev, 56 \<mapsto> nxt, 60 \<mapsto> 120], read_u64 = [32 \<mapsto> 0],
      read_comm16 = [40 \<mapsto> replicate 16 0]\<rparr>"

lemmas sample_defs = calm_env_def full_env_def wakeup_ctx_def switch_ctx_def
  SCHED_WAKEUP_PID_OFFSET_def SCHED_WAKEUP_TARGET_CPU_OFFSET_def SCHED_SWITCH_NEXT_PID_OFFSET_def
  SCHED_SWITCH_PREV_PID_OFFSET_def SCHED_SWITCH_PREV_STATE_OFFSET_def SCHED_SWITCH_NEXT_PRIO_OFFSET_def
  SCHED_SWITCH_NEXT_COMM_OFFSET_def

definition sample_start :: bpf_maps where
  "sample_start = empty_maps\<lparr>TARGET_PIDS := {7, 8}\<rparr>"

lemma sample_start_reachable: "bpf_reachable ok c sample_start"
proof -
  have "bpf_step ok c empty_maps (empty_maps\<lparr>TARGET_PIDS := {7, 8}, TARGET_CGROUP_IDS := {}, TARGET_IRQS := {},
      EVENTS := drop 0 (EVENTS empty_maps)\<rparr>)"
    by (rule userspace)
  also have "empty_maps\<lparr>TARGET_PIDS := {7, 8}, TARGET_CGROUP_IDS := {}, TARGET_IRQS := {},
      EVENTS := drop 0 (EVENTS empty_maps)\<rparr> = sample_start"
    by (simp add: sample_start_def empty_maps_def)
  finally show ?thesis
    using loaded stepped by metis
qed

lemma reachable_program: "bpf_reachable ok c m \<Longrightarrow> ok env \<Longrightarrow> bpf_reachable ok c (snd (run_program c p env ctx m))"
  using program stepped by metis

definition woken :: bpf_maps where
  "woken = snd (try_sched_wakeup calm_env (wakeup_ctx 7 3) sample_start)"

lemma woken_reachable: "ok calm_env \<Longrightarrow> bpf_reachable ok c woken"
  using reachable_program [OF sample_start_reachable, of ok calm_env c P_sched_wakeup "wakeup_ctx 7 3"]
  by (simp add: woken_def)

lemma woken_state:
  "RUNNABLE_TASK_CPU woken = [7 \<mapsto> 3]"
  "WAKEUP_DATA woken = [7 \<mapsto> \<lparr>wd_ts = 5000, wd_target_cpu = 3, wd_waker_tid = 0, wd_seq = 1\<rparr>]"
  "WAKEUP_CONSUMED woken = (\<lambda>_. None)"
  "TARGET_PIDS woken = {7, 8}"
  "EVENTS woken = []"
  by (simp_all add: woken_def sample_start_def sample_defs empty_maps_def try_sched_wakeup_def is_target_pid_def
      next_wakeup_seq_def record_wakeup_def account_wakeup_def mark_task_runnable_def increment_target_pending_def
      increment_cpu_runnable_depth_def map_insert_def valid_cpu_def array_get_def BPF_MAX_TRACKED_CPUS_def
      current_tid_def Let_def)

section \<open>The accounting is exact\<close>

text \<open>
  Updates of one counter whose loads and stores interleave: \<open>schedule\<close> names the run that makes the next
  move; its first move loads the counter into the register of the run, its second stores what \<open>upd\<close> makes of it.
\<close>

fun interleaved_updates ::
  "u32 \<Rightarrow> (nat \<Rightarrow> u32 \<Rightarrow> u32) \<Rightarrow> nat list \<Rightarrow> (nat \<Rightarrow> u32 option) \<Rightarrow> bpf_maps \<Rightarrow> bpf_maps" where
  "interleaved_updates cpu upd [] register m = m"
| "interleaved_updates cpu upd (i # schedule) register m =
     (case register i of
        None \<Rightarrow> interleaved_updates cpu upd schedule (register(i := load_cpu_runnable_depth cpu m)) m
      | Some depth \<Rightarrow>
          interleaved_updates cpu upd schedule (register(i := None)) (store_cpu_runnable_depth cpu (upd i depth) m))"

lemma serial_update:
  assumes "valid_cpu cpu" "register i = None"
  shows "interleaved_updates cpu (\<lambda>_ d. saturating_add d 1) (i # i # schedule) register m =
     interleaved_updates cpu (\<lambda>_ d. saturating_add d 1) schedule register (increment_cpu_runnable_depth cpu m)"
  using assms by (simp add: increment_cpu_runnable_depth_def fun_upd_idem)

lemma overlapping_updates:
  assumes "valid_cpu cpu"
  shows "interleaved_updates cpu (\<lambda>_ d. saturating_add d 1) [0, 1, 0, 1] (\<lambda>_. None) m =
     increment_cpu_runnable_depth cpu m"
  using assms by (simp add: increment_cpu_runnable_depth_def)

text \<open>
  C31. In every state reached by program runs that do not overlap, whatever the kernel answers them, the runnable
  depth read for a tracked CPU is exactly the number of tasks the reverse map places on that CPU: no count is
  lost or duplicated over wakeups, moves, switches, migrations and exits, and the saturating counters never
  saturate. The restriction matters: an update is a load and a store, and while two updates one after the other
  count twice, two increments of one counter whose loads both come first leave what a single one leaves.\<close>

theorem runnable_depth_exact:
  assumes "bpf_reachable ok c m" "valid_cpu cpu"
  shows "unat (read_cpu_runnable_depth cpu m) = card {p. RUNNABLE_TASK_CPU m p = Some cpu}
    \<and> interleaved_updates cpu (\<lambda>_ d. saturating_add d 1) [0, 0, 1, 1] (\<lambda>_. None) m
        = increment_cpu_runnable_depth cpu (increment_cpu_runnable_depth cpu m)
    \<and> interleaved_updates cpu (\<lambda>_ d. saturating_add d 1) [0, 1, 0, 1] (\<lambda>_. None) m
        = increment_cpu_runnable_depth cpu m"
proof -
  have "unat (read_cpu_runnable_depth cpu m) = card {p. RUNNABLE_TASK_CPU m p = Some cpu}"
    using reachable_depth [OF assms(1)] assms(2) by (simp add: depth_inv_def tally_def read_cpu_runnable_depth_def)
  then show ?thesis
    using assms(2) overlapping_updates [OF assms(2), of m] by (simp only: serial_update) simp
qed

theorem runnable_depth_exact_witness:
  fixes c :: bpf_config
  shows "\<forall>c. bpf_reachable (\<lambda>_. True) c woken \<and> unat (read_cpu_runnable_depth 3 woken) = 1"
proof
  fix c :: bpf_config
  have reach: "bpf_reachable (\<lambda>_. True) c woken"
    by (rule woken_reachable) simp
  have "valid_cpu 3"
    by (simp add: valid_cpu_def BPF_MAX_TRACKED_CPUS_def)
  moreover have "{p. RUNNABLE_TASK_CPU woken p = Some 3} = {7}"
    by (auto simp: woken_state split: if_splits)
  ultimately show "bpf_reachable (\<lambda>_. True) c woken \<and> unat (read_cpu_runnable_depth 3 woken) = 1"
    using reach runnable_depth_exact [OF reach, of 3] by simp
qed

text \<open>
  As long as insertions into the reverse map succeed, the pending-wakeup counter of a tracked CPU is
  exactly the number of tasks with an unconsumed wakeup record for that CPU, in every reachable state.\<close>

theorem pending_wakeups_exact:
  assumes "bpf_reachable ok c m" "\<And>env. ok env \<Longrightarrow> \<not> pv_insert_fails env M_RunnableTaskCpu" "valid_cpu cpu"
  shows "unat (TARGET_PENDING_WAKEUPS m cpu) = card {p. pending_on m p = Some cpu}"
  using reachable_pending [OF assms(1,2)] assms(3) by (simp add: pending_inv_def tally_def)

theorem pending_wakeups_exact_witness:
  "\<forall>c. bpf_reachable (\<lambda>env. env = calm_env) c woken \<and> unat (TARGET_PENDING_WAKEUPS woken 3) = 1"
proof
  fix c :: bpf_config
  have reach: "bpf_reachable (\<lambda>env. env = calm_env) c woken"
    by (rule woken_reachable) simp
  have "valid_cpu 3"
    by (simp add: valid_cpu_def BPF_MAX_TRACKED_CPUS_def)
  moreover have "{p. pending_on woken p = Some 3} = {7}"
    by (auto simp: woken_state pending_on_def same_wakeup_consumed_def split: if_splits)
  ultimately show "bpf_reachable (\<lambda>env. env = calm_env) c woken \<and> unat (TARGET_PENDING_WAKEUPS woken 3) = 1"
    using reach pending_wakeups_exact [OF reach, of 3] by (simp add: calm_env_def)
qed

definition drifted :: bpf_maps where
  "drifted = snd (try_sched_switch calm_env (switch_ctx 1 7)
     (snd (try_sched_wakeup calm_env (wakeup_ctx 8 0)
     (snd (try_sched_wakeup full_env (wakeup_ctx 7 0) sample_start)))))"

lemmas wakeup_eval =
  empty_maps_def try_sched_wakeup_def is_target_pid_def next_wakeup_seq_def record_wakeup_def account_wakeup_def
  mark_task_runnable_def increment_target_pending_def increment_cpu_runnable_depth_def map_insert_def valid_cpu_def
  array_get_def BPF_MAX_TRACKED_CPUS_def current_tid_def increment_drop_counter_def DROP_COUNTERS_MAX_def
  DROP_CPU_ACCOUNTING_UNTRACKED_def saturating_add_def saturating_sub_def Let_def

lemmas switch_eval =
  try_sched_switch_def consume_pending_wakeup_def report_switch_def mark_task_running_def
  decrement_target_pending_def decrement_cpu_runnable_depth_def emit_ringbuf_event_def same_wakeup_consumed_def

text \<open>
  The pending counter drifts once an insertion into the reverse map fails: the wakeup is recorded but not
  counted, yet the switch that consumes it still decrements the counter of its CPU. A state is reachable in
  which task 8 has a pending wakeup on CPU 0 while the counter of CPU 0 reads zero.\<close>

theorem pending_wakeups_drift:
  "\<exists>m :: bpf_maps. bpf_reachable (\<lambda>_. True) c m \<and> pending_on m 8 = Some 0 \<and> TARGET_PENDING_WAKEUPS m 0 = 0"
proof -
  have one: "bpf_reachable (\<lambda>_. True) c (snd (try_sched_wakeup full_env (wakeup_ctx 7 0) sample_start))"
    using reachable_program [OF sample_start_reachable, where p = P_sched_wakeup and env = full_env] by simp
  have two: "bpf_reachable (\<lambda>_. True) c (snd (try_sched_wakeup calm_env (wakeup_ctx 8 0)
      (snd (try_sched_wakeup full_env (wakeup_ctx 7 0) sample_start))))"
    using reachable_program [OF one, where p = P_sched_wakeup and env = calm_env] by simp
  have "bpf_reachable (\<lambda>_. True) c drifted"
    using reachable_program [OF two, where p = P_sched_switch and env = calm_env] by (simp add: drifted_def)
  moreover have "pending_on drifted 8 = Some 0" "TARGET_PENDING_WAKEUPS drifted 0 = 0"
    by (simp_all add: drifted_def sample_start_def sample_defs wakeup_eval switch_eval pending_on_def)
  ultimately show ?thesis
    by blast
qed

section \<open>Wakeups are reported once\<close>

lemma report_events:
  "EVENTS (snd (report_switch env ctx pid d a b m)) = EVENTS m \<or>
   (\<exists>e. EVENTS (snd (report_switch env ctx pid d a b m)) = EVENTS m @ [EVENT_RUNNABLE_LATENCY e]
      \<and> se_tid e = pid \<and> se_wakeup_ns e = wd_ts d \<and> se_switch_ns e = pv_ktime_ns env
      \<and> se_latency_ns e = saturating_sub (pv_ktime_ns env) (wd_ts d) \<and> se_waker_tid e = wd_waker_tid d)"
proof -
  have frame: "EVENTS (decrement_target_pending cpu k) = EVENTS k" "EVENTS (mark_task_running pid cpu k) = EVENTS k"
    "EVENTS (increment_drop_counter env r k) = EVENTS k" for cpu k r
    by (simp_all add: decrement_target_pending_def mark_task_running_def decrement_cpu_runnable_depth_def
        increment_drop_counter_def Let_def split: option.split)
  show ?thesis
    by (simp add: report_switch_def emit_ringbuf_event_def frame Let_def split: option.split)
qed

lemma quiet_events:
  "EVENTS (decrement_target_pending cpu m) = EVENTS m" "EVENTS (remove_runnable_task_if_present pid m) = EVENTS m"
  "EVENTS (increment_drop_counter env r m) = EVENTS m" "EVENTS (abandon_wakeup env r pid d m) = EVENTS m"
  by (simp_all add: decrement_target_pending_def remove_runnable_task_if_present_def decrement_cpu_runnable_depth_def
      increment_drop_counter_def abandon_wakeup_def Let_def split: option.split)

lemma drop_pending_events: "drop_pending_wakeup_after_cursor_failure pid d m = (b, m') \<Longrightarrow> EVENTS m' = EVENTS m"
  by (auto simp: drop_pending_wakeup_after_cursor_failure_def split: option.splits if_splits)

text \<open>
  C33. A switch submits at most one event. If it submits one, the event is for a target task that had a
  pending wakeup record, its latency is the time from that record to the switch (zero if the clock is
  behind), and the wakeup is no longer pending afterwards, so it is never reported again.\<close>

theorem switch_reports_once:
  "EVENTS (snd (try_sched_switch env ctx m)) = EVENTS m \<or>
   (\<exists>e d. EVENTS (snd (try_sched_switch env ctx m)) = EVENTS m @ [EVENT_RUNNABLE_LATENCY e]
      \<and> read_u32 ctx SCHED_SWITCH_NEXT_PID_OFFSET = Some (se_tid e) \<and> se_tid e \<in> TARGET_PIDS m
      \<and> WAKEUP_DATA m (se_tid e) = Some d \<and> pending_on m (se_tid e) = Some (wd_target_cpu d)
      \<and> se_wakeup_ns e = wd_ts d \<and> se_waker_tid e = wd_waker_tid d \<and> se_switch_ns e = pv_ktime_ns env
      \<and> se_latency_ns e = saturating_sub (pv_ktime_ns env) (wd_ts d)
      \<and> pending_on (snd (try_sched_switch env ctx m)) = (pending_on m)(se_tid e := None))"
proof (cases "read_u32 ctx SCHED_SWITCH_NEXT_PID_OFFSET")
  case (Some pid)
  obtain r d m1 where con: "consume_pending_wakeup env pid m = (r, d, m1)"
    by (metis prod_cases3)
  then show ?thesis
  proof (cases rule: consume_cases)
    case ok
    have ev: "EVENTS m1 = EVENTS m" and tg: "TARGET_PIDS m1 = TARGET_PIDS m"
      by (simp_all add: ok(2))
    have "EVENTS (snd (try_sched_switch env ctx m)) = EVENTS m1 \<or>
      (\<exists>a b. snd (try_sched_switch env ctx m) = snd (report_switch env ctx pid d a b m1) \<and> pid \<in> TARGET_PIDS m)"
      using Some con ok(1) tg ev by (auto simp: try_sched_switch_def is_target_pid_def quiet_events split: option.split)
    then consider "EVENTS (snd (try_sched_switch env ctx m)) = EVENTS m1"
      | a b where "snd (try_sched_switch env ctx m) = snd (report_switch env ctx pid d a b m1)" "pid \<in> TARGET_PIDS m"
      by blast
    then show ?thesis
    proof cases
      case 2
      have "pending_on (snd (report_switch env ctx pid d a b m1)) = (pending_on m)(pid := None)"
        using ok(5) by (simp add: pending_on_entry report_frame)
      with 2 ok(3,4) Some report_events [of env ctx pid d a b m1] ev show ?thesis
        by auto
    qed (use ev in simp)
  next
    case cursor
    with Some con show ?thesis
      by (auto simp: try_sched_switch_def quiet_events Let_def split: prod.split bool.split dest!: drop_pending_events)
  qed (use Some con in \<open>simp add: try_sched_switch_def\<close>)
qed (simp add: try_sched_switch_def)

text \<open>
  C32. A wakeup that arrives while a switch on another CPU is between reading the old record and writing its
  cursor is not lost: after one to \<open>2\<^sup>32 - 1\<close> such wakeups the late cursor, which names the old record, leaves
  the newest wakeup pending on its own CPU, because every wakeup takes the next sequence number.\<close>

theorem newer_wakeup_survives:
  assumes "bpf_reachable ok c m" "\<And>env. ok env \<Longrightarrow> \<not> pv_insert_fails env M_WakeupData"
    and "WAKEUP_DATA m pid = Some d" "pid \<in> TARGET_PIDS m" "0 < sint pid"
    and "list_all (wakes pid) ws" "ws \<noteq> []" "length ws < 2 ^ 32"
  shows "pending_on (write_cursor pid d (run_wakeups ws m)) pid =
    read_u32 (snd (last ws)) SCHED_WAKEUP_TARGET_CPU_OFFSET"
proof -
  have seq: "WAKEUP_SEQ m pid = Some (wd_seq d)"
    using reachable_seq [OF assms(1,2)] assms(3) by (simp add: seq_inv_def)
  obtain e where e: "WAKEUP_DATA (run_wakeups ws m) pid = Some e" "wd_seq e = wd_seq d + of_nat (length ws)"
    "read_u32 (snd (last ws)) SCHED_WAKEUP_TARGET_CPU_OFFSET = Some (wd_target_cpu e)"
    using run_wakeups_seq [OF assms(5,6,4) seq assms(7)] by blast
  have "(of_nat (length ws) :: u32) \<noteq> 0"
    using assms(7,8) by (auto simp: word_of_nat_eq_0_iff dest!: nat_dvd_not_less [rotated])
  with e(2) have "e \<noteq> d"
    by auto
  then show ?thesis
    using e(1,3) by (auto simp: write_cursor_def pending_on_entry pending_entry_Some)
qed

theorem newer_wakeup_survives_witness:
  "pending_on (write_cursor 7 \<lparr>wd_ts = 5000, wd_target_cpu = 3, wd_waker_tid = 0, wd_seq = 1\<rparr>
     (run_wakeups [(calm_env, wakeup_ctx 7 5)] woken)) 7 = Some 5"
proof -
  fix c :: bpf_config
  have "list_all (wakes 7) [(calm_env, wakeup_ctx 7 5)]"
    by (simp add: wakes_def sample_defs)
  with newer_wakeup_survives [OF woken_reachable [of "\<lambda>env. env = calm_env" c], of 7
      "\<lparr>wd_ts = 5000, wd_target_cpu = 3, wd_waker_tid = 0, wd_seq = 1\<rparr>" "[(calm_env, wakeup_ctx 7 5)]"]
  show ?thesis
    by (simp add: woken_state sample_defs)
qed

text \<open>
  A pending wakeup of a target task is reported by the next switch to it: with the fields readable, the
  cursor stored and room in the ring buffer, the switch submits exactly one latency event for it, with the
  wakeup's CPU and waker, the fault counters of the task, and the runnable depth observed after the task left
  its queue.\<close>

theorem switch_reports_pending:
  assumes "read_u32 ctx SCHED_SWITCH_NEXT_PID_OFFSET = Some pid" "0 < sint pid" "pid \<in> TARGET_PIDS m"
    and "WAKEUP_DATA m pid = Some d" "pending_on m pid \<noteq> None"
    and "read_u32 ctx SCHED_SWITCH_PREV_PID_OFFSET = Some prev" "read_u64 ctx SCHED_SWITCH_PREV_STATE_OFFSET = Some state"
    and "read_u32 ctx SCHED_SWITCH_NEXT_PRIO_OFFSET = Some prio" "read_comm16 ctx SCHED_SWITCH_NEXT_COMM_OFFSET = Some comm"
    and "\<not> pv_insert_fails env M_WakeupConsumed" "\<not> pv_reserve_fails env"
  shows "\<exists>e. EVENTS (snd (try_sched_switch env ctx m)) = EVENTS m @ [EVENT_RUNNABLE_LATENCY e]
    \<and> fst (try_sched_switch env ctx m) = 0
    \<and> se_tid e = pid \<and> se_cpu e = pv_cpu env \<and> se_prio e = prio \<and> se_comm e = comm
    \<and> se_wakeup_target_cpu e = wd_target_cpu d \<and> se_waker_tid e = wd_waker_tid d
    \<and> se_wakeup_ns e = wd_ts d \<and> se_latency_ns e = saturating_sub (pv_ktime_ns env) (wd_ts d)
    \<and> se_switch_prev_pid e = (if 0 < sint prev then prev else 0) \<and> se_switch_prev_state e = state
    \<and> se_observed_runnable_depth e = read_cpu_runnable_depth (pv_cpu env) (snd (try_sched_switch env ctx m))"
proof -
  let ?m = "m\<lparr>WAKEUP_CONSUMED := (WAKEUP_CONSUMED m)(pid \<mapsto> d)\<rparr>"
  have con: "consume_pending_wakeup env pid m = (WAKEUP_CONSUME_OK, d, ?m)"
    using assms(4,5,10) by (simp add: consume_pending_wakeup_def pending_on_def map_insert_def split: if_splits)
  have run: "try_sched_switch env ctx m = report_switch env ctx pid d prev state ?m"
    using assms(1-3,6,7) con by (simp add: try_sched_switch_def is_target_pid_def)
  have frame: "EVENTS (mark_task_running pid cpu k) = EVENTS k" "EVENTS (decrement_target_pending cpu k) = EVENTS k" for cpu k
    by (simp_all add: quiet_events mark_task_running_def decrement_cpu_runnable_depth_def Let_def split: option.split)
  have depth: "read_cpu_runnable_depth cpu (decrement_target_pending x k) = read_cpu_runnable_depth cpu k"
    "read_cpu_runnable_depth cpu (k\<lparr>EVENTS := es\<rparr>) = read_cpu_runnable_depth cpu k" for cpu x k es
    by (simp_all add: read_cpu_runnable_depth_def)
  show ?thesis
    using assms(8,9,11) by (simp add: run report_switch_def emit_ringbuf_event_def frame depth Let_def)
qed

theorem switch_reports_pending_witness:
  "\<exists>e. EVENTS (snd (try_sched_switch calm_env (switch_ctx 1 7) woken)) = [EVENT_RUNNABLE_LATENCY e]
     \<and> se_tid e = 7 \<and> se_wakeup_target_cpu e = 3 \<and> se_latency_ns e = 0"
  using switch_reports_pending [of "switch_ctx 1 7" 7 woken "\<lparr>wd_ts = 5000, wd_target_cpu = 3, wd_waker_tid = 0, wd_seq = 1\<rparr>"
      1 0 120 "replicate 16 0" calm_env]
  by (auto simp: woken_state sample_defs pending_on_def same_wakeup_consumed_def saturating_sub_def)

section \<open>Exit and interrupts\<close>

text \<open>
  When a task exits, nothing about it remains: its runnable entry, wakeup record, cursor, sequence number
  and fault counters are gone, the entries of every other task are untouched, and no event is submitted.\<close>

theorem exit_forgets_task:
  assumes "bpf_reachable ok c m"
    and m'_def: "m' = snd (try_sched_process_exit env m)" and tid_def: "tid = current_tid env"
  shows "RUNNABLE_TASK_CPU m' = (RUNNABLE_TASK_CPU m)(tid := None) \<and> WAKEUP_DATA m' = (WAKEUP_DATA m)(tid := None)
    \<and> WAKEUP_CONSUMED m' = (WAKEUP_CONSUMED m)(tid := None) \<and> WAKEUP_SEQ m' = (WAKEUP_SEQ m)(tid := None)
    \<and> PREV_FAULTS m' = (PREV_FAULTS m)(tid := None) \<and> EVENTS m' = EVENTS m"
proof -
  have "RUNNABLE_TASK_CPU m 0 = None"
    using reachable_depth [OF assms(1)] by (simp add: depth_inv_def tally_def)
  then have run: "RUNNABLE_TASK_CPU (remove_runnable_task_if_present tid m) = (RUNNABLE_TASK_CPU m)(tid := None)"
    by (simp add: remove_runnable_task_if_present_def fun_upd_idem Let_def split: option.split)
  have other: "PREV_FAULTS (remove_runnable_task_if_present tid m) = PREV_FAULTS m"
    "PREV_FAULTS (decrement_target_pending cpu k) = PREV_FAULTS k" for cpu k
    by (simp_all add: remove_runnable_task_if_present_def decrement_cpu_runnable_depth_def decrement_target_pending_def
        Let_def split: option.split)
  obtain w old m2 where rem: "remove_for_exit tid (remove_runnable_task_if_present tid m) = (w, old, m2)"
    by (metis prod_cases3)
  have "m' = (if w then decrement_target_pending (wd_target_cpu old) m2 else m2)\<lparr>PREV_FAULTS := (PREV_FAULTS m)(tid := None)\<rparr>"
    using exit_pending(4) [OF rem] rem other by (simp add: m'_def try_sched_process_exit_def tid_def Let_def)
  then show ?thesis
    using exit_pending(4) [OF rem] run by (simp add: quiet_events)
qed

theorem exit_forgets_task_witness:
  "RUNNABLE_TASK_CPU (snd (try_sched_process_exit (calm_env\<lparr>pv_pid_tgid := 7\<rparr>) woken)) = (\<lambda>_. None)"
proof -
  fix c :: bpf_config
  have "bpf_reachable (\<lambda>_. True) c woken"
    by (rule woken_reachable) simp
  from exit_forgets_task [OF this refl refl, of "calm_env\<lparr>pv_pid_tgid := 7\<rparr>"] show ?thesis
    by (simp add: woken_state current_tid_def fun_eq_iff)
qed

lemma irq_key_inj: "irq_key a b = irq_key a' b' \<longleftrightarrow> a = a' \<and> b = b'"
proof
  assume eq: "irq_key a b = irq_key a' b'"
  have "bit a i = bit a' i \<and> bit b i = bit b' i" if "i < 32" for i
  proof -
    from eq have "bit (irq_key a b) i = bit (irq_key a' b') i" "bit (irq_key a b) (i + 32) = bit (irq_key a' b') (i + 32)"
      by simp_all
    then show ?thesis
      using that by (simp add: irq_key_def bit_or_iff bit_push_bit_iff bit_ucast_iff) (auto dest: bit_imp_le_length)
  qed
  then show "a = a' \<and> b = b'"
    by (auto intro!: bit_word_eqI)
qed simp

text \<open>
  Interrupt pairs do not mix: between an entry and its exit on the same CPU, entries of other interrupts
  or on other CPUs may run; the exit still submits one event with the time of its own entry.\<close>

theorem irq_exit_pairs_with_entry:
  assumes "read_u32 ctx IRQ_HANDLER_IRQ_OFFSET = Some irq" "0 \<le> sint irq" "irq \<in> TARGET_IRQS m"
    and "\<not> pv_insert_fails enter M_IrqStartTimes" "pv_cpu leave = pv_cpu enter" "\<not> pv_reserve_fails leave"
    and "list_all (\<lambda>(env, ctx'). pv_cpu env \<noteq> pv_cpu enter \<or> read_u32 ctx' IRQ_HANDLER_IRQ_OFFSET \<noteq> Some irq) others"
    and m': "m' = fold (\<lambda>(env, ctx) m. snd (try_irq_handler_entry env ctx m)) others (snd (try_irq_handler_entry enter ctx m))"
  shows "EVENTS (snd (try_irq_handler_exit leave ctx m')) = EVENTS m @ [EVENT_IRQ_LATENCY
    \<lparr>ie_irq = irq, ie_cpu = pv_cpu enter, ie_enter_ns = pv_ktime_ns enter, ie_exit_ns = pv_ktime_ns leave,
     ie_duration_ns = saturating_sub (pv_ktime_ns leave) (pv_ktime_ns enter)\<rparr>]"
proof -
  let ?key = "irq_key irq (pv_cpu enter)"
  let ?run = "fold (\<lambda>(env, ctx) m. snd (try_irq_handler_entry env ctx m))"
  have start: "IRQ_START_TIMES (snd (try_irq_handler_entry enter ctx m)) ?key = Some (pv_ktime_ns enter)"
    "EVENTS (snd (try_irq_handler_entry enter ctx m)) = EVENTS m" "TARGET_IRQS (snd (try_irq_handler_entry enter ctx m)) = TARGET_IRQS m"
    using assms(1-4) by (simp_all add: try_irq_handler_entry_def is_target_irq_def map_insert_def)
  have "IRQ_START_TIMES (?run others k) ?key = IRQ_START_TIMES k ?key \<and> EVENTS (?run others k) = EVENTS k
      \<and> TARGET_IRQS (?run others k) = TARGET_IRQS k" for k
    using assms(7)
  proof (induction others arbitrary: k)
    case (Cons w ws)
    obtain env ctx' where w: "w = (env, ctx')"
      by (cases w)
    let ?k = "snd (try_irq_handler_entry env ctx' k)"
    have "IRQ_START_TIMES ?k ?key = IRQ_START_TIMES k ?key" "EVENTS ?k = EVENTS k" "TARGET_IRQS ?k = TARGET_IRQS k"
      using Cons.prems
      by (auto simp: w try_irq_handler_entry_def map_insert_def increment_drop_counter_def irq_key_inj split: option.split)
    with Cons.IH [of ?k] Cons.prems show ?case
      by (simp add: w)
  qed simp
  then have "IRQ_START_TIMES m' ?key = Some (pv_ktime_ns enter)" "EVENTS m' = EVENTS m" "TARGET_IRQS m' = TARGET_IRQS m"
    using start by (simp_all add: m')
  then show ?thesis
    using assms(1-3,5,6) by (simp add: try_irq_handler_exit_def is_target_irq_def emit_ringbuf_event_def Let_def)
qed

definition irq_ctx :: "u32 \<Rightarrow> tracepoint_ctx" where
  "irq_ctx irq = \<lparr>read_u32 = [8 \<mapsto> irq], read_u64 = (\<lambda>_. None), read_comm16 = (\<lambda>_. None)\<rparr>"

theorem irq_exit_pairs_with_entry_witness:
  "EVENTS (snd (try_irq_handler_exit (calm_env\<lparr>pv_ktime_ns := 5600\<rparr>) (irq_ctx 9)
     (snd (try_irq_handler_entry (calm_env\<lparr>pv_ktime_ns := 5100\<rparr>) (irq_ctx 4)
     (snd (try_irq_handler_entry calm_env (irq_ctx 9) (empty_maps\<lparr>TARGET_IRQS := {4, 9}\<rparr>))))))) =
   [EVENT_IRQ_LATENCY \<lparr>ie_irq = 9, ie_cpu = 0, ie_enter_ns = 5000, ie_exit_ns = 5600, ie_duration_ns = 600\<rparr>]"
  using irq_exit_pairs_with_entry [of "irq_ctx 9" 9 "empty_maps\<lparr>TARGET_IRQS := {4, 9}\<rparr>" calm_env
      "calm_env\<lparr>pv_ktime_ns := 5600\<rparr>" "[(calm_env\<lparr>pv_ktime_ns := 5100\<rparr>, irq_ctx 4)]"]
  by (simp add: irq_ctx_def IRQ_HANDLER_IRQ_OFFSET_def calm_env_def empty_maps_def saturating_sub_def)

end
