(* ===== verification/Cpu_Mask.thy ===== *)
theory Cpu_Mask
  imports Action_Model
begin

unbundle bit_operations_syntax

text \<open>
  CPU masks (\<open>stutter/src/affinity/cpu_mask.rs\<close>): a growing vector of 64-bit words with a parser and a printer
  for range lists such as \<open>0-3,8\<close>. The locale \<open>cpu_set_impl\<close> is what a set of CPUs promises; the word vector
  implements it, and printing then parsing gives the mask back.
\<close>

section \<open>The mask\<close>

record cpu_mask =
  cm_words :: "u64 list"

text \<open>\<open>libc::CPU_SETSIZE\<close> on Linux.\<close>

definition cpu_set_size :: u32 where "cpu_set_size = 1024"

definition empty_mask :: cpu_mask where
  "empty_mask = \<lparr>cm_words = []\<rparr>"

definition from_legacy_bits :: "u64 \<Rightarrow> cpu_mask" where
  "from_legacy_bits bits = (if bits = 0 then empty_mask else \<lparr>cm_words = [bits]\<rparr>)"

definition mask_set :: "u32 \<Rightarrow> cpu_mask \<Rightarrow> cpu_mask" where
  "mask_set cpu m =
     (let word_idx = unat cpu div 64;
          words = (if length (cm_words m) \<le> word_idx
                   then cm_words m @ replicate (word_idx + 1 - length (cm_words m)) 0 else cm_words m)
      in \<lparr>cm_words = words[word_idx := words ! word_idx OR push_bit (unat cpu mod 64) 1]\<rparr>)"

definition contains_cpu :: "cpu_mask \<Rightarrow> u32 \<Rightarrow> bool" where
  "contains_cpu m cpu =
     (let word_idx = unat cpu div 64
      in word_idx < length (cm_words m) \<and> cm_words m ! word_idx AND push_bit (unat cpu mod 64) 1 \<noteq> 0)"

definition mask_is_empty :: "cpu_mask \<Rightarrow> bool" where
  "mask_is_empty m \<longleftrightarrow> list_all (\<lambda>word. word = 0) (cm_words m)"

definition is_subset_of :: "cpu_mask \<Rightarrow> cpu_mask \<Rightarrow> bool" where
  "is_subset_of m other \<longleftrightarrow>
     list_all (\<lambda>(i, word).
       let other_word = (if i < length (cm_words other) then cm_words other ! i else 0)
       in word AND NOT other_word = 0) (enumerate 0 (cm_words m))"

definition mask_cpus :: "cpu_mask \<Rightarrow> u32 list" where
  "mask_cpus m = filter (contains_cpu m) (map of_nat [0..<unat cpu_set_size])"

section \<open>Parsing and printing\<close>

text \<open>The text of a \<open>ParseIntError\<close> of an unsigned type.\<close>

definition parse_unsigned_error :: "string \<Rightarrow> string" where
  "parse_unsigned_error v =
     (if v = [] then ''cannot parse integer from empty string''
      else if parse_nat v \<noteq> None then ''number too large to fit in target type''
      else ''invalid digit found in string'')"

definition parse_cpu :: "string \<Rightarrow> anyhow + u32" where
  "parse_cpu v =
     (case parse_u32 (trim v) of
        None \<Rightarrow> Inl (any_context (''invalid CPU id '' @ debug_str v) (anyhow_msg (parse_unsigned_error (trim v))))
      | Some cpu \<Rightarrow>
          if cpu_set_size \<le> cpu
          then Inl (anyhow_msg (''CPU id '' @ show_nat (unat cpu) @ '' is outside the supported 0..''
                 @ show_nat (unat (saturating_sub cpu_set_size 1)) @ '' range''))
          else Inr cpu)"

definition parse_part :: "string \<Rightarrow> cpu_mask \<Rightarrow> anyhow + cpu_mask" where
  "parse_part part acc =
     res_bind
       (case split_once (CHR ''-'') part of
          Some (a, b) \<Rightarrow> res_bind (parse_cpu a) (\<lambda>x. res_bind (parse_cpu b) (\<lambda>y. Inr (x, y)))
        | None \<Rightarrow> res_bind (parse_cpu part) (\<lambda>cpu. Inr (cpu, cpu)))
       (\<lambda>(a, b).
          if b < a
          then Inl (anyhow_msg (''invalid CPU range '' @ part @ '': start is greater than end''))
          else Inr (fold (\<lambda>cpu. mask_set (of_nat cpu)) [unat a..<Suc (unat b)] acc))"

fun parse_parts :: "string list \<Rightarrow> cpu_mask \<Rightarrow> anyhow + cpu_mask" where
  "parse_parts [] acc = Inr acc"
| "parse_parts (part # parts) acc = res_bind (parse_part part acc) (parse_parts parts)"

definition parse_mask :: "string \<Rightarrow> anyhow + cpu_mask" where
  "parse_mask v =
     res_bind (parse_parts (filter (\<lambda>part. part \<noteq> []) (map trim (split_on (CHR '','') v))) empty_mask)
       (\<lambda>m. if mask_is_empty m then Inl (anyhow_msg ''CPU mask must contain at least one CPU'')
               else Inr m)"

definition show_range :: "u32 \<Rightarrow> u32 \<Rightarrow> string" where
  "show_range a b =
     (if a = b then show_nat (unat a) else show_nat (unat a) @ ''-'' @ show_nat (unat b))"

text \<open>The two nested \<open>while\<close> loops of \<open>to_range_string\<close>, on the index into the list of CPUs.\<close>

partial_function (option) extend_range :: "u32 list \<Rightarrow> nat \<Rightarrow> u32 \<Rightarrow> (nat \<times> u32) option" where
  [code]: "extend_range cpus idx hi =
     (if idx < length cpus \<and> cpus ! idx = hi + 1 then extend_range cpus (idx + 1) (cpus ! idx)
      else Some (idx, hi))"

partial_function (option) range_loop :: "u32 list \<Rightarrow> nat \<Rightarrow> string list \<Rightarrow> string list option" where
  [code]: "range_loop cpus idx ranges =
     (if idx < length cpus
      then Option.bind (extend_range cpus (idx + 1) (cpus ! idx))
             (\<lambda>(idx', hi). range_loop cpus idx' (ranges @ [show_range (cpus ! idx) hi]))
      else Some ranges)"

definition to_range_string :: "cpu_mask \<Rightarrow> string option" where
  "to_range_string m = map_option (join '','') (range_loop (mask_cpus m) 0 [])"

section \<open>A set of CPUs\<close>

locale cpu_set_impl =
  fixes emp :: 'm and add :: "u32 \<Rightarrow> 'm \<Rightarrow> 'm" and mem :: "'m \<Rightarrow> u32 \<Rightarrow> bool"
  assumes mem_emp: "\<not> mem emp cpu"
    and mem_add: "mem (add c m) cpu \<longleftrightarrow> cpu = c \<or> mem m cpu"
begin

lemma mem_fold: "mem (fold (\<lambda>c. add (of_nat c)) cs m) cpu \<longleftrightarrow> cpu \<in> of_nat ` set cs \<or> mem m cpu"
  by (induction cs arbitrary: m) (auto simp: mem_add)

lemma mem_range: "mem (fold (\<lambda>c. add (of_nat c)) [unat a..<Suc (unat b)] m) cpu \<longleftrightarrow> a \<le> cpu \<and> cpu \<le> b \<or> mem m cpu"
proof -
  have "cpu \<in> of_nat ` {unat a..unat b} \<longleftrightarrow> a \<le> cpu \<and> cpu \<le> b"
  proof
    assume "cpu \<in> of_nat ` {unat a..unat b}"
    then obtain n where n: "cpu = of_nat n" "unat a \<le> n" "n \<le> unat b"
      by auto
    moreover have "n < 2 ^ LENGTH(32)"
      using n(3) unsigned_less [of b, where ?'a = nat] by linarith
    ultimately show "a \<le> cpu \<and> cpu \<le> b"
      by (simp add: word_le_nat_alt unat_of_nat_eq)
  next
    assume "a \<le> cpu \<and> cpu \<le> b"
    then have "cpu = of_nat (unat cpu)" "unat cpu \<in> {unat a..unat b}"
      by (auto simp: word_le_nat_alt)
    then show "cpu \<in> of_nat ` {unat a..unat b}"
      by blast
  qed
  then show ?thesis
    by (simp add: mem_fold atLeastLessThanSuc_atLeastAtMost del: upt_Suc)
qed

end

lemma bit_test: "i < 64 \<Longrightarrow> (w :: u64) AND 2 ^ i \<noteq> 0 \<longleftrightarrow> bit w i"
  by (auto simp: bit_eq_iff [where ?'a = "64 word"] bit_and_iff bit_exp_iff)

lemma contains_iff:
  "contains_cpu m cpu \<longleftrightarrow> unat cpu div 64 < length (cm_words m) \<and> bit (cm_words m ! (unat cpu div 64)) (unat cpu mod 64)"
  by (simp add: contains_cpu_def bit_test Let_def)

lemma word_index_eq: "unat (cpu :: u32) div 64 = unat c div 64 \<Longrightarrow> unat cpu mod 64 = unat c mod 64 \<Longrightarrow> cpu = c"
  by (metis div_mult_mod_eq unsigned_word_eqI)

lemma contains_set: "contains_cpu (mask_set c m) cpu \<longleftrightarrow> cpu = c \<or> contains_cpu m cpu"
proof (cases "unat cpu div 64 = unat c div 64")
  case True
  then show ?thesis
    using word_index_eq [OF True]
    by (auto simp: contains_iff mask_set_def Let_def bit_or_iff bit_exp_iff nth_append)
next
  case False
  then show ?thesis
    by (auto simp: contains_iff mask_set_def Let_def nth_append)
qed

interpretation cpu_mask: cpu_set_impl empty_mask mask_set contains_cpu
  by unfold_locales (simp add: contains_iff empty_mask_def, rule contains_set)

section \<open>Normal form\<close>

text \<open>
  The type invariant: no trailing zero word, and no CPU at or above \<open>cpu_set_size\<close>. Every mask the parser
  returns has it, and two masks with it are equal when they hold the same CPUs.
\<close>

definition mask_wf :: "cpu_mask \<Rightarrow> bool" where
  "mask_wf m \<longleftrightarrow> length (cm_words m) \<le> 16 \<and> (cm_words m = [] \<or> last (cm_words m) \<noteq> 0)"

lemma or_bit_not_zero: "i < 64 \<Longrightarrow> (w :: u64) OR 2 ^ i \<noteq> 0"
proof
  assume i: "i < 64" and zero: "w OR 2 ^ i = 0"
  from i have "bit (w OR 2 ^ i) i"
    by (simp add: bit_or_iff bit_exp_iff)
  with zero show False
    by simp
qed

lemma mask_set_wf:
  assumes "mask_wf m" "cpu < cpu_set_size"
  shows "mask_wf (mask_set cpu m)"
proof -
  let ?i = "unat cpu div 64"
  have i: "?i < 16"
    using assms(2) by (simp add: cpu_set_size_def word_less_nat_alt)
  show ?thesis
  proof (cases "length (cm_words m) \<le> ?i")
    case True
    then show ?thesis
      using i or_bit_not_zero by (auto simp: mask_wf_def mask_set_def Let_def last_list_update)
  next
    case False
    then show ?thesis
      using assms(1) or_bit_not_zero by (auto simp: mask_wf_def mask_set_def Let_def last_list_update split: if_splits)
  qed
qed

lemma mask_word_bit:
  assumes "mask_wf m" "i < length (cm_words m)" "j < 64"
  shows "bit (cm_words m ! i) j \<longleftrightarrow> contains_cpu m (of_nat (64 * i + j))"
proof -
  have "64 * i + j < 2 ^ 32"
    using assms by (simp add: mask_wf_def)
  then have "unat (of_nat (64 * i + j) :: u32) = 64 * i + j"
    by (intro unat_of_nat_eq) simp
  then show ?thesis
    using assms(2,3) by (simp add: contains_iff)
qed

lemma mask_length_le:
  assumes "mask_wf m" "mask_wf m'" "\<And>cpu. contains_cpu m cpu \<Longrightarrow> contains_cpu m' cpu"
  shows "length (cm_words m) \<le> length (cm_words m')"
proof (cases "cm_words m = []")
  case False
  let ?i = "length (cm_words m) - 1"
  from False assms(1) have "cm_words m ! ?i \<noteq> 0"
    by (simp add: mask_wf_def last_conv_nth)
  then obtain j where j: "bit (cm_words m ! ?i) j" "j < 64"
    using bit_imp_le_length by (auto simp: bit_eq_iff)
  then have "contains_cpu m' (of_nat (64 * ?i + j))"
    using mask_word_bit [OF assms(1)] False assms(3) by simp
  moreover have "unat (of_nat (64 * ?i + j) :: u32) = 64 * ?i + j"
    using assms(1) j(2) by (intro unat_of_nat_eq) (auto simp: mask_wf_def)
  ultimately show ?thesis
    using j(2) False by (auto simp: contains_iff)
qed simp

lemma mask_eqI:
  assumes "mask_wf m" "mask_wf m'" "\<And>cpu. contains_cpu m cpu \<longleftrightarrow> contains_cpu m' cpu"
  shows "m = m'"
proof -
  have len: "length (cm_words m) = length (cm_words m')"
    using mask_length_le [OF assms(1,2)] mask_length_le [OF assms(2,1)] assms(3) by (simp add: le_antisym)
  have "cm_words m = cm_words m'"
  proof (rule nth_equalityI [OF len])
    fix i assume i: "i < length (cm_words m)"
    show "cm_words m ! i = cm_words m' ! i"
      by (rule bit_word_eqI) (use mask_word_bit assms i len in auto)
  qed
  then show ?thesis
    by simp
qed

lemma contains_in_range: "mask_wf m \<Longrightarrow> contains_cpu m cpu \<Longrightarrow> cpu < cpu_set_size"
  by (auto simp: mask_wf_def contains_iff cpu_set_size_def word_less_nat_alt)

lemma in_mask_cpus: "cpu \<in> set (mask_cpus m) \<longleftrightarrow> contains_cpu m cpu \<and> cpu < cpu_set_size"
proof -
  have "cpu \<in> of_nat ` {0..<unat cpu_set_size} \<longleftrightarrow> cpu < cpu_set_size"
  proof
    assume "cpu < cpu_set_size"
    then have "cpu = of_nat (unat cpu)" "unat cpu \<in> {0..<unat cpu_set_size}"
      by (auto simp: word_less_nat_alt)
    then show "cpu \<in> of_nat ` {0..<unat cpu_set_size}"
      by blast
  qed (auto simp: cpu_set_size_def word_less_nat_alt unat_of_nat_eq)
  then show ?thesis
    by (auto simp: mask_cpus_def)
qed

lemma mask_is_empty_iff: "mask_wf m \<Longrightarrow> mask_is_empty m \<longleftrightarrow> m = empty_mask"
  by (cases "cm_words m = []") (auto simp: mask_wf_def mask_is_empty_def empty_mask_def list_all_iff)

section \<open>The printer's loops\<close>

lemma extend_range_ok:
  assumes "\<forall>c \<in> set cpus. c < cpu_set_size" "hi < cpu_set_size" "idx \<le> length cpus"
  shows "\<exists>idx' hi'. extend_range cpus idx hi = Some (idx', hi') \<and> idx \<le> idx' \<and> idx' \<le> length cpus
    \<and> hi \<le> hi' \<and> hi' < cpu_set_size \<and> set (take (idx' - idx) (drop idx cpus)) = {hi<..hi'}"
  using assms(2,3)
proof (induction "length cpus - idx" arbitrary: idx hi rule: less_induct)
  case less
  show ?case
  proof (cases "idx < length cpus \<and> cpus ! idx = hi + 1")
    case True
    have step: "unat (hi + 1) = unat hi + 1"
      using less.prems(1) by (simp add: cpu_set_size_def word_less_nat_alt unat_word_ariths)
    have hi1: "hi + 1 < cpu_set_size"
      using True assms(1) nth_mem by metis
    have shorter: "length cpus - (idx + 1) < length cpus - idx" "idx + 1 \<le> length cpus"
      using True by auto
    obtain idx' hi' where r: "extend_range cpus (idx + 1) (hi + 1) = Some (idx', hi')" "idx + 1 \<le> idx'"
      "idx' \<le> length cpus" "hi + 1 \<le> hi'" "hi' < cpu_set_size"
      "set (take (idx' - (idx + 1)) (drop (idx + 1) cpus)) = {hi + 1<..hi'}"
      using less.hyps [OF shorter(1) hi1 shorter(2)] by blast
    have "take (idx' - idx) (drop idx cpus) = cpus ! idx # take (idx' - (idx + 1)) (drop (idx + 1) cpus)"
      using True r(2) by (subst Cons_nth_drop_Suc [symmetric]) (simp_all add: take_Cons' Suc_diff_Suc)
    then have "set (take (idx' - idx) (drop idx cpus)) = {hi<..hi'}"
      using r(4,6) True step by (auto simp: word_le_nat_alt word_less_nat_alt word_unat_eq_iff)
    moreover have "hi \<le> hi'"
      using r(4) step by (simp add: word_le_nat_alt)
    ultimately show ?thesis
      using r True by (subst extend_range.simps) auto
  next
    case False
    then show ?thesis
      using less.prems by (subst extend_range.simps) auto
  qed
qed

lemma range_loop_ok:
  assumes "\<forall>c \<in> set cpus. c < cpu_set_size"
  shows "\<exists>ps. range_loop cpus idx acc = Some (acc @ map (\<lambda>(a, b). show_range a b) ps)
    \<and> list_all (\<lambda>(a, b). a \<le> b \<and> b < cpu_set_size) ps \<and> (\<Union>(a, b) \<in> set ps. {a..b}) = set (drop idx cpus)"
proof (induction "length cpus - idx" arbitrary: idx acc rule: less_induct)
  case less
  show ?case
  proof (cases "idx < length cpus")
    case True
    let ?a = "cpus ! idx"
    have a: "?a < cpu_set_size"
      using True assms nth_mem by metis
    obtain idx' b where e: "extend_range cpus (idx + 1) ?a = Some (idx', b)" "idx + 1 \<le> idx'" "idx' \<le> length cpus"
      "?a \<le> b" "b < cpu_set_size" "set (take (idx' - (idx + 1)) (drop (idx + 1) cpus)) = {?a<..b}"
      using extend_range_ok [OF assms a, of "idx + 1"] True by auto
    have shorter: "length cpus - idx' < length cpus - idx"
      using True e(2) by auto
    obtain ps where ps: "range_loop cpus idx' (acc @ [show_range ?a b]) =
        Some ((acc @ [show_range ?a b]) @ map (\<lambda>(a, b). show_range a b) ps)"
      "list_all (\<lambda>(a, b). a \<le> b \<and> b < cpu_set_size) ps" "(\<Union>(a, b) \<in> set ps. {a..b}) = set (drop idx' cpus)"
      using less.hyps [OF shorter, of "acc @ [show_range ?a b]"] by blast
    have "drop (idx + 1) cpus = take (idx' - (idx + 1)) (drop (idx + 1) cpus) @ drop idx' cpus"
      using e(2) by (metis append_take_drop_id drop_drop le_add_diff_inverse2)
    then have "set (drop idx cpus) = insert ?a ({?a<..b} \<union> set (drop idx' cpus))"
      using True e(6) by (metis Cons_nth_drop_Suc Suc_eq_plus1 list.simps(15) set_append)
    also have "\<dots> = {?a..b} \<union> set (drop idx' cpus)"
      using e(4) by auto
    finally have "(\<Union>(a, b) \<in> set ((?a, b) # ps). {a..b}) = set (drop idx cpus)"
      using ps(3) by simp
    moreover have "range_loop cpus idx acc = Some (acc @ map (\<lambda>(a, b). show_range a b) ((?a, b) # ps))"
      using True e(1) ps(1) by (subst range_loop.simps) simp
    ultimately show ?thesis
      using ps(2) e(4,5) by (intro exI [of _ "(?a, b) # ps"]) simp
  next
    case False
    then show ?thesis
      by (subst range_loop.simps) (intro exI [of _ "[]"], simp)
  qed
qed

section \<open>The parser on printed ranges\<close>

lemma digit_not_space: "digit_val c \<noteq> None \<Longrightarrow> \<not> is_whitespace c"
  by (auto simp: digit_val_def is_whitespace_def Let_def split: if_splits)

lemma trim_id: "s \<noteq> [] \<Longrightarrow> \<not> is_whitespace (hd s) \<Longrightarrow> \<not> is_whitespace (last s) \<Longrightarrow> trim s = s"
  by (metis dropWhile_eq_self_iff hd_rev rev_is_Nil_conv rev_rev_ident trim_def trim_start_def)

lemma show_nat_ends [simp]: "\<not> is_whitespace (hd (show_nat n))" "\<not> is_whitespace (last (show_nat n))"
  by (simp_all add: digit_not_space [OF show_nat_digits [of _ n]])

lemma show_nat_no: "digit_val c = None \<Longrightarrow> c \<notin> set (show_nat n)"
  using show_nat_digits by blast

lemma parse_cpu_show: "cpu < cpu_set_size \<Longrightarrow> parse_cpu (show_nat (unat cpu)) = Inr cpu"
  by (simp add: parse_cpu_def trim_id parse_u32_def parse_bits_show_nat linorder_not_le unsigned_less [where ?'a = nat, of cpu, simplified])

lemma split_once_none: "sep \<notin> set s \<Longrightarrow> split_once sep s = None"
  by (induction s) auto

lemma split_once_at: "sep \<notin> set a \<Longrightarrow> split_once sep (a @ sep # b) = Some (a, b)"
  by (induction a) auto

lemma show_range_shape:
  "show_range a b \<noteq> []" "trim (show_range a b) = show_range a b" "CHR '','' \<notin> set (show_range a b)"
  by (auto simp: show_range_def digit_val_def show_nat_no intro!: trim_id)

lemma parse_part_show:
  assumes "a \<le> b" "b < cpu_set_size"
  shows "parse_part (show_range a b) m = Inr (fold (\<lambda>cpu. mask_set (of_nat cpu)) [unat a..<Suc (unat b)] m)"
proof -
  have "a < cpu_set_size" "\<not> b < a"
    using assms by auto
  moreover have "CHR ''-'' \<notin> set (show_nat n)" for n
    by (rule show_nat_no) (simp add: digit_val_def)
  ultimately show ?thesis
    using assms(2)
    by (auto simp: parse_part_def show_range_def split_once_none split_once_at parse_cpu_show simp del: upt_Suc)
qed

lemma add_range_wf:
  assumes "mask_wf m" "a \<le> b" "b < cpu_set_size"
  shows "mask_wf (fold (\<lambda>cpu. mask_set (of_nat cpu)) [unat a..<Suc (unat b)] m)"
proof (rule fold_preserves [where P = mask_wf, OF assms(1)])
  fix c m assume "c \<in> set [unat a..<Suc (unat b)]" "mask_wf m"
  moreover then have "c < 1024"
    using assms(3) by (auto simp: cpu_set_size_def word_less_nat_alt)
  ultimately show "mask_wf (mask_set (of_nat c) m)"
    by (intro mask_set_wf) (simp_all add: cpu_set_size_def word_less_nat_alt unat_of_nat_eq)
qed

lemma parse_parts_show:
  assumes "mask_wf m" "list_all (\<lambda>(a, b). a \<le> b \<and> b < cpu_set_size) ps"
  shows "\<exists>m'. parse_parts (map (\<lambda>(a, b). show_range a b) ps) m = Inr m' \<and> mask_wf m'
    \<and> (\<forall>cpu. contains_cpu m' cpu \<longleftrightarrow> cpu \<in> (\<Union>(a, b) \<in> set ps. {a..b}) \<or> contains_cpu m cpu)"
  using assms
proof (induction ps arbitrary: m)
  case (Cons p ps)
  obtain a b where p: "p = (a, b)" "a \<le> b" "b < cpu_set_size"
    using Cons.prems(2) by (cases p) auto
  let ?m = "fold (\<lambda>cpu. mask_set (of_nat cpu)) [unat a..<Suc (unat b)] m"
  obtain m' where "parse_parts (map (\<lambda>(a, b). show_range a b) ps) ?m = Inr m'" "mask_wf m'"
    "\<forall>cpu. contains_cpu m' cpu \<longleftrightarrow> cpu \<in> (\<Union>(a, b) \<in> set ps. {a..b}) \<or> contains_cpu ?m cpu"
    using Cons.IH [OF add_range_wf [OF Cons.prems(1) p(2,3)]] Cons.prems(2) by (auto simp del: upt_Suc)
  then show ?case
    using p by (auto simp: parse_part_show cpu_mask.mem_range simp del: upt_Suc)
qed simp

lemma parse_part_wf:
  assumes "mask_wf m" "parse_part part m = Inr m'"
  shows "mask_wf m'"
proof -
  have "\<exists>a b. a \<le> b \<and> b < cpu_set_size \<and> m' = fold (\<lambda>cpu. mask_set (of_nat cpu)) [unat a..<Suc (unat b)] m"
    using assms(2)
    by (fastforce simp: parse_part_def parse_cpu_def linorder_not_le linorder_not_less simp del: upt_Suc
        split: option.splits if_splits)
  then show ?thesis
    using add_range_wf [OF assms(1)] by blast
qed

lemma parse_parts_wf: "mask_wf m \<Longrightarrow> parse_parts parts m = Inr m' \<Longrightarrow> mask_wf m'"
  by (induction parts arbitrary: m) (auto intro: parse_part_wf)

lemma empty_mask_wf [simp]: "mask_wf empty_mask"
  by (simp add: mask_wf_def empty_mask_def)

lemma range_string_parses:
  assumes "mask_wf m"
  shows "\<exists>ps. to_range_string m = Some (join '','' (map (\<lambda>(a, b). show_range a b) ps)) \<and>
    parse_mask (join '','' (map (\<lambda>(a, b). show_range a b) ps)) =
      (if m = empty_mask then Inl (anyhow_msg ''CPU mask must contain at least one CPU'') else Inr m)"
proof -
  have "\<forall>c \<in> set (mask_cpus m). c < cpu_set_size"
    by (simp add: in_mask_cpus)
  from range_loop_ok [OF this, of 0 "[]"] obtain ps where ps:
    "range_loop (mask_cpus m) 0 [] = Some (map (\<lambda>(a, b). show_range a b) ps)"
    "list_all (\<lambda>(a, b). a \<le> b \<and> b < cpu_set_size) ps" "(\<Union>(a, b) \<in> set ps. {a..b}) = set (mask_cpus m)"
    by auto
  let ?parts = "map (\<lambda>(a, b). show_range a b) ps"
  obtain m' where m': "parse_parts ?parts empty_mask = Inr m'" "mask_wf m'"
    "\<forall>cpu. contains_cpu m' cpu \<longleftrightarrow> cpu \<in> set (mask_cpus m)"
    using parse_parts_show [OF empty_mask_wf ps(2)] ps(3) cpu_mask.mem_emp by auto
  have eq: "m' = m"
    by (rule mask_eqI [OF m'(2) assms]) (use m'(3) in_mask_cpus contains_in_range [OF assms] in blast)
  have "filter (\<lambda>part. part \<noteq> []) (map trim (split_on (CHR '','') (join '','' ?parts))) = ?parts"
  proof (cases "ps = []")
    case False
    have "\<forall>x \<in> set ?parts. CHR '','' \<notin> set x"
      by (auto simp: show_range_shape)
    then have "split_on (CHR '','') (join '','' ?parts) = ?parts"
      using False by (intro split_on_join) auto
    moreover have "map trim ?parts = ?parts" "filter (\<lambda>part. part \<noteq> []) ?parts = ?parts"
      by (auto simp: show_range_shape filter_id_conv)
    ultimately show ?thesis
      by metis
  qed (simp add: trim_def trim_start_def)
  then show ?thesis
    using ps(1) m'(1) eq mask_is_empty_iff [OF assms] by (intro exI [of _ ps]) (simp add: to_range_string_def parse_mask_def)
qed

section \<open>Properties\<close>

text \<open>
  Every mask the parser accepts is in normal form: at least one CPU, none at or above \<open>CPU_SETSIZE\<close>,
  at most sixteen words and no trailing zero word.\<close>

theorem parsed_mask_well_formed:
  assumes "parse_mask v = Inr m"
  shows "mask_wf m \<and> (\<exists>cpu. contains_cpu m cpu) \<and> list_all (\<lambda>cpu. cpu < cpu_set_size) (mask_cpus m)"
proof -
  have wf: "mask_wf m" and "m \<noteq> empty_mask"
    using assms parse_parts_wf [OF empty_mask_wf] mask_is_empty_iff
    by (auto simp: parse_mask_def split: if_splits)
  then have "\<exists>cpu. contains_cpu m cpu"
    using mask_eqI [OF wf empty_mask_wf] cpu_mask.mem_emp by blast
  then show ?thesis
    using wf by (simp add: list_all_iff in_mask_cpus)
qed

text \<open>
  C36. The two nested loops of the printer always end, and parsing what they print gives back the same mask,
  word for word, for every non-empty mask in normal form; an empty mask prints as the empty string, which
  the parser refuses.\<close>

theorem range_string_round_trip:
  assumes "mask_wf m"
  shows "\<exists>s. to_range_string m = Some s \<and>
    parse_mask s = (if m = empty_mask then Inl (anyhow_msg ''CPU mask must contain at least one CPU'') else Inr m)"
  using range_string_parses [OF assms] by blast

text \<open>
  \<open>is_subset_of\<close>, which compares word by word and reads missing words as zero, decides inclusion of the
  sets of CPUs, for any two masks whose words can be addressed.\<close>

theorem is_subset_of_iff:
  assumes "length (cm_words m) \<le> 2 ^ 26"
  shows "is_subset_of m other \<longleftrightarrow> Collect (contains_cpu m) \<subseteq> Collect (contains_cpu other)"
proof -
  let ?o = "\<lambda>i. if i < length (cm_words other) then cm_words other ! i else 0"
  have word: "w AND NOT v = 0 \<longleftrightarrow> (\<forall>j < 64. bit w j \<longrightarrow> bit v j)" for w v :: u64
    by (auto simp: bit_eq_iff [where ?'a = "64 word"] bit_and_iff bit_not_iff)
  have sub: "is_subset_of m other \<longleftrightarrow> (\<forall>i < length (cm_words m). \<forall>j < 64. bit (cm_words m ! i) j \<longrightarrow> bit (?o i) j)"
    by (simp add: is_subset_of_def list_all_length nth_enumerate_eq word Let_def)
  have index: "unat (of_nat (64 * i + j) :: u32) = 64 * i + j" if "i < length (cm_words m)" "j < 64" for i j
    using that assms by (intro unat_of_nat_eq) simp
  show ?thesis
  proof
    assume "is_subset_of m other"
    then show "Collect (contains_cpu m) \<subseteq> Collect (contains_cpu other)"
      by (auto simp: sub contains_iff split: if_splits)
  next
    assume incl: "Collect (contains_cpu m) \<subseteq> Collect (contains_cpu other)"
    have "bit (?o i) j" if "i < length (cm_words m)" "j < 64" "bit (cm_words m ! i) j" for i j
    proof -
      have "contains_cpu m (of_nat (64 * i + j))"
        using that index by (simp add: contains_iff)
      then have "contains_cpu other (of_nat (64 * i + j))"
        using incl by blast
      then show ?thesis
        using that index by (simp add: contains_iff)
    qed
    then show "is_subset_of m other"
      by (simp add: sub)
  qed
qed

lemma parse_three: "parse_mask ''3'' = Inr \<lparr>cm_words = [8]\<rparr>"
  by (simp add: parse_mask_def parse_part_def parse_cpu_def parse_u32_def parse_bits_def parse_nat_def trim_def trim_start_def
      is_whitespace_def digit_val_def cpu_set_size_def mask_set_def empty_mask_def mask_is_empty_def Let_def)

theorem parsed_mask_well_formed_witness:
  "mask_wf \<lparr>cm_words = [8]\<rparr> \<and> (\<exists>cpu. contains_cpu \<lparr>cm_words = [8]\<rparr> cpu)"
  using parsed_mask_well_formed [OF parse_three] by blast

theorem range_string_round_trip_witness:
  "\<exists>s. to_range_string \<lparr>cm_words = [7, 0, 1]\<rparr> = Some s \<and> parse_mask s = Inr \<lparr>cm_words = [7, 0, 1]\<rparr>"
  using range_string_round_trip [of "\<lparr>cm_words = [7, 0, 1]\<rparr>"] by (simp add: mask_wf_def empty_mask_def)

theorem is_subset_of_iff_witness:
  "Collect (contains_cpu \<lparr>cm_words = [2]\<rparr>) \<subseteq> Collect (contains_cpu \<lparr>cm_words = [6, 1]\<rparr>)"
  using is_subset_of_iff [of "\<lparr>cm_words = [2]\<rparr>" "\<lparr>cm_words = [6, 1]\<rparr>"] by (simp add: is_subset_of_def)

end
