(* ===== verification/Daemon_State.thy ===== *)
theory Daemon_State
  imports Daemon_Policy Action_Model "HOL-Library.Product_Lexorder"
begin

unbundle bit_operations_syntax

text \<open>
  What the daemon remembers and how it reacts: the state snapshot and the profile memory
  (\<open>stutter/src/daemon/state.rs\<close>), the builders of fault and recovery states (\<open>state_builders.rs\<close>), the watchdog
  (\<open>watchdog.rs\<close>), lifecycle events (\<open>lifecycle.rs\<close>) and the status part of \<open>explain.rs\<close>. Times in nanoseconds
  (\<open>u128\<close>) are natural numbers: the code only compares them and subtracts with saturation. The planner summary
  that a decision carries for display is left out of \<open>daemon_decision_state\<close>.
\<close>

section \<open>The state snapshot\<close>

datatype daemon_phase =
    DPh_Disabled | DPh_Init | DPh_Recover | DPh_Paused | DPh_Observe | DPh_Decide | DPh_Apply | DPh_Measure
  | DPh_Keep | DPh_Rollback | DPh_Cooldown | DPh_Faulted | DPh_Shutdown

fun lifecycle_label :: "daemon_phase \<Rightarrow> string" where
  "lifecycle_label DPh_Disabled = ''disabled''"
| "lifecycle_label DPh_Init = ''init''"
| "lifecycle_label DPh_Recover = ''recover''"
| "lifecycle_label DPh_Paused = ''paused''"
| "lifecycle_label DPh_Observe = ''observe''"
| "lifecycle_label DPh_Decide = ''decide''"
| "lifecycle_label DPh_Apply = ''apply''"
| "lifecycle_label DPh_Measure = ''measure''"
| "lifecycle_label DPh_Keep = ''keep''"
| "lifecycle_label DPh_Rollback = ''rollback''"
| "lifecycle_label DPh_Cooldown = ''cooldown''"
| "lifecycle_label DPh_Faulted = ''faulted''"
| "lifecycle_label DPh_Shutdown = ''shutdown''"

definition is_terminal :: "daemon_phase \<Rightarrow> bool" where
  "is_terminal p \<longleftrightarrow> p \<in> {DPh_Disabled, DPh_Paused, DPh_Faulted, DPh_Shutdown}"

definition is_faulted :: "daemon_phase \<Rightarrow> bool" where
  "is_faulted p \<longleftrightarrow> p = DPh_Faulted"

record daemon_target_state =
  dt_root_pid :: "u32 option"
  dt_active_targets :: usize
  dt_comm :: "string option"

record daemon_experiment_state =
  de_experiment_id :: string
  de_action_id :: string
  de_candidate_name :: "string option"
  de_mode :: daemon_mode
  de_safety_class :: safety_class
  de_started_unix_nanos :: "nat option"

record daemon_rollback_state =
  dr_action_id :: string
  dr_mode :: daemon_mode
  dr_safety_class :: safety_class
  dr_rollback_available :: bool
  dr_token :: "rollback_token option"
  dr_manual_restore_command :: "string option"

record daemon_decision_state =
  dd_decision :: string
  dd_reason :: string
  dd_unix_nanos :: "nat option"
  dd_diagnostic_current_raw_score_total :: "u64 option"
  dd_candidate_count :: "usize option"
  dd_top_denied_reason :: "string option"
  dd_situation :: "string option"
  dd_focus_kind :: "string option"

record daemon_degraded_status =
  dg_category :: string
  dg_message :: string

record daemon_fault_state =
  df_reason :: string
  df_manual_restore_command :: "string option"

record daemon_profile_partition =
  pp_power_source :: "string option"
  pp_display_refresh_millihz :: "u32 option"
  pp_fps_cap :: "u32 option"
  pp_graphics_settings_hash :: "string option"
  pp_scheduler_label :: "string option"

record daemon_profile_environment =
  pe_hardware_fingerprint :: "string option"
  pe_kernel_version :: "string option"
  pe_mesa_driver_version :: "string option"
  pe_cpu_topology_hash :: "string option"
  pe_scheduler_label :: "string option"
  pe_scx_state :: "string option"
  pe_scx_ops :: "string option"

record daemon_workload_profile =
  wp_workload_identity_hash :: string
  wp_workload_label :: "string option"
  wp_candidate_name :: string
  wp_action_id :: string
  wp_action_kind :: string
  wp_safety_class :: safety_class
  wp_kept_unix_nanos :: nat
  wp_last_validated_unix_nanos :: "nat option"
  wp_diagnostic_baseline_raw_score_total :: "u64 option"
  wp_diagnostic_candidate_raw_score_total :: "u64 option"
  wp_score_delta :: int
  wp_confidence_milli :: "16 word"
  wp_environment :: daemon_profile_environment
  wp_partition :: daemon_profile_partition

record daemon_state =
  st_schema_version :: u32
  st_mode :: daemon_mode
  st_phase :: daemon_phase
  st_cooldown_until_unix_nanos :: "nat option"
  st_active_target :: "daemon_target_state option"
  st_active_experiment :: "daemon_experiment_state option"
  st_active_rollback :: "daemon_rollback_state option"
  st_last_decision :: "daemon_decision_state option"
  st_health :: system_health_snapshot
  st_degraded :: "daemon_degraded_status list"
  st_faulted :: "daemon_fault_state option"
  st_profile_memory :: "daemon_workload_profile list"

definition DAEMON_STATE_SCHEMA_VERSION :: u32 where "DAEMON_STATE_SCHEMA_VERSION = 1"

definition default_daemon_state :: daemon_state where
  "default_daemon_state =
     \<lparr>st_schema_version = DAEMON_STATE_SCHEMA_VERSION, st_mode = Mode_Observe, st_phase = DPh_Disabled,
      st_cooldown_until_unix_nanos = None, st_active_target = None, st_active_experiment = None,
      st_active_rollback = None, st_last_decision = None, st_health = default_health_snapshot,
      st_degraded = [], st_faulted = None, st_profile_memory = []\<rparr>"

definition experiment_validate_identity :: "daemon_experiment_state \<Rightarrow> string + unit" where
  "experiment_validate_identity e =
     res_bind (validate_non_empty ''ExperimentId'' (de_experiment_id e))
       (\<lambda>_. validate_non_empty ''ActionId'' (de_action_id e))"

definition rollback_validate_identity :: "daemon_rollback_state \<Rightarrow> string + unit" where
  "rollback_validate_identity r = validate_non_empty ''ActionId'' (dr_action_id r)"

definition profile_validate_identity :: "daemon_workload_profile \<Rightarrow> string + unit" where
  "profile_validate_identity p = validate_non_empty ''ActionId'' (wp_action_id p)"

fun memory_validate_identity :: "daemon_workload_profile list \<Rightarrow> string + unit" where
  "memory_validate_identity [] = Inr ()"
| "memory_validate_identity (p # ps) = res_bind (profile_validate_identity p) (\<lambda>_. memory_validate_identity ps)"

definition state_validate_identity :: "daemon_state \<Rightarrow> string + unit" where
  "state_validate_identity s =
     res_bind (case st_active_experiment s of None \<Rightarrow> Inr () | Some e \<Rightarrow> experiment_validate_identity e)
       (\<lambda>_. res_bind (case st_active_rollback s of None \<Rightarrow> Inr () | Some r \<Rightarrow> rollback_validate_identity r)
       (\<lambda>_. memory_validate_identity (st_profile_memory s)))"

section \<open>Profile memory\<close>

definition profile_matches ::
  "string option \<Rightarrow> string option \<Rightarrow> bool \<Rightarrow> daemon_workload_profile \<Rightarrow> bool" where
  "profile_matches workload_identity_hash candidate_name all_profiles p =
     ((all_profiles \<or> (case workload_identity_hash of Some h \<Rightarrow> wp_workload_identity_hash p = h | None \<Rightarrow> False))
      \<and> (case candidate_name of
           Some name \<Rightarrow> wp_candidate_name p = name \<or> wp_action_id p = name
         | None \<Rightarrow> True))"

text \<open>The removed profiles and the retained ones.\<close>

fun forget_loop ::
  "(daemon_workload_profile \<Rightarrow> bool) \<Rightarrow> daemon_workload_profile list
    \<Rightarrow> daemon_workload_profile list \<times> daemon_workload_profile list
    \<Rightarrow> daemon_workload_profile list \<times> daemon_workload_profile list" where
  "forget_loop matches [] acc = acc"
| "forget_loop matches (p # ps) (removed, retained) =
     forget_loop matches ps (if matches p then (removed @ [p], retained) else (removed, retained @ [p]))"

definition forget_matching ::
  "string option \<Rightarrow> string option \<Rightarrow> bool \<Rightarrow> daemon_workload_profile list
    \<Rightarrow> daemon_workload_profile list \<times> daemon_workload_profile list" where
  "forget_matching workload_identity_hash candidate_name all_profiles profiles =
     forget_loop (profile_matches workload_identity_hash candidate_name all_profiles) profiles ([], [])"

definition sorted_profiles :: "daemon_workload_profile list \<Rightarrow> daemon_workload_profile list" where
  "sorted_profiles profiles =
     sort_key (\<lambda>p. (wp_workload_identity_hash p, wp_candidate_name p, - int (wp_kept_unix_nanos p))) profiles"

definition PROFILE_REVALIDATE_AFTER_NANOS :: nat where
  "PROFILE_REVALIDATE_AFTER_NANOS = 30 * 24 * 60 * 60 * 1000000000"

definition PROFILE_MAX_TRUST_AGE_NANOS :: nat where
  "PROFILE_MAX_TRUST_AGE_NANOS = 180 * 24 * 60 * 60 * 1000000000"

record daemon_profile_validation =
  pv_valid :: bool
  pv_confidence_milli :: "16 word"
  pv_reason_codes :: "string list"

definition push_profile_environment_mismatch ::
  "string \<Rightarrow> string option \<Rightarrow> string option \<Rightarrow> string list \<Rightarrow> string list" where
  "push_profile_environment_mismatch reason_code stored current reason_codes =
     (case (stored, current) of
        (Some s, Some c) \<Rightarrow> if s \<noteq> c then reason_codes @ [reason_code] else reason_codes
      | _ \<Rightarrow> reason_codes)"

definition environment_mismatches ::
  "daemon_profile_environment \<Rightarrow> daemon_profile_environment \<Rightarrow> string list \<Rightarrow> string list" where
  "environment_mismatches stored current codes =
     push_profile_environment_mismatch ''scx_ops_changed'' (pe_scx_ops stored) (pe_scx_ops current)
       (push_profile_environment_mismatch ''scx_state_changed'' (pe_scx_state stored) (pe_scx_state current)
       (push_profile_environment_mismatch ''scheduler_changed'' (pe_scheduler_label stored) (pe_scheduler_label current)
       (push_profile_environment_mismatch ''cpu_topology_changed'' (pe_cpu_topology_hash stored) (pe_cpu_topology_hash current)
       (push_profile_environment_mismatch ''kernel_changed'' (pe_kernel_version stored) (pe_kernel_version current)
       (push_profile_environment_mismatch ''hardware_changed'' (pe_hardware_fingerprint stored)
          (pe_hardware_fingerprint current) codes)))))"

text \<open>\<open>Vec::retain\<close> with \<open>BTreeSet::insert\<close>: the first occurrence of every reason.\<close>

definition retain_unique :: "string list \<Rightarrow> string list" where
  "retain_unique codes = rev (remdups (rev codes))"

definition profile_validation ::
  "daemon_workload_profile \<Rightarrow> daemon_profile_environment \<Rightarrow> nat \<Rightarrow> daemon_profile_validation" where
  "profile_validation p current now =
     (let codes = (if trim (wp_workload_identity_hash p) = [] then [''missing_workload_identity_hash''] else []);
          codes = environment_mismatches (wp_environment p) current codes;
          age_nanos = now - (case wp_last_validated_unix_nanos p of Some t \<Rightarrow> t | None \<Rightarrow> wp_kept_unix_nanos p);
          confidence = min (wp_confidence_milli p) 1000;
          (codes, confidence) =
            (if PROFILE_REVALIDATE_AFTER_NANOS < age_nanos
             then (codes @ [''revalidation_due''], saturating_mul confidence 800 div 1000) else (codes, confidence));
          (codes, confidence) =
            (if PROFILE_MAX_TRUST_AGE_NANOS < age_nanos
             then (codes @ [''profile_too_old''], min confidence 250) else (codes, confidence));
          codes = retain_unique codes
      in \<lparr>pv_valid = list_all (\<lambda>reason. reason = ''revalidation_due'') codes,
          pv_confidence_milli = confidence, pv_reason_codes = codes\<rparr>)"

text \<open>FNV-1a over the bytes of the parts, each part followed by the byte \<open>0xff\<close>; printed as \<open>{:016x}\<close>.\<close>

definition fnv_step :: "u64 \<Rightarrow> u64 \<Rightarrow> u64" where
  "fnv_step hash byte = (hash XOR byte) * 0x100000001b3"

definition hex16 :: "u64 \<Rightarrow> string" where
  "hex16 w = map (\<lambda>i. hex_digit (unat (drop_bit (4 * i) w AND 15))) (rev [0..<16])"

definition daemon_profile_stable_hash :: "string list \<Rightarrow> string" where
  "daemon_profile_stable_hash parts =
     hex16 (fold (\<lambda>part hash. fnv_step (fold (\<lambda>c hash. fnv_step hash (of_nat (of_char c))) part hash) 0xff)
       parts 0xcbf29ce484222325)"

record cpu_topology =
  tp_cpu :: u32
  tp_thread_siblings_list :: "string option"
  tp_core_id :: "string option"
  tp_physical_package_id :: "string option"

text \<open>The fields of \<open>SystemMetadata\<close> that a profile environment is made of.\<close>

record system_metadata =
  sm_kernel_osrelease :: "string option"
  sm_kernel_version :: "string option"
  sm_cpu_online :: "string option"
  sm_cpu_possible :: "string option"
  sm_cpu_topology :: "cpu_topology list"
  sm_scx_state :: "string option"
  sm_scx_ops :: "string option"

definition unwrap_or_dash :: "string option \<Rightarrow> string" where
  "unwrap_or_dash v = (case v of Some s \<Rightarrow> s | None \<Rightarrow> ''-'')"

definition daemon_profile_cpu_topology_hash :: "system_metadata \<Rightarrow> string option" where
  "daemon_profile_cpu_topology_hash md =
     (if sm_cpu_topology md = [] \<and> sm_cpu_online md = None \<and> sm_cpu_possible md = None then None
      else Some (daemon_profile_stable_hash
        ((''online='' @ unwrap_or_dash (sm_cpu_online md))
         # (''possible='' @ unwrap_or_dash (sm_cpu_possible md))
         # map (\<lambda>cpu. ''cpu='' @ show_nat (unat (tp_cpu cpu))
              @ '':siblings='' @ unwrap_or_dash (tp_thread_siblings_list cpu)
              @ '':core='' @ unwrap_or_dash (tp_core_id cpu)
              @ '':package='' @ unwrap_or_dash (tp_physical_package_id cpu)) (sm_cpu_topology md))))"

definition or_else :: "'a option \<Rightarrow> 'a option \<Rightarrow> 'a option" where
  "or_else a b = (case a of Some x \<Rightarrow> Some x | None \<Rightarrow> b)"

definition from_system_metadata :: "system_metadata \<Rightarrow> daemon_profile_environment" where
  "from_system_metadata md =
     (let topology = daemon_profile_cpu_topology_hash md
      in \<lparr>pe_hardware_fingerprint = Some (daemon_profile_stable_hash
            [unwrap_or_dash (sm_cpu_possible md), unwrap_or_dash (sm_cpu_online md), unwrap_or_dash topology]),
          pe_kernel_version = or_else (sm_kernel_osrelease md) (sm_kernel_version md),
          pe_mesa_driver_version = None, pe_cpu_topology_hash = topology,
          pe_scheduler_label = (case or_else (sm_scx_ops md) (sm_scx_state md) of
             Some v \<Rightarrow> if trim v = [] then None else Some v | None \<Rightarrow> None),
          pe_scx_state = sm_scx_state md, pe_scx_ops = sm_scx_ops md\<rparr>)"

section \<open>Fault and recovery states\<close>

definition DAEMON_EMERGENCY_RESTORE_COMMAND :: string where
  "DAEMON_EMERGENCY_RESTORE_COMMAND = ''stutter daemon emergency-restore''"

definition new_decision :: "nat \<Rightarrow> string \<Rightarrow> string \<Rightarrow> daemon_decision_state" where
  "new_decision now decision reason =
     \<lparr>dd_decision = decision, dd_reason = reason, dd_unix_nanos = Some now,
      dd_diagnostic_current_raw_score_total = None, dd_candidate_count = None, dd_top_denied_reason = None,
      dd_situation = None, dd_focus_kind = None\<rparr>"

definition daemon_state_for_agent_fault :: "nat \<Rightarrow> daemon_mode \<Rightarrow> string \<Rightarrow> string \<Rightarrow> daemon_state" where
  "daemon_state_for_agent_fault now mode decision reason =
     default_daemon_state
       \<lparr>st_mode := mode, st_phase := DPh_Faulted, st_last_decision := Some (new_decision now decision reason),
        st_degraded := [\<lparr>dg_category = ''agent'', dg_message = reason\<rparr>],
        st_faulted := Some \<lparr>df_reason = reason,
          df_manual_restore_command = Some DAEMON_EMERGENCY_RESTORE_COMMAND\<rparr>\<rparr>"

datatype startup_recovery_outcome =
    SR_Clean
  | SR_Recovered (sr_experiment_id: string) (sr_action_id: string) (sr_affected_tasks: usize) (sr_command: string)
  | SR_RollbackDisabled string string string
  | SR_ApplyingWithoutRollback string string
  | SR_Faulted string string string string

definition recovery_experiment :: "string \<Rightarrow> string \<Rightarrow> daemon_experiment_state" where
  "recovery_experiment experiment_id action_id =
     \<lparr>de_experiment_id = experiment_id, de_action_id = action_id, de_candidate_name = None,
      de_mode = Mode_ApplyLowRisk, de_safety_class = SC_ReversibleLowRisk, de_started_unix_nanos = None\<rparr>"

definition recovery_state ::
  "nat \<Rightarrow> daemon_phase \<Rightarrow> daemon_experiment_state option \<Rightarrow> daemon_rollback_state option \<Rightarrow> string \<Rightarrow> string
    \<Rightarrow> string option \<Rightarrow> daemon_fault_state option \<Rightarrow> daemon_state" where
  "recovery_state now phase experiment rollback decision reason degraded fault =
     default_daemon_state
       \<lparr>st_mode := Mode_ApplyLowRisk, st_phase := phase, st_active_experiment := experiment,
        st_active_rollback := rollback, st_last_decision := Some (new_decision now decision reason),
        st_degraded := (case degraded of None \<Rightarrow> []
           | Some m \<Rightarrow> [\<lparr>dg_category = ''startup_recovery'', dg_message = m\<rparr>]),
        st_faulted := fault\<rparr>"

fun daemon_state_from_startup_recovery :: "nat \<Rightarrow> startup_recovery_outcome \<Rightarrow> daemon_state" where
  "daemon_state_from_startup_recovery now SR_Clean = default_daemon_state"
| "daemon_state_from_startup_recovery now (SR_Recovered e a n cmd) =
     recovery_state now DPh_Cooldown None None ''startup_recovery_recovered''
       (''recovered experiment_id='' @ e @ '' action_id='' @ a @ '' affected_tasks='' @ show_nat n
        @ '' manual_restore_command='' @ [CHR 0x22] @ cmd @ [CHR 0x22]) None None"
| "daemon_state_from_startup_recovery now (SR_RollbackDisabled e a cmd) =
     recovery_state now DPh_Faulted (Some (recovery_experiment e a))
       (Some \<lparr>dr_action_id = a, dr_mode = Mode_ApplyLowRisk, dr_safety_class = SC_ReversibleLowRisk,
              dr_rollback_available = True, dr_token = None, dr_manual_restore_command = Some cmd\<rparr>)
       ''startup_recovery_rollback_disabled''
       (''rollback disabled for experiment_id='' @ e @ '' action_id='' @ a
        @ '' manual_restore_command='' @ [CHR 0x22] @ cmd @ [CHR 0x22])
       (Some ''rollback disabled'')
       (Some \<lparr>df_reason = ''startup recovery rollback disabled'', df_manual_restore_command = Some cmd\<rparr>)"
| "daemon_state_from_startup_recovery now (SR_ApplyingWithoutRollback e a) =
     recovery_state now DPh_Faulted (Some (recovery_experiment e a)) None
       ''startup_recovery_applying_without_rollback''
       (''applying journal without rollback token experiment_id='' @ e @ '' action_id='' @ a)
       (Some ''applying journal without rollback token'')
       (Some \<lparr>df_reason = ''startup recovery found applying journal without rollback token'',
              df_manual_restore_command = Some DAEMON_EMERGENCY_RESTORE_COMMAND\<rparr>)"
| "daemon_state_from_startup_recovery now (SR_Faulted e a cmd reason) =
     recovery_state now DPh_Faulted (Some (recovery_experiment e a)) None ''startup_recovery_faulted'' reason
       (Some reason) (Some \<lparr>df_reason = reason, df_manual_restore_command = Some cmd\<rparr>)"

fun safety_class_for_rollback_token :: "rollback_token \<Rightarrow> safety_class" where
  "safety_class_for_rollback_token (CpuAffinityRestoreFile _ _) = SC_ReversibleLowRisk"
| "safety_class_for_rollback_token (NiceRestore _) = SC_ReversibleMediumRisk"
| "safety_class_for_rollback_token (IoPrioRestore _) = SC_ReversibleMediumRisk"
| "safety_class_for_rollback_token (UclampRestore _) = SC_ReversibleMediumRisk"
| "safety_class_for_rollback_token (IrqAffinityRestore _) = SC_ReversibleMediumRisk"
| "safety_class_for_rollback_token (CgroupRestore _ _) = SC_ReversibleMediumRisk"
| "safety_class_for_rollback_token (CpuPowerRestore _) = SC_HighRisk"
| "safety_class_for_rollback_token (VmKnobRestore _) = SC_HighRisk"
| "safety_class_for_rollback_token (GpuPowerRestore _) = SC_HighRisk"
| "safety_class_for_rollback_token (SysfsRestore _ _) = SC_HighRisk"

definition candidate_name_from_action_id :: "string \<Rightarrow> string option" where
  "candidate_name_from_action_id action_id =
     (case split_once (CHR '':'') action_id of
        Some (_, candidate) \<Rightarrow> if trim candidate = [] then None else Some candidate
      | None \<Rightarrow> None)"

record startup_recovery_input =
  si_phase :: daemon_phase
  si_decision :: string
  si_reason :: string
  si_experiment_id :: string
  si_action_id :: string
  si_rollback_token :: "rollback_token option"
  si_rollback_available :: bool
  si_include_active_experiment :: bool
  si_faulted :: bool
  si_manual_restore_command :: "string option"

definition daemon_state_for_startup_recovery_snapshot :: "nat \<Rightarrow> startup_recovery_input \<Rightarrow> daemon_state" where
  "daemon_state_for_startup_recovery_snapshot now i =
     (let cmd = (case si_manual_restore_command i of Some c \<Rightarrow> c | None \<Rightarrow> DAEMON_EMERGENCY_RESTORE_COMMAND);
          safety = (case si_rollback_token i of Some t \<Rightarrow> safety_class_for_rollback_token t
                    | None \<Rightarrow> SC_ReversibleLowRisk)
      in default_daemon_state
        \<lparr>st_schema_version := DAEMON_STATE_SCHEMA_VERSION, st_mode := Mode_ApplyLowRisk, st_phase := si_phase i,
         st_active_experiment :=
           then_some (si_include_active_experiment i)
             \<lparr>de_experiment_id = si_experiment_id i, de_action_id = si_action_id i,
              de_candidate_name = candidate_name_from_action_id (si_action_id i), de_mode = Mode_ApplyLowRisk,
              de_safety_class = safety, de_started_unix_nanos = None\<rparr>,
         st_active_rollback :=
           map_option (\<lambda>token. \<lparr>dr_action_id = si_action_id i, dr_mode = Mode_ApplyLowRisk, dr_safety_class = safety,
              dr_rollback_available = si_rollback_available i, dr_token = Some token,
              dr_manual_restore_command = Some cmd\<rparr>) (si_rollback_token i),
         st_last_decision := Some (new_decision now (si_decision i) (si_reason i)),
         st_degraded := (if si_faulted i
           then [\<lparr>dg_category = ''startup_recovery'', dg_message = si_reason i\<rparr>] else []),
         st_faulted := then_some (si_faulted i)
           \<lparr>df_reason = si_reason i, df_manual_restore_command = Some cmd\<rparr>\<rparr>)"

section \<open>Watchdog\<close>

record daemon_watchdog_config =
  wc_max_drop_counters_total :: u64
  wc_max_action_phase_elapsed_ms :: u64
  wc_max_experiment_elapsed_ms :: u64
  wc_max_shutdown_rollback_elapsed_ms :: u64

definition default_watchdog_config :: daemon_watchdog_config where
  "default_watchdog_config =
     \<lparr>wc_max_drop_counters_total = 10000, wc_max_action_phase_elapsed_ms = 30000,
      wc_max_experiment_elapsed_ms = 10 * 60 * 1000, wc_max_shutdown_rollback_elapsed_ms = 30000\<rparr>"

record daemon_watchdog_inputs =
  wi_phase :: daemon_phase
  wi_health :: system_health_snapshot
  wi_ringbuf_alive :: bool
  wi_event_rate_per_minute :: "u64 option"
  wi_drop_counters_total :: u64
  wi_target_refresh_ok :: bool
  wi_recorder_writable :: bool
  wi_rollback_journal_clean :: bool
  wi_has_active_experiment :: bool
  wi_has_active_rollback :: bool
  wi_action_phase_elapsed_ms :: "u64 option"
  wi_experiment_elapsed_ms :: "u64 option"
  wi_shutdown_rollback_elapsed_ms :: "u64 option"

definition from_state_and_health :: "daemon_state \<Rightarrow> system_health_snapshot \<Rightarrow> daemon_watchdog_inputs" where
  "from_state_and_health s health =
     \<lparr>wi_phase = st_phase s, wi_health = health,
      wi_ringbuf_alive = (hs_state health \<noteq> InstrumentationBroken),
      wi_event_rate_per_minute = None,
      wi_drop_counters_total = hi_ebpf_dropped_events (hs_inputs health),
      wi_target_refresh_ok =
        (st_active_target s \<noteq> None \<or> st_active_experiment s = None
         \<or> st_phase s \<in> {DPh_Disabled, DPh_Init, DPh_Recover, DPh_Paused, DPh_Shutdown}),
      wi_recorder_writable = (hs_state health \<noteq> LowDisk),
      wi_rollback_journal_clean = (st_active_rollback s = None \<or> st_active_experiment s \<noteq> None),
      wi_has_active_experiment = (st_active_experiment s \<noteq> None),
      wi_has_active_rollback = (st_active_rollback s \<noteq> None),
      wi_action_phase_elapsed_ms = None, wi_experiment_elapsed_ms = None,
      wi_shutdown_rollback_elapsed_ms = None\<rparr>"

datatype daemon_self_healing_action =
    RestartMonitorSubsystem | ClearStaleTarget | PauseAutotune | RollbackActiveExperiment | EnterObserveOnly | FaultHard

record daemon_watchdog_issue =
  wd_reason_code :: string
  wd_message :: string
  wd_recommended_actions :: "daemon_self_healing_action list"

record daemon_watchdog_report =
  wr_ok :: bool
  wr_phase :: daemon_phase
  wr_issues :: "daemon_watchdog_issue list"
  wr_recommended_actions :: "daemon_self_healing_action list"

definition watchdog_issue ::
  "bool \<Rightarrow> string \<Rightarrow> string \<Rightarrow> daemon_self_healing_action list \<Rightarrow> daemon_watchdog_issue list" where
  "watchdog_issue cond code message actions =
     (if cond then [\<lparr>wd_reason_code = code, wd_message = message, wd_recommended_actions = actions\<rparr>] else [])"

definition watchdog_issues :: "daemon_watchdog_inputs \<Rightarrow> daemon_watchdog_config \<Rightarrow> daemon_watchdog_issue list" where
  "watchdog_issues i c =
     watchdog_issue (\<not> wi_ringbuf_alive i) ''ringbuf_not_alive'' ''event ring buffer is not alive''
       [RestartMonitorSubsystem, PauseAutotune]
     @ watchdog_issue (wi_event_rate_per_minute i = Some 0 \<and> \<not> is_terminal (wi_phase i)) ''event_rate_zero''
       ''daemon is active but no monitor events are arriving'' [RestartMonitorSubsystem, PauseAutotune]
     @ watchdog_issue (wc_max_drop_counters_total c < wi_drop_counters_total i) ''drop_counters_high''
       ''event drop counters exceed watchdog budget'' [PauseAutotune, EnterObserveOnly]
     @ watchdog_issue (\<not> wi_target_refresh_ok i) ''target_refresh_stalled''
       ''target refresh is stale or failed'' [ClearStaleTarget, PauseAutotune]
     @ watchdog_issue (\<not> wi_recorder_writable i) ''recorder_unwritable''
       ''recorder or audit storage is not writable'' [PauseAutotune, EnterObserveOnly]
     @ watchdog_issue (\<not> wi_rollback_journal_clean i) ''rollback_journal_dirty''
       ''rollback journal is dirty outside an active experiment'' [RollbackActiveExperiment, FaultHard]
     @ watchdog_issue (\<not> hs_ok_for_apply (wi_health i))
       (case hs_reason_code (wi_health i) of Some r \<Rightarrow> r | None \<Rightarrow> ''health_blocks_apply'')
       ''system health blocks apply mode''
       (if wi_has_active_rollback i then [RollbackActiveExperiment, EnterObserveOnly] else [EnterObserveOnly])
     @ watchdog_issue (is_some_and (wi_action_phase_elapsed_ms i) (\<lambda>t. wc_max_action_phase_elapsed_ms c < t))
       ''action_phase_timeout'' ''action runner phase exceeded watchdog timeout''
       (if wi_has_active_rollback i then [RollbackActiveExperiment, FaultHard] else [FaultHard])
     @ watchdog_issue (is_some_and (wi_experiment_elapsed_ms i) (\<lambda>t. wc_max_experiment_elapsed_ms c < t))
       ''experiment_timeout'' ''active experiment exceeded watchdog timeout'' [RollbackActiveExperiment, PauseAutotune]
     @ watchdog_issue (is_some_and (wi_shutdown_rollback_elapsed_ms i) (\<lambda>t. wc_max_shutdown_rollback_elapsed_ms c < t))
       ''shutdown_rollback_timeout'' ''shutdown rollback exceeded watchdog timeout'' [FaultHard]"

definition push_unique :: "'a \<Rightarrow> 'a list \<Rightarrow> 'a list" where
  "push_unique x xs = (if x \<in> set xs then xs else xs @ [x])"

definition evaluate_daemon_watchdog ::
  "daemon_watchdog_inputs \<Rightarrow> daemon_watchdog_config \<Rightarrow> daemon_watchdog_report" where
  "evaluate_daemon_watchdog i c =
     (let issues = watchdog_issues i c
      in \<lparr>wr_ok = (issues = []), wr_phase = wi_phase i, wr_issues = issues,
          wr_recommended_actions = fold push_unique (concat (map wd_recommended_actions issues)) []\<rparr>)"

fun self_healing_as_str :: "daemon_self_healing_action \<Rightarrow> string" where
  "self_healing_as_str RestartMonitorSubsystem = ''restart_monitor_subsystem''"
| "self_healing_as_str ClearStaleTarget = ''clear_stale_target''"
| "self_healing_as_str PauseAutotune = ''pause_autotune''"
| "self_healing_as_str RollbackActiveExperiment = ''rollback_active_experiment''"
| "self_healing_as_str EnterObserveOnly = ''enter_observe_only''"
| "self_healing_as_str FaultHard = ''fault_hard''"

section \<open>Lifecycle events\<close>

record lifecycle_clock_sample =
  lc_realtime_ms :: nat
  lc_monotonic_ms :: nat

datatype daemon_lifecycle_event =
    SuspendDetected
  | ResumeDetected (ev_slept_ms: nat)
  | GpuReset
  | CompositorRestart
  | TargetPidRestart (ev_old_pid: u32) (ev_new_pid: u32)
  | TargetExited (ev_pid: u32)
  | CgroupMoved
  | CpuTopologyChanged

fun lifecycle_event_as_str :: "daemon_lifecycle_event \<Rightarrow> string" where
  "lifecycle_event_as_str SuspendDetected = ''suspend_detected''"
| "lifecycle_event_as_str (ResumeDetected _) = ''resume_detected''"
| "lifecycle_event_as_str GpuReset = ''gpu_reset''"
| "lifecycle_event_as_str CompositorRestart = ''compositor_restart''"
| "lifecycle_event_as_str (TargetPidRestart _ _) = ''target_pid_restart''"
| "lifecycle_event_as_str (TargetExited _) = ''target_exited''"
| "lifecycle_event_as_str CgroupMoved = ''cgroup_moved''"
| "lifecycle_event_as_str CpuTopologyChanged = ''cpu_topology_changed''"

datatype daemon_lifecycle_action =
    LA_PauseExperiments | LA_RollbackActiveExperiment | LA_FlushJournal | LA_RefreshTopology
  | LA_RefreshTargetIdentity | LA_RefreshEbpfMaps | LA_ClearMeasurementWindows | LA_WaitStabilization
  | LA_EnterObserveOnly

fun lifecycle_action_as_str :: "daemon_lifecycle_action \<Rightarrow> string" where
  "lifecycle_action_as_str LA_PauseExperiments = ''pause_experiments''"
| "lifecycle_action_as_str LA_RollbackActiveExperiment = ''rollback_active_experiment''"
| "lifecycle_action_as_str LA_FlushJournal = ''flush_journal''"
| "lifecycle_action_as_str LA_RefreshTopology = ''refresh_topology''"
| "lifecycle_action_as_str LA_RefreshTargetIdentity = ''refresh_target_identity''"
| "lifecycle_action_as_str LA_RefreshEbpfMaps = ''refresh_ebpf_maps''"
| "lifecycle_action_as_str LA_ClearMeasurementWindows = ''clear_measurement_windows''"
| "lifecycle_action_as_str LA_WaitStabilization = ''wait_stabilization''"
| "lifecycle_action_as_str LA_EnterObserveOnly = ''enter_observe_only''"

record daemon_lifecycle_policy =
  lp_suspend_resume_gap_threshold_ms :: nat
  lp_resume_stabilization_ms :: u64
  lp_rollback_active_experiment_on_suspend :: bool
  lp_rollback_active_experiment_on_target_change :: bool

definition default_lifecycle_policy :: daemon_lifecycle_policy where
  "default_lifecycle_policy =
     \<lparr>lp_suspend_resume_gap_threshold_ms = 5000, lp_resume_stabilization_ms = 10000,
      lp_rollback_active_experiment_on_suspend = True, lp_rollback_active_experiment_on_target_change = True\<rparr>"

record daemon_lifecycle_inputs =
  le_has_active_experiment :: bool
  le_active_experiment_has_rollback :: bool
  le_event :: daemon_lifecycle_event

record daemon_lifecycle_transition =
  lt_event :: daemon_lifecycle_event
  lt_actions :: "daemon_lifecycle_action list"
  lt_reason_code :: string
  lt_reason :: string
  lt_stabilization_ms :: "u64 option"
  lt_health_suspended_or_resumed :: bool

record suspend_resume_detector =
  sd_previous :: "lifecycle_clock_sample option"
  sd_gap_threshold_ms :: nat

definition detector_with_policy :: "daemon_lifecycle_policy \<Rightarrow> suspend_resume_detector" where
  "detector_with_policy p =
     \<lparr>sd_previous = None, sd_gap_threshold_ms = lp_suspend_resume_gap_threshold_ms p\<rparr>"

definition detector_observe ::
  "lifecycle_clock_sample \<Rightarrow> suspend_resume_detector \<Rightarrow> daemon_lifecycle_event option \<times> suspend_resume_detector" where
  "detector_observe sample d =
     ((case sd_previous d of
         None \<Rightarrow> None
       | Some previous \<Rightarrow>
          (let gap = (lc_realtime_ms sample - lc_realtime_ms previous)
                     - (lc_monotonic_ms sample - lc_monotonic_ms previous)
           in then_some (sd_gap_threshold_ms d \<le> gap) (ResumeDetected gap))),
      d\<lparr>sd_previous := Some sample\<rparr>)"

fun lifecycle_reason :: "daemon_lifecycle_event \<Rightarrow> string" where
  "lifecycle_reason SuspendDetected =
     ''system suspend detected; experiments must pause and journal state must flush''"
| "lifecycle_reason (ResumeDetected slept) =
     ''system resume detected after approximately '' @ show_nat slept @ ''ms; measurements must stabilize''"
| "lifecycle_reason GpuReset =
     ''GPU reset detected; current measurement windows are no longer comparable''"
| "lifecycle_reason CompositorRestart =
     ''compositor restart detected; foreground and frame context must be refreshed''"
| "lifecycle_reason (TargetPidRestart old new) =
     ''target process restarted from pid '' @ show_nat (unat old) @ '' to pid '' @ show_nat (unat new)"
| "lifecycle_reason (TargetExited pid) = ''target process pid '' @ show_nat (unat pid) @ '' exited''"
| "lifecycle_reason CgroupMoved = ''target cgroup changed; workload identity must be refreshed''"
| "lifecycle_reason CpuTopologyChanged = ''CPU topology changed; candidates must be revalidated''"

definition target_change_actions ::
  "daemon_lifecycle_inputs \<Rightarrow> daemon_lifecycle_policy \<Rightarrow> daemon_lifecycle_action list" where
  "target_change_actions i p =
     [LA_RefreshTargetIdentity, LA_ClearMeasurementWindows]
     @ (if lp_rollback_active_experiment_on_target_change p \<and> le_has_active_experiment i
        then (if le_active_experiment_has_rollback i then [LA_RollbackActiveExperiment] else [LA_EnterObserveOnly])
        else [])"

text \<open>Actions, stabilisation time and whether health is marked as suspended or resumed.\<close>

definition lifecycle_outcome ::
  "daemon_lifecycle_inputs \<Rightarrow> daemon_lifecycle_policy \<Rightarrow> daemon_lifecycle_action list \<times> u64 option \<times> bool" where
  "lifecycle_outcome i p =
     (case le_event i of
        SuspendDetected \<Rightarrow>
          ([LA_PauseExperiments, LA_FlushJournal]
           @ (if lp_rollback_active_experiment_on_suspend p \<and> le_has_active_experiment i
                 \<and> le_active_experiment_has_rollback i then [LA_RollbackActiveExperiment] else []), None, True)
      | ResumeDetected _ \<Rightarrow>
          ([LA_RefreshTopology, LA_RefreshTargetIdentity, LA_RefreshEbpfMaps, LA_ClearMeasurementWindows,
            LA_WaitStabilization], Some (lp_resume_stabilization_ms p), True)
      | GpuReset \<Rightarrow>
          ([LA_PauseExperiments, LA_ClearMeasurementWindows, LA_WaitStabilization],
           Some (lp_resume_stabilization_ms p), False)
      | CompositorRestart \<Rightarrow>
          ([LA_PauseExperiments, LA_ClearMeasurementWindows, LA_WaitStabilization],
           Some (lp_resume_stabilization_ms p), False)
      | TargetPidRestart _ _ \<Rightarrow> (target_change_actions i p, None, False)
      | TargetExited _ \<Rightarrow> (target_change_actions i p, None, False)
      | CgroupMoved \<Rightarrow> (target_change_actions i p, None, False)
      | CpuTopologyChanged \<Rightarrow>
          ([LA_RefreshTopology, LA_ClearMeasurementWindows, LA_EnterObserveOnly], None, False))"

definition evaluate_daemon_lifecycle_event ::
  "daemon_lifecycle_inputs \<Rightarrow> daemon_lifecycle_policy \<Rightarrow> daemon_lifecycle_transition" where
  "evaluate_daemon_lifecycle_event i p =
     (case lifecycle_outcome i p of (actions, stabilization, suspended) \<Rightarrow>
        \<lparr>lt_event = le_event i, lt_actions = actions, lt_reason_code = lifecycle_event_as_str (le_event i),
         lt_reason = lifecycle_reason (le_event i), lt_stabilization_ms = stabilization,
         lt_health_suspended_or_resumed = suspended\<rparr>)"

section \<open>Status\<close>

definition degrade_context :: "daemon_degraded_status \<Rightarrow> daemon_policy_context \<Rightarrow> daemon_policy_context" where
  "degrade_context degraded c =
     (if dg_category degraded = ''data_quality''
      then c\<lparr>px_data_quality_ok := False, px_data_quality_reason_code := Some (dg_message degraded)\<rparr>
      else if dg_category degraded \<in> {''workload_identity'', ''workload_stability'', ''target_identity''}
      then c\<lparr>px_workload_stable := False\<rparr>
      else c)"

definition policy_context_from_daemon_status ::
  "daemon_state \<Rightarrow> system_health_snapshot \<Rightarrow> daemon_capabilities \<Rightarrow> nat \<Rightarrow> daemon_policy_context" where
  "policy_context_from_daemon_status s health capabilities now =
     fold degrade_context (st_degraded s)
       ((with_system_health default_policy_context health)
          \<lparr>px_capabilities := Some capabilities,
           px_cooldown_active := is_some_and (st_cooldown_until_unix_nanos s) (\<lambda>until. now < until),
           px_rollback_pending := (st_active_rollback s \<noteq> None)\<rparr>)"

definition daemon_no_optimize_reasons ::
  "daemon_state \<Rightarrow> system_health_snapshot \<Rightarrow> daemon_watchdog_report \<Rightarrow> nat \<Rightarrow> string list" where
  "daemon_no_optimize_reasons s health watchdog now =
     (let reasons =
        (if supports_apply (st_mode s) then [] else [''observe_only_mode''])
        @ (if st_phase s = DPh_Paused then [''daemon_paused''] else [])
        @ (case st_faulted s of None \<Rightarrow> [] | Some fault \<Rightarrow> [''faulted:'' @ df_reason fault])
        @ (case st_active_rollback s of None \<Rightarrow> [] | Some r \<Rightarrow> [''rollback_pending:'' @ dr_action_id r])
        @ (case st_cooldown_until_unix_nanos s of
             None \<Rightarrow> []
           | Some until \<Rightarrow> if now < until then [''cooldown_active_until_unix_nanos:'' @ show_nat until] else [])
        @ (if hs_ok_for_apply health then []
           else [''health_blocked:'' @ (case hs_reason_code health of Some r \<Rightarrow> r | None \<Rightarrow> ''unknown'')])
        @ map (\<lambda>i. ''watchdog:'' @ wd_reason_code i @ '':'' @ wd_message i) (wr_issues watchdog)
        @ map (\<lambda>d. ''degraded:'' @ dg_category d @ '':'' @ dg_message d) (st_degraded s)
        @ (case st_last_decision s of
             None \<Rightarrow> []
           | Some d \<Rightarrow> if dd_decision d \<noteq> ''candidate_applied''
                       then [''last_decision:'' @ dd_decision d @ '':'' @ dd_reason d] else [])
      in if reasons = [] then [''no_blocking_reason_captured''] else reasons)"

end
