(* ===== verification/Agent_Access.thy ===== *)
theory Agent_Access
  imports Daemon_State
begin

unbundle bit_operations_syntax

text \<open>
  Who may ask the agent for what: request rate limiting (\<open>stutter/src/agent/rate_limit.rs\<close>), bearer tokens and
  scopes (\<open>agent/auth.rs\<close>), the privilege allowlist (\<open>daemon/privilege/\<close>) and the admission of a remote autotune
  session (\<open>agent/autotune/policy.rs\<close>, \<open>autotune/runtime/config.rs\<close>). The HTTP header map is reduced to the
  authorization header the code reads.
\<close>

section \<open>Rate limiting\<close>

text \<open>Instants and the window in nanoseconds; \<open>Instant::duration_since\<close> saturates at zero.\<close>

record agent_rate_limiter =
  rl_max_requests :: usize
  rl_window :: nat
  rl_accepted :: "nat list"

definition default_rate_limiter :: agent_rate_limiter where
  "default_rate_limiter = \<lparr>rl_max_requests = 120, rl_window = 60 * 1000000000, rl_accepted = []\<rparr>"

definition rate_accept :: "nat \<Rightarrow> agent_rate_limiter \<Rightarrow> bool \<times> agent_rate_limiter" where
  "rate_accept now l =
     (let accepted = dropWhile (\<lambda>previous. rl_window l \<le> now - previous) (rl_accepted l)
      in if rl_max_requests l \<le> length accepted then (False, l\<lparr>rl_accepted := accepted\<rparr>)
         else (True, l\<lparr>rl_accepted := accepted @ [now]\<rparr>))"

fun rate_run :: "nat list \<Rightarrow> agent_rate_limiter \<Rightarrow> (nat \<times> bool) list" where
  "rate_run [] l = []"
| "rate_run (t # ts) l = (case rate_accept t l of (ok, l') \<Rightarrow> (t, ok) # rate_run ts l')"

section \<open>Privileges\<close>

datatype privilege_process_role = PrivilegedWorker | ControlPlane | UiClient

datatype privilege_transport = LocalCli | UnixSocket | LoopbackTcp | RemoteTcp

definition transport_is_local :: "privilege_transport \<Rightarrow> bool" where
  "transport_is_local t \<longleftrightarrow> t \<in> {LocalCli, UnixSocket, LoopbackTcp}"

datatype privileged_operation =
    ReadStatus | ExplainPolicy | ProbeCapabilities | LoadEbpf | AttachProbe | StartRecording | StopRecording
  | ControlDaemon | ApplyAction | RollbackAction | WriteProtectedState

definition requires_privileged_worker :: "privileged_operation \<Rightarrow> bool" where
  "requires_privileged_worker op \<longleftrightarrow>
     op \<in> {LoadEbpf, AttachProbe, StartRecording, StopRecording, ApplyAction, RollbackAction, WriteProtectedState}"

definition requires_apply_authorization :: "privileged_operation \<Rightarrow> bool" where
  "requires_apply_authorization op \<longleftrightarrow> op \<notin> {ReadStatus, ExplainPolicy, ProbeCapabilities}"

fun minimum_safety_class :: "privileged_operation \<Rightarrow> safety_class" where
  "minimum_safety_class ReadStatus = SC_ObserveOnly"
| "minimum_safety_class ExplainPolicy = SC_ObserveOnly"
| "minimum_safety_class ProbeCapabilities = SC_ObserveOnly"
| "minimum_safety_class _ = SC_ReversibleLowRisk"

record privilege_command_request =
  pq_caller_role :: privilege_process_role
  pq_operation :: privileged_operation
  pq_transport :: privilege_transport
  pq_authenticated :: bool
  pq_apply_authorized :: bool

record privilege_decision =
  pd_allowed :: bool
  pd_reason_code :: string
  pd_message :: string
  pd_privileged_worker_required :: bool
  pd_audit_required :: bool

definition privilege_allow :: "string \<Rightarrow> bool \<Rightarrow> bool \<Rightarrow> privilege_decision" where
  "privilege_allow code worker audit =
     \<lparr>pd_allowed = True, pd_reason_code = code, pd_message = ''operation is allowed by the privilege boundary'',
      pd_privileged_worker_required = worker, pd_audit_required = audit\<rparr>"

definition privilege_deny :: "string \<Rightarrow> string \<Rightarrow> bool \<Rightarrow> bool \<Rightarrow> privilege_decision" where
  "privilege_deny code message worker audit =
     \<lparr>pd_allowed = False, pd_reason_code = code, pd_message = message,
      pd_privileged_worker_required = worker, pd_audit_required = audit\<rparr>"

definition allowlist_check :: "privilege_command_request \<Rightarrow> privilege_decision" where
  "allowlist_check r =
     (let op = pq_operation r;
          worker = requires_privileged_worker op;
          audit = (worker \<or> requires_apply_authorization op)
      in if pq_caller_role r = PrivilegedWorker
         then privilege_allow ''privileged_worker_execution_allowed'' worker audit
         else if worker \<and> pq_caller_role r \<noteq> ControlPlane
         then privilege_deny ''caller_role_cannot_request_privileged_operation''
                ''only the control plane may request privileged worker operations'' worker audit
         else if \<not> transport_is_local (pq_transport r) \<and> requires_apply_authorization op
         then privilege_deny ''non_local_privileged_operation''
                ''privileged daemon operations must use a local control transport'' worker audit
         else if \<not> pq_authenticated r
         then privilege_deny ''missing_authentication'' ''privilege boundary request is not authenticated'' worker audit
         else if requires_apply_authorization op \<and> \<not> pq_apply_authorized r
         then privilege_deny ''missing_apply_authorization''
                ''privileged daemon operation requires apply/control authorization'' worker audit
         else if worker then privilege_allow ''allowlisted_control_plane_worker_request'' worker audit
         else privilege_allow ''allowlisted_unprivileged_operation'' worker audit)"

section \<open>The agent and its tokens\<close>

datatype status_code =
    StatusOk | BadRequest | Unauthorized | Forbidden | Conflict | TooManyRequests | InternalServerError

record agent_auth =
  aa_bearer_token :: "string option"
  aa_read_token :: "string option"
  aa_apply_token :: "string option"

datatype agent_auth_scope = ScopeRead | ScopeApply

text \<open>\<open>IpAddr\<close>: four bytes, or 128 bits; \<open>is_loopback\<close> is \<open>127.0.0.0/8\<close> and \<open>::1\<close>.\<close>

datatype ip_addr = IpV4 "8 word" "8 word" "8 word" "8 word" | IpV6 "128 word"

fun ip_is_loopback :: "ip_addr \<Rightarrow> bool" where
  "ip_is_loopback (IpV4 a _ _ _) = (a = 127)"
| "ip_is_loopback (IpV6 w) = (w = 1)"

text \<open>The part of \<open>AgentState\<close> that is fixed when the agent starts.\<close>

record agent_limits =
  al_max_duration_seconds :: u64
  al_max_targets :: usize
  al_max_concurrent_recordings :: usize

record agent_config =
  ag_auth :: agent_auth
  ag_bind :: ip_addr
  ag_unix_socket :: "string option"
  ag_limits :: agent_limits
  ag_autotune_limits :: agent_autotune_limits

text \<open>An absent header, a header that is not visible ASCII, and its text.\<close>

datatype auth_header = NoHeader | OpaqueHeader | TextHeader string

definition any_token_configured :: "agent_auth \<Rightarrow> bool" where
  "any_token_configured a \<longleftrightarrow> aa_bearer_token a \<noteq> None \<or> aa_read_token a \<noteq> None \<or> aa_apply_token a \<noteq> None"

definition apply_token_configured :: "agent_auth \<Rightarrow> bool" where
  "apply_token_configured a \<longleftrightarrow> aa_bearer_token a \<noteq> None \<or> aa_apply_token a \<noteq> None"

definition char_byte :: "char \<Rightarrow> 8 word" where
  "char_byte c = of_nat (of_char c)"

definition constant_time_eq :: "string \<Rightarrow> string \<Rightarrow> bool" where
  "constant_time_eq a b =
     (if length a \<noteq> length b then False
      else fold (\<lambda>(x, y) diff. diff OR (char_byte x XOR char_byte y)) (zip a b) 0 = 0)"

definition token_matches :: "string \<Rightarrow> string option \<Rightarrow> bool" where
  "token_matches token expected = is_some_and expected (constant_time_eq token)"

definition authorize_with_scope :: "auth_header \<Rightarrow> agent_auth \<Rightarrow> agent_auth_scope \<Rightarrow> status_code + unit" where
  "authorize_with_scope headers auth scope =
     (if \<not> any_token_configured auth then Inr ()
      else case headers of
             NoHeader \<Rightarrow> Inl Unauthorized
           | OpaqueHeader \<Rightarrow> Inl Unauthorized
           | TextHeader v \<Rightarrow>
              (case strip_prefix ''Bearer '' v of
                 None \<Rightarrow> Inl Unauthorized
               | Some token \<Rightarrow>
                  (let legacy_match = token_matches token (aa_bearer_token auth);
                       apply_match = token_matches token (aa_apply_token auth);
                       read_match = token_matches token (aa_read_token auth)
                   in case scope of
                        ScopeRead \<Rightarrow> if legacy_match \<or> apply_match \<or> read_match then Inr () else Inl Forbidden
                      | ScopeApply \<Rightarrow> if legacy_match \<or> apply_match then Inr () else Inl Forbidden)))"

definition authorize :: "auth_header \<Rightarrow> agent_auth \<Rightarrow> status_code + unit" where
  "authorize headers auth = authorize_with_scope headers auth ScopeRead"

definition authorize_apply :: "auth_header \<Rightarrow> agent_auth \<Rightarrow> status_code + unit" where
  "authorize_apply headers auth = authorize_with_scope headers auth ScopeApply"

definition authorize_remote_autotune_start :: "auth_header \<Rightarrow> agent_config \<Rightarrow> status_code + unit" where
  "authorize_remote_autotune_start headers ag =
     (if ag_unix_socket ag = None \<and> \<not> apply_token_configured (ag_auth ag) then Inl Unauthorized
      else authorize_apply headers (ag_auth ag))"

definition agent_privilege_transport :: "agent_config \<Rightarrow> privilege_transport" where
  "agent_privilege_transport ag =
     (if ag_unix_socket ag \<noteq> None then UnixSocket
      else if ip_is_loopback (ag_bind ag) then LoopbackTcp else RemoteTcp)"

definition status_for_privilege_decision :: "string \<Rightarrow> status_code" where
  "status_for_privilege_decision reason_code =
     (if reason_code \<in> {''missing_authentication'', ''missing_apply_authorization''} then Unauthorized else Forbidden)"

definition authorize_agent_privileged_operation ::
  "auth_header \<Rightarrow> agent_config \<Rightarrow> privileged_operation \<Rightarrow> status_code + unit" where
  "authorize_agent_privileged_operation headers ag op =
     (let transport = agent_privilege_transport ag;
          socket_authorized = (transport = UnixSocket \<and> \<not> any_token_configured (ag_auth ag))
      in if \<not> socket_authorized \<and> requires_apply_authorization op \<and> \<not> apply_token_configured (ag_auth ag)
         then Inl Unauthorized
         else let apply_result = (if socket_authorized then Inr () else authorize_apply headers (ag_auth ag))
              in case (requires_apply_authorization op, apply_result) of
                   (True, Inl status) \<Rightarrow> Inl status
                 | _ \<Rightarrow>
                    (let decision = allowlist_check
                           \<lparr>pq_caller_role = ControlPlane, pq_operation = op, pq_transport = transport,
                            pq_authenticated = (socket_authorized \<or> is_ok (authorize headers (ag_auth ag))),
                            pq_apply_authorized = (socket_authorized \<or> is_ok apply_result)\<rparr>
                     in if pd_allowed decision then Inr ()
                        else Inl (status_for_privilege_decision (pd_reason_code decision))))"

definition agent_state_is_local :: "agent_config \<Rightarrow> bool" where
  "agent_state_is_local ag \<longleftrightarrow> ag_unix_socket ag \<noteq> None \<or> ip_is_loopback (ag_bind ag)"

section \<open>Admission of a remote autotune session\<close>

text \<open>The fields of \<open>AutotuneStartRequest\<close> that admission reads.\<close>

record autotune_start_request =
  as_mode :: string
  as_watch_process :: "string option"
  as_tree_pid :: "u32 option"
  as_duration_seconds :: "u64 option"
  as_auto_focus :: bool

record autotune_start_security_rejection =
  rj_status :: status_code
  rj_audit_message :: string
  rj_response_message :: string

fun safety_class_for_daemon_mode :: "daemon_mode \<Rightarrow> safety_class" where
  "safety_class_for_daemon_mode Mode_Observe = SC_ObserveOnly"
| "safety_class_for_daemon_mode Mode_Suggest = SC_ObserveOnly"
| "safety_class_for_daemon_mode Mode_ApplyLowRisk = SC_ReversibleLowRisk"
| "safety_class_for_daemon_mode Mode_ApplyMediumRisk = SC_ReversibleMediumRisk"
| "safety_class_for_daemon_mode Mode_ApplyHighRisk = SC_HighRisk"

definition supported_remote_modes :: "agent_autotune_limits \<Rightarrow> daemon_mode list" where
  "supported_remote_modes l =
     [Mode_Observe, Mode_Suggest]
     @ (if Mode_ApplyLowRisk \<le> li_max_mode l \<and> SC_ReversibleLowRisk \<le> li_max_safety_class l
        then [Mode_ApplyLowRisk] else [])
     @ (if Mode_ApplyMediumRisk \<le> li_max_mode l \<and> SC_ReversibleMediumRisk \<le> li_max_safety_class l
        then [Mode_ApplyMediumRisk] else [])
     @ (if Mode_ApplyHighRisk \<le> li_max_mode l \<and> SC_HighRisk \<le> li_max_safety_class l \<and> li_allow_high_risk l
        then [Mode_ApplyHighRisk] else [])"

definition remote_mode_supported :: "agent_autotune_limits \<Rightarrow> daemon_mode \<Rightarrow> bool" where
  "remote_mode_supported l mode \<longleftrightarrow> mode \<in> set (supported_remote_modes l)"

definition DEFAULT_RUNTIME_WINDOW_SECONDS :: u64 where "DEFAULT_RUNTIME_WINDOW_SECONDS = 30"
definition DEFAULT_WASHOUT_SECONDS :: u64 where "DEFAULT_WASHOUT_SECONDS = 10"

definition daemon_config_for_runtime_mode ::
  "daemon_mode \<Rightarrow> action_source \<Rightarrow> u32 option \<Rightarrow> string option \<Rightarrow> daemon_config" where
  "daemon_config_for_runtime_mode mode source tree_pid watch_process =
     (let c = default_daemon_config\<lparr>dc_mode := mode, dc_source := source\<rparr>
      in c\<lparr>dc_target := (dc_target c)
             \<lparr>dt_tree_pids := dt_tree_pids (dc_target c) @ (case tree_pid of Some p \<Rightarrow> [p] | None \<Rightarrow> []),
              dt_watch_process := watch_process, dt_require_explicit_target := supports_apply mode\<rparr>,
           dc_safety := (dc_safety c)\<lparr>sf_min_confidence := DEFAULT_MIN_FOCUS_CONFIDENCE\<rparr>,
           dc_autotune := (dc_autotune c)
             \<lparr>au_candidate_window_seconds := DEFAULT_RUNTIME_WINDOW_SECONDS,
              au_washout_seconds := DEFAULT_WASHOUT_SECONDS\<rparr>\<rparr>)"

definition daemon_config_for_remote_mode ::
  "daemon_mode \<Rightarrow> agent_config \<Rightarrow> autotune_start_request \<Rightarrow> daemon_config" where
  "daemon_config_for_remote_mode mode ag request =
     (let c = daemon_config_for_runtime_mode mode Src_RemoteAgent (as_tree_pid request) (as_watch_process request);
          l = ag_autotune_limits ag
      in c\<lparr>dc_remote := (dc_remote c)\<lparr>rc_allow_remote_apply := supports_apply mode\<rparr>,
           dc_safety := (dc_safety c)
             \<lparr>sf_allow_high_risk := li_allow_high_risk l \<and> mode = Mode_ApplyHighRisk,
              sf_allow_system_wide_suggestions := li_allow_system_wide_suggestions l,
              sf_allow_system_wide_apply := li_allow_system_wide_apply l\<rparr>\<rparr>)"

definition daemon_policy_for_remote_mode ::
  "daemon_mode \<Rightarrow> agent_config \<Rightarrow> autotune_start_request \<Rightarrow> remote_policy_context \<Rightarrow> daemon_policy" where
  "daemon_policy_for_remote_mode mode ag request remote_context =
     build_daemon_policy (daemon_config_for_remote_mode mode ag request) (Some remote_context)"

definition remote_policy_context_for_request :: "agent_config \<Rightarrow> bool \<Rightarrow> remote_policy_context" where
  "remote_policy_context_for_request ag request_authorized =
     \<lparr>rx_bind_is_loopback = agent_state_is_local ag, rx_auth_configured = any_token_configured (ag_auth ag),
      rx_request_authorized = request_authorized, rx_limits = ag_autotune_limits ag\<rparr>"

definition validate_autotune_start_limits :: "autotune_start_request \<Rightarrow> agent_config \<Rightarrow> anyhow + unit" where
  "validate_autotune_start_limits request ag =
     (let l = ag_autotune_limits ag
      in if li_max_active_controllers l \<noteq> 1
         then Inl (anyhow_msg ''remote autotune supports exactly one active controller'')
         else if li_allow_system_wide_apply l
         then Inl (anyhow_msg ''remote autotune system-wide apply is disabled by default'')
         else if as_watch_process request = None \<and> as_tree_pid request = None \<and> \<not> as_auto_focus request
         then Inl (anyhow_msg ''autotune start requires watch_process, tree_pid, or auto_focus'')
         else case as_duration_seconds request of
                Some d \<Rightarrow>
                  if li_max_candidate_window_seconds l < d
                  then Inl (anyhow_msg (''autotune duration_seconds '' @ show_nat (unat d)
                         @ '' exceeds max_candidate_window_seconds ''
                         @ show_nat (unat (li_max_candidate_window_seconds l))))
                  else Inr ()
              | None \<Rightarrow> Inr ())"

definition remote_autotune_start_descriptor :: "daemon_mode \<Rightarrow> autotune_start_request \<Rightarrow> action_descriptor" where
  "remote_autotune_start_descriptor mode request =
     \<lparr>ad_action_id = ''remote-autotune-start:'' @ mode_as_str mode, ad_action_kind = ''remote-autotune-start'',
      ad_safety_class = safety_class_for_daemon_mode mode,
      ad_effect_scope = (if supports_apply mode then Scope_LocalProcessTree else Scope_ObserveOnly),
      ad_rollback = (if supports_apply mode then RequiredBeforeApply else NotRequiredForDryRun),
      ad_persistent_effect = False, ad_touches_system_wide_state = False,
      ad_requires_explicit_target =
        (supports_apply mode \<and> as_tree_pid request = None \<and> as_watch_process request = None \<and> \<not> as_auto_focus request),
      ad_confidence = Some (Fin 1)\<rparr>"

fun policy_rejection_status :: "policy_rejection \<Rightarrow> status_code option \<Rightarrow> status_code" where
  "policy_rejection_status RemoteApplyRequiresConfiguredAuth e = Unauthorized"
| "policy_rejection_status RemoteApplyRequiresAuthorizedRequest e = (case e of Some s \<Rightarrow> s | None \<Rightarrow> Unauthorized)"
| "policy_rejection_status RemoteApplyRequiresLoopbackBind e = Forbidden"
| "policy_rejection_status HighRiskRequiresExplicitOptIn e = Forbidden"
| "policy_rejection_status _ e = BadRequest"

definition mode_rejection :: "daemon_mode \<Rightarrow> status_code \<Rightarrow> string \<Rightarrow> string \<Rightarrow> autotune_start_security_rejection" where
  "mode_rejection mode status reason response =
     \<lparr>rj_status = status, rj_audit_message = ''rejected remote autotune mode='' @ mode_as_str mode @ '': '' @ reason,
      rj_response_message = response\<rparr>"

definition rejection_from_policy_explanation ::
  "daemon_mode \<Rightarrow> policy_explanation \<Rightarrow> status_code option \<Rightarrow> autotune_start_security_rejection option" where
  "rejection_from_policy_explanation mode explanation auth_error =
     (case pe_decision explanation of
        Allowed \<Rightarrow> None
      | Rejected rejection \<Rightarrow>
          Some (mode_rejection mode (policy_rejection_status rejection auth_error)
            (pe_final_reason explanation) (pe_final_reason explanation)))"

fun intent_for_mode :: "daemon_mode \<Rightarrow> policy_intent" where
  "intent_for_mode Mode_Observe = Intent_Observe"
| "intent_for_mode Mode_Suggest = Intent_Suggest"
| "intent_for_mode _ = Intent_Apply"

text \<open>The authentication steps of admission: the error to answer with, if any.\<close>

definition remote_start_auth_rejection ::
  "daemon_mode \<Rightarrow> status_code + unit \<Rightarrow> agent_config \<Rightarrow> autotune_start_security_rejection option" where
  "remote_start_auth_rejection mode auth_result ag =
     (if supports_apply mode then
        (if \<not> apply_token_configured (ag_auth ag)
         then Some (mode_rejection mode Unauthorized
                ''remote autotune apply mode requires a configured bearer token''
                ''remote autotune apply mode requires a configured bearer token'')
         else case auth_result of
                Inl status \<Rightarrow> Some (mode_rejection mode status
                  ''remote autotune apply mode requires a valid bearer token''
                  ''remote autotune apply mode requires a valid bearer token'')
              | Inr _ \<Rightarrow>
                  if \<not> remote_mode_supported (ag_autotune_limits ag) mode
                  then Some (mode_rejection mode BadRequest (rejection_to_string (RemoteModeNotAllowed mode))
                         (rejection_to_string (RemoteModeNotAllowed mode)))
                  else None)
      else case auth_result of
             Inl status \<Rightarrow> Some (mode_rejection mode status ''unauthorized'' ''unauthorized'')
           | Inr _ \<Rightarrow> None)"

definition policy_for_remote_autotune_start ::
  "auth_header \<Rightarrow> agent_config \<Rightarrow> autotune_start_request \<Rightarrow> daemon_state \<Rightarrow> system_health_snapshot
    \<Rightarrow> daemon_capabilities \<Rightarrow> nat \<Rightarrow> autotune_start_security_rejection + daemon_policy" where
  "policy_for_remote_autotune_start headers ag request daemon_state health capabilities now =
     (let raw_mode = trim (as_mode request)
      in case mode_from_str raw_mode of
           Inl err \<Rightarrow>
             Inl \<lparr>rj_status = BadRequest,
                  rj_audit_message = ''rejected remote autotune mode='' @ raw_mode @ '': '' @ rejection_to_string err,
                  rj_response_message =
                    ''unsupported remote autotune mode; use observe, suggest, or apply-low-risk''\<rparr>
         | Inr mode \<Rightarrow>
            (let auth_result = authorize_remote_autotune_start headers ag;
                 auth_error = (case auth_result of Inl s \<Rightarrow> Some s | Inr _ \<Rightarrow> None)
             in case remote_start_auth_rejection mode auth_result ag of
                  Some rejection \<Rightarrow> Inl rejection
                | None \<Rightarrow>
                   (let policy = daemon_policy_for_remote_mode mode ag request
                          (remote_policy_context_for_request ag (auth_error = None));
                        descriptor = remote_autotune_start_descriptor mode request;
                        intent = intent_for_mode mode
                    in case rejection_from_policy_explanation mode (explain_action policy intent descriptor) auth_error of
                         Some rejection \<Rightarrow> Inl rejection
                       | None \<Rightarrow>
                          (case rejection_from_policy_explanation mode
                                  (explain_action_with_context policy intent descriptor
                                     (policy_context_from_daemon_status daemon_state health capabilities now))
                                  auth_error of
                             Some rejection \<Rightarrow> Inl rejection
                           | None \<Rightarrow> Inr policy))))"

end
