(* ===== verification/Recovery_Model.thy ===== *)
theory Recovery_Model
  imports Daemon_State
begin

text \<open>
  What survives a crash: the controller journal (\<open>stutter/src/autotune/controller_journal/model.rs\<close>), the ledger of
  kept actions (\<open>autotune/kept_ledger.rs\<close>), the rollback registry (\<open>actions/rollback/\<close>) and the manual restore
  commands (\<open>autotune/emergency_restore/manual_command.rs\<close>). A file is absent, unreadable or holds a value; the JSON
  encoding is not modelled. A write replaces its file by a synced temporary file: it happens, is lost, or
  happens although the final directory sync reports an error; which of these the \<open>n\<close>-th write does is the
  parameter \<open>fault\<close>.
\<close>

section \<open>The controller journal\<close>

datatype controller_journal_state =
    CJ_Clean | CJ_Planned | CJ_Preflighted | CJ_Applying | CJ_Applied | CJ_Verifying | CJ_Measuring | CJ_Keeping
  | CJ_Reverting | CJ_Reverted | CJ_Faulted

fun journal_state_as_str :: "controller_journal_state \<Rightarrow> string" where
  "journal_state_as_str CJ_Clean = ''clean''"
| "journal_state_as_str CJ_Planned = ''planned''"
| "journal_state_as_str CJ_Preflighted = ''preflighted''"
| "journal_state_as_str CJ_Applying = ''applying''"
| "journal_state_as_str CJ_Applied = ''applied''"
| "journal_state_as_str CJ_Verifying = ''verifying''"
| "journal_state_as_str CJ_Measuring = ''measuring''"
| "journal_state_as_str CJ_Keeping = ''keeping''"
| "journal_state_as_str CJ_Reverting = ''reverting''"
| "journal_state_as_str CJ_Reverted = ''reverted''"
| "journal_state_as_str CJ_Faulted = ''faulted''"

record controller_journal_record =
  jr_schema_version :: u32
  jr_state :: controller_journal_state
  jr_experiment_id :: "string option"
  jr_action_id :: "string option"
  jr_candidate :: "string option"
  jr_workload_identity :: "string option"
  jr_target_identity :: "string option"
  jr_restore_command :: "string option"
  jr_verify_result :: "string option"
  jr_mode :: "daemon_mode option"
  jr_safety_class :: "safety_class option"
  jr_rollback_token :: "rollback_token option"
  jr_phase_started_unix_nanos :: "nat option"
  jr_updated_unix_nanos :: "nat option"
  jr_fault_reason :: "string option"

definition CONTROLLER_JOURNAL_SCHEMA_VERSION :: u32 where "CONTROLLER_JOURNAL_SCHEMA_VERSION = 1"

definition journal_clean :: controller_journal_record where
  "journal_clean =
     \<lparr>jr_schema_version = CONTROLLER_JOURNAL_SCHEMA_VERSION, jr_state = CJ_Clean, jr_experiment_id = None,
      jr_action_id = None, jr_candidate = None, jr_workload_identity = None, jr_target_identity = None,
      jr_restore_command = None, jr_verify_result = None, jr_mode = None, jr_safety_class = None,
      jr_rollback_token = None, jr_phase_started_unix_nanos = None, jr_updated_unix_nanos = None,
      jr_fault_reason = None\<rparr>"

definition for_phase ::
  "nat \<Rightarrow> nat \<Rightarrow> controller_journal_state \<Rightarrow> string \<Rightarrow> string \<Rightarrow> rollback_token option \<Rightarrow> controller_journal_record" where
  "for_phase started updated state experiment_id action_id token =
     journal_clean
       \<lparr>jr_state := state, jr_experiment_id := Some experiment_id, jr_action_id := Some action_id,
        jr_rollback_token := token, jr_phase_started_unix_nanos := Some started,
        jr_updated_unix_nanos := Some updated\<rparr>"

record controller_journal_action_metadata =
  jm_candidate :: "string option"
  jm_workload_identity :: "string option"
  jm_target_identity :: "string option"
  jm_restore_command :: "string option"
  jm_verify_result :: "string option"
  jm_mode :: "daemon_mode option"
  jm_safety_class :: "safety_class option"

definition with_metadata ::
  "controller_journal_action_metadata \<Rightarrow> controller_journal_record \<Rightarrow> controller_journal_record" where
  "with_metadata m r =
     r\<lparr>jr_candidate := or_else (jm_candidate m) (jr_candidate r),
       jr_workload_identity := or_else (jm_workload_identity m) (jr_workload_identity r),
       jr_target_identity := or_else (jm_target_identity m) (jr_target_identity r),
       jr_restore_command := or_else (jm_restore_command m) (jr_restore_command r),
       jr_verify_result := or_else (jm_verify_result m) (jr_verify_result r),
       jr_mode := or_else (jm_mode m) (jr_mode r),
       jr_safety_class := or_else (jm_safety_class m) (jr_safety_class r)\<rparr>"

definition journal_validate_identity_strings :: "controller_journal_record \<Rightarrow> string + unit" where
  "journal_validate_identity_strings r =
     res_bind (case jr_experiment_id r of Some e \<Rightarrow> validate_non_empty ''ExperimentId'' e | None \<Rightarrow> Inr ())
       (\<lambda>_. case jr_action_id r of Some a \<Rightarrow> validate_non_empty ''ActionId'' a | None \<Rightarrow> Inr ())"

definition may_have_mutated_system :: "controller_journal_record \<Rightarrow> bool" where
  "may_have_mutated_system r \<longleftrightarrow>
     jr_state r \<in> {CJ_Applying, CJ_Applied, CJ_Verifying, CJ_Measuring, CJ_Keeping, CJ_Reverting, CJ_Faulted}"

definition journal_experiment_action :: "controller_journal_record \<Rightarrow> string \<times> string" where
  "journal_experiment_action r =
     (let state = journal_state_as_str (jr_state r)
      in (case jr_experiment_id r of Some e \<Rightarrow> e | None \<Rightarrow> state @ ''-unknown-experiment'',
          case jr_action_id r of Some a \<Rightarrow> a | None \<Rightarrow> state @ ''-unknown-action''))"

section \<open>The ledger of kept actions\<close>

record kept_ledger_entry =
  ke_experiment_id :: string
  ke_action_id :: string
  ke_candidate :: string
  ke_rollback_token :: rollback_token
  ke_mode :: "daemon_mode option"
  ke_safety_class :: "safety_class option"
  ke_kept_unix_nanos :: nat

record kept_ledger =
  kl_schema_version :: u32
  kl_entries :: "kept_ledger_entry list"

definition KEPT_LEDGER_SCHEMA_VERSION :: u32 where "KEPT_LEDGER_SCHEMA_VERSION = 1"

definition default_kept_ledger :: kept_ledger where
  "default_kept_ledger = \<lparr>kl_schema_version = KEPT_LEDGER_SCHEMA_VERSION, kl_entries = []\<rparr>"

section \<open>Files and computations on them\<close>

datatype 'a stored = Absent | Unreadable anyhow | Stored 'a

datatype write_result = WriteDone | WriteLost anyhow | WriteUnsynced anyhow

record recovery_audit_event =
  ra_command :: string
  ra_action_id :: string
  ra_safety_class :: safety_class
  ra_success :: bool
  ra_affected_tasks :: usize
  ra_restore_path :: "string option"
  ra_message :: string

datatype controller_phase =
    CPh_Disabled | CPh_Observing | CPh_Planning | CPh_Applying | CPh_Measuring | CPh_Keeping | CPh_Reverting
  | CPh_Cooldown | CPh_Faulted

record recovery_history_event =
  rh_controller_id :: string
  rh_phase :: controller_phase
  rh_decision :: string
  rh_candidate_name :: "string option"
  rh_action_kind :: string
  rh_safety_class :: safety_class
  rh_rollback_policy :: string
  rh_experiment_id :: string
  rh_action_id :: string
  rh_rollback_performed :: bool
  rh_reason :: string

record recovery_disk =
  dk_journal :: "controller_journal_record stored"
  dk_ledger :: "kept_ledger stored"
  dk_audit :: "recovery_audit_event list"
  dk_history :: "recovery_history_event list"
  dk_snapshot :: "daemon_state option"
  dk_writes :: nat

type_synonym ('a, 'w) recovery = "recovery_disk \<times> 'w \<Rightarrow> (anyhow + 'a) \<times> recovery_disk \<times> 'w"

definition rec_return :: "'a \<Rightarrow> ('a, 'w) recovery" where
  "rec_return x = (\<lambda>s. (Inr x, s))"

definition rec_fail :: "anyhow \<Rightarrow> ('a, 'w) recovery" where
  "rec_fail e = (\<lambda>s. (Inl e, s))"

definition rec_bind :: "('a, 'w) recovery \<Rightarrow> ('a \<Rightarrow> ('b, 'w) recovery) \<Rightarrow> ('b, 'w) recovery" where
  "rec_bind m f = (\<lambda>s. case m s of (Inl e, s') \<Rightarrow> (Inl e, s') | (Inr x, s') \<Rightarrow> f x s')"

definition rec_context :: "string \<Rightarrow> ('a, 'w) recovery \<Rightarrow> ('a, 'w) recovery" where
  "rec_context c m = (\<lambda>s. case m s of (Inl e, s') \<Rightarrow> (Inl (any_context c e), s') | r \<Rightarrow> r)"

text \<open>One replacement of a file: \<open>upd\<close> is its effect on the disk.\<close>

definition durable_write :: "(nat \<Rightarrow> write_result) \<Rightarrow> (recovery_disk \<Rightarrow> recovery_disk) \<Rightarrow> (unit, 'w) recovery" where
  "durable_write fault upd = (\<lambda>(d, w).
     let d' = d\<lparr>dk_writes := Suc (dk_writes d)\<rparr>
     in case fault (dk_writes d) of
          WriteDone \<Rightarrow> (Inr (), upd d', w)
        | WriteLost e \<Rightarrow> (Inl e, d', w)
        | WriteUnsynced e \<Rightarrow> (Inl e, upd d', w))"

definition journal_of_file :: "string \<Rightarrow> controller_journal_record stored \<Rightarrow> anyhow + controller_journal_record" where
  "journal_of_file path f =
     (case f of
        Absent \<Rightarrow> Inr journal_clean
      | Unreadable e \<Rightarrow> Inl e
      | Stored r \<Rightarrow>
         (case journal_validate_identity_strings r of
            Inl m \<Rightarrow> Inl (any_context (''invalid autotune controller journal '' @ path @ '' strings'') (anyhow_msg m))
          | Inr _ \<Rightarrow>
              if jr_schema_version r \<noteq> CONTROLLER_JOURNAL_SCHEMA_VERSION
              then Inl (anyhow_msg (''unsupported autotune controller journal schema_version=''
                     @ show_nat (unat (jr_schema_version r)) @ '' in '' @ path))
              else Inr r))"

definition read_controller_journal :: "string \<Rightarrow> (controller_journal_record, 'w) recovery" where
  "read_controller_journal path = (\<lambda>(d, w). (journal_of_file path (dk_journal d), d, w))"

definition write_controller_journal_record ::
  "(nat \<Rightarrow> write_result) \<Rightarrow> controller_journal_record \<Rightarrow> (unit, 'w) recovery" where
  "write_controller_journal_record fault r = durable_write fault (\<lambda>d. d\<lparr>dk_journal := Stored r\<rparr>)"

definition write_controller_journal_clean :: "(nat \<Rightarrow> write_result) \<Rightarrow> (unit, 'w) recovery" where
  "write_controller_journal_clean fault = write_controller_journal_record fault journal_clean"

definition ledger_of_file :: "kept_ledger stored \<Rightarrow> anyhow + kept_ledger" where
  "ledger_of_file f =
     (case f of
        Absent \<Rightarrow> Inr default_kept_ledger
      | Unreadable e \<Rightarrow> Inl e
      | Stored l \<Rightarrow>
          if kl_schema_version l = KEPT_LEDGER_SCHEMA_VERSION then Inr l
          else Inl (anyhow_msg (''unsupported kept-action ledger schema '' @ show_nat (unat (kl_schema_version l)))))"

definition read_kept_ledger :: "(kept_ledger, 'w) recovery" where
  "read_kept_ledger = (\<lambda>(d, w). (ledger_of_file (dk_ledger d), d, w))"

definition write_kept_ledger :: "(nat \<Rightarrow> write_result) \<Rightarrow> kept_ledger \<Rightarrow> (unit, 'w) recovery" where
  "write_kept_ledger fault l = durable_write fault (\<lambda>d. d\<lparr>dk_ledger := Stored l\<rparr>)"

definition other_entries :: "string \<Rightarrow> kept_ledger \<Rightarrow> kept_ledger" where
  "other_entries experiment_id l =
     l\<lparr>kl_entries := filter (\<lambda>e. ke_experiment_id e \<noteq> experiment_id) (kl_entries l)\<rparr>"

definition record_kept :: "(nat \<Rightarrow> write_result) \<Rightarrow> kept_ledger_entry \<Rightarrow> (unit, 'w) recovery" where
  "record_kept fault entry =
     rec_bind read_kept_ledger (\<lambda>l.
       let l = other_entries (ke_experiment_id entry) l
       in write_kept_ledger fault (l\<lparr>kl_entries := kl_entries l @ [entry]\<rparr>))"

definition retire_kept :: "(nat \<Rightarrow> write_result) \<Rightarrow> string \<Rightarrow> (unit, 'w) recovery" where
  "retire_kept fault experiment_id =
     rec_bind read_kept_ledger (\<lambda>l.
       let l' = other_entries experiment_id l
       in if length (kl_entries l') = length (kl_entries l) then rec_return ()
          else if kl_entries l' = [] then durable_write fault (\<lambda>d. d\<lparr>dk_ledger := Absent\<rparr>)
          else write_kept_ledger fault l')"

section \<open>Automatic recovery\<close>

datatype automatic_recovery_capability = VerifiedAutomatic | ManualOnly | NotRecoverable

fun debug_capability :: "automatic_recovery_capability \<Rightarrow> string" where
  "debug_capability VerifiedAutomatic = ''VerifiedAutomatic''"
| "debug_capability ManualOnly = ''ManualOnly''"
| "debug_capability NotRecoverable = ''NotRecoverable''"

definition task_identity_contract :: string where
  "task_identity_contract =
     ''complete process/task IDs and task start times from the prepared snapshot; each task re-verified immediately before its write; exited or replaced tasks skipped; legacy records without a start time are never restored automatically''"

fun recovery_descriptor :: "rollback_token \<Rightarrow> automatic_recovery_capability \<times> string" where
  "recovery_descriptor (CpuAffinityRestoreFile _ _) = (VerifiedAutomatic,
     ''supported restore layout; complete nonzero process/task IDs and start times; entire batch validated before mutation; stale identities skipped'')"
| "recovery_descriptor (NiceRestore _) = (VerifiedAutomatic, task_identity_contract)"
| "recovery_descriptor (IoPrioRestore _) = (ManualOnly,
     ''legacy task identity accepted by manual I/O-priority restoration'')"
| "recovery_descriptor (UclampRestore _) = (VerifiedAutomatic, task_identity_contract)"
| "recovery_descriptor (CgroupRestore _ _) = (VerifiedAutomatic,
     ''complete process/task IDs and task start times plus the inode of every original cgroup, from the prepared snapshot; each task re-verified immediately before its write; exited or replaced tasks and recreated cgroups skipped; legacy records are never restored automatically'')"
| "recovery_descriptor (IrqAffinityRestore _) = (ManualOnly,
     ''automatic IRQ resource identity and crash recovery unqualified'')"
| "recovery_descriptor (CpuPowerRestore _) = (VerifiedAutomatic,
     ''the cpufreq policy, its related CPU set, driver, controlled attribute, legal values and boot are rediscovered and compared before any write; a record without that identity, from another boot, or whose original value is no longer legal is never replayed'')"
| "recovery_descriptor (GpuPowerRestore _) = (ManualOnly,
     ''automatic GPU-power resource identity and crash recovery unqualified'')"
| "recovery_descriptor (VmKnobRestore _) = (ManualOnly,
     ''automatic VM-knob resource identity and crash recovery unqualified'')"
| "recovery_descriptor (SysfsRestore _ _) = (NotRecoverable,
     ''arbitrary path token has no automatic resource identity contract'')"

definition require_automatic_recovery :: "rollback_token \<Rightarrow> anyhow + unit" where
  "require_automatic_recovery token =
     (case recovery_descriptor token of (capability, contract) \<Rightarrow>
        if capability = VerifiedAutomatic then Inr ()
        else Inl (anyhow_msg (''startup_recovery_not_authorized: token_kind='' @ token_kind token
               @ '' capability='' @ debug_capability capability @ ''; '' @ contract
               @ ''; explicit manual restoration required'')))"

section \<open>The rollback registry\<close>

record rollback_preview =
  rp_handler_id :: string
  rp_restore_path :: string
  rp_affected_tasks :: usize
  rp_message :: string

record rollback_result =
  rr_handler_id :: string
  rr_restore_path :: string
  rr_restored :: usize
  rr_skipped_dead :: usize
  rr_skipped_identity_mismatch :: usize
  rr_legacy_unverified :: usize
  rr_errors :: usize
  rr_messages :: "string list"

text \<open>A rollback handler is its name, the tokens it supports and its token operations on a world.\<close>

record 'w rollback_handler =
  hd_id :: string
  hd_supports_token :: "rollback_token \<Rightarrow> bool"
  hd_dry_run_token :: "rollback_token \<Rightarrow> 'w \<Rightarrow> (anyhow + rollback_preview) \<times> 'w"
  hd_restore_token :: "rollback_token \<Rightarrow> 'w \<Rightarrow> (anyhow + rollback_result) \<times> 'w"

definition no_handler_for_token :: "rollback_token \<Rightarrow> anyhow" where
  "no_handler_for_token token =
     anyhow_msg (''rollback_handler_for_token_missing: no rollback handler registered for '' @ token_kind token)"

definition handler_for_token :: "'w rollback_handler list \<Rightarrow> rollback_token \<Rightarrow> anyhow + 'w rollback_handler" where
  "handler_for_token handlers token =
     (case find (\<lambda>h. hd_supports_token h token) handlers of
        Some h \<Rightarrow> Inr h
      | None \<Rightarrow> Inl (no_handler_for_token token))"

definition preview_token ::
  "'w rollback_handler list \<Rightarrow> rollback_token \<Rightarrow> 'w \<Rightarrow> (anyhow + rollback_preview) \<times> 'w" where
  "preview_token handlers token w =
     (case handler_for_token handlers token of Inl e \<Rightarrow> (Inl e, w) | Inr h \<Rightarrow> hd_dry_run_token h token w)"

definition restore_token ::
  "'w rollback_handler list \<Rightarrow> rollback_token \<Rightarrow> 'w \<Rightarrow> (anyhow + rollback_result) \<times> 'w" where
  "restore_token handlers token w =
     (case handler_for_token handlers token of Inl e \<Rightarrow> (Inl e, w) | Inr h \<Rightarrow> hd_restore_token h token w)"

text \<open>
  The two registries: the names of their handlers in order and the token kinds each supports
  (\<open>supports_token\<close> of the handlers in \<open>actions/\<close>); what a handler does to a token is the parameter \<open>impl\<close>.
\<close>

fun handler_supports :: "string \<Rightarrow> rollback_token \<Rightarrow> bool" where
  "handler_supports name (CpuAffinityRestoreFile _ _) = (name = ''cpu-affinity-rollback'')"
| "handler_supports name (NiceRestore _) = (name = ''nice-rollback'')"
| "handler_supports name (IoPrioRestore _) = (name = ''ioprio-rollback'')"
| "handler_supports name (UclampRestore _) = (name = ''uclamp-rollback'')"
| "handler_supports name (CgroupRestore _ _) = (name = ''cgroup-rollback'')"
| "handler_supports name (IrqAffinityRestore _) = (name = ''irq-affinity-rollback'')"
| "handler_supports name (CpuPowerRestore _) = (name = ''cpu-power-rollback'')"
| "handler_supports name (GpuPowerRestore _) = (name = ''gpu-power-rollback'')"
| "handler_supports name (VmKnobRestore _) = (name = ''vm-knob-rollback'')"
| "handler_supports name (SysfsRestore _ _) = (name = ''vm-knob-rollback'')"

definition registered ::
  "(string \<Rightarrow> rollback_token \<Rightarrow> 'w \<Rightarrow> (anyhow + rollback_preview) \<times> 'w)
    \<Rightarrow> (string \<Rightarrow> rollback_token \<Rightarrow> 'w \<Rightarrow> (anyhow + rollback_result) \<times> 'w) \<Rightarrow> string \<Rightarrow> 'w rollback_handler" where
  "registered preview impl name =
     \<lparr>hd_id = name, hd_supports_token = handler_supports name, hd_dry_run_token = preview name,
      hd_restore_token = impl name\<rparr>"

definition startup_handler_names :: "string list" where
  "startup_handler_names =
     [''cpu-affinity-rollback'', ''uclamp-rollback'', ''nice-rollback'', ''cgroup-rollback'', ''cpu-power-rollback'']"

definition default_handler_names :: "string list" where
  "default_handler_names =
     [''cpu-affinity-rollback'', ''nice-rollback'', ''ioprio-rollback'', ''uclamp-rollback'', ''cgroup-rollback'',
      ''irq-affinity-rollback'', ''cpu-power-rollback'', ''gpu-power-rollback'', ''vm-knob-rollback'']"

section \<open>Manual restore commands\<close>

definition is_ascii_alphanumeric :: "char \<Rightarrow> bool" where
  "is_ascii_alphanumeric c \<longleftrightarrow>
     (let n = of_char c :: nat in (48 \<le> n \<and> n \<le> 57) \<or> (65 \<le> n \<and> n \<le> 90) \<or> (97 \<le> n \<and> n \<le> 122))"

definition shell_plain_char :: "char \<Rightarrow> bool" where
  "shell_plain_char c \<longleftrightarrow>
     is_ascii_alphanumeric c \<or> c \<in> {CHR ''/'', CHR ''_'', CHR ''-'', CHR ''.'', CHR '':'', CHR ''+'', CHR '','', CHR ''=''}"

text \<open>\<open>CHR 0x27\<close> is the single quote, \<open>CHR 0x5C\<close> the backslash.\<close>

definition escape_quote :: "char \<Rightarrow> string" where
  "escape_quote c = (if c = CHR 0x27 then [CHR 0x27, CHR 0x5C, CHR 0x27, CHR 0x27] else [c])"

definition shell_quote_value :: "string \<Rightarrow> string" where
  "shell_quote_value v =
     (if v = [] then [CHR 0x27, CHR 0x27]
      else if list_all shell_plain_char v then v
      else [CHR 0x27] @ concat (map escape_quote v) @ [CHR 0x27])"

definition tee_command :: "string \<Rightarrow> string \<Rightarrow> string" where
  "tee_command v path =
     ''printf '' @ [CHR 0x27] @ ''%s'' @ [CHR 0x27] @ '' '' @ v @ '' | sudo tee '' @ path @ '' >/dev/null''"

definition sysfs_manual_commands :: "(string \<times> string) list \<Rightarrow> string" where
  "sysfs_manual_commands records =
     join '' && '' (map (\<lambda>(path, v). tee_command (shell_quote_value v) (shell_quote_value path)) records)"

definition cgroup_record_tid :: "cgroup_restore_record \<Rightarrow> u32" where
  "cgroup_record_tid r = (case gr_identity r of None \<Rightarrow> gr_tid r | Some i \<Rightarrow> ti_tid i)"

definition cpuset_commands :: "cgroup_cpuset_restore_record \<Rightarrow> string list" where
  "cpuset_commands c =
     (case cs_original_cpuset_cpus c of None \<Rightarrow> []
      | Some v \<Rightarrow> [tee_command (shell_quote_value v) (shell_quote_value (cs_cgroup_path c) @ ''/cpuset.cpus'')])
     @ (case cs_original_cpuset_mems c of None \<Rightarrow> []
        | Some v \<Rightarrow> [tee_command (shell_quote_value v) (shell_quote_value (cs_cgroup_path c) @ ''/cpuset.mems'')])"

text \<open>\<open>home_path\<close> is \<open>affinity::default_restore_path\<close>; 251 is \<open>SYS_ioprio_set\<close> on x86-64.\<close>

fun manual_restore_command_for_token :: "string \<Rightarrow> rollback_token \<Rightarrow> string" where
  "manual_restore_command_for_token home_path (CpuAffinityRestoreFile path _) =
     (if path = home_path then ''stutter restore''
      else ''cp -- '' @ shell_quote_value path @ '' '' @ shell_quote_value home_path @ '' && stutter restore'')"
| "manual_restore_command_for_token home_path (NiceRestore records) =
     join '' && '' (map (\<lambda>r. ''sudo renice -n '' @ show_int (nr_original_nice r) @ '' -p ''
       @ show_nat (unat (nice_record_tid r))) records)"
| "manual_restore_command_for_token home_path (IoPrioRestore records) =
     join '' && '' (map (\<lambda>r. ''sudo python3 -c '' @ [CHR 0x27] @ ''import os; os.syscall(251,1,''
       @ show_nat (unat (ioprio_record_tid r)) @ '','' @ show_int (or_original_ioprio r) @ '')'' @ [CHR 0x27]) records)"
| "manual_restore_command_for_token home_path (UclampRestore _) =
     ''rerun stutter autotune restore; manual uclamp restore requires sched_setattr''"
| "manual_restore_command_for_token home_path (IrqAffinityRestore records) =
     join '' && '' (map (\<lambda>r. tee_command (shell_quote_value (ir_original_smp_affinity r))
       (''/proc/irq/'' @ show_nat (unat (ir_irq r)) @ ''/smp_affinity'')) records)"
| "manual_restore_command_for_token home_path (CgroupRestore records cpuset) =
     join '' && '' (map (\<lambda>r. tee_command (show_nat (unat (cgroup_record_tid r)))
       (shell_quote_value (gr_original_cgroup r) @ ''/cgroup.procs'')) records
       @ (case cpuset of None \<Rightarrow> [] | Some c \<Rightarrow> cpuset_commands c))"
| "manual_restore_command_for_token home_path (CpuPowerRestore records) =
     sysfs_manual_commands (map (\<lambda>r. (cr_path r, cr_original_value r)) records)"
| "manual_restore_command_for_token home_path (VmKnobRestore records) =
     sysfs_manual_commands (map (\<lambda>r. (vr_path r, vr_original_value r)) records)"
| "manual_restore_command_for_token home_path (GpuPowerRestore records) =
     sysfs_manual_commands (map (\<lambda>r. (vr_path r, vr_original_value r)) records)"
| "manual_restore_command_for_token home_path (SysfsRestore path v) =
     tee_command (shell_quote_value v) (shell_quote_value path)"

section \<open>The outcome of an emergency restore\<close>

datatype autotune_restore_status =
    RS_Clean | RS_ApplyingWithoutRollbackToken | RS_DryRun | RS_Restored | RS_Faulted

fun debug_restore_status :: "autotune_restore_status \<Rightarrow> string" where
  "debug_restore_status RS_Clean = ''Clean''"
| "debug_restore_status RS_ApplyingWithoutRollbackToken = ''ApplyingWithoutRollbackToken''"
| "debug_restore_status RS_DryRun = ''DryRun''"
| "debug_restore_status RS_Restored = ''Restored''"
| "debug_restore_status RS_Faulted = ''Faulted''"

record autotune_restore_outcome =
  ro_status :: autotune_restore_status
  ro_restored_actions :: usize
  ro_failed_actions :: usize
  ro_skipped_actions :: usize
  ro_restored_records :: usize
  ro_skipped_missing :: usize
  ro_skipped_identity_mismatch :: usize
  ro_failed_records :: usize
  ro_messages :: "string list"


end
