(* ===== verification/Agent_Handlers.thy ===== *)
theory Agent_Handlers
  imports Agent_Access Recovery_Model Daemon_Policy_Facts
begin

text \<open>
  The autotune and daemon requests of the agent that change its state (\<open>stutter/src/agent/autotune/start.rs\<close>,
  \<open>stop.rs\<close>, \<open>reap.rs\<close>, \<open>restore.rs\<close>, \<open>state.rs\<close> and the pause, resume and restore handlers of
  \<open>agent/daemon.rs\<close>). A request runs to its end before the next one starts: the handlers take the locks of the
  agent state one at a time. What the spawned controller task returns, what the emergency restore of
  the journal did, and whether the monitor configuration and the profiles of a request can be loaded, are
  arguments; \<open>clock i\<close> is the \<open>i\<close>-th reading of the wall clock in a request. An audit event keeps the fields the
  agent sets; the others are constants of \<open>audit.rs\<close>. The audit log is a file that may refuse a line:
  \<open>aw_append n\<close> is the error of the \<open>n\<close>-th append, if it fails. \<open>audit_or_warn\<close> then only logs a warning
  and its caller goes on; such events are kept apart in \<open>aw_unaudited\<close>, with the warning.
\<close>

section \<open>State\<close>

record autotune_controller_handle =
  ah_mode :: string
  ah_watch_process :: "string option"
  ah_tree_pid :: "u32 option"
  ah_started_unix_nanos :: nat

record run_handle =
  rh_id :: string

record agent_audit_event =
  ev_action_id :: string
  ev_safety_class :: safety_class
  ev_success :: bool
  ev_affected_tasks :: usize
  ev_message :: string

record agent_world =
  aw_daemon_state :: daemon_state
  aw_active_autotune :: "autotune_controller_handle option"
  aw_active_run :: "run_handle option"
  aw_append :: "nat \<Rightarrow> anyhow option"
  aw_audit :: "agent_audit_event list"
  aw_unaudited :: "(agent_audit_event \<times> string) list"

record decision_stream_entry =
  dse_decision :: string
  dse_reason :: string
  dse_unix_nanos :: nat
  dse_diagnostic_raw_score_total :: u64
  dse_candidate_count :: usize
  dse_top_denied_reason :: "string option"
  dse_situation :: string
  dse_focus_kind :: "string option"

record autotune_controller_exit =
  ce_reason :: string
  ce_last_decision :: "decision_stream_entry option"

text \<open>The result of joining the controller task: its own result, or the error of the join.\<close>

datatype controller_result =
    Ctl_Exit autotune_controller_exit
  | Ctl_Failed anyhow
  | Ctl_JoinError string

type_synonym agent_response = "status_code \<times> string"

definition append_audit_event :: "agent_audit_event \<Rightarrow> agent_world \<Rightarrow> (anyhow + unit) \<times> agent_world" where
  "append_audit_event event w =
     (case aw_append w (length (aw_audit w) + length (aw_unaudited w)) of
        None \<Rightarrow> (Inr (), w\<lparr>aw_audit := aw_audit w @ [event]\<rparr>)
      | Some err \<Rightarrow> (Inl err, w))"

definition audit_or_warn :: "agent_audit_event \<Rightarrow> agent_world \<Rightarrow> agent_world" where
  "audit_or_warn event w =
     (case append_audit_event event w of
        (Inr _, w) \<Rightarrow> w
      | (Inl err, w) \<Rightarrow>
          w\<lparr>aw_unaudited := aw_unaudited w @ [(event, ''audit_write_failed err='' @ any_display_alt err)]\<rparr>)"

definition audit_agent_event_with_safety ::
  "string \<Rightarrow> safety_class \<Rightarrow> bool \<Rightarrow> usize \<Rightarrow> string \<Rightarrow> agent_world \<Rightarrow> agent_world" where
  "audit_agent_event_with_safety action_id safety ok affected message w =
     audit_or_warn \<lparr>ev_action_id = action_id, ev_safety_class = safety, ev_success = ok,
        ev_affected_tasks = affected, ev_message = message\<rparr> w"

definition audit_agent_event :: "string \<Rightarrow> bool \<Rightarrow> usize \<Rightarrow> string \<Rightarrow> agent_world \<Rightarrow> agent_world" where
  "audit_agent_event action_id ok affected message w =
     audit_agent_event_with_safety action_id SC_ObserveOnly ok affected message w"

section \<open>State transitions\<close>

definition daemon_state_for_agent_decision ::
  "nat \<Rightarrow> daemon_mode \<Rightarrow> daemon_phase \<Rightarrow> string \<Rightarrow> string \<Rightarrow> daemon_state" where
  "daemon_state_for_agent_decision now mode phase decision reason =
     default_daemon_state
       \<lparr>st_mode := mode, st_phase := phase, st_last_decision := Some (new_decision now decision reason)\<rparr>"

definition daemon_mode_from_agent_mode :: "string \<Rightarrow> daemon_mode" where
  "daemon_mode_from_agent_mode v =
     (if v = ''suggest'' then Mode_Suggest
      else if v = ''apply-low-risk'' then Mode_ApplyLowRisk
      else if v = ''apply-medium-risk'' then Mode_ApplyMediumRisk
      else if v = ''apply-high-risk'' then Mode_ApplyHighRisk
      else Mode_Observe)"

definition daemon_target_from_autotune_request :: "autotune_start_request \<Rightarrow> daemon_target_state option" where
  "daemon_target_from_autotune_request request =
     (let active_targets = (if as_tree_pid request \<noteq> None then 1 else 0)
            + (if as_watch_process request \<noteq> None then 1 else 0) + (if as_auto_focus request then 1 else 0);
          comm = as_watch_process request
      in if as_tree_pid request = None \<and> active_targets = 0 \<and> comm = None then None
         else Some \<lparr>dt_root_pid = as_tree_pid request, dt_active_targets = active_targets, dt_comm = comm\<rparr>)"

definition daemon_phase_for_started_mode :: "daemon_mode \<Rightarrow> daemon_phase" where
  "daemon_phase_for_started_mode mode =
     (if mode = Mode_Observe then DPh_Observe else if mode = Mode_Suggest then DPh_Decide else DPh_Apply)"

definition daemon_state_for_autotune_start ::
  "nat \<Rightarrow> daemon_policy \<Rightarrow> autotune_start_request \<Rightarrow> nat \<Rightarrow> daemon_state" where
  "daemon_state_for_autotune_start now policy request started =
     (let mode = dp_mode policy; action_id = ''remote-autotune-start:'' @ mode_as_str mode
      in default_daemon_state
        \<lparr>st_mode := mode, st_phase := daemon_phase_for_started_mode mode,
         st_active_target := daemon_target_from_autotune_request request,
         st_active_experiment := Some
           \<lparr>de_experiment_id = ''remote-autotune-'' @ show_nat started, de_action_id = action_id,
            de_candidate_name = or_else (as_watch_process request) (Some (mode_as_str mode)), de_mode = mode,
            de_safety_class = safety_class_for_daemon_mode mode, de_started_unix_nanos = Some started\<rparr>,
         st_active_rollback := then_some (supports_apply mode)
           \<lparr>dr_action_id = action_id, dr_mode = mode, dr_safety_class = safety_class_for_daemon_mode mode,
            dr_rollback_available = False, dr_token = None,
            dr_manual_restore_command = Some ''stutter daemon emergency-restore''\<rparr>,
         st_last_decision := Some (new_decision now ''autotune_started''
           (''remote autotune '' @ mode_as_str mode @ '' controller started''))\<rparr>)"

definition remote_autotune_start_message :: "daemon_mode \<Rightarrow> string" where
  "remote_autotune_start_message mode =
     (if mode = Mode_ApplyLowRisk
      then ''remote autotune apply-low-risk controller started; apply modes are enabled''
      else ''remote autotune observe/suggest controller started; apply modes remain disabled'')"

definition daemon_state_for_autotune_stop :: "nat \<Rightarrow> daemon_mode \<Rightarrow> autotune_controller_exit \<Rightarrow> daemon_state" where
  "daemon_state_for_autotune_stop now mode exit =
     default_daemon_state
       \<lparr>st_mode := mode, st_phase := DPh_Disabled,
        st_last_decision := Some (case ce_last_decision exit of
            Some d \<Rightarrow>
              \<lparr>dd_decision = dse_decision d,
               dd_reason = ''stopped: '' @ ce_reason exit @ ''; last_reason='' @ dse_reason d,
               dd_unix_nanos = Some (dse_unix_nanos d),
               dd_diagnostic_current_raw_score_total = Some (dse_diagnostic_raw_score_total d),
               dd_candidate_count = Some (dse_candidate_count d), dd_top_denied_reason = dse_top_denied_reason d,
               dd_situation = Some (dse_situation d), dd_focus_kind = dse_focus_kind d\<rparr>
          | None \<Rightarrow> new_decision now ''autotune_stopped'' (ce_reason exit))\<rparr>"

definition replace_agent_daemon_state :: "daemon_state \<Rightarrow> agent_world \<Rightarrow> agent_world" where
  "replace_agent_daemon_state s w = w\<lparr>aw_daemon_state := s\<rparr>"

definition mark_agent_daemon_fault :: "nat \<Rightarrow> daemon_mode \<Rightarrow> string \<Rightarrow> string \<Rightarrow> agent_world \<Rightarrow> agent_world" where
  "mark_agent_daemon_fault now mode decision reason w =
     replace_agent_daemon_state (daemon_state_for_agent_fault now mode decision reason) w"

definition mark_agent_daemon_policy_rejection ::
  "nat \<Rightarrow> daemon_mode \<Rightarrow> string \<Rightarrow> string \<Rightarrow> agent_world \<Rightarrow> agent_world" where
  "mark_agent_daemon_policy_rejection now mode decision reason w =
     (let s = aw_daemon_state w
      in w\<lparr>aw_daemon_state := s
        \<lparr>st_mode := mode, st_phase := DPh_Faulted, st_last_decision := Some (new_decision now decision reason),
         st_degraded := st_degraded s @ [\<lparr>dg_category = ''agent'', dg_message = reason\<rparr>],
         st_faulted := Some \<lparr>df_reason = reason,
           df_manual_restore_command = Some ''stutter daemon emergency-restore''\<rparr>\<rparr>\<rparr>)"

section \<open>Reaping, starting, stopping\<close>

datatype autotune_reap_status = NoActiveSession | StillActive | Completed | Failed

text \<open>The common end of a controller task: \<open>event\<close> and \<open>prefix\<close> say who joined it.\<close>

definition controller_ended ::
  "nat \<Rightarrow> string \<Rightarrow> string \<Rightarrow> daemon_mode \<Rightarrow> controller_result \<Rightarrow> agent_world \<Rightarrow> agent_world" where
  "controller_ended now event prefix mode r w =
     (case r of
        Ctl_Exit exit \<Rightarrow>
          replace_agent_daemon_state (daemon_state_for_autotune_stop now mode exit)
            (audit_agent_event event True 0 (prefix @ ''reason='' @ ce_reason exit) w)
      | Ctl_Failed err \<Rightarrow>
          mark_agent_daemon_fault now mode ''autotune_controller_failed''
            (''autotune controller failed: '' @ any_display_alt err)
            (audit_agent_event event False 0 (prefix @ ''error='' @ any_display_alt err) w)
      | Ctl_JoinError err \<Rightarrow>
          mark_agent_daemon_fault now mode ''autotune_controller_join_failed''
            (''autotune controller task join failed: '' @ err)
            (audit_agent_event event False 0 (prefix @ ''join_error='' @ err) w))"

definition reap_finished_autotune ::
  "nat \<Rightarrow> controller_result option \<Rightarrow> agent_world \<Rightarrow> autotune_reap_status \<times> agent_world" where
  "reap_finished_autotune now finished w =
     (case aw_active_autotune w of
        None \<Rightarrow> (NoActiveSession, w)
      | Some handle \<Rightarrow>
         (case finished of
            None \<Rightarrow> (StillActive, w)
          | Some r \<Rightarrow>
             ((case r of Ctl_Exit _ \<Rightarrow> Completed | _ \<Rightarrow> Failed),
              controller_ended now ''remote-autotune-reap'' [] (daemon_mode_from_agent_mode (ah_mode handle)) r
                (w\<lparr>aw_active_autotune := None\<rparr>))))"

record start_request_env =
  se_headers :: auth_header
  se_request :: autotune_start_request
  se_clock :: "nat \<Rightarrow> nat"
  se_health :: system_health_snapshot
  se_capabilities :: daemon_capabilities
  se_finished :: "controller_result option"
  se_monitor_config :: "anyhow + unit"
  se_profiles :: "anyhow + unit"

definition debug_bool :: "bool \<Rightarrow> string" where
  "debug_bool b = (if b then ''true'' else ''false'')"

fun debug_action_source :: "action_source \<Rightarrow> string" where
  "debug_action_source Src_Cli = ''Cli''"
| "debug_action_source Src_AutotuneRuntime = ''AutotuneRuntime''"
| "debug_action_source Src_RemoteAgent = ''RemoteAgent''"
| "debug_action_source Src_Tune = ''Tune''"
| "debug_action_source Src_ApplyProfileWatch = ''ApplyProfileWatch''"
| "debug_action_source Src_Test = ''Test''"

definition autotune_start_audit_message :: "daemon_policy \<Rightarrow> autotune_start_request \<Rightarrow> string" where
  "autotune_start_audit_message policy request =
     ''daemon_mode='' @ mode_as_str (dp_mode policy)
     @ '' action_source='' @ debug_action_source (dp_source policy)
     @ '' allow_system_wide_suggestions='' @ debug_bool (dp_allow_system_wide_suggestions policy)
     @ '' allow_system_wide_apply='' @ debug_bool (dp_allow_system_wide_apply policy)
     @ '' allow_high_risk='' @ debug_bool (dp_allow_high_risk policy)
     @ '' watch_process='' @ debug_str (case as_watch_process request of Some v \<Rightarrow> v | None \<Rightarrow> ''none'')
     @ '' tree_pid='' @ (case as_tree_pid request of Some p \<Rightarrow> ''Some('' @ show_nat (unat p) @ '')'' | None \<Rightarrow> ''None'')"

text \<open>The end of the start handler, once a policy was granted and the session slot is free.\<close>

definition start_session ::
  "start_request_env \<Rightarrow> daemon_policy \<Rightarrow> agent_world \<Rightarrow> agent_response \<times> agent_world" where
  "start_session env policy w =
     (let request = se_request env; mode = dp_mode policy; clock = se_clock env
      in case se_monitor_config env of
           Inl err \<Rightarrow>
             ((BadRequest, ''invalid autotune configuration: '' @ any_display err),
              mark_agent_daemon_fault (clock 2) mode ''autotune_config_error''
                (''invalid autotune configuration: '' @ any_display err)
                (audit_agent_event ''remote-autotune-start'' False 0 (''config_error reason='' @ any_display_alt err) w))
         | Inr _ \<Rightarrow>
            (case se_profiles env of
               Inl err \<Rightarrow>
                 ((BadRequest, ''failed to load profiles: '' @ any_display_alt err),
                  mark_agent_daemon_fault (clock 2) mode ''autotune_profile_load_error''
                    (''failed to load profiles: '' @ any_display_alt err)
                    (audit_agent_event ''remote-autotune-start'' False 0
                      (''profile_load_error reason='' @ any_display_alt err) w))
             | Inr _ \<Rightarrow>
                 ((StatusOk, remote_autotune_start_message mode),
                  audit_agent_event_with_safety ''remote-autotune-start'' (safety_class_for_daemon_mode mode) True 0
                    (autotune_start_audit_message policy request)
                    (replace_agent_daemon_state (daemon_state_for_autotune_start (clock 2) policy request (clock 1))
                      (w\<lparr>aw_active_autotune := Some
                           \<lparr>ah_mode = mode_as_str mode, ah_watch_process = as_watch_process request,
                            ah_tree_pid = as_tree_pid request, ah_started_unix_nanos = clock 1\<rparr>\<rparr>)))))"

definition autotune_start_handler ::
  "agent_config \<Rightarrow> start_request_env \<Rightarrow> agent_world \<Rightarrow> agent_response \<times> agent_world" where
  "autotune_start_handler ag env w =
     (let request = se_request env; clock = se_clock env
      in case policy_for_remote_autotune_start (se_headers env) ag request (aw_daemon_state w) (se_health env)
                (se_capabilities env) (clock 0) of
           Inl rejection \<Rightarrow>
             ((rj_status rejection, rj_response_message rejection),
              mark_agent_daemon_policy_rejection (clock 1) (daemon_mode_from_agent_mode (as_mode request))
                ''autotune_policy_rejected'' (rj_audit_message rejection)
                (audit_agent_event ''remote-autotune-start'' False 0 (rj_audit_message rejection) w))
         | Inr policy \<Rightarrow>
            (case validate_autotune_start_limits request ag of
               Inl err \<Rightarrow>
                 ((BadRequest, ''autotune limit rejected: '' @ any_display err),
                  mark_agent_daemon_fault (clock 1) (daemon_mode_from_agent_mode (as_mode request))
                    ''autotune_limit_rejected'' (''autotune limit rejected: '' @ any_display err)
                    (audit_agent_event ''remote-autotune-start'' False 0
                      (''limit_rejected reason='' @ any_display_alt err) w))
             | Inr _ \<Rightarrow>
                (let w = snd (reap_finished_autotune (clock 3) (se_finished env) w)
                 in if aw_active_autotune w \<noteq> None
                    then ((Conflict, ''an autotune session is already active''),
                          mark_agent_daemon_fault (clock 2) (dp_mode policy) ''autotune_start_conflict''
                            ''an autotune session is already active''
                            (audit_agent_event ''remote-autotune-start'' False 0
                              ''conflict: autotune session already active'' w))
                    else start_session env policy w)))"

definition autotune_stop_handler ::
  "agent_config \<Rightarrow> auth_header \<Rightarrow> nat \<Rightarrow> controller_result \<Rightarrow> agent_world \<Rightarrow> agent_response \<times> agent_world" where
  "autotune_stop_handler ag headers now joined w =
     (case authorize_agent_privileged_operation headers ag ControlDaemon of
        Inl status \<Rightarrow> ((status, []), w)
      | Inr _ \<Rightarrow>
         (case aw_active_autotune w of
            None \<Rightarrow>
              ((StatusOk, ''no remote autotune session was active''),
               replace_agent_daemon_state
                 (daemon_state_for_agent_decision now Mode_Observe DPh_Disabled ''autotune_stop_no_active_session''
                    ''no remote autotune session was active'')
                 (audit_agent_event ''remote-autotune-stop'' True 0 ''active_before_stop=false'' w))
          | Some handle \<Rightarrow>
              ((case joined of
                  Ctl_Exit exit \<Rightarrow> (StatusOk, ''remote autotune session stopped: '' @ ce_reason exit)
                | Ctl_Failed err \<Rightarrow> (InternalServerError, ''autotune controller failed: '' @ any_display_alt err)
                | Ctl_JoinError err \<Rightarrow> (InternalServerError, ''autotune controller task join failed: '' @ err)),
               controller_ended now ''remote-autotune-stop'' ''active_before_stop=true ''
                 (daemon_mode_from_agent_mode (ah_mode handle)) joined (w\<lparr>aw_active_autotune := None\<rparr>))))"

section \<open>Pause and resume\<close>

definition daemon_pause_handler ::
  "agent_config \<Rightarrow> auth_header \<Rightarrow> nat \<Rightarrow> agent_world \<Rightarrow> agent_response \<times> agent_world" where
  "daemon_pause_handler ag headers now w =
     (case authorize_agent_privileged_operation headers ag ControlDaemon of
        Inl status \<Rightarrow> ((status, []), w)
      | Inr _ \<Rightarrow>
         ((StatusOk, ''daemon paused''),
          w\<lparr>aw_daemon_state := (aw_daemon_state w)
             \<lparr>st_phase := DPh_Paused, st_faulted := None,
              st_last_decision := Some (new_decision now ''daemon_paused'' ''operator requested daemon pause'')\<rparr>\<rparr>))"

definition daemon_resume_handler ::
  "agent_config \<Rightarrow> auth_header \<Rightarrow> nat \<Rightarrow> agent_world \<Rightarrow> agent_response \<times> agent_world" where
  "daemon_resume_handler ag headers now w =
     (case authorize_agent_privileged_operation headers ag ControlDaemon of
        Inl status \<Rightarrow> ((status, []), w)
      | Inr _ \<Rightarrow>
          if st_faulted (aw_daemon_state w) \<noteq> None
          then ((Conflict, ''cannot resume a faulted daemon state; restore first''), w)
          else ((StatusOk, ''daemon resumed''),
                w\<lparr>aw_daemon_state := (aw_daemon_state w)
                   \<lparr>st_phase := DPh_Observe,
                    st_last_decision := Some (new_decision now ''daemon_resumed'' ''operator requested daemon resume'')\<rparr>\<rparr>))"

section \<open>Restoring\<close>

text \<open>What \<open>restore_profile_state_default\<close> reports; the outcome of the journal restore is in \<open>Recovery_Model\<close>.\<close>

record profile_restore_summary =
  ps_affinity :: usize
  ps_nice :: usize
  ps_ionice :: usize
  ps_skipped_dead :: usize
  ps_skipped_identity_mismatch :: usize
  ps_legacy_unverified :: usize
  ps_errors :: usize

record profile_restore_command_outcome =
  pc_affinity_records :: usize
  pc_profile_affinity_records :: usize
  pc_profile_nice_records :: usize
  pc_profile_ionice_records :: usize
  pc_restored_any :: bool
  pc_summary :: profile_restore_summary

definition found_any :: "profile_restore_command_outcome \<Rightarrow> bool" where
  "found_any p \<longleftrightarrow> pc_restored_any p \<or> 0 < pc_affinity_records p \<or> 0 < pc_profile_affinity_records p
     \<or> 0 < pc_profile_nice_records p \<or> 0 < pc_profile_ionice_records p"

definition restored_total :: "profile_restore_command_outcome \<Rightarrow> usize" where
  "restored_total p = ps_affinity (pc_summary p) + ps_nice (pc_summary p) + ps_ionice (pc_summary p)"

definition skipped_total :: "profile_restore_command_outcome \<Rightarrow> usize" where
  "skipped_total p = ps_skipped_dead (pc_summary p) + ps_skipped_identity_mismatch (pc_summary p)"

definition daemon_restore_summary_fields ::
  "autotune_restore_outcome \<Rightarrow> profile_restore_command_outcome \<Rightarrow> string" where
  "daemon_restore_summary_fields r p =
     ''status='' @ debug_restore_status (ro_status r)
     @ '' restored_actions='' @ show_nat (ro_restored_actions r)
     @ '' failed_actions='' @ show_nat (ro_failed_actions r)
     @ '' skipped_actions='' @ show_nat (ro_skipped_actions r)
     @ '' profile_found='' @ debug_bool (found_any p)
     @ '' profile_restored='' @ show_nat (restored_total p)
     @ '' profile_skipped_total='' @ show_nat (skipped_total p)
     @ '' profile_skipped_dead='' @ show_nat (ps_skipped_dead (pc_summary p))
     @ '' profile_skipped_identity_mismatch='' @ show_nat (ps_skipped_identity_mismatch (pc_summary p))
     @ '' profile_legacy_unverified='' @ show_nat (ps_legacy_unverified (pc_summary p))
     @ '' profile_errors='' @ show_nat (ps_errors (pc_summary p))"

definition restore_succeeded :: "autotune_restore_outcome \<Rightarrow> bool" where
  "restore_succeeded r \<longleftrightarrow> ro_status r \<in> {RS_Clean, RS_Restored}"

text \<open>The state both restore handlers leave after a successful restore.\<close>

definition restored_daemon_state :: "nat \<Rightarrow> string \<Rightarrow> string \<Rightarrow> daemon_state \<Rightarrow> daemon_state" where
  "restored_daemon_state now decision reason s =
     s\<lparr>st_phase := DPh_Observe, st_active_experiment := None, st_active_rollback := None, st_faulted := None,
       st_degraded := [], st_last_decision := Some (new_decision now decision reason)\<rparr>"

definition daemon_restore_handler ::
  "agent_config \<Rightarrow> auth_header \<Rightarrow> nat \<Rightarrow> anyhow + autotune_restore_outcome
    \<Rightarrow> anyhow + profile_restore_command_outcome \<Rightarrow> agent_world \<Rightarrow> agent_response \<times> agent_world" where
  "daemon_restore_handler ag headers now restore profile w =
     (case authorize_agent_privileged_operation headers ag RollbackAction of
        Inl status \<Rightarrow> ((status, []), w)
      | Inr _ \<Rightarrow>
         (case restore of
            Inl err \<Rightarrow>
              ((InternalServerError, ''daemon restore failed: '' @ any_display_alt err),
               mark_agent_daemon_fault now Mode_ApplyLowRisk ''daemon_restore_failed''
                 (''daemon restore failed: '' @ any_display_alt err) w)
          | Inr r \<Rightarrow>
             (case profile of
                Inl err \<Rightarrow>
                  ((InternalServerError, ''daemon profile restore failed: '' @ any_display_alt err),
                   mark_agent_daemon_fault now Mode_ApplyLowRisk ''daemon_restore_failed''
                     (''daemon profile restore failed: '' @ any_display_alt err) w)
              | Inr p \<Rightarrow>
                  ((if restore_succeeded r then StatusOk else Conflict,
                    ''daemon restore status='' @ debug_restore_status (ro_status r)),
                   w\<lparr>aw_daemon_state :=
                      (if restore_succeeded r
                       then restored_daemon_state now ''daemon_restored''
                              (''daemon restore completed '' @ daemon_restore_summary_fields r p) (aw_daemon_state w)
                       else (aw_daemon_state w)
                         \<lparr>st_phase := DPh_Faulted,
                          st_faulted := Some \<lparr>df_reason =
                              ''daemon restore did not complete safely status='' @ debug_restore_status (ro_status r),
                            df_manual_restore_command = Some ''stutter daemon emergency-restore --dry-run''\<rparr>,
                          st_last_decision := Some (new_decision now ''daemon_restore_failed''
                            (''daemon restore did not complete safely status='' @ debug_restore_status (ro_status r)
                             @ '' failed_actions='' @ show_nat (ro_failed_actions r)
                             @ '' skipped_actions='' @ show_nat (ro_skipped_actions r)))\<rparr>)\<rparr>))))"

definition autotune_restore_authorized ::
  "nat \<Rightarrow> anyhow + autotune_restore_outcome \<Rightarrow> agent_world \<Rightarrow> agent_response \<times> agent_world" where
  "autotune_restore_authorized now restore w =
     (case restore of
        Inl err \<Rightarrow>
          ((InternalServerError, ''remote autotune restore failed: '' @ any_display_alt err),
           mark_agent_daemon_fault now Mode_ApplyLowRisk ''remote_autotune_restore_failed''
             (''remote autotune restore failed: '' @ any_display_alt err)
             (audit_agent_event ''remote-autotune-restore'' False 0
               (''restore_failed error='' @ any_display_alt err) w))
      | Inr r \<Rightarrow>
         (let ok = restore_succeeded r;
              message = ''remote autotune restore status='' @ debug_restore_status (ro_status r)
                @ '' restored_actions='' @ show_nat (ro_restored_actions r)
                @ '' skipped_actions='' @ show_nat (ro_skipped_actions r)
                @ '' failed_actions='' @ show_nat (ro_failed_actions r);
              w = audit_agent_event ''remote-autotune-restore'' ok (ro_restored_actions r) message w
          in ((if ok then StatusOk else Conflict, message),
              if ok
              then w\<lparr>aw_daemon_state := restored_daemon_state now
                       (if ro_status r = RS_Clean then ''remote_autotune_nothing_to_restore''
                        else ''remote_autotune_restored'') message (aw_daemon_state w)\<rparr>
              else mark_agent_daemon_fault now Mode_ApplyLowRisk ''remote_autotune_restore_incomplete'' message w)))"

definition autotune_restore_handler ::
  "agent_config \<Rightarrow> auth_header \<Rightarrow> nat \<Rightarrow> anyhow + autotune_restore_outcome \<Rightarrow> agent_world
    \<Rightarrow> agent_response \<times> agent_world" where
  "autotune_restore_handler ag headers now restore w =
     (case authorize_agent_privileged_operation headers ag RollbackAction of
        Inl status \<Rightarrow> ((status, []), audit_agent_event ''remote-autotune-restore'' False 0 ''unauthorized'' w)
      | Inr _ \<Rightarrow> autotune_restore_authorized now restore w)"

end
