(* ===== verification/Agent_Recording.thy ===== *)
theory Agent_Recording
  imports Agent_Handlers
begin

text \<open>
  The recording requests of the agent (\<open>stutter/src/agent/recording.rs\<close>), the downloads it serves
  (\<open>agent/artifacts.rs\<close>), the request guard every route passes (\<open>agent/server.rs\<close>) and the state a recording
  leaves (\<open>daemon/state_builders.rs\<close>). Whether the monitor configuration of a request can be resolved
  (\<open>monitor_config_from_remote_request\<close>), what the spawned monitor returns and the file system below the
  runs directory are arguments.
\<close>

section \<open>Requests and their limits\<close>

record remote_monitor_request =
  rq_target_pids :: "u32 list"
  rq_tree_pids :: "u32 list"
  rq_exclude_tree_pids :: "u32 list"
  rq_duration_seconds :: "u64 option"
  rq_spike_us :: "u64 option"
  rq_summary_ms :: "u64 option"
  rq_include_comm :: "string list"
  rq_exclude_comm :: "string list"
  rq_hwmon :: bool
  rq_cpu_freq :: bool
  rq_faults :: bool
  rq_stat_wait :: bool
  rq_block_io :: bool
  rq_runtime_slices :: bool
  rq_runtime_slices_max_tasks :: "usize option"
  rq_irq_latency :: bool
  rq_irqs :: "u32 list"
  rq_foreground_window :: bool
  rq_focus_source :: "string option"
  rq_foreground_source :: "string option"
  rq_foreground_poll_ms :: "u64 option"
  rq_foreground_max_stale_ms :: "u64 option"
  rq_foreground_include_title :: bool
  rq_record :: bool
  rq_run_name :: "string option"

datatype focus_source = FS_Heuristic | FS_Foreground | FS_Hybrid

datatype foreground_source = FG_Auto | FG_Sway | FG_Hyprland | FG_Gnome | FG_Kde | FG_X11

definition parse_remote_focus_source :: "string option \<Rightarrow> anyhow + focus_source" where
  "parse_remote_focus_source v =
     (let other = map to_lowercase (trim (case v of Some s \<Rightarrow> s | None \<Rightarrow> ''heuristic''))
      in if other = ''heuristic'' then Inr FS_Heuristic
         else if other = ''foreground'' then Inr FS_Foreground
         else if other = ''hybrid'' then Inr FS_Hybrid
         else Inl (anyhow_msg (''focus_source must be heuristic, foreground, or hybrid, got '' @ debug_str other)))"

definition parse_remote_foreground_source :: "string option \<Rightarrow> anyhow + foreground_source" where
  "parse_remote_foreground_source v =
     (let other = map to_lowercase (trim (case v of Some s \<Rightarrow> s | None \<Rightarrow> ''auto''))
      in if other = ''auto'' then Inr FG_Auto
         else if other = ''sway'' then Inr FG_Sway
         else if other = ''hyprland'' then Inr FG_Hyprland
         else if other = ''gnome'' then Inr FG_Gnome
         else if other = ''kde'' \<or> other = ''plasma'' then Inr FG_Kde
         else if other = ''x11'' then Inr FG_X11
         else Inl (anyhow_msg (''foreground_source must be auto, sway, hyprland, gnome, kde, or x11, got ''
                @ debug_str other)))"

definition remote_foreground_enabled :: "remote_monitor_request \<Rightarrow> anyhow + bool" where
  "remote_foreground_enabled q =
     res_bind (parse_remote_focus_source (rq_focus_source q))
       (\<lambda>source. Inr (rq_foreground_window q \<or> source \<noteq> FS_Heuristic))"

definition validate_remote_foreground_request :: "remote_monitor_request \<Rightarrow> anyhow + unit" where
  "validate_remote_foreground_request q =
     res_bind (remote_foreground_enabled q) (\<lambda>_.
     res_bind (parse_remote_foreground_source (rq_foreground_source q)) (\<lambda>_.
       if is_some_and (rq_foreground_poll_ms q) (\<lambda>ms. ms < 100)
       then Inl (anyhow_msg ''foreground_poll_ms must be >= 100'') else Inr ()))"

definition validate_foreground_title_capture_security ::
  "remote_monitor_request \<Rightarrow> agent_config \<Rightarrow> status_code + unit" where
  "validate_foreground_title_capture_security q ag =
     (if \<not> rq_foreground_include_title q then Inr ()
      else if agent_state_is_local ag then Inr ()
      else Inl Forbidden)"

definition record_target_count :: "remote_monitor_request \<Rightarrow> usize" where
  "record_target_count q = length (rq_target_pids q) + length (rq_tree_pids q) + length (rq_exclude_tree_pids q)"

definition validate_remote_request_limits :: "remote_monitor_request \<Rightarrow> agent_limits \<Rightarrow> anyhow + unit" where
  "validate_remote_request_limits q l =
     (let duration = (case rq_duration_seconds q of Some d \<Rightarrow> d | None \<Rightarrow> al_max_duration_seconds l);
          target_count = record_target_count q
      in if duration = 0 then Inl (anyhow_msg ''duration_seconds must be greater than zero'')
         else if al_max_duration_seconds l < duration
         then Inl (anyhow_msg (''duration_seconds '' @ show_nat (unat duration)
                @ '' exceeds agent max_duration_seconds '' @ show_nat (unat (al_max_duration_seconds l))))
         else if target_count = 0
         then Inl (anyhow_msg ''remote recording requires at least one target pid or tree pid'')
         else if al_max_targets l < target_count
         then Inl (anyhow_msg (''target count '' @ show_nat target_count @ '' exceeds agent max_targets ''
                @ show_nat (al_max_targets l)))
         else if rq_summary_ms q = Some 0 then Inl (anyhow_msg ''summary_ms must be greater than zero'')
         else if rq_runtime_slices_max_tasks q = Some 0
         then Inl (anyhow_msg ''runtime_slices_max_tasks must be greater than zero'')
         else if rq_spike_us q = Some 0 then Inl (anyhow_msg ''spike_us must be greater than zero'')
         else if rq_irq_latency q \<and> rq_irqs q = [] then Inl (anyhow_msg ''irq_latency requires explicit IRQ list'')
         else validate_remote_foreground_request q)"

section \<open>Starting, reaping and stopping a recording\<close>

definition daemon_target_from_record_request :: "remote_monitor_request \<Rightarrow> daemon_target_state option" where
  "daemon_target_from_record_request q =
     (let root_pid = (case rq_tree_pids q of p # _ \<Rightarrow> Some p
            | [] \<Rightarrow> (case rq_target_pids q of p # _ \<Rightarrow> Some p | [] \<Rightarrow> None));
          active_targets = length (rq_target_pids q) + length (rq_tree_pids q);
          comm = (case rq_include_comm q of c # _ \<Rightarrow> Some c | [] \<Rightarrow> None)
      in if root_pid = None \<and> active_targets = 0 \<and> comm = None then None
         else Some \<lparr>dt_root_pid = root_pid, dt_active_targets = active_targets, dt_comm = comm\<rparr>)"

definition daemon_state_for_record_start :: "nat \<Rightarrow> remote_monitor_request \<Rightarrow> string \<Rightarrow> usize \<Rightarrow> daemon_state" where
  "daemon_state_for_record_start now q run_id target_count =
     default_daemon_state
       \<lparr>st_mode := Mode_Observe, st_phase := DPh_Observe,
        st_active_target := daemon_target_from_record_request q,
        st_last_decision := Some (new_decision now ''record_started''
          (''remote recording run_id='' @ run_id @ '' target_count='' @ show_nat target_count))\<rparr>"

definition new_run_id :: "nat \<Rightarrow> string" where
  "new_run_id now = ''run-'' @ show_nat now"

text \<open>The result of joining the monitor task; its value is not used.\<close>

datatype monitor_result = Mon_Done | Mon_Failed anyhow | Mon_JoinError string

datatype recording_reap_status = Reap_NoActiveRun | Reap_StillActive | Reap_Completed | Reap_Failed

definition reap_finished_recording ::
  "nat \<Rightarrow> monitor_result option \<Rightarrow> agent_world \<Rightarrow> recording_reap_status \<times> agent_world" where
  "reap_finished_recording now finished w =
     (case aw_active_run w of
        None \<Rightarrow> (Reap_NoActiveRun, w)
      | Some handle \<Rightarrow>
         (case finished of
            None \<Rightarrow> (Reap_StillActive, w)
          | Some r \<Rightarrow>
             (let run_id = rh_id handle; w = w\<lparr>aw_active_run := None\<rparr>
              in case r of
                   Mon_Done \<Rightarrow>
                     (Reap_Completed,
                      replace_agent_daemon_state
                        (daemon_state_for_agent_decision now Mode_Observe DPh_Disabled ''record_completed''
                          (''run_id='' @ run_id))
                        (audit_agent_event ''remote-record-reap'' True 0 (''run_id='' @ run_id @ '' completed'') w))
                 | Mon_Failed err \<Rightarrow>
                     (Reap_Failed,
                      mark_agent_daemon_fault now Mode_Observe ''record_failed''
                        (''run_id='' @ run_id @ '' error='' @ any_display_alt err)
                        (audit_agent_event ''remote-record-reap'' False 0
                          (''run_id='' @ run_id @ '' error='' @ any_display_alt err) w))
                 | Mon_JoinError err \<Rightarrow>
                     (Reap_Failed,
                      mark_agent_daemon_fault now Mode_Observe ''record_join_failed''
                        (''run_id='' @ run_id @ '' join_error='' @ err)
                        (audit_agent_event ''remote-record-reap'' False 0
                          (''run_id='' @ run_id @ '' join_error='' @ err) w)))))"

definition debug_opt_str :: "string option \<Rightarrow> string" where
  "debug_opt_str v = (case v of Some s \<Rightarrow> ''Some('' @ debug_str s @ '')'' | None \<Rightarrow> ''None'')"

definition record_start_audit_message :: "agent_limits \<Rightarrow> string \<Rightarrow> remote_monitor_request \<Rightarrow> string" where
  "record_start_audit_message l run_id q =
     ''run_id='' @ run_id
     @ '' duration='' @ show_nat (unat (case rq_duration_seconds q of Some d \<Rightarrow> d | None \<Rightarrow> al_max_duration_seconds l))
     @ '' targets='' @ show_nat (record_target_count q)
     @ '' hwmon='' @ debug_bool (rq_hwmon q) @ '' cpu_freq='' @ debug_bool (rq_cpu_freq q)
     @ '' faults='' @ debug_bool (rq_faults q) @ '' stat_wait='' @ debug_bool (rq_stat_wait q)
     @ '' block_io='' @ debug_bool (rq_block_io q) @ '' runtime_slices='' @ debug_bool (rq_runtime_slices q)
     @ '' irq_latency='' @ debug_bool (rq_irq_latency q)
     @ '' foreground_window='' @ debug_bool (rq_foreground_window q)
     @ '' focus_source='' @ debug_opt_str (rq_focus_source q)
     @ '' foreground_source='' @ debug_opt_str (rq_foreground_source q)
     @ '' foreground_include_title='' @ debug_bool (rq_foreground_include_title q)"

record record_request_env =
  re_headers :: auth_header
  re_request :: remote_monitor_request
  re_clock :: "nat \<Rightarrow> nat"
  re_finished :: "monitor_result option"
  re_monitor_config :: "anyhow + unit"

text \<open>The end of the start handler, once the request is within its limits and the slot is free.\<close>

definition start_recording ::
  "agent_config \<Rightarrow> record_request_env \<Rightarrow> agent_world \<Rightarrow> agent_response \<times> agent_world" where
  "start_recording ag env w =
     (let q = re_request env; clock = re_clock env; run_id = new_run_id (clock 1)
      in case re_monitor_config env of
           Inl err \<Rightarrow>
             ((BadRequest, ''invalid configuration: '' @ any_display err),
              mark_agent_daemon_fault (clock 2) Mode_Observe ''record_config_error''
                (''invalid configuration: '' @ any_display err)
                (audit_agent_event ''remote-record-start'' False 0 (''config_error reason='' @ any_display err) w))
         | Inr _ \<Rightarrow>
             ((StatusOk, run_id),
              replace_agent_daemon_state (daemon_state_for_record_start (clock 2) q run_id (record_target_count q))
                ((audit_agent_event ''remote-record-start'' True (record_target_count q)
                    (record_start_audit_message (ag_limits ag) run_id q) w)
                 \<lparr>aw_active_run := Some \<lparr>rh_id = run_id\<rparr>\<rparr>)))"

definition start_record_handler ::
  "agent_config \<Rightarrow> record_request_env \<Rightarrow> agent_world \<Rightarrow> agent_response \<times> agent_world" where
  "start_record_handler ag env w =
     (let q = re_request env; clock = re_clock env
      in case authorize_agent_privileged_operation (re_headers env) ag StartRecording of
           Inl status \<Rightarrow>
             ((status, []),
              mark_agent_daemon_fault (clock 0) Mode_Observe ''record_start_rejected'' ''unauthorized''
                (audit_agent_event ''remote-record-start'' False 0 ''unauthorized'' w))
         | Inr _ \<Rightarrow>
            (case validate_foreground_title_capture_security q ag of
               Inl status \<Rightarrow>
                 ((status, ''foreground_include_title requires loopback tcp or unix socket transport''),
                  audit_agent_event ''remote-record-start'' False 0
                    ''rejected foreground_include_title request: title capture requires loopback tcp or unix socket transport''
                    w)
             | Inr _ \<Rightarrow>
                (case validate_remote_request_limits q (ag_limits ag) of
                   Inl e \<Rightarrow>
                     ((BadRequest, ''limit rejected: '' @ any_display e),
                      mark_agent_daemon_fault (clock 0) Mode_Observe ''record_limit_rejected''
                        (''limit rejected: '' @ any_display e)
                        (audit_agent_event ''remote-record-start'' False 0
                          (''limit_rejected reason='' @ any_display e) w))
                 | Inr _ \<Rightarrow>
                    (let w = snd (reap_finished_recording (clock 3) (re_finished env) w)
                     in if aw_active_run w \<noteq> None
                        then ((Conflict, ''a recording run is already active''),
                              mark_agent_daemon_fault (clock 0) Mode_Observe ''record_start_conflict''
                                ''a recording run is already active''
                                (audit_agent_event ''remote-record-start'' False 0
                                  ''conflict: recording already active'' w))
                        else start_recording ag env w))))"

definition stop_record_handler ::
  "agent_config \<Rightarrow> auth_header \<Rightarrow> nat \<Rightarrow> monitor_result \<Rightarrow> agent_world \<Rightarrow> agent_response \<times> agent_world" where
  "stop_record_handler ag headers now joined w =
     (case authorize_agent_privileged_operation headers ag StopRecording of
        Inl status \<Rightarrow> ((status, []), w)
      | Inr _ \<Rightarrow>
         (case aw_active_run w of
            Some handle \<Rightarrow>
             (let run_id = rh_id handle; w = w\<lparr>aw_active_run := None\<rparr>
              in case joined of
                   Mon_Done \<Rightarrow>
                     ((StatusOk, ''stopped''),
                      replace_agent_daemon_state
                        (daemon_state_for_agent_decision now Mode_Observe DPh_Disabled ''record_stopped''
                          (''run_id='' @ run_id))
                        (audit_agent_event ''remote-record-stop'' True 0 (''run_id='' @ run_id) w))
                 | Mon_Failed e \<Rightarrow>
                     ((InternalServerError, ''recording failed: '' @ any_display e),
                      mark_agent_daemon_fault now Mode_Observe ''record_failed''
                        (''run_id='' @ run_id @ '' error='' @ any_display e)
                        (audit_agent_event ''remote-record-stop'' False 0
                          (''run_id='' @ run_id @ '' error='' @ any_display e) w))
                 | Mon_JoinError e \<Rightarrow>
                     ((InternalServerError, ''task join failed: '' @ e),
                      mark_agent_daemon_fault now Mode_Observe ''record_join_failed''
                        (''run_id='' @ run_id @ '' join_error='' @ e)
                        (audit_agent_event ''remote-record-stop'' False 0
                          (''run_id='' @ run_id @ '' join_error='' @ e) w)))
          | None \<Rightarrow>
             ((StatusOk, ''no_active_run''),
              replace_agent_daemon_state
                (daemon_state_for_agent_decision now Mode_Observe DPh_Disabled ''record_stop_no_active_run''
                  ''no active recording run'') w)))"

text \<open>\<open>daemon_status_handler\<close> and the recording status handler change state only by reaping.\<close>

definition status_reap ::
  "agent_config \<Rightarrow> auth_header \<Rightarrow> nat \<Rightarrow> monitor_result option \<Rightarrow> agent_world \<Rightarrow> agent_world" where
  "status_reap ag headers now finished w =
     (case authorize headers (ag_auth ag) of
        Inl _ \<Rightarrow> w
      | Inr _ \<Rightarrow> snd (reap_finished_recording now finished w))"

definition daemon_status_reap ::
  "agent_config \<Rightarrow> auth_header \<Rightarrow> nat \<Rightarrow> monitor_result option \<Rightarrow> nat \<Rightarrow> controller_result option
    \<Rightarrow> agent_world \<Rightarrow> agent_world" where
  "daemon_status_reap ag headers now finished now' finished' w =
     (case authorize headers (ag_auth ag) of
        Inl _ \<Rightarrow> w
      | Inr _ \<Rightarrow> snd (reap_finished_autotune now' finished' (snd (reap_finished_recording now finished w))))"

section \<open>Downloads\<close>

definition AGENT_ARTIFACT_ALLOWLIST :: "string list" where
  "AGENT_ARTIFACT_ALLOWLIST =
     [''metadata.json'', ''session.json'', ''interval.json'', ''spike_events.json'', ''tree_events.json'',
      ''irq_events.json'', ''gpu_samples.json'', ''frame_correlation.json'', ''frame_events.json'',
      ''migration_events.json'', ''cpu_freq_samples.json'', ''io_events.json'', ''scx_events.json'',
      ''runtime_slices.json'', ''foreground_events.json'']"

definition validate_id :: "string \<Rightarrow> anyhow + unit" where
  "validate_id i =
     (if i = [] \<or> CHR ''/'' \<in> set i \<or> CHR 0x5C \<in> set i \<or> str_contains i ''..''
      then Inl (anyhow_msg ''invalid id'') else Inr ())"

definition validate_artifact_name :: "string \<Rightarrow> anyhow + unit" where
  "validate_artifact_name name =
     res_bind (validate_id name) (\<lambda>_.
       if name \<notin> set AGENT_ARTIFACT_ALLOWLIST then Inl (anyhow_msg ''artifact is not downloadable'') else Inr ())"

definition artifact_content_type :: "string \<Rightarrow> string" where
  "artifact_content_type name =
     (if ends_with name ''.json'' then ''application/json''
      else if ends_with name ''_events.json'' \<or> ends_with name ''_samples.json'' then ''application/x-ndjson''
      else ''application/octet-stream'')"

datatype download = DL_Status status_code string | DL_NotFound | DL_Data string string

text \<open>\<open>exists\<close> and \<open>read_file\<close> stand for the file system; the first component is the path that is opened.\<close>

definition get_artifact_handler ::
  "agent_config \<Rightarrow> string \<Rightarrow> auth_header \<Rightarrow> (string \<Rightarrow> bool) \<Rightarrow> (string \<Rightarrow> string option) \<Rightarrow> string \<Rightarrow> string
    \<Rightarrow> string option \<times> download" where
  "get_artifact_handler ag runs_dir headers exists read_file run_id name =
     (case authorize headers (ag_auth ag) of
        Inl status \<Rightarrow> (None, DL_Status status [])
      | Inr _ \<Rightarrow>
         (case validate_id run_id of
            Inl e \<Rightarrow> (None, DL_Status BadRequest (any_display e))
          | Inr _ \<Rightarrow>
             (case validate_artifact_name name of
                Inl e \<Rightarrow> (None, DL_Status BadRequest (any_display e))
              | Inr _ \<Rightarrow>
                 (let path = path_join (path_join runs_dir run_id) name
                  in if \<not> exists path then (None, DL_NotFound)
                     else (Some path,
                           case read_file path of
                             Some data \<Rightarrow> DL_Data (artifact_content_type name) data
                           | None \<Rightarrow> DL_Status InternalServerError [])))))"

section \<open>The request guard\<close>

record guarded_agent =
  ga_limiter :: agent_rate_limiter
  ga_world :: agent_world

fun status_number :: "status_code \<Rightarrow> string" where
  "status_number StatusOk = ''200 OK''"
| "status_number BadRequest = ''400 Bad Request''"
| "status_number Unauthorized = ''401 Unauthorized''"
| "status_number Forbidden = ''403 Forbidden''"
| "status_number Conflict = ''409 Conflict''"
| "status_number TooManyRequests = ''429 Too Many Requests''"
| "status_number InternalServerError = ''500 Internal Server Error''"

text \<open>\<open>label\<close> is the printed \<open>request_id=... method=... path=...\<close>; \<open>handler\<close> is the routed request.\<close>

definition agent_request_guard ::
  "nat \<Rightarrow> string \<Rightarrow> (agent_world \<Rightarrow> agent_response \<times> agent_world) \<Rightarrow> guarded_agent
    \<Rightarrow> agent_response \<times> guarded_agent" where
  "agent_request_guard now label handler g =
     (case rate_accept now (ga_limiter g) of (ok, limiter) \<Rightarrow>
        if \<not> ok
        then ((TooManyRequests, []),
              g\<lparr>ga_limiter := limiter,
                ga_world := audit_agent_event ''remote-agent-request'' False 0 (label @ '' status=429'') (ga_world g)\<rparr>)
        else (case handler (ga_world g) of (response, w) \<Rightarrow>
           (response,
            g\<lparr>ga_limiter := limiter,
              ga_world := audit_agent_event ''remote-agent-request'' (fst response = StatusOk) 0
                (label @ '' status='' @ status_number (fst response)) w\<rparr>)))"

end
