(* ===== verification/Agent_Facts.thy ===== *)
theory Agent_Facts
  imports Agent_Recording
begin

unbundle bit_operations_syntax

text \<open>
  What the agent guarantees and where it falls short: the rate limiter, tokens, the admission of remote
  apply sessions, the state machine of requests as the step relation \<open>agent_step\<close>, and the profile memory.
\<close>

section \<open>Rate limiting\<close>

definition accepted_times :: "(nat \<times> bool) list \<Rightarrow> nat list" where
  "accepted_times entries = map fst (filter snd entries)"

definition window_count :: "nat \<Rightarrow> nat \<Rightarrow> nat list \<Rightarrow> nat" where
  "window_count a width ts = length (filter (\<lambda>t. a \<le> t \<and> t < a + width) ts)"

lemma window_count_simps [simp]:
  "window_count a width [] = 0"
  "window_count a width (t # ts) = (if a \<le> t \<and> t < a + width then 1 else 0) + window_count a width ts"
  "window_count a width (xs @ ys) = window_count a width xs + window_count a width ys"
  by (simp_all add: window_count_def)

lemma window_count_le: "window_count a width ts \<le> length ts"
  by (simp add: window_count_def)

lemma window_count_expired:
  assumes "\<forall>p\<in>set ps. p + width \<le> t" "a \<le> t" "t < a + width"
  shows "window_count a width ps = 0"
  using assms by (induction ps) auto

text \<open>
  The times the limiter still holds, after \<open>expired\<close> were dropped, when the requests \<open>ts\<close> are yet to come.
\<close>

definition limiter_inv :: "nat list \<Rightarrow> nat list \<Rightarrow> agent_rate_limiter \<Rightarrow> bool" where
  "limiter_inv ts expired l \<longleftrightarrow>
     (\<forall>t\<in>set ts. (\<forall>p\<in>set expired. p + rl_window l \<le> t) \<and> (\<forall>p\<in>set (rl_accepted l). p \<le> t))
     \<and> (\<forall>a. window_count a (rl_window l) (expired @ rl_accepted l) \<le> rl_max_requests l)"

lemma limiter_step:
  assumes inv: "limiter_inv (t # ts) expired l" and ord: "sorted (t # ts)"
    and step: "rate_accept t l = (ok, l')"
  shows "\<exists>expired'. limiter_inv ts expired' l' \<and> expired' @ rl_accepted l' = (expired @ rl_accepted l) @ (if ok then [t] else [])
    \<and> rl_window l' = rl_window l \<and> rl_max_requests l' = rl_max_requests l"
proof -
  let ?old = "\<lambda>p. rl_window l \<le> t - p"
  let ?gone = "takeWhile ?old (rl_accepted l)" and ?kept = "dropWhile ?old (rl_accepted l)"
  have split: "rl_accepted l = ?gone @ ?kept"
    by simp
  have le: "p \<le> t" if "p \<in> set (rl_accepted l)" for p
    using inv that by (simp add: limiter_inv_def)
  have gone: "p + rl_window l \<le> t" if "p \<in> set ?gone" for p
    using set_takeWhileD [OF that] le [of p] by linarith
  have later: "t \<le> u" if "u \<in> set ts" for u
    using ord that by simp
  have old: "\<forall>p\<in>set (expired @ ?gone). p + rl_window l \<le> t"
    using inv gone by (auto simp: limiter_inv_def)
  have count: "window_count a (rl_window l) (expired @ ?gone @ ?kept) \<le> rl_max_requests l" for a
    using inv split by (simp add: limiter_inv_def)
  have kept: "p \<le> t" if "p \<in> set ?kept" for p
    using le [of p] set_dropWhileD [OF that] by simp
  have keep: "limiter_inv ts (expired @ ?gone) (l\<lparr>rl_accepted := kept\<rparr>)"
    if "\<forall>p\<in>set kept. p \<le> t" "\<And>a. window_count a (rl_window l) (expired @ ?gone @ kept) \<le> rl_max_requests l" for kept
  proof -
    have "p + rl_window l \<le> u" if "p \<in> set (expired @ ?gone)" "u \<in> set ts" for p u
      using old later [OF that(2)] that(1) order_trans by blast
    moreover have "p \<le> u" if "p \<in> set kept" "u \<in> set ts" for p u
      using \<open>\<forall>p\<in>set kept. p \<le> t\<close> later [OF that(2)] that(1) order_trans by blast
    ultimately show ?thesis
      using that(2) unfolding limiter_inv_def by simp
  qed
  show ?thesis
  proof (cases "rl_max_requests l \<le> length ?kept")
    case True
    then have "ok = False" "l' = l\<lparr>rl_accepted := ?kept\<rparr>"
      using step by (auto simp: rate_accept_def Let_def)
    then show ?thesis
      using keep [OF _ count] kept by (intro exI [of _ "expired @ ?gone"]) simp
  next
    case False
    then have ok: "ok = True" "l' = l\<lparr>rl_accepted := ?kept @ [t]\<rparr>"
      using step by (auto simp: rate_accept_def Let_def)
    have "window_count a (rl_window l) (expired @ ?gone @ ?kept @ [t]) \<le> rl_max_requests l" for a
    proof (cases "a \<le> t \<and> t < a + rl_window l")
      case True
      then have "window_count a (rl_window l) (expired @ ?gone) = 0"
        using window_count_expired [OF old] by blast
      then show ?thesis
        using False window_count_le [of a "rl_window l" ?kept] by simp
    next
      case outside: False
      then have "window_count a (rl_window l) [t] = 0"
        by auto
      then show ?thesis
        using count [of a] by (simp del: takeWhile_dropWhile_id add: add.assoc)
    qed
    then show ?thesis
      using keep [of "?kept @ [t]"] kept ok by (intro exI [of _ "expired @ ?gone"]) simp
  qed
qed

lemma limiter_run_bounded:
  assumes "limiter_inv ts expired l" "sorted ts"
  shows "window_count a (rl_window l) ((expired @ rl_accepted l) @ accepted_times (rate_run ts l)) \<le> rl_max_requests l"
  using assms
proof (induction ts arbitrary: expired l)
  case Nil
  then show ?case
    by (simp add: limiter_inv_def accepted_times_def)
next
  case (Cons t ts)
  obtain ok l' where step: "rate_accept t l = (ok, l')"
    by fastforce
  obtain expired' where e: "limiter_inv ts expired' l'"
      "expired' @ rl_accepted l' = (expired @ rl_accepted l) @ (if ok then [t] else [])"
      "rl_window l' = rl_window l" "rl_max_requests l' = rl_max_requests l"
    using limiter_step [OF Cons.prems step] by blast
  have "accepted_times (rate_run (t # ts) l) = (if ok then [t] else []) @ accepted_times (rate_run ts l')"
    by (simp add: accepted_times_def step)
  moreover have "sorted ts"
    using Cons.prems(2) by simp
  ultimately show ?case
    using Cons.IH [OF e(1)] e(2-4) by (simp add: append_assoc [symmetric] del: append_assoc)
qed

text \<open>
  C34. The rate limit holds in every window: when requests arrive in the order of their times, the limiter never
  accepts more than \<open>max_requests\<close> of them within any interval of the window's length, wherever it starts.
\<close>

theorem rate_limit_bound:
  assumes "sorted ts" "rl_accepted l = []"
  shows "window_count a (rl_window l) (accepted_times (rate_run ts l)) \<le> rl_max_requests l"
  using limiter_run_bounded [of ts "[]" l a] assms by (simp add: limiter_inv_def)

theorem rate_limit_bound_witness:
  "window_count 1 10 (accepted_times (rate_run [1, 2, 5, 12] \<lparr>rl_max_requests = 2, rl_window = 10, rl_accepted = []\<rparr>)) \<le> 2
   \<and> accepted_times (rate_run [1, 2, 5, 12] \<lparr>rl_max_requests = 2, rl_window = 10, rl_accepted = []\<rparr>) = [1, 2, 12]"
  using rate_limit_bound [of "[1, 2, 5, 12]" "\<lparr>rl_max_requests = 2, rl_window = 10, rl_accepted = []\<rparr>" 1]
  by (simp add: accepted_times_def rate_accept_def Let_def)

section \<open>Tokens\<close>

lemma char_byte_eq_iff [simp]: "char_byte a = char_byte b \<longleftrightarrow> a = b"
proof -
  have "unat (char_byte c) = of_char c" for c
    by (simp add: char_byte_def unat_of_nat_eq)
  then show ?thesis
    by (metis of_char_eq_iff)
qed

lemma word_xor_zero_iff: "v XOR w = 0 \<longleftrightarrow> v = w" for v w :: "'a::len word"
  by (metis xor.left_neutral xor.assoc xor_self_eq xor.commute)

lemma fold_or_zero_iff:
  "fold (\<lambda>(x, y) diff. diff OR (char_byte x XOR char_byte y)) ps d = 0 \<longleftrightarrow> d = 0 \<and> (\<forall>(x, y)\<in>set ps. x = y)"
proof (induction ps arbitrary: d)
  case (Cons p ps)
  have "d OR (char_byte (fst p) XOR char_byte (snd p)) = 0 \<longleftrightarrow> d = 0 \<and> fst p = snd p"
    by (simp add: or_eq_0_iff word_xor_zero_iff)
  then show ?case
    using Cons by (cases p) auto
qed simp

lemma constant_time_eq_iff: "constant_time_eq a b \<longleftrightarrow> a = b"
proof (cases "length a = length b")
  case True
  then have "(\<forall>(x, y)\<in>set (zip a b). x = y) \<longleftrightarrow> a = b"
    by (induction rule: list_induct2) auto
  then show ?thesis
    using True by (simp add: constant_time_eq_def fold_or_zero_iff)
qed (auto simp: constant_time_eq_def)

lemma token_matches_iff [simp]: "token_matches token expected \<longleftrightarrow> expected = Some token"
  by (cases expected) (auto simp: token_matches_def constant_time_eq_iff)

text \<open>The request carries a token that grants the apply scope.\<close>

definition presents_apply_token :: "auth_header \<Rightarrow> agent_auth \<Rightarrow> bool" where
  "presents_apply_token headers auth =
     (case headers of
        TextHeader v \<Rightarrow>
          (case strip_prefix ''Bearer '' v of
             Some token \<Rightarrow> aa_bearer_token auth = Some token \<or> aa_apply_token auth = Some token
           | None \<Rightarrow> False)
      | _ \<Rightarrow> False)"

lemma authorize_apply_ok_iff:
  "authorize_apply headers auth = Inr () \<longleftrightarrow> \<not> any_token_configured auth \<or> presents_apply_token headers auth"
  by (auto simp: authorize_apply_def authorize_with_scope_def presents_apply_token_def Let_def
      split: auth_header.splits option.splits)

lemma apply_token_is_token: "apply_token_configured a \<Longrightarrow> any_token_configured a"
  by (auto simp: apply_token_configured_def any_token_configured_def)

section \<open>Admission of remote sessions\<close>

lemma degraded_context_keeps:
  "px_system_health_ok (fold degrade_context ds c) = px_system_health_ok c"
  "px_cooldown_active (fold degrade_context ds c) = px_cooldown_active c"
  "px_rollback_pending (fold degrade_context ds c) = px_rollback_pending c"
  "px_capabilities (fold degrade_context ds c) = px_capabilities c"
  by (induction ds arbitrary: c) (simp_all add: degrade_context_def)

lemma status_context [simp]:
  "px_system_health_ok (policy_context_from_daemon_status s health caps now) = hs_ok_for_apply health"
  "px_cooldown_active (policy_context_from_daemon_status s health caps now)
     = is_some_and (st_cooldown_until_unix_nanos s) (\<lambda>until. now < until)"
  "px_rollback_pending (policy_context_from_daemon_status s health caps now) = (st_active_rollback s \<noteq> None)"
  by (simp_all add: policy_context_from_daemon_status_def degraded_context_keeps with_system_health_def
      default_policy_context_def)

lemma no_rejection_iff [simp]: "rejection_from_policy_explanation mode e err = None \<longleftrightarrow> pe_decision e = Allowed"
  by (simp add: rejection_from_policy_explanation_def split: policy_decision_kind.split)

lemma rejecting_case [simp]:
  "(case r of None \<Rightarrow> x | Some e \<Rightarrow> Inl e) = Inr y \<longleftrightarrow> r = None \<and> x = Inr y"
  by (cases r) simp_all

lemma is_ok_error: "(case r of Inl e \<Rightarrow> Some e | Inr _ \<Rightarrow> None) = None \<longleftrightarrow> is_ok r"
  by (cases r) simp_all

lemma apply_mode_auth:
  "remote_start_auth_rejection mode (authorize_remote_autotune_start headers ag) ag = None \<and> supports_apply mode
     \<longleftrightarrow> supports_apply mode \<and> apply_token_configured (ag_auth ag) \<and> presents_apply_token headers (ag_auth ag)
       \<and> remote_mode_supported (ag_autotune_limits ag) mode"
  using apply_token_is_token [of "ag_auth ag"] authorize_apply_ok_iff [of headers "ag_auth ag"]
  by (auto simp: remote_start_auth_rejection_def authorize_remote_autotune_start_def split: sum.splits)

lemma apply_intent [simp]: "supports_apply mode \<Longrightarrow> intent_for_mode mode = Intent_Apply"
  by (cases mode) simp_all

lemma admission_iff:
  "policy_for_remote_autotune_start headers ag request s health caps now = Inr policy \<longleftrightarrow>
     (\<exists>mode. mode_from_str (trim (as_mode request)) = Inr mode
        \<and> policy = daemon_policy_for_remote_mode mode ag request
            (remote_policy_context_for_request ag (is_ok (authorize_remote_autotune_start headers ag)))
        \<and> remote_start_auth_rejection mode (authorize_remote_autotune_start headers ag) ag = None
        \<and> action_permitted policy (intent_for_mode mode) (remote_autotune_start_descriptor mode request)
        \<and> context_ok (intent_for_mode mode) (policy_context_from_daemon_status s health caps now)
        \<and> capability_ok (intent_for_mode mode) (remote_autotune_start_descriptor mode request)
             (policy_context_from_daemon_status s health caps now))"
  by (cases "mode_from_str (trim (as_mode request))")
    (auto simp: policy_for_remote_autotune_start_def Let_def explain_action_allowed_iff
      explain_with_context_allowed_iff is_ok_error)

lemma remote_policy_fields [simp]:
  "dp_mode (daemon_policy_for_remote_mode mode ag request x) = mode"
  "dp_source (daemon_policy_for_remote_mode mode ag request x) = Src_RemoteAgent"
  "dp_allow_medium_risk_apply (daemon_policy_for_remote_mode mode ag request x) \<longleftrightarrow> False"
  by (simp_all add: daemon_policy_for_remote_mode_def build_simps daemon_config_for_remote_mode_def
      daemon_config_for_runtime_mode_def default_daemon_config_def default_autotune_config_def from_preset_def
      reset_sections_def Let_def)

lemma admitted_apply:
  assumes "policy_for_remote_autotune_start headers ag request s health caps now = Inr policy"
    and "supports_apply (dp_mode policy)"
  shows "dp_mode policy = Mode_ApplyLowRisk" "presents_apply_token headers (ag_auth ag)" "agent_state_is_local ag"
    and "remote_mode_supported (ag_autotune_limits ag) (dp_mode policy)" "apply_token_configured (ag_auth ag)"
    and "hs_ok_for_apply health" "\<not> is_some_and (st_cooldown_until_unix_nanos s) (\<lambda>until. now < until)"
    and "st_active_rollback s = None"
proof -
  obtain mode ok where m:
      "policy = daemon_policy_for_remote_mode mode ag request (remote_policy_context_for_request ag ok)"
      "remote_start_auth_rejection mode (authorize_remote_autotune_start headers ag) ag = None"
      "action_permitted policy (intent_for_mode mode) (remote_autotune_start_descriptor mode request)"
      "context_ok (intent_for_mode mode) (policy_context_from_daemon_status s health caps now)"
    using assms(1) unfolding admission_iff by blast
  have mode: "supports_apply mode" "dp_mode policy = mode"
    using assms(2) m(1) by simp_all
  have permitted: "action_permitted policy Intent_Apply (remote_autotune_start_descriptor mode request)"
    using m(3) mode(1) by simp
  have low: "mode = Mode_ApplyLowRisk"
    using permitted by (cases rule: apply_permitted_modes) (simp_all add: m(1))
  show "presents_apply_token headers (ag_auth ag)" "remote_mode_supported (ag_autotune_limits ag) (dp_mode policy)"
      "apply_token_configured (ag_auth ag)" "dp_mode policy = Mode_ApplyLowRisk"
    using m(2) mode low apply_mode_auth by blast+
  show "hs_ok_for_apply health" "\<not> is_some_and (st_cooldown_until_unix_nanos s) (\<lambda>until. now < until)"
      "st_active_rollback s = None"
    using m(4) mode(1) by (simp_all add: context_ok_def)
  have "remote_gates_ok (dp_remote_apply policy)"
    using apply_permitted_common(6) [OF permitted] m(1) by simp
  then show "agent_state_is_local ag"
    using low
    by (auto simp: remote_gates_ok_def m(1)
        daemon_policy_for_remote_mode_def build_simps remote_apply_policy_for_config_def Let_def
        daemon_config_for_remote_mode_def daemon_config_for_runtime_mode_def remote_policy_context_for_request_def
        default_daemon_config_def from_preset_def reset_sections_def default_remote_config_def split: if_splits)
qed

text \<open>
  C7. Admission of remote apply sessions. When the agent grants a policy to a remote autotune request and
  the policy may apply anything, the mode is \<open>apply-low-risk\<close>, the request carried a configured apply or
  legacy token, the agent listens on a Unix socket or loopback only, the agent's limits allow the mode and its
  safety class, the host is healthy, no cooldown is running and no rollback is pending.
\<close>

theorem remote_apply_admission:
  assumes "policy_for_remote_autotune_start headers ag request s health caps now = Inr policy"
    and "supports_apply (dp_mode policy)"
  shows "dp_mode policy = Mode_ApplyLowRisk
    \<and> presents_apply_token headers (ag_auth ag)
    \<and> agent_state_is_local ag
    \<and> Mode_ApplyLowRisk \<le> li_max_mode (ag_autotune_limits ag)
    \<and> SC_ReversibleLowRisk \<le> li_max_safety_class (ag_autotune_limits ag)
    \<and> hs_ok_for_apply health
    \<and> \<not> is_some_and (st_cooldown_until_unix_nanos s) (\<lambda>until. now < until)
    \<and> st_active_rollback s = None"
  using admitted_apply [OF assms] by (auto simp: remote_mode_supported_def supported_remote_modes_def split: if_splits)

definition sample_agent :: agent_config where
  "sample_agent =
     \<lparr>ag_auth = \<lparr>aa_bearer_token = None, aa_read_token = None, aa_apply_token = Some ''key''\<rparr>, ag_bind = IpV4 127 0 0 1,
      ag_unix_socket = None,
      ag_limits = \<lparr>al_max_duration_seconds = 300, al_max_targets = 128, al_max_concurrent_recordings = 1\<rparr>,
      ag_autotune_limits = default_autotune_limits\<rparr>"

definition low_risk_request :: autotune_start_request where
  "low_risk_request =
     \<lparr>as_mode = ''apply-low-risk'', as_watch_process = None, as_tree_pid = Some 7, as_duration_seconds = None,
      as_auto_focus = False\<rparr>"

definition sample_capabilities :: daemon_capabilities where
  "sample_capabilities =
     \<lparr>ca_kernel_release = None, ca_btf_available = False, ca_sched_tracepoints_available = False,
      ca_perf_permissions_likely = False, ca_perf_event_paranoid = None, ca_cgroup_v2_available = False,
      ca_sched_ext_available = False, ca_uclamp_available = False, ca_ionice_available = False,
      ca_irq_affinity_available = False, ca_gpu_sysfs_available = False,
      ca_privileged_worker_socket_reachable = None\<rparr>"

definition sample_granted :: daemon_policy where
  "sample_granted = daemon_policy_for_remote_mode Mode_ApplyLowRisk sample_agent low_risk_request
     (remote_policy_context_for_request sample_agent True)"

lemma sample_mode [simp]: "mode_from_str (trim (as_mode low_risk_request)) = Inr Mode_ApplyLowRisk"
  by code_simp

lemma sample_authorized [simp]: "authorize_remote_autotune_start (TextHeader ''Bearer key'') sample_agent = Inr ()"
  by code_simp

lemma sample_no_rejection [simp]: "remote_start_auth_rejection Mode_ApplyLowRisk (Inr ()) sample_agent = None"
  by code_simp

lemma sample_gates: "remote_gates_ok (dp_remote_apply sample_granted)"
  unfolding sample_granted_def daemon_policy_for_remote_mode_def build_simps by code_simp

lemmas remote_config_eval =
  daemon_config_for_remote_mode_def daemon_config_for_runtime_mode_def default_daemon_config_def from_preset_def
  reset_sections_def Let_def

lemma sample_family: "family_ok sample_granted ''remote-autotune-start''"
  by (simp add: family_ok_def sample_granted_def daemon_policy_for_remote_mode_def build_simps remote_config_eval
      default_safety_config_def)

lemma sample_confidence: "ad_confidence d = Some (Fin 1) \<Longrightarrow> confidence_ok sample_granted d"
  by (simp add: confidence_ok_def sample_granted_def daemon_policy_for_remote_mode_def build_simps remote_config_eval
      default_safety_config_def min_confidence_for_config_def f32_literals f32_lt_def DEFAULT_MIN_FOCUS_CONFIDENCE_def)

lemma sample_permitted:
  "action_permitted sample_granted Intent_Apply (remote_autotune_start_descriptor Mode_ApplyLowRisk low_risk_request)"
  using sample_gates sample_family sample_confidence
  by (simp add: apply_rules_ok_def mode_rules_ok_def remote_autotune_start_descriptor_def)
    (simp add: sample_granted_def)

lemma sample_capable:
  "capability_ok Intent_Apply (remote_autotune_start_descriptor Mode_ApplyLowRisk low_risk_request)
     (policy_context_from_daemon_status s health caps now)"
  by (simp add: capability_ok_def policy_context_from_daemon_status_def degraded_context_keeps
      remote_autotune_start_descriptor_def unavailable_capability_for_action_def action_kind_matches_family_def
      starts_with_def)

lemma sample_admitted_iff:
  "policy_for_remote_autotune_start (TextHeader ''Bearer key'') sample_agent low_risk_request s health caps now
     = Inr sample_granted
   \<longleftrightarrow> context_ok Intent_Apply (policy_context_from_daemon_status s health caps now)"
  using sample_permitted sample_capable by (simp add: admission_iff sample_granted_def)

theorem remote_apply_admission_witness:
  "policy_for_remote_autotune_start (TextHeader ''Bearer key'') sample_agent low_risk_request default_daemon_state
       default_health_snapshot sample_capabilities 5 = Inr sample_granted
   \<and> dp_mode sample_granted = Mode_ApplyLowRisk \<and> agent_state_is_local sample_agent"
proof -
  have "context_ok Intent_Apply
      (policy_context_from_daemon_status default_daemon_state default_health_snapshot sample_capabilities 5)"
    by code_simp
  then have "policy_for_remote_autotune_start (TextHeader ''Bearer key'') sample_agent low_risk_request
      default_daemon_state default_health_snapshot sample_capabilities 5 = Inr sample_granted"
    by (simp add: sample_admitted_iff)
  with remote_apply_admission [OF this] show ?thesis
    by (simp add: sample_granted_def)
qed

lemma fault_free_context:
  "policy_context_from_daemon_status (s\<lparr>st_phase := phase, st_faulted := fault\<rparr>) health caps now
     = policy_context_from_daemon_status s health caps now"
  by (simp add: policy_context_from_daemon_status_def)

text \<open>
  Admission does not look at the fault flag: whatever phase and fault the daemon state records, a remote
  start request gets the same answer. The status route tells operators of a faulted daemon to restore before
  applying more changes; the start route does not enforce it.
\<close>

theorem admission_ignores_fault:
  "policy_for_remote_autotune_start headers ag request (s\<lparr>st_phase := phase, st_faulted := fault\<rparr>) health caps now
     = policy_for_remote_autotune_start headers ag request s health caps now"
  unfolding policy_for_remote_autotune_start_def fault_free_context ..

section \<open>Requests that forget the pending rollback\<close>

lemma fault_state_context:
  "context_ok Intent_Apply (policy_context_from_daemon_status (daemon_state_for_agent_fault now mode decision reason)
     health caps later) \<longleftrightarrow> hs_ok_for_apply health"
  by (simp add: context_ok_def policy_context_from_daemon_status_def daemon_state_for_agent_fault_def
      default_daemon_state_def degrade_context_def with_system_health_def default_policy_context_def)

text \<open>
  C37. An unauthorised recording request erases the safety state: the start-recording route answers with an
  error status, yet it replaces the whole daemon state, so that a pending rollback or a cooldown that kept apply
  sessions out is gone and only the host's health still gates them.
\<close>

theorem unauthorized_record_start_opens_gates:
  assumes "authorize_agent_privileged_operation (re_headers env) ag StartRecording = Inl status"
    and "start_record_handler ag env w = (response, w')"
  shows "response = (status, []) \<and> st_active_rollback (aw_daemon_state w') = None
    \<and> st_active_experiment (aw_daemon_state w') = None
    \<and> context_ok Intent_Apply (policy_context_from_daemon_status (aw_daemon_state w') health caps now)
        = hs_ok_for_apply health"
  using assms
  by (auto simp: start_record_handler_def mark_agent_daemon_fault_def replace_agent_daemon_state_def
      fault_state_context)
    (simp_all add: daemon_state_for_agent_fault_def default_daemon_state_def)

definition sample_record_request :: record_request_env where
  "sample_record_request =
     \<lparr>re_headers = NoHeader,
      re_request = \<lparr>rq_target_pids = [], rq_tree_pids = [], rq_exclude_tree_pids = [], rq_duration_seconds = None,
        rq_spike_us = None, rq_summary_ms = None, rq_include_comm = [], rq_exclude_comm = [], rq_hwmon = False,
        rq_cpu_freq = False, rq_faults = False, rq_stat_wait = False, rq_block_io = False, rq_runtime_slices = False,
        rq_runtime_slices_max_tasks = None, rq_irq_latency = False, rq_irqs = [], rq_foreground_window = False,
        rq_focus_source = None, rq_foreground_source = None, rq_foreground_poll_ms = None,
        rq_foreground_max_stale_ms = None, rq_foreground_include_title = False, rq_record = False,
        rq_run_name = None\<rparr>,
      re_clock = id, re_finished = None, re_monitor_config = Inr ()\<rparr>"

definition recovered_world :: agent_world where
  "recovered_world =
     \<lparr>aw_daemon_state = daemon_state_from_startup_recovery 1 (SR_RollbackDisabled ''e'' ''a'' ''restore''),
      aw_active_autotune = None, aw_active_run = None, aw_append = (\<lambda>_. None), aw_audit = [],
      aw_unaudited = []\<rparr>"

theorem unauthorized_record_start_opens_gates_witness:
  "is_ok (policy_for_remote_autotune_start (TextHeader ''Bearer key'') sample_agent low_risk_request
       (aw_daemon_state recovered_world) default_health_snapshot sample_capabilities 9) = False
   \<and> policy_for_remote_autotune_start (TextHeader ''Bearer key'') sample_agent low_risk_request
       (aw_daemon_state (snd (start_record_handler sample_agent sample_record_request recovered_world)))
       default_health_snapshot sample_capabilities 9 = Inr sample_granted"
proof -
  have auth: "authorize_agent_privileged_operation (re_headers sample_record_request) sample_agent StartRecording
      = Inl Unauthorized"
    by code_simp
  have blocked: "\<not> context_ok Intent_Apply (policy_context_from_daemon_status (aw_daemon_state recovered_world)
      default_health_snapshot sample_capabilities 9)"
    by (simp add: context_ok_def recovered_world_def recovery_state_def)
  have "policy_for_remote_autotune_start (TextHeader ''Bearer key'') sample_agent low_risk_request
      (aw_daemon_state recovered_world) default_health_snapshot sample_capabilities 9 \<noteq> Inr p" for p
    using blocked by (simp add: admission_iff)
  then have refused: "\<not> is_ok (policy_for_remote_autotune_start (TextHeader ''Bearer key'') sample_agent low_risk_request
      (aw_daemon_state recovered_world) default_health_snapshot sample_capabilities 9)"
    by (metis is_ok.simps(1) sum.exhaust)
  show ?thesis
    using refused unauthorized_record_start_opens_gates [OF auth prod.collapse [symmetric], of recovered_world
        default_health_snapshot sample_capabilities 9]
    by (simp add: sample_admitted_iff default_health_snapshot_def)
qed

end
