(* ===== verification/Agent_Machine.thy ===== *)
theory Agent_Machine
  imports Agent_Facts
begin

text \<open>
  The agent as a state machine: every route that changes the agent state is a rule of \<open>agent_step\<close>. The locale
  \<open>session_keeper\<close> is the contract of all routes but the autotune start (they never begin a session, the audit
  trail only grows, and an event misses it only when the log refused a line); the start route meets it up to the
  sessions it was allowed to begin.
\<close>

section \<open>The step relation\<close>

inductive agent_step :: "agent_config \<Rightarrow> agent_world \<Rightarrow> agent_world \<Rightarrow> bool" for ag where
  start: "agent_step ag w (snd (autotune_start_handler ag env w))"
| stop: "agent_step ag w (snd (autotune_stop_handler ag headers now joined w))"
| pause: "agent_step ag w (snd (daemon_pause_handler ag headers now w))"
| resume: "agent_step ag w (snd (daemon_resume_handler ag headers now w))"
| restore: "agent_step ag w (snd (daemon_restore_handler ag headers now outcome profile w))"
| autotune_restore: "agent_step ag w (snd (autotune_restore_handler ag headers now outcome w))"
| record_start: "agent_step ag w (snd (start_record_handler ag renv w))"
| record_stop: "agent_step ag w (snd (stop_record_handler ag headers now run w))"
| record_status: "agent_step ag w (status_reap ag headers now finished w)"
| daemon_status: "agent_step ag w (daemon_status_reap ag headers now finished now' ended w)"
| guard: "agent_step ag w (audit_agent_event ''remote-agent-request'' ok 0 message w)"

inductive agent_reachable :: "agent_config \<Rightarrow> agent_world \<Rightarrow> bool" for ag where
  init: "agent_reachable ag
    \<lparr>aw_daemon_state = daemon_state_from_startup_recovery now recovery, aw_active_autotune = None,
     aw_active_run = None, aw_append = write_error, aw_audit = [], aw_unaudited = []\<rparr>"
| step: "agent_reachable ag w \<Longrightarrow> agent_step ag w w' \<Longrightarrow> agent_reachable ag w'"

section \<open>Sessions are authorised and audited\<close>

definition session_allowed :: "agent_config \<Rightarrow> daemon_mode \<Rightarrow> bool" where
  "session_allowed ag mode \<longleftrightarrow>
     (supports_apply mode \<longrightarrow>
        mode = Mode_ApplyLowRisk \<and> apply_token_configured (ag_auth ag) \<and> agent_state_is_local ag
        \<and> remote_mode_supported (ag_autotune_limits ag) mode)"

definition start_audited :: "daemon_mode \<Rightarrow> agent_audit_event list \<Rightarrow> bool" where
  "start_audited mode trail \<longleftrightarrow>
     list_ex (\<lambda>ev. ev_action_id ev = ''remote-autotune-start'' \<and> ev_success ev
       \<and> ev_safety_class ev = safety_class_for_daemon_mode mode) trail"

text \<open>
  The start event was handed to the audit log: its line is in the trail, or the append failed and a warning was
  logged in its place.
\<close>

definition start_handed_to_audit :: "daemon_mode \<Rightarrow> agent_world \<Rightarrow> bool" where
  "start_handed_to_audit mode w \<longleftrightarrow>
     start_audited mode (aw_audit w) \<or> start_audited mode (map fst (aw_unaudited w))"

definition session_inv :: "agent_config \<Rightarrow> agent_world \<Rightarrow> bool" where
  "session_inv ag w \<longleftrightarrow>
     (aw_unaudited w \<noteq> [] \<longrightarrow> (\<exists>n. aw_append w n \<noteq> None))
     \<and> (case aw_active_autotune w of
        None \<Rightarrow> True
      | Some handle \<Rightarrow>
         (let mode = daemon_mode_from_agent_mode (ah_mode handle)
          in ah_mode handle = mode_as_str mode \<and> session_allowed ag mode \<and> start_handed_to_audit mode w))"

lemma start_audited_append [simp]: "start_audited mode trail \<Longrightarrow> start_audited mode (trail @ extra)"
  by (simp add: start_audited_def)

lemma start_audited_Nil [simp]: "\<not> start_audited mode []"
  by (simp add: start_audited_def)

text \<open>What an audit event does to the agent state.\<close>

lemma audit_or_warn_fields [simp]:
  "aw_daemon_state (audit_or_warn event w) = aw_daemon_state w"
  "aw_active_autotune (audit_or_warn event w) = aw_active_autotune w"
  "aw_active_run (audit_or_warn event w) = aw_active_run w"
  "aw_append (audit_or_warn event w) = aw_append w"
  by (simp_all add: audit_or_warn_def append_audit_event_def split: option.split)

lemma audit_or_warn_trail:
  "aw_audit (audit_or_warn event w) =
     aw_audit w @ (case aw_append w (length (aw_audit w) + length (aw_unaudited w)) of None \<Rightarrow> [event] | Some _ \<Rightarrow> [])"
  "aw_unaudited (audit_or_warn event w) =
     aw_unaudited w @ (case aw_append w (length (aw_audit w) + length (aw_unaudited w)) of
        None \<Rightarrow> [] | Some err \<Rightarrow> [(event, ''audit_write_failed err='' @ any_display_alt err)])"
  by (simp_all add: audit_or_warn_def append_audit_event_def split: option.split)

locale session_keeper =
  fixes run :: "agent_world \<Rightarrow> agent_world"
  assumes session: "aw_active_autotune (run w) = None \<or> aw_active_autotune (run w) = aw_active_autotune w"
    and log: "aw_append (run w) = aw_append w"
    and trail: "\<exists>extra. aw_audit (run w) = aw_audit w @ extra"
    and warned: "\<exists>extra. aw_unaudited (run w) = aw_unaudited w @ extra
      \<and> (extra \<noteq> [] \<longrightarrow> (\<exists>n. aw_append w n \<noteq> None))"
begin

lemma keeps_inv: "session_inv ag w \<Longrightarrow> session_inv ag (run w)"
  using session [of w] trail [of w] warned [of w]
  by (auto simp: session_inv_def log start_handed_to_audit_def Let_def split: option.splits)

end

lemma keeper_then:
  assumes f: "session_keeper f" and g: "session_keeper g"
  shows "session_keeper (\<lambda>w. g (f w))"
proof
  fix w
  show "aw_active_autotune (g (f w)) = None \<or> aw_active_autotune (g (f w)) = aw_active_autotune w"
    using session_keeper.session [OF f, of w] session_keeper.session [OF g, of "f w"] by auto
  show "aw_append (g (f w)) = aw_append w"
    by (simp add: session_keeper.log [OF f] session_keeper.log [OF g])
  show "\<exists>extra. aw_audit (g (f w)) = aw_audit w @ extra"
    using session_keeper.trail [OF f, of w] session_keeper.trail [OF g, of "f w"] by auto
  obtain a b where "aw_unaudited (f w) = aw_unaudited w @ a" "a \<noteq> [] \<longrightarrow> (\<exists>n. aw_append w n \<noteq> None)"
      "aw_unaudited (g (f w)) = aw_unaudited (f w) @ b" "b \<noteq> [] \<longrightarrow> (\<exists>n. aw_append w n \<noteq> None)"
    using session_keeper.warned [OF f, of w] session_keeper.warned [OF g, of "f w"]
      session_keeper.log [OF f, of w] by metis
  then show "\<exists>extra. aw_unaudited (g (f w)) = aw_unaudited w @ extra
      \<and> (extra \<noteq> [] \<longrightarrow> (\<exists>n. aw_append w n \<noteq> None))"
    by (intro exI [of _ "a @ b"]) auto
qed

lemma keeper_if:
  "session_keeper f \<Longrightarrow> session_keeper g \<Longrightarrow> session_keeper (\<lambda>w. if P w then f w else g w)"
  unfolding session_keeper_def by simp

lemma keeper_id: "session_keeper (\<lambda>w. w)"
  by unfold_locales simp_all

lemmas world_defs =
  audit_agent_event_def audit_agent_event_with_safety_def replace_agent_daemon_state_def mark_agent_daemon_fault_def
  mark_agent_daemon_policy_rejection_def controller_ended_def Let_def audit_or_warn_trail

interpretation reap: session_keeper "\<lambda>w. snd (reap_finished_autotune now finished w)" for now finished
  by unfold_locales
    (auto simp: reap_finished_autotune_def world_defs split: option.splits controller_result.splits)

interpretation stop: session_keeper "\<lambda>w. snd (autotune_stop_handler ag headers now joined w)" for ag headers now joined
  by unfold_locales
    (auto simp: autotune_stop_handler_def world_defs split: option.splits sum.splits controller_result.splits)

interpretation pause: session_keeper "\<lambda>w. snd (daemon_pause_handler ag headers now w)" for ag headers now
  by unfold_locales (auto simp: daemon_pause_handler_def split: sum.splits)

interpretation resume: session_keeper "\<lambda>w. snd (daemon_resume_handler ag headers now w)" for ag headers now
  by unfold_locales (auto simp: daemon_resume_handler_def split: sum.splits)

interpretation restore: session_keeper "\<lambda>w. snd (daemon_restore_handler ag headers now outcome profile w)"
    for ag headers now outcome profile
  by unfold_locales (auto simp: daemon_restore_handler_def world_defs split: sum.splits option.splits)

interpretation autotune_restore: session_keeper "\<lambda>w. snd (autotune_restore_handler ag headers now outcome w)"
    for ag headers now outcome
  by unfold_locales
    (auto simp: autotune_restore_handler_def autotune_restore_authorized_def world_defs
      split: sum.splits option.splits)

interpretation reap_recording: session_keeper "\<lambda>w. snd (reap_finished_recording now finished w)" for now finished
  by unfold_locales
    (auto simp: reap_finished_recording_def world_defs split: option.splits monitor_result.splits)

interpretation stop_record: session_keeper "\<lambda>w. snd (stop_record_handler ag headers now run w)" for ag headers now run
  by unfold_locales
    (auto simp: stop_record_handler_def world_defs split: sum.splits option.splits monitor_result.splits)

interpretation start_recording: session_keeper "\<lambda>w. snd (start_recording ag env w)" for ag env
  by unfold_locales (auto simp: start_recording_def world_defs split: sum.splits option.splits)

interpretation audit: session_keeper "audit_agent_event action ok affected message" for action ok affected message
  by unfold_locales (auto simp: world_defs split: option.splits)

interpretation fault: session_keeper "mark_agent_daemon_fault now mode decision reason" for now mode decision reason
  by unfold_locales (auto simp: world_defs split: option.splits)

interpretation reject: session_keeper "mark_agent_daemon_policy_rejection now mode decision reason"
    for now mode decision reason
  by unfold_locales (auto simp: world_defs split: option.splits)

lemma keeper_record_start: "session_keeper (\<lambda>w. snd (start_record_handler ag env w))"
proof -
  let ?reap = "\<lambda>w. snd (reap_finished_recording (re_clock env 3) (re_finished env) w)"
  let ?fault = "\<lambda>d r a m w. mark_agent_daemon_fault (re_clock env 0) Mode_Observe d r (audit_agent_event a False 0 m w)"
  have fault: "session_keeper (?fault d r a m)" for d r a m
    by (rule keeper_then [OF audit.session_keeper_axioms fault.session_keeper_axioms])
  have "session_keeper (\<lambda>w. if aw_active_run (?reap w) \<noteq> None
      then ?fault ''record_start_conflict'' ''a recording run is already active'' ''remote-record-start''
             ''conflict: recording already active'' (?reap w)
      else snd (start_recording ag env (?reap w)))"
    by (rule keeper_if [OF keeper_then [OF reap_recording.session_keeper_axioms fault]
          keeper_then [OF reap_recording.session_keeper_axioms start_recording.session_keeper_axioms]])
  then show ?thesis
    using fault unfolding start_record_handler_def Let_def
    by (cases "authorize_agent_privileged_operation (re_headers env) ag StartRecording";
        cases "validate_foreground_title_capture_security (re_request env) ag";
        cases "validate_remote_request_limits (re_request env) (ag_limits ag)")
      (simp_all add: if_distrib [of snd] audit.session_keeper_axioms cong: if_cong)
qed

interpretation record_start: session_keeper "\<lambda>w. snd (start_record_handler ag env w)" for ag env
  by (rule keeper_record_start)

interpretation record_status: session_keeper "status_reap ag headers now finished" for ag headers now finished
  unfolding status_reap_def
  by (cases "authorize headers (ag_auth ag)") (simp_all add: keeper_id reap_recording.session_keeper_axioms)

interpretation daemon_status: session_keeper "daemon_status_reap ag headers now finished now' ended"
    for ag headers now finished now' ended
  unfolding daemon_status_reap_def
  by (cases "authorize headers (ag_auth ag)")
    (simp_all add: keeper_id keeper_then [OF reap_recording.session_keeper_axioms reap.session_keeper_axioms])

section \<open>The start route\<close>

lemma agent_mode_round_trip [simp]: "daemon_mode_from_agent_mode (mode_as_str mode) = mode"
  by (cases mode) (simp_all add: daemon_mode_from_agent_mode_def)

lemma admitted_session_allowed:
  assumes "policy_for_remote_autotune_start headers ag request s health caps now = Inr policy"
  shows "session_allowed ag (dp_mode policy)"
  using admitted_apply [OF assms] by (auto simp: session_allowed_def)

lemma start_session_inv:
  assumes "session_allowed ag (dp_mode policy)" "session_inv ag w"
  shows "session_inv ag (snd (start_session env policy w))"
  using assms
  by (auto simp: start_session_def world_defs session_inv_def start_handed_to_audit_def start_audited_def
      split: sum.splits option.splits)

lemma start_inv:
  assumes "session_inv ag w"
  shows "session_inv ag (snd (autotune_start_handler ag env w))"
proof (cases "policy_for_remote_autotune_start (se_headers env) ag (se_request env) (aw_daemon_state w) (se_health env)
    (se_capabilities env) (se_clock env 0)")
  case (Inl rejection)
  then show ?thesis
    by (simp add: autotune_start_handler_def reject.keeps_inv audit.keeps_inv assms)
next
  case (Inr policy)
  then show ?thesis
    using start_session_inv [OF admitted_session_allowed [OF Inr] reap.keeps_inv [OF assms]]
    by (simp add: autotune_start_handler_def Let_def fault.keeps_inv audit.keeps_inv reap.keeps_inv assms
        split: sum.split)
qed

lemma step_inv: "agent_step ag w w' \<Longrightarrow> session_inv ag w \<Longrightarrow> session_inv ag w'"
  by (induction rule: agent_step.induct)
    (simp_all add: start_inv stop.keeps_inv pause.keeps_inv resume.keeps_inv restore.keeps_inv
      autotune_restore.keeps_inv record_start.keeps_inv stop_record.keeps_inv record_status.keeps_inv
      daemon_status.keeps_inv audit.keeps_inv)

lemma reachable_inv: "agent_reachable ag w \<Longrightarrow> session_inv ag w"
  by (induction rule: agent_reachable.induct) (simp add: session_inv_def, rule step_inv)

lemma running_session_kept:
  assumes "aw_active_autotune w = Some handle" "se_finished env = None"
  shows "aw_active_autotune (snd (autotune_start_handler ag env w)) = Some handle"
  using assms
  by (auto simp: autotune_start_handler_def reap_finished_autotune_def world_defs split: sum.splits)

text \<open>
  C6. In every reachable state of the agent, after any interleaving of its routes: a running autotune session
  that may apply changes runs in mode \<open>apply-low-risk\<close>, on an agent with an apply token that listens locally
  and whose limits allow the mode; its start was handed to the audit log with its safety class, and it stands in
  the trail unless the log refused an append (the code then only logs a warning and the session starts all the
  same); and no start request replaces it while its controller has not finished.
\<close>

theorem running_session_authorised:
  assumes "agent_reachable ag w" "aw_active_autotune w = Some handle"
    and "mode = daemon_mode_from_agent_mode (ah_mode handle)"
  shows "ah_mode handle = mode_as_str mode
    \<and> (supports_apply mode \<longrightarrow>
         mode = Mode_ApplyLowRisk \<and> apply_token_configured (ag_auth ag) \<and> agent_state_is_local ag
         \<and> remote_mode_supported (ag_autotune_limits ag) mode)
    \<and> (start_audited mode (aw_audit w) \<or> start_audited mode (map fst (aw_unaudited w)))
    \<and> ((\<forall>n. aw_append w n = None) \<longrightarrow> start_audited mode (aw_audit w))
    \<and> (se_finished env = None \<longrightarrow> aw_active_autotune (snd (autotune_start_handler ag env w)) = Some handle)"
proof -
  have inv: "session_inv ag w"
    by (rule reachable_inv [OF assms(1)])
  have "start_audited mode (aw_audit w)" if "\<forall>n. aw_append w n = None"
    using inv assms(2,3) that
    by (auto simp: session_inv_def start_handed_to_audit_def start_audited_def Let_def)
  then show ?thesis
    using inv assms(2,3) running_session_kept [OF assms(2)]
    by (simp add: session_inv_def start_handed_to_audit_def session_allowed_def Let_def)
qed

definition initial_world :: agent_world where
  "initial_world =
     \<lparr>aw_daemon_state = default_daemon_state, aw_active_autotune = None, aw_active_run = None,
      aw_append = (\<lambda>_. None), aw_audit = [], aw_unaudited = []\<rparr>"

definition sample_start_env :: start_request_env where
  "sample_start_env =
     \<lparr>se_headers = TextHeader ''Bearer key'', se_request = low_risk_request, se_clock = id,
      se_health = default_health_snapshot, se_capabilities = sample_capabilities, se_finished = None,
      se_monitor_config = Inr (), se_profiles = Inr ()\<rparr>"

definition started_world :: agent_world where
  "started_world = snd (autotune_start_handler sample_agent sample_start_env initial_world)"

lemma sample_session:
  "aw_active_autotune started_world = Some
     \<lparr>ah_mode = ''apply-low-risk'', ah_watch_process = None, ah_tree_pid = Some 7, ah_started_unix_nanos = 1\<rparr>"
proof -
  have "context_ok Intent_Apply
      (policy_context_from_daemon_status default_daemon_state default_health_snapshot sample_capabilities 0)"
    by code_simp
  then have "policy_for_remote_autotune_start (TextHeader ''Bearer key'') sample_agent low_risk_request
      default_daemon_state default_health_snapshot sample_capabilities 0 = Inr sample_granted"
    by (simp add: sample_admitted_iff)
  moreover have "validate_autotune_start_limits low_risk_request sample_agent = Inr ()"
    by code_simp
  moreover have "dp_mode sample_granted = Mode_ApplyLowRisk"
    by (simp add: sample_granted_def)
  ultimately show ?thesis
    by (simp add: started_world_def autotune_start_handler_def sample_start_env_def initial_world_def
        reap_finished_autotune_def start_session_def world_defs low_risk_request_def)
qed

lemma sample_log_works: "aw_append started_world n = None"
  by (simp add: started_world_def autotune_start_handler_def initial_world_def reap_finished_autotune_def
      start_session_def world_defs split: sum.split)

theorem running_session_authorised_witness:
  "aw_active_autotune started_world = Some
     \<lparr>ah_mode = ''apply-low-risk'', ah_watch_process = None, ah_tree_pid = Some 7, ah_started_unix_nanos = 1\<rparr>
   \<and> apply_token_configured (ag_auth sample_agent)
   \<and> start_audited Mode_ApplyLowRisk (aw_audit started_world)"
proof -
  have "agent_reachable sample_agent initial_world"
    using agent_reachable.init [of sample_agent 0 SR_Clean] by (simp add: initial_world_def)
  then have "agent_reachable sample_agent started_world"
    unfolding started_world_def by (intro agent_reachable.step [OF _ agent_step.start])
  from running_session_authorised [OF this sample_session refl, of sample_start_env] sample_session
    sample_log_works show ?thesis
    by (simp add: daemon_mode_from_agent_mode_def)
qed

section \<open>Downloads\<close>

lemma component_no_slash: "validate_id i = Inr () \<longleftrightarrow> i \<noteq> [] \<and> CHR ''/'' \<notin> set i \<and> CHR 0x5C \<notin> set i \<and> \<not> str_contains i ''..''"
  by (simp add: validate_id_def)

lemma no_leading_slash: "CHR ''/'' \<notin> set i \<Longrightarrow> \<not> starts_with i ''/''"
  by (cases i) (auto simp: starts_with_def)

lemma split_on_append_sep: "split_on sep (s @ sep # t) = split_on sep s @ split_on sep t"
  by (induction s) (auto split: list.split)

text \<open>
  C35. Downloads stay inside the runs directory: whatever run id, artifact name, token and file system, a path
  that the download route opens is the runs directory, one component and one allow-listed file name; neither
  component contains a separator or \<open>..\<close>, so the path has no way out of the directory.
\<close>

theorem download_confined:
  assumes "get_artifact_handler ag runs_dir headers exists read_file run_id name = (Some path, result)"
    and "runs_dir \<noteq> []" "last runs_dir \<noteq> CHR ''/''"
  shows "path = runs_dir @ ''/'' @ run_id @ ''/'' @ name
    \<and> split_on CHR ''/'' path = split_on CHR ''/'' runs_dir @ [run_id, name]
    \<and> \<not> str_contains run_id ''..'' \<and> name \<in> set AGENT_ARTIFACT_ALLOWLIST"
proof -
  have ok: "validate_id run_id = Inr ()" "validate_artifact_name name = Inr ()"
    and path: "path = path_join (path_join runs_dir run_id) name"
    using assms(1) by (auto simp: get_artifact_handler_def Let_def split: sum.splits if_splits)
  have name: "validate_id name = Inr ()" "name \<in> set AGENT_ARTIFACT_ALLOWLIST"
    using ok(2) by (cases "validate_id name"; auto simp: validate_artifact_name_def split: if_splits)+
  note parts = ok(1) [unfolded component_no_slash] name(1) [unfolded component_no_slash]
  have inner: "path_join runs_dir run_id = runs_dir @ ''/'' @ run_id"
    using assms(2,3) parts by (simp add: path_join_def no_leading_slash)
  have "last run_id \<noteq> CHR ''/''"
    using parts last_in_set by metis
  then have "path = runs_dir @ ''/'' @ run_id @ ''/'' @ name"
    using parts unfolding path inner by (simp add: path_join_def no_leading_slash)
  then show ?thesis
    using parts name(2) by (simp add: split_on_append_sep split_on_no_sep)
qed

theorem download_confined_witness:
  "get_artifact_handler sample_agent ''/srv/runs'' (TextHeader ''Bearer key'') (\<lambda>_. True) (\<lambda>_. Some ''{}'') ''run-1'' ''session.json''
     = (Some ''/srv/runs/run-1/session.json'', DL_Data ''application/json'' ''{}'')
   \<and> split_on CHR ''/'' ''/srv/runs/run-1/session.json'' = [[], ''srv'', ''runs'', ''run-1'', ''session.json'']"
proof -
  have "authorize (TextHeader ''Bearer key'') (ag_auth sample_agent) = Inr ()"
    by code_simp
  moreover have "validate_id ''run-1'' = Inr ()" "validate_artifact_name ''session.json'' = Inr ()"
    by (simp_all add: validate_id_def validate_artifact_name_def AGENT_ARTIFACT_ALLOWLIST_def)
  moreover have "path_join (path_join ''/srv/runs'' ''run-1'') ''session.json'' = ''/srv/runs/run-1/session.json''"
    by (simp add: path_join_def starts_with_def)
  moreover have "artifact_content_type ''session.json'' = ''application/json''"
    by (simp add: artifact_content_type_def ends_with_def starts_with_def)
  ultimately have g: "get_artifact_handler sample_agent ''/srv/runs'' (TextHeader ''Bearer key'') (\<lambda>_. True) (\<lambda>_. Some ''{}'') ''run-1''
      ''session.json'' = (Some ''/srv/runs/run-1/session.json'', DL_Data ''application/json'' ''{}'')"
    by (simp add: get_artifact_handler_def)
  have "split_on CHR ''/'' ''/srv/runs/run-1/session.json'' = split_on CHR ''/'' ''/srv/runs'' @ [''run-1'', ''session.json'']"
    using download_confined [OF g] by (simp del: split_on.simps)
  also have "split_on CHR ''/'' ''/srv/runs'' = [[], ''srv'', ''runs'']"
    by simp
  finally show ?thesis
    using g by (simp del: split_on.simps)
qed

end
