(* ===== verification/Daemon_State_Facts.thy ===== *)
theory Daemon_State_Facts
  imports Daemon_State
begin

text \<open>
  The profile memory: forgetting splits it in two without reordering or losing a profile, and what the
  revalidation of an old profile does to its confidence.
\<close>

section \<open>Forgetting\<close>

lemma forget_loop_filter:
  "forget_loop matches ps (removed, retained) =
     (removed @ filter matches ps, retained @ filter (\<lambda>p. \<not> matches p) ps)"
  by (induction ps arbitrary: removed retained) simp_all

lemma forget_matching_partition:
  "forget_matching h c all_profiles ps = partition (profile_matches h c all_profiles) ps"
  by (simp add: forget_matching_def forget_loop_filter comp_def)

lemma forget_matching_idempotent:
  "fst (forget_matching h c all_profiles (snd (forget_matching h c all_profiles ps))) = []"
  by (simp add: forget_matching_partition comp_def filter_empty_conv)

section \<open>Revalidation\<close>

definition profile_age :: "daemon_workload_profile \<Rightarrow> nat \<Rightarrow> nat" where
  "profile_age p now = now - (case wp_last_validated_unix_nanos p of Some t \<Rightarrow> t | None \<Rightarrow> wp_kept_unix_nanos p)"

lemma trust_ages: "PROFILE_REVALIDATE_AFTER_NANOS < PROFILE_MAX_TRUST_AGE_NANOS"
  by (simp add: PROFILE_REVALIDATE_AFTER_NANOS_def PROFILE_MAX_TRUST_AGE_NANOS_def)

lemma validation_confidence:
  "pv_confidence_milli (profile_validation p env now) =
     (let c = min (wp_confidence_milli p) 1000;
          c = (if PROFILE_REVALIDATE_AFTER_NANOS < profile_age p now then saturating_mul c 800 div 1000 else c)
      in if PROFILE_MAX_TRUST_AGE_NANOS < profile_age p now then min c 250 else c)"
  by (simp add: profile_validation_def profile_age_def Let_def)

lemma unat_min: "unat (min a b) = min (unat a) (unat b)" for a b :: "'a::len word"
  by (simp add: min_def word_le_nat_alt)

lemma discounted_confidence:
  "unat (saturating_mul (min c 1000) 800 div 1000 :: 16 word) = (if 82 \<le> unat c then 65 else 800 * unat c div 1000)"
  by (auto simp: unat_div word_sat unat_min min_def word_le_nat_alt)

text \<open>
  The confidence discount of a stale profile collapses. The code multiplies by 800 and divides by 1000, to
  keep 80 percent, but in 16-bit saturating arithmetic: once revalidation is due, every profile with a stored
  confidence of at least 82 per mille is left with exactly 65, and the cap of 250 for profiles too old to
  trust never lowers anything.
\<close>

theorem stale_confidence_collapses:
  assumes "PROFILE_REVALIDATE_AFTER_NANOS < profile_age p now"
  shows "unat (pv_confidence_milli (profile_validation p env now)) =
    (if 82 \<le> unat (wp_confidence_milli p) then 65 else 800 * unat (wp_confidence_milli p) div 1000)"
  using assms by (simp add: validation_confidence Let_def unat_min discounted_confidence)

definition sample_profile :: daemon_workload_profile where
  "sample_profile =
     \<lparr>wp_workload_identity_hash = ''h'', wp_workload_label = None, wp_candidate_name = ''c'', wp_action_id = ''a'',
      wp_action_kind = ''k'', wp_safety_class = SC_ReversibleLowRisk, wp_kept_unix_nanos = 0,
      wp_last_validated_unix_nanos = None, wp_diagnostic_baseline_raw_score_total = None,
      wp_diagnostic_candidate_raw_score_total = None, wp_score_delta = 0, wp_confidence_milli = 900,
      wp_environment = \<lparr>pe_hardware_fingerprint = None, pe_kernel_version = None, pe_mesa_driver_version = None,
        pe_cpu_topology_hash = None, pe_scheduler_label = None, pe_scx_state = None, pe_scx_ops = None\<rparr>,
      wp_partition = \<lparr>pp_power_source = None, pp_display_refresh_millihz = None, pp_fps_cap = None,
        pp_graphics_settings_hash = None, pp_scheduler_label = None\<rparr>\<rparr>"

theorem stale_confidence_collapses_witness:
  "unat (pv_confidence_milli (profile_validation sample_profile (wp_environment sample_profile)
     (Suc PROFILE_REVALIDATE_AFTER_NANOS))) = 65"
  using stale_confidence_collapses [of sample_profile "Suc PROFILE_REVALIDATE_AFTER_NANOS"
      "wp_environment sample_profile"]
  by (simp add: profile_age_def sample_profile_def)

end
