(* ===== verification/Crash_Recovery.thy ===== *)
theory Crash_Recovery
  imports Recovery_Model
begin

text \<open>
  Recovery after a crash (\<open>stutter/src/autotune/startup_recovery.rs\<close>, \<open>startup_recovery/ledger.rs\<close>, \<open>gate.rs\<close>) and the
  emergency restore an operator runs (\<open>autotune/emergency_restore/mod.rs\<close>, \<open>audit.rs\<close>, \<open>handler.rs\<close>). The executor
  of a rollback is a parameter, as the trait \<open>StartupRecoveryRollbackExecutor\<close> makes it one; \<open>real_rollback\<close> is the
  executor the program uses, over a registry, a privileged worker and a test for the restore file.
\<close>

section \<open>Executors\<close>

record startup_recovery_rollback_summary =
  su_affected_tasks :: usize
  su_message :: string

type_synonym 'w rollback_executor = "rollback_token \<Rightarrow> 'w \<Rightarrow> (anyhow + startup_recovery_rollback_summary) \<times> 'w"

definition startup_recovery_summary_from_rollback_result ::
  "rollback_token \<Rightarrow> rollback_result \<Rightarrow> startup_recovery_rollback_summary" where
  "startup_recovery_summary_from_rollback_result token r =
     \<lparr>su_affected_tasks = rr_restored r,
      su_message = ''rollback_kind='' @ token_kind token @ '' restored_items='' @ show_nat (rr_restored r)
        @ '' skipped_items='' @ show_nat (rr_skipped_dead r + rr_skipped_identity_mismatch r + rr_legacy_unverified r)
        @ (if 0 < rr_errors r then '' errors='' @ show_nat (rr_errors r) else [])
        @ (if rr_messages r = [] then []
           else '' messages='' @ [CHR 0x22] @ join ''; '' (rr_messages r) @ [CHR 0x22])\<rparr>"

fun needs_privileged_restore :: "rollback_token \<Rightarrow> bool" where
  "needs_privileged_restore (NiceRestore _) = True"
| "needs_privileged_restore (CpuPowerRestore _) = True"
| "needs_privileged_restore _ = False"

fun affinity_file :: "rollback_token \<Rightarrow> string option" where
  "affinity_file (CpuAffinityRestoreFile path _) = Some path"
| "affinity_file _ = None"

text \<open>\<open>worker\<close> is the privileged worker when its socket is configured; \<open>exists\<close> asks the file system.\<close>

definition real_rollback ::
  "(rollback_token \<Rightarrow> 'w \<Rightarrow> (anyhow + usize) \<times> 'w) option \<Rightarrow> (string \<Rightarrow> 'w \<Rightarrow> bool) \<Rightarrow> 'w rollback_handler list
    \<Rightarrow> 'w rollback_executor" where
  "real_rollback worker exists registry token w =
     (case require_automatic_recovery token of
        Inl e \<Rightarrow> (Inl e, w)
      | Inr _ \<Rightarrow>
         (case (needs_privileged_restore token, worker) of
            (True, Some restore) \<Rightarrow>
              (case restore token w of
                 (Inl e, w) \<Rightarrow> (Inl e, w)
               | (Inr restored, w) \<Rightarrow>
                   (Inr \<lparr>su_affected_tasks = restored,
                         su_message = ''rollback_kind='' @ token_kind token @ '' restored_items=''
                           @ show_nat restored @ '' through the privileged worker''\<rparr>, w))
          | _ \<Rightarrow>
              (case affinity_file token of
                 Some path \<Rightarrow>
                   if \<not> exists path w
                   then (Inr \<lparr>su_affected_tasks = 0,
                              su_message = ''rollback_kind='' @ token_kind token @ '' restore file '' @ path
                                @ '' is gone: already restored''\<rparr>, w)
                   else (case restore_token registry token w of
                           (Inl e, w) \<Rightarrow>
                             (Inl (any_context (''startup crash recovery failed to restore rollback token_kind=''
                                @ token_kind token) e), w)
                         | (Inr r, w) \<Rightarrow> (Inr (startup_recovery_summary_from_rollback_result token r), w))
               | None \<Rightarrow>
                   (case restore_token registry token w of
                      (Inl e, w) \<Rightarrow>
                        (Inl (any_context (''startup crash recovery failed to restore rollback token_kind=''
                           @ token_kind token) e), w)
                    | (Inr r, w) \<Rightarrow> (Inr (startup_recovery_summary_from_rollback_result token r), w)))))"

section \<open>What recovery writes down\<close>

record startup_recovery_config =
  sc_rollback_on_crash_recovery :: bool
  sc_journal_path :: string
  sc_audit_path :: string
  sc_history_path :: string
  sc_state_snapshot_path :: string
  sc_default_restore_path :: string
  sc_fault :: "nat \<Rightarrow> write_result"
  sc_now :: nat

definition action_kind_from_action_id :: "string \<Rightarrow> string" where
  "action_kind_from_action_id action_id =
     map (\<lambda>c. if c = CHR ''-'' then CHR ''_'' else c)
       (case split_once (CHR '':'') action_id of Some (kind, _) \<Rightarrow> kind | None \<Rightarrow> action_id)"

definition write_startup_recovery_audit_event ::
  "startup_recovery_config \<Rightarrow> string \<Rightarrow> rollback_token \<Rightarrow> bool \<Rightarrow> usize \<Rightarrow> string \<Rightarrow> (unit, 'w) recovery" where
  "write_startup_recovery_audit_event c action_id token ok affected message =
     rec_context (''failed to write startup recovery audit event to '' @ sc_audit_path c)
       (durable_write (sc_fault c) (\<lambda>d. d\<lparr>dk_audit := dk_audit d @
          [\<lparr>ra_command = ''autotune-startup-recovery'', ra_action_id = action_id,
            ra_safety_class = safety_class_for_rollback_token token, ra_success = ok, ra_affected_tasks = affected,
            ra_restore_path = restore_path token, ra_message = message\<rparr>]\<rparr>))"

definition write_startup_recovery_history_event ::
  "startup_recovery_config \<Rightarrow> controller_phase \<Rightarrow> string \<Rightarrow> string \<Rightarrow> string \<Rightarrow> rollback_token \<Rightarrow> bool \<Rightarrow> string
    \<Rightarrow> (unit, 'w) recovery" where
  "write_startup_recovery_history_event c phase decision experiment_id action_id token performed reason =
     rec_context (''failed to write startup recovery history event to '' @ sc_history_path c)
       (durable_write (sc_fault c) (\<lambda>d. d\<lparr>dk_history := dk_history d @
          [\<lparr>rh_controller_id = ''startup-recovery'', rh_phase = phase, rh_decision = decision,
            rh_candidate_name = candidate_name_from_action_id action_id,
            rh_action_kind = action_kind_from_action_id action_id,
            rh_safety_class = safety_class_for_rollback_token token,
            rh_rollback_policy = ''rollback-on-crash-recovery'', rh_experiment_id = experiment_id,
            rh_action_id = action_id, rh_rollback_performed = performed, rh_reason = reason\<rparr>]\<rparr>))"

definition write_startup_recovery_daemon_state_snapshot ::
  "startup_recovery_config \<Rightarrow> startup_recovery_input \<Rightarrow> (unit, 'w) recovery" where
  "write_startup_recovery_daemon_state_snapshot c i =
     rec_context (''failed to write startup recovery daemon state snapshot to '' @ sc_state_snapshot_path c)
       (durable_write (sc_fault c)
          (\<lambda>d. d\<lparr>dk_snapshot := Some (daemon_state_for_startup_recovery_snapshot (sc_now c) i)\<rparr>))"

section \<open>Recovering one token\<close>

datatype recovery_source = FromJournal | FromLedger

definition recovery_manual_command :: "startup_recovery_config \<Rightarrow> rollback_token \<Rightarrow> string" where
  "recovery_manual_command c token =
     (let command = manual_restore_command_for_token (sc_default_restore_path c) token
      in if trim command = []
         then ''inspect retained controller journal '' @ sc_journal_path c @ '': token_kind='' @ token_kind token
              @ '' contains no manual restore operations''
         else command)"

definition with_quoted_command :: "string \<Rightarrow> string \<Rightarrow> string" where
  "with_quoted_command message command =
     message @ ''; manual_restore_command='' @ [CHR 0x22] @ command @ [CHR 0x22]"

definition journal_names_token :: "string \<Rightarrow> rollback_token \<Rightarrow> (bool, 'w) recovery" where
  "journal_names_token path token = (\<lambda>(d, w).
     (Inr (case journal_of_file path (dk_journal d) of
             Inr r \<Rightarrow> jr_rollback_token r = Some token
           | Inl _ \<Rightarrow> False), d, w))"

definition run_executor :: "'w rollback_executor \<Rightarrow> rollback_token
    \<Rightarrow> (anyhow + startup_recovery_rollback_summary, 'w) recovery" where
  "run_executor executor token = (\<lambda>(d, w).
     case require_automatic_recovery token of
       Inl e \<Rightarrow> (Inr (Inl e), d, w)
     | Inr _ \<Rightarrow> (case executor token w of (r, w') \<Rightarrow> (Inr r, d, w')))"

definition forget_restored_token ::
  "startup_recovery_config \<Rightarrow> string \<Rightarrow> string \<Rightarrow> rollback_token \<Rightarrow> recovery_source \<Rightarrow> (unit, 'w) recovery" where
  "forget_restored_token c experiment_id action_id token source =
     rec_bind (journal_names_token (sc_journal_path c) token) (\<lambda>names.
     rec_bind (if source = FromJournal \<or> names
               then rec_context (''failed to clear controller journal after crash-recovery rollback for action_id=''
                      @ action_id) (write_controller_journal_clean (sc_fault c))
               else rec_return ()) (\<lambda>_.
     rec_context ''failed to retire the kept-action ledger entry'' (retire_kept (sc_fault c) experiment_id)))"

definition report_recovered ::
  "startup_recovery_config \<Rightarrow> string \<Rightarrow> string \<Rightarrow> rollback_token \<Rightarrow> startup_recovery_rollback_summary
    \<Rightarrow> (startup_recovery_outcome, 'w) recovery" where
  "report_recovered c experiment_id action_id token summary =
     (let command = recovery_manual_command c token
      in rec_bind (write_startup_recovery_audit_event c action_id token True (su_affected_tasks summary)
                    (''startup crash recovery rollback succeeded experiment_id='' @ experiment_id @ '' action_id=''
                     @ action_id @ '' '' @ su_message summary)) (\<lambda>_.
         rec_bind (write_startup_recovery_history_event c CPh_Cooldown ''restored'' experiment_id action_id token True
                    (with_quoted_command ''startup crash recovery rollback succeeded'' command)) (\<lambda>_.
         rec_bind (write_startup_recovery_daemon_state_snapshot c
                    \<lparr>si_phase = DPh_Cooldown, si_decision = ''restored'',
                     si_reason = ''startup crash recovery rollback succeeded; affected_tasks=''
                       @ show_nat (su_affected_tasks summary),
                     si_experiment_id = experiment_id, si_action_id = action_id, si_rollback_token = None,
                     si_rollback_available = False, si_include_active_experiment = False, si_faulted = False,
                     si_manual_restore_command = Some command\<rparr>) (\<lambda>_.
         rec_return (SR_Recovered experiment_id action_id (su_affected_tasks summary) command)))))"

definition recovery_succeeded ::
  "startup_recovery_config \<Rightarrow> string \<Rightarrow> string \<Rightarrow> rollback_token \<Rightarrow> recovery_source
    \<Rightarrow> startup_recovery_rollback_summary \<Rightarrow> (startup_recovery_outcome, 'w) recovery" where
  "recovery_succeeded c experiment_id action_id token source summary =
     rec_bind (forget_restored_token c experiment_id action_id token source) (\<lambda>_.
       report_recovered c experiment_id action_id token summary)"

definition recovery_failed ::
  "startup_recovery_config \<Rightarrow> string \<Rightarrow> string \<Rightarrow> rollback_token \<Rightarrow> anyhow
    \<Rightarrow> (startup_recovery_outcome, 'w) recovery" where
  "recovery_failed c experiment_id action_id token err =
     (let command = recovery_manual_command c token;
          reason = ''startup crash recovery rollback failed: '' @ any_display_alt err
      in rec_bind (write_startup_recovery_audit_event c action_id token False 0
                    (with_quoted_command reason command)) (\<lambda>_.
         rec_bind (write_startup_recovery_history_event c CPh_Faulted ''CrashRecoveryFault'' experiment_id action_id
                    token False (with_quoted_command reason command)) (\<lambda>_.
         rec_bind (write_startup_recovery_daemon_state_snapshot c
                    \<lparr>si_phase = DPh_Faulted, si_decision = ''faulted'', si_reason = reason,
                     si_experiment_id = experiment_id, si_action_id = action_id, si_rollback_token = Some token,
                     si_rollback_available = True, si_include_active_experiment = True, si_faulted = True,
                     si_manual_restore_command = Some command\<rparr>) (\<lambda>_.
         rec_return (SR_Faulted experiment_id action_id command reason)))))"

definition rollback_disabled ::
  "startup_recovery_config \<Rightarrow> string \<Rightarrow> string \<Rightarrow> rollback_token \<Rightarrow> (startup_recovery_outcome, 'w) recovery" where
  "rollback_disabled c experiment_id action_id token =
     (let command = recovery_manual_command c token
      in rec_bind (write_startup_recovery_daemon_state_snapshot c
           \<lparr>si_phase = DPh_Faulted, si_decision = ''rollback_disabled'',
            si_reason = with_quoted_command ''startup crash recovery rollback disabled'' command,
            si_experiment_id = experiment_id, si_action_id = action_id, si_rollback_token = Some token,
            si_rollback_available = True, si_include_active_experiment = True, si_faulted = True,
            si_manual_restore_command = Some command\<rparr>) (\<lambda>_.
         rec_return (SR_RollbackDisabled experiment_id action_id command)))"

definition recover_applied_journal_record ::
  "startup_recovery_config \<Rightarrow> 'w rollback_executor \<Rightarrow> string \<Rightarrow> string \<Rightarrow> rollback_token \<Rightarrow> recovery_source
    \<Rightarrow> (startup_recovery_outcome, 'w) recovery" where
  "recover_applied_journal_record c executor experiment_id action_id token source =
     (if \<not> sc_rollback_on_crash_recovery c then rollback_disabled c experiment_id action_id token
      else rec_bind (run_executor executor token) (\<lambda>result.
             case result of
               Inr summary \<Rightarrow> recovery_succeeded c experiment_id action_id token source summary
             | Inl err \<Rightarrow> recovery_failed c experiment_id action_id token err))"

section \<open>The whole recovery\<close>

definition recover_without_token ::
  "startup_recovery_config \<Rightarrow> controller_journal_record \<Rightarrow> (startup_recovery_outcome, 'w) recovery" where
  "recover_without_token c r =
     (case journal_experiment_action r of (experiment_id, action_id) \<Rightarrow>
        rec_bind (write_startup_recovery_daemon_state_snapshot c
          \<lparr>si_phase = DPh_Faulted,
           si_decision = (if jr_state r = CJ_Applying then ''applying_without_rollback'' else ''missing_rollback_token''),
           si_reason = ''startup crash recovery found '' @ journal_state_as_str (jr_state r)
             @ '' journal without rollback token'',
           si_experiment_id = experiment_id, si_action_id = action_id, si_rollback_token = None,
           si_rollback_available = False, si_include_active_experiment = True, si_faulted = True,
           si_manual_restore_command = Some ''stutter daemon emergency-restore''\<rparr>) (\<lambda>_.
        rec_return (SR_ApplyingWithoutRollback experiment_id action_id)))"

definition recover_phase ::
  "startup_recovery_config \<Rightarrow> 'w rollback_executor \<Rightarrow> controller_journal_record
    \<Rightarrow> (startup_recovery_outcome, 'w) recovery" where
  "recover_phase c executor r =
     (case jr_state r of
         CJ_Clean \<Rightarrow> rec_return SR_Clean
       | CJ_Reverted \<Rightarrow>
           rec_bind (rec_context ''failed to clear reverted controller journal phase during startup recovery''
             (write_controller_journal_clean (sc_fault c))) (\<lambda>_. rec_return SR_Clean)
       | CJ_Planned \<Rightarrow>
           rec_bind (rec_context ''failed to clear pre-apply controller journal phase=planned during startup recovery''
             (write_controller_journal_clean (sc_fault c))) (\<lambda>_. rec_return SR_Clean)
       | CJ_Preflighted \<Rightarrow>
           rec_bind (rec_context ''failed to clear pre-apply controller journal phase=preflighted during startup recovery''
             (write_controller_journal_clean (sc_fault c))) (\<lambda>_. rec_return SR_Clean)
       | _ \<Rightarrow>
           (case jr_rollback_token r of
              Some token \<Rightarrow>
                recover_applied_journal_record c executor (fst (journal_experiment_action r))
                  (snd (journal_experiment_action r)) token FromJournal
            | None \<Rightarrow> recover_without_token c r))"

definition recover_journal_record ::
  "startup_recovery_config \<Rightarrow> 'w rollback_executor \<Rightarrow> (startup_recovery_outcome, 'w) recovery" where
  "recover_journal_record c executor =
     rec_bind (read_controller_journal (sc_journal_path c)) (recover_phase c executor)"

fun recover_entries ::
  "startup_recovery_config \<Rightarrow> 'w rollback_executor \<Rightarrow> kept_ledger_entry list
    \<Rightarrow> (startup_recovery_outcome list, 'w) recovery" where
  "recover_entries c executor [] = rec_return []"
| "recover_entries c executor (e # es) =
     rec_bind (recover_applied_journal_record c executor (ke_experiment_id e) (ke_action_id e) (ke_rollback_token e)
       FromLedger) (\<lambda>outcome.
     rec_bind (recover_entries c executor es) (\<lambda>outcomes. rec_return (outcome # outcomes)))"

definition recover_kept_ledger ::
  "startup_recovery_config \<Rightarrow> 'w rollback_executor \<Rightarrow> (startup_recovery_outcome list, 'w) recovery" where
  "recover_kept_ledger c executor =
     rec_bind read_kept_ledger (\<lambda>l. recover_entries c executor (kl_entries l))"

fun outcome_is_faulted :: "startup_recovery_outcome \<Rightarrow> bool" where
  "outcome_is_faulted (SR_Faulted _ _ _ _) = True"
| "outcome_is_faulted _ = False"

definition combine :: "startup_recovery_outcome list \<Rightarrow> startup_recovery_outcome \<Rightarrow> startup_recovery_outcome" where
  "combine kept journal =
     (if outcome_is_faulted journal then journal
      else case find outcome_is_faulted kept of
             Some faulted \<Rightarrow> faulted
           | None \<Rightarrow>
               if journal \<noteq> SR_Clean then journal
               else case kept of outcome # _ \<Rightarrow> outcome | [] \<Rightarrow> journal)"

definition recover_controller_journal_with_executor ::
  "startup_recovery_config \<Rightarrow> 'w rollback_executor \<Rightarrow> (startup_recovery_outcome, 'w) recovery" where
  "recover_controller_journal_with_executor c executor =
     rec_bind (recover_kept_ledger c executor) (\<lambda>kept.
     rec_bind (recover_journal_record c executor) (\<lambda>journal. rec_return (combine kept journal)))"

definition recover_before_start ::
  "startup_recovery_config \<Rightarrow> 'w rollback_executor \<Rightarrow> (startup_recovery_outcome, 'w) recovery" where
  "recover_before_start c executor =
     rec_bind (recover_controller_journal_with_executor c executor) (\<lambda>outcome.
       case outcome of
         SR_Faulted _ _ command _ \<Rightarrow>
           rec_fail (anyhow_msg (''autotune startup recovery failed; controller is Faulted; manual restore command: ''
             @ command))
       | _ \<Rightarrow> rec_return outcome)"

section \<open>Emergency restore\<close>

record autotune_restore_command_input =
  rc_journal_path :: string
  rc_audit_path :: string
  rc_history_path :: string
  rc_dry_run :: bool
  rc_default_restore_path :: string
  rc_fault :: "nat \<Rightarrow> write_result"

record rollback_restore_summary =
  rs_rollback_kind :: string
  rs_restored_items :: usize
  rs_skipped_items :: usize
  rs_skipped_missing :: usize
  rs_skipped_identity_mismatch :: usize
  rs_failed_items :: usize
  rs_messages :: "string list"

definition rollback_restore_summary_from_registry_result ::
  "rollback_token \<Rightarrow> rollback_result \<Rightarrow> rollback_restore_summary" where
  "rollback_restore_summary_from_registry_result token r =
     \<lparr>rs_rollback_kind = token_kind token, rs_restored_items = rr_restored r,
      rs_skipped_items = rr_skipped_dead r + rr_skipped_identity_mismatch r + rr_legacy_unverified r,
      rs_skipped_missing = rr_skipped_dead r, rs_skipped_identity_mismatch = rr_skipped_identity_mismatch r,
      rs_failed_items = rr_errors r, rs_messages = rr_messages r\<rparr>"

definition render_summary_messages :: "string list \<Rightarrow> string" where
  "render_summary_messages messages =
     (if messages = [] then [] else '' messages=['' @ join '', '' (map debug_str messages) @ '']'')"

definition write_emergency_restore_audit_event ::
  "autotune_restore_command_input \<Rightarrow> string \<Rightarrow> rollback_token \<Rightarrow> bool \<Rightarrow> usize \<Rightarrow> string \<Rightarrow> (unit, 'w) recovery" where
  "write_emergency_restore_audit_event i action_id token ok affected message =
     rec_context (''failed to write emergency restore audit event to '' @ rc_audit_path i)
       (durable_write (rc_fault i) (\<lambda>d. d\<lparr>dk_audit := dk_audit d @
          [\<lparr>ra_command = ''autotune emergency restore'', ra_action_id = action_id,
            ra_safety_class = safety_class_for_rollback_token token, ra_success = ok, ra_affected_tasks = affected,
            ra_restore_path = restore_path token, ra_message = message\<rparr>]\<rparr>))"

definition write_emergency_restore_history_event ::
  "autotune_restore_command_input \<Rightarrow> controller_phase \<Rightarrow> string \<Rightarrow> string \<Rightarrow> string \<Rightarrow> rollback_token \<Rightarrow> bool \<Rightarrow> string
    \<Rightarrow> (unit, 'w) recovery" where
  "write_emergency_restore_history_event i phase decision experiment_id action_id token performed reason =
     (case res_bind (validate_non_empty ''ExperimentId'' experiment_id) (\<lambda>_. validate_non_empty ''ActionId'' action_id) of
        Inl m \<Rightarrow> rec_fail (anyhow_msg m)
      | Inr _ \<Rightarrow>
          rec_context (''failed to write emergency restore history event to '' @ rc_history_path i)
            (durable_write (rc_fault i) (\<lambda>d. d\<lparr>dk_history := dk_history d @
               [\<lparr>rh_controller_id = ''emergency-restore'', rh_phase = phase, rh_decision = decision,
                 rh_candidate_name = candidate_name_from_action_id action_id,
                 rh_action_kind = action_kind_from_action_id action_id,
                 rh_safety_class = safety_class_for_rollback_token token, rh_rollback_policy = ''emergency-restore'',
                 rh_experiment_id = experiment_id, rh_action_id = action_id, rh_rollback_performed = performed,
                 rh_reason = reason\<rparr>]\<rparr>)))"

definition restore_outcome ::
  "autotune_restore_status \<Rightarrow> usize \<Rightarrow> usize \<Rightarrow> usize \<Rightarrow> string list \<Rightarrow> autotune_restore_outcome" where
  "restore_outcome status restored failed skipped messages =
     \<lparr>ro_status = status, ro_restored_actions = restored, ro_failed_actions = failed, ro_skipped_actions = skipped,
      ro_restored_records = 0, ro_skipped_missing = 0, ro_skipped_identity_mismatch = 0, ro_failed_records = 0,
      ro_messages = messages\<rparr>"

definition with_summary :: "rollback_restore_summary \<Rightarrow> autotune_restore_outcome \<Rightarrow> autotune_restore_outcome" where
  "with_summary m r =
     r\<lparr>ro_restored_records := rs_restored_items m, ro_skipped_missing := rs_skipped_missing m,
       ro_skipped_identity_mismatch := rs_skipped_identity_mismatch m, ro_failed_records := rs_failed_items m\<rparr>"

definition ids_label :: "string \<Rightarrow> string \<Rightarrow> string" where
  "ids_label experiment_id action_id = ''experiment_id='' @ experiment_id @ '' action_id='' @ action_id"

definition items_label :: "rollback_restore_summary \<Rightarrow> string" where
  "items_label m =
     ''rollback_kind='' @ rs_rollback_kind m @ '' restored_items='' @ show_nat (rs_restored_items m)
     @ '' skipped_items='' @ show_nat (rs_skipped_items m)"

definition failed_label :: "rollback_restore_summary \<Rightarrow> string" where
  "failed_label m = items_label m @ '' failed_items='' @ show_nat (rs_failed_items m)"

definition command_label :: "string \<Rightarrow> string" where
  "command_label command = '' manual_restore_command='' @ [CHR 0x22] @ command @ [CHR 0x22]"

definition restore_incomplete ::
  "autotune_restore_command_input \<Rightarrow> string \<Rightarrow> string \<Rightarrow> rollback_token \<Rightarrow> rollback_restore_summary
    \<Rightarrow> (autotune_restore_outcome, 'w) recovery" where
  "restore_incomplete i experiment_id action_id token m =
     (let command = manual_restore_command_for_token (rc_default_restore_path i) token;
          ids = ids_label experiment_id action_id
      in rec_bind (write_emergency_restore_audit_event i action_id token False (rs_restored_items m)
           (''autotune emergency restore incomplete '' @ ids @ '' '' @ failed_label m @ command_label command
            @ render_summary_messages (rs_messages m))) (\<lambda>_.
         rec_bind (write_emergency_restore_history_event i CPh_Faulted ''EmergencyRestoreFault'' experiment_id action_id
           token False (''autotune emergency restore incomplete '' @ failed_label m @ command_label command)) (\<lambda>_.
         rec_return (with_summary m (restore_outcome RS_Faulted 0 1 0
           [''autotune restore failed: '' @ ids @ '' '' @ failed_label m])))))"

definition restore_complete ::
  "autotune_restore_command_input \<Rightarrow> string \<Rightarrow> string \<Rightarrow> rollback_token \<Rightarrow> rollback_restore_summary
    \<Rightarrow> (autotune_restore_outcome, 'w) recovery" where
  "restore_complete i experiment_id action_id token m =
     (let command = manual_restore_command_for_token (rc_default_restore_path i) token;
          ids = ids_label experiment_id action_id
      in rec_bind (rec_context (''failed to clear controller journal after emergency restore '' @ rc_journal_path i)
           (write_controller_journal_clean (rc_fault i))) (\<lambda>_.
         rec_bind (write_emergency_restore_audit_event i action_id token True (rs_restored_items m)
           (''autotune emergency restore succeeded '' @ ids @ '' '' @ items_label m @ command_label command
            @ render_summary_messages (rs_messages m))) (\<lambda>_.
         rec_bind (write_emergency_restore_history_event i CPh_Cooldown ''restored'' experiment_id action_id token True
           (''autotune emergency restore succeeded '' @ items_label m)) (\<lambda>_.
         rec_return (with_summary m (restore_outcome RS_Restored 1 0 0
           [''autotune restore: restored '' @ ids @ '' '' @ items_label m]))))))"

definition restore_errored ::
  "autotune_restore_command_input \<Rightarrow> string \<Rightarrow> string \<Rightarrow> rollback_token \<Rightarrow> anyhow
    \<Rightarrow> (autotune_restore_outcome, 'w) recovery" where
  "restore_errored i experiment_id action_id token err =
     (let command = manual_restore_command_for_token (rc_default_restore_path i) token;
          ids = ids_label experiment_id action_id;
          kind_error = ''rollback_kind='' @ token_kind token @ '' error='' @ any_display_alt err
      in rec_bind (write_emergency_restore_audit_event i action_id token False 0
           (''autotune emergency restore failed '' @ ids @ '' '' @ kind_error @ command_label command)) (\<lambda>_.
         rec_bind (write_emergency_restore_history_event i CPh_Faulted ''EmergencyRestoreFault'' experiment_id action_id
           token False (''autotune emergency restore failed '' @ kind_error @ command_label command)) (\<lambda>_.
         rec_return ((restore_outcome RS_Faulted 0 1 0
           [''autotune restore failed: '' @ ids @ '' '' @ kind_error,
            ''manual_restore_command='' @ [CHR 0x22] @ command @ [CHR 0x22]])\<lparr>ro_failed_records := 1\<rparr>))))"

definition on_world :: "('w \<Rightarrow> 'a \<times> 'w) \<Rightarrow> ('a, 'w) recovery" where
  "on_world f = (\<lambda>(d, w). case f w of (r, w') \<Rightarrow> (Inr r, d, w'))"

definition restore_applied_journal_record ::
  "autotune_restore_command_input \<Rightarrow> 'w rollback_handler list \<Rightarrow> string \<Rightarrow> string \<Rightarrow> rollback_token
    \<Rightarrow> (autotune_restore_outcome, 'w) recovery" where
  "restore_applied_journal_record i registry experiment_id action_id token =
     (if rc_dry_run i
      then rec_bind (on_world (preview_token registry token)) (\<lambda>result.
             case result of
               Inl e \<Rightarrow> rec_fail e
             | Inr preview \<Rightarrow>
                 rec_return (restore_outcome RS_DryRun 0 0 1
                   [''autotune restore dry-run: would restore '' @ ids_label experiment_id action_id
                      @ '' rollback_kind='' @ token_kind token @ '' affected_tasks='' @ show_nat (rp_affected_tasks preview)
                      @ command_label (manual_restore_command_for_token (rc_default_restore_path i) token),
                    rp_message preview]))
      else rec_bind (on_world (restore_token registry token)) (\<lambda>result.
             case result of
               Inl err \<Rightarrow> restore_errored i experiment_id action_id token err
             | Inr r \<Rightarrow>
                (let m = rollback_restore_summary_from_registry_result token r
                 in if 0 < rs_failed_items m then restore_incomplete i experiment_id action_id token m
                    else restore_complete i experiment_id action_id token m)))"

definition restore_known_autotune_actions ::
  "autotune_restore_command_input \<Rightarrow> 'w rollback_handler list \<Rightarrow> (autotune_restore_outcome, 'w) recovery" where
  "restore_known_autotune_actions i registry =
     rec_bind (read_controller_journal (rc_journal_path i)) (\<lambda>r.
       let nothing = restore_outcome RS_Clean 0 0 0
             [''autotune restore: no active autotune action in '' @ rc_journal_path i];
           (experiment_id, action_id) = journal_experiment_action r
       in case jr_state r of
            CJ_Clean \<Rightarrow> rec_return nothing
          | CJ_Planned \<Rightarrow> rec_return nothing
          | CJ_Preflighted \<Rightarrow> rec_return nothing
          | CJ_Reverted \<Rightarrow>
              if rc_dry_run i then rec_return nothing
              else rec_bind (rec_context (''failed to clear reverted controller journal '' @ rc_journal_path i)
                     (write_controller_journal_clean (rc_fault i))) (\<lambda>_. rec_return nothing)
          | _ \<Rightarrow>
             (case jr_rollback_token r of
                None \<Rightarrow>
                  rec_return (restore_outcome RS_ApplyingWithoutRollbackToken 0 0 1
                    [''autotune restore: journal is '' @ journal_state_as_str (jr_state r)
                       @ '' without rollback_token '' @ ids_label experiment_id action_id
                       @ ''; no automatic restore is possible''])
              | Some token \<Rightarrow> restore_applied_journal_record i registry experiment_id action_id token))"

end
