(* ===== verification/Crash_Recovery_Facts.thy ===== *)
theory Crash_Recovery_Facts
  imports Crash_Recovery
begin

text \<open>
  What crash recovery guarantees. A token is durable when the journal names it in a phase that may have changed the
  system, or when an entry of the kept ledger carries it. The executor is run with a log of the tokens that it
  answered with \<open>Ok\<close>.
  Every computation of the recovery is followed along the relation \<open>drops T\<close>: from one disk to the next, only
  tokens in \<open>T\<close> lose a durable record. The locale \<open>bookkeeping\<close> is the contract of the steps that touch neither
  the journal nor the ledger.
\<close>

section \<open>Durable tokens\<close>

definition journal_tokens :: "recovery_disk \<Rightarrow> rollback_token list" where
  "journal_tokens d =
     (case dk_journal d of
        Stored r \<Rightarrow>
          if may_have_mutated_system r then case jr_rollback_token r of Some t \<Rightarrow> [t] | None \<Rightarrow> [] else []
      | _ \<Rightarrow> [])"

definition ledger_entries :: "recovery_disk \<Rightarrow> kept_ledger_entry list" where
  "ledger_entries d = (case dk_ledger d of Stored l \<Rightarrow> kl_entries l | _ \<Rightarrow> [])"

definition durable_tokens :: "recovery_disk \<Rightarrow> rollback_token list" where
  "durable_tokens d = journal_tokens d @ map ke_rollback_token (ledger_entries d)"

text \<open>An experiment owns one token: equal experiment ids, in the ledger and in the journal, carry equal tokens.\<close>

definition tokens_agree :: "recovery_disk \<Rightarrow> bool" where
  "tokens_agree d \<longleftrightarrow>
     list_all (\<lambda>e. list_all (\<lambda>e'. ke_experiment_id e' = ke_experiment_id e
       \<longrightarrow> ke_rollback_token e' = ke_rollback_token e) (ledger_entries d)) (ledger_entries d)
     \<and> (case dk_journal d of
          Stored r \<Rightarrow>
            (case jr_rollback_token r of
               Some t \<Rightarrow> list_all (\<lambda>e. ke_experiment_id e = fst (journal_experiment_action r)
                 \<longrightarrow> ke_rollback_token e = t) (ledger_entries d)
             | None \<Rightarrow> True)
        | _ \<Rightarrow> True)"

definition drops :: "rollback_token set \<Rightarrow> recovery_disk \<Rightarrow> recovery_disk \<Rightarrow> bool" where
  "drops T d d' \<longleftrightarrow>
     (dk_journal d' = dk_journal d \<or> dk_journal d' = Stored journal_clean \<and> set (journal_tokens d) \<subseteq> T)
     \<and> set (ledger_entries d') \<subseteq> set (ledger_entries d)
     \<and> (\<forall>e \<in> set (ledger_entries d) - set (ledger_entries d'). ke_rollback_token e \<in> T)"

lemma journal_tokens_clean [simp]: "dk_journal d = Stored journal_clean \<Longrightarrow> journal_tokens d = []"
  by (simp add: journal_tokens_def may_have_mutated_system_def journal_clean_def)

lemma journal_tokens_stored:
  "dk_journal d = Stored r \<Longrightarrow> jr_rollback_token r = Some t \<Longrightarrow> set (journal_tokens d) \<subseteq> {t}"
  unfolding journal_tokens_def by (cases "may_have_mutated_system r") simp_all

lemma journal_tokens_cong: "dk_journal d' = dk_journal d \<Longrightarrow> journal_tokens d' = journal_tokens d"
  by (simp add: journal_tokens_def)

lemma drops_refl [simp]: "drops T d d"
  by (simp add: drops_def)

lemma drops_mono: "drops T d d' \<Longrightarrow> T \<subseteq> U \<Longrightarrow> drops U d d'"
  unfolding drops_def by blast

lemma drops_trans: "drops T d d' \<Longrightarrow> drops T d' d'' \<Longrightarrow> drops T d d''"
  unfolding drops_def using journal_tokens_cong [of d' d] by auto

lemma drops_durable: "drops T d d' \<Longrightarrow> set (durable_tokens d) \<subseteq> T \<union> set (durable_tokens d')"
  unfolding drops_def durable_tokens_def using journal_tokens_cong [of d' d] by auto

lemma drops_entries: "drops T d d' \<Longrightarrow> set (ledger_entries d') \<subseteq> set (ledger_entries d)"
  by (simp add: drops_def)

lemma drops_agree:
  assumes "drops T d d'" "tokens_agree d"
  shows "tokens_agree d'"
proof -
  have sub: "set (ledger_entries d') \<subseteq> set (ledger_entries d)"
    using assms(1) by (rule drops_entries)
  then have ledger: "list_all (\<lambda>e. list_all (\<lambda>e'. ke_experiment_id e' = ke_experiment_id e
      \<longrightarrow> ke_rollback_token e' = ke_rollback_token e) (ledger_entries d')) (ledger_entries d')"
    using assms(2) unfolding tokens_agree_def list_all_iff by blast
  from assms(1) consider "dk_journal d' = dk_journal d" | "dk_journal d' = Stored journal_clean"
    unfolding drops_def by blast
  then show ?thesis
  proof cases
    case 1
    with assms(2) sub ledger show ?thesis
      unfolding tokens_agree_def list_all_iff
      by (cases "dk_journal d") (simp_all add: subset_iff split: option.splits)
  next
    case 2
    with ledger show ?thesis
      by (simp add: tokens_agree_def journal_clean_def)
  qed
qed

section \<open>Logged executors and the steps of a recovery\<close>

definition logged :: "'w rollback_executor \<Rightarrow> ('w \<times> rollback_token list) rollback_executor" where
  "logged executor token = (\<lambda>(w, done).
     case executor token w of
       (Inr s, w') \<Rightarrow> (Inr s, w', token # done)
     | (Inl e, w') \<Rightarrow> (Inl e, w', done))"

type_synonym 'w logged_state = "recovery_disk \<times> 'w \<times> rollback_token list"

definition keeps_tokens :: "('a, 'w \<times> rollback_token list) recovery \<Rightarrow> 'w logged_state \<Rightarrow> bool" where
  "keeps_tokens m s \<longleftrightarrow>
     (case (s, snd (m s)) of ((d, _, done), (d', _, done')) \<Rightarrow>
        set done \<subseteq> set done' \<and> drops (set done') d d')"

lemma keeps_tokens_bind:
  assumes "keeps_tokens m s" "\<And>x s'. m s = (Inr x, s') \<Longrightarrow> keeps_tokens (f x) s'"
  shows "keeps_tokens (rec_bind m f) s"
proof -
  obtain r s' where Pair: "m s = (r, s')"
    by (rule prod.exhaust)
  show ?thesis
  proof (cases r)
    case (Inl e)
    then show ?thesis
      using assms(1) Pair by (simp add: keeps_tokens_def rec_bind_def)
  next
    case (Inr x)
    then have "keeps_tokens (f x) s'"
      using assms(2) Pair by simp
    then show ?thesis
      using assms(1) Pair Inr unfolding keeps_tokens_def rec_bind_def
      by (auto split: prod.splits intro: drops_mono drops_trans)
  qed
qed

lemma keeps_tokens_return [simp]: "keeps_tokens (rec_return x) s"
  by (cases s) (simp add: keeps_tokens_def rec_return_def)

lemma keeps_tokens_context [simp]: "keeps_tokens (rec_context c m) s \<longleftrightarrow> keeps_tokens m s"
  by (simp add: keeps_tokens_def rec_context_def split: prod.splits sum.splits)

text \<open>The steps that only read, or write the audit log, the history or the snapshot.\<close>

locale bookkeeping =
  fixes m :: "('a, 'w) recovery"
  assumes same_journal: "dk_journal (fst (snd (m s))) = dk_journal (fst s)"
    and same_ledger: "dk_ledger (fst (snd (m s))) = dk_ledger (fst s)"
    and same_world: "snd (snd (m s)) = snd s"
begin

lemma same_entries: "ledger_entries (fst (snd (m s))) = ledger_entries (fst s)"
  using same_ledger [of s] by (simp add: ledger_entries_def)

lemma after: "m s = (r, s') \<Longrightarrow> dk_journal (fst s') = dk_journal (fst s) \<and> ledger_entries (fst s') = ledger_entries (fst s)
    \<and> snd s' = snd s"
  using same_journal [of s] same_entries [of s] same_world [of s] by simp

end

lemma bookkeeping_keeps: "bookkeeping m \<Longrightarrow> keeps_tokens m s"
  using bookkeeping.same_journal [of m s] bookkeeping.same_entries [of m s] bookkeeping.same_world [of m s]
  by (cases s; cases "m s") (auto simp: keeps_tokens_def drops_def split: prod.splits)

lemma bookkeeping_context: "bookkeeping m \<Longrightarrow> bookkeeping (rec_context c m)"
  by (auto simp: bookkeeping_def rec_context_def split: prod.splits sum.splits)
    (metis fst_conv snd_conv)+

lemma bookkeeping_write:
  assumes "\<And>d. dk_journal (upd d) = dk_journal d" "\<And>d. dk_ledger (upd d) = dk_ledger d"
  shows "bookkeeping (durable_write fault upd)"
  by unfold_locales (auto simp: durable_write_def Let_def assms split: prod.splits write_result.splits)

lemma bookkeeping_return: "bookkeeping (rec_return x)"
  by unfold_locales (simp_all add: rec_return_def)

lemma bookkeeping_bind:
  assumes "bookkeeping m" "\<And>x. bookkeeping (f x)"
  shows "bookkeeping (rec_bind m f)"
proof unfold_locales
  fix s
  obtain r s' where m: "m s = (r, s')"
    by (rule prod.exhaust)
  note facts = bookkeeping.same_journal [OF assms(1), of s] bookkeeping.same_ledger [OF assms(1), of s]
    bookkeeping.same_world [OF assms(1), of s] bookkeeping.same_journal [OF assms(2), of _ s']
    bookkeeping.same_ledger [OF assms(2), of _ s'] bookkeeping.same_world [OF assms(2), of _ s']
  show "dk_journal (fst (snd (rec_bind m f s))) = dk_journal (fst s)"
    "dk_ledger (fst (snd (rec_bind m f s))) = dk_ledger (fst s)" "snd (snd (rec_bind m f s)) = snd s"
    using facts by (cases r; simp add: rec_bind_def m)+
qed

interpretation audit: bookkeeping "write_startup_recovery_audit_event c a t ok n msg" for c a t ok n msg
  unfolding write_startup_recovery_audit_event_def by (intro bookkeeping_context bookkeeping_write) simp_all

interpretation history: bookkeeping "write_startup_recovery_history_event c ph dec e a t ok msg" for c ph dec e a t ok msg
  unfolding write_startup_recovery_history_event_def by (intro bookkeeping_context bookkeeping_write) simp_all

interpretation snapshot: bookkeeping "write_startup_recovery_daemon_state_snapshot c i" for c i
  unfolding write_startup_recovery_daemon_state_snapshot_def by (intro bookkeeping_context bookkeeping_write) simp_all

interpretation read_journal: bookkeeping "read_controller_journal path" for path
  by unfold_locales (auto simp: read_controller_journal_def)

interpretation read_ledger: bookkeeping read_kept_ledger
  by unfold_locales (auto simp: read_kept_ledger_def)

interpretation names_token: bookkeeping "journal_names_token path t" for path t
  by unfold_locales (auto simp: journal_names_token_def)

lemmas bookkeeping_steps =
  audit.bookkeeping_axioms history.bookkeeping_axioms snapshot.bookkeeping_axioms bookkeeping_return

interpretation report: bookkeeping "report_recovered c x a t summary" for c x a t summary
  unfolding report_recovered_def Let_def by (intro bookkeeping_bind bookkeeping_steps)

interpretation failure: bookkeeping "recovery_failed c x a t err" for c x a t err
  unfolding recovery_failed_def Let_def by (intro bookkeeping_bind bookkeeping_steps)

interpretation disabled: bookkeeping "rollback_disabled c x a t" for c x a t
  unfolding rollback_disabled_def Let_def by (intro bookkeeping_bind bookkeeping_steps)

interpretation tokenless: bookkeeping "recover_without_token c r" for c r
  unfolding recover_without_token_def split_def Let_def by (intro bookkeeping_bind bookkeeping_steps)

lemmas keeps_bookkeeping [simp] =
  read_journal.bookkeeping_axioms [THEN bookkeeping_keeps] read_ledger.bookkeeping_axioms [THEN bookkeeping_keeps]
  names_token.bookkeeping_axioms [THEN bookkeeping_keeps] report.bookkeeping_axioms [THEN bookkeeping_keeps]
  failure.bookkeeping_axioms [THEN bookkeeping_keeps] disabled.bookkeeping_axioms [THEN bookkeeping_keeps]
  tokenless.bookkeeping_axioms [THEN bookkeeping_keeps]

section \<open>Which steps drop which tokens\<close>

lemma keeps_tokens_write:
  assumes "\<And>d'. ledger_entries d' = ledger_entries d \<Longrightarrow> dk_journal d' = dk_journal d \<Longrightarrow> drops (set done) d (upd d')"
  shows "keeps_tokens (durable_write fault upd) (d, w, done)"
  using assms [of "d\<lparr>dk_writes := Suc (dk_writes d)\<rparr>"]
  by (auto simp: keeps_tokens_def durable_write_def Let_def drops_def ledger_entries_def split: write_result.splits)

lemma keeps_clean_journal:
  assumes "set (journal_tokens d) \<subseteq> set done"
  shows "keeps_tokens (write_controller_journal_clean fault) (d, w, done)"
  unfolding write_controller_journal_clean_def write_controller_journal_record_def
  by (rule keeps_tokens_write) (use assms in \<open>auto simp: drops_def ledger_entries_def\<close>)

lemma keeps_ledger_write:
  assumes "set (entries l) \<subseteq> set (ledger_entries d)"
    and "\<forall>e \<in> set (ledger_entries d) - set (entries l). ke_rollback_token e \<in> set done"
    and "\<And>d'. dk_journal (upd d') = dk_journal d'" "\<And>d'. ledger_entries (upd d') = entries l"
  shows "keeps_tokens (durable_write fault upd) (d, w, done)"
  by (rule keeps_tokens_write) (use assms in \<open>auto simp: drops_def\<close>)

lemma read_kept_ledger_entries:
  assumes "read_kept_ledger (d, w) = (Inr l, s')"
  shows "s' = (d, w) \<and> kl_entries l = ledger_entries d"
  using assms
  by (auto simp: read_kept_ledger_def ledger_of_file_def ledger_entries_def default_kept_ledger_def
      split: stored.splits if_splits)

lemma other_entries_set:
  "set (kl_entries (other_entries x l)) = {e \<in> set (kl_entries l). ke_experiment_id e \<noteq> x}"
  by (auto simp: other_entries_def)

lemma keeps_retire:
  assumes "\<forall>e \<in> set (ledger_entries d). ke_experiment_id e = x \<longrightarrow> ke_rollback_token e \<in> set done"
  shows "keeps_tokens (retire_kept fault x) (d, w, done)"
  unfolding retire_kept_def
proof (rule keeps_tokens_bind)
  fix l s'
  assume "read_kept_ledger (d, w, done) = (Inr l, s')"
  then have s: "s' = (d, w, done)" and l: "kl_entries l = ledger_entries d"
    using read_kept_ledger_entries [of d "(w, done)" l s'] by simp_all
  have "keeps_tokens (durable_write fault (\<lambda>d. d\<lparr>dk_ledger := Absent\<rparr>)) (d, w, done)"
    if "kl_entries (other_entries x l) = []"
    by (rule keeps_ledger_write [where l = "other_entries x l" and entries = kl_entries])
      (use that assms l other_entries_set [of x l] in \<open>auto simp: ledger_entries_def\<close>)
  moreover have "keeps_tokens (write_kept_ledger fault (other_entries x l)) (d, w, done)"
    unfolding write_kept_ledger_def
    by (rule keeps_ledger_write [where l = "other_entries x l" and entries = kl_entries])
      (use assms l other_entries_set [of x l] in \<open>auto simp: ledger_entries_def\<close>)
  ultimately show "keeps_tokens
      (let l' = other_entries x l
       in if length (kl_entries l') = length (kl_entries l) then rec_return ()
          else if kl_entries l' = [] then durable_write fault (\<lambda>d. d\<lparr>dk_ledger := Absent\<rparr>)
          else write_kept_ledger fault l') s'"
    by (simp add: s Let_def)
qed simp

lemma run_executor_cases:
  obtains (restored) summary w' where "run_executor (logged ex) t (d, w, done) = (Inr (Inr summary), d, w', t # done)"
  | (refused) err w' where "run_executor (logged ex) t (d, w, done) = (Inr (Inl err), d, w', done)"
proof (cases "require_automatic_recovery t")
  case (Inl e)
  then show ?thesis
    using refused by (simp add: run_executor_def)
next
  case (Inr u)
  obtain r w' where x: "ex t w = (r, w')"
    by (rule prod.exhaust)
  with Inr show ?thesis
    using refused restored by (cases r) (simp_all add: run_executor_def logged_def)
qed

lemma keeps_run_executor [simp]: "keeps_tokens (run_executor (logged ex) t) (d, w, done)"
  by (cases rule: run_executor_cases [of ex t d w "done"]) (auto simp: keeps_tokens_def)

lemma journal_of_stored: "journal_of_file path (Stored r) = Inr r' \<Longrightarrow> r' = r"
  by (cases "journal_validate_identity_strings r") (simp_all add: journal_of_file_def split: if_splits)

lemma journal_names:
  assumes "journal_names_token path t (d, w) = (Inr True, s')"
  shows "set (journal_tokens d) \<subseteq> {t}"
proof (cases "dk_journal d")
  case (Stored r)
  have "jr_rollback_token r = Some t"
  proof (cases "journal_of_file path (Stored r)")
    case (Inr r')
    then show ?thesis
      using assms Stored journal_of_stored [OF Inr] by (simp add: journal_names_token_def)
  qed (use assms Stored in \<open>simp add: journal_names_token_def\<close>)
  with Stored show ?thesis
    by (rule journal_tokens_stored)
qed (simp_all add: journal_tokens_def)

lemma keeps_forget:
  assumes "t \<in> set done"
    and "\<forall>e \<in> set (ledger_entries d). ke_experiment_id e = x \<longrightarrow> ke_rollback_token e = t"
    and "source = FromJournal \<longrightarrow> set (journal_tokens d) \<subseteq> {t}"
  shows "keeps_tokens (forget_restored_token c x a t source) (d, w, done)"
  unfolding forget_restored_token_def
proof (rule keeps_tokens_bind)
  fix names s'
  assume n: "journal_names_token (sc_journal_path c) t (d, w, done) = (Inr names, s')"
  then have s: "s' = (d, w, done)"
    by (auto simp: journal_names_token_def)
  let ?clean = "if source = FromJournal \<or> names
    then rec_context (''failed to clear controller journal after crash-recovery rollback for action_id='' @ a)
           (write_controller_journal_clean (sc_fault c)) else rec_return ()"
  have "set (journal_tokens d) \<subseteq> set done" if "source = FromJournal \<or> names"
  proof (cases "source = FromJournal")
    case False
    with that n have "set (journal_tokens d) \<subseteq> {t}"
      by (intro journal_names [of "sc_journal_path c" t d "(w, done)" s']) simp
    with assms(1) show ?thesis
      by blast
  qed (use assms(1,3) in auto)
  then have first: "keeps_tokens ?clean (d, w, done)"
    by (simp add: keeps_clean_journal)
  have "keeps_tokens (retire_kept (sc_fault c) x) s''" if "?clean (d, w, done) = (Inr u, s'')" for u s''
  proof -
    obtain d' w' done' where s'': "s'' = (d', w', done')"
      by (cases s'')
    from first that s'' have "drops (set done') d d'" "set done \<subseteq> set done'"
      by (simp_all add: keeps_tokens_def)
    then have "\<forall>e \<in> set (ledger_entries d'). ke_experiment_id e = x \<longrightarrow> ke_rollback_token e \<in> set done'"
      using assms(1,2) drops_entries by blast
    then show ?thesis
      by (simp add: s'' keeps_retire)
  qed
  then show "keeps_tokens (rec_bind ?clean (\<lambda>_. rec_context ''failed to retire the kept-action ledger entry''
      (retire_kept (sc_fault c) x))) s'"
    unfolding s by (intro keeps_tokens_bind [OF first]) simp
qed simp

lemma keeps_recover_applied:
  assumes "\<forall>e \<in> set (ledger_entries d). ke_experiment_id e = x \<longrightarrow> ke_rollback_token e = t"
    and "source = FromJournal \<longrightarrow> set (journal_tokens d) \<subseteq> {t}"
  shows "keeps_tokens (recover_applied_journal_record c (logged ex) x a t source) (d, w, done)"
proof -
  have "keeps_tokens (recovery_succeeded c x a t source summary) (d, w', t # done)" for w' summary
    unfolding recovery_succeeded_def
    by (intro keeps_tokens_bind keeps_forget) (use assms in simp_all)
  then have "keeps_tokens (case result of Inr summary \<Rightarrow> recovery_succeeded c x a t source summary
      | Inl err \<Rightarrow> recovery_failed c x a t err) s'"
    if "run_executor (logged ex) t (d, w, done) = (Inr result, s')" for result s'
    using that by (cases rule: run_executor_cases [of ex t d w "done"]) auto
  then show ?thesis
    unfolding recover_applied_journal_record_def by (simp add: keeps_tokens_bind)
qed

lemma tokens_agree_journal:
  assumes "tokens_agree d" "dk_journal d = Stored r" "jr_rollback_token r = Some t"
  shows "\<forall>e \<in> set (ledger_entries d). ke_experiment_id e = fst (journal_experiment_action r)
    \<longrightarrow> ke_rollback_token e = t"
  using assms(1) unfolding tokens_agree_def assms(2,3) stored.case option.case list_all_iff by blast

lemma tokens_agreeD:
  assumes "tokens_agree d" "e \<in> set (ledger_entries d)"
  shows "\<forall>e' \<in> set (ledger_entries d). ke_experiment_id e' = ke_experiment_id e
    \<longrightarrow> ke_rollback_token e' = ke_rollback_token e"
  using assms unfolding tokens_agree_def list_all_iff by blast

lemma keeps_recover_entries:
  assumes "tokens_agree d" "drops T d d'" "set es \<subseteq> set (ledger_entries d)"
  shows "keeps_tokens (recover_entries c (logged ex) es) (d', w, done)"
  using assms
proof (induction es arbitrary: d' w "done" T)
  case (Cons e es)
  have first: "keeps_tokens (recover_applied_journal_record c (logged ex) (ke_experiment_id e) (ke_action_id e)
      (ke_rollback_token e) FromLedger) (d', w, done)"
  proof (rule keeps_recover_applied)
    have "e \<in> set (ledger_entries d)"
      using Cons.prems(3) by simp
    then show "\<forall>e' \<in> set (ledger_entries d'). ke_experiment_id e' = ke_experiment_id e
        \<longrightarrow> ke_rollback_token e' = ke_rollback_token e"
      using tokens_agreeD [OF Cons.prems(1)] drops_entries [OF Cons.prems(2)] by blast
  qed simp
  show ?case
    unfolding recover_entries.simps
  proof (rule keeps_tokens_bind [OF first])
    fix y s'
    assume r: "recover_applied_journal_record c (logged ex) (ke_experiment_id e) (ke_action_id e)
      (ke_rollback_token e) FromLedger (d', w, done) = (Inr y, s')"
    obtain d'' w' done' where s': "s' = (d'', w', done')"
      by (cases s')
    from first r s' have "drops (set done') d' d''"
      by (simp add: keeps_tokens_def)
    with Cons.prems(2) have "drops (T \<union> set done') d d''"
      by (blast intro: drops_trans drops_mono)
    then show "keeps_tokens (rec_bind (recover_entries c (logged ex) es) (\<lambda>outcomes. rec_return (y # outcomes))) s'"
      unfolding s' using Cons.prems by (intro keeps_tokens_bind Cons.IH) auto
  qed
qed simp

lemma read_journal_result:
  assumes "read_controller_journal path (d, w) = (Inr r, s')"
  shows "s' = (d, w) \<and> (dk_journal d = Stored r \<or> dk_journal d = Absent \<and> r = journal_clean)"
proof (cases "dk_journal d")
  case (Stored r')
  with assms show ?thesis
    by (auto simp: read_controller_journal_def dest: journal_of_stored)
qed (use assms in \<open>auto simp: read_controller_journal_def journal_of_file_def\<close>)

lemma keeps_recover_journal:
  assumes "tokens_agree d"
  shows "keeps_tokens (recover_journal_record c (logged ex)) (d, w, done)"
  unfolding recover_journal_record_def
proof (rule keeps_tokens_bind)
  fix r s'
  assume read: "read_controller_journal (sc_journal_path c) (d, w, done) = (Inr r, s')"
  then have s': "s' = (d, w, done)" and r: "dk_journal d = Stored r \<or> dk_journal d = Absent \<and> r = journal_clean"
    using read_journal_result [of "sc_journal_path c" d "(w, done)" r s'] by simp_all
  have clear: "keeps_tokens (rec_bind (rec_context m (write_controller_journal_clean f)) (\<lambda>_. rec_return x)) s'"
    if "\<not> may_have_mutated_system r" "jr_state r \<noteq> CJ_Clean" for m f and x :: startup_recovery_outcome
  proof -
    have "journal_tokens d = []"
      using r that by (auto simp: journal_tokens_def journal_clean_def)
    then show ?thesis
      unfolding s' by (intro keeps_tokens_bind) (simp_all add: keeps_clean_journal)
  qed
  have token: "keeps_tokens (recover_applied_journal_record c (logged ex) (fst (journal_experiment_action r))
      (snd (journal_experiment_action r)) t FromJournal) s'" if t: "jr_rollback_token r = Some t" for t
    unfolding s'
  proof (rule keeps_recover_applied)
    have "dk_journal d = Stored r"
      using r t by (auto simp: journal_clean_def)
    then show "\<forall>e \<in> set (ledger_entries d). ke_experiment_id e = fst (journal_experiment_action r) \<longrightarrow> ke_rollback_token e = t"
      and "FromJournal = FromJournal \<longrightarrow> set (journal_tokens d) \<subseteq> {t}"
      using tokens_agree_journal [OF assms _ t] journal_tokens_stored [OF _ t] by blast+
  qed
  show "keeps_tokens (recover_phase c (logged ex) r) s'"
    unfolding recover_phase_def
    using clear token
    by (cases "jr_state r"; cases "jr_rollback_token r") (simp_all add: may_have_mutated_system_def)
qed simp

lemma keeps_recovery:
  assumes "tokens_agree d"
  shows "keeps_tokens (recover_controller_journal_with_executor c (logged ex)) (d, w, done)"
  unfolding recover_controller_journal_with_executor_def recover_kept_ledger_def
proof (rule keeps_tokens_bind)
  have entries: "keeps_tokens (recover_entries c (logged ex) (kl_entries l)) s'"
    if "read_kept_ledger (d, w, done) = (Inr l, s')" for l s'
  proof -
    from that have "s' = (d, w, done)" "kl_entries l = ledger_entries d"
      using read_kept_ledger_entries [of d "(w, done)" l s'] by simp_all
    then show ?thesis
      using keeps_recover_entries [OF assms drops_refl, of "kl_entries l"] by simp
  qed
  show kept: "keeps_tokens (rec_bind read_kept_ledger (\<lambda>l. recover_entries c (logged ex) (kl_entries l))) (d, w, done)"
    by (rule keeps_tokens_bind) (simp_all add: entries)
  fix outcomes s'
  assume r: "rec_bind read_kept_ledger (\<lambda>l. recover_entries c (logged ex) (kl_entries l)) (d, w, done) = (Inr outcomes, s')"
  obtain d' w' done' where s': "s' = (d', w', done')"
    by (cases s')
  with kept r have "drops (set done') d d'"
    by (simp add: keeps_tokens_def)
  then have "tokens_agree d'"
    using assms by (rule drops_agree)
  then show "keeps_tokens (rec_bind (recover_journal_record c (logged ex)) (\<lambda>journal.
      rec_return (combine outcomes journal))) s'"
    unfolding s' by (intro keeps_tokens_bind keeps_recover_journal) simp_all
qed

lemma recover_before_start_state:
  "snd (recover_before_start c ex s) = snd (recover_controller_journal_with_executor c ex s)"
  by (simp add: recover_before_start_def rec_bind_def rec_return_def rec_fail_def
      split: prod.splits sum.splits startup_recovery_outcome.splits)

text \<open>A disk with one kept action and one experiment in flight.\<close>

definition sample_entry :: kept_ledger_entry where
  "sample_entry = \<lparr>ke_experiment_id = ''kept-1'', ke_action_id = ''nice:game'', ke_candidate = ''nice'',
     ke_rollback_token = NiceRestore [], ke_mode = None, ke_safety_class = None, ke_kept_unix_nanos = 7\<rparr>"

definition sample_disk :: recovery_disk where
  "sample_disk = \<lparr>dk_journal = Stored (for_phase 8 9 CJ_Applied ''trial-2'' ''uclamp:game'' (Some (UclampRestore []))),
     dk_ledger = Stored (default_kept_ledger\<lparr>kl_entries := [sample_entry]\<rparr>), dk_audit = [], dk_history = [],
     dk_snapshot = None, dk_writes = 0\<rparr>"

definition sample_recovery :: startup_recovery_config where
  "sample_recovery = \<lparr>sc_rollback_on_crash_recovery = True, sc_journal_path = ''/j'', sc_audit_path = ''/a'',
     sc_history_path = ''/h'', sc_state_snapshot_path = ''/s'', sc_default_restore_path = ''/r'',
     sc_fault = (\<lambda>_. WriteDone), sc_now = 10\<rparr>"

definition restores_all :: "unit rollback_executor" where
  "restores_all token w = (Inr \<lparr>su_affected_tasks = 1, su_message = ''done''\<rparr>, w)"

lemma sample_agrees: "tokens_agree sample_disk"
  by code_simp

text \<open>
  C9. Startup recovery forgets no token that the executor did not answer with \<open>Ok\<close>. Whatever the executor does,
  whichever writes are lost or fail after they happened, and wherever the recovery stops with an error: a token
  that was durable before is afterwards either still durable, or the executor was run on it and answered
  \<open>Ok\<close>. The answer \<open>Ok\<close> is all that the code looks at: with an error count above zero it is forgotten all the
  same (theory \<open>Recovery_Handlers\<close> proves it). The hypothesis \<open>tokens_agree\<close> is that an
  experiment id names one token in the ledger and the journal.
\<close>

theorem recovery_keeps_tokens:
  assumes "tokens_agree d"
  shows "case snd (recover_before_start c (logged ex) (d, w, [])) of (d', _, answered_ok) \<Rightarrow>
           set (durable_tokens d) \<subseteq> set (durable_tokens d') \<union> set answered_ok"
proof -
  obtain d' w' answered_ok where s: "snd (recover_controller_journal_with_executor c (logged ex) (d, w, [])) = (d', w', answered_ok)"
    by (rule prod_cases3)
  with keeps_recovery [OF assms, of c ex w "[]"] have "drops (set answered_ok) d d'"
    by (simp add: keeps_tokens_def)
  then show ?thesis
    using drops_durable by (fastforce simp: recover_before_start_state s)
qed

theorem recovery_keeps_tokens_witness:
  "case snd (recover_before_start (sample_recovery\<lparr>sc_fault := \<lambda>n. if n = 3 then WriteLost (anyhow_msg ''full'') else WriteDone\<rparr>)
       (logged restores_all) (sample_disk, (), [])) of (d', _, answered_ok) \<Rightarrow>
     set (durable_tokens sample_disk) \<subseteq> set (durable_tokens d') \<union> set answered_ok"
  by (rule recovery_keeps_tokens [OF sample_agrees])

section \<open>What a successful start has done\<close>

named_theorems returns_iff

lemma rec_bind_returns [returns_iff]:
  "rec_bind m f s = (Inr y, s') \<longleftrightarrow> (\<exists>x s1. m s = (Inr x, s1) \<and> f x s1 = (Inr y, s'))"
  by (auto simp: rec_bind_def split: prod.splits sum.splits)

lemma rec_context_returns [returns_iff]: "rec_context c m s = (Inr y, s') \<longleftrightarrow> m s = (Inr y, s')"
  by (auto simp: rec_context_def split: prod.splits sum.splits)

lemma rec_return_returns [returns_iff]: "rec_return x s = (Inr y, s') \<longleftrightarrow> y = x \<and> s' = s"
  by (auto simp: rec_return_def)

lemma durable_write_returns [returns_iff]:
  "durable_write fault upd (d, w) = (Inr u, s') \<longleftrightarrow>
     fault (dk_writes d) = WriteDone \<and> s' = (upd (d\<lparr>dk_writes := Suc (dk_writes d)\<rparr>), w)"
  by (auto simp: durable_write_def Let_def split: write_result.splits)

lemma ledger_entries_simps [simp]:
  "ledger_entries (d\<lparr>dk_writes := n\<rparr>) = ledger_entries d" "ledger_entries (d\<lparr>dk_journal := j\<rparr>) = ledger_entries d"
  "ledger_entries (d\<lparr>dk_ledger := Absent\<rparr>) = []" "ledger_entries (d\<lparr>dk_ledger := Stored l\<rparr>) = kl_entries l"
  by (simp_all add: ledger_entries_def)

lemma filter_same_length: "length (filter P xs) = length xs \<Longrightarrow> filter P xs = xs"
  by (metis filter_id_conv length_filter_less less_irrefl)

lemma retire_kept_result:
  assumes "retire_kept fault x (d, w) = (Inr u, d', w')"
  shows "w' = w \<and> dk_journal d' = dk_journal d
    \<and> ledger_entries d' = filter (\<lambda>e. ke_experiment_id e \<noteq> x) (ledger_entries d)"
proof -
  from assms obtain l where l: "kl_entries l = ledger_entries d"
    and r: "(let l' = other_entries x l
       in if length (kl_entries l') = length (kl_entries l) then rec_return ()
          else if kl_entries l' = [] then durable_write fault (\<lambda>d. d\<lparr>dk_ledger := Absent\<rparr>)
          else write_kept_ledger fault l') (d, w) = (Inr u, d', w')"
    using read_kept_ledger_entries unfolding retire_kept_def rec_bind_returns by metis
  have o: "kl_entries (other_entries x l) = filter (\<lambda>e. ke_experiment_id e \<noteq> x) (ledger_entries d)"
    by (simp add: other_entries_def l)
  show ?thesis
    using r filter_same_length [of "\<lambda>e. ke_experiment_id e \<noteq> x" "ledger_entries d"]
    by (auto simp: Let_def o l returns_iff write_kept_ledger_def split: if_splits)
qed

lemma forget_result:
  assumes "forget_restored_token c x a t source (d, w) = (Inr u, d', w')"
  shows "w' = w \<and> ledger_entries d' = filter (\<lambda>e. ke_experiment_id e \<noteq> x) (ledger_entries d)
    \<and> (dk_journal d' = Stored journal_clean \<or> source = FromLedger \<and> dk_journal d' = dk_journal d)"
proof -
  from assms obtain names v d1 w1 where names: "journal_names_token (sc_journal_path c) t (d, w) = (Inr names, d, w)"
    and clean: "(if source = FromJournal \<or> names
       then rec_context (''failed to clear controller journal after crash-recovery rollback for action_id='' @ a)
         (write_controller_journal_clean (sc_fault c)) else rec_return ()) (d, w) = (Inr v, d1, w1)"
    and retire: "retire_kept (sc_fault c) x (d1, w1) = (Inr u, d', w')"
    unfolding forget_restored_token_def rec_bind_returns rec_context_returns
    by (auto simp: journal_names_token_def)
  have "w1 = w \<and> ledger_entries d1 = ledger_entries d
      \<and> (dk_journal d1 = Stored journal_clean \<or> source = FromLedger \<and> dk_journal d1 = dk_journal d)"
    using clean by (cases source)
      (auto simp: returns_iff write_controller_journal_clean_def write_controller_journal_record_def split: if_splits)
  then show ?thesis
    using retire_kept_result [OF retire] by auto
qed

lemma run_executor_disk: "fst (snd (run_executor ex t (d, w))) = d"
  by (auto simp: run_executor_def split: sum.splits prod.splits)

lemma recover_applied_result:
  assumes "recover_applied_journal_record c ex x a t source (d, w) = (Inr res, d', w')"
    and "sc_rollback_on_crash_recovery c" "\<not> outcome_is_faulted res"
  shows "ledger_entries d' = filter (\<lambda>e. ke_experiment_id e \<noteq> x) (ledger_entries d)
    \<and> (dk_journal d' = Stored journal_clean \<or> source = FromLedger \<and> dk_journal d' = dk_journal d)"
proof -
  from assms(1,2) obtain result s1 where run: "run_executor ex t (d, w) = (Inr result, s1)"
    and r': "(case result of Inr summary \<Rightarrow> recovery_succeeded c x a t source summary
      | Inl err \<Rightarrow> recovery_failed c x a t err) s1 = (Inr res, d', w')"
    by (auto simp: recover_applied_journal_record_def rec_bind_returns)
  from run obtain w1 where "s1 = (d, w1)"
    using run_executor_disk [of ex t d w] by (cases s1) simp
  with r' have r: "(case result of Inr summary \<Rightarrow> recovery_succeeded c x a t source summary
      | Inl err \<Rightarrow> recovery_failed c x a t err) (d, w1) = (Inr res, d', w')"
    by simp
  show ?thesis
  proof (cases result)
    case (Inl err)
    with r assms(3) show ?thesis
      by (auto simp: recovery_failed_def Let_def returns_iff)
  next
    case (Inr summary)
    with r obtain u s1 where f: "forget_restored_token c x a t source (d, w1) = (Inr u, s1)"
      and rep: "report_recovered c x a t summary s1 = (Inr res, d', w')"
      by (auto simp: recovery_succeeded_def returns_iff)
    obtain d1 w2 where s1: "s1 = (d1, w2)"
      by (rule prod.exhaust)
    show ?thesis
      using forget_result [OF f [unfolded s1]] report.after [OF rep] by (simp add: s1)
  qed
qed

lemma recover_entries_result:
  assumes "recover_entries c ex es (d, w) = (Inr outcomes, d', w')"
    and "sc_rollback_on_crash_recovery c" "\<not> list_ex outcome_is_faulted outcomes"
  shows "ledger_entries d' = filter (\<lambda>e. ke_experiment_id e \<notin> ke_experiment_id ` set es) (ledger_entries d)"
  using assms
proof (induction es arbitrary: d w outcomes)
  case Nil
  then show ?case
    by (simp add: returns_iff)
next
  case (Cons e es)
  from Cons.prems(1) obtain res s1 rest where
    r: "recover_applied_journal_record c ex (ke_experiment_id e) (ke_action_id e) (ke_rollback_token e) FromLedger (d, w)
          = (Inr res, s1)"
    and rs: "recover_entries c ex es s1 = (Inr rest, d', w')" and outs: "outcomes = res # rest"
    by (auto simp: returns_iff)
  obtain d1 w1 where s1: "s1 = (d1, w1)"
    by (rule prod.exhaust)
  have "ledger_entries d1 = filter (\<lambda>e'. ke_experiment_id e' \<noteq> ke_experiment_id e) (ledger_entries d)"
    using recover_applied_result [OF r [unfolded s1]] Cons.prems(2,3) outs by simp
  moreover have "ledger_entries d' = filter (\<lambda>e. ke_experiment_id e \<notin> ke_experiment_id ` set es) (ledger_entries d1)"
    using Cons.IH [OF rs [unfolded s1]] Cons.prems(2,3) outs by simp
  ultimately show ?case
    by (simp add: conj_commute)
qed

lemma recover_journal_result:
  assumes "recover_journal_record c ex (d, w) = (Inr res, d', w')"
    and "sc_rollback_on_crash_recovery c" "\<not> outcome_is_faulted res"
  shows "journal_tokens d' = [] \<and> set (ledger_entries d') \<subseteq> set (ledger_entries d)"
proof -
  from assms(1) obtain r s1 where read: "read_controller_journal (sc_journal_path c) (d, w) = (Inr r, s1)"
    and rest: "recover_phase c ex r s1 = (Inr res, d', w')"
    unfolding recover_journal_record_def rec_bind_returns by blast
  have s1: "s1 = (d, w)" and r: "dk_journal d = Stored r \<or> dk_journal d = Absent \<and> r = journal_clean"
    using read_journal_result [OF read] by simp_all
  have clear: "?thesis" if "rec_bind (rec_context m (write_controller_journal_clean f)) (\<lambda>_. rec_return SR_Clean) (d, w)
      = (Inr res, d', w')" for m f
    using that by (auto simp: returns_iff write_controller_journal_clean_def write_controller_journal_record_def)
  have kept: "?thesis" if "dk_journal d' = dk_journal d" "ledger_entries d' = ledger_entries d"
    "jr_rollback_token r = None \<or> \<not> may_have_mutated_system r"
    using that r by (auto simp: journal_tokens_def)
  have tokenless: "?thesis" if "recover_without_token c r (d, w) = (Inr res, d', w')" "jr_rollback_token r = None"
    using kept tokenless.after [OF that(1)] that(2) by simp
  have token: "?thesis" if "recover_applied_journal_record c ex (fst (journal_experiment_action r))
      (snd (journal_experiment_action r)) t FromJournal (d, w) = (Inr res, d', w')" for t
    using recover_applied_result [OF that assms(2,3)] by auto
  show ?thesis
    using rest clear kept tokenless token unfolding recover_phase_def s1
    by (cases "jr_state r"; cases "jr_rollback_token r") (simp_all add: may_have_mutated_system_def rec_return_returns)
qed

lemma combine_faulted: "\<not> outcome_is_faulted (combine kept journal) \<longleftrightarrow>
    \<not> outcome_is_faulted journal \<and> \<not> list_ex outcome_is_faulted kept"
proof -
  have "find outcome_is_faulted kept = None \<longleftrightarrow> \<not> list_ex outcome_is_faulted kept"
    by (auto simp: find_None_iff list_ex_iff)
  moreover have "find outcome_is_faulted kept = Some x \<Longrightarrow> outcome_is_faulted x" for x
    by (auto simp: find_Some_iff)
  moreover have "outcome_is_faulted (case kept of [] \<Rightarrow> journal | k # _ \<Rightarrow> k) \<Longrightarrow> \<not> outcome_is_faulted journal
      \<Longrightarrow> list_ex outcome_is_faulted kept"
    by (cases kept) auto
  ultimately show ?thesis
    by (cases "find outcome_is_faulted kept") (auto simp: combine_def)
qed

lemma gate_returns:
  "recover_before_start c ex s = (Inr res, s') \<longleftrightarrow>
     recover_controller_journal_with_executor c ex s = (Inr res, s') \<and> \<not> outcome_is_faulted res"
proof -
  have "(case outcome of SR_Faulted _ _ command _ \<Rightarrow> rec_fail (anyhow_msg (m @ command)) | _ \<Rightarrow> rec_return outcome) s1
      = (Inr res, s') \<longleftrightarrow> outcome = res \<and> s1 = s' \<and> \<not> outcome_is_faulted res" for outcome m and s1 :: "recovery_disk \<times> 'a"
    by (cases outcome) (auto simp: rec_fail_def rec_return_def)
  then show ?thesis
    by (cases s') (auto simp: recover_before_start_def rec_bind_returns)
qed

lemma gate_open_nothing_durable:
  assumes "recover_before_start c ex (d, w) = (Inr res, d', w')" "sc_rollback_on_crash_recovery c"
  shows "durable_tokens d' = []"
proof -
  from assms(1) obtain kept s1 journal where
    kept: "recover_kept_ledger c ex (d, w) = (Inr kept, s1)"
    and journal: "recover_journal_record c ex s1 = (Inr journal, d', w')"
    and nf: "\<not> outcome_is_faulted (combine kept journal)"
    unfolding gate_returns recover_controller_journal_with_executor_def rec_bind_returns rec_return_returns
    by blast
  obtain d1 w1 where s1: "s1 = (d1, w1)"
    by (rule prod.exhaust)
  from kept obtain l s0 where l: "read_kept_ledger (d, w) = (Inr l, s0)"
    and es: "recover_entries c ex (kl_entries l) s0 = (Inr kept, d1, w1)"
    unfolding recover_kept_ledger_def rec_bind_returns s1 by blast
  have "s0 = (d, w)" "kl_entries l = ledger_entries d"
    using read_kept_ledger_entries [OF l] by simp_all
  with es have "ledger_entries d1 = []"
    using recover_entries_result [of c ex "kl_entries l" d w kept d1 w1] assms(2) nf
    by (auto simp: combine_faulted filter_empty_conv)
  then show ?thesis
    using recover_journal_result [OF journal [unfolded s1] assms(2)] nf
    by (simp add: combine_faulted durable_tokens_def)
qed

text \<open>
  C10. The startup gate opens only when every token was answered: with rollback enabled and one token per experiment
  id (\<open>tokens_agree\<close>), if the gate lets the controller start, then the executor was run on every token that
  was durable before and answered \<open>Ok\<close>, and no token is durable any more, so nothing is left to replay at the next
  start. An answer \<open>Ok\<close> with an error count above zero opens the gate too
  (theory \<open>Recovery_Handlers\<close> proves it).
\<close>

theorem gate_open_means_answered:
  assumes "recover_before_start c (logged ex) (d, w, []) = (Inr res, d', w', answered_ok)"
    and "sc_rollback_on_crash_recovery c" "tokens_agree d"
  shows "durable_tokens d' = [] \<and> set (durable_tokens d) \<subseteq> set answered_ok"
proof -
  have none: "durable_tokens d' = []"
    using assms(1,2) by (rule gate_open_nothing_durable)
  have "snd (recover_controller_journal_with_executor c (logged ex) (d, w, [])) = (d', w', answered_ok)"
    using assms(1) by (simp add: gate_returns)
  with keeps_recovery [OF assms(3), of c ex w "[]"] have "drops (set answered_ok) d d'"
    by (simp add: keeps_tokens_def)
  with none show ?thesis
    using drops_durable by fastforce
qed

theorem gate_open_means_answered_witness:
  "case recover_before_start sample_recovery (logged restores_all) (sample_disk, (), []) of (res, d', _, answered_ok) \<Rightarrow>
     res = Inr (SR_Recovered ''trial-2'' ''uclamp:game'' 1 (recovery_manual_command sample_recovery (UclampRestore [])))
     \<and> durable_tokens d' = [] \<and> set (durable_tokens sample_disk) \<subseteq> set answered_ok"
proof -
  obtain res d' w' answered_ok where
    run: "recover_before_start sample_recovery (logged restores_all) (sample_disk, (), []) = (res, d', w', answered_ok)"
    by (rule prod_cases4)
  have "fst (recover_before_start sample_recovery (logged restores_all) (sample_disk, (), []))
      = Inr (SR_Recovered ''trial-2'' ''uclamp:game'' 1 (recovery_manual_command sample_recovery (UclampRestore [])))"
    by code_simp
  with run have res: "res = Inr (SR_Recovered ''trial-2'' ''uclamp:game'' 1
      (recovery_manual_command sample_recovery (UclampRestore [])))"
    by simp
  have "sc_rollback_on_crash_recovery sample_recovery"
    by (simp add: sample_recovery_def)
  then show ?thesis
    using gate_open_means_answered [OF run [unfolded res] _ sample_agrees] run res by simp
qed

end
