(* ===== verification/Task_Actions.thy ===== *)
theory Task_Actions
  imports Nice_Action
begin

unbundle bit_operations_syntax

text \<open>
  The I/O priority action (\<open>stutter/src/actions/ioprio/\<close>) and the utilisation clamp action
  (\<open>stutter/src/actions/uclamp/\<close>), with the parts the two share written once. The kernel adds \<open>ioprio_get\<close>,
  \<open>ioprio_set\<close>, \<open>sched_getattr\<close> and \<open>sched_setattr\<close> (\<open>actions/syscalls.rs\<close>) to the task host of the nice action. An
  encoded I/O priority is an \<open>i32\<close> kept as an \<open>int\<close>.
\<close>

section \<open>What the per-task actions share\<close>

record 'w sched_host =
  sh_task :: "'w task_host"
  sh_ioprio_get :: "u32 \<Rightarrow> 'w \<Rightarrow> io_error + int"
  sh_ioprio_set :: "u32 \<Rightarrow> int \<Rightarrow> 'w \<Rightarrow> (io_error + unit) \<times> 'w"
  sh_sched_getattr :: "u32 \<Rightarrow> 'w \<Rightarrow> io_error + u32 \<times> u32"
  sh_sched_setattr :: "u32 \<Rightarrow> u32 \<Rightarrow> u32 \<Rightarrow> 'w \<Rightarrow> (io_error + unit) \<times> 'w"

definition parse_stat_starttime :: "string \<Rightarrow> anyhow + u64" where
  "parse_stat_starttime stat =
     (case rsplit_after '')'' stat of
        None \<Rightarrow> Inl (anyhow_msg ''stat line does not contain closing comm parenthesis'')
      | Some rest \<Rightarrow>
          parse_field ''stat line missing starttime field'' ''invalid starttime field'' parse_u64
            (list_get 19 (split_whitespace rest)))"

text \<open>The start time of a target, checked against the expected one: the first half of \<open>read_target_snapshot_at\<close>.\<close>

definition read_target_starttime :: "string \<Rightarrow> 'w task_host \<Rightarrow> task_identity \<Rightarrow> 'w \<Rightarrow> anyhow + u64" where
  "read_target_starttime kind host target w =
     (if tk_tid target = 0 then Inl (boundary_err (InvalidTargetTid kind (tk_tid target)))
      else let path = proc_file (tk_tid target) ''stat''
           in case th_read host path w of
                Inl e \<Rightarrow> Inl (Anyhow [''target task does not exist or stat is unreadable: '' @ path] (RootIo e))
              | Inr stat \<Rightarrow>
                 (case parse_stat_starttime stat of
                    Inl e \<Rightarrow> Inl (any_context (''failed to parse starttime from '' @ path) e)
                  | Inr starttime \<Rightarrow>
                      if tk_starttime_ticks target \<noteq> None \<and> tk_starttime_ticks target \<noteq> Some starttime
                      then Inl (boundary_err (TargetIdentityMismatch kind (tk_tid target)
                             (the (tk_starttime_ticks target)) starttime))
                      else Inr starttime))"

definition target_warnings :: "task_identity \<Rightarrow> string option \<Rightarrow> string list" where
  "target_warnings target comm =
     (case (tk_comm target, comm) of
        (Some expected, Some actual) \<Rightarrow>
          if expected \<noteq> actual
          then [''target tid='' @ show_nat (unat (tk_tid target)) @ '' comm changed from '' @ debug_str expected
                @ '' to '' @ debug_str actual
                @ ''; continuing because starttime matched or was not provided'']
          else []
      | _ \<Rightarrow> [])
     @ (if tk_process_pid target = None
        then [''target tid='' @ show_nat (unat (tk_tid target))
              @ '' has no process_pid identity; rollback will use tid only'']
        else [])"

fun observe_targets ::
  "string \<Rightarrow> (task_identity \<Rightarrow> anyhow + 's) \<Rightarrow> ('s \<Rightarrow> string option) \<Rightarrow> task_identity list
    \<Rightarrow> anyhow + ('s \<times> string list) list" where
  "observe_targets kind read comm [] = Inr []"
| "observe_targets kind read comm (t # ts) =
     (case read t of
        Inl e \<Rightarrow>
          Inl (any_context (''failed to preflight '' @ kind @ '' target tid='' @ show_nat (unat (tk_tid t))) e)
      | Inr s \<Rightarrow>
          res_bind (observe_targets kind read comm ts) (\<lambda>rest. Inr ((s, target_warnings t (comm s)) # rest)))"

definition dry_run_state :: "usize \<Rightarrow> usize \<Rightarrow> string list \<Rightarrow> action_state" where
  "dry_run_state targets pending warnings =
     \<lparr>as_applied = False, as_affected_tasks = pending, as_checked_tasks = targets, as_pending_changes = pending,
      as_warnings = warnings\<rparr>"

definition verify_state :: "usize \<Rightarrow> usize \<Rightarrow> string list \<Rightarrow> action_state" where
  "verify_state targets pending warnings =
     \<lparr>as_applied = (targets \<noteq> 0 \<and> pending = 0), as_affected_tasks = targets, as_checked_tasks = targets,
      as_pending_changes = pending, as_warnings = warnings\<rparr>"

text \<open>
  One record of a rollback loop: \<open>write\<close> restores the original value, \<open>what\<close> names it in the message of a failed
  write; then the loop and the verdict over its summary.
\<close>

definition undo_record ::
  "'w task_host \<Rightarrow> task_restore_identity \<Rightarrow> (u32 \<Rightarrow> 'w \<Rightarrow> (anyhow + unit) \<times> 'w) \<Rightarrow> string
    \<Rightarrow> restore_summary \<times> string list \<Rightarrow> 'w \<Rightarrow> (restore_summary \<times> string list) \<times> 'w" where
  "undo_record host identity write what acc w =
     (let tid = ti_tid identity; (summary, failures) = acc
      in case verify_task_identity host identity w of
           Missing \<Rightarrow> ((record_missing summary, failures), w)
         | Mismatch _ \<Rightarrow> ((record_identity_mismatch summary, failures), w)
         | _ \<Rightarrow>
            (case write tid w of
               (Inr _, w) \<Rightarrow> ((record_restored summary, failures), w)
             | (Inl err, w) \<Rightarrow>
                (case classify_restore_write_error host tid err w of
                   RW_MissingTask \<Rightarrow> ((record_missing summary, failures), w)
                 | _ \<Rightarrow>
                     ((record_failure summary,
                       failures @ [what @ '' for tid='' @ show_nat (unat tid) @ '': '' @ any_display_alt err]), w))))"

fun undo_loop ::
  "('r \<Rightarrow> restore_summary \<times> string list \<Rightarrow> 'w \<Rightarrow> (restore_summary \<times> string list) \<times> 'w) \<Rightarrow> 'r list
    \<Rightarrow> restore_summary \<times> string list \<Rightarrow> 'w \<Rightarrow> (restore_summary \<times> string list) \<times> 'w" where
  "undo_loop undo [] acc w = (acc, w)"
| "undo_loop undo (r # rs) acc w = (case undo r acc w of (acc', w') \<Rightarrow> undo_loop undo rs acc' w')"

definition undo_verdict :: "string \<Rightarrow> string \<Rightarrow> restore_summary \<times> string list \<Rightarrow> anyhow + unit" where
  "undo_verdict kind label acc =
     (let (summary, failures) = acc
      in if has_failures summary
         then Inl (boundary_err (RestoreFailed kind
                (''failed to rollback '' @ label @ '' after attempting all records: restored=''
                 @ show_nat (rs_restored summary) @ '' skipped_missing=''
                 @ show_nat (rs_skipped_missing summary) @ '' skipped_identity_mismatch=''
                 @ show_nat (rs_skipped_identity_mismatch summary) @ '' failed=''
                 @ show_nat (rs_failed summary) @ '' errors='' @ join ''; '' failures)))
         else Inr ())"

definition wrong_token :: "string \<Rightarrow> rollback_token \<Rightarrow> anyhow" where
  "wrong_token expected token = Anyhow [] (RootAction (AF_InvalidRollbackToken expected (token_kind token)))"

definition tids_text :: "task_identity list \<Rightarrow> string" where
  "tids_text targets = join '','' (map (\<lambda>t. show_nat (unat (tk_tid t))) targets)"

section \<open>I/O priority values\<close>

datatype ioprio_class = IC_None | IC_Realtime | IC_BestEffort | IC_Idle

fun ioprio_class_label :: "ioprio_class \<Rightarrow> string" where
  "ioprio_class_label IC_None = ''none''"
| "ioprio_class_label IC_Realtime = ''realtime''"
| "ioprio_class_label IC_BestEffort = ''best-effort''"
| "ioprio_class_label IC_Idle = ''idle''"

record ioprio_value =
  iv_class :: ioprio_class
  iv_level :: "8 word option"

definition ioprio_best_effort :: "8 word \<Rightarrow> ioprio_value" where
  "ioprio_best_effort level = \<lparr>iv_class = IC_BestEffort, iv_level = Some level\<rparr>"

definition ioprio_realtime :: "8 word \<Rightarrow> ioprio_value" where
  "ioprio_realtime level = \<lparr>iv_class = IC_Realtime, iv_level = Some level\<rparr>"

definition ioprio_idle :: ioprio_value where "ioprio_idle = \<lparr>iv_class = IC_Idle, iv_level = None\<rparr>"

definition ioprio_none :: ioprio_value where "ioprio_none = \<lparr>iv_class = IC_None, iv_level = None\<rparr>"

definition ioprio_value_label :: "ioprio_value \<Rightarrow> string" where
  "ioprio_value_label v =
     (case iv_level v of
        Some level \<Rightarrow> ioprio_class_label (iv_class v) @ '':'' @ show_nat (unat level)
      | None \<Rightarrow> ioprio_class_label (iv_class v))"

record ioprio_policy =
  ip_allow_ioprio_changes :: bool
  ip_allow_realtime_class :: bool
  ip_allow_none_class :: bool
  ip_max_best_effort_level :: "8 word"
  ip_require_strong_block_io_evidence :: bool
  ip_strong_block_io_evidence :: bool

definition default_ioprio_policy :: ioprio_policy where
  "default_ioprio_policy =
     \<lparr>ip_allow_ioprio_changes = False, ip_allow_realtime_class = False, ip_allow_none_class = False,
      ip_max_best_effort_level = 7, ip_require_strong_block_io_evidence = True, ip_strong_block_io_evidence = False\<rparr>"

record ioprio_action =
  ia_targets :: "task_identity list"
  ia_ioprio :: ioprio_value
  ia_policy :: ioprio_policy

record ioprio_target_snapshot =
  it_tid :: u32
  it_process_pid :: "u32 option"
  it_comm :: "string option"
  it_starttime_ticks :: "u64 option"
  it_exe :: "string option"
  it_current_ioprio :: int
  it_current_value :: ioprio_value

definition ioprio_level_error :: "string \<Rightarrow> anyhow" where
  "ioprio_level_error reason = boundary_err (InvalidValue ''ioprio'' ''level'' reason)"

definition validate_ioprio_value :: "ioprio_value \<Rightarrow> anyhow + unit" where
  "validate_ioprio_value v =
     (let name = ''I/O priority class '' @ ioprio_class_label (iv_class v)
      in if iv_class v = IC_None \<or> iv_class v = IC_Idle
         then if iv_level v \<noteq> None then Inl (ioprio_level_error (name @ '' must not specify a level'')) else Inr ()
         else case iv_level v of
                None \<Rightarrow> Inl (ioprio_level_error (name @ '' requires level 0..=7''))
              | Some level \<Rightarrow>
                  if 7 < level
                  then Inl (ioprio_level_error (name @ '' level '' @ show_nat (unat level) @ '' is outside range 0..=7''))
                  else Inr ())"

definition IOPRIO_CLASS_SHIFT :: nat where "IOPRIO_CLASS_SHIFT = 13"
definition IOPRIO_PRIO_MASK :: int where "IOPRIO_PRIO_MASK = push_bit IOPRIO_CLASS_SHIFT 1 - 1"

fun linux_class :: "ioprio_class \<Rightarrow> int" where
  "linux_class IC_None = 0"
| "linux_class IC_Realtime = 1"
| "linux_class IC_BestEffort = 2"
| "linux_class IC_Idle = 3"

definition from_linux_class :: "int \<Rightarrow> anyhow + ioprio_class" where
  "from_linux_class c =
     (if c = 0 then Inr IC_None else if c = 1 then Inr IC_Realtime else if c = 2 then Inr IC_BestEffort
      else if c = 3 then Inr IC_Idle
      else Inl (boundary_err (UnsupportedValue ''ioprio'' ''linux_class'' (show_int c))))"

definition ioprio_encode :: "ioprio_value \<Rightarrow> anyhow + int" where
  "ioprio_encode v =
     res_bind (validate_ioprio_value v) (\<lambda>_.
       Inr (push_bit IOPRIO_CLASS_SHIFT (linux_class (iv_class v))
            OR (case iv_level v of Some level \<Rightarrow> int (unat level) | None \<Rightarrow> 0)))"

definition ioprio_decode :: "int \<Rightarrow> anyhow + ioprio_value" where
  "ioprio_decode encoded =
     (if encoded < 0
      then Inl (boundary_err (InvalidValue ''ioprio'' ''encoded_ioprio''
             (''negative encoded I/O priority '' @ show_int encoded)))
      else res_bind (from_linux_class (drop_bit IOPRIO_CLASS_SHIFT encoded)) (\<lambda>cls.
        let data = word_of_int (encoded AND IOPRIO_PRIO_MASK) :: 8 word;
            level = (if cls = IC_BestEffort \<or> cls = IC_Realtime then Some data else None);
            v = \<lparr>iv_class = cls, iv_level = level\<rparr>
        in res_bind (validate_ioprio_value v) (\<lambda>_. Inr v)))"

definition ioprio_validate_policy_and_request :: "ioprio_policy \<Rightarrow> ioprio_value \<Rightarrow> anyhow + unit" where
  "ioprio_validate_policy_and_request p v =
     (if \<not> ip_allow_ioprio_changes p then Inl (boundary_err (PolicyDenied ''ioprio'' ''allow_ioprio_changes''))
      else if ip_require_strong_block_io_evidence p \<and> \<not> ip_strong_block_io_evidence p
      then Inl (boundary_err (EvidenceRequired ''ioprio'' ''strong_block_io_evidence''))
      else res_bind (validate_ioprio_value v) (\<lambda>_.
        case iv_class v of
          IC_Realtime \<Rightarrow>
            if ip_allow_realtime_class p then Inr ()
            else Inl (boundary_err (PolicyDenied ''ioprio'' ''allow_realtime_class''))
        | IC_None \<Rightarrow>
            if ip_allow_none_class p then Inr ()
            else Inl (boundary_err (PolicyDenied ''ioprio'' ''allow_none_class''))
        | IC_BestEffort \<Rightarrow>
            (let level = (case iv_level v of Some l \<Rightarrow> l | None \<Rightarrow> 4)
             in if ip_max_best_effort_level p < level
                then Inl (boundary_err (InvalidValue ''ioprio'' ''best_effort_level''
                       (''requested level '' @ show_nat (unat level) @ '' exceeds policy maximum ''
                        @ show_nat (unat (ip_max_best_effort_level p)))))
                else Inr ())
        | IC_Idle \<Rightarrow> Inr ()))"

section \<open>The I/O priority action\<close>

definition read_task_ioprio :: "'w sched_host \<Rightarrow> u32 \<Rightarrow> 'w \<Rightarrow> anyhow + int" where
  "read_task_ioprio host tid w =
     (case sh_ioprio_get host tid w of
        Inr v \<Rightarrow> Inr v
      | Inl e \<Rightarrow>
          Inl (Anyhow [''ioprio_get(IOPRIO_WHO_PROCESS, '' @ show_nat (unat tid) @ '') failed''] (RootIo e)))"

definition set_task_ioprio :: "'w sched_host \<Rightarrow> u32 \<Rightarrow> int \<Rightarrow> 'w \<Rightarrow> (anyhow + unit) \<times> 'w" where
  "set_task_ioprio host tid encoded w =
     (case ioprio_decode encoded of
        Inl e \<Rightarrow> (Inl e, w)
      | Inr _ \<Rightarrow>
         (case sh_ioprio_set host tid encoded w of
            (Inr _, w) \<Rightarrow> (Inr (), w)
          | (Inl e, w) \<Rightarrow>
              (Inl (Anyhow [''ioprio_set(IOPRIO_WHO_PROCESS, '' @ show_nat (unat tid) @ '', '' @ show_int encoded
                 @ '') failed''] (RootIo e)), w)))"

definition ioprio_read_target_snapshot ::
  "'w sched_host \<Rightarrow> 'w \<Rightarrow> task_identity \<Rightarrow> anyhow + ioprio_target_snapshot" where
  "ioprio_read_target_snapshot host w target =
     res_bind (read_target_starttime ''ioprio'' (sh_task host) target w) (\<lambda>starttime.
       case read_task_ioprio host (tk_tid target) w of
         Inl e \<Rightarrow>
           Inl (any_context (''current I/O priority is unreadable for tid='' @ show_nat (unat (tk_tid target))) e)
       | Inr current \<Rightarrow>
          (case ioprio_decode current of
             Inl e \<Rightarrow>
               Inl (any_context (''current I/O priority value is invalid for tid='' @ show_nat (unat (tk_tid target))) e)
           | Inr v \<Rightarrow>
               Inr \<lparr>it_tid = tk_tid target, it_process_pid = tk_process_pid target,
                    it_comm = read_comm (sh_task host) (tk_tid target) w, it_starttime_ticks = Some starttime,
                    it_exe = th_readlink (sh_task host) (proc_file (tk_tid target) ''exe'') w,
                    it_current_ioprio = current, it_current_value = v\<rparr>))"

definition ioprio_collect_target_snapshots ::
  "'w sched_host \<Rightarrow> ioprio_action \<Rightarrow> 'w \<Rightarrow> anyhow + (ioprio_target_snapshot \<times> string list) list" where
  "ioprio_collect_target_snapshots host a w =
     res_bind (ioprio_validate_policy_and_request (ia_policy a) (ia_ioprio a)) (\<lambda>_.
       if ia_targets a = [] then Inl (boundary_err (MissingExplicitTargets ''ioprio''))
       else observe_targets ''ioprio'' (ioprio_read_target_snapshot host w) it_comm (ia_targets a))"

definition ioprio_preflight :: "'w sched_host \<Rightarrow> ioprio_action \<Rightarrow> 'w \<Rightarrow> anyhow + string list" where
  "ioprio_preflight host a w =
     res_bind (ioprio_collect_target_snapshots host a w) (\<lambda>ss. Inr (concat (map snd ss)))"

definition ioprio_pending :: "int \<Rightarrow> (ioprio_target_snapshot \<times> string list) list \<Rightarrow> usize" where
  "ioprio_pending requested ss = length (filter (\<lambda>(s, _). it_current_ioprio s \<noteq> requested) ss)"

definition ioprio_dry_run :: "'w sched_host \<Rightarrow> ioprio_action \<Rightarrow> 'w \<Rightarrow> anyhow + action_state" where
  "ioprio_dry_run host a w =
     res_bind (ioprio_collect_target_snapshots host a w) (\<lambda>ss.
     res_bind (ioprio_encode (ia_ioprio a)) (\<lambda>requested.
       Inr (dry_run_state (length (ia_targets a)) (ioprio_pending requested ss) (concat (map snd ss)))))"

definition ioprio_verify :: "'w sched_host \<Rightarrow> ioprio_action \<Rightarrow> 'w \<Rightarrow> anyhow + action_state" where
  "ioprio_verify host a w =
     res_bind (ioprio_collect_target_snapshots host a w) (\<lambda>ss.
     res_bind (ioprio_encode (ia_ioprio a)) (\<lambda>requested.
       Inr (verify_state (length (ia_targets a)) (ioprio_pending requested ss) (concat (map snd ss)))))"

definition ioprio_plan :: "int \<Rightarrow> (ioprio_target_snapshot \<times> string list) list \<Rightarrow> ioprio_restore_record list" where
  "ioprio_plan requested ss =
     map (\<lambda>(s, _). ioprio_record_new
            (identity_observed (it_tid s) (it_process_pid s) (it_comm s) (it_starttime_ticks s) (it_exe s))
            (it_current_ioprio s))
       (filter (\<lambda>(s, _). it_current_ioprio s \<noteq> requested) ss)"

definition ioprio_apply_record ::
  "'w sched_host \<Rightarrow> int \<Rightarrow> ioprio_restore_record \<Rightarrow> 'w \<Rightarrow> (anyhow + unit) \<times> 'w" where
  "ioprio_apply_record host requested r w =
     (case set_task_ioprio host (ioprio_record_tid r) requested w of
        (Inl e, w) \<Rightarrow>
          (Inl (any_context (''failed to set I/O priority for tid='' @ show_nat (unat (ioprio_record_tid r))) e), w)
      | (Inr u, w) \<Rightarrow> (Inr u, w))"

definition ioprio_apply :: "'w sched_host \<Rightarrow> ioprio_action \<Rightarrow> 'w \<Rightarrow> (partial_apply_error + rollback_token) \<times> 'w" where
  "ioprio_apply host a w =
     (case res_bind (ioprio_collect_target_snapshots host a w) (\<lambda>ss.
             res_bind (ioprio_encode (ia_ioprio a)) (\<lambda>requested. Inr (ss, requested))) of
        Inl e \<Rightarrow> (Inl (clean_failure e), w)
      | Inr (ss, requested) \<Rightarrow>
          apply_planned_loop (ioprio_plan requested ss) (ioprio_apply_record host requested) IoPrioRestore w)"

definition ioprio_undo ::
  "'w sched_host \<Rightarrow> ioprio_restore_record \<Rightarrow> restore_summary \<times> string list \<Rightarrow> 'w
    \<Rightarrow> (restore_summary \<times> string list) \<times> 'w" where
  "ioprio_undo host r =
     undo_record (sh_task host) (ioprio_restore_identity r) (\<lambda>tid. set_task_ioprio host tid (or_original_ioprio r))
       (''failed to restore original I/O priority='' @ show_int (or_original_ioprio r))"

definition ioprio_rollback :: "'w sched_host \<Rightarrow> rollback_token \<Rightarrow> 'w \<Rightarrow> (anyhow + unit) \<times> 'w" where
  "ioprio_rollback host token w =
     (case token of
        IoPrioRestore records \<Rightarrow>
          (case undo_loop (ioprio_undo host) records (summary_zero, []) w of
             (acc, w) \<Rightarrow> (undo_verdict ''ioprio'' ''I/O priority'' acc, w))
      | _ \<Rightarrow> (Inl (wrong_token ''ioprio-restore'' token), w))"

definition ioprio_action_id :: "ioprio_action \<Rightarrow> string" where
  "ioprio_action_id a =
     ''ioprio:set:'' @ ioprio_value_label (ia_ioprio a) @ '':targets:'' @ show_nat (length (ia_targets a))"

definition ioprio_describe :: "ioprio_action \<Rightarrow> string" where
  "ioprio_describe a =
     ''set I/O priority '' @ ioprio_value_label (ia_ioprio a) @ '' for task(s) ['' @ tids_text (ia_targets a) @ '']''"

definition ioprio_tuning_action :: "'w sched_host \<Rightarrow> ioprio_action \<Rightarrow> 'w tuning_action" where
  "ioprio_tuning_action host a =
     \<lparr>ta_descriptor = default_descriptor (ioprio_action_id a) SC_ReversibleMediumRisk,
      ta_preflight = (\<lambda>w. (ioprio_preflight host a w, w)),
      ta_dry_run = (\<lambda>w. (ioprio_dry_run host a w, w)),
      ta_apply = (\<lambda>_. ioprio_apply host a),
      ta_verify = (\<lambda>w. (ioprio_verify host a w, w)),
      ta_rollback = ioprio_rollback host\<rparr>"

end
