(* ===== verification/Uclamp_Action.thy ===== *)
theory Uclamp_Action
  imports Task_Actions Recovery_Model
begin

text \<open>
  The utilisation clamp action (\<open>stutter/src/actions/uclamp/\<close>), whose values are checked before every
  \<open>sched_setattr\<close>, and the rollback handlers of the three per-task actions (\<open>nice/model.rs\<close>, \<open>uclamp/handler.rs\<close>,
  \<open>ioprio/rollback.rs\<close>), which restore a token outside the action that made it.
\<close>

section \<open>Values and policy\<close>

definition UCLAMP_MIN_VALUE :: u32 where "UCLAMP_MIN_VALUE = 0"
definition UCLAMP_MAX_VALUE :: u32 where "UCLAMP_MAX_VALUE = 1024"

record uclamp_values =
  uv_sched_util_min :: "u32 option"
  uv_sched_util_max :: "u32 option"

record uclamp_current_values =
  uc_sched_util_min :: u32
  uc_sched_util_max :: u32

definition uclamp_is_empty :: "uclamp_values \<Rightarrow> bool" where
  "uclamp_is_empty v \<longleftrightarrow> uv_sched_util_min v = None \<and> uv_sched_util_max v = None"

definition requested_min_or :: "uclamp_values \<Rightarrow> uclamp_current_values \<Rightarrow> u32" where
  "requested_min_or v c = (case uv_sched_util_min v of Some m \<Rightarrow> m | None \<Rightarrow> uc_sched_util_min c)"

definition requested_max_or :: "uclamp_values \<Rightarrow> uclamp_current_values \<Rightarrow> u32" where
  "requested_max_or v c = (case uv_sched_util_max v of Some m \<Rightarrow> m | None \<Rightarrow> uc_sched_util_max c)"

record uclamp_policy =
  up_allow_uclamp_changes :: bool
  up_min_allowed_util_min :: u32
  up_max_allowed_util_min :: u32
  up_min_allowed_util_max :: u32
  up_max_allowed_util_max :: u32
  up_allow_per_task :: bool
  up_allow_cgroup :: bool

definition default_uclamp_policy :: uclamp_policy where
  "default_uclamp_policy =
     \<lparr>up_allow_uclamp_changes = True, up_min_allowed_util_min = UCLAMP_MIN_VALUE,
      up_max_allowed_util_min = UCLAMP_MAX_VALUE, up_min_allowed_util_max = UCLAMP_MIN_VALUE,
      up_max_allowed_util_max = UCLAMP_MAX_VALUE, up_allow_per_task = True, up_allow_cgroup = False\<rparr>"

record uclamp_action =
  ua_targets :: "task_identity list"
  ua_values :: uclamp_values

record uclamp_target_snapshot =
  ut_tid :: u32
  ut_process_pid :: "u32 option"
  ut_comm :: "string option"
  ut_starttime_ticks :: "u64 option"
  ut_exe :: "string option"
  ut_current :: uclamp_current_values

definition uclamp_invalid :: "string \<Rightarrow> string \<Rightarrow> anyhow" where
  "uclamp_invalid field reason = boundary_err (InvalidValue ''uclamp'' field reason)"

definition range_text :: "u32 \<Rightarrow> u32 \<Rightarrow> string" where
  "range_text lo hi = show_nat (unat lo) @ ''..='' @ show_nat (unat hi)"

definition validate_uclamp_value :: "string \<Rightarrow> u32 \<Rightarrow> anyhow + unit" where
  "validate_uclamp_value name v =
     (if UCLAMP_MIN_VALUE \<le> v \<and> v \<le> UCLAMP_MAX_VALUE then Inr ()
      else Inl (uclamp_invalid name (''requested '' @ name @ '' '' @ show_nat (unat v) @ '' is outside uclamp range ''
             @ range_text UCLAMP_MIN_VALUE UCLAMP_MAX_VALUE)))"

definition validate_requested :: "string \<Rightarrow> u32 \<Rightarrow> u32 \<Rightarrow> u32 option \<Rightarrow> anyhow + unit" where
  "validate_requested name lo hi requested =
     (case requested of
        None \<Rightarrow> Inr ()
      | Some v \<Rightarrow>
          res_bind (validate_uclamp_value name v) (\<lambda>_.
            if lo \<le> v \<and> v \<le> hi then Inr ()
            else Inl (uclamp_invalid name (''requested '' @ name @ '' '' @ show_nat (unat v)
                   @ '' is outside policy range '' @ range_text lo hi))))"

definition uclamp_validate_policy_and_request :: "uclamp_policy \<Rightarrow> uclamp_values \<Rightarrow> anyhow + unit" where
  "uclamp_validate_policy_and_request p v =
     (if \<not> up_allow_uclamp_changes p then Inl (boundary_err (PolicyDenied ''uclamp'' ''allow_uclamp_changes''))
      else if \<not> up_allow_per_task p then Inl (boundary_err (PolicyDenied ''uclamp'' ''allow_per_task''))
      else if uclamp_is_empty v
      then Inl (boundary_err (InvalidRequest ''uclamp'' ''requires sched_util_min, sched_util_max, or both''))
      else if up_max_allowed_util_min p < up_min_allowed_util_min p
      then Inl (boundary_err (InvalidPolicy ''uclamp'' (''invalid uclamp policy min range ''
             @ range_text (up_min_allowed_util_min p) (up_max_allowed_util_min p) @ '': min is greater than max'')))
      else if up_max_allowed_util_max p < up_min_allowed_util_max p
      then Inl (boundary_err (InvalidPolicy ''uclamp'' (''invalid uclamp policy max range ''
             @ range_text (up_min_allowed_util_max p) (up_max_allowed_util_max p) @ '': min is greater than max'')))
      else if UCLAMP_MAX_VALUE < up_max_allowed_util_min p \<or> UCLAMP_MAX_VALUE < up_max_allowed_util_max p
      then Inl (boundary_err (InvalidPolicy ''uclamp'' (''invalid uclamp policy range; uclamp values must be within ''
             @ range_text UCLAMP_MIN_VALUE UCLAMP_MAX_VALUE)))
      else res_bind (validate_requested ''sched_util_min'' (up_min_allowed_util_min p) (up_max_allowed_util_min p)
                       (uv_sched_util_min v)) (\<lambda>_.
           res_bind (validate_requested ''sched_util_max'' (up_min_allowed_util_max p) (up_max_allowed_util_max p)
                       (uv_sched_util_max v)) (\<lambda>_.
             case (uv_sched_util_min v, uv_sched_util_max v) of
               (Some util_min, Some util_max) \<Rightarrow>
                 if util_max < util_min
                 then Inl (uclamp_invalid ''sched_util_min'' (''requested sched_util_min '' @ show_nat (unat util_min)
                        @ '' is greater than sched_util_max '' @ show_nat (unat util_max)))
                 else Inr ()
             | _ \<Rightarrow> Inr ())))"

section \<open>Reading and writing the clamps of a task\<close>

definition sched_line_value :: "string \<Rightarrow> string \<Rightarrow> u32 option" where
  "sched_line_value key line =
     (let trimmed = trim_start line
      in if \<not> starts_with trimmed key then None
         else case split_once (CHR '':'') trimmed of
                None \<Rightarrow> None
              | Some (_, v) \<Rightarrow> parse_u32 (trim v))"

fun sched_scan :: "string list \<Rightarrow> u32 option \<times> u32 option \<Rightarrow> u32 option \<times> u32 option" where
  "sched_scan [] acc = acc"
| "sched_scan (l # ls) (util_min, util_max) =
     (case sched_line_value ''uclamp.min'' l of
        Some v \<Rightarrow> sched_scan ls (Some v, util_max)
      | None \<Rightarrow>
         (case sched_line_value ''uclamp.max'' l of
            Some v \<Rightarrow> sched_scan ls (util_min, Some v)
          | None \<Rightarrow> sched_scan ls (util_min, util_max)))"

definition parse_sched_uclamp :: "string \<Rightarrow> anyhow + uclamp_current_values" where
  "parse_sched_uclamp sched =
     (case sched_scan (str_lines sched) (None, None) of
        (None, _) \<Rightarrow> Inl (anyhow_msg ''missing uclamp.min'')
      | (Some _, None) \<Rightarrow> Inl (anyhow_msg ''missing uclamp.max'')
      | (Some util_min, Some util_max) \<Rightarrow> Inr \<lparr>uc_sched_util_min = util_min, uc_sched_util_max = util_max\<rparr>)"

definition read_task_uclamp_from_sched :: "'w task_host \<Rightarrow> u32 \<Rightarrow> 'w \<Rightarrow> anyhow + uclamp_current_values" where
  "read_task_uclamp_from_sched host tid w =
     (let path = proc_file tid ''sched''
      in case th_read host path w of
           Inl e \<Rightarrow> Inl (Anyhow [''failed to read '' @ path] (RootIo e))
         | Inr sched \<Rightarrow>
             (case parse_sched_uclamp sched of
                Inl e \<Rightarrow> Inl (any_context (''failed to parse uclamp values from '' @ path) e)
              | Inr c \<Rightarrow> Inr c))"

definition read_task_uclamp :: "'w sched_host \<Rightarrow> u32 \<Rightarrow> 'w \<Rightarrow> anyhow + uclamp_current_values" where
  "read_task_uclamp host tid w =
     (case sh_sched_getattr host tid w of
        Inl e \<Rightarrow> Inl (Anyhow [''sched_getattr('' @ show_nat (unat tid) @ '') failed''] (RootIo e))
      | Inr (util_min, util_max) \<Rightarrow> Inr \<lparr>uc_sched_util_min = util_min, uc_sched_util_max = util_max\<rparr>)"

definition set_task_uclamp :: "'w sched_host \<Rightarrow> u32 \<Rightarrow> uclamp_current_values \<Rightarrow> 'w \<Rightarrow> (anyhow + unit) \<times> 'w" where
  "set_task_uclamp host tid v w =
     (case res_bind (validate_uclamp_value ''sched_util_min'' (uc_sched_util_min v)) (\<lambda>_.
             validate_uclamp_value ''sched_util_max'' (uc_sched_util_max v)) of
        Inl e \<Rightarrow> (Inl e, w)
      | Inr _ \<Rightarrow>
          if uc_sched_util_max v < uc_sched_util_min v
          then (Inl (uclamp_invalid ''sched_util_min'' (''sched_util_min '' @ show_nat (unat (uc_sched_util_min v))
                  @ '' is greater than sched_util_max '' @ show_nat (unat (uc_sched_util_max v)))), w)
          else (case sh_sched_setattr host tid (uc_sched_util_min v) (uc_sched_util_max v) w of
                  (Inr _, w) \<Rightarrow> (Inr (), w)
                | (Inl e, w) \<Rightarrow>
                    (Inl (Anyhow [''sched_setattr('' @ show_nat (unat tid) @ '', util_min=''
                       @ show_nat (unat (uc_sched_util_min v)) @ '', util_max=''
                       @ show_nat (unat (uc_sched_util_max v)) @ '') failed''] (RootIo e)), w)))"

text \<open>On the host the tree is \<open>/proc\<close>: \<open>sched_getattr\<close> first, then the \<open>sched\<close> file.\<close>

definition uclamp_read_target_snapshot ::
  "'w sched_host \<Rightarrow> 'w \<Rightarrow> task_identity \<Rightarrow> anyhow + uclamp_target_snapshot" where
  "uclamp_read_target_snapshot host w target =
     res_bind (read_target_starttime ''uclamp'' (sh_task host) target w) (\<lambda>starttime.
       case (case read_task_uclamp host (tk_tid target) w of
               Inr c \<Rightarrow> Inr c
             | Inl _ \<Rightarrow> read_task_uclamp_from_sched (sh_task host) (tk_tid target) w) of
         Inl e \<Rightarrow> Inl (any_context (''current uclamp is unreadable for tid='' @ show_nat (unat (tk_tid target))) e)
       | Inr c \<Rightarrow>
           Inr \<lparr>ut_tid = tk_tid target, ut_process_pid = tk_process_pid target,
                ut_comm = read_comm (sh_task host) (tk_tid target) w, ut_starttime_ticks = Some starttime,
                ut_exe = th_readlink (sh_task host) (proc_file (tk_tid target) ''exe'') w, ut_current = c\<rparr>)"

section \<open>The action\<close>

definition requested_values_differ :: "uclamp_values \<Rightarrow> uclamp_current_values \<Rightarrow> bool" where
  "requested_values_differ v c \<longleftrightarrow>
     (case uv_sched_util_min v of Some m \<Rightarrow> m \<noteq> uc_sched_util_min c | None \<Rightarrow> False)
     \<or> (case uv_sched_util_max v of Some m \<Rightarrow> m \<noteq> uc_sched_util_max c | None \<Rightarrow> False)"

definition uclamp_collect_target_snapshots ::
  "'w sched_host \<Rightarrow> uclamp_policy \<Rightarrow> uclamp_action \<Rightarrow> 'w \<Rightarrow> anyhow + (uclamp_target_snapshot \<times> string list) list" where
  "uclamp_collect_target_snapshots host p a w =
     res_bind (uclamp_validate_policy_and_request p (ua_values a)) (\<lambda>_.
       if ua_targets a = [] then Inl (boundary_err (MissingExplicitTargets ''uclamp''))
       else observe_targets ''uclamp'' (uclamp_read_target_snapshot host w) ut_comm (ua_targets a))"

definition uclamp_preflight :: "'w sched_host \<Rightarrow> uclamp_policy \<Rightarrow> uclamp_action \<Rightarrow> 'w \<Rightarrow> anyhow + string list" where
  "uclamp_preflight host p a w =
     res_bind (uclamp_collect_target_snapshots host p a w) (\<lambda>ss. Inr (concat (map snd ss)))"

definition uclamp_pending :: "uclamp_values \<Rightarrow> (uclamp_target_snapshot \<times> string list) list \<Rightarrow> usize" where
  "uclamp_pending v ss = length (filter (\<lambda>(s, _). requested_values_differ v (ut_current s)) ss)"

definition uclamp_dry_run :: "'w sched_host \<Rightarrow> uclamp_policy \<Rightarrow> uclamp_action \<Rightarrow> 'w \<Rightarrow> anyhow + action_state" where
  "uclamp_dry_run host p a w =
     res_bind (uclamp_collect_target_snapshots host p a w) (\<lambda>ss.
       Inr (dry_run_state (length (ua_targets a)) (uclamp_pending (ua_values a) ss) (concat (map snd ss))))"

definition uclamp_verify :: "'w sched_host \<Rightarrow> uclamp_policy \<Rightarrow> uclamp_action \<Rightarrow> 'w \<Rightarrow> anyhow + action_state" where
  "uclamp_verify host p a w =
     res_bind (uclamp_collect_target_snapshots host p a w) (\<lambda>ss.
       Inr (verify_state (length (ua_targets a)) (uclamp_pending (ua_values a) ss) (concat (map snd ss))))"

fun uclamp_plan_loop ::
  "uclamp_values \<Rightarrow> bool \<Rightarrow> (uclamp_target_snapshot \<times> string list) list
    \<Rightarrow> anyhow + (uclamp_restore_record \<times> uclamp_current_values) list" where
  "uclamp_plan_loop v require_identity [] = Inr []"
| "uclamp_plan_loop v require_identity ((s, _) # rest) =
     (if require_identity \<and> \<not> (ut_starttime_ticks s \<noteq> None \<and> ut_process_pid s \<noteq> None)
      then Inl (anyhow_msg (''uclamp target tid='' @ show_nat (unat (ut_tid s)) @ '' lacks a complete task identity''))
      else if \<not> requested_values_differ v (ut_current s) then uclamp_plan_loop v require_identity rest
      else res_bind (uclamp_plan_loop v require_identity rest) (\<lambda>plan.
             Inr ((uclamp_record_new
                     (identity_observed (ut_tid s) (ut_process_pid s) (ut_comm s) (ut_starttime_ticks s) (ut_exe s))
                     (uc_sched_util_min (ut_current s)) (uc_sched_util_max (ut_current s)),
                   \<lparr>uc_sched_util_min = requested_min_or v (ut_current s),
                    uc_sched_util_max = requested_max_or v (ut_current s)\<rparr>) # plan)))"

definition uclamp_plan_records ::
  "'w sched_host \<Rightarrow> uclamp_policy \<Rightarrow> uclamp_action \<Rightarrow> bool \<Rightarrow> 'w
    \<Rightarrow> anyhow + (uclamp_restore_record \<times> uclamp_current_values) list" where
  "uclamp_plan_records host p a require_identity w =
     res_bind (uclamp_collect_target_snapshots host p a w) (uclamp_plan_loop (ua_values a) require_identity)"

definition uclamp_token :: "(uclamp_restore_record \<times> uclamp_current_values) list \<Rightarrow> rollback_token" where
  "uclamp_token plan = UclampRestore (map fst plan)"

definition uclamp_apply_record ::
  "'w sched_host \<Rightarrow> uclamp_restore_record \<times> uclamp_current_values \<Rightarrow> 'w \<Rightarrow> (anyhow + unit) \<times> 'w" where
  "uclamp_apply_record host entry w =
     (case entry of (r, requested) \<Rightarrow>
        (case set_task_uclamp host (uclamp_record_tid r) requested w of
           (Inl e, w) \<Rightarrow>
             (Inl (any_context (''failed to set uclamp for tid='' @ show_nat (unat (uclamp_record_tid r))) e), w)
         | (Inr u, w) \<Rightarrow> (Inr u, w)))"

definition uclamp_apply_plan ::
  "'w sched_host \<Rightarrow> (uclamp_restore_record \<times> uclamp_current_values) list \<Rightarrow> 'w
    \<Rightarrow> (partial_apply_error + rollback_token) \<times> 'w" where
  "uclamp_apply_plan host plan w = apply_planned_loop plan (uclamp_apply_record host) uclamp_token w"

definition uclamp_apply ::
  "'w sched_host \<Rightarrow> uclamp_policy \<Rightarrow> uclamp_action \<Rightarrow> 'w \<Rightarrow> (partial_apply_error + rollback_token) \<times> 'w" where
  "uclamp_apply host p a w =
     (case uclamp_plan_records host p a False w of
        Inl e \<Rightarrow> (Inl (clean_failure e), w)
      | Inr plan \<Rightarrow> uclamp_apply_plan host plan w)"

definition uclamp_apply_prepared ::
  "'w sched_host \<Rightarrow> uclamp_policy \<Rightarrow> uclamp_action \<Rightarrow> (rollback_token \<Rightarrow> 'w \<Rightarrow> (anyhow + unit) \<times> 'w) \<Rightarrow> 'w
    \<Rightarrow> (partial_apply_error + rollback_token) \<times> 'w" where
  "uclamp_apply_prepared host p a before_mutation w =
     (case uclamp_plan_records host p a True w of
        Inl e \<Rightarrow> (Inl (clean_failure e), w)
      | Inr plan \<Rightarrow>
         (case before_mutation (uclamp_token plan) w of
            (Inl e, w) \<Rightarrow> (Inl (clean_failure e), w)
          | (Inr _, w) \<Rightarrow>
             (case uclamp_plan_records host p a True w of
                Inl e \<Rightarrow> (Inl (clean_failure e), w)
              | Inr current \<Rightarrow>
                  if map fst current \<noteq> map fst plan
                  then (Inl (clean_failure (anyhow_msg
                          ''uclamp target drifted between preparation and commit; nothing was written'')), w)
                  else uclamp_apply_plan host plan w)))"

definition uclamp_undo ::
  "'w sched_host \<Rightarrow> uclamp_restore_record \<Rightarrow> restore_summary \<times> string list \<Rightarrow> 'w
    \<Rightarrow> (restore_summary \<times> string list) \<times> 'w" where
  "uclamp_undo host r =
     undo_record (sh_task host) (uclamp_restore_identity r)
       (\<lambda>tid. set_task_uclamp host tid
          \<lparr>uc_sched_util_min = ur_original_util_min r, uc_sched_util_max = ur_original_util_max r\<rparr>)
       (''failed to restore uclamp min='' @ show_nat (unat (ur_original_util_min r)) @ '' max=''
        @ show_nat (unat (ur_original_util_max r)))"

definition uclamp_rollback :: "'w sched_host \<Rightarrow> rollback_token \<Rightarrow> 'w \<Rightarrow> (anyhow + unit) \<times> 'w" where
  "uclamp_rollback host token w =
     (case token of
        UclampRestore records \<Rightarrow>
          (case undo_loop (uclamp_undo host) records (summary_zero, []) w of
             (acc, w) \<Rightarrow> (undo_verdict ''uclamp'' ''uclamp'' acc, w))
      | _ \<Rightarrow> (Inl (wrong_token ''uclamp-restore'' token), w))"

definition optional_uclamp_value :: "u32 option \<Rightarrow> string" where
  "optional_uclamp_value v = (case v of Some n \<Rightarrow> show_nat (unat n) | None \<Rightarrow> ''keep'')"

definition uclamp_action_id :: "uclamp_action \<Rightarrow> string" where
  "uclamp_action_id a =
     ''uclamp:set:min='' @ optional_uclamp_value (uv_sched_util_min (ua_values a)) @ '':max=''
     @ optional_uclamp_value (uv_sched_util_max (ua_values a)) @ '':targets:'' @ show_nat (length (ua_targets a))"

definition uclamp_describe :: "uclamp_action \<Rightarrow> string" where
  "uclamp_describe a =
     ''set uclamp min='' @ optional_uclamp_value (uv_sched_util_min (ua_values a)) @ '' max=''
     @ optional_uclamp_value (uv_sched_util_max (ua_values a)) @ '' for task(s) ['' @ tids_text (ua_targets a) @ '']''"

definition uclamp_tuning_action :: "'w sched_host \<Rightarrow> uclamp_action \<Rightarrow> 'w tuning_action" where
  "uclamp_tuning_action host a =
     \<lparr>ta_descriptor = default_descriptor (uclamp_action_id a) SC_ReversibleMediumRisk,
      ta_preflight = (\<lambda>w. (uclamp_preflight host default_uclamp_policy a w, w)),
      ta_dry_run = (\<lambda>w. (uclamp_dry_run host default_uclamp_policy a w, w)),
      ta_apply = uclamp_apply_prepared host default_uclamp_policy a,
      ta_verify = (\<lambda>w. (uclamp_verify host default_uclamp_policy a w, w)),
      ta_rollback = uclamp_rollback host\<rparr>"

section \<open>Rollback handlers of the per-task actions\<close>

record restore_tally =
  tl_restored :: usize
  tl_skipped_dead :: usize
  tl_skipped_identity_mismatch :: usize
  tl_legacy_unverified :: usize
  tl_errors :: usize
  tl_messages :: "string list"

definition tally_zero :: restore_tally where
  "tally_zero = \<lparr>tl_restored = 0, tl_skipped_dead = 0, tl_skipped_identity_mismatch = 0, tl_legacy_unverified = 0,
     tl_errors = 0, tl_messages = []\<rparr>"

definition handler_write ::
  "'w task_host \<Rightarrow> u32 \<Rightarrow> (u32 \<Rightarrow> 'w \<Rightarrow> (anyhow + unit) \<times> 'w) \<Rightarrow> string \<Rightarrow> restore_tally \<Rightarrow> 'w \<Rightarrow> restore_tally \<times> 'w" where
  "handler_write host tid write what t w =
     (case write tid w of
        (Inr _, w) \<Rightarrow> (t\<lparr>tl_restored := tl_restored t + 1\<rparr>, w)
      | (Inl err, w) \<Rightarrow>
         (case classify_restore_write_error host tid err w of
            RW_MissingTask \<Rightarrow> (t\<lparr>tl_skipped_dead := tl_skipped_dead t + 1\<rparr>, w)
          | _ \<Rightarrow>
              (t\<lparr>tl_errors := tl_errors t + 1,
                 tl_messages := tl_messages t
                   @ [what @ '' for tid='' @ show_nat (unat tid) @ '': '' @ any_display err]\<rparr>, w)))"

definition handler_record ::
  "'w task_host \<Rightarrow> bool \<Rightarrow> string \<Rightarrow> task_restore_identity \<Rightarrow> (u32 \<Rightarrow> 'w \<Rightarrow> (anyhow + unit) \<times> 'w) \<Rightarrow> string
    \<Rightarrow> restore_tally \<Rightarrow> 'w \<Rightarrow> restore_tally \<times> 'w" where
  "handler_record host require_verified kind identity write what t w =
     (let tid = ti_tid identity
      in case verify_task_identity host identity w of
           Missing \<Rightarrow> (t\<lparr>tl_skipped_dead := tl_skipped_dead t + 1\<rparr>, w)
         | Mismatch reason \<Rightarrow>
             (t\<lparr>tl_skipped_identity_mismatch := tl_skipped_identity_mismatch t + 1,
                tl_messages := tl_messages t @ [kind @ '' restore identity mismatch for tid='' @ show_nat (unat tid)
                  @ '': '' @ reason]\<rparr>, w)
         | UnknownLegacy \<Rightarrow>
             if require_verified
             then (t\<lparr>tl_skipped_identity_mismatch := tl_skipped_identity_mismatch t + 1,
                     tl_messages := tl_messages t @ [kind @ '' restore refused unverifiable identity for tid=''
                       @ show_nat (unat tid)]\<rparr>, w)
             else handler_write host tid write what (t\<lparr>tl_legacy_unverified := tl_legacy_unverified t + 1\<rparr>) w
         | SameTask \<Rightarrow> handler_write host tid write what t w)"

fun handler_loop :: "('r \<Rightarrow> restore_tally \<Rightarrow> 'w \<Rightarrow> restore_tally \<times> 'w) \<Rightarrow> 'r list \<Rightarrow> restore_tally \<Rightarrow> 'w \<Rightarrow> restore_tally \<times> 'w" where
  "handler_loop f [] t w = (t, w)"
| "handler_loop f (r # rs) t w = (case f r t w of (t', w') \<Rightarrow> handler_loop f rs t' w')"

definition tally_result :: "string \<Rightarrow> rollback_token \<Rightarrow> restore_tally \<Rightarrow> rollback_result" where
  "tally_result handler_id token t =
     \<lparr>rr_handler_id = handler_id, rr_restore_path = (case restore_path token of Some p \<Rightarrow> p | None \<Rightarrow> []),
      rr_restored = tl_restored t, rr_skipped_dead = tl_skipped_dead t,
      rr_skipped_identity_mismatch = tl_skipped_identity_mismatch t, rr_legacy_unverified = tl_legacy_unverified t,
      rr_errors = tl_errors t, rr_messages = tl_messages t\<rparr>"

definition unsupported_token :: "string \<Rightarrow> string \<Rightarrow> rollback_token \<Rightarrow> anyhow" where
  "unsupported_token handler_id kind token =
     boundary_err (UnsupportedRollbackToken handler_id kind (token_kind token))"

definition nice_handler_restore_token ::
  "bool \<Rightarrow> 'w task_host \<Rightarrow> rollback_token \<Rightarrow> 'w \<Rightarrow> (anyhow + rollback_result) \<times> 'w" where
  "nice_handler_restore_token require_verified host token w =
     (case token of
        NiceRestore records \<Rightarrow>
          (case handler_loop (\<lambda>r. handler_record host require_verified ''nice'' (nice_restore_identity r)
                  (\<lambda>tid. set_task_nice host tid (nr_original_nice r))
                  (''failed to restore original nice='' @ show_int (nr_original_nice r))) records tally_zero w of
             (t, w) \<Rightarrow> (Inr (tally_result ''nice-rollback'' token t), w))
      | _ \<Rightarrow> (Inl (unsupported_token ''nice-rollback'' ''nice-restore'' token), w))"

definition uclamp_handler_restore_token ::
  "bool \<Rightarrow> 'w sched_host \<Rightarrow> rollback_token \<Rightarrow> 'w \<Rightarrow> (anyhow + rollback_result) \<times> 'w" where
  "uclamp_handler_restore_token require_verified host token w =
     (case token of
        UclampRestore records \<Rightarrow>
          (case handler_loop (\<lambda>r. handler_record (sh_task host) require_verified ''uclamp'' (uclamp_restore_identity r)
                  (\<lambda>tid. set_task_uclamp host tid
                     \<lparr>uc_sched_util_min = ur_original_util_min r, uc_sched_util_max = ur_original_util_max r\<rparr>)
                  (''failed to restore uclamp min='' @ show_nat (unat (ur_original_util_min r)) @ '' max=''
                   @ show_nat (unat (ur_original_util_max r)))) records tally_zero w of
             (t, w) \<Rightarrow> (Inr (tally_result ''uclamp-rollback'' token t), w))
      | _ \<Rightarrow> (Inl (unsupported_token ''uclamp-rollback'' ''uclamp-restore'' token), w))"

definition ioprio_handler_restore_token ::
  "'w sched_host \<Rightarrow> rollback_token \<Rightarrow> 'w \<Rightarrow> (anyhow + rollback_result) \<times> 'w" where
  "ioprio_handler_restore_token host token w =
     (case token of
        IoPrioRestore records \<Rightarrow>
          (case handler_loop (\<lambda>r. handler_record (sh_task host) False ''ioprio'' (ioprio_restore_identity r)
                  (\<lambda>tid. set_task_ioprio host tid (or_original_ioprio r))
                  (''failed to restore original I/O priority='' @ show_int (or_original_ioprio r)))
                  records tally_zero w of
             (t, w) \<Rightarrow>
               if 0 < tl_errors t
               then (Inl (boundary_err (RestoreFailed ''ioprio''
                       (''failed to restore I/O priority: '' @ join ''; '' (tl_messages t)))), w)
               else (Inr (tally_result ''ioprio-rollback'' token t), w))
      | _ \<Rightarrow> (Inl (unsupported_token ''ioprio-rollback'' ''ioprio-restore'' token), w))"

definition token_dry_run_preview :: "string \<Rightarrow> rollback_token \<Rightarrow> string \<Rightarrow> rollback_preview" where
  "token_dry_run_preview handler_id token kind =
     \<lparr>rp_handler_id = handler_id, rp_restore_path = (case restore_path token of Some p \<Rightarrow> p | None \<Rightarrow> []),
      rp_affected_tasks = affected_tasks token,
      rp_message = ''would restore rollback_kind='' @ kind @ '' affected_items='' @ show_nat (affected_tasks token)\<rparr>"

definition task_handler_dry_run :: "string \<Rightarrow> string \<Rightarrow> rollback_token \<Rightarrow> anyhow + rollback_preview" where
  "task_handler_dry_run handler_id kind token =
     (if \<not> handler_supports handler_id token then Inl (unsupported_token handler_id kind token)
      else Inr (token_dry_run_preview handler_id token kind))"

end
