(* ===== verification/Recovery_Handlers.thy ===== *)
theory Recovery_Handlers
  imports Crash_Recovery_Facts Uclamp_Action
begin

text \<open>
  Crash recovery over the modelled rollback handlers: what happens to a token whose restore was refused by the
  kernel, in startup recovery and in the emergency restore.
\<close>

section \<open>Runs with no write fault\<close>

lemma durable_write_done [simp]:
  "fault (dk_writes d) = WriteDone \<Longrightarrow>
     durable_write fault upd (d, w) = (Inr (), upd (d\<lparr>dk_writes := Suc (dk_writes d)\<rparr>), w)"
  by (simp add: durable_write_def)

lemma report_recovered_done:
  assumes "\<And>n. sc_fault c n = WriteDone"
  shows "\<exists>d'. report_recovered c x a t summary (d, w)
      = (Inr (SR_Recovered x a (su_affected_tasks summary) (recovery_manual_command c t)), d', w)
      \<and> dk_journal d' = dk_journal d \<and> dk_ledger d' = dk_ledger d"
  by (simp add: report_recovered_def Let_def write_startup_recovery_audit_event_def
      write_startup_recovery_history_event_def write_startup_recovery_daemon_state_snapshot_def
      rec_bind_def rec_context_def assms rec_return_def)

lemma forget_done:
  assumes "\<And>n. sc_fault c n = WriteDone" "dk_ledger d = Absent"
  shows "\<exists>d'. forget_restored_token c x a t FromJournal (d, w) = (Inr (), d', w)
      \<and> dk_journal d' = Stored journal_clean \<and> dk_ledger d' = Absent"
  by (simp add: forget_restored_token_def journal_names_token_def write_controller_journal_clean_def
      write_controller_journal_record_def retire_kept_def read_kept_ledger_def ledger_of_file_def
      default_kept_ledger_def other_entries_def rec_return_def rec_bind_def rec_context_def assms)

lemma startup_forgets:
  assumes "restore_token registry token w = (Inr result, w')"
    and "require_automatic_recovery token = Inr ()" "affinity_file token = None"
    and "journal_of_file (sc_journal_path c) (dk_journal d) = Inr r" "jr_rollback_token r = Some token"
    and "may_have_mutated_system r" "dk_ledger d = Absent"
    and "sc_rollback_on_crash_recovery c" "\<And>n. sc_fault c n = WriteDone"
  shows "\<exists>cmd d'. recover_before_start c (real_rollback None present registry) (d, w)
      = (Inr (SR_Recovered (fst (journal_experiment_action r)) (snd (journal_experiment_action r)) (rr_restored result) cmd), d', w')
      \<and> dk_journal d' = Stored journal_clean \<and> dk_ledger d' = Absent"
proof -
  let ?ex = "real_rollback None present registry"
  have ex: "?ex token w = (Inr (startup_recovery_summary_from_rollback_result token result), w')"
    by (cases "needs_privileged_restore token") (simp_all add: real_rollback_def assms(1-3))
  have kept: "recover_kept_ledger c ?ex (d, w) = (Inr [], d, w)"
    by (simp add: recover_kept_ledger_def rec_bind_def read_kept_ledger_def ledger_of_file_def assms(7)
        default_kept_ledger_def rec_return_def)
  have run: "run_executor ?ex token (d, w) = (Inr (Inr (startup_recovery_summary_from_rollback_result token result)), d, w')"
    by (simp add: run_executor_def assms(2) ex)
  have phase: "recover_phase c ?ex r = recover_applied_journal_record c ?ex (fst (journal_experiment_action r))
      (snd (journal_experiment_action r)) token FromJournal"
    using assms(5,6) by (cases "jr_state r") (simp_all add: recover_phase_def may_have_mutated_system_def)
  have "recover_journal_record c ?ex (d, w) = recover_phase c ?ex r (d, w)"
    by (simp add: recover_journal_record_def rec_bind_def read_controller_journal_def assms(4))
  then have journal: "recover_journal_record c ?ex (d, w)
      = recovery_succeeded c (fst (journal_experiment_action r)) (snd (journal_experiment_action r)) token FromJournal
          (startup_recovery_summary_from_rollback_result token result) (d, w')"
    by (simp add: phase recover_applied_journal_record_def assms(8) rec_bind_def run)
  obtain d1 where d1: "forget_restored_token c (fst (journal_experiment_action r)) (snd (journal_experiment_action r))
      token FromJournal (d, w') = (Inr (), d1, w')" "dk_journal d1 = Stored journal_clean" "dk_ledger d1 = Absent"
    using forget_done [OF assms(9,7), of "fst (journal_experiment_action r)" "snd (journal_experiment_action r)" token w']
    by auto
  obtain d2 cmd where d2: "report_recovered c (fst (journal_experiment_action r)) (snd (journal_experiment_action r))
      token (startup_recovery_summary_from_rollback_result token result) (d1, w')
      = (Inr (SR_Recovered (fst (journal_experiment_action r)) (snd (journal_experiment_action r))
          (rr_restored result) cmd), d2, w')" "dk_journal d2 = Stored journal_clean" "dk_ledger d2 = Absent"
    using report_recovered_done [OF assms(9), of "fst (journal_experiment_action r)" "snd (journal_experiment_action r)"
        token "startup_recovery_summary_from_rollback_result token result" d1 w'] d1(2,3)
    by (auto simp: startup_recovery_summary_from_rollback_result_def)
  have "recover_controller_journal_with_executor c ?ex (d, w)
      = (Inr (SR_Recovered (fst (journal_experiment_action r)) (snd (journal_experiment_action r))
          (rr_restored result) cmd), d2, w')"
    by (simp add: recover_controller_journal_with_executor_def rec_bind_def kept
        journal recovery_succeeded_def d1(1) d2(1) combine_def rec_return_def)
  then have "recover_before_start c ?ex (d, w)
      = (Inr (SR_Recovered (fst (journal_experiment_action r)) (snd (journal_experiment_action r))
          (rr_restored result) cmd), d2, w')"
    by (simp add: gate_returns)
  with d2(2,3) show ?thesis
    by blast
qed

lemma emergency_keeps:
  assumes "restore_token registry token w = (Inr result, w')" "0 < rr_errors result"
    and "journal_of_file (rc_journal_path i) (dk_journal d) = Inr r" "jr_rollback_token r = Some token"
    and "may_have_mutated_system r"
    and "\<not> rc_dry_run i" "\<And>n. rc_fault i n = WriteDone"
    and "validate_non_empty ''ExperimentId'' (fst (journal_experiment_action r)) = Inr ()"
    and "validate_non_empty ''ActionId'' (snd (journal_experiment_action r)) = Inr ()"
  shows "\<exists>res d'. restore_known_autotune_actions i registry (d, w) = (Inr res, d', w') \<and> ro_status res = RS_Faulted
    \<and> dk_journal d' = dk_journal d \<and> dk_ledger d' = dk_ledger d"
proof -
  let ?x = "fst (journal_experiment_action r)" and ?a = "snd (journal_experiment_action r)"
  let ?m = "rollback_restore_summary_from_registry_result token result"
  have failed: "0 < rs_failed_items ?m"
    using assms(2) by (simp add: rollback_restore_summary_from_registry_result_def)
  have "restore_known_autotune_actions i registry (d, w) = restore_applied_journal_record i registry ?x ?a token (d, w)"
    using assms(4,5)
    by (cases "jr_state r")
      (simp_all add: restore_known_autotune_actions_def rec_bind_def read_controller_journal_def assms(3)
        may_have_mutated_system_def Let_def split_def)
  also have "\<dots> = restore_incomplete i ?x ?a token ?m (d, w')"
    using failed by (simp add: restore_applied_journal_record_def assms(6) rec_bind_def on_world_def assms(1) Let_def)
  finally show ?thesis
    by (simp add: restore_incomplete_def Let_def write_emergency_restore_audit_event_def
        write_emergency_restore_history_event_def rec_bind_def rec_context_def rec_return_def assms(7-9)
        with_summary_def restore_outcome_def)
qed

section \<open>A task whose nice level may not be raised again\<close>

definition denied_stat :: string where
  "denied_stat = ''7 (game) S 1 1 1 0 -1 0 0 0 0 0 0 0 0 0 20 5 1 0 42''"

definition denied_host :: "unit task_host" where
  "denied_host =
     \<lparr>th_read = (\<lambda>path _. Inr denied_stat), th_readlink = (\<lambda>_ _. None), th_exists = (\<lambda>_ _. True),
      th_setpriority = (\<lambda>_ _ w. (Inl \<lparr>io_raw_os_error = Some 13, io_kind = Io_PermissionDenied, io_display = ''denied''\<rparr>, w))\<rparr>"

definition denied_record :: nice_restore_record where
  "denied_record = nice_record_new (identity_observed 7 None None (Some 42) None) 0"

definition denied_token :: rollback_token where
  "denied_token = NiceRestore [denied_record]"

lemma denied_starttime: "parse_proc_stat_starttime denied_stat = Some 42"
proof -
  have "rsplit_after '') '' denied_stat = Some ''S 1 1 1 0 -1 0 0 0 0 0 0 0 0 0 20 5 1 0 42''"
    by code_simp
  moreover have "list_get 19 (split_whitespace ''S 1 1 1 0 -1 0 0 0 0 0 0 0 0 0 20 5 1 0 42'') = Some ''42''"
    by code_simp
  moreover have "parse_u64 ''42'' = Some 42"
    by (simp add: parse_u64_def parse_bits_def parse_nat_def digit_val_def)
  ultimately show ?thesis
    by (simp add: parse_proc_stat_starttime_def)
qed

lemma denied_identity: "verify_task_identity denied_host (nice_restore_identity denied_record) () = SameTask"
  by (simp add: verify_task_identity_def denied_host_def denied_record_def nice_record_new_def nice_restore_identity_def
      identity_observed_def denied_starttime check_process_pid_def check_process_starttime_def)

lemma denied_write: "th_setpriority denied_host tid n w
    = (Inl \<lparr>io_raw_os_error = Some 13, io_kind = Io_PermissionDenied, io_display = ''denied''\<rparr>, w)"
  by (simp add: denied_host_def)

lemma denied_restore:
  "\<exists>result. nice_handler_restore_token True denied_host denied_token () = (Inr result, ())
     \<and> rr_errors result = 1 \<and> rr_restored result = 0"
  by (simp add: nice_handler_restore_token_def denied_token_def handler_record_def denied_identity handler_write_def
     set_task_nice_def denied_write classify_restore_write_error_def Let_def tally_result_def tally_zero_def)

definition denied_registry :: "unit rollback_handler list" where
  "denied_registry =
     [\<lparr>hd_id = ''nice-rollback'', hd_supports_token = handler_supports ''nice-rollback'',
       hd_dry_run_token = (\<lambda>t w. (task_handler_dry_run ''nice-rollback'' ''nice-restore'' t, w)),
       hd_restore_token = nice_handler_restore_token True denied_host\<rparr>]"

definition denied_disk :: recovery_disk where
  "denied_disk = \<lparr>dk_journal = Stored (for_phase 8 9 CJ_Applied ''trial-2'' ''nice:game'' (Some denied_token)),
     dk_ledger = Absent, dk_audit = [], dk_history = [], dk_snapshot = None, dk_writes = 0\<rparr>"

definition sample_restore :: autotune_restore_command_input where
  "sample_restore = \<lparr>rc_journal_path = ''/j'', rc_audit_path = ''/a'', rc_history_path = ''/h'', rc_dry_run = False,
     rc_default_restore_path = ''/r'', rc_fault = (\<lambda>_. WriteDone)\<rparr>"

section \<open>Startup recovery and failed restores\<close>

text \<open>
  C11. Startup recovery forgets a restore that failed. If the registry's handler answers with a result that counts
  errors (the handlers of nice and uclamp do, for every record whose write was refused), then startup recovery reports
  the token as recovered, clears the journal and opens the gate: the failed records are restored by nobody any more.
  The emergency restore, given the same answer, reports a fault and keeps the journal.
\<close>

theorem startup_forgets_failed_restore:
  assumes "restore_token registry token w = (Inr result, w')" "0 < rr_errors result"
    and "require_automatic_recovery token = Inr ()" "affinity_file token = None"
    and "dk_journal d = Stored (for_phase t0 t1 CJ_Applied x a (Some token))" "dk_ledger d = Absent"
    and "trim x \<noteq> []" "trim a \<noteq> []"
    and "sc_rollback_on_crash_recovery c" "\<And>n. sc_fault c n = WriteDone"
    and "\<not> rc_dry_run i" "\<And>n. rc_fault i n = WriteDone"
  shows "(\<exists>cmd d'. recover_before_start c (real_rollback None present registry) (d, w)
            = (Inr (SR_Recovered x a (rr_restored result) cmd), d', w') \<and> durable_tokens d' = [])
    \<and> (\<exists>res d'. restore_known_autotune_actions i registry (d, w) = (Inr res, d', w')
            \<and> ro_status res = RS_Faulted \<and> durable_tokens d' = [token])"
proof -
  let ?r = "for_phase t0 t1 CJ_Applied x a (Some token)"
  have r: "journal_of_file path (dk_journal d) = Inr ?r" for path
    by (simp add: assms(5,7,8) journal_of_file_def journal_validate_identity_strings_def for_phase_def journal_clean_def
        validate_non_empty_def)
  have ids: "fst (journal_experiment_action ?r) = x" "snd (journal_experiment_action ?r) = a"
    by (simp_all add: journal_experiment_action_def for_phase_def)
  have m: "may_have_mutated_system ?r" and t: "jr_rollback_token ?r = Some token"
    by (simp_all add: may_have_mutated_system_def for_phase_def)
  from startup_forgets [OF assms(1,3,4) r t m assms(6,9,10), of present] obtain cmd d1 where
    "recover_before_start c (real_rollback None present registry) (d, w)
       = (Inr (SR_Recovered x a (rr_restored result) cmd), d1, w')"
    "dk_journal d1 = Stored journal_clean" "dk_ledger d1 = Absent"
    unfolding ids by auto
  moreover have "durable_tokens d1 = []"
    using calculation(2,3) by (simp add: durable_tokens_def ledger_entries_def)
  moreover obtain res d2 where "restore_known_autotune_actions i registry (d, w) = (Inr res, d2, w')"
    "ro_status res = RS_Faulted" "dk_journal d2 = dk_journal d" "dk_ledger d2 = dk_ledger d"
    using emergency_keeps [OF assms(1,2) r t m assms(11,12)] assms(7,8)
    by (auto simp: ids validate_non_empty_def)
  moreover have "durable_tokens d2 = [token]"
    using calculation(7,8) assms(5,6) m t by (simp add: durable_tokens_def ledger_entries_def journal_tokens_def)
  ultimately show ?thesis
    by blast
qed

theorem startup_forgets_failed_restore_witness:
  "(\<exists>cmd d'. recover_before_start sample_recovery (real_rollback None (\<lambda>_ _. True) denied_registry) (denied_disk, ())
        = (Inr (SR_Recovered ''trial-2'' ''nice:game'' 0 cmd), d', ()) \<and> durable_tokens d' = [])
    \<and> (\<exists>res d'. restore_known_autotune_actions sample_restore denied_registry (denied_disk, ()) = (Inr res, d', ())
        \<and> ro_status res = RS_Faulted \<and> durable_tokens d' = [denied_token])"
proof -
  obtain result where r: "nice_handler_restore_token True denied_host denied_token () = (Inr result, ())"
    "rr_errors result = 1" "rr_restored result = 0"
    using denied_restore by blast
  have "restore_token denied_registry denied_token () = (Inr result, ())"
    using r(1) by (simp add: restore_token_def handler_for_token_def denied_registry_def denied_token_def)
  then show ?thesis
    using startup_forgets_failed_restore [of denied_registry denied_token "()" result "()" denied_disk 8 9
        "''trial-2''" "''nice:game''" sample_recovery sample_restore "\<lambda>_ _. True"] r(2,3)
    by (simp add: denied_disk_def sample_recovery_def sample_restore_def require_automatic_recovery_def denied_token_def
        trim_def trim_start_def is_whitespace_def)
qed

end
