(* ===== verification/Emergency_Restore_Facts.thy ===== *)
theory Emergency_Restore_Facts
  imports Crash_Recovery
begin

text \<open>
  What an operator can rely on: the emergency restore and the kept ledger, the manual restore commands read back by a
  shell, the handlers startup recovery may call, and the outcome it reports.
\<close>

section \<open>The emergency restore and the kept ledger\<close>

text \<open>A computation that neither reads nor writes the kept ledger.\<close>

locale ledger_blind =
  fixes m :: "('a, 'w) recovery"
  assumes blind: "m (d\<lparr>dk_ledger := l\<rparr>, w) = (case m (d, w) of (r, d', w') \<Rightarrow> (r, d'\<lparr>dk_ledger := l\<rparr>, w'))"
begin

lemma ledger_kept: "dk_ledger (fst (snd (m (d, w)))) = dk_ledger d"
  using blind [where d = d and l = "dk_ledger d" and w = w] by (auto simp: split_def prod_eq_iff dest: arg_cong [where f = dk_ledger])

end

lemma blind_return: "ledger_blind (rec_return x)"
  by unfold_locales (simp add: rec_return_def)

lemma blind_fail: "ledger_blind (rec_fail e)"
  by unfold_locales (simp add: rec_fail_def)

lemma blind_bind:
  assumes "ledger_blind m" "\<And>x. ledger_blind (f x)"
  shows "ledger_blind (rec_bind m f)"
proof unfold_locales
  fix d l w
  obtain r d' w' where m: "m (d, w) = (r, d', w')"
    by (rule prod_cases3)
  show "rec_bind m f (d\<lparr>dk_ledger := l\<rparr>, w) = (case rec_bind m f (d, w) of (r, d', w') \<Rightarrow> (r, d'\<lparr>dk_ledger := l\<rparr>, w'))"
    using ledger_blind.blind [OF assms(2), where d = d' and l = l and w = w']
    by (cases r) (simp_all add: rec_bind_def ledger_blind.blind [OF assms(1)] m)
qed

lemma blind_context: "ledger_blind m \<Longrightarrow> ledger_blind (rec_context c m)"
  by (simp add: ledger_blind_def rec_context_def split: prod.splits sum.splits)

lemma blind_write:
  assumes "\<And>d l. upd (d\<lparr>dk_ledger := l\<rparr>) = (upd d)\<lparr>dk_ledger := l\<rparr>"
  shows "ledger_blind (durable_write fault upd)"
proof unfold_locales
  fix d l w
  have "upd (d\<lparr>dk_ledger := l, dk_writes := n\<rparr>) = (upd (d\<lparr>dk_writes := n\<rparr>))\<lparr>dk_ledger := l\<rparr>" for n
  proof -
    have swap: "d\<lparr>dk_ledger := l, dk_writes := n\<rparr> = d\<lparr>dk_writes := n, dk_ledger := l\<rparr>"
      by (cases d) simp
    show ?thesis
      unfolding swap by (rule assms)
  qed
  then show "durable_write fault upd (d\<lparr>dk_ledger := l\<rparr>, w)
      = (case durable_write fault upd (d, w) of (r, d', w') \<Rightarrow> (r, d'\<lparr>dk_ledger := l\<rparr>, w'))"
    by (simp add: durable_write_def Let_def split: write_result.splits)
qed

interpretation read_journal: ledger_blind "read_controller_journal path" for path
  by unfold_locales (simp add: read_controller_journal_def)

interpretation clean_journal: ledger_blind "write_controller_journal_clean fault" for fault
  unfolding write_controller_journal_clean_def write_controller_journal_record_def by (rule blind_write) simp

interpretation emergency_audit: ledger_blind "write_emergency_restore_audit_event i a t ok n msg" for i a t ok n msg
  unfolding write_emergency_restore_audit_event_def by (intro blind_context blind_write) simp

interpretation emergency_history: ledger_blind "write_emergency_restore_history_event i ph dec e a t ok msg"
  for i ph dec e a t ok msg
  unfolding write_emergency_restore_history_event_def
  by (cases "res_bind (validate_non_empty ''ExperimentId'' e) (\<lambda>_. validate_non_empty ''ActionId'' a)")
    (simp_all add: blind_fail blind_context blind_write)

interpretation world_step: ledger_blind "on_world f" for f
  by unfold_locales (simp add: on_world_def split: prod.splits)

lemmas blind_steps = blind_return blind_fail read_journal.ledger_blind_axioms emergency_audit.ledger_blind_axioms
  emergency_history.ledger_blind_axioms world_step.ledger_blind_axioms
  clean_journal.ledger_blind_axioms [THEN blind_context]

interpretation restore_journal: ledger_blind "restore_applied_journal_record i registry e a t" for i registry e a t
proof -
  have "ledger_blind (restore_errored i e a t err)" "ledger_blind (restore_incomplete i e a t m)"
    "ledger_blind (restore_complete i e a t m)" for err m
    unfolding restore_errored_def restore_incomplete_def restore_complete_def Let_def
    by (intro blind_bind blind_steps)+
  then show "ledger_blind (restore_applied_journal_record i registry e a t)"
    unfolding restore_applied_journal_record_def Let_def
    by (auto intro!: blind_bind blind_steps split: sum.splits if_splits)
qed

interpretation emergency: ledger_blind "restore_known_autotune_actions i registry" for i registry
  unfolding restore_known_autotune_actions_def Let_def split_def
  by (intro blind_bind blind_steps)
    (auto intro!: blind_bind blind_steps restore_journal.ledger_blind_axioms
      split: controller_journal_state.splits option.splits if_splits)

text \<open>
  The emergency restore does not know the kept ledger: whatever the ledger holds, the restore does the same, answers
  the same and leaves the ledger as it was. So no kept action is restored by it, and a kept action that the journal
  names and the emergency restore has restored is restored a second time at the next start.
\<close>

theorem emergency_restore_ignores_kept_ledger:
  "restore_known_autotune_actions i registry (d\<lparr>dk_ledger := l\<rparr>, w)
     = (case restore_known_autotune_actions i registry (d, w) of (r, d', w') \<Rightarrow> (r, d'\<lparr>dk_ledger := l\<rparr>, w'))
   \<and> dk_ledger (fst (snd (restore_known_autotune_actions i registry (d, w)))) = dk_ledger d"
  by (rule conjI, rule emergency.blind, rule emergency.ledger_kept)

section \<open>Manual restore commands and the shell\<close>

text \<open>
  One word of a POSIX command, read from its first character to its last: quotes protect, a backslash takes the next
  character, and a character that is special to the shell must not stand unprotected (\<open>=\<close> and \<open>%\<close> are special only
  in assignments and job numbers).
\<close>

definition sh_special :: "char \<Rightarrow> bool" where
  "sh_special c \<longleftrightarrow>
     c \<in> {CHR ''|'', CHR ''&'', CHR '';'', CHR ''<'', CHR ''>'', CHR ''('', CHR '')'', CHR ''$'', CHR 0x60, CHR 0x22,
          CHR '' '', CHR 0x09, CHR 0x0A, CHR ''*'', CHR ''?'', CHR ''['', CHR ''#'', CHR ''~''}"

fun sh_word :: "bool \<Rightarrow> string \<Rightarrow> string option" where
  "sh_word quoted [] = (if quoted then None else Some [])"
| "sh_word True (c # cs) = (if c = CHR 0x27 then sh_word False cs else map_option (Cons c) (sh_word True cs))"
| "sh_word False (c # cs) =
     (if c = CHR 0x27 then sh_word True cs
      else if c = CHR 0x5C then (case cs of [] \<Rightarrow> None | e # es \<Rightarrow> map_option (Cons e) (sh_word False es))
      else if sh_special c then None
      else map_option (Cons c) (sh_word False cs))"

lemma plain_not_special:
  assumes "shell_plain_char c"
  shows "c \<noteq> CHR 0x27 \<and> c \<noteq> CHR 0x5C \<and> \<not> sh_special c"
  using assms by (auto simp: shell_plain_char_def is_ascii_alphanumeric_def sh_special_def Let_def)

lemma sh_word_plain: "list_all shell_plain_char v \<Longrightarrow> sh_word False v = Some v"
  by (induction v) (simp_all add: plain_not_special)

lemma sh_word_quoted: "sh_word True (concat (map escape_quote v) @ [CHR 0x27]) = Some v"
  by (induction v) (simp_all add: escape_quote_def)

text \<open>
  C38. The shell reads back what was quoted: for every value, the text that the manual restore command puts in the
  command line is exactly one non-empty shell word, no character of the value acts as shell syntax, and the word's value
  is the original one. A path or a sysfs value cannot inject a command.
\<close>

theorem shell_quote_round_trip:
  "shell_quote_value v \<noteq> [] \<and> sh_word False (shell_quote_value v) = Some v"
  using sh_word_quoted [of v] sh_word_plain [of v] by (simp add: shell_quote_value_def)

section \<open>Handlers and outcomes\<close>

text \<open>
  Startup recovery has a handler for exactly the tokens it may restore: the registry used at startup finds one for
  a token if and only if the token's kind is declared \<open>VerifiedAutomatic\<close>; the registry of the emergency restore finds
  one for every token.
\<close>

theorem startup_registry_exact:
  "((\<exists>h. handler_for_token (map (registered preview impl) startup_handler_names) token = Inr h)
       \<longleftrightarrow> require_automatic_recovery token = Inr ())
   \<and> (\<exists>h. handler_for_token (map (registered preview impl) default_handler_names) token = Inr h)"
  by (cases token)
    (simp_all add: handler_for_token_def registered_def startup_handler_names_def default_handler_names_def
      require_automatic_recovery_def)

text \<open>
  The order of \<open>combine\<close>: after faults, an outcome of the journal that is not \<open>Clean\<close> hides the recoveries of the
  ledger.
\<close>

lemma combine_prefers_journal:
  "\<not> list_ex outcome_is_faulted kept \<Longrightarrow> \<not> outcome_is_faulted journal \<Longrightarrow> journal \<noteq> SR_Clean
    \<Longrightarrow> combine kept journal = journal"
proof -
  assume "\<not> list_ex outcome_is_faulted kept" "\<not> outcome_is_faulted journal" "journal \<noteq> SR_Clean"
  moreover from this have "find outcome_is_faulted kept = None"
    by (auto simp: find_None_iff list_ex_iff)
  ultimately show "combine kept journal = journal"
    by (simp add: combine_def)
qed

end
