(* ===== verification/Task_Facts.thy ===== *)
theory Task_Facts
  imports Uclamp_Action
begin

unbundle bit_operations_syntax

text \<open>
  What the per-task actions and their rollback handlers guarantee: the encoding of I/O priorities, the clamps the
  kernel can be asked for, and that a handler restores like the action that made the token.
\<close>

section \<open>Encoded I/O priorities\<close>

lemma valid_level:
  assumes "validate_ioprio_value v = Inr ()"
  shows "case iv_level v of
           Some l \<Rightarrow> (iv_class v = IC_BestEffort \<or> iv_class v = IC_Realtime) \<and> unat l < 8
         | None \<Rightarrow> iv_class v = IC_None \<or> iv_class v = IC_Idle"
  using assms by (cases "iv_class v"; cases "iv_level v") (auto simp: validate_ioprio_value_def Let_def word_less_nat_alt
      not_less word_le_nat_alt split: if_splits)

lemma encoded_parts:
  fixes c l :: int
  assumes "0 \<le> c" "0 \<le> l" "l < 8"
  shows "drop_bit IOPRIO_CLASS_SHIFT (push_bit IOPRIO_CLASS_SHIFT c OR l) = c"
    and "(push_bit IOPRIO_CLASS_SHIFT c OR l) AND IOPRIO_PRIO_MASK = l"
    and "push_bit IOPRIO_CLASS_SHIFT c OR l = 8192 * c + l"
proof -
  have small: "take_bit 13 l = l"
    using assms by (simp add: take_bit_int_eq_self_iff)
  have low: "bit l n \<Longrightarrow> n < 13" for n
    using small by (metis bit_take_bit_iff)
  have disj: "push_bit 13 c AND l = 0"
    by (intro bit_eqI) (auto simp: bit_and_iff bit_push_bit_iff dest: low)
  then have sum: "push_bit 13 c OR l = push_bit 13 c + l"
    using plus_and_or [of "push_bit 13 c" l] by simp
  show "push_bit IOPRIO_CLASS_SHIFT c OR l = 8192 * c + l"
    using sum by (simp add: IOPRIO_CLASS_SHIFT_def push_bit_eq_mult)
  have "drop_bit 13 (c * 8192 + l) = c"
    using assms by (simp add: drop_bit_eq_div)
  then show "drop_bit IOPRIO_CLASS_SHIFT (push_bit IOPRIO_CLASS_SHIFT c OR l) = c"
    using sum by (simp add: IOPRIO_CLASS_SHIFT_def push_bit_eq_mult)
  have "take_bit 13 (c * 8192 + l) = l"
    using assms by (simp add: take_bit_eq_mod)
  moreover have "IOPRIO_PRIO_MASK = mask 13"
    by (simp add: IOPRIO_PRIO_MASK_def IOPRIO_CLASS_SHIFT_def mask_eq_exp_minus_1)
  ultimately show "(push_bit IOPRIO_CLASS_SHIFT c OR l) AND IOPRIO_PRIO_MASK = l"
    using sum by (simp add: IOPRIO_CLASS_SHIFT_def push_bit_eq_mult take_bit_eq_mask)
qed

lemma from_linux_class_inverse [simp]: "from_linux_class (linux_class c) = Inr c"
  by (cases c) (simp_all add: from_linux_class_def)

text \<open>
  I/O priorities survive the kernel's encoding: whatever value the action may request is encoded into a
  non-negative 15-bit number, and decoding that number gives the same class and level, so the value verified after an
  apply is the value requested.
\<close>

theorem ioprio_round_trip:
  assumes "ioprio_encode v = Inr e"
  shows "ioprio_decode e = Inr v \<and> 0 \<le> e \<and> e < 2 ^ 15"
proof -
  let ?l = "case iv_level v of Some level \<Rightarrow> int (unat level) | None \<Rightarrow> 0"
  from assms have valid: "validate_ioprio_value v = Inr ()"
    and e: "e = push_bit IOPRIO_CLASS_SHIFT (linux_class (iv_class v)) OR ?l"
    by (auto simp: ioprio_encode_def split: sum.splits)
  have c: "0 \<le> linux_class (iv_class v)" "linux_class (iv_class v) \<le> 3"
    by (cases "iv_class v"; simp)+
  have l: "0 \<le> ?l" "?l < 8"
    using valid_level [OF valid] by (auto simp del: of_nat_unat split: option.splits)
  note parts = encoded_parts [OF c(1) l, folded e]
  have pos: "\<not> e < 0"
    using parts(3) c l by simp
  have level: "(if iv_class v = IC_BestEffort \<or> iv_class v = IC_Realtime then Some (word_of_int ?l) else None) = iv_level v"
    using valid_level [OF valid] by (auto split: option.splits)
  have same: "\<lparr>iv_class = iv_class v, iv_level = iv_level v\<rparr> = v"
    by simp
  have "validate_ioprio_value \<lparr>iv_class = iv_class v, iv_level = iv_level v\<rparr> = Inr ()"
    by (subst same) (rule valid)
  then have "ioprio_decode e = Inr v"
    by (simp add: ioprio_decode_def pos parts(1,2) level valid Let_def del: of_nat_unat)
  with parts(3) c l show ?thesis
    by auto
qed

theorem ioprio_round_trip_witness: "ioprio_decode 16388 = Inr (ioprio_best_effort 4)"
proof -
  have "ioprio_encode (ioprio_best_effort 4) = Inr 16388"
    by code_simp
  then show ?thesis
    using ioprio_round_trip by blast
qed

section \<open>Clamps the kernel is asked for\<close>

text \<open>A host whose \<open>sched_setattr\<close> does anything at all when it is asked for an illegal pair of clamps.\<close>

definition legal_clamps :: "u32 \<Rightarrow> u32 \<Rightarrow> bool" where
  "legal_clamps lo hi \<longleftrightarrow> lo \<le> hi \<and> hi \<le> UCLAMP_MAX_VALUE"

definition poisoned :: "(u32 \<Rightarrow> u32 \<Rightarrow> u32 \<Rightarrow> 'w \<Rightarrow> (io_error + unit) \<times> 'w) \<Rightarrow> 'w sched_host \<Rightarrow> 'w sched_host" where
  "poisoned junk host =
     host\<lparr>sh_sched_setattr := (\<lambda>tid lo hi. if legal_clamps lo hi then sh_sched_setattr host tid lo hi else junk tid lo hi)\<rparr>"

lemma poisoned_simps [simp]:
  "sh_task (poisoned junk host) = sh_task host" "sh_sched_getattr (poisoned junk host) = sh_sched_getattr host"
  by (simp_all add: poisoned_def)

lemma set_task_uclamp_poisoned [simp]: "set_task_uclamp (poisoned junk host) = set_task_uclamp host"
proof (intro ext)
  fix tid v w
  show "set_task_uclamp (poisoned junk host) tid v w = set_task_uclamp host tid v w"
    by (cases "validate_uclamp_value ''sched_util_max'' (uc_sched_util_max v)")
      (auto simp: set_task_uclamp_def validate_uclamp_value_def poisoned_def legal_clamps_def not_less
        split: if_splits sum.splits)
qed

lemma uclamp_read_poisoned [simp]: "uclamp_read_target_snapshot (poisoned junk host) = uclamp_read_target_snapshot host"
  unfolding uclamp_read_target_snapshot_def [abs_def] read_task_uclamp_def poisoned_simps ..

lemma uclamp_collect_poisoned [simp]:
  "uclamp_collect_target_snapshots (poisoned junk host) = uclamp_collect_target_snapshots host"
  by (intro ext) (simp add: uclamp_collect_target_snapshots_def)

lemma uclamp_undo_poisoned [simp]: "uclamp_undo (poisoned junk host) = uclamp_undo host"
  by (intro ext) (simp add: uclamp_undo_def)

lemma uclamp_apply_poisoned [simp]:
  "uclamp_apply_record (poisoned junk host) = uclamp_apply_record host"
  "uclamp_plan_records (poisoned junk host) = uclamp_plan_records host"
  unfolding uclamp_apply_record_def [abs_def] uclamp_plan_records_def [abs_def] set_task_uclamp_poisoned
    uclamp_collect_poisoned by simp_all

text \<open>
  C39. The kernel is never asked for illegal clamps: no request, no policy, no rollback token (not even one whose records
  were tampered with) and no state of the host leads the uclamp action or its rollback handler to a \<open>sched_setattr\<close> with
  a minimum above the maximum or a value above 1024: a kernel that misbehaves arbitrarily on such calls cannot be
  distinguished from the real one.
\<close>

theorem uclamp_requests_legal:
  "uclamp_tuning_action (poisoned junk host) a = uclamp_tuning_action host a
   \<and> uclamp_handler_restore_token strict (poisoned junk host) token w = uclamp_handler_restore_token strict host token w"
  unfolding uclamp_tuning_action_def uclamp_preflight_def uclamp_dry_run_def uclamp_verify_def
    uclamp_apply_prepared_def [abs_def] uclamp_apply_plan_def uclamp_rollback_def [abs_def]
    uclamp_handler_restore_token_def poisoned_simps set_task_uclamp_poisoned uclamp_collect_poisoned
    uclamp_undo_poisoned uclamp_apply_poisoned
  by simp

section \<open>Handlers restore like actions\<close>

definition tally_matches :: "restore_tally \<Rightarrow> restore_summary \<Rightarrow> bool" where
  "tally_matches t s \<longleftrightarrow>
     tl_restored t = rs_restored s \<and> tl_skipped_dead t = rs_skipped_missing s
     \<and> tl_skipped_identity_mismatch t = rs_skipped_identity_mismatch s \<and> tl_errors t = rs_failed s"

lemmas summary_defs = record_missing_def record_identity_mismatch_def record_restored_def record_failure_def

lemma handler_record_matches:
  assumes "tally_matches t s"
  shows "case (handler_record host False kind identity write what t w, undo_record host identity write what' (s, fs) w) of
           ((t', w1), ((s', _), w2)) \<Rightarrow> w1 = w2 \<and> tally_matches t' s'"
  using assms
  by (cases "verify_task_identity host identity w")
    (auto simp: handler_record_def undo_record_def handler_write_def Let_def tally_matches_def summary_defs
      split: prod.splits sum.splits restore_write_error.splits)

lemma handler_loop_matches:
  assumes "tally_matches t s"
  shows "case (handler_loop (\<lambda>r. handler_record host False kind (ident r) (write r) (what r)) rs t w,
               undo_loop (\<lambda>r. undo_record host (ident r) (write r) (what' r)) rs (s, fs) w) of
           ((t', w1), ((s', _), w2)) \<Rightarrow> w1 = w2 \<and> tally_matches t' s'"
  using assms
proof (induction rs arbitrary: t s fs w)
  case (Cons r rs)
  obtain t1 w1 where h: "handler_record host False kind (ident r) (write r) (what r) t w = (t1, w1)"
    by (rule prod.exhaust)
  obtain s1 fs1 w2 where u: "undo_record host (ident r) (write r) (what' r) (s, fs) w = ((s1, fs1), w2)"
    by (metis surj_pair)
  have "w2 = w1" "tally_matches t1 s1"
    using handler_record_matches [OF Cons.prems, of host kind "ident r" "write r" "what r" w "what' r" fs]
    by (simp_all add: h u)
  then show ?case
    using Cons.IH [of t1 s1 w1 fs1] by (simp add: h u)
qed simp

lemma rollback_record_undo:
  "rollback_record host r = undo_record host (nice_restore_identity r)
     (\<lambda>tid. set_task_nice host tid (nr_original_nice r)) (''failed to restore original nice='' @ show_int (nr_original_nice r))"
  unfolding rollback_record_def [abs_def] undo_record_def [abs_def] Let_def append_assoc ..

lemma rollback_loop_undo: "rollback_loop host rs acc w = undo_loop (rollback_record host) rs acc w"
  by (induction rs arbitrary: acc w) (simp_all split: prod.splits)

lemma tally_zero_matches: "tally_matches tally_zero summary_zero"
  by (simp add: tally_matches_def tally_zero_def summary_zero_def)

text \<open>
  A handler restores like the action: on every nice token and every host, the rollback handler that accepts legacy
  records makes the same changes as the rollback of the action that made the token, restores the same number of tasks,
  and counts an error exactly when the action's rollback fails. The difference is only in the answer: the action
  answers with an error, the handler with a result.
\<close>

theorem nice_handler_matches_rollback:
  "case (nice_handler_restore_token False host (NiceRestore rs) w, nice_rollback host (NiceRestore rs) w) of
     ((answer, w1), (verdict, w2)) \<Rightarrow>
       w1 = w2 \<and> (\<exists>r. answer = Inr r \<and> (0 < rr_errors r \<longleftrightarrow> verdict \<noteq> Inr ()))"
proof -
  let ?h = "handler_loop (\<lambda>r. handler_record host False ''nice'' (nice_restore_identity r)
    (\<lambda>tid. set_task_nice host tid (nr_original_nice r))
    (''failed to restore original nice='' @ show_int (nr_original_nice r))) rs tally_zero w"
  let ?u = "rollback_loop host rs (summary_zero, []) w"
  obtain t w1 where h: "?h = (t, w1)"
    by (rule prod.exhaust)
  obtain s fs w2 where u: "?u = ((s, fs), w2)"
    by (metis surj_pair)
  have "w2 = w1 \<and> tally_matches t s"
    using handler_loop_matches [OF tally_zero_matches, of host "''nice''" nice_restore_identity
        "\<lambda>r tid. set_task_nice host tid (nr_original_nice r)"
        "\<lambda>r. ''failed to restore original nice='' @ show_int (nr_original_nice r)" rs w
        "\<lambda>r. ''failed to restore original nice='' @ show_int (nr_original_nice r)" "[]"] h u
    by (simp add: rollback_loop_undo rollback_record_undo [abs_def])
  then show ?thesis
    unfolding nice_handler_restore_token_def nice_rollback_def rollback_token.case h u prod.case
    by (simp add: tally_result_def has_failures_def tally_matches_def)
qed

end
