(* ===== verification/Sysfs_Actions.thy ===== *)
theory Sysfs_Actions
  imports Uclamp_Action System_Health
begin

text \<open>
  The actions that write attribute files of the kernel: the VM knobs (\<open>stutter/src/actions/vm_knobs.rs\<close>,
  \<open>vm_knobs/sysfs.rs\<close>) and the GPU power levels (\<open>actions/gpu_power.rs\<close>). The code of the two, and of the CPU
  power action, repeats the same file accesses, the same apply loop and the same rollback loop; these are written
  once, with the action kind and the words of its messages as arguments. The file system is a parameter: a read does
  not change it, a write answers with an error or not and changes it in any way.
\<close>

section \<open>Paths\<close>

text \<open>
  \<open>Path::components\<close> on Unix: repeated separators and inner \<open>.\<close> components vanish. Paths compare by components.
\<close>

datatype path_component = PC_RootDir | PC_CurDir | PC_ParentDir | PC_Normal string

fun path_part :: "string \<Rightarrow> path_component list" where
  "path_part p =
     (if p = [] \<or> p = ''.'' then [] else if p = ''..'' then [PC_ParentDir] else [PC_Normal p])"

definition path_components :: "string \<Rightarrow> path_component list" where
  "path_components p =
     (let parts = split_on (CHR ''/'') p
      in (if starts_with p ''/'' then [PC_RootDir] else if hd parts = ''.'' then [PC_CurDir] else [])
         @ concat (map path_part parts))"

definition path_eq :: "string \<Rightarrow> string \<Rightarrow> bool" where
  "path_eq p q \<longleftrightarrow> path_components p = path_components q"

section \<open>Files and what the actions share\<close>

record 'w file_host =
  fh_exists :: "string \<Rightarrow> 'w \<Rightarrow> bool"
  fh_is_file :: "string \<Rightarrow> 'w \<Rightarrow> bool"
  fh_is_dir :: "string \<Rightarrow> 'w \<Rightarrow> bool"
  fh_open_write :: "string \<Rightarrow> 'w \<Rightarrow> io_error + unit"
  fh_read :: "string \<Rightarrow> 'w \<Rightarrow> io_error + string"
  fh_read_dir :: "string \<Rightarrow> 'w \<Rightarrow> io_error + (io_error + string) list"
  fh_canonicalize :: "string \<Rightarrow> 'w \<Rightarrow> io_error + string"
  fh_write :: "string \<Rightarrow> string \<Rightarrow> 'w \<Rightarrow> (io_error + unit) \<times> 'w"

definition file_read_trimmed :: "'w file_host \<Rightarrow> string \<Rightarrow> 'w \<Rightarrow> anyhow + string" where
  "file_read_trimmed host path w =
     (case fh_read host path w of
        Inr v \<Rightarrow> Inr (trim v)
      | Inl e \<Rightarrow> Inl (Anyhow [''failed to read '' @ path] (RootIo e)))"

definition file_write_trimmed :: "'w file_host \<Rightarrow> string \<Rightarrow> string \<Rightarrow> 'w \<Rightarrow> (anyhow + unit) \<times> 'w" where
  "file_write_trimmed host path v w =
     (case fh_write host path (trim v) w of
        (Inr _, w) \<Rightarrow> (Inr (), w)
      | (Inl e, w) \<Rightarrow>
          (Inl (Anyhow [''failed to write '' @ debug_str (trim v) @ '' to '' @ path] (RootIo e)), w))"

definition ensure_writable :: "string \<Rightarrow> string \<Rightarrow> 'w file_host \<Rightarrow> string \<Rightarrow> 'w \<Rightarrow> anyhow + unit" where
  "ensure_writable kind what host path w =
     (if \<not> fh_is_file host path w then Inl (boundary_err (MissingPath kind path))
      else case fh_open_write host path w of
             Inr _ \<Rightarrow> Inr ()
           | Inl e \<Rightarrow> Inl (Anyhow [''required '' @ what @ '' is not writable: '' @ path] (RootIo e)))"

record sysfs_target =
  sf_path :: string
  sf_requested_value :: string
  sf_original_value :: string

definition sysfs_pending :: "'a sysfs_target_scheme list \<Rightarrow> usize" where
  "sysfs_pending ts = length (filter (\<lambda>t. sf_original_value t \<noteq> sf_requested_value t) ts)"

definition already_set_warning :: "string \<Rightarrow> 'a sysfs_target_scheme list \<Rightarrow> string list" where
  "already_set_warning m ts = (if list_all (\<lambda>t. sf_original_value t = sf_requested_value t) ts then [m] else [])"

text \<open>The second reading of \<open>verify_at\<close>, which counts the files whose value is not the requested one.\<close>

fun sysfs_verify_count :: "'w file_host \<Rightarrow> 'a sysfs_target_scheme list \<Rightarrow> 'w \<Rightarrow> anyhow + usize" where
  "sysfs_verify_count host [] w = Inr 0"
| "sysfs_verify_count host (t # ts) w =
     (case file_read_trimmed host (sf_path t) w of
        Inl e \<Rightarrow> Inl (any_context (''failed to verify '' @ sf_path t) e)
      | Inr current \<Rightarrow>
          res_bind (sysfs_verify_count host ts w) (\<lambda>n. Inr ((if current \<noteq> sf_requested_value t then 1 else 0) + n)))"

definition write_mismatch :: "string \<Rightarrow> string \<Rightarrow> 'a sysfs_target_scheme \<Rightarrow> string \<Rightarrow> anyhow" where
  "write_mismatch kind label t actual =
     boundary_err (RestoreFailed kind (label @ '' write verification failed for '' @ sf_path t @ '': requested=''
       @ debug_str (sf_requested_value t) @ '' actual='' @ debug_str actual))"

definition write_and_read_back ::
  "'w file_host \<Rightarrow> 'a sysfs_target_scheme \<Rightarrow> 'w \<Rightarrow> (anyhow + string) \<times> 'w" where
  "write_and_read_back host t w =
     (case file_write_trimmed host (sf_path t) (sf_requested_value t) w of
        (Inl e, w) \<Rightarrow> (Inl (any_context (''failed to write '' @ sf_path t) e), w)
      | (Inr _, w) \<Rightarrow>
         (case file_read_trimmed host (sf_path t) w of
            Inl e \<Rightarrow> (Inl (any_context (''failed to verify write to '' @ sf_path t) e), w)
          | Inr actual \<Rightarrow> (Inr actual, w)))"

text \<open>
  The loop of \<open>apply_with_policy\<close>: \<open>mk\<close> makes the restore record of a target, \<open>undo\<close> is the rollback that the loop
  calls when a value does not read back.
\<close>

fun sysfs_apply_loop ::
  "string \<Rightarrow> string \<Rightarrow> 'w file_host \<Rightarrow> ('a sysfs_target_scheme \<Rightarrow> 'w \<Rightarrow> 'r)
    \<Rightarrow> ('r list \<Rightarrow> 'w \<Rightarrow> (anyhow + unit) \<times> 'w) \<Rightarrow> 'a sysfs_target_scheme list \<Rightarrow> 'r list \<Rightarrow> 'w
    \<Rightarrow> (anyhow + 'r list) \<times> 'w" where
  "sysfs_apply_loop kind label host mk undo [] records w = (Inr records, w)"
| "sysfs_apply_loop kind label host mk undo (t # ts) records w =
     (let records = records @ [mk t w]
      in if sf_original_value t = sf_requested_value t
         then sysfs_apply_loop kind label host mk undo ts records w
         else case write_and_read_back host t w of
                (Inl e, w) \<Rightarrow> (Inl e, w)
              | (Inr actual, w) \<Rightarrow>
                  if actual \<noteq> sf_requested_value t
                  then (case undo records w of
                          (Inl e, w) \<Rightarrow> (Inl e, w)
                        | (Inr _, w) \<Rightarrow> (Inl (write_mismatch kind label t actual), w))
                  else sysfs_apply_loop kind label host mk undo ts records w)"

text \<open>One record of a rollback loop: a path and the value to write back.\<close>

definition undo_value :: "'w file_host \<Rightarrow> string \<times> string \<Rightarrow> 'w \<Rightarrow> string list \<times> 'w" where
  "undo_value host r w =
     (case r of (path, original) \<Rightarrow>
       (case file_write_trimmed host path original w of
          (Inl err, w) \<Rightarrow> ([path @ '' restore write failed: '' @ any_display_alt err], w)
        | (Inr _, w) \<Rightarrow>
           (case file_read_trimmed host path w of
              Inl err \<Rightarrow> ([path @ '' restore verification read failed: '' @ any_display_alt err], w)
            | Inr actual \<Rightarrow>
                ((if actual = original then []
                  else [path @ '' restore verification failed: requested='' @ debug_str original
                        @ '' actual='' @ debug_str actual]), w))))"

fun undo_values :: "'w file_host \<Rightarrow> (string \<times> string) list \<Rightarrow> 'w \<Rightarrow> string list \<times> 'w" where
  "undo_values host [] w = ([], w)"
| "undo_values host (r # rs) w =
     (case undo_value host r w of (f, w) \<Rightarrow> (case undo_values host rs w of (fs, w) \<Rightarrow> (f @ fs, w)))"

definition rollback_values ::
  "string \<Rightarrow> string \<Rightarrow> 'w file_host \<Rightarrow> (string \<times> string) list \<Rightarrow> 'w \<Rightarrow> (anyhow + unit) \<times> 'w" where
  "rollback_values kind label host rs w =
     (case undo_values host (rev rs) w of
        (failures, w) \<Rightarrow>
          (if failures \<noteq> []
           then Inl (boundary_err (RestoreFailed kind
                  (''failed to rollback '' @ label @ '' values: '' @ join ''; '' failures)))
           else Inr (), w))"

text \<open>\<open>{:?}\<close> of a character, and the shape every value must have before it is written.\<close>

definition debug_char :: "char \<Rightarrow> string" where
  "debug_char c =
     [CHR 0x27] @ (if c = CHR 0x27 then [CHR 0x5C, c] else if c = CHR 0x22 then [c] else escape_debug c) @ [CHR 0x27]"

definition check_value_shape :: "string \<Rightarrow> string \<Rightarrow> string \<Rightarrow> (char \<Rightarrow> bool) \<Rightarrow> string \<Rightarrow> anyhow + unit" where
  "check_value_shape kind field name allowed v =
     (let bad = (\<lambda>reason. Inl (boundary_err (InvalidValue kind field (name @ reason))))
      in if trim v = [] then bad ''value must not be empty''
         else if trim v \<noteq> v then bad ''value must not contain leading or trailing whitespace''
         else if 64 < length v then bad ''value is too long''
         else case find (\<lambda>c. \<not> allowed c) v of
                Some c \<Rightarrow> bad (''value contains invalid character '' @ debug_char c)
              | None \<Rightarrow> Inr ())"

text \<open>\<open>token_restore_result\<close> of \<open>actions/rollback/mod.rs\<close>.\<close>

definition token_restore_result ::
  "string \<Rightarrow> rollback_token \<Rightarrow> usize \<Rightarrow> usize \<Rightarrow> string list \<Rightarrow> rollback_result" where
  "token_restore_result handler_id token restored skipped messages =
     \<lparr>rr_handler_id = handler_id, rr_restore_path = (case restore_path token of Some p \<Rightarrow> p | None \<Rightarrow> []),
      rr_restored = restored, rr_skipped_dead = skipped, rr_skipped_identity_mismatch = 0,
      rr_legacy_unverified = 0, rr_errors = 0, rr_messages = messages\<rparr>"

definition record_value :: "path_value_restore_record \<Rightarrow> string \<times> string" where
  "record_value r = (vr_path r, vr_original_value r)"

definition path_value_record :: "'a sysfs_target_scheme \<Rightarrow> 'w \<Rightarrow> path_value_restore_record" where
  "path_value_record t w = \<lparr>vr_path = sf_path t, vr_original_value = sf_original_value t\<rparr>"

section \<open>VM knobs\<close>

datatype write_mode = SuggestOnly | ManualApply

record vm_knob_policy =
  vp_allow_vm_knob_changes :: bool
  vp_mode :: write_mode
  vp_allowed_paths :: "string list"
  vp_require_latency_cliff_evidence :: bool
  vp_latency_cliff_evidence :: bool

definition default_vm_knob_policy :: vm_knob_policy where
  "default_vm_knob_policy =
     \<lparr>vp_allow_vm_knob_changes = False, vp_mode = SuggestOnly, vp_allowed_paths = [],
      vp_require_latency_cliff_evidence = True, vp_latency_cliff_evidence = False\<rparr>"

record vm_knob_change =
  vc_path :: string
  vc_value :: string

record vm_knob_action =
  va_root :: string
  va_changes :: "vm_knob_change list"

record vm_knob_target_file = sysfs_target +
  vt_relative_path :: string

fun normalize_components :: "string \<Rightarrow> path_component list \<Rightarrow> string \<Rightarrow> anyhow + string" where
  "normalize_components path [] normalized = Inr normalized"
| "normalize_components path (PC_Normal part # cs) normalized =
     normalize_components path cs (path_join normalized part)"
| "normalize_components path (PC_ParentDir # cs) normalized =
     Inl (boundary_err (InvalidValue ''vm_knobs'' ''path''
       (''VM knob path must not contain parent traversal: '' @ path)))"
| "normalize_components path (_ # cs) normalized = normalize_components path cs normalized"

definition normalize_relative_knob_path :: "string \<Rightarrow> anyhow + string" where
  "normalize_relative_knob_path path =
     res_bind (normalize_components path (path_components path) []) (\<lambda>normalized.
       if normalized = []
       then Inl (boundary_err (InvalidValue ''vm_knobs'' ''path'' ''VM knob path must not be empty''))
       else Inr normalized)"

definition reversible_knobs :: "string list" where
  "reversible_knobs =
     [''sys/kernel/mm/transparent_hugepage/enabled'', ''sys/kernel/mm/transparent_hugepage/defrag'',
      ''sys/kernel/mm/transparent_hugepage/khugepaged/defrag'', ''proc/sys/vm/compaction_proactiveness'',
      ''proc/sys/vm/swappiness'', ''proc/sys/vm/dirty_background_ratio'', ''proc/sys/vm/dirty_ratio'',
      ''proc/sys/vm/zone_reclaim_mode'']"

definition validate_supported_reversible_knob :: "string \<Rightarrow> anyhow + unit" where
  "validate_supported_reversible_knob path =
     (if path \<in> set reversible_knobs then Inr ()
      else if path = ''proc/sys/vm/compact_memory''
      then Inl (boundary_err (InvalidRequest ''vm_knobs''
             ''/proc/sys/vm/compact_memory is a write-only trigger and is not reversible; keep it suggest-only outside VmKnobAction''))
      else Inl (boundary_err (UnsupportedValue ''vm_knobs'' ''path'' path)))"

definition knob_char :: "char \<Rightarrow> bool" where
  "knob_char c \<longleftrightarrow> is_ascii_alphanumeric c \<or> c = CHR ''_'' \<or> c = CHR ''-'' \<or> c = CHR ''+''"

definition validate_plain_value :: "string \<Rightarrow> string \<Rightarrow> anyhow + unit" where
  "validate_plain_value path v = check_value_shape ''vm_knobs'' path [] knob_char v"

definition thp_allowed_values :: "string \<Rightarrow> string list" where
  "thp_allowed_values path =
     (if path = ''sys/kernel/mm/transparent_hugepage/enabled'' then [''always'', ''madvise'', ''never'']
      else if path = ''sys/kernel/mm/transparent_hugepage/defrag''
      then [''always'', ''defer'', ''defer+madvise'', ''madvise'', ''never'']
      else if path = ''sys/kernel/mm/transparent_hugepage/khugepaged/defrag'' then [''0'', ''1'']
      else [])"

definition validate_thp_value :: "string \<Rightarrow> string \<Rightarrow> anyhow + unit" where
  "validate_thp_value path v =
     res_bind (validate_plain_value path v) (\<lambda>_.
       if v \<in> set (thp_allowed_values path) then Inr ()
       else Inl (boundary_err (UnsupportedValue ''vm_knobs'' ''value'' v)))"

definition parse_vm_value :: "string \<Rightarrow> string \<Rightarrow> anyhow + u32" where
  "parse_vm_value path v =
     (case parse_u32 v of
        Some n \<Rightarrow> Inr n
      | None \<Rightarrow>
          Inl (any_context (''VM knob '' @ path @ '' requires an unsigned integer value'')
            (anyhow_msg (parse_int_error v))))"

definition validate_range :: "string \<Rightarrow> u32 \<Rightarrow> u32 \<Rightarrow> u32 \<Rightarrow> anyhow + unit" where
  "validate_range path v lo hi =
     (if lo \<le> v \<and> v \<le> hi then Inr ()
      else Inl (boundary_err (InvalidValue ''vm_knobs'' path
             (''value '' @ show_nat (unat v) @ '' is outside allowed range '' @ show_nat (unat lo) @ ''..=''
              @ show_nat (unat hi)))))"

definition validate_numeric_vm_value :: "string \<Rightarrow> string \<Rightarrow> anyhow + unit" where
  "validate_numeric_vm_value path v =
     res_bind (validate_plain_value path v) (\<lambda>_.
     res_bind (parse_vm_value path v) (\<lambda>n.
       if path = ''proc/sys/vm/compaction_proactiveness'' then validate_range path n 0 100
       else if path = ''proc/sys/vm/swappiness'' then validate_range path n 0 200
       else if path = ''proc/sys/vm/dirty_background_ratio'' then validate_range path n 0 100
       else if path = ''proc/sys/vm/dirty_ratio'' then validate_range path n 1 100
       else if path = ''proc/sys/vm/zone_reclaim_mode'' then validate_range path n 0 7
       else Inl (boundary_err (UnsupportedValue ''vm_knobs'' ''numeric_vm_knob'' path))))"

definition validate_knob_value :: "string \<Rightarrow> string \<Rightarrow> anyhow + unit" where
  "validate_knob_value path v =
     (if starts_with path ''sys/kernel/mm/transparent_hugepage/'' then validate_thp_value path v
      else validate_numeric_vm_value path v)"

definition declared_safe_values :: "string \<Rightarrow> string list option" where
  "declared_safe_values path =
     (if path = ''proc/sys/vm/swappiness'' then Some [''10'']
      else if path = ''proc/sys/vm/dirty_background_ratio'' then Some [''5'']
      else if path = ''proc/sys/vm/dirty_ratio'' then Some [''10'']
      else None)"

definition validate_declared_safe_value :: "string \<Rightarrow> string \<Rightarrow> anyhow + unit" where
  "validate_declared_safe_value path v =
     (if (case declared_safe_values path of Some vs \<Rightarrow> v \<notin> set vs | None \<Rightarrow> False)
      then Inl (boundary_err (PolicyDenied ''vm_knobs'' ''declared_safe_values''))
      else if path_eq path ''proc/sys/vm/swappiness''
      then res_bind (parse_vm_value path v) (\<lambda>n. validate_range path n 1 60)
      else Inr ())"

definition vm_validate_policy_and_request :: "vm_knob_action \<Rightarrow> vm_knob_policy \<Rightarrow> anyhow + unit" where
  "vm_validate_policy_and_request a p =
     (if \<not> vp_allow_vm_knob_changes p then Inl (boundary_err (PolicyDenied ''vm_knobs'' ''allow_vm_knob_changes''))
      else if vp_allowed_paths p = [] then Inl (boundary_err (PolicyDenied ''vm_knobs'' ''allowed_paths_non_empty''))
      else if va_changes a = [] then Inl (boundary_err (MissingExplicitTargets ''vm_knobs''))
      else if vp_require_latency_cliff_evidence p \<and> \<not> vp_latency_cliff_evidence p
      then Inl (boundary_err (PolicyDenied ''vm_knobs'' ''latency_cliff_evidence''))
      else Inr ())"

definition vm_validate_manual_apply_policy :: "vm_knob_policy \<Rightarrow> anyhow + unit" where
  "vm_validate_manual_apply_policy p =
     (if vp_mode p \<noteq> ManualApply
      then Inl (boundary_err (InvalidRequest ''vm_knobs''
             ''VM knob action is suggest-only; set policy mode to ManualApply for explicit manual writes''))
      else Inr ())"

definition vm_target_file ::
  "'w file_host \<Rightarrow> vm_knob_action \<Rightarrow> vm_knob_policy \<Rightarrow> 'w \<Rightarrow> vm_knob_change \<Rightarrow> anyhow + vm_knob_target_file" where
  "vm_target_file host a p w change =
     res_bind (normalize_relative_knob_path (vc_path change)) (\<lambda>relative.
       if \<not> list_ex (path_eq relative) (vp_allowed_paths p)
       then Inl (boundary_err (PolicyDenied ''vm_knobs'' ''allowed_paths_contains_target''))
       else res_bind (validate_supported_reversible_knob relative) (\<lambda>_.
            res_bind (validate_knob_value relative (vc_value change)) (\<lambda>_.
            res_bind (validate_declared_safe_value relative (vc_value change)) (\<lambda>_.
              let path = path_join (va_root a) relative
              in res_bind (ensure_writable ''vm_knobs'' ''VM knob file'' host path w) (\<lambda>_.
                 res_bind (file_read_trimmed host path w) (\<lambda>original.
                   Inr \<lparr>sf_path = path, sf_requested_value = vc_value change, sf_original_value = original,
                        vt_relative_path = relative\<rparr>))))))"

fun res_map :: "('a \<Rightarrow> 'e + 'b) \<Rightarrow> 'a list \<Rightarrow> 'e + 'b list" where
  "res_map f [] = Inr []"
| "res_map f (x # xs) = res_bind (f x) (\<lambda>y. res_bind (res_map f xs) (\<lambda>ys. Inr (y # ys)))"

definition vm_collect_target_files ::
  "'w file_host \<Rightarrow> vm_knob_action \<Rightarrow> vm_knob_policy \<Rightarrow> 'w \<Rightarrow> anyhow + vm_knob_target_file list" where
  "vm_collect_target_files host a p w =
     res_bind (vm_validate_policy_and_request a p) (\<lambda>_. res_map (vm_target_file host a p w) (va_changes a))"

definition rollback_vm_knob_records ::
  "'w file_host \<Rightarrow> path_value_restore_record list \<Rightarrow> 'w \<Rightarrow> (anyhow + unit) \<times> 'w" where
  "rollback_vm_knob_records host rs w = rollback_values ''vm_knobs'' ''VM knob'' host (map record_value rs) w"

definition vm_apply ::
  "'w file_host \<Rightarrow> vm_knob_action \<Rightarrow> vm_knob_policy \<Rightarrow> 'w \<Rightarrow> (anyhow + rollback_token) \<times> 'w" where
  "vm_apply host a p w =
     (case res_bind (vm_validate_manual_apply_policy p) (\<lambda>_. vm_collect_target_files host a p w) of
        Inl e \<Rightarrow> (Inl e, w)
      | Inr files \<Rightarrow>
         (case sysfs_apply_loop ''vm_knobs'' ''VM knob'' host path_value_record (rollback_vm_knob_records host)
                 files [] w of
            (Inl e, w) \<Rightarrow> (Inl e, w)
          | (Inr records, w) \<Rightarrow> (Inr (VmKnobRestore records), w)))"

definition vm_preflight :: "'w file_host \<Rightarrow> vm_knob_action \<Rightarrow> vm_knob_policy \<Rightarrow> 'w \<Rightarrow> anyhow + string list" where
  "vm_preflight host a p w =
     res_bind (vm_collect_target_files host a p w) (\<lambda>files.
       Inr ([''THP/compaction/VM knob changes are high risk, system-wide, and should remain manual/suggest-only until safer actions prove reliable'']
            @ (if vp_mode p = SuggestOnly
               then [''policy is suggest-only; no writes will be performed by preflight or dry-run''] else [])
            @ already_set_warning ''all VM knob files already have requested values'' files))"

definition vm_dry_run :: "'w file_host \<Rightarrow> vm_knob_action \<Rightarrow> vm_knob_policy \<Rightarrow> 'w \<Rightarrow> anyhow + action_state" where
  "vm_dry_run host a p w =
     res_bind (vm_collect_target_files host a p w) (\<lambda>files.
       Inr (dry_run_state (length files) (sysfs_pending files)
              [''VM knob action dry-run only; no sysfs/procfs writes performed'']))"

definition vm_verify :: "'w file_host \<Rightarrow> vm_knob_action \<Rightarrow> vm_knob_policy \<Rightarrow> 'w \<Rightarrow> anyhow + action_state" where
  "vm_verify host a p w =
     res_bind (vm_collect_target_files host a p w) (\<lambda>files.
     res_bind (sysfs_verify_count host files w) (\<lambda>pending. Inr (verify_state (length files) pending [])))"

definition vm_rollback :: "'w file_host \<Rightarrow> rollback_token \<Rightarrow> 'w \<Rightarrow> (anyhow + unit) \<times> 'w" where
  "vm_rollback host token w =
     (case token of
        VmKnobRestore records \<Rightarrow> rollback_vm_knob_records host records w
      | _ \<Rightarrow> (Inl (wrong_token ''vm-knob-restore'' token), w))"

definition is_medium_risk_vm_knob_change :: "vm_knob_change \<Rightarrow> bool" where
  "is_medium_risk_vm_knob_change c \<longleftrightarrow>
     (case normalize_relative_knob_path (vc_path c) of
        Inl _ \<Rightarrow> False
      | Inr path \<Rightarrow> path_eq path ''proc/sys/vm/swappiness'' \<and> trim (vc_value c) = ''10'')"

definition vm_safety_class :: "vm_knob_action \<Rightarrow> safety_class" where
  "vm_safety_class a =
     (case va_changes a of
        [c] \<Rightarrow> if is_medium_risk_vm_knob_change c then SC_ReversibleMediumRisk else SC_HighRisk
      | _ \<Rightarrow> SC_HighRisk)"

definition vm_action_id :: "vm_knob_action \<Rightarrow> string" where
  "vm_action_id a =
     ''vm-knobs:set:changes='' @ join '',''
       (map (\<lambda>c. (case normalize_relative_knob_path (vc_path c) of Inr p \<Rightarrow> p | Inl _ \<Rightarrow> vc_path c) @ ''='' @ vc_value c)
          (va_changes a))"

definition vm_describe :: "vm_knob_action \<Rightarrow> string" where
  "vm_describe a =
     ''set high-risk VM knob(s): '' @ join '', '' (map (\<lambda>c. vc_path c @ ''='' @ vc_value c) (va_changes a))"

text \<open>\<open>VmKnobRollbackHandler\<close>, which also restores a single sysfs value.\<close>

definition vm_handler_dry_run_token :: "rollback_token \<Rightarrow> anyhow + rollback_preview" where
  "vm_handler_dry_run_token token =
     (case token of
        VmKnobRestore _ \<Rightarrow> Inr (token_dry_run_preview ''vm-knob-rollback'' token ''vm-knob-restore'')
      | SysfsRestore _ _ \<Rightarrow> Inr (token_dry_run_preview ''vm-knob-rollback'' token ''sysfs-restore'')
      | _ \<Rightarrow> Inl (unsupported_token ''vm-knob-rollback'' ''vm-knob-restore'' token))"

definition vm_handler_restore_token ::
  "'w file_host \<Rightarrow> rollback_token \<Rightarrow> 'w \<Rightarrow> (anyhow + rollback_result) \<times> 'w" where
  "vm_handler_restore_token host token w =
     (case token of
        VmKnobRestore records \<Rightarrow>
          (case rollback_vm_knob_records host records w of
             (Inl e, w) \<Rightarrow> (Inl e, w)
           | (Inr _, w) \<Rightarrow> (Inr (token_restore_result ''vm-knob-rollback'' token (length records) 0 []), w))
      | SysfsRestore path original \<Rightarrow>
          (case file_write_trimmed host path original w of
             (Inl e, w) \<Rightarrow> (Inl e, w)
           | (Inr _, w) \<Rightarrow>
               (Inr (token_restore_result ''vm-knob-rollback'' token 1 0 [''restored sysfs value '' @ path]), w))
      | _ \<Rightarrow> (Inl (unsupported_token ''vm-knob-rollback'' ''vm-knob-restore'' token), w))"

end
