(* ===== verification/Power_Actions.thy ===== *)
theory Power_Actions
  imports Sysfs_Actions
begin

text \<open>
  The GPU power action (\<open>stutter/src/actions/gpu_power.rs\<close>) and the CPU power action (\<open>actions/cpu_power.rs\<close>), with
  the prepared transaction and the resource identities of \<open>cpu_power/prepared.rs\<close>. Neither writes on battery unless
  the policy and the request say so.
\<close>

section \<open>Power supplies\<close>

fun mains_online :: "'w file_host \<Rightarrow> string \<Rightarrow> (io_error + string) list \<Rightarrow> 'w \<Rightarrow> anyhow + bool" where
  "mains_online host base [] w = Inr False"
| "mains_online host base (Inl e # es) w = Inl (Anyhow [''failed to read entry under '' @ base] (RootIo e))"
| "mains_online host base (Inr name # es) w =
     (let read = (\<lambda>f. case file_read_trimmed host (path_join (path_join base name) f) w of Inr v \<Rightarrow> v | Inl _ \<Rightarrow> [])
      in if read ''type'' \<noteq> ''Mains'' \<and> read ''type'' \<noteq> ''USB'' \<and> read ''type'' \<noteq> ''USB_C''
         then mains_online host base es w
         else if read ''online'' = ''1'' then Inr True
         else mains_online host base es w)"

fun battery_draining :: "'w file_host \<Rightarrow> string \<Rightarrow> (io_error + string) list \<Rightarrow> 'w \<Rightarrow> anyhow + bool" where
  "battery_draining host base [] w = Inr False"
| "battery_draining host base (Inl e # es) w = Inl (Anyhow [''failed to read entry under '' @ base] (RootIo e))"
| "battery_draining host base (Inr name # es) w =
     (let read = (\<lambda>f. case file_read_trimmed host (path_join (path_join base name) f) w of Inr v \<Rightarrow> v | Inl _ \<Rightarrow> [])
      in if read ''type'' = ''Battery'' \<and> (read ''status'' = ''Discharging'' \<or> read ''status'' = ''Not charging'')
         then Inr True
         else battery_draining host base es w)"

definition list_power_supplies :: "'w file_host \<Rightarrow> string \<Rightarrow> 'w \<Rightarrow> anyhow + (io_error + string) list" where
  "list_power_supplies host base w =
     (case fh_read_dir host base w of
        Inr es \<Rightarrow> Inr es
      | Inl e \<Rightarrow> Inl (Anyhow [''failed to read '' @ base] (RootIo e)))"

definition is_on_battery :: "'w file_host \<Rightarrow> string \<Rightarrow> 'w \<Rightarrow> anyhow + bool" where
  "is_on_battery host base w =
     (if \<not> fh_exists host base w then Inr False
      else res_bind (list_power_supplies host base w) (\<lambda>es.
           res_bind (mains_online host base es w) (\<lambda>online.
             if online then Inr False
             else res_bind (list_power_supplies host base w) (\<lambda>es. battery_draining host base es w))))"

datatype battery_policy = Never | AllowWithExplicitConfig

definition battery_gate :: "string \<Rightarrow> battery_policy \<Rightarrow> bool \<Rightarrow> bool \<Rightarrow> anyhow + unit" where
  "battery_gate kind policy explicit_override on_battery =
     (if \<not> on_battery then Inr ()
      else case policy of
             Never \<Rightarrow> Inl (boundary_err (PolicyDenied kind ''battery_policy_allow''))
           | AllowWithExplicitConfig \<Rightarrow>
               if explicit_override then Inr ()
               else Inl (boundary_err (PolicyDenied kind ''explicit_battery_override'')))"

definition power_target :: "string \<Rightarrow> string \<Rightarrow> 'w file_host \<Rightarrow> string \<Rightarrow> string \<Rightarrow> 'w \<Rightarrow> anyhow + sysfs_target" where
  "power_target kind what host path requested w =
     res_bind (ensure_writable kind what host path w) (\<lambda>_.
     res_bind (file_read_trimmed host path w) (\<lambda>original.
       Inr \<lparr>sf_path = path, sf_requested_value = requested, sf_original_value = original\<rparr>))"

definition optional_value_label :: "string option \<Rightarrow> string" where
  "optional_value_label v = (case v of Some s \<Rightarrow> s | None \<Rightarrow> ''keep'')"

definition opt_targets :: "string option \<Rightarrow> (string \<Rightarrow> 'e + 't) \<Rightarrow> 'e + 't list" where
  "opt_targets v read = (case v of None \<Rightarrow> Inr [] | Some requested \<Rightarrow> res_bind (read requested) (\<lambda>t. Inr [t]))"

definition opt_check :: "string option \<Rightarrow> (string \<Rightarrow> anyhow + unit) \<Rightarrow> anyhow + unit" where
  "opt_check v check = (case v of None \<Rightarrow> Inr () | Some s \<Rightarrow> check s)"

section \<open>GPU power\<close>

record gpu_power_policy =
  gp_allow_gpu_power_changes :: bool
  gp_mode :: write_mode
  gp_allowed_drm_cards :: "string list"
  gp_allow_force_performance_level :: bool
  gp_allow_power_profile_mode :: bool
  gp_battery_policy :: battery_policy
  gp_explicit_battery_override :: bool

definition default_gpu_power_policy :: gpu_power_policy where
  "default_gpu_power_policy =
     \<lparr>gp_allow_gpu_power_changes = False, gp_mode = SuggestOnly, gp_allowed_drm_cards = [],
      gp_allow_force_performance_level = False, gp_allow_power_profile_mode = False, gp_battery_policy = Never,
      gp_explicit_battery_override = False\<rparr>"

record gpu_power_action =
  ga_sysfs_root :: string
  ga_drm_card :: string
  ga_power_dpm_force_performance_level :: "string option"
  ga_pp_power_profile_mode :: "string option"

definition validate_drm_card_name :: "string \<Rightarrow> anyhow + unit" where
  "validate_drm_card_name drm_card =
     (let bad = (\<lambda>reason. Inl (boundary_err (InvalidValue ''gpu_power'' ''drm_card'' reason)))
      in if trim drm_card = [] then bad ''DRM card name must not be empty''
         else if trim drm_card \<noteq> drm_card then bad ''DRM card name must not contain leading or trailing whitespace''
         else case strip_prefix ''card'' drm_card of
                None \<Rightarrow> bad ''DRM card name must start with card''
              | Some suffix \<Rightarrow>
                  if suffix = [] \<or> \<not> list_all (\<lambda>c. digit_val c \<noteq> None) suffix
                  then bad ''DRM card name must be card followed by digits''
                  else Inr ())"

definition gpu_value_char :: "char \<Rightarrow> bool" where
  "gpu_value_char c \<longleftrightarrow> is_ascii_alphanumeric c \<or> c = CHR ''_'' \<or> c = CHR ''-'' \<or> c = CHR '' ''"

definition gpu_validate_sysfs_value :: "string \<Rightarrow> string \<Rightarrow> anyhow + unit" where
  "gpu_validate_sysfs_value name v = check_value_shape ''gpu_power'' name (name @ '' '') gpu_value_char v"

definition validate_dpm_force_performance_level :: "string \<Rightarrow> anyhow + unit" where
  "validate_dpm_force_performance_level v =
     res_bind (gpu_validate_sysfs_value ''power_dpm_force_performance_level'' v) (\<lambda>_.
       if v \<in> set [''auto'', ''low'', ''high'', ''manual'', ''profile_standard'', ''profile_min_sclk'',
                    ''profile_min_mclk'', ''profile_peak'']
       then Inr ()
       else Inl (boundary_err (UnsupportedValue ''gpu_power'' ''power_dpm_force_performance_level'' v)))"

definition validate_power_profile_mode :: "string \<Rightarrow> anyhow + unit" where
  "validate_power_profile_mode v = gpu_validate_sysfs_value ''pp_power_profile_mode'' v"

definition gpu_validate_policy_and_request ::
  "'w file_host \<Rightarrow> gpu_power_action \<Rightarrow> gpu_power_policy \<Rightarrow> 'w \<Rightarrow> anyhow + unit" where
  "gpu_validate_policy_and_request host a p w =
     (let denied = (\<lambda>req. Inl (boundary_err (PolicyDenied ''gpu_power'' req)));
          level = ga_power_dpm_force_performance_level a; profile = ga_pp_power_profile_mode a
      in if \<not> gp_allow_gpu_power_changes p then denied ''allow_gpu_power_changes''
         else res_bind (validate_drm_card_name (ga_drm_card a)) (\<lambda>_.
           if level = None \<and> profile = None
           then Inl (boundary_err (InvalidRequest ''gpu_power''
                  ''GPU power action requires power_dpm_force_performance_level, pp_power_profile_mode, or both''))
           else if gp_allowed_drm_cards p = [] then denied ''allowed_drm_cards_non_empty''
           else if ga_drm_card a \<notin> set (gp_allowed_drm_cards p) then denied ''allowed_drm_cards_contains_target''
           else if level \<noteq> None \<and> \<not> gp_allow_force_performance_level p then denied ''allow_force_performance_level''
           else if profile \<noteq> None \<and> \<not> gp_allow_power_profile_mode p then denied ''allow_power_profile_mode''
           else res_bind (opt_check level validate_dpm_force_performance_level) (\<lambda>_.
                res_bind (opt_check profile validate_power_profile_mode) (\<lambda>_.
                res_bind (is_on_battery host (path_join (ga_sysfs_root a) ''class/power_supply'') w)
                  (battery_gate ''gpu_power'' (gp_battery_policy p) (gp_explicit_battery_override p))))))"

definition gpu_validate_manual_apply_policy :: "gpu_power_policy \<Rightarrow> anyhow + unit" where
  "gpu_validate_manual_apply_policy p =
     (if gp_mode p \<noteq> ManualApply
      then Inl (boundary_err (InvalidRequest ''gpu_power''
             ''GPU power action is suggest-only; set policy mode to ManualApply for explicit manual writes''))
      else Inr ())"

definition gpu_device_dir :: "gpu_power_action \<Rightarrow> string" where
  "gpu_device_dir a = path_join (path_join (path_join (ga_sysfs_root a) ''class/drm'') (ga_drm_card a)) ''device''"

definition gpu_collect_target_files ::
  "'w file_host \<Rightarrow> gpu_power_action \<Rightarrow> gpu_power_policy \<Rightarrow> 'w \<Rightarrow> anyhow + sysfs_target list" where
  "gpu_collect_target_files host a p w =
     res_bind (gpu_validate_policy_and_request host a p w) (\<lambda>_.
       let dir = gpu_device_dir a;
           target = (\<lambda>f v. power_target ''gpu_power'' ''GPU power sysfs file'' host (path_join dir f) v w)
       in if \<not> fh_is_dir host dir w then Inl (boundary_err (MissingPath ''gpu_power'' dir))
          else res_bind (opt_targets (ga_power_dpm_force_performance_level a)
                          (target ''power_dpm_force_performance_level'')) (\<lambda>levels.
               res_bind (opt_targets (ga_pp_power_profile_mode a) (target ''pp_power_profile_mode'')) (\<lambda>profiles.
                 Inr (levels @ profiles))))"

definition rollback_gpu_power_records ::
  "'w file_host \<Rightarrow> path_value_restore_record list \<Rightarrow> 'w \<Rightarrow> (anyhow + unit) \<times> 'w" where
  "rollback_gpu_power_records host rs w = rollback_values ''gpu_power'' ''GPU power'' host (map record_value rs) w"

definition gpu_apply ::
  "'w file_host \<Rightarrow> gpu_power_action \<Rightarrow> gpu_power_policy \<Rightarrow> 'w \<Rightarrow> (anyhow + rollback_token) \<times> 'w" where
  "gpu_apply host a p w =
     (case res_bind (gpu_validate_manual_apply_policy p) (\<lambda>_. gpu_collect_target_files host a p w) of
        Inl e \<Rightarrow> (Inl e, w)
      | Inr files \<Rightarrow>
         (case sysfs_apply_loop ''gpu_power'' ''GPU power'' host path_value_record (rollback_gpu_power_records host)
                 files [] w of
            (Inl e, w) \<Rightarrow> (Inl e, w)
          | (Inr records, w) \<Rightarrow> (Inr (GpuPowerRestore records), w)))"

definition gpu_preflight :: "'w file_host \<Rightarrow> gpu_power_action \<Rightarrow> gpu_power_policy \<Rightarrow> 'w \<Rightarrow> anyhow + string list" where
  "gpu_preflight host a p w =
     res_bind (gpu_collect_target_files host a p w) (\<lambda>files.
       Inr ([''GPU power/performance profile changes are high risk and should remain manual/suggest-only until heavily validated'']
            @ (if gp_mode p = SuggestOnly
               then [''policy is suggest-only; no writes will be performed by dry-run/preflight''] else [])
            @ already_set_warning ''all GPU power sysfs files already have requested values'' files))"

definition gpu_dry_run :: "'w file_host \<Rightarrow> gpu_power_action \<Rightarrow> gpu_power_policy \<Rightarrow> 'w \<Rightarrow> anyhow + action_state" where
  "gpu_dry_run host a p w =
     res_bind (gpu_collect_target_files host a p w) (\<lambda>files.
       Inr (dry_run_state (length files) (sysfs_pending files)
              [''GPU power action dry-run only; no sysfs writes performed'']))"

definition gpu_verify :: "'w file_host \<Rightarrow> gpu_power_action \<Rightarrow> gpu_power_policy \<Rightarrow> 'w \<Rightarrow> anyhow + action_state" where
  "gpu_verify host a p w =
     res_bind (gpu_collect_target_files host a p w) (\<lambda>files.
     res_bind (sysfs_verify_count host files w) (\<lambda>pending. Inr (verify_state (length files) pending [])))"

definition gpu_rollback :: "'w file_host \<Rightarrow> rollback_token \<Rightarrow> 'w \<Rightarrow> (anyhow + unit) \<times> 'w" where
  "gpu_rollback host token w =
     (case token of
        GpuPowerRestore records \<Rightarrow> rollback_gpu_power_records host records w
      | _ \<Rightarrow> (Inl (wrong_token ''gpu-power-restore'' token), w))"

definition gpu_safety_class :: "gpu_power_action \<Rightarrow> safety_class" where
  "gpu_safety_class a =
     (if ga_pp_power_profile_mode a \<noteq> None \<and> ga_power_dpm_force_performance_level a = None
      then SC_ReversibleMediumRisk else SC_HighRisk)"

definition gpu_action_id :: "gpu_power_action \<Rightarrow> string" where
  "gpu_action_id a =
     ''gpu-power:set:card='' @ ga_drm_card a
     @ '':dpm='' @ optional_value_label (ga_power_dpm_force_performance_level a)
     @ '':profile='' @ optional_value_label (ga_pp_power_profile_mode a)"

definition gpu_describe :: "gpu_power_action \<Rightarrow> string" where
  "gpu_describe a =
     ''set GPU power values for '' @ ga_drm_card a @ '': power_dpm_force_performance_level=''
     @ optional_value_label (ga_power_dpm_force_performance_level a) @ '', pp_power_profile_mode=''
     @ optional_value_label (ga_pp_power_profile_mode a)"

definition gpu_handler_restore_token ::
  "'w file_host \<Rightarrow> rollback_token \<Rightarrow> 'w \<Rightarrow> (anyhow + rollback_result) \<times> 'w" where
  "gpu_handler_restore_token host token w =
     (case token of
        GpuPowerRestore records \<Rightarrow>
          (case rollback_gpu_power_records host records w of
             (Inl e, w) \<Rightarrow> (Inl e, w)
           | (Inr _, w) \<Rightarrow> (Inr (token_restore_result ''gpu-power-rollback'' token (length records) 0 []), w))
      | _ \<Rightarrow> (Inl (unsupported_token ''gpu-power-rollback'' ''gpu-power-restore'' token), w))"

section \<open>CPU power\<close>

record cpu_power_policy =
  cp_allow_cpu_power_changes :: bool
  cp_allowed_cpus :: "u32 list"
  cp_allow_governor_changes :: bool
  cp_allow_epp_changes :: bool
  cp_battery_policy :: battery_policy
  cp_explicit_battery_override :: bool

definition default_cpu_power_policy :: cpu_power_policy where
  "default_cpu_power_policy =
     \<lparr>cp_allow_cpu_power_changes = False, cp_allowed_cpus = [], cp_allow_governor_changes = False,
      cp_allow_epp_changes = False, cp_battery_policy = Never, cp_explicit_battery_override = False\<rparr>"

record cpu_power_action =
  cpa_sysfs_root :: string
  cpa_cpus :: "u32 list"
  cpa_scaling_governor :: "string option"
  cpa_energy_performance_preference :: "string option"

record cpu_power_target_file = sysfs_target +
  ct_cpu :: u32

definition cpu_value_char :: "char \<Rightarrow> bool" where
  "cpu_value_char c \<longleftrightarrow> is_ascii_alphanumeric c \<or> c = CHR ''_'' \<or> c = CHR ''-''"

definition cpu_validate_sysfs_value :: "string \<Rightarrow> string \<Rightarrow> anyhow + unit" where
  "cpu_validate_sysfs_value name v = check_value_shape ''cpu_power'' name (name @ '' '') cpu_value_char v"

definition cpu_validate_policy_and_request ::
  "'w file_host \<Rightarrow> cpu_power_action \<Rightarrow> cpu_power_policy \<Rightarrow> 'w \<Rightarrow> anyhow + unit" where
  "cpu_validate_policy_and_request host a p w =
     (let denied = (\<lambda>req. Inl (boundary_err (PolicyDenied ''cpu_power'' req)));
          governor = cpa_scaling_governor a; epp = cpa_energy_performance_preference a
      in if \<not> cp_allow_cpu_power_changes p then denied ''allow_cpu_power_changes''
         else if cpa_cpus a = [] then Inl (boundary_err (MissingExplicitTargets ''cpu_power''))
         else if governor = None \<and> epp = None
         then Inl (boundary_err (InvalidRequest ''cpu_power''
                ''CPU power action requires scaling_governor, energy_performance_preference, or both''))
         else if cp_allowed_cpus p = [] then denied ''allowed_cpus_non_empty''
         else if governor \<noteq> None \<and> \<not> cp_allow_governor_changes p then denied ''allow_governor_changes''
         else if epp \<noteq> None \<and> \<not> cp_allow_epp_changes p then denied ''allow_epp_changes''
         else res_bind (opt_check governor (cpu_validate_sysfs_value ''scaling_governor'')) (\<lambda>_.
              res_bind (opt_check epp (cpu_validate_sysfs_value ''energy_performance_preference'')) (\<lambda>_.
              res_bind (is_on_battery host (path_join (cpa_sysfs_root a) ''class/power_supply'') w)
                (battery_gate ''cpu_power'' (cp_battery_policy p) (cp_explicit_battery_override p)))))"

definition sorted_unique_cpus :: "u32 list \<Rightarrow> u32 list" where
  "sorted_unique_cpus cpus = remdups_adj (sort cpus)"

definition cpu_cpufreq_dir :: "cpu_power_action \<Rightarrow> u32 \<Rightarrow> string" where
  "cpu_cpufreq_dir a cpu =
     path_join (path_join (path_join (cpa_sysfs_root a) ''devices/system/cpu'') (''cpu'' @ show_nat (unat cpu))) ''cpufreq''"

definition cpu_target :: "'w file_host \<Rightarrow> u32 \<Rightarrow> string \<Rightarrow> string \<Rightarrow> 'w \<Rightarrow> anyhow + cpu_power_target_file" where
  "cpu_target host cpu path requested w =
     res_bind (power_target ''cpu_power'' ''CPU power sysfs file'' host path requested w) (\<lambda>t.
       Inr (sysfs_target.extend t \<lparr>ct_cpu = cpu\<rparr>))"

definition cpu_target_files ::
  "'w file_host \<Rightarrow> cpu_power_action \<Rightarrow> cpu_power_policy \<Rightarrow> 'w \<Rightarrow> u32 \<Rightarrow> anyhow + cpu_power_target_file list" where
  "cpu_target_files host a p w cpu =
     (if cpu \<notin> set (cp_allowed_cpus p) then Inl (boundary_err (PolicyDenied ''cpu_power'' ''allowed_cpus_contains_target''))
      else let dir = cpu_cpufreq_dir a cpu
           in if \<not> fh_is_dir host dir w then Inl (boundary_err (MissingPath ''cpu_power'' dir))
              else res_bind (opt_targets (cpa_scaling_governor a)
                              (\<lambda>v. cpu_target host cpu (path_join dir ''scaling_governor'') v w)) (\<lambda>governors.
                   res_bind (opt_targets (cpa_energy_performance_preference a)
                              (\<lambda>v. cpu_target host cpu (path_join dir ''energy_performance_preference'') v w)) (\<lambda>epps.
                     Inr (governors @ epps))))"

definition cpu_collect_target_files ::
  "'w file_host \<Rightarrow> cpu_power_action \<Rightarrow> cpu_power_policy \<Rightarrow> 'w \<Rightarrow> anyhow + cpu_power_target_file list" where
  "cpu_collect_target_files host a p w =
     res_bind (cpu_validate_policy_and_request host a p w) (\<lambda>_.
     res_bind (res_map (cpu_target_files host a p w) (sorted_unique_cpus (cpa_cpus a))) (\<lambda>fss. Inr (concat fss)))"

definition cpu_record_value :: "cpu_power_restore_record \<Rightarrow> string \<times> string" where
  "cpu_record_value r = (cr_path r, cr_original_value r)"

definition rollback_cpu_power_records ::
  "'w file_host \<Rightarrow> cpu_power_restore_record list \<Rightarrow> 'w \<Rightarrow> (anyhow + unit) \<times> 'w" where
  "rollback_cpu_power_records host rs w =
     rollback_values ''cpu_power'' ''CPU power'' host (map cpu_record_value rs) w"

subsection \<open>Resource identities\<close>

text \<open>\<open>Path::parent\<close> and \<open>Path::file_name\<close>; the parent is written with single separators.\<close>

fun component_text :: "path_component \<Rightarrow> string" where
  "component_text PC_RootDir = ''/''"
| "component_text PC_CurDir = ''.''"
| "component_text PC_ParentDir = ''..''"
| "component_text (PC_Normal s) = s"

definition path_parent :: "string \<Rightarrow> string option" where
  "path_parent p =
     (let cs = path_components p
      in if cs = [] \<or> last cs = PC_RootDir then None
         else Some (foldl (\<lambda>q c. path_join q (component_text c)) [] (butlast cs)))"

definition path_file_name :: "string \<Rightarrow> string option" where
  "path_file_name p =
     (let cs = path_components p
      in if cs = [] then None else case last cs of PC_Normal s \<Rightarrow> Some s | _ \<Rightarrow> None)"

definition read_optional :: "'w file_host \<Rightarrow> string \<Rightarrow> 'w \<Rightarrow> string option" where
  "read_optional host path w =
     (case file_read_trimmed host path w of Inr v \<Rightarrow> if v = [] then None else Some v | Inl _ \<Rightarrow> None)"

definition boot_id :: "'w file_host \<Rightarrow> 'w \<Rightarrow> string option" where
  "boot_id host w = read_optional host ''/proc/sys/kernel/random/boot_id'' w"

definition available_values_file :: "string \<Rightarrow> string option" where
  "available_values_file attribute =
     (if attribute = ''energy_performance_preference'' then Some ''energy_performance_available_preferences''
      else if attribute = ''scaling_governor'' then Some ''scaling_available_governors''
      else None)"

definition parse_related_cpus :: "string option \<Rightarrow> u32 list" where
  "parse_related_cpus v =
     sort (List.map_filter parse_u32 (split_whitespace (case v of Some s \<Rightarrow> s | None \<Rightarrow> [])))"

definition resource_identity :: "'w file_host \<Rightarrow> u32 \<Rightarrow> string \<Rightarrow> 'w \<Rightarrow> cpu_power_resource_identity option" where
  "resource_identity host cpu path w =
     Option.bind (path_parent path) (\<lambda>cpufreq.
     Option.bind (path_file_name path) (\<lambda>attribute.
     Option.bind (available_values_file attribute) (\<lambda>available.
     Option.bind (case fh_canonicalize host cpufreq w of Inr p \<Rightarrow> path_file_name p | Inl _ \<Rightarrow> None) (\<lambda>policy.
       Some \<lparr>ci_cpu = cpu, ci_policy = policy,
             ci_related_cpus = parse_related_cpus (read_optional host (path_join cpufreq ''related_cpus'') w),
             ci_attribute = attribute,
             ci_driver = read_optional host (path_join cpufreq ''scaling_driver'') w,
             ci_available_values = read_optional host (path_join cpufreq available) w,
             ci_boot_id = boot_id host w\<rparr>))))"

definition same_resource :: "cpu_power_resource_identity \<Rightarrow> cpu_power_resource_identity \<Rightarrow> string + unit" where
  "same_resource current recorded =
     (let differs = (\<lambda>name. Inl (''the cpufreq '' @ name @ '' is not the one that was recorded''))
      in if ci_policy current \<noteq> ci_policy recorded then differs ''policy''
         else if ci_related_cpus current \<noteq> ci_related_cpus recorded then differs ''related CPUs''
         else if ci_attribute current \<noteq> ci_attribute recorded then differs ''attribute''
         else if ci_driver current \<noteq> ci_driver recorded then differs ''driver''
         else Inr ())"

definition still_legal :: "cpu_power_resource_identity \<Rightarrow> string \<Rightarrow> string + unit" where
  "still_legal current original =
     (case ci_available_values current of
        Some legal \<Rightarrow>
          if original \<in> set (split_whitespace legal) then Inr ()
          else Inl (debug_str original @ '' is no longer a legal value of '' @ ci_attribute current)
      | None \<Rightarrow> Inr ())"

definition verify_resource :: "'w file_host \<Rightarrow> cpu_power_restore_record \<Rightarrow> 'w \<Rightarrow> string + unit" where
  "verify_resource host r w =
     (case cr_identity r of
        None \<Rightarrow> Inl ''the record has no cpufreq resource identity''
      | Some recorded \<Rightarrow>
         (case resource_identity host (ci_cpu recorded) (cr_path r) w of
            None \<Rightarrow> Inl ''the cpufreq resource can no longer be rediscovered''
          | Some current \<Rightarrow>
              if ci_boot_id current \<noteq> ci_boot_id recorded
              then Inl ''the system booted since the original value was read''
              else res_bind (same_resource current recorded) (\<lambda>_. still_legal current (cr_original_value r))))"

subsection \<open>Apply and rollback\<close>

definition cpu_power_record :: "'w file_host \<Rightarrow> cpu_power_target_file \<Rightarrow> 'w \<Rightarrow> cpu_power_restore_record" where
  "cpu_power_record host t w =
     \<lparr>cr_path = sf_path t, cr_original_value = sf_original_value t,
      cr_identity = resource_identity host (ct_cpu t) (sf_path t) w\<rparr>"

definition cpu_apply ::
  "'w file_host \<Rightarrow> cpu_power_action \<Rightarrow> cpu_power_policy \<Rightarrow> 'w \<Rightarrow> (anyhow + rollback_token) \<times> 'w" where
  "cpu_apply host a p w =
     (case cpu_collect_target_files host a p w of
        Inl e \<Rightarrow> (Inl e, w)
      | Inr files \<Rightarrow>
         (case sysfs_apply_loop ''cpu_power'' ''CPU power'' host (cpu_power_record host)
                 (rollback_cpu_power_records host) files [] w of
            (Inl e, w) \<Rightarrow> (Inl e, w)
          | (Inr records, w) \<Rightarrow> (Inr (CpuPowerRestore records), w)))"

definition cpu_plan_record ::
  "'w file_host \<Rightarrow> 'w \<Rightarrow> cpu_power_target_file \<Rightarrow> anyhow + cpu_power_target_file \<times> cpu_power_restore_record" where
  "cpu_plan_record host w t =
     (case resource_identity host (ct_cpu t) (sf_path t) w of
        None \<Rightarrow> Inl (anyhow_msg (''cannot establish the cpufreq identity of '' @ sf_path t))
      | Some identity \<Rightarrow>
          Inr (t, \<lparr>cr_path = sf_path t, cr_original_value = sf_original_value t, cr_identity = Some identity\<rparr>))"

definition cpu_plan_records ::
  "'w file_host \<Rightarrow> cpu_power_action \<Rightarrow> cpu_power_policy \<Rightarrow> 'w
    \<Rightarrow> anyhow + (cpu_power_target_file \<times> cpu_power_restore_record) list" where
  "cpu_plan_records host a p w =
     res_bind (cpu_collect_target_files host a p w) (res_map (cpu_plan_record host w))"

fun cpu_commit_loop :: "'w file_host \<Rightarrow> cpu_power_target_file list \<Rightarrow> 'w \<Rightarrow> (anyhow + unit) \<times> 'w" where
  "cpu_commit_loop host [] w = (Inr (), w)"
| "cpu_commit_loop host (t # ts) w =
     (if sf_original_value t = sf_requested_value t then cpu_commit_loop host ts w
      else case write_and_read_back host t w of
             (Inl e, w) \<Rightarrow> (Inl e, w)
           | (Inr actual, w) \<Rightarrow>
               if actual \<noteq> sf_requested_value t then (Inl (write_mismatch ''cpu_power'' ''CPU power'' t actual), w)
               else cpu_commit_loop host ts w)"

definition cpu_apply_prepared ::
  "'w file_host \<Rightarrow> cpu_power_action \<Rightarrow> cpu_power_policy \<Rightarrow> (rollback_token \<Rightarrow> 'w \<Rightarrow> (anyhow + unit) \<times> 'w) \<Rightarrow> 'w
    \<Rightarrow> (partial_apply_error + rollback_token) \<times> 'w" where
  "cpu_apply_prepared host a p before_mutation w =
     (case cpu_plan_records host a p w of
        Inl e \<Rightarrow> (Inl (clean_failure e), w)
      | Inr plan \<Rightarrow>
          (let token = CpuPowerRestore (map snd plan)
           in case before_mutation token w of
                (Inl e, w) \<Rightarrow> (Inl (clean_failure e), w)
              | (Inr _, w) \<Rightarrow>
                 (case cpu_plan_records host a p w of
                    Inl e \<Rightarrow> (Inl (clean_failure e), w)
                  | Inr current \<Rightarrow>
                      if map snd current \<noteq> map snd plan
                      then (Inl (clean_failure (anyhow_msg
                              ''CPU power state drifted between preparation and commit; nothing was written'')), w)
                      else (case cpu_commit_loop host (map fst plan) w of
                              (Inl e, w) \<Rightarrow> (Inl \<lparr>pa_source = e, pa_rollback = Some token\<rparr>, w)
                            | (Inr _, w) \<Rightarrow> (Inr token, w)))))"

record cpu_power_restore_outcome =
  co_restored :: usize
  co_skipped_identity_mismatch :: usize
  co_messages :: "string list"

definition replay_verdict :: "'w file_host \<Rightarrow> bool \<Rightarrow> 'w \<Rightarrow> cpu_power_restore_record \<Rightarrow> string + unit" where
  "replay_verdict host require_identity w r =
     (if cr_identity r = None \<and> \<not> require_identity then Inr () else verify_resource host r w)"

definition replayable :: "'w file_host \<Rightarrow> bool \<Rightarrow> cpu_power_restore_record list \<Rightarrow> 'w \<Rightarrow> cpu_power_restore_record list" where
  "replayable host require_identity rs w = filter (\<lambda>r. is_ok (replay_verdict host require_identity w r)) rs"

definition skip_messages :: "'w file_host \<Rightarrow> bool \<Rightarrow> cpu_power_restore_record list \<Rightarrow> 'w \<Rightarrow> string list" where
  "skip_messages host require_identity rs w =
     List.map_filter (\<lambda>r. case replay_verdict host require_identity w r of
         Inr _ \<Rightarrow> None
       | Inl reason \<Rightarrow> Some (''cpu power restore skipped '' @ cr_path r @ '': '' @ reason)) rs"

definition rollback_verified ::
  "'w file_host \<Rightarrow> cpu_power_restore_record list \<Rightarrow> bool \<Rightarrow> 'w \<Rightarrow> (anyhow + cpu_power_restore_outcome) \<times> 'w" where
  "rollback_verified host rs require_identity w =
     (let ok = replayable host require_identity rs w; skipped = skip_messages host require_identity rs w
      in case rollback_cpu_power_records host ok w of
           (Inl e, w) \<Rightarrow> (Inl e, w)
         | (Inr _, w) \<Rightarrow>
             (Inr \<lparr>co_restored = length ok, co_skipped_identity_mismatch = length skipped, co_messages = skipped\<rparr>, w))"

definition cpu_preflight :: "'w file_host \<Rightarrow> cpu_power_action \<Rightarrow> cpu_power_policy \<Rightarrow> 'w \<Rightarrow> anyhow + string list" where
  "cpu_preflight host a p w =
     res_bind (cpu_collect_target_files host a p w) (\<lambda>files.
       Inr (already_set_warning ''all CPU power sysfs files already have requested values'' files))"

definition cpu_dry_run :: "'w file_host \<Rightarrow> cpu_power_action \<Rightarrow> cpu_power_policy \<Rightarrow> 'w \<Rightarrow> anyhow + action_state" where
  "cpu_dry_run host a p w =
     res_bind (cpu_collect_target_files host a p w) (\<lambda>files.
       Inr (dry_run_state (length files) (sysfs_pending files) []))"

definition cpu_verify :: "'w file_host \<Rightarrow> cpu_power_action \<Rightarrow> cpu_power_policy \<Rightarrow> 'w \<Rightarrow> anyhow + action_state" where
  "cpu_verify host a p w =
     res_bind (cpu_collect_target_files host a p w) (\<lambda>files.
     res_bind (sysfs_verify_count host files w) (\<lambda>pending. Inr (verify_state (length files) pending [])))"

definition cpu_rollback :: "'w file_host \<Rightarrow> rollback_token \<Rightarrow> 'w \<Rightarrow> (anyhow + unit) \<times> 'w" where
  "cpu_rollback host token w =
     (case token of
        CpuPowerRestore records \<Rightarrow>
          (case rollback_verified host records False w of
             (Inl e, w) \<Rightarrow> (Inl e, w)
           | (Inr _, w) \<Rightarrow> (Inr (), w))
      | _ \<Rightarrow> (Inl (wrong_token ''cpu-power-restore'' token), w))"

definition cpu_handler_restore_token ::
  "bool \<Rightarrow> 'w file_host \<Rightarrow> rollback_token \<Rightarrow> 'w \<Rightarrow> (anyhow + rollback_result) \<times> 'w" where
  "cpu_handler_restore_token require_verified host token w =
     (case token of
        CpuPowerRestore records \<Rightarrow>
          (case rollback_verified host records require_verified w of
             (Inl e, w) \<Rightarrow> (Inl e, w)
           | (Inr outcome, w) \<Rightarrow>
               (Inr \<lparr>rr_handler_id = ''cpu-power-rollback'',
                     rr_restore_path = (case restore_path token of Some p \<Rightarrow> p | None \<Rightarrow> []),
                     rr_restored = co_restored outcome, rr_skipped_dead = 0,
                     rr_skipped_identity_mismatch = co_skipped_identity_mismatch outcome, rr_legacy_unverified = 0,
                     rr_errors = 0, rr_messages = co_messages outcome\<rparr>, w))
      | _ \<Rightarrow> (Inl (unsupported_token ''cpu-power-rollback'' ''cpu-power-restore'' token), w))"

definition cpu_list_label :: "u32 list \<Rightarrow> string" where
  "cpu_list_label cpus = join '','' (map (\<lambda>c. show_nat (unat c)) (sorted_unique_cpus cpus))"

definition cpu_safety_class :: "cpu_power_action \<Rightarrow> safety_class" where
  "cpu_safety_class a =
     (if cpa_energy_performance_preference a \<noteq> None \<and> cpa_scaling_governor a = None
      then SC_ReversibleMediumRisk else SC_HighRisk)"

definition cpu_action_id :: "cpu_power_action \<Rightarrow> string" where
  "cpu_action_id a =
     ''cpu-power:set:cpus='' @ cpu_list_label (cpa_cpus a) @ '':governor='' @ optional_value_label (cpa_scaling_governor a)
     @ '':epp='' @ optional_value_label (cpa_energy_performance_preference a)"

definition cpu_describe :: "cpu_power_action \<Rightarrow> string" where
  "cpu_describe a =
     ''set CPU power values for CPU(s) ['' @ cpu_list_label (cpa_cpus a) @ '']: scaling_governor=''
     @ optional_value_label (cpa_scaling_governor a) @ '', energy_performance_preference=''
     @ optional_value_label (cpa_energy_performance_preference a)"

end
