(* ===== verification/Irq_Action.thy ===== *)
theory Irq_Action
  imports Power_Actions
begin

text \<open>
  The IRQ affinity action (\<open>stutter/src/actions/irq_affinity/\<close>): the mask of one interrupt is written only for a
  device that the evidence names, and a rollback first checks that the interrupt still belongs to it.
\<close>

section \<open>The IRQ affinity action\<close>

datatype irq_affinity_risk = IR_ReversibleMediumRisk | IR_HighRisk

record irq_affinity_evidence =
  ie_strong_irq_evidence :: bool
  ie_stable_irq_identity :: bool
  ie_known_device_mapping :: bool
  ie_observed_irq :: "u32 option"
  ie_observed_device_hint :: "string option"
  ie_reason :: string

record irq_affinity_policy =
  iq_allow_irq_affinity_changes :: bool
  iq_allow_high_risk_devices :: bool
  iq_require_strong_irq_evidence :: bool
  iq_require_stable_irq_identity :: bool
  iq_require_known_device_mapping :: bool

definition default_irq_affinity_policy :: irq_affinity_policy where
  "default_irq_affinity_policy =
     \<lparr>iq_allow_irq_affinity_changes = False, iq_allow_high_risk_devices = False, iq_require_strong_irq_evidence = True,
      iq_require_stable_irq_identity = True, iq_require_known_device_mapping = True\<rparr>"

record irq_affinity_action =
  qa_irq :: u32
  qa_device_hint :: string
  qa_smp_affinity :: string
  qa_risk :: irq_affinity_risk
  qa_evidence :: irq_affinity_evidence
  qa_irq_root :: string

record irq_affinity_snapshot =
  qs_irq :: u32
  qs_device_hint :: string
  qs_smp_affinity :: string

definition irq_write_trimmed :: "'w file_host \<Rightarrow> string \<Rightarrow> string \<Rightarrow> 'w \<Rightarrow> (anyhow + unit) \<times> 'w" where
  "irq_write_trimmed host path v w =
     (case fh_write host path (trim v) w of
        (Inr _, w) \<Rightarrow> (Inr (), w)
      | (Inl e, w) \<Rightarrow> (Inl (Anyhow [''failed to write '' @ trim v @ '' to '' @ path] (RootIo e)), w))"

definition read_irq_device_hint :: "'w file_host \<Rightarrow> string \<Rightarrow> 'w \<Rightarrow> anyhow + string" where
  "read_irq_device_hint host dir w =
     (let actions_path = path_join dir ''actions''; name_path = path_join dir ''name''
      in case read_optional host actions_path w of
           Some v \<Rightarrow> Inr v
         | None \<Rightarrow>
            (case read_optional host name_path w of
               Some v \<Rightarrow> Inr v
             | None \<Rightarrow>
                 Inl (boundary_err (InvalidValue ''irq_affinity'' ''device_hint''
                   (''neither '' @ actions_path @ '' nor '' @ name_path @ '' contained a device hint'')))))"

definition normalize_part :: "string \<Rightarrow> string" where
  "normalize_part part =
     (let trimmed = dropWhile (\<lambda>c. c = CHR ''0'') part in if trimmed = [] then ''0'' else map to_lowercase trimmed)"

definition normalize_affinity :: "string \<Rightarrow> string" where
  "normalize_affinity v = join '','' (map normalize_part (split_on (CHR '','') (trim v)))"

definition irq_invalid :: "string \<Rightarrow> string \<Rightarrow> anyhow" where
  "irq_invalid field reason = boundary_err (InvalidValue ''irq_affinity'' field reason)"

definition irq_validate_policy_and_request :: "irq_affinity_action \<Rightarrow> irq_affinity_policy \<Rightarrow> anyhow + unit" where
  "irq_validate_policy_and_request a p =
     (let denied = (\<lambda>req. Inl (boundary_err (PolicyDenied ''irq_affinity'' req))); ev = qa_evidence a
      in if \<not> iq_allow_irq_affinity_changes p then denied ''allow_irq_affinity_changes''
         else if qa_irq a = 0 then Inl (irq_invalid ''irq'' ''IRQ number must be greater than zero'')
         else if trim (qa_device_hint a) = []
         then Inl (irq_invalid ''device_hint'' ''IRQ device mapping must be known before affinity changes'')
         else if qa_risk a = IR_HighRisk \<and> \<not> iq_allow_high_risk_devices p then denied ''allow_high_risk_devices''
         else if iq_require_strong_irq_evidence p \<and> \<not> ie_strong_irq_evidence ev then denied ''strong_irq_evidence''
         else if iq_require_stable_irq_identity p \<and> \<not> ie_stable_irq_identity ev then denied ''stable_irq_identity''
         else if iq_require_known_device_mapping p \<and> \<not> ie_known_device_mapping ev then denied ''known_device_mapping''
         else if (case ie_observed_irq ev of Some n \<Rightarrow> n \<noteq> qa_irq a | None \<Rightarrow> False)
         then Inl (boundary_err (InvalidRequest ''irq_affinity''
                (''IRQ evidence mismatch: action irq='' @ show_nat (unat (qa_irq a)) @ '' observed irq=''
                 @ show_nat (unat (the (ie_observed_irq ev))))))
         else if (case ie_observed_device_hint ev of Some h \<Rightarrow> h \<noteq> qa_device_hint a | None \<Rightarrow> False)
         then Inl (boundary_err (InvalidRequest ''irq_affinity''
                (''IRQ device evidence mismatch: action device='' @ debug_str (qa_device_hint a)
                 @ '' observed device='' @ debug_str (the (ie_observed_device_hint ev)))))
         else Inr ())"

definition critical_irq_words :: "string list" where
  "critical_irq_words = [''timer'', ''rescheduling'', ''call function'', ''ipi'']"

definition validate_irq_identity :: "irq_affinity_action \<Rightarrow> anyhow + unit" where
  "validate_irq_identity a =
     (if list_ex (str_contains (map to_lowercase (qa_device_hint a))) critical_irq_words
      then Inl (boundary_err (InvalidRequest ''irq_affinity''
             (''refusing to change system-critical IRQ '' @ show_nat (unat (qa_irq a)) @ '' ('' @ qa_device_hint a @ '')'')))
      else Inr ())"

definition is_ascii_hexdigit :: "char \<Rightarrow> bool" where
  "is_ascii_hexdigit c \<longleftrightarrow>
     (let n = of_char c :: nat in (48 \<le> n \<and> n \<le> 57) \<or> (65 \<le> n \<and> n \<le> 70) \<or> (97 \<le> n \<and> n \<le> 102))"

definition validate_affinity_value :: "string \<Rightarrow> anyhow + unit" where
  "validate_affinity_value raw =
     (let v = trim raw
      in if v = [] then Inl (irq_invalid ''smp_affinity'' ''smp_affinity must not be empty'')
         else if 256 < length v then Inl (irq_invalid ''smp_affinity'' ''smp_affinity is too long'')
         else case find (\<lambda>c. \<not> (is_ascii_hexdigit c \<or> c = CHR '','')) v of
                Some c \<Rightarrow> Inl (irq_invalid ''smp_affinity'' (''smp_affinity contains invalid character '' @ debug_char c))
              | None \<Rightarrow>
                  if [] \<in> set (split_on (CHR '','') v)
                  then Inl (irq_invalid ''smp_affinity'' ''smp_affinity contains an empty comma-separated component'')
                  else Inr ())"

definition irq_dir :: "string \<Rightarrow> u32 \<Rightarrow> string" where
  "irq_dir base irq = path_join base (show_nat (unat irq))"

definition smp_affinity_path :: "irq_affinity_action \<Rightarrow> string" where
  "smp_affinity_path a = path_join (irq_dir (qa_irq_root a) (qa_irq a)) ''smp_affinity''"

definition irq_collect_snapshot ::
  "'w file_host \<Rightarrow> irq_affinity_action \<Rightarrow> irq_affinity_policy \<Rightarrow> 'w \<Rightarrow> anyhow + irq_affinity_snapshot" where
  "irq_collect_snapshot host a p w =
     res_bind (irq_validate_policy_and_request a p) (\<lambda>_.
     res_bind (validate_irq_identity a) (\<lambda>_.
     res_bind (validate_affinity_value (qa_smp_affinity a)) (\<lambda>_.
       let dir = irq_dir (qa_irq_root a) (qa_irq a); path = path_join dir ''smp_affinity''
       in if \<not> fh_is_dir host dir w then Inl (boundary_err (MissingPath ''irq_affinity'' dir))
          else res_bind (ensure_writable ''irq_affinity'' ''IRQ affinity file'' host path w) (\<lambda>_.
               res_bind (file_read_trimmed host path w) (\<lambda>current.
                 case read_irq_device_hint host dir w of
                   Inl e \<Rightarrow>
                     Inl (any_context (''failed to read stable device hint for IRQ '' @ show_nat (unat (qa_irq a))) e)
                 | Inr hint \<Rightarrow>
                     if hint \<noteq> qa_device_hint a
                     then Inl (boundary_err (InvalidRequest ''irq_affinity''
                            (''IRQ '' @ show_nat (unat (qa_irq a)) @ '' device mapping changed: expected ''
                             @ debug_str (qa_device_hint a) @ '', actual '' @ debug_str hint)))
                     else Inr \<lparr>qs_irq = qa_irq a, qs_device_hint = hint, qs_smp_affinity = current\<rparr>)))))"

definition irq_record :: "irq_affinity_snapshot \<Rightarrow> irq_affinity_restore_record" where
  "irq_record s =
     \<lparr>ir_irq = qs_irq s, ir_device_hint = qs_device_hint s, ir_original_smp_affinity = qs_smp_affinity s\<rparr>"

definition irq_write_verified ::
  "'w file_host \<Rightarrow> irq_affinity_action \<Rightarrow> 'w \<Rightarrow> (anyhow + unit) \<times> 'w" where
  "irq_write_verified host a w =
     (let path = smp_affinity_path a; irq = show_nat (unat (qa_irq a))
      in case irq_write_trimmed host path (qa_smp_affinity a) w of
           (Inl e, w) \<Rightarrow> (Inl (any_context (''failed to write IRQ '' @ irq @ '' smp_affinity'') e), w)
         | (Inr _, w) \<Rightarrow>
            (case file_read_trimmed host path w of
               Inl e \<Rightarrow> (Inl (any_context (''failed to verify IRQ '' @ irq @ '' smp_affinity write'') e), w)
             | Inr after \<Rightarrow>
                 if normalize_affinity after \<noteq> normalize_affinity (qa_smp_affinity a)
                 then (Inl (boundary_err (RestoreFailed ''irq_affinity''
                         (''IRQ '' @ irq @ '' smp_affinity verification failed: requested='' @ qa_smp_affinity a
                          @ '' actual='' @ after))), w)
                 else (Inr (), w)))"

definition irq_apply ::
  "'w file_host \<Rightarrow> irq_affinity_action \<Rightarrow> irq_affinity_policy \<Rightarrow> 'w \<Rightarrow> (anyhow + rollback_token) \<times> 'w" where
  "irq_apply host a p w =
     (case irq_collect_snapshot host a p w of
        Inl e \<Rightarrow> (Inl e, w)
      | Inr s \<Rightarrow>
         (case (if trim (qs_smp_affinity s) \<noteq> trim (qa_smp_affinity a) then irq_write_verified host a w
                else (Inr (), w)) of
            (Inl e, w) \<Rightarrow> (Inl e, w)
          | (Inr _, w) \<Rightarrow> (Inr (IrqAffinityRestore [irq_record s]), w)))"

definition irq_preflight ::
  "'w file_host \<Rightarrow> irq_affinity_action \<Rightarrow> irq_affinity_policy \<Rightarrow> 'w \<Rightarrow> anyhow + string list" where
  "irq_preflight host a p w =
     res_bind (irq_collect_snapshot host a p w) (\<lambda>s.
       Inr (if trim (qs_smp_affinity s) = trim (qa_smp_affinity a)
            then [''IRQ '' @ show_nat (unat (qa_irq a)) @ '' already has requested smp_affinity '' @ qa_smp_affinity a]
            else []))"

definition irq_pending :: "irq_affinity_action \<Rightarrow> irq_affinity_snapshot \<Rightarrow> usize" where
  "irq_pending a s = (if trim (qs_smp_affinity s) \<noteq> trim (qa_smp_affinity a) then 1 else 0)"

definition irq_dry_run ::
  "'w file_host \<Rightarrow> irq_affinity_action \<Rightarrow> irq_affinity_policy \<Rightarrow> 'w \<Rightarrow> anyhow + action_state" where
  "irq_dry_run host a p w =
     res_bind (irq_collect_snapshot host a p w) (\<lambda>s. Inr (dry_run_state 1 (irq_pending a s) []))"

definition irq_verify ::
  "'w file_host \<Rightarrow> irq_affinity_action \<Rightarrow> irq_affinity_policy \<Rightarrow> 'w \<Rightarrow> anyhow + action_state" where
  "irq_verify host a p w =
     res_bind (irq_collect_snapshot host a p w) (\<lambda>s. Inr (verify_state 1 (irq_pending a s) []))"

text \<open>The tests that come before a restoring write, shared by the rollback and the handler; \<open>what\<close> is the word that
  differs in the message.\<close>

definition irq_restore_obstacle ::
  "'w file_host \<Rightarrow> string \<Rightarrow> string \<Rightarrow> irq_affinity_restore_record \<Rightarrow> 'w \<Rightarrow> string option" where
  "irq_restore_obstacle host base what r w =
     (let dir = irq_dir base (ir_irq r); name = ''IRQ '' @ show_nat (unat (ir_irq r))
      in if \<not> fh_is_dir host dir w then Some (name @ '' directory disappeared'')
         else case read_irq_device_hint host dir w of
                Inl err \<Rightarrow> Some (name @ '' device mapping unreadable during rollback: '' @ any_display_alt err)
              | Inr hint \<Rightarrow>
                  if hint = ir_device_hint r then None
                  else Some (name @ '' device mapping changed'' @ what @ '': expected '' @ debug_str (ir_device_hint r)
                         @ '', actual '' @ debug_str hint))"

definition irq_rollback_record ::
  "'w file_host \<Rightarrow> string \<Rightarrow> irq_affinity_restore_record \<Rightarrow> 'w \<Rightarrow> string list \<times> 'w" where
  "irq_rollback_record host base r w =
     (case irq_restore_obstacle host base '' during rollback'' r w of
        Some m \<Rightarrow> ([m], w)
      | None \<Rightarrow>
         (let path = path_join (irq_dir base (ir_irq r)) ''smp_affinity''; name = ''IRQ '' @ show_nat (unat (ir_irq r))
          in case irq_write_trimmed host path (ir_original_smp_affinity r) w of
               (Inl err, w) \<Rightarrow> ([name @ '' rollback write failed for '' @ path @ '': '' @ any_display_alt err], w)
             | (Inr _, w) \<Rightarrow>
                (case file_read_trimmed host path w of
                   Inl err \<Rightarrow> ([name @ '' rollback verification read failed: '' @ any_display_alt err], w)
                 | Inr actual \<Rightarrow>
                     ((if normalize_affinity actual = normalize_affinity (ir_original_smp_affinity r) then []
                       else [name @ '' rollback verification failed: requested='' @ ir_original_smp_affinity r
                             @ '' actual='' @ actual]), w))))"

fun irq_rollback_loop ::
  "'w file_host \<Rightarrow> string \<Rightarrow> irq_affinity_restore_record list \<Rightarrow> 'w \<Rightarrow> string list \<times> 'w" where
  "irq_rollback_loop host base [] w = ([], w)"
| "irq_rollback_loop host base (r # rs) w =
     (case irq_rollback_record host base r w of
        (f, w) \<Rightarrow> (case irq_rollback_loop host base rs w of (fs, w) \<Rightarrow> (f @ fs, w)))"

definition irq_rollback ::
  "'w file_host \<Rightarrow> irq_affinity_action \<Rightarrow> rollback_token \<Rightarrow> 'w \<Rightarrow> (anyhow + unit) \<times> 'w" where
  "irq_rollback host a token w =
     (case token of
        IrqAffinityRestore records \<Rightarrow>
          (case irq_rollback_loop host (qa_irq_root a) records w of
             (failures, w) \<Rightarrow>
               (if failures \<noteq> []
                then Inl (boundary_err (RestoreFailed ''irq_affinity''
                       (''failed to rollback IRQ affinity: '' @ join ''; '' failures)))
                else Inr (), w))
      | _ \<Rightarrow> (Inl (wrong_token ''irq-affinity-restore'' token), w))"

fun irq_handler_loop ::
  "'w file_host \<Rightarrow> irq_affinity_restore_record list \<Rightarrow> usize \<times> usize \<times> string list \<Rightarrow> 'w
    \<Rightarrow> (anyhow + usize \<times> usize \<times> string list) \<times> 'w" where
  "irq_handler_loop host [] acc w = (Inr acc, w)"
| "irq_handler_loop host (r # rs) (restored, skipped, messages) w =
     (case irq_restore_obstacle host ''/proc/irq'' [] r w of
        Some m \<Rightarrow> irq_handler_loop host rs (restored, skipped + 1, messages @ [m]) w
      | None \<Rightarrow>
         (let path = path_join (irq_dir ''/proc/irq'' (ir_irq r)) ''smp_affinity''
          in case irq_write_trimmed host path (ir_original_smp_affinity r) w of
               (Inl e, w) \<Rightarrow>
                 (Inl (any_context (''failed to restore IRQ '' @ show_nat (unat (ir_irq r)) @ '' smp_affinity via ''
                    @ path) e), w)
             | (Inr _, w) \<Rightarrow> irq_handler_loop host rs (restored + 1, skipped, messages) w))"

definition irq_handler_restore_token ::
  "'w file_host \<Rightarrow> rollback_token \<Rightarrow> 'w \<Rightarrow> (anyhow + rollback_result) \<times> 'w" where
  "irq_handler_restore_token host token w =
     (case token of
        IrqAffinityRestore records \<Rightarrow>
          (case irq_handler_loop host records (0, 0, []) w of
             (Inl e, w) \<Rightarrow> (Inl e, w)
           | (Inr (restored, skipped, messages), w) \<Rightarrow>
               (Inr (token_restore_result ''irq-affinity-rollback'' token restored skipped messages), w))
      | _ \<Rightarrow> (Inl (unsupported_token ''irq-affinity-rollback'' ''irq-affinity-restore'' token), w))"

fun irq_safety_class :: "irq_affinity_risk \<Rightarrow> safety_class" where
  "irq_safety_class IR_ReversibleMediumRisk = SC_ReversibleMediumRisk"
| "irq_safety_class IR_HighRisk = SC_HighRisk"

definition irq_action_id :: "irq_affinity_action \<Rightarrow> string" where
  "irq_action_id a =
     ''irq-affinity:set:irq='' @ show_nat (unat (qa_irq a)) @ '':affinity='' @ qa_smp_affinity a"

definition irq_describe :: "irq_affinity_action \<Rightarrow> string" where
  "irq_describe a =
     ''set IRQ '' @ show_nat (unat (qa_irq a)) @ '' ('' @ qa_device_hint a @ '') smp_affinity to '' @ qa_smp_affinity a"

end
