(* ===== verification/Action_Factory.thy ===== *)
theory Action_Factory
  imports Irq_Action
begin

text \<open>
  The part of the action factory (\<open>stutter/src/actions/factory.rs\<close>) that runs the IRQ affinity, CPU power, GPU power and
  VM knob actions under the policy it builds for each candidate.
\<close>

section \<open>The actions under the policy of the factory\<close>

text \<open>
  An \<open>apply\<close> that answers with a plain error becomes an \<open>ApplyResult\<close> without a rollback token
  (\<open>map_err(Into::into)\<close>). Only the CPU power action overrides \<open>apply_with_prepared_rollback\<close>; the others keep the
  default of the trait, which ignores the hook.
\<close>

definition into_apply_result :: "(anyhow + rollback_token) \<times> 'w \<Rightarrow> (partial_apply_error + rollback_token) \<times> 'w" where
  "into_apply_result r = (case r of (Inl e, w) \<Rightarrow> (Inl (clean_failure e), w) | (Inr t, w) \<Rightarrow> (Inr t, w))"

definition factory_irq_policy :: irq_affinity_policy where
  "factory_irq_policy =
     \<lparr>iq_allow_irq_affinity_changes = True, iq_allow_high_risk_devices = False, iq_require_strong_irq_evidence = True,
      iq_require_stable_irq_identity = True, iq_require_known_device_mapping = True\<rparr>"

definition factory_cpu_power_policy :: "cpu_power_action \<Rightarrow> cpu_power_policy" where
  "factory_cpu_power_policy a =
     default_cpu_power_policy
       \<lparr>cp_allow_cpu_power_changes := True, cp_allowed_cpus := cpa_cpus a,
        cp_allow_governor_changes := cpa_scaling_governor a \<noteq> None,
        cp_allow_epp_changes := cpa_energy_performance_preference a \<noteq> None\<rparr>"

definition factory_gpu_power_policy :: "gpu_power_action \<Rightarrow> gpu_power_policy" where
  "factory_gpu_power_policy a =
     default_gpu_power_policy
       \<lparr>gp_allow_gpu_power_changes := True, gp_mode := ManualApply, gp_allowed_drm_cards := [ga_drm_card a],
        gp_allow_force_performance_level := ga_power_dpm_force_performance_level a \<noteq> None,
        gp_allow_power_profile_mode := ga_pp_power_profile_mode a \<noteq> None\<rparr>"

definition factory_vm_knob_policy :: "vm_knob_action \<Rightarrow> vm_knob_policy" where
  "factory_vm_knob_policy a =
     \<lparr>vp_allow_vm_knob_changes = True, vp_mode = ManualApply, vp_allowed_paths = map vc_path (va_changes a),
      vp_require_latency_cliff_evidence = True, vp_latency_cliff_evidence = True\<rparr>"

definition irq_tuning_action :: "'w file_host \<Rightarrow> irq_affinity_action \<Rightarrow> 'w tuning_action" where
  "irq_tuning_action host a =
     \<lparr>ta_descriptor = default_descriptor (irq_action_id a) (irq_safety_class (qa_risk a)),
      ta_preflight = (\<lambda>w. (irq_preflight host a factory_irq_policy w, w)),
      ta_dry_run = (\<lambda>w. (irq_dry_run host a factory_irq_policy w, w)),
      ta_apply = (\<lambda>_ w. into_apply_result (irq_apply host a factory_irq_policy w)),
      ta_verify = (\<lambda>w. (irq_verify host a factory_irq_policy w, w)),
      ta_rollback = irq_rollback host a\<rparr>"

definition cpu_power_tuning_action :: "'w file_host \<Rightarrow> cpu_power_action \<Rightarrow> 'w tuning_action" where
  "cpu_power_tuning_action host a =
     \<lparr>ta_descriptor = default_descriptor (cpu_action_id a) (cpu_safety_class a),
      ta_preflight = (\<lambda>w. (cpu_preflight host a (factory_cpu_power_policy a) w, w)),
      ta_dry_run = (\<lambda>w. (cpu_dry_run host a (factory_cpu_power_policy a) w, w)),
      ta_apply = cpu_apply_prepared host a (factory_cpu_power_policy a),
      ta_verify = (\<lambda>w. (cpu_verify host a (factory_cpu_power_policy a) w, w)),
      ta_rollback = cpu_rollback host\<rparr>"

definition gpu_power_tuning_action :: "'w file_host \<Rightarrow> gpu_power_action \<Rightarrow> 'w tuning_action" where
  "gpu_power_tuning_action host a =
     \<lparr>ta_descriptor = default_descriptor (gpu_action_id a) (gpu_safety_class a),
      ta_preflight = (\<lambda>w. (gpu_preflight host a (factory_gpu_power_policy a) w, w)),
      ta_dry_run = (\<lambda>w. (gpu_dry_run host a (factory_gpu_power_policy a) w, w)),
      ta_apply = (\<lambda>_ w. into_apply_result (gpu_apply host a (factory_gpu_power_policy a) w)),
      ta_verify = (\<lambda>w. (gpu_verify host a (factory_gpu_power_policy a) w, w)),
      ta_rollback = gpu_rollback host\<rparr>"

definition vm_knob_tuning_action :: "'w file_host \<Rightarrow> vm_knob_action \<Rightarrow> 'w tuning_action" where
  "vm_knob_tuning_action host a =
     \<lparr>ta_descriptor = default_descriptor (vm_action_id a) (vm_safety_class a),
      ta_preflight = (\<lambda>w. (vm_preflight host a (factory_vm_knob_policy a) w, w)),
      ta_dry_run = (\<lambda>w. (vm_dry_run host a (factory_vm_knob_policy a) w, w)),
      ta_apply = (\<lambda>_ w. into_apply_result (vm_apply host a (factory_vm_knob_policy a) w)),
      ta_verify = (\<lambda>w. (vm_verify host a (factory_vm_knob_policy a) w, w)),
      ta_rollback = vm_rollback host\<rparr>"

end
