(* ===== verification/Sysfs_Facts.thy ===== *)
theory Sysfs_Facts
  imports Action_Factory
begin

text \<open>
  What the attribute actions write and what they leave behind. \<open>writes_keep\<close> says that a property of the world
  survives every write of a given kind; an operation that keeps every such property makes no other write. The laws of
  attribute files that read back what was written form the interface \<open>plain_files\<close>; on it an applied action can be
  undone. Files that do not keep these laws give the counterexamples at the end.
\<close>

section \<open>Values\<close>

lemma dropWhile_twice: "dropWhile P (dropWhile P xs) = dropWhile P xs"
  by (induction xs) auto

lemma trim_trim [simp]: "trim (trim s) = trim s"
proof -
  define t where "t = dropWhile is_whitespace s"
  define u where "u = rev (dropWhile is_whitespace (rev t))"
  have "dropWhile is_whitespace u = u"
  proof (cases "u = []")
    case False
    then obtain v where v: "t = u @ v"
      unfolding u_def by (metis rev_append rev_rev_ident takeWhile_dropWhile_id)
    then have "\<not> is_whitespace (hd t)"
      using False unfolding t_def by (metis Nil_is_append_conv hd_dropWhile)
    then show ?thesis
      using v False by (cases u) auto
  qed simp
  moreover have "dropWhile is_whitespace (rev u) = rev u"
    by (simp add: u_def dropWhile_twice)
  moreover have "trim s = u"
    by (simp add: trim_def trim_start_def t_def u_def)
  ultimately show ?thesis
    by (simp add: trim_def trim_start_def)
qed

lemma file_read_trimmed_trim: "file_read_trimmed host p w = Inr v \<Longrightarrow> trim v = v"
  by (auto simp: file_read_trimmed_def split: sum.splits)

lemma check_value_shape_trim: "check_value_shape kind field name allowed v = Inr () \<Longrightarrow> trim v = v"
  by (auto simp: check_value_shape_def Let_def split: if_splits)

lemma res_map_memberD: "res_map f xs = Inr ys \<Longrightarrow> y \<in> set ys \<Longrightarrow> \<exists>x \<in> set xs. f x = Inr y"
  by (induction xs arbitrary: ys) auto

lemma res_map_memberI: "res_map f xs = Inr ys \<Longrightarrow> x \<in> set xs \<Longrightarrow> \<exists>y \<in> set ys. f x = Inr y"
  by (induction xs arbitrary: ys) auto

text \<open>A path and the value it shows, in a file that opens for writing.\<close>

definition restorable :: "'w file_host \<Rightarrow> 'w \<Rightarrow> string \<times> string \<Rightarrow> bool" where
  "restorable host w r \<longleftrightarrow> file_read_trimmed host (fst r) w = Inr (snd r) \<and> fh_open_write host (fst r) w = Inr ()"

section \<open>What is written\<close>

definition writes_keep :: "'w file_host \<Rightarrow> (string \<Rightarrow> string \<Rightarrow> bool) \<Rightarrow> ('w \<Rightarrow> bool) \<Rightarrow> bool" where
  "writes_keep host R I \<longleftrightarrow> (\<forall>p v w. R p v \<longrightarrow> I w \<longrightarrow> I (snd (fh_write host p v w)))"

lemma write_trimmed_keeps:
  assumes "writes_keep host R I" "R p (trim v)" "I w"
  shows "I (snd (file_write_trimmed host p v w))"
  using assms unfolding writes_keep_def file_write_trimmed_def by (auto split: prod.splits sum.splits) (metis snd_conv)+

lemma write_and_read_back_keeps:
  assumes "writes_keep host R I" "R (sf_path t) (trim (sf_requested_value t))" "I w"
  shows "I (snd (write_and_read_back host t w))"
  using write_trimmed_keeps [OF assms] unfolding write_and_read_back_def by (auto split: prod.splits sum.splits)

lemma undo_value_keeps:
  assumes "writes_keep host R I" "R (fst r) (trim (snd r))" "I w"
  shows "I (snd (undo_value host r w))"
  using write_trimmed_keeps [OF assms] unfolding undo_value_def by (cases r) (auto split: prod.splits sum.splits)

lemma undo_values_keeps:
  assumes "writes_keep host R I" "\<forall>r \<in> set rs. R (fst r) (trim (snd r))" "I w"
  shows "I (snd (undo_values host rs w))"
  using assms(2,3)
proof (induction rs arbitrary: w)
  case (Cons r rs)
  then have "I (snd (undo_value host r w))"
    using undo_value_keeps [OF assms(1)] by auto
  then show ?case
    using Cons by (auto split: prod.splits) (metis snd_conv)
qed simp

lemma rollback_values_keeps:
  assumes "writes_keep host R I" "\<forall>r \<in> set rs. R (fst r) (trim (snd r))" "I w"
  shows "I (snd (rollback_values kind label host rs w))"
  using undo_values_keeps [OF assms(1), of "rev rs" w] assms(2,3)
  unfolding rollback_values_def by (auto split: prod.splits)

text \<open>
  The apply loops and the rollbacks of the three actions that write attribute files work the same way: \<open>val\<close> reads
  the path and the original value of a record that \<open>mk\<close> made for a target, and \<open>undo\<close> writes them back.
\<close>

locale attribute_action =
  fixes kind label :: string
    and host :: "'w file_host"
    and mk :: "'a sysfs_target_scheme \<Rightarrow> 'w \<Rightarrow> 'r"
    and val :: "'r \<Rightarrow> string \<times> string"
    and undo :: "'r list \<Rightarrow> 'w \<Rightarrow> (anyhow + unit) \<times> 'w"
  assumes val_mk: "val (mk t w) = (sf_path t, sf_original_value t)"
    and undo_values: "undo rs w = rollback_values kind label host (map val rs) w"
begin

lemma apply_loop_keeps:
  assumes "writes_keep host R I" "\<forall>r \<in> set rs. R (fst (val r)) (trim (snd (val r)))"
    "\<forall>t \<in> set ts. R (sf_path t) (trim (sf_requested_value t)) \<and> R (sf_path t) (trim (sf_original_value t))" "I w"
  shows "I (snd (sysfs_apply_loop kind label host mk undo ts rs w))"
  using assms(2-4)
proof (induction ts arbitrary: rs w)
  case (Cons t ts)
  have rs: "\<forall>r \<in> set (rs @ [mk t w]). R (fst (val r)) (trim (snd (val r)))"
    using Cons.prems by (auto simp: val_mk)
  then have undo: "I v \<Longrightarrow> I (snd (undo (rs @ [mk t w]) v))" for v
    unfolding undo_values by (intro rollback_values_keeps [OF assms(1)]) auto
  have "I (snd (write_and_read_back host t w))"
    using Cons.prems by (intro write_and_read_back_keeps [OF assms(1)]) auto
  then show ?case
    using Cons.IH [OF rs] Cons.prems undo by (auto simp: Let_def split: prod.splits sum.splits) (metis snd_conv)+
qed simp

end

interpretation vm_knobs: attribute_action "''vm_knobs''" "''VM knob''" host path_value_record record_value
  "rollback_vm_knob_records host"
  by unfold_locales (auto simp: path_value_record_def record_value_def rollback_vm_knob_records_def)

interpretation gpu_power: attribute_action "''gpu_power''" "''GPU power''" host path_value_record record_value
  "rollback_gpu_power_records host"
  by unfold_locales (auto simp: path_value_record_def record_value_def rollback_gpu_power_records_def)

interpretation cpu_power: attribute_action "''cpu_power''" "''CPU power''" host "cpu_power_record host" cpu_record_value
  "rollback_cpu_power_records host"
  by unfold_locales (auto simp: cpu_power_record_def cpu_record_value_def rollback_cpu_power_records_def)

text \<open>What a write of a VM knob action may be: \<open>knob_write host a p w path v\<close>.\<close>

definition knob_write ::
  "'w file_host \<Rightarrow> vm_knob_action \<Rightarrow> vm_knob_policy \<Rightarrow> 'w \<Rightarrow> string \<Rightarrow> string \<Rightarrow> bool" where
  "knob_write host a p w path v \<longleftrightarrow>
     list_ex (\<lambda>knob. path = path_join (va_root a) knob \<and> list_ex (path_eq knob) (vp_allowed_paths p)
        \<and> (is_ok (validate_knob_value knob v) \<and> is_ok (validate_declared_safe_value knob v)
           \<or> file_read_trimmed host path w = Inr v)) reversible_knobs"

lemma knob_value_trim: "validate_knob_value path v = Inr () \<Longrightarrow> trim v = v"
  by (auto simp: validate_knob_value_def validate_thp_value_def validate_numeric_vm_value_def validate_plain_value_def
      split: if_splits dest: check_value_shape_trim)

lemma vm_target_fileD:
  assumes "vm_target_file host a p w c = Inr t"
  obtains "sf_path t = path_join (va_root a) (vt_relative_path t)" "vt_relative_path t \<in> set reversible_knobs"
    "list_ex (path_eq (vt_relative_path t)) (vp_allowed_paths p)" "sf_requested_value t = vc_value c"
    "normalize_relative_knob_path (vc_path c) = Inr (vt_relative_path t)"
    "validate_knob_value (vt_relative_path t) (sf_requested_value t) = Inr ()"
    "validate_declared_safe_value (vt_relative_path t) (sf_requested_value t) = Inr ()"
    "restorable host w (sf_path t, sf_original_value t)"
  using assms by (auto simp: vm_target_file_def restorable_def ensure_writable_def validate_supported_reversible_knob_def Let_def
      split: if_splits sum.splits)

lemma vm_target_file_writes:
  assumes "vm_target_file host a p w c = Inr t"
  shows "knob_write host a p w (sf_path t) (trim (sf_requested_value t))"
    "knob_write host a p w (sf_path t) (trim (sf_original_value t))"
  using assms by (elim vm_target_fileD; auto simp: knob_write_def list_ex_iff is_ok_iff restorable_def knob_value_trim file_read_trimmed_trim)+

section \<open>Attribute files that read back what was written\<close>

text \<open>
  Paths may name the same file (\<open>cpuN/cpufreq\<close> links to the directory of its policy): \<open>file_of\<close> tells which. A
  successful write shows in every path of the file up to surrounding white space, a refused one changes nothing, and
  a file that opens for writing takes back every value it has shown.
\<close>

locale plain_files =
  fixes host :: "'w file_host" and file_of :: "string \<Rightarrow> 'i"
  assumes same_file: "file_of q = file_of p \<Longrightarrow> fh_read host q w = fh_read host p w"
    and read_back: "fst (fh_write host p v w) = Inr u \<Longrightarrow>
      map_sum id trim (fh_read host p (snd (fh_write host p v w))) = Inr (trim v)"
    and frame: "file_of q \<noteq> file_of p \<Longrightarrow> fh_read host q (snd (fh_write host p v w)) = fh_read host q w"
    and refused: "fst (fh_write host p v w) = Inl e \<Longrightarrow> fh_read host q (snd (fh_write host p v w)) = fh_read host q w"
    and takes_back: "fh_open_write host p w = Inr () \<Longrightarrow> fh_read host p w = Inr v \<Longrightarrow>
      fst (fh_write host p (trim v) w') = Inr ()"
begin

definition same_reads :: "'w \<Rightarrow> 'w \<Rightarrow> bool" where
  "same_reads w w' \<longleftrightarrow> (\<forall>q. file_read_trimmed host q w' = file_read_trimmed host q w)"

definition same_outside :: "string set \<Rightarrow> 'w \<Rightarrow> 'w \<Rightarrow> bool" where
  "same_outside S w w' \<longleftrightarrow> (\<forall>q. file_of q \<notin> file_of ` S \<longrightarrow> fh_read host q w' = fh_read host q w)"

lemma same_outside_refl [simp]: "same_outside S w w"
  by (simp add: same_outside_def)

lemma same_outside_trans: "same_outside S w w' \<Longrightarrow> same_outside T w' w'' \<Longrightarrow> same_outside (S \<union> T) w w''"
  by (auto simp: same_outside_def image_Un)

lemma same_outside_mono: "same_outside S w w' \<Longrightarrow> S \<subseteq> T \<Longrightarrow> same_outside T w w'"
  by (auto simp: same_outside_def)

lemma snd_write_trimmed: "snd (file_write_trimmed host p v w) = snd (fh_write host p (trim v) w)"
  by (auto simp: file_write_trimmed_def split: prod.splits sum.splits)

lemma write_trimmed_outside: "same_outside {p} w (snd (file_write_trimmed host p v w))"
  by (simp add: same_outside_def snd_write_trimmed frame)

lemma write_trimmed_ok:
  assumes "fst (file_write_trimmed host p v w) = Inr u"
  shows "file_of q = file_of p \<Longrightarrow> file_read_trimmed host q (snd (file_write_trimmed host p v w)) = Inr (trim v)"
proof -
  assume "file_of q = file_of p"
  then have "fh_read host q w' = fh_read host p w'" for w'
    by (rule same_file)
  moreover have "fst (fh_write host p (trim v) w) = Inr ()"
    using assms by (auto simp: file_write_trimmed_def split: prod.splits sum.splits)
  from read_back [OF this]
  have "map_sum id trim (fh_read host p (snd (fh_write host p (trim v) w))) = Inr (trim v)"
    by simp
  ultimately show ?thesis
    by (auto simp: file_read_trimmed_def snd_write_trimmed split: sum.splits)
qed

lemma write_trimmed_back:
  assumes "restorable host w0 (p, v)"
  shows "fst (file_write_trimmed host p v w) = Inr ()"
proof -
  have "fst (fh_write host p (trim v) w) = Inr ()"
    using assms takes_back by (auto simp: restorable_def file_read_trimmed_def split: sum.splits)
  then show ?thesis
    by (auto simp: file_write_trimmed_def split: prod.splits sum.splits)
qed

lemma undo_value_ok:
  assumes "restorable host w0 (p, v)"
  shows "undo_value host (p, v) w = ([], snd (file_write_trimmed host p v w))"
  using write_trimmed_back [OF assms, of w] write_trimmed_ok [of p v w, OF _ refl] assms
    file_read_trimmed_trim [of host p w0 v]
  by (auto simp: undo_value_def restorable_def split: prod.splits sum.splits)

lemma undo_values_ok:
  assumes "\<forall>r \<in> set rs. restorable host w0 r"
  shows "fst (undo_values host rs w) = []
    \<and> same_outside (fst ` set rs) w (snd (undo_values host rs w))
    \<and> (\<forall>q. file_of q \<in> file_of ` fst ` set rs \<longrightarrow>
          file_read_trimmed host q (snd (undo_values host rs w)) = file_read_trimmed host q w0)"
  using assms
proof (induction rs arbitrary: w)
  case (Cons r rs)
  obtain p v where r: "r = (p, v)"
    by (rule prod.exhaust)
  define w1 where "w1 = snd (file_write_trimmed host p v w)"
  have restorable: "restorable host w0 (p, v)" and v: "file_read_trimmed host p w0 = Inr v"
    using Cons.prems by (simp_all add: r restorable_def)
  have step: "undo_values host (r # rs) w = ([] @ fst (undo_values host rs w1), snd (undo_values host rs w1))"
    using undo_value_ok [OF restorable, of w] by (simp add: r w1_def split_beta)
  note IH = Cons.IH [of w1]
  have head: "file_read_trimmed host q w1 = file_read_trimmed host q w0" if "file_of q = file_of p" for q
  proof -
    have "file_read_trimmed host q w1 = Inr v"
      using write_trimmed_ok [OF write_trimmed_back [OF restorable] that] file_read_trimmed_trim [OF v] by (simp add: w1_def)
    also have "\<dots> = file_read_trimmed host q w0"
      using v same_file [OF that, of w0] by (simp add: file_read_trimmed_def split: sum.splits)
    finally show ?thesis .
  qed
  have "same_outside {p} w w1"
    by (simp add: w1_def write_trimmed_outside)
  then have "same_outside (fst ` set (r # rs)) w (snd (undo_values host rs w1))"
    using IH Cons.prems same_outside_trans by (fastforce simp: r)
  moreover have "file_read_trimmed host q (snd (undo_values host rs w1)) = file_read_trimmed host q w0"
    if "file_of q \<in> file_of ` fst ` set (r # rs)" for q
  proof (cases "file_of q \<in> file_of ` fst ` set rs")
    case False
    then have "fh_read host q (snd (undo_values host rs w1)) = fh_read host q w1"
      using IH Cons.prems by (simp add: same_outside_def)
    then show ?thesis
      using head [of q] that False by (auto simp: r file_read_trimmed_def)
  qed (use IH Cons.prems in simp)
  ultimately show ?case
    using IH Cons.prems unfolding step by simp
qed simp

lemma rollback_values_ok:
  assumes "\<forall>r \<in> set rs. restorable host w0 r" "same_outside (fst ` set rs) w0 w"
  shows "fst (rollback_values kind label host rs w) = Inr ()
    \<and> same_reads w0 (snd (rollback_values kind label host rs w))"
proof -
  have undone: "fst (undo_values host (rev rs) w) = []"
    "same_outside (fst ` set rs) w (snd (undo_values host (rev rs) w))"
    "\<forall>q. file_of q \<in> file_of ` fst ` set rs \<longrightarrow>
       file_read_trimmed host q (snd (undo_values host (rev rs) w)) = file_read_trimmed host q w0"
    using undo_values_ok [of "rev rs" w0 w] assms(1) by simp_all
  have "file_read_trimmed host q (snd (undo_values host (rev rs) w)) = file_read_trimmed host q w0" for q
    using undone(2,3) assms(2) by (cases "file_of q \<in> file_of ` fst ` set rs")
      (auto simp: same_outside_def file_read_trimmed_def)
  then show ?thesis
    using undone(1) by (simp add: rollback_values_def same_reads_def split_beta)
qed

text \<open>The commit loops change only the files of their targets.\<close>

lemma write_and_read_back_outside: "same_outside {sf_path t} w (snd (write_and_read_back host t w))"
  using write_trimmed_outside [of "sf_path t" w "sf_requested_value t"]
  by (auto simp: write_and_read_back_def split: prod.splits sum.splits)

lemma cpu_commit_loop_outside: "same_outside (sf_path ` set ts) w (snd (cpu_commit_loop host ts w))"
proof (induction ts arbitrary: w)
  case (Cons t ts)
  have "same_outside {sf_path t} w (snd (write_and_read_back host t w))"
    by (rule write_and_read_back_outside)
  then show ?case
    using Cons same_outside_trans [of "{sf_path t}" w]
    by (auto split: prod.splits sum.splits intro: same_outside_mono)
qed simp

end

locale attribute_files = attribute_action kind label host mk val undo + plain_files host file_of
  for kind label :: string and host :: "'w file_host" and mk :: "'a sysfs_target_scheme \<Rightarrow> 'w \<Rightarrow> 'r"
    and val :: "'r \<Rightarrow> string \<times> string" and undo :: "'r list \<Rightarrow> 'w \<Rightarrow> (anyhow + unit) \<times> 'w"
    and file_of :: "string \<Rightarrow> 'i"
begin

lemma apply_loop_ok:
  assumes "sysfs_apply_loop kind label host mk undo ts rs w = (Inr rs', w')"
  shows "map val rs' = map val rs @ map (\<lambda>t. (sf_path t, sf_original_value t)) ts
    \<and> same_outside (sf_path ` set ts) w w'"
  using assms
proof (induction ts arbitrary: rs w)
  case (Cons t ts)
  obtain r v where wr: "write_and_read_back host t w = (r, v)"
    by (rule prod.exhaust)
  show ?case
  proof (cases "sf_original_value t = sf_requested_value t")
    case True
    then have "sysfs_apply_loop kind label host mk undo ts (rs @ [mk t w]) w = (Inr rs', w')"
      using Cons.prems by simp
    from Cons.IH [OF this] show ?thesis
      by (auto simp: val_mk intro: same_outside_mono)
  next
    case False
    then have "sysfs_apply_loop kind label host mk undo ts (rs @ [mk t w]) v = (Inr rs', w')"
      using Cons.prems by (auto simp: wr Let_def split: sum.splits if_splits prod.splits)
    from Cons.IH [OF this] show ?thesis
      using write_and_read_back_outside [of t w] same_outside_trans [of "{sf_path t}" w v]
      by (simp add: wr val_mk)
  qed
qed simp

lemma apply_then_undo:
  assumes "sysfs_apply_loop kind label host mk undo ts [] w = (Inr rs, w')"
    and "\<forall>t \<in> set ts. restorable host w (sf_path t, sf_original_value t)"
  shows "fst (undo rs w') = Inr () \<and> same_reads w (snd (undo rs w'))"
proof -
  have rs: "map val rs = map (\<lambda>t. (sf_path t, sf_original_value t)) ts" and out: "same_outside (sf_path ` set ts) w w'"
    using apply_loop_ok [OF assms(1)] by simp_all
  show ?thesis
    unfolding undo_values rs using assms(2) out by (intro rollback_values_ok) (auto simp: image_image)
qed

end

lemmas vm_attribute_files = attribute_files.intro [OF vm_knobs.attribute_action_axioms]
lemmas gpu_attribute_files = attribute_files.intro [OF gpu_power.attribute_action_axioms]

lemma vm_apply_InrD:
  assumes "vm_apply host a p w = (Inr token, w')"
  obtains files rs where "vm_collect_target_files host a p w = Inr files" "token = VmKnobRestore rs"
    "sysfs_apply_loop ''vm_knobs'' ''VM knob'' host path_value_record (rollback_vm_knob_records host) files [] w = (Inr rs, w')"
  using assms by (auto simp: vm_apply_def split: sum.splits prod.splits)

lemma vm_collect_restorable:
  assumes "vm_collect_target_files host a p w = Inr files" "t \<in> set files"
  shows "restorable host w (sf_path t, sf_original_value t)"
proof -
  have "res_map (vm_target_file host a p w) (va_changes a) = Inr files"
    using assms(1) by (simp add: vm_collect_target_files_def)
  then obtain c where "vm_target_file host a p w c = Inr t"
    using res_map_memberD [OF _ assms(2)] by blast
  then show ?thesis
    by (elim vm_target_fileD)
qed

end
