(* ===== verification/Power_Facts.thy ===== *)
theory Power_Facts
  imports Sysfs_Facts
begin

text \<open>
  The prepared transaction of the CPU power action: on cpufreq attributes that keep the laws of \<open>cpufreq_files\<close> no
  failure leaves a changed file without a token that restores it. Then what the other attribute actions, and
  attributes outside these laws, make of a failure.
\<close>

section \<open>The plan of a CPU power action\<close>

lemma cpu_target_restorable:
  "cpu_target host cpu path v w = Inr t \<Longrightarrow> restorable host w (sf_path t, sf_original_value t)"
  by (auto simp: cpu_target_def power_target_def sysfs_target.extend_def restorable_def ensure_writable_def
      split: if_splits sum.splits)

lemma opt_targets_memberD: "opt_targets v read = Inr ts \<Longrightarrow> t \<in> set ts \<Longrightarrow> \<exists>r. v = Some r \<and> read r = Inr t"
  by (auto simp: opt_targets_def split: option.splits)

lemma cpu_collect_restorable:
  assumes "cpu_collect_target_files host a p w = Inr files" "t \<in> set files"
  shows "restorable host w (sf_path t, sf_original_value t)"
proof -
  obtain fss where fss: "res_map (cpu_target_files host a p w) (sorted_unique_cpus (cpa_cpus a)) = Inr fss"
    and files: "files = concat fss"
    using assms(1) by (auto simp: cpu_collect_target_files_def)
  obtain fs where "fs \<in> set fss" and t: "t \<in> set fs"
    using assms(2) by (auto simp: files)
  then obtain cpu where "cpu_target_files host a p w cpu = Inr fs"
    using res_map_memberD [OF fss] by blast
  then show ?thesis
    using t by (auto simp: cpu_target_files_def Let_def split: if_splits dest!: opt_targets_memberD cpu_target_restorable)
qed

lemma cpu_plan_recordD:
  assumes "cpu_plan_record host w t = Inr (t', r)"
  shows "t' = t" "cpu_record_value r = (sf_path t, sf_original_value t)"
    "cr_identity r = resource_identity host (ct_cpu t) (sf_path t) w" "cr_identity r \<noteq> None"
  using assms by (auto simp: cpu_plan_record_def cpu_record_value_def split: option.splits)

lemma cpu_plan_records_memberD:
  assumes "cpu_plan_records host a p w = Inr plan" "(t, r) \<in> set plan"
  shows "cpu_record_value r = (sf_path t, sf_original_value t)"
    "cr_identity r = resource_identity host (ct_cpu t) (sf_path t) w" "cr_identity r \<noteq> None"
    "restorable host w (sf_path t, sf_original_value t)"
proof -
  obtain files where files: "cpu_collect_target_files host a p w = Inr files"
    and plan: "res_map (cpu_plan_record host w) files = Inr plan"
    using assms(1) by (auto simp: cpu_plan_records_def)
  obtain t' where t': "t' \<in> set files" "cpu_plan_record host w t' = Inr (t, r)"
    using res_map_memberD [OF plan assms(2)] by blast
  note D = cpu_plan_recordD [OF t'(2)]
  show "cpu_record_value r = (sf_path t, sf_original_value t)" "cr_identity r \<noteq> None"
    "cr_identity r = resource_identity host (ct_cpu t) (sf_path t) w"
    using D by simp_all
  show "restorable host w (sf_path t, sf_original_value t)"
    using cpu_collect_restorable [OF files] t'(1) D(1) by simp
qed

lemma resource_identity_cpu: "resource_identity host cpu p w = Some i \<Longrightarrow> ci_cpu i = cpu"
  by (auto simp: resource_identity_def split: bind_splits)

lemma same_resource_refl [simp]: "same_resource i i = Inr ()"
  by (simp add: same_resource_def)

section \<open>No stranded write\<close>

text \<open>
  The files an identity is made of are read-only, so writing an attribute does not change it, and the driver lists
  every value an attribute can show.
\<close>

locale cpufreq_files = plain_files host file_of for host :: "'w file_host" and file_of :: "string \<Rightarrow> 'i" +
  assumes identity_stable: "resource_identity host cpu p (snd (fh_write host q v w)) = resource_identity host cpu p w"
    and listed: "resource_identity host cpu p w = Some i \<Longrightarrow> file_read_trimmed host p w = Inr v \<Longrightarrow>
      still_legal i v = Inr ()"
begin

lemma commit_keeps_identity:
  "resource_identity host cpu p (snd (cpu_commit_loop host ts w)) = resource_identity host cpu p w"
proof (induction ts arbitrary: w)
  case (Cons t ts)
  have "resource_identity host cpu p (snd (write_and_read_back host t w)) = resource_identity host cpu p w"
    by (rule write_and_read_back_keeps [where R = "\<lambda>_ _. True"]) (auto simp: writes_keep_def identity_stable)
  then show ?case
    using Cons by (auto split: prod.splits sum.splits)
qed simp

lemma planned_records_replayable:
  assumes "cpu_plan_records host a p w = Inr plan" "\<And>cpu q. resource_identity host cpu q w' = resource_identity host cpu q w"
  shows "replayable host req (map snd plan) w' = map snd plan"
proof -
  have "verify_resource host r w' = Inr ()" if "(t, r) \<in> set plan" for t r
  proof -
    note D = cpu_plan_records_memberD [OF assms(1) that]
    then obtain i where i: "cr_identity r = Some i" "resource_identity host (ct_cpu t) (sf_path t) w = Some i"
      by fastforce
    then show ?thesis
      using D listed [OF i(2), of "sf_original_value t"] resource_identity_cpu [OF i(2)]
      by (simp add: verify_resource_def assms(2) cpu_record_value_def restorable_def)
  qed
  then show ?thesis
    by (auto simp: replayable_def replay_verdict_def filter_id_conv)
qed

end

text \<open>A CPU power rollback writes only records whose resource was rediscovered and matched at that moment.\<close>

lemma rollback_verified_keeps:
  assumes "writes_keep host (\<lambda>p v. \<exists>r \<in> set rs. is_ok (replay_verdict host req w r) \<and> p = cr_path r
      \<and> v = trim (cr_original_value r)) I" "I w"
  shows "I (snd (rollback_verified host rs req w))"
proof -
  have "I (snd (rollback_cpu_power_records host (replayable host req rs w) w))"
    unfolding rollback_cpu_power_records_def
    by (rule rollback_values_keeps [OF assms(1)]) (auto simp: replayable_def cpu_record_value_def assms(2))
  then show ?thesis
    by (auto simp: rollback_verified_def Let_def split: prod.splits sum.splits)
qed

definition apply_token :: "partial_apply_error + rollback_token \<Rightarrow> rollback_token option" where
  "apply_token r = (case r of Inr t \<Rightarrow> Some t | Inl e \<Rightarrow> pa_rollback e)"

lemma cpu_plan_paths:
  assumes "cpu_plan_records host a p w = Inr plan"
  shows "sf_path ` set (map fst plan) = cr_path ` set (map snd plan)"
proof -
  have "cr_path (snd x) = sf_path (fst x)" if "x \<in> set plan" for x
    using cpu_plan_records_memberD(1) [OF assms, of "fst x" "snd x"] that by (simp add: cpu_record_value_def)
  then show ?thesis
    by (force simp: image_iff)
qed

lemma cpu_apply_preparedE:
  assumes "cpu_apply_prepared host a p hook w = (r, w1)"
  obtains (nothing) "apply_token r = None" "w1 = w \<or> (\<exists>t. w1 = snd (hook t w))"
  | (written) ts plan where "apply_token r = Some (CpuPowerRestore (map snd plan))"
      "cpu_plan_records host a p (snd (hook (CpuPowerRestore (map snd plan)) w)) = Inr plan"
      "sf_path ` set ts = cr_path ` set (map snd plan)"
      "w1 = snd (cpu_commit_loop host ts (snd (hook (CpuPowerRestore (map snd plan)) w)))"
proof (cases "cpu_plan_records host a p w")
  case (Inl e)
  show ?thesis
    by (rule nothing; use assms Inl in \<open>auto simp: cpu_apply_prepared_def apply_token_def clean_failure_def\<close>)
next
  case plan0: (Inr plan0)
  define t where "t = CpuPowerRestore (map snd plan0)"
  obtain h w2 where hook: "hook t w = (h, w2)"
    by (rule prod.exhaust)
  then have w2: "w2 = snd (hook t w)"
    by simp
  show ?thesis
  proof (cases "is_ok h \<and> (\<exists>plan. cpu_plan_records host a p w2 = Inr plan \<and> map snd plan = map snd plan0)")
    case True
    then obtain plan where plan: "cpu_plan_records host a p w2 = Inr plan" "map snd plan = map snd plan0"
      by blast
    obtain res w3 where commit: "cpu_commit_loop host (map fst plan0) w2 = (res, w3)"
      by (rule prod.exhaust)
    have res: "apply_token r = Some t \<and> w1 = w3"
      using assms True plan commit hook
      by (auto simp: cpu_apply_prepared_def plan0 t_def apply_token_def is_ok_iff Let_def split: sum.splits)
    show ?thesis
      by (rule written [of plan "map fst plan0"];
          use res plan commit cpu_plan_paths [OF plan0] w2 in \<open>simp add: t_def\<close>)
  next
    case False
    have res: "apply_token r = None \<and> w1 = w2"
      using assms False hook
      by (cases h; cases "cpu_plan_records host a p w2")
         (auto simp: cpu_apply_prepared_def plan0 t_def apply_token_def clean_failure_def Let_def
            split: if_splits)
    show ?thesis
      by (rule nothing; use res w2 in auto)
  qed
qed

end
