(* ===== verification/Sysfs_Machine.thy ===== *)
theory Sysfs_Machine
  imports Power_Facts
begin

text \<open>
  A machine whose attributes behave as most of sysfs does: an attribute holds one of the values it lists, prints it
  with a line feed, and refuses every other value; all other files are read-only. It keeps the laws that the theorems
  on attribute files ask for, and gives their witnesses. Three machines that break one law each show what the actions
  then do.
\<close>

section \<open>Attributes with listed values\<close>

definition eacces :: io_error where
  "eacces = \<lparr>io_raw_os_error = Some 13, io_kind = Io_PermissionDenied, io_display = ''Permission denied (os error 13)''\<rparr>"

definition enoent :: io_error where
  "enoent = \<lparr>io_raw_os_error = Some 2, io_kind = Io_NotFound, io_display = ''No such file or directory (os error 2)''\<rparr>"

definition einval :: io_error where
  "einval = \<lparr>io_raw_os_error = Some 22, io_kind = Io_InvalidInput, io_display = ''Invalid argument (os error 22)''\<rparr>"

fun position :: "'a \<Rightarrow> 'a list \<Rightarrow> nat option" where
  "position x [] = None"
| "position x (y # ys) = (if x = y then Some 0 else map_option Suc (position x ys))"

type_synonym attrs = "(string \<times> string list) list"

definition machine_read :: "(string \<times> string) list \<Rightarrow> attrs \<Rightarrow> string \<Rightarrow> (string \<Rightarrow> nat) \<Rightarrow> io_error + string" where
  "machine_read fixed attrs p w =
     (case map_of attrs p of
        Some vs \<Rightarrow> Inr (vs ! (w p mod length vs) @ [CHR 0x0A])
      | None \<Rightarrow> (case map_of fixed p of Some v \<Rightarrow> Inr v | None \<Rightarrow> Inl enoent))"

definition machine_write ::
  "attrs \<Rightarrow> string \<Rightarrow> string \<Rightarrow> (string \<Rightarrow> nat) \<Rightarrow> (io_error + unit) \<times> (string \<Rightarrow> nat)" where
  "machine_write attrs p v w =
     (case map_of attrs p of
        None \<Rightarrow> (Inl eacces, w)
      | Some vs \<Rightarrow> (case position v vs of Some i \<Rightarrow> (Inr (), w(p := i)) | None \<Rightarrow> (Inl einval, w)))"

definition machine :: "(string \<times> string) list \<Rightarrow> attrs \<Rightarrow> (string \<Rightarrow> nat) file_host" where
  "machine fixed attrs =
     (let files = map fst attrs @ map fst fixed; dir = (\<lambda>p. list_ex (\<lambda>f. starts_with f (p @ ''/'')) files)
      in \<lparr>fh_exists = (\<lambda>p w. p \<in> set files \<or> dir p), fh_is_file = (\<lambda>p w. p \<in> set files), fh_is_dir = (\<lambda>p w. dir p),
          fh_open_write = (\<lambda>p w. if map_of attrs p \<noteq> None then Inr () else Inl eacces),
          fh_read = machine_read fixed attrs, fh_read_dir = (\<lambda>p w. Inr []), fh_canonicalize = (\<lambda>p w. Inr p),
          fh_write = machine_write attrs\<rparr>)"

definition attrs_ok :: "attrs \<Rightarrow> bool" where
  "attrs_ok attrs \<longleftrightarrow> list_all (\<lambda>(p, vs). vs \<noteq> [] \<and> list_all (\<lambda>v. trim v = v) vs) attrs"

lemma machine_simps [simp]:
  "fh_read (machine fixed attrs) = machine_read fixed attrs"
  "fh_write (machine fixed attrs) = machine_write attrs"
  "fh_canonicalize (machine fixed attrs) p w = Inr p"
  by (simp_all add: machine_def Let_def)

lemma position_Some: "position x xs = Some i \<Longrightarrow> i < length xs \<and> xs ! i = x"
  by (induction xs arbitrary: i) (auto split: if_splits)

lemma position_None: "position x xs = None \<longleftrightarrow> x \<notin> set xs"
  by (induction xs) auto

lemma trim_newline: "trim (s @ [CHR 0x0A]) = trim s"
proof -
  have ws: "is_whitespace (CHR 0x0A)"
    by (simp add: is_whitespace_def)
  show ?thesis
  proof (cases "\<forall>c \<in> set s. is_whitespace c")
    case True
    then show ?thesis
      using ws trim_empty_iff [of s] trim_empty_iff [of "s @ [CHR 0x0A]"] by simp
  next
    case False
    then have "dropWhile is_whitespace (s @ [CHR 0x0A]) = dropWhile is_whitespace s @ [CHR 0x0A]"
      by (metis dropWhile_append1)
    then show ?thesis
      using ws by (simp add: trim_def trim_start_def)
  qed
qed

lemma attrs_okD: "attrs_ok attrs \<Longrightarrow> map_of attrs p = Some vs \<Longrightarrow> vs \<noteq> [] \<and> (\<forall>v \<in> set vs. trim v = v)"
  by (auto simp: attrs_ok_def list_all_iff dest!: map_of_SomeD)

lemma machine_plain:
  assumes "attrs_ok attrs"
  shows "plain_files (machine fixed attrs) id"
proof unfold_locales
  fix p v w u
  assume "fst (fh_write (machine fixed attrs) p v w) = Inr u"
  then obtain vs i where "map_of attrs p = Some vs" "position v vs = Some i"
    by (auto simp: machine_write_def split: option.splits)
  then show "map_sum id trim (fh_read (machine fixed attrs) p (snd (fh_write (machine fixed attrs) p v w))) = Inr (trim v)"
    using position_Some [of v vs i] by (simp add: machine_read_def machine_write_def trim_newline)
next
  fix p w v w'
  assume "fh_open_write (machine fixed attrs) p w = Inr ()" and shown: "fh_read (machine fixed attrs) p w = Inr v"
  then obtain vs where vs: "map_of attrs p = Some vs"
    by (auto simp: machine_def Let_def split: if_splits)
  have "w p mod length vs < length vs"
    using attrs_okD [OF assms vs] by simp
  then have "trim v \<in> set vs"
    using attrs_okD [OF assms vs] shown vs by (auto simp: machine_read_def trim_newline)
  then show "fst (fh_write (machine fixed attrs) p (trim v) w') = Inr ()"
    using vs position_None [of "trim v" vs] by (auto simp: machine_write_def split: option.splits)
qed (auto simp: machine_read_def machine_write_def split: option.splits)

text \<open>The conditions on the files that make the attributes below \<open>cpufreq\<close> keep the laws of \<open>cpufreq_files\<close>.\<close>

definition identity_file_names :: "string list" where
  "identity_file_names =
     [''related_cpus'', ''scaling_driver'', ''energy_performance_available_preferences'', ''scaling_available_governors'',
      ''boot_id'']"

definition identity_fixed :: "attrs \<Rightarrow> bool" where
  "identity_fixed attrs \<longleftrightarrow> list_all (\<lambda>(p, _). list_all (\<lambda>f. \<not> ends_with p f) identity_file_names) attrs"

definition values_listed :: "(string \<times> string) list \<Rightarrow> attrs \<Rightarrow> bool" where
  "values_listed fixed attrs \<longleftrightarrow>
     list_all (\<lambda>(p, _). Option.bind (path_file_name p) available_values_file = None) fixed
     \<and> list_all (\<lambda>(p, vs).
         case (path_parent p, Option.bind (path_file_name p) available_values_file) of
           (Some d, Some a) \<Rightarrow>
             (case map_of fixed (path_join d a) of
                Some legal \<Rightarrow> list_all (\<lambda>v. v \<in> set (split_whitespace (trim legal))) vs
              | None \<Rightarrow> True)
         | _ \<Rightarrow> True) attrs"

lemma ends_with_path_join: "f \<noteq> [] \<Longrightarrow> ends_with (path_join b f) f"
  by (auto simp: ends_with_def starts_with_def path_join_def strip_prefix_Some_iff)

lemma identity_file_no_attr:
  assumes "identity_fixed attrs" "ends_with q f" "f \<in> set identity_file_names"
  shows "map_of attrs q = None"
  using assms by (fastforce simp: identity_fixed_def list_all_iff map_of_eq_None_iff)

lemma read_optional_fixed:
  assumes "map_of attrs q = None"
  shows "read_optional (machine fixed attrs) q w = Option.bind (map_of fixed q) (\<lambda>v. if trim v = [] then None else Some (trim v))"
  using assms by (auto simp: read_optional_def file_read_trimmed_def machine_read_def split: option.splits)

lemma machine_identity:
  assumes "identity_fixed attrs"
  shows "resource_identity (machine fixed attrs) cpu p w = resource_identity (machine fixed attrs) cpu p w'"
proof -
  have read: "read_optional (machine fixed attrs) (path_join d f) w = read_optional (machine fixed attrs) (path_join d f) w'"
    if "f \<in> set identity_file_names" for d f
  proof -
    have "f \<noteq> []"
      using that by (auto simp: identity_file_names_def)
    then have "map_of attrs (path_join d f) = None"
      using identity_file_no_attr [OF assms ends_with_path_join that] by simp
    then show ?thesis
      by (simp add: read_optional_fixed)
  qed
  have "ends_with ''/proc/sys/kernel/random/boot_id'' ''boot_id''"
    by (simp add: ends_with_def starts_with_def)
  then have "map_of attrs ''/proc/sys/kernel/random/boot_id'' = None"
    by (rule identity_file_no_attr [OF assms]) (simp add: identity_file_names_def)
  then have boot: "boot_id (machine fixed attrs) w = boot_id (machine fixed attrs) w'"
    unfolding boot_id_def by (simp only: read_optional_fixed)
  have "available_values_file a = Some f \<Longrightarrow> f \<in> set identity_file_names" for a f
    by (auto simp: available_values_file_def identity_file_names_def split: if_splits)
  then show ?thesis
    using read boot
    by (auto simp: resource_identity_def identity_file_names_def intro!: Option.bind_cong [OF refl])
qed

lemma machine_listed:
  assumes "identity_fixed attrs" "attrs_ok attrs" "values_listed fixed attrs"
    and i: "resource_identity (machine fixed attrs) cpu p w = Some i"
    and v: "file_read_trimmed (machine fixed attrs) p w = Inr v"
  shows "still_legal i v = Inr ()"
proof -
  obtain d a f where d: "path_parent p = Some d" and a: "path_file_name p = Some a" and f: "available_values_file a = Some f"
    and vals: "ci_available_values i = read_optional (machine fixed attrs) (path_join d f) w"
    using i by (auto simp: resource_identity_def split: bind_splits)
  have fn: "f \<in> set identity_file_names" "f \<noteq> []"
    using f by (auto simp: available_values_file_def identity_file_names_def split: if_splits)
  have "map_of fixed p = None"
    using assms(3) a f by (fastforce simp: values_listed_def list_all_iff map_of_eq_None_iff)
  then obtain vs where vs: "map_of attrs p = Some vs" and shown: "v = trim (vs ! (w p mod length vs))"
    using v by (auto simp: file_read_trimmed_def machine_read_def trim_newline split: option.splits)
  have "vs ! (w p mod length vs) \<in> set vs"
    using attrs_okD [OF assms(2) vs] by simp
  then have member: "v \<in> set vs"
    using attrs_okD [OF assms(2) vs] shown by simp
  have no_attr: "map_of attrs (path_join d f) = None"
    using identity_file_no_attr [OF assms(1) ends_with_path_join fn(1)] fn(2) by blast
  have "(p, vs) \<in> set attrs"
    using vs by (rule map_of_SomeD)
  then have "case map_of fixed (path_join d f) of
      Some legal \<Rightarrow> list_all (\<lambda>v. v \<in> set (split_whitespace (trim legal))) vs | None \<Rightarrow> True"
    using assms(3) d a f by (fastforce simp: values_listed_def list_all_iff)
  then show ?thesis
    using member by (auto simp: still_legal_def vals read_optional_fixed [OF no_attr] list_all_iff
        split: option.splits bind_splits if_splits)
qed

lemma machine_cpufreq:
  assumes "identity_fixed attrs" "attrs_ok attrs" "values_listed fixed attrs"
  shows "cpufreq_files (machine fixed attrs) id"
  using machine_plain [OF assms(2)] machine_identity [OF assms(1)] machine_listed [OF assms]
  unfolding cpufreq_files_def cpufreq_files_axioms_def by blast

section \<open>A sample machine\<close>

definition lab_attrs :: attrs where
  "lab_attrs =
     [(''/sys/kernel/mm/transparent_hugepage/khugepaged/defrag'', [''1'', ''0'']),
      (''/sys/kernel/mm/transparent_hugepage/defrag'', [''never'']),
      (''/sys/devices/system/cpu/cpu0/cpufreq/scaling_governor'', [''powersave'', ''performance'']),
      (''/sys/devices/system/cpu/cpu1/cpufreq/scaling_governor'', [''powersave''])]"

definition lab_fixed :: "(string \<times> string) list" where
  "lab_fixed =
     [(''/sys/devices/system/cpu/cpu0/cpufreq/scaling_driver'', ''acpi-cpufreq''),
      (''/sys/devices/system/cpu/cpu0/cpufreq/scaling_available_governors'', ''performance powersave''),
      (''/proc/sys/kernel/random/boot_id'', ''1b4e28ba'')]"

definition lab :: "(string \<Rightarrow> nat) file_host" where
  "lab = machine lab_fixed lab_attrs"

definition lab_state :: "string \<Rightarrow> nat" where
  "lab_state p = 0"

lemma lab_attrs_ok: "attrs_ok lab_attrs"
  by code_simp

interpretation lab: cpufreq_files lab id
  unfolding lab_def by (rule machine_cpufreq) (code_simp+)

interpretation lab_vm: attribute_files "''vm_knobs''" "''VM knob''" lab path_value_record record_value
  "rollback_vm_knob_records lab" id
  by (rule vm_attribute_files) (rule lab.plain_files_axioms)

interpretation lab_gpu: attribute_files "''gpu_power''" "''GPU power''" lab path_value_record record_value
  "rollback_gpu_power_records lab" id
  by (rule gpu_attribute_files) (rule lab.plain_files_axioms)

definition defrag_action :: vm_knob_action where
  "defrag_action = \<lparr>va_root = ''/'', va_changes = [\<lparr>vc_path = ''/sys//kernel/mm/./transparent_hugepage/khugepaged/defrag'', vc_value = ''0''\<rparr>]\<rparr>"

definition defrag_policy :: vm_knob_policy where
  "defrag_policy =
     \<lparr>vp_allow_vm_knob_changes = True, vp_mode = ManualApply, vp_allowed_paths = [''sys/kernel/mm/transparent_hugepage/khugepaged/defrag''],
      vp_require_latency_cliff_evidence = True, vp_latency_cliff_evidence = True\<rparr>"

section \<open>The properties of the attribute actions\<close>

text \<open>
  C21. Every write of a VM knob action goes to one of the eight supported knobs below its root, a knob the policy
  allows, and writes a value that passed the validation of that knob or the value the file had when the action read
  it: whatever survives these writes survives the action, for every change list and however its paths are spelled.
\<close>

theorem vm_writes_confined:
  assumes "writes_keep host (knob_write host a p w) I" "I w"
  shows "I (snd (vm_apply host a p w))"
proof (cases "res_bind (vm_validate_manual_apply_policy p) (\<lambda>_. vm_collect_target_files host a p w)")
  case (Inl e)
  then show ?thesis
    using assms by (simp add: vm_apply_def)
next
  case (Inr files)
  then have "res_map (vm_target_file host a p w) (va_changes a) = Inr files"
    by (auto simp: vm_collect_target_files_def)
  note files = this
  have writes: "knob_write host a p w (sf_path t) (trim (sf_requested_value t))
      \<and> knob_write host a p w (sf_path t) (trim (sf_original_value t))" if "t \<in> set files" for t
  proof -
    obtain c where "vm_target_file host a p w c = Inr t"
      using res_map_memberD [OF files \<open>t \<in> set files\<close>] by blast
    then show ?thesis
      by (simp add: vm_target_file_writes)
  qed
  have "I (snd (sysfs_apply_loop ''vm_knobs'' ''VM knob'' host path_value_record (rollback_vm_knob_records host)
      files [] w))"
    by (rule vm_knobs.apply_loop_keeps [OF assms(1)]) (use assms(2) writes in simp_all)
  then show ?thesis
    unfolding vm_apply_def Inr by (auto split: prod.splits sum.splits)
qed

lemma vm_writes_confined_witness:
  "snd (vm_apply lab defrag_action defrag_policy lab_state) ''/sys/kernel/mm/transparent_hugepage/defrag'' = 0
    \<and> snd (vm_apply lab defrag_action defrag_policy lab_state) ''/sys/kernel/mm/transparent_hugepage/khugepaged/defrag'' = 1"
proof
  have "writes_keep lab (knob_write lab defrag_action defrag_policy lab_state) (\<lambda>w. w ''/sys/kernel/mm/transparent_hugepage/defrag'' = 0)"
    by (auto simp: writes_keep_def knob_write_def defrag_policy_def defrag_action_def lab_def machine_write_def path_join_def
        reversible_knobs_def path_eq_def starts_with_def lab_attrs_def split: option.splits if_splits)
  then show "snd (vm_apply lab defrag_action defrag_policy lab_state) ''/sys/kernel/mm/transparent_hugepage/defrag'' = 0"
    by (rule vm_writes_confined) (simp add: lab_state_def)
  show "snd (vm_apply lab defrag_action defrag_policy lab_state) ''/sys/kernel/mm/transparent_hugepage/khugepaged/defrag'' = 1"
    by code_simp
qed

text \<open>
  On attribute files that read back what was written and take back what they have shown, the rollback of an
  applied VM knob action succeeds and every file reads as it did before the action, even when several changes name the
  same knob.
\<close>

theorem vm_apply_undone:
  assumes "plain_files host file_of" "vm_apply host a p w = (Inr token, w1)"
  shows "fst (vm_rollback host token w1) = Inr ()
    \<and> (\<forall>q. file_read_trimmed host q (snd (vm_rollback host token w1)) = file_read_trimmed host q w)"
  using assms(2)
proof (rule vm_apply_InrD)
  fix files rs
  assume files: "vm_collect_target_files host a p w = Inr files" and token: "token = VmKnobRestore rs"
    and loop: "sysfs_apply_loop ''vm_knobs'' ''VM knob'' host path_value_record (rollback_vm_knob_records host) files [] w
      = (Inr rs, w1)"
  have "\<forall>t \<in> set files. restorable host w (sf_path t, sf_original_value t)"
    using vm_collect_restorable [OF files] by blast
  from attribute_files.apply_then_undo [OF vm_attribute_files [OF assms(1)] loop this] show ?thesis
    by (simp add: vm_rollback_def token plain_files.same_reads_def [OF assms(1)])
qed

lemma vm_apply_undone_witness:
  "\<exists>token w1. vm_apply lab defrag_action defrag_policy lab_state = (Inr token, w1)
    \<and> file_read_trimmed lab ''/sys/kernel/mm/transparent_hugepage/khugepaged/defrag'' w1 = Inr ''0''
    \<and> file_read_trimmed lab ''/sys/kernel/mm/transparent_hugepage/khugepaged/defrag'' (snd (vm_rollback lab token w1)) = Inr ''1''"
proof -
  obtain r w1 where run: "vm_apply lab defrag_action defrag_policy lab_state = (r, w1)"
    by (rule prod.exhaust)
  have "is_ok (fst (vm_apply lab defrag_action defrag_policy lab_state))"
    by code_simp
  then obtain token where token: "vm_apply lab defrag_action defrag_policy lab_state = (Inr token, w1)"
    using run by (auto simp: is_ok_iff)
  moreover have "file_read_trimmed lab ''/sys/kernel/mm/transparent_hugepage/khugepaged/defrag'' (snd (vm_apply lab defrag_action defrag_policy lab_state))
      = Inr ''0''"
    by code_simp
  moreover have "file_read_trimmed lab ''/sys/kernel/mm/transparent_hugepage/khugepaged/defrag'' lab_state = Inr ''1''"
    by code_simp
  ultimately show ?thesis
    using vm_apply_undone [OF lab.plain_files_axioms token] run by auto
qed

text \<open>
  C20. On cpufreq attributes that read back what was written, take back what they have shown and list their values, the
  prepared CPU power action strands no write, whichever of its writes fails: when the result carries no token it has
  written nothing, and otherwise rolling the token back succeeds and every file reads as it did when the writing began.
\<close>

theorem cpu_power_never_strands:
  assumes "cpufreq_files host file_of" "cpu_apply_prepared host a p hook w = (r, w1)"
  shows "case apply_token r of
      None \<Rightarrow> w1 = w \<or> (\<exists>t. w1 = snd (hook t w))
    | Some t \<Rightarrow> fst (cpu_rollback host t w1) = Inr ()
        \<and> (\<forall>q. file_read_trimmed host q (snd (cpu_rollback host t w1)) = file_read_trimmed host q (snd (hook t w)))"
  using assms(2)
proof (cases rule: cpu_apply_preparedE)
  case (written ts plan)
  have files: "plain_files host file_of"
    using assms(1) by (simp add: cpufreq_files_def)
  define w2 where "w2 = snd (hook (CpuPowerRestore (map snd plan)) w)"
  note plan = written(2) [folded w2_def]
  have ok: "replayable host False (map snd plan) w1 = map snd plan"
    using cpufreq_files.planned_records_replayable [OF assms(1) plan] cpufreq_files.commit_keeps_identity [OF assms(1)]
    by (simp add: written(4) w2_def)
  have "\<forall>x \<in> set (map cpu_record_value (map snd plan)). restorable host w2 x"
    using cpu_plan_records_memberD(1,4) [OF plan] by fastforce
  moreover have "plain_files.same_outside host file_of (fst ` set (map cpu_record_value (map snd plan))) w2 w1"
    using plain_files.cpu_commit_loop_outside [OF files, of ts w2] written(3,4)
    by (simp add: w2_def cpu_record_value_def image_image)
  ultimately have "fst (rollback_cpu_power_records host (map snd plan) w1) = Inr ()
      \<and> plain_files.same_reads host w2 (snd (rollback_cpu_power_records host (map snd plan) w1))"
    unfolding rollback_cpu_power_records_def by (rule plain_files.rollback_values_ok [OF files])
  then show ?thesis
    using ok by (auto simp: written(1) cpu_rollback_def rollback_verified_def plain_files.same_reads_def [OF files]
        w2_def Let_def split: prod.splits sum.splits)
qed simp

text \<open>The second CPU of the sample machine refuses the requested governor after the first has taken it.\<close>

definition governor_action :: cpu_power_action where
  "governor_action =
     \<lparr>cpa_sysfs_root = ''/sys'', cpa_cpus = [1, 0], cpa_scaling_governor = Some ''performance'',
      cpa_energy_performance_preference = None\<rparr>"

definition governor_run :: "(partial_apply_error + rollback_token) \<times> (string \<Rightarrow> nat)" where
  "governor_run =
     cpu_apply_prepared lab governor_action (factory_cpu_power_policy governor_action) (\<lambda>_ w. (Inr (), w)) lab_state"

abbreviation cpu0_governor :: string where
  "cpu0_governor \<equiv> ''/sys/devices/system/cpu/cpu0/cpufreq/scaling_governor''"

lemma cpu_power_never_strands_witness:
  "\<exists>t. \<not> is_ok (fst governor_run) \<and> apply_token (fst governor_run) = Some t
    \<and> file_read_trimmed lab cpu0_governor (snd governor_run) = Inr ''performance''
    \<and> file_read_trimmed lab cpu0_governor (snd (cpu_rollback lab t (snd governor_run))) = Inr ''powersave''"
proof -
  have run: "\<not> is_ok (fst governor_run) \<and> apply_token (fst governor_run) \<noteq> None
    \<and> file_read_trimmed lab cpu0_governor (snd governor_run) = Inr ''performance''
    \<and> file_read_trimmed lab cpu0_governor lab_state = Inr ''powersave''"
    by code_simp
  then obtain t where t: "apply_token (fst governor_run) = Some t"
    by blast
  have "cpu_apply_prepared lab governor_action (factory_cpu_power_policy governor_action) (\<lambda>_ w. (Inr (), w)) lab_state
      = (fst governor_run, snd governor_run)"
    by (simp add: governor_run_def)
  from cpu_power_never_strands [OF lab.cpufreq_files_axioms this]
  show ?thesis
    using run t by simp
qed

end
