(* ===== verification/Sysfs_Limits.thy ===== *)
theory Sysfs_Limits
  imports Sysfs_Machine
begin

text \<open>
  What the attribute actions do where the laws of \<open>plain_files\<close> and \<open>cpufreq_files\<close> fail, and what a refused write
  leaves behind in the actions that have no prepared transaction.
\<close>

section \<open>Attributes that print a menu\<close>

text \<open>
  The transparent huge page attributes print every choice and put the current one into brackets.
\<close>

definition menu_knobs :: "string list" where
  "menu_knobs = [''sys/kernel/mm/transparent_hugepage/enabled'', ''sys/kernel/mm/transparent_hugepage/defrag'']"

definition prints_menu :: "'w file_host \<Rightarrow> string \<Rightarrow> bool" where
  "prints_menu host p \<longleftrightarrow> (\<forall>w. case fh_read host p w of Inr v \<Rightarrow> CHR ''['' \<in> set v | Inl _ \<Rightarrow> True)"


lemma dropWhile_keeps: "c \<in> set s \<Longrightarrow> \<not> P c \<Longrightarrow> c \<in> set (dropWhile P s)"
  by (induction s) auto

lemma trim_keeps: "c \<in> set s \<Longrightarrow> \<not> is_whitespace c \<Longrightarrow> c \<in> set (trim s)"
  by (simp add: trim_def trim_start_def dropWhile_keeps)

lemma prints_menuD:
  assumes "prints_menu host p" "file_read_trimmed host p w = Inr v"
  shows "CHR ''['' \<in> set v"
proof -
  obtain u where "fh_read host p w = Inr u" "v = trim u"
    using assms(2) by (auto simp: file_read_trimmed_def split: sum.splits)
  moreover have "CHR ''['' \<in> set u"
    using assms(1) calculation(1) unfolding prints_menu_def by (metis old.sum.simps(6))
  ultimately show ?thesis
    by (auto intro: trim_keeps simp: is_whitespace_def)
qed

text \<open>An apply loop that succeeds has seen every requested value in its file.\<close>

lemma apply_loop_shows_requested:
  assumes "sysfs_apply_loop kind label host mk undo ts rs w = (Inr rs', w')" "t \<in> set ts"
  shows "sf_original_value t = sf_requested_value t \<or> (\<exists>v. file_read_trimmed host (sf_path t) v = Inr (sf_requested_value t))"
  using assms
proof (induction ts arbitrary: rs w)
  case (Cons s ts)
  have "fst (write_and_read_back host s w) = Inr v \<Longrightarrow> \<exists>u. file_read_trimmed host (sf_path s) u = Inr v" for v
    by (auto simp: write_and_read_back_def split: prod.splits sum.splits)
  then show ?case
    using Cons by (auto simp: Let_def split: if_splits prod.splits sum.splits)
qed simp

text \<open>
  No VM knob action that changes \<open>transparent_hugepage/enabled\<close> or \<open>defrag\<close> can succeed on a kernel that prints
  the choices of these attributes with the current one in brackets, as Linux does: the value read back is never equal
  to the requested word, so every apply, even one that the kernel accepted, ends as a failure.
\<close>

theorem thp_apply_never_succeeds:
  assumes "c \<in> set (va_changes a)" "normalize_relative_knob_path (vc_path c) = Inr knob" "knob \<in> set menu_knobs"
    and "prints_menu host (path_join (va_root a) knob)"
  shows "\<not> is_ok (fst (vm_apply host a p w))"
proof
  assume "is_ok (fst (vm_apply host a p w))"
  then obtain token w' where "vm_apply host a p w = (Inr token, w')"
    by (metis is_ok_iff prod.collapse)
  then obtain files rs where files: "vm_collect_target_files host a p w = Inr files"
    and loop: "sysfs_apply_loop ''vm_knobs'' ''VM knob'' host path_value_record (rollback_vm_knob_records host) files [] w
      = (Inr rs, w')"
    by (rule vm_apply_InrD)
  have "res_map (vm_target_file host a p w) (va_changes a) = Inr files"
    using files by (simp add: vm_collect_target_files_def)
  from res_map_memberI [OF this assms(1)] obtain t where t: "t \<in> set files" "vm_target_file host a p w c = Inr t"
    by blast
  have path: "sf_path t = path_join (va_root a) knob" and legal: "validate_knob_value knob (sf_requested_value t) = Inr ()"
    using t(2) assms(2) by (auto elim: vm_target_fileD)
  obtain v where "file_read_trimmed host (sf_path t) v = Inr (sf_requested_value t)"
    using apply_loop_shows_requested [OF loop t(1)] vm_collect_restorable [OF files t(1)]
    by (auto simp: restorable_def)
  then have "CHR ''['' \<in> set (sf_requested_value t)"
    using prints_menuD [OF assms(4)] path by simp
  then show False
    using legal assms(3)
    by (auto simp: menu_knobs_def validate_knob_value_def validate_thp_value_def thp_allowed_values_def starts_with_def
        split: if_splits)
qed

definition menu_host :: "bool file_host" where
  "menu_host =
     \<lparr>fh_exists = (\<lambda>p w. True), fh_is_file = (\<lambda>p w. True), fh_is_dir = (\<lambda>p w. False), fh_open_write = (\<lambda>p w. Inr ()),
      fh_read = (\<lambda>p w. Inr (if w then ''[always] madvise never'' else ''always madvise [never]'')),
      fh_read_dir = (\<lambda>p w. Inr []), fh_canonicalize = (\<lambda>p w. Inr p),
      fh_write = (\<lambda>p v w. if v = ''always'' then (Inr (), True) else if v = ''never'' then (Inr (), False) else (Inl einval, w))\<rparr>"

definition thp_action :: vm_knob_action where
  "thp_action =
     \<lparr>va_root = ''/'', va_changes = [\<lparr>vc_path = ''sys/kernel/mm/transparent_hugepage/enabled'', vc_value = ''always''\<rparr>]\<rparr>"

lemma thp_apply_never_succeeds_witness:
  "\<not> is_ok (fst (vm_apply menu_host thp_action (factory_vm_knob_policy thp_action) False))
    \<and> snd (vm_apply menu_host thp_action (factory_vm_knob_policy thp_action) False)"
proof
  have "\<lparr>vc_path = ''sys/kernel/mm/transparent_hugepage/enabled'', vc_value = ''always''\<rparr> \<in> set (va_changes thp_action)"
    by (simp add: thp_action_def)
  moreover have "normalize_relative_knob_path (vc_path \<lparr>vc_path = ''sys/kernel/mm/transparent_hugepage/enabled'',
      vc_value = ''always''\<rparr>) = Inr ''sys/kernel/mm/transparent_hugepage/enabled''"
    by code_simp
  ultimately show "\<not> is_ok (fst (vm_apply menu_host thp_action (factory_vm_knob_policy thp_action) False))"
    by (rule thp_apply_never_succeeds) (simp_all add: menu_knobs_def prints_menu_def menu_host_def)
  show "snd (vm_apply menu_host thp_action (factory_vm_knob_policy thp_action) False)"
    by code_simp
qed

section \<open>A refused write without a prepared transaction\<close>

definition two_knobs :: vm_knob_action where
  "two_knobs =
     \<lparr>va_root = ''/'',
      va_changes = [\<lparr>vc_path = ''sys/kernel/mm/transparent_hugepage/khugepaged/defrag'', vc_value = ''0''\<rparr>,
                    \<lparr>vc_path = ''sys/kernel/mm/transparent_hugepage/defrag'', vc_value = ''madvise''\<rparr>]\<rparr>"

definition two_knobs_run :: "(partial_apply_error + rollback_token) \<times> (string \<Rightarrow> nat)" where
  "two_knobs_run = ta_apply (vm_knob_tuning_action lab two_knobs) (\<lambda>_ w. (Inr (), w)) lab_state"

text \<open>
  When the kernel refuses the second write of a VM knob action, the action fails with an error that carries no
  rollback token and does not undo the first write, although the files keep all the laws under which the prepared CPU
  power action strands nothing: the first knob stays changed and nothing records its original value.
\<close>

theorem vm_apply_strands_write:
  "cpufreq_files lab id
    \<and> \<not> is_ok (fst two_knobs_run) \<and> apply_token (fst two_knobs_run) = None
    \<and> file_read_trimmed lab ''/sys/kernel/mm/transparent_hugepage/khugepaged/defrag'' lab_state = Inr ''1''
    \<and> file_read_trimmed lab ''/sys/kernel/mm/transparent_hugepage/khugepaged/defrag'' (snd two_knobs_run) = Inr ''0''"
proof
  show "cpufreq_files lab id"
    by (rule lab.cpufreq_files_axioms)
qed code_simp

section \<open>A preference the driver does not list\<close>

text \<open>
  \<open>intel_pstate\<close> shows a raw number when the preference of a CPU is none of the names it lists.
\<close>

definition raw_epp :: string where
  "raw_epp = ''/sys/devices/system/cpu/cpu0/cpufreq/energy_performance_preference''"

definition raw_machine :: "(string \<Rightarrow> nat) file_host" where
  "raw_machine =
     machine [(''/sys/devices/system/cpu/cpu0/cpufreq/energy_performance_available_preferences'', ''default performance'')]
       [(raw_epp, [''100'', ''default'', ''performance''])]"

definition epp_action :: cpu_power_action where
  "epp_action =
     \<lparr>cpa_sysfs_root = ''/sys'', cpa_cpus = [0], cpa_scaling_governor = None,
      cpa_energy_performance_preference = Some ''performance''\<rparr>"

definition epp_run :: "(partial_apply_error + rollback_token) \<times> (string \<Rightarrow> nat)" where
  "epp_run =
     cpu_apply_prepared raw_machine epp_action (factory_cpu_power_policy epp_action) (\<lambda>_ w. (Inr (), w)) lab_state"

lemma raw_machine_plain: "plain_files raw_machine id"
  unfolding raw_machine_def by (rule machine_plain) code_simp

text \<open>
  A CPU power action accepts a preference that the driver shows but does not list as the original value, changes
  it, and its rollback answers with success without writing it back, although the driver would take it: the record
  fails the test that its value is still legal and is skipped.
\<close>

theorem cpu_rollback_skips_unlisted:
  "plain_files raw_machine id
    \<and> file_read_trimmed raw_machine raw_epp lab_state = Inr ''100''
    \<and> (case epp_run of
         (Inr token, w1) \<Rightarrow>
           fst (cpu_rollback raw_machine token w1) = Inr ()
           \<and> file_read_trimmed raw_machine raw_epp (snd (cpu_rollback raw_machine token w1)) = Inr ''performance''
       | _ \<Rightarrow> False)"
proof
  show "plain_files raw_machine id"
    by (rule raw_machine_plain)
qed code_simp

section \<open>Masks that are printed with leading zeros\<close>

definition irq_action :: irq_affinity_action where
  "irq_action =
     \<lparr>qa_irq = 9, qa_device_hint = ''acpi'', qa_smp_affinity = ''4'', qa_risk = IR_ReversibleMediumRisk,
      qa_evidence = \<lparr>ie_strong_irq_evidence = True, ie_stable_irq_identity = True, ie_known_device_mapping = True,
        ie_observed_irq = Some 9, ie_observed_device_hint = None, ie_reason = []\<rparr>,
      qa_irq_root = ''/proc/irq''\<rparr>"

text \<open>A kernel with eight CPUs, which prints every mask with two digits; its state is the printed mask.\<close>

definition padding_host :: "string file_host" where
  "padding_host =
     \<lparr>fh_exists = (\<lambda>p w. True), fh_is_file = (\<lambda>p w. p = ''/proc/irq/9/smp_affinity''),
      fh_is_dir = (\<lambda>p w. p = ''/proc/irq/9''), fh_open_write = (\<lambda>p w. Inr ()),
      fh_read = (\<lambda>p w. if p = ''/proc/irq/9/smp_affinity'' then Inr w
        else if p = ''/proc/irq/9/actions'' then Inr ''acpi'' else Inl enoent),
      fh_read_dir = (\<lambda>p w. Inr []), fh_canonicalize = (\<lambda>p w. Inr p),
      fh_write = (\<lambda>p v w. (Inr (), if length v = 1 then CHR ''0'' # v else v))\<rparr>"

text \<open>
  The mask test of apply ignores leading zeros, the one of verify does not: an action that asks for \<open>4\<close> on a machine
  that prints \<open>04\<close> is applied and then reported as not applied.
\<close>

lemma irq_verify_rejects_padded_mask:
  "is_ok (fst (irq_apply padding_host irq_action factory_irq_policy ''ff''))
    \<and> (case irq_verify padding_host irq_action factory_irq_policy
              (snd (irq_apply padding_host irq_action factory_irq_policy ''ff'')) of
         Inr state \<Rightarrow> \<not> as_applied state | Inl _ \<Rightarrow> False)"
  by code_simp

end
