(* ===== verification/Ordered_Map.thy ===== *)
theory Ordered_Map
  imports Stutter_Prelude
begin

text \<open>
  \<open>BTreeMap\<close> as an association list in ascending key order: \<open>insert\<close>, \<open>remove\<close>, \<open>entry(k).and_modify(f).or_insert(v)\<close>
  and \<open>retain\<close>, with iteration in list order. The locale states what a client relies on; the association lists provide it.
\<close>

fun bt_insert :: "'k::linorder \<Rightarrow> 'v \<Rightarrow> ('k \<times> 'v) list \<Rightarrow> ('k \<times> 'v) list" where
  "bt_insert k v [] = [(k, v)]"
| "bt_insert k v ((k', v') # m) =
     (if k < k' then (k, v) # (k', v') # m else if k = k' then (k, v) # m else (k', v') # bt_insert k v m)"

definition bt_remove :: "'k \<Rightarrow> ('k \<times> 'v) list \<Rightarrow> ('k \<times> 'v) list" where
  "bt_remove k m = filter (\<lambda>(k', _). k' \<noteq> k) m"

definition bt_upsert :: "'k::linorder \<Rightarrow> ('v \<Rightarrow> 'v) \<Rightarrow> 'v \<Rightarrow> ('k \<times> 'v) list \<Rightarrow> ('k \<times> 'v) list" where
  "bt_upsert k f v m = (case map_of m k of Some old \<Rightarrow> bt_insert k (f old) m | None \<Rightarrow> bt_insert k v m)"

definition bt_wf :: "('k::linorder \<times> 'v) list \<Rightarrow> bool" where
  "bt_wf m \<longleftrightarrow> sorted (map fst m) \<and> distinct (map fst m)"

definition bt_of :: "('k::linorder \<times> 'v) list \<Rightarrow> ('k \<times> 'v) list" where
  "bt_of kvs = fold (\<lambda>(k, v). bt_insert k v) kvs []"

section \<open>What an ordered map promises\<close>

locale ordered_map =
  fixes empty :: 'm
    and lookup :: "'m \<Rightarrow> 'k::linorder \<Rightarrow> 'v option"
    and put :: "'k \<Rightarrow> 'v \<Rightarrow> 'm \<Rightarrow> 'm"
    and drop_key :: "'k \<Rightarrow> 'm \<Rightarrow> 'm"
    and entries :: "'m \<Rightarrow> ('k \<times> 'v) list"
    and wf :: "'m \<Rightarrow> bool"
  assumes wf_empty: "wf empty"
    and wf_put: "wf m \<Longrightarrow> wf (put k v m)"
    and wf_drop: "wf m \<Longrightarrow> wf (drop_key k m)"
    and lookup_empty: "lookup empty k = None"
    and lookup_put: "wf m \<Longrightarrow> lookup (put k v m) k' = (if k' = k then Some v else lookup m k')"
    and lookup_drop: "wf m \<Longrightarrow> lookup (drop_key k m) k' = (if k' = k then None else lookup m k')"
    and entries_sorted: "wf m \<Longrightarrow> sorted (map fst (entries m)) \<and> distinct (map fst (entries m))"
    and entries_lookup: "wf m \<Longrightarrow> (k, v) \<in> set (entries m) \<longleftrightarrow> lookup m k = Some v"
begin

definition put_all :: "('k \<times> 'v) list \<Rightarrow> 'm \<Rightarrow> 'm" where
  "put_all kvs m = fold (\<lambda>(k, v). put k v) kvs m"

lemma wf_put_all: "wf m \<Longrightarrow> wf (put_all kvs m)"
  unfolding put_all_def by (rule fold_preserves) (auto intro: wf_put)

lemma lookup_put_all: "wf m \<Longrightarrow> lookup (put_all kvs m) k = (case map_of (rev kvs) k of Some v \<Rightarrow> Some v | None \<Rightarrow> lookup m k)"
proof (induction kvs arbitrary: m)
  case (Cons kv kvs)
  obtain k' v where kv: "kv = (k', v)" by (rule prod.exhaust)
  have "lookup (put_all (kv # kvs) m) k = lookup (put_all kvs (put k' v m)) k"
    by (simp add: kv put_all_def)
  then show ?case
    using Cons.IH [OF wf_put [OF Cons.prems]] Cons.prems
    by (auto simp: kv map_add_def lookup_put split: option.split)
qed (simp add: put_all_def)

lemma entries_put_all: "wf m \<Longrightarrow> (k, v) \<in> set (entries (put_all kvs m)) \<Longrightarrow> (k, v) \<in> set kvs \<or> (k, v) \<in> set (entries m)"
  by (auto simp: entries_lookup wf_put_all lookup_put_all dest: map_of_SomeD split: option.splits)

end

section \<open>Association lists in key order are ordered maps\<close>

lemma set_bt_insert_keys: "fst ` set (bt_insert k v m) = insert k (fst ` set m)"
proof (induction m)
  case (Cons kv m)
  then show ?case by (cases kv) (auto simp: insert_commute)
qed simp

lemma bt_insert_wf: "bt_wf m \<Longrightarrow> bt_wf (bt_insert k v m)"
proof (induction m)
  case (Cons kv m)
  obtain k' v' where kv: "kv = (k', v')" by (rule prod.exhaust)
  have "bt_wf m" using Cons.prems by (simp add: bt_wf_def)
  then have "bt_wf (bt_insert k v m)" by (rule Cons.IH)
  moreover have "fst ` set (bt_insert k v m) = insert k (fst ` set m)" by (rule set_bt_insert_keys)
  ultimately show ?case
    using Cons.prems by (auto simp: bt_wf_def kv)
qed (simp add: bt_wf_def)

lemma map_of_bt_insert: "map_of (bt_insert k v m) k' = (if k' = k then Some v else map_of m k')"
  if "bt_wf m"
  using that
proof (induction m)
  case (Cons kv m)
  obtain a b where kv: "kv = (a, b)" by (rule prod.exhaust)
  have "bt_wf m" using Cons.prems by (simp add: bt_wf_def)
  then have IH: "map_of (bt_insert k v m) k' = (if k' = k then Some v else map_of m k')" by (rule Cons.IH)
  show ?case using IH by (auto simp: kv)
qed simp

lemma bt_remove_wf: "bt_wf m \<Longrightarrow> bt_wf (bt_remove k m)"
  unfolding bt_wf_def bt_remove_def
  by (auto simp: sorted_map distinct_map intro: sorted_wrt_filter inj_on_subset)

lemma map_of_bt_remove: "map_of (bt_remove k m) k' = (if k' = k then None else map_of m k')"
  by (induction m) (auto simp: bt_remove_def)

lemma map_of_filter_key: "map_of (filter (\<lambda>(k, _). P k) m) k = (if P k then map_of m k else None)"
  by (induction m) auto

lemma bt_filter_wf: "bt_wf m \<Longrightarrow> bt_wf (filter P m)"
  unfolding bt_wf_def by (auto simp: sorted_map distinct_map intro: sorted_wrt_filter inj_on_subset)

lemma bt_map_wf: "bt_wf m \<Longrightarrow> bt_wf (map (\<lambda>(k, v). (k, f k v)) m)"
  by (simp add: bt_wf_def comp_def case_prod_beta)

interpretation bt: ordered_map "[]" map_of bt_insert bt_remove "\<lambda>m. m" bt_wf
proof unfold_locales
  show "bt_wf m \<Longrightarrow> ((k, v) \<in> set m) = (map_of m k = Some v)" for m :: "('a \<times> 'b) list" and k v
    by (auto simp: bt_wf_def intro: map_of_is_SomeI dest: map_of_SomeD)
qed (simp_all add: bt_insert_wf map_of_bt_insert bt_remove_wf map_of_bt_remove, simp_all add: bt_wf_def)

lemma bt_upsert_wf: "bt_wf m \<Longrightarrow> bt_wf (bt_upsert k f v m)"
  by (auto simp: bt_upsert_def bt_insert_wf split: option.split)

lemma map_of_bt_upsert:
  "bt_wf m \<Longrightarrow> map_of (bt_upsert k f v m) k' =
     (if k' = k then Some (case map_of m k of Some old \<Rightarrow> f old | None \<Rightarrow> v) else map_of m k')"
  by (auto simp: bt_upsert_def map_of_bt_insert split: option.split)

lemma bt_of_put_all: "bt_of kvs = bt.put_all kvs []"
  by (simp add: bt_of_def bt.put_all_def)

lemma bt_of_wf: "bt_wf (bt_of kvs)"
  by (simp add: bt_of_put_all bt.wf_put_all bt.wf_empty)

lemma map_of_bt_of: "map_of (bt_of kvs) = map_of (rev kvs)"
  by (rule ext) (simp add: bt_of_put_all bt.lookup_put_all bt.wf_empty split: option.split)

lemma set_bt_insert_subset: "set (bt_insert k v m) \<subseteq> insert (k, v) (set m)"
proof (induction m)
  case (Cons kv m)
  then show ?case by (cases kv) auto
qed simp

lemma bt_wf_Nil [simp]: "bt_wf []"
  by (simp add: bt_wf_def)

end
