(* ===== verification/Task_Class.thy ===== *)
theory Task_Class
  imports Action_Model Ordered_Map
begin

text \<open>
  The data model of the process tree (\<open>stutter/src/process/model.rs\<close>, \<open>process/explicit_target.rs\<close>) and the ASCII
  case-insensitive matching that the classifiers share (\<open>stutter/src/ascii_match.rs\<close>). A compiled regular expression is
  the predicate \<open>is_match\<close> of the regex crate; the crate's compiler is the parameter \<open>regex_new\<close>.
\<close>

section \<open>ASCII case-insensitive matching\<close>

fun windows :: "usize \<Rightarrow> string \<Rightarrow> string list" where
  "windows n [] = []"
| "windows n (c # s) = (if n \<le> length (c # s) then take n (c # s) # windows n s else [])"

definition ascii_lower :: "string \<Rightarrow> string" where
  "ascii_lower s = map to_lowercase s"

definition eq_ignore_ascii_case :: "string \<Rightarrow> string \<Rightarrow> bool" where
  "eq_ignore_ascii_case a b \<longleftrightarrow> ascii_lower a = ascii_lower b"

definition contains_ignore_ascii_case :: "string \<Rightarrow> string \<Rightarrow> bool" where
  "contains_ignore_ascii_case haystack needle \<longleftrightarrow>
     (if needle = [] then True
      else if length haystack < length needle then False
      else list_ex (\<lambda>window. eq_ignore_ascii_case window needle) (windows (length needle) haystack))"

definition starts_with_ignore_ascii_case :: "string \<Rightarrow> string \<Rightarrow> bool" where
  "starts_with_ignore_ascii_case v prefix \<longleftrightarrow>
     length prefix \<le> length v \<and> eq_ignore_ascii_case (take (length prefix) v) prefix"

definition any_contains_ignore_ascii_case :: "string list \<Rightarrow> string \<Rightarrow> bool" where
  "any_contains_ignore_ascii_case strs needle \<longleftrightarrow> list_ex (\<lambda>field. contains_ignore_ascii_case field needle) strs"

fun normalized_eq_loop :: "string \<Rightarrow> string \<Rightarrow> bool" where
  "normalized_eq_loop (left # ls) (right # rs) \<longleftrightarrow> to_lowercase left = to_lowercase right \<and> normalized_eq_loop ls rs"
| "normalized_eq_loop [] [] \<longleftrightarrow> True"
| "normalized_eq_loop _ _ \<longleftrightarrow> False"

definition normalized_eq_ignore_ascii_case :: "string \<Rightarrow> string \<Rightarrow> bool" where
  "normalized_eq_ignore_ascii_case v expected \<longleftrightarrow>
     normalized_eq_loop (filter (\<lambda>ch. ch \<noteq> CHR ''_'' \<and> ch \<noteq> CHR ''-'' \<and> \<not> is_whitespace ch) v) expected"

definition strip_suffix :: "string \<Rightarrow> string \<Rightarrow> string option" where
  "strip_suffix p s = map_option rev (strip_prefix (rev p) (rev s))"

section \<open>Task classes\<close>

datatype task_class =
    TC_AudioRealtime | TC_Input | TC_Game | TC_GameHelper | TC_GameRenderThread | TC_GameWorkerThread
    | TC_Launcher | TC_WineServer | TC_GameScope | TC_Compositor | TC_BrowserForeground | TC_BrowserBackground
    | TC_BrowserRenderer | TC_BrowserGpu | TC_BrowserNetwork | TC_BuildJob | TC_Compiler | TC_Linker
    | TC_Indexer | TC_PackageManager | TC_Editor | TC_Terminal | TC_Shell | TC_Media | TC_Recorder
    | TC_VirtualMachine | TC_KernelThread | TC_IrqThread | TC_Service | TC_NetworkDaemon | TC_StorageDaemon
    | TC_SteamRuntime | TC_Render | TC_Helper | TC_Unknown

fun class_as_str :: "task_class \<Rightarrow> string" where
  "class_as_str TC_AudioRealtime = ''AudioRealtime''"
| "class_as_str TC_Input = ''Input''"
| "class_as_str TC_Game = ''Game''"
| "class_as_str TC_GameHelper = ''GameHelper''"
| "class_as_str TC_GameRenderThread = ''GameRenderThread''"
| "class_as_str TC_GameWorkerThread = ''GameWorkerThread''"
| "class_as_str TC_Launcher = ''Launcher''"
| "class_as_str TC_WineServer = ''WineServer''"
| "class_as_str TC_GameScope = ''GameScope''"
| "class_as_str TC_Compositor = ''Compositor''"
| "class_as_str TC_BrowserForeground = ''BrowserForeground''"
| "class_as_str TC_BrowserBackground = ''BrowserBackground''"
| "class_as_str TC_BrowserRenderer = ''BrowserRenderer''"
| "class_as_str TC_BrowserGpu = ''BrowserGpu''"
| "class_as_str TC_BrowserNetwork = ''BrowserNetwork''"
| "class_as_str TC_BuildJob = ''BuildJob''"
| "class_as_str TC_Compiler = ''Compiler''"
| "class_as_str TC_Linker = ''Linker''"
| "class_as_str TC_Indexer = ''Indexer''"
| "class_as_str TC_PackageManager = ''PackageManager''"
| "class_as_str TC_Editor = ''Editor''"
| "class_as_str TC_Terminal = ''Terminal''"
| "class_as_str TC_Shell = ''Shell''"
| "class_as_str TC_Media = ''Media''"
| "class_as_str TC_Recorder = ''Recorder''"
| "class_as_str TC_VirtualMachine = ''VirtualMachine''"
| "class_as_str TC_KernelThread = ''KernelThread''"
| "class_as_str TC_IrqThread = ''IrqThread''"
| "class_as_str TC_Service = ''Service''"
| "class_as_str TC_NetworkDaemon = ''NetworkDaemon''"
| "class_as_str TC_StorageDaemon = ''StorageDaemon''"
| "class_as_str TC_SteamRuntime = ''SteamRuntime''"
| "class_as_str TC_Render = ''Render''"
| "class_as_str TC_Helper = ''Helper''"
| "class_as_str TC_Unknown = ''Unknown''"

definition class_names :: "(string \<times> task_class) list" where
  "class_names =
     [(''audiorealtime'', TC_AudioRealtime), (''input'', TC_Input), (''game'', TC_Game),
      (''gamehelper'', TC_GameHelper), (''gamerenderthread'', TC_GameRenderThread),
      (''gameworkerthread'', TC_GameWorkerThread), (''launcher'', TC_Launcher),
      (''wineserver'', TC_WineServer), (''gamescope'', TC_GameScope), (''compositor'', TC_Compositor),
      (''browserforeground'', TC_BrowserForeground), (''browserbackground'', TC_BrowserBackground),
      (''browserrenderer'', TC_BrowserRenderer), (''browsergpu'', TC_BrowserGpu),
      (''browsernetwork'', TC_BrowserNetwork), (''buildjob'', TC_BuildJob), (''compiler'', TC_Compiler),
      (''linker'', TC_Linker), (''indexer'', TC_Indexer), (''packagemanager'', TC_PackageManager),
      (''editor'', TC_Editor), (''terminal'', TC_Terminal), (''shell'', TC_Shell), (''media'', TC_Media),
      (''recorder'', TC_Recorder), (''virtualmachine'', TC_VirtualMachine),
      (''kernelthread'', TC_KernelThread), (''irqthread'', TC_IrqThread), (''service'', TC_Service),
      (''networkdaemon'', TC_NetworkDaemon), (''storagedaemon'', TC_StorageDaemon),
      (''steamruntime'', TC_SteamRuntime), (''render'', TC_Render), (''helper'', TC_Helper),
      (''unknown'', TC_Unknown)]"

definition class_from_str_opt :: "string \<Rightarrow> task_class option" where
  "class_from_str_opt s =
     map_option snd (find (\<lambda>(expected, _). normalized_eq_ignore_ascii_case s expected) class_names)"

definition is_generic_fallback :: "task_class \<Rightarrow> bool" where
  "is_generic_fallback c \<longleftrightarrow> c \<in> {TC_Service, TC_Helper, TC_Render, TC_Unknown}"

definition class_for_explicit_target :: "task_class \<Rightarrow> bool \<Rightarrow> task_class" where
  "class_for_explicit_target c is_explicit_pid =
     (if is_explicit_pid \<and> is_generic_fallback c then TC_Game else c)"

section \<open>Processes and tasks\<close>

record proc_info =
  pi_pid :: u32
  pi_ppid :: u32
  pi_comm :: string
  pi_cmdline :: string
  pi_exe_path :: string
  pi_cgroup_path :: string
  pi_starttime_ticks :: "u64 option"
  pi_exe_dev :: "u64 option"
  pi_exe_ino :: "u64 option"
  pi_sched_policy :: "u32 option"

record task_info =
  t_tid :: u32
  t_process_pid :: u32
  t_process_ppid :: u32
  t_comm :: string
  t_process_comm :: string
  t_process_starttime_ticks :: "u64 option"
  t_task_starttime_ticks :: "u64 option"
  t_exe_dev :: "u64 option"
  t_exe_ino :: "u64 option"
  t_class :: task_class
  t_sched_policy :: "u32 option"
  t_from_cgroup :: bool

type_synonym process_map = "(u32 \<times> proc_info) list"
type_synonym task_map = "(u32 \<times> task_info) list"

definition same_logical_task :: "task_info \<Rightarrow> task_info \<Rightarrow> bool" where
  "same_logical_task left right \<longleftrightarrow>
     (if t_process_pid left \<noteq> t_process_pid right then False
      else case (t_process_starttime_ticks left, t_process_starttime_ticks right,
                 t_task_starttime_ticks left, t_task_starttime_ticks right) of
             (Some lp, Some rp, Some lt, Some rt) \<Rightarrow> lp = rp \<and> lt = rt
           | _ \<Rightarrow>
              (case (t_exe_dev left, t_exe_dev right, t_exe_ino left, t_exe_ino right) of
                 (Some ld, Some rd, Some li, Some ri) \<Rightarrow> ld = rd \<and> li = ri \<and> t_comm left = t_comm right
               | _ \<Rightarrow> False))"

definition sched_policy_name :: "u32 \<Rightarrow> string option" where
  "sched_policy_name policy =
     (if policy = 0 then Some ''SCHED_NORMAL'' else if policy = 1 then Some ''SCHED_FIFO''
      else if policy = 2 then Some ''SCHED_RR'' else if policy = 3 then Some ''SCHED_BATCH''
      else if policy = 5 then Some ''SCHED_IDLE'' else if policy = 6 then Some ''SCHED_DEADLINE'' else None)"

section \<open>Patterns and filters\<close>

record compiled_pattern =
  cp_raw :: string
  cp_regex :: "(string \<Rightarrow> bool) option"

definition pattern_new :: "(string \<Rightarrow> string + (string \<Rightarrow> bool)) \<Rightarrow> string \<Rightarrow> anyhow + compiled_pattern" where
  "pattern_new regex_new raw =
     (case Option.bind (strip_prefix ''/'' raw) (strip_suffix ''/'') of
        Some inner \<Rightarrow>
          (case regex_new inner of
             Inl e \<Rightarrow> Inl (anyhow_msg (''invalid regex in pattern '' @ [CHR 0x27] @ raw @ [CHR 0x27] @ '': '' @ e))
           | Inr r \<Rightarrow> Inr \<lparr>cp_raw = raw, cp_regex = Some r\<rparr>)
      | None \<Rightarrow> Inr \<lparr>cp_raw = raw, cp_regex = None\<rparr>)"

definition pattern_matches :: "compiled_pattern \<Rightarrow> string \<Rightarrow> bool" where
  "pattern_matches p v \<longleftrightarrow>
     (case cp_regex p of Some is_match \<Rightarrow> is_match v | None \<Rightarrow> contains_ignore_ascii_case v (cp_raw p))"

record task_filters =
  tf_include_comm :: "compiled_pattern list"
  tf_exclude_comm :: "compiled_pattern list"

definition default_filters :: task_filters where
  "default_filters = \<lparr>tf_include_comm = [], tf_exclude_comm = []\<rparr>"

definition filters_allow :: "task_filters \<Rightarrow> task_info \<Rightarrow> bool" where
  "filters_allow f task \<longleftrightarrow>
     (let hit = (\<lambda>pattern. pattern_matches pattern (t_comm task) \<or> pattern_matches pattern (t_process_comm task))
      in if tf_exclude_comm f = [] \<and> tf_include_comm f = [] then True
         else if list_ex hit (tf_exclude_comm f) then False
         else tf_include_comm f = [] \<or> list_ex hit (tf_include_comm f))"

section \<open>Scan budget and process cache\<close>

text \<open>
  Whether the time of the budget is over at the check that follows so many directory entries is a parameter of the
  budget: \<open>started_at.elapsed() > max_duration\<close> depends on the clock only.
\<close>

record scan_budget =
  sb_expired :: "usize \<Rightarrow> bool"
  sb_max_proc_entries :: "usize option"
  sb_max_threads_per_process :: usize

datatype warning_kind = WK_ProcessInfo | WK_Cmdline | WK_Cgroup | WK_ExePath | WK_TaskComm

record proc_scan_warning =
  pw_pid :: u32
  pw_tid :: "u32 option"
  pw_kind :: warning_kind
  pw_message :: string

record scan_report =
  sr_scan_timed_out :: bool
  sr_proc_entries_seen :: usize
  sr_proc_entries_skipped :: usize
  sr_thread_entries_seen :: usize
  sr_thread_entries_skipped :: usize
  sr_processes_thread_limited :: usize
  sr_warnings :: "proc_scan_warning list"

definition MAX_PROC_SCAN_WARNINGS :: usize where "MAX_PROC_SCAN_WARNINGS = 64"
definition DEFAULT_MAX_THREADS_PER_PROCESS :: usize where "DEFAULT_MAX_THREADS_PER_PROCESS = 4096"

definition report_zero :: scan_report where
  "report_zero =
     \<lparr>sr_scan_timed_out = False, sr_proc_entries_seen = 0, sr_proc_entries_skipped = 0, sr_thread_entries_seen = 0,
      sr_thread_entries_skipped = 0, sr_processes_thread_limited = 0, sr_warnings = []\<rparr>"

definition push_warning :: "proc_scan_warning \<Rightarrow> scan_report \<Rightarrow> scan_report" where
  "push_warning w r =
     (if length (sr_warnings r) < MAX_PROC_SCAN_WARNINGS then r\<lparr>sr_warnings := sr_warnings r @ [w]\<rparr> else r)"

record cached_proc_info =
  ca_ctime_sec :: int
  ca_ctime_nsec :: int
  ca_scan_generation :: u64
  ca_info :: proc_info

record process_cache =
  pc_entries :: "(u32 \<times> cached_proc_info) list"
  pc_generation :: u64
  pc_max_cached_generations :: u64

definition default_cache :: process_cache where
  "default_cache = \<lparr>pc_entries = [], pc_generation = 0, pc_max_cached_generations = 5\<rparr>"

definition cache_invalidate :: "u32 \<Rightarrow> process_cache \<Rightarrow> process_cache" where
  "cache_invalidate pid c = c\<lparr>pc_entries := bt_remove pid (pc_entries c)\<rparr>"

definition comm_for_tid :: "process_cache \<Rightarrow> u32 \<Rightarrow> string option" where
  "comm_for_tid c tid = map_option (\<lambda>e. pi_comm (ca_info e)) (map_of (pc_entries c) tid)"

section \<open>The matching is that of lower-cased copies\<close>

lemma ascii_lower_simps [simp]:
  "ascii_lower [] = []" "ascii_lower (c # s) = to_lowercase c # ascii_lower s"
  "ascii_lower (s @ t) = ascii_lower s @ ascii_lower t" "length (ascii_lower s) = length s"
  "ascii_lower s = [] \<longleftrightarrow> s = []"
  by (simp_all add: ascii_lower_def)

lemma to_lowercase_idem [simp]: "to_lowercase (to_lowercase c) = to_lowercase c"
  by (simp add: to_lowercase_def Let_def of_char_of)

text \<open>The same function on the bits of a character, for evaluation.\<close>

lemma to_lowercase_bits [code]:
  "to_lowercase (Char b0 b1 b2 b3 b4 b5 b6 b7) =
     Char b0 b1 b2 b3 b4
       (b5 \<or> (\<not> b7 \<and> b6 \<and> (b0 \<or> b1 \<or> b2 \<or> b3 \<or> b4) \<and> \<not> (b4 \<and> b3 \<and> (b2 \<or> (b1 \<and> b0))))) b6 b7"
  by (cases b0; cases b1; cases b2; cases b3; cases b4; cases b5; cases b6; cases b7)
    (simp_all add: to_lowercase_def char_of_eq_iff)

lemma ascii_lower_idem [simp]: "ascii_lower (ascii_lower s) = ascii_lower s"
  by (induction s) simp_all

lemma ascii_lower_take: "ascii_lower (take n s) = take n (ascii_lower s)"
  by (simp add: ascii_lower_def take_map)

lemma strip_prefix_take: "strip_prefix p s \<noteq> None \<longleftrightarrow> length p \<le> length s \<and> take (length p) s = p"
  by (induction p s rule: strip_prefix.induct) auto

lemma str_contains_Cons:
  "str_contains (c # s) p \<longleftrightarrow> length p \<le> length (c # s) \<and> take (length p) (c # s) = p \<or> str_contains s p"
  by (simp only: str_contains.simps strip_prefix_take)

lemma str_contains_iff: "str_contains s p \<longleftrightarrow> (\<exists>a b. s = a @ p @ b)"
proof (induction s)
  case (Cons c s)
  have "(\<exists>a b. c # s = a @ p @ b) \<longleftrightarrow> (\<exists>b. c # s = p @ b) \<or> (\<exists>a b. s = a @ p @ b)"
    by (metis append_Cons append_Nil list.exhaust list.inject)
  moreover have "(\<exists>b. c # s = p @ b) \<longleftrightarrow> strip_prefix p (c # s) \<noteq> None"
    using strip_prefix_Some_iff [of p "c # s"] by auto
  ultimately show ?case
    using Cons.IH by simp
qed simp

lemma str_contains_short: "length s < length p \<Longrightarrow> \<not> str_contains s p"
  by (auto simp: str_contains_iff)

lemma list_ex_windows_contains:
  "n \<noteq> [] \<Longrightarrow>
     list_ex (\<lambda>w. eq_ignore_ascii_case w n) (windows (length n) h) \<longleftrightarrow> str_contains (ascii_lower h) (ascii_lower n)"
proof (induction h)
  case (Cons c h)
  have "ascii_lower (take (length n) (c # h)) = take (length n) (to_lowercase c # ascii_lower h)"
    by (simp add: ascii_lower_take)
  then show ?case
    using Cons str_contains_short [of "ascii_lower (c # h)" "ascii_lower n"]
    by (cases "length n \<le> length (c # h)") (simp_all add: str_contains_Cons eq_ignore_ascii_case_def del: str_contains.simps)
qed simp

lemma contains_ignore_ascii_case_lower:
  "contains_ignore_ascii_case h n \<longleftrightarrow> str_contains (ascii_lower h) (ascii_lower n)"
proof (cases "n = []")
  case True
  then show ?thesis by (cases h) (simp_all add: contains_ignore_ascii_case_def)
next
  case False
  then show ?thesis
    using str_contains_short [of "ascii_lower h" "ascii_lower n"]
    by (auto simp: contains_ignore_ascii_case_def list_ex_windows_contains)
qed

named_theorems case_insensitive \<open>matching does not see the case of the value\<close>

lemma contains_lower [case_insensitive]: "contains_ignore_ascii_case (ascii_lower h) n = contains_ignore_ascii_case h n"
  by (simp add: contains_ignore_ascii_case_lower)

lemma eq_lower [case_insensitive]: "eq_ignore_ascii_case (ascii_lower h) n = eq_ignore_ascii_case h n"
  by (simp add: eq_ignore_ascii_case_def)

lemma starts_lower [case_insensitive]:
  "starts_with_ignore_ascii_case (ascii_lower h) n = starts_with_ignore_ascii_case h n"
  by (simp add: starts_with_ignore_ascii_case_def eq_ignore_ascii_case_def ascii_lower_take flip: ascii_lower_take)

lemma normalized_eq_loop_iff: "normalized_eq_loop a b \<longleftrightarrow> ascii_lower a = ascii_lower b"
  by (induction a b rule: normalized_eq_loop.induct) auto

end
