(* ===== verification/Task_Classify.thy ===== *)
theory Task_Classify
  imports Task_Class
begin

text \<open>
  The built-in task classifier (\<open>stutter/src/process/classify.rs\<close>): an ordered list of name and path heuristics over the
  thread name, the process name, the command line, the executable path and the cgroup path of a task.
\<close>

section \<open>Matching helpers\<close>

definition contains_ignore_ascii :: "string \<Rightarrow> string \<Rightarrow> bool" where
  "contains_ignore_ascii haystack needle \<longleftrightarrow>
     (if needle = [] then True
      else if length haystack < length needle then False
      else list_ex (\<lambda>window. eq_ignore_ascii_case window needle) (windows (length needle) haystack))"

definition ends_with_ignore_ascii :: "string \<Rightarrow> string \<Rightarrow> bool" where
  "ends_with_ignore_ascii v suffix \<longleftrightarrow>
     (if length v < length suffix then False
      else eq_ignore_ascii_case (drop (length v - length suffix) v) suffix)"

definition starts_with_ignore_ascii :: "string \<Rightarrow> string \<Rightarrow> bool" where
  "starts_with_ignore_ascii v prefix \<longleftrightarrow>
     (if length v < length prefix then False else eq_ignore_ascii_case (take (length prefix) v) prefix)"

definition eq_any_ignore_ascii :: "string \<Rightarrow> string list \<Rightarrow> bool" where
  "eq_any_ignore_ascii v expected \<longleftrightarrow> list_ex (eq_ignore_ascii_case v) expected"

definition contains_any_ignore_ascii :: "string \<Rightarrow> string list \<Rightarrow> bool" where
  "contains_any_ignore_ascii haystack needles \<longleftrightarrow> list_ex (contains_ignore_ascii haystack) needles"

record ascii_fields =
  af_comm :: string
  af_process_comm :: string
  af_cmdline :: string
  af_exe_path :: string
  af_cgroup_path :: string

definition field_contains :: "ascii_fields \<Rightarrow> string \<Rightarrow> bool" where
  "field_contains f needle \<longleftrightarrow>
     contains_ignore_ascii (af_comm f) needle \<or> contains_ignore_ascii (af_process_comm f) needle
     \<or> contains_ignore_ascii (af_cmdline f) needle \<or> contains_ignore_ascii (af_exe_path f) needle
     \<or> contains_ignore_ascii (af_cgroup_path f) needle"

definition contains_any_field :: "ascii_fields \<Rightarrow> string list \<Rightarrow> bool" where
  "contains_any_field f needles \<longleftrightarrow> list_ex (field_contains f) needles"

section \<open>Name predicates\<close>

definition is_bracketed_kernel_comm :: "string \<Rightarrow> bool" where
  "is_bracketed_kernel_comm comm \<longleftrightarrow> starts_with comm ''['' \<and> ends_with comm '']''"

definition is_irq_thread :: "string \<Rightarrow> ascii_fields \<Rightarrow> bool" where
  "is_irq_thread comm f \<longleftrightarrow>
     starts_with_ignore_ascii comm ''irq/'' \<or> starts_with_ignore_ascii comm ''irq-''
     \<or> field_contains f '' irq/'' \<or> field_contains f '' irq-''"

definition is_input_thread :: "string \<Rightarrow> ascii_fields \<Rightarrow> bool" where
  "is_input_thread comm f \<longleftrightarrow> contains_ignore_ascii comm ''input'' \<or> field_contains f ''libinput''"

definition audio_names :: "string list" where
  "audio_names = [''pipewire'', ''wireplumber'', ''pulseaudio'', ''jackd'', ''easyeffects'']"

definition is_audio_realtime_comm :: "string \<Rightarrow> bool" where
  "is_audio_realtime_comm comm \<longleftrightarrow> eq_any_ignore_ascii comm audio_names"

definition is_audio_looking_process :: "ascii_fields \<Rightarrow> bool" where
  "is_audio_looking_process f \<longleftrightarrow>
     contains_any_field f [''audio'', ''alsa'', ''jack'', ''pipewire'', ''pulseaudio'', ''pulse'', ''easyeffects'']"

definition is_game_render_comm :: "string \<Rightarrow> bool" where
  "is_game_render_comm comm \<longleftrightarrow> contains_any_ignore_ascii comm [''render'', ''rhi'', ''dxvk'', ''vulkan'', ''gpu'']"

definition is_game_exe :: "string \<Rightarrow> bool" where
  "is_game_exe exe_path \<longleftrightarrow>
     contains_ignore_ascii exe_path ''steamapps/common'' \<or> contains_ignore_ascii exe_path ''/games/''
     \<or> contains_ignore_ascii exe_path ''pressure-vessel''"

definition is_game_comm :: "string \<Rightarrow> bool" where
  "is_game_comm comm \<longleftrightarrow> contains_any_ignore_ascii comm [''steam'', ''proton'', ''wine'']"

definition is_game_cgroup :: "string \<Rightarrow> bool" where
  "is_game_cgroup cgroup \<longleftrightarrow> contains_ignore_ascii cgroup ''steam'' \<or> contains_ignore_ascii cgroup ''games''"

definition is_browser_process :: "string \<Rightarrow> string \<Rightarrow> ascii_fields \<Rightarrow> bool" where
  "is_browser_process comm process_comm f \<longleftrightarrow>
     (let names = [''firefox'', ''chrome'', ''chromium'', ''brave'', ''browser'']
      in contains_any_ignore_ascii comm names \<or> contains_any_ignore_ascii process_comm names
         \<or> contains_any_field f [''--type=renderer'', ''--type=gpu-process''])"

definition is_compiler_comm :: "string \<Rightarrow> bool" where
  "is_compiler_comm comm \<longleftrightarrow>
     contains_any_ignore_ascii comm [''rustc'', ''gcc'', ''g++'', ''clang'', ''cc1'', ''cc1plus'']"

definition is_linker_comm :: "string \<Rightarrow> bool" where
  "is_linker_comm comm \<longleftrightarrow> eq_any_ignore_ascii comm [''ld'', ''ld.lld'', ''ld.gold'', ''mold'', ''gold'', ''lld'']"

definition is_indexer_comm :: "string \<Rightarrow> bool" where
  "is_indexer_comm comm \<longleftrightarrow> contains_any_ignore_ascii comm [''clangd'', ''rust-analyzer'', ''ccls'', ''indexer'']"

definition is_package_manager_comm :: "string \<Rightarrow> bool" where
  "is_package_manager_comm comm \<longleftrightarrow>
     contains_any_ignore_ascii comm [''emerge'', ''portage'', ''pacman'', ''apt'', ''dnf'']"

definition is_build_job_comm :: "string \<Rightarrow> bool" where
  "is_build_job_comm comm \<longleftrightarrow> contains_any_ignore_ascii comm [''cargo'', ''make'', ''ninja'', ''cmake'', ''meson'']"

definition is_storage_daemon_comm :: "string \<Rightarrow> bool" where
  "is_storage_daemon_comm comm \<longleftrightarrow>
     contains_any_ignore_ascii comm [''udisks'', ''jbd2'', ''btrfs'', ''zfs'', ''io_uring'']"

definition is_network_daemon_comm :: "string \<Rightarrow> bool" where
  "is_network_daemon_comm comm \<longleftrightarrow>
     contains_any_ignore_ascii comm [''networkmanager'', ''systemd-network'', ''dhcpcd'', ''wpa_supplicant'']"

definition is_steam_runtime_comm :: "string \<Rightarrow> bool" where
  "is_steam_runtime_comm comm \<longleftrightarrow> contains_any_ignore_ascii comm [''pressure-vessel'', ''bwrap'']"

definition is_launcher_comm :: "string \<Rightarrow> bool" where
  "is_launcher_comm comm \<longleftrightarrow>
     contains_any_ignore_ascii comm [''epicgames'', ''origin'', ''uplay'', ''battle.net'', ''lutris'']"

definition is_service_looking_process :: "string \<Rightarrow> string \<Rightarrow> bool" where
  "is_service_looking_process comm cgroup \<longleftrightarrow>
     eq_ignore_ascii_case comm ''systemd'' \<or> contains_ignore_ascii cgroup ''.service''
     \<or> contains_ignore_ascii cgroup ''/system.slice/'' \<or> ends_with_ignore_ascii comm ''d''"

definition is_editor_comm :: "string \<Rightarrow> bool" where
  "is_editor_comm comm \<longleftrightarrow>
     contains_any_ignore_ascii comm [''code'', ''vscodium'', ''kate'', ''nvim'', ''vim'', ''emacs'']"

definition is_terminal_comm :: "string \<Rightarrow> bool" where
  "is_terminal_comm comm \<longleftrightarrow>
     contains_any_ignore_ascii comm [''alacritty'', ''kitty'', ''wezterm'', ''foot'', ''gnome-terminal'', ''konsole'']"

definition is_shell_comm :: "string \<Rightarrow> bool" where
  "is_shell_comm comm \<longleftrightarrow> eq_any_ignore_ascii comm [''bash'', ''zsh'', ''fish'', ''sh'']"

definition is_media_comm :: "string \<Rightarrow> bool" where
  "is_media_comm comm \<longleftrightarrow> contains_any_ignore_ascii comm [''vlc'', ''mpv'', ''spotify'']"

definition is_recorder_comm :: "string \<Rightarrow> bool" where
  "is_recorder_comm comm \<longleftrightarrow> contains_any_ignore_ascii comm [''obs'', ''gpu-screen-recorder'', ''recorder'']"

definition is_vm_comm :: "string \<Rightarrow> bool" where
  "is_vm_comm comm \<longleftrightarrow> contains_any_ignore_ascii comm [''qemu'', ''virt'', ''virtualbox'', ''vmware'']"

section \<open>The classifier\<close>

text \<open>The classes of a browser process, the block of step 4.\<close>

definition classify_browser :: "ascii_fields \<Rightarrow> task_class" where
  "classify_browser f =
     (if contains_any_field f [''gpu process'', ''--type=gpu-process''] \<or> contains_ignore_ascii (af_comm f) ''gpu process''
      then TC_BrowserGpu
      else if contains_any_field f [''utility process'', ''--type=utility'', ''network service'', ''socket process'']
      then TC_BrowserNetwork
      else if contains_any_field f
                [''web content'', ''isolated web co'', ''rdd process'', ''--type=renderer'', ''renderer'']
      then TC_BrowserRenderer
      else if contains_any_field f [''--background'', ''background'', ''crashpad'', ''updater'', ''extension process'']
      then TC_BrowserBackground
      else TC_BrowserForeground)"

text \<open>Steps 5 to 8, after the special threads of games and browsers.\<close>

definition classify_generic :: "ascii_fields \<Rightarrow> bool \<Rightarrow> task_class" where
  "classify_generic f is_game =
     (if is_indexer_comm (af_comm f) then TC_Indexer
      else if is_compiler_comm (af_comm f) then TC_Compiler
      else if is_linker_comm (af_comm f) then TC_Linker
      else if is_package_manager_comm (af_comm f) \<or> contains_ignore_ascii (af_cmdline f) '' emerge '' then TC_PackageManager
      else if is_build_job_comm (af_comm f) then TC_BuildJob
      else if is_storage_daemon_comm (af_comm f) then TC_StorageDaemon
      else if is_network_daemon_comm (af_comm f) then TC_NetworkDaemon
      else if is_game then TC_Game
      else if is_steam_runtime_comm (af_process_comm f) \<or> contains_ignore_ascii (af_exe_path f) ''pressure-vessel''
      then TC_SteamRuntime
      else if is_launcher_comm (af_comm f) \<or> is_launcher_comm (af_process_comm f) then TC_Launcher
      else if is_service_looking_process (af_process_comm f) (af_cgroup_path f)
              \<or> contains_ignore_ascii (af_process_comm f) ''helper''
      then TC_Service
      else if is_editor_comm (af_comm f) then TC_Editor
      else if is_terminal_comm (af_comm f) then TC_Terminal
      else if is_shell_comm (af_comm f) then TC_Shell
      else if is_media_comm (af_comm f) then TC_Media
      else if is_recorder_comm (af_comm f) then TC_Recorder
      else if is_vm_comm (af_comm f) then TC_VirtualMachine
      else if ends_with_ignore_ascii (af_exe_path f) ''.exe'' then TC_GameHelper
      else TC_Unknown)"

definition classify_fields :: "ascii_fields \<Rightarrow> u32 option \<Rightarrow> task_class" where
  "classify_fields f sched_policy =
     (if is_bracketed_kernel_comm (af_comm f) then TC_KernelThread
      else if is_input_thread (af_comm f) f then TC_Input
      else if is_irq_thread (af_comm f) f then TC_IrqThread
      else if is_audio_realtime_comm (af_comm f) \<or> is_audio_realtime_comm (af_process_comm f)
              \<or> contains_any_field f audio_names
              \<or> (sched_policy \<in> {Some 1, Some 2, Some 6} \<and> is_audio_looking_process f)
      then TC_AudioRealtime
      else if eq_ignore_ascii_case (af_comm f) ''gamescope'' \<or> eq_ignore_ascii_case (af_process_comm f) ''gamescope''
      then TC_GameScope
      else if eq_ignore_ascii_case (af_comm f) ''wineserver'' \<or> eq_ignore_ascii_case (af_process_comm f) ''wineserver''
      then TC_WineServer
      else if contains_any_ignore_ascii (af_comm f) [''sway'', ''kwin'', ''mutter'', ''gnome-shell'', ''weston'', ''hyprland'']
      then TC_Compositor
      else if eq_ignore_ascii_case (af_comm f) ''steam'' \<or> eq_ignore_ascii_case (af_process_comm f) ''steam''
              \<or> eq_ignore_ascii_case (af_comm f) ''steamwebhelper''
              \<or> eq_ignore_ascii_case (af_process_comm f) ''steamwebhelper''
      then TC_Service
      else let is_game = (is_game_exe (af_exe_path f) \<or> is_game_comm (af_process_comm f)
                          \<or> is_game_cgroup (af_cgroup_path f))
           in if is_game \<and> is_game_render_comm (af_comm f) then TC_GameRenderThread
              else if is_game \<and> (contains_ignore_ascii (af_comm f) ''worker'' \<or> contains_ignore_ascii (af_comm f) ''task''
                                  \<or> contains_ignore_ascii (af_comm f) ''job'')
              then TC_GameWorkerThread
              else if is_browser_process (af_comm f) (af_process_comm f) f then classify_browser f
              else classify_generic f is_game)"

definition classify_task_with_context ::
  "string \<Rightarrow> string \<Rightarrow> string \<Rightarrow> string \<Rightarrow> string \<Rightarrow> u32 option \<Rightarrow> task_class" where
  "classify_task_with_context comm process_comm cmdline exe_path cgroup_path sched_policy =
     classify_fields
       \<lparr>af_comm = comm, af_process_comm = process_comm, af_cmdline = cmdline, af_exe_path = exe_path,
        af_cgroup_path = cgroup_path\<rparr> sched_policy"

definition classify_task :: "string \<Rightarrow> string \<Rightarrow> string \<Rightarrow> task_class" where
  "classify_task comm process_comm cmdline = classify_task_with_context comm process_comm cmdline [] [] None"

definition contains_known_non_game_exe :: "string \<Rightarrow> bool" where
  "contains_known_non_game_exe t \<longleftrightarrow>
     list_ex (str_contains t)
       [''steam.exe'', ''steamwebhelper.exe'', ''steamerrorreporter.exe'', ''xalia.exe'', ''explorer.exe'', ''services.exe'',
        ''winedevice.exe'', ''svchost.exe'', ''plugplay.exe'', ''rpcss.exe'', ''tabtip.exe'', ''rundll32.exe'',
        ''wineboot.exe'', ''winemenubuilder.exe'', ''conhost.exe'', ''regsvr32.exe'', ''msiexec.exe'']"

definition contains_likely_game_cmdline :: "string \<Rightarrow> bool" where
  "contains_likely_game_cmdline cmdline \<longleftrightarrow>
     (if \<not> str_contains cmdline ''.exe'' then False
      else if \<not> str_contains cmdline ''steamapps/common''
              \<and> \<not> str_contains cmdline ([CHR 0x5C] @ ''steamapps'' @ [CHR 0x5C] @ ''common'')
              \<and> \<not> str_contains cmdline ''/games/''
              \<and> \<not> str_contains cmdline ([CHR 0x5C] @ ''games'' @ [CHR 0x5C])
      then False
      else \<not> contains_known_non_game_exe cmdline)"

section \<open>Facts\<close>

lemma contains_ignore_ascii_same: "contains_ignore_ascii = contains_ignore_ascii_case"
  by (intro ext) (simp add: contains_ignore_ascii_def contains_ignore_ascii_case_def)

definition lower_fields :: "ascii_fields \<Rightarrow> ascii_fields" where
  "lower_fields f =
     \<lparr>af_comm = ascii_lower (af_comm f), af_process_comm = ascii_lower (af_process_comm f),
      af_cmdline = ascii_lower (af_cmdline f), af_exe_path = ascii_lower (af_exe_path f),
      af_cgroup_path = ascii_lower (af_cgroup_path f)\<rparr>"

lemma ends_lower [case_insensitive]: "ends_with_ignore_ascii (ascii_lower h) n = ends_with_ignore_ascii h n"
  by (simp add: ends_with_ignore_ascii_def eq_ignore_ascii_case_def ascii_lower_def drop_map comp_def)

lemma starts_ascii_lower [case_insensitive]: "starts_with_ignore_ascii (ascii_lower h) n = starts_with_ignore_ascii h n"
  by (simp add: starts_with_ignore_ascii_def eq_ignore_ascii_case_def ascii_lower_def take_map comp_def)

lemma field_lower [case_insensitive]: "field_contains (lower_fields f) n = field_contains f n"
  by (simp add: field_contains_def lower_fields_def contains_ignore_ascii_same contains_lower)

lemma any_field_lower [case_insensitive]: "contains_any_field (lower_fields f) ns = contains_any_field f ns"
  by (simp add: contains_any_field_def list_ex_iff field_lower)

lemma any_lower [case_insensitive]:
  "contains_any_ignore_ascii (ascii_lower h) ns = contains_any_ignore_ascii h ns"
  "eq_any_ignore_ascii (ascii_lower h) ns = eq_any_ignore_ascii h ns"
  "contains_ignore_ascii (ascii_lower h) n = contains_ignore_ascii h n"
  by (simp_all add: contains_any_ignore_ascii_def eq_any_ignore_ascii_def list_ex_iff contains_ignore_ascii_same contains_lower eq_lower)

lemma lower_bracket: "to_lowercase c = CHR ''['' \<longleftrightarrow> c = CHR ''[''" "to_lowercase c = CHR '']'' \<longleftrightarrow> c = CHR '']''"
proof -
  have up: "65 \<le> n \<Longrightarrow> n \<le> 90 \<Longrightarrow> take_bit 8 (n + 32) = n + 32" for n :: nat
    by (simp add: take_bit_eq_mod)
  show "to_lowercase c = CHR ''['' \<longleftrightarrow> c = CHR ''[''" "to_lowercase c = CHR '']'' \<longleftrightarrow> c = CHR '']''"
    by (auto simp: to_lowercase_def Let_def char_of_eq_iff up)
qed

lemma bracketed_lower [case_insensitive]: "is_bracketed_kernel_comm (ascii_lower comm) = is_bracketed_kernel_comm comm"
proof -
  have first: "starts_with s [c] \<longleftrightarrow> s \<noteq> [] \<and> hd s = c" for s c
    by (cases s) (auto simp: starts_with_def)
  show ?thesis
    by (auto simp: is_bracketed_kernel_comm_def ends_with_def first lower_bracket ascii_lower_def rev_map hd_map)
qed

lemmas name_predicates =
  is_irq_thread_def is_input_thread_def is_audio_realtime_comm_def is_audio_looking_process_def is_game_render_comm_def
  is_game_exe_def is_game_comm_def is_game_cgroup_def is_browser_process_def is_compiler_comm_def is_linker_comm_def
  is_indexer_comm_def is_package_manager_comm_def is_build_job_comm_def is_storage_daemon_comm_def
  is_network_daemon_comm_def is_steam_runtime_comm_def is_launcher_comm_def is_service_looking_process_def
  is_editor_comm_def is_terminal_comm_def is_shell_comm_def is_media_comm_def is_recorder_comm_def is_vm_comm_def

lemma lower_fields_sel [simp]:
  "af_comm (lower_fields f) = ascii_lower (af_comm f)" "af_process_comm (lower_fields f) = ascii_lower (af_process_comm f)"
  "af_cmdline (lower_fields f) = ascii_lower (af_cmdline f)" "af_exe_path (lower_fields f) = ascii_lower (af_exe_path f)"
  "af_cgroup_path (lower_fields f) = ascii_lower (af_cgroup_path f)"
  by (simp_all add: lower_fields_def)

lemma browser_lower [case_insensitive]: "classify_browser (lower_fields f) = classify_browser f"
  by (simp only: classify_browser_def lower_fields_sel case_insensitive)

lemma generic_lower [case_insensitive]: "classify_generic (lower_fields f) g = classify_generic f g"
  by (simp only: classify_generic_def name_predicates lower_fields_sel case_insensitive)

lemma classify_fields_lower: "classify_fields (lower_fields f) p = classify_fields f p"
  by (simp only: classify_fields_def name_predicates lower_fields_sel case_insensitive)

text \<open>
  The classifier does not see the case of letters: lower-casing the thread name, the process name, the command line,
  the executable path and the cgroup path does not change the class of a task.
\<close>

theorem classify_case_insensitive:
  "classify_task_with_context (ascii_lower comm) (ascii_lower process_comm) (ascii_lower cmdline) (ascii_lower exe_path)
     (ascii_lower cgroup_path) sched_policy
   = classify_task_with_context comm process_comm cmdline exe_path cgroup_path sched_policy"
proof -
  let ?f = "\<lparr>af_comm = comm, af_process_comm = process_comm, af_cmdline = cmdline, af_exe_path = exe_path,
    af_cgroup_path = cgroup_path\<rparr>"
  show ?thesis
    using classify_fields_lower [of ?f sched_policy] by (simp add: classify_task_with_context_def lower_fields_def)
qed

lemma generic_range:
  "classify_generic f g \<noteq> TC_Render" "classify_generic f g \<noteq> TC_Helper"
  "classify_generic f g = TC_SteamRuntime \<Longrightarrow> \<not> g"
  by (simp_all add: classify_generic_def split: if_splits)

lemma browser_range: "classify_browser f \<in> {TC_BrowserGpu, TC_BrowserNetwork, TC_BrowserRenderer, TC_BrowserBackground, TC_BrowserForeground}"
  by (simp add: classify_browser_def)

lemma classify_fields_cases [consumes 1, case_names browser generic other]:
  assumes "classify_fields f p = c"
  obtains "c = classify_browser f"
  | "c = classify_generic f (is_game_exe (af_exe_path f) \<or> is_game_comm (af_process_comm f) \<or> is_game_cgroup (af_cgroup_path f))"
  | "c \<in> {TC_KernelThread, TC_Input, TC_IrqThread, TC_AudioRealtime, TC_GameScope, TC_WineServer, TC_Compositor, TC_Service,
          TC_GameRenderThread, TC_GameWorkerThread}"
  using assms unfolding classify_fields_def Let_def by (auto split: if_splits)

text \<open>
  What the classifier can answer: never \<open>Render\<close> and never \<open>Helper\<close>, although the comment of \<open>classify_task\<close> lists
  \<open>Helper\<close> as its sixth priority; and \<open>SteamRuntime\<close> only for a process that no game rule matches, so the test of the
  executable path for \<open>pressure-vessel\<close> in the \<open>SteamRuntime\<close> branch never decides: such a path makes the process a game.
\<close>

theorem classify_answers:
  "classify_task_with_context comm process_comm cmdline exe_path cgroup_path sched_policy \<notin> {TC_Render, TC_Helper}
   \<and> (classify_task_with_context comm process_comm cmdline exe_path cgroup_path sched_policy = TC_SteamRuntime
      \<longrightarrow> is_steam_runtime_comm process_comm \<and> \<not> contains_ignore_ascii exe_path ''pressure-vessel'')"
proof -
  let ?f = "\<lparr>af_comm = comm, af_process_comm = process_comm, af_cmdline = cmdline, af_exe_path = exe_path,
    af_cgroup_path = cgroup_path\<rparr>"
  let ?g = "is_game_exe exe_path \<or> is_game_comm process_comm \<or> is_game_cgroup cgroup_path"
  have steam: "classify_generic ?f ?g = TC_SteamRuntime \<Longrightarrow>
      is_steam_runtime_comm process_comm \<and> \<not> contains_ignore_ascii exe_path ''pressure-vessel''"
    using generic_range(3) [of ?f ?g] by (auto simp: classify_generic_def is_game_exe_def split: if_splits)
  have "c \<notin> {TC_Render, TC_Helper} \<and> (c = TC_SteamRuntime \<longrightarrow>
        is_steam_runtime_comm process_comm \<and> \<not> contains_ignore_ascii exe_path ''pressure-vessel'')"
    if "classify_fields ?f sched_policy = c" for c
    using that
  proof (cases rule: classify_fields_cases)
    case browser
    then show ?thesis using browser_range [of ?f] by auto
  next
    case generic
    then have c: "c = classify_generic ?f ?g" by simp
    show ?thesis unfolding c using generic_range(1,2) [of ?f ?g] steam by blast
  next
    case other
    then show ?thesis by auto
  qed
  then show ?thesis
    by (simp add: classify_task_with_context_def)
qed

theorem classify_answers_witness:
  "classify_task_with_context ''bwrap'' ''bwrap'' [] ''/usr/bin/bwrap'' [] None = TC_SteamRuntime
   \<and> is_steam_runtime_comm ''bwrap''
   \<and> classify_task_with_context ''pv-adverb'' ''pv-adverb'' [] ''/run/pressure-vessel/pv-adverb'' [] None = TC_Game"
proof -
  have c: "classify_task_with_context ''bwrap'' ''bwrap'' [] ''/usr/bin/bwrap'' [] None = TC_SteamRuntime"
    by code_simp
  show ?thesis
    using classify_answers [of "''bwrap''" "''bwrap''" "[]" "''/usr/bin/bwrap''" "[]" None] c by (simp, code_simp)
qed

text \<open>The scheduling policy of a task only decides between an audio-looking process and the later rules.\<close>

lemma policy_only_for_audio:
  "\<not> is_audio_looking_process f \<Longrightarrow> classify_fields f p = classify_fields f None"
  by (simp add: classify_fields_def)

end
