(* ===== verification/Community_Rules.thy ===== *)
theory Community_Rules
  imports Task_Classify Power_Actions
begin

text \<open>
  Community rules (\<open>stutter/src/community_rules/\<close>): the database of process names built from rule files, the
  normalisation of names, the classification of a process by the rules and the loading of the files. The JSON parser
  is a parameter of the loader; the file system is the one of the attribute file actions.
\<close>

section \<open>Data\<close>

record rule_specificity =
  sp_exact_exe :: bool
  sp_exact_comm :: bool
  sp_regex_count :: usize
  sp_wildcard_count :: usize

record community_rule =
  cr_name :: string
  cr_normalized_name :: string
  cr_type :: string
  cr_stutter_class :: string
  cr_confidence :: f32
  cr_source_path :: string
  cr_context :: "string list"
  cr_title :: "string option"
  cr_source_url :: "string option"
  cr_comment :: "string option"
  cr_ambiguous :: bool
  cr_specificity :: rule_specificity

record community_rules_source =
  cs_name :: string
  cs_repo :: "string option"
  cs_commit :: "string option"
  cs_generated_at :: string

record community_rules_file =
  cf_schema_version :: u32
  cf_source :: community_rules_source
  cf_rules :: "community_rule list"

type_synonym rules_db = "(string \<times> community_rule list) list"

record community_identity =
  cx_thread_comm :: string
  cx_process_comm :: string
  cx_cmdline :: string
  cx_exe_path :: string
  cx_cgroup_path :: string

datatype identity_source = IS_ExeBasename | IS_CmdlineBasename | IS_ProcessComm | IS_ThreadComm

record community_rule_hit =
  ch_class :: task_class
  ch_confidence :: f32
  ch_rule_name :: string
  ch_source_path :: string
  ch_reason :: string

text \<open>\<open>f32::min\<close>: the other operand when one is NaN.\<close>

definition f32_min :: "f32 \<Rightarrow> f32 \<Rightarrow> f32" where
  "f32_min a b = (if a = FNaN then b else if b = FNaN then a else if f32_le a b then a else b)"

fun confidence_cap :: "identity_source \<Rightarrow> f32" where
  "confidence_cap IS_ExeBasename = Fin (7549747 / 8388608)"
| "confidence_cap IS_CmdlineBasename = Fin (7381975 / 8388608)"
| "confidence_cap IS_ProcessComm = Fin (3 / 4)"
| "confidence_cap IS_ThreadComm = Fin (5452595 / 8388608)"

fun source_label :: "identity_source \<Rightarrow> string" where
  "source_label IS_ExeBasename = ''exe basename''"
| "source_label IS_CmdlineBasename = ''cmdline basename''"
| "source_label IS_ProcessComm = ''process comm''"
| "source_label IS_ThreadComm = ''thread comm''"

section \<open>Names\<close>

definition guarded_names :: "string list" where
  "guarded_names =
     [''python'', ''python3'', ''java'', ''node'', ''wine'', ''bash'', ''sh'', ''zsh'', ''steam'', ''steamwebhelper'', ''electron'',
      ''chrome'', ''firefox'', ''setup.exe'', ''launcher.exe'', ''client.exe'', ''server.exe'', ''main.exe'', ''build.exe'',
      ''run.exe'', ''app.exe'', ''game.exe'', ''start.exe'']"

definition is_guarded_community_rule_name :: "string \<Rightarrow> bool" where
  "is_guarded_community_rule_name n \<longleftrightarrow>
     (if List.member guarded_names n then True
      else let stem = (case strip_suffix ''.exe'' n of Some s \<Rightarrow> s | None \<Rightarrow> n)
           in length stem \<le> 3
              \<or> stem \<in> set [''app'', ''run'', ''main'', ''start'', ''setup'', ''client'', ''server''])"

definition trim_end :: "string \<Rightarrow> string" where
  "trim_end s = rev (trim_start (rev s))"

definition trim_matches :: "char \<Rightarrow> string \<Rightarrow> string" where
  "trim_matches c s = rev (dropWhile (\<lambda>x. x = c) (rev (dropWhile (\<lambda>x. x = c) s)))"

lemma strip_suffix_length: "strip_suffix p s = Some t \<Longrightarrow> length s = length t + length p"
  by (auto simp: strip_suffix_def strip_prefix_Some_iff dest: arg_cong [where f = length])

lemma trim_end_length: "length (trim_end s) \<le> length s"
  by (simp add: trim_end_def trim_start_def) (metis length_dropWhile_le length_rev)

function strip_deleted :: "string \<Rightarrow> string" where
  "strip_deleted v =
     (case strip_suffix '' (deleted)'' v of Some stripped \<Rightarrow> strip_deleted (trim_end stripped) | None \<Rightarrow> v)"
  by pat_completeness auto
termination
proof (relation "measure length", simp)
  fix v stripped :: string
  assume "strip_suffix '' (deleted)'' v = Some stripped"
  then have "length v = length stripped + 10"
    by (auto dest: strip_suffix_length)
  then show "(trim_end stripped, v) \<in> measure length"
    using trim_end_length [of stripped] by simp
qed

declare strip_deleted.simps [simp del]

definition normalize_process_name :: "string \<Rightarrow> string option" where
  "normalize_process_name v =
     (let v = trim_matches CHR 0x27 (trim_matches CHR 0x22 (strip_deleted (trim v)))
      in if v = [] then None
         else let slash_normalized = map (\<lambda>c. if c = CHR 0x5C then CHR ''/'' else c) v;
                  basename = trim (case path_file_name slash_normalized of Some n \<Rightarrow> n | None \<Rightarrow> slash_normalized)
              in if basename = [] then None else Some (ascii_lower basename))"

section \<open>The database\<close>

fun rules_push :: "string \<Rightarrow> community_rule \<Rightarrow> rules_db \<Rightarrow> rules_db" where
  "rules_push k r [] = [(k, [r])]"
| "rules_push k r ((k', rs) # m) = (if k' = k then (k', rs @ [r]) # m else (k', rs) # rules_push k r m)"

definition rule_count :: "rules_db \<Rightarrow> usize" where
  "rule_count db = sum_list (map (\<lambda>(_, rs). length rs) db)"

definition prepare_rule :: "community_rule \<Rightarrow> community_rule" where
  "prepare_rule rule =
     (let rule = (if trim (cr_normalized_name rule) = []
                  then rule\<lparr>cr_normalized_name :=
                         (case normalize_process_name (cr_name rule) of Some n \<Rightarrow> n | None \<Rightarrow> cr_name rule)\<rparr>
                  else rule)
      in if is_guarded_community_rule_name (cr_normalized_name rule) then rule\<lparr>cr_ambiguous := True\<rparr> else rule)"

definition merge_file :: "community_rules_file \<Rightarrow> rules_db \<Rightarrow> anyhow + rules_db" where
  "merge_file file db =
     (if cf_schema_version file \<noteq> 1 \<and> cf_schema_version file \<noteq> 2
      then Inl (anyhow_msg (''unsupported community rules schema version '' @ show_nat (unat (cf_schema_version file))))
      else Inr (fold (\<lambda>rule db. let rule = prepare_rule rule in rules_push (cr_normalized_name rule) rule db)
                  (cf_rules file) db))"

fun merge_files :: "community_rules_file list \<Rightarrow> rules_db \<Rightarrow> anyhow + rules_db" where
  "merge_files [] db = Inr db"
| "merge_files (f # fs) db = res_bind (merge_file f db) (merge_files fs)"

definition from_files :: "community_rules_file list \<Rightarrow> anyhow + rules_db" where
  "from_files fs = merge_files fs []"

section \<open>Classification\<close>

definition push_candidate ::
  "string \<Rightarrow> identity_source \<Rightarrow> (string \<times> identity_source) list \<Rightarrow> (string \<times> identity_source) list" where
  "push_candidate v src candidates =
     (case normalize_process_name v of
        None \<Rightarrow> candidates
      | Some normalized \<Rightarrow>
          if list_ex (\<lambda>(candidate, _). candidate = normalized) candidates then candidates
          else candidates @ [(normalized, src)])"

definition first_cmdline_arg :: "string \<Rightarrow> string option" where
  "first_cmdline_arg cmdline =
     (if CHR 0x00 \<in> set cmdline then find (\<lambda>arg. trim arg \<noteq> []) (split_on CHR 0x00 cmdline)
      else find (\<lambda>arg. trim arg \<noteq> []) (split_whitespace cmdline))"

definition identity_candidates :: "community_identity \<Rightarrow> (string \<times> identity_source) list" where
  "identity_candidates i =
     (let cs = push_candidate (cx_exe_path i) IS_ExeBasename [];
          cs = (case first_cmdline_arg (cx_cmdline i) of
                  Some first_arg \<Rightarrow> push_candidate first_arg IS_CmdlineBasename cs | None \<Rightarrow> cs);
          cs = push_candidate (cx_process_comm i) IS_ProcessComm cs
      in push_candidate (cx_thread_comm i) IS_ThreadComm cs)"

definition identity_context_fields :: "community_identity \<Rightarrow> string list" where
  "identity_context_fields i =
     [cx_cmdline i, cx_exe_path i, cx_cgroup_path i, cx_process_comm i, cx_thread_comm i]"

definition game_context_signal :: "community_identity \<Rightarrow> string option" where
  "game_context_signal i =
     (let has = any_contains_ignore_ascii_case (identity_context_fields i); bs = [CHR 0x5C]
      in if has ''steamapps/'' \<or> has (bs @ ''steamapps'' @ bs) then Some ''steamapps''
         else if has ''compatdata/'' \<or> has (bs @ ''compatdata'' @ bs) then Some ''compatdata''
         else if has ''app-steam'' then Some ''app-steam''
         else if has ''pressure-vessel'' then Some ''pressure-vessel''
         else if has ''pv-bwrap'' then Some ''pv-bwrap''
         else if has ''gamescope'' then Some ''gamescope''
         else if has ''wineserver'' then Some ''wineserver''
         else if has ''proton'' then Some ''proton''
         else if has ''wine'' then Some ''wine''
         else None)"

definition gaming_runtime_context_signal :: "community_identity \<Rightarrow> string option" where
  "gaming_runtime_context_signal i =
     (case game_context_signal i of
        Some signal \<Rightarrow> Some signal
      | None \<Rightarrow>
          let has = any_contains_ignore_ascii_case (identity_context_fields i)
          in if has ''steam-runtime'' then Some ''steam-runtime''
             else if has ''steamrt'' then Some ''steamrt''
             else if has ''steam-runtime-tools'' then Some ''steam-runtime-tools''
             else None)"

definition rule_requires_context :: "community_rule \<Rightarrow> bool" where
  "rule_requires_context rule \<longleftrightarrow>
     cr_ambiguous rule \<or> list_ex (\<lambda>c. c = ''wine_or_proton_or_steam'') (cr_context rule)
     \<or> contains_ignore_ascii_case (cr_source_path rule) ''wine_proton''"

definition game_rule_context_label :: "community_rule \<Rightarrow> community_identity \<Rightarrow> bool \<Rightarrow> string option" where
  "game_rule_context_label rule i strict_context =
     (let signal = game_context_signal i
      in if strict_context \<and> rule_requires_context rule \<and> signal = None then None
         else if cr_ambiguous rule \<and> signal = None then None
         else Some (case signal of Some s \<Rightarrow> s | None \<Rightarrow> ''exact-name''))"

definition gaming_runtime_rule_context_label :: "community_identity \<Rightarrow> bool \<Rightarrow> string option" where
  "gaming_runtime_rule_context_label i strict_context =
     (let signal = gaming_runtime_context_signal i
      in if strict_context \<and> signal = None then None
         else Some (case signal of Some s \<Rightarrow> s | None \<Rightarrow> ''exact-name''))"

definition non_game_rule_context_label :: "community_rule \<Rightarrow> identity_source \<Rightarrow> string option" where
  "non_game_rule_context_label rule src =
     (if cr_ambiguous rule then None
      else case src of
             IS_ExeBasename \<Rightarrow> Some ''exact-exe''
           | IS_CmdlineBasename \<Rightarrow> Some ''exact-cmdline''
           | _ \<Rightarrow> None)"

definition classification_context_label ::
  "task_class \<Rightarrow> community_rule \<Rightarrow> community_identity \<Rightarrow> identity_source \<Rightarrow> bool \<Rightarrow> string option" where
  "classification_context_label c rule i src strict_context =
     (if c = TC_Unknown then None
      else if c = TC_Game then game_rule_context_label rule i strict_context
      else if c \<in> {TC_GameScope, TC_WineServer, TC_SteamRuntime} then gaming_runtime_rule_context_label i strict_context
      else non_game_rule_context_label rule src)"

definition service_rule_source_path_is_specific :: "community_rule \<Rightarrow> bool" where
  "service_rule_source_path_is_specific rule \<longleftrightarrow>
     (if list_ex (contains_ignore_ascii_case (cr_source_path rule))
           [''systemd'', ''dbus'', ''network'', ''storage'', ''daemon'', ''service'']
      then True
      else 3 \<le> length (filter (\<lambda>component. trim component \<noteq> []) (split_on CHR ''/'' (cr_source_path rule))))"

definition confidence_cap_for_rule :: "task_class \<Rightarrow> community_rule \<Rightarrow> identity_source \<Rightarrow> f32" where
  "confidence_cap_for_rule c rule src =
     (let cap = (if cr_ambiguous rule then f32_min (confidence_cap src) (Fin (11744051 / 16777216)) else confidence_cap src)
      in if c = TC_Unknown then Fin 0
         else if c = TC_Game then cap
         else if c \<in> {TC_GameScope, TC_WineServer, TC_SteamRuntime} then cap
         else if c \<in> {TC_Service, TC_NetworkDaemon, TC_StorageDaemon}
         then if service_rule_source_path_is_specific rule then f32_min cap (Fin (13421773 / 16777216))
              else f32_min cap (Fin (5033165 / 8388608))
         else f32_min cap (Fin (13421773 / 16777216)))"

definition hit_of ::
  "task_class \<Rightarrow> community_rule \<Rightarrow> identity_source \<Rightarrow> string \<Rightarrow> community_rule_hit" where
  "hit_of c rule src context_label =
     \<lparr>ch_class = c, ch_confidence = f32_min (cr_confidence rule) (confidence_cap_for_rule c rule src),
      ch_rule_name = cr_name rule, ch_source_path = cr_source_path rule,
      ch_reason = ''community-rules: matched community rule '' @ [CHR 0x27] @ cr_name rule @ [CHR 0x27] @ '' from ''
        @ cr_source_path rule @ ''; via '' @ source_label src @ ''; context='' @ context_label\<rparr>"

fun classify_by_rules ::
  "community_rule list \<Rightarrow> community_identity \<Rightarrow> identity_source \<Rightarrow> bool \<Rightarrow> community_rule_hit option" where
  "classify_by_rules [] i src strict_context = None"
| "classify_by_rules (rule # rules) i src strict_context =
     (case class_from_str_opt (cr_stutter_class rule) of
        None \<Rightarrow> classify_by_rules rules i src strict_context
      | Some c \<Rightarrow>
         (case classification_context_label c rule i src strict_context of
            None \<Rightarrow> classify_by_rules rules i src strict_context
          | Some label \<Rightarrow> Some (hit_of c rule src label)))"

fun classify_by_candidates ::
  "rules_db \<Rightarrow> (string \<times> identity_source) list \<Rightarrow> community_identity \<Rightarrow> bool \<Rightarrow> community_rule_hit option" where
  "classify_by_candidates db [] i strict_context = None"
| "classify_by_candidates db ((candidate, src) # cs) i strict_context =
     (case map_of db candidate of
        None \<Rightarrow> classify_by_candidates db cs i strict_context
      | Some rules \<Rightarrow>
         (case classify_by_rules rules i src strict_context of
            Some hit \<Rightarrow> Some hit
          | None \<Rightarrow> classify_by_candidates db cs i strict_context))"

definition db_classify :: "rules_db \<Rightarrow> community_identity \<Rightarrow> bool \<Rightarrow> community_rule_hit option" where
  "db_classify db i strict_context = classify_by_candidates db (identity_candidates i) i strict_context"

definition classify_process_identity_with_db :: "rules_db \<Rightarrow> community_identity \<Rightarrow> community_rule_hit option" where
  "classify_process_identity_with_db db i = db_classify db i True"

section \<open>Loading\<close>

text \<open>
  \<open>parse\<close> is \<open>serde_json::from_str\<close> on a rule file, \<open>var\<close> the environment. A directory listing gives names; the paths of
  one directory sort by the bytes of these names.
\<close>

fun str_le :: "string \<Rightarrow> string \<Rightarrow> bool" where
  "str_le [] t \<longleftrightarrow> True"
| "str_le (c # s) [] \<longleftrightarrow> False"
| "str_le (c # s) (d # t) \<longleftrightarrow> (if c = d then str_le s t else (of_char c :: nat) < of_char d)"

fun str_insort :: "string \<Rightarrow> string list \<Rightarrow> string list" where
  "str_insort s [] = [s]"
| "str_insort s (t # ts) = (if str_le s t then s # t # ts else t # str_insort s ts)"

definition str_sort :: "string list \<Rightarrow> string list" where
  "str_sort ss = foldr str_insort ss []"

definition check_schema :: "community_rules_file \<Rightarrow> anyhow + community_rules_file" where
  "check_schema file =
     (if cf_schema_version file \<noteq> 1 \<and> cf_schema_version file \<noteq> 2
      then Inl (anyhow_msg (''unsupported community rules schema version '' @ show_nat (unat (cf_schema_version file))))
      else Inr file)"

definition load_rules_file ::
  "(string \<Rightarrow> anyhow + community_rules_file) \<Rightarrow> 'w file_host \<Rightarrow> string \<Rightarrow> 'w \<Rightarrow> anyhow + community_rules_file" where
  "load_rules_file parse host path w =
     (case fh_read host path w of
        Inl e \<Rightarrow> Inl (Anyhow [''failed to read community rules file '' @ path] (RootIo e))
      | Inr data \<Rightarrow>
         (case parse data of
            Inl e \<Rightarrow> Inl (any_context (''failed to parse community rules JSON from '' @ path) e)
          | Inr file \<Rightarrow> check_schema file))"

fun rule_file_names :: "string \<Rightarrow> (io_error + string) list \<Rightarrow> anyhow + string list" where
  "rule_file_names dir [] = Inr []"
| "rule_file_names dir (Inl e # es) = Inl (Anyhow [''failed to read entry under '' @ dir] (RootIo e))"
| "rule_file_names dir (Inr n # es) =
     res_bind (rule_file_names dir es) (\<lambda>ns.
       Inr (if n = ''enabled.generated.json'' then ns
            else if ends_with n ''.generated.json'' then n # ns else ns))"

definition load_rules_dir ::
  "(string \<Rightarrow> anyhow + community_rules_file) \<Rightarrow> 'w file_host \<Rightarrow> string \<Rightarrow> 'w \<Rightarrow> anyhow + community_rules_file list" where
  "load_rules_dir parse host dir w =
     (if \<not> fh_exists host dir w then Inr []
      else if \<not> fh_is_dir host dir w then Inl (anyhow_msg (''community rules path is not a directory: '' @ dir))
      else case fh_read_dir host dir w of
             Inl e \<Rightarrow> Inl (Anyhow [''failed to read community rules directory '' @ dir] (RootIo e))
           | Inr entries \<Rightarrow>
               res_bind (rule_file_names dir entries) (\<lambda>ns.
                 res_map (\<lambda>n. load_rules_file parse host (path_join dir n) w) (str_sort ns)))"

record community_rules_config =
  cc_enabled :: bool
  cc_load_builtin_fixture :: bool
  cc_user_rules_dir :: "string option"
  cc_explicit_rules_files :: "string list"

definition default_user_rules_dir :: "(string \<Rightarrow> string option) \<Rightarrow> string option" where
  "default_user_rules_dir var =
     (let rest = (\<lambda>base. path_join (path_join base ''stutter'') ''community-rules'')
      in case var ''XDG_DATA_HOME'' of
           Some xdg \<Rightarrow>
             if trim xdg \<noteq> [] then Some (rest xdg)
             else (case var ''HOME'' of
                     Some home \<Rightarrow>
                       if trim home \<noteq> [] then Some (rest (path_join (path_join home ''.local'') ''share'')) else None
                   | None \<Rightarrow> None)
         | None \<Rightarrow>
            (case var ''HOME'' of
               Some home \<Rightarrow>
                 if trim home \<noteq> [] then Some (rest (path_join (path_join home ''.local'') ''share'')) else None
             | None \<Rightarrow> None))"

definition default_system_rules_dirs :: "string list" where
  "default_system_rules_dirs =
     [''/usr/local/share/stutter/community-rules'', ''/usr/share/stutter/community-rules'']"

definition default_rules_config :: "(string \<Rightarrow> string option) \<Rightarrow> community_rules_config" where
  "default_rules_config var =
     \<lparr>cc_enabled = True, cc_load_builtin_fixture = False, cc_user_rules_dir = default_user_rules_dir var,
      cc_explicit_rules_files = []\<rparr>"

text \<open>The three optional settings of the configuration file: \<open>enabled\<close>, \<open>paths\<close> and \<open>sources\<close>.\<close>

definition rules_config_from_file ::
  "(string \<Rightarrow> string option) \<Rightarrow> bool option \<Rightarrow> string list option \<Rightarrow> string list option \<Rightarrow> community_rules_config" where
  "rules_config_from_file var enabled paths sources =
     (let config = default_rules_config var;
          config = (case enabled of Some e \<Rightarrow> config\<lparr>cc_enabled := e\<rparr> | None \<Rightarrow> config);
          config = config\<lparr>cc_explicit_rules_files := (case paths of Some ps \<Rightarrow> ps | None \<Rightarrow> [])\<rparr>
      in case sources of
           None \<Rightarrow> config
         | Some ss \<Rightarrow>
             let wants_user = list_ex (\<lambda>s. eq_ignore_ascii_case (trim s) ''user'') ss;
                 wants_fixture = list_ex (\<lambda>s. list_ex (eq_ignore_ascii_case (trim s))
                   [''fixture'', ''builtin'', ''builtin_fixture'', ''builtin-fixture'']) ss
             in config\<lparr>cc_user_rules_dir := (if wants_user then default_user_rules_dir var else None),
                       cc_load_builtin_fixture := wants_fixture\<rparr>)"

text \<open>\<open>load_community_rules\<close>: explicit files, then the user directory, then the system directories; the built-in fixture exists in
  test builds only.\<close>

definition load_community_rules ::
  "(string \<Rightarrow> anyhow + community_rules_file) \<Rightarrow> 'w file_host \<Rightarrow> community_rules_config \<Rightarrow> 'w \<Rightarrow> anyhow + rules_db" where
  "load_community_rules parse host config w =
     (if \<not> cc_enabled config then Inr []
      else res_bind (res_map (\<lambda>p. load_rules_file parse host p w) (cc_explicit_rules_files config)) (\<lambda>explicit.
           res_bind (case cc_user_rules_dir config of Some d \<Rightarrow> load_rules_dir parse host d w | None \<Rightarrow> Inr []) (\<lambda>user.
           res_bind (res_map (\<lambda>d. load_rules_dir parse host d w) default_system_rules_dirs) (\<lambda>system.
             from_files (explicit @ user @ concat system)))))"

datatype community_rules_status = CS_Loaded rules_db | CS_Disabled | CS_Failed string

definition load_community_rules_status ::
  "(string \<Rightarrow> anyhow + community_rules_file) \<Rightarrow> 'w file_host \<Rightarrow> community_rules_config \<Rightarrow> 'w \<Rightarrow> community_rules_status" where
  "load_community_rules_status parse host config w =
     (if \<not> cc_enabled config then CS_Disabled
      else case load_community_rules parse host config w of
             Inr db \<Rightarrow> CS_Loaded db
           | Inl e \<Rightarrow> CS_Failed (any_display_alt e))"

fun status_as_db :: "community_rules_status \<Rightarrow> rules_db option" where
  "status_as_db (CS_Loaded db) = Some db"
| "status_as_db CS_Disabled = None"
| "status_as_db (CS_Failed e) = None"

section \<open>Facts\<close>

text \<open>The rules of a database stand under their own name, and the guarded ones are ambiguous.\<close>

definition db_wf :: "rules_db \<Rightarrow> bool" where
  "db_wf db \<longleftrightarrow>
     (\<forall>(k, rs) \<in> set db. \<forall>r \<in> set rs.
        cr_normalized_name r = k \<and> (is_guarded_community_rule_name k \<longrightarrow> cr_ambiguous r))"

lemma set_rules_push:
  "(k', rs') \<in> set (rules_push k r m) \<Longrightarrow> (k', rs') \<in> set m \<or> k' = k \<and> (rs' = [r] \<or> (\<exists>rs. (k, rs) \<in> set m \<and> rs' = rs @ [r]))"
  by (induction m) (auto split: if_splits)

lemma prepare_rule_guarded: "is_guarded_community_rule_name (cr_normalized_name (prepare_rule r)) \<Longrightarrow> cr_ambiguous (prepare_rule r)"
  by (auto simp: prepare_rule_def Let_def split: if_splits)

lemma rules_push_wf: "db_wf db \<Longrightarrow> db_wf (rules_push (cr_normalized_name (prepare_rule r)) (prepare_rule r) db)"
proof -
  let ?r = "prepare_rule r"
  assume wf: "db_wf db"
  have ok: "\<And>k rs x. (k, rs) \<in> set db \<Longrightarrow> x \<in> set rs \<Longrightarrow>
      cr_normalized_name x = k \<and> (is_guarded_community_rule_name k \<longrightarrow> cr_ambiguous x)"
    using wf unfolding db_wf_def by blast
  have new: "is_guarded_community_rule_name (cr_normalized_name ?r) \<longrightarrow> cr_ambiguous ?r"
    using prepare_rule_guarded by blast
  show ?thesis
    unfolding db_wf_def
  proof clarify
    fix k rs x
    assume "(k, rs) \<in> set (rules_push (cr_normalized_name ?r) ?r db)" "x \<in> set rs"
    then consider "(k, rs) \<in> set db" | "k = cr_normalized_name ?r" "x = ?r"
      | rs' where "k = cr_normalized_name ?r" "(cr_normalized_name ?r, rs') \<in> set db" "x \<in> set rs'"
      using set_rules_push by fastforce
    then show "cr_normalized_name x = k \<and> (is_guarded_community_rule_name k \<longrightarrow> cr_ambiguous x)"
      using ok new \<open>x \<in> set rs\<close> by cases blast+
  qed
qed

lemma merge_file_wf: "merge_file f db = Inr db' \<Longrightarrow> db_wf db \<Longrightarrow> db_wf db'"
  by (auto simp: merge_file_def Let_def rules_push_wf intro!: fold_preserves [where P = db_wf] split: if_splits)

lemma merge_files_wf: "merge_files fs db = Inr db' \<Longrightarrow> db_wf db \<Longrightarrow> db_wf db'"
  by (induction fs arbitrary: db) (auto dest: merge_file_wf)

lemma from_files_wf: "from_files fs = Inr db \<Longrightarrow> db_wf db"
  unfolding from_files_def by (rule merge_files_wf) (auto simp: db_wf_def)

lemma classify_by_rules_SomeD:
  "classify_by_rules rules i src strict = Some hit \<Longrightarrow>
     \<exists>rule \<in> set rules. \<exists>c label. class_from_str_opt (cr_stutter_class rule) = Some c
       \<and> classification_context_label c rule i src strict = Some label \<and> hit = hit_of c rule src label"
  by (induction rules) (auto split: option.splits)

lemma classify_by_candidates_SomeD:
  "classify_by_candidates db cs i strict = Some hit \<Longrightarrow>
     \<exists>(n, src) \<in> set cs. \<exists>rules. map_of db n = Some rules \<and> classify_by_rules rules i src strict = Some hit"
  by (induction cs) (auto split: option.splits)

lemma f32_min_le: "b \<noteq> FNaN \<Longrightarrow> f32_le (f32_min a b) b"
  using f32_le_refl f32_le_total by (auto simp: f32_min_def)

lemma f32_min_not_NaN: "b \<noteq> FNaN \<Longrightarrow> f32_min a b \<noteq> FNaN"
  by (simp add: f32_min_def)

lemma confidence_cap_le: "f32_le (confidence_cap_for_rule c r src) (Fin (7549747 / 8388608))"
proof -
  have src: "f32_le (confidence_cap src) (Fin (7549747 / 8388608)) \<and> confidence_cap src \<noteq> FNaN"
    by (cases src) simp_all
  have min: "f32_le (f32_min a b) (Fin (7549747 / 8388608))"
    if "f32_le a (Fin (7549747 / 8388608))" "b \<noteq> FNaN" "a \<noteq> FNaN" for a b
  proof (cases "f32_le a b")
    case False
    then have "f32_le b a" using that f32_le_total by blast
    then have "f32_le b (Fin (7549747 / 8388608))" using that(1) by (rule f32_le_trans)
    then show ?thesis using that False by (simp add: f32_min_def)
  qed (use that in \<open>simp add: f32_min_def\<close>)
  show ?thesis
    using src by (auto simp: confidence_cap_for_rule_def Let_def intro!: min f32_min_not_NaN)
qed

lemma game_signal_runtime: "game_context_signal i \<noteq> None \<Longrightarrow> gaming_runtime_context_signal i \<noteq> None"
  by (auto simp: gaming_runtime_context_signal_def)

lemma context_label_strict:
  assumes "classification_context_label c rule i src True = Some label"
  shows "c \<noteq> TC_Unknown"
    and "cr_ambiguous rule \<Longrightarrow> c \<in> {TC_Game, TC_GameScope, TC_WineServer, TC_SteamRuntime} \<and> gaming_runtime_context_signal i \<noteq> None"
    and "c \<notin> {TC_Game, TC_GameScope, TC_WineServer, TC_SteamRuntime} \<Longrightarrow> src \<in> {IS_ExeBasename, IS_CmdlineBasename}"
  using assms game_signal_runtime [of i]
  by (auto simp: classification_context_label_def game_rule_context_label_def gaming_runtime_rule_context_label_def
      non_game_rule_context_label_def Let_def split: if_splits identity_source.splits)

definition sample_rule :: "string \<Rightarrow> string \<Rightarrow> community_rule" where
  "sample_rule name cls =
     \<lparr>cr_name = name, cr_normalized_name = [], cr_type = cls, cr_stutter_class = cls, cr_confidence = Fin 1,
      cr_source_path = ''games.rules'', cr_context = [], cr_title = None, cr_source_url = None, cr_comment = None,
      cr_ambiguous = False,
      cr_specificity = \<lparr>sp_exact_exe = False, sp_exact_comm = False, sp_regex_count = 0, sp_wildcard_count = 0\<rparr>\<rparr>"

definition sample_file :: community_rules_file where
  "sample_file =
     \<lparr>cf_schema_version = 1, cf_source = \<lparr>cs_name = ''s'', cs_repo = None, cs_commit = None, cs_generated_at = []\<rparr>,
      cf_rules = [sample_rule ''game.exe'' ''Game'']\<rparr>"

definition sample_identity :: community_identity where
  "sample_identity =
     \<lparr>cx_thread_comm = [], cx_process_comm = ''GAME.exe'', cx_cmdline = [], cx_exe_path = [], cx_cgroup_path = ''wine''\<rparr>"

definition sample_db :: rules_db where
  "sample_db =
     [(''game.exe'', [(sample_rule ''game.exe'' ''Game'')\<lparr>cr_normalized_name := ''game.exe'', cr_ambiguous := True\<rparr>])]"

text \<open>
  C29. A community rule classifies a process only on evidence. For every database built from rule files, a hit has a class
  other than \<open>Unknown\<close> and a confidence of at most 0.90; a name on the guard list (an interpreter, a shell, a generic
  \<open>.exe\<close>) only ever gives a game or gaming runtime class, and only when a gaming context shows in the process; any other
  class needs the name of the executable or of the command line, the thread name alone does not suffice.
\<close>

theorem community_hit_on_evidence:
  assumes "from_files files = Inr db" and "classify_process_identity_with_db db i = Some hit"
  shows "\<exists>name src rule rules. (name, src) \<in> set (identity_candidates i) \<and> map_of db name = Some rules \<and> rule \<in> set rules
      \<and> ch_rule_name hit = cr_name rule \<and> ch_class hit \<noteq> TC_Unknown
      \<and> f32_le (ch_confidence hit) (Fin (7549747 / 8388608))
      \<and> (is_guarded_community_rule_name name \<longrightarrow>
           ch_class hit \<in> {TC_Game, TC_GameScope, TC_WineServer, TC_SteamRuntime} \<and> gaming_runtime_context_signal i \<noteq> None)
      \<and> (ch_class hit \<notin> {TC_Game, TC_GameScope, TC_WineServer, TC_SteamRuntime} \<longrightarrow> src \<in> {IS_ExeBasename, IS_CmdlineBasename})"
proof -
  obtain name src rules where c: "(name, src) \<in> set (identity_candidates i)" "map_of db name = Some rules"
      "classify_by_rules rules i src True = Some hit"
    using assms(2) classify_by_candidates_SomeD unfolding classify_process_identity_with_db_def db_classify_def by blast
  then obtain rule c label where r: "rule \<in> set rules" "classification_context_label c rule i src True = Some label"
      "hit = hit_of c rule src label"
    using classify_by_rules_SomeD by blast
  have guarded: "is_guarded_community_rule_name name \<longrightarrow> cr_ambiguous rule"
    using from_files_wf [OF assms(1)] map_of_SomeD [OF c(2)] r(1) by (fastforce simp: db_wf_def)
  have cap: "f32_le (ch_confidence hit) (Fin (7549747 / 8388608))"
  proof -
    have "confidence_cap_for_rule c rule src \<noteq> FNaN"
      using confidence_cap_le [of c rule src] by auto
    then have "f32_le (f32_min (cr_confidence rule) (confidence_cap_for_rule c rule src)) (confidence_cap_for_rule c rule src)"
      by (rule f32_min_le)
    then have "f32_le (f32_min (cr_confidence rule) (confidence_cap_for_rule c rule src)) (Fin (7549747 / 8388608))"
      using confidence_cap_le by (rule f32_le_trans)
    then show ?thesis by (simp add: r(3) hit_of_def)
  qed
  have "ch_class hit = c" "ch_rule_name hit = cr_name rule"
    by (simp_all add: r(3) hit_of_def)
  then show ?thesis
    using c r(1) guarded cap context_label_strict [OF r(2)] by (intro exI [of _ name] exI [of _ src] exI [of _ rule] exI [of _ rules]) blast
qed

theorem community_hit_on_evidence_witness:
  "from_files [sample_file] = Inr sample_db
   \<and> (case classify_process_identity_with_db sample_db sample_identity of
        None \<Rightarrow> False
      | Some hit \<Rightarrow> ch_class hit = TC_Game \<and> f32_le (ch_confidence hit) (Fin (7549747 / 8388608)))"
proof -
  have f: "from_files [sample_file] = Inr sample_db" by code_simp
  have "map_option ch_class (classify_process_identity_with_db sample_db sample_identity) = Some TC_Game" by code_simp
  then obtain hit where h: "classify_process_identity_with_db sample_db sample_identity = Some hit" "ch_class hit = TC_Game"
    by auto
  show ?thesis
    using community_hit_on_evidence [OF f h(1)] f h by auto
qed

end
