(* ===== verification/Process_Scan.thy ===== *)
theory Process_Scan
  imports Community_Rules
begin

text \<open>
  Reading processes and tasks from procfs (\<open>stutter/src/process/procfs.rs\<close>, the readers of \<open>process/snapshot.rs\<close>) and the
  members of a cgroup (\<open>process/cgroup.rs\<close>). The file system is a parameter that answers every access of one scan; directory
  listings give names in the order of the kernel.
\<close>

section \<open>The file system\<close>

record proc_fs =
  pf_read_dir :: "string \<Rightarrow> io_error + (io_error + string) list"
  pf_read :: "string \<Rightarrow> io_error + string"
  pf_read_link :: "string \<Rightarrow> io_error + string"
  pf_ctime :: "string \<Rightarrow> (int \<times> int) option"
  pf_dev_ino :: "string \<Rightarrow> (u64 \<times> u64) option"
  pf_is_dir :: "string \<Rightarrow> bool"

definition flatten :: "(io_error + string) list \<Rightarrow> string list" where
  "flatten es = concat (map (\<lambda>e. case e of Inl _ \<Rightarrow> [] | Inr n \<Rightarrow> [n]) es)"

definition pid_dir :: "string \<Rightarrow> u32 \<Rightarrow> string" where
  "pid_dir proc_root pid = path_join proc_root (show_nat (unat pid))"

definition task_dir :: "string \<Rightarrow> u32 \<Rightarrow> u32 \<Rightarrow> string" where
  "task_dir proc_root pid tid = path_join (path_join (pid_dir proc_root pid) ''task'') (show_nat (unat tid))"

section \<open>One process\<close>

definition parse_proc_stat_policy :: "string \<Rightarrow> u32 option" where
  "parse_proc_stat_policy stat =
     Option.bind (rsplit_after '') '' stat) (\<lambda>after_comm.
       Option.bind (list_get 38 (split_whitespace after_comm)) parse_u32)"

definition stat_starttime_and_policy_at :: "proc_fs \<Rightarrow> string \<Rightarrow> u64 option \<times> u32 option" where
  "stat_starttime_and_policy_at fs path =
     (case pf_read fs path of
        Inl _ \<Rightarrow> (None, None)
      | Inr stat \<Rightarrow> (parse_proc_stat_starttime stat, parse_proc_stat_policy stat))"

definition process_starttime_at :: "proc_fs \<Rightarrow> string \<Rightarrow> u32 \<Rightarrow> u64 option" where
  "process_starttime_at fs proc_root pid = fst (stat_starttime_and_policy_at fs (path_join (pid_dir proc_root pid) ''stat''))"

definition push_proc_warning ::
  "u32 \<Rightarrow> u32 option \<Rightarrow> warning_kind \<Rightarrow> string \<Rightarrow> scan_report option \<Rightarrow> scan_report option" where
  "push_proc_warning pid tid kind message report =
     map_option (push_warning \<lparr>pw_pid = pid, pw_tid = tid, pw_kind = kind, pw_message = message\<rparr>) report"

definition failed_to_read :: "string \<Rightarrow> io_error \<Rightarrow> string" where
  "failed_to_read path e = ''failed to read '' @ path @ '': '' @ io_display e"

definition exe_path_at :: "proc_fs \<Rightarrow> string \<Rightarrow> u32 \<Rightarrow> scan_report option \<Rightarrow> string \<times> scan_report option" where
  "exe_path_at fs proc_root pid report =
     (let path = path_join (pid_dir proc_root pid) ''exe''
      in case pf_read_link fs path of
           Inr p \<Rightarrow> (p, report)
         | Inl e \<Rightarrow> ([], push_proc_warning pid None WK_ExePath (failed_to_read path e) report))"

text \<open>\<open>max_by_key(len)\<close>: the last of the longest strings.\<close>

definition longest :: "string list \<Rightarrow> string option" where
  "longest ss =
     fold (\<lambda>s best. case best of None \<Rightarrow> Some s | Some b \<Rightarrow> if length b \<le> length s then Some s else Some b) ss None"

definition cgroup_path_of :: "string \<Rightarrow> string" where
  "cgroup_path_of contents =
     (case longest (filter (\<lambda>p. p \<noteq> [])
             (List.map_filter (\<lambda>line. map_option trim (rsplit_after '':'' line)) (str_lines contents))) of
        Some p \<Rightarrow> p | None \<Rightarrow> [])"

definition read_proc_cgroup_path_at :: "proc_fs \<Rightarrow> string \<Rightarrow> u32 \<Rightarrow> scan_report option \<Rightarrow> string \<times> scan_report option" where
  "read_proc_cgroup_path_at fs proc_root pid report =
     (let path = path_join (pid_dir proc_root pid) ''cgroup''
      in case pf_read fs path of
           Inl e \<Rightarrow> ([], push_proc_warning pid None WK_Cgroup (failed_to_read path e) report)
         | Inr contents \<Rightarrow> (cgroup_path_of contents, report))"

definition status_line :: "string \<Rightarrow> u32 option \<times> string option \<Rightarrow> u32 option \<times> string option" where
  "status_line line acc =
     (case strip_prefix ''Name:'' line of
        Some v \<Rightarrow> (fst acc, Some (trim v))
      | None \<Rightarrow> (case strip_prefix ''PPid:'' line of Some v \<Rightarrow> (parse_u32 (trim v), snd acc) | None \<Rightarrow> acc))"

definition cmdline_of :: "string \<Rightarrow> string" where
  "cmdline_of bytes = join '' '' (filter (\<lambda>part. part \<noteq> []) (split_on CHR 0x00 bytes))"

definition read_proc_info_with_report_at ::
  "proc_fs \<Rightarrow> string \<Rightarrow> u32 \<Rightarrow> scan_report option \<Rightarrow> proc_info option \<times> scan_report option" where
  "read_proc_info_with_report_at fs proc_root pid report =
     (let status_path = path_join (pid_dir proc_root pid) ''status''
      in case pf_read fs status_path of
           Inl e \<Rightarrow> (None, push_proc_warning pid None WK_ProcessInfo (failed_to_read status_path e) report)
         | Inr status \<Rightarrow>
             let (ppid, comm) = fold status_line (str_lines status) (None, None);
                 cmdline_path = path_join (pid_dir proc_root pid) ''cmdline'';
                 (cmdline, report) =
                   (case pf_read fs cmdline_path of
                      Inr bytes \<Rightarrow> (cmdline_of bytes, report)
                    | Inl e \<Rightarrow> ([], push_proc_warning pid None WK_Cmdline (failed_to_read cmdline_path e) report));
                 (starttime_ticks, sched_policy) =
                   stat_starttime_and_policy_at fs (path_join (pid_dir proc_root pid) ''stat'');
                 (exe_path, report) = exe_path_at fs proc_root pid report;
                 (cgroup_path, report) = read_proc_cgroup_path_at fs proc_root pid report;
                 dev_ino = pf_dev_ino fs (path_join (pid_dir proc_root pid) ''exe'')
             in (case (ppid, comm) of
                   (Some ppid, Some comm) \<Rightarrow>
                     Some \<lparr>pi_pid = pid, pi_ppid = ppid, pi_comm = comm, pi_cmdline = cmdline, pi_exe_path = exe_path,
                           pi_cgroup_path = cgroup_path, pi_starttime_ticks = starttime_ticks,
                           pi_exe_dev = map_option fst dev_ino, pi_exe_ino = map_option snd dev_ino,
                           pi_sched_policy = sched_policy\<rparr>
                 | _ \<Rightarrow> None, report))"

definition read_proc_info_at :: "proc_fs \<Rightarrow> string \<Rightarrow> u32 \<Rightarrow> proc_info option" where
  "read_proc_info_at fs proc_root pid = fst (read_proc_info_with_report_at fs proc_root pid None)"

section \<open>All processes\<close>

type_synonym scan_state = "process_map \<times> process_cache \<times> scan_report"

definition cache_hit :: "process_cache \<Rightarrow> u64 \<Rightarrow> u32 \<Rightarrow> int \<times> int \<Rightarrow> proc_info option" where
  "cache_hit cache generation pid ctime =
     (case map_of (pc_entries cache) pid of
        Some cached \<Rightarrow>
          if saturating_sub generation (ca_scan_generation cached) \<le> pc_max_cached_generations cache
             \<and> (ca_ctime_sec cached, ca_ctime_nsec cached) = ctime
          then Some (ca_info cached) else None
      | None \<Rightarrow> None)"

definition scan_entry :: "proc_fs \<Rightarrow> string \<Rightarrow> u64 \<Rightarrow> string \<Rightarrow> scan_state \<Rightarrow> scan_state" where
  "scan_entry fs proc_root generation name st =
     (case (parse_u32 name, pf_ctime fs (path_join proc_root name), st) of
        (Some pid, Some ctime, processes, cache, report) \<Rightarrow>
          (case cache_hit cache generation pid ctime of
             Some info \<Rightarrow> (bt_insert pid info processes, cache, report)
           | None \<Rightarrow>
              (case read_proc_info_with_report_at fs proc_root pid (Some report) of
                 (Some info, report') \<Rightarrow>
                   (bt_insert pid info processes,
                    cache\<lparr>pc_entries := bt_insert pid
                       \<lparr>ca_ctime_sec = fst ctime, ca_ctime_nsec = snd ctime, ca_scan_generation = generation,
                        ca_info = info\<rparr> (pc_entries cache)\<rparr>, the report')
               | (None, report') \<Rightarrow> (processes, cache, the report')))
      | _ \<Rightarrow> st)"

fun scan_entries :: "proc_fs \<Rightarrow> string \<Rightarrow> scan_budget \<Rightarrow> u64 \<Rightarrow> string list \<Rightarrow> scan_state \<Rightarrow> scan_state" where
  "scan_entries fs proc_root budget generation [] st = st"
| "scan_entries fs proc_root budget generation (name # names) (processes, cache, report) =
     (if sb_expired budget (sr_proc_entries_seen report)
      then (processes, cache, report\<lparr>sr_scan_timed_out := True\<rparr>)
      else let report = report\<lparr>sr_proc_entries_seen := sr_proc_entries_seen report + 1\<rparr>
           in if (case sb_max_proc_entries budget of Some m \<Rightarrow> m < sr_proc_entries_seen report | None \<Rightarrow> False)
              then (processes, cache, report\<lparr>sr_proc_entries_skipped := sr_proc_entries_skipped report + 1\<rparr>)
              else scan_entries fs proc_root budget generation names
                     (scan_entry fs proc_root generation name (processes, cache, report)))"

definition scan_processes_at ::
  "proc_fs \<Rightarrow> string \<Rightarrow> scan_budget \<Rightarrow> process_cache \<Rightarrow> scan_report \<Rightarrow> process_map \<times> process_cache \<times> scan_report" where
  "scan_processes_at fs proc_root budget cache report =
     (let cache = cache\<lparr>pc_generation := saturating_add (pc_generation cache) 1\<rparr>
      in case pf_read_dir fs proc_root of
           Inl _ \<Rightarrow> ([], cache, report)
         | Inr entries \<Rightarrow>
            (case scan_entries fs proc_root budget (pc_generation cache) (flatten entries) ([], cache, report) of
               (processes, cache, report) \<Rightarrow>
                 (processes,
                  cache\<lparr>pc_entries := filter (\<lambda>(pid, _). map_of processes pid \<noteq> None) (pc_entries cache)\<rparr>, report)))"

section \<open>Threads, descendants and cgroup members\<close>

fun collect_tids :: "usize \<Rightarrow> string list \<Rightarrow> u32 set \<Rightarrow> scan_report \<Rightarrow> u32 set \<times> scan_report" where
  "collect_tids max_threads [] tids report = (tids, report)"
| "collect_tids max_threads (name # names) tids report =
     (let report = report\<lparr>sr_thread_entries_seen := sr_thread_entries_seen report + 1\<rparr>
      in if max_threads \<le> card tids
         then (tids, report\<lparr>sr_thread_entries_skipped := sr_thread_entries_skipped report + 1\<rparr>)
         else case parse_u32 name of
                None \<Rightarrow> collect_tids max_threads names tids report
              | Some tid \<Rightarrow> collect_tids max_threads names (insert tid tids) report)"

definition thread_ids_of_at_limited ::
  "proc_fs \<Rightarrow> string \<Rightarrow> u32 \<Rightarrow> usize \<Rightarrow> scan_report \<Rightarrow> u32 set \<times> scan_report" where
  "thread_ids_of_at_limited fs proc_root pid max_threads report =
     (case pf_read_dir fs (path_join (pid_dir proc_root pid) ''task'') of
        Inl _ \<Rightarrow> ({}, report)
      | Inr entries \<Rightarrow>
         (case collect_tids max_threads (flatten entries) {} report of
            (tids, report) \<Rightarrow>
              (tids, if 0 < sr_thread_entries_skipped report
                     then report\<lparr>sr_processes_thread_limited := sr_processes_thread_limited report + 1\<rparr> else report)))"

definition task_comm_at :: "proc_fs \<Rightarrow> string \<Rightarrow> u32 \<Rightarrow> u32 \<Rightarrow> string option" where
  "task_comm_at fs proc_root pid tid =
     (case pf_read fs (path_join (task_dir proc_root pid tid) ''comm'') of
        Inl _ \<Rightarrow> None
      | Inr comm \<Rightarrow> if trim comm = [] then None else Some (trim comm))"

type_synonym children_map = "(u32 \<times> u32 list) list"

definition children_by_parent :: "process_map \<Rightarrow> children_map" where
  "children_by_parent processes =
     fold (\<lambda>(_, p) m. bt_upsert (pi_ppid p) (\<lambda>cs. cs @ [pi_pid p]) [pi_pid p] m) processes []"

definition children_of :: "children_map \<Rightarrow> u32 \<Rightarrow> u32 list" where
  "children_of m p = (case map_of m p of Some cs \<Rightarrow> cs | None \<Rightarrow> [])"

fun push_children :: "u32 list \<Rightarrow> u32 set \<times> u32 list \<Rightarrow> u32 set \<times> u32 list" where
  "push_children [] st = st"
| "push_children (child # cs) (seen, queue) =
     (if child \<in> seen then push_children cs (seen, queue) else push_children cs (insert child seen, queue @ [child]))"

lemma push_children_spec:
  "fst (push_children cs (seen, queue)) = seen \<union> set cs"
  "set (snd (push_children cs (seen, queue))) = set queue \<union> (set cs - seen)"
  by (induction cs arbitrary: seen queue) auto

lemma push_children_progress:
  "push_children cs (seen, queue) = (seen', queue') \<Longrightarrow> seen' = seen \<and> queue' = queue \<or> seen \<subset> seen'"
proof (induction cs arbitrary: seen queue)
  case (Cons c cs)
  show ?case
  proof (cases "c \<in> seen")
    case False
    then have "push_children cs (insert c seen, queue @ [c]) = (seen', queue')" using Cons.prems by simp
    then show ?thesis using Cons.IH False by blast
  qed (use Cons in simp)
qed simp

function descendants_loop :: "children_map \<Rightarrow> u32 list \<Rightarrow> u32 set \<Rightarrow> u32 set" where
  "descendants_loop m [] seen = seen"
| "descendants_loop m (parent # queue) seen =
     (case push_children (children_of m parent) (seen, queue) of (seen', queue') \<Rightarrow> descendants_loop m queue' seen')"
  by pat_completeness auto
termination
proof (relation "measures [\<lambda>(m, queue, seen). card (- seen), \<lambda>(m, queue, seen). length queue]", simp)
  fix m :: children_map and parent queue and seen seen' :: "u32 set" and queue'
  assume "(seen', queue') = push_children (children_of m parent) (seen, queue)"
  then have "push_children (children_of m parent) (seen, queue) = (seen', queue')" by simp
  from push_children_progress [OF this]
  show "((m, queue', seen'), m, parent # queue, seen)
      \<in> measures [\<lambda>(m, queue, seen). card (- seen), \<lambda>(m, queue, seen). length queue]"
  proof
    assume "seen \<subset> seen'"
    then have "- seen' \<subset> - seen" by blast
    then have "card (- seen') < card (- seen)" by (simp add: psubset_card_mono)
    then show ?thesis by simp
  qed simp
qed

definition descendants_of :: "u32 \<Rightarrow> children_map \<Rightarrow> u32 set" where
  "descendants_of root_pid m = descendants_loop m [root_pid] {root_pid}"

text \<open>
  The recursion over the directories of a cgroup has the depth of the hierarchy as its fuel.
\<close>

definition read_pid_list :: "proc_fs \<Rightarrow> string \<Rightarrow> u32 set \<Rightarrow> u32 set" where
  "read_pid_list fs file pids =
     (case pf_read fs file of
        Inl _ \<Rightarrow> pids
      | Inr content \<Rightarrow> pids \<union> set (List.map_filter (\<lambda>line. parse_u32 (trim line)) (str_lines content)))"

definition cgroup_subdirs :: "proc_fs \<Rightarrow> string \<Rightarrow> string list" where
  "cgroup_subdirs fs path =
     (case pf_read_dir fs path of
        Inl _ \<Rightarrow> []
      | Inr entries \<Rightarrow> filter (pf_is_dir fs) (map (path_join path) (flatten entries)))"

fun collect_cgroup_pids_at :: "nat \<Rightarrow> proc_fs \<Rightarrow> string \<Rightarrow> u32 set \<Rightarrow> u32 set" where
  "collect_cgroup_pids_at 0 fs path pids = pids"
| "collect_cgroup_pids_at (Suc depth) fs path pids =
     fold (collect_cgroup_pids_at depth fs) (cgroup_subdirs fs path)
       (read_pid_list fs (path_join path ''cgroup.threads'') (read_pid_list fs (path_join path ''cgroup.procs'') pids))"

section \<open>Facts\<close>

definition child_edges :: "children_map \<Rightarrow> (u32 \<times> u32) set" where
  "child_edges m = {(p, c). c \<in> set (children_of m p)}"

lemma descendants_loop_reach:
  assumes "set queue \<subseteq> seen" and "\<And>x. x \<in> seen - set queue \<Longrightarrow> set (children_of m x) \<subseteq> seen"
    and "seen \<subseteq> (child_edges m)\<^sup>* `` R" and "R \<subseteq> seen"
  shows "descendants_loop m queue seen = (child_edges m)\<^sup>* `` R"
  using assms
proof (induction m queue seen rule: descendants_loop.induct)
  case (1 m seen)
  have "x \<in> seen" if "(r, x) \<in> (child_edges m)\<^sup>*" "r \<in> seen" for r x
    using that
  proof (induction rule: rtrancl_induct)
    case (step y z)
    then show ?case using "1.prems"(2) by (auto simp: child_edges_def)
  qed
  then show ?case using "1.prems" by auto
next
  case (2 m parent queue seen)
  obtain seen' queue' where p: "push_children (children_of m parent) (seen, queue) = (seen', queue')"
    by (rule prod.exhaust)
  have s: "seen' = seen \<union> set (children_of m parent)" and q: "set queue' = set queue \<union> (set (children_of m parent) - seen)"
    using push_children_spec [of "children_of m parent" seen queue] p by auto
  have "parent \<in> seen" using "2.prems"(1) by simp
  then have "set (children_of m parent) \<subseteq> (child_edges m)\<^sup>* `` R"
    using "2.prems"(3) by (auto simp: child_edges_def intro: rtrancl_into_rtrancl)
  then have "descendants_loop m queue' seen' = (child_edges m)\<^sup>* `` R"
    using "2.prems" by (intro "2.IH" [OF p [symmetric]]) (auto simp: s q)
  then show ?case by (simp add: p)
qed

lemma descendants_of_reach: "descendants_of r m = (child_edges m)\<^sup>* `` {r}"
  unfolding descendants_of_def by (rule descendants_loop_reach) auto

end
