(* ===== verification/Target_Snapshot.thy ===== *)
theory Target_Snapshot
  imports Process_Scan
begin

text \<open>
  Target snapshots (\<open>stutter/src/process/snapshot.rs\<close>): which processes and tasks a recording or a profile is about, the
  difference of two snapshots and the search for a game to attach to. A \<open>BTreeSet\<close> is a finite set, walked in ascending
  order by \<open>sorted_list_of_set\<close>.
\<close>

section \<open>Tasks of a process\<close>

definition task_starttime_and_policy_at :: "proc_fs \<Rightarrow> string \<Rightarrow> u32 \<Rightarrow> u32 \<Rightarrow> proc_info \<Rightarrow> u64 option \<times> u32 option" where
  "task_starttime_and_policy_at fs proc_root process_pid tid p =
     (if tid = process_pid then (pi_starttime_ticks p, pi_sched_policy p)
      else stat_starttime_and_policy_at fs (path_join (task_dir proc_root process_pid tid) ''stat''))"

definition task_info_from_parts ::
  "u32 \<Rightarrow> u32 \<Rightarrow> string \<Rightarrow> proc_info \<Rightarrow> u64 option \<Rightarrow> u32 option \<Rightarrow> task_info" where
  "task_info_from_parts tid process_pid comm p task_starttime_ticks sched_policy =
     \<lparr>t_tid = tid, t_process_pid = process_pid, t_process_ppid = pi_ppid p, t_comm = comm, t_process_comm = pi_comm p,
      t_process_starttime_ticks = pi_starttime_ticks p, t_task_starttime_ticks = task_starttime_ticks,
      t_exe_dev = pi_exe_dev p, t_exe_ino = pi_exe_ino p,
      t_class = classify_task_with_context comm (pi_comm p) (pi_cmdline p) (pi_exe_path p) (pi_cgroup_path p) sched_policy,
      t_sched_policy = sched_policy, t_from_cgroup = False\<rparr>"

definition task_info_from_proc :: "proc_fs \<Rightarrow> string \<Rightarrow> u32 \<Rightarrow> u32 \<Rightarrow> string \<Rightarrow> proc_info \<Rightarrow> task_info" where
  "task_info_from_proc fs proc_root tid process_pid comm p =
     (case task_starttime_and_policy_at fs proc_root process_pid tid p of
        (starttime, policy) \<Rightarrow> task_info_from_parts tid process_pid comm p starttime policy)"

definition task_info_from_tid_at ::
  "proc_fs \<Rightarrow> string \<Rightarrow> u32 \<Rightarrow> u32 \<Rightarrow> proc_info \<Rightarrow> task_map option \<Rightarrow> scan_report \<Rightarrow> task_info \<times> scan_report" where
  "task_info_from_tid_at fs proc_root tid process_pid p previous_tasks report =
     (case task_starttime_and_policy_at fs proc_root process_pid tid p of
        (starttime, policy) \<Rightarrow>
          let previous = Option.bind previous_tasks (\<lambda>tasks. map_of tasks tid);
              (comm, report) =
                (case task_comm_at fs proc_root process_pid tid of
                   Some comm \<Rightarrow> (comm, report)
                 | None \<Rightarrow>
                    (case previous of
                       Some prev \<Rightarrow>
                         if t_process_pid prev = process_pid \<and> t_task_starttime_ticks prev = starttime
                         then (t_comm prev, report)
                         else (pi_comm p, push_warning
                                 \<lparr>pw_pid = process_pid, pw_tid = Some tid, pw_kind = WK_TaskComm,
                                  pw_message = ''failed to read task comm for pid='' @ show_nat (unat process_pid)
                                    @ '' tid='' @ show_nat (unat tid)\<rparr> report)
                     | None \<Rightarrow>
                         (pi_comm p, push_warning
                            \<lparr>pw_pid = process_pid, pw_tid = Some tid, pw_kind = WK_TaskComm,
                             pw_message = ''failed to read task comm for pid='' @ show_nat (unat process_pid)
                               @ '' tid='' @ show_nat (unat tid)\<rparr> report)))
          in (task_info_from_parts tid process_pid comm p starttime policy, report))"

definition expand_process ::
  "proc_fs \<Rightarrow> string \<Rightarrow> process_map \<Rightarrow> task_map option \<Rightarrow> scan_budget \<Rightarrow> u32 \<Rightarrow> task_map \<times> scan_report
    \<Rightarrow> task_map \<times> scan_report" where
  "expand_process fs proc_root processes previous_tasks budget pid acc =
     (case (map_of processes pid, acc) of
        (None, _) \<Rightarrow> acc
      | (Some p, tasks, report) \<Rightarrow>
         (case thread_ids_of_at_limited fs proc_root pid (sb_max_threads_per_process budget) report of
            (tids, report) \<Rightarrow>
              if tids = {} then (bt_insert pid (task_info_from_proc fs proc_root pid pid (pi_comm p) p) tasks, report)
              else fold (\<lambda>tid (tasks, report).
                     case task_info_from_tid_at fs proc_root tid pid p previous_tasks report of
                       (task, report) \<Rightarrow> (bt_insert tid task tasks, report))
                   (sorted_list_of_set tids) (tasks, report)))"

definition expand_tasks_at ::
  "proc_fs \<Rightarrow> string \<Rightarrow> u32 set \<Rightarrow> process_map \<Rightarrow> task_map option \<Rightarrow> scan_budget \<Rightarrow> scan_report \<Rightarrow> task_map \<times> scan_report" where
  "expand_tasks_at fs proc_root process_pids processes previous_tasks budget report =
     fold (expand_process fs proc_root processes previous_tasks budget) (sorted_list_of_set process_pids) ([], report)"

definition thread_owner_index_at ::
  "proc_fs \<Rightarrow> string \<Rightarrow> process_map \<Rightarrow> scan_budget \<Rightarrow> scan_report \<Rightarrow> (u32 \<times> u32) list \<times> scan_report" where
  "thread_owner_index_at fs proc_root processes budget report =
     fold (\<lambda>pid (owners, report).
             case thread_ids_of_at_limited fs proc_root pid (sb_max_threads_per_process budget) report of
               (tids, report) \<Rightarrow> (fold (\<lambda>tid. bt_insert tid pid) (sorted_list_of_set tids) owners, report))
       (map fst processes) ([], report)"

section \<open>The snapshot\<close>

record target_snapshot_input =
  ti_proc_root :: string
  ti_manual_pids :: "u32 list"
  ti_tree_pids :: "u32 list"
  ti_cgroup_path :: "string option"
  ti_exclude_tree_pids :: "u32 list"
  ti_filters :: "task_filters option"
  ti_keep_missing_pid :: bool
  ti_cache :: "process_cache option"
  ti_previous_tasks :: "task_map option"
  ti_expired :: "usize \<Rightarrow> bool"
  ti_max_threads_per_process :: "usize option"
  ti_community_rules :: "rules_db option"

record target_snapshot_result =
  ts_process_roots :: "u32 set"
  ts_tasks :: task_map
  ts_budget_report :: scan_report

definition input_budget :: "target_snapshot_input \<Rightarrow> scan_budget" where
  "input_budget inp =
     \<lparr>sb_expired = ti_expired inp, sb_max_proc_entries = None,
      sb_max_threads_per_process =
        (case ti_max_threads_per_process inp of Some n \<Rightarrow> n | None \<Rightarrow> DEFAULT_MAX_THREADS_PER_PROCESS)\<rparr>"

definition has_process :: "process_map \<Rightarrow> u32 \<Rightarrow> bool" where
  "has_process processes pid \<longleftrightarrow> map_of processes pid \<noteq> None"

definition tree_of :: "process_map \<Rightarrow> u32 \<Rightarrow> u32 set" where
  "tree_of processes root_pid =
     (if has_process processes root_pid then insert root_pid (descendants_of root_pid (children_by_parent processes)) else {})"

definition cgroup_roots_of :: "nat \<Rightarrow> proc_fs \<Rightarrow> target_snapshot_input \<Rightarrow> u32 set" where
  "cgroup_roots_of depth fs inp =
     (case ti_cgroup_path inp of Some path \<Rightarrow> collect_cgroup_pids_at depth fs path {} | None \<Rightarrow> {})"

definition excluded_pids_of :: "process_map \<Rightarrow> target_snapshot_input \<Rightarrow> u32 set" where
  "excluded_pids_of processes inp = \<Union> (set (map (tree_of processes) (ti_exclude_tree_pids inp)))"

definition listed_pids :: "u32 set \<Rightarrow> target_snapshot_input \<Rightarrow> u32 list" where
  "listed_pids cgroup_roots inp = sorted_list_of_set cgroup_roots @ ti_manual_pids inp"

definition process_roots_of :: "process_map \<Rightarrow> u32 set \<Rightarrow> target_snapshot_input \<Rightarrow> u32 set" where
  "process_roots_of processes cgroup_roots inp =
     (set (filter (has_process processes) (listed_pids cgroup_roots inp))
      \<union> \<Union> (set (map (tree_of processes) (ti_tree_pids inp)))) - excluded_pids_of processes inp"

definition missing_task :: "u32 \<Rightarrow> task_info" where
  "missing_task pid =
     \<lparr>t_tid = pid, t_process_pid = pid, t_process_ppid = 0, t_comm = ''?'', t_process_comm = ''?'',
      t_process_starttime_ticks = None, t_task_starttime_ticks = None, t_exe_dev = None, t_exe_ino = None,
      t_class = TC_Unknown, t_sched_policy = None, t_from_cgroup = False\<rparr>"

record resolve_state =
  rv_tasks :: task_map
  rv_requested :: "u32 set"
  rv_missing :: "u32 list"
  rv_report :: scan_report

text \<open>One identifier that is not a process: the thread of a process outside the excluded trees, or missing.\<close>

definition resolve_one ::
  "proc_fs \<Rightarrow> target_snapshot_input \<Rightarrow> process_map \<Rightarrow> u32 set \<Rightarrow> (u32 \<times> u32) list \<Rightarrow> u32 \<Rightarrow> resolve_state \<Rightarrow> resolve_state" where
  "resolve_one fs inp processes excluded owners tid st =
     (let miss = (if ti_keep_missing_pid inp
                  then st\<lparr>rv_requested := insert tid (rv_requested st), rv_missing := rv_missing st @ [tid]\<rparr> else st)
      in case map_of owners tid of
           None \<Rightarrow> miss
         | Some pid \<Rightarrow>
             if pid \<in> excluded then miss
             else case map_of processes pid of
                    None \<Rightarrow> miss
                  | Some p \<Rightarrow>
                     (case task_info_from_tid_at fs (ti_proc_root inp) tid pid p (ti_previous_tasks inp) (rv_report st) of
                        (task, report) \<Rightarrow>
                          st\<lparr>rv_requested := insert pid (rv_requested st), rv_tasks := bt_insert tid task (rv_tasks st),
                             rv_report := report\<rparr>))"

definition resolve_all ::
  "proc_fs \<Rightarrow> target_snapshot_input \<Rightarrow> process_map \<Rightarrow> u32 set \<Rightarrow> u32 list \<Rightarrow> resolve_state \<Rightarrow> resolve_state" where
  "resolve_all fs inp processes excluded unresolved st =
     (if unresolved = [] then st
      else case thread_owner_index_at fs (ti_proc_root inp) processes (input_budget inp) (rv_report st) of
             (owners, report) \<Rightarrow>
               fold (resolve_one fs inp processes excluded owners) unresolved (st\<lparr>rv_report := report\<rparr>))"

definition apply_community_rules_to_unknown_task :: "proc_info \<Rightarrow> rules_db \<Rightarrow> task_info \<Rightarrow> task_info" where
  "apply_community_rules_to_unknown_task p db task =
     (if t_class task \<noteq> TC_Unknown then task
      else case classify_process_identity_with_db db
                  \<lparr>cx_thread_comm = t_comm task, cx_process_comm = pi_comm p, cx_cmdline = pi_cmdline p,
                   cx_exe_path = pi_exe_path p, cx_cgroup_path = pi_cgroup_path p\<rparr> of
             Some hit \<Rightarrow> task\<lparr>t_class := ch_class hit\<rparr>
           | None \<Rightarrow> task)"

definition finish_task ::
  "target_snapshot_input \<Rightarrow> process_map \<Rightarrow> u32 set \<Rightarrow> u32 set \<Rightarrow> task_info \<Rightarrow> task_info" where
  "finish_task inp processes cgroup_roots requested_roots task =
     (let task = (if t_tid task \<in> cgroup_roots then task\<lparr>t_from_cgroup := True\<rparr> else task);
          task = (if t_class task = TC_Unknown
                  then (case (ti_community_rules inp, map_of processes (t_process_pid task)) of
                          (Some db, Some p) \<Rightarrow> apply_community_rules_to_unknown_task p db task
                        | _ \<Rightarrow> task)
                  else task)
      in if t_class task = TC_Unknown \<and> t_process_pid task \<notin> requested_roots then task\<lparr>t_class := TC_Helper\<rparr> else task)"

definition insert_missing :: "task_filters \<Rightarrow> u32 list \<Rightarrow> task_map \<Rightarrow> task_map" where
  "insert_missing filters missing tasks =
     fold (\<lambda>pid tasks. if filters_allow filters (missing_task pid) then bt_insert pid (missing_task pid) tasks else tasks)
       missing tasks"

definition target_snapshot ::
  "nat \<Rightarrow> proc_fs \<Rightarrow> target_snapshot_input \<Rightarrow> target_snapshot_result \<times> process_cache" where
  "target_snapshot depth fs inp =
     (let budget = input_budget inp;
          cache = (case ti_cache inp of Some c \<Rightarrow> c | None \<Rightarrow> default_cache);
          filters = (case ti_filters inp of Some f \<Rightarrow> f | None \<Rightarrow> default_filters);
          (processes, cache, report) = scan_processes_at fs (ti_proc_root inp) budget cache report_zero;
          cgroup_roots = cgroup_roots_of depth fs inp;
          listed = listed_pids cgroup_roots inp;
          unresolved = filter (\<lambda>pid. \<not> has_process processes pid) listed;
          requested = set (filter (has_process processes) listed) \<union> set (ti_tree_pids inp);
          process_roots = process_roots_of processes cgroup_roots inp;
          (tasks, report) =
            expand_tasks_at fs (ti_proc_root inp) process_roots processes (ti_previous_tasks inp) budget report;
          st = resolve_all fs inp processes (excluded_pids_of processes inp) unresolved
                 \<lparr>rv_tasks = tasks, rv_requested = requested, rv_missing = [], rv_report = report\<rparr>;
          tasks = insert_missing filters (rv_missing st) (rv_tasks st);
          tasks = map (\<lambda>(tid, task). (tid, finish_task inp processes cgroup_roots (rv_requested st) task)) tasks;
          tasks = filter (\<lambda>(_, task). filters_allow filters task) tasks
      in (\<lparr>ts_process_roots = process_roots, ts_tasks = tasks, ts_budget_report = rv_report st\<rparr>, cache))"

definition default_snapshot_input :: "(usize \<Rightarrow> bool) \<Rightarrow> target_snapshot_input" where
  "default_snapshot_input expired =
     \<lparr>ti_proc_root = ''/proc'', ti_manual_pids = [], ti_tree_pids = [], ti_cgroup_path = None, ti_exclude_tree_pids = [],
      ti_filters = None, ti_keep_missing_pid = False, ti_cache = None, ti_previous_tasks = None, ti_expired = expired,
      ti_max_threads_per_process = None, ti_community_rules = None\<rparr>"

section \<open>Differences\<close>

datatype target_diff_action = Diff_Added | Diff_Removed

definition diff_key :: "target_diff_action \<times> task_info \<Rightarrow> nat \<times> u32" where
  "diff_key d = (case fst d of Diff_Removed \<Rightarrow> 0 | Diff_Added \<Rightarrow> 1, t_tid (snd d))"

fun diff_insort :: "target_diff_action \<times> task_info \<Rightarrow> (target_diff_action \<times> task_info) list
    \<Rightarrow> (target_diff_action \<times> task_info) list" where
  "diff_insort d [] = [d]"
| "diff_insort d (e # es) =
     (if fst (diff_key d) < fst (diff_key e) \<or> fst (diff_key d) = fst (diff_key e) \<and> snd (diff_key d) \<le> snd (diff_key e)
      then d # e # es else e # diff_insort d es)"

definition diff_tasks_ref :: "task_map \<Rightarrow> task_map \<Rightarrow> (target_diff_action \<times> task_info) list" where
  "diff_tasks_ref old_tasks new_tasks =
     (let diffs = map (\<lambda>(_, task). (Diff_Added, task)) (filter (\<lambda>(tid, _). map_of old_tasks tid = None) new_tasks)
                  @ map (\<lambda>(_, task). (Diff_Removed, task)) (filter (\<lambda>(tid, _). map_of new_tasks tid = None) old_tasks)
      in foldr diff_insort diffs [])"

section \<open>Auto target\<close>

definition auto_candidates :: "proc_fs \<Rightarrow> string \<Rightarrow> (u32 \<times> task_class) list" where
  "auto_candidates fs proc_root =
     (case pf_read_dir fs proc_root of
        Inl _ \<Rightarrow> []
      | Inr entries \<Rightarrow>
          List.map_filter (\<lambda>name.
            Option.bind (parse_u32 name) (\<lambda>pid.
            Option.bind (read_proc_info_at fs proc_root pid) (\<lambda>p.
              let c = classify_task_with_context (pi_comm p) (pi_comm p) (pi_cmdline p) (pi_exe_path p)
                        (pi_cgroup_path p) (pi_sched_policy p)
              in if c \<in> {TC_GameScope, TC_SteamRuntime, TC_Game, TC_Launcher} then Some (pid, c) else None)))
            (flatten entries))"

definition newest_first :: "u32 list \<Rightarrow> u32 list" where
  "newest_first pids = rev (sort pids)"

definition pids_of_class :: "(u32 \<times> task_class) list \<Rightarrow> task_class \<Rightarrow> u32 list" where
  "pids_of_class cs c = map fst (filter (\<lambda>(_, c'). c' = c) cs)"

definition steam_runtime_targets :: "proc_fs \<Rightarrow> string \<Rightarrow> u32 list \<Rightarrow> (u32 \<times> task_class) list" where
  "steam_runtime_targets fs proc_root pids =
     (let game_like = filter (\<lambda>pid. case read_proc_info_at fs proc_root pid of
                                      Some p \<Rightarrow> contains_likely_game_cmdline (pi_cmdline p) | None \<Rightarrow> False) pids
      in if game_like \<noteq> [] then map (\<lambda>pid. (pid, TC_SteamRuntime)) (newest_first game_like)
         else map (\<lambda>pid. (pid, TC_SteamRuntime)) (take 1 (newest_first pids)))"

definition find_auto_target_pids :: "proc_fs \<Rightarrow> string \<Rightarrow> (u32 \<times> task_class) list" where
  "find_auto_target_pids fs proc_root =
     (let cs = auto_candidates fs proc_root; pids = pids_of_class cs; all = (\<lambda>c. map (\<lambda>pid. (pid, c)) (newest_first (pids c)))
      in if pids TC_GameScope \<noteq> [] then all TC_GameScope
         else if pids TC_SteamRuntime \<noteq> [] then steam_runtime_targets fs proc_root (pids TC_SteamRuntime)
         else if pids TC_Game \<noteq> [] then all TC_Game
         else all TC_Launcher)"

end
