(* ===== verification/Affinity_Restore.thy ===== *)
theory Affinity_Restore
  imports Cpu_Mask Uclamp_Action Power_Actions Ordered_Map "HOL-Library.Product_Lexorder" "HOL-Library.Option_ord"
begin

text \<open>
  CPU affinity and its restore files: the affinity system calls and the affinity restore format
  (\<open>stutter/src/affinity/\<close>), and the profile restore format with affinity, nice and I/O priority records
  (\<open>stutter/src/profile_restore/\<close>). The kernel adds \<open>sched_getaffinity\<close> and \<open>sched_setaffinity\<close> to the host of the task
  actions; a \<open>cpu_set_t\<close> is the set of its CPUs. The JSON library is a parameter: parsing a text to a value, the
  presence of a field, the conversion to the two state types, and printing.
\<close>

section \<open>System calls\<close>

record 'w affinity_host =
  ah_sched :: "'w sched_host"
  ah_getaffinity :: "u32 \<Rightarrow> 'w \<Rightarrow> io_error + u32 set"
  ah_setaffinity :: "u32 \<Rightarrow> u32 set \<Rightarrow> 'w \<Rightarrow> (io_error + unit) \<times> 'w"

definition mask_to_cpu_set :: "cpu_mask \<Rightarrow> u32 set" where
  "mask_to_cpu_set m = fold insert (mask_cpus m) {}"

definition mask_from_cpu_set :: "u32 set \<Rightarrow> cpu_mask" where
  "mask_from_cpu_set cs =
     fold (\<lambda>cpu m. if cpu \<in> cs then mask_set cpu m else m) (map of_nat [0..<unat cpu_set_size]) empty_mask"

definition read_allowed_mask :: "'w affinity_host \<Rightarrow> u32 \<Rightarrow> 'w \<Rightarrow> io_error + cpu_mask" where
  "read_allowed_mask host tid w =
     (case ah_getaffinity host tid w of Inl e \<Rightarrow> Inl e | Inr cs \<Rightarrow> Inr (mask_from_cpu_set cs))"

definition set_affinity :: "'w affinity_host \<Rightarrow> u32 \<Rightarrow> cpu_mask \<Rightarrow> 'w \<Rightarrow> (io_error + unit) \<times> 'w" where
  "set_affinity host tid m w = ah_setaffinity host tid (mask_to_cpu_set m) w"

definition ESRCH :: int where "ESRCH = 3"

definition is_esrch :: "io_error \<Rightarrow> bool" where
  "is_esrch e \<longleftrightarrow> io_raw_os_error e = Some ESRCH"

section \<open>Records\<close>

record affinity_record =
  ar_tid :: u32
  ar_process_pid :: "u32 option"
  ar_process_starttime_ticks :: "u64 option"
  ar_task_starttime_ticks :: "u64 option"
  ar_original_mask :: cpu_mask
  ar_applied_mask :: cpu_mask

record affinity_restore_state =
  as_schema_version :: u32
  as_records :: "affinity_record list"

record nice_record_v2 =
  n2_tid :: u32
  n2_process_pid :: "u32 option"
  n2_process_starttime_ticks :: "u64 option"
  n2_task_starttime_ticks :: "u64 option"
  n2_comm :: "string option"
  n2_original_nice :: int
  n2_applied_nice :: int

record ioprio_record_v2 =
  i2_tid :: u32
  i2_process_pid :: "u32 option"
  i2_process_starttime_ticks :: "u64 option"
  i2_task_starttime_ticks :: "u64 option"
  i2_comm :: "string option"
  i2_original_ioprio :: int
  i2_applied_ioprio :: int

record profile_restore_state =
  pr_schema_version :: u32
  pr_affinity_records :: "affinity_record list"
  pr_nice_records :: "nice_record_v2 list"
  pr_ionice_records :: "ioprio_record_v2 list"

definition PROFILE_RESTORE_SCHEMA_VERSION :: u32 where "PROFILE_RESTORE_SCHEMA_VERSION = 1"

record affinity_restore_summary =
  am_restored :: usize
  am_skipped_dead :: usize
  am_skipped_identity_mismatch :: usize
  am_legacy_unverified :: usize
  am_errors :: usize

record profile_restore_counts =
  pm_affinity :: usize
  pm_nice :: usize
  pm_ionice :: usize
  pm_skipped_dead :: usize
  pm_skipped_identity_mismatch :: usize
  pm_legacy_unverified :: usize
  pm_errors :: usize

definition restored_total :: "profile_restore_counts \<Rightarrow> usize" where
  "restored_total s = pm_affinity s + pm_nice s + pm_ionice s"

definition affinity_summary_zero :: affinity_restore_summary where
  "affinity_summary_zero =
     \<lparr>am_restored = 0, am_skipped_dead = 0, am_skipped_identity_mismatch = 0, am_legacy_unverified = 0, am_errors = 0\<rparr>"

definition profile_summary_zero :: profile_restore_counts where
  "profile_summary_zero =
     \<lparr>pm_affinity = 0, pm_nice = 0, pm_ionice = 0, pm_skipped_dead = 0, pm_skipped_identity_mismatch = 0,
      pm_legacy_unverified = 0, pm_errors = 0\<rparr>"

section \<open>Identity of a record\<close>

datatype restore_record_status = RR_Verified | RR_LegacyUnverified | RR_Dead | RR_IdentityMismatch

definition stat_starttime_at :: "'w task_host \<Rightarrow> string \<Rightarrow> 'w \<Rightarrow> io_error + u64 option" where
  "stat_starttime_at host path w =
     (case th_read host path w of Inl e \<Rightarrow> Inl e | Inr stat \<Rightarrow> Inr (parse_proc_stat_starttime stat))"

definition identity_read_error :: "string \<Rightarrow> u32 \<Rightarrow> string \<Rightarrow> io_error \<Rightarrow> io_error" where
  "identity_read_error what tid path e =
     \<lparr>io_raw_os_error = None, io_kind = io_kind e,
      io_display = ''failed to read '' @ what @ '' identity for TID '' @ show_nat (unat tid) @ '' via '' @ path @ '': ''
        @ io_display e\<rparr>"

definition task_stat_path :: "u32 \<Rightarrow> u32 \<Rightarrow> string" where
  "task_stat_path pid tid = ''/proc/'' @ show_nat (unat pid) @ ''/task/'' @ show_nat (unat tid) @ ''/stat''"

definition restore_identity_status ::
  "'w task_host \<Rightarrow> u32 \<Rightarrow> u32 option \<Rightarrow> u64 option \<Rightarrow> u64 option \<Rightarrow> 'w \<Rightarrow> io_error + restore_record_status" where
  "restore_identity_status host tid process_pid process_ticks task_ticks w =
     (if process_pid = None \<and> process_ticks = None \<and> task_ticks = None then Inr RR_LegacyUnverified
      else case (process_pid, process_ticks, task_ticks) of
             (Some pid, Some process_ticks, Some task_ticks) \<Rightarrow>
               (let process_path = proc_file pid ''stat''; task_path = task_stat_path pid tid
                in case stat_starttime_at host process_path w of
                     Inl e \<Rightarrow>
                       if io_kind e = Io_NotFound then Inr RR_Dead
                       else Inl (identity_read_error ''process'' tid process_path e)
                   | Inr process_starttime \<Rightarrow>
                       if process_starttime \<noteq> Some process_ticks then Inr RR_IdentityMismatch
                       else case stat_starttime_at host task_path w of
                              Inl e \<Rightarrow>
                                if io_kind e = Io_NotFound then Inr RR_Dead
                                else Inl (identity_read_error ''task'' tid task_path e)
                            | Inr task_starttime \<Rightarrow>
                                if task_starttime \<noteq> Some task_ticks then Inr RR_IdentityMismatch else Inr RR_Verified)
           | _ \<Rightarrow> Inr RR_IdentityMismatch)"

abbreviation affinity_record_status :: "'w affinity_host \<Rightarrow> affinity_record \<Rightarrow> 'w \<Rightarrow> io_error + restore_record_status" where
  "affinity_record_status host r w \<equiv>
     restore_identity_status (sh_task (ah_sched host)) (ar_tid r) (ar_process_pid r) (ar_process_starttime_ticks r)
       (ar_task_starttime_ticks r) w"

section \<open>Restoring the affinity format\<close>

definition io_anyhow :: "io_error \<Rightarrow> anyhow" where
  "io_anyhow e = Anyhow [] (RootIo e)"

fun affinity_restore_all ::
  "'w affinity_host \<Rightarrow> affinity_record list \<Rightarrow> affinity_restore_summary \<times> anyhow list \<Rightarrow> 'w
    \<Rightarrow> (affinity_restore_summary \<times> anyhow list) \<times> 'w" where
  "affinity_restore_all host [] acc w = (acc, w)"
| "affinity_restore_all host (r # rs) (s, errs) w =
     (case affinity_record_status host r w of
        Inl e \<Rightarrow> affinity_restore_all host rs (s\<lparr>am_errors := am_errors s + 1\<rparr>, errs @ [io_anyhow e]) w
      | Inr RR_Dead \<Rightarrow> affinity_restore_all host rs (s\<lparr>am_skipped_dead := am_skipped_dead s + 1\<rparr>, errs) w
      | Inr RR_IdentityMismatch \<Rightarrow>
          affinity_restore_all host rs (s\<lparr>am_skipped_identity_mismatch := am_skipped_identity_mismatch s + 1\<rparr>, errs) w
      | Inr status \<Rightarrow>
          (let s = (if status = RR_LegacyUnverified then s\<lparr>am_legacy_unverified := am_legacy_unverified s + 1\<rparr> else s)
           in case set_affinity host (ar_tid r) (ar_original_mask r) w of
                (Inr _, w) \<Rightarrow> affinity_restore_all host rs (s\<lparr>am_restored := am_restored s + 1\<rparr>, errs) w
              | (Inl e, w) \<Rightarrow>
                  if is_esrch e then affinity_restore_all host rs (s\<lparr>am_skipped_dead := am_skipped_dead s + 1\<rparr>, errs) w
                  else affinity_restore_all host rs (s\<lparr>am_errors := am_errors s + 1\<rparr>,
                         errs @ [anyhow_msg (''failed to set CPU affinity for TID '' @ show_nat (unat (ar_tid r)) @ '': ''
                           @ io_display e)]) w))"

section \<open>Restoring the profile format\<close>

text \<open>\<open>anyhow_to_io_error\<close>: the I/O error at the root, or an \<open>Other\<close> error with the message.\<close>

definition anyhow_to_io_error :: "anyhow \<Rightarrow> io_error" where
  "anyhow_to_io_error err =
     (case any_root err of
        RootIo e \<Rightarrow> e
      | _ \<Rightarrow> \<lparr>io_raw_os_error = None, io_kind = Io_Other, io_display = any_display err\<rparr>)"

definition map_io_err :: "(anyhow + unit) \<times> 'w \<Rightarrow> (io_error + unit) \<times> 'w" where
  "map_io_err r = (case r of (Inl e, w) \<Rightarrow> (Inl (anyhow_to_io_error e), w) | (Inr u, w) \<Rightarrow> (Inr u, w))"

type_synonym restore_acc = "profile_restore_counts \<times> anyhow list"

definition acc_dead :: "restore_acc \<Rightarrow> restore_acc" where
  "acc_dead acc = (case acc of (s, errs) \<Rightarrow> (s\<lparr>pm_skipped_dead := pm_skipped_dead s + 1\<rparr>, errs))"

definition acc_mismatch :: "restore_acc \<Rightarrow> restore_acc" where
  "acc_mismatch acc = (case acc of (s, errs) \<Rightarrow> (s\<lparr>pm_skipped_identity_mismatch := pm_skipped_identity_mismatch s + 1\<rparr>, errs))"

definition acc_error :: "anyhow \<Rightarrow> restore_acc \<Rightarrow> restore_acc" where
  "acc_error e acc = (case acc of (s, errs) \<Rightarrow> (s\<lparr>pm_errors := pm_errors s + 1\<rparr>, errs @ [e]))"

text \<open>The outcome of one write: \<open>ok\<close> counts a success, \<open>what\<close> starts the message of a failure.\<close>

definition acc_write ::
  "(restore_acc \<Rightarrow> restore_acc) \<Rightarrow> string \<Rightarrow> (io_error + unit) \<times> 'w \<Rightarrow> restore_acc \<Rightarrow> restore_acc \<times> 'w" where
  "acc_write ok what r acc =
     (case r of
        (Inr _, w) \<Rightarrow> (ok acc, w)
      | (Inl e, w) \<Rightarrow> if is_esrch e then (acc_dead acc, w) else (acc_error (anyhow_msg (what @ '': '' @ io_display e)) acc, w))"

definition restore_affinity_record ::
  "'w affinity_host \<Rightarrow> affinity_record \<Rightarrow> restore_acc \<Rightarrow> 'w \<Rightarrow> restore_acc \<times> 'w" where
  "restore_affinity_record host r acc w =
     (case affinity_record_status host r w of
        Inl e \<Rightarrow> (acc_error (io_anyhow e) acc, w)
      | Inr RR_Dead \<Rightarrow> (acc_dead acc, w)
      | Inr RR_IdentityMismatch \<Rightarrow> (acc_mismatch acc, w)
      | Inr status \<Rightarrow>
          acc_write (\<lambda>(s, errs). (s\<lparr>pm_affinity := pm_affinity s + 1\<rparr>, errs))
            (''failed to restore affinity for TID '' @ show_nat (unat (ar_tid r)))
            (set_affinity host (ar_tid r) (ar_original_mask r) w)
            (if status = RR_LegacyUnverified
             then (case acc of (s, errs) \<Rightarrow> (s\<lparr>pm_legacy_unverified := pm_legacy_unverified s + 1\<rparr>, errs)) else acc))"

text \<open>\<open>restore_priority_identity\<close>: nice and I/O priority records are only restored when the identity is verified.\<close>

definition restore_priority_identity ::
  "'w affinity_host \<Rightarrow> u32 \<Rightarrow> u32 option \<times> u64 option \<times> u64 option \<Rightarrow> restore_acc \<Rightarrow> 'w \<Rightarrow> bool \<times> restore_acc" where
  "restore_priority_identity host tid identity acc w =
     (case identity of (pid, process_ticks, task_ticks) \<Rightarrow>
       (case restore_identity_status (sh_task (ah_sched host)) tid pid process_ticks task_ticks w of
          Inr RR_Verified \<Rightarrow> (True, acc)
        | Inr RR_Dead \<Rightarrow> (False, acc_dead acc)
        | Inr _ \<Rightarrow> (False, acc_mismatch acc)
        | Inl e \<Rightarrow> (False, acc_error (io_anyhow e) acc)))"

definition n2_identity :: "nice_record_v2 \<Rightarrow> u32 option \<times> u64 option \<times> u64 option" where
  "n2_identity r = (n2_process_pid r, n2_process_starttime_ticks r, n2_task_starttime_ticks r)"

definition i2_identity :: "ioprio_record_v2 \<Rightarrow> u32 option \<times> u64 option \<times> u64 option" where
  "i2_identity r = (i2_process_pid r, i2_process_starttime_ticks r, i2_task_starttime_ticks r)"

definition restore_nice_record ::
  "'w affinity_host \<Rightarrow> nice_record_v2 \<Rightarrow> restore_acc \<Rightarrow> 'w \<Rightarrow> restore_acc \<times> 'w" where
  "restore_nice_record host r acc w =
     (case restore_priority_identity host (n2_tid r) (n2_identity r) acc w of
        (False, acc) \<Rightarrow> (acc, w)
      | (True, acc) \<Rightarrow>
          acc_write (\<lambda>(s, errs). (s\<lparr>pm_nice := pm_nice s + 1\<rparr>, errs))
            (''failed to restore nice='' @ show_int (n2_original_nice r) @ '' for TID '' @ show_nat (unat (n2_tid r)))
            (map_io_err (set_task_nice (sh_task (ah_sched host)) (n2_tid r) (n2_original_nice r) w)) acc)"

definition restore_ionice_record ::
  "'w affinity_host \<Rightarrow> ioprio_record_v2 \<Rightarrow> restore_acc \<Rightarrow> 'w \<Rightarrow> restore_acc \<times> 'w" where
  "restore_ionice_record host r acc w =
     (case restore_priority_identity host (i2_tid r) (i2_identity r) acc w of
        (False, acc) \<Rightarrow> (acc, w)
      | (True, acc) \<Rightarrow>
          acc_write (\<lambda>(s, errs). (s\<lparr>pm_ionice := pm_ionice s + 1\<rparr>, errs))
            (''failed to restore I/O priority='' @ show_int (i2_original_ioprio r) @ '' for TID '' @ show_nat (unat (i2_tid r)))
            (map_io_err (set_task_ioprio (ah_sched host) (i2_tid r) (i2_original_ioprio r) w)) acc)"

fun restore_each ::
  "('r \<Rightarrow> restore_acc \<Rightarrow> 'w \<Rightarrow> restore_acc \<times> 'w) \<Rightarrow> 'r list \<Rightarrow> restore_acc \<Rightarrow> 'w \<Rightarrow> restore_acc \<times> 'w" where
  "restore_each f [] acc w = (acc, w)"
| "restore_each f (r # rs) acc w = (case f r acc w of (acc, w) \<Rightarrow> restore_each f rs acc w)"

definition profile_restore_all :: "'w affinity_host \<Rightarrow> profile_restore_state \<Rightarrow> 'w \<Rightarrow> restore_acc \<times> 'w" where
  "profile_restore_all host state w =
     (case restore_each (restore_affinity_record host) (pr_affinity_records state) (profile_summary_zero, []) w of
        (acc, w) \<Rightarrow>
          (case restore_each (restore_nice_record host) (pr_nice_records state) acc w of
             (acc, w) \<Rightarrow> restore_each (restore_ionice_record host) (pr_ionice_records state) acc w))"

section \<open>Merging two states\<close>

type_synonym merge_key = "u32 \<times> u32 option \<times> u64 option \<times> u64 option"

definition affinity_key :: "affinity_record \<Rightarrow> merge_key" where
  "affinity_key r = (ar_tid r, ar_process_pid r, ar_process_starttime_ticks r, ar_task_starttime_ticks r)"

definition nice_key :: "nice_record_v2 \<Rightarrow> merge_key" where
  "nice_key r = (n2_tid r, n2_process_pid r, n2_process_starttime_ticks r, n2_task_starttime_ticks r)"

definition ionice_key :: "ioprio_record_v2 \<Rightarrow> merge_key" where
  "ionice_key r = (i2_tid r, i2_process_pid r, i2_process_starttime_ticks r, i2_task_starttime_ticks r)"

definition merge_by ::
  "('r \<Rightarrow> merge_key) \<Rightarrow> ('r \<Rightarrow> 'r \<Rightarrow> 'r) \<Rightarrow> 'r list \<Rightarrow> 'r list \<Rightarrow> 'r list" where
  "merge_by key combine existing new_records =
     map snd (fold (\<lambda>r. bt_upsert (key r) (combine r) r) new_records (bt_of (map (\<lambda>r. (key r, r)) existing)))"

definition combine_affinity :: "affinity_record \<Rightarrow> affinity_record \<Rightarrow> affinity_record" where
  "combine_affinity r existing =
     (if ar_applied_mask r = ar_original_mask existing then existing\<lparr>ar_original_mask := ar_original_mask r\<rparr>
      else existing\<lparr>ar_applied_mask := ar_applied_mask r\<rparr>)"

definition combine_nice :: "nice_record_v2 \<Rightarrow> nice_record_v2 \<Rightarrow> nice_record_v2" where
  "combine_nice r existing =
     (if n2_applied_nice r = n2_original_nice existing then existing\<lparr>n2_original_nice := n2_original_nice r\<rparr>
      else existing\<lparr>n2_applied_nice := n2_applied_nice r\<rparr>)"

definition combine_ionice :: "ioprio_record_v2 \<Rightarrow> ioprio_record_v2 \<Rightarrow> ioprio_record_v2" where
  "combine_ionice r existing =
     (if i2_applied_ioprio r = i2_original_ioprio existing then existing\<lparr>i2_original_ioprio := i2_original_ioprio r\<rparr>
      else existing\<lparr>i2_applied_ioprio := i2_applied_ioprio r\<rparr>)"

definition merge_affinity_records :: "affinity_record list \<Rightarrow> affinity_record list \<Rightarrow> affinity_record list" where
  "merge_affinity_records = merge_by affinity_key combine_affinity"

definition merge_nice_records :: "nice_record_v2 list \<Rightarrow> nice_record_v2 list \<Rightarrow> nice_record_v2 list" where
  "merge_nice_records = merge_by nice_key combine_nice"

definition merge_ionice_records :: "ioprio_record_v2 list \<Rightarrow> ioprio_record_v2 list \<Rightarrow> ioprio_record_v2 list" where
  "merge_ionice_records = merge_by ionice_key combine_ionice"

definition merge_restore_states :: "profile_restore_state \<Rightarrow> profile_restore_state \<Rightarrow> profile_restore_state" where
  "merge_restore_states existing new_state =
     \<lparr>pr_schema_version = PROFILE_RESTORE_SCHEMA_VERSION,
      pr_affinity_records = merge_affinity_records (pr_affinity_records existing) (pr_affinity_records new_state),
      pr_nice_records = merge_nice_records (pr_nice_records existing) (pr_nice_records new_state),
      pr_ionice_records = merge_ionice_records (pr_ionice_records existing) (pr_ionice_records new_state)\<rparr>"

end
