(* ===== verification/Affinity_Files.thy ===== *)
theory Affinity_Files
  imports Affinity_Restore
begin

text \<open>
  The restore files on disk (\<open>stutter/src/profile_restore/load.rs\<close>, \<open>save.rs\<close>, \<open>apply.rs\<close>, \<open>affinity/restore_file.rs\<close>) and the
  rollback handler of the CPU affinity profile (\<open>actions/cpu_affinity.rs\<close>, \<open>cpu_affinity/identity.rs\<close>). File operations and
  the JSON library are parameters.
\<close>

section \<open>Files and JSON\<close>

record 'w restore_files =
  rf_read :: "string \<Rightarrow> 'w \<Rightarrow> io_error + string"
  rf_exists :: "string \<Rightarrow> 'w \<Rightarrow> bool"
  rf_remove :: "string \<Rightarrow> 'w \<Rightarrow> (io_error + unit) \<times> 'w"
  rf_create_dir_all :: "string \<Rightarrow> 'w \<Rightarrow> (io_error + unit) \<times> 'w"
  rf_create_new :: "string \<Rightarrow> 'w \<Rightarrow> (io_error + unit) \<times> 'w"
  rf_write :: "string \<Rightarrow> string \<Rightarrow> 'w \<Rightarrow> (io_error + unit) \<times> 'w"
  rf_sync :: "string \<Rightarrow> 'w \<Rightarrow> (io_error + unit) \<times> 'w"
  rf_rename :: "string \<Rightarrow> string \<Rightarrow> 'w \<Rightarrow> (io_error + unit) \<times> 'w"
  rf_sync_dir :: "string \<Rightarrow> 'w \<Rightarrow> (io_error + unit) \<times> 'w"
  rf_tmp_suffix :: "'w \<Rightarrow> string"

record 'j restore_json =
  rj_parse :: "string \<Rightarrow> anyhow + 'j"
  rj_has :: "'j \<Rightarrow> string \<Rightarrow> bool"
  rj_profile :: "'j \<Rightarrow> anyhow + profile_restore_state"
  rj_affinity :: "'j \<Rightarrow> anyhow + affinity_restore_state"
  rj_print :: "profile_restore_state \<Rightarrow> string"

definition io_then :: "(io_error + unit) \<times> 'w \<Rightarrow> ('w \<Rightarrow> (anyhow + 'a) \<times> 'w) \<Rightarrow> (anyhow + 'a) \<times> 'w" where
  "io_then r f = (case r of (Inl e, w) \<Rightarrow> (Inl (io_anyhow e), w) | (Inr _, w) \<Rightarrow> f w)"

section \<open>Loading\<close>

definition load_profile_state ::
  "'w restore_files \<Rightarrow> 'j restore_json \<Rightarrow> string \<Rightarrow> 'w \<Rightarrow> anyhow + profile_restore_state" where
  "load_profile_state files json path w =
     (case rf_read files path w of
        Inl e \<Rightarrow> Inl (Anyhow [''failed to read profile restore file '' @ path] (RootIo e))
      | Inr data \<Rightarrow>
         (case rj_parse json data of
            Inl e \<Rightarrow> Inl (any_context (''failed to parse profile restore file '' @ path) e)
          | Inr v \<Rightarrow>
              if rj_has json v ''records''
              then Inl (anyhow_msg ''affinity restore format is not a profile restore file'')
              else res_bind (rj_profile json v) (\<lambda>state.
                     if pr_schema_version state \<noteq> PROFILE_RESTORE_SCHEMA_VERSION
                     then Inl (anyhow_msg (''unsupported profile restore schema '' @ show_nat (unat (pr_schema_version state))))
                     else Inr state)))"

definition load_affinity_state ::
  "'w restore_files \<Rightarrow> 'j restore_json \<Rightarrow> string \<Rightarrow> 'w \<Rightarrow> anyhow + affinity_restore_state" where
  "load_affinity_state files json path w =
     (case rf_read files path w of
        Inl e \<Rightarrow> Inl (Anyhow [''failed to read restore file '' @ path] (RootIo e))
      | Inr data \<Rightarrow>
         (case rj_parse json data of
            Inl e \<Rightarrow> Inl (any_context (''failed to parse restore file '' @ path) e)
          | Inr v \<Rightarrow>
              if list_ex (rj_has json v) [''affinity_records'', ''nice_records'', ''ionice_records'']
              then Inl (anyhow_msg ''profile restore format is not an affinity restore file'')
              else res_bind (rj_affinity json v) (\<lambda>state.
                     if as_schema_version state < 1 \<or> 3 < as_schema_version state
                     then Inl (anyhow_msg (''unsupported affinity restore schema '' @ show_nat (unat (as_schema_version state))))
                     else Inr state)))"

section \<open>Saving\<close>

text \<open>The content goes to a temporary file, which is synchronised and renamed over the path; on an error it is removed.\<close>

definition write_and_rename ::
  "'w restore_files \<Rightarrow> string \<Rightarrow> string \<Rightarrow> string \<Rightarrow> string \<Rightarrow> 'w \<Rightarrow> (anyhow + unit) \<times> 'w" where
  "write_and_rename files tmp path parent content w =
     io_then (rf_write files tmp content w) (\<lambda>w.
     io_then (rf_sync files tmp w) (\<lambda>w.
     io_then (rf_rename files tmp path w) (\<lambda>w.
     io_then (rf_sync_dir files parent w) (\<lambda>w. (Inr (), w)))))"

definition save_restore_state ::
  "'w restore_files \<Rightarrow> 'j restore_json \<Rightarrow> string \<Rightarrow> profile_restore_state \<Rightarrow> 'w \<Rightarrow> (anyhow + unit) \<times> 'w" where
  "save_restore_state files json path state w =
     io_then (case path_parent path of Some parent \<Rightarrow> rf_create_dir_all files parent w | None \<Rightarrow> (Inr (), w)) (\<lambda>w.
       let state = state\<lparr>pr_schema_version := PROFILE_RESTORE_SCHEMA_VERSION\<rparr>;
           parent = (case path_parent path of Some p \<Rightarrow> if p = [] then ''.'' else p | None \<Rightarrow> ''.'')
       in case path_file_name path of
            None \<Rightarrow> (Inl (anyhow_msg ''restore path requires a file name''), w)
          | Some name \<Rightarrow>
              let tmp = path_join parent (name @ rf_tmp_suffix files w)
              in io_then (rf_create_new files tmp w) (\<lambda>w.
                   case write_and_rename files tmp path parent (rj_print json state @ [CHR 0x0A]) w of
                     (Inr _, w) \<Rightarrow> (Inr (), w)
                   | (Inl e, w) \<Rightarrow> (Inl e, snd (rf_remove files tmp w))))"

definition save_merged_restore_state ::
  "'w restore_files \<Rightarrow> 'j restore_json \<Rightarrow> string \<Rightarrow> affinity_record list \<Rightarrow> nice_record_v2 list \<Rightarrow> ioprio_record_v2 list
    \<Rightarrow> bool \<Rightarrow> 'w \<Rightarrow> (anyhow + unit) \<times> 'w" where
  "save_merged_restore_state files json path affinity_records nice_records ionice_records force_overwrite w =
     (let new_state = \<lparr>pr_schema_version = PROFILE_RESTORE_SCHEMA_VERSION, pr_affinity_records = affinity_records,
                       pr_nice_records = nice_records, pr_ionice_records = ionice_records\<rparr>
      in if force_overwrite \<or> \<not> rf_exists files path w then save_restore_state files json path new_state w
         else case load_profile_state files json path w of
                Inl e \<Rightarrow> (Inl e, w)
              | Inr existing \<Rightarrow> save_restore_state files json path (merge_restore_states existing new_state) w)"

section \<open>Restoring a saved file\<close>

definition profile_restore_saved_with ::
  "'w affinity_host \<Rightarrow> 'w restore_files \<Rightarrow> 'j restore_json \<Rightarrow> string \<Rightarrow> (profile_restore_state \<Rightarrow> anyhow + unit) \<Rightarrow> 'w
    \<Rightarrow> (anyhow + profile_restore_counts) \<times> 'w" where
  "profile_restore_saved_with host files json path validate w =
     (case res_bind (load_profile_state files json path w) (\<lambda>state. res_bind (validate state) (\<lambda>_. Inr state)) of
        Inl e \<Rightarrow> (Inl e, w)
      | Inr state \<Rightarrow>
         (case profile_restore_all host state w of
            ((summary, errs), w) \<Rightarrow>
              if errs \<noteq> []
              then (Inl (anyhow_msg (''failed to restore '' @ show_nat (length errs)
                     @ '' profile record(s); restore file kept at '' @ path)), w)
              else (Inr summary, snd (rf_remove files path w))))"

definition profile_restore_saved ::
  "'w affinity_host \<Rightarrow> 'w restore_files \<Rightarrow> 'j restore_json \<Rightarrow> string \<Rightarrow> 'w \<Rightarrow> (anyhow + profile_restore_counts) \<times> 'w" where
  "profile_restore_saved host files json path w = profile_restore_saved_with host files json path (\<lambda>_. Inr ()) w"

definition affinity_restore_saved_with ::
  "'w affinity_host \<Rightarrow> 'w restore_files \<Rightarrow> 'j restore_json \<Rightarrow> string \<Rightarrow> (affinity_restore_state \<Rightarrow> anyhow + unit) \<Rightarrow> 'w
    \<Rightarrow> (anyhow + affinity_restore_summary) \<times> 'w" where
  "affinity_restore_saved_with host files json path validate w =
     (case res_bind (load_affinity_state files json path w) (\<lambda>state. res_bind (validate state) (\<lambda>_. Inr state)) of
        Inl e \<Rightarrow> (Inl e, w)
      | Inr state \<Rightarrow>
         (case affinity_restore_all host (as_records state) (affinity_summary_zero, []) w of
            ((summary, errs), w) \<Rightarrow>
              if errs \<noteq> []
              then (Inl (anyhow_msg (''failed to restore '' @ show_nat (length errs)
                     @ '' affinity record(s); restore file kept at '' @ path)), w)
              else (Inr summary, snd (rf_remove files path w))))"

definition affinity_restore_saved ::
  "'w affinity_host \<Rightarrow> 'w restore_files \<Rightarrow> 'j restore_json \<Rightarrow> string \<Rightarrow> 'w \<Rightarrow> (anyhow + affinity_restore_summary) \<times> 'w" where
  "affinity_restore_saved host files json path w = affinity_restore_saved_with host files json path (\<lambda>_. Inr ()) w"

section \<open>Identities that automatic recovery accepts\<close>

definition complete_identity :: "merge_key \<Rightarrow> bool" where
  "complete_identity k \<longleftrightarrow>
     (case k of (tid, pid, process_ticks, task_ticks) \<Rightarrow>
        0 < tid \<and> (case pid of Some p \<Rightarrow> 0 < p | None \<Rightarrow> False)
        \<and> (case process_ticks of Some t \<Rightarrow> 0 < t | None \<Rightarrow> False) \<and> (case task_ticks of Some t \<Rightarrow> 0 < t | None \<Rightarrow> False))"

fun validate_loop :: "merge_key list \<Rightarrow> u32 set \<Rightarrow> anyhow + u32 set" where
  "validate_loop [] tasks = Inr tasks"
| "validate_loop (k # ks) tasks =
     (if \<not> complete_identity k
      then Inl (anyhow_msg
        (''automatic affinity recovery refuses unverified legacy or incomplete task identity for TID '' @ show_nat (unat (fst k))
         @ ''; original state retained for explicit manual inspection/restore''))
      else validate_loop ks (insert (fst k) tasks))"

definition validate_identities :: "merge_key list \<Rightarrow> usize \<Rightarrow> anyhow + unit" where
  "validate_identities records expected =
     res_bind (validate_loop records {}) (\<lambda>tasks.
       if card tasks < expected
       then Inl (anyhow_msg (''automatic affinity recovery has '' @ show_nat (card tasks)
              @ '' original task identities for '' @ show_nat expected @ '' affected tasks; original state retained''))
       else Inr ())"

definition validate_profile :: "usize \<Rightarrow> profile_restore_state \<Rightarrow> anyhow + unit" where
  "validate_profile expected state =
     validate_identities (map affinity_key (pr_affinity_records state) @ map nice_key (pr_nice_records state)
       @ map ionice_key (pr_ionice_records state)) expected"

definition validate_affinity :: "usize \<Rightarrow> affinity_restore_state \<Rightarrow> anyhow + unit" where
  "validate_affinity expected state = validate_identities (map affinity_key (as_records state)) expected"

section \<open>The rollback handler\<close>

definition profile_counts_message :: "profile_restore_counts \<Rightarrow> string" where
  "profile_counts_message s =
     ''affinity='' @ show_nat (pm_affinity s) @ '' nice='' @ show_nat (pm_nice s) @ '' ionice='' @ show_nat (pm_ionice s)
     @ '' skipped_dead='' @ show_nat (pm_skipped_dead s) @ '' skipped_identity_mismatch=''
     @ show_nat (pm_skipped_identity_mismatch s) @ '' errors='' @ show_nat (pm_errors s)"

definition affinity_counts_message :: "affinity_restore_summary \<Rightarrow> string" where
  "affinity_counts_message s =
     ''restored='' @ show_nat (am_restored s) @ '' skipped_dead='' @ show_nat (am_skipped_dead s)
     @ '' skipped_identity_mismatch='' @ show_nat (am_skipped_identity_mismatch s) @ '' legacy_unverified=''
     @ show_nat (am_legacy_unverified s) @ '' errors='' @ show_nat (am_errors s)"

definition affinity_handler_restore_token ::
  "bool \<Rightarrow> 'w affinity_host \<Rightarrow> 'w restore_files \<Rightarrow> 'j restore_json \<Rightarrow> rollback_token \<Rightarrow> 'w \<Rightarrow> (anyhow + rollback_result) \<times> 'w" where
  "affinity_handler_restore_token require_verified_identity host files json token w =
     (case token of
        CpuAffinityRestoreFile path expected \<Rightarrow>
          if is_ok (load_profile_state files json path w)
          then (case profile_restore_saved_with host files json path
                       (\<lambda>state. if require_verified_identity then validate_profile expected state else Inr ()) w of
                  (Inl e, w) \<Rightarrow> (Inl e, w)
                | (Inr s, w) \<Rightarrow>
                    (Inr (token_restore_result ''cpu-affinity-rollback'' token (restored_total s)
                       (pm_skipped_dead s + pm_skipped_identity_mismatch s) [profile_counts_message s]), w))
          else (case affinity_restore_saved_with host files json path
                       (\<lambda>state. if require_verified_identity then validate_affinity expected state else Inr ()) w of
                  (Inl e, w) \<Rightarrow> (Inl e, w)
                | (Inr s, w) \<Rightarrow>
                    (Inr (token_restore_result ''cpu-affinity-rollback'' token (am_restored s)
                       (am_skipped_dead s + am_skipped_identity_mismatch s + am_legacy_unverified s)
                       [affinity_counts_message s]), w))
      | _ \<Rightarrow> (Inl (unsupported_token ''cpu-affinity-rollback'' ''cpu-affinity-restore-file'' token), w))"

definition affinity_handler_dry_run_token :: "rollback_token \<Rightarrow> anyhow + rollback_preview" where
  "affinity_handler_dry_run_token token =
     (case token of
        CpuAffinityRestoreFile _ _ \<Rightarrow>
          Inr (token_dry_run_preview ''cpu-affinity-rollback'' token ''cpu-affinity-restore-file'')
      | _ \<Rightarrow> Inl (unsupported_token ''cpu-affinity-rollback'' ''cpu-affinity-restore-file'' token))"

text \<open>The rollback of the action: the profile format first, the affinity format when that fails.\<close>

definition affinity_rollback ::
  "'w affinity_host \<Rightarrow> 'w restore_files \<Rightarrow> 'j restore_json \<Rightarrow> rollback_token \<Rightarrow> 'w \<Rightarrow> (anyhow + unit) \<times> 'w" where
  "affinity_rollback host files json token w =
     (case token of
        CpuAffinityRestoreFile path _ \<Rightarrow>
          (case profile_restore_saved host files json path w of
             (Inr _, w) \<Rightarrow> (Inr (), w)
           | (Inl _, w) \<Rightarrow>
              (case affinity_restore_saved host files json path w of
                 (Inr _, w) \<Rightarrow> (Inr (), w)
               | (Inl e, w) \<Rightarrow> (Inl e, w)))
      | _ \<Rightarrow> (Inl (wrong_token ''cpu-affinity-restore-file'' token), w))"

end
