(* ===== verification/Profile_Model.thy ===== *)
theory Profile_Model
  imports Target_Snapshot Affinity_Files
begin

text \<open>
  Affinity and priority profiles (\<open>stutter/src/profiles/\<close>): the rules, which rule decides a task (\<open>matching.rs\<close>), evaluation on
  active tasks (\<open>evaluate.rs\<close>), warnings (\<open>warnings.rs\<close>), loading and validating a profile file (\<open>parse.rs\<close>) and printing
  one (\<open>render.rs\<close>). The TOML and regex libraries and the file of online CPUs are parameters.
\<close>

section \<open>Profiles\<close>

record profile_rule =
  ru_affinity :: "cpu_mask option"
  ru_nice :: "int option"
  ru_ionice :: "ioprio_value option"
  ru_match_class :: "task_class list"
  ru_match_comm :: "compiled_pattern list"

record profile =
  pl_name :: string
  pl_rules :: "profile_rule list"

text \<open>\<open>to_range_string\<close> with its loops run to the end.\<close>

definition range_string :: "cpu_mask \<Rightarrow> string" where
  "range_string m = (case to_range_string m of Some s \<Rightarrow> s | None \<Rightarrow> [])"

section \<open>Matching\<close>

datatype comm_field = CF_TaskComm | CF_ProcessComm

record comm_pattern_hit =
  ph_field :: comm_field
  ph_pattern_index :: usize
  ph_pattern :: string
  ph_value :: string

record rule_match_evidence =
  ev_matched_class :: bool
  ev_rule_had_match_class :: bool
  ev_rule_had_match_comm :: bool
  ev_comm_hits :: "comm_pattern_hit list"

definition pattern_hits :: "task_info \<Rightarrow> usize \<times> compiled_pattern \<Rightarrow> comm_pattern_hit list" where
  "pattern_hits task p =
     (case p of (idx, pattern) \<Rightarrow>
        (if pattern_matches pattern (t_comm task)
         then [\<lparr>ph_field = CF_TaskComm, ph_pattern_index = idx, ph_pattern = cp_raw pattern, ph_value = t_comm task\<rparr>] else [])
        @ (if pattern_matches pattern (t_process_comm task)
           then [\<lparr>ph_field = CF_ProcessComm, ph_pattern_index = idx, ph_pattern = cp_raw pattern,
                  ph_value = t_process_comm task\<rparr>] else []))"

definition profile_rule_match_evidence :: "task_info \<Rightarrow> profile_rule \<Rightarrow> rule_match_evidence option" where
  "profile_rule_match_evidence task rule =
     (let had_class = ru_match_class rule \<noteq> [];
          had_comm = ru_match_comm rule \<noteq> [];
          matched_class = had_class \<and> t_class task \<in> set (ru_match_class rule)
      in if had_class \<and> \<not> matched_class then None
         else let hits = (if had_comm then concat (map (pattern_hits task) (enumerate 0 (ru_match_comm rule))) else [])
              in if had_comm \<and> hits = [] then None
                 else Some \<lparr>ev_matched_class = matched_class, ev_rule_had_match_class = had_class,
                            ev_rule_had_match_comm = had_comm, ev_comm_hits = hits\<rparr>)"

definition profile_rule_matches_task :: "task_info \<Rightarrow> profile_rule \<Rightarrow> bool" where
  "profile_rule_matches_task task rule \<longleftrightarrow> profile_rule_match_evidence task rule \<noteq> None"

fun find_rule :: "task_info \<Rightarrow> (usize \<times> profile_rule) list \<Rightarrow> (usize \<times> profile_rule \<times> rule_match_evidence) option" where
  "find_rule task [] = None"
| "find_rule task ((idx, rule) # rules) =
     (case profile_rule_match_evidence task rule of
        Some evidence \<Rightarrow> Some (idx, rule, evidence)
      | None \<Rightarrow> find_rule task rules)"

definition matching_profile_rule_with_evidence ::
  "task_info \<Rightarrow> profile \<Rightarrow> (usize \<times> profile_rule \<times> rule_match_evidence) option" where
  "matching_profile_rule_with_evidence task p = find_rule task (enumerate 0 (pl_rules p))"

definition matching_profile_rule_with_index :: "task_info \<Rightarrow> profile \<Rightarrow> (usize \<times> profile_rule) option" where
  "matching_profile_rule_with_index task p =
     map_option (\<lambda>(idx, rule, _). (idx, rule)) (matching_profile_rule_with_evidence task p)"

definition matching_profile_rule :: "task_info \<Rightarrow> profile \<Rightarrow> profile_rule option" where
  "matching_profile_rule task p = map_option snd (matching_profile_rule_with_index task p)"

definition profile_matches_task :: "task_info \<Rightarrow> profile \<Rightarrow> bool" where
  "profile_matches_task task p \<longleftrightarrow> list_ex (profile_rule_matches_task task) (pl_rules p)"

definition profile_matched_task_count :: "task_map \<Rightarrow> profile \<Rightarrow> usize" where
  "profile_matched_task_count tasks p = length (filter (\<lambda>(_, task). profile_matches_task task p) tasks)"

definition tree_snapshot :: "proc_fs \<Rightarrow> (usize \<Rightarrow> bool) \<Rightarrow> u32 \<Rightarrow> task_map" where
  "tree_snapshot fs expired tree_pid =
     ts_tasks (fst (target_snapshot 0 fs ((default_snapshot_input expired)\<lparr>ti_tree_pids := [tree_pid]\<rparr>)))"

definition profile_matched_task_count_for_tree :: "proc_fs \<Rightarrow> (usize \<Rightarrow> bool) \<Rightarrow> u32 \<Rightarrow> profile \<Rightarrow> usize" where
  "profile_matched_task_count_for_tree fs expired tree_pid p = profile_matched_task_count (tree_snapshot fs expired tree_pid) p"

section \<open>Evaluation on active tasks\<close>

record active_task_snapshot =
  at_tid :: u32
  at_process_pid :: u32
  at_comm :: string
  at_class :: task_class
  at_process_starttime_ticks :: "u64 option"
  at_task_starttime_ticks :: "u64 option"
  at_cgroup_path :: "string option"

record profile_task_plan =
  tp_tid :: u32
  tp_process_pid :: u32
  tp_comm :: string
  tp_class :: task_class
  tp_requested_mask :: string
  tp_matched_rule_index :: usize
  tp_matched_rule_name :: "string option"

definition task_info_from_active_snapshot :: "active_task_snapshot \<Rightarrow> task_info" where
  "task_info_from_active_snapshot task =
     \<lparr>t_tid = at_tid task, t_process_pid = at_process_pid task, t_process_ppid = 0, t_comm = at_comm task,
      t_process_comm = at_comm task, t_process_starttime_ticks = at_process_starttime_ticks task,
      t_task_starttime_ticks = at_task_starttime_ticks task, t_exe_dev = None, t_exe_ino = None, t_class = at_class task,
      t_sched_policy = None, t_from_cgroup = (at_cgroup_path task \<noteq> None)\<rparr>"

definition profile_matched_task_count_from_snapshots :: "active_task_snapshot list \<Rightarrow> profile \<Rightarrow> usize" where
  "profile_matched_task_count_from_snapshots tasks p =
     length (filter (\<lambda>task. profile_matches_task (task_info_from_active_snapshot task) p) tasks)"

definition evaluate_task :: "profile \<Rightarrow> active_task_snapshot \<Rightarrow> profile_task_plan option" where
  "evaluate_task p task =
     Option.bind (matching_profile_rule_with_index (task_info_from_active_snapshot task) p) (\<lambda>(idx, rule).
       Option.bind (ru_affinity rule) (\<lambda>m.
         Some \<lparr>tp_tid = at_tid task, tp_process_pid = at_process_pid task, tp_comm = at_comm task, tp_class = at_class task,
               tp_requested_mask = range_string m, tp_matched_rule_index = idx, tp_matched_rule_name = None\<rparr>))"

definition evaluate_profile_for_tasks :: "profile \<Rightarrow> active_task_snapshot list \<Rightarrow> profile_task_plan list" where
  "evaluate_profile_for_tasks p tasks = List.map_filter (evaluate_task p) tasks"

section \<open>Warnings\<close>

record profile_cpu_warning =
  cw_rule_index :: usize
  cw_requested :: string
  cw_online :: string

definition class_dimension_may_overlap :: "task_class list \<Rightarrow> task_class list \<Rightarrow> bool" where
  "class_dimension_may_overlap a b \<longleftrightarrow> a = [] \<or> b = [] \<or> list_ex (\<lambda>left. left \<in> set b) a"

definition comm_dimension_may_overlap :: "compiled_pattern list \<Rightarrow> compiled_pattern list \<Rightarrow> bool" where
  "comm_dimension_may_overlap a b \<longleftrightarrow> a = [] \<or> b = [] \<or> list_ex (\<lambda>left. list_ex (\<lambda>right. cp_raw left = cp_raw right) b) a"

definition rule_may_overlap :: "profile_rule \<Rightarrow> profile_rule \<Rightarrow> bool" where
  "rule_may_overlap earlier later \<longleftrightarrow>
     class_dimension_may_overlap (ru_match_class earlier) (ru_match_class later)
     \<and> comm_dimension_may_overlap (ru_match_comm earlier) (ru_match_comm later)"

definition profile_rule_overlap_warnings :: "profile_rule list \<Rightarrow> (usize \<times> usize) list" where
  "profile_rule_overlap_warnings rules =
     concat (map (\<lambda>earlier. map (\<lambda>later. (earlier, later))
       (filter (\<lambda>later. rule_may_overlap (rules ! earlier) (rules ! later)) [Suc earlier..<length rules])) [0..<length rules])"

definition profile_offline_cpu_warnings :: "profile \<Rightarrow> cpu_mask \<Rightarrow> profile_cpu_warning list" where
  "profile_offline_cpu_warnings p online =
     List.map_filter (\<lambda>(idx, rule).
       Option.bind (ru_affinity rule) (\<lambda>m.
         if is_subset_of m online then None
         else Some \<lparr>cw_rule_index = idx, cw_requested = range_string m, cw_online = range_string online\<rparr>))
       (enumerate 0 (pl_rules p))"

section \<open>Loading a profile file\<close>

text \<open>\<open>CpuMask::online_cpus\<close> on the content of \<open>/sys/devices/system/cpu/online\<close>.\<close>

definition online_cpus :: "io_error + string \<Rightarrow> anyhow + cpu_mask" where
  "online_cpus file =
     (case file of
        Inl e \<Rightarrow> Inl (Anyhow [''failed to read /sys/devices/system/cpu/online''] (RootIo e))
      | Inr data \<Rightarrow>
         (case parse_mask (trim data) of
            Inl e \<Rightarrow> Inl (any_context ''failed to parse online CPUs mask'' e)
          | Inr m \<Rightarrow> Inr m))"

record profile_rule_toml =
  rt_affinity :: "string option"
  rt_nice :: "int option"
  rt_ionice :: "string option"
  rt_match_class :: "string list"
  rt_match_comm :: "string list"

record profile_toml =
  ft_name :: string
  ft_rules :: "profile_rule_toml list"

definition class_table :: "(string \<times> task_class) list" where
  "class_table =
     [(''Game'', TC_Game), (''GameRenderThread'', TC_GameRenderThread), (''GameWorkerThread'', TC_GameWorkerThread), (''GameHelper'', TC_GameHelper),
      (''Launcher'', TC_Launcher), (''WineServer'', TC_WineServer), (''GameScope'', TC_GameScope), (''Compositor'', TC_Compositor),
      (''AudioRealtime'', TC_AudioRealtime), (''Input'', TC_Input), (''BrowserForeground'', TC_BrowserForeground), (''BrowserBackground'', TC_BrowserBackground),
      (''BrowserRenderer'', TC_BrowserRenderer), (''BrowserGpu'', TC_BrowserGpu), (''BrowserNetwork'', TC_BrowserNetwork), (''Compiler'', TC_Compiler),
      (''Linker'', TC_Linker), (''Indexer'', TC_Indexer), (''PackageManager'', TC_PackageManager), (''BuildJob'', TC_BuildJob),
      (''StorageDaemon'', TC_StorageDaemon), (''NetworkDaemon'', TC_NetworkDaemon), (''KernelThread'', TC_KernelThread), (''IrqThread'', TC_IrqThread),
      (''Editor'', TC_Editor), (''Terminal'', TC_Terminal), (''Shell'', TC_Shell), (''Media'', TC_Media),
      (''Recorder'', TC_Recorder), (''VirtualMachine'', TC_VirtualMachine), (''SteamRuntime'', TC_SteamRuntime), (''Render'', TC_Render),
      (''Helper'', TC_Helper), (''Service'', TC_Service), (''Unknown'', TC_Unknown)]"

definition parse_task_class :: "string \<Rightarrow> anyhow + task_class" where
  "parse_task_class v =
     (case map_of class_table v of Some c \<Rightarrow> Inr c | None \<Rightarrow> Inl (anyhow_msg (''unknown task class '' @ v)))"

definition parse_ionice_value :: "string \<Rightarrow> anyhow + ioprio_value" where
  "parse_ionice_value v =
     (let trimmed = ascii_lower (trim v)
      in if trimmed = ''idle'' then Inr ioprio_idle
         else if trimmed = ''none'' then Inr ioprio_none
         else if trimmed \<in> {''best-effort'', ''be'', ''realtime'', ''rt''}
         then Inl (anyhow_msg (''ionice value '' @ debug_str v @ '' requires a level 0..=7''))
         else case split_once (CHR '':'') trimmed of
                None \<Rightarrow> Inl (anyhow_msg (''invalid ionice value '' @ debug_str v))
              | Some (cls, level) \<Rightarrow>
                 (case parse_bits 8 level of
                    None \<Rightarrow> Inl (any_context (''invalid ionice level in '' @ debug_str v) (anyhow_msg (parse_unsigned_error level)))
                  | Some n \<Rightarrow>
                     res_bind
                       (if cls = ''best-effort'' \<or> cls = ''be'' then Inr (ioprio_best_effort (of_nat n))
                        else if cls = ''realtime'' \<or> cls = ''rt'' then Inr (ioprio_realtime (of_nat n))
                        else if cls = ''idle'' then Inl (anyhow_msg ''ionice class idle must not specify a level'')
                        else if cls = ''none'' then Inl (anyhow_msg ''ionice class none must not specify a level'')
                        else Inl (anyhow_msg (''invalid ionice class '' @ debug_str cls)))
                       (\<lambda>parsed. res_bind (ioprio_encode parsed) (\<lambda>_. Inr parsed))))"

definition parse_affinity_value :: "io_error + string \<Rightarrow> string \<Rightarrow> anyhow + cpu_mask" where
  "parse_affinity_value online v = (if trim v = ''online'' then online_cpus online else parse_mask v)"

definition transpose_opt :: "('a \<Rightarrow> 'e + 'b) \<Rightarrow> 'a option \<Rightarrow> 'e + 'b option" where
  "transpose_opt f x = (case x of None \<Rightarrow> Inr None | Some v \<Rightarrow> res_bind (f v) (\<lambda>y. Inr (Some y)))"

definition rule_from_toml ::
  "(string \<Rightarrow> string + (string \<Rightarrow> bool)) \<Rightarrow> io_error + string \<Rightarrow> profile_rule_toml \<Rightarrow> anyhow + profile_rule" where
  "rule_from_toml regex_new online rule =
     res_bind (res_map parse_task_class (rt_match_class rule)) (\<lambda>match_class.
     res_bind (res_map (pattern_new regex_new) (rt_match_comm rule)) (\<lambda>match_comm.
     res_bind (transpose_opt (parse_affinity_value online) (rt_affinity rule)) (\<lambda>affinity.
     res_bind (transpose_opt parse_ionice_value (rt_ionice rule)) (\<lambda>ionice.
       if rt_nice rule = None \<and> affinity = None \<and> ionice = None
       then Inl (anyhow_msg ''profile rule must specify at least one action field: affinity, nice, or ionice'')
       else case rt_nice rule of
              Some nice \<Rightarrow>
                if nice < - 20 \<or> 19 < nice
                then Inl (anyhow_msg (''nice value '' @ show_int nice @ '' is outside Linux range -20..=19''))
                else Inr \<lparr>ru_affinity = affinity, ru_nice = Some nice, ru_ionice = ionice, ru_match_class = match_class,
                          ru_match_comm = match_comm\<rparr>
            | None \<Rightarrow> Inr \<lparr>ru_affinity = affinity, ru_nice = None, ru_ionice = ionice, ru_match_class = match_class,
                           ru_match_comm = match_comm\<rparr>))))"

definition try_into_profile ::
  "(string \<Rightarrow> string + (string \<Rightarrow> bool)) \<Rightarrow> io_error + string \<Rightarrow> profile_toml \<Rightarrow> anyhow + profile" where
  "try_into_profile regex_new online t =
     res_bind (res_map (rule_from_toml regex_new online) (ft_rules t)) (\<lambda>rules. Inr \<lparr>pl_name = ft_name t, pl_rules = rules\<rparr>)"

fun validate_rules :: "cpu_mask \<Rightarrow> (usize \<times> profile_rule) list \<Rightarrow> anyhow + unit" where
  "validate_rules online [] = Inr ()"
| "validate_rules online ((i, rule) # rules) =
     (if ru_affinity rule = None \<and> ru_nice rule = None \<and> ru_ionice rule = None
      then Inl (anyhow_msg (''profile rule '' @ show_nat i
             @ '' must specify at least one action field: affinity, nice, or ionice''))
      else case ru_affinity rule of
             Some m \<Rightarrow>
               if mask_is_empty m then Inl (anyhow_msg (''profile rule '' @ show_nat i @ '' has empty affinity''))
               else if \<not> is_subset_of m online
               then Inl (anyhow_msg (''profile rule '' @ show_nat i @ '' requests CPUs not currently online. Online: ''
                      @ range_string online))
               else validate_rules online rules
           | None \<Rightarrow> validate_rules online rules)"

definition validate_profile_rules :: "io_error + string \<Rightarrow> profile \<Rightarrow> anyhow + profile" where
  "validate_profile_rules online p =
     (if pl_name p = [] then Inl (anyhow_msg ''profile name must not be empty'')
      else case online_cpus online of
             Inl e \<Rightarrow> Inl (any_context ''failed to read online CPU mask while validating profile'' e)
           | Inr m \<Rightarrow> res_bind (validate_rules m (enumerate 0 (pl_rules p))) (\<lambda>_. Inr p))"

definition parse_profiles ::
  "(string \<Rightarrow> anyhow + profile_toml list) \<Rightarrow> (string \<Rightarrow> string + (string \<Rightarrow> bool)) \<Rightarrow> io_error + string \<Rightarrow> string
    \<Rightarrow> anyhow + profile list" where
  "parse_profiles toml regex_new online data =
     res_bind (toml data) (res_map (\<lambda>t. res_bind (try_into_profile regex_new online t) (validate_profile_rules online)))"

datatype profile_error = PE_Read string io_error | PE_Parse string anyhow | PE_Validation string

fun profile_error_display :: "profile_error \<Rightarrow> string" where
  "profile_error_display (PE_Read path e) = ''failed to read profile '' @ path @ '': '' @ io_display e"
| "profile_error_display (PE_Parse path e) = ''failed to parse profile '' @ path @ '': '' @ any_display_alt e"
| "profile_error_display (PE_Validation message) = ''profile validation failed: '' @ message"

definition load_profiles ::
  "(string \<Rightarrow> io_error + string) \<Rightarrow> (string \<Rightarrow> anyhow + profile_toml list) \<Rightarrow> (string \<Rightarrow> string + (string \<Rightarrow> bool))
    \<Rightarrow> io_error + string \<Rightarrow> string \<Rightarrow> profile_error + profile list" where
  "load_profiles read toml regex_new online path =
     (case read path of
        Inl e \<Rightarrow> Inl (PE_Read path e)
      | Inr data \<Rightarrow>
         (case parse_profiles toml regex_new online data of Inl e \<Rightarrow> Inl (PE_Parse path e) | Inr ps \<Rightarrow> Inr ps))"

datatype profile_load_error = PL_Profile profile_error | PL_Msg string

definition load_selected_profile ::
  "(string \<Rightarrow> profile_error + profile list) \<Rightarrow> string \<Rightarrow> string option \<Rightarrow> profile_load_error + profile" where
  "load_selected_profile load path profile_name =
     (case load path of
        Inl e \<Rightarrow> Inl (PL_Profile e)
      | Inr profiles \<Rightarrow>
         (case profile_name of
            None \<Rightarrow>
              (case profiles of
                 [] \<Rightarrow> Inl (PL_Msg (''profile file '' @ path @ '' did not contain [[profile]]''))
               | p # _ \<Rightarrow> Inr p)
          | Some name \<Rightarrow>
             (let available = join '', '' (map pl_name profiles)
              in case find (\<lambda>p. pl_name p = name) profiles of
                   Some p \<Rightarrow> Inr p
                 | None \<Rightarrow>
                     Inl (PL_Msg (''profile '' @ [CHR 0x27] @ name @ [CHR 0x27] @ '' not found in '' @ path
                       @ ''; available profiles: '' @ (if available = [] then ''<none>'' else available))))))"

section \<open>Printing\<close>

fun task_class_toml_name :: "task_class \<Rightarrow> string" where
  "task_class_toml_name TC_Game = ''Game''"
| "task_class_toml_name TC_GameRenderThread = ''GameRenderThread''"
| "task_class_toml_name TC_GameWorkerThread = ''GameWorkerThread''"
| "task_class_toml_name TC_GameHelper = ''GameHelper''"
| "task_class_toml_name TC_Launcher = ''Launcher''"
| "task_class_toml_name TC_WineServer = ''WineServer''"
| "task_class_toml_name TC_GameScope = ''GameScope''"
| "task_class_toml_name TC_Compositor = ''Compositor''"
| "task_class_toml_name TC_AudioRealtime = ''AudioRealtime''"
| "task_class_toml_name TC_Input = ''Input''"
| "task_class_toml_name TC_BrowserForeground = ''BrowserForeground''"
| "task_class_toml_name TC_BrowserBackground = ''BrowserBackground''"
| "task_class_toml_name TC_BrowserRenderer = ''BrowserRenderer''"
| "task_class_toml_name TC_BrowserGpu = ''BrowserGpu''"
| "task_class_toml_name TC_BrowserNetwork = ''BrowserNetwork''"
| "task_class_toml_name TC_Compiler = ''Compiler''"
| "task_class_toml_name TC_Linker = ''Linker''"
| "task_class_toml_name TC_Indexer = ''Indexer''"
| "task_class_toml_name TC_PackageManager = ''PackageManager''"
| "task_class_toml_name TC_BuildJob = ''BuildJob''"
| "task_class_toml_name TC_StorageDaemon = ''StorageDaemon''"
| "task_class_toml_name TC_NetworkDaemon = ''NetworkDaemon''"
| "task_class_toml_name TC_KernelThread = ''KernelThread''"
| "task_class_toml_name TC_IrqThread = ''IrqThread''"
| "task_class_toml_name TC_Editor = ''Editor''"
| "task_class_toml_name TC_Terminal = ''Terminal''"
| "task_class_toml_name TC_Shell = ''Shell''"
| "task_class_toml_name TC_Media = ''Media''"
| "task_class_toml_name TC_Recorder = ''Recorder''"
| "task_class_toml_name TC_VirtualMachine = ''VirtualMachine''"
| "task_class_toml_name TC_SteamRuntime = ''SteamRuntime''"
| "task_class_toml_name TC_Render = ''Render''"
| "task_class_toml_name TC_Helper = ''Helper''"
| "task_class_toml_name TC_Service = ''Service''"
| "task_class_toml_name TC_Unknown = ''Unknown''"

definition toml_escape :: "char \<Rightarrow> string" where
  "toml_escape c =
     (if c = CHR 0x5C then [CHR 0x5C, CHR 0x5C]
      else if c = CHR 0x22 then [CHR 0x5C, CHR 0x22]
      else if c = CHR 0x0A then [CHR 0x5C, CHR ''n'']
      else if c = CHR 0x0D then [CHR 0x5C, CHR ''r'']
      else if c = CHR 0x09 then [CHR 0x5C, CHR ''t'']
      else [c])"

definition toml_quoted_string :: "string \<Rightarrow> string" where
  "toml_quoted_string v = [CHR 0x22] @ concat (map toml_escape v) @ [CHR 0x22]"

definition newline :: string where "newline = [CHR 0x0A]"

definition render_list :: "string \<Rightarrow> string list \<Rightarrow> string" where
  "render_list key vs =
     (if vs = [] then [] else key @ '' = ['' @ join '', '' (map toml_quoted_string vs) @ '']'' @ newline)"

definition render_rule :: "profile_rule \<Rightarrow> string" where
  "render_rule rule =
     ''[[profile.rules]]'' @ newline
     @ (case ru_affinity rule of Some m \<Rightarrow> ''affinity = '' @ toml_quoted_string (range_string m) @ newline | None \<Rightarrow> [])
     @ (case ru_nice rule of Some nice \<Rightarrow> ''nice = '' @ show_int nice @ newline | None \<Rightarrow> [])
     @ (case ru_ionice rule of Some v \<Rightarrow> ''ionice = '' @ toml_quoted_string (ioprio_value_label v) @ newline | None \<Rightarrow> [])
     @ render_list ''match_class'' (map task_class_toml_name (ru_match_class rule))
     @ render_list ''match_comm'' (map cp_raw (ru_match_comm rule))
     @ newline"

definition render_profiles_toml :: "profile list \<Rightarrow> string" where
  "render_profiles_toml profiles =
     concat (map (\<lambda>p. ''[[profile]]'' @ newline @ ''name = '' @ toml_quoted_string (pl_name p) @ newline @ newline
       @ concat (map render_rule (pl_rules p))) profiles)"

end
