(* ===== verification/Profile_Plan.thy ===== *)
theory Profile_Plan
  imports Profile_Model
begin

text \<open>
  Planning a profile (\<open>stutter/src/profiles/action_decision.rs\<close>, \<open>plan.rs\<close>, \<open>summary.rs\<close>): for every task the first matching rule,
  the current affinity, nice value and I/O priority of the task, and what the rule asks to change. The three readers are
  functions of the thread.
\<close>

section \<open>Decisions\<close>

datatype action_status =
  AS_NoAction | AS_AlreadySatisfied | AS_Pending | AS_SkippedDeadTask | AS_SkippedIncompleteIdentity | AS_ReadError

record task_readers =
  rd_mask :: "u32 \<Rightarrow> io_error + cpu_mask"
  rd_nice :: "u32 \<Rightarrow> anyhow + int"
  rd_ioprio :: "u32 \<Rightarrow> anyhow + int"

text \<open>\<open>ProfileAffinityDecision\<close> and \<open>ProfileNiceDecision\<close> differ only in the type of the value.\<close>

record 'v value_decision =
  vd_status :: action_status
  vd_current :: "'v option"
  vd_desired :: "'v option"
  vd_reason :: "string option"

record ionice_decision =
  od_status :: action_status
  od_current_encoded :: "int option"
  od_current :: "ioprio_value option"
  od_desired_encoded :: "int option"
  od_desired :: "ioprio_value option"
  od_reason :: "string option"

record task_action_decision =
  td_affinity :: "cpu_mask value_decision option"
  td_nice :: "int value_decision option"
  td_ionice :: "ionice_decision option"

definition vd_has :: "action_status \<Rightarrow> 'v value_decision option \<Rightarrow> bool" where
  "vd_has status d \<longleftrightarrow> (case d of Some d \<Rightarrow> vd_status d = status | None \<Rightarrow> False)"

definition od_has :: "action_status \<Rightarrow> ionice_decision option \<Rightarrow> bool" where
  "od_has status d \<longleftrightarrow> (case d of Some d \<Rightarrow> od_status d = status | None \<Rightarrow> False)"

definition task_disappeared :: "task_action_decision \<Rightarrow> bool" where
  "task_disappeared d \<longleftrightarrow>
     vd_has AS_SkippedDeadTask (td_affinity d) \<or> vd_has AS_SkippedDeadTask (td_nice d) \<or> od_has AS_SkippedDeadTask (td_ionice d)"

definition affinity_pending :: "task_action_decision \<Rightarrow> bool" where
  "affinity_pending d = vd_has AS_Pending (td_affinity d)"

definition nice_pending :: "task_action_decision \<Rightarrow> bool" where
  "nice_pending d = vd_has AS_Pending (td_nice d)"

definition ionice_pending :: "task_action_decision \<Rightarrow> bool" where
  "ionice_pending d = od_has AS_Pending (td_ionice d)"

definition decision_pending :: "task_action_decision \<Rightarrow> bool" where
  "decision_pending d \<longleftrightarrow> affinity_pending d \<or> nice_pending d \<or> ionice_pending d"

definition task_has_complete_identity :: "task_info \<Rightarrow> bool" where
  "task_has_complete_identity task \<longleftrightarrow> t_process_starttime_ticks task \<noteq> None \<and> t_task_starttime_ticks task \<noteq> None"

definition anyhow_raw_os_error :: "anyhow \<Rightarrow> int option" where
  "anyhow_raw_os_error err = (case any_root err of RootIo e \<Rightarrow> io_raw_os_error e | _ \<Rightarrow> None)"

definition decided_status :: "task_info \<Rightarrow> bool \<Rightarrow> action_status" where
  "decided_status task same =
     (if same then AS_AlreadySatisfied
      else if task_has_complete_identity task then AS_Pending else AS_SkippedIncompleteIdentity)"

definition decided_reason :: "action_status \<Rightarrow> string option" where
  "decided_reason status = (if status = AS_SkippedIncompleteIdentity then Some ''task identity was incomplete'' else None)"

definition decide_affinity :: "task_readers \<Rightarrow> task_info \<Rightarrow> cpu_mask \<Rightarrow> anyhow + cpu_mask value_decision" where
  "decide_affinity rd task desired =
     (case rd_mask rd (t_tid task) of
        Inr current \<Rightarrow>
          (let status = decided_status task (current = desired)
           in Inr \<lparr>vd_status = status, vd_current = Some current, vd_desired = Some desired, vd_reason = decided_reason status\<rparr>)
      | Inl e \<Rightarrow>
          if io_raw_os_error e = Some ESRCH
          then Inr \<lparr>vd_status = AS_SkippedDeadTask, vd_current = None, vd_desired = Some desired,
                    vd_reason = Some ''task disappeared while reading current affinity''\<rparr>
          else Inl (anyhow_msg (''failed to read CPU affinity for TID '' @ show_nat (unat (t_tid task)) @ '': '' @ io_display e)))"

definition decide_nice :: "task_readers \<Rightarrow> task_info \<Rightarrow> int \<Rightarrow> anyhow + int value_decision" where
  "decide_nice rd task desired =
     (case rd_nice rd (t_tid task) of
        Inr current \<Rightarrow>
          (let status = decided_status task (current = desired)
           in Inr \<lparr>vd_status = status, vd_current = Some current, vd_desired = Some desired, vd_reason = decided_reason status\<rparr>)
      | Inl e \<Rightarrow>
          if anyhow_raw_os_error e = Some ESRCH
          then Inr \<lparr>vd_status = AS_SkippedDeadTask, vd_current = None, vd_desired = Some desired,
                    vd_reason = Some ''task disappeared while reading current nice''\<rparr>
          else Inl (any_context (''failed to read nice for profile target TID '' @ show_nat (unat (t_tid task))) e))"

definition decide_ionice :: "task_readers \<Rightarrow> task_info \<Rightarrow> ioprio_value \<Rightarrow> anyhow + ionice_decision" where
  "decide_ionice rd task desired =
     (case rd_ioprio rd (t_tid task) of
        Inr current_encoded \<Rightarrow>
          res_bind (ioprio_encode desired) (\<lambda>desired_encoded.
            let status = decided_status task (current_encoded = desired_encoded)
            in Inr \<lparr>od_status = status, od_current_encoded = Some current_encoded,
                    od_current = (case ioprio_decode current_encoded of Inr v \<Rightarrow> Some v | Inl _ \<Rightarrow> None),
                    od_desired_encoded = Some desired_encoded, od_desired = Some desired, od_reason = decided_reason status\<rparr>)
      | Inl e \<Rightarrow>
          if anyhow_raw_os_error e = Some ESRCH
          then res_bind (ioprio_encode desired) (\<lambda>desired_encoded.
                 Inr \<lparr>od_status = AS_SkippedDeadTask, od_current_encoded = None, od_current = None,
                      od_desired_encoded = Some desired_encoded, od_desired = Some desired,
                      od_reason = Some ''task disappeared while reading current I/O priority''\<rparr>)
          else Inl (any_context (''failed to read I/O priority for profile target TID '' @ show_nat (unat (t_tid task))) e))"

text \<open>A task that disappears ends the decision at once; the later fields stay empty.\<close>

definition decide_profile_task_actions :: "task_readers \<Rightarrow> task_info \<Rightarrow> profile_rule \<Rightarrow> anyhow + task_action_decision" where
  "decide_profile_task_actions rd task rule =
     res_bind (transpose_opt (decide_affinity rd task) (ru_affinity rule)) (\<lambda>affinity.
       if vd_has AS_SkippedDeadTask affinity then Inr \<lparr>td_affinity = affinity, td_nice = None, td_ionice = None\<rparr>
       else res_bind (transpose_opt (decide_nice rd task) (ru_nice rule)) (\<lambda>nice.
              if vd_has AS_SkippedDeadTask nice then Inr \<lparr>td_affinity = affinity, td_nice = nice, td_ionice = None\<rparr>
              else res_bind (transpose_opt (decide_ionice rd task) (ru_ionice rule)) (\<lambda>ionice.
                     Inr \<lparr>td_affinity = affinity, td_nice = nice, td_ionice = ionice\<rparr>)))"

section \<open>Plans\<close>

fun ioprio_class_rank :: "ioprio_class \<Rightarrow> nat" where
  "ioprio_class_rank IC_None = 0"
| "ioprio_class_rank IC_Realtime = 1"
| "ioprio_class_rank IC_BestEffort = 2"
| "ioprio_class_rank IC_Idle = 3"

lemma ioprio_class_rank_inj: "ioprio_class_rank a = ioprio_class_rank b \<longleftrightarrow> a = b"
  by (cases a; cases b) simp_all

instantiation ioprio_class :: linorder
begin

definition less_eq_ioprio_class :: "ioprio_class \<Rightarrow> ioprio_class \<Rightarrow> bool" where
  "less_eq_ioprio_class a b \<longleftrightarrow> ioprio_class_rank a \<le> ioprio_class_rank b"

definition less_ioprio_class :: "ioprio_class \<Rightarrow> ioprio_class \<Rightarrow> bool" where
  "less_ioprio_class a b \<longleftrightarrow> ioprio_class_rank a < ioprio_class_rank b"

instance
  by standard (auto simp: less_eq_ioprio_class_def less_ioprio_class_def ioprio_class_rank_inj)

end

record profile_cache_key =
  ck_tid :: u32
  ck_process_starttime_ticks :: "u64 option"
  ck_task_starttime_ticks :: "u64 option"
  ck_desired_affinity :: "cpu_mask option"
  ck_desired_nice :: "int option"
  ck_desired_ionice :: "ioprio_value option"

text \<open>\<open>ProfileApplyCache\<close>: the keys whose tasks are known to be as their rule asks.\<close>

type_synonym profile_cache = "profile_cache_key set"

definition cache_key_new :: "task_info \<Rightarrow> profile_rule \<Rightarrow> profile_cache_key" where
  "cache_key_new task rule =
     \<lparr>ck_tid = t_tid task, ck_process_starttime_ticks = t_process_starttime_ticks task,
      ck_task_starttime_ticks = t_task_starttime_ticks task, ck_desired_affinity = ru_affinity rule,
      ck_desired_nice = ru_nice rule, ck_desired_ionice = ru_ionice rule\<rparr>"

record profile_apply_summary =
  pa_checked_tasks :: usize
  pa_pending_changes :: usize
  pa_pending_affinity :: usize
  pa_pending_nice :: usize
  pa_pending_ionice :: usize

definition apply_summary_zero :: profile_apply_summary where
  "apply_summary_zero =
     \<lparr>pa_checked_tasks = 0, pa_pending_changes = 0, pa_pending_affinity = 0, pa_pending_nice = 0, pa_pending_ionice = 0\<rparr>"

text \<open>The groups of \<open>ionice_groups\<close> are keyed by class and level, the fields of the value in the order they are compared.\<close>

record profile_apply_plan =
  pp_affinity_changes :: "affinity_record list"
  pp_nice_groups :: "(int \<times> task_identity list) list"
  pp_ionice_groups :: "((ioprio_class \<times> 8 word option) \<times> task_identity list) list"
  pp_summary :: profile_apply_summary
  pp_nice_records :: "nice_record_v2 list"
  pp_ionice_records :: "ioprio_record_v2 list"
  pp_cache_keys :: "profile_cache_key list"

definition empty_plan :: profile_apply_plan where
  "empty_plan =
     \<lparr>pp_affinity_changes = [], pp_nice_groups = [], pp_ionice_groups = [], pp_summary = apply_summary_zero,
      pp_nice_records = [], pp_ionice_records = [], pp_cache_keys = []\<rparr>"

definition plan_is_empty :: "profile_apply_plan \<Rightarrow> bool" where
  "plan_is_empty plan \<longleftrightarrow> pp_affinity_changes plan = [] \<and> pp_nice_groups plan = [] \<and> pp_ionice_groups plan = []"

definition identity_from_task_info :: "task_info \<Rightarrow> task_identity" where
  "identity_from_task_info task =
     \<lparr>tk_tid = t_tid task, tk_process_pid = Some (t_process_pid task), tk_comm = Some (t_comm task),
      tk_starttime_ticks = t_task_starttime_ticks task\<rparr>"

definition group_push :: "'k::linorder \<Rightarrow> 'a \<Rightarrow> ('k \<times> 'a list) list \<Rightarrow> ('k \<times> 'a list) list" where
  "group_push k x m = bt_upsert k (\<lambda>xs. xs @ [x]) [x] m"

definition internal_error :: "string \<Rightarrow> task_info \<Rightarrow> string \<Rightarrow> anyhow" where
  "internal_error what task missing =
     anyhow_msg (''internal error: pending '' @ what @ '' decision for TID '' @ show_nat (unat (t_tid task))
       @ '' is missing '' @ missing)"

definition plan_affinity :: "task_info \<Rightarrow> cpu_mask value_decision option \<Rightarrow> profile_apply_plan \<Rightarrow> anyhow + profile_apply_plan" where
  "plan_affinity task d plan =
     (if \<not> vd_has AS_Pending d then Inr plan
      else case vd_current (the d) of
             None \<Rightarrow> Inl (internal_error ''affinity'' task ''current mask'')
           | Some original \<Rightarrow>
              (case vd_desired (the d) of
                 None \<Rightarrow> Inl (internal_error ''affinity'' task ''desired mask'')
               | Some applied \<Rightarrow>
                   Inr (plan\<lparr>pp_summary := (pp_summary plan)\<lparr>pa_pending_affinity := pa_pending_affinity (pp_summary plan) + 1\<rparr>,
                             pp_affinity_changes := pp_affinity_changes plan
                               @ [\<lparr>ar_tid = t_tid task, ar_process_pid = Some (t_process_pid task),
                                   ar_process_starttime_ticks = t_process_starttime_ticks task,
                                   ar_task_starttime_ticks = t_task_starttime_ticks task,
                                   ar_original_mask = original, ar_applied_mask = applied\<rparr>]\<rparr>)))"

definition plan_nice :: "task_info \<Rightarrow> int value_decision option \<Rightarrow> profile_apply_plan \<Rightarrow> anyhow + profile_apply_plan" where
  "plan_nice task d plan =
     (if \<not> vd_has AS_Pending d then Inr plan
      else case vd_desired (the d) of
             None \<Rightarrow> Inl (internal_error ''nice'' task ''desired nice'')
           | Some desired \<Rightarrow>
              (case vd_current (the d) of
                 None \<Rightarrow> Inl (internal_error ''nice'' task ''current nice'')
               | Some original \<Rightarrow>
                   Inr (plan\<lparr>pp_summary := (pp_summary plan)\<lparr>pa_pending_nice := pa_pending_nice (pp_summary plan) + 1\<rparr>,
                             pp_nice_groups := group_push desired (identity_from_task_info task) (pp_nice_groups plan),
                             pp_nice_records := pp_nice_records plan
                               @ [\<lparr>n2_tid = t_tid task, n2_process_pid = Some (t_process_pid task),
                                   n2_process_starttime_ticks = t_process_starttime_ticks task,
                                   n2_task_starttime_ticks = t_task_starttime_ticks task, n2_comm = Some (t_comm task),
                                   n2_original_nice = original, n2_applied_nice = desired\<rparr>]\<rparr>)))"

definition plan_ionice :: "task_info \<Rightarrow> ionice_decision option \<Rightarrow> profile_apply_plan \<Rightarrow> anyhow + profile_apply_plan" where
  "plan_ionice task d plan =
     (if \<not> od_has AS_Pending d then Inr plan
      else case od_desired (the d) of
             None \<Rightarrow> Inl (internal_error ''ionice'' task ''desired I/O priority'')
           | Some desired \<Rightarrow>
              (case od_desired_encoded (the d) of
                 None \<Rightarrow> Inl (internal_error ''ionice'' task ''encoded desired I/O priority'')
               | Some encoded \<Rightarrow>
                  (case od_current_encoded (the d) of
                     None \<Rightarrow> Inl (internal_error ''ionice'' task ''current I/O priority'')
                   | Some original \<Rightarrow>
                       Inr (plan\<lparr>pp_summary := (pp_summary plan)\<lparr>pa_pending_ionice := pa_pending_ionice (pp_summary plan) + 1\<rparr>,
                                 pp_ionice_groups := group_push (iv_class desired, iv_level desired)
                                   (identity_from_task_info task) (pp_ionice_groups plan),
                                 pp_ionice_records := pp_ionice_records plan
                                   @ [\<lparr>i2_tid = t_tid task, i2_process_pid = Some (t_process_pid task),
                                       i2_process_starttime_ticks = t_process_starttime_ticks task,
                                       i2_task_starttime_ticks = t_task_starttime_ticks task, i2_comm = Some (t_comm task),
                                       i2_original_ioprio = original, i2_applied_ioprio = encoded\<rparr>]\<rparr>))))"

record plan_state =
  ps_plan :: profile_apply_plan
  ps_seen :: "profile_cache_key set"
  ps_pending :: "u32 set"
  ps_cache :: "profile_cache option"

definition plan_task :: "task_readers \<Rightarrow> profile \<Rightarrow> task_info \<Rightarrow> plan_state \<Rightarrow> anyhow + plan_state" where
  "plan_task rd p task st =
     (case matching_profile_rule task p of
        None \<Rightarrow> Inr st
      | Some rule \<Rightarrow>
         (let key = cache_key_new task rule;
              summary = pp_summary (ps_plan st);
              plan = (ps_plan st)\<lparr>pp_summary := summary\<lparr>pa_checked_tasks := pa_checked_tasks summary + 1\<rparr>\<rparr>;
              st = st\<lparr>ps_plan := plan, ps_seen := insert key (ps_seen st)\<rparr>
          in if (case ps_cache st of Some cache \<Rightarrow> key \<in> cache | None \<Rightarrow> False) then Inr st
             else res_bind (decide_profile_task_actions rd task rule) (\<lambda>d.
                    if task_disappeared d then Inr st
                    else res_bind (plan_affinity task (td_affinity d) plan) (\<lambda>plan.
                         res_bind (plan_nice task (td_nice d) plan) (\<lambda>plan.
                         res_bind (plan_ionice task (td_ionice d) plan) (\<lambda>plan.
                           if decision_pending d
                           then Inr (st\<lparr>ps_plan := plan\<lparr>pp_cache_keys := pp_cache_keys plan @ [key]\<rparr>,
                                        ps_pending := insert (t_tid task) (ps_pending st)\<rparr>)
                           else Inr (st\<lparr>ps_plan := plan, ps_cache := map_option (insert key) (ps_cache st)\<rparr>)))))))"

fun plan_loop_tasks :: "task_readers \<Rightarrow> profile \<Rightarrow> task_info list \<Rightarrow> plan_state \<Rightarrow> anyhow + plan_state" where
  "plan_loop_tasks rd p [] st = Inr st"
| "plan_loop_tasks rd p (task # tasks) st = res_bind (plan_task rd p task st) (plan_loop_tasks rd p tasks)"

text \<open>The plan and the cache afterwards; the tasks are visited in the order of their thread ids.\<close>

definition planned_profile_apply_with_readers ::
  "task_readers \<Rightarrow> task_map \<Rightarrow> profile \<Rightarrow> profile_cache option \<Rightarrow> anyhow + profile_apply_plan \<times> profile_cache option" where
  "planned_profile_apply_with_readers rd tasks p cache =
     res_bind (plan_loop_tasks rd p (map snd tasks) \<lparr>ps_plan = empty_plan, ps_seen = {}, ps_pending = {}, ps_cache = cache\<rparr>) (\<lambda>st.
       let plan = ps_plan st
       in Inr (plan\<lparr>pp_summary := (pp_summary plan)\<lparr>pa_pending_changes := card (ps_pending st)\<rparr>\<rparr>,
               map_option (\<lambda>c. c \<inter> ps_seen st) (ps_cache st)))"

section \<open>The summary without a plan\<close>

definition summary_count :: "bool \<Rightarrow> (profile_apply_summary \<Rightarrow> profile_apply_summary) \<Rightarrow> task_info
    \<Rightarrow> profile_apply_summary \<times> u32 set \<Rightarrow> profile_apply_summary \<times> u32 set" where
  "summary_count differs count task acc =
     (case acc of (s, pending) \<Rightarrow> if differs then (count s, insert (t_tid task) pending) else (s, pending))"

definition summary_ionice ::
  "task_readers \<Rightarrow> task_info \<Rightarrow> profile_rule \<Rightarrow> profile_apply_summary \<times> u32 set \<Rightarrow> anyhow + profile_apply_summary \<times> u32 set" where
  "summary_ionice rd task rule acc =
     (case ru_ionice rule of
        None \<Rightarrow> Inr acc
      | Some desired \<Rightarrow>
         (case rd_ioprio rd (t_tid task) of
            Inl e \<Rightarrow> if anyhow_raw_os_error e = Some ESRCH then Inr acc else Inl e
          | Inr current \<Rightarrow>
              res_bind (ioprio_encode desired) (\<lambda>encoded.
                Inr (summary_count (current \<noteq> encoded) (\<lambda>s. s\<lparr>pa_pending_ionice := pa_pending_ionice s + 1\<rparr>) task acc))))"

definition summary_nice ::
  "task_readers \<Rightarrow> task_info \<Rightarrow> profile_rule \<Rightarrow> profile_apply_summary \<times> u32 set \<Rightarrow> anyhow + profile_apply_summary \<times> u32 set" where
  "summary_nice rd task rule acc =
     (case ru_nice rule of
        None \<Rightarrow> summary_ionice rd task rule acc
      | Some desired \<Rightarrow>
         (case rd_nice rd (t_tid task) of
            Inl e \<Rightarrow> if anyhow_raw_os_error e = Some ESRCH then Inr acc else Inl e
          | Inr current \<Rightarrow>
              summary_ionice rd task rule
                (summary_count (current \<noteq> desired) (\<lambda>s. s\<lparr>pa_pending_nice := pa_pending_nice s + 1\<rparr>) task acc)))"

definition summary_task ::
  "task_readers \<Rightarrow> profile \<Rightarrow> task_info \<Rightarrow> profile_apply_summary \<times> u32 set \<Rightarrow> anyhow + profile_apply_summary \<times> u32 set" where
  "summary_task rd p task acc =
     (case matching_profile_rule task p of
        None \<Rightarrow> Inr acc
      | Some rule \<Rightarrow>
         (let acc = (case acc of (s, pending) \<Rightarrow> (s\<lparr>pa_checked_tasks := pa_checked_tasks s + 1\<rparr>, pending))
          in case ru_affinity rule of
               None \<Rightarrow> summary_nice rd task rule acc
             | Some desired \<Rightarrow>
                (case rd_mask rd (t_tid task) of
                   Inl e \<Rightarrow>
                     if io_raw_os_error e = Some ESRCH then Inr acc
                     else Inl (anyhow_msg (''failed to read CPU affinity for TID '' @ show_nat (unat (t_tid task)) @ '': ''
                            @ io_display e))
                 | Inr current \<Rightarrow>
                     summary_nice rd task rule
                       (summary_count (current \<noteq> desired) (\<lambda>s. s\<lparr>pa_pending_affinity := pa_pending_affinity s + 1\<rparr>)
                          task acc))))"

fun summary_loop ::
  "task_readers \<Rightarrow> profile \<Rightarrow> task_info list \<Rightarrow> profile_apply_summary \<times> u32 set \<Rightarrow> anyhow + profile_apply_summary \<times> u32 set" where
  "summary_loop rd p [] acc = Inr acc"
| "summary_loop rd p (task # tasks) acc = res_bind (summary_task rd p task acc) (summary_loop rd p tasks)"

definition profile_apply_summary_with_readers ::
  "task_readers \<Rightarrow> task_map \<Rightarrow> profile \<Rightarrow> anyhow + profile_apply_summary" where
  "profile_apply_summary_with_readers rd tasks p =
     res_bind (summary_loop rd p (map snd tasks) (apply_summary_zero, {})) (\<lambda>(s, pending).
       Inr (s\<lparr>pa_pending_changes := card pending\<rparr>))"

end
