(* ===== verification/Profile_Apply.thy ===== *)
theory Profile_Apply
  imports Profile_Plan Action_Runner_Facts
begin

text \<open>
  Applying a profile to a process tree (\<open>stutter/src/profiles/verify.rs\<close>, \<open>apply.rs\<close>, \<open>prepared.rs\<close>) and the tuning action
  around it (\<open>actions/cpu_affinity.rs\<close>). One world holds the procfs, the scheduler and the restore file.
\<close>

section \<open>The environment\<close>

record 'w profile_env =
  pv_host :: "'w affinity_host"
  pv_files :: "'w restore_files"
  pv_runner :: "'w runner_env"
  pv_fs :: "'w \<Rightarrow> proc_fs"
  pv_expired :: "usize \<Rightarrow> bool"
  pv_default_restore_path :: string

definition read_task_nice :: "'w task_host \<Rightarrow> u32 \<Rightarrow> 'w \<Rightarrow> anyhow + int" where
  "read_task_nice host tid w =
     (if tid = 0 then Inl (boundary_err (InvalidTargetTid ''nice'' tid))
      else let path = proc_file tid ''stat''
           in case th_read host path w of
                Inl e \<Rightarrow> Inl (Anyhow [''target task does not exist or stat is unreadable: '' @ path] (RootIo e))
              | Inr stat \<Rightarrow>
                 (case parse_stat_nice_and_starttime stat of
                    Inl e \<Rightarrow> Inl (any_context (''failed to parse nice from '' @ path) e)
                  | Inr (nice, _) \<Rightarrow> Inr nice))"

definition host_readers :: "'w affinity_host \<Rightarrow> 'w \<Rightarrow> task_readers" where
  "host_readers host w =
     \<lparr>rd_mask = (\<lambda>tid. read_allowed_mask host tid w), rd_nice = (\<lambda>tid. read_task_nice (sh_task (ah_sched host)) tid w),
      rd_ioprio = (\<lambda>tid. read_task_ioprio (ah_sched host) tid w)\<rparr>"

definition planned_profile_apply ::
  "'w affinity_host \<Rightarrow> task_map \<Rightarrow> profile \<Rightarrow> profile_cache option \<Rightarrow> 'w
    \<Rightarrow> anyhow + profile_apply_plan \<times> profile_cache option" where
  "planned_profile_apply host tasks p cache w = planned_profile_apply_with_readers (host_readers host w) tasks p cache"

definition env_tree :: "'w profile_env \<Rightarrow> u32 \<Rightarrow> 'w \<Rightarrow> task_map" where
  "env_tree env tree_pid w = tree_snapshot (pv_fs env w) (pv_expired env) tree_pid"

definition profile_apply_summary_for_tree :: "'w profile_env \<Rightarrow> u32 \<Rightarrow> profile \<Rightarrow> 'w \<Rightarrow> anyhow + profile_apply_summary" where
  "profile_apply_summary_for_tree env tree_pid p w =
     profile_apply_summary_with_readers (host_readers (pv_host env) w) (env_tree env tree_pid w) p"

section \<open>Preflight and verification of a plan\<close>

definition profile_ioprio_policy :: ioprio_policy where
  "profile_ioprio_policy =
     \<lparr>ip_allow_ioprio_changes = True, ip_allow_realtime_class = True, ip_allow_none_class = True,
      ip_max_best_effort_level = 7, ip_require_strong_block_io_evidence = False, ip_strong_block_io_evidence = True\<rparr>"

definition nice_group_action :: "int \<times> task_identity list \<Rightarrow> nice_action" where
  "nice_group_action g = \<lparr>na_targets = snd g, na_nice = fst g, na_policy = default_nice_policy\<rparr>"

definition ionice_group_value :: "(ioprio_class \<times> 8 word option) \<times> task_identity list \<Rightarrow> ioprio_value" where
  "ionice_group_value g = \<lparr>iv_class = fst (fst g), iv_level = snd (fst g)\<rparr>"

definition ionice_group_action :: "(ioprio_class \<times> 8 word option) \<times> task_identity list \<Rightarrow> ioprio_action" where
  "ionice_group_action g = \<lparr>ia_targets = snd g, ia_ioprio = ionice_group_value g, ia_policy = profile_ioprio_policy\<rparr>"

fun first_error :: "('a \<Rightarrow> anyhow + 'b) \<Rightarrow> 'a list \<Rightarrow> anyhow + unit" where
  "first_error f [] = Inr ()"
| "first_error f (x # xs) = res_bind (f x) (\<lambda>_. first_error f xs)"

definition with_context :: "string \<Rightarrow> anyhow + 'a \<Rightarrow> anyhow + 'a" where
  "with_context c r = (case r of Inl e \<Rightarrow> Inl (any_context c e) | Inr x \<Rightarrow> Inr x)"

definition preflight_profile_plan :: "'w affinity_host \<Rightarrow> profile_apply_plan \<Rightarrow> 'w \<Rightarrow> anyhow + unit" where
  "preflight_profile_plan host plan w =
     res_bind (first_error (\<lambda>g. with_context (''nice profile action preflight failed for nice='' @ show_int (fst g))
                 (nice_preflight (sh_task (ah_sched host)) (nice_group_action g) w)) (pp_nice_groups plan)) (\<lambda>_.
       first_error (\<lambda>g. with_context (''I/O priority profile action preflight failed for ionice=''
                 @ ioprio_value_label (ionice_group_value g))
         (ioprio_preflight (ah_sched host) (ionice_group_action g) w)) (pp_ionice_groups plan))"

definition verify_affinity_change :: "'w affinity_host \<Rightarrow> 'w \<Rightarrow> affinity_record \<Rightarrow> anyhow + unit" where
  "verify_affinity_change host w r =
     (case read_allowed_mask host (ar_tid r) w of
        Inr m \<Rightarrow>
          if m = ar_applied_mask r then Inr ()
          else Inl (anyhow_msg (''affinity verify failed for TID '' @ show_nat (unat (ar_tid r)) @ '': requested=''
                 @ range_string (ar_applied_mask r) @ '' actual='' @ range_string m))
      | Inl e \<Rightarrow>
          if is_esrch e then Inr ()
          else Inl (anyhow_msg (''failed to verify affinity for TID '' @ show_nat (unat (ar_tid r)) @ '': '' @ io_display e)))"

definition verify_affinity_plan :: "'w affinity_host \<Rightarrow> profile_apply_plan \<Rightarrow> 'w \<Rightarrow> anyhow + unit" where
  "verify_affinity_plan host plan w = first_error (verify_affinity_change host w) (pp_affinity_changes plan)"

section \<open>Applying\<close>

record profile_apply_result =
  pq_affinity_records :: "affinity_record list"
  pq_nice_records :: "nice_record_v2 list"
  pq_ionice_records :: "ioprio_record_v2 list"
  pq_summary :: profile_apply_summary

definition affected_tasks :: "profile_apply_result \<Rightarrow> usize" where
  "affected_tasks r = pa_pending_changes (pq_summary r)"

definition profile_uses_priority_actions :: "profile \<Rightarrow> bool" where
  "profile_uses_priority_actions p \<longleftrightarrow> list_ex (\<lambda>rule. ru_nice rule \<noteq> None \<or> ru_ionice rule \<noteq> None) (pl_rules p)"

definition result_from_plan :: "profile_apply_plan \<Rightarrow> profile_apply_result" where
  "result_from_plan plan =
     \<lparr>pq_affinity_records = sort_key ar_tid (pp_affinity_changes plan), pq_nice_records = pp_nice_records plan,
      pq_ionice_records = pp_ionice_records plan, pq_summary = pp_summary plan\<rparr>"

text \<open>The first loop of \<open>apply_profile_plan\<close>; the records of the tasks whose affinity was set are pushed to the result.\<close>

fun apply_affinity_changes ::
  "'w affinity_host \<Rightarrow> affinity_record list \<Rightarrow> affinity_record list \<Rightarrow> 'w \<Rightarrow> (anyhow + affinity_record list) \<times> 'w" where
  "apply_affinity_changes host [] done_records w = (Inr done_records, w)"
| "apply_affinity_changes host (r # rs) done_records w =
     (case set_affinity host (ar_tid r) (ar_applied_mask r) w of
        (Inr _, w) \<Rightarrow> apply_affinity_changes host rs (done_records @ [r]) w
      | (Inl e, w) \<Rightarrow>
          if is_esrch e then apply_affinity_changes host rs done_records w
          else (Inl (anyhow_msg (''failed to set affinity for TID '' @ show_nat (unat (ar_tid r)) @ '': '' @ io_display e)), w))"

fun run_groups ::
  "('g \<Rightarrow> 'w \<Rightarrow> (action_failure + audited_action_result) \<times> 'w) \<Rightarrow> ('g \<Rightarrow> string) \<Rightarrow> 'g list \<Rightarrow> 'w \<Rightarrow> (anyhow + unit) \<times> 'w" where
  "run_groups run what [] w = (Inr (), w)"
| "run_groups run what (g # gs) w =
     (case run g w of
        (Inl e, w) \<Rightarrow> (Inl (Anyhow [what g] (RootAction e)), w)
      | (Inr _, w) \<Rightarrow> run_groups run what gs w)"

definition run_profile_action ::
  "'w profile_env \<Rightarrow> string \<Rightarrow> 'w tuning_action \<Rightarrow> 'w \<Rightarrow> (action_failure + audited_action_result) \<times> 'w" where
  "run_profile_action env command a w =
     run_audited_action (pv_runner env) command a
       (run_policy_for_action (ad_safety_class (ta_descriptor a)) False Src_ApplyProfileWatch) hooks_none w"

definition apply_profile_plan ::
  "'w profile_env \<Rightarrow> profile_apply_plan \<Rightarrow> 'w \<Rightarrow> (anyhow + affinity_record list) \<times> 'w" where
  "apply_profile_plan env plan w =
     (case apply_affinity_changes (pv_host env) (pp_affinity_changes plan) [] w of
        (Inl e, w) \<Rightarrow> (Inl e, w)
      | (Inr done_records, w) \<Rightarrow>
         (case run_groups (\<lambda>g. run_profile_action env ''apply-profile nice''
                   (nice_tuning_action (sh_task (ah_sched (pv_host env))) (nice_group_action g)))
                 (\<lambda>g. ''failed to apply profile nice='' @ show_int (fst g)) (pp_nice_groups plan) w of
            (Inl e, w) \<Rightarrow> (Inl e, w)
          | (Inr _, w) \<Rightarrow>
             (case run_groups (\<lambda>g. run_profile_action env ''apply-profile ionice''
                       (ioprio_tuning_action (ah_sched (pv_host env)) (ionice_group_action g)))
                     (\<lambda>g. ''failed to apply profile I/O priority='' @ ioprio_value_label (ionice_group_value g))
                     (pp_ionice_groups plan) w of
                (Inl e, w) \<Rightarrow> (Inl e, w)
              | (Inr _, w) \<Rightarrow> (Inr done_records, w))))"

text \<open>The restore that follows a failed apply or a failed verification.\<close>

definition emergency_restore ::
  "'w profile_env \<Rightarrow> 'j restore_json \<Rightarrow> string \<Rightarrow> string \<Rightarrow> anyhow \<Rightarrow> 'w \<Rightarrow> anyhow \<times> 'w" where
  "emergency_restore env json path what err w =
     (case profile_restore_saved (pv_host env) (pv_files env) json path w of
        (Inl restore_err, w) \<Rightarrow>
          (anyhow_msg (''profile '' @ what @ '' failed: '' @ any_display_alt err @ ''; emergency restore failed: ''
             @ any_display_alt restore_err), w)
      | (Inr _, w) \<Rightarrow> (anyhow_msg (''profile '' @ what @ '' failed; restore completed: '' @ any_display_alt err), w))"

definition apply_managed_profile_to_tree_with_cache ::
  "'w profile_env \<Rightarrow> 'j restore_json \<Rightarrow> u32 \<Rightarrow> profile \<Rightarrow> bool \<Rightarrow> bool \<Rightarrow> profile_cache option \<Rightarrow> string option \<Rightarrow> 'w
    \<Rightarrow> ((anyhow + profile_apply_result) \<times> profile_cache option) \<times> 'w" where
  "apply_managed_profile_to_tree_with_cache env json tree_pid p force dry_run cache restore_to w =
     (case planned_profile_apply (pv_host env) (env_tree env tree_pid w) p cache w of
        Inl e \<Rightarrow> ((Inl e, cache), w)
      | Inr (plan, cache) \<Rightarrow>
          if plan_is_empty plan
          then ((Inr \<lparr>pq_affinity_records = [], pq_nice_records = [], pq_ionice_records = [], pq_summary = pp_summary plan\<rparr>,
                 cache), w)
          else if dry_run then ((Inr (result_from_plan plan), cache), w)
          else case preflight_profile_plan (pv_host env) plan w of
                 Inl e \<Rightarrow> ((Inl e, cache), w)
               | Inr _ \<Rightarrow>
                  (let path = (case restore_to of Some p \<Rightarrow> p | None \<Rightarrow> pv_default_restore_path env)
                   in case save_merged_restore_state (pv_files env) json path (pp_affinity_changes plan)
                             (pp_nice_records plan) (pp_ionice_records plan) force w of
                        (Inl e, w) \<Rightarrow> ((Inl e, cache), w)
                      | (Inr _, w) \<Rightarrow>
                         (case apply_profile_plan env plan w of
                            (Inl err, w) \<Rightarrow>
                              (case emergency_restore env json path ''apply'' err w of (e, w) \<Rightarrow> ((Inl e, cache), w))
                          | (Inr records, w) \<Rightarrow>
                             (case verify_affinity_plan (pv_host env) plan w of
                                Inl err \<Rightarrow>
                                  (case emergency_restore env json path ''verify'' err w of (e, w) \<Rightarrow> ((Inl e, cache), w))
                              | Inr _ \<Rightarrow>
                                  ((Inr ((result_from_plan plan)\<lparr>pq_affinity_records := sort_key ar_tid records\<rparr>),
                                    map_option (\<lambda>c. c \<union> set (pp_cache_keys plan)) cache), w)))))"

definition apply_managed_profile_to_tree_at_path ::
  "'w profile_env \<Rightarrow> 'j restore_json \<Rightarrow> u32 \<Rightarrow> profile \<Rightarrow> bool \<Rightarrow> bool \<Rightarrow> string \<Rightarrow> 'w
    \<Rightarrow> (anyhow + profile_apply_result) \<times> 'w" where
  "apply_managed_profile_to_tree_at_path env json tree_pid p force dry_run path w =
     (case apply_managed_profile_to_tree_with_cache env json tree_pid p force dry_run None (Some path) w of
        ((r, _), w) \<Rightarrow> (r, w))"

definition apply_managed_profile_to_tree ::
  "'w profile_env \<Rightarrow> 'j restore_json \<Rightarrow> u32 \<Rightarrow> profile \<Rightarrow> bool \<Rightarrow> bool \<Rightarrow> 'w \<Rightarrow> (anyhow + profile_apply_result) \<times> 'w" where
  "apply_managed_profile_to_tree env json tree_pid p force dry_run w =
     (case apply_managed_profile_to_tree_with_cache env json tree_pid p force dry_run None None w of
        ((r, _), w) \<Rightarrow> (r, w))"

section \<open>The prepared affinity plan\<close>

record prepared_affinity_profile =
  pf_plan :: profile_apply_plan
  pf_restore_path :: string

record affinity_commit_failure =
  cf_source :: anyhow
  cf_mutation_started :: bool

definition positive_ticks :: "u64 option \<Rightarrow> u64 option" where
  "positive_ticks t = (case t of Some v \<Rightarrow> if 0 < v then Some v else None | None \<Rightarrow> None)"

definition validate_record :: "'w profile_env \<Rightarrow> affinity_record \<Rightarrow> 'w \<Rightarrow> anyhow + bool" where
  "validate_record env r w =
     (case ar_process_pid r of
        None \<Rightarrow> Inl (anyhow_msg ''prepared affinity requires process identity'')
      | Some pid \<Rightarrow>
     (case positive_ticks (ar_process_starttime_ticks r) of
        None \<Rightarrow> Inl (anyhow_msg ''prepared affinity requires process start time'')
      | Some process_ticks \<Rightarrow>
     (case positive_ticks (ar_task_starttime_ticks r) of
        None \<Rightarrow> Inl (anyhow_msg ''prepared affinity requires task start time'')
      | Some task_ticks \<Rightarrow>
          if \<not> (0 < pid \<and> 0 < ar_tid r) then Inl (anyhow_msg ''prepared affinity requires nonzero IDs'')
          else case process_starttime_at (pv_fs env w) ''/proc'' pid of
                 None \<Rightarrow> Inr False
               | Some current_process \<Rightarrow>
                  (case process_starttime_at (pv_fs env w) ''/proc'' (ar_tid r) of
                     None \<Rightarrow> Inr False
                   | Some current_task \<Rightarrow>
                       if \<not> (current_process = process_ticks \<and> current_task = task_ticks)
                       then Inl (anyhow_msg (''prepared affinity identity changed for TID '' @ show_nat (unat (ar_tid r))))
                       else case read_allowed_mask (pv_host env) (ar_tid r) w of
                              Inr m \<Rightarrow>
                                if m = ar_original_mask r then Inr True
                                else Inl (anyhow_msg (''prepared affinity original mask changed for TID ''
                                       @ show_nat (unat (ar_tid r))))
                            | Inl e \<Rightarrow>
                                if is_esrch e then Inr False
                                else Inl (Anyhow [''failed to revalidate prepared affinity mask''] (RootIo e))))))"

definition validate_plan :: "'w profile_env \<Rightarrow> profile_apply_plan \<Rightarrow> 'w \<Rightarrow> anyhow + unit" where
  "validate_plan env plan w = first_error (\<lambda>r. validate_record env r w) (pp_affinity_changes plan)"

definition prepare_affinity_profile ::
  "'w profile_env \<Rightarrow> 'j restore_json \<Rightarrow> u32 \<Rightarrow> profile \<Rightarrow> string \<Rightarrow> bool \<Rightarrow> 'w
    \<Rightarrow> (anyhow + prepared_affinity_profile) \<times> 'w" where
  "prepare_affinity_profile env json tree_pid p path force w =
     (if profile_uses_priority_actions p
      then (Inl (anyhow_msg ''prepared affinity transaction does not authorize priority mutation''), w)
      else case planned_profile_apply (pv_host env) (env_tree env tree_pid w) p None w of
             Inl e \<Rightarrow> (Inl e, w)
           | Inr (plan, _) \<Rightarrow>
               if plan_is_empty plan
               then (Inl (anyhow_msg ''prepared affinity transaction has no effective changes''), w)
               else case validate_plan env plan w of
                      Inl e \<Rightarrow> (Inl e, w)
                    | Inr _ \<Rightarrow>
                       (case save_merged_restore_state (pv_files env) json path (pp_affinity_changes plan) [] [] force w of
                          (Inl e, w) \<Rightarrow> (Inl e, w)
                        | (Inr _, w) \<Rightarrow> (Inr \<lparr>pf_plan = plan, pf_restore_path = path\<rparr>, w)))"

fun commit_changes ::
  "'w profile_env \<Rightarrow> affinity_record list \<Rightarrow> bool \<Rightarrow> affinity_record list \<Rightarrow> 'w
    \<Rightarrow> (affinity_commit_failure + affinity_record list) \<times> 'w" where
  "commit_changes env [] started done_records w = (Inr done_records, w)"
| "commit_changes env (r # rs) started done_records w =
     (case validate_record env r w of
        Inl e \<Rightarrow> (Inl \<lparr>cf_source = e, cf_mutation_started = started\<rparr>, w)
      | Inr False \<Rightarrow> commit_changes env rs started done_records w
      | Inr True \<Rightarrow>
         (case set_affinity (pv_host env) (ar_tid r) (ar_applied_mask r) w of
            (Inr _, w) \<Rightarrow> commit_changes env rs True (done_records @ [r]) w
          | (Inl e, w) \<Rightarrow>
              if is_esrch e then commit_changes env rs True done_records w
              else (Inl \<lparr>cf_source = Anyhow [''prepared affinity commit failed''] (RootIo e), cf_mutation_started = True\<rparr>, w)))"

definition prepared_commit ::
  "'w profile_env \<Rightarrow> prepared_affinity_profile \<Rightarrow> 'w \<Rightarrow> (affinity_commit_failure + profile_apply_result) \<times> 'w" where
  "prepared_commit env prepared w =
     (case validate_plan env (pf_plan prepared) w of
        Inl e \<Rightarrow> (Inl \<lparr>cf_source = e, cf_mutation_started = False\<rparr>, w)
      | Inr _ \<Rightarrow>
         (case commit_changes env (pp_affinity_changes (pf_plan prepared)) False [] w of
            (Inl f, w) \<Rightarrow> (Inl f, w)
          | (Inr records, w) \<Rightarrow>
              (Inr \<lparr>pq_affinity_records = sort_key ar_tid records, pq_nice_records = [], pq_ionice_records = [],
                    pq_summary = pp_summary (pf_plan prepared)\<rparr>, w)))"

section \<open>The tuning action\<close>

record cpu_affinity_profile_action =
  ca_restore_path :: "string option"
  ca_tree_pid :: u32
  ca_profile :: profile
  ca_force_restore_overwrite :: bool

definition action_restore_path :: "'w profile_env \<Rightarrow> cpu_affinity_profile_action \<Rightarrow> string" where
  "action_restore_path env a = (case ca_restore_path a of Some p \<Rightarrow> p | None \<Rightarrow> pv_default_restore_path env)"

definition profile_safety_class :: "profile \<Rightarrow> safety_class" where
  "profile_safety_class p = (if profile_uses_priority_actions p then SC_ReversibleMediumRisk else SC_ReversibleLowRisk)"

definition descriptor_with_persistent_effect :: "cpu_affinity_profile_action \<Rightarrow> bool \<Rightarrow> action_descriptor" where
  "descriptor_with_persistent_effect a persistent =
     \<lparr>ad_action_id = ''cpu-affinity-profile:'' @ pl_name (ca_profile a), ad_action_kind = ''cpu_affinity_profile'',
      ad_safety_class = profile_safety_class (ca_profile a), ad_effect_scope = Scope_LocalProcessTree,
      ad_rollback = RequiredBeforeApply, ad_persistent_effect = persistent, ad_touches_system_wide_state = False,
      ad_requires_explicit_target = True, ad_confidence = None\<rparr>"

definition profile_preflight :: "'w profile_env \<Rightarrow> cpu_affinity_profile_action \<Rightarrow> 'w \<Rightarrow> anyhow + string list" where
  "profile_preflight env a w =
     (if ca_tree_pid a = 0 then Inl (boundary_err (InvalidTargetTid ''cpu_affinity_profile'' (ca_tree_pid a)))
      else if pl_rules (ca_profile a) = []
      then Inl (boundary_err (InvalidRequest ''cpu_affinity_profile''
             (''profile '' @ [CHR 0x27] @ pl_name (ca_profile a) @ [CHR 0x27] @ '' has no rules'')))
      else let path = action_restore_path env a
           in if rf_exists (pv_files env) path w \<and> \<not> ca_force_restore_overwrite a
              then Inr [''restore file already exists at '' @ path @ ''; new affinity records will be merged'']
              else Inr [])"

definition profile_dry_run ::
  "'w profile_env \<Rightarrow> 'j restore_json \<Rightarrow> cpu_affinity_profile_action \<Rightarrow> 'w \<Rightarrow> (anyhow + action_state) \<times> 'w" where
  "profile_dry_run env json a w =
     (case profile_preflight env a w of
        Inl e \<Rightarrow> (Inl e, w)
      | Inr warnings \<Rightarrow>
         (case apply_managed_profile_to_tree env json (ca_tree_pid a) (ca_profile a) (ca_force_restore_overwrite a) True w of
            (Inl e, w) \<Rightarrow> (Inl e, w)
          | (Inr result, w) \<Rightarrow>
             (case profile_apply_summary_for_tree env (ca_tree_pid a) (ca_profile a) w of
                Inl e \<Rightarrow> (Inl e, w)
              | Inr summary \<Rightarrow>
                  (Inr \<lparr>as_applied = False, as_affected_tasks = affected_tasks result,
                        as_checked_tasks = pa_checked_tasks summary, as_pending_changes = pa_pending_changes summary,
                        as_warnings = warnings\<rparr>, w))))"

definition profile_apply ::
  "'w profile_env \<Rightarrow> 'j restore_json \<Rightarrow> cpu_affinity_profile_action \<Rightarrow> 'w \<Rightarrow> (partial_apply_error + rollback_token) \<times> 'w" where
  "profile_apply env json a w =
     (case profile_preflight env a w of
        Inl e \<Rightarrow> (Inl \<lparr>pa_source = e, pa_rollback = None\<rparr>, w)
      | Inr _ \<Rightarrow>
         (case apply_managed_profile_to_tree_at_path env json (ca_tree_pid a) (ca_profile a) (ca_force_restore_overwrite a) False
                 (action_restore_path env a) w of
            (Inl e, w) \<Rightarrow> (Inl \<lparr>pa_source = e, pa_rollback = None\<rparr>, w)
          | (Inr result, w) \<Rightarrow> (Inr (CpuAffinityRestoreFile (action_restore_path env a) (affected_tasks result)), w)))"

definition profile_verify :: "'w profile_env \<Rightarrow> cpu_affinity_profile_action \<Rightarrow> 'w \<Rightarrow> anyhow + action_state" where
  "profile_verify env a w =
     res_bind (profile_preflight env a w) (\<lambda>warnings.
     res_bind (profile_apply_summary_for_tree env (ca_tree_pid a) (ca_profile a) w) (\<lambda>summary.
       Inr \<lparr>as_applied = (0 < pa_checked_tasks summary \<and> pa_pending_changes summary = 0),
            as_affected_tasks = pa_checked_tasks summary, as_checked_tasks = pa_checked_tasks summary,
            as_pending_changes = pa_pending_changes summary, as_warnings = warnings\<rparr>))"

definition profile_apply_prepared ::
  "'w profile_env \<Rightarrow> 'j restore_json \<Rightarrow> cpu_affinity_profile_action \<Rightarrow> (rollback_token \<Rightarrow> 'w \<Rightarrow> (anyhow + unit) \<times> 'w) \<Rightarrow> 'w
    \<Rightarrow> (partial_apply_error + rollback_token) \<times> 'w" where
  "profile_apply_prepared env json a before_mutation w =
     (if profile_uses_priority_actions (ca_profile a) then profile_apply env json a w
      else case profile_preflight env a w of
             Inl e \<Rightarrow> (Inl \<lparr>pa_source = e, pa_rollback = None\<rparr>, w)
           | Inr _ \<Rightarrow>
              (case prepare_affinity_profile env json (ca_tree_pid a) (ca_profile a) (action_restore_path env a)
                      (ca_force_restore_overwrite a) w of
                 (Inl e, w) \<Rightarrow> (Inl \<lparr>pa_source = e, pa_rollback = None\<rparr>, w)
               | (Inr prepared, w) \<Rightarrow>
                  (let token = CpuAffinityRestoreFile (pf_restore_path prepared)
                                 (pa_pending_changes (pp_summary (pf_plan prepared)))
                   in case before_mutation token w of
                        (Inl e, w) \<Rightarrow> (Inl \<lparr>pa_source = e, pa_rollback = None\<rparr>, w)
                      | (Inr _, w) \<Rightarrow>
                         (case prepared_commit env prepared w of
                            (Inl f, w) \<Rightarrow>
                              (Inl \<lparr>pa_source = cf_source f, pa_rollback = (if cf_mutation_started f then Some token else None)\<rparr>, w)
                          | (Inr _, w) \<Rightarrow> (Inr token, w)))))"

definition profile_tuning_action ::
  "'w profile_env \<Rightarrow> 'j restore_json \<Rightarrow> cpu_affinity_profile_action \<Rightarrow> 'w tuning_action" where
  "profile_tuning_action env json a =
     \<lparr>ta_descriptor = descriptor_with_persistent_effect a False,
      ta_preflight = (\<lambda>w. (profile_preflight env a w, w)),
      ta_dry_run = profile_dry_run env json a,
      ta_apply = profile_apply_prepared env json a,
      ta_verify = (\<lambda>w. (profile_verify env a w, w)),
      ta_rollback = affinity_rollback (pv_host env) (pv_files env) json\<rparr>"

definition apply_cached_with_policy ::
  "'w profile_env \<Rightarrow> 'j restore_json \<Rightarrow> cpu_affinity_profile_action \<Rightarrow> daemon_policy \<Rightarrow> bool \<Rightarrow> profile_cache \<Rightarrow> bool \<Rightarrow> 'w
    \<Rightarrow> (anyhow + profile_apply_result \<times> profile_cache) \<times> 'w" where
  "apply_cached_with_policy env json a policy dry_run cache persistent w =
     (case profile_preflight env a w of
        Inl e \<Rightarrow> (Inl e, w)
      | Inr _ \<Rightarrow>
         (case check_action policy (if dry_run then Intent_DryRun else Intent_Apply)
                 (descriptor_with_persistent_effect a persistent) of
            Inl e \<Rightarrow> (Inl (anyhow_msg (''policy rejected: '' @ rejection_to_string e)), w)
          | Inr _ \<Rightarrow>
             (case apply_managed_profile_to_tree_with_cache env json (ca_tree_pid a) (ca_profile a)
                     (ca_force_restore_overwrite a) dry_run (Some cache) None w of
                ((Inl e, _), w) \<Rightarrow> (Inl e, w)
              | ((Inr result, cache'), w) \<Rightarrow> (Inr (result, case cache' of Some c \<Rightarrow> c | None \<Rightarrow> cache), w))))"

end
