(* ===== verification/Profile_Explain.thy ===== *)
theory Profile_Explain
  imports Profile_Plan "HOL-Library.Char_ord" "HOL-Library.List_Lexorder"
begin

text \<open>
  The explanation of a profile on a snapshot (\<open>stutter/src/profiles/explain.rs\<close>): which rule decides which task, on what
  evidence, and what would change. The counters per name are ordered maps.
\<close>

section \<open>The report\<close>

record match_basis_counts =
  mb_class_only :: usize
  mb_task_comm :: usize
  mb_process_comm :: usize
  mb_both_comm_fields :: usize
  mb_catch_all :: usize

record comm_pattern_hit_dto =
  hd_field :: comm_field
  hd_pattern :: string
  hd_value :: string

record action_decision_dto =
  ad_status :: action_status
  ad_current :: "string option"
  ad_desired :: "string option"
  ad_reason :: "string option"

record profile_task_explain =
  te_tid :: u32
  te_process_pid :: u32
  te_comm :: string
  te_process_comm :: string
  te_class :: string
  te_matched_rule_index :: usize
  te_matched_class :: bool
  te_comm_hits :: "comm_pattern_hit_dto list"
  te_affinity :: "action_decision_dto option"
  te_nice :: "action_decision_dto option"
  te_ionice :: "action_decision_dto option"
  te_pending :: bool

type_synonym name_counts = "(string \<times> usize) list"

record profile_rule_explain =
  re_rule_index :: usize
  re_affinity :: "string option"
  re_nice :: "int option"
  re_ionice :: "string option"
  re_match_class :: "string list"
  re_match_comm :: "string list"
  re_matched_tasks :: usize
  re_pending_unique_tasks :: usize
  re_pending_affinity :: usize
  re_pending_nice :: usize
  re_pending_ionice :: usize
  re_already_satisfied_tasks :: usize
  re_skipped_tasks :: usize
  re_match_basis :: match_basis_counts
  re_classes :: name_counts
  re_top_thread_comms :: name_counts
  re_top_process_comms :: name_counts
  re_broad_captures :: name_counts
  re_tasks :: "profile_task_explain list"

record profile_unmatched_explain =
  un_tasks :: usize
  un_classes :: name_counts
  un_top_thread_comms :: name_counts
  un_top_process_comms :: name_counts

record profile_explain_report =
  xr_schema_version :: u32
  xr_profile :: string
  xr_profile_path :: "string option"
  xr_profile_name_requested :: "string option"
  xr_tree_pid :: "u32 option"
  xr_snapshot_tasks :: usize
  xr_matched_tasks :: usize
  xr_unmatched_tasks :: usize
  xr_pending_unique_tasks :: usize
  xr_pending_affinity :: usize
  xr_pending_nice :: usize
  xr_pending_ionice :: usize
  xr_rules :: "profile_rule_explain list"
  xr_unmatched :: profile_unmatched_explain
  xr_warnings :: "string list"

section \<open>Conversions\<close>

definition increment :: "name_counts \<Rightarrow> string \<Rightarrow> name_counts" where
  "increment m key = bt_upsert key (\<lambda>n. n + 1) 1 m"

definition basis_zero :: match_basis_counts where
  "basis_zero = \<lparr>mb_class_only = 0, mb_task_comm = 0, mb_process_comm = 0, mb_both_comm_fields = 0, mb_catch_all = 0\<rparr>"

definition hit_in :: "comm_field \<Rightarrow> rule_match_evidence \<Rightarrow> bool" where
  "hit_in field evidence = list_ex (\<lambda>hit. ph_field hit = field) (ev_comm_hits evidence)"

definition increment_match_basis :: "match_basis_counts \<Rightarrow> rule_match_evidence \<Rightarrow> match_basis_counts" where
  "increment_match_basis c evidence =
     (if ev_rule_had_match_comm evidence
      then (case (hit_in CF_TaskComm evidence, hit_in CF_ProcessComm evidence) of
              (True, True) \<Rightarrow> c\<lparr>mb_both_comm_fields := mb_both_comm_fields c + 1\<rparr>
            | (True, False) \<Rightarrow> c\<lparr>mb_task_comm := mb_task_comm c + 1\<rparr>
            | (False, True) \<Rightarrow> c\<lparr>mb_process_comm := mb_process_comm c + 1\<rparr>
            | (False, False) \<Rightarrow> c)
      else if ev_rule_had_match_class evidence then c\<lparr>mb_class_only := mb_class_only c + 1\<rparr>
      else c\<lparr>mb_catch_all := mb_catch_all c + 1\<rparr>)"

definition increment_broad_process_comm_captures :: "name_counts \<Rightarrow> task_info \<Rightarrow> rule_match_evidence \<Rightarrow> name_counts" where
  "increment_broad_process_comm_captures captures task evidence =
     (if hit_in CF_ProcessComm evidence \<and> t_comm task \<noteq> t_process_comm task then increment captures (t_comm task) else captures)"

definition action_statuses :: "task_action_decision \<Rightarrow> action_status list" where
  "action_statuses d =
     List.map_filter (\<lambda>x. x)
       [map_option vd_status (td_affinity d), map_option vd_status (td_nice d), map_option od_status (td_ionice d)]"

definition action_decision_already_satisfied :: "task_action_decision \<Rightarrow> bool" where
  "action_decision_already_satisfied d \<longleftrightarrow>
     action_statuses d \<noteq> [] \<and> list_all (\<lambda>status. status = AS_AlreadySatisfied) (action_statuses d)"

definition action_decision_skipped :: "task_action_decision \<Rightarrow> bool" where
  "action_decision_skipped d \<longleftrightarrow>
     list_ex (\<lambda>status. status \<in> {AS_SkippedDeadTask, AS_SkippedIncompleteIdentity, AS_ReadError}) (action_statuses d)"

definition affinity_dto :: "cpu_mask value_decision \<Rightarrow> action_decision_dto" where
  "affinity_dto d =
     \<lparr>ad_status = vd_status d, ad_current = map_option range_string (vd_current d),
      ad_desired = map_option range_string (vd_desired d), ad_reason = vd_reason d\<rparr>"

definition nice_dto :: "int value_decision \<Rightarrow> action_decision_dto" where
  "nice_dto d =
     \<lparr>ad_status = vd_status d, ad_current = map_option show_int (vd_current d),
      ad_desired = map_option show_int (vd_desired d), ad_reason = vd_reason d\<rparr>"

definition ionice_dto :: "ionice_decision \<Rightarrow> action_decision_dto" where
  "ionice_dto d =
     \<lparr>ad_status = od_status d,
      ad_current = (case od_current d of
                      Some v \<Rightarrow> Some (ioprio_value_label v)
                    | None \<Rightarrow> map_option show_int (od_current_encoded d)),
      ad_desired = map_option ioprio_value_label (od_desired d), ad_reason = od_reason d\<rparr>"

definition hit_dto :: "comm_pattern_hit \<Rightarrow> comm_pattern_hit_dto" where
  "hit_dto hit = \<lparr>hd_field = ph_field hit, hd_pattern = ph_pattern hit, hd_value = ph_value hit\<rparr>"

definition task_explain :: "task_info \<Rightarrow> usize \<Rightarrow> rule_match_evidence \<Rightarrow> task_action_decision \<Rightarrow> profile_task_explain" where
  "task_explain task idx evidence d =
     \<lparr>te_tid = t_tid task, te_process_pid = t_process_pid task, te_comm = t_comm task, te_process_comm = t_process_comm task,
      te_class = class_as_str (t_class task), te_matched_rule_index = idx, te_matched_class = ev_matched_class evidence,
      te_comm_hits = map hit_dto (ev_comm_hits evidence), te_affinity = map_option affinity_dto (td_affinity d),
      te_nice = map_option nice_dto (td_nice d), te_ionice = map_option ionice_dto (td_ionice d),
      te_pending = decision_pending d\<rparr>"

definition empty_rule_explain :: "usize \<times> profile_rule \<Rightarrow> profile_rule_explain" where
  "empty_rule_explain r =
     (case r of (idx, rule) \<Rightarrow>
        \<lparr>re_rule_index = idx, re_affinity = map_option range_string (ru_affinity rule), re_nice = ru_nice rule,
         re_ionice = map_option ioprio_value_label (ru_ionice rule), re_match_class = map class_as_str (ru_match_class rule),
         re_match_comm = map cp_raw (ru_match_comm rule), re_matched_tasks = 0, re_pending_unique_tasks = 0,
         re_pending_affinity = 0, re_pending_nice = 0, re_pending_ionice = 0, re_already_satisfied_tasks = 0,
         re_skipped_tasks = 0, re_match_basis = basis_zero, re_classes = [], re_top_thread_comms = [],
         re_top_process_comms = [], re_broad_captures = [], re_tasks = []\<rparr>)"

section \<open>Explaining a snapshot\<close>

definition count_if :: "bool \<Rightarrow> usize \<Rightarrow> usize" where
  "count_if b n = (if b then n + 1 else n)"

definition explain_matched ::
  "bool \<Rightarrow> task_info \<Rightarrow> usize \<Rightarrow> rule_match_evidence \<Rightarrow> task_action_decision \<Rightarrow> profile_rule_explain \<Rightarrow> profile_rule_explain" where
  "explain_matched include_tasks task idx evidence d s =
     s\<lparr>re_matched_tasks := re_matched_tasks s + 1,
       re_classes := increment (re_classes s) (class_as_str (t_class task)),
       re_top_thread_comms := increment (re_top_thread_comms s) (t_comm task),
       re_top_process_comms := increment (re_top_process_comms s) (t_process_comm task),
       re_match_basis := increment_match_basis (re_match_basis s) evidence,
       re_broad_captures := increment_broad_process_comm_captures (re_broad_captures s) task evidence,
       re_pending_unique_tasks := count_if (decision_pending d) (re_pending_unique_tasks s),
       re_pending_affinity := count_if (affinity_pending d) (re_pending_affinity s),
       re_pending_nice := count_if (nice_pending d) (re_pending_nice s),
       re_pending_ionice := count_if (ionice_pending d) (re_pending_ionice s),
       re_already_satisfied_tasks := count_if (action_decision_already_satisfied d) (re_already_satisfied_tasks s),
       re_skipped_tasks := count_if (action_decision_skipped d) (re_skipped_tasks s),
       re_tasks := (if include_tasks then re_tasks s @ [task_explain task idx evidence d] else re_tasks s)\<rparr>"

record explain_state =
  es_rules :: "profile_rule_explain list"
  es_unmatched :: profile_unmatched_explain
  es_pending :: "u32 set"

definition explain_task :: "task_readers \<Rightarrow> bool \<Rightarrow> profile \<Rightarrow> task_info \<Rightarrow> explain_state \<Rightarrow> anyhow + explain_state" where
  "explain_task rd include_tasks p task st =
     (case matching_profile_rule_with_evidence task p of
        None \<Rightarrow>
          (let u = es_unmatched st
           in Inr (st\<lparr>es_unmatched :=
                u\<lparr>un_tasks := un_tasks u + 1, un_classes := increment (un_classes u) (class_as_str (t_class task)),
                  un_top_thread_comms := increment (un_top_thread_comms u) (t_comm task),
                  un_top_process_comms := increment (un_top_process_comms u) (t_process_comm task)\<rparr>\<rparr>))
      | Some (idx, rule, evidence) \<Rightarrow>
          res_bind (decide_profile_task_actions rd task rule) (\<lambda>d.
            Inr (st\<lparr>es_rules := (es_rules st)[idx := explain_matched include_tasks task idx evidence d (es_rules st ! idx)],
                    es_pending := (if decision_pending d then insert (t_tid task) (es_pending st) else es_pending st)\<rparr>)))"

fun explain_loop ::
  "task_readers \<Rightarrow> bool \<Rightarrow> profile \<Rightarrow> task_info list \<Rightarrow> explain_state \<Rightarrow> anyhow + explain_state" where
  "explain_loop rd include_tasks p [] st = Inr st"
| "explain_loop rd include_tasks p (task # tasks) st =
     res_bind (explain_task rd include_tasks p task st) (explain_loop rd include_tasks p tasks)"

definition unmatched_rule_warning :: "profile_rule_explain \<Rightarrow> string" where
  "unmatched_rule_warning r =
     ''Rule '' @ show_nat (re_rule_index r)
     @ '' matched 0 tasks. Earlier rules may have matched tasks first; profile matching is first-match-wins.''"

definition explain_profile_for_snapshot ::
  "task_readers \<Rightarrow> u32 option \<Rightarrow> bool \<Rightarrow> profile \<Rightarrow> task_map \<Rightarrow> anyhow + profile_explain_report" where
  "explain_profile_for_snapshot rd tree_pid include_tasks p tasks =
     res_bind (explain_loop rd include_tasks p (map snd tasks)
         \<lparr>es_rules = map empty_rule_explain (enumerate 0 (pl_rules p)),
          es_unmatched = \<lparr>un_tasks = 0, un_classes = [], un_top_thread_comms = [], un_top_process_comms = []\<rparr>,
          es_pending = {}\<rparr>) (\<lambda>st.
       let rules = es_rules st
       in Inr \<lparr>xr_schema_version = 1, xr_profile = pl_name p, xr_profile_path = None,
               xr_profile_name_requested = None, xr_tree_pid = tree_pid, xr_snapshot_tasks = length tasks,
               xr_matched_tasks = sum_list (map re_matched_tasks rules), xr_unmatched_tasks = un_tasks (es_unmatched st),
               xr_pending_unique_tasks = card (es_pending st),
               xr_pending_affinity = sum_list (map re_pending_affinity rules),
               xr_pending_nice = sum_list (map re_pending_nice rules),
               xr_pending_ionice = sum_list (map re_pending_ionice rules), xr_rules = rules,
               xr_unmatched = es_unmatched st,
               xr_warnings = map unmatched_rule_warning (filter (\<lambda>r. re_matched_tasks r = 0) rules)\<rparr>)"

end
