(* ===== verification/Profile_Plan_Facts.thy ===== *)
theory Profile_Plan_Facts
  imports Profile_Apply Profile_Explain
begin

text \<open>
  The plan against a specification that looks at one task at a time: which record a task contributes, and that the plan, the
  summary and the explanation count the same changes.
\<close>

section \<open>Finding a rule\<close>

lemma find_rule_nth:
  "find_rule task (enumerate k rules) = Some (i, rule, ev) \<longleftrightarrow>
     k \<le> i \<and> i - k < length rules \<and> rules ! (i - k) = rule \<and> profile_rule_match_evidence task rule = Some ev
     \<and> (\<forall>j < i - k. profile_rule_match_evidence task (rules ! j) = None)"
proof (induction rules arbitrary: k)
  case (Cons r rules)
  show ?case
  proof (cases "profile_rule_match_evidence task r")
    case None
    then have "find_rule task (enumerate k (r # rules)) = Some (i, rule, ev) \<longleftrightarrow>
        Suc k \<le> i \<and> i - Suc k < length rules \<and> rules ! (i - Suc k) = rule \<and> profile_rule_match_evidence task rule = Some ev
        \<and> (\<forall>j < i - Suc k. profile_rule_match_evidence task (rules ! j) = None)"
      using Cons.IH by simp
    also have "\<dots> \<longleftrightarrow> k \<le> i \<and> i - k < length (r # rules) \<and> (r # rules) ! (i - k) = rule
        \<and> profile_rule_match_evidence task rule = Some ev
        \<and> (\<forall>j < i - k. profile_rule_match_evidence task ((r # rules) ! j) = None)"
    proof (cases "k < i")
      case True
      then obtain n where "i = Suc (k + n)" using less_iff_Suc_add by blast
      then show ?thesis using None by (simp add: All_less_Suc2)
    qed (use None in auto)
    finally show ?thesis .
  next
    case (Some e)
    then show ?thesis by (cases "i - k") (auto simp: nth_Cons)
  qed
qed simp

section \<open>What one task asks for\<close>

definition opt_list :: "'a option \<Rightarrow> 'a list" where
  "opt_list x = (case x of Some v \<Rightarrow> [v] | None \<Rightarrow> [])"

definition affinity_asked :: "task_readers \<Rightarrow> task_info \<Rightarrow> profile_rule \<Rightarrow> affinity_record option" where
  "affinity_asked rd task rule =
     (case (ru_affinity rule, rd_mask rd (t_tid task)) of
        (Some desired, Inr current) \<Rightarrow>
          if current \<noteq> desired \<and> task_has_complete_identity task
          then Some \<lparr>ar_tid = t_tid task, ar_process_pid = Some (t_process_pid task),
                     ar_process_starttime_ticks = t_process_starttime_ticks task,
                     ar_task_starttime_ticks = t_task_starttime_ticks task, ar_original_mask = current, ar_applied_mask = desired\<rparr>
          else None
      | _ \<Rightarrow> None)"

definition nice_asked :: "task_readers \<Rightarrow> task_info \<Rightarrow> profile_rule \<Rightarrow> nice_record_v2 option" where
  "nice_asked rd task rule =
     (case (ru_nice rule, rd_nice rd (t_tid task)) of
        (Some desired, Inr current) \<Rightarrow>
          if current \<noteq> desired \<and> task_has_complete_identity task
          then Some \<lparr>n2_tid = t_tid task, n2_process_pid = Some (t_process_pid task),
                     n2_process_starttime_ticks = t_process_starttime_ticks task,
                     n2_task_starttime_ticks = t_task_starttime_ticks task, n2_comm = Some (t_comm task),
                     n2_original_nice = current, n2_applied_nice = desired\<rparr>
          else None
      | _ \<Rightarrow> None)"

definition ionice_asked :: "task_readers \<Rightarrow> task_info \<Rightarrow> profile_rule \<Rightarrow> ioprio_record_v2 option" where
  "ionice_asked rd task rule =
     (case (ru_ionice rule, rd_ioprio rd (t_tid task)) of
        (Some desired, Inr current) \<Rightarrow>
         (case ioprio_encode desired of
            Inr encoded \<Rightarrow>
              if current \<noteq> encoded \<and> task_has_complete_identity task
              then Some \<lparr>i2_tid = t_tid task, i2_process_pid = Some (t_process_pid task),
                         i2_process_starttime_ticks = t_process_starttime_ticks task,
                         i2_task_starttime_ticks = t_task_starttime_ticks task, i2_comm = Some (t_comm task),
                         i2_original_ioprio = current, i2_applied_ioprio = encoded\<rparr>
              else None
          | Inl _ \<Rightarrow> None)
      | _ \<Rightarrow> None)"

text \<open>The task under the nice value or I/O priority it is to get, as the plan groups them.\<close>

definition nice_target :: "task_readers \<Rightarrow> task_info \<Rightarrow> profile_rule \<Rightarrow> (int \<times> task_identity) option" where
  "nice_target rd task rule =
     map_option (\<lambda>r. (n2_applied_nice r, identity_from_task_info task)) (nice_asked rd task rule)"

definition ionice_target ::
  "task_readers \<Rightarrow> task_info \<Rightarrow> profile_rule \<Rightarrow> ((ioprio_class \<times> 8 word option) \<times> task_identity) option" where
  "ionice_target rd task rule =
     (case ru_ionice rule of
        Some desired \<Rightarrow>
          map_option (\<lambda>_. ((iv_class desired, iv_level desired), identity_from_task_info task)) (ionice_asked rd task rule)
      | None \<Rightarrow> None)"

text \<open>Entries grouped by key: the keys in ascending order, each with its entries in the order given.\<close>

definition grouped :: "('k::linorder \<times> 'a) list \<Rightarrow> ('k \<times> 'a list) list" where
  "grouped xs = map (\<lambda>k. (k, map snd (filter (\<lambda>x. fst x = k) xs))) (sort (remdups (map fst xs)))"

definition push_entry :: "('k::linorder \<times> 'a) option \<Rightarrow> ('k \<times> 'a list) list \<Rightarrow> ('k \<times> 'a list) list" where
  "push_entry entry m = (case entry of None \<Rightarrow> m | Some (k, x) \<Rightarrow> group_push k x m)"

lemma bt_ext:
  assumes "bt_wf m" "bt_wf n" "map_of m = map_of n"
  shows "m = n"
proof -
  have "map fst m = map fst n"
    using assms by (intro sorted_distinct_set_unique) (auto simp: bt_wf_def simp flip: dom_map_of_conv_image_fst)
  moreover have "map (\<lambda>k. (k, the (map_of xs k))) (map fst xs) = xs" if "bt_wf xs" for xs :: "('a \<times> 'b) list"
    using that by (simp add: comp_def) (rule map_idI, auto simp: bt_wf_def)
  ultimately show ?thesis
    using assms by metis
qed

lemma grouped_wf: "bt_wf (grouped xs)"
  by (simp add: bt_wf_def grouped_def comp_def)

lemma map_of_grouped:
  "map_of (grouped xs) k = (if k \<in> fst ` set xs then Some (map snd (filter (\<lambda>x. fst x = k) xs)) else None)"
  by (simp add: grouped_def map_of_map_restrict restrict_map_def)

lemma grouped_push: "grouped (xs @ [(k, x)]) = group_push k x (grouped xs)"
proof (rule bt_ext)
  show "map_of (grouped (xs @ [(k, x)])) = map_of (group_push k x (grouped xs))"
    by (rule ext) (auto simp: group_push_def map_of_bt_upsert grouped_wf map_of_grouped image_iff filter_empty_conv)
qed (simp_all add: grouped_wf group_push_def bt_upsert_wf)

lemma grouped_push_entry: "grouped (xs @ opt_list entry) = push_entry entry (grouped xs)"
  by (cases entry) (auto simp: opt_list_def push_entry_def grouped_push)

text \<open>A read that the rule needs reports that the task is gone.\<close>

definition task_gone :: "task_readers \<Rightarrow> task_info \<Rightarrow> profile_rule \<Rightarrow> bool" where
  "task_gone rd task rule \<longleftrightarrow>
     ru_affinity rule \<noteq> None \<and> (case rd_mask rd (t_tid task) of Inl e \<Rightarrow> io_raw_os_error e = Some ESRCH | Inr _ \<Rightarrow> False)
     \<or> ru_nice rule \<noteq> None \<and> (case rd_nice rd (t_tid task) of Inl e \<Rightarrow> anyhow_raw_os_error e = Some ESRCH | Inr _ \<Rightarrow> False)
     \<or> ru_ionice rule \<noteq> None \<and> (case rd_ioprio rd (t_tid task) of Inl e \<Rightarrow> anyhow_raw_os_error e = Some ESRCH | Inr _ \<Rightarrow> False)"

text \<open>The record of a task under the profile: nothing when no rule matches or the task is gone.\<close>

definition of_rule :: "task_readers \<Rightarrow> profile \<Rightarrow> (task_info \<Rightarrow> profile_rule \<Rightarrow> 'a option) \<Rightarrow> task_info \<Rightarrow> 'a option" where
  "of_rule rd p asked task =
     (case matching_profile_rule task p of
        None \<Rightarrow> None
      | Some rule \<Rightarrow> if task_gone rd task rule then None else asked task rule)"

section \<open>Decisions against the specification\<close>

lemma decide_affinity_cases:
  assumes "transpose_opt (decide_affinity rd task) (ru_affinity rule) = Inr a"
  shows "vd_has AS_SkippedDeadTask a \<longleftrightarrow>
      ru_affinity rule \<noteq> None \<and> (case rd_mask rd (t_tid task) of Inl e \<Rightarrow> io_raw_os_error e = Some ESRCH | Inr _ \<Rightarrow> False)"
    and "vd_has AS_Pending a \<longleftrightarrow> affinity_asked rd task rule \<noteq> None"
    and "plan_affinity task a plan = Inr (plan\<lparr>pp_summary := (pp_summary plan)\<lparr>pa_pending_affinity :=
        pa_pending_affinity (pp_summary plan) + length (opt_list (affinity_asked rd task rule))\<rparr>,
        pp_affinity_changes := pp_affinity_changes plan @ opt_list (affinity_asked rd task rule)\<rparr>)"
  using assms
  by (auto simp: transpose_opt_def decide_affinity_def vd_has_def decided_status_def affinity_asked_def plan_affinity_def
      opt_list_def Let_def split: option.splits sum.splits if_splits)

lemma decide_nice_cases:
  assumes "transpose_opt (decide_nice rd task) (ru_nice rule) = Inr n"
  shows "vd_has AS_SkippedDeadTask n \<longleftrightarrow>
      ru_nice rule \<noteq> None \<and> (case rd_nice rd (t_tid task) of Inl e \<Rightarrow> anyhow_raw_os_error e = Some ESRCH | Inr _ \<Rightarrow> False)"
    and "vd_has AS_Pending n \<longleftrightarrow> nice_asked rd task rule \<noteq> None"
    and "plan_nice task n plan = Inr (plan\<lparr>pp_summary := (pp_summary plan)\<lparr>pa_pending_nice :=
        pa_pending_nice (pp_summary plan) + length (opt_list (nice_asked rd task rule))\<rparr>,
        pp_nice_groups := push_entry (nice_target rd task rule) (pp_nice_groups plan),
        pp_nice_records := pp_nice_records plan @ opt_list (nice_asked rd task rule)\<rparr>)"
  using assms
  by (auto simp: transpose_opt_def decide_nice_def vd_has_def decided_status_def nice_asked_def plan_nice_def opt_list_def
      nice_target_def push_entry_def Let_def split: option.splits sum.splits if_splits)

lemma decide_ionice_cases:
  assumes "transpose_opt (decide_ionice rd task) (ru_ionice rule) = Inr i"
  shows "od_has AS_SkippedDeadTask i \<longleftrightarrow>
      ru_ionice rule \<noteq> None \<and> (case rd_ioprio rd (t_tid task) of Inl e \<Rightarrow> anyhow_raw_os_error e = Some ESRCH | Inr _ \<Rightarrow> False)"
    and "od_has AS_Pending i \<longleftrightarrow> ionice_asked rd task rule \<noteq> None"
    and "plan_ionice task i plan = Inr (plan\<lparr>pp_summary := (pp_summary plan)\<lparr>pa_pending_ionice :=
        pa_pending_ionice (pp_summary plan) + length (opt_list (ionice_asked rd task rule))\<rparr>,
        pp_ionice_groups := push_entry (ionice_target rd task rule) (pp_ionice_groups plan),
        pp_ionice_records := pp_ionice_records plan @ opt_list (ionice_asked rd task rule)\<rparr>)"
  using assms
  by (auto simp: transpose_opt_def decide_ionice_def od_has_def decided_status_def ionice_asked_def plan_ionice_def
      opt_list_def ionice_target_def push_entry_def Let_def split: option.splits sum.splits if_splits)

lemma decide_parts:
  assumes "decide_profile_task_actions rd task rule = Inr d"
  shows "(task_disappeared d \<longleftrightarrow> task_gone rd task rule)
    \<and> (task_gone rd task rule
       \<or> transpose_opt (decide_affinity rd task) (ru_affinity rule) = Inr (td_affinity d)
         \<and> transpose_opt (decide_nice rd task) (ru_nice rule) = Inr (td_nice d)
         \<and> transpose_opt (decide_ionice rd task) (ru_ionice rule) = Inr (td_ionice d))"
proof -
  have none: "\<not> vd_has st None" "\<not> od_has st None" for st
    by (simp_all add: vd_has_def od_has_def)
  obtain a where a: "transpose_opt (decide_affinity rd task) (ru_affinity rule) = Inr a"
    using assms by (auto simp: decide_profile_task_actions_def)
  show ?thesis
  proof (cases "vd_has AS_SkippedDeadTask a")
    case True
    then have "d = \<lparr>td_affinity = a, td_nice = None, td_ionice = None\<rparr>"
      using assms a by (simp add: decide_profile_task_actions_def)
    then show ?thesis using True decide_affinity_cases(1) [OF a] by (simp add: task_disappeared_def task_gone_def none)
  next
    case alive: False
    obtain n where n: "transpose_opt (decide_nice rd task) (ru_nice rule) = Inr n"
      using assms a alive by (auto simp: decide_profile_task_actions_def)
    show ?thesis
    proof (cases "vd_has AS_SkippedDeadTask n")
      case True
      then have "d = \<lparr>td_affinity = a, td_nice = n, td_ionice = None\<rparr>"
        using assms a alive n by (simp add: decide_profile_task_actions_def)
      then show ?thesis
        using True alive decide_nice_cases(1) [OF n] by (simp add: task_disappeared_def task_gone_def none)
    next
      case False
      then obtain i where i: "transpose_opt (decide_ionice rd task) (ru_ionice rule) = Inr i"
        "d = \<lparr>td_affinity = a, td_nice = n, td_ionice = i\<rparr>"
        using assms a alive n by (auto simp: decide_profile_task_actions_def)
      then show ?thesis
        using False alive a n decide_affinity_cases(1) [OF a] decide_nice_cases(1) [OF n] decide_ionice_cases(1) [OF i(1)]
        by (simp add: task_disappeared_def task_gone_def)
    qed
  qed
qed

lemma decide_gone: "decide_profile_task_actions rd task rule = Inr d \<Longrightarrow> task_disappeared d \<longleftrightarrow> task_gone rd task rule"
  using decide_parts by blast

lemma decide_alive:
  assumes "decide_profile_task_actions rd task rule = Inr d" "\<not> task_gone rd task rule"
  shows "transpose_opt (decide_affinity rd task) (ru_affinity rule) = Inr (td_affinity d)"
    and "transpose_opt (decide_nice rd task) (ru_nice rule) = Inr (td_nice d)"
    and "transpose_opt (decide_ionice rd task) (ru_ionice rule) = Inr (td_ionice d)"
  using decide_parts [OF assms(1)] assms(2) by blast+

lemma decision_pending_iff:
  assumes "decide_profile_task_actions rd task rule = Inr d" "\<not> task_gone rd task rule"
  shows "affinity_pending d \<longleftrightarrow> affinity_asked rd task rule \<noteq> None"
    and "nice_pending d \<longleftrightarrow> nice_asked rd task rule \<noteq> None"
    and "ionice_pending d \<longleftrightarrow> ionice_asked rd task rule \<noteq> None"
  using decide_affinity_cases(2) [OF decide_alive(1) [OF assms]] decide_nice_cases(2) [OF decide_alive(2) [OF assms]]
    decide_ionice_cases(2) [OF decide_alive(3) [OF assms]]
  by (simp_all add: affinity_pending_def nice_pending_def ionice_pending_def)

section \<open>Plans against the specification\<close>

definition asks :: "task_readers \<Rightarrow> profile \<Rightarrow> task_info \<Rightarrow> bool" where
  "asks rd p task \<longleftrightarrow>
     of_rule rd p (affinity_asked rd) task \<noteq> None \<or> of_rule rd p (nice_asked rd) task \<noteq> None
     \<or> of_rule rd p (ionice_asked rd) task \<noteq> None"

definition collected :: "task_readers \<Rightarrow> profile \<Rightarrow> (task_info \<Rightarrow> profile_rule \<Rightarrow> 'a option) \<Rightarrow> task_info list \<Rightarrow> 'a list" where
  "collected rd p asked tasks = List.map_filter (of_rule rd p asked) tasks"

definition pending_tids :: "task_readers \<Rightarrow> profile \<Rightarrow> task_info list \<Rightarrow> u32 set" where
  "pending_tids rd p tasks = set (map t_tid (filter (asks rd p) tasks))"

definition expected_summary :: "task_readers \<Rightarrow> profile \<Rightarrow> task_info list \<Rightarrow> profile_apply_summary" where
  "expected_summary rd p tasks =
     \<lparr>pa_checked_tasks = length (filter (\<lambda>task. matching_profile_rule task p \<noteq> None) tasks), pa_pending_changes = 0,
      pa_pending_affinity = length (collected rd p (affinity_asked rd) tasks),
      pa_pending_nice = length (collected rd p (nice_asked rd) tasks),
      pa_pending_ionice = length (collected rd p (ionice_asked rd) tasks)\<rparr>"

definition plan_agrees :: "task_readers \<Rightarrow> profile \<Rightarrow> task_info list \<Rightarrow> plan_state \<Rightarrow> bool" where
  "plan_agrees rd p tasks st \<longleftrightarrow>
     ps_cache st = None
     \<and> pp_affinity_changes (ps_plan st) = collected rd p (affinity_asked rd) tasks
     \<and> pp_nice_records (ps_plan st) = collected rd p (nice_asked rd) tasks
     \<and> pp_ionice_records (ps_plan st) = collected rd p (ionice_asked rd) tasks
     \<and> pp_summary (ps_plan st) = expected_summary rd p tasks
     \<and> ps_pending st = pending_tids rd p tasks"

lemma collected_snoc: "collected rd p asked (tasks @ [task]) = collected rd p asked tasks @ opt_list (of_rule rd p asked task)"
  by (simp add: collected_def map_filter_def opt_list_def split: option.splits)

lemma plan_agrees_start: "plan_agrees rd p [] \<lparr>ps_plan = empty_plan, ps_seen = {}, ps_pending = {}, ps_cache = None\<rparr>"
  by (simp add: plan_agrees_def collected_def pending_tids_def expected_summary_def empty_plan_def apply_summary_zero_def
      map_filter_def)

lemma agrees_snoc_skip:
  assumes "plan_agrees rd p tasks st" "\<not> asks rd p task"
  shows "pending_tids rd p (tasks @ [task]) = pending_tids rd p tasks"
    "collected rd p (affinity_asked rd) (tasks @ [task]) = collected rd p (affinity_asked rd) tasks"
    "collected rd p (nice_asked rd) (tasks @ [task]) = collected rd p (nice_asked rd) tasks"
    "collected rd p (ionice_asked rd) (tasks @ [task]) = collected rd p (ionice_asked rd) tasks"
  using assms(2) by (simp_all add: pending_tids_def collected_snoc opt_list_def asks_def)

text \<open>The keys under which a cache remembers tasks that are as their rule asks, and the tasks that it knows.\<close>

definition rule_keys :: "profile \<Rightarrow> (task_info \<Rightarrow> profile_rule \<Rightarrow> bool) \<Rightarrow> task_info list \<Rightarrow> profile_cache_key list" where
  "rule_keys p P tasks =
     List.map_filter (\<lambda>task. case matching_profile_rule task p of
        None \<Rightarrow> None
      | Some rule \<Rightarrow> if P task rule then Some (cache_key_new task rule) else None) tasks"

definition known :: "profile \<Rightarrow> profile_cache option \<Rightarrow> task_info \<Rightarrow> bool" where
  "known p cache task =
     (case (matching_profile_rule task p, cache) of
        (Some rule, Some c) \<Rightarrow> cache_key_new task rule \<in> c
      | _ \<Rightarrow> False)"

lemma plan_task_gone:
  assumes "matching_profile_rule task p = Some rule" "\<not> known p (ps_cache st) task"
    and "decide_profile_task_actions rd task rule = Inr d" "task_gone rd task rule"
  shows "plan_task rd p task st = Inr (st\<lparr>ps_plan := (ps_plan st)\<lparr>pp_summary := (pp_summary (ps_plan st))
      \<lparr>pa_checked_tasks := pa_checked_tasks (pp_summary (ps_plan st)) + 1\<rparr>\<rparr>,
      ps_seen := insert (cache_key_new task rule) (ps_seen st)\<rparr>)"
  using assms decide_gone [OF assms(3)] by (auto simp: plan_task_def known_def Let_def split: option.splits)

lemma plan_task_known:
  assumes "matching_profile_rule task p = Some rule" "known p (ps_cache st) task"
  shows "plan_task rd p task st = Inr (st\<lparr>ps_plan := (ps_plan st)\<lparr>pp_summary := (pp_summary (ps_plan st))
      \<lparr>pa_checked_tasks := pa_checked_tasks (pp_summary (ps_plan st)) + 1\<rparr>\<rparr>,
      ps_seen := insert (cache_key_new task rule) (ps_seen st)\<rparr>)"
  using assms by (auto simp: plan_task_def known_def Let_def split: option.splits)

lemma plan_task_alive:
  assumes "matching_profile_rule task p = Some rule" "\<not> known p (ps_cache st) task"
    and "decide_profile_task_actions rd task rule = Inr d" "\<not> task_gone rd task rule"
  shows "plan_task rd p task st =
     (let key = cache_key_new task rule; plan = ps_plan st; s = pp_summary plan;
          st1 = st\<lparr>ps_seen := insert key (ps_seen st),
            ps_plan := plan
              \<lparr>pp_summary := s\<lparr>pa_checked_tasks := pa_checked_tasks s + 1,
                 pa_pending_affinity := pa_pending_affinity s + length (opt_list (affinity_asked rd task rule)),
                 pa_pending_nice := pa_pending_nice s + length (opt_list (nice_asked rd task rule)),
                 pa_pending_ionice := pa_pending_ionice s + length (opt_list (ionice_asked rd task rule))\<rparr>,
               pp_affinity_changes := pp_affinity_changes plan @ opt_list (affinity_asked rd task rule),
               pp_nice_groups := push_entry (nice_target rd task rule) (pp_nice_groups plan),
               pp_nice_records := pp_nice_records plan @ opt_list (nice_asked rd task rule),
               pp_ionice_groups := push_entry (ionice_target rd task rule) (pp_ionice_groups plan),
               pp_ionice_records := pp_ionice_records plan @ opt_list (ionice_asked rd task rule)\<rparr>\<rparr>
      in Inr (if asks rd p task
         then st1\<lparr>ps_plan := (ps_plan st1)\<lparr>pp_cache_keys := pp_cache_keys plan @ [key]\<rparr>,
                  ps_pending := insert (t_tid task) (ps_pending st)\<rparr>
         else st1\<lparr>ps_cache := map_option (insert key) (ps_cache st)\<rparr>))"
proof -
  note alive = decide_alive [OF assms(3,4)]
  have "decision_pending d \<longleftrightarrow> asks rd p task"
    using decision_pending_iff [OF assms(3,4)] assms(1,4) by (simp add: decision_pending_def asks_def of_rule_def)
  moreover have "\<not> (case ps_cache st of None \<Rightarrow> False | Some cache \<Rightarrow> cache_key_new task rule \<in> cache)"
    using assms(1,2) by (auto simp: known_def split: option.splits)
  moreover have "\<not> task_disappeared d"
    using decide_gone [OF assms(3)] assms(4) by simp
  ultimately show ?thesis
    using assms(1,3)
    by (simp add: plan_task_def Let_def decide_affinity_cases(3) [OF alive(1)] decide_nice_cases(3) [OF alive(2)]
        decide_ionice_cases(3) [OF alive(3)])
qed

lemma plan_agrees_step:
  assumes "plan_agrees rd p tasks st" "plan_task rd p task st = Inr st'"
  shows "plan_agrees rd p (tasks @ [task]) st'"
proof (cases "matching_profile_rule task p")
  case None
  then have "\<not> asks rd p task" by (simp add: asks_def of_rule_def)
  then show ?thesis
    using assms None by (simp add: plan_task_def plan_agrees_def agrees_snoc_skip [OF assms(1)] expected_summary_def)
next
  case (Some rule)
  have cache: "ps_cache st = None" using assms(1) by (simp add: plan_agrees_def)
  then have fresh: "\<not> known p (ps_cache st) task" by (simp add: known_def Some)
  obtain d where d: "decide_profile_task_actions rd task rule = Inr d"
    using assms(2) Some cache by (cases "decide_profile_task_actions rd task rule") (simp_all add: plan_task_def Let_def)
  show ?thesis
  proof (cases "task_gone rd task rule")
    case True
    then have "\<not> asks rd p task" by (simp add: asks_def of_rule_def Some)
    moreover have "st' = st\<lparr>ps_plan := (ps_plan st)\<lparr>pp_summary := (pp_summary (ps_plan st))
      \<lparr>pa_checked_tasks := pa_checked_tasks (pp_summary (ps_plan st)) + 1\<rparr>\<rparr>,
      ps_seen := insert (cache_key_new task rule) (ps_seen st)\<rparr>"
      using assms(2) plan_task_gone [OF Some fresh d True] by simp
    ultimately show ?thesis
      using assms(1) Some by (simp add: plan_agrees_def agrees_snoc_skip [OF assms(1)] expected_summary_def)
  next
    case False
    then show ?thesis
      using assms plan_task_alive [OF Some fresh d False]
      by (auto simp: plan_agrees_def expected_summary_def collected_snoc of_rule_def Some pending_tids_def Let_def
          split: if_splits)
  qed
qed

lemma plan_agrees_loop:
  "plan_agrees rd p done_tasks st \<Longrightarrow> plan_loop_tasks rd p tasks st = Inr st' \<Longrightarrow> plan_agrees rd p (done_tasks @ tasks) st'"
proof (induction tasks arbitrary: done_tasks st)
  case (Cons task tasks)
  obtain st1 where "plan_task rd p task st = Inr st1" "plan_loop_tasks rd p tasks st1 = Inr st'"
    using Cons.prems(2) by auto
  then show ?case using Cons.IH [of "done_tasks @ [task]" st1] plan_agrees_step [OF Cons.prems(1)] by simp
qed simp

lemma planned_state:
  assumes "planned_profile_apply_with_readers rd tasks p None = Inr (plan, cache)"
  obtains st where "plan_loop_tasks rd p (map snd tasks) \<lparr>ps_plan = empty_plan, ps_seen = {}, ps_pending = {},
      ps_cache = None\<rparr> = Inr st"
    and "plan_agrees rd p (map snd tasks) st"
    and "plan = (ps_plan st)\<lparr>pp_summary := (pp_summary (ps_plan st))\<lparr>pa_pending_changes := card (ps_pending st)\<rparr>\<rparr>"
proof -
  obtain st where st: "plan_loop_tasks rd p (map snd tasks) \<lparr>ps_plan = empty_plan, ps_seen = {}, ps_pending = {},
      ps_cache = None\<rparr> = Inr st"
    and "plan = (ps_plan st)\<lparr>pp_summary := (pp_summary (ps_plan st))\<lparr>pa_pending_changes := card (ps_pending st)\<rparr>\<rparr>"
    using assms by (auto simp: planned_profile_apply_with_readers_def Let_def)
  then show ?thesis using plan_agrees_loop [OF plan_agrees_start st] that by simp
qed

section \<open>Plans with a cache\<close>

text \<open>
  With a cache the tasks it knows are skipped, and tasks that turn out to be as their rule asks are added to it on the way.
  A task skipped because of such an addition asks for nothing either, because the key holds all that the decision looks at.
\<close>

definition settled :: "task_readers \<Rightarrow> profile \<Rightarrow> task_info list \<Rightarrow> profile_cache_key list" where
  "settled rd p tasks = rule_keys p (\<lambda>task rule. \<not> task_gone rd task rule \<and> \<not> asks rd p task) tasks"

lemma same_key_asks:
  assumes "cache_key_new task rule = cache_key_new task' rule'"
  shows "task_gone rd task rule = task_gone rd task' rule'"
    and "affinity_asked rd task rule = None \<longleftrightarrow> affinity_asked rd task' rule' = None"
    and "nice_asked rd task rule = None \<longleftrightarrow> nice_asked rd task' rule' = None"
    and "ionice_asked rd task rule = None \<longleftrightarrow> ionice_asked rd task' rule' = None"
  using assms
  by (auto simp: cache_key_new_def task_gone_def affinity_asked_def nice_asked_def ionice_asked_def
      task_has_complete_identity_def split: option.splits sum.splits if_splits)

lemma rule_keys_snoc: "rule_keys p P (tasks @ [task]) = rule_keys p P tasks @ rule_keys p P [task]"
  by (simp add: rule_keys_def map_filter_def)

lemma rule_keys_one:
  "matching_profile_rule task p = None \<Longrightarrow> rule_keys p P [task] = []"
  "matching_profile_rule task p = Some rule \<Longrightarrow> rule_keys p P [task] = (if P task rule then [cache_key_new task rule] else [])"
  by (simp_all add: rule_keys_def map_filter_def)

lemma settled_key:
  assumes "cache_key_new task rule \<in> set (settled rd p tasks)" "matching_profile_rule task p = Some rule"
  shows "\<not> asks rd p task" "\<not> task_gone rd task rule"
proof -
  obtain task' rule' where t: "matching_profile_rule task' p = Some rule'" "\<not> task_gone rd task' rule'"
    "\<not> asks rd p task'" "cache_key_new task rule = cache_key_new task' rule'"
    using assms(1) by (auto simp: settled_def rule_keys_def map_filter_def split: option.splits if_splits)
  then show "\<not> asks rd p task" "\<not> task_gone rd task rule"
    using assms(2) same_key_asks [OF t(4)] by (simp_all add: asks_def of_rule_def)
qed

definition plan_collects :: "task_readers \<Rightarrow> profile \<Rightarrow> profile_cache option \<Rightarrow> task_info list \<Rightarrow> plan_state \<Rightarrow> bool" where
  "plan_collects rd p cache tasks st \<longleftrightarrow>
     (let fresh = filter (\<lambda>task. \<not> known p cache task) tasks; plan = ps_plan st
      in ps_cache st = map_option (\<lambda>c. c \<union> set (settled rd p fresh)) cache
         \<and> ps_seen st = set (rule_keys p (\<lambda>_ _. True) tasks)
         \<and> pp_affinity_changes plan = collected rd p (affinity_asked rd) fresh
         \<and> pp_nice_records plan = collected rd p (nice_asked rd) fresh
         \<and> pp_ionice_records plan = collected rd p (ionice_asked rd) fresh
         \<and> pp_nice_groups plan = grouped (collected rd p (nice_target rd) fresh)
         \<and> pp_ionice_groups plan = grouped (collected rd p (ionice_target rd) fresh)
         \<and> pp_cache_keys plan = rule_keys p (\<lambda>task _. asks rd p task) fresh
         \<and> pp_summary plan = (expected_summary rd p fresh)
             \<lparr>pa_checked_tasks := length (filter (\<lambda>task. matching_profile_rule task p \<noteq> None) tasks)\<rparr>
         \<and> ps_pending st = pending_tids rd p fresh)"

lemma plan_collects_start: "plan_collects rd p cache [] \<lparr>ps_plan = empty_plan, ps_seen = {}, ps_pending = {}, ps_cache = cache\<rparr>"
  by (cases cache) (simp_all add: plan_collects_def collected_def pending_tids_def expected_summary_def empty_plan_def
      apply_summary_zero_def map_filter_def rule_keys_def settled_def grouped_def)

lemma quiet_snoc:
  assumes "\<not> asks rd p task"
  shows "pending_tids rd p (tasks @ [task]) = pending_tids rd p tasks"
    "collected rd p (affinity_asked rd) (tasks @ [task]) = collected rd p (affinity_asked rd) tasks"
    "collected rd p (nice_asked rd) (tasks @ [task]) = collected rd p (nice_asked rd) tasks"
    "collected rd p (ionice_asked rd) (tasks @ [task]) = collected rd p (ionice_asked rd) tasks"
    "collected rd p (nice_target rd) (tasks @ [task]) = collected rd p (nice_target rd) tasks"
    "collected rd p (ionice_target rd) (tasks @ [task]) = collected rd p (ionice_target rd) tasks"
    "rule_keys p (\<lambda>task _. asks rd p task) (tasks @ [task]) = rule_keys p (\<lambda>task _. asks rd p task) tasks"
  using assms
  by (auto simp: pending_tids_def collected_snoc opt_list_def asks_def of_rule_def nice_target_def ionice_target_def
      rule_keys_def map_filter_def split: option.splits if_splits)

lemma plan_collects_step:
  assumes "plan_collects rd p cache tasks st" "plan_task rd p task st = Inr st'"
  shows "plan_collects rd p cache (tasks @ [task]) st'"
proof (cases "matching_profile_rule task p")
  case None
  then have "\<not> asks rd p task" "\<not> known p cache task" "st' = st"
    using assms(2) by (simp_all add: asks_def of_rule_def known_def plan_task_def)
  then show ?thesis
    using assms(1) None
    by (simp add: plan_collects_def quiet_snoc rule_keys_snoc rule_keys_one settled_def expected_summary_def Let_def)
next
  case (Some rule)
  let ?fresh = "filter (\<lambda>task. \<not> known p cache task) tasks"
  let ?skip = "st\<lparr>ps_plan := (ps_plan st)\<lparr>pp_summary := (pp_summary (ps_plan st))
      \<lparr>pa_checked_tasks := pa_checked_tasks (pp_summary (ps_plan st)) + 1\<rparr>\<rparr>,
      ps_seen := insert (cache_key_new task rule) (ps_seen st)\<rparr>"
  have cache: "ps_cache st = map_option (\<lambda>c. c \<union> set (settled rd p ?fresh)) cache"
    using assms(1) by (simp add: plan_collects_def Let_def)
  then have knows: "known p (ps_cache st) task \<longleftrightarrow>
      known p cache task \<or> cache \<noteq> None \<and> cache_key_new task rule \<in> set (settled rd p ?fresh)"
    by (cases cache) (simp_all add: known_def Some)
  consider (known) "known p cache task"
    | (settled) "\<not> known p cache task" "cache \<noteq> None" "cache_key_new task rule \<in> set (settled rd p ?fresh)"
    | (fresh) "\<not> known p (ps_cache st) task" "\<not> known p cache task"
    using knows by blast
  then show ?thesis
  proof cases
    case known
    then have "st' = ?skip"
      using assms(2) plan_task_known [OF Some, of st rd] knows by simp
    then show ?thesis
      using assms(1) known Some by (simp add: plan_collects_def rule_keys_snoc rule_keys_one expected_summary_def Let_def)
  next
    case settled
    note quiet = settled_key [OF settled(3) Some]
    have "st' = ?skip"
      using assms(2) plan_task_known [OF Some, of st rd] knows settled by simp
    then show ?thesis
      using assms(1) settled quiet Some
      by (auto simp: plan_collects_def quiet_snoc rule_keys_snoc rule_keys_one settled_def expected_summary_def Let_def)
  next
    case fresh
    obtain d where d: "decide_profile_task_actions rd task rule = Inr d"
      using assms(2) Some fresh(1)
      by (cases "decide_profile_task_actions rd task rule")
        (auto simp: plan_task_def known_def Let_def split: option.splits if_splits)
    show ?thesis
    proof (cases "task_gone rd task rule")
      case True
      then have "\<not> asks rd p task" by (simp add: asks_def of_rule_def Some)
      moreover have "st' = ?skip"
        using assms(2) plan_task_gone [OF Some fresh(1) d True] by simp
      ultimately show ?thesis
        using assms(1) fresh(2) True Some
        by (simp add: plan_collects_def quiet_snoc rule_keys_snoc rule_keys_one settled_def expected_summary_def Let_def)
    next
      case False
      have rules: "of_rule rd p (affinity_asked rd) task = affinity_asked rd task rule"
        "of_rule rd p (nice_asked rd) task = nice_asked rd task rule"
        "of_rule rd p (ionice_asked rd) task = ionice_asked rd task rule"
        "of_rule rd p (nice_target rd) task = nice_target rd task rule"
        "of_rule rd p (ionice_target rd) task = ionice_target rd task rule"
        using False by (simp_all add: of_rule_def Some)
      note st' = plan_task_alive [OF Some fresh(1) d False, unfolded assms(2) Let_def sum.inject]
      note collects = assms(1) [unfolded plan_collects_def Let_def]
      have filters: "filter (\<lambda>task. \<not> known p cache task) (tasks @ [task]) = ?fresh @ [task]"
        "filter (\<lambda>task. matching_profile_rule task p \<noteq> None) (tasks @ [task])
          = filter (\<lambda>task. matching_profile_rule task p \<noteq> None) tasks @ [task]"
        using fresh(2) Some by simp_all
      have keys: "rule_keys p (\<lambda>_ _. True) (tasks @ [task]) = rule_keys p (\<lambda>_ _. True) tasks @ [cache_key_new task rule]"
        "rule_keys p (\<lambda>task _. asks rd p task) (?fresh @ [task]) = rule_keys p (\<lambda>task _. asks rd p task) ?fresh
          @ (if asks rd p task then [cache_key_new task rule] else [])"
        "settled rd p (?fresh @ [task]) = settled rd p ?fresh
          @ (if asks rd p task then [] else [cache_key_new task rule])"
        using False by (simp_all add: rule_keys_snoc rule_keys_one(2) [OF Some] settled_def)
      have pending: "pending_tids rd p (?fresh @ [task]) = pending_tids rd p ?fresh
          \<union> (if asks rd p task then {t_tid task} else {})"
        by (simp add: pending_tids_def)
      show ?thesis
        unfolding plan_collects_def Let_def filters keys pending collected_snoc rules grouped_push_entry
        using collects unfolding st'
        by (cases "asks rd p task")
          (simp_all add: expected_summary_def collected_snoc rules option.map_comp comp_def Some)
    qed
  qed
qed

lemma plan_collects_loop:
  "plan_collects rd p cache done_tasks st \<Longrightarrow> plan_loop_tasks rd p tasks st = Inr st'
    \<Longrightarrow> plan_collects rd p cache (done_tasks @ tasks) st'"
proof (induction tasks arbitrary: done_tasks st)
  case (Cons task tasks)
  obtain st1 where "plan_task rd p task st = Inr st1" "plan_loop_tasks rd p tasks st1 = Inr st'"
    using Cons.prems(2) by auto
  then show ?case using Cons.IH [of "done_tasks @ [task]" st1] plan_collects_step [OF Cons.prems(1)] by simp
qed simp

lemma planned_collects:
  assumes "planned_profile_apply_with_readers rd tasks p cache = Inr (plan, cache')"
  obtains st where "plan_collects rd p cache (map snd tasks) st"
    and "plan = (ps_plan st)\<lparr>pp_summary := (pp_summary (ps_plan st))\<lparr>pa_pending_changes := card (ps_pending st)\<rparr>\<rparr>"
    and "cache' = map_option (\<lambda>c. c \<inter> ps_seen st) (ps_cache st)"
proof -
  obtain st where st: "plan_loop_tasks rd p (map snd tasks) \<lparr>ps_plan = empty_plan, ps_seen = {}, ps_pending = {},
      ps_cache = cache\<rparr> = Inr st"
    and "plan = (ps_plan st)\<lparr>pp_summary := (pp_summary (ps_plan st))\<lparr>pa_pending_changes := card (ps_pending st)\<rparr>\<rparr>"
    and "cache' = map_option (\<lambda>c. c \<inter> ps_seen st) (ps_cache st)"
    using assms by (auto simp: planned_profile_apply_with_readers_def Let_def)
  then show ?thesis using plan_collects_loop [OF plan_collects_start st] that by simp
qed

text \<open>
  C14. A plan is exactly what its tasks ask for, one by one. Of the tasks that the cache does not know (all of them when there
  is no cache), planning collects, in the order of the threads, one affinity, nice or I/O priority record for every task
  whose first matching rule asks for a value it does not have, whose process and thread start times are known and which is
  still there, and nothing else. The groups that are applied hold the same tasks under the value each is to get, values
  in ascending order. The counters are the numbers of these records, of all matched threads and of the threads that are
  named. Afterwards the cache holds the keys it had or that proved to be satisfied, as far as a matched task has them.
\<close>
theorem plan_is_what_tasks_ask:
  assumes "planned_profile_apply_with_readers rd tasks p cache = Inr (plan, cache')"
    and "fresh = filter (\<lambda>task. \<not> known p cache task) (map snd tasks)"
  shows "pp_affinity_changes plan = collected rd p (affinity_asked rd) fresh
    \<and> pp_nice_records plan = collected rd p (nice_asked rd) fresh
    \<and> pp_ionice_records plan = collected rd p (ionice_asked rd) fresh
    \<and> pp_nice_groups plan = grouped (collected rd p (nice_target rd) fresh)
    \<and> pp_ionice_groups plan = grouped (collected rd p (ionice_target rd) fresh)
    \<and> pp_cache_keys plan = rule_keys p (\<lambda>task _. asks rd p task) fresh
    \<and> pp_summary plan = (expected_summary rd p fresh)
        \<lparr>pa_checked_tasks := length (filter (\<lambda>task. matching_profile_rule task p \<noteq> None) (map snd tasks)),
         pa_pending_changes := card (pending_tids rd p fresh)\<rparr>
    \<and> cache' = map_option (\<lambda>c. (c \<union> set (settled rd p fresh)) \<inter> set (rule_keys p (\<lambda>_ _. True) (map snd tasks))) cache"
proof -
  obtain st where "plan_collects rd p cache (map snd tasks) st"
    "plan = (ps_plan st)\<lparr>pp_summary := (pp_summary (ps_plan st))\<lparr>pa_pending_changes := card (ps_pending st)\<rparr>\<rparr>"
    "cache' = map_option (\<lambda>c. c \<inter> ps_seen st) (ps_cache st)"
    using planned_collects [OF assms(1)] by blast
  then show ?thesis
    by (simp add: plan_collects_def assms(2) Let_def option.map_comp comp_def)
qed

section \<open>The summary counts what the plan changes\<close>

definition plannable :: "task_readers \<Rightarrow> profile \<Rightarrow> task_info \<Rightarrow> bool" where
  "plannable rd p task \<longleftrightarrow>
     (case matching_profile_rule task p of
        None \<Rightarrow> True
      | Some rule \<Rightarrow> task_has_complete_identity task \<and> \<not> task_gone rd task rule)"

definition insert_if :: "bool \<Rightarrow> 'a \<Rightarrow> 'a set \<Rightarrow> 'a set" where
  "insert_if b x A = (if b then insert x A else A)"

lemma summary_ionice_alive:
  assumes "transpose_opt (decide_ionice rd task) (ru_ionice rule) = Inr i" "task_has_complete_identity task"
    and "\<not> task_gone rd task rule"
  shows "summary_ionice rd task rule (s, P) =
     Inr (s\<lparr>pa_pending_ionice := pa_pending_ionice s + length (opt_list (ionice_asked rd task rule))\<rparr>,
          insert_if (ionice_asked rd task rule \<noteq> None) (t_tid task) P)"
  using assms
  by (auto simp: summary_ionice_def summary_count_def transpose_opt_def decide_ionice_def ionice_asked_def opt_list_def
      insert_if_def task_gone_def split: option.splits sum.splits if_splits)

lemma summary_nice_alive:
  assumes "transpose_opt (decide_nice rd task) (ru_nice rule) = Inr n" "task_has_complete_identity task"
    and "\<not> task_gone rd task rule"
  shows "summary_nice rd task rule (s, P) = summary_ionice rd task rule
     (s\<lparr>pa_pending_nice := pa_pending_nice s + length (opt_list (nice_asked rd task rule))\<rparr>,
      insert_if (nice_asked rd task rule \<noteq> None) (t_tid task) P)"
  using assms
  by (auto simp: summary_nice_def summary_count_def transpose_opt_def decide_nice_def nice_asked_def opt_list_def
      insert_if_def task_gone_def split: option.splits sum.splits if_splits)

lemma summary_task_alive:
  assumes "matching_profile_rule task p = Some rule" "task_has_complete_identity task" "\<not> task_gone rd task rule"
    and "transpose_opt (decide_affinity rd task) (ru_affinity rule) = Inr a"
  shows "summary_task rd p task (s, P) = summary_nice rd task rule
     (s\<lparr>pa_checked_tasks := pa_checked_tasks s + 1,
        pa_pending_affinity := pa_pending_affinity s + length (opt_list (affinity_asked rd task rule))\<rparr>,
      insert_if (affinity_asked rd task rule \<noteq> None) (t_tid task) P)"
  using assms
  by (auto simp: summary_task_def summary_count_def transpose_opt_def decide_affinity_def affinity_asked_def opt_list_def
      insert_if_def task_gone_def Let_def split: option.splits sum.splits if_splits)

lemma summary_step:
  assumes "plannable rd p task" "plan_task rd p task st = Inr st'" "plan_agrees rd p tasks st"
  shows "summary_task rd p task (expected_summary rd p tasks, pending_tids rd p tasks) =
     Inr (expected_summary rd p (tasks @ [task]), pending_tids rd p (tasks @ [task]))"
proof (cases "matching_profile_rule task p")
  case None
  then have "\<not> asks rd p task" by (simp add: asks_def of_rule_def)
  then show ?thesis
    using None by (simp add: summary_task_def agrees_snoc_skip [OF assms(3)] expected_summary_def)
next
  case (Some rule)
  then have ok: "task_has_complete_identity task" "\<not> task_gone rd task rule" using assms(1) by (simp_all add: plannable_def)
  have cache: "ps_cache st = None" using assms(3) by (simp add: plan_agrees_def)
  obtain d where d: "decide_profile_task_actions rd task rule = Inr d"
    using assms(2) Some cache by (cases "decide_profile_task_actions rd task rule") (simp_all add: plan_task_def Let_def)
  note alive = decide_alive [OF d ok(2)]
  show ?thesis
    using ok(2)
    by (simp add: summary_task_alive [OF Some ok alive(1)] summary_nice_alive [OF alive(2) ok]
        summary_ionice_alive [OF alive(3) ok] expected_summary_def collected_snoc of_rule_def Some pending_tids_def asks_def
        insert_if_def)
qed

lemma summary_loop_agrees:
  "plan_agrees rd p done_tasks st \<Longrightarrow> plan_loop_tasks rd p tasks st = Inr st' \<Longrightarrow> list_all (plannable rd p) tasks \<Longrightarrow>
     summary_loop rd p tasks (expected_summary rd p done_tasks, pending_tids rd p done_tasks) =
       Inr (expected_summary rd p (done_tasks @ tasks), pending_tids rd p (done_tasks @ tasks))"
proof (induction tasks arbitrary: done_tasks st)
  case (Cons task tasks)
  obtain st1 where st1: "plan_task rd p task st = Inr st1" "plan_loop_tasks rd p tasks st1 = Inr st'"
    using Cons.prems(2) by auto
  have "summary_task rd p task (expected_summary rd p done_tasks, pending_tids rd p done_tasks) =
     Inr (expected_summary rd p (done_tasks @ [task]), pending_tids rd p (done_tasks @ [task]))"
    using Cons.prems(3) by (intro summary_step [OF _ st1(1) Cons.prems(1)]) simp
  then show ?case
    using Cons.IH [OF plan_agrees_step [OF Cons.prems(1) st1(1)] st1(2)] Cons.prems(3) by simp
qed simp

text \<open>
  C16. The summary that a dry run and the verification report is the summary of the plan, as long as every matched task has a
  known identity and is still there: the two loops, written separately, count the same changes.
\<close>
theorem summary_is_the_plans_summary:
  assumes "planned_profile_apply_with_readers rd tasks p None = Inr (plan, cache)"
    and "list_all (plannable rd p) (map snd tasks)"
  shows "profile_apply_summary_with_readers rd tasks p = Inr (pp_summary plan)"
proof -
  obtain st where st: "plan_loop_tasks rd p (map snd tasks) \<lparr>ps_plan = empty_plan, ps_seen = {}, ps_pending = {},
      ps_cache = None\<rparr> = Inr st" and agrees: "plan_agrees rd p (map snd tasks) st"
    and plan: "plan = (ps_plan st)\<lparr>pp_summary := (pp_summary (ps_plan st))\<lparr>pa_pending_changes := card (ps_pending st)\<rparr>\<rparr>"
    using planned_state [OF assms(1)] by blast
  have start: "apply_summary_zero = expected_summary rd p []" "{} = pending_tids rd p []"
    by (simp_all add: expected_summary_def pending_tids_def apply_summary_zero_def collected_def map_filter_def)
  from agrees show ?thesis
    using summary_loop_agrees [OF plan_agrees_start st assms(2)]
    by (simp add: profile_apply_summary_with_readers_def start plan_agrees_def plan)
qed

section \<open>The explanation counts what the plan changes\<close>

lemma matching_evidence:
  assumes "matching_profile_rule_with_evidence task p = Some (idx, rule, ev)"
  shows "matching_profile_rule task p = Some rule" "idx < length (pl_rules p)"
  using assms
  by (auto simp: matching_profile_rule_def matching_profile_rule_with_index_def matching_profile_rule_with_evidence_def
      find_rule_nth)

lemma sum_list_map_update:
  "i < length xs \<Longrightarrow> f y = f (xs ! i) + k \<Longrightarrow> sum_list (map f (xs[i := y])) = sum_list (map f xs) + (k :: nat)"
  by (induction xs arbitrary: i) (auto simp: nth_Cons split: nat.splits)

definition explain_agrees :: "task_readers \<Rightarrow> profile \<Rightarrow> task_info list \<Rightarrow> explain_state \<Rightarrow> bool" where
  "explain_agrees rd p tasks st \<longleftrightarrow>
     length (es_rules st) = length (pl_rules p)
     \<and> sum_list (map re_matched_tasks (es_rules st)) = length (filter (\<lambda>task. matching_profile_rule task p \<noteq> None) tasks)
     \<and> sum_list (map re_pending_affinity (es_rules st)) = length (collected rd p (affinity_asked rd) tasks)
     \<and> sum_list (map re_pending_nice (es_rules st)) = length (collected rd p (nice_asked rd) tasks)
     \<and> sum_list (map re_pending_ionice (es_rules st)) = length (collected rd p (ionice_asked rd) tasks)
     \<and> un_tasks (es_unmatched st) = length (filter (\<lambda>task. matching_profile_rule task p = None) tasks)
     \<and> es_pending st = pending_tids rd p tasks"

definition present :: "task_readers \<Rightarrow> profile \<Rightarrow> task_info \<Rightarrow> bool" where
  "present rd p task \<longleftrightarrow>
     (case matching_profile_rule task p of None \<Rightarrow> True | Some rule \<Rightarrow> \<not> task_gone rd task rule)"

lemma explain_step:
  assumes "explain_agrees rd p tasks st" "present rd p task" "plan_agrees rd p tasks pst" "plan_task rd p task pst = Inr pst'"
  shows "\<exists>st'. explain_task rd include_tasks p task st = Inr st' \<and> explain_agrees rd p (tasks @ [task]) st'"
proof (cases "matching_profile_rule_with_evidence task p")
  case None
  then have m: "matching_profile_rule task p = None"
    by (simp add: matching_profile_rule_def matching_profile_rule_with_index_def)
  then have "\<not> asks rd p task" by (simp add: asks_def of_rule_def)
  then show ?thesis
    using assms(1) None m by (simp add: explain_task_def explain_agrees_def agrees_snoc_skip [OF assms(3)] Let_def)
next
  case (Some m)
  obtain idx rule ev where m: "m = (idx, rule, ev)" by (rule prod_cases3)
  note ev = matching_evidence [OF Some [unfolded m]]
  have gone: "\<not> task_gone rd task rule" using assms(2) ev(1) by (simp add: present_def)
  have cache: "ps_cache pst = None" using assms(3) by (simp add: plan_agrees_def)
  obtain d where d: "decide_profile_task_actions rd task rule = Inr d"
    using assms(4) ev(1) cache by (cases "decide_profile_task_actions rd task rule") (simp_all add: plan_task_def Let_def)
  have idx: "idx < length (es_rules st)" using assms(1) ev(2) by (simp add: explain_agrees_def)
  let ?r = "es_rules st ! idx"
  let ?r' = "explain_matched include_tasks task idx ev d ?r"
  have counts: "re_matched_tasks ?r' = re_matched_tasks ?r + 1"
    "re_pending_affinity ?r' = re_pending_affinity ?r + length (opt_list (affinity_asked rd task rule))"
    "re_pending_nice ?r' = re_pending_nice ?r + length (opt_list (nice_asked rd task rule))"
    "re_pending_ionice ?r' = re_pending_ionice ?r + length (opt_list (ionice_asked rd task rule))"
    using decision_pending_iff [OF d gone] by (auto simp: explain_matched_def count_if_def opt_list_def split: option.splits)
  have "decision_pending d \<longleftrightarrow> asks rd p task"
    using decision_pending_iff [OF d gone] gone by (simp add: decision_pending_def asks_def of_rule_def ev(1))
  moreover note sums = sum_list_map_update [where f = re_matched_tasks, OF idx counts(1)]
    sum_list_map_update [where f = re_pending_affinity, OF idx counts(2)]
    sum_list_map_update [where f = re_pending_nice, OF idx counts(3)]
    sum_list_map_update [where f = re_pending_ionice, OF idx counts(4)]
  ultimately show ?thesis
    using assms(1) Some m d ev(1) gone
    by (simp add: explain_task_def explain_agrees_def sums collected_snoc of_rule_def pending_tids_def)
qed

lemma explain_loop_agrees:
  "explain_agrees rd p done_tasks st \<Longrightarrow> plan_agrees rd p done_tasks pst \<Longrightarrow> plan_loop_tasks rd p tasks pst = Inr pst'
    \<Longrightarrow> list_all (present rd p) tasks
    \<Longrightarrow> \<exists>st'. explain_loop rd include_tasks p tasks st = Inr st' \<and> explain_agrees rd p (done_tasks @ tasks) st'"
proof (induction tasks arbitrary: done_tasks st pst)
  case (Cons task tasks)
  obtain pst1 where pst1: "plan_task rd p task pst = Inr pst1" "plan_loop_tasks rd p tasks pst1 = Inr pst'"
    using Cons.prems(3) by auto
  obtain st1 where st1: "explain_task rd include_tasks p task st = Inr st1" "explain_agrees rd p (done_tasks @ [task]) st1"
    using explain_step [OF Cons.prems(1) _ Cons.prems(2) pst1(1)] Cons.prems(4) by auto
  show ?case
    using Cons.IH [OF st1(2) plan_agrees_step [OF Cons.prems(2) pst1(1)] pst1(2)] Cons.prems(4) st1(1) by simp
qed simp

lemma explain_agrees_start:
  "explain_agrees rd p [] \<lparr>es_rules = map empty_rule_explain (enumerate 0 (pl_rules p)),
     es_unmatched = \<lparr>un_tasks = 0, un_classes = [], un_top_thread_comms = [], un_top_process_comms = []\<rparr>, es_pending = {}\<rparr>"
  by (simp add: explain_agrees_def collected_def map_filter_def pending_tids_def comp_def empty_rule_explain_def case_prod_beta)

text \<open>
  The explanation of a profile tells what applying it would change: when planning succeeds and no matched task is gone, the
  report exists, every task of the snapshot is counted as matched or as unmatched, and its counters of pending affinity, nice
  and I/O priority changes and of pending threads are those of the plan.
\<close>
theorem explanation_agrees_with_plan:
  assumes "planned_profile_apply_with_readers rd tasks p None = Inr (plan, cache)"
    and "list_all (present rd p) (map snd tasks)"
  shows "\<exists>report. explain_profile_for_snapshot rd tree_pid include_tasks p tasks = Inr report
    \<and> xr_matched_tasks report + xr_unmatched_tasks report = xr_snapshot_tasks report
    \<and> xr_matched_tasks report = pa_checked_tasks (pp_summary plan)
    \<and> xr_pending_affinity report = pa_pending_affinity (pp_summary plan)
    \<and> xr_pending_nice report = pa_pending_nice (pp_summary plan)
    \<and> xr_pending_ionice report = pa_pending_ionice (pp_summary plan)
    \<and> xr_pending_unique_tasks report = pa_pending_changes (pp_summary plan)"
proof -
  obtain pst where pst: "plan_loop_tasks rd p (map snd tasks) \<lparr>ps_plan = empty_plan, ps_seen = {}, ps_pending = {},
      ps_cache = None\<rparr> = Inr pst" and agrees: "plan_agrees rd p (map snd tasks) pst"
    and plan: "plan = (ps_plan pst)\<lparr>pp_summary := (pp_summary (ps_plan pst))\<lparr>pa_pending_changes := card (ps_pending pst)\<rparr>\<rparr>"
    using planned_state [OF assms(1)] by blast
  obtain st where st: "explain_loop rd include_tasks p (map snd tasks)
       \<lparr>es_rules = map empty_rule_explain (enumerate 0 (pl_rules p)),
        es_unmatched = \<lparr>un_tasks = 0, un_classes = [], un_top_thread_comms = [], un_top_process_comms = []\<rparr>, es_pending = {}\<rparr>
       = Inr st" "explain_agrees rd p ([] @ map snd tasks) st"
    using explain_loop_agrees [OF explain_agrees_start plan_agrees_start pst assms(2)] by blast
  have "length (filter (\<lambda>task. matching_profile_rule task p \<noteq> None) ts)
      + length (filter (\<lambda>task. matching_profile_rule task p = None) ts) = length ts" for ts
    using sum_length_filter_compl [of "\<lambda>task. matching_profile_rule task p \<noteq> None" ts] by simp
  from this [of "map snd tasks"] show ?thesis
    using st agrees
    by (simp add: explain_profile_for_snapshot_def plan_agrees_def explain_agrees_def plan expected_summary_def Let_def)
qed

section \<open>A small snapshot\<close>

text \<open>Two threads of a game on CPUs 0 and 1, the second without a known start time, and a rule that wants CPU 0.\<close>

definition sample_task :: "u32 \<Rightarrow> u64 option \<Rightarrow> task_info" where
  "sample_task tid start =
     \<lparr>t_tid = tid, t_process_pid = 10, t_process_ppid = 1, t_comm = ''game'', t_process_comm = ''game'',
      t_process_starttime_ticks = Some 5, t_task_starttime_ticks = start, t_exe_dev = None, t_exe_ino = None, t_class = TC_Game,
      t_sched_policy = None, t_from_cgroup = False\<rparr>"

definition sample_profile :: profile where
  "sample_profile =
     \<lparr>pl_name = ''one cpu'',
      pl_rules = [\<lparr>ru_affinity = Some \<lparr>cm_words = [1]\<rparr>, ru_nice = None, ru_ionice = None, ru_match_class = [TC_Game],
                   ru_match_comm = []\<rparr>]\<rparr>"

definition sample_readers :: task_readers where
  "sample_readers = \<lparr>rd_mask = (\<lambda>_. Inr \<lparr>cm_words = [3]\<rparr>), rd_nice = (\<lambda>_. Inr 0), rd_ioprio = (\<lambda>_. Inr 0)\<rparr>"

definition sample_tasks :: task_map where
  "sample_tasks = [(10, sample_task 10 (Some 5)), (11, sample_task 11 (Some 6))]"

definition ok_with :: "'e + 'a \<times> 'b \<Rightarrow> ('a \<Rightarrow> bool) \<Rightarrow> bool" where
  "ok_with r P = (case r of Inl _ \<Rightarrow> False | Inr (x, _) \<Rightarrow> P x)"

lemma ok_withI: "is_ok r \<Longrightarrow> (\<And>x y. r = Inr (x, y) \<Longrightarrow> P x) \<Longrightarrow> ok_with r P"
  by (cases r) (auto simp: ok_with_def)

lemma sample_plan_ok: "is_ok (planned_profile_apply_with_readers sample_readers sample_tasks sample_profile None)"
  by code_simp

lemma sample_plannable: "list_all (plannable sample_readers sample_profile) (map snd sample_tasks)"
  by code_simp

lemma sample_present: "list_all (present sample_readers sample_profile) (map snd sample_tasks)"
  by code_simp

definition sample_nice_profile :: profile where
  "sample_nice_profile =
     \<lparr>pl_name = ''quiet'',
      pl_rules = [\<lparr>ru_affinity = Some \<lparr>cm_words = [1]\<rparr>, ru_nice = Some 5, ru_ionice = None, ru_match_class = [TC_Game],
                   ru_match_comm = []\<rparr>]\<rparr>"

definition sample_cache :: profile_cache where
  "sample_cache = {cache_key_new (sample_task 10 (Some 5)) (hd (pl_rules sample_nice_profile))}"

lemma sample_cached_plan:
  "is_ok (planned_profile_apply_with_readers sample_readers sample_tasks sample_nice_profile (Some sample_cache))
   \<and> map ar_tid (collected sample_readers sample_nice_profile (affinity_asked sample_readers)
       (filter (\<lambda>task. \<not> known sample_nice_profile (Some sample_cache) task) (map snd sample_tasks))) = [11]
   \<and> grouped (collected sample_readers sample_nice_profile (nice_target sample_readers)
       (filter (\<lambda>task. \<not> known sample_nice_profile (Some sample_cache) task) (map snd sample_tasks)))
     = [(5, [identity_from_task_info (sample_task 11 (Some 6))])]"
  by code_simp

theorem plan_is_what_tasks_ask_witness:
  "ok_with (planned_profile_apply_with_readers sample_readers sample_tasks sample_nice_profile (Some sample_cache))
     (\<lambda>plan. map ar_tid (pp_affinity_changes plan) = [11]
        \<and> pp_nice_groups plan = [(5, [identity_from_task_info (sample_task 11 (Some 6))])])"
proof (rule ok_withI)
  show "is_ok (planned_profile_apply_with_readers sample_readers sample_tasks sample_nice_profile (Some sample_cache))"
    using sample_cached_plan by blast
  fix plan cache'
  assume "planned_profile_apply_with_readers sample_readers sample_tasks sample_nice_profile (Some sample_cache)
    = Inr (plan, cache')"
  from plan_is_what_tasks_ask [OF this refl] show "map ar_tid (pp_affinity_changes plan) = [11]
      \<and> pp_nice_groups plan = [(5, [identity_from_task_info (sample_task 11 (Some 6))])]"
    using sample_cached_plan by simp
qed

theorem summary_is_the_plans_summary_witness:
  "ok_with (planned_profile_apply_with_readers sample_readers sample_tasks sample_profile None)
     (\<lambda>plan. profile_apply_summary_with_readers sample_readers sample_tasks sample_profile = Inr (pp_summary plan))"
  by (rule ok_withI [OF sample_plan_ok]) (rule summary_is_the_plans_summary [OF _ sample_plannable])

theorem explanation_agrees_with_plan_witness:
  "ok_with (planned_profile_apply_with_readers sample_readers sample_tasks sample_profile None)
     (\<lambda>plan. \<exists>report. explain_profile_for_snapshot sample_readers None True sample_profile sample_tasks = Inr report
        \<and> xr_pending_affinity report = pa_pending_affinity (pp_summary plan))"
  by (rule ok_withI [OF sample_plan_ok]) (use explanation_agrees_with_plan [OF _ sample_present] in blast)

text \<open>
  A thread whose start time could not be read makes verification fail for good: the plan leaves it alone because it could
  not be restored, but the summary counts it as pending, so a profile that was applied in full is reported as not applied.
\<close>
theorem unidentified_task_is_pending_forever:
  "ok_with (planned_profile_apply_with_readers sample_readers [(11, sample_task 11 None)] sample_profile None) plan_is_empty
   \<and> (case profile_apply_summary_with_readers sample_readers [(11, sample_task 11 None)] sample_profile of
        Inl _ \<Rightarrow> False
      | Inr s \<Rightarrow> pa_checked_tasks s = 1 \<and> pa_pending_changes s = 1)"
  by code_simp

end
