(* ===== verification/Profile_Facts.thy ===== *)
theory Profile_Facts
  imports Profile_Plan_Facts
begin

text \<open>
  What profiles promise: the first matching rule decides a task, what is printed parses back, a plan asks only for
  changes that are needed on tasks whose identity is known, and the explanation and the summary agree with the plan.
\<close>

section \<open>The first matching rule decides\<close>

text \<open>
  What a rule asks of a task: its class list is empty or names the class of the task, and its pattern list is empty or
  one of the patterns matches the name of the task or that of its process.
\<close>

definition rule_applies :: "task_info \<Rightarrow> profile_rule \<Rightarrow> bool" where
  "rule_applies task rule \<longleftrightarrow>
     (ru_match_class rule = [] \<or> t_class task \<in> set (ru_match_class rule))
     \<and> (ru_match_comm rule = []
        \<or> list_ex (\<lambda>pattern. pattern_matches pattern (t_comm task) \<or> pattern_matches pattern (t_process_comm task))
             (ru_match_comm rule))"

lemma no_hits_iff:
  "concat (map (pattern_hits task) (enumerate n patterns)) = [] \<longleftrightarrow>
     \<not> list_ex (\<lambda>pattern. pattern_matches pattern (t_comm task) \<or> pattern_matches pattern (t_process_comm task)) patterns"
  by (induction patterns arbitrary: n) (auto simp: pattern_hits_def)

lemma evidence_iff: "profile_rule_match_evidence task rule = None \<longleftrightarrow> \<not> rule_applies task rule"
  by (auto simp: profile_rule_match_evidence_def rule_applies_def Let_def no_hits_iff
      simp del: concat_eq_Nil_conv split: if_splits)

lemma matching_rule_some:
  "matching_profile_rule_with_index task p = Some (i, rule) \<longleftrightarrow>
     i < length (pl_rules p) \<and> pl_rules p ! i = rule \<and> rule_applies task rule
     \<and> list_all (\<lambda>r. \<not> rule_applies task r) (take i (pl_rules p))"
proof -
  have "matching_profile_rule_with_index task p = Some (i, rule) \<longleftrightarrow>
      (\<exists>ev. find_rule task (enumerate 0 (pl_rules p)) = Some (i, rule, ev))"
    by (auto simp: matching_profile_rule_with_index_def matching_profile_rule_with_evidence_def)
  moreover have "(\<forall>j < i. profile_rule_match_evidence task (pl_rules p ! j) = None) \<longleftrightarrow>
      list_all (\<lambda>r. \<not> rule_applies task r) (take i (pl_rules p))" if "i < length (pl_rules p)"
    using that by (auto simp: list_all_length evidence_iff)
  moreover have "(\<exists>ev. profile_rule_match_evidence task rule = Some ev) \<longleftrightarrow> rule_applies task rule"
    using evidence_iff [of task rule] by auto
  ultimately show ?thesis
    by (auto simp: find_rule_nth)
qed

lemma matching_rule_none:
  "matching_profile_rule_with_index task p = None \<longleftrightarrow> list_all (\<lambda>r. \<not> rule_applies task r) (pl_rules p)"
proof -
  have "find_rule task (enumerate n rules) = None \<longleftrightarrow> list_all (\<lambda>r. \<not> rule_applies task r) rules" for n rules
    by (induction rules arbitrary: n) (auto simp flip: evidence_iff split: option.splits)
  then show ?thesis
    by (simp add: matching_profile_rule_with_index_def matching_profile_rule_with_evidence_def)
qed

text \<open>
  C27. The first matching rule decides. A task gets rule \<open>i\<close> of a profile exactly when its class is among the classes of the
  rule (or the rule names none), its name or that of its process matches one of the patterns of the rule (or the rule has
  none), and no earlier rule of the profile fits it in this sense; it gets no rule exactly when none fits.
\<close>
theorem first_matching_rule_decides:
  "(matching_profile_rule_with_index task p = Some (i, rule) \<longleftrightarrow>
      i < length (pl_rules p) \<and> pl_rules p ! i = rule \<and> rule_applies task rule
      \<and> list_all (\<lambda>r. \<not> rule_applies task r) (take i (pl_rules p)))
   \<and> (matching_profile_rule_with_index task p = None \<longleftrightarrow> list_all (\<lambda>r. \<not> rule_applies task r) (pl_rules p))"
  using matching_rule_some matching_rule_none by blast

section \<open>What is printed parses back\<close>

text \<open>The fields a TOML reader finds in a printed rule.\<close>

definition printed_rule :: "profile_rule \<Rightarrow> profile_rule_toml" where
  "printed_rule rule =
     \<lparr>rt_affinity = map_option range_string (ru_affinity rule), rt_nice = ru_nice rule,
      rt_ionice = map_option ioprio_value_label (ru_ionice rule),
      rt_match_class = map task_class_toml_name (ru_match_class rule), rt_match_comm = map cp_raw (ru_match_comm rule)\<rparr>"

lemma class_round_trip: "parse_task_class (task_class_toml_name c) = Inr c"
  by (cases c) (simp_all add: parse_task_class_def class_table_def)

lemma res_map_map: "(\<And>x. x \<in> set xs \<Longrightarrow> f (g x) = Inr x) \<Longrightarrow> res_map f (map g xs) = Inr xs"
  by (induction xs) auto

lemma range_string_letters:
  assumes "mask_wf m" "digit_val c = None" "c \<noteq> CHR ''-''" "c \<noteq> CHR '',''"
  shows "c \<notin> set (range_string m)"
proof -
  obtain ps where "range_string m = join '','' (map (\<lambda>(a, b). show_range a b) ps)"
    using range_string_parses [OF assms(1)] by (auto simp: range_string_def)
  moreover have "c \<notin> set (show_range a b)" for a b
    using assms(2,3) by (auto simp: show_range_def show_nat_no)
  moreover have "c \<notin> set (join '','' xs)" if "\<forall>x \<in> set xs. c \<notin> set x" for xs :: "string list"
    using that assms(4) by (induction "'',''" xs rule: join.induct) auto
  ultimately show ?thesis by auto
qed

lemma trim_subset: "set (trim s) \<subseteq> set s"
  by (auto simp: trim_def trim_start_def dest!: set_dropWhileD)

lemma affinity_round_trip:
  assumes "mask_wf m" "m \<noteq> empty_mask"
  shows "parse_affinity_value online (range_string m) = Inr m"
proof -
  have "CHR ''o'' \<notin> set (range_string m)"
    by (rule range_string_letters [OF assms(1)]) (simp_all add: digit_val_def)
  then have "trim (range_string m) \<noteq> ''online''" using trim_subset [of "range_string m"] by auto
  moreover have "parse_mask (range_string m) = Inr m"
    using range_string_parses [OF assms(1)] assms(2) by (auto simp: range_string_def)
  ultimately show ?thesis by (simp add: parse_affinity_value_def)
qed

lemma ionice_level_cases: "n \<le> 7 \<Longrightarrow> n \<in> {0, 1, 2, 3, 4, 5, 6, 7}" for n :: "8 word"
proof -
  assume "n \<le> 7"
  then have "unat n \<le> 7" by (simp add: word_le_nat_alt)
  then have "unat n \<in> {0, 1, 2, 3, 4, 5, 6, 7}" by auto
  then have "word_of_nat (unat n) \<in> (word_of_nat ` {0, 1, 2, 3, 4, 5, 6, 7} :: (8 word) set)" by (rule imageI)
  then show ?thesis by simp
qed

lemma ionice_labels_parse:
  "list_all (\<lambda>v. parse_ionice_value (ioprio_value_label v) = Inr v)
     ([ioprio_idle, ioprio_none] @ map ioprio_best_effort [0, 1, 2, 3, 4, 5, 6, 7] @ map ioprio_realtime [0, 1, 2, 3, 4, 5, 6, 7])"
  by code_simp

lemma ionice_round_trip:
  assumes "is_ok (ioprio_encode v)"
  shows "parse_ionice_value (ioprio_value_label v) = Inr v"
proof -
  obtain cls level where v: "v = \<lparr>iv_class = cls, iv_level = level\<rparr>" by (cases v)
  have "is_ok (validate_ioprio_value v)"
    using assms by (cases "validate_ioprio_value v") (simp_all add: ioprio_encode_def)
  then have "v \<in> set ([ioprio_idle, ioprio_none] @ map ioprio_best_effort [0, 1, 2, 3, 4, 5, 6, 7]
      @ map ioprio_realtime [0, 1, 2, 3, 4, 5, 6, 7])"
    using ionice_level_cases
    by (cases cls; cases level)
      (auto simp: v validate_ioprio_value_def Let_def ioprio_idle_def ioprio_none_def ioprio_best_effort_def
        ioprio_realtime_def linorder_not_less split: if_splits)
  then show ?thesis using ionice_labels_parse unfolding list_all_iff by (rule bspec [rotated])
qed

text \<open>The rules a profile file can hold: the values are in range and the patterns compiled.\<close>

definition rule_in_range :: "(string \<Rightarrow> string + (string \<Rightarrow> bool)) \<Rightarrow> profile_rule \<Rightarrow> bool" where
  "rule_in_range regex_new rule \<longleftrightarrow>
     (ru_affinity rule \<noteq> None \<or> ru_nice rule \<noteq> None \<or> ru_ionice rule \<noteq> None)
     \<and> (case ru_affinity rule of Some m \<Rightarrow> mask_wf m \<and> m \<noteq> empty_mask | None \<Rightarrow> True)
     \<and> (case ru_nice rule of Some n \<Rightarrow> - 20 \<le> n \<and> n \<le> 19 | None \<Rightarrow> True)
     \<and> (case ru_ionice rule of Some v \<Rightarrow> is_ok (ioprio_encode v) | None \<Rightarrow> True)
     \<and> list_all (\<lambda>pattern. pattern_new regex_new (cp_raw pattern) = Inr pattern) (ru_match_comm rule)"

text \<open>
  For every rule whose values are in range, the loader accepts the fields the printer writes (CPU ranges, nice value,
  I/O priority label, class names and raw patterns) and rebuilds the same rule. That the text of the printer has these
  fields is shown in \<open>Profile_Toml\<close>.
\<close>

lemma printed_rule_parses_back:
  assumes "rule_in_range regex_new rule"
  shows "rule_from_toml regex_new online (printed_rule rule) = Inr rule"
proof -
  have "res_map parse_task_class (map task_class_toml_name (ru_match_class rule)) = Inr (ru_match_class rule)"
    by (rule res_map_map) (rule class_round_trip)
  moreover have "res_map (pattern_new regex_new) (map cp_raw (ru_match_comm rule)) = Inr (ru_match_comm rule)"
    using assms by (intro res_map_map) (simp add: rule_in_range_def list_all_iff)
  moreover have "transpose_opt (parse_affinity_value online) (map_option range_string (ru_affinity rule)) = Inr (ru_affinity rule)"
    using assms by (auto simp: transpose_opt_def rule_in_range_def affinity_round_trip split: option.splits)
  moreover have "transpose_opt parse_ionice_value (map_option ioprio_value_label (ru_ionice rule)) = Inr (ru_ionice rule)"
    using assms by (auto simp: transpose_opt_def rule_in_range_def ionice_round_trip split: option.splits)
  ultimately show ?thesis
    using assms by (auto simp: rule_from_toml_def printed_rule_def rule_in_range_def split: option.splits)
qed

definition sample_rule_affinity :: profile_rule where
  "sample_rule_affinity =
     \<lparr>ru_affinity = Some \<lparr>cm_words = [7]\<rparr>, ru_nice = Some (- 5), ru_ionice = Some (ioprio_best_effort 2),
      ru_match_class = [TC_Game], ru_match_comm = [\<lparr>cp_raw = ''x'', cp_regex = None\<rparr>]\<rparr>"

end
