(* ===== verification/Word_Eval.thy ===== *)
theory Word_Eval
  imports Stutter_Prelude
begin

text \<open>
  Code equations that compare machine integers as \<open>int\<close> instead of as unary natural numbers, so that the kernel can evaluate
  the parsers and the saturating addition on concrete inputs.
\<close>

lemma parse_bits_code [code]:
  "parse_bits w s = Option.bind (parse_nat s) (\<lambda>n. if int n < 2 ^ w then Some n else None)"
proof -
  have "int n < 2 ^ w \<longleftrightarrow> n < 2 ^ w" for n
    by (metis of_nat_less_iff of_nat_numeral of_nat_power)
  then show ?thesis by (simp add: parse_bits_def)
qed

lemma saturating_add_code [code]:
  "saturating_add a b = (if uint a + uint b < 2 ^ LENGTH('a) then a + b else - 1)" for a b :: "'a::len word"
proof -
  have "unat a + unat b < 2 ^ LENGTH('a) \<longleftrightarrow> int (unat a + unat b) < int (2 ^ LENGTH('a))"
    by (simp only: of_nat_less_iff)
  then show ?thesis by (simp add: saturating_add_def)
qed

end
