(* ===== verification/Profile_Toml.thy ===== *)
theory Profile_Toml
  imports Profile_Facts Procfs_Kernel Word_Eval
begin

text \<open>
  The printer of profile files (\<open>profiles/render.rs\<close>) against the loader (\<open>profiles/parse.rs\<close>). The loader reads the text
  with the \<open>toml\<close> crate, which is a parameter of \<open>parse_profiles\<close>. What is assumed of it is that it follows the TOML
  specification on the documents that \<open>toml_document\<close> reads: tables \<open>[[profile]]\<close> and \<open>[[profile.rules]]\<close>, one entry
  per line, basic strings on one line, decimal integers and arrays of strings. \<open>toml_document\<close> is careful to read
  nothing that TOML rejects: raw control characters in strings, unknown escapes, repeated keys, integers with leading
  zeros.
\<close>

section \<open>A reader for the TOML of profile files\<close>

datatype toml_value = TV_String string | TV_Int int | TV_Array "string list"

datatype toml_line = TL_Blank | TL_Profile | TL_Rule | TL_Entry string toml_value

definition toml_unescape :: "char \<Rightarrow> char option" where
  "toml_unescape e =
     (if e = CHR 0x5C then Some (CHR 0x5C)
      else if e = CHR 0x22 then Some (CHR 0x22)
      else if e = CHR ''n'' then Some (CHR 0x0A)
      else if e = CHR ''r'' then Some (CHR 0x0D)
      else if e = CHR ''t'' then Some (CHR 0x09)
      else None)"

text \<open>A basic string may hold every character but the quotation mark, the backslash and the control characters.\<close>

definition toml_plain_char :: "char \<Rightarrow> bool" where
  "toml_plain_char c \<longleftrightarrow> (let n = of_char c :: nat in (n = 9 \<or> 32 \<le> n) \<and> n \<noteq> 127)"

text \<open>The rest of a basic string after its opening quotation mark, and what follows the closing one.\<close>

fun read_chars :: "string \<Rightarrow> (string \<times> string) option" where
  "read_chars [] = None"
| "read_chars (c # cs) =
     (if c = CHR 0x22 then Some ([], cs)
      else if c = CHR 0x5C
      then (case cs of
              [] \<Rightarrow> None
            | e # cs' \<Rightarrow>
                Option.bind (toml_unescape e) (\<lambda>x. map_option (\<lambda>(s, rest). (x # s, rest)) (read_chars cs')))
      else if toml_plain_char c then map_option (\<lambda>(s, rest). (c # s, rest)) (read_chars cs)
      else None)"

lemma read_chars_shorter: "read_chars cs = Some (s, rest) \<Longrightarrow> length rest < length cs"
  by (induction cs arbitrary: s rest rule: read_chars.induct)
    (fastforce split: if_splits list.splits bind_splits)+

text \<open>The strings of an array after its opening bracket.\<close>

function read_items :: "string \<Rightarrow> string list option" where
  "read_items [] = None"
| "read_items (q # cs) =
     (if q \<noteq> CHR 0x22 then None
      else case read_chars cs of
             None \<Rightarrow> None
           | Some (x, rest) \<Rightarrow>
               if rest = '']'' then Some [x]
               else (case strip_prefix '', '' rest of
                       None \<Rightarrow> None
                     | Some items \<Rightarrow> map_option ((#) x) (read_items items)))"
  by pat_completeness auto
termination
  by (relation "measure length") (auto simp: strip_prefix_Some_iff dest!: read_chars_shorter)

definition read_value :: "string \<Rightarrow> toml_value option" where
  "read_value v =
     (case v of
        [] \<Rightarrow> None
      | c # cs \<Rightarrow>
          if c = CHR 0x22
          then (case read_chars cs of Some (s, []) \<Rightarrow> Some (TV_String s) | _ \<Rightarrow> None)
          else if c = CHR ''['' then map_option TV_Array (read_items cs)
          else (case parse_i64 v of
                  Some i \<Rightarrow> if show_int i = v then Some (TV_Int i) else None
                | None \<Rightarrow> None))"

definition read_line :: "string \<Rightarrow> toml_line option" where
  "read_line line =
     (if line = [] then Some TL_Blank
      else if line = ''[[profile]]'' then Some TL_Profile
      else if line = ''[[profile.rules]]'' then Some TL_Rule
      else let key = takeWhile (\<lambda>c. c \<noteq> CHR '' '') line
           in Option.bind (strip_prefix '' = '' (drop (length key) line)) (\<lambda>v.
                map_option (TL_Entry key) (read_value v)))"

text \<open>The fields of a table, as \<open>serde\<close> reads them into \<open>ProfileToml\<close> and \<open>ProfileRuleToml\<close>.\<close>

type_synonym toml_entries = "(string \<times> toml_value) list"

definition string_field :: "toml_entries \<Rightarrow> string \<Rightarrow> string option option" where
  "string_field es key =
     (case map_of es key of None \<Rightarrow> Some None | Some (TV_String s) \<Rightarrow> Some (Some s) | Some _ \<Rightarrow> None)"

definition int_field :: "toml_entries \<Rightarrow> string \<Rightarrow> int option option" where
  "int_field es key =
     (case map_of es key of
        None \<Rightarrow> Some None
      | Some (TV_Int i) \<Rightarrow> if - (2 ^ 31) \<le> i \<and> i < 2 ^ 31 then Some (Some i) else None
      | Some _ \<Rightarrow> None)"

definition list_field :: "toml_entries \<Rightarrow> string \<Rightarrow> string list option" where
  "list_field es key = (case map_of es key of None \<Rightarrow> Some [] | Some (TV_Array vs) \<Rightarrow> Some vs | Some _ \<Rightarrow> None)"

definition rule_of_entries :: "toml_entries \<Rightarrow> profile_rule_toml option" where
  "rule_of_entries es =
     (if distinct (map fst es)
         \<and> set (map fst es) \<subseteq> {''affinity'', ''nice'', ''ionice'', ''match_class'', ''match_comm''}
      then Option.bind (string_field es ''affinity'') (\<lambda>affinity.
           Option.bind (int_field es ''nice'') (\<lambda>nice.
           Option.bind (string_field es ''ionice'') (\<lambda>ionice.
           Option.bind (list_field es ''match_class'') (\<lambda>match_class.
           Option.bind (list_field es ''match_comm'') (\<lambda>match_comm.
             Some \<lparr>rt_affinity = affinity, rt_nice = nice, rt_ionice = ionice, rt_match_class = match_class,
                   rt_match_comm = match_comm\<rparr>)))))
      else None)"

definition name_of_entries :: "toml_entries \<Rightarrow> string option" where
  "name_of_entries es = (if map fst es = [''name''] then Option.bind (string_field es ''name'') id else None)"

text \<open>
  A document read from its last line: the entries and rules collected so far belong to the next header above them.
\<close>

fun add_line :: "string \<Rightarrow> (toml_entries \<times> profile_rule_toml list \<times> profile_toml list) option
    \<Rightarrow> (toml_entries \<times> profile_rule_toml list \<times> profile_toml list) option" where
  "add_line line None = None"
| "add_line line (Some (entries, rules, profiles)) =
     (case read_line line of
        None \<Rightarrow> None
      | Some TL_Blank \<Rightarrow> Some (entries, rules, profiles)
      | Some (TL_Entry key v) \<Rightarrow> Some ((key, v) # entries, rules, profiles)
      | Some TL_Rule \<Rightarrow> map_option (\<lambda>rule. ([], rule # rules, profiles)) (rule_of_entries entries)
      | Some TL_Profile \<Rightarrow>
          map_option (\<lambda>name. ([], [], \<lparr>ft_name = name, ft_rules = rules\<rparr> # profiles)) (name_of_entries entries))"

definition toml_document :: "string \<Rightarrow> profile_toml list option" where
  "toml_document data =
     (case foldr add_line (split_on (CHR 0x0A) data) (Some ([], [], [])) of
        Some ([], [], profiles) \<Rightarrow> Some profiles
      | _ \<Rightarrow> None)"

text \<open>The assumption on the \<open>toml\<close> crate: it reads these documents as TOML says.\<close>

definition reads_toml :: "(string \<Rightarrow> anyhow + profile_toml list) \<Rightarrow> bool" where
  "reads_toml toml \<longleftrightarrow> (\<forall>data doc. toml_document data = Some doc \<longrightarrow> toml data = Inr doc)"

section \<open>Printed values are read back\<close>

text \<open>The characters that survive: those the printer escapes and those TOML allows as they are.\<close>

definition toml_printable :: "string \<Rightarrow> bool" where
  "toml_printable s \<longleftrightarrow> list_all (\<lambda>c. toml_plain_char c \<or> c = CHR 0x0A \<or> c = CHR 0x0D) s"

lemma read_chars_escape:
  "toml_plain_char c \<or> c = CHR 0x0A \<or> c = CHR 0x0D \<Longrightarrow>
     read_chars (toml_escape c @ cs) = map_option (\<lambda>(s, rest). (c # s, rest)) (read_chars cs)"
  by (auto simp: toml_escape_def toml_unescape_def)

lemma read_chars_printed:
  "toml_printable s \<Longrightarrow> read_chars (concat (map toml_escape s) @ CHR 0x22 # rest) = Some (s, rest)"
  by (induction s) (simp_all add: toml_printable_def read_chars_escape del: read_chars.simps(2), simp)

lemma read_items_printed:
  assumes "vs \<noteq> []" "list_all toml_printable vs"
  shows "read_items (join '', '' (map toml_quoted_string vs) @ '']'') = Some vs"
  using assms
proof (induction vs)
  case (Cons v vs)
  show ?case
  proof (cases "vs = []")
    case True
    then show ?thesis
      using Cons.prems read_chars_printed [of v "'']''"] by (simp add: toml_quoted_string_def)
  next
    case False
    with Cons have "read_items (join '', '' (map toml_quoted_string vs) @ '']'') = Some vs"
      by simp
    with False Cons.prems show ?thesis
      using read_chars_printed [of v "'', '' @ join '', '' (map toml_quoted_string vs) @ '']''"]
      by (simp add: join_Cons toml_quoted_string_def [of v])
  qed
qed simp

lemma escape_no_newline: "CHR 0x0A \<notin> set (toml_escape c)"
  by (simp add: toml_escape_def)

lemma quoted_no_newline: "CHR 0x0A \<notin> set (toml_quoted_string s)"
  using escape_no_newline by (auto simp: toml_quoted_string_def)

lemma read_value_string: "toml_printable s \<Longrightarrow> read_value (toml_quoted_string s) = Some (TV_String s)"
  by (simp add: read_value_def toml_quoted_string_def read_chars_printed)

lemma read_value_array:
  "vs \<noteq> [] \<Longrightarrow> list_all toml_printable vs \<Longrightarrow>
     read_value (''['' @ join '', '' (map toml_quoted_string vs) @ '']'') = Some (TV_Array vs)"
  by (simp add: read_value_def read_items_printed)

lemma read_value_int:
  assumes "- 20 \<le> i" "i \<le> 19"
  shows "read_value (show_int i) = Some (TV_Int i)"
proof -
  have "parse_i64 (show_int i) = Some i"
    using assms by (simp add: parse_i64_def parse_signed_show_int)
  moreover have "c = CHR ''-'' \<or> digit_val c \<noteq> None" if "c \<in> set (show_int i)" for c
    using that show_nat_digits by (auto simp: show_int_def split: if_splits)
  then have "CHR 0x22 \<notin> set (show_int i)" "CHR ''['' \<notin> set (show_int i)"
    by (force simp: digit_val_def)+
  moreover obtain c cs where "show_int i = c # cs"
    by (cases "show_int i") (simp_all add: show_int_def split: if_splits)
  ultimately show ?thesis
    by (auto simp: read_value_def)
qed

section \<open>Printed lines are read back\<close>

definition affinity_lines :: "profile_rule \<Rightarrow> string list" where
  "affinity_lines rule =
     (case ru_affinity rule of Some m \<Rightarrow> [''affinity = '' @ toml_quoted_string (range_string m)] | None \<Rightarrow> [])"

definition nice_lines :: "profile_rule \<Rightarrow> string list" where
  "nice_lines rule = (case ru_nice rule of Some nice \<Rightarrow> [''nice = '' @ show_int nice] | None \<Rightarrow> [])"

definition ionice_lines :: "profile_rule \<Rightarrow> string list" where
  "ionice_lines rule =
     (case ru_ionice rule of Some v \<Rightarrow> [''ionice = '' @ toml_quoted_string (ioprio_value_label v)] | None \<Rightarrow> [])"

definition list_lines :: "string \<Rightarrow> string list \<Rightarrow> string list" where
  "list_lines key vs = (if vs = [] then [] else [key @ '' = ['' @ join '', '' (map toml_quoted_string vs) @ '']''])"

definition rule_lines :: "profile_rule \<Rightarrow> string list" where
  "rule_lines rule =
     ''[[profile.rules]]'' # affinity_lines rule @ nice_lines rule @ ionice_lines rule
     @ list_lines ''match_class'' (map task_class_toml_name (ru_match_class rule))
     @ list_lines ''match_comm'' (map cp_raw (ru_match_comm rule)) @ [[]]"

definition profile_lines :: "profile \<Rightarrow> string list" where
  "profile_lines p =
     [''[[profile]]'', ''name = '' @ toml_quoted_string (pl_name p), []] @ concat (map rule_lines (pl_rules p))"

definition unlines :: "string list \<Rightarrow> string" where
  "unlines ls = concat (map (\<lambda>l. l @ newline) ls)"

lemma unlines_simps [simp]:
  "unlines [] = []" "unlines (l # ls) = l @ newline @ unlines ls" "unlines (ls @ ms) = unlines ls @ unlines ms"
  by (simp_all add: unlines_def)

lemma render_rule_lines: "render_rule rule = unlines (rule_lines rule)"
  by (simp add: render_rule_def rule_lines_def affinity_lines_def nice_lines_def ionice_lines_def list_lines_def
      render_list_def split: option.split)

lemma render_profiles_lines: "render_profiles_toml ps = unlines (concat (map profile_lines ps))"
proof -
  have rules: "concat (map render_rule rules) = unlines (concat (map rule_lines rules))" for rules
    by (induction rules) (simp_all add: render_rule_lines)
  show ?thesis
    by (induction ps) (simp_all add: render_profiles_toml_def profile_lines_def rules)
qed

lemma split_unlines: "list_all (\<lambda>l. CHR 0x0A \<notin> set l) ls \<Longrightarrow> split_on (CHR 0x0A) (unlines ls) = ls @ [[]]"
  by (induction ls) (simp_all add: newline_def split_on_append)

lemma join_no_newline:
  "CHR 0x0A \<notin> set sep \<Longrightarrow> \<forall>x \<in> set xs. CHR 0x0A \<notin> set x \<Longrightarrow> CHR 0x0A \<notin> set (join sep xs)"
  by (induction sep xs rule: join.induct) auto

lemma show_int_no_newline: "CHR 0x0A \<notin> set (show_int i)"
  using show_nat_digits [of "CHR 0x0A" "nat i"] show_nat_digits [of "CHR 0x0A" "nat (- i)"]
  by (auto simp: show_int_def digit_val_def)

lemma printed_lines_no_newline: "list_all (\<lambda>l. CHR 0x0A \<notin> set l) (concat (map profile_lines ps))"
proof -
  have join: "CHR 0x0A \<notin> set (join '', '' (map toml_quoted_string vs))" for vs
    by (rule join_no_newline) (auto simp: quoted_no_newline)
  have lists: "list_all (\<lambda>l. CHR 0x0A \<notin> set l) (list_lines key vs)" if "CHR 0x0A \<notin> set key" for key vs
    using that join by (simp add: list_lines_def)
  have fields: "list_all (\<lambda>l. CHR 0x0A \<notin> set l) (affinity_lines rule @ nice_lines rule @ ionice_lines rule)" for rule
    by (simp add: affinity_lines_def nice_lines_def ionice_lines_def quoted_no_newline show_int_no_newline
        split: option.split)
  have "list_all (\<lambda>l. CHR 0x0A \<notin> set l) (rule_lines rule)" for rule
    using fields [of rule] lists by (simp add: rule_lines_def)
  then show ?thesis
    by (auto simp: list_all_iff profile_lines_def quoted_no_newline)
qed

lemma read_line_keys:
  "read_line (''name = '' @ v) = map_option (TL_Entry ''name'') (read_value v)"
  "read_line (''affinity = '' @ v) = map_option (TL_Entry ''affinity'') (read_value v)"
  "read_line (''nice = '' @ v) = map_option (TL_Entry ''nice'') (read_value v)"
  "read_line (''ionice = '' @ v) = map_option (TL_Entry ''ionice'') (read_value v)"
  "read_line (''match_class = '' @ v) = map_option (TL_Entry ''match_class'') (read_value v)"
  "read_line (''match_comm = '' @ v) = map_option (TL_Entry ''match_comm'') (read_value v)"
  by (simp_all add: read_line_def)

lemma read_line_headers:
  "read_line [] = Some TL_Blank" "read_line ''[[profile]]'' = Some TL_Profile"
  "read_line ''[[profile.rules]]'' = Some TL_Rule"
  by (simp_all add: read_line_def)

section \<open>Printed profiles parse back\<close>

text \<open>
  The profiles that a file can hold: the name is not empty, names and patterns have no control characters but tab,
  line feed and carriage return, the values of the rules are in range and the masks are online.
\<close>

definition profile_in_range :: "(string \<Rightarrow> string + (string \<Rightarrow> bool)) \<Rightarrow> cpu_mask \<Rightarrow> profile \<Rightarrow> bool" where
  "profile_in_range regex_new online p \<longleftrightarrow>
     pl_name p \<noteq> [] \<and> toml_printable (pl_name p)
     \<and> list_all (\<lambda>rule. rule_in_range regex_new rule
          \<and> (case ru_affinity rule of Some m \<Rightarrow> is_subset_of m online | None \<Rightarrow> True)
          \<and> list_all (\<lambda>pattern. toml_printable (cp_raw pattern)) (ru_match_comm rule)) (pl_rules p)"

lemma range_string_printable:
  assumes "mask_wf m"
  shows "toml_printable (range_string m)"
proof -
  have "toml_plain_char c" if "c \<in> set (range_string m)" for c
    using that range_string_letters [OF assms, of c]
    by (cases "c = CHR ''-'' \<or> c = CHR '',''") (auto simp: toml_plain_char_def digit_val_def Let_def split: if_splits)
  then show ?thesis
    by (simp add: toml_printable_def list_all_iff)
qed

lemma class_name_printable: "toml_printable (task_class_toml_name c)"
  by (cases c) (simp_all add: toml_printable_def toml_plain_char_def)

lemma digit_plain: "digit_val c \<noteq> None \<Longrightarrow> toml_plain_char c"
  by (auto simp: toml_plain_char_def digit_val_def Let_def split: if_splits)

lemma show_nat_printable: "toml_printable (show_nat n)"
  unfolding toml_printable_def list_all_iff using show_nat_digits digit_plain by blast

lemma toml_printable_append: "toml_printable (s @ t) \<longleftrightarrow> toml_printable s \<and> toml_printable t"
  by (simp add: toml_printable_def)

lemma ionice_label_printable: "toml_printable (ioprio_value_label v)"
proof -
  have label: "toml_printable (ioprio_class_label c)" for c
    by (cases c) (simp_all add: toml_printable_def toml_plain_char_def)
  have colon: "toml_printable '':''"
    by (simp add: toml_printable_def toml_plain_char_def)
  show ?thesis
    unfolding ioprio_value_label_def
    by (cases "iv_level v") (simp_all only: option.case toml_printable_append label colon show_nat_printable simp_thms)
qed

definition rule_entries :: "profile_rule \<Rightarrow> toml_entries" where
  "rule_entries rule =
     (case ru_affinity rule of Some m \<Rightarrow> [(''affinity'', TV_String (range_string m))] | None \<Rightarrow> [])
     @ (case ru_nice rule of Some nice \<Rightarrow> [(''nice'', TV_Int nice)] | None \<Rightarrow> [])
     @ (case ru_ionice rule of Some v \<Rightarrow> [(''ionice'', TV_String (ioprio_value_label v))] | None \<Rightarrow> [])
     @ (if ru_match_class rule = [] then []
        else [(''match_class'', TV_Array (map task_class_toml_name (ru_match_class rule)))])
     @ (if ru_match_comm rule = [] then [] else [(''match_comm'', TV_Array (map cp_raw (ru_match_comm rule)))])"

lemma rule_of_printed_entries:
  assumes "rule_in_range regex_new rule"
  shows "rule_of_entries (rule_entries rule) = Some (printed_rule rule)"
  using assms
  by (cases "ru_affinity rule"; cases "ru_nice rule"; cases "ru_ionice rule";
      cases "ru_match_class rule = []"; cases "ru_match_comm rule = []")
    (simp_all add: rule_entries_def rule_of_entries_def string_field_def int_field_def list_field_def printed_rule_def
      rule_in_range_def)

lemma add_field_lines:
  assumes "rule_in_range regex_new rule"
  shows "foldr add_line (affinity_lines rule) (Some (es, rs, ps)) =
      Some ((case ru_affinity rule of Some m \<Rightarrow> [(''affinity'', TV_String (range_string m))] | None \<Rightarrow> []) @ es, rs, ps)"
    and "foldr add_line (nice_lines rule) (Some (es, rs, ps)) =
      Some ((case ru_nice rule of Some nice \<Rightarrow> [(''nice'', TV_Int nice)] | None \<Rightarrow> []) @ es, rs, ps)"
    and "foldr add_line (ionice_lines rule) (Some (es, rs, ps)) =
      Some ((case ru_ionice rule of Some v \<Rightarrow> [(''ionice'', TV_String (ioprio_value_label v))] | None \<Rightarrow> []) @ es, rs, ps)"
  using assms unfolding affinity_lines_def nice_lines_def ionice_lines_def
  by (auto simp only: foldr.simps id_apply comp_apply add_line.simps read_line_keys option.case split: option.split)
    (simp_all add: rule_in_range_def read_value_string read_value_int range_string_printable ionice_label_printable)

lemma add_list_lines:
  assumes "list_all toml_printable vs"
  shows "foldr add_line (list_lines ''match_class'' vs) (Some (es, rs, ps)) =
      Some ((if vs = [] then [] else [(''match_class'', TV_Array vs)]) @ es, rs, ps)"
    and "foldr add_line (list_lines ''match_comm'' vs) (Some (es, rs, ps)) =
      Some ((if vs = [] then [] else [(''match_comm'', TV_Array vs)]) @ es, rs, ps)"
proof -
  let ?v = "''['' @ join '', '' (map toml_quoted_string vs) @ '']''"
  have split: "list_lines key vs = (if vs = [] then [] else [(key @ '' = '') @ ?v])" for key
    by (simp add: list_lines_def)
  have array: "vs \<noteq> [] \<Longrightarrow> read_value ?v = Some (TV_Array vs)"
    using assms by (intro read_value_array)
  have keys: "''match_class'' @ '' = '' = ''match_class = ''" "''match_comm'' @ '' = '' = ''match_comm = ''"
    by simp_all
  show "foldr add_line (list_lines ''match_class'' vs) (Some (es, rs, ps)) =
      Some ((if vs = [] then [] else [(''match_class'', TV_Array vs)]) @ es, rs, ps)"
  proof (cases "vs = []")
    case False
    then show ?thesis
      unfolding split keys
      by (simp only: if_False foldr.simps id_apply comp_apply add_line.simps read_line_keys array [OF False] option.map option.case
          toml_line.case) (simp only: append.simps)
  qed (simp add: list_lines_def)
  show "foldr add_line (list_lines ''match_comm'' vs) (Some (es, rs, ps)) =
      Some ((if vs = [] then [] else [(''match_comm'', TV_Array vs)]) @ es, rs, ps)"
  proof (cases "vs = []")
    case False
    then show ?thesis
      unfolding split keys
      by (simp only: if_False foldr.simps id_apply comp_apply add_line.simps read_line_keys array [OF False] option.map option.case
          toml_line.case) (simp only: append.simps)
  qed (simp add: list_lines_def)
qed

lemma add_rule_lines:
  assumes "rule_in_range regex_new rule" "list_all (\<lambda>pattern. toml_printable (cp_raw pattern)) (ru_match_comm rule)"
  shows "foldr add_line (rule_lines rule) (Some ([], rs, ps)) = Some ([], printed_rule rule # rs, ps)"
proof -
  have lists: "list_all toml_printable (map task_class_toml_name (ru_match_class rule))"
    "list_all toml_printable (map cp_raw (ru_match_comm rule))"
    using assms(2) by (simp_all add: list_all_iff class_name_printable)
  have "foldr add_line (rule_lines rule) (Some ([], rs, ps)) =
      add_line ''[[profile.rules]]'' (Some (rule_entries rule, rs, ps))"
    unfolding rule_lines_def foldr.simps foldr_append comp_apply id_apply add_line.simps(2) [of "[]"] read_line_headers
      option.case toml_line.case add_list_lines(2) [OF lists(2)] add_list_lines(1) [OF lists(1)]
      add_field_lines [OF assms(1)]
    by (simp only: rule_entries_def map_is_Nil_conv append_Nil2 append_assoc)
  then show ?thesis
    by (simp only: add_line.simps read_line_headers option.case toml_line.case
        rule_of_printed_entries [OF assms(1)] option.map)
qed

definition printed_profile :: "profile \<Rightarrow> profile_toml" where
  "printed_profile p = \<lparr>ft_name = pl_name p, ft_rules = map printed_rule (pl_rules p)\<rparr>"

lemma add_profile_lines:
  assumes "profile_in_range regex_new online p"
  shows "foldr add_line (profile_lines p) (Some ([], [], ps)) = Some ([], [], printed_profile p # ps)"
proof -
  have "foldr add_line (concat (map rule_lines rules)) (Some ([], rs, ps)) = Some ([], map printed_rule rules @ rs, ps)"
    if "set rules \<subseteq> set (pl_rules p)" for rules rs
    using that
  proof (induction rules)
    case (Cons rule rules)
    then have "rule_in_range regex_new rule" "list_all (\<lambda>pattern. toml_printable (cp_raw pattern)) (ru_match_comm rule)"
      using assms by (auto simp: profile_in_range_def list_all_iff)
    with Cons show ?case
      by (simp add: add_rule_lines)
  qed simp
  from this [of "pl_rules p" "[]"] have "foldr add_line (profile_lines p) (Some ([], [], ps)) =
      add_line ''[[profile]]'' (add_line (''name = '' @ toml_quoted_string (pl_name p))
        (Some ([], map printed_rule (pl_rules p), ps)))"
    by (simp add: profile_lines_def read_line_headers)
  also have "add_line (''name = '' @ toml_quoted_string (pl_name p)) (Some ([], map printed_rule (pl_rules p), ps)) =
      Some ([(''name'', TV_String (pl_name p))], map printed_rule (pl_rules p), ps)"
    using assms by (simp only: add_line.simps read_line_keys profile_in_range_def read_value_string option.map
        option.case toml_line.case simp_thms)
  also have "add_line ''[[profile]]'' \<dots> = Some ([], [], printed_profile p # ps)"
    by (simp only: add_line.simps read_line_headers option.case toml_line.case)
      (simp add: name_of_entries_def string_field_def printed_profile_def)
  finally show ?thesis .
qed

lemma printed_document:
  assumes "list_all (profile_in_range regex_new online) ps"
  shows "toml_document (render_profiles_toml ps) = Some (map printed_profile ps)"
proof -
  have "foldr add_line (concat (map profile_lines ps)) (Some ([], [], [])) = Some ([], [], map printed_profile ps)"
    using assms by (induction ps) (auto simp: add_profile_lines [of regex_new online])
  then show ?thesis
    unfolding toml_document_def render_profiles_lines split_unlines [OF printed_lines_no_newline]
    by (simp add: read_line_headers)
qed

lemma validate_in_range:
  assumes "profile_in_range regex_new m p" "online_cpus online = Inr m"
  shows "validate_profile_rules online p = Inr p"
proof -
  have nonempty: "\<not> mask_is_empty k" if "mask_wf k" "k \<noteq> empty_mask" for k
    using that last_in_set [of "cm_words k"]
    by (cases k) (auto simp: mask_is_empty_def mask_wf_def empty_mask_def list_all_iff)
  have "validate_rules m (enumerate n rules) = Inr ()" if "set rules \<subseteq> set (pl_rules p)" for n rules
    using that
  proof (induction rules arbitrary: n)
    case (Cons rule rules)
    then have "rule_in_range regex_new rule"
        "case ru_affinity rule of Some k \<Rightarrow> is_subset_of k m | None \<Rightarrow> True"
      using assms(1) by (simp_all add: profile_in_range_def list_all_iff)
    with Cons show ?case
      by (auto simp: rule_in_range_def nonempty split: option.split)
  qed simp
  then show ?thesis
    using assms by (simp add: validate_profile_rules_def profile_in_range_def)
qed

lemma try_into_profile_printed:
  assumes "profile_in_range regex_new m p"
  shows "try_into_profile regex_new online (printed_profile p) = Inr p"
proof -
  have "res_map (rule_from_toml regex_new online) (map printed_rule (pl_rules p)) = Inr (pl_rules p)"
    using assms by (intro res_map_map printed_rule_parses_back) (simp add: profile_in_range_def list_all_iff)
  then show ?thesis
    by (simp add: try_into_profile_def printed_profile_def)
qed

text \<open>
  C28. A printed profile file parses back: for every TOML reader that follows the specification on the documents of
  \<open>toml_document\<close>, and every list of profiles that a file can hold (non-empty names, values in range, masks
  online, no control characters but tab and line ends in names and patterns), loading the text that the printer
  writes gives exactly these profiles, in order, with all their rules and fields.
\<close>
theorem printed_profiles_parse_back:
  assumes "reads_toml toml" "online_cpus online = Inr cpus" "list_all (profile_in_range regex_new cpus) ps"
  shows "parse_profiles toml regex_new online (render_profiles_toml ps) = Inr ps"
proof -
  have "toml (render_profiles_toml ps) = Inr (map printed_profile ps)"
    using assms(1) printed_document [OF assms(3)] by (simp add: reads_toml_def)
  moreover have "res_map (\<lambda>t. res_bind (try_into_profile regex_new online t) (validate_profile_rules online))
      (map printed_profile ps) = Inr ps"
    using assms(2,3)
    by (intro res_map_map) (simp add: list_all_iff try_into_profile_printed [of regex_new cpus]
        validate_in_range [of regex_new cpus])
  ultimately show ?thesis
    by (simp add: parse_profiles_def)
qed

definition sample_profiles :: "profile list" where
  "sample_profiles =
     [\<lparr>pl_name = ''game'',
       pl_rules =
         [\<lparr>ru_affinity = Some \<lparr>cm_words = [7]\<rparr>, ru_nice = Some (- 5), ru_ionice = Some (ioprio_best_effort 2),
           ru_match_class = [TC_Game, TC_Render], ru_match_comm = [\<lparr>cp_raw = [CHR ''x'', CHR 0x22], cp_regex = None\<rparr>]\<rparr>]\<rparr>,
      \<lparr>pl_name = ''idle'',
       pl_rules = [\<lparr>ru_affinity = None, ru_nice = Some 19, ru_ionice = None, ru_match_class = [], ru_match_comm = []\<rparr>]\<rparr>]"

definition sample_toml :: "string \<Rightarrow> anyhow + profile_toml list" where
  "sample_toml data = (case toml_document data of Some doc \<Rightarrow> Inr doc | None \<Rightarrow> Inl (anyhow_msg ''TOML parse error''))"

theorem printed_profiles_parse_back_witness:
  "parse_profiles sample_toml (\<lambda>_. Inl ''unsupported'') (Inr ''0-3'') (render_profiles_toml sample_profiles) = Inr sample_profiles"
proof (rule printed_profiles_parse_back)
  show "reads_toml sample_toml"
    by (simp add: reads_toml_def sample_toml_def)
  show "online_cpus (Inr ''0-3'') = Inr \<lparr>cm_words = [15]\<rparr>"
    by code_simp
  have "is_ok (ioprio_encode (ioprio_best_effort 2))" by code_simp
  moreover have "is_subset_of \<lparr>cm_words = [7]\<rparr> \<lparr>cm_words = [15]\<rparr>" by code_simp
  moreover have "pattern_new (\<lambda>_. Inl ''unsupported'') [CHR ''x'', CHR 0x22] =
      Inr \<lparr>cp_raw = [CHR ''x'', CHR 0x22], cp_regex = None\<rparr>"
    by (simp add: pattern_new_def)
  ultimately show "list_all (profile_in_range (\<lambda>_. Inl ''unsupported'') \<lparr>cm_words = [15]\<rparr>) sample_profiles"
    by (simp add: sample_profiles_def profile_in_range_def rule_in_range_def mask_wf_def empty_mask_def
        toml_printable_def toml_plain_char_def)
qed

text \<open>
  The printer escapes no other control character, so a name with one is printed as a text that TOML forbids.
\<close>

lemma control_character_is_printed_raw:
  "toml_document (render_profiles_toml [\<lparr>pl_name = [CHR 0x1B], pl_rules = []\<rparr>]) = None"
  by code_simp

end
