(* ===== verification/Target_Sample.thy ===== *)
theory Target_Sample
  imports Target_Snapshot Word_Eval
begin

text \<open>
  A small procfs to evaluate snapshots on: process 10 with the threads 10 and 11, its child 12 with one thread, and a cgroup that
  holds all of them.
\<close>

definition no_entry :: io_error where
  "no_entry = \<lparr>io_raw_os_error = Some 2, io_kind = Io_NotFound, io_display = ''not found''\<rparr>"

definition lines_text :: "string list \<Rightarrow> string" where
  "lines_text ls = concat (map (\<lambda>l. l @ [CHR 0x0A]) ls)"

definition file_table :: "(string \<times> string) list \<Rightarrow> string \<Rightarrow> io_error + string" where
  "file_table m p = (case map_of m p of Some v \<Rightarrow> Inr v | None \<Rightarrow> Inl no_entry)"

definition dir_table :: "(string \<times> string list) list \<Rightarrow> string \<Rightarrow> io_error + (io_error + string) list" where
  "dir_table m p = (case map_of m p of Some v \<Rightarrow> Inr (map Inr v) | None \<Rightarrow> Inl no_entry)"

definition sample_fs :: proc_fs where
  "sample_fs =
     \<lparr>pf_read_dir = dir_table
        [(''/proc'', [''10'', ''12'', ''self'']), (''/proc/10/task'', [''10'', ''11'']), (''/proc/12/task'', [''12'']), (''/cg'', [])],
      pf_read = file_table
        [(''/proc/10/status'', lines_text [''Name: xa'', ''PPid: 1'']),
         (''/proc/12/status'', lines_text [''Name: xb'', ''PPid: 10'']),
         (''/proc/10/task/11/comm'', lines_text [''xt'']),
         (''/cg/cgroup.procs'', lines_text [''10'', ''12'']),
         (''/cg/cgroup.threads'', lines_text [''10'', ''11'', ''12''])],
      pf_read_link = (\<lambda>_. Inl no_entry),
      pf_ctime = (\<lambda>_. Some (0, 0)),
      pf_dev_ino = (\<lambda>_. None),
      pf_is_dir = (\<lambda>_. False)\<rparr>"

definition sample_input :: target_snapshot_input where
  "sample_input = (default_snapshot_input (\<lambda>_. False))\<lparr>ti_max_threads_per_process := Some 8\<rparr>"

definition tree_request :: target_snapshot_input where
  "tree_request = sample_input\<lparr>ti_tree_pids := [10]\<rparr>"

definition cgroup_request :: target_snapshot_input where
  "cgroup_request = sample_input\<lparr>ti_cgroup_path := Some ''/cg'', ti_exclude_tree_pids := [10], ti_keep_missing_pid := True\<rparr>"

lemma tree_request_tids: "map fst (ts_tasks (fst (target_snapshot 1 sample_fs tree_request))) = [10, 11, 12]"
  by code_simp

end
