(* ===== verification/Target_Snapshot_Facts.thy ===== *)
theory Target_Snapshot_Facts
  imports Target_Sample
begin

text \<open>
  What a snapshot contains: the scan keeps processes under their own identifier, the walk over children computes the tree
  of a process, every task of a snapshot belongs to a selected process that is not excluded, and the bounds of a scan.
\<close>

section \<open>The scan\<close>

definition scan_ok :: "scan_state \<Rightarrow> bool" where
  "scan_ok st \<longleftrightarrow>
     (case st of (processes, cache, report) \<Rightarrow>
        bt_wf processes \<and> bt_wf (pc_entries cache)
        \<and> list_all (\<lambda>(pid, p). pi_pid p = pid) processes \<and> list_all (\<lambda>(pid, c). pi_pid (ca_info c) = pid) (pc_entries cache)
        \<and> length (sr_warnings report) \<le> MAX_PROC_SCAN_WARNINGS)"

lemma list_all_bt_insert: "list_all P m \<Longrightarrow> P (k, v) \<Longrightarrow> list_all P (bt_insert k v m)"
  using set_bt_insert_subset [of k v m] by (auto simp: list_all_iff)

lemma push_warning_bound: "length (sr_warnings r) \<le> MAX_PROC_SCAN_WARNINGS \<Longrightarrow> length (sr_warnings (push_warning w r)) \<le> MAX_PROC_SCAN_WARNINGS"
  by (simp add: push_warning_def)

definition report_ok :: "scan_report option \<Rightarrow> bool" where
  "report_ok r \<longleftrightarrow> (case r of None \<Rightarrow> True | Some r \<Rightarrow> length (sr_warnings r) \<le> MAX_PROC_SCAN_WARNINGS)"

lemma push_proc_warning_ok: "report_ok r \<Longrightarrow> report_ok (push_proc_warning pid tid k m r)"
  by (auto simp: report_ok_def push_proc_warning_def push_warning_bound split: option.splits)

lemma push_proc_warning_None [simp]: "push_proc_warning pid tid k m r = None \<longleftrightarrow> r = None"
  by (simp add: push_proc_warning_def)

lemma read_proc_info_keeps:
  assumes "read_proc_info_with_report_at fs proc_root pid r = (info, r')"
  shows "report_ok r \<Longrightarrow> report_ok r'" and "info = Some p \<Longrightarrow> pi_pid p = pid" and "r' = None \<longleftrightarrow> r = None"
  using assms
  by (auto simp: read_proc_info_with_report_at_def exe_path_at_def read_proc_cgroup_path_at_def Let_def push_proc_warning_ok
      split: sum.splits option.splits prod.splits)

lemma cache_hit_pid:
  "cache_hit cache g pid ct = Some p \<Longrightarrow> list_all (\<lambda>(pid, c). pi_pid (ca_info c) = pid) (pc_entries cache) \<Longrightarrow> pi_pid p = pid"
  by (auto simp: cache_hit_def list_all_iff split: option.splits if_splits dest: map_of_SomeD)

lemma scan_entry_ok:
  assumes "scan_ok st"
  shows "scan_ok (scan_entry fs proc_root g name st)"
proof -
  obtain ps cache rep where st: "st = (ps, cache, rep)" by (metis prod_cases3)
  show ?thesis
  proof (cases "parse_u32 name"; cases "pf_ctime fs (path_join proc_root name)")
    fix pid ct
    assume p: "parse_u32 name = Some pid" "pf_ctime fs (path_join proc_root name) = Some ct"
    obtain info rep' where r: "read_proc_info_with_report_at fs proc_root pid (Some rep) = (info, rep')" by (rule prod.exhaust)
    have "report_ok (Some rep)" using assms by (simp add: scan_ok_def st report_ok_def)
    then have rep': "report_ok rep'" "rep' \<noteq> None" using read_proc_info_keeps [OF r] by auto
    show ?thesis
    proof (cases "cache_hit cache g pid ct")
      case (Some p')
      then show ?thesis
        using assms cache_hit_pid [OF Some] by (auto simp: scan_ok_def st scan_entry_def p bt_insert_wf intro!: list_all_bt_insert)
    next
      case None
      then show ?thesis
        using assms rep' read_proc_info_keeps(2) [OF r]
        by (cases info) (auto simp: scan_ok_def st scan_entry_def p r bt_insert_wf report_ok_def intro!: list_all_bt_insert)
    qed
  qed (use assms in \<open>simp_all add: scan_entry_def st\<close>)
qed

lemma scan_entries_ok: "scan_ok st \<Longrightarrow> scan_ok (scan_entries fs proc_root b g names st)"
proof (induction fs proc_root b g names st rule: scan_entries.induct)
  case (2 fs proc_root b g name names ps cache rep)
  let ?rep = "rep\<lparr>sr_proc_entries_seen := sr_proc_entries_seen rep + 1\<rparr>"
  have "scan_ok (ps, cache, ?rep)" using "2.prems" by (simp add: scan_ok_def)
  then have ok: "scan_ok (scan_entry fs proc_root g name (ps, cache, ?rep))" by (rule scan_entry_ok)
  show ?case
    using "2.prems" "2.IH" [OF _ refl _ ok] by (auto simp: scan_ok_def Let_def split: option.splits)
qed simp

lemma scan_processes_ok:
  assumes "scan_processes_at fs proc_root b cache rep = (ps, cache', rep')" "scan_ok ([], cache, rep)"
  shows "scan_ok (ps, cache', rep')"
proof (cases "pf_read_dir fs proc_root")
  case (Inr entries)
  let ?c = "cache\<lparr>pc_generation := saturating_add (pc_generation cache) 1\<rparr>"
  obtain ps1 c1 r1 where s: "scan_entries fs proc_root b (pc_generation ?c) (flatten entries) ([], ?c, rep) = (ps1, c1, r1)"
    by (metis prod_cases3)
  have "scan_ok ([], ?c, rep)" using assms(2) by (simp add: scan_ok_def)
  then have "scan_ok (ps1, c1, r1)" unfolding s [symmetric] by (rule scan_entries_ok)
  then show ?thesis
    using assms(1) s by (auto simp: scan_processes_at_def Inr Let_def scan_ok_def bt_filter_wf list_all_iff)
next
  case (Inl e)
  then show ?thesis using assms by (auto simp: scan_processes_at_def scan_ok_def)
qed

lemma scan_ok_default: "scan_ok ([], default_cache, report_zero)"
  by (simp add: scan_ok_def default_cache_def report_zero_def)

section \<open>Trees\<close>

definition parent_edges :: "process_map \<Rightarrow> (u32 \<times> u32) set" where
  "parent_edges processes = {(pi_ppid p, pi_pid p) | p. p \<in> snd ` set processes}"

lemma children_upsert:
  assumes "bt_wf m"
  shows "children_of (bt_upsert k f v m) x = (if x = k then (case map_of m k of Some old \<Rightarrow> f old | None \<Rightarrow> v) else children_of m x)"
  unfolding children_of_def map_of_bt_upsert [OF assms] by (rule if_split [THEN iffD2]) (auto split: option.split)

lemma children_push:
  assumes "bt_wf m"
  shows "y \<in> set (children_of (bt_upsert k (\<lambda>cs. cs @ [c]) [c] m) x) \<longleftrightarrow> y \<in> set (children_of m x) \<or> x = k \<and> y = c"
proof (cases "x = k")
  case True
  then show ?thesis
    by (simp add: children_upsert [OF assms]) (auto simp: children_of_def split: option.split)
next
  case False
  then show ?thesis by (simp add: children_upsert [OF assms])
qed

lemma children_by_parent_edges: "child_edges (children_by_parent processes) = parent_edges processes"
proof -
  define f where "f = (\<lambda>(_ :: u32, p :: proc_info) m. bt_upsert (pi_ppid p) (\<lambda>cs. cs @ [pi_pid p]) [pi_pid p] (m :: children_map))"
  have "bt_wf m \<Longrightarrow> bt_wf (fold f ps m) \<and> child_edges (fold f ps m) = child_edges m \<union> parent_edges ps" for m ps
  proof (induction ps arbitrary: m)
    case (Cons kp ps)
    obtain k p where kp: "kp = (k, p)" by (rule prod.exhaust)
    have "bt_wf (f kp m)" using Cons.prems by (simp add: f_def kp bt_upsert_wf)
    from Cons.IH [OF this]
    have "bt_wf (fold f (kp # ps) m)" "child_edges (fold f (kp # ps) m) = child_edges (f kp m) \<union> parent_edges ps" by simp_all
    moreover have "child_edges (f kp m) = insert (pi_ppid p, pi_pid p) (child_edges m)"
      by (auto simp: child_edges_def f_def kp children_push [OF Cons.prems])
    moreover have "parent_edges (kp # ps) = insert (pi_ppid p, pi_pid p) (parent_edges ps)"
      by (auto simp: parent_edges_def kp)
    ultimately show ?case by simp
  qed (simp add: parent_edges_def)
  from this [of "[]" processes] show ?thesis
    by (simp add: children_by_parent_def f_def [symmetric]) (simp add: child_edges_def children_of_def)
qed

lemma tree_of_reach: "tree_of processes r = (if has_process processes r then (parent_edges processes)\<^sup>* `` {r} else {})"
  by (auto simp: tree_of_def descendants_of_reach children_by_parent_edges)

text \<open>
  C17. The walk over the children of a process, a queue with a set of the processes already seen, ends on every parent map,
  cyclic ones included, and computes exactly the processes that the parent links of the scan reach from the root: each of
  them once and no other.
\<close>

theorem descendants_are_the_tree:
  "descendants_of root_pid (children_by_parent processes) = {pid. (root_pid, pid) \<in> (parent_edges processes)\<^sup>*}"
  by (auto simp: descendants_of_reach children_by_parent_edges)

section \<open>Tasks of a snapshot\<close>

definition task_of :: "process_map \<Rightarrow> u32 set \<Rightarrow> u32 \<times> task_info \<Rightarrow> bool" where
  "task_of processes S kt \<longleftrightarrow>
     (case kt of (tid, t) \<Rightarrow>
        t_process_pid t \<in> S
        \<and> (\<exists>p comm st pol. map_of processes (t_process_pid t) = Some p
             \<and> t = task_info_from_parts tid (t_process_pid t) comm p st pol))"

lemma task_of_parts: "pid \<in> S \<Longrightarrow> map_of processes pid = Some p \<Longrightarrow> task_of processes S (tid, task_info_from_parts tid pid comm p st pol)"
  unfolding task_of_def by (auto simp: task_info_from_parts_def)

lemma task_info_from_tid_parts:
  "\<exists>comm st pol. fst (task_info_from_tid_at fs proc_root tid pid p prev rep) = task_info_from_parts tid pid comm p st pol"
  by (auto simp: task_info_from_tid_at_def Let_def split: prod.split option.split)

lemma task_of_from_tid:
  "task_info_from_tid_at fs proc_root tid pid p prev rep = (t, rep') \<Longrightarrow> pid \<in> S \<Longrightarrow> map_of processes pid = Some p \<Longrightarrow>
     task_of processes S (tid, t)"
  using task_info_from_tid_parts [of fs proc_root tid pid p prev rep] task_of_parts by (metis fst_conv)

definition tasks_ok :: "process_map \<Rightarrow> u32 set \<Rightarrow> task_map \<Rightarrow> bool" where
  "tasks_ok processes S tasks \<longleftrightarrow> bt_wf tasks \<and> list_all (task_of processes S) tasks"

lemma tasks_ok_insert: "tasks_ok ps S tasks \<Longrightarrow> task_of ps S (tid, t) \<Longrightarrow> tasks_ok ps S (bt_insert tid t tasks)"
  by (simp add: tasks_ok_def bt_insert_wf list_all_bt_insert)

lemma expand_process_ok:
  assumes "tasks_ok ps S (fst acc)" "pid \<in> S"
  shows "tasks_ok ps S (fst (expand_process fs proc_root ps prev b pid acc))"
proof -
  obtain tasks rep where acc: "acc = (tasks, rep)" by (rule prod.exhaust)
  show ?thesis
  proof (cases "map_of ps pid")
    case (Some p)
    obtain tids rep' where t: "thread_ids_of_at_limited fs proc_root pid (sb_max_threads_per_process b) rep = (tids, rep')"
      by (rule prod.exhaust)
    let ?f = "\<lambda>tid (tasks, report). case task_info_from_tid_at fs proc_root tid pid p prev report of
                (task, report) \<Rightarrow> (bt_insert tid task tasks, report)"
    have loop: "tasks_ok ps S (fst (fold ?f xs (tasks, rep')))" for xs
      using assms(1) task_of_from_tid [OF _ assms(2) Some]
      by (intro fold_preserves [where P = "\<lambda>a. tasks_ok ps S (fst a)"])
        (auto simp: acc split: prod.splits intro!: tasks_ok_insert)
    have single: "task_of ps S (pid, task_info_from_proc fs proc_root pid pid (pi_comm p) p)"
      using task_of_parts [OF assms(2) Some] by (simp add: task_info_from_proc_def split: prod.split)
    show ?thesis
      using assms(1) loop single by (simp add: expand_process_def acc Some t tasks_ok_insert)
  qed (use assms in \<open>simp add: expand_process_def acc\<close>)
qed

lemma expand_tasks_ok:
  assumes "finite S" shows "tasks_ok ps S (fst (expand_tasks_at fs proc_root S ps prev b rep))"
  unfolding expand_tasks_at_def
  by (rule fold_preserves) (use assms expand_process_ok in \<open>auto simp: tasks_ok_def\<close>)

lemma tasks_ok_mono: "tasks_ok ps S tasks \<Longrightarrow> S \<subseteq> T \<Longrightarrow> tasks_ok ps T tasks"
  by (auto simp: tasks_ok_def task_of_def list_all_iff)

definition resolve_ok :: "target_snapshot_input \<Rightarrow> process_map \<Rightarrow> u32 set \<Rightarrow> u32 list \<Rightarrow> resolve_state \<Rightarrow> bool" where
  "resolve_ok inp ps S unresolved st \<longleftrightarrow>
     tasks_ok ps S (rv_tasks st) \<and> set (rv_missing st) \<subseteq> set unresolved \<and> (rv_missing st = [] \<or> ti_keep_missing_pid inp)"

lemma resolve_one_ok:
  assumes "resolve_ok inp ps (- excluded) unresolved st" "tid \<in> set unresolved"
  shows "resolve_ok inp ps (- excluded) unresolved (resolve_one fs inp ps excluded owners tid st)"
  using assms
  by (auto simp: resolve_ok_def resolve_one_def Let_def split: option.splits prod.splits
      intro!: tasks_ok_insert intro: task_of_from_tid)

lemma resolve_all_ok:
  assumes "resolve_ok inp ps (- excluded) unresolved st"
  shows "resolve_ok inp ps (- excluded) unresolved (resolve_all fs inp ps excluded unresolved st)"
proof (cases "thread_owner_index_at fs (ti_proc_root inp) ps (input_budget inp) (rv_report st)")
  case (Pair owners report)
  have "resolve_ok inp ps (- excluded) unresolved (st\<lparr>rv_report := report\<rparr>)"
    using assms by (simp add: resolve_ok_def)
  then have "resolve_ok inp ps (- excluded) unresolved (fold (resolve_one fs inp ps excluded owners) unresolved (st\<lparr>rv_report := report\<rparr>))"
    by (rule fold_preserves) (rule resolve_one_ok)
  then show ?thesis
    using assms by (cases "unresolved = []") (simp_all add: resolve_all_def Pair)
qed

text \<open>The two kinds of entries before the last pass: a task of a process that is not excluded, or the placeholder of a missing identifier.\<close>

definition entry_ok :: "target_snapshot_input \<Rightarrow> process_map \<Rightarrow> u32 set \<Rightarrow> u32 list \<Rightarrow> u32 \<times> task_info \<Rightarrow> bool" where
  "entry_ok inp ps S unresolved kt \<longleftrightarrow>
     task_of ps S kt \<or> (ti_keep_missing_pid inp \<and> fst kt \<in> set unresolved \<and> snd kt = missing_task (fst kt))"

lemma insert_missing_ok:
  assumes "bt_wf tasks" "list_all (entry_ok inp ps S unresolved) tasks" "set missing \<subseteq> set unresolved"
    "missing = [] \<or> ti_keep_missing_pid inp"
  shows "bt_wf (insert_missing f missing tasks) \<and> list_all (entry_ok inp ps S unresolved) (insert_missing f missing tasks)"
  unfolding insert_missing_def
proof (rule fold_preserves)
  fix pid and tasks :: task_map
  assume "pid \<in> set missing" and t: "bt_wf tasks \<and> list_all (entry_ok inp ps S unresolved) tasks"
  then have "entry_ok inp ps S unresolved (pid, missing_task pid)"
    using assms(3,4) by (auto simp: entry_ok_def)
  then show "bt_wf (if filters_allow f (missing_task pid) then bt_insert pid (missing_task pid) tasks else tasks)
      \<and> list_all (entry_ok inp ps S unresolved) (if filters_allow f (missing_task pid) then bt_insert pid (missing_task pid) tasks else tasks)"
    using t by (simp add: bt_insert_wf list_all_bt_insert)
qed (use assms in simp)

lemma finish_task_keeps:
  "t_tid (finish_task inp ps cg req t) = t_tid t" "t_process_pid (finish_task inp ps cg req t) = t_process_pid t"
  "t_comm (finish_task inp ps cg req t) = t_comm t" "t_process_comm (finish_task inp ps cg req t) = t_process_comm t"
  "t_process_starttime_ticks (finish_task inp ps cg req t) = t_process_starttime_ticks t"
  "t_task_starttime_ticks (finish_task inp ps cg req t) = t_task_starttime_ticks t"
  by (simp_all add: finish_task_def apply_community_rules_to_unknown_task_def Let_def split: option.splits)

lemma finish_task_class:
  "t_class t \<noteq> TC_Unknown \<Longrightarrow> t_class (finish_task inp ps cg req t) = t_class t"
  by (simp add: finish_task_def Let_def split: option.splits)

definition start_cache :: "target_snapshot_input \<Rightarrow> process_cache" where
  "start_cache inp = (case ti_cache inp of Some c \<Rightarrow> c | None \<Rightarrow> default_cache)"

definition scanned :: "proc_fs \<Rightarrow> target_snapshot_input \<Rightarrow> process_map" where
  "scanned fs inp = fst (scan_processes_at fs (ti_proc_root inp) (input_budget inp) (start_cache inp) report_zero)"

definition unresolved_pids :: "nat \<Rightarrow> proc_fs \<Rightarrow> target_snapshot_input \<Rightarrow> u32 list" where
  "unresolved_pids depth fs inp =
     filter (\<lambda>pid. \<not> has_process (scanned fs inp) pid) (listed_pids (cgroup_roots_of depth fs inp) inp)"

definition input_filters :: "target_snapshot_input \<Rightarrow> task_filters" where
  "input_filters inp = (case ti_filters inp of Some f \<Rightarrow> f | None \<Rightarrow> default_filters)"

lemma snapshot_entries:
  fixes depth fs inp
  defines "ps \<equiv> scanned fs inp"
    and "roots \<equiv> process_roots_of (scanned fs inp) (cgroup_roots_of depth fs inp) inp"
    and "excl \<equiv> excluded_pids_of (scanned fs inp) inp"
  assumes S: "unresolved_pids depth fs inp = [] \<and> S = roots \<or> S = - excl"
  shows "\<exists>req tasks. bt_wf tasks \<and> list_all (entry_ok inp ps S (unresolved_pids depth fs inp)) tasks
    \<and> ts_process_roots (fst (target_snapshot depth fs inp)) = roots
    \<and> ts_tasks (fst (target_snapshot depth fs inp)) =
        filter (\<lambda>(_, t). filters_allow (input_filters inp) t)
          (map (\<lambda>(tid, t). (tid, finish_task inp ps (cgroup_roots_of depth fs inp) req t)) tasks)"
proof -
  obtain c r where scan: "scan_processes_at fs (ti_proc_root inp) (input_budget inp) (start_cache inp) report_zero = (ps, c, r)"
    unfolding ps_def scanned_def by (metis prod.collapse)
  let ?cg = "cgroup_roots_of depth fs inp" and ?un = "unresolved_pids depth fs inp"
  let ?req = "set (filter (has_process ps) (listed_pids ?cg inp)) \<union> set (ti_tree_pids inp)"
  obtain tasks r' where e: "expand_tasks_at fs (ti_proc_root inp) roots ps (ti_previous_tasks inp) (input_budget inp) r = (tasks, r')"
    by (rule prod.exhaust)
  let ?st = "resolve_all fs inp ps excl ?un \<lparr>rv_tasks = tasks, rv_requested = ?req, rv_missing = [], rv_report = r'\<rparr>"
  let ?m = "insert_missing (input_filters inp) (rv_missing ?st) (rv_tasks ?st)"
  have tasks: "tasks_ok ps roots tasks"
    using expand_tasks_ok [of roots ps fs "ti_proc_root inp" "ti_previous_tasks inp" "input_budget inp" r] e by simp
  have res: "resolve_ok inp ps S ?un ?st"
  proof (rule disjE [OF S])
    assume "unresolved_pids depth fs inp = [] \<and> S = roots"
    then show ?thesis using tasks by (simp add: resolve_all_def resolve_ok_def)
  next
    assume S: "S = - excl"
    have "roots \<subseteq> S" by (auto simp: S roots_def excl_def process_roots_of_def)
    then have "resolve_ok inp ps (- excl) ?un \<lparr>rv_tasks = tasks, rv_requested = ?req, rv_missing = [], rv_report = r'\<rparr>"
      using tasks_ok_mono [OF tasks] S by (simp add: resolve_ok_def)
    then show ?thesis unfolding S by (rule resolve_all_ok)
  qed
  then have m: "bt_wf ?m \<and> list_all (entry_ok inp ps S ?un) ?m"
    by (intro insert_missing_ok) (auto simp: resolve_ok_def tasks_ok_def entry_ok_def list_all_iff)
  have "target_snapshot depth fs inp =
      (\<lparr>ts_process_roots = roots, ts_tasks = filter (\<lambda>(_, t). filters_allow (input_filters inp) t)
          (map (\<lambda>(tid, t). (tid, finish_task inp ps ?cg (rv_requested ?st) t)) ?m), ts_budget_report = rv_report ?st\<rparr>, c)"
    unfolding target_snapshot_def
    by (simp add: scan [unfolded start_cache_def] e [unfolded roots_def, folded ps_def] Let_def roots_def excl_def unresolved_pids_def
        ps_def [symmetric] input_filters_def)
  then show ?thesis
    using m by auto
qed

lemma snapshot_member:
  assumes "(tid, t) \<in> set (ts_tasks (fst (target_snapshot depth fs inp)))"
    and "unresolved_pids depth fs inp = [] \<and> S = process_roots_of (scanned fs inp) (cgroup_roots_of depth fs inp) inp
      \<or> S = - excluded_pids_of (scanned fs inp) inp"
  obtains t0 req where "entry_ok inp (scanned fs inp) S (unresolved_pids depth fs inp) (tid, t0)"
    "t = finish_task inp (scanned fs inp) (cgroup_roots_of depth fs inp) req t0" "filters_allow (input_filters inp) t"
proof -
  obtain req tasks where "list_all (entry_ok inp (scanned fs inp) S (unresolved_pids depth fs inp)) tasks"
      "ts_tasks (fst (target_snapshot depth fs inp)) = filter (\<lambda>(_, t). filters_allow (input_filters inp) t)
          (map (\<lambda>(tid, t). (tid, finish_task inp (scanned fs inp) (cgroup_roots_of depth fs inp) req t)) tasks)"
    using snapshot_entries [OF assms(2)] by blast
  then show ?thesis
    using assms(1) that by (auto simp: list_all_iff)
qed

lemma task_of_finish:
  assumes "task_of ps S (tid, t0)" "t = finish_task inp ps cg req t0"
  shows "t_tid t = tid" "t_process_pid t \<in> S" "has_process ps (t_process_pid t)"
    "\<exists>p. map_of ps (t_process_pid t) = Some p \<and> t_process_starttime_ticks t = pi_starttime_ticks p"
proof -
  obtain p comm st pol pid where p: "t_process_pid t0 = pid" "pid \<in> S" "map_of ps pid = Some p"
      "t0 = task_info_from_parts tid pid comm p st pol"
    using assms(1) unfolding task_of_def prod.case by blast
  have "t_tid t0 = tid" "t_process_starttime_ticks t0 = pi_starttime_ticks p"
    by (simp_all add: p(4) task_info_from_parts_def)
  then show "t_tid t = tid" "t_process_pid t \<in> S" "has_process ps (t_process_pid t)"
    "\<exists>p. map_of ps (t_process_pid t) = Some p \<and> t_process_starttime_ticks t = pi_starttime_ticks p"
    using p(1-3) by (simp_all add: assms(2) finish_task_keeps has_process_def)
qed

lemma snapshot_own_tid:
  assumes "(tid, t) \<in> set (ts_tasks (fst (target_snapshot depth fs inp)))"
  shows "t_tid t = tid"
proof -
  obtain t0 req where t: "entry_ok inp (scanned fs inp) (- excluded_pids_of (scanned fs inp) inp) (unresolved_pids depth fs inp) (tid, t0)"
    "t = finish_task inp (scanned fs inp) (cgroup_roots_of depth fs inp) req t0"
    using snapshot_member [OF assms] by blast
  then show ?thesis
    using task_of_finish(1) [OF _ t(2)] by (auto simp: entry_ok_def finish_task_keeps missing_task_def)
qed

text \<open>
  C18. What a target snapshot contains. Every task stands under its own identifier and passes the filters; it belongs to a
  process of the scan that is in none of the excluded trees, or it is the placeholder, with the name \<open>?\<close>, of an
  identifier of the request that is no process, and then only when missing identifiers are to be kept.
\<close>

theorem snapshot_confined:
  assumes "(tid, t) \<in> set (ts_tasks (fst (target_snapshot depth fs inp)))"
  shows "t_tid t = tid \<and> filters_allow (input_filters inp) t
    \<and> (has_process (scanned fs inp) (t_process_pid t) \<and> t_process_pid t \<notin> excluded_pids_of (scanned fs inp) inp
       \<or> ti_keep_missing_pid inp \<and> tid \<in> set (unresolved_pids depth fs inp) \<and> t_comm t = ''?'')"
proof -
  obtain t0 req where t: "entry_ok inp (scanned fs inp) (- excluded_pids_of (scanned fs inp) inp) (unresolved_pids depth fs inp) (tid, t0)"
    "t = finish_task inp (scanned fs inp) (cgroup_roots_of depth fs inp) req t0" "filters_allow (input_filters inp) t"
    using snapshot_member [OF assms] by blast
  from t(1) consider "task_of (scanned fs inp) (- excluded_pids_of (scanned fs inp) inp) (tid, t0)"
    | "ti_keep_missing_pid inp" "tid \<in> set (unresolved_pids depth fs inp)" "t0 = missing_task tid"
    by (auto simp: entry_ok_def)
  then show ?thesis
  proof cases
    case 1
    then show ?thesis using task_of_finish [OF 1 t(2)] t(3) by simp
  next
    case 2
    then show ?thesis using t(2,3) by (simp add: finish_task_keeps missing_task_def)
  qed
qed

theorem snapshot_confined_witness:
  "map fst (ts_tasks (fst (target_snapshot 1 sample_fs tree_request))) = [10, 11, 12]
   \<and> list_all (\<lambda>(tid, t). t_tid t = tid \<and> has_process (scanned sample_fs tree_request) (t_process_pid t))
       (ts_tasks (fst (target_snapshot 1 sample_fs tree_request)))"
proof -
  let ?inp = "tree_request"
  let ?ts = "ts_tasks (fst (target_snapshot 1 sample_fs ?inp))"
  have keep: "\<not> ti_keep_missing_pid ?inp"
    by (simp add: tree_request_def sample_input_def default_snapshot_input_def)
  have "map fst ?ts = [10, 11, 12]"
    by (rule tree_request_tids)
  then show ?thesis
    using snapshot_confined [of _ _ 1 sample_fs ?inp] keep unfolding list_all_iff by blast
qed

text \<open>
  A snapshot of process trees is confined to them. When only trees are requested, as for a profile, every task belongs to
  a process that the parent links of the scan reach from one of the requested roots, is not in an excluded tree, and
  carries the start time that the scan read for that process.
\<close>

theorem tree_snapshot_confined:
  assumes "ti_manual_pids inp = []" "ti_cgroup_path inp = None"
    and "(tid, t) \<in> set (ts_tasks (fst (target_snapshot depth fs inp)))"
  shows "\<exists>root_pid \<in> set (ti_tree_pids inp). (root_pid, t_process_pid t) \<in> (parent_edges (scanned fs inp))\<^sup>*
    \<and> t_process_pid t \<notin> excluded_pids_of (scanned fs inp) inp
    \<and> (\<exists>p. map_of (scanned fs inp) (t_process_pid t) = Some p \<and> t_process_starttime_ticks t = pi_starttime_ticks p)"
proof -
  let ?S = "process_roots_of (scanned fs inp) (cgroup_roots_of depth fs inp) inp"
  have un: "unresolved_pids depth fs inp = []"
    using assms(1,2) by (simp add: unresolved_pids_def listed_pids_def cgroup_roots_of_def)
  obtain t0 req where t: "entry_ok inp (scanned fs inp) ?S (unresolved_pids depth fs inp) (tid, t0)"
    "t = finish_task inp (scanned fs inp) (cgroup_roots_of depth fs inp) req t0"
    using snapshot_member [OF assms(3)] un by blast
  then have "task_of (scanned fs inp) ?S (tid, t0)"
    by (simp add: entry_ok_def un)
  note f = task_of_finish [OF this t(2)]
  have "listed_pids (cgroup_roots_of depth fs inp) inp = []"
    using assms(1,2) by (simp add: listed_pids_def cgroup_roots_of_def)
  then show ?thesis
    using f(2,4) by (auto simp: process_roots_of_def tree_of_reach split: if_splits)
qed

theorem tree_snapshot_confined_witness:
  "map fst (ts_tasks (fst (target_snapshot 1 sample_fs tree_request))) = [10, 11, 12]
   \<and> list_all (\<lambda>(tid, t). (10, t_process_pid t) \<in> (parent_edges (scanned sample_fs tree_request))\<^sup>*)
       (ts_tasks (fst (target_snapshot 1 sample_fs tree_request)))"
proof -
  let ?inp = "tree_request"
  let ?ts = "ts_tasks (fst (target_snapshot 1 sample_fs ?inp))"
  have inp: "ti_manual_pids ?inp = []" "ti_cgroup_path ?inp = None" "ti_tree_pids ?inp = [10]"
    by (simp_all add: tree_request_def sample_input_def default_snapshot_input_def)
  have "map fst ?ts = [10, 11, 12]"
    by (rule tree_request_tids)
  moreover have "(10, t_process_pid t) \<in> (parent_edges (scanned sample_fs ?inp))\<^sup>*" if "(tid, t) \<in> set ?ts" for tid t
    using tree_snapshot_confined [OF inp(1,2) that] by (simp add: inp(3))
  ultimately show ?thesis
    unfolding list_all_iff by blast
qed

section \<open>Threads and their processes\<close>

text \<open>A thread of a process: the process itself, or an entry of its \<open>task\<close> directory.\<close>

definition own_thread :: "proc_fs \<Rightarrow> string \<Rightarrow> u32 \<Rightarrow> u32 \<Rightarrow> bool" where
  "own_thread fs proc_root pid tid \<longleftrightarrow>
     tid = pid
     \<or> (case pf_read_dir fs (path_join (pid_dir proc_root pid) ''task'') of
          Inl _ \<Rightarrow> False
        | Inr entries \<Rightarrow> list_ex (\<lambda>name. parse_u32 name = Some tid) (flatten entries))"

definition threads_owned :: "proc_fs \<Rightarrow> string \<Rightarrow> task_map \<Rightarrow> bool" where
  "threads_owned fs proc_root tasks \<longleftrightarrow> list_all (\<lambda>(tid, t). own_thread fs proc_root (t_process_pid t) tid) tasks"

lemma collect_tids_listed:
  "tid \<in> fst (collect_tids n names tids rep) \<Longrightarrow> tid \<in> tids \<or> list_ex (\<lambda>name. parse_u32 name = Some tid) names"
proof (induction n names tids rep rule: collect_tids.induct)
  case (2 n name names tids rep)
  then show ?case
    by (cases "parse_u32 name") (auto simp: Let_def split: if_splits)
qed simp

lemma thread_ids_listed:
  assumes "tid \<in> fst (thread_ids_of_at_limited fs proc_root pid n rep)"
  shows "own_thread fs proc_root pid tid"
  using assms collect_tids_listed [of tid n _ "{}" rep]
  by (auto simp: thread_ids_of_at_limited_def own_thread_def split: sum.splits prod.splits)

lemma expand_process_threads:
  assumes "threads_owned fs proc_root (fst acc)"
  shows "threads_owned fs proc_root (fst (expand_process fs proc_root ps prev b pid acc))"
proof -
  obtain tasks rep where acc: "acc = (tasks, rep)" by (rule prod.exhaust)
  show ?thesis
  proof (cases "map_of ps pid")
    case (Some p)
    obtain tids rep' where t: "thread_ids_of_at_limited fs proc_root pid (sb_max_threads_per_process b) rep = (tids, rep')"
      by (rule prod.exhaust)
    have own: "own_thread fs proc_root pid tid" if "tid \<in> tids" for tid
      using thread_ids_listed [of tid fs proc_root pid "sb_max_threads_per_process b" rep] that t by simp
    have pid: "t_process_pid (fst (task_info_from_tid_at fs proc_root tid pid p prev r)) = pid" for tid r
      using task_info_from_tid_parts [of fs proc_root tid pid p prev r] by (auto simp: task_info_from_parts_def)
    let ?f = "\<lambda>tid (tasks, report). case task_info_from_tid_at fs proc_root tid pid p prev report of
                (task, report) \<Rightarrow> (bt_insert tid task tasks, report)"
    have loop: "threads_owned fs proc_root (fst (fold ?f xs (tasks, rep')))" if "set xs \<subseteq> tids" for xs
    proof (rule fold_preserves [where P = "\<lambda>a. threads_owned fs proc_root (fst a)"])
      fix tid and a :: "task_map \<times> scan_report"
      assume "tid \<in> set xs" "threads_owned fs proc_root (fst a)"
      then show "threads_owned fs proc_root (fst (?f tid a))"
        using that own pid [of tid "snd a"]
        by (auto simp: threads_owned_def split: prod.splits intro!: list_all_bt_insert)
    qed (use assms acc in simp)
    have single: "own_thread fs proc_root (t_process_pid (task_info_from_proc fs proc_root pid pid (pi_comm p) p)) pid"
      by (simp add: task_info_from_proc_def task_info_from_parts_def own_thread_def split: prod.split)
    show ?thesis
    proof (cases "tids = {}")
      case True
      then show ?thesis
        using assms single by (simp add: expand_process_def acc Some t threads_owned_def list_all_bt_insert)
    next
      case False
      have "set (sorted_list_of_set tids) \<subseteq> tids"
        by (cases "finite tids") simp_all
      with False show ?thesis
        using loop by (simp add: expand_process_def acc Some t)
    qed
  qed (use assms in \<open>simp add: expand_process_def acc\<close>)
qed

lemma expand_tasks_threads: "threads_owned fs proc_root (fst (expand_tasks_at fs proc_root S ps prev b rep))"
  unfolding expand_tasks_at_def
  by (rule fold_preserves) (auto simp: threads_owned_def intro: expand_process_threads [unfolded threads_owned_def])

text \<open>Every entry of a snapshot of trees is a thread of the process it names.\<close>

lemma tree_snapshot_threads:
  assumes "ti_manual_pids inp = []" "ti_cgroup_path inp = None"
    and "(tid, t) \<in> set (ts_tasks (fst (target_snapshot depth fs inp)))"
  shows "own_thread fs (ti_proc_root inp) (t_process_pid t) tid"
proof -
  obtain ps c r where scan: "scan_processes_at fs (ti_proc_root inp) (input_budget inp)
      (case ti_cache inp of Some c \<Rightarrow> c | None \<Rightarrow> default_cache) report_zero = (ps, c, r)"
    by (rule prod_cases3)
  obtain tasks r' where e: "expand_tasks_at fs (ti_proc_root inp) (process_roots_of ps (cgroup_roots_of depth fs inp) inp) ps
      (ti_previous_tasks inp) (input_budget inp) r = (tasks, r')"
    by (rule prod.exhaust)
  have "threads_owned fs (ti_proc_root inp) tasks"
    using expand_tasks_threads [of fs "ti_proc_root inp"] e by (metis fst_conv)
  moreover have "listed_pids (cgroup_roots_of depth fs inp) inp = []"
    using assms(1,2) by (simp add: listed_pids_def cgroup_roots_of_def)
  ultimately show ?thesis
    using assms(3)
    by (auto simp: target_snapshot_def scan e Let_def resolve_all_def insert_missing_def threads_owned_def list_all_iff
        finish_task_keeps)
qed

section \<open>Bounds of a scan\<close>

lemma collect_tids_card:
  "finite tids \<Longrightarrow> card tids \<le> n \<Longrightarrow> finite (fst (collect_tids n names tids rep)) \<and> card (fst (collect_tids n names tids rep)) \<le> n"
proof (induction n names tids rep rule: collect_tids.induct)
  case (2 n name names tids rep)
  then show ?case
    by (cases "parse_u32 name") (auto simp: Let_def card_insert_if)
qed simp

lemma thread_ids_bound: "card (fst (thread_ids_of_at_limited fs proc_root pid n rep)) \<le> n"
  using collect_tids_card [of "{}" n] by (auto simp: thread_ids_of_at_limited_def split: sum.split prod.split) (metis fst_conv)

section \<open>Where the code leaves its intent\<close>

text \<open>
  An excluded tree can show in a snapshot. The members of a cgroup are listed with their thread identifiers; for a thread of an
  excluded process the search for its owner ends in the same branch as an unknown identifier, so with missing identifiers
  kept the snapshot contains a placeholder task under that thread. Here the only process of the trees, 10, and all it
  started is excluded, and its thread 11 is a target nevertheless.
\<close>

theorem excluded_thread_is_kept:
  "excluded_pids_of (scanned sample_fs cgroup_request) cgroup_request = {10, 12}
   \<and> fst (thread_ids_of_at_limited sample_fs ''/proc'' 10 8 report_zero) = {10, 11}
   \<and> map (\<lambda>(tid, t). (tid, t_process_pid t, t_comm t))
       (ts_tasks (fst (target_snapshot 1 sample_fs
          cgroup_request)))
     = [(11, 11, ''?'')]"
  by code_simp

lemma rsplit_after_no_sep: "c \<notin> set s \<Longrightarrow> rsplit_after [c] s = None"
  by (induction s) auto

lemma rsplit_after_sep: "c \<notin> set q \<Longrightarrow> rsplit_after [c] (p @ c # q) = Some q"
  by (induction p) (auto simp: rsplit_after_no_sep)

lemma str_lines_single: "CHR 0x0A \<notin> set l \<Longrightarrow> l \<noteq> [] \<Longrightarrow> str_lines l = [l]"
  by (simp add: str_lines_def split_on_no_sep)

text \<open>
  The cgroup path of a process is cut at the last colon of its line. The line of the unified hierarchy is \<open>0::\<close> and the path; a
  path without a colon is read as it stands, and of a path with a colon, such as that of a D-Bus activated service, only the part
  behind its last colon is kept.
\<close>

theorem cgroup_path_after_last_colon:
  assumes "CHR 0x0A \<notin> set (p @ q)" and "CHR '':'' \<notin> set q" and "trim q \<noteq> []"
  shows "cgroup_path_of (''0::'' @ q) = trim q \<and> cgroup_path_of (''0::'' @ p @ '':'' @ q) = trim q"
proof -
  have one: "cgroup_path_of (l @ CHR '':'' # q) = trim q" if "CHR 0x0A \<notin> set l" for l
  proof -
    have "str_lines (l @ CHR '':'' # q) = [l @ CHR '':'' # q]"
      using that assms(1) by (intro str_lines_single) auto
    then show ?thesis
      using assms(2,3) by (simp add: cgroup_path_of_def rsplit_after_sep List.map_filter_def longest_def)
  qed
  show ?thesis
    using one [of "''0:''"] one [of "''0::'' @ p"] assms(1) by simp
qed

theorem cgroup_path_after_last_colon_witness:
  "cgroup_path_of (''0::'' @ ''/app.slice/dbus-'' @ '':'' @ ''1.2-org.app'') = ''1.2-org.app''"
proof -
  have "trim ''1.2-org.app'' = ''1.2-org.app''" by code_simp
  then show ?thesis
    using cgroup_path_after_last_colon [of "''/app.slice/dbus-''" "''1.2-org.app''"] by simp
qed

text \<open>
  The number of processes over the thread limit counts every process that is listed after the first one over the limit,
  since the test reads the total of the scan and not the count of the process.
\<close>

lemma thread_limit_counts_later_processes:
  "sr_processes_thread_limited (ts_budget_report (fst (target_snapshot 1 sample_fs
     (tree_request\<lparr>ti_max_threads_per_process := Some 1\<rparr>)))) = 2
   \<and> fst (collect_tids 1 [''12''] {} report_zero) = {12}"
  by code_simp

end
