(* ===== verification/Affinity_Facts.thy ===== *)
theory Affinity_Facts
  imports Affinity_Files Word_Eval
begin

text \<open>
  What the restore files promise: a merge holds one record per task identity and keeps the original value of the first
  record as long as no later record sets the task back to it; a restore accounts for every record once, writes only what
  an identity allows, and removes the file exactly when nothing failed.
\<close>

section \<open>Merging by identity\<close>

text \<open>
  The contract of a mergeable record: combining keeps the key of the existing record, and keeps its original value and
  takes the new applied value unless the new record sets the task back to the original.
\<close>

locale merge_record =
  fixes key :: "'r \<Rightarrow> merge_key" and combine :: "'r \<Rightarrow> 'r \<Rightarrow> 'r" and original applied :: "'r \<Rightarrow> 'v"
  assumes combine_key: "key (combine r e) = key e"
    and combine_original: "applied r \<noteq> original e \<Longrightarrow> original (combine r e) = original e"
    and combine_applied: "applied r \<noteq> original e \<Longrightarrow> applied (combine r e) = applied r"
begin

definition keyed :: "'r list \<Rightarrow> (merge_key \<times> 'r) list" where
  "keyed rs = map (\<lambda>r. (key r, r)) rs"

definition keys_ok :: "(merge_key \<times> 'r) list \<Rightarrow> bool" where
  "keys_ok m \<longleftrightarrow> bt_wf m \<and> (\<forall>(k, r) \<in> set m. key r = k)"

lemma keys_ok_of: "keys_ok (bt_of (keyed rs))"
proof -
  have "keys_ok (fold (\<lambda>(k, v). bt_insert k v) (keyed rs) [])"
  proof (rule fold_preserves [where P = keys_ok])
    fix kv m assume "kv \<in> set (keyed rs)" "keys_ok m"
    then show "keys_ok ((case kv of (k, v) \<Rightarrow> bt_insert k v) m)"
      using set_bt_insert_subset by (fastforce simp: keyed_def keys_ok_def bt_insert_wf)
  qed (simp add: keys_ok_def)
  then show ?thesis by (simp add: bt_of_def)
qed

lemma keys_ok_upsert:
  assumes "keys_ok m"
  shows "keys_ok (bt_upsert (key r) (combine r) r m)"
proof (cases "map_of m (key r)")
  case None
  then show ?thesis
    using assms set_bt_insert_subset by (fastforce simp: keys_ok_def bt_upsert_def bt_insert_wf)
next
  case (Some e)
  then have "key e = key r" using assms by (auto simp: keys_ok_def dest!: map_of_SomeD)
  then show ?thesis
    using assms Some set_bt_insert_subset by (fastforce simp: keys_ok_def bt_upsert_def bt_insert_wf combine_key)
qed

lemma keys_ok_fold: "keys_ok m \<Longrightarrow> keys_ok (fold (\<lambda>r. bt_upsert (key r) (combine r) r) rs m)"
  by (rule fold_preserves) (auto intro: keys_ok_upsert)

lemma keys_ok_keyed: "keys_ok m \<Longrightarrow> keyed (map snd m) = m"
  unfolding keyed_def by (auto simp: keys_ok_def comp_def intro!: map_idI)

lemma keyed_merge:
  "keyed (merge_by key combine existing new) =
     fold (\<lambda>r. bt_upsert (key r) (combine r) r) new (bt_of (keyed existing))"
  unfolding merge_by_def using keys_ok_keyed [OF keys_ok_fold [OF keys_ok_of]] by (simp add: keyed_def)

lemma merge_distinct: "distinct (map key (merge_by key combine existing new))"
proof -
  have "map key (merge_by key combine existing new) = map fst (keyed (merge_by key combine existing new))"
    by (simp add: keyed_def comp_def)
  then show ?thesis
    using keys_ok_fold [OF keys_ok_of] by (simp add: keyed_merge keys_ok_def bt_wf_def)
qed

lemma fold_keeps_original:
  "keys_ok m \<Longrightarrow> map_of m k = Some e \<Longrightarrow> (\<And>r. r \<in> set rs \<Longrightarrow> key r = k \<Longrightarrow> applied r \<noteq> original e)
    \<Longrightarrow> \<exists>e'. map_of (fold (\<lambda>r. bt_upsert (key r) (combine r) r) rs m) k = Some e' \<and> original e' = original e"
proof (induction rs arbitrary: m e)
  case (Cons r rs)
  let ?m = "bt_upsert (key r) (combine r) r m"
  have ok: "keys_ok ?m" by (rule keys_ok_upsert [OF Cons.prems(1)])
  have wf: "bt_wf m" using Cons.prems(1) by (simp add: keys_ok_def)
  have "\<exists>e'. map_of ?m k = Some e' \<and> original e' = original e"
    using Cons.prems(2,3) by (cases "key r = k") (auto simp: map_of_bt_upsert [OF wf] combine_original)
  then obtain e' where e': "map_of ?m k = Some e'" "original e' = original e" by blast
  have "applied r' \<noteq> original e'" if "r' \<in> set rs" "key r' = k" for r'
    using that e'(2) Cons.prems(3) by simp
  from Cons.IH [OF ok e'(1) this] e'(2) show ?case by simp
qed simp

lemma filter_key_singleton: "distinct (map key rs) \<Longrightarrow> r \<in> set rs \<Longrightarrow> filter (\<lambda>r'. key r' = key r) rs = [r]"
proof (induction rs)
  case (Cons a rs)
  show ?case
  proof (cases "r = a")
    case True
    have "filter (\<lambda>r'. key r' = key a) rs = []" unfolding filter_empty_conv using Cons.prems(1) by simp (metis imageI)
    then show ?thesis using True by simp
  next
    case False
    with Cons.prems have "r \<in> set rs" "key a \<noteq> key r" by auto
    then show ?thesis using Cons by simp
  qed
qed simp

lemma map_of_distinct_keyed:
  assumes "distinct (map key existing)" "e \<in> set existing"
  shows "map_of (bt_of (keyed existing)) (key e) = Some e"
proof -
  have "distinct (map fst (rev (keyed existing)))" using assms(1) by (simp add: keyed_def comp_def rev_map [symmetric])
  moreover have "(key e, e) \<in> set (rev (keyed existing))" using assms(2) by (simp add: keyed_def)
  ultimately show ?thesis by (simp add: map_of_bt_of)
qed

lemma merge_keeps_original:
  assumes "distinct (map key existing)" "e \<in> set existing"
    and new: "\<And>r. r \<in> set new \<Longrightarrow> key r = key e \<Longrightarrow> applied r \<noteq> original e"
  shows "map original (filter (\<lambda>r. key r = key e) (merge_by key combine existing new)) = [original e]"
proof -
  let ?merged = "merge_by key combine existing new"
  obtain e' where e': "map_of (keyed ?merged) (key e) = Some e'" "original e' = original e"
    using fold_keeps_original [OF keys_ok_of map_of_distinct_keyed [OF assms(1,2)] new] by (auto simp: keyed_merge)
  then have "e' \<in> set ?merged" "key e' = key e" by (auto simp: keyed_def dest!: map_of_SomeD)
  then have "filter (\<lambda>r. key r = key e) ?merged = [e']"
    using filter_key_singleton [OF merge_distinct] by metis
  then show ?thesis using e'(2) by simp
qed

end

interpretation affinity_merge: merge_record affinity_key combine_affinity ar_original_mask ar_applied_mask
  by unfold_locales (simp_all add: combine_affinity_def affinity_key_def)

interpretation nice_merge: merge_record nice_key combine_nice n2_original_nice n2_applied_nice
  by unfold_locales (simp_all add: combine_nice_def nice_key_def)

interpretation ionice_merge: merge_record ionice_key combine_ionice i2_original_ioprio i2_applied_ioprio
  by unfold_locales (simp_all add: combine_ionice_def ionice_key_def)

text \<open>
  C26. Merging new affinity records into a restore state keeps one record per task identity, and the record of a task keeps
  the original mask of the existing record whenever no new record of that task sets it back to that mask.
\<close>
theorem merge_keeps_first_original:
  assumes "distinct (map affinity_key (pr_affinity_records existing))" "e \<in> set (pr_affinity_records existing)"
    and "list_all (\<lambda>r. affinity_key r = affinity_key e \<longrightarrow> ar_applied_mask r \<noteq> ar_original_mask e) (pr_affinity_records new_state)"
  shows "distinct (map affinity_key (pr_affinity_records (merge_restore_states existing new_state)))
    \<and> map ar_original_mask (filter (\<lambda>r. affinity_key r = affinity_key e)
        (pr_affinity_records (merge_restore_states existing new_state))) = [ar_original_mask e]"
  using affinity_merge.merge_distinct affinity_merge.merge_keeps_original [OF assms(1,2)] assms(3)
  by (simp add: merge_restore_states_def merge_affinity_records_def list_all_iff)

definition sample_record :: "cpu_mask \<Rightarrow> cpu_mask \<Rightarrow> affinity_record" where
  "sample_record original applied =
     \<lparr>ar_tid = 7, ar_process_pid = Some 7, ar_process_starttime_ticks = Some 70, ar_task_starttime_ticks = Some 70,
      ar_original_mask = original, ar_applied_mask = applied\<rparr>"

definition sample_profile_state :: "affinity_record list \<Rightarrow> profile_restore_state" where
  "sample_profile_state rs =
     \<lparr>pr_schema_version = PROFILE_RESTORE_SCHEMA_VERSION, pr_affinity_records = rs, pr_nice_records = [], pr_ionice_records = []\<rparr>"

theorem merge_keeps_first_original_witness:
  "map ar_original_mask (pr_affinity_records (merge_restore_states
       (sample_profile_state [sample_record \<lparr>cm_words = [15]\<rparr> \<lparr>cm_words = [3]\<rparr>])
       (sample_profile_state [sample_record \<lparr>cm_words = [3]\<rparr> \<lparr>cm_words = [1]\<rparr>]))) = [\<lparr>cm_words = [15]\<rparr>]"
  using merge_keeps_first_original
    [of "sample_profile_state [sample_record \<lparr>cm_words = [15]\<rparr> \<lparr>cm_words = [3]\<rparr>]"
        "sample_record \<lparr>cm_words = [15]\<rparr> \<lparr>cm_words = [3]\<rparr>"
        "sample_profile_state [sample_record \<lparr>cm_words = [3]\<rparr> \<lparr>cm_words = [1]\<rparr>]"]
  by (simp add: sample_profile_state_def sample_record_def merge_restore_states_def merge_affinity_records_def
      merge_by_def affinity_key_def bt_of_def bt_upsert_def combine_affinity_def)

text \<open>
  A profile that is applied and then set back loses the original: merging the record that moves the task from mask
  \<open>b\<close> back to its original mask \<open>a\<close> into the record that moved it from \<open>a\<close> to \<open>b\<close> leaves \<open>b\<close> as the value to restore.
\<close>
theorem merge_of_flip_loses_original:
  "map ar_original_mask (pr_affinity_records (merge_restore_states
     (sample_profile_state [sample_record a b]) (sample_profile_state [sample_record b a]))) = [b]"
  by (simp add: sample_profile_state_def sample_record_def merge_restore_states_def merge_affinity_records_def
      merge_by_def affinity_key_def bt_of_def bt_upsert_def combine_affinity_def)

section \<open>Accounting of a restore\<close>

definition counted :: "profile_restore_counts \<Rightarrow> usize" where
  "counted s = restored_total s + pm_skipped_dead s + pm_skipped_identity_mismatch s + pm_errors s"

text \<open>A step that counts its record once, and reports an error exactly when it counts one.\<close>

definition counts_one :: "('r \<Rightarrow> restore_acc \<Rightarrow> 'w \<Rightarrow> restore_acc \<times> 'w) \<Rightarrow> bool" where
  "counts_one f \<longleftrightarrow>
     (\<forall>r s errs w. case f r (s, errs) w of ((s', errs'), _) \<Rightarrow>
        counted s' = counted s + 1 \<and> pm_errors s' + length errs = pm_errors s + length errs')"

lemmas restore_step_defs =
  acc_dead_def acc_mismatch_def acc_error_def acc_write_def counted_def restored_total_def

lemma counts_one_affinity: "counts_one (restore_affinity_record host)"
  unfolding counts_one_def restore_affinity_record_def
  by (auto simp: restore_step_defs split: sum.splits prod.splits restore_record_status.splits)

lemma counts_one_nice: "counts_one (restore_nice_record host)"
  unfolding counts_one_def restore_nice_record_def restore_priority_identity_def
  by (auto simp: restore_step_defs split: sum.splits prod.splits restore_record_status.splits if_splits)

lemma counts_one_ionice: "counts_one (restore_ionice_record host)"
  unfolding counts_one_def restore_ionice_record_def restore_priority_identity_def
  by (auto simp: restore_step_defs split: sum.splits prod.splits restore_record_status.splits if_splits)

lemma restore_each_counts:
  assumes "counts_one f" "restore_each f rs (s, errs) w = ((s', errs'), w')"
  shows "counted s' = counted s + length rs \<and> pm_errors s' + length errs = pm_errors s + length errs'"
  using assms(2)
proof (induction rs arbitrary: s errs w)
  case (Cons r rs)
  obtain s1 errs1 w1 where f: "f r (s, errs) w = ((s1, errs1), w1)" by (metis surj_pair)
  have "counted s1 = counted s + 1 \<and> pm_errors s1 + length errs = pm_errors s + length errs1"
    using assms(1) f unfolding counts_one_def by (metis (mono_tags, lifting) case_prod_conv)
  moreover have "restore_each f rs (s1, errs1) w1 = ((s', errs'), w')" using Cons.prems f by simp
  ultimately show ?case using Cons.IH by fastforce
qed simp

text \<open>
  A restore accounts for every record of the file exactly once: as restored, as a dead task, as an identity mismatch
  or as an error, and it reports one error value for every record counted as an error.
\<close>
theorem restore_accounts_for_every_record:
  "case profile_restore_all host state w of ((s, errs), _) \<Rightarrow>
     restored_total s + pm_skipped_dead s + pm_skipped_identity_mismatch s + pm_errors s
       = length (pr_affinity_records state) + length (pr_nice_records state) + length (pr_ionice_records state)
     \<and> length errs = pm_errors s"
proof -
  obtain s1 errs1 w1 where 1: "restore_each (restore_affinity_record host) (pr_affinity_records state)
      (profile_summary_zero, []) w = ((s1, errs1), w1)" by (metis surj_pair)
  obtain s2 errs2 w2 where 2: "restore_each (restore_nice_record host) (pr_nice_records state) (s1, errs1) w1
      = ((s2, errs2), w2)" by (metis surj_pair)
  obtain s3 errs3 w3 where 3: "restore_each (restore_ionice_record host) (pr_ionice_records state) (s2, errs2) w2
      = ((s3, errs3), w3)" by (metis surj_pair)
  have "counted profile_summary_zero = 0" "pm_errors profile_summary_zero = 0"
    by (simp_all add: counted_def restored_total_def profile_summary_zero_def)
  then show ?thesis
    using restore_each_counts [OF counts_one_affinity 1] restore_each_counts [OF counts_one_nice 2]
      restore_each_counts [OF counts_one_ionice 3]
    by (simp add: profile_restore_all_def 1 2 3 counted_def)
qed

section \<open>What a restore may write\<close>

text \<open>No write of a record is allowed: an affinity record may be written when it is verified or carries no identity.\<close>

definition affinity_refused :: "'w affinity_host \<Rightarrow> affinity_record \<Rightarrow> 'w \<Rightarrow> bool" where
  "affinity_refused host r w \<longleftrightarrow>
     affinity_record_status host r w \<noteq> Inr RR_Verified \<and> affinity_record_status host r w \<noteq> Inr RR_LegacyUnverified"

definition priority_refused :: "'w affinity_host \<Rightarrow> u32 \<Rightarrow> u32 option \<times> u64 option \<times> u64 option \<Rightarrow> 'w \<Rightarrow> bool" where
  "priority_refused host tid identity w \<longleftrightarrow>
     (case identity of (pid, process_ticks, task_ticks) \<Rightarrow>
        restore_identity_status (sh_task (ah_sched host)) tid pid process_ticks task_ticks w \<noteq> Inr RR_Verified)"

text \<open>A step that leaves the world and the number of restored records alone.\<close>

definition idle :: "('r \<Rightarrow> restore_acc \<Rightarrow> 'w \<Rightarrow> restore_acc \<times> 'w) \<Rightarrow> 'w \<Rightarrow> 'r \<Rightarrow> bool" where
  "idle f w r \<longleftrightarrow>
     (\<forall>s errs. case f r (s, errs) w of ((s', _), w') \<Rightarrow> w' = w \<and> restored_total s' = restored_total s)"

lemma idle_affinity: "affinity_refused host r w \<Longrightarrow> idle (restore_affinity_record host) w r"
  unfolding affinity_refused_def idle_def restore_affinity_record_def
  by (auto simp: restore_step_defs split: sum.splits restore_record_status.splits)

lemma idle_priority:
  "priority_refused host tid identity w \<Longrightarrow>
     \<exists>s' errs'. restore_priority_identity host tid identity (s, errs) w = (False, (s', errs')) \<and> restored_total s' = restored_total s"
  unfolding priority_refused_def restore_priority_identity_def
  by (auto simp: restore_step_defs split: sum.splits restore_record_status.splits prod.splits)

lemma idle_nice:
  assumes "priority_refused host (n2_tid r) (n2_identity r) w"
  shows "idle (restore_nice_record host) w r"
  unfolding idle_def
proof (intro allI)
  fix s errs
  obtain s' errs' where "restore_priority_identity host (n2_tid r) (n2_identity r) (s, errs) w = (False, (s', errs'))"
    "restored_total s' = restored_total s"
    using idle_priority [OF assms] by blast
  then show "case restore_nice_record host r (s, errs) w of ((s', _), w') \<Rightarrow> w' = w \<and> restored_total s' = restored_total s"
    by (simp add: restore_nice_record_def)
qed

lemma idle_ionice:
  assumes "priority_refused host (i2_tid r) (i2_identity r) w"
  shows "idle (restore_ionice_record host) w r"
  unfolding idle_def
proof (intro allI)
  fix s errs
  obtain s' errs' where "restore_priority_identity host (i2_tid r) (i2_identity r) (s, errs) w = (False, (s', errs'))"
    "restored_total s' = restored_total s"
    using idle_priority [OF assms] by blast
  then show "case restore_ionice_record host r (s, errs) w of ((s', _), w') \<Rightarrow> w' = w \<and> restored_total s' = restored_total s"
    by (simp add: restore_ionice_record_def)
qed

lemma restore_each_idle:
  "list_all (idle f w) rs \<Longrightarrow>
     \<exists>s' errs'. restore_each f rs (s, errs) w = ((s', errs'), w) \<and> restored_total s' = restored_total s"
proof (induction rs arbitrary: s errs)
  case (Cons r rs)
  obtain s1 errs1 w1 where f: "f r (s, errs) w = ((s1, errs1), w1)" by (metis surj_pair)
  have "idle f w r" using Cons.prems by simp
  then have "w1 = w \<and> restored_total s1 = restored_total s"
    using f unfolding idle_def by (metis (mono_tags, lifting) case_prod_conv)
  then show ?case using Cons.IH [of s1 errs1] Cons.prems f by simp
qed simp

text \<open>
  When every affinity record names a task that is gone, unreadable or another task by now, and no nice or I/O priority record
  names a task whose process and thread start times both match, the restore leaves the system as it is and counts nothing
  as restored.
\<close>
theorem unconfirmed_records_are_not_written:
  assumes "list_all (\<lambda>r. affinity_refused host r w) (pr_affinity_records state)"
    and "list_all (\<lambda>r. priority_refused host (n2_tid r) (n2_identity r) w) (pr_nice_records state)"
    and "list_all (\<lambda>r. priority_refused host (i2_tid r) (i2_identity r) w) (pr_ionice_records state)"
  shows "case profile_restore_all host state w of ((s, _), w') \<Rightarrow> w' = w \<and> restored_total s = 0"
proof -
  have a: "list_all (idle (restore_affinity_record host) w) (pr_affinity_records state)"
    and n: "list_all (idle (restore_nice_record host) w) (pr_nice_records state)"
    and i: "list_all (idle (restore_ionice_record host) w) (pr_ionice_records state)"
    using assms by (simp_all add: list_all_iff idle_affinity idle_nice idle_ionice)
  obtain s1 errs1 where 1: "restore_each (restore_affinity_record host) (pr_affinity_records state)
      (profile_summary_zero, []) w = ((s1, errs1), w)" "restored_total s1 = restored_total profile_summary_zero"
    using restore_each_idle [OF a] by blast
  obtain s2 errs2 where 2: "restore_each (restore_nice_record host) (pr_nice_records state) (s1, errs1) w
      = ((s2, errs2), w)" "restored_total s2 = restored_total s1"
    using restore_each_idle [OF n] by blast
  obtain s3 errs3 where 3: "restore_each (restore_ionice_record host) (pr_ionice_records state) (s2, errs2) w
      = ((s3, errs3), w)" "restored_total s3 = restored_total s2"
    using restore_each_idle [OF i] by blast
  have "restored_total profile_summary_zero = 0"
    by (simp add: profile_summary_zero_def restored_total_def)
  then show ?thesis
    using 1(2) 2(2) 3(2) by (simp add: profile_restore_all_def 1(1) 2(1) 3(1))
qed

text \<open>A kernel in which thread 7 runs since tick 71, so that a record of tick 70 names an earlier task.\<close>

definition sample_stat :: string where
  "sample_stat = ''7 (game) S 1 7 7 0 -1 0 0 0 0 0 0 0 0 0 20 0 1 0 71 0''"

definition sample_affinity_host :: "(u32 set) affinity_host" where
  "sample_affinity_host =
     \<lparr>ah_sched = \<lparr>sh_task = \<lparr>th_read = (\<lambda>_ _. Inr sample_stat), th_readlink = (\<lambda>_ _. None), th_exists = (\<lambda>_ _. True),
                              th_setpriority = (\<lambda>_ _ w. (Inr (), w))\<rparr>,
                  sh_ioprio_get = (\<lambda>_ _. Inr 0), sh_ioprio_set = (\<lambda>_ _ w. (Inr (), w)),
                  sh_sched_getattr = (\<lambda>_ _. Inr (0, 0)), sh_sched_setattr = (\<lambda>_ _ _ w. (Inr (), w))\<rparr>,
      ah_getaffinity = (\<lambda>_ w. Inr w), ah_setaffinity = (\<lambda>_ cpus _. (Inr (), cpus))\<rparr>"

definition sample_nice_record :: nice_record_v2 where
  "sample_nice_record =
     \<lparr>n2_tid = 7, n2_process_pid = None, n2_process_starttime_ticks = None, n2_task_starttime_ticks = None, n2_comm = None,
      n2_original_nice = 0, n2_applied_nice = 5\<rparr>"

lemma sample_starttime: "parse_proc_stat_starttime sample_stat = Some 71"
  by code_simp

lemma sample_status:
  "restore_identity_status (sh_task (ah_sched sample_affinity_host)) tid (Some pid) (Some p) (Some t) w =
     (if p = 71 \<and> t = 71 then Inr RR_Verified else Inr RR_IdentityMismatch)"
  by (simp add: restore_identity_status_def sample_affinity_host_def stat_starttime_at_def sample_starttime Let_def)

theorem unconfirmed_records_are_not_written_witness:
  "case profile_restore_all sample_affinity_host
          ((sample_profile_state [sample_record \<lparr>cm_words = [3]\<rparr> \<lparr>cm_words = [1]\<rparr>])\<lparr>pr_nice_records := [sample_nice_record]\<rparr>) {0, 1} of
     ((s, _), w') \<Rightarrow> w' = {0, 1} \<and> restored_total s = 0"
  by (rule unconfirmed_records_are_not_written;
      simp add: sample_profile_state_def affinity_refused_def sample_record_def sample_status priority_refused_def
        n2_identity_def sample_nice_record_def; simp add: restore_identity_status_def)

section \<open>Every write of a restore\<close>

text \<open>
  The task of a record is confirmed: its process and its thread run, with the start times that were recorded for both.
  A legacy record has no identity at all.
\<close>

type_synonym recorded_identity = "u32 option \<times> u64 option \<times> u64 option"

definition identity_confirmed :: "'w affinity_host \<Rightarrow> u32 \<Rightarrow> recorded_identity \<Rightarrow> 'w \<Rightarrow> bool" where
  "identity_confirmed host tid identity w \<longleftrightarrow>
     (case identity of
        (Some pid, Some process_ticks, Some task_ticks) \<Rightarrow>
          stat_starttime_at (sh_task (ah_sched host)) (proc_file pid ''stat'') w = Inr (Some process_ticks)
          \<and> stat_starttime_at (sh_task (ah_sched host)) (task_stat_path pid tid) w = Inr (Some task_ticks)
      | _ \<Rightarrow> False)"

definition ar_identity :: "affinity_record \<Rightarrow> recorded_identity" where
  "ar_identity r = (ar_process_pid r, ar_process_starttime_ticks r, ar_task_starttime_ticks r)"

lemma status_verified_iff:
  "restore_identity_status (sh_task (ah_sched host)) tid pid process_ticks task_ticks w = Inr RR_Verified \<longleftrightarrow>
     identity_confirmed host tid (pid, process_ticks, task_ticks) w"
  "restore_identity_status (sh_task (ah_sched host)) tid pid process_ticks task_ticks w = Inr RR_LegacyUnverified \<longleftrightarrow>
     (pid, process_ticks, task_ticks) = (None, None, None)"
  by (auto simp: restore_identity_status_def identity_confirmed_def Let_def split: option.splits sum.splits if_splits)

text \<open>
  A property of the system that the writes a restore may make do not break: the original mask of an affinity record to a
  confirmed task or, for a legacy record, to whatever task has the number; the original nice value or I/O priority of a
  record to a confirmed task.
\<close>

definition restore_writes_keep :: "'w affinity_host \<Rightarrow> profile_restore_state \<Rightarrow> ('w \<Rightarrow> bool) \<Rightarrow> bool" where
  "restore_writes_keep host state P \<longleftrightarrow>
     (\<forall>r \<in> set (pr_affinity_records state). \<forall>w.
        P w \<and> (identity_confirmed host (ar_tid r) (ar_identity r) w \<or> ar_identity r = (None, None, None))
        \<longrightarrow> P (snd (set_affinity host (ar_tid r) (ar_original_mask r) w)))
     \<and> (\<forall>r \<in> set (pr_nice_records state). \<forall>w.
        P w \<and> identity_confirmed host (n2_tid r) (n2_identity r) w
        \<longrightarrow> P (snd (set_task_nice (sh_task (ah_sched host)) (n2_tid r) (n2_original_nice r) w)))
     \<and> (\<forall>r \<in> set (pr_ionice_records state). \<forall>w.
        P w \<and> identity_confirmed host (i2_tid r) (i2_identity r) w
        \<longrightarrow> P (snd (set_task_ioprio (ah_sched host) (i2_tid r) (i2_original_ioprio r) w)))"

lemma restore_each_keeps:
  assumes "\<And>r acc w. r \<in> set rs \<Longrightarrow> P w \<Longrightarrow> P (snd (f r acc w))" "P w"
  shows "P (snd (restore_each f rs acc w))"
  using assms
proof (induction rs arbitrary: acc w)
  case (Cons r rs)
  then have "P (snd (f r acc w))" by simp
  then show ?case
    using Cons.IH [of "snd (f r acc w)" "fst (f r acc w)"] Cons.prems(1) by (simp add: case_prod_beta)
qed simp

lemma acc_write_world: "snd (acc_write ok what r acc) = snd r"
  by (auto simp: acc_write_def split: prod.split sum.split)

lemma map_io_err_world: "snd (map_io_err r) = snd r"
  by (auto simp: map_io_err_def split: prod.split sum.split)

lemma affinity_step_keeps:
  assumes "restore_writes_keep host state P" "r \<in> set (pr_affinity_records state)" "P w"
  shows "P (snd (restore_affinity_record host r acc w))"
proof (cases "affinity_record_status host r w \<in> {Inr RR_Verified, Inr RR_LegacyUnverified}")
  case True
  then have "P (snd (set_affinity host (ar_tid r) (ar_original_mask r) w))"
    using assms by (auto simp: restore_writes_keep_def status_verified_iff ar_identity_def)
  then show ?thesis
    using True by (auto simp: restore_affinity_record_def acc_write_world)
next
  case False
  then show ?thesis
    using assms(3) by (auto simp: restore_affinity_record_def split: sum.splits restore_record_status.splits)
qed

lemma priority_identity_iff:
  "fst (restore_priority_identity host tid identity acc w) \<longleftrightarrow> identity_confirmed host tid identity w"
  using status_verified_iff(1) [of host tid "fst identity" "fst (snd identity)" "snd (snd identity)" w]
  by (auto simp: restore_priority_identity_def split: prod.split sum.splits restore_record_status.splits)

lemma nice_step_keeps:
  assumes "restore_writes_keep host state P" "r \<in> set (pr_nice_records state)" "P w"
  shows "P (snd (restore_nice_record host r acc w))"
  using assms priority_identity_iff [of host "n2_tid r" "n2_identity r" acc w]
  by (auto simp: restore_nice_record_def restore_writes_keep_def acc_write_world map_io_err_world
      split: prod.split bool.split)

lemma ionice_step_keeps:
  assumes "restore_writes_keep host state P" "r \<in> set (pr_ionice_records state)" "P w"
  shows "P (snd (restore_ionice_record host r acc w))"
  using assms priority_identity_iff [of host "i2_tid r" "i2_identity r" acc w]
  by (auto simp: restore_ionice_record_def restore_writes_keep_def acc_write_world map_io_err_world
      split: prod.split bool.split)

text \<open>
  C19. A restore writes only original values, and only to confirmed tasks, with one exception. Whatever survives the writes
  of \<open>restore_writes_keep\<close> survives the restore: the original mask of a record is set for its thread only while process and
  thread run with the recorded start times, or when the record carries no identity (a legacy record, which is written to
  whatever thread has its number); original nice values and I/O priorities are set only for confirmed tasks.
\<close>
theorem restore_writes_confined:
  assumes "restore_writes_keep host state P" "P w"
  shows "P (snd (profile_restore_all host state w))"
proof -
  let ?a = "restore_each (restore_affinity_record host) (pr_affinity_records state) (profile_summary_zero, []) w"
  let ?n = "restore_each (restore_nice_record host) (pr_nice_records state) (fst ?a) (snd ?a)"
  have "P (snd ?a)"
    using affinity_step_keeps [OF assms(1)] assms(2) by (rule restore_each_keeps [where P = P])
  with nice_step_keeps [OF assms(1)] have "P (snd ?n)"
    by (rule restore_each_keeps [where P = P])
  with ionice_step_keeps [OF assms(1)] have
    "P (snd (restore_each (restore_ionice_record host) (pr_ionice_records state) (fst ?n) (snd ?n)))"
    by (rule restore_each_keeps [where P = P])
  then show ?thesis
    by (simp add: profile_restore_all_def case_prod_beta)
qed

text \<open>A kernel with a set of CPUs per thread: thread 7 is the recorded one, thread 8 is not.\<close>

definition threads_host :: "(u32 \<Rightarrow> u32 set) affinity_host" where
  "threads_host =
     \<lparr>ah_sched = \<lparr>sh_task = \<lparr>th_read = (\<lambda>_ _. Inr sample_stat), th_readlink = (\<lambda>_ _. None), th_exists = (\<lambda>_ _. True),
                              th_setpriority = (\<lambda>_ _ w. (Inr (), w))\<rparr>,
                  sh_ioprio_get = (\<lambda>_ _. Inr 0), sh_ioprio_set = (\<lambda>_ _ w. (Inr (), w)),
                  sh_sched_getattr = (\<lambda>_ _. Inr (0, 0)), sh_sched_setattr = (\<lambda>_ _ _ w. (Inr (), w))\<rparr>,
      ah_getaffinity = (\<lambda>tid w. Inr (w tid)), ah_setaffinity = (\<lambda>tid cpus w. (Inr (), w(tid := cpus)))\<rparr>"

definition thread_record :: "u32 \<Rightarrow> u64 \<Rightarrow> affinity_record" where
  "thread_record tid start =
     \<lparr>ar_tid = tid, ar_process_pid = Some 7, ar_process_starttime_ticks = Some 71, ar_task_starttime_ticks = Some start,
      ar_original_mask = \<lparr>cm_words = [3]\<rparr>, ar_applied_mask = \<lparr>cm_words = [1]\<rparr>\<rparr>"

definition threads_state :: profile_restore_state where
  "threads_state =
     \<lparr>pr_schema_version = 1, pr_affinity_records = [thread_record 7 71, thread_record 8 70], pr_nice_records = [],
      pr_ionice_records = []\<rparr>"

theorem restore_writes_confined_witness:
  "snd (profile_restore_all threads_host threads_state (\<lambda>_. {5})) 8 = {5}
   \<and> snd (profile_restore_all threads_host threads_state (\<lambda>_. {5})) 7 = mask_to_cpu_set \<lparr>cm_words = [3]\<rparr>"
proof
  have "restore_writes_keep threads_host threads_state (\<lambda>w. w 8 = {5})"
    by (auto simp: restore_writes_keep_def threads_state_def thread_record_def identity_confirmed_def ar_identity_def
        threads_host_def stat_starttime_at_def sample_starttime set_affinity_def)
  then show "snd (profile_restore_all threads_host threads_state (\<lambda>_. {5})) 8 = {5}"
    by (rule restore_writes_confined) simp
  have "affinity_record_status threads_host (thread_record 7 71) w = Inr RR_Verified"
    "affinity_record_status threads_host (thread_record 8 70) w = Inr RR_IdentityMismatch" for w
    by (simp_all add: restore_identity_status_def thread_record_def threads_host_def stat_starttime_at_def sample_starttime
        Let_def)
  then show "snd (profile_restore_all threads_host threads_state (\<lambda>_. {5})) 7 = mask_to_cpu_set \<lparr>cm_words = [3]\<rparr>"
    by (simp add: profile_restore_all_def threads_state_def restore_affinity_record_def acc_write_def acc_mismatch_def
        set_affinity_def case_prod_beta)
      (simp add: threads_host_def thread_record_def)
qed

section \<open>Rollback from a restore file\<close>

definition state_keys :: "profile_restore_state \<Rightarrow> merge_key list" where
  "state_keys state = map affinity_key (pr_affinity_records state) @ map nice_key (pr_nice_records state)
     @ map ionice_key (pr_ionice_records state)"

lemma validate_loop_refuses: "\<not> list_all complete_identity ks \<Longrightarrow> \<exists>e. validate_loop ks tasks = Inl e"
  by (induction ks arbitrary: tasks) auto

lemma validate_loop_tasks: "validate_loop ks tasks = Inr ts \<Longrightarrow> ts = tasks \<union> fst ` set ks"
  by (induction ks arbitrary: tasks) (auto split: if_splits)

lemma validate_refuses:
  assumes "\<not> list_all complete_identity ks \<or> card (fst ` set ks) < expected"
  shows "\<exists>e. validate_identities ks expected = Inl e"
proof (cases "validate_loop ks {}")
  case (Inl e)
  then show ?thesis by (simp add: validate_identities_def)
next
  case (Inr ts)
  then have "ts = fst ` set ks" using validate_loop_tasks [OF Inr] by simp
  moreover have "list_all complete_identity ks" using validate_loop_refuses [of ks "{}"] Inr by auto
  ultimately show ?thesis using assms Inr by (simp add: validate_identities_def)
qed

text \<open>A restore file whose text stands for a given state, and a kernel that refuses every mask.\<close>

definition sample_files :: "'w restore_files" where
  "sample_files =
     \<lparr>rf_read = (\<lambda>_ _. Inr []), rf_exists = (\<lambda>_ _. True), rf_remove = (\<lambda>_ w. (Inr (), w)),
      rf_create_dir_all = (\<lambda>_ w. (Inr (), w)), rf_create_new = (\<lambda>_ w. (Inr (), w)), rf_write = (\<lambda>_ _ w. (Inr (), w)),
      rf_sync = (\<lambda>_ w. (Inr (), w)), rf_rename = (\<lambda>_ _ w. (Inr (), w)), rf_sync_dir = (\<lambda>_ w. (Inr (), w)),
      rf_tmp_suffix = (\<lambda>_. ''.tmp'')\<rparr>"

definition sample_json :: "profile_restore_state \<Rightarrow> profile_restore_state restore_json" where
  "sample_json state =
     \<lparr>rj_parse = (\<lambda>_. Inr state), rj_has = (\<lambda>_ name. name = ''affinity_records''), rj_profile = Inr,
      rj_affinity = (\<lambda>_. Inl (anyhow_msg ''missing field'')), rj_print = (\<lambda>_. [])\<rparr>"

definition refusing_host :: "(u32 set) affinity_host" where
  "refusing_host = sample_affinity_host\<lparr>ah_setaffinity :=
     (\<lambda>_ _ w. (Inl \<lparr>io_raw_os_error = Some 22, io_kind = Io_Other, io_display = ''invalid argument''\<rparr>, w))\<rparr>"

definition verified_state :: profile_restore_state where
  "verified_state = sample_profile_state
     [(sample_record \<lparr>cm_words = [3]\<rparr> \<lparr>cm_words = [1]\<rparr>)\<lparr>ar_process_starttime_ticks := Some 71, ar_task_starttime_ticks := Some 71\<rparr>]"

lemma load_sample:
  "pr_schema_version state = PROFILE_RESTORE_SCHEMA_VERSION \<Longrightarrow> load_profile_state sample_files (sample_json state) path w = Inr state"
  by (simp add: load_profile_state_def sample_files_def sample_json_def)

text \<open>
  Automatic recovery refuses a profile restore file as a whole, before any write, when one of its records lacks a task
  identity or when it names fewer tasks than the action had affected.
\<close>
theorem recovery_refuses_incomplete_file:
  assumes "load_profile_state files json path w = Inr state"
    and "\<not> list_all complete_identity (state_keys state) \<or> card (fst ` set (state_keys state)) < expected"
  shows "\<exists>e. affinity_handler_restore_token True host files json (CpuAffinityRestoreFile path expected) w = (Inl e, w)"
proof -
  obtain e where "validate_profile expected state = Inl e"
    using validate_refuses [OF assms(2)] by (auto simp: validate_profile_def state_keys_def)
  then show ?thesis
    using assms(1) by (simp add: affinity_handler_restore_token_def profile_restore_saved_with_def)
qed

theorem recovery_refuses_incomplete_file_witness:
  "\<exists>e. affinity_handler_restore_token True sample_affinity_host sample_files
         (sample_json ((sample_profile_state [])\<lparr>pr_nice_records := [sample_nice_record]\<rparr>))
         (CpuAffinityRestoreFile ''/run/restore.json'' 0) {0} = (Inl e, {0})"
  by (rule recovery_refuses_incomplete_file, rule load_sample;
      simp add: sample_profile_state_def state_keys_def nice_key_def sample_nice_record_def complete_identity_def)

text \<open>
  The rollback of the action hides why it failed. When a readable profile restore file could not be restored in full,
  the second attempt reads the same file as the affinity format, and the caller sees a complaint about the format instead
  of the failed records.
\<close>
theorem rollback_hides_the_failure:
  assumes "rf_read files path w = Inr data" "rj_parse json data = Inr v" "rj_has json v ''affinity_records''"
    and "load_profile_state files json path w = Inr state"
    and "profile_restore_all host state w = ((s, errs), w')" "errs \<noteq> []" "rf_read files path w' = Inr data"
  shows "affinity_rollback host files json (CpuAffinityRestoreFile path expected) w
    = (Inl (anyhow_msg ''profile restore format is not an affinity restore file''), w')"
proof -
  have "affinity_restore_saved host files json path w'
      = (Inl (anyhow_msg ''profile restore format is not an affinity restore file''), w')"
    using assms(2,3,7)
    by (simp add: affinity_restore_saved_def affinity_restore_saved_with_def load_affinity_state_def)
  moreover obtain e where "profile_restore_saved host files json path w = (Inl e, w')"
    using assms(4,5,6) by (simp add: profile_restore_saved_def profile_restore_saved_with_def)
  ultimately show ?thesis by (simp add: affinity_rollback_def)
qed

lemma refused_restore:
  "\<exists>s. profile_restore_all refusing_host verified_state w =
     ((s, [anyhow_msg ''failed to restore affinity for TID 7: invalid argument'']), w)"
proof -
  have "affinity_record_status refusing_host
      ((sample_record m m')\<lparr>ar_process_starttime_ticks := Some 71, ar_task_starttime_ticks := Some 71\<rparr>) w = Inr RR_Verified"
    for m m'
    using sample_status [of 7 7 71 71 w] by (simp add: refusing_host_def sample_record_def)
  moreover have "show_nat 7 = ''7''" by code_simp
  ultimately show ?thesis
    by (simp add: profile_restore_all_def verified_state_def sample_profile_state_def restore_affinity_record_def
        acc_write_def set_affinity_def refusing_host_def is_esrch_def ESRCH_def acc_error_def profile_summary_zero_def
        sample_record_def)
qed

theorem rollback_hides_the_failure_witness:
  "affinity_rollback refusing_host sample_files (sample_json verified_state) (CpuAffinityRestoreFile ''/run/restore.json'' 1) {0}
    = (Inl (anyhow_msg ''profile restore format is not an affinity restore file''), {0})"
proof -
  obtain s where s: "profile_restore_all refusing_host verified_state {0} =
     ((s, [anyhow_msg ''failed to restore affinity for TID 7: invalid argument'']), {0})"
    using refused_restore by blast
  have load: "load_profile_state sample_files (sample_json verified_state) ''/run/restore.json'' {0} = Inr verified_state"
    by (rule load_sample) (simp add: verified_state_def sample_profile_state_def)
  show ?thesis
    by (rule rollback_hides_the_failure [where data = "[]" and v = verified_state, OF _ _ _ load s])
      (simp_all add: sample_files_def sample_json_def)
qed

end
