(* ===== verification/Profile_Apply_Facts.thy ===== *)
theory Profile_Apply_Facts
  imports Profile_Facts Target_Snapshot_Facts Affinity_Facts
begin

text \<open>
  What applying a profile promises: the plan names only tasks of the requested process tree, a commit that reports no mutation
  made none, a rejected journal record sets no mask, and what a commit set the restore file sets back. And where the code
  leaves its intent: a change of a nice value or an I/O priority always fails, and a thread that exits stops the profile.
\<close>

section \<open>Masks and sets of CPUs\<close>

lemma contains_fold_if:
  "contains_cpu (fold (\<lambda>cpu m. if cpu \<in> cs then mask_set cpu m else m) xs m) cpu \<longleftrightarrow> cpu \<in> set xs \<inter> cs \<or> contains_cpu m cpu"
  by (induction xs arbitrary: m) (auto simp: contains_set)

lemma all_cpus: "set (map of_nat [0..<unat cpu_set_size]) = {cpu. cpu < cpu_set_size}"
proof (rule set_eqI)
  fix cpu :: u32
  have "(of_nat n :: u32) < cpu_set_size" if "n < unat cpu_set_size" for n
    using that unsigned_less [of cpu_set_size, where ?'a = nat] by (simp add: word_less_nat_alt unat_of_nat_eq)
  moreover have "cpu = of_nat (unat cpu)" by simp
  ultimately show "cpu \<in> set (map of_nat [0..<unat cpu_set_size]) \<longleftrightarrow> cpu \<in> {cpu. cpu < cpu_set_size}"
    by (auto simp: word_less_nat_alt image_iff intro: bexI [of _ "unat cpu"])
qed

lemma mask_from_set_wf: "mask_wf (mask_from_cpu_set cs)"
  unfolding mask_from_cpu_set_def
proof (rule fold_preserves [where P = mask_wf])
  fix cpu :: u32 and m assume "cpu \<in> set (map of_nat [0..<unat cpu_set_size])" "mask_wf m"
  then show "mask_wf (if cpu \<in> cs then mask_set cpu m else m)" using all_cpus by (auto intro: mask_set_wf)
qed simp

lemma mask_from_to_set: "mask_wf m \<Longrightarrow> mask_from_cpu_set (mask_to_cpu_set m) = m"
proof (rule mask_eqI [OF mask_from_set_wf])
  fix cpu
  assume wf: "mask_wf m"
  have "fold insert (mask_cpus m) {} = set (mask_cpus m)" using union_set_fold [of "mask_cpus m" "{}"] by simp
  then have "mask_to_cpu_set m = {cpu. contains_cpu m cpu \<and> cpu < cpu_set_size}"
    using in_mask_cpus by (auto simp: mask_to_cpu_set_def)
  then show "contains_cpu (mask_from_cpu_set (mask_to_cpu_set m)) cpu \<longleftrightarrow> contains_cpu m cpu"
    using contains_in_range [OF wf] cpu_mask.mem_emp
    unfolding mask_from_cpu_set_def contains_fold_if all_cpus by auto
qed

section \<open>Priority changes\<close>

lemma medium_run_fails:
  assumes "SC_ReversibleLowRisk < ad_safety_class (ta_descriptor a)"
  shows "\<exists>e w'. run_profile_action env command a w = (Inl e, w')"
proof -
  let ?rp = "run_policy_for_action (ad_safety_class (ta_descriptor a)) False Src_ApplyProfileWatch"
  obtain r w' where run: "run_audited_action (pv_runner env) command a ?rp hooks_none w = (r, w')" by (rule prod.exhaust)
  have "\<not> policy_allows_apply ?rp a" "\<not> rp_dry_run ?rp"
    using medium_risk_policy [OF assms] medium_risk_disallows by (simp_all add: run_policy_for_mode_def)
  then have "\<not> (\<exists>res. r = Inr res)"
    using run_meets_spec [of ?rp a "pv_runner env" command hooks_none w] run by (auto elim: run_spec_OkE)
  then show ?thesis using run by (cases r) (auto simp: run_profile_action_def)
qed

lemma run_groups_fails:
  assumes "\<And>g w. \<exists>e w'. run g w = (Inl e, w')" "gs \<noteq> []"
  shows "\<exists>e w'. run_groups run what gs w = (Inl e, w')"
proof -
  obtain g gs' where gs: "gs = g # gs'" using assms(2) by (cases gs) auto
  obtain e w' where "run g w = (Inl e, w')" using assms(1) by blast
  then show ?thesis by (simp add: gs)
qed

lemma priority_plan_fails:
  assumes "pp_nice_groups plan \<noteq> [] \<or> pp_ionice_groups plan \<noteq> []"
  shows "\<exists>e w'. apply_profile_plan env plan w = (Inl e, w')"
proof -
  have nice: "\<exists>e w'. run_profile_action env c (nice_tuning_action h a) w = (Inl e, w')" for c h a w
    by (rule medium_run_fails) (simp add: nice_tuning_action_def default_descriptor_def safety_order)
  have ionice: "\<exists>e w'. run_profile_action env c (ioprio_tuning_action h a) w = (Inl e, w')" for c h a w
    by (rule medium_run_fails) (simp add: ioprio_tuning_action_def default_descriptor_def safety_order)
  obtain r1 w1 where 1: "apply_affinity_changes (pv_host env) (pp_affinity_changes plan) [] w = (r1, w1)" by (rule prod.exhaust)
  let ?n = "\<lambda>g. run_profile_action env ''apply-profile nice''
      (nice_tuning_action (sh_task (ah_sched (pv_host env))) (nice_group_action g))"
  let ?i = "\<lambda>g. run_profile_action env ''apply-profile ionice''
      (ioprio_tuning_action (ah_sched (pv_host env)) (ionice_group_action g))"
  show ?thesis
  proof (cases r1)
    case (Inr records)
    show ?thesis
    proof (cases "pp_nice_groups plan = []")
      case True
      have "\<exists>e w'. run_groups ?i (\<lambda>g. ''failed to apply profile I/O priority='' @ ioprio_value_label (ionice_group_value g))
          (pp_ionice_groups plan) w1 = (Inl e, w')"
        by (rule run_groups_fails, rule ionice) (use assms True in simp)
      then show ?thesis using 1 Inr True by (auto simp: apply_profile_plan_def)
    next
      case False
      have "\<exists>e w'. run_groups ?n (\<lambda>g. ''failed to apply profile nice='' @ show_int (fst g)) (pp_nice_groups plan) w1
          = (Inl e, w')"
        by (rule run_groups_fails, rule nice) (rule False)
      then show ?thesis using 1 Inr by (auto simp: apply_profile_plan_def)
    qed
  qed (use 1 in \<open>simp add: apply_profile_plan_def\<close>)
qed

text \<open>
  C40. A profile never changes a nice value or an I/O priority. Whenever the plan of a profile asks for such a change, the
  application fails, whatever the kernel answers: the runner that applies the priority groups builds the medium-risk run policy,
  which forbids every apply. By then the affinities have been set, and the emergency restore has to set them back.
\<close>
theorem priority_changes_always_fail:
  assumes "planned_profile_apply (pv_host env) (env_tree env tree_pid w) p cache w = Inr (plan, cache')"
    and "pp_nice_groups plan \<noteq> [] \<or> pp_ionice_groups plan \<noteq> []"
  shows "\<exists>e w'. apply_managed_profile_to_tree_with_cache env json tree_pid p force False cache restore_to w = ((Inl e, cache'), w')"
proof -
  have "\<not> plan_is_empty plan" using assms(2) by (auto simp: plan_is_empty_def)
  moreover have "\<exists>e w'. apply_profile_plan env plan w1 = (Inl e, w')" for w1 by (rule priority_plan_fails [OF assms(2)])
  ultimately show ?thesis
    using assms(1)
    by (auto simp: apply_managed_profile_to_tree_with_cache_def Let_def split: sum.split prod.split)
       (metis Inl_Inr_False prod.inject)
qed

section \<open>A failure without a token changed no mask\<close>

lemma commit_changes_frame:
  "commit_changes env rs started done_records w = (Inl f, w') \<Longrightarrow>
     (started \<longrightarrow> cf_mutation_started f) \<and> (cf_mutation_started f \<or> w' = w)"
  by (induction env rs started done_records w rule: commit_changes.induct)
    (auto split: sum.splits prod.splits bool.splits if_splits)

lemma prepared_commit_frame:
  "prepared_commit env prepared w = (Inl f, w') \<Longrightarrow> \<not> cf_mutation_started f \<Longrightarrow> w' = w"
  using commit_changes_frame
  by (fastforce simp: prepared_commit_def split: sum.splits prod.splits)

text \<open>File operations leave what is observed of the scheduler alone.\<close>

definition files_keep :: "'w restore_files \<Rightarrow> ('w \<Rightarrow> 'o) \<Rightarrow> bool" where
  "files_keep files obs \<longleftrightarrow>
     (\<forall>p q w. obs (snd (rf_remove files p w)) = obs w \<and> obs (snd (rf_create_dir_all files p w)) = obs w
        \<and> obs (snd (rf_create_new files p w)) = obs w \<and> obs (snd (rf_write files p q w)) = obs w
        \<and> obs (snd (rf_sync files p w)) = obs w \<and> obs (snd (rf_rename files p q w)) = obs w
        \<and> obs (snd (rf_sync_dir files p w)) = obs w)"

definition keeps :: "('w \<Rightarrow> 'o) \<Rightarrow> 'w \<Rightarrow> 'a \<times> 'w \<Rightarrow> bool" where
  "keeps obs w r \<longleftrightarrow> obs (snd r) = obs w"

lemma io_then_keeps: "keeps obs w r \<Longrightarrow> (\<And>w'. obs w' = obs w \<Longrightarrow> keeps obs w (f w')) \<Longrightarrow> keeps obs w (io_then r f)"
  by (cases r) (auto simp: keeps_def io_then_def split: sum.splits)

lemma file_ops_keep:
  assumes "files_keep files obs" "obs w' = obs w"
  shows "keeps obs w (rf_remove files p w')" "keeps obs w (rf_create_dir_all files p w')"
    "keeps obs w (rf_create_new files p w')" "keeps obs w (rf_write files p q w')" "keeps obs w (rf_sync files p w')"
    "keeps obs w (rf_rename files p q w')" "keeps obs w (rf_sync_dir files p w')" "keeps obs w (r, w')"
  using assms by (simp_all add: files_keep_def keeps_def)

lemma write_and_rename_keeps:
  assumes "files_keep files obs" "obs w' = obs w"
  shows "keeps obs w (write_and_rename files tmp path parent content w')"
  unfolding write_and_rename_def by (intro io_then_keeps file_ops_keep [OF assms(1)] assms(2))

lemma save_restore_state_keeps:
  assumes files: "files_keep files obs"
  shows "keeps obs w (save_restore_state files json path state w)"
  unfolding save_restore_state_def
proof (rule io_then_keeps)
  show "keeps obs w (case path_parent path of Some parent \<Rightarrow> rf_create_dir_all files parent w | None \<Rightarrow> (Inr (), w))"
    by (cases "path_parent path") (simp_all add: file_ops_keep [OF files])
next
  fix w1 assume w1: "obs w1 = obs w"
  let ?parent = "case path_parent path of Some p \<Rightarrow> if p = [] then ''.'' else p | None \<Rightarrow> ''.''"
  let ?state = "state\<lparr>pr_schema_version := PROFILE_RESTORE_SCHEMA_VERSION\<rparr>"
  have tail: "keeps obs w (case write_and_rename files tmp path parent content w2 of
      (Inr _, w) \<Rightarrow> (Inr (), w) | (Inl e, w) \<Rightarrow> (Inl e, snd (rf_remove files tmp w)))"
    if w2: "obs w2 = obs w" for tmp parent content w2
  proof -
    obtain r w3 where r: "write_and_rename files tmp path parent content w2 = (r, w3)" by (rule prod.exhaust)
    have "obs w3 = obs w" using write_and_rename_keeps [OF files w2, of tmp path parent content] by (simp add: keeps_def r)
    then show ?thesis using file_ops_keep(1) [OF files, of w3 w tmp] by (cases r) (simp_all add: r keeps_def)
  qed
  show "keeps obs w (let state = ?state; parent = ?parent
      in case path_file_name path of
           None \<Rightarrow> (Inl (anyhow_msg ''restore path requires a file name''), w1)
         | Some name \<Rightarrow>
             let tmp = path_join parent (name @ rf_tmp_suffix files w1)
             in io_then (rf_create_new files tmp w1) (\<lambda>w.
                  case write_and_rename files tmp path parent (rj_print json state @ [CHR 0x0A]) w of
                    (Inr _, w) \<Rightarrow> (Inr (), w)
                  | (Inl e, w) \<Rightarrow> (Inl e, snd (rf_remove files tmp w))))"
  proof (cases "path_file_name path")
    case None
    then show ?thesis using w1 by (simp add: keeps_def)
  next
    case (Some name)
    show ?thesis
      unfolding Let_def Some option.case by (intro io_then_keeps file_ops_keep [OF files] w1 tail)
  qed
qed

lemma save_merged_keeps:
  "files_keep files obs \<Longrightarrow> keeps obs w (save_merged_restore_state files json path ra rn ri force w)"
  unfolding save_merged_restore_state_def Let_def
  by (auto simp: save_restore_state_keeps keeps_def split: sum.split) (simp_all add: save_restore_state_keeps [unfolded keeps_def])

lemma prepare_keeps:
  assumes "files_keep (pv_files env) obs"
  shows "keeps obs w (prepare_affinity_profile env json tree_pid p path force w)"
proof -
  have save: "obs (snd (save_merged_restore_state (pv_files env) json path ra [] [] force w)) = obs w" for ra
    using save_merged_keeps [OF assms] by (simp add: keeps_def)
  show ?thesis
    unfolding prepare_affinity_profile_def keeps_def
    by (auto split: sum.split prod.split) (metis save snd_conv)+
qed

text \<open>
  C13. A failed application without a rollback token has changed no affinity. For an affinity-only profile, whenever the prepared
  application returns an error and no token, everything about the scheduler that the restore file and the journal leave alone is as
  it was before: a rejected journal record and a failed revalidation come before the first write.
\<close>
theorem failure_without_token_sets_no_mask:
  assumes "\<not> profile_uses_priority_actions (ca_profile a)" "files_keep (pv_files env) obs"
    and "\<And>token w. obs (snd (before_mutation token w)) = obs w"
    and "profile_apply_prepared env json a before_mutation w = (Inl e, w')" "pa_rollback e = None"
  shows "obs w' = obs w"
proof -
  obtain rp w1 where prep: "prepare_affinity_profile env json (ca_tree_pid a) (ca_profile a) (action_restore_path env a)
      (ca_force_restore_overwrite a) w = (rp, w1)" by (rule prod.exhaust)
  have w1: "obs w1 = obs w"
    using prepare_keeps [OF assms(2), of w json "ca_tree_pid a" "ca_profile a" "action_restore_path env a"
        "ca_force_restore_overwrite a"] by (simp add: keeps_def prep)
  show ?thesis
  proof (cases "profile_preflight env a w")
    case (Inl err)
    then show ?thesis using assms(1,4) by (simp add: profile_apply_prepared_def)
  next
    case ok: (Inr ws)
    show ?thesis
    proof (cases rp)
      case (Inl err)
      then show ?thesis using assms(1,4) ok prep w1 by (simp add: profile_apply_prepared_def)
    next
      case (Inr prepared)
      let ?token = "CpuAffinityRestoreFile (pf_restore_path prepared) (pa_pending_changes (pp_summary (pf_plan prepared)))"
      obtain rb w2 where before: "before_mutation ?token w1 = (rb, w2)" by (rule prod.exhaust)
      have w2: "obs w2 = obs w" using assms(3) [of ?token w1] before w1 by simp
      obtain rc w3 where commit: "prepared_commit env prepared w2 = (rc, w3)" by (rule prod.exhaust)
      show ?thesis
        using assms(1,4,5) ok prep Inr before w2 commit prepared_commit_frame [of env prepared w2 _ w3]
        by (cases rb; cases rc) (auto simp: profile_apply_prepared_def Let_def split: if_splits)
    qed
  qed
qed

section \<open>Commit and restore\<close>

text \<open>
  A kernel that keeps one mask per thread: a read returns it, a write of a well-formed mask replaces it, and a write changes
  neither the procfs nor any other thread.
\<close>

definition mask_kernel :: "'w profile_env \<Rightarrow> ('w \<Rightarrow> u32 \<Rightarrow> cpu_mask) \<Rightarrow> bool" where
  "mask_kernel env aff \<longleftrightarrow>
     (\<forall>tid w. read_allowed_mask (pv_host env) tid w = Inr (aff w tid))
     \<and> (\<forall>tid m w. mask_wf m \<longrightarrow> (\<exists>w'. set_affinity (pv_host env) tid m w = (Inr (), w') \<and> aff w' = (aff w)(tid := m)
          \<and> pv_fs env w' = pv_fs env w
          \<and> (\<forall>path. th_read (sh_task (ah_sched (pv_host env))) path w' = th_read (sh_task (ah_sched (pv_host env))) path w)))"

definition same_procfs :: "'w profile_env \<Rightarrow> 'w \<Rightarrow> 'w \<Rightarrow> bool" where
  "same_procfs env w w' \<longleftrightarrow>
     pv_fs env w' = pv_fs env w
     \<and> (\<forall>path. th_read (sh_task (ah_sched (pv_host env))) path w' = th_read (sh_task (ah_sched (pv_host env))) path w)"

lemma same_procfs_trans: "same_procfs env w w1 \<Longrightarrow> same_procfs env w1 w2 \<Longrightarrow> same_procfs env w w2"
  by (simp add: same_procfs_def)

lemma kernel_set:
  assumes "mask_kernel env aff" "mask_wf m"
  obtains w' where "set_affinity (pv_host env) tid m w = (Inr (), w')" "aff w' = (aff w)(tid := m)" "same_procfs env w w'"
  using assms unfolding mask_kernel_def same_procfs_def by blast

lemma validate_record_stable:
  assumes "mask_kernel env aff" "same_procfs env w w'" "aff w' (ar_tid r) = aff w (ar_tid r)"
  shows "validate_record env r w' = validate_record env r w"
proof -
  have "pv_fs env w' = pv_fs env w"
    "read_allowed_mask (pv_host env) (ar_tid r) w' = read_allowed_mask (pv_host env) (ar_tid r) w"
    using assms by (simp_all add: mask_kernel_def same_procfs_def)
  note eqs = this
  show ?thesis unfolding validate_record_def eqs by (rule refl)
qed

lemma record_status_stable:
  assumes "same_procfs env w w'"
  shows "affinity_record_status (pv_host env) r w' = affinity_record_status (pv_host env) r w"
proof -
  have "stat_starttime_at (sh_task (ah_sched (pv_host env))) path w' = stat_starttime_at (sh_task (ah_sched (pv_host env))) path w" for path
    using assms by (simp add: same_procfs_def stat_starttime_at_def)
  note eqs = this
  show ?thesis unfolding restore_identity_status_def eqs by (rule refl)
qed

lemma validated_original:
  "mask_kernel env aff \<Longrightarrow> validate_record env r w = Inr True \<Longrightarrow> aff w (ar_tid r) = ar_original_mask r"
  by (auto simp: validate_record_def mask_kernel_def split: option.splits if_splits)

text \<open>Overriding the masks of the threads of some records with one of the two masks of the records.\<close>

definition masks_of :: "(affinity_record \<Rightarrow> cpu_mask) \<Rightarrow> affinity_record list \<Rightarrow> (u32 \<Rightarrow> cpu_mask) \<Rightarrow> u32 \<Rightarrow> cpu_mask" where
  "masks_of f rs m = fold (\<lambda>r m. m(ar_tid r := f r)) rs m"

lemma masks_of_other: "tid \<notin> ar_tid ` set rs \<Longrightarrow> masks_of f rs m tid = m tid"
  by (induction rs arbitrary: m) (auto simp: masks_of_def)

lemma masks_of_here: "distinct (map ar_tid rs) \<Longrightarrow> r \<in> set rs \<Longrightarrow> masks_of f rs m (ar_tid r) = f r"
proof (induction rs arbitrary: m)
  case (Cons a rs)
  then show ?case
    using masks_of_other [of "ar_tid a" rs f "m(ar_tid a := f a)"] by (auto simp: masks_of_def)
qed simp

lemma commit_runs:
  assumes kernel: "mask_kernel env aff"
  shows "distinct (map ar_tid rs) \<Longrightarrow> list_all (\<lambda>r. mask_wf (ar_applied_mask r) \<and> validate_record env r w = Inr True) rs \<Longrightarrow>
    \<exists>w'. commit_changes env rs started ds w = (Inr (ds @ rs), w') \<and> aff w' = masks_of ar_applied_mask rs (aff w)
      \<and> same_procfs env w w'"
proof (induction rs arbitrary: started ds w)
  case (Cons r rs)
  have wf: "mask_wf (ar_applied_mask r)" using Cons.prems(2) by simp
  obtain w1 where w1: "set_affinity (pv_host env) (ar_tid r) (ar_applied_mask r) w = (Inr (), w1)"
    "aff w1 = (aff w)(ar_tid r := ar_applied_mask r)" "same_procfs env w w1"
    by (rule kernel_set [OF kernel wf])
  have "validate_record env r' w1 = validate_record env r' w" if "r' \<in> set rs" for r'
  proof (rule validate_record_stable [OF kernel w1(3)])
    have "ar_tid r' \<noteq> ar_tid r" using Cons.prems(1) that by (metis distinct.simps(2) image_eqI list.set_map list.simps(9))
    then show "aff w1 (ar_tid r') = aff w (ar_tid r')" by (simp add: w1(2))
  qed
  then have "list_all (\<lambda>r. mask_wf (ar_applied_mask r) \<and> validate_record env r w1 = Inr True) rs"
    using Cons.prems(2) unfolding list_all_iff by simp
  then obtain w' where "commit_changes env rs True (ds @ [r]) w1 = (Inr ((ds @ [r]) @ rs), w')"
    "aff w' = masks_of ar_applied_mask rs (aff w1)" "same_procfs env w1 w'"
    using Cons.IH [of w1 True "ds @ [r]"] Cons.prems(1) by auto
  then show ?case
    using w1 Cons.prems(2) same_procfs_trans [OF w1(3)] by (auto simp: masks_of_def)
qed (simp add: masks_of_def same_procfs_def)

lemma restore_runs:
  assumes kernel: "mask_kernel env aff"
  shows "list_all (\<lambda>r. mask_wf (ar_original_mask r) \<and> affinity_record_status (pv_host env) r w = Inr RR_Verified) rs \<Longrightarrow>
    \<exists>s' w'. restore_each (restore_affinity_record (pv_host env)) rs (s, errs) w = ((s', errs), w')
      \<and> pm_affinity s' = pm_affinity s + length rs \<and> aff w' = masks_of ar_original_mask rs (aff w)"
proof (induction rs arbitrary: s w)
  case (Cons r rs)
  have wf: "mask_wf (ar_original_mask r)" using Cons.prems by simp
  obtain w1 where w1: "set_affinity (pv_host env) (ar_tid r) (ar_original_mask r) w = (Inr (), w1)"
    "aff w1 = (aff w)(ar_tid r := ar_original_mask r)" "same_procfs env w w1"
    by (rule kernel_set [OF kernel wf])
  have "list_all (\<lambda>r. mask_wf (ar_original_mask r) \<and> affinity_record_status (pv_host env) r w1 = Inr RR_Verified) rs"
    using Cons.prems unfolding list_all_iff record_status_stable [OF w1(3)] by simp
  moreover have "restore_affinity_record (pv_host env) r (s, errs) w = ((s\<lparr>pm_affinity := pm_affinity s + 1\<rparr>, errs), w1)"
    using w1(1) Cons.prems by (simp add: restore_affinity_record_def acc_write_def)
  ultimately show ?case
    using Cons.IH [of w1 "s\<lparr>pm_affinity := pm_affinity s + 1\<rparr>"] by (simp add: masks_of_def w1(2) [symmetric])
qed (simp add: masks_of_def)

text \<open>
  C12. What a commit sets, the restore file sets back. On a kernel that keeps the masks it is given, committing a prepared plan
  whose records are valid gives every thread of the plan its new mask, and restoring the records of the plan afterwards succeeds
  for every one of them and leaves every thread of the system with the mask it had before the commit.
\<close>
theorem commit_then_restore:
  assumes "mask_kernel env aff" "distinct (map ar_tid (pp_affinity_changes (pf_plan prepared)))"
    and "list_all (\<lambda>r. mask_wf (ar_original_mask r) \<and> mask_wf (ar_applied_mask r) \<and> validate_record env r w = Inr True
       \<and> affinity_record_status (pv_host env) r w = Inr RR_Verified) (pp_affinity_changes (pf_plan prepared))"
  shows "case prepared_commit env prepared w of
     (Inl _, _) \<Rightarrow> False
   | (Inr _, w1) \<Rightarrow>
       list_all (\<lambda>r. aff w1 (ar_tid r) = ar_applied_mask r) (pp_affinity_changes (pf_plan prepared))
       \<and> (case profile_restore_all (pv_host env) \<lparr>pr_schema_version = PROFILE_RESTORE_SCHEMA_VERSION,
              pr_affinity_records = pp_affinity_changes (pf_plan prepared), pr_nice_records = [], pr_ionice_records = []\<rparr> w1 of
            ((s, errs), w2) \<Rightarrow> errs = [] \<and> pm_affinity s = length (pp_affinity_changes (pf_plan prepared)) \<and> aff w2 = aff w)"
proof -
  let ?rs = "pp_affinity_changes (pf_plan prepared)"
  have valid: "validate_plan env (pf_plan prepared) w = Inr ()"
  proof -
    have "list_all (\<lambda>r. validate_record env r w = Inr True) rs \<Longrightarrow> first_error (\<lambda>r. validate_record env r w) rs = Inr ()" for rs
      by (induction rs) auto
    then show ?thesis using assms(3) by (simp add: validate_plan_def list_all_iff)
  qed
  obtain w1 where w1: "commit_changes env ?rs False [] w = (Inr ([] @ ?rs), w1)"
    "aff w1 = masks_of ar_applied_mask ?rs (aff w)" "same_procfs env w w1"
    using commit_runs [OF assms(1,2), of w False "[]"] assms(3) by (auto simp: list_all_iff)
  have "list_all (\<lambda>r. mask_wf (ar_original_mask r) \<and> affinity_record_status (pv_host env) r w1 = Inr RR_Verified) ?rs"
    using assms(3) record_status_stable [OF w1(3)] by (simp add: list_all_iff)
  then obtain s w2 where w2: "restore_each (restore_affinity_record (pv_host env)) ?rs (profile_summary_zero, []) w1 = ((s, []), w2)"
    "pm_affinity s = length ?rs" "aff w2 = masks_of ar_original_mask ?rs (aff w1)"
    using restore_runs [OF assms(1), of w1 ?rs profile_summary_zero "[]"] by (auto simp: profile_summary_zero_def)
  have "aff w2 tid = aff w tid" for tid
  proof (cases "tid \<in> ar_tid ` set ?rs")
    case True
    then obtain r where r: "r \<in> set ?rs" "tid = ar_tid r" by blast
    then have "aff w tid = ar_original_mask r" using validated_original [OF assms(1)] assms(3) by (simp add: list_all_iff)
    then show ?thesis using w2(3) masks_of_here [OF assms(2) r(1)] r(2) by simp
  qed (simp add: w2(3) w1(2) masks_of_other)
  then show ?thesis
    using valid w1(1,2) w2(1,2) masks_of_here [OF assms(2)]
    by (simp add: prepared_commit_def profile_restore_all_def list_all_iff fun_eq_iff)
qed

section \<open>A profile touches only its tree\<close>

lemma collected_member:
  "x \<in> set (collected rd p asked tasks) \<Longrightarrow> \<exists>task \<in> set tasks. \<exists>rule. matching_profile_rule task p = Some rule \<and> asked task rule = Some x"
proof -
  assume "x \<in> set (collected rd p asked tasks)"
  then obtain task where "task \<in> set tasks" "of_rule rd p asked task = Some x"
    by (auto simp: collected_def map_filter_def)
  then show ?thesis by (auto simp: of_rule_def split: option.splits if_splits)
qed

lemma tree_task:
  assumes "(tid, t) \<in> set (tree_snapshot fs expired tree_pid)"
  shows "\<exists>info. (tree_pid, t_process_pid t) \<in> (parent_edges (scanned fs ((default_snapshot_input expired)\<lparr>ti_tree_pids := [tree_pid]\<rparr>)))\<^sup>*
    \<and> map_of (scanned fs ((default_snapshot_input expired)\<lparr>ti_tree_pids := [tree_pid]\<rparr>)) (t_process_pid t) = Some info
    \<and> t_process_starttime_ticks t = pi_starttime_ticks info"
    and "own_thread fs ''/proc'' (t_process_pid t) tid" "t_tid t = tid"
proof -
  let ?inp = "(default_snapshot_input expired)\<lparr>ti_tree_pids := [tree_pid]\<rparr>"
  have inp: "ti_manual_pids ?inp = []" "ti_cgroup_path ?inp = None" "ti_tree_pids ?inp = [tree_pid]"
    "ti_proc_root ?inp = ''/proc''"
    by (simp_all add: default_snapshot_input_def)
  note t = assms [unfolded tree_snapshot_def]
  show "\<exists>info. (tree_pid, t_process_pid t) \<in> (parent_edges (scanned fs ?inp))\<^sup>*
      \<and> map_of (scanned fs ?inp) (t_process_pid t) = Some info \<and> t_process_starttime_ticks t = pi_starttime_ticks info"
    using tree_snapshot_confined [OF inp(1,2) t] inp(3) by auto
  show "own_thread fs ''/proc'' (t_process_pid t) tid"
    using tree_snapshot_threads [OF inp(1,2) t] inp(4) by simp
  show "t_tid t = tid"
    using snapshot_own_tid [OF t] .
qed

text \<open>
  C15. A profile is confined to the process tree it is applied to, whatever the cache holds. Every affinity change that is planned
  for a tree is the change of a task of the snapshot: the thread it writes to is the process it names or an entry of that
  process's \<open>task\<close> directory, the parent links of the scan reach the process from the root of the tree, and the start time is
  the one that the scan read for it. The change asks for the mask of the first rule that fits this task, remembers the mask
  that was read for the thread, and the two differ.
\<close>
theorem profile_changes_stay_in_the_tree:
  assumes "planned_profile_apply (pv_host env) (env_tree env tree_pid w) p cache w = Inr (plan, cache')"
    and "r \<in> set (pp_affinity_changes plan)"
  shows "\<exists>info task i.
     (ar_tid r, task) \<in> set (env_tree env tree_pid w)
     \<and> own_thread (pv_fs env w) ''/proc'' (t_process_pid task) (ar_tid r)
     \<and> (tree_pid, t_process_pid task) \<in> (parent_edges (scanned (pv_fs env w)
        ((default_snapshot_input (pv_expired env))\<lparr>ti_tree_pids := [tree_pid]\<rparr>)))\<^sup>*
     \<and> map_of (scanned (pv_fs env w) ((default_snapshot_input (pv_expired env))\<lparr>ti_tree_pids := [tree_pid]\<rparr>))
         (t_process_pid task) = Some info
     \<and> ar_process_pid r = Some (t_process_pid task) \<and> ar_process_starttime_ticks r = pi_starttime_ticks info
     \<and> ar_task_starttime_ticks r = t_task_starttime_ticks task
     \<and> i < length (pl_rules p) \<and> rule_applies task (pl_rules p ! i)
     \<and> list_all (\<lambda>rule. \<not> rule_applies task rule) (take i (pl_rules p))
     \<and> ru_affinity (pl_rules p ! i) = Some (ar_applied_mask r)
     \<and> read_allowed_mask (pv_host env) (ar_tid r) w = Inr (ar_original_mask r) \<and> ar_original_mask r \<noteq> ar_applied_mask r"
proof -
  let ?rd = "host_readers (pv_host env) w"
  obtain st where "plan_collects ?rd p cache (map snd (env_tree env tree_pid w)) st"
    "plan = (ps_plan st)\<lparr>pp_summary := (pp_summary (ps_plan st))\<lparr>pa_pending_changes := card (ps_pending st)\<rparr>\<rparr>"
    using assms(1) unfolding planned_profile_apply_def by (rule planned_collects)
  then have "r \<in> set (collected ?rd p (affinity_asked ?rd)
      (filter (\<lambda>task. \<not> known p cache task) (map snd (env_tree env tree_pid w))))"
    using assms(2) by (simp add: plan_collects_def Let_def)
  then obtain tid task rule where t: "(tid, task) \<in> set (env_tree env tree_pid w)" "matching_profile_rule task p = Some rule"
    "affinity_asked ?rd task rule = Some r"
    using collected_member by fastforce
  have r: "t_tid task = ar_tid r" "ru_affinity rule = Some (ar_applied_mask r)" "ar_process_pid r = Some (t_process_pid task)"
    "ar_process_starttime_ticks r = t_process_starttime_ticks task" "ar_original_mask r \<noteq> ar_applied_mask r"
    "ar_task_starttime_ticks r = t_task_starttime_ticks task"
    "read_allowed_mask (pv_host env) (ar_tid r) w = Inr (ar_original_mask r)"
    using t(3) by (auto simp: affinity_asked_def host_readers_def split: option.splits sum.splits if_splits)
  note tree = tree_task [OF t(1) [unfolded env_tree_def]]
  obtain i where "i < length (pl_rules p)" "pl_rules p ! i = rule" "rule_applies task rule"
    "list_all (\<lambda>r. \<not> rule_applies task r) (take i (pl_rules p))"
    using t(2) by (auto simp: matching_profile_rule_def matching_rule_some)
  then show ?thesis
    using tree(1) tree(2) tree(3) t(1) r by auto
qed

section \<open>A thread that exits\<close>

text \<open>
  A thread that exits while its nice value is read stops the whole profile. The file of a thread that is gone cannot be
  opened, and the system reports that no such file exists (\<open>ENOENT\<close>, 2), while the planner takes only \<open>ESRCH\<close> for a vanished
  task: the decision is an error, not the documented skip.
\<close>
theorem vanished_thread_fails_the_profile:
  assumes "th_read (sh_task (ah_sched host)) (proc_file (t_tid task) ''stat'') w = Inl e" "io_raw_os_error e = Some 2"
    and "t_tid task \<noteq> 0" "ru_affinity rule = None" "ru_nice rule = Some n"
  shows "decide_profile_task_actions (host_readers host w) task rule =
     Inl (Anyhow [''failed to read nice for profile target TID '' @ show_nat (unat (t_tid task)),
        ''target task does not exist or stat is unreadable: '' @ proc_file (t_tid task) ''stat''] (RootIo e))"
  using assms
  by (simp add: decide_profile_task_actions_def decide_nice_def host_readers_def read_task_nice_def transpose_opt_def
      anyhow_raw_os_error_def ESRCH_def any_context_def vd_has_def)

section \<open>A small machine\<close>

text \<open>Process 7 with one thread, started at tick 71, on CPUs 0 and 1, in a kernel that keeps the set of CPUs of every thread.\<close>

definition game_fs :: proc_fs where
  "game_fs =
     \<lparr>pf_read_dir = dir_table [(''/proc'', [''7'']), (''/proc/7/task'', [''7''])],
      pf_read = file_table
        [(''/proc/7/status'', lines_text [''Name: game'', ''PPid: 1'']), (''/proc/7/stat'', sample_stat),
         (''/proc/7/task/7/stat'', sample_stat)],
      pf_read_link = (\<lambda>_. Inl no_entry), pf_ctime = (\<lambda>_. Some (0, 0)), pf_dev_ino = (\<lambda>_. None), pf_is_dir = (\<lambda>_. False)\<rparr>"

definition game_host :: "(u32 \<Rightarrow> u32 set) affinity_host" where
  "game_host =
     \<lparr>ah_sched = \<lparr>sh_task = \<lparr>th_read = (\<lambda>path _. pf_read game_fs path), th_readlink = (\<lambda>_ _. None), th_exists = (\<lambda>_ _. True),
                              th_setpriority = (\<lambda>_ _ w. (Inr (), w))\<rparr>,
                  sh_ioprio_get = (\<lambda>_ _. Inr 0), sh_ioprio_set = (\<lambda>_ _ w. (Inr (), w)),
                  sh_sched_getattr = (\<lambda>_ _. Inr (0, 0)), sh_sched_setattr = (\<lambda>_ _ _ w. (Inr (), w))\<rparr>,
      ah_getaffinity = (\<lambda>tid w. Inr (w tid)), ah_setaffinity = (\<lambda>tid cpus w. (Inr (), w(tid := cpus)))\<rparr>"

definition game_env :: "(u32 \<Rightarrow> u32 set) profile_env" where
  "game_env =
     \<lparr>pv_host = game_host, pv_files = sample_files,
      pv_runner = \<lparr>re_instant = (\<lambda>w. (0, w)), re_unix_nanos = (\<lambda>w. (0, w)), re_append_audit = (\<lambda>_ w. w)\<rparr>,
      pv_fs = (\<lambda>_. game_fs), pv_expired = (\<lambda>_. False), pv_default_restore_path = ''/run/restore.json''\<rparr>"

definition game_world :: "u32 \<Rightarrow> u32 set" where
  "game_world = (\<lambda>_. mask_to_cpu_set \<lparr>cm_words = [3]\<rparr>)"

definition one_rule :: "cpu_mask option \<Rightarrow> int option \<Rightarrow> profile" where
  "one_rule affinity nice =
     \<lparr>pl_name = ''p'', pl_rules = [\<lparr>ru_affinity = affinity, ru_nice = nice, ru_ionice = None, ru_match_class = [],
        ru_match_comm = []\<rparr>]\<rparr>"

definition game_record :: affinity_record where
  "game_record =
     \<lparr>ar_tid = 7, ar_process_pid = Some 7, ar_process_starttime_ticks = Some 71, ar_task_starttime_ticks = Some 71,
      ar_original_mask = \<lparr>cm_words = [3]\<rparr>, ar_applied_mask = \<lparr>cm_words = [1]\<rparr>\<rparr>"

lemma game_kernel: "mask_kernel game_env (\<lambda>w tid. mask_from_cpu_set (w tid))"
  by (auto simp: mask_kernel_def game_env_def game_host_def read_allowed_mask_def set_affinity_def mask_from_to_set)

lemma game_mask [simp]: "read_allowed_mask game_host tid game_world = Inr \<lparr>cm_words = [3]\<rparr>"
  using mask_from_to_set [of "\<lparr>cm_words = [3]\<rparr>"] by (simp add: read_allowed_mask_def game_host_def game_world_def mask_wf_def)

definition game_readers :: task_readers where
  "game_readers = \<lparr>rd_mask = (\<lambda>_. Inr \<lparr>cm_words = [3]\<rparr>),
     rd_nice = (\<lambda>tid. read_task_nice (sh_task (ah_sched game_host)) tid (\<lambda>_. {})), rd_ioprio = (\<lambda>_. Inr 0)\<rparr>"

lemma game_planned:
  "planned_profile_apply (pv_host game_env) (env_tree game_env 7 game_world) p cache game_world =
     planned_profile_apply_with_readers game_readers (tree_snapshot game_fs (\<lambda>_. False) 7) p cache"
proof -
  have read: "th_read (sh_task (ah_sched game_host)) = (\<lambda>path _. pf_read game_fs path)" by (simp add: game_host_def)
  have "read_task_nice (sh_task (ah_sched game_host)) tid w = read_task_nice (sh_task (ah_sched game_host)) tid w'" for tid w w'
    unfolding read_task_nice_def read by (rule refl)
  then have "host_readers game_host game_world = game_readers"
    by (auto simp: host_readers_def game_readers_def) (simp add: game_host_def read_task_ioprio_def)
  then show ?thesis by (simp add: planned_profile_apply_def env_tree_def game_env_def)
qed

lemma game_plans:
  "let tasks = tree_snapshot game_fs (\<lambda>_. False) 7
   in (case planned_profile_apply_with_readers game_readers tasks (one_rule None (Some 5)) None of
         Inl _ \<Rightarrow> False | Inr (plan, cache) \<Rightarrow> cache = None \<and> map fst (pp_nice_groups plan) = [5])
      \<and> (case planned_profile_apply_with_readers game_readers tasks (one_rule (Some \<lparr>cm_words = [1]\<rparr>) None) None of
            Inl _ \<Rightarrow> False | Inr (plan, cache) \<Rightarrow> pp_affinity_changes plan = [game_record])"
  by code_simp

lemma game_affinity_planned:
  obtains plan cache where "planned_profile_apply (pv_host game_env) (env_tree game_env 7 game_world)
      (one_rule (Some \<lparr>cm_words = [1]\<rparr>) None) None game_world = Inr (plan, cache)" "pp_affinity_changes plan = [game_record]"
  using game_plans unfolding game_planned by (auto simp: Let_def split: sum.splits)

theorem priority_changes_always_fail_witness:
  "\<exists>e w'. apply_managed_profile_to_tree_with_cache game_env (sample_json verified_state) 7 (one_rule None (Some 5)) True False None None
     game_world = ((Inl e, None), w')"
proof -
  obtain plan where "planned_profile_apply (pv_host game_env) (env_tree game_env 7 game_world) (one_rule None (Some 5)) None game_world
      = Inr (plan, None)" "pp_nice_groups plan \<noteq> []"
    using game_plans unfolding game_planned by (auto simp: Let_def split: sum.splits)
  then show ?thesis by (intro priority_changes_always_fail) auto
qed

theorem profile_changes_stay_in_the_tree_witness:
  "\<exists>task. (7, task) \<in> set (env_tree game_env 7 game_world)
     \<and> own_thread game_fs ''/proc'' (t_process_pid task) 7
     \<and> (7, t_process_pid task) \<in> (parent_edges (scanned game_fs ((default_snapshot_input (\<lambda>_. False))\<lparr>ti_tree_pids := [7]\<rparr>)))\<^sup>*
     \<and> ar_process_pid game_record = Some (t_process_pid task)
     \<and> rule_applies task (hd (pl_rules (one_rule (Some \<lparr>cm_words = [1]\<rparr>) None)))"
proof -
  obtain plan cache where plan: "planned_profile_apply (pv_host game_env) (env_tree game_env 7 game_world)
      (one_rule (Some \<lparr>cm_words = [1]\<rparr>) None) None game_world = Inr (plan, cache)" "pp_affinity_changes plan = [game_record]"
    by (rule game_affinity_planned)
  have fields: "ar_tid game_record = 7" "pv_fs game_env game_world = game_fs" "pv_expired game_env = (\<lambda>_. False)"
    by (simp_all add: game_record_def game_env_def)
  from plan have "game_record \<in> set (pp_affinity_changes plan)" by simp
  from profile_changes_stay_in_the_tree [OF plan(1) this, unfolded fields] obtain task i where
    t: "(7, task) \<in> set (env_tree game_env 7 game_world)" "own_thread game_fs ''/proc'' (t_process_pid task) 7"
      "(7, t_process_pid task) \<in> (parent_edges (scanned game_fs ((default_snapshot_input (\<lambda>_. False))\<lparr>ti_tree_pids := [7]\<rparr>)))\<^sup>*"
      "ar_process_pid game_record = Some (t_process_pid task)"
    and rule: "i < length (pl_rules (one_rule (Some \<lparr>cm_words = [1]\<rparr>) None))"
      "rule_applies task (pl_rules (one_rule (Some \<lparr>cm_words = [1]\<rparr>) None) ! i)"
    by blast
  from rule have "rule_applies task (hd (pl_rules (one_rule (Some \<lparr>cm_words = [1]\<rparr>) None)))"
    by (simp add: one_rule_def)
  with t show ?thesis by blast
qed

theorem vanished_thread_fails_the_profile_witness:
  "\<exists>e. decide_profile_task_actions (host_readers game_host game_world) (sample_task 8 (Some 6)) (hd (pl_rules (one_rule None (Some 5))))
     = Inl e"
proof -
  have "th_read (sh_task (ah_sched game_host)) (proc_file (t_tid (sample_task 8 (Some 6))) ''stat'') w = Inl no_entry" for w
  proof -
    have "proc_file 8 ''stat'' = ''/proc/8/stat''" by (simp add: proc_file_def show_nat.simps digit_char_def)
    then show ?thesis by (simp add: game_host_def game_fs_def file_table_def sample_task_def)
  qed
  moreover have "io_raw_os_error no_entry = Some 2" by (simp add: no_entry_def)
  ultimately show ?thesis
    using vanished_thread_fails_the_profile [of game_host "sample_task 8 (Some 6)" game_world no_entry "hd (pl_rules (one_rule None (Some 5)))" 5]
    by (simp add: sample_task_def one_rule_def)
qed

definition game_prepared :: prepared_affinity_profile where
  "game_prepared = \<lparr>pf_plan = empty_plan\<lparr>pp_affinity_changes := [game_record]\<rparr>, pf_restore_path = ''/run/restore.json''\<rparr>"

lemma game_starttimes:
  "process_starttime_at game_fs ''/proc'' 7 = Some 71" "parse_proc_stat_starttime sample_stat = Some 71"
  "pf_read game_fs (proc_file 7 ''stat'') = Inr sample_stat" "pf_read game_fs (task_stat_path 7 7) = Inr sample_stat"
  by code_simp+

lemma game_valid: "validate_record game_env game_record game_world = Inr True"
  using game_mask [of 7]
  by (simp add: validate_record_def game_record_def positive_ticks_def game_env_def game_starttimes word_less_nat_alt)

lemma game_verified: "affinity_record_status game_host game_record game_world = Inr RR_Verified"
  by (simp add: restore_identity_status_def game_record_def stat_starttime_at_def game_host_def game_starttimes)

theorem commit_then_restore_witness:
  "case prepared_commit game_env game_prepared game_world of
     (Inl _, _) \<Rightarrow> False
   | (Inr _, w1) \<Rightarrow> mask_from_cpu_set (w1 7) = \<lparr>cm_words = [1]\<rparr>"
proof -
  have "case prepared_commit game_env game_prepared game_world of
     (Inl _, _) \<Rightarrow> False
   | (Inr _, w1) \<Rightarrow>
       list_all (\<lambda>r. mask_from_cpu_set (w1 (ar_tid r)) = ar_applied_mask r) (pp_affinity_changes (pf_plan game_prepared))
       \<and> (case profile_restore_all (pv_host game_env) \<lparr>pr_schema_version = PROFILE_RESTORE_SCHEMA_VERSION,
              pr_affinity_records = pp_affinity_changes (pf_plan game_prepared), pr_nice_records = [], pr_ionice_records = []\<rparr> w1 of
            ((s, errs), w2) \<Rightarrow> errs = [] \<and> pm_affinity s = length (pp_affinity_changes (pf_plan game_prepared))
              \<and> (\<lambda>tid. mask_from_cpu_set (w2 tid)) = (\<lambda>tid. mask_from_cpu_set (game_world tid)))"
    by (rule commit_then_restore [OF game_kernel])
      (use game_valid game_verified in \<open>simp_all add: game_prepared_def game_env_def mask_wf_def game_record_def\<close>)
  then show ?thesis
    by (auto simp: game_prepared_def game_record_def split: sum.splits prod.splits)
qed

definition game_action :: cpu_affinity_profile_action where
  "game_action = \<lparr>ca_restore_path = None, ca_tree_pid = 7, ca_profile = one_rule (Some \<lparr>cm_words = [1]\<rparr>) None,
     ca_force_restore_overwrite = True\<rparr>"

definition rejecting_journal :: "rollback_token \<Rightarrow> 'w \<Rightarrow> (anyhow + unit) \<times> 'w" where
  "rejecting_journal token w = (Inl (anyhow_msg ''journal write failed''), w)"

lemma save_sample: "save_merged_restore_state sample_files json ''/run/restore.json'' ra rn ri True w = (Inr (), w)"
proof -
  have "path_file_name ''/run/restore.json'' = Some ''restore.json''" "path_parent ''/run/restore.json'' = Some ''/run''"
    by code_simp+
  then show ?thesis
    by (simp add: save_merged_restore_state_def save_restore_state_def write_and_rename_def io_then_def sample_files_def Let_def)
qed

lemma game_prepare:
  "\<exists>prepared. prepare_affinity_profile game_env json 7 (one_rule (Some \<lparr>cm_words = [1]\<rparr>) None) ''/run/restore.json'' True game_world
     = (Inr prepared, game_world)"
proof -
  obtain plan cache where plan: "planned_profile_apply (pv_host game_env) (env_tree game_env 7 game_world)
      (one_rule (Some \<lparr>cm_words = [1]\<rparr>) None) None game_world = Inr (plan, cache)" "pp_affinity_changes plan = [game_record]"
    by (rule game_affinity_planned)
  moreover have "\<not> profile_uses_priority_actions (one_rule (Some \<lparr>cm_words = [1]\<rparr>) None)"
    by (simp add: profile_uses_priority_actions_def one_rule_def)
  moreover have "pv_files game_env = sample_files" by (simp add: game_env_def)
  ultimately show ?thesis
    using game_valid by (simp add: prepare_affinity_profile_def plan_is_empty_def validate_plan_def save_sample)
qed

theorem failure_without_token_sets_no_mask_witness:
  "\<exists>e. profile_apply_prepared game_env (sample_json verified_state) game_action rejecting_journal game_world = (Inl e, game_world)"
proof -
  have a: "ca_tree_pid game_action = 7" "ca_profile game_action = one_rule (Some \<lparr>cm_words = [1]\<rparr>) None"
    "ca_force_restore_overwrite game_action" "action_restore_path game_env game_action = ''/run/restore.json''"
    by (simp_all add: game_action_def action_restore_path_def game_env_def)
  have low: "\<not> profile_uses_priority_actions (ca_profile game_action)"
    by (simp add: a profile_uses_priority_actions_def one_rule_def)
  have "profile_preflight game_env game_action game_world = Inr []"
    by (simp add: profile_preflight_def a) (simp add: one_rule_def)
  then obtain e w' where run: "profile_apply_prepared game_env (sample_json verified_state) game_action rejecting_journal game_world
      = (Inl e, w')" "pa_rollback e = None"
    using game_prepare [of "sample_json verified_state"] low
    by (auto simp: profile_apply_prepared_def a rejecting_journal_def Let_def)
  have "w' = game_world"
    using failure_without_token_sets_no_mask [where obs = "\<lambda>w. w", OF low _ _ run]
    by (simp add: files_keep_def game_env_def sample_files_def rejecting_journal_def)
  then show ?thesis using run(1) by blast
qed

end
