(* ===== verification/Spec2Isabelle.thy ===== *)
theory Spec2Isabelle
  imports Procfs_Kernel Ebpf_Properties Cpu_Mask Agent_Machine Daemon_State_Facts
    Recovery_Handlers Emergency_Restore_Facts Task_Facts Sysfs_Limits
    Profile_Toml Profile_Apply_Facts
begin

text \<open>
  A verification library for stutter, a Linux latency recorder and tuner.

  \<^bold>\<open>The program.\<close> eBPF programs (\<open>stutter-ebpf\<close>) observe wakeups and context switches of monitored tasks; the
  recorder (\<open>stutter\<close>) turns them into sessions; the autotune controller and the daemon propose
  \<^emph>\<open>actions\<close> (nice levels, affinity, power knobs); a policy decides whether an action may be suggested, dry-run
  or applied; an audited runner executes it in phases and undoes it when anything goes wrong.

  \<^bold>\<open>Theories and sources.\<close>
  \<^item> \<open>Stutter_Prelude\<close>: machine integers, \<open>Result\<close>, the Rust string functions the code calls, decimal printing and
    parsing, 32-bit floats as the code uses them.
  \<^item> \<open>Daemon_Types\<close>, \<open>Daemon_Config\<close>, \<open>Workload_Policy\<close>, \<open>Daemon_Policy\<close>: \<open>daemon/policy/\<close>, \<open>daemon/config/\<close>,
    \<open>daemon/explain.rs\<close>, \<open>autotune/workload_policy/\<close> and \<open>autotune/situation.rs\<close>. A configuration is the record
    \<open>daemon_config\<close>; \<open>build_daemon_policy\<close> turns it into a \<open>daemon_policy\<close>; \<open>explain_action\<close> records one entry per
    rule and the first rejection; \<open>check_action\<close> is the verdict.
  \<^item> \<open>System_Health\<close>: \<open>daemon/health.rs\<close>; the file system, \<open>statvfs\<close> and the clock are the parameter \<open>host_fs\<close>.
  \<^item> \<open>Action_Model\<close>, \<open>Action_Runner\<close>: \<open>actions/model.rs\<close>, \<open>token.rs\<close>, \<open>error/model.rs\<close>, \<open>transaction.rs\<close>,
    \<open>traits.rs\<close> and \<open>runner/\<close>. An action is a record of functions on a world \<open>'w\<close> (the trait \<open>TuningAction\<close>);
    hooks, clocks and the audit sink are parameters too.
  \<^item> \<open>Nice_Action\<close>: \<open>actions/nice/\<close>, \<open>restore_identity.rs\<close>, \<open>restore_write.rs\<close>; procfs and \<open>setpriority\<close> are the
    parameter \<open>task_host\<close>.
  \<^item> \<open>Ebpf_Maps\<close>, \<open>Ebpf_Scheduler\<close>, \<open>Ebpf_Io\<close>: the programs of \<open>stutter-ebpf\<close> as functions on the kernel maps and the
    ring buffer; the record layouts, helper results and tracepoint contexts are parameters.
  \<^item> \<open>Cpu_Mask\<close>: \<open>affinity/cpu_mask.rs\<close>.
  \<^item> \<open>Daemon_State\<close>: \<open>daemon/state.rs\<close>, \<open>state_builders.rs\<close>, \<open>watchdog.rs\<close>, \<open>lifecycle.rs\<close> and the status part of
    \<open>explain.rs\<close>.
  \<^item> \<open>Agent_Access\<close>, \<open>Agent_Handlers\<close>, \<open>Agent_Recording\<close>: \<open>agent/\<close> and \<open>daemon/privilege/\<close>: rate limiting, tokens,
    the privilege allowlist, admission of remote sessions, and every route that changes the agent state as
    a function on the record \<open>agent_world\<close>. The controller and monitor tasks a route spawns, and the journal
    restore it calls, are represented by their results, which are arguments.
  \<^item> \<open>Task_Actions\<close>, \<open>Uclamp_Action\<close>: \<open>actions/ioprio/\<close>, \<open>actions/uclamp/\<close> and the rollback handlers of the three
    per-task actions; the system calls of \<open>actions/syscalls.rs\<close> are the parameter \<open>sched_host\<close>.
  \<^item> \<open>Sysfs_Actions\<close>, \<open>Power_Actions\<close>, \<open>Irq_Action\<close>, \<open>Action_Factory\<close>: the actions that write attribute files
    (\<open>actions/vm_knobs.rs\<close>, \<open>gpu_power.rs\<close>, \<open>cpu_power.rs\<close>, \<open>cpu_power/prepared.rs\<close>, \<open>irq_affinity/\<close>) and the policies
    that \<open>actions/factory.rs\<close> runs them under; the file system is the parameter \<open>file_host\<close>.
  \<^item> \<open>Ordered_Map\<close>: \<open>BTreeMap\<close> as an association list sorted by key; \<open>Word_Eval\<close>: code equations that let concrete
    runs over words be evaluated.
  \<^item> \<open>Task_Class\<close>, \<open>Task_Classify\<close>: \<open>process/model.rs\<close>, \<open>process/explicit_target.rs\<close>, \<open>process/classify.rs\<close> and
    \<open>ascii_match.rs\<close>; a compiled regular expression is a predicate on strings. \<open>Community_Rules\<close>: \<open>community_rules/\<close>;
    the JSON parser, the rule files and the environment are parameters.
  \<^item> \<open>Process_Scan\<close>, \<open>Target_Snapshot\<close>: \<open>process/procfs.rs\<close>, \<open>process/cgroup.rs\<close> and \<open>process/snapshot.rs\<close>. The file
    system is the parameter \<open>proc_fs\<close>, the time budget a function that says after how many entries it has expired.
  \<^item> \<open>Affinity_Restore\<close>, \<open>Affinity_Files\<close>: \<open>affinity/syscall.rs\<close>, \<open>affinity/restore_record.rs\<close>,
    \<open>affinity/restore_file.rs\<close>, \<open>profile_restore/\<close>, and the rollback handler of \<open>actions/cpu_affinity.rs\<close> with
    \<open>identity.rs\<close>. The affinity system calls are the parameter \<open>affinity_host\<close>, files \<open>restore_files\<close>, JSON
    \<open>restore_json\<close>.
  \<^item> \<open>Profile_Model\<close>, \<open>Profile_Plan\<close>, \<open>Profile_Explain\<close>, \<open>Profile_Apply\<close>: \<open>profiles/\<close> and \<open>CpuAffinityProfileAction\<close> of
    \<open>actions/cpu_affinity.rs\<close>: matching, loading and printing; the decision per task, the plan and its summary; the
    explanation; the managed application, the prepared transaction and the tuning action. The environment is
    the record \<open>profile_env\<close>: the hosts above, the runner's environment and a view of procfs in every world.
  \<^item> \<open>Recovery_Model\<close>, \<open>Crash_Recovery\<close>: \<open>autotune/controller_journal/\<close>, \<open>autotune/kept_ledger.rs\<close>,
    \<open>actions/rollback/\<close>, \<open>autotune/startup_recovery.rs\<close> with its submodules and \<open>autotune/emergency_restore/\<close>.
    Computations are functions on a disk (journal, ledger, audit log, history, snapshot) and a world; each
    write may be lost or may happen although it reports an error, as the parameter \<open>fault\<close> says.

  \<^bold>\<open>What is proved.\<close>
  \<^item> \<open>Daemon_Policy_Facts\<close>: every rule of the evaluation is an instance of the locale \<open>policy_gate\<close> (it records its
    verdict and rejects exactly when its condition fails), so the whole evaluation refines the conjunction of
    the conditions that its rules test, which is less than \<open>docs/DAEMON_CONTRACT.md\<close> asks for; bounds on what any built policy, any preset and any remote controller can apply.
  \<^item> \<open>Action_Runner_Facts\<close>: the runner refines the inductive specification \<open>run_spec\<close> of call sequences; nothing is
    applied without permission, a failed run is undone exactly once, every run ends in an audit event; the
    locale \<open>reversible_action\<close> states when an action can be undone and proves that a failed run of such an
    action restores what it observed.
  \<^item> \<open>Nice_Action_Facts\<close>, \<open>Procfs_Kernel\<close>: under the laws of \<open>task_kernel\<close> (the documented behaviour of procfs and
    \<open>setpriority\<close>) the nice action is a \<open>reversible_action\<close>; a task table that prints its procfs files meets the
    laws.
  \<^item> \<open>System_Health\<close>: which readings block an apply, and that an overheated zone is always noticed; below, that
    such a zone keeps every remote apply session out.
  \<^item> \<open>Ebpf_Facts\<close>, \<open>Ebpf_Properties\<close>: invariants of the reachable map states (runnable depth, pending wakeups) under
    any sequence of program runs that do not overlap, what two overlapping updates of a depth counter do, and what
    one context switch reports.
  \<^item> \<open>Cpu_Mask\<close>: the word-array masks implement sets (locale \<open>cpu_set_impl\<close>); the printer's loops end and its text
    parses back.
  \<^item> \<open>Agent_Facts\<close>: the rate limit in every window, what an admitted remote apply session had to show, and two
    routes that weaken the gates. \<open>Agent_Machine\<close>: the routes as the step relation \<open>agent_step\<close>; all but one are
    interpretations of the locale \<open>session_keeper\<close>; in every reachable state running sessions are
    authorised, and their start was handed to the audit log, which may refuse it with no more than a warning; downloads stay inside the runs directory.
  \<^item> \<open>Daemon_State_Facts\<close>: forgetting profiles, and the collapse of a stale profile's confidence.
  \<^item> \<open>Task_Facts\<close>: the encoding of I/O priorities, the clamps the kernel can be asked for, and that the nice
    handler restores like the nice action.
  \<^item> \<open>Crash_Recovery_Facts\<close>: startup recovery forgets a durable token only when the executor answered \<open>Ok\<close> for it, under any
    write faults, and the gate opens only when it did so for every token; the steps that touch neither journal nor ledger are interpretations of the locale
    \<open>bookkeeping\<close>. \<open>Recovery_Handlers\<close>: what becomes of a token whose restore the kernel refused
    (an \<open>Ok\<close> that counts errors).
    \<open>Emergency_Restore_Facts\<close>: the emergency restore is \<open>ledger_blind\<close>; quoted values are one shell word.
  \<^item> \<open>Sysfs_Facts\<close>, \<open>Power_Facts\<close>: the three attribute actions are interpretations of the locale \<open>attribute_action\<close>;
    under the laws of \<open>plain_files\<close> and \<open>cpufreq_files\<close> (attributes read back what was written and take back what
    they have shown) an applied action can be undone. \<open>Sysfs_Machine\<close>: a machine that keeps the laws; VM knob
    writes stay within the allowed knobs, the prepared CPU power action strands no write. \<open>Sysfs_Limits\<close>: huge
    page attributes can never be set, a refused write strands the earlier ones, a preference the driver does
    not list is not restored.
  \<^item> \<open>Task_Classify\<close>, \<open>Community_Rules\<close>: the classifier ignores the case of letters and which classes it can answer; a
    community rule classifies only on evidence and with bounded confidence.
  \<^item> \<open>Target_Snapshot_Facts\<close>: the walk over child processes computes reachability by parent links; the tasks of a
    snapshot belong to scanned, not excluded processes; a snapshot of trees stays inside them. \<open>Target_Sample\<close> is a
    small procfs on which the witnesses run.
  \<^item> \<open>Affinity_Facts\<close>: the three merges are interpretations of one locale; merging keeps the first original mask;
    a restore accounts for every record and writes original values to confirmed tasks only, legacy records apart; automatic recovery refuses
    incomplete files.
  \<^item> \<open>Profile_Plan_Facts\<close>: the planning loop collects what each task asks for by itself, whatever the cache; the
    summary and the explanation agree with the plan. \<open>Profile_Facts\<close>: the first rule whose classes and patterns fit
    decides. \<open>Profile_Toml\<close>: printed profile files load back, for every TOML reader that follows the specification.
    \<open>Profile_Apply_Facts\<close>: a failure without a token has set no mask, a commit followed by a restore changes nothing,
    planned changes stay in the tree and follow the first rule that fits, and changes of priorities are always refused by the runner.

  \<^bold>\<open>Bounds.\<close> Loops are folds or structural recursion; the queue of \<open>descendants_of\<close> and the suffix loop of
  \<open>normalize_process_name\<close> have termination proofs; the nested loops of the mask printer are partial functions in
  the option monad that are proved to return. Only \<open>collect_cgroup_pids_at\<close> takes a depth, the depth of the cgroup
  directory it descends into; the theorems hold for every depth. Unsigned integers keep their
  width wherever the code wraps, saturates or shifts.

  \<^bold>\<open>Not modelled.\<close> The autotune controller and its statistics (\<open>f64\<close>), the cgroup action, the daemon's
  runtime loop and privileged worker, the recorder's files and reports, serde encodings, the command line, and the
  concurrency inside one agent request (requests are atomic steps).
\<close>

section \<open>Health and admission together\<close>

text \<open>
  C8. An overheating host accepts no remote apply session: if any thermal zone reads at or above both
  guardrails when the agent probes the host, then whatever the request, its token, the agent's limits and
  the daemon state, the policy granted to a remote autotune request cannot apply anything.
\<close>

theorem overheated_host_refuses_remote_apply:
  assumes "hf_dir fs (path_join (hp_sys_root base) ''class/thermal'') = Some zones" "z \<in> set zones"
    and "Option.bind (read_trimmed fs
           (path_join (path_join (path_join (hp_sys_root base) ''class/thermal'') z) ''temp'')) parse_i64 = Some temp"
    and "ht_max_cpu_temp_millidegrees t \<le> temp" "ht_max_gpu_temp_millidegrees t \<le> temp"
    and "probe now fs base t = Some health"
    and "policy_for_remote_autotune_start headers ag request s health caps now = Inr policy"
  shows "\<not> supports_apply (dp_mode policy)"
proof
  assume "supports_apply (dp_mode policy)"
  with assms(7) have "hs_ok_for_apply health"
    by (rule admitted_apply)
  with probe_detects_overheated_zone [OF assms(1-6)] show False
    by blast
qed

theorem overheated_host_refuses_remote_apply_witness:
  "\<exists>health. probe 1 witness_fs default_probe_root default_health_thresholds = Some health
     \<and> policy_for_remote_autotune_start (TextHeader ''Bearer key'') sample_agent low_risk_request default_daemon_state
         health sample_capabilities 1 \<noteq> Inr sample_granted"
proof -
  have d: "hf_dir witness_fs (path_join (hp_sys_root default_probe_root) ''class/thermal'') = Some [''zone0'']"
    by code_simp
  have r: "Option.bind (read_trimmed witness_fs
      (path_join (path_join (path_join (hp_sys_root default_probe_root) ''class/thermal'') ''zone0'') ''temp''))
      parse_i64 = Some 95000"
    by (simp add: witness_fs_def default_probe_root_def path_join_def starts_with_def read_trimmed_def
        trim_def trim_start_def is_whitespace_def parse_i64_def parse_signed_def parse_bits_def parse_nat_def
        digit_val_def)
  obtain health where h: "probe 1 witness_fs default_probe_root default_health_thresholds = Some health"
    using probe_detects_overheated_zone_witness by blast
  have "\<not> supports_apply (dp_mode sample_granted)"
    if "policy_for_remote_autotune_start (TextHeader ''Bearer key'') sample_agent low_risk_request default_daemon_state
      health sample_capabilities 1 = Inr sample_granted"
    by (rule overheated_host_refuses_remote_apply [OF d _ r _ _ h that]) (simp_all add: default_health_thresholds_def)
  then have "policy_for_remote_autotune_start (TextHeader ''Bearer key'') sample_agent low_risk_request
      default_daemon_state health sample_capabilities 1 \<noteq> Inr sample_granted"
    by (auto simp: sample_granted_def)
  with h show ?thesis
    by blast
qed

end
